(* ===== verification/Tna_Prelude.thy ===== *)
theory Tna_Prelude
  imports Complex_Main "HOL-Library.Char_ord" "HOL-Library.List_Lexorder" "HOL-Library.Sublist"
begin

text \<open>
  The vocabulary every component shares.
  \<^item> Results: an operation that throws in the source returns \<open>'e + 'a\<close>, with \<open>Inl\<close> for
    the error. \<open>rbind\<close> sequences two such operations and \<open>run_checks\<close> is a sequence of
    guarded \<open>throw\<close>s.
  \<^item> Strings: a JavaScript string is a \<open>string\<close>, read as its UTF-8 bytes (for the ASCII
    identifiers the code works with, one byte is one character). The string operations of the
    language the code uses (\<open>startsWith\<close>, \<open>endsWith\<close>, \<open>slice\<close>, \<open>split\<close>, \<open>join\<close>,
    \<open>trim\<close>, \<open>toLowerCase\<close>) are executable functions here.
  \<^item> Association lists, the model of an insertion-ordered \<open>Map\<close> and of a keyed SQL table.
\<close>

named_theorems js_defs \<open>definitions of the language's string operations\<close>

section \<open>Results\<close>

type_synonym ('e, 'a) res = "'e + 'a"

definition rbind :: "('e, 'a) res \<Rightarrow> ('a \<Rightarrow> ('e, 'b) res) \<Rightarrow> ('e, 'b) res" where
  "rbind m f = (case m of Inl e \<Rightarrow> Inl e | Inr x \<Rightarrow> f x)"

lemma rbind_simps [simp]:
  "rbind (Inl e) f = Inl e"
  "rbind (Inr x) f = f x"
  by (simp_all add: rbind_def)

lemma rbind_eq_Inr: "rbind m f = Inr y \<longleftrightarrow> (\<exists>x. m = Inr x \<and> f x = Inr y)"
  by (cases m) simp_all

lemma rbind_eq_Inl: "rbind m f = Inl e \<longleftrightarrow> m = Inl e \<or> (\<exists>x. m = Inr x \<and> f x = Inl e)"
  by (cases m) simp_all

definition is_ok :: "('e, 'a) res \<Rightarrow> bool" where
  "is_ok r = (case r of Inl _ \<Rightarrow> False | Inr _ \<Rightarrow> True)"

lemma is_ok_simps [simp]: "\<not> is_ok (Inl e)" "is_ok (Inr x)"
  by (simp_all add: is_ok_def)

lemma is_ok_iff: "is_ok r \<longleftrightarrow> (\<exists>x. r = Inr x)"
  by (cases r) simp_all

text \<open>A list of \<open>if (!condition) throw error\<close> statements, run in order.\<close>

fun run_checks :: "(bool \<times> 'e) list \<Rightarrow> ('e, unit) res" where
  "run_checks [] = Inr ()"
| "run_checks ((ok, e) # cs) = (if ok then run_checks cs else Inl e)"

lemma run_checks_ok [simp]: "run_checks cs = Inr u \<longleftrightarrow> (\<forall>c \<in> set cs. fst c)"
  by (induction cs rule: run_checks.induct) simp_all

lemma run_checks_fail: "run_checks cs = Inl e \<Longrightarrow> \<exists>c \<in> set cs. \<not> fst c \<and> snd c = e"
  by (induction cs rule: run_checks.induct) (auto split: if_splits)

lemma run_checks_first:
  "(\<forall>c \<in> set as. fst c) \<Longrightarrow> run_checks (as @ (False, e) # bs) = Inl e"
  by (induction as rule: run_checks.induct) simp_all

text \<open>Mapping a fallible function over a list stops at the first failure.\<close>

fun mapM :: "('a \<Rightarrow> ('e, 'b) res) \<Rightarrow> 'a list \<Rightarrow> ('e, 'b list) res" where
  "mapM f [] = Inr []"
| "mapM f (x # xs) = rbind (f x) (\<lambda>y. rbind (mapM f xs) (\<lambda>ys. Inr (y # ys)))"

lemma mapM_eq_Inr: "mapM f xs = Inr ys \<longleftrightarrow> list_all2 (\<lambda>x y. f x = Inr y) xs ys"
  by (induction xs arbitrary: ys) (auto simp: rbind_eq_Inr list_all2_Cons1)

section \<open>Lists\<close>

definition find_last :: "('a \<Rightarrow> bool) \<Rightarrow> 'a list \<Rightarrow> 'a option" where
  \<comment> \<open>\<open>[...xs].reverse().find(p)\<close>\<close>
  "find_last p xs = find p (rev xs)"

lemma find_SomeD: "find p xs = Some x \<Longrightarrow> x \<in> set xs \<and> p x"
  by (induction xs) (auto split: if_splits)

lemma find_last_SomeD: "find_last p xs = Some x \<Longrightarrow> x \<in> set xs \<and> p x"
  by (auto simp: find_last_def dest: find_SomeD)

lemma find_eq_None: "find p xs = None \<longleftrightarrow> (\<forall>x \<in> set xs. \<not> p x)"
  by (induction xs) auto

lemma find_None_iff_ex: "find p xs \<noteq> None \<longleftrightarrow> (\<exists>x \<in> set xs. p x)"
  by (auto simp: find_eq_None)

lemma find_append: "find p (xs @ ys) = (case find p xs of None \<Rightarrow> find p ys | Some x \<Rightarrow> Some x)"
  by (induction xs) auto

lemma find_map_unique:
  "distinct (map k xs) \<Longrightarrow> x \<in> set xs \<Longrightarrow> find (\<lambda>y. k y = k x) xs = Some x"
  by (induction xs) (auto simp: image_iff)

section \<open>Association lists as maps\<close>

text \<open>\<open>Map.set\<close>, and an upsert on a table with a primary key: replace in place or append.\<close>

fun al_put :: "'k \<Rightarrow> 'v \<Rightarrow> ('k \<times> 'v) list \<Rightarrow> ('k \<times> 'v) list" where
  "al_put k v [] = [(k, v)]"
| "al_put k v ((k', v') # kvs) = (if k' = k then (k, v) # kvs else (k', v') # al_put k v kvs)"

lemma map_of_al_put [simp]: "map_of (al_put k v kvs) = (map_of kvs)(k \<mapsto> v)"
  by (induction kvs rule: al_put.induct) (auto simp: fun_eq_iff)

lemma set_fst_al_put: "fst ` set (al_put k v kvs) = insert k (fst ` set kvs)"
  by (induction k v kvs rule: al_put.induct) auto

lemma distinct_al_put: "distinct (map fst kvs) \<Longrightarrow> distinct (map fst (al_put k v kvs))"
proof (induction k v kvs rule: al_put.induct)
  case (2 k v k' v' kvs)
  have "k' \<notin> fst ` set (al_put k v kvs)" if "k' \<noteq> k"
    using that 2(2) by (simp add: set_fst_al_put)
  with 2 show ?case by auto
qed simp

lemma set_al_put: "x \<in> set (al_put k v kvs) \<Longrightarrow> x = (k, v) \<or> x \<in> set kvs"
  by (induction k v kvs rule: al_put.induct) (auto split: if_splits)

lemma map_of_in_set: "map_of kvs k = Some v \<Longrightarrow> (k, v) \<in> set kvs"
  by (rule map_of_SomeD)

section \<open>Strings\<close>

definition starts_with :: "string \<Rightarrow> string \<Rightarrow> bool" where
  "starts_with p s = (take (length p) s = p)"

definition ends_with :: "string \<Rightarrow> string \<Rightarrow> bool" where
  "ends_with p s = starts_with (rev p) (rev s)"

definition drop_end :: "nat \<Rightarrow> string \<Rightarrow> string" where
  \<comment> \<open>\<open>s.slice(0, -n)\<close>\<close>
  "drop_end n s = take (length s - n) s"

definition char_in :: "string \<Rightarrow> char \<Rightarrow> bool" where
  "char_in cs c = (c \<in> set cs)"

abbreviation code_of :: "char \<Rightarrow> nat" where
  "code_of c \<equiv> of_char c"

definition is_digit :: "char \<Rightarrow> bool" where
  "is_digit c = (48 \<le> code_of c \<and> code_of c \<le> 57)"

definition is_lower :: "char \<Rightarrow> bool" where
  "is_lower c = (97 \<le> code_of c \<and> code_of c \<le> 122)"

definition is_upper :: "char \<Rightarrow> bool" where
  "is_upper c = (65 \<le> code_of c \<and> code_of c \<le> 90)"

definition is_alnum :: "char \<Rightarrow> bool" where
  "is_alnum c = (is_digit c \<or> is_lower c \<or> is_upper c)"

definition is_space :: "char \<Rightarrow> bool" where
  "is_space c = (code_of c = 32 \<or> (9 \<le> code_of c \<and> code_of c \<le> 13))"

definition is_control :: "char \<Rightarrow> bool" where
  \<comment> \<open>\<open>code < 32 || code === 127\<close>\<close>
  "is_control c = (code_of c < 32 \<or> code_of c = 127)"

definition is_hex :: "char \<Rightarrow> bool" where
  "is_hex c = (is_digit c \<or> (97 \<le> code_of c \<and> code_of c \<le> 102))"

definition is_hex64 :: "string \<Rightarrow> bool" where
  \<comment> \<open>the regular expression for a lower-case SHA-256 digest\<close>
  "is_hex64 s = (length s = 64 \<and> list_all is_hex s)"

definition to_lower_char :: "char \<Rightarrow> char" where
  "to_lower_char c = (if is_upper c then char_of (code_of c + 32) else c)"

definition to_lower :: "string \<Rightarrow> string" where
  "to_lower s = map to_lower_char s"

definition str_trim :: "string \<Rightarrow> string" where
  "str_trim s = rev (dropWhile is_space (rev (dropWhile is_space s)))"

fun str_split :: "char \<Rightarrow> string \<Rightarrow> string list" where
  \<comment> \<open>\<open>s.split(c)\<close> for a one-character separator: never empty\<close>
  "str_split c [] = [[]]"
| "str_split c (x # xs) =
     (if x = c then [] # str_split c xs
      else (case str_split c xs of [] \<Rightarrow> [[x]] | p # ps \<Rightarrow> (x # p) # ps))"

fun str_join :: "string \<Rightarrow> string list \<Rightarrow> string" where
  "str_join sep [] = []"
| "str_join sep [s] = s"
| "str_join sep (s # t # ts) = s @ sep @ str_join sep (t # ts)"

fun str_contains :: "string \<Rightarrow> string \<Rightarrow> bool" where
  \<comment> \<open>\<open>s.includes(p)\<close>\<close>
  "str_contains p [] = (p = [])"
| "str_contains p (c # cs) = (starts_with p (c # cs) \<or> str_contains p cs)"

lemmas char_class_defs = is_digit_def is_lower_def is_upper_def is_alnum_def is_space_def
  is_control_def is_hex_def char_in_def

declare starts_with_def [js_defs] ends_with_def [js_defs] drop_end_def [js_defs]
  to_lower_def [js_defs] to_lower_char_def [js_defs] str_trim_def [js_defs]

lemma starts_with_iff: "starts_with p s \<longleftrightarrow> (\<exists>t. s = p @ t)"
proof
  assume "starts_with p s"
  then have "s = p @ drop (length p) s"
    by (metis append_take_drop_id starts_with_def)
  then show "\<exists>t. s = p @ t" ..
qed (auto simp: starts_with_def)

lemma ends_with_iff: "ends_with p s \<longleftrightarrow> (\<exists>t. s = t @ p)"
proof
  assume "ends_with p s"
  then obtain t where "rev s = rev p @ t"
    by (auto simp: ends_with_def starts_with_iff)
  then have "s = rev t @ p"
    by (metis rev_append rev_rev_ident)
  then show "\<exists>t. s = t @ p" ..
qed (auto simp: ends_with_def starts_with_iff)

lemma starts_with_Nil [simp]: "starts_with [] s"
  by (simp add: starts_with_def)

lemma starts_with_append [simp]: "starts_with p (p @ s)"
  by (simp add: starts_with_def)

lemma str_split_nonempty [simp]: "str_split c s \<noteq> []"
  by (induction s) (auto split: list.splits)

lemma str_split_no_sep: "p \<in> set (str_split c s) \<Longrightarrow> c \<notin> set p"
proof (induction s arbitrary: p)
  case (Cons x xs)
  then show ?case
    by (cases "str_split c xs") (auto split: if_splits)
qed simp

lemma str_split_single: "c \<notin> set s \<Longrightarrow> str_split c s = [s]"
  by (induction s) auto

lemma str_split_append: "c \<notin> set p \<Longrightarrow> str_split c (p @ c # s) = p # str_split c s"
  by (induction p) auto

lemma str_join_split [simp]: "str_join [c] (str_split c s) = s"
proof (induction s)
  case (Cons x xs)
  then show ?case
    by (cases "str_split c xs"; cases "tl (str_split c xs)") auto
qed simp

lemma str_split_join:
  "ps \<noteq> [] \<Longrightarrow> (\<forall>p \<in> set ps. c \<notin> set p) \<Longrightarrow> str_split c (str_join [c] ps) = ps"
  by (induction "[c]" ps rule: str_join.induct) (auto simp: str_split_single str_split_append)

lemma str_join_contains: "str_join sep (p # ps) = p @ (if ps = [] then [] else sep @ str_join sep ps)"
  by (cases ps) simp_all

end
