(* ===== verification/Js_Date.thy ===== *)
theory Js_Date
  imports Tna_Prelude
begin

text \<open>
  The part of the language's \<open>Date\<close> the code uses. A clock reading is an \<open>int\<close>, milliseconds
  since the epoch. \<open>to_iso\<close> is \<open>new Date(ms).toISOString()\<close> and \<open>date_parse\<close> is
  \<open>Date.parse\<close> on the ISO format (\<open>None\<close> is \<open>NaN\<close>): a four-digit year, a time with
  optional seconds and fraction, and \<open>Z\<close> or a numeric offset. The round trip
  \<open>date_parse_to_iso\<close> holds for the years 0 to 9999, the ones printed with four digits.
\<close>

section \<open>The proleptic Gregorian calendar\<close>

definition ms_per_day :: int where
  "ms_per_day = 86400000"

definition days_from_civil :: "int \<Rightarrow> int \<Rightarrow> int \<Rightarrow> int" where
  "days_from_civil y m d =
     (let y' = (if m \<le> 2 then y - 1 else y);
          yoe = y' mod 400;
          mp = (if m > 2 then m - 3 else m + 9);
          doy = (153 * mp + 2) div 5 + d - 1
      in (y' div 400) * 146097 + (yoe * 365 + yoe div 4 - yoe div 100 + doy) - 719468)"

definition civil_from_days :: "int \<Rightarrow> int \<times> int \<times> int" where
  "civil_from_days z =
     (let z' = z + 719468;
          era = z' div 146097; doe = z' mod 146097;
          n100 = min 3 (doe div 36524); r = doe - 36524 * n100;
          n4 = r div 1461; r' = r - 1461 * n4;
          n1 = min 3 (r' div 365); doy = r' - 365 * n1;
          yoe = 100 * n100 + 4 * n4 + n1;
          mp = (5 * doy + 2) div 153;
          d = doy - (153 * mp + 2) div 5 + 1;
          m = (if mp < 10 then mp + 3 else mp - 9)
      in (era * 400 + yoe + (if m \<le> 2 then 1 else 0), m, d))"

lemma day_of_year_split:
  assumes "0 \<le> (doy::int)" "doy \<le> 365"
  defines "mp \<equiv> (5 * doy + 2) div 153"
  shows "0 \<le> mp \<and> mp \<le> 11 \<and> 1 \<le> doy - (153 * mp + 2) div 5 + 1 \<and> doy - (153 * mp + 2) div 5 + 1 \<le> 31"
proof -
  define q where "q = (153 * mp + 2) div 5"
  have a: "153 * mp \<le> 5 * doy + 2" "5 * doy + 2 < 153 * mp + 153"
    unfolding mp_def by linarith+
  have b: "5 * q \<le> 153 * mp + 2" "153 * mp + 2 < 5 * q + 5"
    unfolding q_def by linarith+
  have "0 \<le> mp" "mp \<le> 11" using a assms(1,2) by linarith+
  moreover have "q \<le> doy" "doy - q \<le> 30" using a b by linarith+
  ultimately show ?thesis unfolding q_def by linarith
qed

lemma day_of_era_split:
  assumes "0 \<le> (doe::int)" "doe < 146097"
  defines "n100 \<equiv> min 3 (doe div 36524)"
  defines "r \<equiv> doe - 36524 * n100"
  defines "n4 \<equiv> r div 1461"
  defines "r' \<equiv> r - 1461 * n4"
  defines "n1 \<equiv> min 3 (r' div 365)"
  shows "0 \<le> n100 \<and> n100 \<le> 3 \<and> 0 \<le> n4 \<and> n4 \<le> 24 \<and> 0 \<le> n1 \<and> n1 \<le> 3
    \<and> 0 \<le> r' - 365 * n1 \<and> r' - 365 * n1 \<le> 365"
proof -
  have h: "0 \<le> n100" "n100 \<le> 3"
    using assms(1) by (simp_all add: n100_def)
  have r: "0 \<le> r" "r \<le> 36524"
    using assms(1,2) unfolding r_def n100_def by (auto simp: min_def minus_mult_div_eq_mod intro: less_imp_le)
  have n4: "0 \<le> n4" "n4 \<le> 24"
    using r unfolding n4_def by linarith+
  have r': "0 \<le> r'" "r' \<le> 1460"
    unfolding r'_def n4_def by (simp_all add: minus_mult_div_eq_mod)
  define q where "q = r' div 365"
  have q: "365 * q \<le> r'" "r' < 365 * q + 365"
    unfolding q_def by linarith+
  have "n1 = min 3 q" by (simp add: n1_def q_def)
  then have "0 \<le> n1" "n1 \<le> 3" "0 \<le> r' - 365 * n1" "r' - 365 * n1 \<le> 365"
    using r' q by (simp_all add: min_def)
  with h n4 show ?thesis by blast
qed

text \<open>The calendar round trip, and the range of the month and day fields.\<close>

lemma civil_round_trip:
  assumes "civil_from_days z = (y, m, d)"
  shows "days_from_civil y m d = z \<and> 1 \<le> m \<and> m \<le> 12 \<and> 1 \<le> d \<and> d \<le> 31"
proof -
  define era where "era = (z + 719468) div 146097"
  define doe where "doe = (z + 719468) mod 146097"
  define n100 where "n100 = min 3 (doe div 36524)"
  define r where "r = doe - 36524 * n100"
  define n4 where "n4 = r div 1461"
  define r' where "r' = r - 1461 * n4"
  define n1 where "n1 = min 3 (r' div 365)"
  define doy where "doy = r' - 365 * n1"
  define yoe where "yoe = 100 * n100 + 4 * n4 + n1"
  define mp where "mp = (5 * doy + 2) div 153"
  have doe: "0 \<le> doe" "doe < 146097"
    by (simp_all add: doe_def)
  note sp = day_of_era_split [OF doe, folded n100_def, folded r_def, folded n4_def, folded r'_def,
      folded n1_def, folded doy_def]
  have b: "0 \<le> n100" "n100 \<le> 3" "0 \<le> n4" "n4 \<le> 24" "0 \<le> n1" "n1 \<le> 3" "0 \<le> doy" "doy \<le> 365"
    using sp by blast+
  note ds = day_of_year_split [OF b(7,8), folded mp_def]
  have mp: "0 \<le> mp" "mp \<le> 11" "1 \<le> doy - (153 * mp + 2) div 5 + 1" "doy - (153 * mp + 2) div 5 + 1 \<le> 31"
    using ds by blast+
  have "yoe = 4 * (25 * n100 + n4) + n1" "yoe = 100 * n100 + (4 * n4 + n1)"
    by (simp_all add: yoe_def)
  then have yoe: "0 \<le> yoe" "yoe < 400" "yoe div 4 = 25 * n100 + n4" "yoe div 100 = n100"
    using b by simp_all
  have "civil_from_days z = (era * 400 + yoe + (if (if mp < 10 then mp + 3 else mp - 9) \<le> 2 then 1 else 0),
      if mp < 10 then mp + 3 else mp - 9, doy - (153 * mp + 2) div 5 + 1)"
    unfolding civil_from_days_def Let_def mp_def yoe_def doy_def n1_def r'_def n4_def r_def n100_def
      doe_def era_def by (rule refl)
  then have "(era * 400 + yoe + (if (if mp < 10 then mp + 3 else mp - 9) \<le> 2 then 1 else 0),
      if mp < 10 then mp + 3 else mp - 9, doy - (153 * mp + 2) div 5 + 1) = (y, m, d)"
    using assms by simp
  then have m: "m = (if mp < 10 then mp + 3 else mp - 9)" "d = doy - (153 * mp + 2) div 5 + 1"
    "y = era * 400 + yoe + (if m \<le> 2 then 1 else 0)"
    by auto
  have y': "(if m \<le> 2 then y - 1 else y) = era * 400 + yoe"
    using m(3) by simp
  have mp': "(if m > 2 then m - 3 else m + 9) = mp"
    using m(1) mp by (simp split: if_splits)
  have ydm: "(era * 400 + yoe) div 400 = era" "(era * 400 + yoe) mod 400 = yoe"
    using yoe(1,2) by (simp_all add: div_add1_eq mod_add_eq)
  have doe_eq: "doe = 365 * yoe + yoe div 4 - yoe div 100 + doy"
    unfolding yoe(3,4) by (simp add: yoe_def doy_def r'_def r_def)
  have z: "z + 719468 = era * 146097 + doe"
    by (simp add: era_def doe_def)
  have "days_from_civil y m d = era * 146097 + doe - 719468"
    unfolding days_from_civil_def Let_def y' mp' ydm m(2) doe_eq by simp
  with z m mp show ?thesis by (auto split: if_splits)
qed

section \<open>Decimal fields\<close>

definition digit_char :: "int \<Rightarrow> char" where
  "digit_char n = char_of (48 + n)"

definition digit_val :: "char \<Rightarrow> int" where
  "digit_val c = of_char c - 48"

text \<open>\<open>pad k n\<close> prints \<open>n\<close> with exactly \<open>k\<close> digits (the last \<open>k\<close>).\<close>

fun pad :: "nat \<Rightarrow> int \<Rightarrow> string" where
  "pad 0 n = []"
| "pad (Suc k) n = pad k (n div 10) @ [digit_char (n mod 10)]"

fun take_digits :: "nat \<Rightarrow> int \<Rightarrow> string \<Rightarrow> (int \<times> string) option" where
  "take_digits 0 acc s = Some (acc, s)"
| "take_digits (Suc k) acc [] = None"
| "take_digits (Suc k) acc (c # s) =
     (if is_digit c then take_digits k (acc * 10 + digit_val c) s else None)"

definition eat :: "char \<Rightarrow> string \<Rightarrow> string option" where
  "eat c s = (case s of [] \<Rightarrow> None | x # xs \<Rightarrow> if x = c then Some xs else None)"

lemma eat_Cons [simp]: "eat c (c # s) = Some s"
  by (simp add: eat_def)

lemma of_char_int: "(of_char c :: int) = int (code_of c)"
  by (simp only: of_nat_of_char)

lemma digit_char_props:
  assumes "0 \<le> n" "n < 10" shows "is_digit (digit_char n)" "digit_val (digit_char n) = n"
proof -
  have "(of_char (char_of (48 + n)) :: int) = (48 + n) mod 256"
    by (rule of_char_of)
  then have o: "(of_char (digit_char n) :: int) = 48 + n"
    using assms by (simp add: digit_char_def)
  then show "digit_val (digit_char n) = n"
    by (simp add: digit_val_def)
  have "int (code_of (digit_char n)) = 48 + n"
    using o by (simp only: of_char_int)
  then show "is_digit (digit_char n)"
    using assms by (simp only: is_digit_def) arith
qed

lemma take_digits_pad_gen:
  "0 \<le> n \<Longrightarrow> n < 10 ^ k \<Longrightarrow> take_digits (k + j) acc (pad k n @ s) = take_digits j (acc * 10 ^ k + n) s"
proof (induction k arbitrary: n j s)
  case (Suc k)
  have n: "0 \<le> n div 10" "n div 10 < 10 ^ k"
    using Suc.prems by (simp_all add: div_less_iff_less_mult mult.commute)
  have e: "(acc * 10 ^ k + n div 10) * 10 + n mod 10 = acc * 10 ^ Suc k + n"
    by (simp add: algebra_simps)
  from Suc.IH [OF n, of "Suc j" "digit_char (n mod 10) # s"] e show ?case
    by (simp add: digit_char_props ac_simps)
next
  case 0
  then have "n = 0" by simp
  then show ?case by simp
qed

lemma take_digits_pad: "0 \<le> n \<Longrightarrow> n < 10 ^ k \<Longrightarrow> take_digits k 0 (pad k n @ s) = Some (n, s)"
  using take_digits_pad_gen [of n k 0 0 s] by simp

section \<open>Printing and parsing\<close>

definition iso_year :: "int \<Rightarrow> int" where
  "iso_year ms = fst (civil_from_days (ms div ms_per_day))"

definition year_text :: "int \<Rightarrow> string" where
  "year_text y = (if 0 \<le> y \<and> y \<le> 9999 then pad 4 y
     else (if y < 0 then ''-'' else ''+'') @ pad 6 \<bar>y\<bar>)"

definition to_iso :: "int \<Rightarrow> string" where
  "to_iso ms =
     (let (y, m, d) = civil_from_days (ms div ms_per_day); t = ms mod ms_per_day
      in year_text y @ ''-'' @ pad 2 m @ ''-'' @ pad 2 d @ ''T''
         @ pad 2 (t div 3600000) @ '':'' @ pad 2 (t div 60000 mod 60) @ '':''
         @ pad 2 (t div 1000 mod 60) @ ''.'' @ pad 3 (t mod 1000) @ ''Z'')"

text \<open>The fraction of a second: any number of digits, milliseconds are the first three.\<close>

definition parse_fraction :: "string \<Rightarrow> (int \<times> string) option" where
  "parse_fraction s =
     (let ds = takeWhile is_digit s; rest = dropWhile is_digit s
      in if ds = [] then None
         else (case take_digits 3 0 (take 3 (ds @ ''00'')) of
                 None \<Rightarrow> None | Some (v, _) \<Rightarrow> Some (v, rest)))"

definition parse_seconds :: "string \<Rightarrow> (int \<times> int \<times> string) option" where
  "parse_seconds s =
     (case eat (CHR '':'') s of
        None \<Rightarrow> Some (0, 0, s)
      | Some s1 \<Rightarrow> (case take_digits 2 0 s1 of
          None \<Rightarrow> None
        | Some (sec, s2) \<Rightarrow> (case eat (CHR ''.'') s2 of
            None \<Rightarrow> Some (sec, 0, s2)
          | Some s3 \<Rightarrow> (case parse_fraction s3 of
              None \<Rightarrow> None | Some (f, s4) \<Rightarrow> Some (sec, f, s4)))))"

text \<open>The zone: \<open>Z\<close>, or an offset in minutes.\<close>

definition parse_zone :: "string \<Rightarrow> int option" where
  "parse_zone s =
     (if s = ''Z'' then Some 0
      else (case s of
          [] \<Rightarrow> None
        | sg # s1 \<Rightarrow>
            if sg \<noteq> CHR ''+'' \<and> sg \<noteq> CHR ''-'' then None
            else Option.bind (take_digits 2 0 s1) (\<lambda>(h, s2).
              Option.bind (eat (CHR '':'') s2) (\<lambda>s3.
              Option.bind (take_digits 2 0 s3) (\<lambda>(m, s4).
                if s4 = [] \<and> h \<le> 23 \<and> m \<le> 59
                then Some ((if sg = CHR ''-'' then -1 else 1) * (h * 60 + m)) else None)))))"

definition date_parse :: "string \<Rightarrow> int option" where
  "date_parse s =
     Option.bind (take_digits 4 0 s) (\<lambda>(y, s1).
     Option.bind (eat (CHR ''-'') s1) (\<lambda>s2. Option.bind (take_digits 2 0 s2) (\<lambda>(mo, s3).
     Option.bind (eat (CHR ''-'') s3) (\<lambda>s4. Option.bind (take_digits 2 0 s4) (\<lambda>(d, s5).
     Option.bind (eat (CHR ''T'') s5) (\<lambda>s6. Option.bind (take_digits 2 0 s6) (\<lambda>(h, s7).
     Option.bind (eat (CHR '':'') s7) (\<lambda>s8. Option.bind (take_digits 2 0 s8) (\<lambda>(mi, s9).
     Option.bind (parse_seconds s9) (\<lambda>(sec, ms, s10).
     Option.bind (parse_zone s10) (\<lambda>off.
       if 1 \<le> mo \<and> mo \<le> 12 \<and> 1 \<le> d \<and> d \<le> 31 \<and> h \<le> 23 \<and> mi \<le> 59 \<and> sec \<le> 59
       then Some (days_from_civil y mo d * ms_per_day
              + (h * 3600000 + mi * 60000 + sec * 1000 + ms) - off * 60000)
       else None)))))))))))"

definition iso_printable :: "int \<Rightarrow> bool" where
  "iso_printable ms = (0 \<le> iso_year ms \<and> iso_year ms \<le> 9999)"

lemma pad_is_digit: "list_all is_digit (pad k n)"
  by (induction k n rule: pad.induct) (simp_all add: digit_char_props)

lemma length_pad [simp]: "length (pad k n) = k"
  by (induction k n rule: pad.induct) simp_all

lemma parse_fraction_pad:
  assumes "0 \<le> n" "n < 1000" shows "parse_fraction (pad 3 n @ ''Z'') = Some (n, ''Z'')"
proof -
  have d: "\<forall>c \<in> set (pad 3 n). is_digit c"
    using pad_is_digit [of 3 n] by (simp add: list_all_iff)
  have z: "\<not> is_digit (CHR ''Z'')"
    by (simp add: is_digit_def)
  have "takeWhile is_digit (pad 3 n @ ''Z'') = pad 3 n" "dropWhile is_digit (pad 3 n @ ''Z'') = ''Z''"
    using d z by (simp_all add: takeWhile_append2 dropWhile_append2)
  moreover have "pad 3 n \<noteq> []"
    using length_pad [of 3 n] by force
  moreover have "take 3 (pad 3 n @ ''00'') = pad 3 n @ []"
    by simp
  moreover have "take_digits 3 0 (pad 3 n @ []) = Some (n, [])"
    using assms by (intro take_digits_pad) simp_all
  ultimately show ?thesis
    by (simp add: parse_fraction_def)
qed

theorem date_parse_to_iso:
  assumes "iso_printable ms" shows "date_parse (to_iso ms) = Some ms"
proof -
  obtain y m d where c: "civil_from_days (ms div ms_per_day) = (y, m, d)"
    by (metis prod_cases3)
  define t where "t = ms mod ms_per_day"
  note rt = civil_round_trip [OF c]
  have y: "0 \<le> y" "y \<le> 9999"
    using assms c by (simp_all add: iso_printable_def iso_year_def)
  have t: "0 \<le> t" "t < 86400000"
    by (simp_all add: t_def ms_per_day_def)
  have ymd: "y < 10 ^ 4" "0 \<le> m" "m < 10 ^ 2" "0 \<le> d" "d < 10 ^ 2" "1 \<le> m" "m \<le> 12" "1 \<le> d" "d \<le> 31"
    using y rt by auto
  define h mi sec f where "h = t div 3600000" and "mi = t div 60000 mod 60"
    and "sec = t div 1000 mod 60" and "f = t mod 1000"
  have sum: "h * 3600000 + mi * 60000 + sec * 1000 + f = t"
  proof -
    have e: "x * 3600000 + v * 60000 + w * 1000 + u = ((x * 60 + v) * 60 + w) * 1000 + u" for x v w u :: int
      by simp
    have d: "t div 60000 = t div 1000 div 60" "t div 3600000 = t div 1000 div 60 div 60"
      by (simp_all add: zdiv_zmult2_eq [symmetric])
    show ?thesis
      unfolding h_def mi_def sec_def f_def e d by (simp only: div_mult_mod_eq)
  qed
  have rng: "0 \<le> h" "h \<le> 23" "0 \<le> mi" "mi \<le> 59" "0 \<le> sec" "sec \<le> 59" "0 \<le> f" "f < 1000"
    using t by (simp_all add: h_def mi_def sec_def f_def)
  have rng': "h < 10 ^ 2" "mi < 10 ^ 2" "sec < 10 ^ 2"
    using rng by simp_all
  have yt: "year_text y = pad 4 y"
    using y by (simp add: year_text_def)
  have secs: "parse_seconds (CHR '':'' # pad 2 sec @ CHR ''.'' # pad 3 f @ ''Z'') = Some (sec, f, ''Z'')"
    using take_digits_pad [OF rng(5) rng'(3)] parse_fraction_pad [OF rng(7,8)] by (simp add: parse_seconds_def)
  have z: "parse_zone ''Z'' = Some 0"
    by (simp add: parse_zone_def)
  have "date_parse (to_iso ms) = Some (days_from_civil y m d * ms_per_day
      + (h * 3600000 + mi * 60000 + sec * 1000 + f) - 0 * 60000)"
    unfolding to_iso_def c date_parse_def Let_def t_def [symmetric] prod.case yt h_def [symmetric]
      mi_def [symmetric] sec_def [symmetric] f_def [symmetric] append_Cons append_Nil eat_Cons bind.simps
      take_digits_pad [OF y(1) ymd(1)] take_digits_pad [OF ymd(2,3)] take_digits_pad [OF ymd(4,5)]
      take_digits_pad [OF rng(1) rng'(1)] take_digits_pad [OF rng(3) rng'(2)] secs z
    using ymd(6-9) rng(2,4,6) by (simp only: simp_thms if_True)
  also have "\<dots> = Some (ms div ms_per_day * ms_per_day + ms mod ms_per_day)"
    unfolding sum t_def using rt by simp
  finally show ?thesis by simp
qed

text \<open>The instants from 1970 to the end of the year 9999 are printed with four-digit years.\<close>

lemma year_bounds:
  assumes "1 \<le> m" "m \<le> 12" "1 \<le> d" "d \<le> (31::int)" "0 \<le> days_from_civil y m d" "days_from_civil y m d < 2932897"
  shows "0 \<le> y \<and> y \<le> 9999"
proof -
  define y' where "y' = (if m \<le> 2 then y - 1 else y)"
  define q r where "q = y' div 400" and "r = y' mod 400"
  have y': "y' = 400 * q + r" "0 \<le> r" "r < 400" by (simp_all add: q_def r_def)
  define mp where "mp = (if m > 2 then m - 3 else m + 9)"
  define doy where "doy = (153 * mp + 2) div 5 + d - 1"
  have doy: "0 \<le> doy" "doy \<le> 367" and jan: "m \<le> 2 \<Longrightarrow> 306 \<le> doy"
  proof -
    have "m = 1 \<or> m = 2 \<or> 2 < m \<and> m \<le> 12" using assms(1,2) by arith
    then show "0 \<le> doy" "doy \<le> 367" "m \<le> 2 \<Longrightarrow> 306 \<le> doy"
      using assms(1-4) unfolding doy_def mp_def by (elim disjE; simp)+
  qed
  have e: "days_from_civil y m d = q * 146097 + (r * 365 + r div 4 - r div 100 + doy) - 719468"
    unfolding days_from_civil_def Let_def y'_def [symmetric] mp_def [symmetric] doy_def [symmetric] q_def r_def by simp
  have b: "r div 4 \<le> 99" "0 \<le> r div 4" "r div 100 \<le> 3" "0 \<le> r div 100"
    using y' by auto
  have "q \<le> 24" using assms(6) e b doy y' by linarith
  moreover have "0 \<le> q" using assms(5) e b doy y' by linarith
  ultimately show ?thesis
  proof (cases "q = 24")
    case True
    have "r \<le> 399 " using y' by simp
    show ?thesis
    proof (cases "r = 399")
      case True
      then have "\<not> m \<le> 2" using assms(6) e \<open>q = 24\<close> jan by auto
      then show ?thesis using y' \<open>q = 24\<close> True by (simp add: y'_def)
    next
      case False
      then show ?thesis using y' \<open>q = 24\<close> by (auto simp: y'_def split: if_splits)
    qed
  next
    case False
    then have "q \<le> 23" using \<open>q \<le> 24\<close> by simp
    then have "y' \<le> 9599" "0 \<le> y'" using y' \<open>0 \<le> q\<close> by linarith+
    then show ?thesis by (auto simp: y'_def split: if_splits)
  qed
qed
lemma iso_printable_range:
  assumes "0 \<le> ms" "ms < 253402300800000" shows "iso_printable ms"
proof -
  obtain y m d where c: "civil_from_days (ms div ms_per_day) = (y, m, d)"
    by (metis prod_cases3)
  have "0 \<le> ms div ms_per_day" "ms div ms_per_day < 2932897"
    using assms by (simp_all add: ms_per_day_def div_less_iff_less_mult pos_imp_zdiv_nonneg_iff)
  then show ?thesis
    using civil_round_trip [OF c] year_bounds [of m d y] c by (simp add: iso_printable_def iso_year_def)
qed

definition epoch_ok :: "int \<Rightarrow> bool" where
  "epoch_ok ms = (0 \<le> ms \<and> ms < 253402300800000)"

lemma epoch_printable: "epoch_ok ms \<Longrightarrow> iso_printable ms"
  by (simp add: epoch_ok_def iso_printable_range)

lemma epoch_round_trip: "epoch_ok ms \<Longrightarrow> date_parse (to_iso ms) = Some ms"
  by (rule date_parse_to_iso) (rule epoch_printable)

text \<open>The strict form \<open>YYYY-MM-DDTHH:MM:SS.mmmZ\<close> checked by the components: the text is its own
  re-print.\<close>

definition fits :: "char \<Rightarrow> char \<Rightarrow> bool" where
  "fits p c = (if p = CHR ''d'' then is_digit c else c = p)"

definition iso_shape :: "string \<Rightarrow> bool" where
  "iso_shape s = (length s = 24 \<and>
     list_all2 fits ''dddd-dd-ddTdd:dd:dd.dddZ'' s)"

definition is_iso_text :: "string \<Rightarrow> bool" where
  "is_iso_text s = (iso_shape s \<and> (case date_parse s of None \<Rightarrow> False | Some t \<Rightarrow> to_iso t = s))"

lemma is_iso_text_parses: "is_iso_text s \<Longrightarrow> \<exists>t. date_parse s = Some t \<and> to_iso t = s"
  by (auto simp: is_iso_text_def split: option.splits)

lemma shape_pad: "list_all2 fits (replicate k (CHR ''d'')) (pad k n)"
  using pad_is_digit [of k n] by (simp add: list_all2_conv_all_nth list_all_length fits_def)

lemma iso_shape_to_iso:
  assumes "iso_printable ms" shows "iso_shape (to_iso ms)"
proof -
  obtain y m d where c: "civil_from_days (ms div ms_per_day) = (y, m, d)"
    by (metis prod_cases3)
  have p: "list_all2 fits ''dd'' (pad 2 n)" "list_all2 fits ''ddd'' (pad 3 n)" "list_all2 fits ''dddd'' (pad 4 n)" for n
    using shape_pad [of 2 n] shape_pad [of 3 n] shape_pad [of 4 n] by (simp_all add: numeral_eq_Suc del: pad.simps)
  have q: "list_all2 fits [c] [c]" if "c \<noteq> CHR ''d''" for c
    using that by (simp add: fits_def)
  have yt: "year_text y = pad 4 (nat y)"
    using assms c by (simp add: year_text_def iso_printable_def iso_year_def)
  have "list_all2 fits (''dddd'' @ ''-'' @ ''dd'' @ ''-'' @ ''dd'' @ ''T'' @ ''dd'' @ '':'' @ ''dd'' @ '':'' @ ''dd''
      @ ''.'' @ ''ddd'' @ ''Z'') (to_iso ms)"
    unfolding to_iso_def c Let_def prod.case yt by (intro list_all2_appendI p q) simp_all
  then show ?thesis
    using list_all2_lengthD by (fastforce simp: iso_shape_def)
qed

lemma is_iso_text_to_iso: "iso_printable ms \<Longrightarrow> is_iso_text (to_iso ms)"
  by (simp add: is_iso_text_def iso_shape_to_iso date_parse_to_iso)

end
