(* ===== verification/Js_Json.thy ===== *)
theory Js_Json
  imports Tna_Prelude "HOL-Library.Multiset"
begin

text \<open>
  JSON values, as \<open>JSON.parse\<close> builds them: an object is its list of entries in insertion order,
  a missing key is \<open>undefined\<close> (\<open>None\<close>). A number is the decimal its text denotes,
  \<open>Dec m s\<close> for \<open>m / 10 ^ s\<close>; the rounding of doubles is not modelled and the exponent notation
  of very large and very small numbers is not printed. \<open>canonical\<close> is the key-sorted serialization
  the code hashes; several packages repeat the function and the theories of those packages name it.
\<close>

datatype jnum = Dec int nat

datatype json =
    JNull
  | JBool bool
  | JNum jnum
  | JStr string
  | JArr "json list"
  | JObj "(string \<times> json) list"

section \<open>Numbers\<close>

definition num_val :: "jnum \<Rightarrow> rat" where
  "num_val n = (case n of Dec m s \<Rightarrow> of_int m / 10 ^ s)"

fun strip_zeros :: "int \<Rightarrow> nat \<Rightarrow> jnum" where
  "strip_zeros m 0 = Dec m 0"
| "strip_zeros m (Suc s) = (if m mod 10 = 0 then strip_zeros (m div 10) s else Dec m (Suc s))"

definition norm_num :: "jnum \<Rightarrow> jnum" where
  "norm_num n = (case n of Dec m s \<Rightarrow> strip_zeros m s)"

lemma num_val_strip_zeros [simp]: "num_val (strip_zeros m s) = of_int m / 10 ^ s"
proof (induction m s rule: strip_zeros.induct)
  case (2 m s)
  show ?case
  proof (cases "m mod 10 = 0")
    case True
    then obtain k where "m = 10 * k" by blast
    with 2 True show ?thesis by (simp add: num_val_def)
  qed (simp add: num_val_def)
qed (simp add: num_val_def)

lemma num_val_norm [simp]: "num_val (norm_num n) = num_val n"
proof (cases n)
  case (Dec m s)
  have "num_val (strip_zeros m s) = num_val (Dec m s)"
    unfolding num_val_strip_zeros by (simp add: num_val_def)
  with Dec show ?thesis by (simp add: norm_num_def)
qed

definition is_integer :: "jnum \<Rightarrow> bool" where
  \<comment> \<open>\<open>Number.isInteger\<close>\<close>
  "is_integer n = (case norm_num n of Dec m s \<Rightarrow> s = 0)"

definition int_of_num :: "jnum \<Rightarrow> int" where
  "int_of_num n = (case norm_num n of Dec m s \<Rightarrow> m)"

lemma int_of_num: "is_integer n \<Longrightarrow> num_val n = of_int (int_of_num n)"
  unfolding is_integer_def int_of_num_def
  by (subst num_val_norm [symmetric]) (auto simp: num_val_def split: jnum.splits)

fun show_nat :: "nat \<Rightarrow> string" where
  "show_nat n = (if n < 10 then [char_of (48 + n)] else show_nat (n div 10) @ [char_of (48 + n mod 10)])"

declare show_nat.simps [simp del]

definition show_dec :: "int \<Rightarrow> nat \<Rightarrow> string" where
  "show_dec m s =
     (let ds = show_nat (nat \<bar>m\<bar>); ds' = replicate (Suc s - length ds) (CHR ''0'') @ ds; k = length ds' - s
      in (if m < 0 then ''-'' else '''') @ take k ds' @ (if s = 0 then '''' else CHR ''.'' # drop k ds'))"

definition show_num :: "jnum \<Rightarrow> string" where
  "show_num n = (case norm_num n of Dec m s \<Rightarrow> show_dec m s)"

definition show_int :: "int \<Rightarrow> string" where
  "show_int i = show_dec i 0"

section \<open>Strings and serialization\<close>

definition hex_digit :: "nat \<Rightarrow> char" where
  "hex_digit n = char_of (if n < 10 then 48 + n else 87 + n)"

definition escape_char :: "char \<Rightarrow> string" where
  "escape_char c =
     (let n = code_of c in
      if n = 34 then [CHR 0x5C, CHR 0x22]
      else if n = 92 then [CHR 0x5C, CHR 0x5C]
      else if n = 8 then [CHR 0x5C, CHR ''b'']
      else if n = 12 then [CHR 0x5C, CHR ''f'']
      else if n = 10 then [CHR 0x5C, CHR ''n'']
      else if n = 13 then [CHR 0x5C, CHR ''r'']
      else if n = 9 then [CHR 0x5C, CHR ''t'']
      else if n < 32 then [CHR 0x5C, CHR ''u'', CHR ''0'', CHR ''0'', hex_digit (n div 16), hex_digit (n mod 16)]
      else [c])"

definition quote :: "string \<Rightarrow> string" where
  "quote s = CHR 0x22 # concat (map escape_char s) @ [CHR 0x22]"

definition json_field :: "string \<Rightarrow> string \<Rightarrow> string" where
  "json_field k v = quote k @ '':'' @ v"

text \<open>\<open>JSON.stringify\<close>: entries in their own order.\<close>

fun stringify :: "json \<Rightarrow> string" where
  "stringify JNull = ''null''"
| "stringify (JBool b) = (if b then ''true'' else ''false'')"
| "stringify (JNum n) = show_num n"
| "stringify (JStr s) = quote s"
| "stringify (JArr xs) = ''['' @ str_join '','' (map stringify xs) @ '']''"
| "stringify (JObj kvs) =
     ''{'' @ str_join '','' (map (\<lambda>(k, v). json_field k (stringify v)) kvs) @ ''}''"

text \<open>The canonical form: entries sorted by key, at every depth.\<close>

fun canonical :: "json \<Rightarrow> string" where
  "canonical JNull = ''null''"
| "canonical (JBool b) = (if b then ''true'' else ''false'')"
| "canonical (JNum n) = show_num n"
| "canonical (JStr s) = quote s"
| "canonical (JArr xs) = ''['' @ str_join '','' (map canonical xs) @ '']''"
| "canonical (JObj kvs) =
     ''{'' @ str_join '','' (map (\<lambda>(k, t). json_field k t)
        (sort_key fst (map (\<lambda>(k, v). (k, canonical v)) kvs))) @ ''}''"

section \<open>Reading values\<close>

definition jfield :: "string \<Rightarrow> json \<Rightarrow> json option" where
  \<comment> \<open>\<open>value[k]\<close> of an object; \<open>None\<close> is \<open>undefined\<close>\<close>
  "jfield k j = (case j of JObj kvs \<Rightarrow> map_of kvs k | _ \<Rightarrow> None)"

definition is_plain_object :: "json option \<Rightarrow> bool" where
  \<comment> \<open>\<open>typeof value === 'object' && value !== null && !Array.isArray(value)\<close>\<close>
  "is_plain_object v = (case v of Some (JObj _) \<Rightarrow> True | _ \<Rightarrow> False)"

definition jstr :: "json option \<Rightarrow> string option" where
  "jstr v = (case v of Some (JStr s) \<Rightarrow> Some s | _ \<Rightarrow> None)"

definition jbool :: "json option \<Rightarrow> bool option" where
  "jbool v = (case v of Some (JBool b) \<Rightarrow> Some b | _ \<Rightarrow> None)"

definition jnumber :: "json option \<Rightarrow> jnum option" where
  "jnumber v = (case v of Some (JNum n) \<Rightarrow> Some n | _ \<Rightarrow> None)"

definition jlist :: "json option \<Rightarrow> json list option" where
  "jlist v = (case v of Some (JArr xs) \<Rightarrow> Some xs | _ \<Rightarrow> None)"

definition str_where :: "(string \<Rightarrow> bool) \<Rightarrow> json option \<Rightarrow> bool" where
  \<comment> \<open>\<open>typeof value === 'string'\<close> and a test on the string\<close>
  "str_where p v = (case v of Some (JStr s) \<Rightarrow> p s | _ \<Rightarrow> False)"

definition num_where :: "(jnum \<Rightarrow> bool) \<Rightarrow> json option \<Rightarrow> bool" where
  "num_where p v = (case v of Some (JNum n) \<Rightarrow> p n | _ \<Rightarrow> False)"

definition list_where :: "(json list \<Rightarrow> bool) \<Rightarrow> json option \<Rightarrow> bool" where
  "list_where p v = (case v of Some (JArr xs) \<Rightarrow> p xs | _ \<Rightarrow> False)"

definition obj_keys :: "json \<Rightarrow> string list" where
  "obj_keys j = (case j of JObj kvs \<Rightarrow> map fst kvs | _ \<Rightarrow> [])"

definition truthy :: "json option \<Rightarrow> bool" where
  \<comment> \<open>the language's conversion to Boolean\<close>
  "truthy v = (case v of None \<Rightarrow> False | Some JNull \<Rightarrow> False | Some (JBool b) \<Rightarrow> b
     | Some (JNum n) \<Rightarrow> num_val n \<noteq> 0 | Some (JStr s) \<Rightarrow> s \<noteq> [] | Some (JArr _) \<Rightarrow> True
     | Some (JObj _) \<Rightarrow> True)"

definition the_str :: "json option \<Rightarrow> string" where
  "the_str v = (case jstr v of Some s \<Rightarrow> s | None \<Rightarrow> [])"

lemmas json_read_defs = jfield_def is_plain_object_def jstr_def jbool_def jnumber_def jlist_def
  str_where_def num_where_def list_where_def obj_keys_def the_str_def

lemma str_whereE: "str_where p v \<Longrightarrow> (\<And>s. v = Some (JStr s) \<Longrightarrow> p s \<Longrightarrow> thesis) \<Longrightarrow> thesis"
  by (auto simp: str_where_def split: option.splits json.splits)

lemma jfield_simps [simp]: "jfield k (JObj kvs) = map_of kvs k"
  by (simp add: jfield_def)

lemma jstr_simps [simp]: "jstr None = None" "jstr (Some (JStr s)) = Some s"
  by (simp_all add: jstr_def)

lemma str_where_simps [simp]: "\<not> str_where p None" "str_where p (Some (JStr s)) = p s"
  by (simp_all add: str_where_def)

section \<open>Secret-shaped content\<close>

text \<open>
  The alternatives of the case-insensitive regular expression
  \<open>api[_-]?key|apikey|secret|password|private[_-]?key|...\<close>, with each optional separator
  written out, searched in the lower-cased key.
\<close>

definition with_sep :: "string \<Rightarrow> string \<Rightarrow> string list" where
  "with_sep a b = [a @ b, a @ ''_'' @ b, a @ ''-'' @ b]"

definition secret_key_words :: "string list" where
  "secret_key_words = with_sep ''api'' ''key'' @ [''secret'', ''password''] @ with_sep ''private'' ''key''
     @ with_sep ''access'' ''token'' @ with_sep ''refresh'' ''token'' @ with_sep ''client'' ''secret''
     @ [''bearer'', ''authorization'']"

definition secret_key :: "string \<Rightarrow> bool" where
  "secret_key k = list_ex (\<lambda>w. str_contains w (to_lower k)) secret_key_words"

definition bearer_here :: "string \<Rightarrow> bool" where
  \<comment> \<open>\<open>Bearer\s+\S+\<close> at the start of the (lower-cased) text\<close>
  "bearer_here s = (starts_with ''bearer'' s \<and>
     (let r = drop 6 s in r \<noteq> [] \<and> is_space (hd r) \<and> dropWhile is_space r \<noteq> []))"

fun bearer_in :: "string \<Rightarrow> bool" where
  "bearer_in [] = False"
| "bearer_in (c # cs) = (bearer_here (c # cs) \<or> bearer_in cs)"

definition secret_value :: "string \<Rightarrow> bool" where
  "secret_value s = bearer_in (to_lower s)"

fun find_secret :: "json \<Rightarrow> string option"
  and find_secret_list :: "json list \<Rightarrow> string option"
  and find_secret_fields :: "(string \<times> json) list \<Rightarrow> string option" where
  "find_secret (JStr s) =
     (if secret_value s then Some ''value matches a bearer-token pattern'' else None)"
| "find_secret (JArr xs) = find_secret_list xs"
| "find_secret (JObj kvs) = find_secret_fields kvs"
| "find_secret _ = None"
| "find_secret_list [] = None"
| "find_secret_list (x # xs) =
     (case find_secret x of Some r \<Rightarrow> Some r | None \<Rightarrow> find_secret_list xs)"
| "find_secret_fields [] = None"
| "find_secret_fields ((k, v) # kvs) =
     (if secret_key k
      then Some (''field name '' @ CHR 0x22 # k @ CHR 0x22 # '' is a disallowed secret-shaped field'')
      else (case find_secret v of Some r \<Rightarrow> Some r | None \<Rightarrow> find_secret_fields kvs))"

definition find_secret_opt :: "json option \<Rightarrow> string option" where
  "find_secret_opt v = (case v of None \<Rightarrow> None | Some j \<Rightarrow> find_secret j)"

text \<open>A specification by containment: every key and every string at any depth.\<close>

fun json_keys :: "json \<Rightarrow> string set" where
  "json_keys (JArr xs) = (\<Union>x \<in> set xs. json_keys x)"
| "json_keys (JObj kvs) = fst ` set kvs \<union> (\<Union>kv \<in> set kvs. json_keys (snd kv))"
| "json_keys _ = {}"

fun json_strings :: "json \<Rightarrow> string set" where
  "json_strings (JStr s) = {s}"
| "json_strings (JArr xs) = (\<Union>x \<in> set xs. json_strings x)"
| "json_strings (JObj kvs) = (\<Union>kv \<in> set kvs. json_strings (snd kv))"
| "json_strings _ = {}"

lemma find_secret_spec:
  "find_secret j = None \<longleftrightarrow>
     (\<forall>k \<in> json_keys j. \<not> secret_key k) \<and> (\<forall>s \<in> json_strings j. \<not> secret_value s)"
  "find_secret_list js = None \<longleftrightarrow> (\<forall>j \<in> set js.
     (\<forall>k \<in> json_keys j. \<not> secret_key k) \<and> (\<forall>s \<in> json_strings j. \<not> secret_value s))"
  "find_secret_fields kvs = None \<longleftrightarrow> (\<forall>kv \<in> set kvs. \<not> secret_key (fst kv) \<and>
     (\<forall>k \<in> json_keys (snd kv). \<not> secret_key k) \<and> (\<forall>s \<in> json_strings (snd kv). \<not> secret_value s))"
proof (induction j and js and kvs rule: find_secret_find_secret_list_find_secret_fields.induct)
  case (8 k v kvs)
  then show ?case by (auto split: option.splits)
qed (auto split: option.splits)

lemma find_secret_none:
  "find_secret j = None \<longleftrightarrow>
     (\<forall>k \<in> json_keys j. \<not> secret_key k) \<and> (\<forall>s \<in> json_strings j. \<not> secret_value s)"
  by (rule find_secret_spec)

section \<open>Key order never matters\<close>

lemma filter_key_distinct:
  "distinct (map f xs) \<Longrightarrow> x \<in> set xs \<Longrightarrow> filter (\<lambda>y. f x = f y) xs = [x]"
proof (induction xs)
  case (Cons a xs)
  have "filter (\<lambda>y. f a = f y) xs = []"
    using Cons.prems(1) by (auto simp: filter_empty_conv)
  with Cons show ?case by auto
qed simp

lemma sort_key_perm_distinct:
  assumes "mset xs = mset ys" "distinct (map fst xs)"
  shows "sort_key fst xs = sort_key fst (ys :: (string \<times> 'a) list)"
proof (rule properties_for_sort_key)
  have m: "mset (map fst (sort_key fst ys)) = mset (map fst xs)"
    using assms(1) by simp
  have d: "distinct (map fst (sort_key fst ys))"
    using assms(2) mset_eq_imp_distinct_iff [OF m] by blast
  show "mset (sort_key fst ys) = mset xs"
    using assms(1) by simp
  show "filter (\<lambda>x. fst k = fst x) (sort_key fst ys) = filter (\<lambda>x. fst k = fst x) xs"
    if "k \<in> set (sort_key fst ys)" for k
    using that d assms by (auto simp: filter_key_distinct dest: mset_eq_setD)
  show "sorted (map fst (sort_key fst ys))"
    by (rule sorted_sort_key)
qed

text \<open>Two objects with the same entries in another order have the same canonical form.\<close>

lemma canonical_key_order:
  assumes "mset kvs = mset kvs'" "distinct (map fst kvs)"
  shows "canonical (JObj kvs) = canonical (JObj kvs')"
proof -
  let ?g = "\<lambda>(k, v). (k, canonical v)"
  have "map fst (map ?g kvs) = map fst kvs"
    by (induction kvs) auto
  with assms(2) have "distinct (map fst (map ?g kvs))"
    by (simp only:)
  then have "sort_key fst (map ?g kvs) = sort_key fst (map ?g kvs')"
    using assms(1) by (intro sort_key_perm_distinct) simp_all
  then show ?thesis by simp
qed

end
