(* ===== verification/Js_Canonical.thy ===== *)
theory Js_Canonical
  imports Js_Json
begin

text \<open>
  The canonical serialization determines the value: \<open>canonical a = canonical b\<close> holds exactly
  when \<open>a\<close> and \<open>b\<close> have the same normal form (entries sorted by key at every depth, decimals
  without trailing zeros). The proof is unique decoding: a printed value, followed by a text that
  starts with a closing bracket or a comma, can be read back in one way only.
\<close>

section \<open>Normal forms\<close>

fun normal :: "json \<Rightarrow> json" where
  "normal (JNum n) = JNum (norm_num n)"
| "normal (JArr xs) = JArr (map normal xs)"
| "normal (JObj kvs) = JObj (sort_key fst (map (\<lambda>(k, v). (k, normal v)) kvs))"
| "normal j = j"

fun num_normal :: "json \<Rightarrow> bool" where
  "num_normal (JNum n) = (norm_num n = n)"
| "num_normal (JArr xs) = (\<forall>x \<in> set xs. num_normal x)"
| "num_normal (JObj kvs) = (\<forall>kv \<in> set kvs. num_normal (snd kv))"
| "num_normal j = True"

lemma strip_zeros_normal: "strip_zeros m s = Dec m' s' \<Longrightarrow> strip_zeros m' s' = Dec m' s'"
  by (induction m s rule: strip_zeros.induct) (auto split: if_splits)

lemma norm_num_idem [simp]: "norm_num (norm_num n) = norm_num n"
  by (cases n; cases "norm_num n") (auto simp: norm_num_def dest: strip_zeros_normal)

lemma show_num_norm [simp]: "show_num (norm_num n) = show_num n"
  by (simp add: show_num_def)

lemma num_normal_normal [simp]: "num_normal (normal j)"
  by (induction j rule: normal.induct) auto

lemma insort_key_map_snd:
  "insort_key fst (k, f v) (map (\<lambda>(k, v). (k, f v)) kvs) = map (\<lambda>(k, v). (k, f v)) (insort_key fst (k, v) kvs)"
  by (induction kvs) auto

lemma sort_key_map_snd:
  "sort_key fst (map (\<lambda>(k, v). (k, f v)) kvs) = map (\<lambda>(k, v). (k, f v)) (sort_key fst kvs)"
  by (induction kvs) (auto simp: insort_key_map_snd)

lemma canonical_normal: "canonical j = stringify (normal j)"
proof (induction j rule: canonical.induct)
  case (5 xs)
  then have "map canonical xs = map stringify (map normal xs)" by simp
  then show ?case by (metis canonical.simps(5) normal.simps(2) stringify.simps(5))
next
  case (6 kvs)
  have "map (\<lambda>(k, v). (k, canonical v)) kvs
      = map (\<lambda>(k, v). (k, stringify v)) (map (\<lambda>(k, v). (k, normal v)) kvs)"
    using 6 by (auto simp: comp_def)
  then have "sort_key fst (map (\<lambda>(k, v). (k, canonical v)) kvs)
      = map (\<lambda>(k, v). (k, stringify v)) (sort_key fst (map (\<lambda>(k, v). (k, normal v)) kvs))"
    by (simp only: sort_key_map_snd)
  then show ?case by (simp only: canonical.simps normal.simps stringify.simps map_map comp_def case_prod_unfold fst_conv snd_conv)
qed simp_all

lemma normal_idem [simp]: "normal (normal j) = normal j"
proof (induction j rule: normal.induct)
  case (3 kvs)
  let ?g = "\<lambda>(k, v). (k, normal v)"
  have g: "map ?g (map ?g kvs) = map ?g kvs"
    using 3 by (auto simp: comp_def)
  have "sort_key fst (map ?g (sort_key fst (map ?g kvs))) = map ?g (sort_key fst (sort_key fst (map ?g kvs)))"
    by (rule sort_key_map_snd)
  also have "sort_key fst (sort_key fst (map ?g kvs)) = sort_key fst (map ?g kvs)"
    by (rule sort_key_id_if_sorted) simp
  also have "map ?g (sort_key fst (map ?g kvs)) = sort_key fst (map ?g (map ?g kvs))"
    by (rule sort_key_map_snd [symmetric])
  finally show ?case
    by (simp only: normal.simps g)
qed (simp_all add: comp_def)

section \<open>Decimals\<close>

definition digits_val :: "string \<Rightarrow> nat" where
  "digits_val ds = foldl (\<lambda>a c. a * 10 + (code_of c - 48)) 0 ds"

lemma foldl_zeros: "foldl (\<lambda>a c. a * 10 + (code_of c - 48)) 0 (replicate n (CHR ''0'') @ ds)
    = foldl (\<lambda>a c. a * 10 + (code_of c - 48)) (0::nat) ds"
  by (induction n) simp_all

lemma digits_val_zeros [simp]: "digits_val (replicate n (CHR ''0'') @ ds) = digits_val ds"
  by (simp only: digits_val_def foldl_zeros)

lemma digits_val_show_nat [simp]: "digits_val (show_nat n) = n"
proof (induction n rule: show_nat.induct)
  case (1 n)
  show ?case
  proof (cases "n < 10")
    case True
    then show ?thesis by (subst show_nat.simps) (simp add: digits_val_def)
  next
    case False
    with 1 have "foldl (\<lambda>a c. a * 10 + (code_of c - 48)) 0 (show_nat (n div 10)) = n div 10"
      by (simp add: digits_val_def)
    with False show ?thesis by (subst show_nat.simps) (simp add: digits_val_def)
  qed
qed

lemma show_nat_digits: "list_all is_digit (show_nat n)"
proof (induction n rule: show_nat.induct)
  case (1 n)
  have "n mod 10 \<le> 9"
    using mod_less_divisor [of 10 n] by linarith
  with 1 show ?case by (subst show_nat.simps) (auto simp: is_digit_def [of "char_of _"])
qed

lemma show_nat_nonempty [simp]: "show_nat n \<noteq> []"
  by (subst show_nat.simps) simp

definition num_char :: "char \<Rightarrow> bool" where
  "num_char c = (is_digit c \<or> c = CHR ''.'' \<or> c = CHR ''-'')"

definition padded :: "int \<Rightarrow> nat \<Rightarrow> string" where
  "padded m s = (let ds = show_nat (nat \<bar>m\<bar>) in replicate (Suc s - length ds) (CHR ''0'') @ ds)"

lemma padded_digits: "list_all is_digit (padded m s)"
  using show_nat_digits [of "nat \<bar>m\<bar>"]
  by (auto simp: padded_def Let_def list_all_iff is_digit_def [of "CHR ''0''"])

lemma padded_length: "s < length (padded m s)"
  by (simp add: padded_def Let_def)

lemma padded_val: "digits_val (padded m s) = nat \<bar>m\<bar>"
  by (simp add: padded_def Let_def)

lemma show_dec_padded:
  "show_dec m s = (if m < 0 then ''-'' else '''') @ take (length (padded m s) - s) (padded m s)
     @ (if s = 0 then '''' else CHR ''.'' # drop (length (padded m s) - s) (padded m s))"
  by (simp add: show_dec_def padded_def Let_def)

lemma show_dec_chars: "list_all num_char (show_dec m s)"
  using padded_digits [of m s]
  by (auto simp: show_dec_padded list_all_iff num_char_def dest: in_set_takeD in_set_dropD)

lemma digit_split:
  assumes "list_all is_digit a" "list_all is_digit a'" "a @ CHR ''.'' # b = a' @ CHR ''.'' # b'"
  shows "a = a' \<and> b = b'"
proof -
  have d: "\<not> is_digit (CHR ''.'')"
    by (simp add: is_digit_def)
  have "takeWhile is_digit (a @ CHR ''.'' # b) = a" "takeWhile is_digit (a' @ CHR ''.'' # b') = a'"
    using assms(1,2) d by (auto simp: list_all_iff takeWhile_append2)
  with assms(3) show ?thesis by auto
qed

text \<open>The unsigned part of the print determines the digits and the scale.\<close>

lemma unsigned_print_inj:
  fixes ds ds' :: string
  assumes "list_all is_digit ds" "list_all is_digit ds'" "s < length ds" "s' < length ds'"
    and eq: "take (length ds - s) ds @ (if s = 0 then '''' else CHR ''.'' # drop (length ds - s) ds)
      = take (length ds' - s') ds' @ (if s' = 0 then '''' else CHR ''.'' # drop (length ds' - s') ds')"
  shows "ds = ds' \<and> s = s'"
proof -
  have nodot: "CHR ''.'' \<notin> set xs" if "list_all is_digit xs" for xs
    using that by (auto simp: list_all_iff is_digit_def)
  have tk: "list_all is_digit (take n ds)" "list_all is_digit (take n ds')" for n
    using assms(1,2) by (auto simp: list_all_iff dest: in_set_takeD)
  consider "s = 0 \<and> s' = 0" | "s \<noteq> 0 \<and> s' \<noteq> 0" | "s = 0 \<and> s' \<noteq> 0 \<or> s \<noteq> 0 \<and> s' = 0"
    by (cases "s = 0"; cases "s' = 0") simp_all
  then show ?thesis
  proof cases
    case 1
    with eq show ?thesis by simp
  next
    case 2
    with eq have td: "take (length ds - s) ds = take (length ds' - s') ds'
        \<and> drop (length ds - s) ds = drop (length ds' - s') ds'"
      by (intro digit_split tk) simp
    then have "ds = ds'" by (metis append_take_drop_id)
    moreover have "length (drop (length ds - s) ds) = length (drop (length ds' - s') ds')"
      using td by simp
    ultimately show ?thesis using assms(3,4) by simp
  next
    case 3
    then have "CHR ''.'' \<in> set (take (length ds - s) ds) \<or> CHR ''.'' \<in> set (take (length ds' - s') ds')"
    proof
      assume z: "s = 0 \<and> s' \<noteq> 0"
      then have "take (length ds - s) ds = take (length ds' - s') ds' @ CHR ''.'' # drop (length ds' - s') ds'"
        using eq by simp
      then show ?thesis by (metis in_set_conv_decomp)
    next
      assume z: "s \<noteq> 0 \<and> s' = 0"
      then have "take (length ds' - s') ds' = take (length ds - s) ds @ CHR ''.'' # drop (length ds - s) ds"
        using eq by simp
      then show ?thesis by (metis in_set_conv_decomp)
    qed
    with nodot tk show ?thesis by blast
  qed
qed

lemma show_dec_inj: "show_dec m s = show_dec m' s' \<Longrightarrow> m = m' \<and> s = s' \<or> (m = 0 \<and> m' = 0)"
proof -
  assume eq: "show_dec m s = show_dec m' s'"
  let ?u = "\<lambda>m s. take (length (padded m s) - s) (padded m s)
     @ (if s = 0 then '''' else CHR ''.'' # drop (length (padded m s) - s) (padded m s))"
  have hd: "\<exists>c cs. ?u m s = c # cs \<and> c \<noteq> CHR ''-''" for m s
  proof -
    have "padded m s \<noteq> []" and k: "0 < length (padded m s) - s"
      using padded_length [of s m] by auto
    then obtain c cs j where "padded m s = c # cs" "length (padded m s) - s = Suc j"
      by (metis Suc_pred' list.exhaust)
    moreover from this have "is_digit c"
      using padded_digits [of m s] by simp
    then have "c \<noteq> CHR ''-''" by (auto simp: is_digit_def)
    ultimately show ?thesis by simp
  qed
  obtain c cs c' cs' where u: "?u m s = c # cs" "c \<noteq> CHR ''-''" "?u m' s' = c' # cs'" "c' \<noteq> CHR ''-''"
    using hd by metis
  have sg: "(m < 0) = (m' < 0)"
    using eq u(2,4) unfolding show_dec_padded u(1,3) by (cases "m < 0"; cases "m' < 0") simp_all
  with eq have "?u m s = ?u m' s'"
    unfolding show_dec_padded by (auto split: if_splits)
  from unsigned_print_inj [OF padded_digits padded_digits padded_length padded_length this]
  have "padded m s = padded m' s'" "s = s'" by blast+
  then have "nat \<bar>m\<bar> = nat \<bar>m'\<bar>" by (metis padded_val)
  with sg \<open>s = s'\<close> show ?thesis by auto
qed

lemma show_num_inj: "show_num a = show_num b \<Longrightarrow> norm_num a = norm_num b"
proof -
  assume eq: "show_num a = show_num b"
  obtain m s m' s' where n: "norm_num a = Dec m s" "norm_num b = Dec m' s'"
    by (metis jnum.exhaust)
  then have "strip_zeros m s = Dec m s" "strip_zeros m' s' = Dec m' s'"
    using norm_num_idem [of a] norm_num_idem [of b] by (simp_all add: norm_num_def)
  moreover from eq n have "m = m' \<and> s = s' \<or> (m = 0 \<and> m' = 0)"
    by (intro show_dec_inj) (simp add: show_num_def)
  moreover have z: "strip_zeros 0 k = Dec 0 0" for k
    by (induction k) simp_all
  ultimately show ?thesis using n by auto
qed

section \<open>Quoted strings\<close>

definition unhex :: "char \<Rightarrow> nat" where
  "unhex c = (if is_digit c then code_of c - 48 else code_of c - 87)"

fun unescape :: "string \<Rightarrow> (nat \<times> string) option" where
  "unescape [] = None"
| "unescape (c # s) =
     (if c \<noteq> CHR 0x5C then Some (code_of c, s)
      else (case s of
          [] \<Rightarrow> None
        | d # s' \<Rightarrow>
            if d = CHR ''b'' then Some (8, s') else if d = CHR ''f'' then Some (12, s')
            else if d = CHR ''n'' then Some (10, s') else if d = CHR ''r'' then Some (13, s')
            else if d = CHR ''t'' then Some (9, s')
            else if d = CHR ''u'' then (if length s' < 4 then None
                  else Some (unhex (s' ! 2) * 16 + unhex (s' ! 3), drop 4 s'))
            else Some (code_of d, s')))"

lemma unhex_digit: "n < 16 \<Longrightarrow> unhex (hex_digit n) = n"
  by (auto simp: unhex_def hex_digit_def is_digit_def)

lemma code_backslash: "c = CHR 0x5C \<longleftrightarrow> code_of c = (92::nat)"
proof
  assume "code_of c = (92::nat)"
  moreover have "code_of (CHR 0x5C) = (92::nat)" by simp
  ultimately show "c = CHR 0x5C" by (simp only: of_char_eq_iff [where 'a = nat, symmetric])
qed simp

lemma unescape_escape: "unescape (escape_char c @ s) = Some (code_of c, s)"
proof (cases "code_of c < (32::nat)")
  case True
  then have "unhex (hex_digit (code_of c div 16)) * 16 + unhex (hex_digit (code_of c mod 16)) = code_of c"
    by (simp add: unhex_digit)
  with True show ?thesis by (auto simp: escape_char_def Let_def)
next
  case False
  then show ?thesis by (auto simp: escape_char_def Let_def code_backslash)
qed

lemma escape_char_prefix: "escape_char c @ s = escape_char d @ t \<Longrightarrow> c = d \<and> s = t"
proof -
  assume "escape_char c @ s = escape_char d @ t"
  then have "Some (code_of c :: nat, s) = Some (code_of d, t)"
    by (metis unescape_escape)
  then show ?thesis by simp
qed

lemma escape_char_head: "escape_char c \<noteq> [] \<and> hd (escape_char c) \<noteq> CHR 0x22"
  by (auto simp: escape_char_def Let_def)

lemma escaped_prefix:
  "concat (map escape_char a) @ CHR 0x22 # s = concat (map escape_char b) @ CHR 0x22 # t \<Longrightarrow> a = b \<and> s = t"
proof (induction a arbitrary: b)
  case Nil
  show ?case
  proof (cases b)
    case (Cons d b')
    with Nil escape_char_head [of d] show ?thesis
      by (cases "escape_char d") auto
  qed (use Nil in simp)
next
  case (Cons c a)
  show ?case
  proof (cases b)
    case Nil
    with Cons.prems escape_char_head [of c] show ?thesis by (cases "escape_char c") auto
  next
    case (Cons d b')
    with Cons.prems have "c = d \<and> concat (map escape_char a) @ CHR 0x22 # s = concat (map escape_char b') @ CHR 0x22 # t"
      by (intro escape_char_prefix) simp
    with Cons.IH Cons show ?thesis by blast
  qed
qed

lemma quote_prefix: "quote a @ s = quote b @ t \<Longrightarrow> a = b \<and> s = t"
  using escaped_prefix [of a s b t] by (simp add: quote_def)

section \<open>Unique decoding\<close>

text \<open>What may follow a printed value inside an enclosing one.\<close>

definition follow :: "string \<Rightarrow> bool" where
  "follow s = (case s of [] \<Rightarrow> True | c # _ \<Rightarrow> c \<in> {CHR '','', CHR '']'', CHR ''}''})"

lemma follow_simps [simp]:
  "follow []" "follow (CHR '','' # s)" "follow (CHR '']'' # s)" "follow (CHR ''}'' # s)"
  by (simp_all add: follow_def)

lemma show_num_chars: "list_all num_char (show_num n)"
  by (simp add: show_num_def show_dec_chars split: jnum.splits)

lemma show_num_nonempty: "show_num n \<noteq> []"
  using padded_length by (auto simp: show_num_def show_dec_padded split: jnum.splits)

lemma num_prefix:
  assumes "show_num a @ s = show_num b @ t" "follow s" "follow t"
  shows "norm_num a = norm_num b \<and> s = t"
proof -
  have f: "takeWhile num_char (show_num n @ u) = show_num n" if "follow u" for n u
  proof -
    have "takeWhile num_char u = []"
      using that by (cases u) (auto simp: follow_def num_char_def is_digit_def)
    then show ?thesis
      using show_num_chars [of n] by (simp add: list_all_iff takeWhile_append2)
  qed
  have e: "show_num a = show_num b"
    using f [OF assms(2), of a] f [OF assms(3), of b] assms(1) by metis
  then have "s = t"
    using assms(1) by simp
  then show ?thesis
    using show_num_inj [OF e] by blast
qed

text \<open>The kind of a value shows in its first character.\<close>

definition head_kind :: "char \<Rightarrow> nat" where
  "head_kind c = (if c = CHR ''n'' then 0 else if c = CHR ''t'' then 1 else if c = CHR ''f'' then 2
     else if num_char c then 3 else if c = CHR 0x22 then 4 else if c = CHR ''['' then 5
     else if c = CHR ''{'' then 6 else 7)"

fun kind_of :: "json \<Rightarrow> nat" where
  "kind_of JNull = 0"
| "kind_of (JBool b) = (if b then 1 else 2)"
| "kind_of (JNum n) = 3"
| "kind_of (JStr s) = 4"
| "kind_of (JArr xs) = 5"
| "kind_of (JObj kvs) = 6"

lemma stringify_head: "\<exists>c cs. stringify j = c # cs \<and> head_kind c = kind_of j"
proof (cases j)
  case (JNum n)
  obtain c cs where "show_num n = c # cs"
    using show_num_nonempty by (meson neq_Nil_conv)
  moreover have "num_char c"
    using show_num_chars [of n] calculation by simp
  ultimately show ?thesis
    using JNum by (auto simp: head_kind_def num_char_def is_digit_def)
qed (auto simp: head_kind_def num_char_def is_digit_def quote_def)

lemma stringify_not_close: "\<exists>c cs. stringify j = c # cs \<and> c \<notin> {CHR '','', CHR '']'', CHR ''}''}"
proof -
  obtain c cs where "stringify j = c # cs" "head_kind c = kind_of j"
    using stringify_head by blast
  moreover have "kind_of j \<noteq> 7" by (cases j) auto
  ultimately show ?thesis
    by (auto simp: head_kind_def num_char_def is_digit_def)
qed

text \<open>The entries of an array, then of an object.\<close>

definition rest_text :: "string list \<Rightarrow> char \<Rightarrow> string \<Rightarrow> string" where
  "rest_text ps c u = (if ps = [] then c # u else CHR '','' # str_join '','' ps @ c # u)"

lemma join_rest: "str_join '','' (p # ps) @ c # u = p @ rest_text ps c u"
  by (cases ps) (simp_all add: rest_text_def)

lemma follow_rest: "c \<in> {CHR '']'', CHR ''}''} \<Longrightarrow> follow (rest_text ps c u)"
  by (auto simp: rest_text_def)

lemma array_prefix:
  assumes IH: "\<And>x y s t. x \<in> set xs \<Longrightarrow> num_normal y \<Longrightarrow> follow s \<Longrightarrow> follow t \<Longrightarrow>
      stringify x @ s = stringify y @ t \<Longrightarrow> x = y \<and> s = t"
    and ny: "\<forall>y \<in> set ys. num_normal y"
    and eq: "str_join '','' (map stringify xs) @ CHR '']'' # s = str_join '','' (map stringify ys) @ CHR '']'' # t"
  shows "xs = ys \<and> s = t"
  using assms
proof (induction xs arbitrary: ys)
  case Nil
  then show ?case
  proof (cases ys)
    case (Cons y ys')
    with Nil stringify_not_close [of y] show ?thesis
      by (auto simp: str_join_contains)
  qed simp
next
  case (Cons x xs)
  show ?case
  proof (cases ys)
    case Nil
    with Cons.prems(3) stringify_not_close [of x] show ?thesis
      by (auto simp: str_join_contains)
  next
    case ys: (Cons y ys')
    let ?r = "\<lambda>zs u. rest_text (map stringify zs) (CHR '']'') u"
    have "stringify x @ ?r xs s = stringify y @ ?r ys' t"
      using Cons.prems(3) unfolding ys list.map join_rest .
    moreover have "num_normal y" "follow (?r xs s)" "follow (?r ys' t)"
      using Cons.prems(2) ys by (simp_all add: follow_rest)
    ultimately have "x = y" and r: "?r xs s = ?r ys' t"
      using Cons.prems(1) [of x y "?r xs s" "?r ys' t"] by auto
    show ?thesis
    proof (cases "xs = [] \<or> ys' = []")
      case True
      with r \<open>x = y\<close> ys show ?thesis by (auto simp: rest_text_def split: if_splits)
    next
      case False
      with r have "str_join '','' (map stringify xs) @ CHR '']'' # s = str_join '','' (map stringify ys') @ CHR '']'' # t"
        by (simp add: rest_text_def)
      moreover have "\<forall>y \<in> set ys'. num_normal y"
        using Cons.prems(2) ys by simp
      ultimately have "xs = ys' \<and> s = t"
        using Cons.IH [of ys'] Cons.prems(1) by (meson list.set_intros(2))
      with ys \<open>x = y\<close> show ?thesis by simp
    qed
  qed
qed

abbreviation show_entry :: "string \<times> json \<Rightarrow> string" where
  "show_entry \<equiv> (\<lambda>(k, v). json_field k (stringify v))"

lemma object_prefix:
  assumes IH: "\<And>kv y s t. kv \<in> set xs \<Longrightarrow> num_normal y \<Longrightarrow> follow s \<Longrightarrow> follow t \<Longrightarrow>
      stringify (snd kv) @ s = stringify y @ t \<Longrightarrow> snd kv = y \<and> s = t"
    and ny: "\<forall>y \<in> set ys. num_normal (snd y)"
    and eq: "str_join '','' (map show_entry xs) @ CHR ''}'' # s = str_join '','' (map show_entry ys) @ CHR ''}'' # t"
  shows "xs = ys \<and> s = t"
  using assms
proof (induction xs arbitrary: ys)
  case Nil
  then show ?case
    by (cases ys) (auto simp: str_join_contains json_field_def quote_def)
next
  case (Cons x xs)
  show ?case
  proof (cases ys)
    case Nil
    with Cons.prems(3) show ?thesis
      by (cases x) (auto simp: str_join_contains json_field_def quote_def)
  next
    case ys: (Cons y ys')
    obtain k v k' v' where xy: "x = (k, v)" "y = (k', v')" by (cases x; cases y)
    let ?r = "\<lambda>zs u. rest_text (map show_entry zs) (CHR ''}'') u"
    have "quote k @ CHR '':'' # stringify v @ ?r xs s = quote k' @ CHR '':'' # stringify v' @ ?r ys' t"
      using Cons.prems(3) unfolding ys list.map join_rest xy by (simp add: json_field_def)
    then have k: "k = k'" and v: "stringify v @ ?r xs s = stringify v' @ ?r ys' t"
      using quote_prefix by blast+
    moreover have "num_normal v'" "follow (?r xs s)" "follow (?r ys' t)"
      using Cons.prems(2) ys xy by (simp_all add: follow_rest)
    ultimately have "v = v'" and r: "?r xs s = ?r ys' t"
      using Cons.prems(1) [of x v' "?r xs s" "?r ys' t"] xy by auto
    show ?thesis
    proof (cases "xs = [] \<or> ys' = []")
      case True
      with r k \<open>v = v'\<close> xy ys show ?thesis by (auto simp: rest_text_def split: if_splits)
    next
      case False
      with r have "str_join '','' (map show_entry xs) @ CHR ''}'' # s = str_join '','' (map show_entry ys') @ CHR ''}'' # t"
        by (simp add: rest_text_def)
      moreover have "\<forall>y \<in> set ys'. num_normal (snd y)"
        using Cons.prems(2) ys by simp
      ultimately have "xs = ys' \<and> s = t"
        using Cons.IH [of ys'] Cons.prems(1) by (meson list.set_intros(2))
      with ys xy k \<open>v = v'\<close> show ?thesis by simp
    qed
  qed
qed

lemma stringify_prefix:
  "num_normal x \<Longrightarrow> num_normal y \<Longrightarrow> follow s \<Longrightarrow> follow t \<Longrightarrow> stringify x @ s = stringify y @ t \<Longrightarrow> x = y \<and> s = t"
proof (induction x arbitrary: y s t rule: stringify.induct)
  case (1 y s t)
  have "kind_of y = 0"
    using stringify_head [of y] 1 by (auto simp: head_kind_def)
  then have "y = JNull" by (cases y) (auto split: if_splits)
  with 1 show ?case by simp
next
  case (2 b y s t)
  have "kind_of y = (if b then 1 else 2)"
    using stringify_head [of y] 2 by (auto simp: head_kind_def)
  then have "y = JBool b" by (cases y) (auto split: if_splits)
  with 2 show ?case by (simp split: if_splits)
next
  case (3 n y s t)
  obtain c cs where y: "stringify y = c # cs" "head_kind c = kind_of y"
    using stringify_head by blast
  obtain d ds where d: "show_num n = d # ds" "num_char d"
    using show_num_nonempty [of n] show_num_chars [of n] by (cases "show_num n") auto
  have "c = d" using 3 y d by simp
  then have "kind_of y = 3"
    using y d by (auto simp: head_kind_def num_char_def is_digit_def split: if_splits)
  then obtain m where "y = JNum m" by (cases y) (auto split: if_splits)
  with 3 num_prefix [of n s m t] show ?case by simp
next
  case (4 a y s t)
  have "kind_of y = 4"
    using stringify_head [of y] 4 by (auto simp: quote_def head_kind_def num_char_def is_digit_def)
  then obtain b where "y = JStr b" by (cases y) (auto split: if_splits)
  with 4 quote_prefix [of a s b t] show ?case by simp
next
  case (5 xs y s t)
  have "kind_of y = 5"
    using stringify_head [of y] 5 by (auto simp: head_kind_def num_char_def is_digit_def)
  then obtain ys where y: "y = JArr ys" by (cases y) (auto split: if_splits)
  have "xs = ys \<and> s = t"
  proof (rule array_prefix)
    fix x z u w
    assume a: "x \<in> set xs" "num_normal z" "follow u" "follow w" "stringify x @ u = stringify z @ w"
    have "num_normal x" using 5(2) a(1) by simp
    with a show "x = z \<and> u = w" by (intro 5(1))
  qed (use 5 y in simp_all)
  with y show ?case by simp
next
  case (6 kvs y s t)
  have "kind_of y = 6"
    using stringify_head [of y] 6 by (auto simp: head_kind_def num_char_def is_digit_def)
  then obtain ys where y: "y = JObj ys" by (cases y) (auto split: if_splits)
  have "kvs = ys \<and> s = t"
  proof (rule object_prefix)
    fix kv z u w
    assume a: "kv \<in> set kvs" "num_normal z" "follow u" "follow w" "stringify (snd kv) @ u = stringify z @ w"
    have "num_normal (snd kv)" using 6(2) a(1) by simp
    with a show "snd kv = z \<and> u = w"
      using 6(1) [of kv "fst kv" "snd kv" z u w] by simp
  qed (use 6 y in simp_all)
  with y show ?case by simp
qed

lemma canonical_eq_iff: "canonical a = canonical b \<longleftrightarrow> normal a = normal b"
proof
  assume "canonical a = canonical b"
  then have "stringify (normal a) @ [] = stringify (normal b) @ []"
    by (simp add: canonical_normal)
  then show "normal a = normal b"
    using stringify_prefix [OF num_normal_normal num_normal_normal follow_simps(1) follow_simps(1)]
    by blast
qed (simp add: canonical_normal)

section \<open>Objects with the same content\<close>

text \<open>For objects without repeated keys, equal normal forms mean equal fields.\<close>

lemma normal_obj_lookup:
  assumes "normal (JObj kvs) = normal (JObj kvs')" "distinct (map fst kvs)" "distinct (map fst kvs')"
  shows "map_option normal (map_of kvs k) = map_option normal (map_of kvs' k)"
proof -
  let ?g = "\<lambda>(k, v). (k, normal v)"
  have keys: "map fst (map ?g xs) = map fst xs" for xs :: "(string \<times> json) list"
    by (induction xs) auto
  have look: "map_of (map ?g xs) k = map_option normal (map_of xs k)" for xs
    by (induction xs) auto
  have "sort_key fst (map ?g kvs) = sort_key fst (map ?g kvs')"
    using assms(1) by simp
  then have "set (sort_key fst (map ?g kvs)) = set (sort_key fst (map ?g kvs'))"
    by (rule arg_cong)
  then have "set (map ?g kvs) = set (map ?g kvs')"
    by simp
  then have "map_of (map ?g kvs) = map_of (map ?g kvs')"
    using map_of_inject_set [of "map ?g kvs" "map ?g kvs'"] assms(2,3) keys by metis
  then show ?thesis
    using look by metis
qed

lemma normal_obj_same_keys:
  assumes "normal (JObj kvs) = normal (JObj kvs')" "map fst kvs = map fst kvs'" "distinct (map fst kvs)"
  shows "map (\<lambda>kv. normal (snd kv)) kvs = map (\<lambda>kv. normal (snd kv)) kvs'"
proof (rule nth_equalityI)
  have len: "length kvs = length kvs'"
    by (rule map_eq_imp_length_eq [OF assms(2)])
  then show "length (map (\<lambda>kv. normal (snd kv)) kvs) = length (map (\<lambda>kv. normal (snd kv)) kvs')"
    by simp
  fix i assume "i < length (map (\<lambda>kv. normal (snd kv)) kvs)"
  then have i: "i < length kvs" "i < length kvs'"
    using len by auto
  have k: "fst (kvs ! i) = fst (kvs' ! i)"
    using assms(2) i nth_map by metis
  have "map_of kvs (fst (kvs ! i)) = Some (snd (kvs ! i))"
    "map_of kvs' (fst (kvs ! i)) = Some (snd (kvs' ! i))"
    using assms(2,3) i k by (auto intro!: map_of_is_SomeI simp: prod_eq_iff in_set_conv_nth)
  then show "map (\<lambda>kv. normal (snd kv)) kvs ! i = map (\<lambda>kv. normal (snd kv)) kvs' ! i"
    using normal_obj_lookup [OF assms(1,3), of "fst (kvs ! i)"] assms(2,3) i by simp
qed

text \<open>Fields that are absent when \<open>undefined\<close>.\<close>

definition opt_field :: "string \<Rightarrow> json option \<Rightarrow> (string \<times> json) list" where
  "opt_field k v = (case v of None \<Rightarrow> [] | Some j \<Rightarrow> [(k, j)])"

lemma opt_field_simps [simp]: "opt_field k None = []" "opt_field k (Some j) = [(k, j)]"
  by (simp_all add: opt_field_def)

definition opt_json :: "('a \<Rightarrow> json) \<Rightarrow> 'a option \<Rightarrow> json" where
  \<comment> \<open>a value that may be \<open>null\<close>\<close>
  "opt_json f v = (case v of None \<Rightarrow> JNull | Some x \<Rightarrow> f x)"

lemma opt_json_simps [simp]: "opt_json f None = JNull" "opt_json f (Some x) = f x"
  by (simp_all add: opt_json_def)

definition jstrs :: "string list \<Rightarrow> json" where
  "jstrs xs = JArr (map JStr xs)"

definition jint :: "int \<Rightarrow> json" where
  "jint i = JNum (Dec i 0)"

lemma normal_jint [simp]: "normal (jint i) = jint i"
  by (simp add: jint_def norm_num_def)

lemma jint_inject [simp]: "jint i = jint j \<longleftrightarrow> i = j"
  by (simp add: jint_def)

lemma normal_jstrs [simp]: "normal (jstrs xs) = jstrs xs"
  by (simp add: jstrs_def comp_def)

lemma jstrs_inject [simp]: "jstrs xs = jstrs ys \<longleftrightarrow> xs = ys"
  by (simp add: jstrs_def inj_map_eq_map inj_on_def)

text \<open>\<open>sha256(canonical(value))\<close> as hex, for the digest function given.\<close>

definition hash_json :: "(string \<Rightarrow> string) \<Rightarrow> json \<Rightarrow> string" where
  "hash_json sha j = sha (canonical j)"

text \<open>
  A digest of fixed width has collisions, so no theorem assumes it has none. The statements below
  name the two texts: equal digests mean equal contents, or these two texts are a collision.
\<close>

lemma hash_json_eqD:
  "hash_json sha a = hash_json sha b \<Longrightarrow> normal a = normal b \<or> \<not> inj_on sha {canonical a, canonical b}"
  unfolding hash_json_def canonical_eq_iff [symmetric] by (auto simp: inj_on_def)

lemma hash_json_inj:
  "hash_json sha a = hash_json sha b \<Longrightarrow> inj_on sha {canonical a, canonical b} \<Longrightarrow> normal a = normal b"
  using hash_json_eqD by blast

end
