(* ===== verification/Evidence_Store.thy ===== *)
theory Evidence_Store
  imports Js_Canonical
begin

text \<open>
  \<open>packages/evidence-core\<close>: the durable store of the Gate and the execution broker. Its state
  table is keyed by kind and id; the model keeps one table per kind, so a table is an association
  list from ids. Its evidence table is a list of rows chained by hash. The interfaces other
  components rely on are two locales: \<open>keyed_table\<close> (what a get returns after a put) and
  \<open>hash_chain\<close> (a chain of records is determined by its last hash, or two texts it digested
  collide); the second is interpreted here and again by the Ledger.
\<close>

section \<open>The keyed state table\<close>

type_synonym 'v table = "(string \<times> 'v) list"

definition st_get :: "string \<Rightarrow> 'v table \<Rightarrow> 'v option" where
  "st_get i t = map_of t i"

definition st_list :: "'v table \<Rightarrow> 'v list" where
  \<comment> \<open>\<open>SELECT body ... ORDER BY id\<close>\<close>
  "st_list t = map snd (sort_key fst t)"

definition st_put :: "string \<Rightarrow> 'v \<Rightarrow> 'v table \<Rightarrow> 'v table" where
  "st_put i v t = al_put i v t"

definition table_wf :: "'v table \<Rightarrow> bool" where
  \<comment> \<open>the primary key\<close>
  "table_wf t = distinct (map fst t)"

locale keyed_table =
  fixes get :: "string \<Rightarrow> 't \<Rightarrow> 'v option"
    and put :: "string \<Rightarrow> 'v \<Rightarrow> 't \<Rightarrow> 't"
    and entries :: "'t \<Rightarrow> 'v list"
    and wf :: "'t \<Rightarrow> bool"
  assumes get_put_same: "get i (put i v t) = Some v"
    and get_put_other: "j \<noteq> i \<Longrightarrow> get j (put i v t) = get j t"
    and wf_put: "wf t \<Longrightarrow> wf (put i v t)"
    and entries_get: "wf t \<Longrightarrow> set (entries t) = {v. \<exists>i. get i t = Some v}"
begin

lemma get_put: "get j (put i v t) = (if j = i then Some v else get j t)"
  by (simp add: get_put_same get_put_other)

lemma entries_all: "wf t \<Longrightarrow> (\<forall>v \<in> set (entries t). P v) \<longleftrightarrow> (\<forall>i v. get i t = Some v \<longrightarrow> P v)"
  by (auto simp: entries_get)

lemma entries_all_put:
  assumes "wf t" "\<forall>v \<in> set (entries t). P v" "P v"
  shows "\<forall>v \<in> set (entries (put i v t)). P v"
  using assms by (auto simp: entries_get wf_put get_put split: if_splits)

lemma put_same_get: "get i t = Some v \<Longrightarrow> get j (put i v t) = get j t"
  by (simp add: get_put)

end

interpretation table: keyed_table st_get st_put st_list table_wf
proof
  fix t :: "'v table" assume "table_wf t"
  then show "set (st_list t) = {v. \<exists>i. st_get i t = Some v}"
    by (force simp: st_list_def st_get_def table_wf_def)
qed (simp_all add: st_get_def st_put_def table_wf_def distinct_al_put)

text \<open>A transaction either commits the state its body returns or leaves the state as it was.\<close>

definition st_transaction :: "('s \<Rightarrow> ('e, 's \<times> 'a) res) \<Rightarrow> 's \<Rightarrow> 's \<times> ('e, 'a) res" where
  "st_transaction work s = (case work s of Inl e \<Rightarrow> (s, Inl e) | Inr (s', x) \<Rightarrow> (s', Inr x))"

lemma st_transaction_rollback: "snd (st_transaction work s) = Inl e \<Longrightarrow> fst (st_transaction work s) = s"
  by (auto simp: st_transaction_def split: sum.splits)

lemma st_transaction_commit:
  "st_transaction work s = (s', Inr x) \<longleftrightarrow> work s = Inr (s', x)"
  by (auto simp: st_transaction_def split: sum.splits)

section \<open>Hash chains\<close>

fun chain_from :: "(string \<Rightarrow> string) \<Rightarrow> ('r \<Rightarrow> json) \<Rightarrow> ('r \<Rightarrow> string) \<Rightarrow> ('r \<Rightarrow> string) \<Rightarrow> string \<Rightarrow> 'r list \<Rightarrow> bool" where
  "chain_from sha content prev own p [] = True"
| "chain_from sha content prev own p (r # rs) =
     (prev r = p \<and> own r = hash_json sha (content r) \<and> chain_from sha content prev own (own r) rs)"

fun head_from :: "('r \<Rightarrow> string) \<Rightarrow> string \<Rightarrow> 'r list \<Rightarrow> string" where
  "head_from own p [] = p"
| "head_from own p (r # rs) = head_from own (own r) rs"

lemma head_from_snoc [simp]: "head_from own p (rs @ [r]) = own r"
  by (induction rs arbitrary: p) simp_all

lemma chain_from_append:
  "chain_from sha content prev own p (as @ bs) \<longleftrightarrow>
     chain_from sha content prev own p as \<and> chain_from sha content prev own (head_from own p as) bs"
  by (induction as arbitrary: p) simp_all

locale hash_chain =
  fixes sha :: "string \<Rightarrow> string"
    and content :: "'r \<Rightarrow> json"
    and prev own :: "'r \<Rightarrow> string"
    and facts :: "'r \<Rightarrow> 'b"
  assumes content_binds:
    "normal (content r) = normal (content r') \<Longrightarrow> prev r = prev r' \<and> facts r = facts r'"
begin

abbreviation chain :: "string \<Rightarrow> 'r list \<Rightarrow> bool" where
  "chain \<equiv> chain_from sha content prev own"

abbreviation texts :: "'r list \<Rightarrow> string set" where
  \<comment> \<open>what was digested for these records\<close>
  "texts rs \<equiv> canonical ` content ` set rs"

lemma linked:
  assumes "own r = hash_json sha (content r)" "own r' = hash_json sha (content r')" "own r = own r'"
    "inj_on sha X" "canonical (content r) \<in> X" "canonical (content r') \<in> X"
  shows "prev r = prev r' \<and> facts r = facts r'"
proof (rule content_binds, rule hash_json_inj)
  show "hash_json sha (content r) = hash_json sha (content r')"
    using assms(1-3) by simp
  show "inj_on sha {canonical (content r), canonical (content r')}"
    by (rule inj_on_subset [OF assms(4)]) (use assms(5,6) in auto)
qed

text \<open>The last hash of a chain determines every record of it.\<close>

lemma head_determines:
  assumes "length rs = length rs'" "chain p rs" "chain p rs'" "head_from own p rs = head_from own p rs'"
    "inj_on sha (texts rs \<union> texts rs')"
  shows "map facts rs = map facts rs'"
  using assms
proof (induction rs arbitrary: rs' rule: rev_induct)
  case (snoc r rs)
  obtain us u where rs': "rs' = us @ [u]"
    using snoc.prems(1) by (metis length_Suc_conv_rev length_append_singleton)
  have own: "own r = hash_json sha (content r)" "own u = hash_json sha (content u)" "own r = own u"
    "prev r = head_from own p rs" "prev u = head_from own p us"
    using snoc.prems(2,3,4) by (simp_all add: rs' chain_from_append)
  have pf: "prev r = prev u \<and> facts r = facts u"
    by (rule linked [OF own(1-3) snoc.prems(5)]) (simp_all add: rs')
  have "inj_on sha (texts rs \<union> texts us)"
    by (rule inj_on_subset [OF snoc.prems(5)]) (auto simp: rs')
  then have "map facts rs = map facts us"
    using snoc.prems own pf by (intro snoc.IH) (simp_all add: rs' chain_from_append)
  with pf show ?case by (simp add: rs')
qed simp

text \<open>Changing what any one record states breaks the chain or changes its head.\<close>

lemma tamper_evident:
  assumes "chain p (as @ r # bs)" "facts r \<noteq> facts r'" "length bs' = length bs"
    "inj_on sha (texts (as @ r # bs) \<union> texts (as @ r' # bs'))"
  shows "\<not> (chain p (as @ r' # bs') \<and> head_from own p (as @ r' # bs') = head_from own p (as @ r # bs))"
proof
  assume new: "chain p (as @ r' # bs') \<and> head_from own p (as @ r' # bs') = head_from own p (as @ r # bs)"
  have "map facts (as @ r # bs) = map facts (as @ r' # bs')"
    by (rule head_determines [OF _ assms(1) conjunct1 [OF new] conjunct2 [OF new, symmetric] assms(4)])
      (simp add: assms(3))
  with assms show False by simp
qed

end

section \<open>The evidence table\<close>

record evidence_row =
  ev_body :: string
  ev_previous :: string
  ev_hash :: string

definition genesis :: string where
  "genesis = ''GENESIS''"

definition row_content :: "evidence_row \<Rightarrow> json" where
  "row_content r = JObj [(''previous'', JStr (ev_previous r)), (''body'', JStr (ev_body r))]"

definition last_hash :: "evidence_row list \<Rightarrow> string" where
  "last_hash rows = (if rows = [] then genesis else ev_hash (last rows))"

definition ev_append :: "(string \<Rightarrow> string) \<Rightarrow> json \<Rightarrow> evidence_row list \<Rightarrow> evidence_row list" where
  "ev_append sha event rows =
     (let previous = last_hash rows; body = stringify event
      in rows @ [\<lparr>ev_body = body, ev_previous = previous,
           ev_hash = hash_json sha (JObj [(''previous'', JStr previous), (''body'', JStr body)])\<rparr>])"

fun verify_rows :: "(string \<Rightarrow> string) \<Rightarrow> string \<Rightarrow> evidence_row list \<Rightarrow> (string, unit) res" where
  "verify_rows sha previous [] = Inr ()"
| "verify_rows sha previous (r # rs) =
     (if ev_previous r \<noteq> previous
         \<or> ev_hash r \<noteq> hash_json sha (JObj [(''previous'', JStr previous), (''body'', JStr (ev_body r))])
      then Inl ''Evidence integrity check failed''
      else verify_rows sha (ev_hash r) rs)"

definition verify_evidence :: "(string \<Rightarrow> string) \<Rightarrow> evidence_row list \<Rightarrow> (string, unit) res" where
  "verify_evidence sha rows = verify_rows sha genesis rows"

lemma verify_rows_chain:
  "verify_rows sha p rows = Inr () \<longleftrightarrow> chain_from sha row_content ev_previous ev_hash p rows"
  by (induction rows arbitrary: p) (auto simp: row_content_def)

lemma last_hash_head: "last_hash rows = head_from ev_hash genesis rows"
  by (cases rows rule: rev_cases) (simp_all add: last_hash_def)

interpretation evidence: hash_chain sha row_content ev_previous ev_hash ev_body for sha
proof
  fix r r' :: evidence_row
  assume "normal (row_content r) = normal (row_content r')"
  then show "ev_previous r = ev_previous r' \<and> ev_body r = ev_body r'"
    by (simp add: row_content_def)
qed

lemma verify_append:
  assumes "verify_evidence sha rows = Inr ()"
  shows "verify_evidence sha (ev_append sha event rows) = Inr ()"
  using assms
  by (simp add: verify_evidence_def verify_rows_chain ev_append_def Let_def chain_from_append
      last_hash_head row_content_def)

lemma ev_append_extends: "\<exists>r. ev_append sha event rows = rows @ [r] \<and> ev_body r = stringify event"
  by (simp add: ev_append_def Let_def)

text \<open>Many appends.\<close>

definition ev_append_all :: "(string \<Rightarrow> string) \<Rightarrow> json list \<Rightarrow> evidence_row list \<Rightarrow> evidence_row list" where
  "ev_append_all sha events rows = foldl (\<lambda>rs e. ev_append sha e rs) rows events"

lemma verify_append_all:
  "verify_evidence sha rows = Inr () \<Longrightarrow> verify_evidence sha (ev_append_all sha events rows) = Inr ()"
  by (induction events arbitrary: rows) (simp_all add: ev_append_all_def verify_append)

end
