(* ===== verification/Authority_Envelope.thy ===== *)
theory Authority_Envelope
  imports Js_Date Evidence_Store
begin

text \<open>
  \<open>packages/shared-schema\<close> and \<open>packages/authority-envelope\<close>: the records the schemas infer,
  what the schemas accept (\<open>*_ok\<close>), and the resource matching of the policy engine. The schema
  library itself is not modelled: an input has the type its schema infers, and the predicates say
  which values of that type the declarations in the source let through.
\<close>

section \<open>Scalars of the shared schema\<close>

definition id_ok :: "string \<Rightarrow> bool" where
  "id_ok s = (case s of [] \<Rightarrow> False
     | c # cs \<Rightarrow> is_alnum c \<and> length cs \<le> 127 \<and> list_all (\<lambda>x. is_alnum x \<or> char_in ''._-'' x) cs)"

definition label_ok :: "string \<Rightarrow> bool" where
  "label_ok s = (1 \<le> length s \<and> length s \<le> 512)"

definition timestamp_ok :: "string \<Rightarrow> bool" where
  "timestamp_ok s = (date_parse s \<noteq> None)"

definition host_label_ok :: "string \<Rightarrow> bool" where
  "host_label_ok s = (s \<noteq> [] \<and> list_all (\<lambda>c. is_lower c \<or> is_digit c \<or> c = CHR ''-'') s
     \<and> hd s \<noteq> CHR ''-'' \<and> last s \<noteq> CHR ''-'')"

definition host_ok :: "string \<Rightarrow> bool" where
  "host_ok s = (length s \<le> 253 \<and> list_all host_label_ok (str_split (CHR ''.'') s))"

definition money_ok :: "rat \<Rightarrow> bool" where
  "money_ok x = (0 \<le> x \<and> x \<le> 1000000 \<and> of_int \<lfloor>x * 1000000\<rfloor> = x * 1000000)"

datatype resource_kind = Repositories | Files | Databases | Infrastructure | Secrets | Agents

datatype operation = Read | Write | Access | Communicate

record auth_request =
  rq_agentId :: string
  rq_action :: string
  rq_tool :: string
  rq_resource :: string
  rq_destination :: "string option"
  rq_estimatedCostUsd :: rat
  rq_approvalId :: "string option"

definition opt_ok :: "('a \<Rightarrow> bool) \<Rightarrow> 'a option \<Rightarrow> bool" where
  "opt_ok p v = (case v of None \<Rightarrow> True | Some x \<Rightarrow> p x)"

definition request_ok :: "('a) auth_request_scheme \<Rightarrow> bool" where
  "request_ok r = (id_ok (rq_agentId r) \<and> id_ok (rq_action r) \<and> id_ok (rq_tool r)
     \<and> label_ok (rq_resource r) \<and> opt_ok host_ok (rq_destination r)
     \<and> money_ok (rq_estimatedCostUsd r) \<and> opt_ok id_ok (rq_approvalId r))"

section \<open>The envelope\<close>

record env_agent =
  ea_id :: string  ea_name :: string  ea_role :: string  ea_owner :: string
  ea_environment :: string  ea_expires_at :: string

record env_objective =
  ob_task_id :: string  ob_goal :: string
  ob_allowed_outcomes :: "string list"  ob_forbidden_outcomes :: "string list"

record permissions =
  pm_read :: "string list"
  pm_write :: "string list"

record env_resources =
  er_repositories :: permissions  er_files :: permissions
  er_databases :: permissions  er_infrastructure :: permissions

record allow_deny =
  ad_allow :: "string list"
  ad_deny :: "string list"

record secret_grant =
  sg_name :: string  sg_mode :: string  sg_ttl_seconds :: int

record env_secrets =
  es_allow :: "secret_grant list"
  es_deny :: "string list"

record env_agents =
  eg_communicate_with :: "string list"  eg_communication_mode :: string
  eg_shared_memory :: bool  eg_deny_unknown_agents :: bool

record env_limits =
  li_max_runtime_seconds :: int  li_max_tool_calls :: int  li_max_external_requests :: int
  li_max_cost_usd :: rat  li_max_retries_per_action :: int

record approval_rule =
  ar_action :: string
  ar_approver_role :: string

record env_risk =
  ri_level :: string  ri_blast_radius :: string  ri_rollback_required :: bool

record env_evidence =
  ee_capture :: "string list"
  ee_retention_days :: int

record env_violation_policy =
  vp_unknown_tool :: string  vp_undeclared_resource :: string  vp_unauthorized_agent_contact :: string
  vp_network_violation :: string  vp_secret_violation :: string  vp_cost_limit_exceeded :: string
  vp_runtime_limit_exceeded :: string

record action_binding =
  ab_action :: string  ab_outcome :: string  ab_tool :: string
  ab_resource_kind :: resource_kind  ab_operation :: operation  ab_destination_required :: bool

record envelope =
  en_version :: string
  en_agent :: env_agent
  en_objective :: env_objective
  en_resources :: env_resources
  en_tools :: allow_deny
  en_network :: allow_deny
  en_secrets :: env_secrets
  en_agents :: env_agents
  en_limits :: env_limits
  en_approvals :: "approval_rule list"
  en_risk :: env_risk
  en_evidence :: env_evidence
  en_violation_policy :: env_violation_policy
  en_action_bindings :: "action_binding list"

text \<open>The fields of the schema, group by group.\<close>

definition list_ok :: "string list \<Rightarrow> bool" where
  "list_ok xs = (length xs \<le> 1000 \<and> list_all label_ok xs)"

definition permissions_ok :: "permissions \<Rightarrow> bool" where
  "permissions_ok p = (list_ok (pm_read p) \<and> list_ok (pm_write p))"

definition violation_ok :: "string \<Rightarrow> bool" where
  "violation_ok s = (s \<in> set [''block'', ''terminate'', ''terminate_and_rotate'', ''pause_and_escalate''])"

definition capture_kinds :: "string list" where
  "capture_kinds = [''agent_identity'', ''policy_hash'', ''tool_calls'', ''network_destinations'',
     ''resources_read'', ''resources_modified'', ''secrets_accessed'', ''approvals'',
     ''verifier_verdict'', ''cost'', ''timestamps'']"

definition env_identity_ok :: "envelope \<Rightarrow> bool" where
  "env_identity_ok e =
     (let a = en_agent e; ob = en_objective e in
      en_version e = ''1.0'' \<and> id_ok (ea_id a) \<and> label_ok (ea_name a) \<and> id_ok (ea_role a)
      \<and> id_ok (ea_owner a) \<and> id_ok (ea_environment a) \<and> timestamp_ok (ea_expires_at a)
      \<and> id_ok (ob_task_id ob) \<and> label_ok (ob_goal ob)
      \<and> list_ok (ob_allowed_outcomes ob) \<and> 1 \<le> length (ob_allowed_outcomes ob)
      \<and> list_ok (ob_forbidden_outcomes ob))"

definition env_access_ok :: "envelope \<Rightarrow> bool" where
  "env_access_ok e =
     (let r = en_resources e; s = en_secrets e; g = en_agents e in
      permissions_ok (er_repositories r) \<and> permissions_ok (er_files r) \<and> permissions_ok (er_databases r)
      \<and> permissions_ok (er_infrastructure r)
      \<and> list_all id_ok (ad_allow (en_tools e)) \<and> list_all id_ok (ad_deny (en_tools e))
      \<and> list_all host_ok (ad_allow (en_network e))
      \<and> list_all (\<lambda>h. host_ok h \<or> h = ''*'') (ad_deny (en_network e))
      \<and> list_all (\<lambda>x. id_ok (sg_name x) \<and> sg_mode x = ''ephemeral'' \<and> 0 < sg_ttl_seconds x
           \<and> sg_ttl_seconds x \<le> 86400) (es_allow s)
      \<and> list_ok (es_deny s) \<and> list_all id_ok (eg_communicate_with g)
      \<and> eg_communication_mode g = ''authenticated'' \<and> \<not> eg_shared_memory g \<and> eg_deny_unknown_agents g)"

definition env_limits_ok :: "envelope \<Rightarrow> bool" where
  "env_limits_ok e =
     (let l = en_limits e; v = en_violation_policy e; ev = en_evidence e; ri = en_risk e in
      0 < li_max_runtime_seconds l \<and> li_max_runtime_seconds l \<le> 86400 \<and> 0 < li_max_tool_calls l
      \<and> 0 \<le> li_max_external_requests l \<and> money_ok (li_max_cost_usd l) \<and> 0 \<le> li_max_retries_per_action l
      \<and> list_all (\<lambda>x. id_ok (ar_action x) \<and> id_ok (ar_approver_role x)) (en_approvals e)
      \<and> ri_level ri \<in> set [''low'', ''medium'', ''high'', ''critical''] \<and> label_ok (ri_blast_radius ri)
      \<and> list_all (\<lambda>c. c \<in> set capture_kinds) (ee_capture ev) \<and> 0 < ee_retention_days ev
      \<and> list_all violation_ok [vp_unknown_tool v, vp_undeclared_resource v, vp_unauthorized_agent_contact v,
           vp_network_violation v, vp_secret_violation v, vp_cost_limit_exceeded v, vp_runtime_limit_exceeded v])"

definition env_bindings_ok :: "envelope \<Rightarrow> bool" where
  "env_bindings_ok e =
     (1 \<le> length (en_action_bindings e) \<and> length (en_action_bindings e) \<le> 1000
      \<and> list_all (\<lambda>b. id_ok (ab_action b) \<and> label_ok (ab_outcome b) \<and> id_ok (ab_tool b)) (en_action_bindings e))"

section \<open>Resource matching\<close>

definition valid_file :: "string \<Rightarrow> bool" where
  "valid_file path =
     (starts_with ''/'' path \<and> \<not> list_ex (\<lambda>c. c = CHR 0x5C \<or> c = CHR ''%'' \<or> c = CHR ''*'') path
      \<and> \<not> list_ex is_control path
      \<and> list_all (\<lambda>part. part \<noteq> '''' \<and> part \<noteq> ''.'' \<and> part \<noteq> ''..'') (tl (str_split (CHR ''/'') path)))"

definition pattern_matches :: "bool \<Rightarrow> string \<Rightarrow> string \<Rightarrow> bool" where
  "pattern_matches files resource pattern =
     (if files \<and> ends_with ''/**'' pattern then starts_with (drop_end 2 pattern) resource
      else resource = pattern)"

definition matches_resource :: "string \<Rightarrow> string list \<Rightarrow> bool \<Rightarrow> bool" where
  "matches_resource resource patterns files =
     (if files \<and> \<not> valid_file resource then False
      else list_ex (pattern_matches files resource) patterns)"

section \<open>The cross-field refinement\<close>

definition valid_operation :: "action_binding \<Rightarrow> bool" where
  "valid_operation b =
     (if ab_resource_kind b = Secrets then ab_operation b = Access
      else if ab_resource_kind b = Agents then ab_operation b = Communicate
      else ab_operation b = Read \<or> ab_operation b = Write)"

definition bad_binding :: "envelope \<Rightarrow> string list \<Rightarrow> action_binding \<Rightarrow> bool" where
  "bad_binding e seen b =
     (ab_action b \<in> set seen \<or> \<not> valid_operation b
      \<or> ab_outcome b \<notin> set (ob_allowed_outcomes (en_objective e))
      \<or> ab_outcome b \<in> set (ob_forbidden_outcomes (en_objective e))
      \<or> ab_tool b \<notin> set (ad_allow (en_tools e)) \<or> ab_tool b \<in> set (ad_deny (en_tools e))
      \<or> starts_with ''envelope.'' (ab_action b) \<or> starts_with ''agent.register'' (ab_action b))"

fun binding_issues :: "envelope \<Rightarrow> string list \<Rightarrow> action_binding list \<Rightarrow> string list" where
  "binding_issues e seen [] = []"
| "binding_issues e seen (b # bs) =
     (if bad_binding e seen b
      then [''Invalid, duplicate, forbidden, or inconsistent action binding''] else [])
     @ binding_issues e (ab_action b # seen) bs"

fun approval_issues :: "string list \<Rightarrow> string list \<Rightarrow> approval_rule list \<Rightarrow> string list" where
  "approval_issues seen approvals [] = []"
| "approval_issues seen approvals (r # rs) =
     (if ar_action r \<notin> set seen \<or> ar_action r \<in> set approvals
      then [''Approval must refer to one unique bound action''] else [])
     @ approval_issues seen (ar_action r # approvals) rs"

definition strip_scope :: "string \<Rightarrow> string" where
  "strip_scope pattern = (if ends_with ''/**'' pattern then drop_end 3 pattern else pattern)"

definition file_issues :: "envelope \<Rightarrow> string list" where
  "file_issues e =
     (let f = er_files (en_resources e) in
      concat (map (\<lambda>pattern. if \<not> valid_file (strip_scope pattern)
        then [''File scopes must be canonical absolute POSIX paths, optionally ending in /**''] else [])
        (pm_read f @ pm_write f)))"

definition refine_issues :: "envelope \<Rightarrow> string list" where
  "refine_issues e =
     binding_issues e [] (en_action_bindings e)
     @ approval_issues (map ab_action (en_action_bindings e)) [] (en_approvals e)
     @ file_issues e"

definition envelope_ok :: "envelope \<Rightarrow> bool" where
  "envelope_ok e = (env_identity_ok e \<and> env_access_ok e \<and> env_limits_ok e \<and> env_bindings_ok e
     \<and> refine_issues e = [])"

definition envelope_parse :: "envelope option \<Rightarrow> envelope option" where
  \<comment> \<open>\<open>envelopeSchema.parse\<close>; \<open>None\<close> is an input of another shape\<close>
  "envelope_parse raw = (case raw of Some e \<Rightarrow> if envelope_ok e then Some e else None | None \<Rightarrow> None)"

lemma bad_binding_seen:
  "bad_binding e seen b \<longleftrightarrow> bad_binding e [] b \<or> ab_action b \<in> set seen"
  by (auto simp: bad_binding_def)

lemma binding_issues_none:
  "binding_issues e seen bs = [] \<longleftrightarrow>
     (\<forall>b \<in> set bs. \<not> bad_binding e [] b \<and> ab_action b \<notin> set seen) \<and> distinct (map ab_action bs)"
proof (induction bs arbitrary: seen)
  case (Cons b bs)
  show ?case
    using bad_binding_seen [of e seen b] by (simp add: Cons.IH image_iff) metis
qed simp

lemma approval_issues_none:
  "approval_issues seen taken rs = [] \<longleftrightarrow>
     (\<forall>r \<in> set rs. ar_action r \<in> set seen \<and> ar_action r \<notin> set taken) \<and> distinct (map ar_action rs)"
proof (induction rs arbitrary: taken)
  case (Cons r rs)
  show ?case
    by (simp add: Cons.IH image_iff) metis
qed simp

lemma concat_map_if_none:
  "concat (map (\<lambda>x. if P x then [m] else []) xs) = [] \<longleftrightarrow> (\<forall>x \<in> set xs. \<not> P x)"
  by (induction xs) simp_all

lemma file_issues_none:
  "file_issues e = [] \<longleftrightarrow> (\<forall>p \<in> set (pm_read (er_files (en_resources e)) @ pm_write (er_files (en_resources e))).
     valid_file (strip_scope p))"
  unfolding file_issues_def Let_def concat_map_if_none by simp

text \<open>The segments of a path, and scopes as segment prefixes.\<close>

definition segments :: "string \<Rightarrow> string list" where
  "segments path = tl (str_split (CHR ''/'') path)"

lemma segments_Cons: "segments (CHR ''/'' # p) = str_split (CHR ''/'') p"
  by (simp add: segments_def)

lemma str_split_append_sep:
  "str_split c (p @ c # s) = str_split c p @ str_split c s"
proof (induction p)
  case (Cons x xs)
  then show ?case by (cases "str_split c xs") auto
qed simp

lemma valid_file_slash: "valid_file p \<Longrightarrow> \<exists>q. p = CHR ''/'' # q"
  by (auto simp: valid_file_def starts_with_iff)

lemma valid_file_segments:
  "valid_file p \<Longrightarrow> s \<in> set (segments p) \<Longrightarrow> s \<noteq> '''' \<and> s \<noteq> ''.'' \<and> s \<noteq> ''..''"
  by (auto simp: valid_file_def segments_def list_all_iff)

text \<open>A file accepted under a scope lies strictly below it.\<close>

lemma scope_strictly_below:
  assumes "pattern_matches True resource pattern" "valid_file resource"
    "valid_file (strip_scope pattern)" "ends_with ''/**'' pattern"
  shows "\<exists>rest. rest \<noteq> [] \<and> segments resource = segments (strip_scope pattern) @ rest"
proof -
  obtain base where p: "pattern = base @ ''/**''"
    using assms(4) by (auto simp: ends_with_iff)
  have b: "strip_scope pattern = base" "drop_end 2 pattern = base @ ''/''"
    by (simp_all add: p strip_scope_def ends_with_iff drop_end_def)
  obtain t where r: "resource = base @ CHR ''/'' # t"
    using assms(1,4) b by (auto simp: pattern_matches_def starts_with_iff)
  obtain q where q: "base = CHR ''/'' # q"
    using assms(3) b(1) valid_file_slash by auto
  have "segments resource = segments base @ str_split (CHR ''/'') t"
    by (simp add: r q segments_Cons str_split_append_sep)
  then show ?thesis using b(1) by (intro exI [of _ "str_split (CHR ''/'') t"]) simp
qed

end
