(* ===== verification/Policy_Engine.thy ===== *)
theory Policy_Engine
  imports Authority_Envelope
begin

text \<open>
  \<open>packages/policy-engine\<close>: \<open>evaluate\<close>, the decision of the Gate on one request. The order of the
  tests is the code's, since it fixes the reason an agent is given. \<open>permitted\<close> is the abstract
  contract (complete mediation: every restriction of the envelope holds), and \<open>ALLOW\<close> is shown to
  be exactly that contract.
\<close>

datatype gate_decision = ALLOW | BLOCK | HOLD

record usage =
  us_startedAt :: "string option"
  us_calls :: int
  us_external :: int
  us_costMicros :: int
  us_attempts :: "(string \<times> int) list"

record policy_context =
  pc_now :: int
  pc_revoked :: bool
  pc_usage :: usage
  pc_approvalValid :: bool
  pc_knownAgents :: "string list"

record verdict =
  vd_decision :: gate_decision
  vd_reason :: string

definition micros :: "rat \<Rightarrow> int" where
  \<comment> \<open>\<open>Math.round\<close> rounds halves up, as \<open>round\<close> does\<close>
  "micros amount = round (amount * 1000000)"

definition attemptsFor :: "usage \<Rightarrow> string \<Rightarrow> int" where
  "attemptsFor us action = (case map_of (us_attempts us) action of Some n \<Rightarrow> n | None \<Rightarrow> 0)"

definition block :: "string \<Rightarrow> verdict" where
  "block r = \<lparr>vd_decision = BLOCK, vd_reason = r\<rparr>"

definition present :: "string option \<Rightarrow> bool" where
  \<comment> \<open>an optional string used as a condition\<close>
  "present s = (case s of None \<Rightarrow> False | Some x \<Rightarrow> x \<noteq> [])"

definition passed :: "string \<Rightarrow> int \<Rightarrow> bool" where
  \<comment> \<open>\<open>Date.parse(at) <= now\<close>; a comparison with \<open>NaN\<close> is false\<close>
  "passed stamp now = (case date_parse stamp of Some t \<Rightarrow> t \<le> now | None \<Rightarrow> False)"

definition in_future :: "string \<Rightarrow> int \<Rightarrow> bool" where
  \<comment> \<open>\<open>Date.parse(at) > now\<close>\<close>
  "in_future stamp now = (case date_parse stamp of Some t \<Rightarrow> now < t | None \<Rightarrow> False)"

definition scope_of :: "envelope \<Rightarrow> resource_kind \<Rightarrow> operation \<Rightarrow> string list" where
  \<comment> \<open>\<open>envelope.resources[kind][operation]\<close>\<close>
  "scope_of e k op =
     (let p = (case k of Repositories \<Rightarrow> er_repositories (en_resources e)
                 | Files \<Rightarrow> er_files (en_resources e)
                 | Databases \<Rightarrow> er_databases (en_resources e)
                 | _ \<Rightarrow> er_infrastructure (en_resources e))
      in if op = Read then pm_read p else pm_write p)"

definition runtime_exceeded :: "usage \<Rightarrow> env_limits \<Rightarrow> int \<Rightarrow> bool" where
  "runtime_exceeded us l now = (case us_startedAt us of None \<Rightarrow> False
     | Some s \<Rightarrow> s \<noteq> [] \<and> (case date_parse s of Some t \<Rightarrow> now - t \<ge> li_max_runtime_seconds l * 1000 | None \<Rightarrow> False))"

definition resource_verdict :: "'a auth_request_scheme \<Rightarrow> envelope \<Rightarrow> policy_context \<Rightarrow> action_binding \<Rightarrow> verdict option" where
  "resource_verdict request e ctx b =
     (if ab_resource_kind b = Secrets
      then Some (block ''Secret access requires an ephemeral credential broker (not enabled in v0.1)'')
      else if ab_resource_kind b = Agents
      then (if rq_resource request \<notin> set (pc_knownAgents ctx)
               \<or> rq_resource request \<notin> set (eg_communicate_with (en_agents e))
            then Some (block ''Unauthorized agent communication'') else None)
      else if ab_operation b \<noteq> Read \<and> ab_operation b \<noteq> Write then Some (block ''Invalid resource operation'')
      else if \<not> matches_resource (rq_resource request) (scope_of e (ab_resource_kind b) (ab_operation b))
                (ab_resource_kind b = Files)
      then Some (block ''Undeclared resource or operation'') else None)"

definition network_denied :: "envelope \<Rightarrow> string \<Rightarrow> bool" where
  "network_denied e d = (d \<notin> set (ad_allow (en_network e))
     \<or> d \<in> set (filter (\<lambda>x. x \<noteq> ''*'') (ad_deny (en_network e))))"

definition evaluate_bound :: "'a auth_request_scheme \<Rightarrow> envelope \<Rightarrow> policy_context \<Rightarrow> action_binding \<Rightarrow> verdict" where
  \<comment> \<open>\<open>evaluate\<close> from the resource tests on\<close>
  "evaluate_bound request e ctx b =
     (case resource_verdict request e ctx b of Some v \<Rightarrow> v | None \<Rightarrow>
      let limits = en_limits e; us = pc_usage ctx; to = rq_destination request in
      if ab_destination_required b \<and> \<not> present to then block ''Destination is required for this action''
      else if present to \<and> network_denied e (the to) then block ''Unauthorized network destination''
      else if runtime_exceeded us limits (pc_now ctx) then block ''Runtime limit exceeded''
      else if us_calls us \<ge> li_max_tool_calls limits then block ''Tool-call limit exceeded''
      else if present to \<and> us_external us \<ge> li_max_external_requests limits
      then block ''External-request limit exceeded''
      else if us_costMicros us + micros (rq_estimatedCostUsd request) > micros (li_max_cost_usd limits)
      then \<lparr>vd_decision = HOLD, vd_reason = ''Cost limit exceeded''\<rparr>
      else if attemptsFor us (rq_action request) \<ge> 1 + li_max_retries_per_action limits
      then block ''Retry limit exceeded''
      else if list_ex (\<lambda>rule. ar_action rule = rq_action request) (en_approvals e) \<and> \<not> pc_approvalValid ctx
      then \<lparr>vd_decision = HOLD, vd_reason = ''Valid approval required''\<rparr>
      else \<lparr>vd_decision = ALLOW, vd_reason = ''Action permitted by envelope''\<rparr>)"

definition binding_for :: "envelope \<Rightarrow> string \<Rightarrow> action_binding option" where
  "binding_for e action = find (\<lambda>b. ab_action b = action) (en_action_bindings e)"

definition tool_denied :: "envelope \<Rightarrow> action_binding \<Rightarrow> string \<Rightarrow> bool" where
  "tool_denied e b tool = (ab_tool b \<noteq> tool \<or> tool \<notin> set (ad_allow (en_tools e)) \<or> tool \<in> set (ad_deny (en_tools e)))"

definition evaluate :: "'a auth_request_scheme \<Rightarrow> envelope option \<Rightarrow> policy_context \<Rightarrow> verdict" where
  "evaluate request envelope ctx =
     (if pc_revoked ctx then block ''Agent has been revoked''
      else case envelope of None \<Rightarrow> block ''No authority envelope''
      | Some e \<Rightarrow>
        if ea_id (en_agent e) \<noteq> rq_agentId request then block ''Agent identity mismatch''
        else if passed (ea_expires_at (en_agent e)) (pc_now ctx) then block ''Envelope expired''
        else case binding_for e (rq_action request) of
          None \<Rightarrow> block ''Action is outside the stated objective''
        | Some b \<Rightarrow>
          if tool_denied e b (rq_tool request)
          then block (''Tool '' @ rq_tool request @ '' is not permitted'')
          else evaluate_bound request e ctx b)"

section \<open>What ALLOW means\<close>

definition within_limits :: "'a auth_request_scheme \<Rightarrow> env_limits \<Rightarrow> policy_context \<Rightarrow> bool" where
  "within_limits request l ctx =
     (let us = pc_usage ctx in
      us_calls us < li_max_tool_calls l
      \<and> (present (rq_destination request) \<longrightarrow> us_external us < li_max_external_requests l)
      \<and> us_costMicros us + micros (rq_estimatedCostUsd request) \<le> micros (li_max_cost_usd l)
      \<and> attemptsFor us (rq_action request) \<le> li_max_retries_per_action l
      \<and> (\<forall>s t. us_startedAt us = Some s \<longrightarrow> s \<noteq> [] \<longrightarrow> date_parse s = Some t
            \<longrightarrow> pc_now ctx - t < li_max_runtime_seconds l * 1000))"

definition resource_granted :: "'a auth_request_scheme \<Rightarrow> envelope \<Rightarrow> policy_context \<Rightarrow> action_binding \<Rightarrow> bool" where
  "resource_granted request e ctx b =
     (case ab_resource_kind b of
        Secrets \<Rightarrow> False
      | Agents \<Rightarrow> rq_resource request \<in> set (pc_knownAgents ctx)
                 \<and> rq_resource request \<in> set (eg_communicate_with (en_agents e))
      | k \<Rightarrow> ab_operation b \<in> {Read, Write}
             \<and> matches_resource (rq_resource request) (scope_of e k (ab_operation b)) (k = Files))"

definition permitted :: "'a auth_request_scheme \<Rightarrow> envelope \<Rightarrow> policy_context \<Rightarrow> action_binding \<Rightarrow> bool" where
  "permitted request e ctx b =
     (\<not> pc_revoked ctx \<and> ea_id (en_agent e) = rq_agentId request
      \<and> \<not> passed (ea_expires_at (en_agent e)) (pc_now ctx)
      \<and> ab_tool b = rq_tool request \<and> rq_tool request \<in> set (ad_allow (en_tools e)) - set (ad_deny (en_tools e))
      \<and> resource_granted request e ctx b
      \<and> (ab_destination_required b \<longrightarrow> present (rq_destination request))
      \<and> (\<forall>d. rq_destination request = Some d \<longrightarrow> d \<noteq> [] \<longrightarrow>
            d \<in> set (ad_allow (en_network e)) \<and> (d \<in> set (ad_deny (en_network e)) \<longrightarrow> d = ''*''))
      \<and> within_limits request (en_limits e) ctx
      \<and> ((\<exists>rule \<in> set (en_approvals e). ar_action rule = rq_action request) \<longrightarrow> pc_approvalValid ctx))"

lemma present_iff: "present s \<longleftrightarrow> (\<exists>x. s = Some x \<and> x \<noteq> [])"
  by (auto simp: present_def split: option.splits)

lemma block_not_allow [simp]: "vd_decision (block r) = BLOCK"
  by (simp add: block_def)

lemma resource_verdict_none:
  "resource_verdict request e ctx b = None \<longleftrightarrow> resource_granted request e ctx b"
  by (cases "ab_resource_kind b") (auto simp: resource_verdict_def resource_granted_def)

lemma resource_verdict_some:
  "resource_verdict request e ctx b = Some v \<Longrightarrow> vd_decision v = BLOCK"
  by (auto simp: resource_verdict_def split: if_splits)

lemma refusal_then:
  "vd_decision (if c then block r else v) = ALLOW \<longleftrightarrow> \<not> c \<and> vd_decision v = ALLOW"
  "vd_decision (if c then \<lparr>vd_decision = HOLD, vd_reason = r\<rparr> else v) = ALLOW \<longleftrightarrow> \<not> c \<and> vd_decision v = ALLOW"
  by simp_all

lemma within_limits_runtime:
  "within_limits request l ctx \<longleftrightarrow>
     (let us = pc_usage ctx in \<not> runtime_exceeded us l (pc_now ctx) \<and> us_calls us < li_max_tool_calls l
      \<and> (present (rq_destination request) \<longrightarrow> us_external us < li_max_external_requests l)
      \<and> us_costMicros us + micros (rq_estimatedCostUsd request) \<le> micros (li_max_cost_usd l)
      \<and> attemptsFor us (rq_action request) < 1 + li_max_retries_per_action l)"
proof -
  have "runtime_exceeded us l now \<longleftrightarrow> \<not> (\<forall>s t. us_startedAt us = Some s \<longrightarrow> s \<noteq> [] \<longrightarrow> date_parse s = Some t
            \<longrightarrow> now - t < li_max_runtime_seconds l * 1000)" for us now
    by (auto simp: runtime_exceeded_def not_less split: option.splits)
  then show ?thesis
    unfolding within_limits_def Let_def zless_add1_eq by auto
qed

lemma evaluate_bound_allow:
  "vd_decision (evaluate_bound request e ctx b) = ALLOW \<longleftrightarrow>
     resource_granted request e ctx b
      \<and> (ab_destination_required b \<longrightarrow> present (rq_destination request))
      \<and> (present (rq_destination request) \<longrightarrow> \<not> network_denied e (the (rq_destination request)))
      \<and> within_limits request (en_limits e) ctx
      \<and> (list_ex (\<lambda>rule. ar_action rule = rq_action request) (en_approvals e) \<longrightarrow> pc_approvalValid ctx)"
proof (cases "resource_verdict request e ctx b")
  case None
  then have "resource_granted request e ctx b"
    by (simp add: resource_verdict_none)
  with None show ?thesis
    unfolding evaluate_bound_def within_limits_runtime Let_def option.case refusal_then not_le not_less
    by (auto simp: not_le not_less)
next
  case (Some v)
  then have "\<not> resource_granted request e ctx b"
    using resource_verdict_none [of request e ctx b] by simp
  with resource_verdict_some [OF Some] Some show ?thesis
    by (simp add: evaluate_bound_def)
qed

lemma evaluate_allow_iff:
  "vd_decision (evaluate request envelope ctx) = ALLOW \<longleftrightarrow>
     (\<exists>e b. envelope = Some e \<and> binding_for e (rq_action request) = Some b \<and> permitted request e ctx b)"
proof (cases envelope)
  case (Some e)
  have net: "(\<forall>d. rq_destination request = Some d \<longrightarrow> d \<noteq> [] \<longrightarrow>
            d \<in> set (ad_allow (en_network e)) \<and> (d \<in> set (ad_deny (en_network e)) \<longrightarrow> d = ''*''))
      \<longleftrightarrow> (present (rq_destination request) \<longrightarrow> \<not> network_denied e (the (rq_destination request)))"
    by (auto simp: present_iff network_denied_def)
  show ?thesis
  proof (cases "binding_for e (rq_action request)")
    case None
    with Some show ?thesis by (simp add: evaluate_def)
  next
    case b: (Some b)
    show ?thesis
      using net
      unfolding evaluate_def refusal_then Some b option.case evaluate_bound_allow permitted_def
        tool_denied_def list_ex_iff
      by (simp add: b) blast
  qed
qed (simp add: evaluate_def)

lemma binding_for_Some:
  "binding_for e a = Some b \<Longrightarrow> b \<in> set (en_action_bindings e) \<and> ab_action b = a"
  unfolding binding_for_def by (rule find_SomeD)

lemma envelope_parse_Some: "envelope_parse raw = Some e \<longleftrightarrow> raw = Some e \<and> envelope_ok e"
  by (auto simp: envelope_parse_def split: option.splits)

lemma envelope_ok_bindings:
  assumes "envelope_ok e"
  shows "\<forall>b \<in> set (en_action_bindings e). \<not> bad_binding e [] b"
    and "distinct (map ab_action (en_action_bindings e))"
  using assms unfolding envelope_ok_def refine_issues_def binding_issues_none append_is_Nil_conv by blast+

lemma envelope_ok_scopes:
  assumes "envelope_ok e" "p \<in> set (scope_of e Files op)"
  shows "valid_file (strip_scope p)"
  using assms unfolding envelope_ok_def refine_issues_def append_is_Nil_conv file_issues_none
  by (auto simp: scope_of_def Let_def split: if_splits)

lemma binding_unique:
  assumes "distinct (map ab_action bs)" "b \<in> set bs" "b' \<in> set bs" "ab_action b = ab_action b'"
  shows "b = b'"
  using assms by (metis find_map_unique option.inject)

lemma file_match_scope:
  assumes "matches_resource resource ps True" "\<forall>p \<in> set ps. valid_file (strip_scope p)"
  shows "\<exists>p \<in> set ps. resource = p \<or>
    (\<exists>rest. rest \<noteq> [] \<and> segments resource = segments (strip_scope p) @ rest)"
proof -
  obtain p where p: "p \<in> set ps" "pattern_matches True resource p" "valid_file resource"
    using assms(1) by (auto simp: matches_resource_def list_ex_iff split: if_splits)
  show ?thesis
  proof (cases "ends_with ''/**'' p")
    case True
    then show ?thesis
      using scope_strictly_below [OF p(2,3)] assms(2) p(1) by blast
  qed (use p in \<open>auto simp: pattern_matches_def\<close>)
qed

section \<open>Properties\<close>

text \<open>
  C1. Complete mediation. When the policy engine answers ALLOW under an envelope the schema accepts,
  exactly one action binding names the action, its outcome is a declared outcome and not a forbidden
  one, the resource is not a secret, every condition of \<open>permitted\<close> holds (tool, network, limits,
  approval), and a file resource is a declared scope or lies strictly below one, segment by segment.
\<close>

theorem allow_complete_mediation:
  assumes "envelope_parse raw = Some e" "vd_decision (evaluate request (Some e) ctx) = ALLOW"
  shows "\<exists>b. {b' \<in> set (en_action_bindings e). ab_action b' = rq_action request} = {b}
    \<and> ab_outcome b \<in> set (ob_allowed_outcomes (en_objective e)) - set (ob_forbidden_outcomes (en_objective e))
    \<and> ab_resource_kind b \<noteq> Secrets \<and> permitted request e ctx b
    \<and> (ab_resource_kind b = Files \<longrightarrow> (\<exists>p \<in> set (scope_of e Files (ab_operation b)). rq_resource request = p
          \<or> (\<exists>rest. rest \<noteq> [] \<and> segments (rq_resource request) = segments (strip_scope p) @ rest)))"
proof -
  have ok: "envelope_ok e" using assms(1) by (simp add: envelope_parse_Some)
  obtain b where b: "binding_for e (rq_action request) = Some b" and perm: "permitted request e ctx b"
    using assms(2) unfolding evaluate_allow_iff by blast
  note mem = binding_for_Some [OF b]
  have bad: "\<not> bad_binding e [] b" using envelope_ok_bindings(1) [OF ok] mem by blast
  have granted: "resource_granted request e ctx b" using perm by (simp add: permitted_def)
  have "{b' \<in> set (en_action_bindings e). ab_action b' = rq_action request} = {b}"
    using mem binding_unique [OF envelope_ok_bindings(2) [OF ok]] by auto
  moreover have "ab_resource_kind b \<noteq> Secrets"
    using granted by (auto simp: resource_granted_def)
  moreover have "\<exists>p \<in> set (scope_of e Files (ab_operation b)). rq_resource request = p
          \<or> (\<exists>rest. rest \<noteq> [] \<and> segments (rq_resource request) = segments (strip_scope p) @ rest)"
    if "ab_resource_kind b = Files"
    using that granted envelope_ok_scopes [OF ok]
    by (intro file_match_scope) (auto simp: resource_granted_def)
  ultimately show ?thesis
    using bad perm by (auto simp: bad_binding_def)
qed

definition demo_request :: auth_request where
  "demo_request = \<lparr>rq_agentId = ''agent-1'', rq_action = ''report.write'', rq_tool = ''fs'',
     rq_resource = ''/srv/reports/q1.md'', rq_destination = Some ''api.internal'', rq_estimatedCostUsd = 1 / 4,
     rq_approvalId = None\<rparr>"

definition demo_envelope :: envelope where
  "demo_envelope = \<lparr>en_version = ''1.0'',
     en_agent = \<lparr>ea_id = ''agent-1'', ea_name = ''Reporter'', ea_role = ''writer'', ea_owner = ''ops'',
       ea_environment = ''prod'', ea_expires_at = ''2030-01-01T00:00:00Z''\<rparr>,
     en_objective = \<lparr>ob_task_id = ''t1'', ob_goal = ''write the report'', ob_allowed_outcomes = [''report''],
       ob_forbidden_outcomes = [''leak'']\<rparr>,
     en_resources = \<lparr>er_repositories = \<lparr>pm_read = [], pm_write = []\<rparr>,
       er_files = \<lparr>pm_read = [''/srv/data''], pm_write = [''/srv/reports/**'']\<rparr>,
       er_databases = \<lparr>pm_read = [], pm_write = []\<rparr>, er_infrastructure = \<lparr>pm_read = [], pm_write = []\<rparr>\<rparr>,
     en_tools = \<lparr>ad_allow = [''fs''], ad_deny = [''shell'']\<rparr>,
     en_network = \<lparr>ad_allow = [''api.internal''], ad_deny = [''*'']\<rparr>,
     en_secrets = \<lparr>es_allow = [], es_deny = []\<rparr>,
     en_agents = \<lparr>eg_communicate_with = [], eg_communication_mode = ''authenticated'', eg_shared_memory = False,
       eg_deny_unknown_agents = True\<rparr>,
     en_limits = \<lparr>li_max_runtime_seconds = 3600, li_max_tool_calls = 2, li_max_external_requests = 5,
       li_max_cost_usd = 1, li_max_retries_per_action = 3\<rparr>,
     en_approvals = [], en_risk = \<lparr>ri_level = ''low'', ri_blast_radius = ''one file'', ri_rollback_required = False\<rparr>,
     en_evidence = \<lparr>ee_capture = [''cost''], ee_retention_days = 30\<rparr>,
     en_violation_policy = \<lparr>vp_unknown_tool = ''block'', vp_undeclared_resource = ''block'',
       vp_unauthorized_agent_contact = ''block'', vp_network_violation = ''block'', vp_secret_violation = ''terminate'',
       vp_cost_limit_exceeded = ''block'', vp_runtime_limit_exceeded = ''block''\<rparr>,
     en_action_bindings = [\<lparr>ab_action = ''report.write'', ab_outcome = ''report'', ab_tool = ''fs'',
       ab_resource_kind = Files, ab_operation = Write, ab_destination_required = False\<rparr>]\<rparr>"

definition no_usage :: usage where
  "no_usage = \<lparr>us_startedAt = None, us_calls = 0, us_external = 0, us_costMicros = 0, us_attempts = []\<rparr>"

definition demo_context :: policy_context where
  "demo_context = \<lparr>pc_now = 1700000000000, pc_revoked = False, pc_usage = no_usage, pc_approvalValid = False,
     pc_knownAgents = [''agent-1'']\<rparr>"

lemma demo_envelope_parses: "envelope_parse (Some demo_envelope) = Some demo_envelope"
  by code_simp

theorem allow_complete_mediation_witness:
  "\<exists>b. permitted demo_request demo_envelope demo_context b"
proof -
  have "vd_decision (evaluate demo_request (Some demo_envelope) demo_context) = ALLOW"
    by code_simp
  from allow_complete_mediation [OF demo_envelope_parses this] show ?thesis by blast
qed

text \<open>
  HOLD is given only for money or a missing approval: the answer HOLD means that the request is
  inside the envelope in every other respect (identity, binding, tool, resource, destination) and
  either the cost would pass the ceiling, or the limits hold and the action needs an approval the
  request does not carry.
\<close>

theorem hold_only_for_cost_or_approval:
  assumes "vd_decision (evaluate request (Some e) ctx) = HOLD"
  shows "\<exists>b. binding_for e (rq_action request) = Some b \<and> resource_granted request e ctx b
    \<and> \<not> pc_revoked ctx \<and> \<not> tool_denied e b (rq_tool request)
    \<and> \<not> (present (rq_destination request) \<and> network_denied e (the (rq_destination request)))
    \<and> (us_costMicros (pc_usage ctx) + micros (rq_estimatedCostUsd request) > micros (li_max_cost_usd (en_limits e))
       \<or> (within_limits request (en_limits e) ctx \<and> \<not> pc_approvalValid ctx
          \<and> (\<exists>rule \<in> set (en_approvals e). ar_action rule = rq_action request)))"
proof -
  have pre: "\<not> pc_revoked ctx" "ea_id (en_agent e) = rq_agentId request"
    "\<not> passed (ea_expires_at (en_agent e)) (pc_now ctx)"
    using assms by (auto simp: evaluate_def split: if_splits)
  obtain b where b: "binding_for e (rq_action request) = Some b"
    using assms pre by (cases "binding_for e (rq_action request)") (simp_all add: evaluate_def)
  have tool: "\<not> tool_denied e b (rq_tool request)"
    using assms pre b by (simp add: evaluate_def split: if_splits)
  have bound: "vd_decision (evaluate_bound request e ctx b) = HOLD"
    using assms pre b tool by (simp add: evaluate_def)
  have none: "resource_verdict request e ctx b = None"
    using bound resource_verdict_some [of request e ctx b]
    by (cases "resource_verdict request e ctx b") (simp_all add: evaluate_bound_def)
  have net: "\<not> (present (rq_destination request) \<and> network_denied e (the (rq_destination request)))"
    using bound none unfolding evaluate_bound_def by (simp add: Let_def split: if_splits)
  have rest: "us_costMicros (pc_usage ctx) + micros (rq_estimatedCostUsd request) > micros (li_max_cost_usd (en_limits e))
       \<or> (within_limits request (en_limits e) ctx \<and> \<not> pc_approvalValid ctx
          \<and> list_ex (\<lambda>rule. ar_action rule = rq_action request) (en_approvals e))"
    using bound none unfolding evaluate_bound_def within_limits_runtime
    by (simp add: Let_def not_le not_less split: if_splits)
  then show ?thesis
    using b none tool net pre by (auto simp: resource_verdict_none list_ex_iff)
qed

theorem hold_only_for_cost_or_approval_witness:
  "\<exists>b. binding_for demo_envelope ''report.write'' = Some b \<and> ab_tool b = ''fs''"
proof -
  have "vd_decision (evaluate (demo_request\<lparr>rq_estimatedCostUsd := 2\<rparr>) (Some demo_envelope) demo_context) = HOLD"
    by code_simp
  from hold_only_for_cost_or_approval [OF this] show ?thesis
    by (auto simp: demo_request_def tool_denied_def)
qed

end
