(* ===== verification/Tool_Inputs.thy ===== *)
theory Tool_Inputs
  imports Authority_Envelope
begin

text \<open>
  \<open>packages/tool-inputs\<close>: the registry of governed tools. A registered tool has an input schema
  (a function from JSON to the parsed value, \<open>None\<close> for a failed parse), limits, and the hash
  binding of an input. \<open>demoDeployInput\<close> is the one schema the source declares.
\<close>

record tool_metadata =
  tm_tool :: string
  tm_action :: string
  tm_operation :: string
  tm_resourceType :: string
  tm_inputSchema :: "json \<Rightarrow> json option"
  tm_runtimeLimitMs :: jnum
  tm_outputLimitBytes :: jnum
  tm_networkRequired :: bool

record parsed_tool_input =
  pt_input :: json
  pt_canonical :: string
  pt_input_hash :: string

type_synonym tool_registry = "tool_metadata table"

definition max_input_bytes :: nat where
  "max_input_bytes = 256"

text \<open>The release names \<open>release-x(.y)*\<close> and \<open>prod.deploy.x\<close>.\<close>

definition lower_alnum_word :: "string \<Rightarrow> bool" where
  "lower_alnum_word s = (s \<noteq> [] \<and> list_all (\<lambda>c. is_lower c \<or> is_digit c) s)"

definition release_ok :: "string \<Rightarrow> bool" where
  "release_ok s = (length s \<le> 64 \<and>
     ((starts_with ''release-'' s \<and> list_all lower_alnum_word (str_split (CHR ''.'') (drop 8 s)))
      \<or> (starts_with ''prod.deploy.'' s \<and> lower_alnum_word (drop 12 s))))"

definition demoDeployInput :: "json \<Rightarrow> json option" where
  "demoDeployInput j =
     (if is_plain_object (Some j) \<and> set (obj_keys j) \<subseteq> {''release'', ''environment''}
         \<and> str_where release_ok (jfield ''release'' j)
         \<and> str_where (\<lambda>s. s = ''demo-production'') (jfield ''environment'' j)
      then Some (JObj [(''release'', the (jfield ''release'' j)), (''environment'', the (jfield ''environment'' j))])
      else None)"

definition tool_canonical :: "json \<Rightarrow> string" where
  \<comment> \<open>sorts keys with \<open>localeCompare\<close>; the keys of the one schema are lower-case ASCII\<close>
  "tool_canonical j = canonical j"

definition byteLength :: "json option \<Rightarrow> nat" where
  "byteLength v = (case v of Some j \<Rightarrow> length (stringify j) | None \<Rightarrow> max_input_bytes + 1)"

definition tool_register :: "tool_metadata \<Rightarrow> tool_registry \<Rightarrow> (string, tool_registry) res" where
  "tool_register m tools =
     (if st_get (tm_tool m) tools \<noteq> None then Inl (''Tool already registered: '' @ tm_tool m)
      else if \<not> is_integer (tm_runtimeLimitMs m) \<or> num_val (tm_runtimeLimitMs m) \<le> 0
           \<or> \<not> is_integer (tm_outputLimitBytes m) \<or> num_val (tm_outputLimitBytes m) \<le> 0
      then Inl ''Invalid tool limits''
      else Inr (st_put (tm_tool m) m tools))"

definition tool_get :: "string \<Rightarrow> tool_registry \<Rightarrow> tool_metadata option" where
  "tool_get tool tools = st_get tool tools"

definition tool_list :: "tool_registry \<Rightarrow> tool_metadata list" where
  "tool_list tools = sort_key tm_tool (map snd tools)"

definition parseAndHash :: "(string \<Rightarrow> string) \<Rightarrow> tool_registry \<Rightarrow> string \<Rightarrow> json option \<Rightarrow> (string, parsed_tool_input) res" where
  "parseAndHash sha tools tool input =
     (case st_get tool tools of None \<Rightarrow> Inl ''Unknown tool''
      | Some m \<Rightarrow>
        if byteLength input > max_input_bytes then Inl ''Tool input is oversized''
        else (case Option.bind input (tm_inputSchema m) of
            None \<Rightarrow> Inl ''Invalid tool input''
          | Some d \<Rightarrow> let c = tool_canonical d
              in Inr \<lparr>pt_input = d, pt_canonical = c, pt_input_hash = sha c\<rparr>))"

definition verifyHash :: "(string \<Rightarrow> string) \<Rightarrow> tool_registry \<Rightarrow> string \<Rightarrow> json option \<Rightarrow> string \<Rightarrow> bool" where
  "verifyHash sha tools tool input expected =
     (if \<not> is_hex64 expected then False
      else (case parseAndHash sha tools tool input of Inl _ \<Rightarrow> False | Inr p \<Rightarrow> pt_input_hash p = expected))"

definition demo_tool :: string where
  "demo_tool = ''demo.deploy.execute''"

definition demoToolInputMetadata :: tool_metadata where
  "demoToolInputMetadata = \<lparr>tm_tool = demo_tool, tm_action = ''production.deploy'', tm_operation = ''write'',
     tm_resourceType = ''infrastructure'', tm_inputSchema = demoDeployInput, tm_runtimeLimitMs = Dec 30000 0,
     tm_outputLimitBytes = Dec 65536 0, tm_networkRequired = False\<rparr>"

definition demo_registry :: tool_registry where
  \<comment> \<open>the registry after \<open>register(demoToolInputMetadata)\<close>\<close>
  "demo_registry = st_put demo_tool demoToolInputMetadata []"

lemma demo_registry_registered: "tool_register demoToolInputMetadata [] = Inr demo_registry"
  by (simp add: tool_register_def demo_registry_def demoToolInputMetadata_def st_get_def is_integer_def
      norm_num_def num_val_def)

lemma demo_registry_get [simp]: "st_get demo_tool demo_registry = Some demoToolInputMetadata"
  by (simp add: demo_registry_def st_get_def st_put_def)

lemma parseAndHash_Inr:
  "parseAndHash sha tools tool input = Inr p \<Longrightarrow> \<exists>m j. st_get tool tools = Some m \<and> input = Some j
     \<and> tm_inputSchema m j = Some (pt_input p) \<and> pt_input_hash p = hash_json sha (pt_input p)
     \<and> length (stringify j) \<le> max_input_bytes"
  by (auto simp: parseAndHash_def byteLength_def tool_canonical_def hash_json_def Let_def bind_eq_Some_conv
      split: option.splits if_splits)

text \<open>A registered limit is a positive integer, and a registered tool is never replaced.\<close>

definition registry_ok :: "tool_registry \<Rightarrow> bool" where
  "registry_ok tools = (table_wf tools \<and> (\<forall>(k, m) \<in> set tools. k = tm_tool m
     \<and> is_integer (tm_runtimeLimitMs m) \<and> 0 < num_val (tm_runtimeLimitMs m)
     \<and> is_integer (tm_outputLimitBytes m) \<and> 0 < num_val (tm_outputLimitBytes m)))"

lemma tool_register_ok:
  assumes "registry_ok tools" "tool_register m tools = Inr tools'"
  shows "registry_ok tools'" "\<And>t m'. st_get t tools = Some m' \<Longrightarrow> st_get t tools' = Some m'"
proof -
  have t: "tools' = st_put (tm_tool m) m tools" "st_get (tm_tool m) tools = None"
    "is_integer (tm_runtimeLimitMs m)" "0 < num_val (tm_runtimeLimitMs m)"
    "is_integer (tm_outputLimitBytes m)" "0 < num_val (tm_outputLimitBytes m)"
    using assms(2) by (auto simp: tool_register_def not_le split: if_splits)
  show "registry_ok tools'"
    using assms(1) t table.wf_put [of tools "tm_tool m" m]
    by (auto simp: registry_ok_def st_put_def dest!: set_al_put)
  show "st_get u tools' = Some m'" if "st_get u tools = Some m'" for u m'
    using that t by (auto simp: table.get_put)
qed

lemma demoDeployInput_Some:
  "demoDeployInput j = Some d \<Longrightarrow> \<exists>r. d = JObj [(''release'', JStr r), (''environment'', JStr ''demo-production'')]
     \<and> release_ok r \<and> jfield ''release'' j = Some (JStr r)"
  by (auto simp: demoDeployInput_def str_where_def split: if_splits option.splits json.splits)

end
