(* ===== verification/Gate.thy ===== *)
theory Gate
  imports Policy_Engine Tool_Inputs
begin

text \<open>
  \<open>apps/tna-gate-api/src/gate.ts\<close>: the Gate over the durable store. One table per kind of record
  the code keeps, and the evidence rows. An operation is a function of the state and of what it
  reads from outside (\<open>ambient\<close>: the clock, one random id, one random token); it returns the error
  thrown or the new state and the answer, and \<open>st_transaction\<close> rolls back on an error.
\<close>

section \<open>State\<close>

datatype principal = Admin string | Approver string | Agent string

datatype gate_error = Http nat string | Schema_Error

record gate_agent =
  ga_id :: string  ga_name :: string  ga_tokenHash :: string  ga_revoked :: bool

record policy =
  po_envelope :: envelope
  po_hash :: string
  po_revision :: string

record decision_policy =
  dp_policyHash :: string
  dp_policyRevision :: string

record approval =
  ap_id :: string  ap_agentId :: string  ap_policyHash :: string  ap_policyRevision :: string
  ap_requestHash :: string  ap_role :: string  ap_expiresAt :: string  ap_used :: bool

record stored_request = auth_request +
  sr_input :: "json option"
  sr_input_hash :: "string option"

record decision =
  de_decision :: gate_decision  de_reason :: string  de_decisionId :: string  de_agentId :: string
  de_severity :: string  de_policyVersion :: "string option"  de_policyHash :: "string option"
  de_timestamp :: string  de_request :: stored_request  de_approvalReference :: "string option"

record gate_state =
  gs_agents :: "gate_agent table"
  gs_policies :: "policy table"
  gs_usage :: "usage table"
  gs_approvals :: "approval table"
  gs_decisions :: "decision table"
  gs_decision_policies :: "decision_policy table"
  gs_evidence :: "evidence_row list"

record ambient =
  am_now :: int
  am_uuid :: string
  am_token :: string

definition gate_empty :: gate_state where
  "gate_empty = \<lparr>gs_agents = [], gs_policies = [], gs_usage = [], gs_approvals = [], gs_decisions = [],
     gs_decision_policies = [], gs_evidence = []\<rparr>"

definition newId :: "string \<Rightarrow> string \<Rightarrow> string" where
  "newId pre uuid = pre @ ''_'' @ uuid"

definition emptyUsage :: usage where
  "emptyUsage = \<lparr>us_startedAt = None, us_calls = 0, us_external = 0, us_costMicros = 0, us_attempts = []\<rparr>"

section \<open>What is hashed and logged\<close>

definition money_json :: "rat \<Rightarrow> json" where
  \<comment> \<open>an accepted amount is a multiple of a millionth\<close>
  "money_json x = JNum (Dec \<lfloor>x * 1000000\<rfloor> 6)"

definition kind_name :: "resource_kind \<Rightarrow> string" where
  "kind_name k = (case k of Repositories \<Rightarrow> ''repositories'' | Files \<Rightarrow> ''files'' | Databases \<Rightarrow> ''databases''
     | Infrastructure \<Rightarrow> ''infrastructure'' | Secrets \<Rightarrow> ''secrets'' | Agents \<Rightarrow> ''agents'')"

definition operation_name :: "operation \<Rightarrow> string" where
  "operation_name op = (case op of Read \<Rightarrow> ''read'' | Write \<Rightarrow> ''write'' | Access \<Rightarrow> ''access''
     | Communicate \<Rightarrow> ''communicate'')"

definition permissions_json :: "permissions \<Rightarrow> json" where
  "permissions_json p = JObj [(''read'', jstrs (pm_read p)), (''write'', jstrs (pm_write p))]"

definition binding_json :: "action_binding \<Rightarrow> json" where
  "binding_json b = JObj [(''action'', JStr (ab_action b)), (''outcome'', JStr (ab_outcome b)),
     (''tool'', JStr (ab_tool b)), (''resource_kind'', JStr (kind_name (ab_resource_kind b))),
     (''operation'', JStr (operation_name (ab_operation b))),
     (''destination_required'', JBool (ab_destination_required b))]"

definition resources_json :: "env_resources \<Rightarrow> json" where
  "resources_json r = JObj [(''repositories'', permissions_json (er_repositories r)),
     (''files'', permissions_json (er_files r)), (''databases'', permissions_json (er_databases r)),
     (''infrastructure'', permissions_json (er_infrastructure r))]"

definition allow_deny_json :: "allow_deny \<Rightarrow> json" where
  "allow_deny_json a = JObj [(''allow'', jstrs (ad_allow a)), (''deny'', jstrs (ad_deny a))]"

definition grant_json :: "secret_grant \<Rightarrow> json" where
  "grant_json x = JObj [(''name'', JStr (sg_name x)), (''mode'', JStr (sg_mode x)),
     (''ttl_seconds'', jint (sg_ttl_seconds x))]"

definition secrets_json :: "env_secrets \<Rightarrow> json" where
  "secrets_json s = JObj [(''allow'', JArr (map grant_json (es_allow s))), (''deny'', jstrs (es_deny s))]"

definition agents_json :: "env_agents \<Rightarrow> json" where
  "agents_json g = JObj [(''communicate_with'', jstrs (eg_communicate_with g)),
     (''communication_mode'', JStr (eg_communication_mode g)), (''shared_memory'', JBool (eg_shared_memory g)),
     (''deny_unknown_agents'', JBool (eg_deny_unknown_agents g))]"

definition agent_json :: "env_agent \<Rightarrow> json" where
  "agent_json a = JObj [(''id'', JStr (ea_id a)), (''name'', JStr (ea_name a)), (''role'', JStr (ea_role a)),
     (''owner'', JStr (ea_owner a)), (''environment'', JStr (ea_environment a)), (''expires_at'', JStr (ea_expires_at a))]"

definition objective_json :: "env_objective \<Rightarrow> json" where
  "objective_json ob = JObj [(''task_id'', JStr (ob_task_id ob)), (''goal'', JStr (ob_goal ob)),
     (''allowed_outcomes'', jstrs (ob_allowed_outcomes ob)), (''forbidden_outcomes'', jstrs (ob_forbidden_outcomes ob))]"

definition rule_json :: "approval_rule \<Rightarrow> json" where
  "rule_json r = JObj [(''action'', JStr (ar_action r)), (''approver_role'', JStr (ar_approver_role r))]"

definition risk_json :: "env_risk \<Rightarrow> json" where
  "risk_json ri = JObj [(''level'', JStr (ri_level ri)), (''blast_radius'', JStr (ri_blast_radius ri)),
     (''rollback_required'', JBool (ri_rollback_required ri))]"

definition capture_json :: "env_evidence \<Rightarrow> json" where
  "capture_json ev = JObj [(''capture'', jstrs (ee_capture ev)), (''retention_days'', jint (ee_retention_days ev))]"

definition limits_json :: "env_limits \<Rightarrow> json" where
  "limits_json l = JObj [(''max_runtime_seconds'', jint (li_max_runtime_seconds l)),
     (''max_tool_calls'', jint (li_max_tool_calls l)), (''max_external_requests'', jint (li_max_external_requests l)),
     (''max_cost_usd'', money_json (li_max_cost_usd l)), (''max_retries_per_action'', jint (li_max_retries_per_action l))]"

definition violation_json :: "env_violation_policy \<Rightarrow> json" where
  "violation_json v = JObj [(''unknown_tool'', JStr (vp_unknown_tool v)),
     (''undeclared_resource'', JStr (vp_undeclared_resource v)),
     (''unauthorized_agent_contact'', JStr (vp_unauthorized_agent_contact v)),
     (''network_violation'', JStr (vp_network_violation v)), (''secret_violation'', JStr (vp_secret_violation v)),
     (''cost_limit_exceeded'', JStr (vp_cost_limit_exceeded v)),
     (''runtime_limit_exceeded'', JStr (vp_runtime_limit_exceeded v))]"

definition envelope_json :: "envelope \<Rightarrow> json" where
  "envelope_json e = JObj [(''version'', JStr (en_version e)), (''agent'', agent_json (en_agent e)),
     (''objective'', objective_json (en_objective e)), (''resources'', resources_json (en_resources e)),
     (''tools'', allow_deny_json (en_tools e)), (''network'', allow_deny_json (en_network e)),
     (''secrets'', secrets_json (en_secrets e)), (''agents'', agents_json (en_agents e)),
     (''limits'', limits_json (en_limits e)),
     (''approvals'', JObj [(''required_for'', JArr (map rule_json (en_approvals e)))]),
     (''risk'', risk_json (en_risk e)), (''evidence'', capture_json (en_evidence e)),
     (''violation_policy'', violation_json (en_violation_policy e)),
     (''action_bindings'', JArr (map binding_json (en_action_bindings e)))]"

definition bound_request_json :: "stored_request \<Rightarrow> json" where
  \<comment> \<open>the request without its approval id\<close>
  "bound_request_json r = JObj ([(''agentId'', JStr (rq_agentId r)), (''action'', JStr (rq_action r)),
       (''tool'', JStr (rq_tool r)), (''resource'', JStr (rq_resource r))]
     @ opt_field ''destination'' (map_option JStr (rq_destination r))
     @ [(''estimatedCostUsd'', money_json (rq_estimatedCostUsd r))]
     @ opt_field ''input'' (sr_input r) @ opt_field ''input_hash'' (map_option JStr (sr_input_hash r)))"

definition requestHash :: "(string \<Rightarrow> string) \<Rightarrow> stored_request \<Rightarrow> string" where
  "requestHash sha r = hash_json sha (bound_request_json r)"

definition request_json :: "stored_request \<Rightarrow> json" where
  "request_json r = (case bound_request_json r of
     JObj kvs \<Rightarrow> JObj (kvs @ opt_field ''approvalId'' (map_option JStr (rq_approvalId r))) | j \<Rightarrow> j)"

definition decision_name :: "gate_decision \<Rightarrow> string" where
  "decision_name d = (case d of ALLOW \<Rightarrow> ''ALLOW'' | BLOCK \<Rightarrow> ''BLOCK'' | HOLD \<Rightarrow> ''HOLD'')"

definition decision_event :: "decision \<Rightarrow> json" where
  "decision_event d = JObj [(''type'', JStr ''authorization.decision''),
     (''decision'', JStr (decision_name (de_decision d))), (''reason'', JStr (de_reason d)),
     (''decisionId'', JStr (de_decisionId d)), (''agentId'', JStr (de_agentId d)),
     (''severity'', JStr (de_severity d)), (''policyVersion'', opt_json JStr (de_policyVersion d)),
     (''policyHash'', opt_json JStr (de_policyHash d)), (''requiresEvidence'', JBool True),
     (''timestamp'', JStr (de_timestamp d)), (''request'', request_json (de_request d)),
     (''approvalReference'', opt_json JStr (de_approvalReference d))]"

definition approval_json :: "approval \<Rightarrow> json" where
  "approval_json a = JObj [(''id'', JStr (ap_id a)), (''agentId'', JStr (ap_agentId a)),
     (''policyHash'', JStr (ap_policyHash a)), (''policyRevision'', JStr (ap_policyRevision a)),
     (''requestHash'', JStr (ap_requestHash a)), (''role'', JStr (ap_role a)),
     (''expiresAt'', JStr (ap_expiresAt a)), (''used'', JBool (ap_used a))]"

definition audit :: "(string \<Rightarrow> string) \<Rightarrow> ambient \<Rightarrow> string \<Rightarrow> json \<Rightarrow> gate_state \<Rightarrow> gate_state" where
  "audit sha am typ details s = s\<lparr>gs_evidence := ev_append sha (JObj [(''type'', JStr typ),
     (''timestamp'', JStr (to_iso (am_now am))), (''details'', details)]) (gs_evidence s)\<rparr>"

section \<open>Requests\<close>

text \<open>\<open>requestSchema\<close>: a strict object, with two optional strings.\<close>

definition opt_string :: "json option \<Rightarrow> string option option" where
  "opt_string v = (case v of None \<Rightarrow> Some None | Some (JStr s) \<Rightarrow> Some (Some s) | Some _ \<Rightarrow> None)"

definition request_keys :: "string list" where
  "request_keys = [''agentId'', ''action'', ''tool'', ''resource'', ''destination'', ''estimatedCostUsd'', ''approvalId'']"

definition request_parse :: "json \<Rightarrow> auth_request option" where
  "request_parse j =
     (if \<not> is_plain_object (Some j) \<or> \<not> set (obj_keys j) \<subseteq> set request_keys then None
      else Option.bind (jstr (jfield ''agentId'' j)) (\<lambda>ag. Option.bind (jstr (jfield ''action'' j)) (\<lambda>ac.
        Option.bind (jstr (jfield ''tool'' j)) (\<lambda>tl. Option.bind (jstr (jfield ''resource'' j)) (\<lambda>rs.
        Option.bind (opt_string (jfield ''destination'' j)) (\<lambda>ds. Option.bind (jnumber (jfield ''estimatedCostUsd'' j)) (\<lambda>n.
        Option.bind (opt_string (jfield ''approvalId'' j)) (\<lambda>ap.
          let r = \<lparr>rq_agentId = ag, rq_action = ac, rq_tool = tl, rq_resource = rs, rq_destination = ds,
                rq_estimatedCostUsd = num_val n, rq_approvalId = ap\<rparr>
          in if request_ok r then Some r else None))))))))"

definition stored :: "auth_request \<Rightarrow> json option \<Rightarrow> string option \<Rightarrow> stored_request" where
  "stored r i h = auth_request.extend r (stored_request.fields i h)"

definition without_keys :: "string list \<Rightarrow> json \<Rightarrow> json" where
  "without_keys ks j = (case j of JObj kvs \<Rightarrow> JObj (filter (\<lambda>kv. fst kv \<notin> set ks) kvs) | _ \<Rightarrow> j)"

definition parseAuthorizationRequest :: "(string \<Rightarrow> string) \<Rightarrow> json \<Rightarrow> (gate_error, stored_request) res" where
  "parseAuthorizationRequest sha input =
     (let plain = (\<lambda>r. case r of None \<Rightarrow> Inl Schema_Error | Some r \<Rightarrow> Inr (stored r None None)) in
      if \<not> is_plain_object (Some input) then plain (request_parse input)
      else if jfield ''tool'' input \<noteq> Some (JStr demo_tool) then plain (request_parse input)
      else (case request_parse (without_keys [''input'', ''input_hash''] input) of
          None \<Rightarrow> Inl Schema_Error
        | Some r \<Rightarrow> (case parseAndHash sha demo_registry demo_tool (jfield ''input'' input) of
              Inl m \<Rightarrow> Inl (Http 400 m)
            | Inr p \<Rightarrow>
                if jfield ''input_hash'' input \<noteq> None \<and> jfield ''input_hash'' input \<noteq> Some (JStr (pt_input_hash p))
                then Inl (Http 400 ''Input hash mismatch'')
                else Inr (stored r (Some (pt_input p)) (Some (pt_input_hash p))))))"

section \<open>Operations\<close>

definition authenticateAgent :: "(string \<Rightarrow> string) \<Rightarrow> string \<Rightarrow> gate_state \<Rightarrow> principal option" where
  "authenticateAgent sha token s =
     map_option (\<lambda>a. Agent (ga_id a)) (find (\<lambda>a. ga_tokenHash a = sha token) (st_list (gs_agents s)))"

definition is_admin :: "principal \<Rightarrow> bool" where
  "is_admin p = (case p of Admin _ \<Rightarrow> True | _ \<Rightarrow> False)"

definition requireAdmin :: "principal \<Rightarrow> (gate_error, unit) res" where
  "requireAdmin p = (if is_admin p then Inr () else Inl (Http 403 ''Administrator credential required''))"

definition requireReader :: "principal \<Rightarrow> string \<Rightarrow> (gate_error, unit) res" where
  "requireReader p agentId =
     (if \<not> is_admin p \<and> p \<noteq> Agent agentId then Inl (Http 403 ''Access denied'') else Inr ())"

definition gate_register :: "(string \<Rightarrow> string) \<Rightarrow> ambient \<Rightarrow> principal \<Rightarrow> (string \<times> string) option \<Rightarrow> gate_state
    \<Rightarrow> gate_state \<times> (gate_error, string) res" where
  \<comment> \<open>\<open>register\<close>; the input is the id and name of a registration; the answer is the token\<close>
  "gate_register sha am p input s =
     (case requireAdmin p of Inl e \<Rightarrow> (s, Inl e) | Inr _ \<Rightarrow>
      case input of None \<Rightarrow> (s, Inl Schema_Error) | Some (i, name) \<Rightarrow>
      if \<not> (id_ok i \<and> label_ok name) then (s, Inl Schema_Error)
      else st_transaction (\<lambda>s.
        if st_get i (gs_agents s) \<noteq> None then Inl (Http 409 ''Agent already registered'')
        else Inr (audit sha am ''agent.registered'' (JObj [(''agentId'', JStr i)])
            (s\<lparr>gs_agents := st_put i \<lparr>ga_id = i, ga_name = name, ga_tokenHash = sha (am_token am), ga_revoked = False\<rparr>
                (gs_agents s)\<rparr>), am_token am)) s)"

definition gate_setEnvelope :: "(string \<Rightarrow> string) \<Rightarrow> ambient \<Rightarrow> principal \<Rightarrow> envelope option \<Rightarrow> gate_state
    \<Rightarrow> gate_state \<times> (gate_error, string) res" where
  "gate_setEnvelope sha am p input s =
     (case requireAdmin p of Inl e \<Rightarrow> (s, Inl e) | Inr _ \<Rightarrow>
      case envelope_parse input of None \<Rightarrow> (s, Inl Schema_Error) | Some e \<Rightarrow>
      if passed (ea_expires_at (en_agent e)) (am_now am) then (s, Inl (Http 400 ''Cannot issue an expired envelope''))
      else st_transaction (\<lambda>s.
        case st_get (ea_id (en_agent e)) (gs_agents s) of
          None \<Rightarrow> Inl (Http 409 ''Agent missing or revoked'')
        | Some ag \<Rightarrow>
            if ga_revoked ag then Inl (Http 409 ''Agent missing or revoked'')
            else let h = hash_json sha (envelope_json e); rev = newId ''pol'' (am_uuid am) in
              Inr (audit sha am ''envelope.issued'' (JObj [(''agentId'', JStr (ga_id ag)), (''policyHash'', JStr h),
                    (''revision'', JStr rev), (''envelope'', envelope_json e)])
                  (s\<lparr>gs_policies := st_put (ga_id ag) \<lparr>po_envelope = e, po_hash = h, po_revision = rev\<rparr> (gs_policies s)\<rparr>), h)) s)"

definition getEnvelope :: "principal \<Rightarrow> string \<Rightarrow> gate_state \<Rightarrow> (gate_error, policy) res" where
  "getEnvelope p agentId s = rbind (requireReader p agentId) (\<lambda>_.
     case st_get agentId (gs_policies s) of None \<Rightarrow> Inl (Http 404 ''Envelope not found'') | Some po \<Rightarrow> Inr po)"

definition isAgentRevoked :: "string \<Rightarrow> gate_state \<Rightarrow> bool" where
  "isAgentRevoked agentId s = (case st_get agentId (gs_agents s) of Some a \<Rightarrow> ga_revoked a | None \<Rightarrow> True)"

definition isPolicyCurrent :: "int \<Rightarrow> decision \<Rightarrow> gate_state \<Rightarrow> bool" where
  "isPolicyCurrent now d s =
     (case (st_get (de_agentId d) (gs_policies s), st_get (de_decisionId d) (gs_decision_policies s)) of
        (Some po, Some iss) \<Rightarrow> in_future (ea_expires_at (en_agent (po_envelope po))) now
          \<and> de_policyHash d = Some (po_hash po) \<and> dp_policyHash iss = po_hash po
          \<and> dp_policyRevision iss = po_revision po
      | _ \<Rightarrow> False)"

definition usage_of :: "string \<Rightarrow> gate_state \<Rightarrow> usage" where
  "usage_of i s = (case st_get i (gs_usage s) of Some u \<Rightarrow> u | None \<Rightarrow> emptyUsage)"

definition gate_context :: "int \<Rightarrow> gate_agent \<Rightarrow> bool \<Rightarrow> gate_state \<Rightarrow> policy_context" where
  "gate_context now ag approvalValid s = \<lparr>pc_now = now, pc_revoked = ga_revoked ag, pc_usage = usage_of (ga_id ag) s,
     pc_approvalValid = approvalValid,
     pc_knownAgents = map ga_id (filter (\<lambda>a. \<not> ga_revoked a) (st_list (gs_agents s)))\<rparr>"

definition approval_rule_for :: "envelope \<Rightarrow> string \<Rightarrow> approval_rule option" where
  "approval_rule_for e action = find (\<lambda>r. ar_action r = action) (en_approvals e)"

text \<open>\<open>approve\<close>: the request inside the body, with its tool input checked and then set aside for the schema.\<close>

definition approval_parse :: "json \<Rightarrow> stored_request \<Rightarrow> string option" where
  \<comment> \<open>\<open>approvalSchema.parse({...raw, request: baseRequest})\<close>: the expiry; the request carries no approval id\<close>
  "approval_parse raw request =
     (if set (obj_keys raw) \<subseteq> {''request'', ''expiresAt''} \<and> rq_approvalId request = None
         \<and> str_where timestamp_ok (jfield ''expiresAt'' raw)
      then jstr (jfield ''expiresAt'' raw) else None)"

definition later_than :: "string \<Rightarrow> string \<Rightarrow> bool" where
  \<comment> \<open>\<open>Date.parse(a) > Date.parse(b)\<close>\<close>
  "later_than a b = (case (date_parse a, date_parse b) of (Some t, Some t') \<Rightarrow> t' < t | _ \<Rightarrow> False)"

definition make_approval :: "(string \<Rightarrow> string) \<Rightarrow> ambient \<Rightarrow> gate_agent \<Rightarrow> policy \<Rightarrow> string \<Rightarrow> stored_request \<Rightarrow> string
    \<Rightarrow> approval" where
  "make_approval sha am ag po role request expiresAt =
     \<lparr>ap_id = newId ''apr'' (am_uuid am), ap_agentId = ga_id ag, ap_policyHash = po_hash po,
      ap_policyRevision = po_revision po, ap_requestHash = requestHash sha request,
      ap_role = role, ap_expiresAt = expiresAt, ap_used = False\<rparr>"

definition issue_approval :: "(string \<Rightarrow> string) \<Rightarrow> ambient \<Rightarrow> string \<Rightarrow> stored_request \<Rightarrow> string \<Rightarrow> gate_state
    \<Rightarrow> (gate_error, gate_state \<times> string) res" where
  "issue_approval sha am role request expiresAt s =
     (case (st_get (rq_agentId request) (gs_policies s), st_get (rq_agentId request) (gs_agents s)) of
        (Some po, Some ag) \<Rightarrow>
          (case approval_rule_for (po_envelope po) (rq_action request) of
             None \<Rightarrow> Inl (Http 403 ''Approver role or agent policy is invalid'')
           | Some rule \<Rightarrow>
             if ga_revoked ag \<or> ar_approver_role rule \<noteq> role
             then Inl (Http 403 ''Approver role or agent policy is invalid'')
             else if passed expiresAt (am_now am) \<or> later_than expiresAt (ea_expires_at (en_agent (po_envelope po)))
             then Inl (Http 400 ''Approval expiry must be in the future and within envelope expiry'')
             else let v = evaluate request (Some (po_envelope po)) (gate_context (am_now am) ag True s) in
               if vd_decision v \<noteq> ALLOW then Inl (Http 409 (vd_reason v))
               else let a = make_approval sha am ag po role request expiresAt in
                 Inr (audit sha am ''approval.issued'' (approval_json a)
                       (s\<lparr>gs_approvals := st_put (ap_id a) a (gs_approvals s)\<rparr>), ap_id a))
      | _ \<Rightarrow> Inl (Http 403 ''Approver role or agent policy is invalid''))"

definition gate_approve :: "(string \<Rightarrow> string) \<Rightarrow> ambient \<Rightarrow> principal \<Rightarrow> json \<Rightarrow> gate_state
    \<Rightarrow> gate_state \<times> (gate_error, string) res" where
  "gate_approve sha am p input s =
     (case p of
        Approver role \<Rightarrow>
          if \<not> is_plain_object (Some input) then (s, Inl (Http 400 ''Schema validation failed''))
          else (case rbind (case jfield ''request'' input of None \<Rightarrow> Inl Schema_Error
                    | Some r \<Rightarrow> parseAuthorizationRequest sha r)
                  (\<lambda>request. case approval_parse input request of None \<Rightarrow> Inl Schema_Error
                     | Some expiresAt \<Rightarrow> Inr (request, expiresAt)) of
              Inl e \<Rightarrow> (s, Inl e)
            | Inr (request, expiresAt) \<Rightarrow> st_transaction (issue_approval sha am role request expiresAt) s)
      | _ \<Rightarrow> (s, Inl (Http 403 ''Independent approver credential required'')))"

definition approval_valid :: "(string \<Rightarrow> string) \<Rightarrow> int \<Rightarrow> gate_agent \<Rightarrow> policy option \<Rightarrow> stored_request \<Rightarrow> approval option \<Rightarrow> bool" where
  "approval_valid sha now ag po request app =
     (case app of None \<Rightarrow> False | Some a \<Rightarrow>
        \<not> ap_used a \<and> ap_agentId a = ga_id ag
        \<and> Some (ap_policyHash a) = map_option po_hash po \<and> Some (ap_policyRevision a) = map_option po_revision po
        \<and> ap_requestHash a = requestHash sha request
        \<and> Some (ap_role a) = map_option ar_approver_role
             (Option.bind po (\<lambda>p. approval_rule_for (po_envelope p) (rq_action request)))
        \<and> in_future (ap_expiresAt a) now)"

definition charge :: "stored_request \<Rightarrow> string \<Rightarrow> usage \<Rightarrow> usage" where
  \<comment> \<open>the counters after an ALLOW\<close>
  "charge request stamp us =
     \<lparr>us_startedAt = (case us_startedAt us of None \<Rightarrow> Some stamp | Some t \<Rightarrow> Some t),
      us_calls = us_calls us + 1,
      us_external = us_external us + (if present (rq_destination request) then 1 else 0),
      us_costMicros = us_costMicros us + micros (rq_estimatedCostUsd request),
      us_attempts = al_put (rq_action request) (attemptsFor us (rq_action request) + 1) (us_attempts us)\<rparr>"

definition make_decision :: "ambient \<Rightarrow> gate_agent \<Rightarrow> policy option \<Rightarrow> stored_request \<Rightarrow> verdict \<Rightarrow> approval option \<Rightarrow> decision" where
  "make_decision am ag po request v used =
     \<lparr>de_decision = vd_decision v, de_reason = vd_reason v, de_decisionId = newId ''dec'' (am_uuid am),
      de_agentId = ga_id ag, de_severity = (if vd_decision v = ALLOW then ''info'' else ''high''),
      de_policyVersion = map_option (\<lambda>p. en_version (po_envelope p)) po, de_policyHash = map_option po_hash po,
      de_timestamp = to_iso (am_now am), de_request = request, de_approvalReference = map_option ap_id used\<rparr>"

definition record_decision :: "(string \<Rightarrow> string) \<Rightarrow> decision \<Rightarrow> policy option \<Rightarrow> gate_state \<Rightarrow> gate_state" where
  \<comment> \<open>the decision, the policy it was taken under, and the evidence\<close>
  "record_decision sha d po s = s\<lparr>gs_decisions := st_put (de_decisionId d) d (gs_decisions s),
     gs_decision_policies := (case po of None \<Rightarrow> gs_decision_policies s
        | Some p \<Rightarrow> st_put (de_decisionId d) \<lparr>dp_policyHash = po_hash p, dp_policyRevision = po_revision p\<rparr>
            (gs_decision_policies s)),
     gs_evidence := ev_append sha (decision_event d) (gs_evidence s)\<rparr>"

definition spend :: "decision \<Rightarrow> usage \<Rightarrow> approval option \<Rightarrow> gate_state \<Rightarrow> gate_state" where
  \<comment> \<open>an ALLOW charges the counters and uses up the approval it was given for\<close>
  "spend d us used s =
     (if de_decision d \<noteq> ALLOW then s
      else s\<lparr>gs_usage := st_put (de_agentId d) (charge (de_request d) (de_timestamp d) us) (gs_usage s),
        gs_approvals := (case used of None \<Rightarrow> gs_approvals s
           | Some a \<Rightarrow> st_put (ap_id a) (a\<lparr>ap_used := True\<rparr>) (gs_approvals s))\<rparr>)"

definition cited_approval :: "stored_request \<Rightarrow> gate_state \<Rightarrow> approval option" where
  "cited_approval request s = (case rq_approvalId request of None \<Rightarrow> None
     | Some i \<Rightarrow> if i = [] then None else st_get i (gs_approvals s))"

definition decide_request :: "(string \<Rightarrow> string) \<Rightarrow> ambient \<Rightarrow> stored_request \<Rightarrow> gate_state
    \<Rightarrow> (gate_error, gate_state \<times> decision) res" where
  "decide_request sha am request s =
     (case st_get (rq_agentId request) (gs_agents s) of
        None \<Rightarrow> Inl (Http 401 ''Unknown agent'')
      | Some ag \<Rightarrow>
          let po = st_get (ga_id ag) (gs_policies s);
              app = cited_approval request s;
              valid = approval_valid sha (am_now am) ag po request app;
              used = (if valid then app else None);
              ctx = gate_context (am_now am) ag valid s;
              v = evaluate request (map_option po_envelope po) ctx;
              d = make_decision am ag po request v used
          in Inr (record_decision sha d po (spend d (pc_usage ctx) used s), d))"

definition authorize :: "(string \<Rightarrow> string) \<Rightarrow> ambient \<Rightarrow> principal \<Rightarrow> json \<Rightarrow> gate_state
    \<Rightarrow> gate_state \<times> (gate_error, decision) res" where
  "authorize sha am p input s =
     (case parseAuthorizationRequest sha input of Inl e \<Rightarrow> (s, Inl e)
      | Inr request \<Rightarrow>
          if p \<noteq> Agent (rq_agentId request) then (s, Inl (Http 403 ''Agent credential must match agentId''))
          else st_transaction (decide_request sha am request) s)"

definition gate_revoke :: "(string \<Rightarrow> string) \<Rightarrow> ambient \<Rightarrow> principal \<Rightarrow> (string \<times> string) option \<Rightarrow> gate_state
    \<Rightarrow> gate_state \<times> (gate_error, string) res" where
  \<comment> \<open>\<open>revoke\<close>; the input is the agent id and the reason\<close>
  "gate_revoke sha am p input s =
     (case requireAdmin p of Inl e \<Rightarrow> (s, Inl e) | Inr _ \<Rightarrow>
      case input of None \<Rightarrow> (s, Inl Schema_Error) | Some (i, reason) \<Rightarrow>
      if \<not> (id_ok i \<and> label_ok reason) then (s, Inl Schema_Error)
      else st_transaction (\<lambda>s. case st_get i (gs_agents s) of
          None \<Rightarrow> Inl (Http 404 ''Agent not found'')
        | Some ag \<Rightarrow> Inr (audit sha am ''agent.revoked'' (JObj [(''agentId'', JStr i), (''reason'', JStr reason)])
              (s\<lparr>gs_agents := st_put (ga_id ag) (ag\<lparr>ga_revoked := True\<rparr>) (gs_agents s)\<rparr>), ga_id ag)) s)"

definition gate_read_decision :: "principal \<Rightarrow> string \<Rightarrow> gate_state \<Rightarrow> (gate_error, decision) res" where
  "gate_read_decision p i s =
     (case st_get i (gs_decisions s) of None \<Rightarrow> Inl (Http 404 ''Decision not found'')
      | Some d \<Rightarrow> rbind (requireReader p (de_agentId d)) (\<lambda>_. Inr d))"

definition gate_activity :: "principal \<Rightarrow> string \<Rightarrow> gate_state \<Rightarrow> (gate_error, decision list) res" where
  "gate_activity p agentId s = rbind (requireReader p agentId) (\<lambda>_.
     Inr (sort_key de_timestamp (filter (\<lambda>d. de_agentId d = agentId) (st_list (gs_decisions s)))))"

section \<open>Runs\<close>

datatype gate_command =
    Register "(string \<times> string) option"
  | SetEnvelope "envelope option"
  | Approve json
  | Authorize json
  | Revoke "(string \<times> string) option"

definition gate_exec :: "(string \<Rightarrow> string) \<Rightarrow> ambient \<Rightarrow> principal \<Rightarrow> gate_command \<Rightarrow> gate_state \<Rightarrow> gate_state" where
  "gate_exec sha am p c s =
     (case c of Register i \<Rightarrow> fst (gate_register sha am p i s) | SetEnvelope i \<Rightarrow> fst (gate_setEnvelope sha am p i s)
      | Approve i \<Rightarrow> fst (gate_approve sha am p i s) | Authorize i \<Rightarrow> fst (authorize sha am p i s)
      | Revoke i \<Rightarrow> fst (gate_revoke sha am p i s))"

text \<open>Random ids are new: no record of the kinds the Gate names has the next id yet.\<close>

definition fresh_ids :: "ambient \<Rightarrow> gate_state \<Rightarrow> bool" where
  "fresh_ids am s = (st_get (newId ''apr'' (am_uuid am)) (gs_approvals s) = None
     \<and> st_get (newId ''dec'' (am_uuid am)) (gs_decisions s) = None)"

inductive gate_run :: "(string \<Rightarrow> string) \<Rightarrow> gate_state \<Rightarrow> gate_state \<Rightarrow> bool" for sha where
  gate_run_refl: "gate_run sha s s"
| gate_run_step: "gate_run sha s t \<Longrightarrow> fresh_ids am t \<Longrightarrow> gate_run sha s (gate_exec sha am p c t)"

section \<open>What an operation does to the state\<close>

lemma gate_register_P:
  assumes "P s"
    and "\<And>i ag ev. is_admin p \<Longrightarrow> st_get i (gs_agents s) = None \<Longrightarrow> ga_id ag = i \<Longrightarrow> \<not> ga_revoked ag \<Longrightarrow>
      P (audit sha am ''agent.registered'' ev (s\<lparr>gs_agents := st_put i ag (gs_agents s)\<rparr>))"
  shows "P (fst (gate_register sha am p input s))"
  using assms(1)
  by (auto simp: gate_register_def st_transaction_def requireAdmin_def intro!: assms(2) split: option.splits)

lemma gate_setEnvelope_P:
  assumes "P s"
    and "\<And>e ag rev ev. is_admin p \<Longrightarrow> envelope_ok e \<Longrightarrow> st_get (ea_id (en_agent e)) (gs_agents s) = Some ag \<Longrightarrow>
      \<not> ga_revoked ag \<Longrightarrow>
      P (audit sha am ''envelope.issued'' ev (s\<lparr>gs_policies := st_put (ga_id ag)
          \<lparr>po_envelope = e, po_hash = hash_json sha (envelope_json e), po_revision = rev\<rparr> (gs_policies s)\<rparr>))"
  shows "P (fst (gate_setEnvelope sha am p input s))"
  using assms(1)
  by (auto simp: gate_setEnvelope_def st_transaction_def requireAdmin_def Let_def envelope_parse_Some
      intro!: assms(2) split: option.splits)

lemma gate_revoke_P:
  assumes "P s"
    and "\<And>i ag ev. is_admin p \<Longrightarrow> st_get i (gs_agents s) = Some ag \<Longrightarrow>
      P (audit sha am ''agent.revoked'' ev (s\<lparr>gs_agents := st_put (ga_id ag) (ag\<lparr>ga_revoked := True\<rparr>) (gs_agents s)\<rparr>))"
  shows "P (fst (gate_revoke sha am p input s))"
  using assms(1)
  by (auto simp: gate_revoke_def st_transaction_def requireAdmin_def intro!: assms(2) split: option.splits)

lemma issue_approval_Inr:
  assumes "issue_approval sha am role request expiresAt s = Inr (s', i)"
  shows "\<exists>a po ag ev. st_get (rq_agentId request) (gs_policies s) = Some po
       \<and> st_get (rq_agentId request) (gs_agents s) = Some ag \<and> \<not> ga_revoked ag
       \<and> a = make_approval sha am ag po role request expiresAt \<and> i = ap_id a
       \<and> map_option ar_approver_role (approval_rule_for (po_envelope po) (rq_action request)) = Some role
       \<and> s' = audit sha am ''approval.issued'' ev (s\<lparr>gs_approvals := st_put (ap_id a) a (gs_approvals s)\<rparr>)"
  using assms unfolding issue_approval_def
  by (simp add: Let_def split: option.splits if_splits) blast

lemma make_approval_simps [simp]:
  "ap_id (make_approval sha am ag po role request expiresAt) = newId ''apr'' (am_uuid am)"
  "\<not> ap_used (make_approval sha am ag po role request expiresAt)"
  "ap_requestHash (make_approval sha am ag po role request expiresAt) = requestHash sha request"
  "ap_role (make_approval sha am ag po role request expiresAt) = role"
  by (simp_all add: make_approval_def)

lemma gate_approve_P:
  assumes "P s"
    and "\<And>role ag po request expiresAt ev. p = Approver role \<Longrightarrow>
      P (audit sha am ''approval.issued'' ev (s\<lparr>gs_approvals := st_put (newId ''apr'' (am_uuid am))
          (make_approval sha am ag po role request expiresAt) (gs_approvals s)\<rparr>))"
  shows "P (fst (gate_approve sha am p input s))"
proof -
  have "P (fst (st_transaction (issue_approval sha am role request expiresAt) s))" if "p = Approver role"
    for role request expiresAt
  proof (cases "issue_approval sha am role request expiresAt s")
    case (Inr r)
    then obtain s' i where r: "issue_approval sha am role request expiresAt s = Inr (s', i)"
      by (cases r) auto
    from issue_approval_Inr [OF this] obtain po ag ev where
      "s' = audit sha am ''approval.issued'' ev (s\<lparr>gs_approvals := st_put (newId ''apr'' (am_uuid am))
          (make_approval sha am ag po role request expiresAt) (gs_approvals s)\<rparr>)"
      by auto
    then show ?thesis
      using assms(2) [OF that] r by (simp add: st_transaction_def)
  qed (simp add: st_transaction_def assms(1))
  then show ?thesis
    using assms(1) by (auto simp: gate_approve_def split: principal.splits sum.splits)
qed

lemma decide_request_Inr:
  assumes "decide_request sha am request s = Inr (s', d)"
  shows "\<exists>ag po used v ctx. st_get (rq_agentId request) (gs_agents s) = Some ag \<and> po = st_get (ga_id ag) (gs_policies s)
    \<and> ctx = gate_context (am_now am) ag (used \<noteq> None) s
    \<and> v = evaluate request (map_option po_envelope po) ctx \<and> d = make_decision am ag po request v used
    \<and> s' = record_decision sha d po (spend d (usage_of (ga_id ag) s) used s)
    \<and> (\<forall>a. used = Some a \<longrightarrow> approval_valid sha (am_now am) ag po request (Some a)
          \<and> (\<exists>i. rq_approvalId request = Some i \<and> st_get i (gs_approvals s) = Some a))"
proof -
  obtain ag where ag: "st_get (rq_agentId request) (gs_agents s) = Some ag"
    using assms by (cases "st_get (rq_agentId request) (gs_agents s)") (simp_all add: decide_request_def)
  let ?po = "st_get (ga_id ag) (gs_policies s)"
  let ?app = "cited_approval request s"
  define valid where "valid = approval_valid sha (am_now am) ag ?po request ?app"
  define used where "used = (if valid then ?app else None)"
  have v: "(used \<noteq> None) = valid"
    by (auto simp: used_def valid_def approval_valid_def split: option.splits)
  have u: "\<forall>a. used = Some a \<longrightarrow> approval_valid sha (am_now am) ag ?po request (Some a)
       \<and> (\<exists>i. rq_approvalId request = Some i \<and> st_get i (gs_approvals s) = Some a)"
    by (auto simp: used_def valid_def cited_approval_def split: if_splits option.splits)
  have pc: "pc_usage (gate_context (am_now am) ag b s) = usage_of (ga_id ag) s" for b
    by (simp add: gate_context_def)
  let ?v = "evaluate request (map_option po_envelope ?po) (gate_context (am_now am) ag (used \<noteq> None) s)"
  let ?d = "make_decision am ag ?po request ?v used"
  have "(record_decision sha ?d ?po (spend ?d (usage_of (ga_id ag) s) used s), ?d) = (s', d)"
    using assms unfolding decide_request_def ag option.case Let_def pc valid_def [symmetric] used_def [symmetric] v
    by (simp only: sum.inject)
  then have d: "d = ?d" "s' = record_decision sha d ?po (spend d (usage_of (ga_id ag) s) used s)"
    by blast+
  show ?thesis
    by (rule exI [of _ ag], rule exI [of _ ?po], rule exI [of _ used], rule exI [of _ ?v], rule exI)
      (intro conjI, rule ag, rule refl, rule refl, rule refl, rule d(1), rule d(2), rule u)
qed

lemma authorize_P:
  assumes "P s"
    and "\<And>request s' d. decide_request sha am request s = Inr (s', d) \<Longrightarrow> p = Agent (rq_agentId request) \<Longrightarrow> P s'"
  shows "P (fst (authorize sha am p input s))"
  using assms by (auto simp: authorize_def st_transaction_def split: sum.splits)

text \<open>The five ways in which the Gate changes its state.\<close>

lemma gate_exec_induct:
  assumes "P s"
    and "\<And>i ag ev. st_get i (gs_agents s) = None \<Longrightarrow> ga_id ag = i \<Longrightarrow>
      P (audit sha am ''agent.registered'' ev (s\<lparr>gs_agents := st_put i ag (gs_agents s)\<rparr>))"
    and "\<And>e ag rev ev. envelope_ok e \<Longrightarrow> st_get (ea_id (en_agent e)) (gs_agents s) = Some ag \<Longrightarrow> \<not> ga_revoked ag \<Longrightarrow>
      P (audit sha am ''envelope.issued'' ev (s\<lparr>gs_policies := st_put (ga_id ag)
          \<lparr>po_envelope = e, po_hash = hash_json sha (envelope_json e), po_revision = rev\<rparr> (gs_policies s)\<rparr>))"
    and "\<And>a ev. ap_id a = newId ''apr'' (am_uuid am) \<Longrightarrow> \<not> ap_used a \<Longrightarrow>
      P (audit sha am ''approval.issued'' ev (s\<lparr>gs_approvals := st_put (ap_id a) a (gs_approvals s)\<rparr>))"
    and "\<And>i ag ev. st_get i (gs_agents s) = Some ag \<Longrightarrow>
      P (audit sha am ''agent.revoked'' ev (s\<lparr>gs_agents := st_put (ga_id ag) (ag\<lparr>ga_revoked := True\<rparr>) (gs_agents s)\<rparr>))"
    and "\<And>request s' d. decide_request sha am request s = Inr (s', d) \<Longrightarrow> P s'"
  shows "P (gate_exec sha am p c s)"
proof -
  have appr: "P (audit sha am ''approval.issued'' ev (s\<lparr>gs_approvals := st_put (newId ''apr'' (am_uuid am))
          (make_approval sha am ag po role request expiresAt) (gs_approvals s)\<rparr>))" for role ag po request expiresAt ev
    using assms(4) [of "make_approval sha am ag po role request expiresAt" ev] by simp
  show ?thesis
    unfolding gate_exec_def
    by (cases c) (simp_all add: assms appr gate_register_P gate_setEnvelope_P gate_approve_P authorize_P gate_revoke_P)
qed

end
