(* ===== verification/Gate_Invariants.thy ===== *)
theory Gate_Invariants
  imports Gate
begin

text \<open>
  What every run of the Gate keeps: the tables hold each record under its own id, the usage counters
  are the totals of the ALLOW decisions, an approval is cited by at most one ALLOW decision, a
  revoked agent stays revoked, and every decision is in an evidence log that verifies.
\<close>

section \<open>Accounting\<close>

definition allowed_for :: "string \<Rightarrow> gate_state \<Rightarrow> decision list" where
  "allowed_for i s = filter (\<lambda>d. de_decision d = ALLOW \<and> de_agentId d = i) (map snd (gs_decisions s))"

text \<open>The abstract value of the counters: totals over the decisions.\<close>

definition spent_cost :: "decision list \<Rightarrow> int" where
  "spent_cost ds = sum_list (map (\<lambda>d. micros (rq_estimatedCostUsd (de_request d))) ds)"

definition external_calls :: "decision list \<Rightarrow> int" where
  "external_calls ds = int (length (filter (\<lambda>d. present (rq_destination (de_request d))) ds))"

definition attempts_of :: "decision list \<Rightarrow> string \<Rightarrow> int" where
  "attempts_of ds action = int (length (filter (\<lambda>d. rq_action (de_request d) = action) ds))"

definition accounts :: "usage \<Rightarrow> decision list \<Rightarrow> bool" where
  "accounts u ds = (us_calls u = int (length ds) \<and> us_external u = external_calls ds
     \<and> us_costMicros u = spent_cost ds \<and> (\<forall>a. attemptsFor u a = attempts_of ds a))"

lemma accounts_empty: "accounts emptyUsage []"
  by (simp add: accounts_def emptyUsage_def external_calls_def spent_cost_def attempts_of_def attemptsFor_def)

lemma accounts_charge:
  "accounts u ds \<Longrightarrow> de_request d = request \<Longrightarrow> accounts (charge request stamp u) (ds @ [d])"
  by (auto simp: accounts_def charge_def external_calls_def spent_cost_def attempts_of_def attemptsFor_def)

section \<open>The invariants\<close>

definition agents_inv :: "gate_state \<Rightarrow> bool" where
  "agents_inv s = (\<forall>i a. st_get i (gs_agents s) = Some a \<longrightarrow> ga_id a = i)"

definition policies_inv :: "(string \<Rightarrow> string) \<Rightarrow> gate_state \<Rightarrow> bool" where
  "policies_inv sha s = (\<forall>i p. st_get i (gs_policies s) = Some p \<longrightarrow> envelope_ok (po_envelope p)
     \<and> po_hash p = hash_json sha (envelope_json (po_envelope p)) \<and> ea_id (en_agent (po_envelope p)) = i)"

definition approvals_inv :: "gate_state \<Rightarrow> bool" where
  "approvals_inv s = (\<forall>i a. st_get i (gs_approvals s) = Some a \<longrightarrow> ap_id a = i)"

definition citing :: "string \<Rightarrow> gate_state \<Rightarrow> decision list" where
  \<comment> \<open>the ALLOW decisions given for an approval\<close>
  "citing i s = filter (\<lambda>d. de_decision d = ALLOW \<and> de_approvalReference d = Some i) (map snd (gs_decisions s))"

definition single_use_inv :: "gate_state \<Rightarrow> bool" where
  "single_use_inv s = (\<forall>i. length (citing i s) \<le> 1
     \<and> (citing i s \<noteq> [] \<longrightarrow> (\<exists>a. st_get i (gs_approvals s) = Some a \<and> ap_used a)))"

definition decisions_inv :: "gate_state \<Rightarrow> bool" where
  "decisions_inv s = (\<forall>i d. st_get i (gs_decisions s) = Some d \<longrightarrow> de_decisionId d = i
     \<and> rq_agentId (de_request d) = de_agentId d)"

definition usage_inv :: "gate_state \<Rightarrow> bool" where
  "usage_inv s = (\<forall>i. accounts (usage_of i s) (allowed_for i s))"

definition evidence_inv :: "(string \<Rightarrow> string) \<Rightarrow> gate_state \<Rightarrow> bool" where
  "evidence_inv sha s = (verify_evidence sha (gs_evidence s) = Inr ()
     \<and> (\<forall>d \<in> set (map snd (gs_decisions s)). stringify (decision_event d) \<in> ev_body ` set (gs_evidence s)))"

definition gate_inv :: "(string \<Rightarrow> string) \<Rightarrow> gate_state \<Rightarrow> bool" where
  "gate_inv sha s = (agents_inv s \<and> policies_inv sha s \<and> approvals_inv s \<and> single_use_inv s
     \<and> decisions_inv s \<and> usage_inv s \<and> evidence_inv sha s)"

lemma gate_inv_empty: "gate_inv sha gate_empty"
  by (simp add: gate_inv_def agents_inv_def policies_inv_def approvals_inv_def single_use_inv_def citing_def
      decisions_inv_def usage_inv_def allowed_for_def usage_of_def accounts_empty evidence_inv_def
      gate_empty_def st_get_def verify_evidence_def)

section \<open>Logging\<close>

lemma audit_simps [simp]:
  "gs_agents (audit sha am t j s) = gs_agents s" "gs_policies (audit sha am t j s) = gs_policies s"
  "gs_usage (audit sha am t j s) = gs_usage s" "gs_approvals (audit sha am t j s) = gs_approvals s"
  "gs_decisions (audit sha am t j s) = gs_decisions s"
  "gs_decision_policies (audit sha am t j s) = gs_decision_policies s"
  by (simp_all add: audit_def)

lemma ev_append_bodies: "ev_body ` set (ev_append sha e rows) = insert (stringify e) (ev_body ` set rows)"
  using ev_append_extends [of sha e rows] by auto

lemma evidence_inv_audit: "evidence_inv sha s \<Longrightarrow> evidence_inv sha (audit sha am t j s)"
  by (auto simp: evidence_inv_def audit_def verify_append ev_append_bodies)

lemma inv_audit_other:
  "approvals_inv (audit sha am t j s) = approvals_inv s" "single_use_inv (audit sha am t j s) = single_use_inv s"
  "decisions_inv (audit sha am t j s) = decisions_inv s" "usage_inv (audit sha am t j s) = usage_inv s"
  "agents_inv (audit sha am t j s) = agents_inv s" "policies_inv sha (audit sha am t j s) = policies_inv sha s"
  by (simp_all add: approvals_inv_def single_use_inv_def citing_def decisions_inv_def usage_inv_def allowed_for_def
      usage_of_def agents_inv_def policies_inv_def)

lemma gate_inv_audit: "gate_inv sha s \<Longrightarrow> gate_inv sha (audit sha am t j s)"
  by (simp add: gate_inv_def inv_audit_other evidence_inv_audit)

section \<open>Administrative operations\<close>

lemma gate_inv_put_agent:
  assumes "gate_inv sha s" "ga_id ag = i"
  shows "gate_inv sha (s\<lparr>gs_agents := st_put i ag (gs_agents s)\<rparr>)"
  using assms by (auto simp: gate_inv_def agents_inv_def policies_inv_def approvals_inv_def single_use_inv_def
      citing_def decisions_inv_def usage_inv_def allowed_for_def usage_of_def evidence_inv_def table.get_put)

lemma gate_inv_put_policy:
  assumes "gate_inv sha s" "envelope_ok e" "ea_id (en_agent e) = i"
  shows "gate_inv sha (s\<lparr>gs_policies := st_put i \<lparr>po_envelope = e, po_hash = hash_json sha (envelope_json e),
    po_revision = pr\<rparr> (gs_policies s)\<rparr>)"
  using assms by (auto simp: gate_inv_def agents_inv_def policies_inv_def approvals_inv_def single_use_inv_def
      citing_def decisions_inv_def usage_inv_def allowed_for_def usage_of_def evidence_inv_def table.get_put)

lemma gate_inv_put_approval:
  assumes "gate_inv sha s" "st_get (ap_id a) (gs_approvals s) = None"
  shows "gate_inv sha (s\<lparr>gs_approvals := st_put (ap_id a) a (gs_approvals s)\<rparr>)"
proof -
  have "single_use_inv (s\<lparr>gs_approvals := st_put (ap_id a) a (gs_approvals s)\<rparr>)"
    using assms by (auto simp: gate_inv_def single_use_inv_def citing_def table.get_put) 
  then show ?thesis
    using assms by (auto simp: gate_inv_def agents_inv_def policies_inv_def approvals_inv_def
      decisions_inv_def usage_inv_def allowed_for_def usage_of_def evidence_inv_def table.get_put)
qed

section \<open>Decisions\<close>

lemma al_put_fresh: "map_of kvs k = None \<Longrightarrow> al_put k v kvs = kvs @ [(k, v)]"
  by (induction k v kvs rule: al_put.induct) (auto split: if_splits)

lemma st_put_fresh: "st_get k t = None \<Longrightarrow> st_put k v t = t @ [(k, v)]"
  by (simp add: st_get_def st_put_def al_put_fresh)

lemma spend_simps [simp]:
  "gs_agents (spend d u used s) = gs_agents s" "gs_policies (spend d u used s) = gs_policies s"
  "gs_decisions (spend d u used s) = gs_decisions s" "gs_evidence (spend d u used s) = gs_evidence s"
  by (simp_all add: spend_def)

lemma record_decision_simps [simp]:
  "gs_agents (record_decision sha d po s) = gs_agents s" "gs_policies (record_decision sha d po s) = gs_policies s"
  "gs_usage (record_decision sha d po s) = gs_usage s" "gs_approvals (record_decision sha d po s) = gs_approvals s"
  "gs_decisions (record_decision sha d po s) = st_put (de_decisionId d) d (gs_decisions s)"
  "gs_evidence (record_decision sha d po s) = ev_append sha (decision_event d) (gs_evidence s)"
  by (simp_all add: record_decision_def)

lemma make_decision_simps [simp]:
  "de_decision (make_decision am ag po request v used) = vd_decision v"
  "de_decisionId (make_decision am ag po request v used) = newId ''dec'' (am_uuid am)"
  "de_agentId (make_decision am ag po request v used) = ga_id ag"
  "de_request (make_decision am ag po request v used) = request"
  "de_approvalReference (make_decision am ag po request v used) = map_option ap_id used"
  by (simp_all add: make_decision_def)

text \<open>The facts about one decision, with the agent and the approval named.\<close>

lemma decide_facts:
  assumes step: "decide_request sha am request s = Inr (s', d)" and inv: "gate_inv sha s"
  obtains ag used where
    "st_get (rq_agentId request) (gs_agents s) = Some ag" "ga_id ag = rq_agentId request"
    "d = make_decision am ag (st_get (ga_id ag) (gs_policies s)) request
       (evaluate request (map_option po_envelope (st_get (ga_id ag) (gs_policies s)))
         (gate_context (am_now am) ag (used \<noteq> None) s)) used"
    "s' = record_decision sha d (st_get (ga_id ag) (gs_policies s)) (spend d (usage_of (ga_id ag) s) used s)"
    "\<And>a. used = Some a \<Longrightarrow> approval_valid sha (am_now am) ag (st_get (ga_id ag) (gs_policies s)) request (Some a)
       \<and> st_get (ap_id a) (gs_approvals s) = Some a \<and> rq_approvalId request = Some (ap_id a) \<and> \<not> ap_used a"
proof -
  from decide_request_Inr [OF step] obtain ag used where
    f: "st_get (rq_agentId request) (gs_agents s) = Some ag"
    "d = make_decision am ag (st_get (ga_id ag) (gs_policies s)) request
       (evaluate request (map_option po_envelope (st_get (ga_id ag) (gs_policies s)))
         (gate_context (am_now am) ag (used \<noteq> None) s)) used"
    "s' = record_decision sha d (st_get (ga_id ag) (gs_policies s)) (spend d (usage_of (ga_id ag) s) used s)"
    "\<forall>a. used = Some a \<longrightarrow> approval_valid sha (am_now am) ag (st_get (ga_id ag) (gs_policies s)) request (Some a)
       \<and> (\<exists>i. rq_approvalId request = Some i \<and> st_get i (gs_approvals s) = Some a)"
    by blast
  have "ga_id ag = rq_agentId request"
    using inv f(1) by (simp add: gate_inv_def agents_inv_def)
  moreover have "st_get (ap_id a) (gs_approvals s) = Some a \<and> rq_approvalId request = Some (ap_id a) \<and> \<not> ap_used a"
    if "used = Some a" for a
    using f(4) that inv by (auto simp: gate_inv_def approvals_inv_def approval_valid_def)
  ultimately show ?thesis
    using that f by blast
qed

lemma single_use_step:
  assumes step: "decide_request sha am request s = Inr (s', d)" and inv: "gate_inv sha s" and fresh: "fresh_ids am s"
  shows "single_use_inv s'"
proof -
  from step inv obtain ag used where
    f: "ga_id ag = rq_agentId request"
    "d = make_decision am ag (st_get (ga_id ag) (gs_policies s)) request
       (evaluate request (map_option po_envelope (st_get (ga_id ag) (gs_policies s)))
         (gate_context (am_now am) ag (used \<noteq> None) s)) used"
    "s' = record_decision sha d (st_get (ga_id ag) (gs_policies s)) (spend d (usage_of (ga_id ag) s) used s)"
    and u: "\<And>a. used = Some a \<Longrightarrow> st_get (ap_id a) (gs_approvals s) = Some a \<and> \<not> ap_used a"
    by (rule decide_facts) blast
  have ref: "de_approvalReference d = map_option ap_id used" "de_decisionId d = newId ''dec'' (am_uuid am)"
    by (simp_all add: f(2))
  have decs: "gs_decisions s' = gs_decisions s @ [(de_decisionId d, d)]"
    using fresh f(3) ref(2) by (simp add: fresh_ids_def st_put_fresh)
  have cite: "citing i s' = citing i s @ (if de_decision d = ALLOW \<and> de_approvalReference d = Some i then [d] else [])" for i
    by (simp add: citing_def decs)
  have su: "length (citing i s) \<le> 1" "citing i s \<noteq> [] \<Longrightarrow> \<exists>a. st_get i (gs_approvals s) = Some a \<and> ap_used a" for i
    using inv by (simp_all add: gate_inv_def single_use_inv_def)
  show ?thesis
    unfolding single_use_inv_def
  proof (intro allI conjI impI)
    fix i
    have old: "citing i s = []" if "de_decision d = ALLOW" "de_approvalReference d = Some i"
    proof (rule ccontr)
      assume "citing i s \<noteq> []"
      then show False using su(2) [of i] u that ref(1) by auto
    qed
    then show "length (citing i s') \<le> 1"
      using su(1) [of i] cite [of i] by auto
    assume ne: "citing i s' \<noteq> []"
    show "\<exists>a. st_get i (gs_approvals s') = Some a \<and> ap_used a"
    proof (cases "de_decision d = ALLOW \<and> de_approvalReference d = Some i")
      case True
      then show ?thesis
        using ref(1) f(3) by (auto simp: spend_def table.get_put)
    next
      case False
      then obtain a where a: "st_get i (gs_approvals s) = Some a" "ap_used a"
        using su(2) [of i] cite [of i] ne by auto
      then show ?thesis
        using f(3) u by (auto simp: spend_def table.get_put split: option.splits)
    qed
  qed
qed

lemma usage_step:
  assumes step: "decide_request sha am request s = Inr (s', d)" and inv: "gate_inv sha s" and fresh: "fresh_ids am s"
  shows "usage_inv s'"
proof -
  from step inv obtain ag used v where
    f: "ga_id ag = rq_agentId request" "d = make_decision am ag (st_get (ga_id ag) (gs_policies s)) request v used"
    "s' = record_decision sha d (st_get (ga_id ag) (gs_policies s)) (spend d (usage_of (ga_id ag) s) used s)"
    by (rule decide_facts) blast
  have decs: "gs_decisions s' = gs_decisions s @ [(de_decisionId d, d)]"
    using fresh f(2,3) by (simp add: fresh_ids_def st_put_fresh)
  have al: "allowed_for i s' = allowed_for i s @ (if de_decision d = ALLOW \<and> de_agentId d = i then [d] else [])" for i
    by (simp add: allowed_for_def decs)
  have us: "usage_of i s' = (if de_decision d = ALLOW \<and> i = ga_id ag
      then charge request (de_timestamp d) (usage_of i s) else usage_of i s)" for i
    using f by (auto simp: usage_of_def spend_def table.get_put)
  have acc: "accounts (usage_of i s) (allowed_for i s)" for i
    using inv by (simp add: gate_inv_def usage_inv_def)
  show ?thesis
    unfolding usage_inv_def
  proof
    fix i
    show "accounts (usage_of i s') (allowed_for i s')"
      using acc [of i] accounts_charge [OF acc [of i], of d request] f(2) by (auto simp: al us)
  qed
qed

lemma gate_inv_decide:
  assumes step: "decide_request sha am request s = Inr (s', d)" and inv: "gate_inv sha s" and fresh: "fresh_ids am s"
  shows "gate_inv sha s'"
proof -
  from step inv obtain ag used v where
    f: "ga_id ag = rq_agentId request" "d = make_decision am ag (st_get (ga_id ag) (gs_policies s)) request v used"
    "s' = record_decision sha d (st_get (ga_id ag) (gs_policies s)) (spend d (usage_of (ga_id ag) s) used s)"
    and u: "\<And>a. used = Some a \<Longrightarrow> st_get (ap_id a) (gs_approvals s) = Some a"
    by (rule decide_facts) blast
  have decs: "gs_decisions s' = gs_decisions s @ [(de_decisionId d, d)]"
    using fresh f(2,3) by (simp add: fresh_ids_def st_put_fresh)
  have "decisions_inv s'"
    using inv f by (auto simp: gate_inv_def decisions_inv_def table.get_put)
  moreover have "approvals_inv s'"
    using inv f(3) by (auto simp: gate_inv_def approvals_inv_def spend_def table.get_put split: option.splits if_splits)
  moreover have "evidence_inv sha s'"
  proof -
    have "set (map snd (gs_decisions s')) = insert d (set (map snd (gs_decisions s)))"
      by (simp add: decs)
    then show ?thesis
      using inv unfolding gate_inv_def evidence_inv_def by (simp add: f(3) verify_append ev_append_bodies)
  qed
  moreover have "agents_inv s'" "policies_inv sha s'"
    using inv f(3) by (auto simp: gate_inv_def agents_inv_def policies_inv_def)
  ultimately show ?thesis
    using single_use_step [OF assms] usage_step [OF assms] by (simp add: gate_inv_def)
qed

theorem gate_inv_exec:
  assumes "gate_inv sha s" "fresh_ids am s"
  shows "gate_inv sha (gate_exec sha am p c s)"
proof (rule gate_exec_induct)
  show "gate_inv sha s" by (rule assms)
next
  fix i and ag :: gate_agent and ev assume "ga_id ag = i"
  then show "gate_inv sha (audit sha am ''agent.registered'' ev (s\<lparr>gs_agents := st_put i ag (gs_agents s)\<rparr>))"
    by (intro gate_inv_audit gate_inv_put_agent assms)
next
  fix e and ag :: gate_agent and pr ev
  assume "envelope_ok e" "st_get (ea_id (en_agent e)) (gs_agents s) = Some ag"
  moreover from this have "ea_id (en_agent e) = ga_id ag"
    using assms(1) by (simp add: gate_inv_def agents_inv_def)
  ultimately show "gate_inv sha (audit sha am ''envelope.issued'' ev (s\<lparr>gs_policies := st_put (ga_id ag)
      \<lparr>po_envelope = e, po_hash = hash_json sha (envelope_json e), po_revision = pr\<rparr> (gs_policies s)\<rparr>))"
    by (intro gate_inv_audit gate_inv_put_policy assms)
next
  fix a :: approval and ev assume "ap_id a = newId ''apr'' (am_uuid am)"
  then show "gate_inv sha (audit sha am ''approval.issued'' ev (s\<lparr>gs_approvals := st_put (ap_id a) a (gs_approvals s)\<rparr>))"
    using assms(2) by (intro gate_inv_audit gate_inv_put_approval assms(1)) (simp add: fresh_ids_def)
next
  fix i and ag :: gate_agent and ev
  show "gate_inv sha (audit sha am ''agent.revoked'' ev (s\<lparr>gs_agents := st_put (ga_id ag) (ag\<lparr>ga_revoked := True\<rparr>) (gs_agents s)\<rparr>))"
    by (intro gate_inv_audit gate_inv_put_agent assms) simp
next
  fix request s' d assume "decide_request sha am request s = Inr (s', d)"
  then show "gate_inv sha s'" using assms gate_inv_decide by blast
qed

lemma gate_inv_run: "gate_run sha s t \<Longrightarrow> gate_inv sha s \<Longrightarrow> gate_inv sha t"
  by (induction rule: gate_run.induct) (simp_all add: gate_inv_exec)

end
