(* ===== verification/Gate_Properties.thy ===== *)
theory Gate_Properties
  imports Gate_Invariants
begin

text \<open>
  The Gate's properties: what the hashes bind, what stays true along every run, and what an ALLOW
  entails for budgets, approvals, revocation and evidence.
\<close>

section \<open>What the hashes bind\<close>

lemma money_json_inj:
  "money_ok x \<Longrightarrow> money_ok y \<Longrightarrow> normal (money_json x) = normal (money_json y) \<Longrightarrow> x = y"
proof -
  assume m: "money_ok x" "money_ok y" and "normal (money_json x) = normal (money_json y)"
  then have "num_val (norm_num (Dec \<lfloor>x * 1000000\<rfloor> 6)) = num_val (norm_num (Dec \<lfloor>y * 1000000\<rfloor> 6))"
    by (simp add: money_json_def)
  then have "of_int \<lfloor>x * 1000000\<rfloor> / 10 ^ 6 = (of_int \<lfloor>y * 1000000\<rfloor> / 10 ^ 6 :: rat)"
    unfolding num_val_norm by (simp add: num_val_def)
  then have "of_int \<lfloor>x * 1000000\<rfloor> = (of_int \<lfloor>y * 1000000\<rfloor> :: rat)"
    by simp
  then have "x * 1000000 = y * 1000000"
    using m unfolding money_ok_def by metis
  then show "x = y" by simp
qed

lemma bound_request_binds:
  assumes "normal (bound_request_json r) = normal (bound_request_json r')"
  shows "rq_agentId r = rq_agentId r' \<and> rq_action r = rq_action r' \<and> rq_tool r = rq_tool r'
    \<and> rq_resource r = rq_resource r' \<and> rq_destination r = rq_destination r'
    \<and> normal (money_json (rq_estimatedCostUsd r)) = normal (money_json (rq_estimatedCostUsd r'))
    \<and> map_option normal (sr_input r) = map_option normal (sr_input r') \<and> sr_input_hash r = sr_input_hash r'"
proof -
  let ?kvs = "\<lambda>r. [(''agentId'', JStr (rq_agentId r)), (''action'', JStr (rq_action r)),
       (''tool'', JStr (rq_tool r)), (''resource'', JStr (rq_resource r))]
     @ opt_field ''destination'' (map_option JStr (rq_destination r))
     @ [(''estimatedCostUsd'', money_json (rq_estimatedCostUsd r))]
     @ opt_field ''input'' (sr_input r) @ opt_field ''input_hash'' (map_option JStr (sr_input_hash r))"
  have d: "distinct (map fst (?kvs r))" for r
    by (simp add: opt_field_def split: option.splits)
  have "normal (JObj (?kvs r)) = normal (JObj (?kvs r'))"
    using assms unfolding bound_request_json_def .
  from normal_obj_lookup [OF this d d]
  have k: "map_option normal (map_of (?kvs r) k) = map_option normal (map_of (?kvs r') k)" for k .
  have lk: "map_of (opt_field k v @ kvs) = (map_of kvs ++ (case v of None \<Rightarrow> Map.empty | Some x \<Rightarrow> [k \<mapsto> x]))" for k v and kvs :: "(string \<times> json) list"
    by (cases v) simp_all
  have look: "map_of (?kvs r) ''agentId'' = Some (JStr (rq_agentId r))" "map_of (?kvs r) ''action'' = Some (JStr (rq_action r))"
    "map_of (?kvs r) ''tool'' = Some (JStr (rq_tool r))" "map_of (?kvs r) ''resource'' = Some (JStr (rq_resource r))"
    "map_of (?kvs r) ''destination'' = map_option JStr (rq_destination r)"
    "map_of (?kvs r) ''estimatedCostUsd'' = Some (money_json (rq_estimatedCostUsd r))"
    "map_of (?kvs r) ''input'' = sr_input r" "map_of (?kvs r) ''input_hash'' = map_option JStr (sr_input_hash r)" for r
    by (cases "rq_destination r"; cases "sr_input r"; cases "sr_input_hash r"; simp)+
  have str: "map_option normal (map_option JStr a) = map_option normal (map_option JStr b) \<Longrightarrow> a = b" for a b
    by (cases a; cases b) simp_all
  show ?thesis
    using k [of "''agentId''"] k [of "''action''"] k [of "''tool''"] k [of "''resource''"]
      k [of "''estimatedCostUsd''"] k [of "''input''"]
      str [OF k [of "''destination''", unfolded look]] str [OF k [of "''input_hash''", unfolded look]]
    unfolding look by simp
qed

text \<open>A list of encoded records determines the records.\<close>

lemma normal_list_inj:
  assumes "\<And>x y. x \<in> set xs \<Longrightarrow> y \<in> set ys \<Longrightarrow> normal (f x) = normal (f y) \<Longrightarrow> x = y"
  shows "normal (JArr (map f xs)) = normal (JArr (map f ys)) \<Longrightarrow> xs = ys"
  using assms
proof (induction xs arbitrary: ys)
  case (Cons x xs)
  then obtain y ys' where ys: "ys = y # ys'" by (cases ys) auto
  with Cons.prems(1) have "normal (f x) = normal (f y)" "normal (JArr (map f xs)) = normal (JArr (map f ys'))"
    by simp_all
  with Cons.IH [of ys'] Cons.prems(2) ys show ?case by auto
qed simp

lemma kind_name_inj: "kind_name k = kind_name k' \<Longrightarrow> k = k'"
  by (cases k; cases k') (simp_all add: kind_name_def)

lemma operation_name_inj: "operation_name k = operation_name k' \<Longrightarrow> k = k'"
  by (cases k; cases k') (simp_all add: operation_name_def)

lemmas same_keys = normal_obj_same_keys [where kvs = "_ # _"]

named_theorems json_inj \<open>encoders whose normal form determines the value\<close>

lemma permissions_json_inj [json_inj]: "normal (permissions_json p) = normal (permissions_json p') \<Longrightarrow> p = p'"
  unfolding permissions_json_def by (drule same_keys) (auto intro!: permissions.equality)

lemma resources_json_inj [json_inj]: "normal (resources_json p) = normal (resources_json p') \<Longrightarrow> p = p'"
  unfolding resources_json_def by (drule same_keys) (auto intro!: env_resources.equality dest: json_inj)

lemma allow_deny_json_inj [json_inj]: "normal (allow_deny_json p) = normal (allow_deny_json p') \<Longrightarrow> p = p'"
  unfolding allow_deny_json_def by (drule same_keys) (auto intro!: allow_deny.equality)

lemma grant_json_inj [json_inj]: "normal (grant_json x) = normal (grant_json y) \<Longrightarrow> x = y"
  unfolding grant_json_def by (drule same_keys) (auto intro!: secret_grant.equality)

lemma secrets_json_inj [json_inj]:
  assumes "normal (secrets_json x) = normal (secrets_json y)" shows "x = y"
proof -
  have "normal (JArr (map grant_json (es_allow x))) = normal (JArr (map grant_json (es_allow y)))" "es_deny x = es_deny y"
    using same_keys [OF assms [unfolded secrets_json_def]] by simp_all
  then show ?thesis
    using normal_list_inj [of "es_allow x" "es_allow y" grant_json] grant_json_inj by (auto intro!: env_secrets.equality)
qed

lemma agents_json_inj [json_inj]: "normal (agents_json x) = normal (agents_json y) \<Longrightarrow> x = y"
  unfolding agents_json_def by (drule same_keys) (auto intro!: env_agents.equality)

lemma agent_json_inj [json_inj]: "normal (agent_json x) = normal (agent_json y) \<Longrightarrow> x = y"
  unfolding agent_json_def by (drule same_keys) (auto intro!: env_agent.equality)

lemma objective_json_inj [json_inj]: "normal (objective_json x) = normal (objective_json y) \<Longrightarrow> x = y"
  unfolding objective_json_def by (drule same_keys) (auto intro!: env_objective.equality)

lemma rule_json_inj [json_inj]: "normal (rule_json x) = normal (rule_json y) \<Longrightarrow> x = y"
  unfolding rule_json_def by (drule same_keys) (auto intro!: approval_rule.equality)

lemma risk_json_inj [json_inj]: "normal (risk_json x) = normal (risk_json y) \<Longrightarrow> x = y"
  unfolding risk_json_def by (drule same_keys) (auto intro!: env_risk.equality)

lemma capture_json_inj [json_inj]: "normal (capture_json x) = normal (capture_json y) \<Longrightarrow> x = y"
  unfolding capture_json_def by (drule same_keys) (auto intro!: env_evidence.equality)

lemma violation_json_inj [json_inj]: "normal (violation_json v) = normal (violation_json v') \<Longrightarrow> v = v'"
  unfolding violation_json_def by (drule same_keys) (auto intro!: env_violation_policy.equality)

lemma binding_json_inj [json_inj]: "normal (binding_json b) = normal (binding_json b') \<Longrightarrow> b = b'"
  unfolding binding_json_def
  by (drule same_keys) (auto intro!: action_binding.equality dest: kind_name_inj operation_name_inj)

lemma limits_json_inj:
  assumes "money_ok (li_max_cost_usd l)" "money_ok (li_max_cost_usd l')" "normal (limits_json l) = normal (limits_json l')"
  shows "l = l'"
proof -
  note eqs = same_keys [OF assms(3) [unfolded limits_json_def]]
  show ?thesis
    using eqs money_json_inj [OF assms(1,2)] by (auto intro!: env_limits.equality)
qed

lemma envelope_json_inj:
  assumes "normal (envelope_json e) = normal (envelope_json e')"
    "money_ok (li_max_cost_usd (en_limits e))" "money_ok (li_max_cost_usd (en_limits e'))"
  shows "e = e'"
proof -
  note eqs = same_keys [OF assms(1) [unfolded envelope_json_def]]
  have e: "en_version e = en_version e'" "normal (agent_json (en_agent e)) = normal (agent_json (en_agent e'))"
    "normal (objective_json (en_objective e)) = normal (objective_json (en_objective e'))"
    "normal (resources_json (en_resources e)) = normal (resources_json (en_resources e'))"
    "normal (allow_deny_json (en_tools e)) = normal (allow_deny_json (en_tools e'))"
    "normal (allow_deny_json (en_network e)) = normal (allow_deny_json (en_network e'))"
    "normal (secrets_json (en_secrets e)) = normal (secrets_json (en_secrets e'))"
    "normal (agents_json (en_agents e)) = normal (agents_json (en_agents e'))"
    "normal (limits_json (en_limits e)) = normal (limits_json (en_limits e'))"
    "normal (JArr (map rule_json (en_approvals e))) = normal (JArr (map rule_json (en_approvals e')))"
    "normal (risk_json (en_risk e)) = normal (risk_json (en_risk e'))"
    "normal (capture_json (en_evidence e)) = normal (capture_json (en_evidence e'))"
    "normal (violation_json (en_violation_policy e)) = normal (violation_json (en_violation_policy e'))"
    "normal (JArr (map binding_json (en_action_bindings e))) = normal (JArr (map binding_json (en_action_bindings e')))"
    using eqs by simp_all
  have "en_approvals e = en_approvals e'"
    using e(10) by (rule normal_list_inj [rotated]) (rule rule_json_inj)
  moreover have "en_action_bindings e = en_action_bindings e'"
    using e(14) by (rule normal_list_inj [rotated]) (rule binding_json_inj)
  ultimately show ?thesis
    using e limits_json_inj [OF assms(2,3) e(9)] json_inj by (intro envelope.equality) simp_all
qed

section \<open>Along a run\<close>

text \<open>A revoked agent stays revoked and is never allowed anything again.\<close>

definition revoked_agent :: "string \<Rightarrow> gate_state \<Rightarrow> bool" where
  "revoked_agent i s = (\<exists>a. st_get i (gs_agents s) = Some a \<and> ga_revoked a)"

lemma allowed_for_audit [simp]: "allowed_for i (audit sha am t j s) = allowed_for i s"
  by (simp add: allowed_for_def)

lemma revoked_agent_audit [simp]: "revoked_agent i (audit sha am t j s) = revoked_agent i s"
  by (simp add: revoked_agent_def)

lemma allowed_for_update [simp]:
  "allowed_for i (s\<lparr>gs_agents := x\<rparr>) = allowed_for i s" "allowed_for i (s\<lparr>gs_policies := y\<rparr>) = allowed_for i s"
  "allowed_for i (s\<lparr>gs_approvals := z\<rparr>) = allowed_for i s"
  by (simp_all add: allowed_for_def)

lemma decide_allowed_for:
  assumes "decide_request sha am request s = Inr (s', d)" "gate_inv sha s" "fresh_ids am s"
  shows "allowed_for i s' = allowed_for i s @ (if de_decision d = ALLOW \<and> rq_agentId request = i then [d] else [])"
    and "revoked_agent (rq_agentId request) s \<Longrightarrow> de_decision d = BLOCK"
    and "gs_agents s' = gs_agents s"
proof -
  from assms(1,2) obtain ag used where
    f: "st_get (rq_agentId request) (gs_agents s) = Some ag" "ga_id ag = rq_agentId request"
    "d = make_decision am ag (st_get (ga_id ag) (gs_policies s)) request
       (evaluate request (map_option po_envelope (st_get (ga_id ag) (gs_policies s)))
         (gate_context (am_now am) ag (used \<noteq> None) s)) used"
    "s' = record_decision sha d (st_get (ga_id ag) (gs_policies s)) (spend d (usage_of (ga_id ag) s) used s)"
    by (rule decide_facts) blast
  show "allowed_for i s' = allowed_for i s @ (if de_decision d = ALLOW \<and> rq_agentId request = i then [d] else [])"
  proof -
    have "gs_decisions s' = gs_decisions s @ [(de_decisionId d, d)]"
      using assms(3) f(3,4) by (simp add: fresh_ids_def st_put_fresh)
    moreover have "de_agentId d = rq_agentId request"
      by (simp add: f(2,3))
    ultimately show ?thesis
      by (simp add: allowed_for_def)
  qed
  show "gs_agents s' = gs_agents s"
    by (simp add: f(4))
  assume "revoked_agent (rq_agentId request) s"
  then have "ga_revoked ag"
    using f(1) by (simp add: revoked_agent_def)
  then show "de_decision d = BLOCK"
    by (simp add: f(3) evaluate_def gate_context_def)
qed

lemma revoked_exec:
  assumes "gate_inv sha s" "fresh_ids am s" "revoked_agent i s"
  shows "revoked_agent i (gate_exec sha am p c s) \<and> allowed_for i (gate_exec sha am p c s) = allowed_for i s"
proof (rule gate_exec_induct)
  fix request s' d
  assume d: "decide_request sha am request s = Inr (s', d)"
  show "revoked_agent i s' \<and> allowed_for i s' = allowed_for i s"
    using decide_allowed_for [OF d assms(1,2)] assms(3) by (auto simp: revoked_agent_def)
qed (use assms in \<open>auto simp: revoked_agent_def table.get_put gate_inv_def agents_inv_def\<close>)

lemma revoked_run:
  "gate_run sha s t \<Longrightarrow> gate_inv sha s \<Longrightarrow> revoked_agent i s \<Longrightarrow>
     revoked_agent i t \<and> allowed_for i t = allowed_for i s"
proof (induction rule: gate_run.induct)
  case (gate_run_step s t am p c)
  then show ?case
    using revoked_exec [of sha t am i p c] gate_inv_run [of sha s t] by auto
qed simp

text \<open>An issued approval never changes, except that it is used up.\<close>

definition same_approval :: "approval \<Rightarrow> approval \<Rightarrow> bool" where
  "same_approval a b = (b = a \<or> b = a\<lparr>ap_used := True\<rparr>)"

lemma approval_exec:
  assumes "gate_inv sha s" "fresh_ids am s" "st_get i (gs_approvals s) = Some a"
  shows "\<exists>b. st_get i (gs_approvals (gate_exec sha am p c s)) = Some b \<and> same_approval a b"
proof (rule gate_exec_induct)
  fix x :: approval and ev assume "ap_id x = newId ''apr'' (am_uuid am)"
  then show "\<exists>b. st_get i (gs_approvals (audit sha am ''approval.issued'' ev
      (s\<lparr>gs_approvals := st_put (ap_id x) x (gs_approvals s)\<rparr>))) = Some b \<and> same_approval a b"
    using assms(2,3) by (auto simp: fresh_ids_def same_approval_def table.get_put)
next
  fix request s' d
  assume d: "decide_request sha am request s = Inr (s', d)"
  from d assms(1) obtain ag used v where
    f: "ga_id ag = rq_agentId request" "d = make_decision am ag (st_get (ga_id ag) (gs_policies s)) request v used"
    "s' = record_decision sha d (st_get (ga_id ag) (gs_policies s)) (spend d (usage_of (ga_id ag) s) used s)"
    and u: "\<And>a. used = Some a \<Longrightarrow> st_get (ap_id a) (gs_approvals s) = Some a"
    by (rule decide_facts) blast
  show "\<exists>b. st_get i (gs_approvals s') = Some b \<and> same_approval a b"
    using assms(3) u unfolding f(3)
    by (cases used) (auto simp: spend_def same_approval_def table.get_put)
qed (use assms(3) in \<open>auto simp: same_approval_def\<close>)

lemma approval_run:
  "gate_run sha s t \<Longrightarrow> gate_inv sha s \<Longrightarrow> st_get i (gs_approvals s) = Some a \<Longrightarrow>
     \<exists>b. st_get i (gs_approvals t) = Some b \<and> same_approval a b"
proof (induction rule: gate_run.induct)
  case (gate_run_step s t am p c)
  then obtain b where b: "st_get i (gs_approvals t) = Some b" "same_approval a b" by blast
  with approval_exec [OF gate_inv_run [OF gate_run_step(1,4)] gate_run_step(2) b(1), of p c]
  show ?case by (auto simp: same_approval_def)
qed (auto simp: same_approval_def)

text \<open>The evidence only grows.\<close>

lemma evidence_exec: "\<exists>more. gs_evidence (gate_exec sha am p c s) = gs_evidence s @ more"
proof (rule gate_exec_induct)
  fix request s' d
  assume d: "decide_request sha am request s = Inr (s', d)"
  have "\<exists>po u used. s' = record_decision sha d po (spend d u used s)"
    using decide_request_Inr [OF d] by (elim exE conjE) (intro exI)
  then obtain po u used where "s' = record_decision sha d po (spend d u used s)"
    by (elim exE)
  then show "\<exists>more. gs_evidence s' = gs_evidence s @ more"
    using ev_append_extends [of sha "decision_event d" "gs_evidence s"] by auto
qed (use ev_append_extends in \<open>fastforce simp: audit_def\<close>)+

lemma evidence_run: "gate_run sha s t \<Longrightarrow> \<exists>more. gs_evidence t = gs_evidence s @ more"
proof (induction rule: gate_run.induct)
  case (gate_run_step s t am p c)
  then show ?case using evidence_exec [of sha am p c t] by (metis append.assoc)
qed simp

section \<open>A concrete Gate\<close>

text \<open>One registered agent under one envelope, used to evaluate the properties.\<close>

definition flat_digest :: "string \<Rightarrow> string" where
  "flat_digest s = ''h''"

definition demo_ambient :: "string \<Rightarrow> ambient" where
  "demo_ambient u = \<lparr>am_now = 1700000000000, am_uuid = u, am_token = ''t''\<rparr>"

definition demo_input :: json where
  "demo_input = JObj [(''agentId'', JStr ''agent-1''), (''action'', JStr ''report.write''), (''tool'', JStr ''fs''),
     (''resource'', JStr ''/srv/reports/q1.md''), (''estimatedCostUsd'', JNum (Dec 25 2))]"

definition demo_registered :: gate_state where
  "demo_registered = gate_exec flat_digest (demo_ambient ''1'') (Admin ''ops'') (Register (Some (''agent-1'', ''Reporter''))) gate_empty"

definition demo_gate :: gate_state where
  "demo_gate = gate_exec flat_digest (demo_ambient ''2'') (Admin ''ops'') (SetEnvelope (Some demo_envelope)) demo_registered"

definition demo_agent :: gate_agent where
  "demo_agent = \<lparr>ga_id = ''agent-1'', ga_name = ''Reporter'', ga_tokenHash = ''h'', ga_revoked = False\<rparr>"

lemma demo_registered_fields:
  "gs_agents demo_registered = [(''agent-1'', demo_agent)]" "gs_policies demo_registered = []"
  "gs_usage demo_registered = []" "gs_approvals demo_registered = []" "gs_decisions demo_registered = []"
  by (simp_all add: demo_registered_def gate_exec_def gate_register_def requireAdmin_def is_admin_def id_ok_def label_ok_def
     st_transaction_def st_get_def st_put_def gate_empty_def is_alnum_def is_digit_def is_lower_def is_upper_def char_in_def demo_agent_def demo_ambient_def flat_digest_def)

lemma demo_not_expired: "\<not> passed (ea_expires_at (en_agent demo_envelope)) 1700000000000"
  by code_simp

lemma demo_envelope_agent: "ea_id (en_agent demo_envelope) = ''agent-1''"
  by (simp add: demo_envelope_def)

lemma demo_gate_fields:
  "gs_agents demo_gate = [(''agent-1'', demo_agent)]"
  "gs_policies demo_gate = [(''agent-1'', \<lparr>po_envelope = demo_envelope, po_hash = ''h'', po_revision = ''pol_2''\<rparr>)]"
  "gs_usage demo_gate = []" "gs_approvals demo_gate = []" "gs_decisions demo_gate = []"
  by (simp_all add: demo_gate_def gate_exec_def gate_setEnvelope_def requireAdmin_def is_admin_def st_transaction_def
     demo_envelope_parses demo_not_expired demo_envelope_agent st_get_def st_put_def demo_registered_fields demo_agent_def demo_ambient_def
     flat_digest_def hash_json_def newId_def Let_def)

lemma demo_gate_run: "gate_run flat_digest gate_empty demo_gate"
  unfolding demo_gate_def demo_registered_def
  by (intro gate_run_step gate_run_refl, fold demo_registered_def)
    (simp_all add: fresh_ids_def st_get_def demo_registered_fields gate_empty_def)

lemma demo_gate_fresh: "fresh_ids (demo_ambient u) demo_gate"
  by (simp add: fresh_ids_def st_get_def demo_gate_fields)

lemma demo_parse: "parseAuthorizationRequest flat_digest demo_input = Inr (stored (demo_request\<lparr>rq_destination := None\<rparr>) None None)"
  by code_simp

lemma demo_allowed: "vd_decision (evaluate (stored (demo_request\<lparr>rq_destination := None\<rparr>) None None) (Some demo_envelope)
   \<lparr>pc_now = 1700000000000, pc_revoked = False, pc_usage = emptyUsage, pc_approvalValid = False, pc_knownAgents = [''agent-1'']\<rparr>) = ALLOW"
  by code_simp

lemma demo_context_eq:
  "gate_context 1700000000000 demo_agent False demo_gate = \<lparr>pc_now = 1700000000000, pc_revoked = False,
     pc_usage = emptyUsage, pc_approvalValid = False, pc_knownAgents = [''agent-1'']\<rparr>"
  by (simp add: gate_context_def demo_agent_def usage_of_def demo_gate_fields st_get_def st_list_def)

lemma demo_decide:
  "\<exists>s' d. decide_request flat_digest (demo_ambient u) (stored (demo_request\<lparr>rq_destination := None\<rparr>) None None) demo_gate
     = Inr (s', d) \<and> de_decision d = ALLOW \<and> de_agentId d = ''agent-1''"
proof -
  let ?r = "stored (demo_request\<lparr>rq_destination := None\<rparr>) None None"
  have r: "rq_agentId ?r = ''agent-1''" "cited_approval ?r demo_gate = None"
    by (simp_all add: stored_def demo_request_def auth_request.defs stored_request.defs cited_approval_def)
  have ag: "st_get ''agent-1'' (gs_agents demo_gate) = Some demo_agent" "ga_id demo_agent = ''agent-1''"
    by (simp_all add: st_get_def demo_gate_fields demo_agent_def)
  have po: "map_option po_envelope (st_get ''agent-1'' (gs_policies demo_gate)) = Some demo_envelope"
    by (simp add: st_get_def demo_gate_fields)
  have am: "am_now (demo_ambient u) = 1700000000000"
    by (simp add: demo_ambient_def)
  show ?thesis
    by (simp add: decide_request_def r ag po am approval_valid_def demo_context_eq demo_allowed Let_def)
qed

lemma demo_authorize:
  "\<exists>s' d. authorize flat_digest (demo_ambient u) (Agent ''agent-1'') demo_input demo_gate = (s', Inr d)
     \<and> de_decision d = ALLOW \<and> de_agentId d = ''agent-1''"
proof -
  let ?r = "stored (demo_request\<lparr>rq_destination := None\<rparr>) None None"
  have r: "rq_agentId ?r = ''agent-1''"
    by (simp add: stored_def demo_request_def auth_request.defs stored_request.defs)
  obtain s' d where d: "decide_request flat_digest (demo_ambient u) ?r demo_gate = Inr (s', d)"
    "de_decision d = ALLOW" "de_agentId d = ''agent-1''"
    using demo_decide by blast
  have "authorize flat_digest (demo_ambient u) (Agent ''agent-1'') demo_input demo_gate = (s', Inr d)"
    unfolding authorize_def demo_parse sum.case by (simp add: r d st_transaction_def)
  with d show ?thesis by blast
qed

definition demo_after :: gate_state where
  "demo_after = gate_exec flat_digest (demo_ambient ''3'') (Agent ''agent-1'') (Authorize demo_input) demo_gate"

lemma demo_after_run: "gate_run flat_digest gate_empty demo_after"
  unfolding demo_after_def by (rule gate_run_step [OF demo_gate_run demo_gate_fresh])

lemma demo_after_one: "length (allowed_for ''agent-1'' demo_after) = 1"
proof -
  obtain s' d where d: "decide_request flat_digest (demo_ambient ''3'') (stored (demo_request\<lparr>rq_destination := None\<rparr>) None None)
      demo_gate = Inr (s', d)" "de_decision d = ALLOW" "de_agentId d = ''agent-1''"
    using demo_decide by blast
  have r: "rq_agentId (stored (demo_request\<lparr>rq_destination := None\<rparr>) None None) = ''agent-1''"
    by (simp add: stored_def demo_request_def auth_request.defs stored_request.defs)
  have "demo_after = s'"
    unfolding demo_after_def gate_exec_def gate_command.case authorize_def demo_parse sum.case
    by (simp add: r d st_transaction_def)
  moreover have "allowed_for ''agent-1'' s' = allowed_for ''agent-1'' demo_gate @ [d]"
    using decide_allowed_for(1) [OF d(1) gate_inv_run [OF demo_gate_run gate_inv_empty] demo_gate_fresh] d r by simp
  ultimately show ?thesis
    by (simp add: allowed_for_def demo_gate_fields)
qed

section \<open>Properties\<close>

text \<open>
  C2. An approval is spent at most once: in every state the Gate can reach from the empty store, with
  random ids that do not repeat, at most one ALLOW decision cites a given approval.
\<close>

theorem approval_single_use:
  assumes "gate_run sha gate_empty s"
  shows "length (filter (\<lambda>d. de_decision d = ALLOW \<and> de_approvalReference d = Some i) (map snd (gs_decisions s))) \<le> 1"
  using gate_inv_run [OF assms gate_inv_empty] by (simp add: gate_inv_def single_use_inv_def citing_def)

theorem approval_single_use_witness:
  "length (filter (\<lambda>d. de_decision d = ALLOW \<and> de_approvalReference d = Some ''apr_9'') (map snd (gs_decisions demo_after))) \<le> 1"
  by (rule approval_single_use [OF demo_after_run])

text \<open>
  C9. The counters are the truth: in every reachable state an agent's call count, external-request
  count, cost in millionths and per-action attempts equal the totals over the ALLOW decisions stored
  for that agent, whatever policies were issued or replaced in between.
\<close>

theorem counters_are_totals:
  assumes "gate_run sha gate_empty s"
  shows "us_calls (usage_of i s) = int (length (allowed_for i s))
    \<and> us_external (usage_of i s) = external_calls (allowed_for i s)
    \<and> us_costMicros (usage_of i s) = spent_cost (allowed_for i s)
    \<and> (\<forall>a. attemptsFor (usage_of i s) a = attempts_of (allowed_for i s) a)"
  using gate_inv_run [OF assms gate_inv_empty] by (auto simp: gate_inv_def usage_inv_def accounts_def)

theorem counters_are_totals_witness: "us_calls (usage_of ''agent-1'' demo_after) = 1"
  using counters_are_totals [OF demo_after_run, of "''agent-1''"] demo_after_one by simp



text \<open>
  C20. Revocation is final: from any reachable state in which an agent is revoked, whatever commands
  follow (new envelopes, approvals, requests), the agent stays revoked and no ALLOW decision is ever
  added for it.
\<close>

theorem revocation_is_final:
  assumes "gate_run sha gate_empty s" "st_get i (gs_agents s) = Some a" "ga_revoked a" "gate_run sha s t"
  shows "isAgentRevoked i t \<and> allowed_for i t = allowed_for i s"
proof -
  have "revoked_agent i s"
    using assms(2,3) by (simp add: revoked_agent_def)
  from revoked_run [OF assms(4) gate_inv_run [OF assms(1) gate_inv_empty] this] show ?thesis
    by (auto simp: revoked_agent_def isAgentRevoked_def)
qed

definition demo_revoked :: gate_state where
  "demo_revoked = gate_exec flat_digest (demo_ambient ''4'') (Admin ''ops'') (Revoke (Some (''agent-1'', ''lost key''))) demo_gate"

lemma demo_revoked_agent: "st_get ''agent-1'' (gs_agents demo_revoked) = Some (demo_agent\<lparr>ga_revoked := True\<rparr>)"
  by (simp add: demo_revoked_def gate_exec_def gate_revoke_def requireAdmin_def is_admin_def id_ok_def label_ok_def
     st_transaction_def st_get_def st_put_def demo_gate_fields is_alnum_def is_digit_def is_lower_def is_upper_def char_in_def
     demo_agent_def)

theorem revocation_is_final_witness:
  "isAgentRevoked ''agent-1'' (gate_exec flat_digest (demo_ambient ''5'') (Agent ''agent-1'') (Authorize demo_input) demo_revoked)"
proof -
  have run: "gate_run flat_digest gate_empty demo_revoked"
    unfolding demo_revoked_def by (rule gate_run_step [OF demo_gate_run demo_gate_fresh])
  have "gs_approvals demo_revoked = []" "gs_decisions demo_revoked = []"
    by (simp_all add: demo_revoked_def gate_exec_def gate_revoke_def requireAdmin_def is_admin_def id_ok_def label_ok_def
     st_transaction_def st_get_def st_put_def demo_gate_fields is_alnum_def is_digit_def is_lower_def is_upper_def char_in_def)
  then have "fresh_ids (demo_ambient ''5'') demo_revoked"
    by (simp add: fresh_ids_def st_get_def)
  from revocation_is_final [OF run demo_revoked_agent _ gate_run_step [OF gate_run_refl this]] show ?thesis
    by simp
qed

text \<open>
  An approval authorises exactly the request its approver saw. If an approval was issued for the
  request \<open>r0\<close> and a later request \<open>r\<close> is allowed citing it, then \<open>r\<close> is \<open>r0\<close> in every field the
  hash binds (agent, action, tool, resource, destination, cost, tool input), or the two texts that
  were hashed collide.
\<close>

theorem approval_binds_request:
  assumes "gate_run sha gate_empty s" "fresh_ids am0 s"
    and "issue_approval sha am0 role r0 expiresAt s = Inr (s1, i)"
    and "gate_run sha s1 t" "decide_request sha am r t = Inr (t', d)"
    and "de_approvalReference d = Some i"
    and "inj_on sha {canonical (bound_request_json r0), canonical (bound_request_json r)}"
  shows "rq_agentId r = rq_agentId r0 \<and> rq_action r = rq_action r0 \<and> rq_tool r = rq_tool r0
    \<and> rq_resource r = rq_resource r0 \<and> rq_destination r = rq_destination r0
    \<and> normal (money_json (rq_estimatedCostUsd r)) = normal (money_json (rq_estimatedCostUsd r0))
    \<and> map_option normal (sr_input r) = map_option normal (sr_input r0) \<and> sr_input_hash r = sr_input_hash r0"
proof -
  have inv: "gate_inv sha s" by (rule gate_inv_run [OF assms(1) gate_inv_empty])
  obtain a ev where
    a: "ap_requestHash a = requestHash sha r0" "ap_id a = newId ''apr'' (am_uuid am0)" "\<not> ap_used a"
    and s1: "s1 = audit sha am0 ''approval.issued'' ev (s\<lparr>gs_approvals := st_put (ap_id a) a (gs_approvals s)\<rparr>)"
    and i: "i = ap_id a"
    using issue_approval_Inr [OF assms(3)] make_approval_simps by metis
  have inv1: "gate_inv sha s1"
    unfolding s1 using assms(2) a(2) inv by (intro gate_inv_audit gate_inv_put_approval) (simp_all add: fresh_ids_def)
  have "st_get i (gs_approvals s1) = Some a"
    by (simp add: s1 i table.get_put)
  from approval_run [OF assms(4) inv1 this] obtain b where
    b: "st_get i (gs_approvals t) = Some b" "same_approval a b" by blast
  from assms(5) gate_inv_run [OF assms(4) inv1] obtain ag used v where
    f: "d = make_decision am ag (st_get (ga_id ag) (gs_policies t)) r v used"
    and u: "\<And>x. used = Some x \<Longrightarrow> approval_valid sha (am_now am) ag (st_get (ga_id ag) (gs_policies t)) r (Some x)
       \<and> st_get (ap_id x) (gs_approvals t) = Some x"
    by (rule decide_facts) blast
  obtain x where x: "used = Some x" "ap_id x = i"
    using assms(6) f by auto
  with u [OF x(1)] b have "ap_requestHash b = requestHash sha r"
    by (simp add: approval_valid_def)
  then have "hash_json sha (bound_request_json r0) = hash_json sha (bound_request_json r)"
    using a(1) b(2) by (auto simp: same_approval_def requestHash_def)
  from hash_json_inj [OF this assms(7)] show ?thesis
    using bound_request_binds [of r0 r] by auto
qed

definition reviewed_envelope :: envelope where
  "reviewed_envelope = demo_envelope\<lparr>en_approvals := [\<lparr>ar_action = ''report.write'', ar_approver_role = ''lead''\<rparr>]\<rparr>"

definition reviewed_policy :: policy where
  "reviewed_policy = \<lparr>po_envelope = reviewed_envelope, po_hash = ''h'', po_revision = ''pol_2''\<rparr>"

definition reviewed_gate :: gate_state where
  "reviewed_gate = gate_exec flat_digest (demo_ambient ''2'') (Admin ''ops'') (SetEnvelope (Some reviewed_envelope)) demo_registered"

definition plain_request :: stored_request where
  "plain_request = stored (demo_request\<lparr>rq_destination := None\<rparr>) None None"

definition approved_request :: stored_request where
  "approved_request = stored (demo_request\<lparr>rq_destination := None, rq_approvalId := Some ''apr_6''\<rparr>) None None"

lemmas request_example_defs = plain_request_def approved_request_def stored_def demo_request_def
  auth_request.defs stored_request.defs

lemma reviewed_facts:
  "envelope_parse (Some reviewed_envelope) = Some reviewed_envelope"
  "\<not> passed (ea_expires_at (en_agent reviewed_envelope)) 1700000000000"
  "ea_id (en_agent reviewed_envelope) = ''agent-1''"
  "approval_rule_for reviewed_envelope ''report.write'' = Some \<lparr>ar_action = ''report.write'', ar_approver_role = ''lead''\<rparr>"
  "\<not> passed ''2029-01-01T00:00:00Z'' 1700000000000" "in_future ''2029-01-01T00:00:00Z'' 1700000000000"
  "\<not> later_than ''2029-01-01T00:00:00Z'' (ea_expires_at (en_agent reviewed_envelope))"
  "vd_decision (evaluate plain_request (Some reviewed_envelope)
     \<lparr>pc_now = 1700000000000, pc_revoked = False, pc_usage = emptyUsage, pc_approvalValid = True, pc_knownAgents = [''agent-1'']\<rparr>) = ALLOW"
  by code_simp+

lemma reviewed_gate_fields:
  "gs_agents reviewed_gate = [(''agent-1'', demo_agent)]" "gs_policies reviewed_gate = [(''agent-1'', reviewed_policy)]"
  "gs_usage reviewed_gate = []" "gs_approvals reviewed_gate = []" "gs_decisions reviewed_gate = []"
  by (simp_all add: reviewed_gate_def reviewed_policy_def gate_exec_def gate_setEnvelope_def requireAdmin_def is_admin_def
     st_transaction_def reviewed_facts st_get_def st_put_def demo_registered_fields demo_agent_def demo_ambient_def
     flat_digest_def hash_json_def newId_def Let_def)

lemma reviewed_gate_run: "gate_run flat_digest gate_empty reviewed_gate"
  unfolding reviewed_gate_def demo_registered_def
  by (intro gate_run_step gate_run_refl, fold demo_registered_def)
    (simp_all add: fresh_ids_def st_get_def demo_registered_fields gate_empty_def)

lemma reviewed_issue:
  "\<exists>s1. issue_approval flat_digest (demo_ambient ''6'') ''lead'' plain_request ''2029-01-01T00:00:00Z'' reviewed_gate
     = Inr (s1, ''apr_6'') \<and> gs_agents s1 = gs_agents reviewed_gate \<and> gs_policies s1 = gs_policies reviewed_gate
     \<and> st_get ''apr_6'' (gs_approvals s1)
         = Some (make_approval flat_digest (demo_ambient ''6'') demo_agent reviewed_policy ''lead'' plain_request ''2029-01-01T00:00:00Z'')"
proof -
  have r: "rq_agentId plain_request = ''agent-1''" "rq_action plain_request = ''report.write''"
    by (simp_all add: request_example_defs)
  have s: "st_get ''agent-1'' (gs_agents reviewed_gate) = Some demo_agent" "st_get ''agent-1'' (gs_policies reviewed_gate) = Some reviewed_policy"
    "po_envelope reviewed_policy = reviewed_envelope" "\<not> ga_revoked demo_agent" "am_now (demo_ambient u) = 1700000000000" for u
    by (simp_all add: st_get_def reviewed_gate_fields reviewed_policy_def demo_agent_def demo_ambient_def)
  have c: "gate_context 1700000000000 demo_agent True reviewed_gate = \<lparr>pc_now = 1700000000000, pc_revoked = False,
     pc_usage = emptyUsage, pc_approvalValid = True, pc_knownAgents = [''agent-1'']\<rparr>"
    by (simp add: gate_context_def demo_agent_def usage_of_def reviewed_gate_fields st_get_def st_list_def)
  have n: "newId ''apr'' (am_uuid (demo_ambient ''6'')) = ''apr_6''"
    by (simp add: newId_def demo_ambient_def)
  show ?thesis
    by (simp add: issue_approval_def r s c reviewed_facts Let_def n table.get_put)
qed

theorem approval_binds_request_witness:
  "\<exists>s1 t' d. issue_approval flat_digest (demo_ambient ''6'') ''lead'' plain_request ''2029-01-01T00:00:00Z'' reviewed_gate
      = Inr (s1, ''apr_6'')
    \<and> decide_request flat_digest (demo_ambient ''7'') approved_request s1 = Inr (t', d)
    \<and> de_approvalReference d = Some ''apr_6'' \<and> rq_resource approved_request = rq_resource plain_request"
proof -
  obtain s1 where s1: "issue_approval flat_digest (demo_ambient ''6'') ''lead'' plain_request ''2029-01-01T00:00:00Z'' reviewed_gate
     = Inr (s1, ''apr_6'')" "gs_agents s1 = gs_agents reviewed_gate" "gs_policies s1 = gs_policies reviewed_gate"
    "st_get ''apr_6'' (gs_approvals s1)
       = Some (make_approval flat_digest (demo_ambient ''6'') demo_agent reviewed_policy ''lead'' plain_request ''2029-01-01T00:00:00Z'')"
    using reviewed_issue by blast
  have same: "bound_request_json approved_request = bound_request_json plain_request"
    by (simp add: bound_request_json_def request_example_defs)
  have r: "rq_agentId approved_request = ''agent-1''" "rq_action approved_request = ''report.write''"
    "rq_approvalId approved_request = Some ''apr_6''"
    by (simp_all add: request_example_defs)
  have s: "st_get ''agent-1'' (gs_agents s1) = Some demo_agent" "st_get ''agent-1'' (gs_policies s1) = Some reviewed_policy"
    "ga_id demo_agent = ''agent-1''" "am_now (demo_ambient u) = 1700000000000" for u
    using s1(2,3) by (simp_all add: st_get_def reviewed_gate_fields demo_agent_def demo_ambient_def)
  have v: "approval_valid flat_digest 1700000000000 demo_agent (Some reviewed_policy) approved_request
      (Some (make_approval flat_digest (demo_ambient ''6'') demo_agent reviewed_policy ''lead'' plain_request ''2029-01-01T00:00:00Z''))"
    by (simp add: approval_valid_def make_approval_def requestHash_def same reviewed_policy_def r reviewed_facts)
  have c: "cited_approval approved_request s1 = st_get ''apr_6'' (gs_approvals s1)"
    by (simp add: cited_approval_def r)
  have n: "newId ''apr'' (am_uuid (demo_ambient ''6'')) = ''apr_6''"
    by (simp add: newId_def demo_ambient_def)
  obtain t' d where d: "decide_request flat_digest (demo_ambient ''7'') approved_request s1 = Inr (t', d)"
    "de_approvalReference d = Some ''apr_6''"
    by (simp add: decide_request_def r s c s1(4) v Let_def n)
  have f: "fresh_ids (demo_ambient ''6'') reviewed_gate"
    by (simp add: fresh_ids_def st_get_def reviewed_gate_fields)
  have "rq_resource approved_request = rq_resource plain_request"
    using approval_binds_request [OF reviewed_gate_run f s1(1) gate_run_refl d] same by simp
  with s1(1) d show ?thesis by blast
qed

text \<open>
  C25. The audit trail is complete and append-only: along any run the evidence rows only grow by
  appending, the chain verifies in every reachable state, and every decision the Gate ever stored has
  its \<open>authorization.decision\<close> event in the trail.
\<close>

theorem evidence_complete:
  assumes "gate_run sha gate_empty s" "gate_run sha s t"
  shows "prefix (gs_evidence s) (gs_evidence t) \<and> verify_evidence sha (gs_evidence t) = Inr ()
    \<and> (\<forall>i d. st_get i (gs_decisions s) = Some d \<longrightarrow>
          (\<exists>row \<in> set (gs_evidence t). ev_body row = stringify (decision_event d)))"
proof -
  have inv: "gate_inv sha s" by (rule gate_inv_run [OF assms(1) gate_inv_empty])
  have "gate_inv sha t" by (rule gate_inv_run [OF assms(2) inv])
  moreover obtain more where m: "gs_evidence t = gs_evidence s @ more"
    using evidence_run [OF assms(2)] by blast
  moreover have "\<exists>row \<in> set (gs_evidence s). ev_body row = stringify (decision_event d)"
    if "st_get i (gs_decisions s) = Some d" for i d
  proof -
    have "d \<in> set (map snd (gs_decisions s))"
      using that map_of_in_set [of "gs_decisions s" i d] by (force simp: st_get_def)
    then show ?thesis
      using inv by (fastforce simp: gate_inv_def evidence_inv_def)
  qed
  ultimately show ?thesis
    by (fastforce simp: gate_inv_def evidence_inv_def)
qed

theorem evidence_complete_witness:
  "prefix (gs_evidence demo_gate) (gs_evidence demo_after) \<and> verify_evidence flat_digest (gs_evidence demo_after) = Inr ()"
  using evidence_complete [OF demo_gate_run gate_run_step [OF gate_run_refl demo_gate_fresh]]
  unfolding demo_after_def by blast

text \<open>
  C26. The trail is tamper-evident: two chains of the same length that both verify and end in the same
  hash carry the same bodies, or two of the row texts collide under the digest.
\<close>

theorem evidence_tamper_evident:
  assumes "verify_evidence sha rows = Inr ()" "verify_evidence sha rows' = Inr ()" "length rows = length rows'"
    "last_hash rows = last_hash rows'"
    "inj_on sha (canonical ` row_content ` set rows \<union> canonical ` row_content ` set rows')"
  shows "map ev_body rows = map ev_body rows'"
  using assms unfolding verify_evidence_def verify_rows_chain last_hash_head
  by (intro evidence.head_determines [of rows rows' sha genesis])

definition tiny_log :: "evidence_row list" where
  "tiny_log = ev_append (\<lambda>s. s) (JStr ''b'') (ev_append (\<lambda>s. s) (JStr ''a'') [])"

theorem evidence_tamper_evident_witness:
  "map ev_body tiny_log = map ev_body tiny_log \<and> verify_evidence (\<lambda>s. s) tiny_log = Inr ()"
proof -
  have v: "verify_evidence (\<lambda>s. s) tiny_log = Inr ()"
    unfolding tiny_log_def by (intro verify_append) (simp add: verify_evidence_def)
  from evidence_tamper_evident [OF v v refl refl] v show ?thesis by simp
qed

text \<open>
  A policy hash stands for one envelope: two accepted envelopes with the same hash are equal in
  every field, or their canonical texts collide.
\<close>

theorem policy_hash_binds_envelope:
  assumes "envelope_parse a = Some e" "envelope_parse b = Some e'"
    "hash_json sha (envelope_json e) = hash_json sha (envelope_json e')"
    "inj_on sha {canonical (envelope_json e), canonical (envelope_json e')}"
  shows "e = e'"
proof (rule envelope_json_inj)
  show "normal (envelope_json e) = normal (envelope_json e')"
    by (rule hash_json_inj [OF assms(3,4)])
  show "money_ok (li_max_cost_usd (en_limits e))" "money_ok (li_max_cost_usd (en_limits e'))"
    using assms(1,2) by (simp_all add: envelope_parse_Some envelope_ok_def env_limits_ok_def Let_def)
qed

theorem policy_hash_binds_envelope_witness:
  "hash_json (\<lambda>s. s) (envelope_json reviewed_envelope) \<noteq> hash_json (\<lambda>s. s) (envelope_json demo_envelope)"
proof
  assume "hash_json (\<lambda>s. s) (envelope_json reviewed_envelope) = hash_json (\<lambda>s. s) (envelope_json demo_envelope)"
  from policy_hash_binds_envelope [OF reviewed_facts(1) demo_envelope_parses this]
  have "en_approvals reviewed_envelope = en_approvals demo_envelope" by (simp add: inj_on_def)
  then show False by (simp add: reviewed_envelope_def demo_envelope_def)
qed

text \<open>
  Replacing a policy invalidates what was decided under the old one: after a new envelope is
  issued for the agent with a revision no decision has recorded yet, no earlier decision is current,
  even when the new envelope has the same content and hash.
\<close>

theorem new_policy_invalidates_decisions:
  assumes "gate_run sha gate_empty s" "gate_setEnvelope sha am p input s = (s', Inr h)"
    "input = Some e" "ea_id (en_agent e) = de_agentId d"
    "st_get (de_decisionId d) (gs_decision_policies s) = Some dp" "dp_policyRevision dp \<noteq> newId ''pol'' (am_uuid am)"
  shows "\<not> isPolicyCurrent now d s'"
proof -
  have inv: "agents_inv s"
    using gate_inv_run [OF assms(1) gate_inv_empty] by (simp add: gate_inv_def)
  have p: "requireAdmin p = Inr ()" and e: "envelope_ok e" "\<not> passed (ea_expires_at (en_agent e)) (am_now am)"
    using assms(2,3) by (auto simp: gate_setEnvelope_def envelope_parse_def split: sum.splits if_splits option.splits)
  then obtain ag where ag: "st_get (ea_id (en_agent e)) (gs_agents s) = Some ag" "\<not> ga_revoked ag"
    using assms(2,3) by (auto simp: gate_setEnvelope_def envelope_parse_def st_transaction_def split: option.splits if_splits)
  have id: "ga_id ag = de_agentId d"
    using inv ag(1) assms(4) by (simp add: agents_inv_def)
  have "s' = fst (gate_setEnvelope sha am p input s)"
    by (simp add: assms(2))
  then have "st_get (de_agentId d) (gs_policies s') = Some \<lparr>po_envelope = e, po_hash = hash_json sha (envelope_json e),
      po_revision = newId ''pol'' (am_uuid am)\<rparr>" "gs_decision_policies s' = gs_decision_policies s"
    using p e ag id by (simp_all add: gate_setEnvelope_def assms(3) envelope_parse_def st_transaction_def Let_def table.get_put)
  then show ?thesis
    using assms(5,6) by (simp add: isPolicyCurrent_def)
qed

theorem new_policy_invalidates_decisions_witness:
  "\<exists>s' h d. gate_setEnvelope flat_digest (demo_ambient ''9'') (Admin ''ops'') (Some demo_envelope) demo_after = (s', Inr h)
    \<and> de_decision d = ALLOW \<and> \<not> isPolicyCurrent 1700000000000 d s'"
proof -
  obtain s1 d where d: "decide_request flat_digest (demo_ambient ''3'') plain_request demo_gate = Inr (s1, d)"
    "de_decision d = ALLOW" "de_agentId d = ''agent-1''"
    using demo_decide unfolding plain_request_def by blast
  have r: "rq_agentId plain_request = ''agent-1''"
    by (simp add: request_example_defs)
  have after: "demo_after = s1"
    unfolding demo_after_def gate_exec_def gate_command.case authorize_def demo_parse sum.case plain_request_def [symmetric]
    by (simp add: r d st_transaction_def)
  have po: "st_get ''agent-1'' (gs_policies demo_gate)
      = Some \<lparr>po_envelope = demo_envelope, po_hash = ''h'', po_revision = ''pol_2''\<rparr>"
    by (simp add: demo_gate_fields st_get_def)
  have inv: "gate_inv flat_digest demo_gate"
    by (rule gate_inv_run [OF demo_gate_run gate_inv_empty])
  from d(1) inv obtain ag used v where
    f: "ga_id ag = rq_agentId plain_request" "d = make_decision (demo_ambient ''3'') ag (st_get (ga_id ag) (gs_policies demo_gate)) plain_request v used"
    "s1 = record_decision flat_digest d (st_get (ga_id ag) (gs_policies demo_gate)) (spend d (usage_of (ga_id ag) demo_gate) used demo_gate)"
    by (rule decide_facts) blast
  have dp: "st_get (de_decisionId d) (gs_decision_policies demo_after)
      = Some \<lparr>dp_policyHash = ''h'', dp_policyRevision = ''pol_2''\<rparr>"
    by (simp add: after f(1,3) r po record_decision_def table.get_put)
  have ag: "st_get ''agent-1'' (gs_agents demo_after) = Some demo_agent"
    using decide_allowed_for(3) [OF d(1) inv demo_gate_fresh] by (simp add: after demo_gate_fields st_get_def)
  obtain s' h where set: "gate_setEnvelope flat_digest (demo_ambient ''9'') (Admin ''ops'') (Some demo_envelope) demo_after = (s', Inr h)"
    using ag by (simp add: gate_setEnvelope_def requireAdmin_def is_admin_def demo_envelope_parses demo_not_expired
        demo_envelope_agent st_transaction_def demo_ambient_def demo_agent_def Let_def)
  have "ea_id (en_agent demo_envelope) = de_agentId d"
    by (simp add: d(3) demo_envelope_agent)
  moreover have "dp_policyRevision \<lparr>dp_policyHash = ''h'', dp_policyRevision = ''pol_2''\<rparr> \<noteq> newId ''pol'' (am_uuid (demo_ambient ''9''))"
    by (simp add: newId_def demo_ambient_def)
  ultimately have "\<not> isPolicyCurrent 1700000000000 d s'"
    using new_policy_invalidates_decisions [OF demo_after_run set refl _ dp] by blast
  with set d(2) show ?thesis by blast
qed

end
