(* ===== verification/Js_Parse.thy ===== *)
theory Js_Parse
  imports Js_Canonical
begin

text \<open>
  \<open>JSON.parse\<close> on the texts the code accepts. Every caller modelled here compares the canonical form
  of what it parsed with the text itself and rejects a difference, so only texts without white space
  and with the escapes of \<open>quote\<close> matter; the parser accepts those. The fuel is one more than
  the length of the text, which bounds the recursion because every call consumes a character.
\<close>

section \<open>Strings\<close>

fun parse_chars :: "nat \<Rightarrow> string \<Rightarrow> (string \<times> string) option" where
  "parse_chars 0 s = None"
| "parse_chars (Suc n) [] = None"
| "parse_chars (Suc n) (c # s) =
     (if c = CHR 0x22 then Some ([], s)
      else (case unescape (c # s) of None \<Rightarrow> None
         | Some (k, r) \<Rightarrow> (case parse_chars n r of None \<Rightarrow> None
             | Some (t, r') \<Rightarrow> Some (char_of k # t, r'))))"

lemma parse_chars_quoted:
  "length t < n \<Longrightarrow> parse_chars n (concat (map escape_char t) @ CHR 0x22 # r) = Some (t, r)"
proof (induction t arbitrary: n)
  case Nil
  then show ?case by (cases n) simp_all
next
  case (Cons c t)
  then obtain m where n: "n = Suc m" "length t < m" by (cases n) auto
  obtain d ds where e: "escape_char c = d # ds" "d \<noteq> CHR 0x22"
    using escape_char_head [of c] by (cases "escape_char c") auto
  have "unescape (d # ds @ concat (map escape_char t) @ CHR 0x22 # r)
      = Some (code_of c, concat (map escape_char t) @ CHR 0x22 # r)"
    using unescape_escape [of c] e by simp
  with e n Cons.IH [OF n(2)] show ?case by simp
qed

section \<open>Numbers\<close>

definition parse_num :: "string \<Rightarrow> jnum" where
  "parse_num s =
     (let neg = starts_with ''-'' s; t = (if neg then drop 1 s else s);
          i = takeWhile is_digit t; f = drop 1 (dropWhile is_digit t);
          v = int (digits_val (i @ f))
      in Dec (if neg then - v else v) (length f))"

lemma parse_num_dec: "parse_num (show_dec m s) = Dec m s"
proof -
  let ?p = "padded m s"
  let ?k = "length ?p - s"
  let ?i = "take ?k ?p" and ?f = "drop ?k ?p"
  have d: "\<forall>c \<in> set ?i. is_digit c" "\<forall>c \<in> set ?f. is_digit c"
    using padded_digits [of m s] by (auto simp: list_all_iff dest: in_set_takeD in_set_dropD)
  have len: "length ?f = s" "?i \<noteq> []"
    using padded_length [of s m] by auto
  have nd: "\<not> is_digit (CHR ''.'')" "\<not> is_digit (CHR ''-'')"
    by (simp_all add: is_digit_def)
  have neg: "starts_with ''-'' (?i @ u) = False" for u
    using len(2) d(1) nd(2) by (cases ?i) (auto simp: starts_with_def)
  have v: "digits_val (?i @ ?f) = nat \<bar>m\<bar>"
    by (simp add: padded_val)
  show ?thesis
  proof (cases "s = 0")
    case True
    have tw: "takeWhile is_digit (padded m 0) = padded m 0" "dropWhile is_digit (padded m 0) = []"
      using padded_digits [of m 0] by (simp_all add: takeWhile_eq_all_conv dropWhile_eq_Nil_conv list_all_iff)
    have "\<not> starts_with ''-'' (padded m 0)"
      using neg [of "[]"] True by simp
    then show ?thesis
      using True padded_val [of m 0] by (simp add: parse_num_def show_dec_padded Let_def starts_with_def tw)
  next
    case False
    have tw: "takeWhile is_digit (?i @ CHR ''.'' # ?f) = ?i" "dropWhile is_digit (?i @ CHR ''.'' # ?f) = CHR ''.'' # ?f"
      using d(1) nd(1) by (simp_all add: takeWhile_append2 dropWhile_append2)
    show ?thesis
      using False tw neg [of "CHR ''.'' # ?f"] v len(1)
      by (simp add: parse_num_def show_dec_padded Let_def starts_with_def)
  qed
qed

section \<open>Values\<close>

fun parse_json :: "nat \<Rightarrow> string \<Rightarrow> (json \<times> string) option"
  and parse_elems :: "nat \<Rightarrow> string \<Rightarrow> (json list \<times> string) option"
  and parse_fields :: "nat \<Rightarrow> string \<Rightarrow> ((string \<times> json) list \<times> string) option" where
  "parse_json 0 s = None"
| "parse_json (Suc n) [] = None"
| "parse_json (Suc n) (c # s) =
     (if starts_with ''null'' (c # s) then Some (JNull, drop 3 s)
      else if starts_with ''true'' (c # s) then Some (JBool True, drop 3 s)
      else if starts_with ''false'' (c # s) then Some (JBool False, drop 4 s)
      else if c = CHR 0x22 then map_option (\<lambda>(t, r). (JStr t, r)) (parse_chars (Suc (length s)) s)
      else if c = CHR ''['' then
        (if starts_with '']'' s then Some (JArr [], drop 1 s)
         else map_option (\<lambda>(xs, r). (JArr xs, r)) (parse_elems n s))
      else if c = CHR ''{'' then
        (if starts_with ''}'' s then Some (JObj [], drop 1 s)
         else map_option (\<lambda>(kvs, r). (JObj kvs, r)) (parse_fields n s))
      else if num_char c then Some (JNum (parse_num (takeWhile num_char (c # s))), dropWhile num_char (c # s))
      else None)"
| "parse_elems 0 s = None"
| "parse_elems (Suc n) s =
     (case parse_json n s of
        Some (x, c # r) \<Rightarrow>
          if c = CHR '','' then map_option (\<lambda>(xs, r'). (x # xs, r')) (parse_elems n r)
          else if c = CHR '']'' then Some ([x], r) else None
      | _ \<Rightarrow> None)"
| "parse_fields 0 s = None"
| "parse_fields (Suc n) s =
     (if \<not> starts_with [CHR 0x22] s then None
      else (case parse_chars (length s) (drop 1 s) of
          None \<Rightarrow> None
        | Some (k, s1) \<Rightarrow>
            if \<not> starts_with '':'' s1 then None
            else (case parse_json n (drop 1 s1) of
                Some (x, c # r) \<Rightarrow>
                  if c = CHR '','' then map_option (\<lambda>(kvs, r'). ((k, x) # kvs, r')) (parse_fields n r)
                  else if c = CHR ''}'' then Some ([(k, x)], r) else None
              | _ \<Rightarrow> None)))"

definition json_parse :: "string \<Rightarrow> json option" where
  "json_parse s = (case parse_json (Suc (length s)) s of Some (j, []) \<Rightarrow> Some j | _ \<Rightarrow> None)"

lemma parse_elems_join:
  assumes "xs \<noteq> []" "Suc (length (str_join '','' (map stringify xs))) < n"
    and "\<And>x m s. x \<in> set xs \<Longrightarrow> follow s \<Longrightarrow> length (stringify x) < m \<Longrightarrow> parse_json m (stringify x @ s) = Some (x, s)"
  shows "parse_elems n (str_join '','' (map stringify xs) @ CHR '']'' # u) = Some (xs, u)"
  using assms
proof (induction xs arbitrary: n)
  case (Cons x xs)
  then obtain m where n: "n = Suc m" by (cases n) auto
  show ?case
  proof (cases xs)
    case Nil
    then show ?thesis
      using Cons.prems(2) Cons.prems(3) [of x "CHR '']'' # u" m] n by simp
  next
    case ys: (Cons y ys)
    then have len: "Suc (length (str_join '','' (map stringify xs))) < m" "length (stringify x) < m"
      using Cons.prems(2) n by simp_all
    have "parse_elems m (str_join '','' (map stringify xs) @ CHR '']'' # u) = Some (xs, u)"
      using Cons.prems(3) len(1) ys by (intro Cons.IH) simp_all
    with Cons.prems(3) [of x "CHR '','' # str_join '','' (map stringify xs) @ CHR '']'' # u" m] len(2) n ys
    show ?thesis by simp
  qed
qed simp

abbreviation entry_text :: "string \<times> json \<Rightarrow> string" where
  "entry_text kv \<equiv> json_field (fst kv) (stringify (snd kv))"

lemma escaped_length: "length t \<le> length (concat (map escape_char t))"
proof (induction t)
  case (Cons c t)
  have "escape_char c \<noteq> []" using escape_char_head [of c] by blast
  then have "1 \<le> length (escape_char c)" by (cases "escape_char c") simp_all
  with Cons show ?case by simp
qed simp

lemma parse_key:
  "parse_fields (Suc m) (json_field k (stringify x) @ s)
     = (case parse_json m (stringify x @ s) of
          Some (y, c # r) \<Rightarrow>
            if c = CHR '','' then map_option (\<lambda>(kvs, r'). ((k, y) # kvs, r')) (parse_fields m r)
            else if c = CHR ''}'' then Some ([(k, y)], r) else None
        | _ \<Rightarrow> None)"
proof -
  let ?t = "CHR '':'' # stringify x @ s"
  have "length k < length (json_field k (stringify x) @ s)"
    using escaped_length [of k] by (simp add: json_field_def quote_def)
  then have "parse_chars (length (json_field k (stringify x) @ s)) (concat (map escape_char k) @ CHR 0x22 # ?t) = Some (k, ?t)"
    by (rule parse_chars_quoted)
  then show ?thesis
    by (simp add: json_field_def quote_def starts_with_def)
qed

lemma parse_fields_join:
  assumes "kvs \<noteq> []" "Suc (length (str_join '','' (map entry_text kvs))) < n"
    and "\<And>kv m s. kv \<in> set kvs \<Longrightarrow> follow s \<Longrightarrow> length (stringify (snd kv)) < m \<Longrightarrow>
      parse_json m (stringify (snd kv) @ s) = Some (snd kv, s)"
  shows "parse_fields n (str_join '','' (map entry_text kvs) @ CHR ''}'' # u) = Some (kvs, u)"
  using assms
proof (induction kvs arbitrary: n)
  case (Cons kv kvs)
  then obtain m where n: "n = Suc m" by (cases n) auto
  have el: "length (stringify (snd kv)) < length (entry_text kv)"
    by (simp add: json_field_def)
  show ?case
  proof (cases kvs)
    case Nil
    have "length (stringify (snd kv)) < m"
      using el Cons.prems(2) n Nil by simp
    then show ?thesis
      using Cons.prems(3) [of kv "CHR ''}'' # u" m] n Nil by (simp add: parse_key del: parse_fields.simps)
  next
    case ys: (Cons y ys)
    then have len: "Suc (length (str_join '','' (map entry_text kvs))) < m" "length (stringify (snd kv)) < m"
      using Cons.prems(2) n el by simp_all
    have "parse_fields m (str_join '','' (map entry_text kvs) @ CHR ''}'' # u) = Some (kvs, u)"
      using Cons.prems(3) len(1) ys by (intro Cons.IH) simp_all
    with Cons.prems(3) [of kv "CHR '','' # str_join '','' (map entry_text kvs) @ CHR ''}'' # u" m] len(2) n ys
    show ?thesis by (simp add: parse_key del: parse_fields.simps)
  qed
qed simp

lemma first_char_cases:
  "\<not> starts_with ''null'' (c # s)" if "c \<noteq> CHR ''n''"
  using that by (simp add: starts_with_def)

lemma parse_num_norm: "parse_num (show_num n) = norm_num n"
  by (simp add: show_num_def parse_num_dec split: jnum.splits)

lemma parse_json_stringify:
  "num_normal j \<Longrightarrow> follow s \<Longrightarrow> length (stringify j) < n \<Longrightarrow> parse_json n (stringify j @ s) = Some (j, s)"
proof (induction j arbitrary: s n rule: stringify.induct)
  case 1
  then show ?case by (cases n) (simp_all add: starts_with_def)
next
  case (2 b)
  then show ?case by (cases n) (auto simp: starts_with_def)
next
  case (3 k)
  obtain m where n: "n = Suc m" using 3 by (cases n) auto
  obtain c cs where c: "show_num k = c # cs" "num_char c"
    using show_num_nonempty [of k] show_num_chars [of k] by (cases "show_num k") auto
  have fo: "takeWhile num_char s = []"
    using 3(2) by (cases s) (auto simp: follow_def num_char_def is_digit_def)
  then have tw: "takeWhile num_char (show_num k @ s) = show_num k" "dropWhile num_char (show_num k @ s) = s"
    using show_num_chars [of k] by (auto simp: list_all_iff takeWhile_append2 dropWhile_append2 takeWhile_eq_Nil_iff dropWhile_eq_self_iff)
  have nc: "c \<noteq> CHR ''n''" "c \<noteq> CHR ''t''" "c \<noteq> CHR ''f''" "c \<noteq> CHR 0x22" "c \<noteq> CHR ''[''" "c \<noteq> CHR ''{''"
    using c(2) by (auto simp: num_char_def is_digit_def)
  have k: "norm_num k = k" using 3(1) by simp
  have "parse_json n (c # cs @ s) = Some (JNum (parse_num (takeWhile num_char (c # cs @ s))), dropWhile num_char (c # cs @ s))"
    using nc c(2) unfolding n by (simp add: starts_with_def)
  moreover have "c # cs @ s = show_num k @ s"
    by (simp add: c(1))
  ultimately show ?case
    unfolding stringify.simps using tw k parse_num_norm [of k] by metis
next
  case (4 t)
  obtain m where n: "n = Suc m" using 4 by (cases n) auto
  let ?r = "concat (map escape_char t) @ CHR 0x22 # s"
  have "length t < Suc (length ?r)"
    using escaped_length [of t] by simp
  then have "parse_chars (Suc (length ?r)) ?r = Some (t, s)"
    by (rule parse_chars_quoted)
  then show ?case
    using n by (simp add: quote_def starts_with_def)
next
  case (5 xs)
  obtain m where n: "n = Suc m" using 5 by (cases n) auto
  show ?case
  proof (cases "xs = []")
    case False
    then obtain x ys where x: "xs = x # ys" by (cases xs) auto
    obtain c cs where c: "stringify x = c # cs" "c \<notin> {CHR '','', CHR '']'', CHR ''}''}"
      using stringify_not_close by blast
    have hd: "\<exists>ds. str_join '','' (map stringify xs) @ CHR '']'' # s = c # ds"
      using c x by (cases ys) auto
    have "parse_elems m (str_join '','' (map stringify xs) @ CHR '']'' # s) = Some (xs, s)"
      using 5 n False by (intro parse_elems_join) auto
    moreover obtain ds where ds: "str_join '','' (map stringify xs) @ CHR '']'' # s = c # ds"
      using hd by blast
    ultimately have "parse_json n (CHR ''['' # c # ds) = Some (JArr xs, s)"
      using c(2) n by (simp add: starts_with_def)
    then show ?thesis
      using ds by simp
  qed (simp add: n starts_with_def)
next
  case (6 kvs)
  obtain m where n: "n = Suc m" using 6 by (cases n) auto
  have e: "map (\<lambda>(k, v). json_field k (stringify v)) kvs = map entry_text kvs"
    by (simp add: case_prod_unfold)
  show ?case
  proof (cases "kvs = []")
    case False
    have len: "Suc (length (str_join '','' (map entry_text kvs))) < m"
      using 6(4) n by (simp add: case_prod_unfold)
    have "parse_fields m (str_join '','' (map entry_text kvs) @ CHR ''}'' # s) = Some (kvs, s)"
    proof (rule parse_fields_join [OF False len])
      fix kv k u assume a: "kv \<in> set kvs" "follow u" "length (stringify (snd kv)) < k"
      then show "parse_json k (stringify (snd kv) @ u) = Some (snd kv, u)"
        using 6(1) [of kv "fst kv" "snd kv" u k] 6(2) by auto
    qed
    moreover obtain ds where ds: "str_join '','' (map entry_text kvs) @ CHR ''}'' # s = CHR 0x22 # ds"
      using False by (cases kvs; cases "tl kvs") (auto simp: json_field_def quote_def)
    ultimately have "parse_json n (CHR ''{'' # CHR 0x22 # ds) = Some (JObj kvs, s)"
      using n by (simp add: starts_with_def)
    then show ?thesis
      unfolding stringify.simps e using ds by simp
  qed (simp add: n starts_with_def)
qed

lemma json_parse_canonical: "json_parse (canonical j) = Some (normal j)"
  using parse_json_stringify [of "normal j" "[]" "Suc (length (stringify (normal j)))"]
  by (simp add: json_parse_def canonical_normal)

end
