(* ===== verification/Capability.thy ===== *)
theory Capability
  imports Js_Parse Js_Date
begin

text \<open>
  \<open>packages/capability-core\<close>: single-use capability tokens. A token is the base64url text of the
  canonical payload, a dot, and the base64url text of its MAC. The codec's key is fixed, so the MAC is
  a parameter \<open>hmac\<close> from payload bytes to 32 bytes; the clock and the nonce are arguments.
\<close>

section \<open>base64url\<close>

definition b64_char :: "nat \<Rightarrow> char" where
  \<comment> \<open>\<open>A-Z a-z 0-9 - _\<close>\<close>
  "b64_char n = (if n < 26 then char_of (n + 65) else if n < 52 then char_of (n + 71)
     else if n < 62 then char_of (n - 4) else if n = 62 then CHR ''-'' else CHR ''_'')"

definition b64_ok :: "char \<Rightarrow> bool" where
  "b64_ok c = (is_alnum c \<or> c = CHR ''-'' \<or> c = CHR ''_'')"

definition b64_val :: "char \<Rightarrow> nat" where
  "b64_val c = (if is_upper c then code_of c - 65 else if is_lower c then code_of c - 71
     else if is_digit c then code_of c + 4 else if c = CHR ''-'' then 62 else 63)"

fun encode :: "string \<Rightarrow> string" where
  "encode [] = []"
| "encode [a] = (let n = code_of a * 16 in [b64_char (n div 64), b64_char (n mod 64)])"
| "encode [a, b] = (let n = (code_of a * 256 + code_of b) * 4
     in [b64_char (n div 4096), b64_char (n div 64 mod 64), b64_char (n mod 64)])"
| "encode (a # b # c # s) = (let n = (code_of a * 256 + code_of b) * 256 + code_of c
     in [b64_char (n div 262144), b64_char (n div 4096 mod 64), b64_char (n div 64 mod 64), b64_char (n mod 64)] @ encode s)"

text \<open>\<open>Buffer.from(value, 'base64url')\<close>: spare bits and a single last digit are dropped.\<close>

fun b64_bytes :: "string \<Rightarrow> string" where
  "b64_bytes [] = []"
| "b64_bytes [x] = []"
| "b64_bytes [x, y] = [char_of ((b64_val x * 64 + b64_val y) div 16)]"
| "b64_bytes [x, y, z] = (let n = (b64_val x * 64 + b64_val y) * 64 + b64_val z
     in [char_of (n div 1024), char_of (n div 4 mod 256)])"
| "b64_bytes (x # y # z # w # s) = (let n = ((b64_val x * 64 + b64_val y) * 64 + b64_val z) * 64 + b64_val w
     in [char_of (n div 65536), char_of (n div 256 mod 256), char_of (n mod 256)] @ b64_bytes s)"

definition decode :: "string \<Rightarrow> string option" where
  "decode s = (if s = [] \<or> \<not> list_all b64_ok s then None
     else let d = b64_bytes s in if encode d \<noteq> s then None else Some d)"

lemma b64_char_props [simp]:
  assumes "n < 64" shows "b64_val (b64_char n) = n" "b64_ok (b64_char n)"
proof -
  have o: "code_of (char_of k) = k" if "k < 256" for k :: nat
    using that by simp
  consider "n < 26" | "26 \<le> n" "n < 52" | k where "n = 52 + k" "k < 10" | "n = 62" | "n = 63"
  proof -
    have "n < 26 \<or> 26 \<le> n \<and> n < 52 \<or> n = 52 + (n - 52) \<and> n - 52 < 10 \<or> n = 62 \<or> n = 63"
      using assms by arith
    then show thesis using that by blast
  qed
  then have "b64_val (b64_char n) = n \<and> b64_ok (b64_char n)"
    by cases (simp_all add: b64_char_def b64_val_def b64_ok_def is_alnum_def is_upper_def is_lower_def is_digit_def o)
  then show "b64_val (b64_char n) = n" "b64_ok (b64_char n)" by blast+
qed

lemma two_bytes:
  fixes a b :: nat assumes "a < 256" "b < 256" shows "(a * 256 + b) * 4 < 262144"
proof -
  have "a \<le> 255" "b \<le> 255" using assms by simp_all
  then have "(a * 256 + b) * 4 \<le> (255 * 256 + 255) * 4" by (intro mult_le_mono add_mono) simp_all
  then show ?thesis by simp
qed

lemma code_less: "code_of c < (256 :: nat)"
  by (rule nat_of_char_less_256)

lemma low_digit:
  fixes x c :: nat assumes "c < 256" shows "(x * 256 + c) mod 256 = c" "(x * 256 + c) div 256 = x"
  using assms by simp_all

lemma of_digits3:
  fixes a b c :: nat assumes "a < 256" "b < 256" "c < 256"
  shows "((a * 256 + b) * 256 + c) div 65536 = a" "((a * 256 + b) * 256 + c) div 256 mod 256 = b"
    "((a * 256 + b) * 256 + c) mod 256 = c" "((a * 256 + b) * 256 + c) div 262144 < 64"
proof -
  have m: "((a * 256 + b) * 256 + c) mod 256 = c" "((a * 256 + b) * 256 + c) div 256 = a * 256 + b"
    by (fact low_digit [OF assms(3)])+
  have "(a * 256 + b) mod 256 = b" "(a * 256 + b) div 256 = a"
    by (fact low_digit [OF assms(2)])+
  moreover have "((a * 256 + b) * 256 + c) div 65536 = ((a * 256 + b) * 256 + c) div 256 div 256"
    by (simp add: div_mult2_eq [symmetric])
  ultimately show "((a * 256 + b) * 256 + c) div 65536 = a" "((a * 256 + b) * 256 + c) div 256 mod 256 = b"
    "((a * 256 + b) * 256 + c) mod 256 = c"
    using m by simp_all
  show "((a * 256 + b) * 256 + c) div 262144 < 64"
    using assms by (simp add: div_less_iff_less_mult)
qed

lemma base64_digits:
  fixes n :: nat
  shows "((n div 262144 * 64 + n div 4096 mod 64) * 64 + n div 64 mod 64) * 64 + n mod 64 = n"
proof -
  have "n div 4096 = n div 64 div 64" "n div 262144 = n div 64 div 64 div 64"
    by (simp_all add: div_mult2_eq [symmetric])
  then show ?thesis by (simp only: div_mult_mod_eq)
qed

text \<open>The four, three and two digits of a group, read back.\<close>

lemma read_group4:
  "n < 16777216 \<Longrightarrow> b64_bytes (b64_char (n div 262144) # b64_char (n div 4096 mod 64) # b64_char (n div 64 mod 64)
     # b64_char (n mod 64) # s) = char_of (n div 65536) # char_of (n div 256 mod 256) # char_of (n mod 256) # b64_bytes s"
  using base64_digits [of n] by (simp add: Let_def div_less_iff_less_mult)

lemma read_group3:
  assumes "n < 262144"
  shows "b64_bytes [b64_char (n div 4096), b64_char (n div 64 mod 64), b64_char (n mod 64)]
    = [char_of (n div 1024), char_of (n div 4 mod 256)]"
proof -
  have "n div 4096 = n div 64 div 64"
    by (simp add: div_mult2_eq [symmetric])
  then have "(n div 4096 * 64 + n div 64 mod 64) * 64 + n mod 64 = n"
    by (simp only: div_mult_mod_eq)
  with assms show ?thesis by (simp add: Let_def div_less_iff_less_mult)
qed

lemma read_group2:
  assumes "n < 4096" shows "b64_bytes [b64_char (n div 64), b64_char (n mod 64)] = [char_of (n div 16)]"
  using assms by (simp add: div_less_iff_less_mult)

lemma groups_ok:
  "n < 16777216 \<Longrightarrow> b64_ok (b64_char (n div 262144))" "n < 262144 \<Longrightarrow> b64_ok (b64_char (n div 4096))"
  "n < 4096 \<Longrightarrow> b64_ok (b64_char (n div 64))"
  by (simp_all add: div_less_iff_less_mult)

lemma three_bytes:
  fixes a b c :: nat assumes "a < 256" "b < 256" "c < 256" shows "(a * 256 + b) * 256 + c < 16777216"
proof -
  have "a \<le> 255" "b \<le> 255" "c \<le> 255" using assms by simp_all
  then have "(a * 256 + b) * 256 + c \<le> (255 * 256 + 255) * 256 + 255" by (intro mult_le_mono add_mono) simp_all
  then show ?thesis by simp
qed

lemma encode_groups:
  "b64_bytes (encode s) = s \<and> list_all b64_ok (encode s)"
proof (induction s rule: encode.induct)
  case (2 a)
  define n :: nat where "n = code_of a * 16"
  have "n < 4096" "n div 16 = code_of a"
    using code_less [of a] by (simp_all add: n_def)
  then show ?case
    unfolding encode.simps Let_def n_def [symmetric] using groups_ok(3) by (simp del: b64_bytes.simps add: read_group2)
next
  case (3 a b)
  define n :: nat where "n = (code_of a * 256 + code_of b) * 4"
  have "n < 262144"
    unfolding n_def by (rule two_bytes) (rule code_less)+
  moreover have "n div 4 = code_of a * 256 + code_of b" "n div 1024 = n div 4 div 256"
    by (simp_all add: n_def div_mult2_eq [symmetric])
  then have "n div 1024 = code_of a" "n div 4 mod 256 = code_of b"
    using low_digit [OF code_less] by simp_all
  ultimately show ?case
    unfolding encode.simps Let_def n_def [symmetric] using groups_ok(2) by (simp del: b64_bytes.simps add: read_group3)
next
  case (4 a b c s)
  define n :: nat where "n = (code_of a * 256 + code_of b) * 256 + code_of c"
  have "n < 16777216"
    unfolding n_def by (rule three_bytes) (rule code_less)+
  moreover have "n div 65536 = code_of a" "n div 256 mod 256 = code_of b" "n mod 256 = code_of c"
    unfolding n_def by (fact of_digits3 [OF code_less code_less code_less])+
  ultimately show ?case
    unfolding encode.simps Let_def n_def [symmetric] using groups_ok(1) 4
    by (simp del: b64_bytes.simps add: read_group4)
qed simp

lemma b64_bytes_encode: "b64_bytes (encode s) = s" and encode_chars: "list_all b64_ok (encode s)"
  using encode_groups by blast+

lemma encode_empty: "encode s = [] \<longleftrightarrow> s = []"
  by (cases s rule: encode.cases) (simp_all add: Let_def)

lemma decode_encode: "s \<noteq> [] \<Longrightarrow> decode (encode s) = Some s"
  by (simp add: decode_def encode_empty encode_chars b64_bytes_encode)

lemma decode_Some: "decode s = Some d \<Longrightarrow> encode d = s"
  by (auto simp: decode_def Let_def split: if_splits)

lemma encode_no_dot: "CHR ''.'' \<notin> set (encode s)"
  using encode_chars [of s] by (auto simp: list_all_iff b64_ok_def char_class_defs)

section \<open>Payloads\<close>

definition max_ttl_seconds :: int where
  "max_ttl_seconds = 60"

definition default_ttl_seconds :: int where
  "default_ttl_seconds = 30"

definition mac_length :: nat where
  "mac_length = 32"

record capability_payload =
  cp_capability_id :: string  cp_execution_id :: string  cp_agent_id :: string  cp_decision_id :: string
  cp_action :: string  cp_tool :: string  cp_resource :: string  cp_operation :: string  cp_input_hash :: string
  cp_destination :: "string option"  cp_policy_hash :: string  cp_policy_issuance_id :: string
  cp_issued_at :: string  cp_expires_at :: string  cp_nonce :: string

record capability_input =
  ci_capability_id :: string  ci_execution_id :: string  ci_agent_id :: string  ci_decision_id :: string
  ci_action :: string  ci_tool :: string  ci_resource :: string  ci_operation :: string
  ci_input_hash :: "string option"  ci_destination :: "string option"  ci_policy_hash :: string
  ci_policy_issuance_id :: string  ci_expires_at :: "string option"

definition payload_entries :: "capability_payload \<Rightarrow> (string \<times> json) list" where
  "payload_entries p = [(''version'', jint 1), (''capability_id'', JStr (cp_capability_id p)),
     (''execution_id'', JStr (cp_execution_id p)), (''agent_id'', JStr (cp_agent_id p)),
     (''decision_id'', JStr (cp_decision_id p)), (''action'', JStr (cp_action p)), (''tool'', JStr (cp_tool p)),
     (''resource'', JStr (cp_resource p)), (''operation'', JStr (cp_operation p)),
     (''input_hash'', JStr (cp_input_hash p)), (''destination'', opt_json JStr (cp_destination p)),
     (''policy_hash'', JStr (cp_policy_hash p)), (''policy_issuance_id'', JStr (cp_policy_issuance_id p)),
     (''issued_at'', JStr (cp_issued_at p)), (''expires_at'', JStr (cp_expires_at p)),
     (''single_use'', JBool True), (''nonce'', JStr (cp_nonce p))]"

definition payload_json :: "capability_payload \<Rightarrow> json" where
  "payload_json p = JObj (payload_entries p)"

definition cap_canonical :: "json \<Rightarrow> string" where
  "cap_canonical j = canonical j"

definition validText :: "string \<Rightarrow> bool" where
  "validText s = (s \<noteq> [] \<and> \<not> list_ex is_control s)"

definition parseIso :: "string \<Rightarrow> bool" where
  "parseIso s = is_iso_text s"

definition validInput :: "capability_input \<Rightarrow> bool" where
  "validInput i = (validText (ci_capability_id i) \<and> validText (ci_execution_id i) \<and> validText (ci_agent_id i)
     \<and> validText (ci_decision_id i) \<and> validText (ci_action i) \<and> validText (ci_tool i)
     \<and> validText (ci_resource i) \<and> validText (ci_operation i)
     \<and> (case ci_input_hash i of None \<Rightarrow> True | Some h \<Rightarrow> is_hex64 h)
     \<and> (case ci_destination i of None \<Rightarrow> True | Some d \<Rightarrow> validText d)
     \<and> validText (ci_policy_hash i) \<and> validText (ci_policy_issuance_id i)
     \<and> (case ci_expires_at i of None \<Rightarrow> True | Some t \<Rightarrow> parseIso t))"

definition payload_keys :: "string list" where
  "payload_keys = [''version'', ''capability_id'', ''execution_id'', ''agent_id'', ''decision_id'', ''action'',
     ''tool'', ''resource'', ''operation'', ''input_hash'', ''destination'', ''policy_hash'', ''policy_issuance_id'',
     ''issued_at'', ''expires_at'', ''single_use'', ''nonce'']"

definition nonce_ok :: "string \<Rightarrow> bool" where
  "nonce_ok s = (length s = 22 \<and> list_all b64_ok s)"

definition validPayload :: "json \<Rightarrow> bool" where
  "validPayload v =
     (is_plain_object (Some v) \<and> length (obj_keys v) = length payload_keys
      \<and> list_all (\<lambda>k. k \<in> set (obj_keys v)) payload_keys
      \<and> num_where (\<lambda>n. norm_num n = Dec 1 0) (jfield ''version'' v) \<and> jfield ''single_use'' v = Some (JBool True)
      \<and> list_all (\<lambda>k. str_where validText (jfield k v)) [''capability_id'', ''execution_id'', ''agent_id'',
           ''decision_id'', ''action'', ''tool'', ''resource'', ''operation'']
      \<and> str_where is_hex64 (jfield ''input_hash'' v)
      \<and> (jfield ''destination'' v = Some JNull \<or> str_where validText (jfield ''destination'' v))
      \<and> str_where validText (jfield ''policy_hash'' v) \<and> str_where validText (jfield ''policy_issuance_id'' v)
      \<and> str_where parseIso (jfield ''issued_at'' v) \<and> str_where parseIso (jfield ''expires_at'' v)
      \<and> str_where (\<lambda>s. validText s \<and> nonce_ok s) (jfield ''nonce'' v)
      \<and> (case (date_parse (the_str (jfield ''issued_at'' v)), date_parse (the_str (jfield ''expires_at'' v))) of
            (Some a, Some b) \<Rightarrow> a \<le> b | _ \<Rightarrow> False))"

definition read_payload :: "json \<Rightarrow> capability_payload" where
  \<comment> \<open>a parsed value that passed \<open>validPayload\<close>, as the record its type says it is\<close>
  "read_payload v = \<lparr>cp_capability_id = the_str (jfield ''capability_id'' v), cp_execution_id = the_str (jfield ''execution_id'' v),
     cp_agent_id = the_str (jfield ''agent_id'' v), cp_decision_id = the_str (jfield ''decision_id'' v),
     cp_action = the_str (jfield ''action'' v), cp_tool = the_str (jfield ''tool'' v),
     cp_resource = the_str (jfield ''resource'' v), cp_operation = the_str (jfield ''operation'' v),
     cp_input_hash = the_str (jfield ''input_hash'' v), cp_destination = jstr (jfield ''destination'' v),
     cp_policy_hash = the_str (jfield ''policy_hash'' v), cp_policy_issuance_id = the_str (jfield ''policy_issuance_id'' v),
     cp_issued_at = the_str (jfield ''issued_at'' v), cp_expires_at = the_str (jfield ''expires_at'' v),
     cp_nonce = the_str (jfield ''nonce'' v)\<rparr>"

section \<open>The codec\<close>

definition codec_ttl :: "nat \<Rightarrow> jnum option \<Rightarrow> (string, int) res" where
  \<comment> \<open>the constructor: the length of the secret and the time to live asked for\<close>
  "codec_ttl secret_length ttl =
     (if secret_length < 32 then Inl ''Capability secret must be at least 32 bytes''
      else let t = (case ttl of Some n \<Rightarrow> n | None \<Rightarrow> Dec default_ttl_seconds 0) in
        if \<not> is_integer t \<or> num_val t \<le> 0 \<or> num_val t > of_int max_ttl_seconds
        then Inl ''Capability TTL must be an integer from 1 to 60 seconds''
        else Inr (int_of_num t))"

definition sign :: "(string \<Rightarrow> string) \<Rightarrow> capability_payload \<Rightarrow> string" where
  "sign hmac p = (let bytes = cap_canonical (payload_json p) in encode bytes @ ''.'' @ encode (hmac bytes))"

definition make_payload :: "capability_input \<Rightarrow> string \<Rightarrow> int \<Rightarrow> int \<Rightarrow> string \<Rightarrow> capability_payload" where
  "make_payload i inputHash issuedAt expiresAt random =
     \<lparr>cp_capability_id = ci_capability_id i, cp_execution_id = ci_execution_id i,
      cp_agent_id = ci_agent_id i, cp_decision_id = ci_decision_id i, cp_action = ci_action i,
      cp_tool = ci_tool i, cp_resource = ci_resource i, cp_operation = ci_operation i,
      cp_input_hash = inputHash, cp_destination = ci_destination i,
      cp_policy_hash = ci_policy_hash i, cp_policy_issuance_id = ci_policy_issuance_id i,
      cp_issued_at = to_iso issuedAt, cp_expires_at = to_iso expiresAt, cp_nonce = encode random\<rparr>"

definition cap_issue :: "(string \<Rightarrow> string) \<Rightarrow> (string \<Rightarrow> string) \<Rightarrow> int \<Rightarrow> int \<Rightarrow> string \<Rightarrow> capability_input
    \<Rightarrow> (string, string \<times> capability_payload) res" where
  \<comment> \<open>\<open>issue\<close>; the time to live, the clock and sixteen random bytes are arguments\<close>
  "cap_issue sha hmac ttl now random i =
     (if \<not> validInput i then Inl ''Invalid capability input''
      else let inputHash = (case ci_input_hash i of Some h \<Rightarrow> h | None \<Rightarrow> sha ''null'');
               maximum = now + ttl * 1000 in
        (case (case ci_expires_at i of None \<Rightarrow> Some maximum | Some t \<Rightarrow> date_parse t) of
           None \<Rightarrow> Inl ''Invalid capability expiry''
         | Some requested \<Rightarrow>
             if requested < now then Inl ''Invalid capability expiry''
             else let p = make_payload i inputHash now (min requested maximum) random
                  in Inr (sign hmac p, p)))"

definition invalid_token :: string where
  "invalid_token = ''Invalid capability token''"

definition verify_times :: "int \<Rightarrow> json \<Rightarrow> (string, capability_payload) res" where
  "verify_times now parsed =
     (case (date_parse (the_str (jfield ''issued_at'' parsed)), date_parse (the_str (jfield ''expires_at'' parsed))) of
        (Some issuedAt, Some expiresAt) \<Rightarrow>
          if issuedAt > now then Inl ''Capability issued in the future''
          else if expiresAt - issuedAt > max_ttl_seconds * 1000 then Inl ''Capability TTL exceeds maximum''
          else if expiresAt \<le> now then Inl ''Capability expired''
          else Inr (read_payload parsed)
      | _ \<Rightarrow> Inl invalid_token)"

definition cap_verify :: "(string \<Rightarrow> string) \<Rightarrow> int \<Rightarrow> string \<Rightarrow> (string, capability_payload) res" where
  "cap_verify hmac now token =
     (case str_split (CHR ''.'') token of
        [a, b] \<Rightarrow>
          (case (decode a, decode b) of
             (Some payloadBytes, Some suppliedMac) \<Rightarrow>
               if length suppliedMac \<noteq> mac_length then Inl invalid_token
               else if hmac payloadBytes \<noteq> suppliedMac then Inl invalid_token
               else (case json_parse payloadBytes of
                   None \<Rightarrow> Inl invalid_token
                 | Some parsed \<Rightarrow>
                     if \<not> validPayload parsed then Inl invalid_token
                     else if cap_canonical parsed \<noteq> payloadBytes then Inl invalid_token
                     else verify_times now parsed)
           | _ \<Rightarrow> Inl invalid_token)
      | _ \<Rightarrow> Inl invalid_token)"

section \<open>Round trip\<close>

lemma jfield_normal:
  assumes "distinct (map fst kvs)"
  shows "jfield k (normal (JObj kvs)) = map_option normal (map_of kvs k)"
proof -
  let ?g = "\<lambda>(k, v). (k, normal v)"
  have keys: "map fst (map ?g kvs) = map fst kvs"
    by (induction kvs) auto
  have "map_of (sort_key fst (map ?g kvs)) = map_of (map ?g kvs)"
  proof (subst map_of_inject_set)
    show d: "distinct (map fst (map ?g kvs))"
      using assms keys by (simp only:)
    have "mset (map fst (sort_key fst (map ?g kvs))) = mset (map fst (map ?g kvs))"
      by (simp only: mset_map mset_sort)
    then show "distinct (map fst (sort_key fst (map ?g kvs)))"
      using d mset_eq_imp_distinct_iff by blast
  qed simp
  moreover have "map_of (map ?g kvs) k = map_option normal (map_of kvs k)"
    by (induction kvs) auto
  ultimately show ?thesis by simp
qed

lemma obj_keys_normal: "set (obj_keys (normal (JObj kvs))) = fst ` set kvs" "length (obj_keys (normal (JObj kvs))) = length kvs"
  by (auto simp: obj_keys_def image_iff) force+

lemma payload_keys_distinct: "distinct payload_keys"
  by code_simp

lemma payload_entries_keys: "map fst (payload_entries p) = payload_keys"
  unfolding payload_entries_def payload_keys_def list.map fst_conv by (rule refl)

lemma payload_distinct: "distinct (map fst (payload_entries p))"
  unfolding payload_entries_keys by (rule payload_keys_distinct)

lemma payload_entry:
  "(k, x) \<in> set (payload_entries p) \<Longrightarrow> normal x = x \<Longrightarrow> jfield k (normal (payload_json p)) = Some x"
  unfolding payload_json_def jfield_normal [OF payload_distinct] using payload_distinct by simp

lemma payload_fields:
  "jfield ''version'' (normal (payload_json p)) = Some (jint 1)"
  "jfield ''single_use'' (normal (payload_json p)) = Some (JBool True)"
  "jfield ''capability_id'' (normal (payload_json p)) = Some (JStr (cp_capability_id p))"
  "jfield ''execution_id'' (normal (payload_json p)) = Some (JStr (cp_execution_id p))"
  "jfield ''agent_id'' (normal (payload_json p)) = Some (JStr (cp_agent_id p))"
  "jfield ''decision_id'' (normal (payload_json p)) = Some (JStr (cp_decision_id p))"
  "jfield ''action'' (normal (payload_json p)) = Some (JStr (cp_action p))"
  "jfield ''tool'' (normal (payload_json p)) = Some (JStr (cp_tool p))"
  "jfield ''resource'' (normal (payload_json p)) = Some (JStr (cp_resource p))"
  "jfield ''operation'' (normal (payload_json p)) = Some (JStr (cp_operation p))"
  "jfield ''input_hash'' (normal (payload_json p)) = Some (JStr (cp_input_hash p))"
  "jfield ''destination'' (normal (payload_json p)) = Some (opt_json JStr (cp_destination p))"
  "jfield ''policy_hash'' (normal (payload_json p)) = Some (JStr (cp_policy_hash p))"
  "jfield ''policy_issuance_id'' (normal (payload_json p)) = Some (JStr (cp_policy_issuance_id p))"
  "jfield ''issued_at'' (normal (payload_json p)) = Some (JStr (cp_issued_at p))"
  "jfield ''expires_at'' (normal (payload_json p)) = Some (JStr (cp_expires_at p))"
  "jfield ''nonce'' (normal (payload_json p)) = Some (JStr (cp_nonce p))"
  by (rule payload_entry,
      (unfold payload_entries_def list.set, (rule insertI1 | rule insertI2)+)[1],
      simp add: opt_json_def split: option.splits)+

lemma read_payload_json: "read_payload (normal (payload_json p)) = p"
  unfolding read_payload_def payload_fields
  by (simp add: the_str_def opt_json_def jstr_def split: option.splits)

definition payload_ok :: "capability_payload \<Rightarrow> bool" where
  "payload_ok p = (list_all validText [cp_capability_id p, cp_execution_id p, cp_agent_id p, cp_decision_id p,
       cp_action p, cp_tool p, cp_resource p, cp_operation p, cp_policy_hash p, cp_policy_issuance_id p, cp_nonce p]
     \<and> is_hex64 (cp_input_hash p) \<and> (\<forall>d. cp_destination p = Some d \<longrightarrow> validText d)
     \<and> parseIso (cp_issued_at p) \<and> parseIso (cp_expires_at p) \<and> nonce_ok (cp_nonce p)
     \<and> (\<exists>a b. date_parse (cp_issued_at p) = Some a \<and> date_parse (cp_expires_at p) = Some b \<and> a \<le> b))"

lemma payload_keys_set: "set (obj_keys (normal (payload_json p))) = set payload_keys"
    "length (obj_keys (normal (payload_json p))) = length payload_keys"
  unfolding payload_json_def obj_keys_normal set_map [symmetric] payload_entries_keys
  by (rule refl) (metis length_map payload_entries_keys)

lemma payload_plain: "is_plain_object (Some (normal (payload_json p)))"
  by (simp add: payload_json_def is_plain_object_def)

lemma list_all_items: "list_all P [] = True" "list_all P (x # xs) = (P x \<and> list_all P xs)"
  by simp_all

lemma validPayload_json:
  assumes "payload_ok p" shows "validPayload (normal (payload_json p))"
proof -
  have v: "num_where (\<lambda>n. norm_num n = Dec 1 0) (Some (jint 1))"
    by (simp add: num_where_def jint_def norm_num_def)
  have d: "Some (opt_json JStr (cp_destination p)) = Some JNull \<or> str_where validText (Some (opt_json JStr (cp_destination p)))"
    using assms by (cases "cp_destination p") (simp_all add: payload_ok_def)
  obtain a b where t: "date_parse (cp_issued_at p) = Some a" "date_parse (cp_expires_at p) = Some b" "a \<le> b"
    using assms unfolding payload_ok_def by blast
  have k: "list_all (\<lambda>k. k \<in> set payload_keys) payload_keys"
    by (simp only: list_all_iff) blast
  have ts: "the_str (Some (JStr x)) = x" for x
    by (simp add: the_str_def)
  show ?thesis
    unfolding validPayload_def payload_fields payload_keys_set list_all_items str_where_simps ts t prod.case option.case
    using assms v d k t(3) payload_plain unfolding payload_ok_def list_all_items by blast
qed

section \<open>Soundness of verification\<close>

lemma entries_from_keys:
  assumes "length (map fst kvs) = length ks" "list_all (\<lambda>k. k \<in> set (map fst kvs)) ks" "distinct ks"
  shows "distinct (map fst kvs)" "set (map fst kvs) = set ks"
proof -
  have sub: "set ks \<subseteq> set (map fst kvs)"
    using assms(2) by (auto simp: list_all_iff)
  have "card (set ks) = length ks"
    using assms(3) by (rule distinct_card)
  then have c: "length (map fst kvs) \<le> card (set (map fst kvs))"
    using assms(1) card_mono [OF finite_set sub] by simp
  then show "distinct (map fst kvs)"
    by (metis card_distinct card_length le_antisym)
  then have "card (set (map fst kvs)) = card (set ks)"
    using assms(1,3) distinct_card by metis
  then show "set (map fst kvs) = set ks"
    using card_subset_eq [OF finite_set sub] by simp
qed

lemma canonical_normal_same: "canonical (normal j) = canonical j"
  by (simp add: canonical_eq_iff)

lemma normal_same_lookup:
  assumes "distinct (map fst kvs)" "distinct (map fst kvs')" "set (map fst kvs) = set (map fst kvs')"
    "\<And>k. k \<in> set (map fst kvs) \<Longrightarrow> map_option normal (map_of kvs k) = map_option normal (map_of kvs' k)"
  shows "normal (JObj kvs) = normal (JObj kvs')"
proof -
  let ?g = "\<lambda>(k, v). (k, normal v)"
  have keys: "map fst (map ?g xs) = map fst xs" for xs :: "(string \<times> json) list"
    by (induction xs) auto
  have look: "map_of (map ?g xs) k = map_option normal (map_of xs k)" for xs k
    by (induction xs) auto
  have "map_of (map ?g kvs) = map_of (map ?g kvs')"
  proof
    fix k
    show "map_of (map ?g kvs) k = map_of (map ?g kvs') k"
    proof (cases "k \<in> set (map fst kvs)")
      case False
      then have "map_of kvs k = None" "map_of kvs' k = None"
        using assms(3) by (auto simp: map_of_eq_None_iff)
      then show ?thesis by (simp add: look)
    qed (simp add: look assms(4))
  qed
  then have "set (map ?g kvs) = set (map ?g kvs')"
    using assms(1,2) keys map_of_inject_set by metis
  moreover have d: "distinct (map ?g kvs)" "distinct (map ?g kvs')"
  proof -
    have "distinct (map fst (map ?g kvs))" "distinct (map fst (map ?g kvs'))"
      using assms(1,2) keys by (simp_all only:)
    then show "distinct (map ?g kvs)" "distinct (map ?g kvs')"
      unfolding distinct_map by blast+
  qed
  ultimately have "mset (map ?g kvs) = mset (map ?g kvs')"
    using set_eq_iff_mset_eq_distinct by blast
  then have "sort_key fst (map ?g kvs) = sort_key fst (map ?g kvs')"
    using assms(1) keys by (intro sort_key_perm_distinct) (simp_all only:)
  then show ?thesis by simp
qed

lemma validPayload_canonical:
  assumes "validPayload v"
  shows "normal v = normal (payload_json (read_payload v))"
proof -
  obtain kvs where v: "v = JObj kvs"
    using assms by (auto simp: validPayload_def is_plain_object_def split: json.splits)
  have ks: "distinct (map fst kvs)" "set (map fst kvs) = set payload_keys"
    using assms entries_from_keys [of kvs payload_keys] payload_keys_distinct unfolding v validPayload_def
    by (simp_all add: obj_keys_def)
  have str: "str_where P (jfield k v) \<Longrightarrow> map_of kvs k = Some (JStr (the_str (jfield k v)))" for P k
    by (auto simp: v the_str_def elim: str_whereE)
  note valid = assms [unfolded validPayload_def list_all_items]
  have version: "map_option normal (map_of kvs ''version'') = Some (jint 1)"
    using valid by (auto simp: v num_where_def jint_def split: option.splits json.splits)
  have dest: "map_of kvs ''destination'' = Some (opt_json JStr (jstr (jfield ''destination'' v)))"
    using valid by (auto simp: v jstr_def elim: str_whereE)
  have su: "map_of kvs ''single_use'' = Some (JBool True)"
    using valid by (simp add: v)
  have strs: "map_of kvs k = Some (JStr (the_str (jfield k v)))"
    if "k \<in> set [''capability_id'', ''execution_id'', ''agent_id'', ''decision_id'', ''action'', ''tool'', ''resource'',
        ''operation'', ''input_hash'', ''policy_hash'', ''policy_issuance_id'', ''issued_at'', ''expires_at'', ''nonce'']" for k
    using that valid str unfolding list.set by (elim insertE) blast+
  have "normal (JObj kvs) = normal (JObj (payload_entries (read_payload v)))"
  proof (rule normal_same_lookup)
    show "set (map fst kvs) = set (map fst (payload_entries (read_payload v)))"
      unfolding ks(2) payload_entries_keys ..
    fix k assume "k \<in> set (map fst kvs)"
    then have "k \<in> set payload_keys" by (simp only: ks(2))
    then show "map_option normal (map_of kvs k) = map_option normal (map_of (payload_entries (read_payload v)) k)"
      unfolding payload_keys_def list.set
      by (elim insertE) (simp_all add: payload_entries_def read_payload_def version dest su strs)
  qed (use ks payload_distinct in simp_all)
  then show ?thesis by (simp add: v payload_json_def)
qed

lemma encode_length: "length (encode s) = (4 * length s + 2) div 3"
  by (induction s rule: encode.induct) (simp_all add: Let_def)

lemma nonce_of_random:
  assumes "length r = 16" shows "nonce_ok (encode r)" "validText (encode r)"
proof -
  have l: "length (encode r) = 22" using assms by (simp add: encode_length)
  then have "encode r \<noteq> []" by auto
  moreover have "\<not> is_control c" if "c \<in> set (encode r)" for c
  proof -
    have "b64_ok c" using that encode_chars [of r] by (simp add: list_all_iff)
    then show ?thesis by (auto simp: b64_ok_def is_control_def char_class_defs)
  qed
  ultimately show "nonce_ok (encode r)" "validText (encode r)"
    using l encode_chars [of r] by (simp_all add: nonce_ok_def validText_def list_ex_iff)
qed

lemma cap_issue_Inr:
  assumes "cap_issue sha hmac ttl now r i = Inr (token, p)" "length r = 16" "is_hex64 (sha ''null'')" "0 \<le> ttl" "ttl \<le> 60"
    "epoch_ok now" "epoch_ok (now + 60000)"
  shows "token = sign hmac p" "payload_ok p"
    "\<exists>e. date_parse (cp_issued_at p) = Some now \<and> date_parse (cp_expires_at p) = Some e \<and> now \<le> e \<and> e \<le> now + ttl * 1000"
    "cp_decision_id p = ci_decision_id i \<and> cp_agent_id p = ci_agent_id i \<and> cp_capability_id p = ci_capability_id i
      \<and> cp_execution_id p = ci_execution_id i"
proof -
  let ?max = "now + ttl * 1000"
  have valid: "validInput i"
    using assms(1) by (auto simp: cap_issue_def split: if_splits)
  obtain q where q: "(case ci_expires_at i of None \<Rightarrow> Some ?max | Some t \<Rightarrow> date_parse t) = Some q" "now \<le> q"
    using assms(1) valid by (auto simp: cap_issue_def Let_def split: option.splits if_splits)
  define h where "h = (case ci_input_hash i of Some h \<Rightarrow> h | None \<Rightarrow> sha ''null'')"
  let ?p = "make_payload i h now (min q ?max) r"
  have "(sign hmac ?p, ?p) = (token, p)"
    using assms(1) valid q by (auto simp: cap_issue_def Let_def h_def [symmetric])
  then have p: "p = ?p" and tok: "token = sign hmac p"
    by blast+
  show "token = sign hmac p" by (rule tok)
  have e: "epoch_ok (min q ?max)" "now \<le> min q ?max" "min q ?max \<le> ?max"
    using assms(4-7) q(2) by (auto simp: epoch_ok_def min_def)
  have h: "is_hex64 h"
    using valid assms(3) by (auto simp: h_def validInput_def split: option.splits)
  have iso: "parseIso (to_iso now)" "parseIso (to_iso (min q ?max))"
    using assms(6) e(1) by (simp_all add: parseIso_def is_iso_text_to_iso epoch_printable)
  have t: "date_parse (to_iso now) = Some now" "date_parse (to_iso (min q ?max)) = Some (min q ?max)"
    using assms(6) e(1) by (simp_all add: epoch_round_trip)
  show "\<exists>e. date_parse (cp_issued_at p) = Some now \<and> date_parse (cp_expires_at p) = Some e \<and> now \<le> e \<and> e \<le> ?max"
    using t e by (simp add: p make_payload_def)
  show "payload_ok p"
    using valid h iso t e(2) nonce_of_random [OF assms(2)] unfolding payload_ok_def p
    by (simp add: make_payload_def validInput_def split: option.splits)
  show "cp_decision_id p = ci_decision_id i \<and> cp_agent_id p = ci_agent_id i \<and> cp_capability_id p = ci_capability_id i
      \<and> cp_execution_id p = ci_execution_id i"
    by (simp add: p make_payload_def)
qed

section \<open>Properties\<close>

lemma sign_parts:
  assumes "length (hmac (canonical (payload_json p))) = 32"
  shows "cap_verify hmac now (sign hmac p)
    = (if validPayload (normal (payload_json p)) then verify_times now (normal (payload_json p)) else Inl invalid_token)"
proof -
  let ?b = "canonical (payload_json p)"
  have ne: "?b \<noteq> []" "hmac ?b \<noteq> []"
    using assms stringify_head [of "normal (payload_json p)"] by (auto simp: canonical_normal)
  have split: "str_split (CHR ''.'') (encode ?b @ ''.'' @ encode (hmac ?b)) = [encode ?b, encode (hmac ?b)]"
    using encode_no_dot str_split_append [of "CHR ''.''" "encode ?b" "encode (hmac ?b)"] str_split_single by simp
  show ?thesis
    unfolding cap_verify_def sign_def Let_def cap_canonical_def split list.case decode_encode [OF ne(1)] decode_encode [OF ne(2)]
    using assms by (simp add: mac_length_def json_parse_canonical canonical_normal_same)
qed

lemma cap_verify_facts:
  assumes "cap_verify hmac now token = Inr p"
  shows "token = sign hmac p \<and> (\<exists>issued expires. date_parse (cp_issued_at p) = Some issued
    \<and> date_parse (cp_expires_at p) = Some expires \<and> issued \<le> now \<and> now < expires \<and> expires \<le> issued + 60000)"
proof -
  obtain a b bytes mac parsed where
    sp: "str_split (CHR ''.'') token = [a, b]" and d: "decode a = Some bytes" "decode b = Some mac"
    and m: "hmac bytes = mac" and j: "json_parse bytes = Some parsed" "validPayload parsed" "cap_canonical parsed = bytes"
    and t: "verify_times now parsed = Inr p"
    using assms unfolding cap_verify_def by (auto split: list.splits option.splits if_splits)
  have tok: "token = a @ ''.'' @ b"
    using str_join_split [of "CHR ''.''" token] by (simp add: sp)
  have p: "p = read_payload parsed"
    using t by (auto simp: verify_times_def split: option.splits if_splits)
  have "bytes = canonical (payload_json p)"
    using j validPayload_canonical [OF j(2)] by (metis cap_canonical_def canonical_eq_iff p)
  moreover have "a = encode bytes" "b = encode mac"
    using d decode_Some by auto
  ultimately have "token = sign hmac p"
    by (simp add: tok sign_def Let_def cap_canonical_def m [symmetric])
  moreover have "\<exists>issued expires. date_parse (cp_issued_at p) = Some issued
    \<and> date_parse (cp_expires_at p) = Some expires \<and> issued \<le> now \<and> now < expires \<and> expires \<le> issued + 60000"
    using t unfolding p by (auto simp: verify_times_def read_payload_def max_ttl_seconds_def split: option.splits if_splits)
  ultimately show ?thesis by blast
qed

lemma cap_verify_signed: "cap_verify hmac now token = Inr p \<Longrightarrow> token = sign hmac p"
  using cap_verify_facts by blast

text \<open>
  C35. Capability round trip: a token the codec issues verifies, at any later time before its expiry,
  to exactly the payload that was issued, and its life is at most the codec's time to live.
\<close>

theorem capability_round_trip:
  assumes "codec_ttl n t = Inr ttl" "cap_issue sha hmac ttl now r i = Inr (token, p)" "length r = 16" "is_hex64 (sha ''null'')"
    "\<And>b. length (hmac b) = 32" "epoch_ok now" "epoch_ok (now + 60000)"
    "now \<le> later" "date_parse (cp_expires_at p) = Some e" "later < e"
  shows "cap_verify hmac later token = Inr p \<and> e \<le> now + ttl * 1000 \<and> ttl \<le> 60"
proof -
  have ttl: "0 \<le> ttl" "ttl \<le> 60"
    using assms(1) int_of_num by (auto simp: codec_ttl_def Let_def max_ttl_seconds_def split: if_splits)
  note iss = cap_issue_Inr [OF assms(2-4) ttl assms(6,7)]
  from iss(3) assms(9) have t: "date_parse (cp_issued_at p) = Some now" "e \<le> now + ttl * 1000"
    by auto
  have v: "verify_times later (normal (payload_json p)) = Inr (read_payload (normal (payload_json p)))"
    using t ttl assms(8-10) unfolding verify_times_def payload_fields by (simp add: the_str_def max_ttl_seconds_def)
  then show ?thesis
    using iss(1,2) t ttl by (simp add: sign_parts assms(5) validPayload_json read_payload_json)
qed

definition demo_cap_input :: capability_input where
  "demo_cap_input = \<lparr>ci_capability_id = ''cap-1'', ci_execution_id = ''ex-1'', ci_agent_id = ''agent-1'',
     ci_decision_id = ''dec_3'', ci_action = ''report.write'', ci_tool = ''fs'', ci_resource = ''/srv/reports/q1.md'',
     ci_operation = ''read'', ci_input_hash = None, ci_destination = None, ci_policy_hash = ''h'',
     ci_policy_issuance_id = ''pol_2'', ci_expires_at = None\<rparr>"

definition demo_hash :: "string \<Rightarrow> string" where
  "demo_hash s = replicate 64 (CHR ''0'')"

definition demo_mac :: "string \<Rightarrow> string" where
  "demo_mac s = replicate 32 (CHR ''m'')"

definition demo_random :: string where
  "demo_random = replicate 16 (CHR ''r'')"

lemma demo_codec: "codec_ttl 32 None = Inr 30"
  by code_simp

lemma demo_hex: "is_hex64 (demo_hash ''null'')"
  by (simp add: demo_hash_def is_hex64_def is_hex_def is_digit_def list_all_iff)

lemma demo_cap_issue:
  "cap_issue demo_hash demo_mac 30 1700000000000 demo_random demo_cap_input
     = Inr (sign demo_mac (make_payload demo_cap_input (demo_hash ''null'') 1700000000000 1700000030000 demo_random),
            make_payload demo_cap_input (demo_hash ''null'') 1700000000000 1700000030000 demo_random)"
proof -
  have "validInput demo_cap_input" by code_simp
  then show ?thesis
    by (simp add: cap_issue_def Let_def demo_cap_input_def [THEN arg_cong [of _ _ ci_input_hash]]
        demo_cap_input_def [THEN arg_cong [of _ _ ci_expires_at]])
qed

theorem capability_round_trip_witness:
  "cap_verify demo_mac 1700000005000
     (sign demo_mac (make_payload demo_cap_input (demo_hash ''null'') 1700000000000 1700000030000 demo_random))
   = Inr (make_payload demo_cap_input (demo_hash ''null'') 1700000000000 1700000030000 demo_random)"
proof -
  have "date_parse (cp_expires_at (make_payload demo_cap_input (demo_hash ''null'') 1700000000000 1700000030000 demo_random))
      = Some 1700000030000"
    by (simp add: make_payload_def epoch_round_trip epoch_ok_def)
  from capability_round_trip [OF demo_codec demo_cap_issue _ demo_hex _ _ _ _ this, of 1700000005000]
  show ?thesis
    by (simp add: demo_random_def demo_mac_def epoch_ok_def)
qed

text \<open>
  C24. No forgery and no malleability: whatever token verifies is, character by character, the token
  the codec's own key produces for the payload returned; the payload is well-formed, not issued in the
  future, not expired, and lives at most sixty seconds.
\<close>

theorem verified_token_is_signed:
  assumes "cap_verify hmac now token = Inr p"
  shows "token = sign hmac p \<and> (\<exists>issued expires. date_parse (cp_issued_at p) = Some issued
    \<and> date_parse (cp_expires_at p) = Some expires \<and> issued \<le> now \<and> now < expires \<and> expires \<le> issued + 60000)"
  by (rule cap_verify_facts [OF assms])

lemma demo_token_verifies:
  "cap_verify demo_mac 1700000005000
     (sign demo_mac (make_payload demo_cap_input (demo_hash ''null'') 1700000000000 1700000030000 demo_random))
   = Inr (make_payload demo_cap_input (demo_hash ''null'') 1700000000000 1700000030000 demo_random)"
proof -
  have i: "payload_ok (make_payload demo_cap_input (demo_hash ''null'') 1700000000000 1700000030000 demo_random)"
    by (rule cap_issue_Inr(2) [OF demo_cap_issue _ demo_hex]) (simp_all add: demo_random_def epoch_ok_def)
  have t: "date_parse (to_iso 1700000000000) = Some 1700000000000" "date_parse (to_iso 1700000030000) = Some 1700000030000"
    by (simp_all add: epoch_round_trip epoch_ok_def)
  have c: "cp_issued_at (make_payload demo_cap_input (demo_hash ''null'') 1700000000000 1700000030000 demo_random) = to_iso 1700000000000"
    "cp_expires_at (make_payload demo_cap_input (demo_hash ''null'') 1700000000000 1700000030000 demo_random) = to_iso 1700000030000"
    by (simp_all add: make_payload_def)
  show ?thesis
    by (simp add: sign_parts demo_mac_def validPayload_json [OF i] verify_times_def payload_fields the_str_def
        read_payload_json c t max_ttl_seconds_def)
qed

theorem verified_token_is_signed_witness:
  "\<exists>issued expires. date_parse (to_iso 1700000000000) = Some issued \<and> date_parse (to_iso 1700000030000) = Some expires
     \<and> expires \<le> issued + 60000"
  using verified_token_is_signed [OF demo_token_verifies] by (auto simp: make_payload_def)

end
