(* ===== verification/Execution_Broker.thy ===== *)
theory Execution_Broker
  imports Gate Capability
begin

text \<open>
  \<open>packages/execution-broker\<close>: from an ALLOW decision to one execution. \<open>broker_issue\<close> turns a decision
  into a signed capability, \<open>redeem_claim\<close> is \<open>redeem\<close> up to the transaction that consumes the
  capability, \<open>redeem_finish\<close> is the rest, which runs after the asynchronous calls. The two halves are
  separate steps because other operations run between them. What the code awaits (leases, the
  handler, the isolated child) and whether the store could persist a result are arguments.
\<close>

section \<open>State\<close>

datatype broker_error = Broker nat string | Capability_Error string

datatype execution_state = REQUESTED | AUTHORIZED | CAPABILITY_ISSUED | STARTED | SUCCEEDED | FAILED
  | TERMINATED | BLOCKED | INDETERMINATE

record tool_definition =
  bt_name :: string
  bt_action :: string
  bt_resourceType :: string
  bt_allowedOperations :: "string list"
  bt_networkRequired :: bool
  bt_credentialsRequired :: "string list"
  bt_has_handler :: bool
  bt_isolated :: "(string \<times> string) option"

type_synonym broker_registry = "tool_definition table"

record capability_record =
  cr_capability :: capability_payload
  cr_token :: string
  cr_consumed :: bool

record execution_summary =
  ex_execution_id :: string  ex_timestamp :: string  ex_agent_id :: string  ex_decision_id :: string
  ex_capability_id :: string  ex_state :: execution_state  ex_reason :: string
  ex_result_hash :: "string option"  ex_input_hash :: string  ex_isolation :: "json option"

record broker_state =
  br_decisions :: "decision table"
  br_decision_policies :: "decision_policy table"
  br_capabilities :: "capability_record table"
  br_executions :: "execution_summary table"
  br_evidence :: "evidence_row list"

text \<open>The optional callbacks, as the answers they give at the time of the call.\<close>

record broker_options =
  bo_isAgentRevoked :: "(string \<Rightarrow> bool) option"
  bo_isDecisionCurrent :: "(decision \<Rightarrow> bool) option"
  bo_isPolicyCurrent :: "(decision \<Rightarrow> bool) option"
  bo_isAuthorityValid :: "(decision \<Rightarrow> bool) option"
  bo_isToolCompatible :: "(decision \<Rightarrow> tool_definition \<Rightarrow> bool) option"
  bo_earliestAuthorityExpiry :: "(decision \<Rightarrow> int option) option"
  bo_secretBroker :: bool
  bo_isolationRunner :: bool

record broker_ambient =
  ba_now :: int
  ba_execution :: string
  ba_capability :: string
  ba_block :: string
  ba_block' :: string
  ba_random :: string

record redeem_input =
  ri_token :: string  ri_tool :: string  ri_resource :: string  ri_operation :: string
  ri_destination :: "string option"  ri_input :: "json option"  ri_input_hash :: string

text \<open>\<open>options.f?.(x)\<close>, and \<open>options.f && !options.f(x)\<close>.\<close>

definition says :: "('a \<Rightarrow> bool) option \<Rightarrow> 'a \<Rightarrow> bool" where
  "says f x = (case f of None \<Rightarrow> False | Some g \<Rightarrow> g x)"

definition denies :: "('a \<Rightarrow> bool) option \<Rightarrow> 'a \<Rightarrow> bool" where
  "denies f x = (case f of None \<Rightarrow> False | Some g \<Rightarrow> \<not> g x)"

section \<open>The tool registry\<close>

definition broker_register :: "tool_definition \<Rightarrow> broker_registry \<Rightarrow> (string, broker_registry) res" where
  "broker_register t reg = (if st_get (bt_name t) reg \<noteq> None then Inl (''Tool already registered: '' @ bt_name t)
     else Inr (st_put (bt_name t) t reg))"

definition broker_tool :: "string \<Rightarrow> broker_registry \<Rightarrow> tool_definition option" where
  "broker_tool name reg = st_get name reg"

definition broker_tools :: "broker_registry \<Rightarrow> tool_definition list" where
  "broker_tools reg = sort_key bt_name (map snd reg)"

definition broker_invoke :: "string \<Rightarrow> broker_error" where
  \<comment> \<open>\<open>ToolRegistry.invoke\<close> always refuses\<close>
  "broker_invoke name = Broker 403 (''Handlers are broker-only: '' @ name)"

section \<open>Evidence of an execution\<close>

definition state_name :: "execution_state \<Rightarrow> string" where
  "state_name st = (case st of REQUESTED \<Rightarrow> ''REQUESTED'' | AUTHORIZED \<Rightarrow> ''AUTHORIZED''
     | CAPABILITY_ISSUED \<Rightarrow> ''CAPABILITY_ISSUED'' | STARTED \<Rightarrow> ''STARTED'' | SUCCEEDED \<Rightarrow> ''SUCCEEDED''
     | FAILED \<Rightarrow> ''FAILED'' | TERMINATED \<Rightarrow> ''TERMINATED'' | BLOCKED \<Rightarrow> ''BLOCKED''
     | INDETERMINATE \<Rightarrow> ''INDETERMINATE'')"

definition transition_event :: "int \<Rightarrow> string \<Rightarrow> string \<Rightarrow> string \<Rightarrow> string \<Rightarrow> execution_state \<Rightarrow> string \<Rightarrow> json option \<Rightarrow> json" where
  "transition_event now execution capability agent decision st reason isolation =
     JObj ([(''type'', JStr ''execution.transition''), (''execution_id'', JStr execution), (''timestamp'', JStr (to_iso now)),
       (''agent_id'', JStr agent), (''decision_id'', JStr decision), (''capability_id'', JStr capability),
       (''state'', JStr (state_name st)), (''reason'', JStr reason)] @ opt_field ''isolation'' isolation)"

definition append_event :: "(string \<Rightarrow> string) \<Rightarrow> json \<Rightarrow> broker_state \<Rightarrow> broker_state" where
  "append_event sha e s = s\<lparr>br_evidence := ev_append sha e (br_evidence s)\<rparr>"

definition appendTransition :: "(string \<Rightarrow> string) \<Rightarrow> int \<Rightarrow> capability_payload \<Rightarrow> execution_state \<Rightarrow> string \<Rightarrow> broker_state \<Rightarrow> broker_state" where
  "appendTransition sha now p st reason s = append_event sha (transition_event now (cp_execution_id p) (cp_capability_id p)
     (cp_agent_id p) (cp_decision_id p) st reason None) s"

definition broker_summary :: "int \<Rightarrow> capability_payload \<Rightarrow> execution_state \<Rightarrow> string \<Rightarrow> string option \<Rightarrow> json option \<Rightarrow> execution_summary" where
  "broker_summary now p st reason result isolation =
     \<lparr>ex_execution_id = cp_execution_id p, ex_timestamp = to_iso now, ex_agent_id = cp_agent_id p,
      ex_decision_id = cp_decision_id p, ex_capability_id = cp_capability_id p, ex_state = st, ex_reason = reason,
      ex_result_hash = (case result of Some h \<Rightarrow> if h = [] then None else Some h | None \<Rightarrow> None),
      ex_input_hash = cp_input_hash p, ex_isolation = isolation\<rparr>"

definition finish :: "(string \<Rightarrow> string) \<Rightarrow> int \<Rightarrow> capability_payload \<Rightarrow> execution_state \<Rightarrow> string \<Rightarrow> string option
    \<Rightarrow> json option \<Rightarrow> broker_state \<Rightarrow> broker_state" where
  "finish sha now p st reason result isolation s =
     (append_event sha (transition_event now (cp_execution_id p) (cp_capability_id p) (cp_agent_id p) (cp_decision_id p)
        st reason isolation) s)
     \<lparr>br_executions := st_put (cp_execution_id p) (broker_summary now p st reason result isolation) (br_executions s)\<rparr>"

definition block_execution :: "(string \<Rightarrow> string) \<Rightarrow> int \<Rightarrow> capability_payload \<Rightarrow> string \<Rightarrow> broker_state \<Rightarrow> broker_state \<times> broker_error" where
  "block_execution sha now p reason s = (appendTransition sha now p BLOCKED reason s, Broker 403 reason)"

definition owner_ok :: "principal \<Rightarrow> string \<Rightarrow> bool" where
  "owner_ok p agentId = (is_admin p \<or> p = Agent agentId)"

section \<open>Issuing\<close>

definition broker_operation :: "'a auth_request_scheme \<Rightarrow> string" where
  "broker_operation r = (if rq_action r = ''production.deploy'' then ''write'' else ''read'')"

definition compatible :: "broker_options \<Rightarrow> decision \<Rightarrow> tool_definition \<Rightarrow> bool" where
  "compatible opt d t = (let r = de_request d in
     bt_action t = rq_action r \<and> broker_operation r \<in> set (bt_allowedOperations t)
     \<and> (present (rq_destination r) = bt_networkRequired t)
     \<and> (case bo_isToolCompatible opt of None \<Rightarrow> True | Some f \<Rightarrow> f d t))"

definition release_of :: "parsed_tool_input \<Rightarrow> json option" where
  "release_of p = jfield ''release'' (pt_input p)"

text \<open>
  \<open>parseDecisionInput\<close>: \<open>Inl\<close> carries the reasons it blocks with, in order. A mismatch is thrown
  inside the \<open>try\<close>, so its \<open>catch\<close> blocks a second time.
\<close>

definition parseDecisionInput :: "(string \<Rightarrow> string) \<Rightarrow> decision \<Rightarrow> tool_definition \<Rightarrow> (string list, parsed_tool_input option) res" where
  "parseDecisionInput sha d t =
     (if st_get (bt_name t) demo_registry = None then Inr None
      else let r = de_request d in
        if sr_input r = None \<or> sr_input_hash r = None then Inl [''Validated tool input is required'']
        else (case parseAndHash sha demo_registry (bt_name t) (sr_input r) of
            Inl _ \<Rightarrow> Inl [''Decision tool input is invalid'']
          | Inr p \<Rightarrow>
              if Some (pt_input_hash p) \<noteq> sr_input_hash r \<or> release_of p \<noteq> Some (JStr (rq_resource r))
              then Inl [''Decision input hash or resource mismatch'', ''Decision tool input is invalid'']
              else Inr (Some p)))"

definition issue_blocks :: "broker_options \<Rightarrow> decision \<Rightarrow> tool_definition option \<Rightarrow> (bool \<times> string) list" where
  \<comment> \<open>the conditions under which \<open>issue\<close> goes on, with the reason it blocks otherwise\<close>
  "issue_blocks opt d tool =
     [(de_decision d = ALLOW, ''Decision is '' @ decision_name (de_decision d)),
      (\<not> says (bo_isAgentRevoked opt) (de_agentId d), ''Agent is revoked''),
      (\<not> denies (bo_isDecisionCurrent opt) d, ''Decision is stale''),
      (\<not> denies (bo_isPolicyCurrent opt) d, ''Policy is stale''),
      (\<not> denies (bo_isAuthorityValid opt) d, ''Authority is no longer valid''),
      (tool \<noteq> None, ''Tool is unregistered or incompatible''),
      (case tool of None \<Rightarrow> True | Some t \<Rightarrow> compatible opt d t, ''Tool is unregistered or incompatible'')]"

definition issue_block_event :: "broker_ambient \<Rightarrow> string \<Rightarrow> decision \<Rightarrow> string \<Rightarrow> json" where
  "issue_block_event am uuid d reason =
     transition_event (ba_now am) uuid ''none'' (de_agentId d) (de_decisionId d) BLOCKED reason None"

definition capability_input_for :: "(string \<Rightarrow> string) \<Rightarrow> broker_options \<Rightarrow> broker_ambient \<Rightarrow> decision \<Rightarrow> parsed_tool_input option
    \<Rightarrow> broker_state \<Rightarrow> capability_input" where
  "capability_input_for sha opt am d parsed s =
     (let r = de_request d; h = (case de_policyHash d of Some h \<Rightarrow> h | None \<Rightarrow> ''none'') in
      \<lparr>ci_capability_id = ba_capability am, ci_execution_id = ba_execution am, ci_agent_id = de_agentId d,
       ci_decision_id = de_decisionId d, ci_action = rq_action r, ci_tool = rq_tool r, ci_resource = rq_resource r,
       ci_operation = broker_operation r,
       ci_input_hash = Some (case parsed of Some p \<Rightarrow> pt_input_hash p | None \<Rightarrow> hash_json sha JNull),
       ci_destination = rq_destination r, ci_policy_hash = h,
       ci_policy_issuance_id = (case st_get (de_decisionId d) (br_decision_policies s) of
           Some dp \<Rightarrow> dp_policyRevision dp | None \<Rightarrow> h),
       ci_expires_at = (case bo_earliestAuthorityExpiry opt of None \<Rightarrow> None
           | Some f \<Rightarrow> map_option to_iso (f d))\<rparr>)"

definition issue_capability :: "(string \<Rightarrow> string) \<Rightarrow> (string \<Rightarrow> string) \<Rightarrow> int \<Rightarrow> broker_options \<Rightarrow> broker_ambient \<Rightarrow> string \<Rightarrow> decision
    \<Rightarrow> parsed_tool_input option \<Rightarrow> broker_state \<Rightarrow> (broker_error, broker_state \<times> (string \<times> capability_payload)) res" where
  \<comment> \<open>the transaction\<close>
  "issue_capability sha hmac ttl opt am decisionId d parsed s =
     (if list_ex (\<lambda>r. cp_decision_id (cr_capability r) = decisionId) (st_list (br_capabilities s))
      then Inl (Broker 409 ''Capability already issued for decision'')
      else (case cap_issue sha hmac ttl (ba_now am) (ba_random am) (capability_input_for sha opt am d parsed s) of
          Inl m \<Rightarrow> Inl (Capability_Error m)
        | Inr (token, p) \<Rightarrow>
            let s1 = appendTransition sha (ba_now am) p REQUESTED ''Execution requested'' s;
                s2 = appendTransition sha (ba_now am) p AUTHORIZED ''ALLOW decision verified'' s1;
                s3 = s2\<lparr>br_capabilities := st_put (cp_capability_id p)
                   \<lparr>cr_capability = p, cr_token = token, cr_consumed = False\<rparr> (br_capabilities s2)\<rparr>;
                s4 = appendTransition sha (ba_now am) p CAPABILITY_ISSUED ''Capability issued'' s3
            in Inr (s4, (token, p))))"

definition broker_issue :: "(string \<Rightarrow> string) \<Rightarrow> (string \<Rightarrow> string) \<Rightarrow> int \<Rightarrow> broker_registry \<Rightarrow> broker_options \<Rightarrow> broker_ambient
    \<Rightarrow> principal \<Rightarrow> string \<Rightarrow> broker_state \<Rightarrow> broker_state \<times> (broker_error, string \<times> capability_payload) res" where
  "broker_issue sha hmac ttl reg opt am p decisionId s =
     (case st_get decisionId (br_decisions s) of None \<Rightarrow> (s, Inl (Broker 404 ''Decision not found''))
      | Some d \<Rightarrow>
          if \<not> owner_ok p (de_agentId d) then (s, Inl (Broker 403 ''Access denied''))
          else let tool = broker_tool (rq_tool (de_request d)) reg in
            (case run_checks (issue_blocks opt d tool) of
               Inl reason \<Rightarrow> (append_event sha (issue_block_event am (ba_block am) d reason) s, Inl (Broker 403 reason))
             | Inr _ \<Rightarrow>
                 (case parseDecisionInput sha d (the tool) of
                    Inl reasons \<Rightarrow>
                      (foldl (\<lambda>t (u, m). append_event sha (issue_block_event am u d m) t) s (zip [ba_block am, ba_block' am] reasons),
                       Inl (Broker 403 (last reasons)))
                  | Inr parsed \<Rightarrow> st_transaction (issue_capability sha hmac ttl opt am decisionId d parsed) s)))"

section \<open>Redeeming\<close>

definition redeem_input_ok :: "redeem_input \<Rightarrow> bool" where
  \<comment> \<open>\<open>validateInput\<close> on an object with the declared keys\<close>
  "redeem_input_ok i = (validText (ri_token i) \<and> validText (ri_tool i) \<and> validText (ri_resource i)
     \<and> validText (ri_operation i) \<and> is_hex64 (ri_input_hash i)
     \<and> (case ri_destination i of None \<Rightarrow> True | Some d \<Rightarrow> validText d))"

definition binds :: "capability_payload \<Rightarrow> redeem_input \<Rightarrow> tool_definition \<Rightarrow> bool" where
  "binds p i t = (cp_tool p = bt_name t \<and> cp_tool p = ri_tool i \<and> cp_resource p = ri_resource i
     \<and> cp_operation p = ri_operation i \<and> cp_destination p = ri_destination i \<and> cp_action p = bt_action t
     \<and> cp_operation p \<in> set (bt_allowedOperations t))"

definition parseRedeemInput :: "(string \<Rightarrow> string) \<Rightarrow> redeem_input \<Rightarrow> tool_definition \<Rightarrow> string \<Rightarrow> (broker_error, parsed_tool_input option) res" where
  "parseRedeemInput sha i t expected =
     (if st_get (bt_name t) demo_registry = None then Inr None
      else (case parseAndHash sha demo_registry (bt_name t) (ri_input i) of
          Inl _ \<Rightarrow> Inl (Broker 403 ''Tool input binding mismatch'')
        | Inr p \<Rightarrow>
            if pt_input_hash p \<noteq> ri_input_hash i \<or> pt_input_hash p \<noteq> expected \<or> release_of p \<noteq> Some (JStr (ri_resource i))
            then Inl (Broker 403 ''Tool input binding mismatch'') else Inr (Some p)))"

definition redeem_blocks :: "broker_options \<Rightarrow> capability_payload \<Rightarrow> decision \<Rightarrow> tool_definition \<Rightarrow> (bool \<times> string) list" where
  "redeem_blocks opt p d t =
     [(\<not> says (bo_isAgentRevoked opt) (cp_agent_id p), ''Agent is revoked''),
      (\<not> denies (bo_isDecisionCurrent opt) d, ''Decision is stale''),
      (\<not> denies (bo_isPolicyCurrent opt) d, ''Policy is stale''),
      (\<not> denies (bo_isAuthorityValid opt) d, ''Authority is no longer valid''),
      (bt_credentialsRequired t = [] \<or> bo_secretBroker opt, ''Required secret broker is unavailable'')]"

definition consume :: "(string \<Rightarrow> string) \<Rightarrow> int \<Rightarrow> capability_payload \<Rightarrow> broker_state \<Rightarrow> (broker_error, broker_state \<times> unit) res" where
  \<comment> \<open>the transaction that consumes the capability\<close>
  "consume sha now p s =
     (case st_get (cp_capability_id p) (br_capabilities s) of
        None \<Rightarrow> Inl (Broker 409 ''Capability already consumed or unknown'')
      | Some r \<Rightarrow>
          if cr_consumed r then Inl (Broker 409 ''Capability already consumed or unknown'')
          else let s1 = s\<lparr>br_capabilities := st_put (cp_capability_id p) (r\<lparr>cr_consumed := True\<rparr>) (br_capabilities s)\<rparr>;
                   why = ''Capability consumed; handler invocation authorized'';
                   s2 = appendTransition sha now p STARTED why s1
               in Inr (s2\<lparr>br_executions := st_put (cp_execution_id p) (broker_summary now p STARTED why None None) (br_executions s2)\<rparr>, ()))"

definition redeem_checks :: "(string \<Rightarrow> string) \<Rightarrow> (string \<Rightarrow> string) \<Rightarrow> broker_registry \<Rightarrow> broker_options \<Rightarrow> int \<Rightarrow> principal
    \<Rightarrow> redeem_input \<Rightarrow> broker_state \<Rightarrow> (broker_error \<times> capability_payload option, capability_payload \<times> tool_definition) res" where
  \<comment> \<open>\<open>redeem\<close> up to its transaction; a refusal with a payload also leaves a BLOCKED transition\<close>
  "redeem_checks sha hmac reg opt now pr i s =
     (if \<not> redeem_input_ok i then Inl (Broker 400 ''Invalid redeem input'', None)
      else (case cap_verify hmac now (ri_token i) of Inl _ \<Rightarrow> Inl (Broker 401 ''Invalid capability'', None)
        | Inr p \<Rightarrow>
            if \<not> owner_ok pr (cp_agent_id p) then Inl (Broker 403 ''Access denied'', None)
            else (case broker_tool (ri_tool i) reg of None \<Rightarrow> Inl (Broker 403 ''Capability binding mismatch'', None)
              | Some t \<Rightarrow>
                  if \<not> binds p i t then Inl (Broker 403 ''Capability binding mismatch'', None)
                  else (case parseRedeemInput sha i t (cp_input_hash p) of Inl e \<Rightarrow> Inl (e, None)
                    | Inr _ \<Rightarrow>
                        (case st_get (cp_decision_id p) (br_decisions s) of None \<Rightarrow> Inl (Broker 404 ''Decision not found'', None)
                         | Some d \<Rightarrow>
                            (case run_checks (redeem_blocks opt p d t) of
                               Inl reason \<Rightarrow> Inl (Broker 403 reason, Some p)
                             | Inr _ \<Rightarrow>
                                 if bt_isolated t \<noteq> None \<and> \<not> bo_isolationRunner opt
                                 then Inl (Broker 503 ''Isolation runner unavailable'', None)
                                 else Inr (p, t)))))))"

definition error_message :: "broker_error \<Rightarrow> string" where
  "error_message e = (case e of Broker n m \<Rightarrow> m | Capability_Error m \<Rightarrow> m)"

definition redeem_claim :: "(string \<Rightarrow> string) \<Rightarrow> (string \<Rightarrow> string) \<Rightarrow> broker_registry \<Rightarrow> broker_options \<Rightarrow> int \<Rightarrow> principal
    \<Rightarrow> redeem_input \<Rightarrow> broker_state \<Rightarrow> broker_state \<times> (broker_error, capability_payload \<times> tool_definition) res" where
  "redeem_claim sha hmac reg opt now pr i s =
     (case redeem_checks sha hmac reg opt now pr i s of
        Inl (e, None) \<Rightarrow> (s, Inl e)
      | Inl (e, Some p) \<Rightarrow> (let (s', e') = block_execution sha now p (error_message e) s in (s', Inl e'))
      | Inr (p, t) \<Rightarrow> (case st_transaction (consume sha now p) s of
            (s', Inl e) \<Rightarrow> (s', Inl e)
          | (s', Inr _) \<Rightarrow> (s', Inr (p, t))))"

section \<open>Running and recording\<close>

text \<open>What a callee threw: status and message of a \<open>BrokerError\<close>, and the result hash an error object may carry.\<close>

datatype raised = Raised "(nat \<times> string) option" "string option"

datatype child_state = Child_Succeeded | Child_Failed | Child_Terminated

record child_result =
  ch_state :: child_state
  ch_reason :: string
  ch_exit_code :: "int option"
  ch_stdout :: string
  ch_stderr :: string
  ch_evidence :: json

record finish_env =
  fe_leases :: "(raised, string list) res"
  fe_handler :: "(raised, json) res"
  fe_child :: "(raised, child_result) res"
  fe_persist :: bool
  fe_persist_again :: bool

definition handlerResultHash :: "string option \<Rightarrow> string option" where
  "handlerResultHash c = (case c of Some h \<Rightarrow> if is_hex64 h then Some h else None | None \<Rightarrow> None)"

definition child_name :: "child_state \<Rightarrow> string" where
  "child_name c = (case c of Child_Succeeded \<Rightarrow> ''SUCCEEDED'' | Child_Failed \<Rightarrow> ''FAILED'' | Child_Terminated \<Rightarrow> ''TERMINATED'')"

definition child_hash :: "(string \<Rightarrow> string) \<Rightarrow> child_result \<Rightarrow> string" where
  "child_hash sha c = hash_json sha (JObj [(''state'', JStr (child_name (ch_state c))), (''reason'', JStr (ch_reason c)),
     (''exit_code'', opt_json jint (ch_exit_code c)), (''stdout'', JStr (ch_stdout c)), (''stderr'', JStr (ch_stderr c))])"

definition pre_invocation :: "broker_options \<Rightarrow> int \<Rightarrow> capability_payload \<Rightarrow> decision \<Rightarrow> tool_definition \<Rightarrow> string list
    \<Rightarrow> (bool \<times> string) list" where
  "pre_invocation opt now p d t leased =
     map (\<lambda>req. (req \<in> set leased, ''Missing credential lease: '' @ req)) (bt_credentialsRequired t) @
     [(\<not> says (bo_isAgentRevoked opt) (cp_agent_id p), ''Agent revoked during pre-invocation recheck''),
      (\<not> denies (bo_isPolicyCurrent opt) d, ''Policy stale during pre-invocation recheck''),
      (\<not> denies (bo_isAuthorityValid opt) d, ''Authority invalid during pre-invocation recheck''),
      (\<not> passed (cp_expires_at p) now, ''Capability expired during pre-invocation recheck'')]"

definition isolated_failure :: "string list" where
  "isolated_failure = [''Isolated execution failed'', ''Isolated execution terminated'']"

definition record_failure :: "(string \<Rightarrow> string) \<Rightarrow> int \<Rightarrow> capability_payload \<Rightarrow> raised \<Rightarrow> bool \<Rightarrow> broker_state
    \<Rightarrow> broker_state \<times> (broker_error, string) res" where
  \<comment> \<open>the \<open>catch\<close>, when no handler has completed\<close>
  "record_failure sha now p r persists s =
     (case r of Raised be cand \<Rightarrow>
        (case be of
           Some (status, m) \<Rightarrow>
             if m \<in> set isolated_failure \<or> status = 403 then (s, Inl (Broker status m))
             else if persists then (finish sha now p FAILED ''Protected handler failed'' (handlerResultHash cand) None s, Inl (Broker 500 ''Handler failed''))
             else (s, Inl (Broker 503 ''Execution outcome is indeterminate; capability remains consumed''))
         | None \<Rightarrow>
             if persists then (finish sha now p FAILED ''Protected handler failed'' (handlerResultHash cand) None s, Inl (Broker 500 ''Handler failed''))
             else (s, Inl (Broker 503 ''Execution outcome is indeterminate; capability remains consumed''))))"

definition run_isolated :: "(string \<Rightarrow> string) \<Rightarrow> int \<Rightarrow> capability_payload \<Rightarrow> finish_env \<Rightarrow> broker_state
    \<Rightarrow> broker_state \<times> (broker_error, string) res" where
  "run_isolated sha now p env s =
     (case fe_child env of Inl r \<Rightarrow> record_failure sha now p r (fe_persist_again env) s
      | Inr c \<Rightarrow>
          let h = child_hash sha c in
          if \<not> fe_persist env then record_failure sha now p (Raised None None) (fe_persist_again env) s
          else (case ch_state c of
              Child_Succeeded \<Rightarrow> (finish sha now p SUCCEEDED ''Isolated child completed'' (Some h) (Some (ch_evidence c)) s, Inr h)
            | Child_Failed \<Rightarrow> (finish sha now p FAILED (''Isolated child '' @ ch_reason c) (Some h) (Some (ch_evidence c)) s,
                Inl (Broker 500 ''Isolated execution failed''))
            | Child_Terminated \<Rightarrow> (finish sha now p TERMINATED (''Isolated child '' @ ch_reason c) (Some h) (Some (ch_evidence c)) s,
                Inl (Broker 500 ''Isolated execution terminated''))))"

definition run_handler :: "(string \<Rightarrow> string) \<Rightarrow> int \<Rightarrow> capability_payload \<Rightarrow> tool_definition \<Rightarrow> finish_env \<Rightarrow> broker_state
    \<Rightarrow> broker_state \<times> (broker_error, string) res" where
  "run_handler sha now p t env s =
     (if \<not> bt_has_handler t
      then record_failure sha now p (Raised (Some (503, ''Tool handler unavailable'')) None) (fe_persist_again env) s
      else (case fe_handler env of Inl r \<Rightarrow> record_failure sha now p r (fe_persist_again env) s
        | Inr v \<Rightarrow>
            let h = hash_json sha v in
            if fe_persist env then (finish sha now p SUCCEEDED ''Handler completed'' (Some h) None s, Inr h)
            else ((if fe_persist_again env
                   then finish sha now p INDETERMINATE ''Handler completed; evidence persistence failed'' None None s else s),
                  Inl (Broker 503 ''Evidence persistence failed after successful handler execution''))))"

definition redeem_finish :: "(string \<Rightarrow> string) \<Rightarrow> broker_options \<Rightarrow> int \<Rightarrow> capability_payload \<Rightarrow> decision \<Rightarrow> tool_definition
    \<Rightarrow> finish_env \<Rightarrow> broker_state \<Rightarrow> broker_state \<times> (broker_error, string) res" where
  \<comment> \<open>\<open>redeem\<close> after the capability was consumed; the answer is the hash of the result\<close>
  "redeem_finish sha opt now p d t env s =
     (let run = (\<lambda>s. if bt_isolated t \<noteq> None then run_isolated sha now p env s else run_handler sha now p t env s) in
      if bt_credentialsRequired t = [] then run s
      else (case fe_leases env of Inl r \<Rightarrow> record_failure sha now p r (fe_persist_again env) s
        | Inr leased \<Rightarrow>
            (case run_checks (pre_invocation opt now p d t leased) of
               Inl reason \<Rightarrow> (let (s', e) = block_execution sha now p reason s in (s', Inl e))
             | Inr _ \<Rightarrow> run s)))"

definition broker_execution :: "principal \<Rightarrow> string \<Rightarrow> broker_state \<Rightarrow> (broker_error, execution_summary) res" where
  "broker_execution p i s = (case st_get i (br_executions s) of None \<Rightarrow> Inl (Broker 404 ''Execution not found'')
     | Some e \<Rightarrow> if owner_ok p (ex_agent_id e) then Inr e else Inl (Broker 403 ''Access denied''))"

definition broker_executions :: "principal \<Rightarrow> string \<Rightarrow> broker_state \<Rightarrow> (broker_error, execution_summary list) res" where
  "broker_executions p agentId s = (if \<not> owner_ok p agentId then Inl (Broker 403 ''Access denied'')
     else Inr (filter (\<lambda>e. ex_agent_id e = agentId) (st_list (br_executions s))))"

section \<open>Frame facts\<close>

lemma append_event_simps [simp]:
  "br_decisions (append_event sha e s) = br_decisions s" "br_capabilities (append_event sha e s) = br_capabilities s"
  "br_executions (append_event sha e s) = br_executions s" "br_decision_policies (append_event sha e s) = br_decision_policies s"
  by (simp_all add: append_event_def)

lemma appendTransition_simps [simp]:
  "br_decisions (appendTransition sha now p st r s) = br_decisions s"
  "br_capabilities (appendTransition sha now p st r s) = br_capabilities s"
  "br_executions (appendTransition sha now p st r s) = br_executions s"
  "br_decision_policies (appendTransition sha now p st r s) = br_decision_policies s"
  by (simp_all add: appendTransition_def)

lemma finish_simps [simp]:
  "br_decisions (finish sha now p st r h i s) = br_decisions s"
  "br_capabilities (finish sha now p st r h i s) = br_capabilities s"
  by (simp_all add: finish_def)

lemma foldl_append_simps:
  "br_capabilities (foldl (\<lambda>t (u, m). append_event sha (issue_block_event am u d m) t) s xs) = br_capabilities s"
  by (induction xs arbitrary: s) auto

lemma record_failure_capabilities [simp]:
  "br_capabilities (fst (record_failure sha now p r k s)) = br_capabilities s"
  by (cases r) (auto simp: record_failure_def split: option.splits)

lemma run_isolated_capabilities [simp]: "br_capabilities (fst (run_isolated sha now p env s)) = br_capabilities s"
  by (auto simp: run_isolated_def Let_def split: sum.splits child_state.splits)

lemma run_handler_capabilities [simp]: "br_capabilities (fst (run_handler sha now p t env s)) = br_capabilities s"
  by (auto simp: run_handler_def Let_def split: sum.splits)

lemma redeem_finish_capabilities [simp]:
  "br_capabilities (fst (redeem_finish sha opt now p d t env s)) = br_capabilities s"
proof (cases "bt_credentialsRequired t = []")
  case False
  then show ?thesis
    by (cases "fe_leases env")
      (simp_all add: redeem_finish_def Let_def block_execution_def del: run_checks_ok split: sum.split)
qed (simp add: redeem_finish_def)

lemma consume_Inr:
  "consume sha now p s = Inr (s', u) \<Longrightarrow> \<exists>r. st_get (cp_capability_id p) (br_capabilities s) = Some r \<and> \<not> cr_consumed r
     \<and> br_capabilities s' = st_put (cp_capability_id p) (r\<lparr>cr_consumed := True\<rparr>) (br_capabilities s)"
  by (auto simp: consume_def Let_def split: option.splits if_splits)

lemma redeem_checks_Inr:
  assumes "redeem_checks sha hmac reg opt now pr i s = Inr (p, t)"
  shows "cap_verify hmac now (ri_token i) = Inr p" "owner_ok pr (cp_agent_id p)"
    "broker_tool (ri_tool i) reg = Some t" "binds p i t"
    "\<exists>d. st_get (cp_decision_id p) (br_decisions s) = Some d \<and> run_checks (redeem_blocks opt p d t) = Inr ()"
proof -
  note d = assms [unfolded redeem_checks_def]
  have ok: "redeem_input_ok i" using d by (rule_tac ccontr) simp
  obtain q where q: "cap_verify hmac now (ri_token i) = Inr q"
    using d ok by (cases "cap_verify hmac now (ri_token i)") simp_all
  have own: "owner_ok pr (cp_agent_id q)" using d ok q by (rule_tac ccontr) simp
  obtain u where u: "broker_tool (ri_tool i) reg = Some u"
    using d ok q own by (cases "broker_tool (ri_tool i) reg") simp_all
  have bd: "binds q i u" using d ok q own u by (rule_tac ccontr) simp
  obtain x where x: "parseRedeemInput sha i u (cp_input_hash q) = Inr x"
    using d ok q own u bd by (cases "parseRedeemInput sha i u (cp_input_hash q)") simp_all
  obtain dd where dd: "st_get (cp_decision_id q) (br_decisions s) = Some dd"
    using d ok q own u bd x by (cases "st_get (cp_decision_id q) (br_decisions s)") simp_all
  have ch: "run_checks (redeem_blocks opt q dd u) = Inr ()"
    using d ok q own u bd x dd by (cases "run_checks (redeem_blocks opt q dd u)") (simp_all del: run_checks_ok)
  have "q = p" "u = t"
    using d ok q own u bd x dd ch by (simp_all del: run_checks_ok split: if_splits)
  with q own u bd dd ch show "cap_verify hmac now (ri_token i) = Inr p" "owner_ok pr (cp_agent_id p)"
    "broker_tool (ri_tool i) reg = Some t" "binds p i t"
    "\<exists>d. st_get (cp_decision_id p) (br_decisions s) = Some d \<and> run_checks (redeem_blocks opt p d t) = Inr ()"
    by blast+
qed

lemma redeem_claim_Inr:
  assumes "redeem_claim sha hmac reg opt now pr i s = (s', Inr (p, t))"
  shows "consume sha now p s = Inr (s', ())" "redeem_checks sha hmac reg opt now pr i s = Inr (p, t)"
  using assms by (auto simp: redeem_claim_def st_transaction_def block_execution_def
      split: sum.splits option.splits prod.splits)

lemma redeem_claim_Inl:
  assumes "redeem_claim sha hmac reg opt now pr i s = (s', Inl e)"
  shows "br_capabilities s' = br_capabilities s" "br_executions s' = br_executions s"
  using assms by (auto simp: redeem_claim_def st_transaction_def block_execution_def
      split: sum.splits option.splits prod.splits)

lemma cap_issue_payload:
  "cap_issue sha hmac ttl now r i = Inr (token, p) \<Longrightarrow> \<exists>h e. p = make_payload i h now e r \<and> token = sign hmac p
     \<and> h = (case ci_input_hash i of Some h \<Rightarrow> h | None \<Rightarrow> sha ''null'')"
  by (auto simp: cap_issue_def Let_def split: if_splits option.splits)

lemma issue_capability_Inr:
  assumes "issue_capability sha hmac ttl opt am i d parsed s = Inr (s', (token, p))"
  shows "cap_issue sha hmac ttl (ba_now am) (ba_random am) (capability_input_for sha opt am d parsed s) = Inr (token, p)"
    "\<forall>r \<in> set (st_list (br_capabilities s)). cp_decision_id (cr_capability r) \<noteq> i"
    "br_capabilities s' = st_put (ba_capability am) \<lparr>cr_capability = p, cr_token = token, cr_consumed = False\<rparr> (br_capabilities s)"
    "cp_capability_id p = ba_capability am" "cp_decision_id p = de_decisionId d" "br_decisions s' = br_decisions s"
proof -
  have ne: "\<not> list_ex (\<lambda>r. cp_decision_id (cr_capability r) = i) (st_list (br_capabilities s))"
    using assms by (rule_tac notI) (simp add: issue_capability_def)
  then show "\<forall>r \<in> set (st_list (br_capabilities s)). cp_decision_id (cr_capability r) \<noteq> i"
    by (simp add: list_ex_iff)
  obtain token' p' where c: "cap_issue sha hmac ttl (ba_now am) (ba_random am) (capability_input_for sha opt am d parsed s) = Inr (token', p')"
    using assms ne by (auto simp: issue_capability_def split: sum.splits)
  then have e: "token' = token" "p' = p"
    "br_capabilities s' = st_put (cp_capability_id p) \<lparr>cr_capability = p, cr_token = token, cr_consumed = False\<rparr> (br_capabilities s)"
    "br_decisions s' = br_decisions s"
    using assms ne by (auto simp: issue_capability_def Let_def)
  show "cap_issue sha hmac ttl (ba_now am) (ba_random am) (capability_input_for sha opt am d parsed s) = Inr (token, p)"
    using c e by simp
  from cap_issue_payload [OF this] show ids: "cp_capability_id p = ba_capability am" "cp_decision_id p = de_decisionId d"
    by (auto simp: make_payload_def capability_input_for_def Let_def)
  show "br_capabilities s' = st_put (ba_capability am) \<lparr>cr_capability = p, cr_token = token, cr_consumed = False\<rparr> (br_capabilities s)"
    using e(3) ids by simp
  show "br_decisions s' = br_decisions s" by (rule e(4))
qed

lemma broker_issue_Inr:
  assumes "broker_issue sha hmac ttl reg opt am pr i s = (s', Inr (token, p))"
  shows "\<exists>d t parsed. st_get i (br_decisions s) = Some d \<and> owner_ok pr (de_agentId d)
    \<and> broker_tool (rq_tool (de_request d)) reg = Some t \<and> run_checks (issue_blocks opt d (Some t)) = Inr ()
    \<and> parseDecisionInput sha d t = Inr parsed \<and> issue_capability sha hmac ttl opt am i d parsed s = Inr (s', (token, p))"
proof -
  note e = assms [unfolded broker_issue_def]
  obtain d where d: "st_get i (br_decisions s) = Some d"
    using e by (cases "st_get i (br_decisions s)") simp_all
  have own: "owner_ok pr (de_agentId d)" using e d by (rule_tac ccontr) simp
  let ?t = "broker_tool (rq_tool (de_request d)) reg"
  have ch: "run_checks (issue_blocks opt d ?t) = Inr ()"
    using e d own by (cases "run_checks (issue_blocks opt d ?t)") (simp_all add: Let_def del: run_checks_ok)
  then obtain t where t: "?t = Some t"
    unfolding run_checks_ok by (auto simp: issue_blocks_def)
  obtain parsed where pa: "parseDecisionInput sha d t = Inr parsed"
    using e d own ch t by (cases "parseDecisionInput sha d t") (simp_all add: Let_def del: run_checks_ok)
  have "st_transaction (issue_capability sha hmac ttl opt am i d parsed) s = (s', Inr (token, p))"
    using e d own ch t pa by (simp add: Let_def del: run_checks_ok)
  then have "issue_capability sha hmac ttl opt am i d parsed s = Inr (s', (token, p))"
    by (simp add: st_transaction_commit)
  with d own t ch pa show ?thesis by (metis (no_types, lifting))
qed

lemma broker_issue_Inl:
  assumes "broker_issue sha hmac ttl reg opt am pr i s = (s', Inl e)"
  shows "br_capabilities s' = br_capabilities s" "br_decisions s' = br_decisions s"
proof -
  have f: "br_decisions (foldl (\<lambda>t (u, m). append_event sha (issue_block_event am u d m) t) s xs) = br_decisions s" for d xs
    by (induction xs arbitrary: s) auto
  show "br_capabilities s' = br_capabilities s" "br_decisions s' = br_decisions s"
    using assms by (auto simp: broker_issue_def Let_def st_transaction_def foldl_append_simps f simp del: run_checks_ok
        split: option.splits if_splits sum.splits)
qed

section \<open>Runs\<close>

definition decisions_wf :: "decision table \<Rightarrow> bool" where
  "decisions_wf ds = (\<forall>i d. st_get i ds = Some d \<longrightarrow> de_decisionId d = i)"

definition broker_empty :: broker_state where
  "broker_empty = \<lparr>br_decisions = [], br_decision_policies = [], br_capabilities = [], br_executions = [], br_evidence = []\<rparr>"

text \<open>
  The operations in any order. The Gate writes its own tables in between; capability ids are random,
  so a new one names no record yet.
\<close>

inductive broker_run :: "(string \<Rightarrow> string) \<Rightarrow> (string \<Rightarrow> string) \<Rightarrow> int \<Rightarrow> broker_registry \<Rightarrow> broker_state \<Rightarrow> broker_state \<Rightarrow> bool"
  for sha hmac ttl reg where
  run_refl: "broker_run sha hmac ttl reg s s"
| run_gate: "broker_run sha hmac ttl reg s t \<Longrightarrow> decisions_wf ds \<Longrightarrow>
    broker_run sha hmac ttl reg s (t\<lparr>br_decisions := ds, br_decision_policies := dp, br_evidence := ev\<rparr>)"
| run_issue: "broker_run sha hmac ttl reg s t \<Longrightarrow> st_get (ba_capability am) (br_capabilities t) = None \<Longrightarrow>
    broker_run sha hmac ttl reg s (fst (broker_issue sha hmac ttl reg opt am pr i t))"
| run_claim: "broker_run sha hmac ttl reg s t \<Longrightarrow>
    broker_run sha hmac ttl reg s (fst (redeem_claim sha hmac reg opt now pr inp t))"
| run_finish: "broker_run sha hmac ttl reg s t \<Longrightarrow>
    broker_run sha hmac ttl reg s (fst (redeem_finish sha opt now p d tool env t))"

text \<open>How a step changes the capability table.\<close>

lemma claim_capabilities:
  "br_capabilities (fst (redeem_claim sha hmac reg opt now pr inp t)) = br_capabilities t \<or>
    (\<exists>c r. st_get c (br_capabilities t) = Some r \<and>
      br_capabilities (fst (redeem_claim sha hmac reg opt now pr inp t)) = st_put c (r\<lparr>cr_consumed := True\<rparr>) (br_capabilities t))"
proof (cases "redeem_claim sha hmac reg opt now pr inp t")
  case (Pair s' x)
  show ?thesis
  proof (cases x)
    case (Inl e)
    then show ?thesis using Pair redeem_claim_Inl by simp
  next
    case (Inr y)
    obtain p u where y: "y = (p, u)" by (cases y)
    from redeem_claim_Inr(1) [OF Pair [unfolded Inr y]] show ?thesis
      using Pair by (auto dest!: consume_Inr)
  qed
qed

definition caps_ok :: "capability_record table \<Rightarrow> bool" where
  "caps_ok cs = (table_wf cs
     \<and> (\<forall>c r. st_get c cs = Some r \<longrightarrow> cp_capability_id (cr_capability r) = c)
     \<and> (\<forall>c c' r r'. st_get c cs = Some r \<longrightarrow> st_get c' cs = Some r' \<longrightarrow>
          cp_decision_id (cr_capability r) = cp_decision_id (cr_capability r') \<longrightarrow> c = c'))"

definition caps_inv :: "broker_state \<Rightarrow> bool" where
  "caps_inv s = (caps_ok (br_capabilities s) \<and> decisions_wf (br_decisions s))"

lemma caps_okD:
  assumes "caps_ok cs" "st_get c cs = Some r"
  shows "cp_capability_id (cr_capability r) = c"
    "st_get c' cs = Some r' \<Longrightarrow> cp_decision_id (cr_capability r) = cp_decision_id (cr_capability r') \<Longrightarrow> c = c'"
  using assms unfolding caps_ok_def by blast+

lemma caps_ok_put:
  assumes ok: "caps_ok cs" and i: "cp_capability_id (cr_capability r) = c"
    and new: "\<And>c' r'. c' \<noteq> c \<Longrightarrow> st_get c' cs = Some r' \<Longrightarrow> cp_decision_id (cr_capability r') \<noteq> cp_decision_id (cr_capability r)"
  shows "caps_ok (st_put c r cs)"
  unfolding caps_ok_def
proof (intro conjI allI impI)
  show "table_wf (st_put c r cs)"
    using ok unfolding caps_ok_def by (intro table.wf_put) (rule conjunct1)
  show "cp_capability_id (cr_capability q) = d" if "st_get d (st_put c r cs) = Some q" for d q
    using that i caps_okD(1) [OF ok] by (cases "d = c") (simp_all add: table.get_put)
  show "d = d'" if g: "st_get d (st_put c r cs) = Some q" "st_get d' (st_put c r cs) = Some q'"
    and e: "cp_decision_id (cr_capability q) = cp_decision_id (cr_capability q')" for d d' q q'
  proof (cases "d = c"; cases "d' = c")
    assume "d = c" "d' \<noteq> c"
    with g e new [of d' q'] show ?thesis by (simp add: table.get_put)
  next
    assume "d \<noteq> c" "d' = c"
    with g e new [of d q] show ?thesis by (simp add: table.get_put)
  next
    assume "d \<noteq> c" "d' \<noteq> c"
    with g have "st_get d cs = Some q" "st_get d' cs = Some q'" by (simp_all add: table.get_put)
    then show ?thesis by (rule caps_okD(2) [OF ok _ _ e])
  qed simp
qed

lemma caps_ok_consume:
  assumes "caps_ok cs" "st_get c cs = Some r"
  shows "caps_ok (st_put c (r\<lparr>cr_consumed := True\<rparr>) cs)"
proof (rule caps_ok_put [OF assms(1)])
  show "cp_capability_id (cr_capability (r\<lparr>cr_consumed := True\<rparr>)) = c"
    using caps_okD(1) [OF assms] by simp
  show "cp_decision_id (cr_capability r') \<noteq> cp_decision_id (cr_capability (r\<lparr>cr_consumed := True\<rparr>))"
    if "c' \<noteq> c" "st_get c' cs = Some r'" for c' r'
    using caps_okD(2) [OF assms that(2)] that(1) by auto
qed

lemma caps_inv_cong:
  "caps_inv s \<Longrightarrow> br_capabilities s' = br_capabilities s \<Longrightarrow> br_decisions s' = br_decisions s \<Longrightarrow> caps_inv s'"
  by (simp add: caps_inv_def)

lemma caps_inv_consume:
  assumes "caps_inv s" "st_get c (br_capabilities s) = Some r"
    "br_capabilities s' = st_put c (r\<lparr>cr_consumed := True\<rparr>) (br_capabilities s)" "decisions_wf (br_decisions s')"
  shows "caps_inv s'"
  using assms caps_ok_consume by (simp add: caps_inv_def)

lemma caps_inv_issue:
  assumes inv: "caps_inv s" and i: "broker_issue sha hmac ttl reg opt am pr i s = (s', Inr (token, p))"
    and fresh: "st_get (ba_capability am) (br_capabilities s) = None"
  shows "caps_inv s'"
proof -
  obtain d parsed where d: "st_get i (br_decisions s) = Some d"
    and c: "issue_capability sha hmac ttl opt am i d parsed s = Inr (s', (token, p))"
    using broker_issue_Inr [OF i] by blast
  note f = issue_capability_Inr [OF c]
  have di: "de_decisionId d = i"
    using inv d by (simp add: caps_inv_def decisions_wf_def)
  have new: "cp_decision_id (cr_capability r) \<noteq> cp_decision_id p" if "st_get c (br_capabilities s) = Some r" for c r
    using that f(2,5) di inv table.entries_get [of "br_capabilities s"] by (auto simp: caps_inv_def caps_ok_def)
  have "caps_ok (br_capabilities s')"
    unfolding f(3) using inv f(4) new by (intro caps_ok_put) (simp_all add: caps_inv_def)
  with inv f(6) show ?thesis by (simp add: caps_inv_def)
qed

lemma consume_decisions: "consume sha now p s = Inr (s', u) \<Longrightarrow> br_decisions s' = br_decisions s"
  by (auto simp: consume_def Let_def split: option.splits if_splits)

lemma redeem_decisions [simp]:
  "br_decisions (fst (redeem_claim sha hmac reg opt now pr inp t)) = br_decisions t"
proof (cases "redeem_checks sha hmac reg opt now pr inp t")
  case (Inl x)
  obtain e q where "x = (e, q)" by (cases x)
  with Inl show ?thesis
    by (cases q) (simp_all add: redeem_claim_def block_execution_def)
next
  case (Inr x)
  obtain p u where x: "x = (p, u)" by (cases x)
  show ?thesis
  proof (cases "consume sha now p t")
    case (Inr y)
    obtain s' v where "y = (s', v)" by (cases y)
    with Inr x \<open>redeem_checks sha hmac reg opt now pr inp t = Inr x\<close> show ?thesis
      using consume_decisions [of sha now p t s'] by (simp add: redeem_claim_def st_transaction_def)
  qed (use x \<open>redeem_checks sha hmac reg opt now pr inp t = Inr x\<close> in \<open>simp add: redeem_claim_def st_transaction_def\<close>)
qed

lemma record_failure_decisions [simp]: "br_decisions (fst (record_failure sha now p r k t)) = br_decisions t"
  by (cases r) (auto simp: record_failure_def split: option.splits)

lemma run_isolated_decisions [simp]: "br_decisions (fst (run_isolated sha now p env t)) = br_decisions t"
  by (auto simp: run_isolated_def Let_def split: sum.splits child_state.splits)

lemma run_handler_decisions [simp]: "br_decisions (fst (run_handler sha now p tool env t)) = br_decisions t"
  by (auto simp: run_handler_def Let_def split: sum.splits)

lemma redeem_finish_decisions [simp]:
  "br_decisions (fst (redeem_finish sha opt now p d t env s)) = br_decisions s"
proof (cases "bt_credentialsRequired t = []")
  case False
  then show ?thesis
    by (cases "fe_leases env")
      (simp_all add: redeem_finish_def Let_def block_execution_def del: run_checks_ok split: sum.split)
qed (simp add: redeem_finish_def)

lemma caps_inv_run:
  "broker_run sha hmac ttl reg s t \<Longrightarrow> caps_inv s \<Longrightarrow> caps_inv t"
proof (induction rule: broker_run.induct)
  case (run_gate s t ds dp ev)
  then show ?case by (simp add: caps_inv_def)
next
  case (run_issue s t am opt pr i)
  show ?case
  proof (cases "broker_issue sha hmac ttl reg opt am pr i t")
    case (Pair s' x)
    then show ?thesis
      using run_issue caps_inv_issue [of t] caps_inv_cong [of t s'] broker_issue_Inl [of sha hmac ttl reg opt am pr i t s']
      by (cases x) (auto simp: prod_eq_iff)
  qed
next
  case (run_claim s t opt now pr inp)
  then show ?case
    using claim_capabilities [of sha hmac reg opt now pr inp t] caps_inv_consume [of t] caps_inv_cong [of t]
    by (auto simp: caps_inv_def)
next
  case (run_finish s t opt now p d tool env)
  then show ?case using caps_inv_cong [of t] by simp
qed

lemma caps_inv_empty: "caps_inv broker_empty"
  by (simp add: caps_inv_def caps_ok_def broker_empty_def st_get_def table_wf_def decisions_wf_def)

text \<open>A consumed capability stays consumed.\<close>

lemma consumed_run:
  "broker_run sha hmac ttl reg s t \<Longrightarrow> st_get c (br_capabilities s) = Some r \<Longrightarrow> cr_consumed r \<Longrightarrow>
     \<exists>r'. st_get c (br_capabilities t) = Some r' \<and> cr_consumed r'"
proof (induction rule: broker_run.induct)
  case (run_issue s t am opt pr i)
  then obtain r' where r': "st_get c (br_capabilities t) = Some r'" "cr_consumed r'" by blast
  show ?case
  proof (cases "broker_issue sha hmac ttl reg opt am pr i t")
    case (Pair s' x)
    show ?thesis
    proof (cases x)
      case (Inl e)
      then show ?thesis using Pair r' broker_issue_Inl(1) by simp
    next
      case (Inr y)
      obtain token p where y: "y = (token, p)" by (cases y)
      obtain d parsed where "issue_capability sha hmac ttl opt am i d parsed t = Inr (s', (token, p))"
        using broker_issue_Inr [OF Pair [unfolded Inr y]] by blast
      from issue_capability_Inr(3) [OF this] show ?thesis
        using Pair r' run_issue.hyps(2) by (auto simp: table.get_put)
    qed
  qed
next
  case (run_claim s t opt now pr inp)
  then obtain r' where r': "st_get c (br_capabilities t) = Some r'" "cr_consumed r'" by blast
  from claim_capabilities [of sha hmac reg opt now pr inp t] show ?case
  proof
    assume "\<exists>c' q. st_get c' (br_capabilities t) = Some q \<and>
      br_capabilities (fst (redeem_claim sha hmac reg opt now pr inp t)) = st_put c' (q\<lparr>cr_consumed := True\<rparr>) (br_capabilities t)"
    then show ?thesis using r' by (auto simp: table.get_put)
  qed (use r' in simp)
qed auto

lemma filter_unique:
  assumes "distinct (map fst xs)" "\<And>x y. x \<in> set xs \<Longrightarrow> y \<in> set xs \<Longrightarrow> P x \<Longrightarrow> P y \<Longrightarrow> fst x = fst y"
  shows "length (filter P xs) \<le> 1"
  using assms
proof -
  let ?ys = "filter P xs"
  have d: "distinct (map fst ?ys)"
    using assms(1) by (rule distinct_map_filter)
  show ?thesis
  proof (rule ccontr)
    assume "\<not> length ?ys \<le> 1"
    then obtain x y zs where ys: "?ys = x # y # zs"
      by (cases ?ys; cases "tl ?ys") auto
    then have "x \<in> set ?ys" "y \<in> set ?ys" by simp_all
    then have "fst x = fst y" using assms(2) [of x y] by simp
    with d ys show False by simp
  qed
qed

section \<open>Properties\<close>

text \<open>
  C6. A capability is redeemed at most once. After a redemption consumed it, no later redemption, at
  any time, with any token and any interleaving of other operations, consumes the same capability.
\<close>

theorem capability_redeemed_once:
  assumes "redeem_claim sha hmac reg opt now pr inp s = (s1, Inr (p, t))" "broker_run sha hmac ttl reg s1 s2"
  shows "\<not> (\<exists>s3 p' t'. redeem_claim sha hmac reg opt' now' pr' inp' s2 = (s3, Inr (p', t'))
    \<and> cp_capability_id p' = cp_capability_id p)"
proof
  assume "\<exists>s3 p' t'. redeem_claim sha hmac reg opt' now' pr' inp' s2 = (s3, Inr (p', t'))
    \<and> cp_capability_id p' = cp_capability_id p"
  then obtain s3 p' t' where again: "redeem_claim sha hmac reg opt' now' pr' inp' s2 = (s3, Inr (p', t'))"
    and same: "cp_capability_id p' = cp_capability_id p" by blast
  obtain r where "st_get (cp_capability_id p) (br_capabilities s1) = Some r" "cr_consumed r"
    using consume_Inr [OF redeem_claim_Inr(1) [OF assms(1)]] by (auto simp: table.get_put)
  from consumed_run [OF assms(2) this] obtain r' where
    "st_get (cp_capability_id p) (br_capabilities s2) = Some r'" "cr_consumed r'" by blast
  moreover obtain q where "st_get (cp_capability_id p') (br_capabilities s2) = Some q" "\<not> cr_consumed q"
    using consume_Inr [OF redeem_claim_Inr(1) [OF again]] by blast
  ultimately show False using same by simp
qed

definition demo_payload :: capability_payload where
  "demo_payload = make_payload demo_cap_input (demo_hash ''null'') 1700000000000 1700000030000 demo_random"

definition demo_broker_tool :: tool_definition where
  "demo_broker_tool = \<lparr>bt_name = ''fs'', bt_action = ''report.write'', bt_resourceType = ''files'',
     bt_allowedOperations = [''read''], bt_networkRequired = False, bt_credentialsRequired = [], bt_has_handler = True,
     bt_isolated = None\<rparr>"

definition demo_decision :: decision where
  "demo_decision = \<lparr>de_decision = ALLOW, de_reason = ''ok'', de_decisionId = ''dec_3'', de_agentId = ''agent-1'',
     de_severity = ''none'', de_policyVersion = None, de_policyHash = Some ''h'', de_timestamp = ''t'',
     de_request = stored (demo_request\<lparr>rq_destination := None\<rparr>) None None, de_approvalReference = None\<rparr>"

definition demo_options :: broker_options where
  "demo_options = \<lparr>bo_isAgentRevoked = None, bo_isDecisionCurrent = None, bo_isPolicyCurrent = None,
     bo_isAuthorityValid = None, bo_isToolCompatible = None, bo_earliestAuthorityExpiry = None,
     bo_secretBroker = False, bo_isolationRunner = False\<rparr>"

definition demo_broker_ambient :: broker_ambient where
  "demo_broker_ambient = \<lparr>ba_now = 1700000000000, ba_execution = ''ex-1'', ba_capability = ''cap-1'',
     ba_block = ''b1'', ba_block' = ''b2'', ba_random = demo_random\<rparr>"

definition demo_decided :: broker_state where
  "demo_decided = broker_empty\<lparr>br_decisions := [(''dec_3'', demo_decision)],
     br_decision_policies := [(''dec_3'', \<lparr>dp_policyHash = ''h'', dp_policyRevision = ''pol_2''\<rparr>)], br_evidence := []\<rparr>"

definition demo_redeem :: redeem_input where
  "demo_redeem = \<lparr>ri_token = sign demo_mac demo_payload, ri_tool = ''fs'', ri_resource = ''/srv/reports/q1.md'',
     ri_operation = ''read'', ri_destination = None, ri_input = None, ri_input_hash = demo_hash ''null''\<rparr>"

definition demo_cap_request :: capability_input where
  "demo_cap_request = demo_cap_input\<lparr>ci_input_hash := Some (demo_hash ''null'')\<rparr>"

lemma demo_capability_input:
  "capability_input_for demo_hash demo_options demo_broker_ambient demo_decision None demo_decided = demo_cap_request"
  by (simp add: capability_input_for_def demo_cap_request_def demo_cap_input_def demo_decision_def demo_options_def
      demo_broker_ambient_def demo_decided_def broker_operation_def stored_def demo_request_def auth_request.defs
      stored_request.defs st_get_def hash_json_def demo_hash_def)

lemma demo_request_issue:
  "cap_issue demo_hash demo_mac 30 1700000000000 demo_random demo_cap_request = Inr (sign demo_mac demo_payload, demo_payload)"
proof -
  have "validInput demo_cap_request" by code_simp
  moreover have "make_payload demo_cap_request h now e r = make_payload demo_cap_input h now e r" for h now e r
    by (simp add: make_payload_def demo_cap_request_def)
  ultimately show ?thesis
    by (simp add: cap_issue_def Let_def demo_payload_def demo_cap_request_def demo_cap_input_def [THEN arg_cong [of _ _ ci_expires_at]])
qed

lemma demo_parse_none: "parseDecisionInput sha d demo_broker_tool = Inr None"
  by (simp add: parseDecisionInput_def demo_broker_tool_def demo_registry_def st_get_def st_put_def demo_tool_def)

lemma demo_issued:
  "\<exists>s. broker_issue demo_hash demo_mac 30 [(''fs'', demo_broker_tool)] demo_options demo_broker_ambient (Agent ''agent-1'') ''dec_3'' demo_decided
     = (s, Inr (sign demo_mac demo_payload, demo_payload))"
proof -
  have t: "broker_tool (rq_tool (de_request demo_decision)) [(''fs'', demo_broker_tool)] = Some demo_broker_tool"
    by (simp add: broker_tool_def st_get_def demo_decision_def stored_def demo_request_def auth_request.defs stored_request.defs)
  have c: "run_checks (issue_blocks demo_options demo_decision (Some demo_broker_tool)) = Inr ()"
    by (simp add: issue_blocks_def demo_options_def says_def denies_def compatible_def demo_decision_def demo_broker_tool_def
        stored_def demo_request_def auth_request.defs stored_request.defs broker_operation_def present_def)
  have d: "st_get ''dec_3'' (br_decisions demo_decided) = Some demo_decision" "owner_ok (Agent ''agent-1'') (de_agentId demo_decision)"
    "br_capabilities demo_decided = []"
    by (simp_all add: demo_decided_def broker_empty_def st_get_def owner_ok_def demo_decision_def)
  have am: "ba_now demo_broker_ambient = 1700000000000" "ba_random demo_broker_ambient = demo_random"
    by (simp_all add: demo_broker_ambient_def)
  show ?thesis
    by (simp add: broker_issue_def Let_def t c d demo_parse_none st_transaction_def issue_capability_def st_list_def
        am demo_capability_input demo_request_issue del: run_checks_ok)
qed

definition demo_issued_state :: broker_state where
  "demo_issued_state = fst (broker_issue demo_hash demo_mac 30 [(''fs'', demo_broker_tool)] demo_options demo_broker_ambient
     (Agent ''agent-1'') ''dec_3'' demo_decided)"

lemma demo_issued_eq:
  "broker_issue demo_hash demo_mac 30 [(''fs'', demo_broker_tool)] demo_options demo_broker_ambient (Agent ''agent-1'') ''dec_3'' demo_decided
     = (demo_issued_state, Inr (sign demo_mac demo_payload, demo_payload))"
  using demo_issued unfolding demo_issued_state_def by auto

lemma demo_issued_capabilities:
  "br_capabilities demo_issued_state
     = [(''cap-1'', \<lparr>cr_capability = demo_payload, cr_token = sign demo_mac demo_payload, cr_consumed = False\<rparr>)]"
  "st_get ''dec_3'' (br_decisions demo_issued_state) = Some demo_decision"
proof -
  obtain d parsed where c: "issue_capability demo_hash demo_mac 30 demo_options demo_broker_ambient ''dec_3'' d parsed demo_decided
      = Inr (demo_issued_state, (sign demo_mac demo_payload, demo_payload))"
    using broker_issue_Inr [OF demo_issued_eq] by blast
  show "br_capabilities demo_issued_state
     = [(''cap-1'', \<lparr>cr_capability = demo_payload, cr_token = sign demo_mac demo_payload, cr_consumed = False\<rparr>)]"
    using issue_capability_Inr(3) [OF c]
    by (simp add: demo_decided_def broker_empty_def demo_broker_ambient_def st_put_def)
  show "st_get ''dec_3'' (br_decisions demo_issued_state) = Some demo_decision"
    unfolding issue_capability_Inr(6) [OF c] by (simp add: demo_decided_def st_get_def)
qed

lemma demo_run: "broker_run demo_hash demo_mac 30 [(''fs'', demo_broker_tool)] broker_empty demo_issued_state"
proof -
  have "broker_run demo_hash demo_mac 30 [(''fs'', demo_broker_tool)] broker_empty demo_decided"
    unfolding demo_decided_def
    by (rule run_gate [OF run_refl]) (simp add: decisions_wf_def st_get_def demo_decision_def)
  from run_issue [OF this, of demo_broker_ambient demo_options "Agent ''agent-1''" "''dec_3''"] show ?thesis
    unfolding demo_issued_eq fst_conv by (simp add: demo_decided_def broker_empty_def st_get_def)
qed

lemma b64_ok_text: "b64_ok c \<Longrightarrow> \<not> is_control c"
  by (auto simp: b64_ok_def is_control_def char_class_defs)

lemma sign_text: "validText (sign hmac p)"
proof -
  have "\<not> list_ex is_control (encode bs)" for bs
    using encode_chars [of bs] b64_ok_text by (auto simp: list_ex_iff list_all_iff)
  then show ?thesis
    by (simp add: validText_def sign_def Let_def is_control_def list_ex_append)
qed

lemma demo_claimed:
  "\<exists>s. redeem_claim demo_hash demo_mac [(''fs'', demo_broker_tool)] demo_options 1700000005000 (Agent ''agent-1'') demo_redeem demo_issued_state
     = (s, Inr (demo_payload, demo_broker_tool))"
proof -
  have v: "cap_verify demo_mac 1700000005000 (ri_token demo_redeem) = Inr demo_payload"
    using demo_token_verifies by (simp add: demo_redeem_def demo_payload_def)
  have p: "cp_agent_id demo_payload = ''agent-1''" "cp_tool demo_payload = ''fs''" "cp_resource demo_payload = ''/srv/reports/q1.md''"
    "cp_operation demo_payload = ''read''" "cp_destination demo_payload = None" "cp_action demo_payload = ''report.write''"
    "cp_decision_id demo_payload = ''dec_3''" "cp_capability_id demo_payload = ''cap-1''"
    by (simp_all add: demo_payload_def make_payload_def demo_cap_input_def)
  have tk: "validText (ri_token demo_redeem)"
    by (simp add: demo_redeem_def sign_text)
  have ok: "redeem_input_ok demo_redeem"
    using tk demo_hex by (simp add: redeem_input_ok_def demo_redeem_def validText_def is_control_def)
  have t: "broker_tool (ri_tool demo_redeem) [(''fs'', demo_broker_tool)] = Some demo_broker_tool"
    by (simp add: broker_tool_def demo_redeem_def st_get_def)
  have b: "binds demo_payload demo_redeem demo_broker_tool"
    by (simp add: binds_def p demo_redeem_def demo_broker_tool_def)
  have pr: "parseRedeemInput demo_hash demo_redeem demo_broker_tool h = Inr None" for h
    by (simp add: parseRedeemInput_def demo_broker_tool_def demo_registry_def st_get_def st_put_def demo_tool_def)
  have c: "run_checks (redeem_blocks demo_options demo_payload demo_decision demo_broker_tool) = Inr ()"
    by (simp add: redeem_blocks_def demo_options_def says_def denies_def demo_broker_tool_def)
  have iso: "bt_isolated demo_broker_tool = None" by (simp add: demo_broker_tool_def)
  have ch: "redeem_checks demo_hash demo_mac [(''fs'', demo_broker_tool)] demo_options 1700000005000 (Agent ''agent-1'')
      demo_redeem demo_issued_state = Inr (demo_payload, demo_broker_tool)"
    by (simp add: redeem_checks_def ok v p t b pr demo_issued_capabilities(2) c iso owner_ok_def del: run_checks_ok)
  have "st_get (cp_capability_id demo_payload) (br_capabilities demo_issued_state)
      = Some \<lparr>cr_capability = demo_payload, cr_token = sign demo_mac demo_payload, cr_consumed = False\<rparr>"
    by (simp add: demo_issued_capabilities(1) p st_get_def)
  then show ?thesis
    by (simp add: redeem_claim_def ch st_transaction_def consume_def Let_def)
qed

theorem capability_redeemed_once_witness:
  "\<exists>s. redeem_claim demo_hash demo_mac [(''fs'', demo_broker_tool)] demo_options 1700000005000 (Agent ''agent-1'') demo_redeem demo_issued_state
       = (s, Inr (demo_payload, demo_broker_tool))
     \<and> \<not> (\<exists>s' p t. redeem_claim demo_hash demo_mac [(''fs'', demo_broker_tool)] demo_options 1700000006000 (Agent ''agent-1'') demo_redeem s
          = (s', Inr (p, t)) \<and> cp_capability_id p = cp_capability_id demo_payload)"
  using demo_claimed capability_redeemed_once [OF _ run_refl] by blast

text \<open>
  One capability per decision: in every state the broker can reach, at most one stored capability
  is for a given decision.
\<close>

theorem one_capability_per_decision:
  assumes "broker_run sha hmac ttl reg broker_empty s"
  shows "length (filter (\<lambda>(c, r). cp_decision_id (cr_capability r) = i) (br_capabilities s)) \<le> 1"
proof (rule filter_unique)
  have ok: "caps_ok (br_capabilities s)"
    using caps_inv_run [OF assms caps_inv_empty] by (simp add: caps_inv_def)
  show "distinct (map fst (br_capabilities s))"
    using ok unfolding caps_ok_def table_wf_def by blast
  then show "fst x = fst y" if "x \<in> set (br_capabilities s)" "y \<in> set (br_capabilities s)"
    "case x of (c, r) \<Rightarrow> cp_decision_id (cr_capability r) = i" "case y of (c, r) \<Rightarrow> cp_decision_id (cr_capability r) = i" for x y
    using that caps_okD(2) [OF ok] by (cases x; cases y) (simp add: st_get_def)
qed

theorem one_capability_per_decision_witness:
  "length (filter (\<lambda>(c, r). cp_decision_id (cr_capability r) = ''dec_3'') (br_capabilities demo_issued_state)) \<le> 1
     \<and> length (br_capabilities demo_issued_state) = 1"
  using one_capability_per_decision [OF demo_run] by (simp add: demo_issued_capabilities)

text \<open>
  A capability never says more than its decision. Issuing succeeds only for the owner (or an
  administrator), on a stored ALLOW decision that every callback still accepts and a registered tool
  that fits it, and the signed payload carries the action, tool, resource and destination of that
  decision; a callback's authority expiry bounds its life.
\<close>

theorem issue_only_current_allow:
  assumes "broker_issue sha hmac ttl reg opt am pr i s = (s', Inr (token, p))"
  shows "\<exists>d. st_get i (br_decisions s) = Some d \<and> de_decision d = ALLOW \<and> owner_ok pr (de_agentId d)
    \<and> (\<forall>f. bo_isAgentRevoked opt = Some f \<longrightarrow> \<not> f (de_agentId d)) \<and> (\<forall>f. bo_isDecisionCurrent opt = Some f \<longrightarrow> f d)
    \<and> (\<forall>f. bo_isPolicyCurrent opt = Some f \<longrightarrow> f d) \<and> (\<forall>f. bo_isAuthorityValid opt = Some f \<longrightarrow> f d)
    \<and> token = sign hmac p \<and> cp_agent_id p = de_agentId d \<and> cp_decision_id p = de_decisionId d
    \<and> cp_action p = rq_action (de_request d) \<and> cp_tool p = rq_tool (de_request d)
    \<and> cp_resource p = rq_resource (de_request d) \<and> cp_destination p = rq_destination (de_request d)
    \<and> (\<exists>t. broker_tool (cp_tool p) reg = Some t \<and> cp_operation p \<in> set (bt_allowedOperations t))
    \<and> st_get (cp_capability_id p) (br_capabilities s')
        = Some \<lparr>cr_capability = p, cr_token = token, cr_consumed = False\<rparr>"
proof -
  obtain d t parsed where d: "st_get i (br_decisions s) = Some d" "owner_ok pr (de_agentId d)"
    and t: "broker_tool (rq_tool (de_request d)) reg = Some t" and ch: "run_checks (issue_blocks opt d (Some t)) = Inr ()"
    and c: "issue_capability sha hmac ttl opt am i d parsed s = Inr (s', (token, p))"
    using broker_issue_Inr [OF assms] by blast
  note f = issue_capability_Inr [OF c]
  from cap_issue_payload [OF f(1)] obtain h e where
    p: "p = make_payload (capability_input_for sha opt am d parsed s) h (ba_now am) e (ba_random am)" "token = sign hmac p"
    by blast
  have fields: "cp_agent_id p = de_agentId d" "cp_decision_id p = de_decisionId d" "cp_action p = rq_action (de_request d)"
    "cp_tool p = rq_tool (de_request d)" "cp_resource p = rq_resource (de_request d)"
    "cp_destination p = rq_destination (de_request d)" "cp_operation p = broker_operation (de_request d)"
    by (simp_all add: p(1) make_payload_def capability_input_for_def Let_def)
  have checks: "de_decision d = ALLOW" "\<not> says (bo_isAgentRevoked opt) (de_agentId d)" "\<not> denies (bo_isDecisionCurrent opt) d"
    "\<not> denies (bo_isPolicyCurrent opt) d" "\<not> denies (bo_isAuthorityValid opt) d" "compatible opt d t"
    using ch unfolding run_checks_ok by (simp_all add: issue_blocks_def)
  have "broker_operation (de_request d) \<in> set (bt_allowedOperations t)"
    using checks(6) by (simp add: compatible_def Let_def)
  then show ?thesis
    using d t checks(1-5) fields p(2) f(3,4) by (auto simp: says_def denies_def table.get_put)
qed

theorem issue_only_current_allow_witness:
  "de_decision demo_decision = ALLOW \<and> st_get (cp_capability_id demo_payload) (br_capabilities demo_issued_state)
     = Some \<lparr>cr_capability = demo_payload, cr_token = sign demo_mac demo_payload, cr_consumed = False\<rparr>"
  using issue_only_current_allow [OF demo_issued_eq] by (auto simp: demo_decision_def)

text \<open>
  C36. What redemption requires: a capability is consumed only for a token the codec signed, presented
  by its owner, unexpired, with the very tool, resource, operation and destination it was signed for,
  while its decision is stored and every callback still accepts it.
\<close>

theorem redeem_requires_binding:
  assumes "redeem_claim sha hmac reg opt now pr inp s = (s', Inr (p, t))"
  shows "ri_token inp = sign hmac p \<and> owner_ok pr (cp_agent_id p) \<and> \<not> passed (cp_expires_at p) now
    \<and> cp_tool p = ri_tool inp \<and> cp_tool p = bt_name t \<and> cp_action p = bt_action t \<and> cp_resource p = ri_resource inp
    \<and> cp_operation p = ri_operation inp \<and> cp_operation p \<in> set (bt_allowedOperations t) \<and> cp_destination p = ri_destination inp
    \<and> (\<exists>d. st_get (cp_decision_id p) (br_decisions s) = Some d \<and> (\<forall>f. bo_isPolicyCurrent opt = Some f \<longrightarrow> f d)
          \<and> (\<forall>f. bo_isAuthorityValid opt = Some f \<longrightarrow> f d))
    \<and> (\<forall>f. bo_isAgentRevoked opt = Some f \<longrightarrow> \<not> f (cp_agent_id p))"
proof -
  note c = redeem_checks_Inr [OF redeem_claim_Inr(2) [OF assms]]
  have "\<not> passed (cp_expires_at p) now" "ri_token inp = sign hmac p"
    using cap_verify_facts [OF c(1)] by (auto simp: passed_def)
  then show ?thesis
    using c(2,4,5) unfolding run_checks_ok by (auto simp: binds_def redeem_blocks_def says_def denies_def split: option.splits)
qed

theorem redeem_requires_binding_witness:
  "\<not> passed (cp_expires_at demo_payload) 1700000005000 \<and> cp_resource demo_payload = ri_resource demo_redeem"
  using demo_claimed redeem_requires_binding by fast

text \<open>
  A handler that completed is never recorded as FAILED: once the awaited handler has answered, the
  stored execution is SUCCEEDED, INDETERMINATE or still STARTED, whichever writes the store refuses,
  and only a stored SUCCEEDED is reported as a success.
\<close>

theorem completed_handler_not_failed:
  assumes "bt_isolated t = None" "bt_has_handler t" "fe_handler env = Inr v"
    "fe_leases env = Inr leased" "st_get (cp_execution_id p) (br_executions s) = Some e" "ex_state e = STARTED"
    "redeem_finish sha opt now p d t env s = (s', r)"
  shows "\<exists>e'. st_get (cp_execution_id p) (br_executions s') = Some e' \<and> ex_state e' \<in> {STARTED, SUCCEEDED, INDETERMINATE}
    \<and> (ex_state e' = SUCCEEDED \<longleftrightarrow> r = Inr (hash_json sha v))"
proof -
  have run: "\<exists>e'. st_get (cp_execution_id p) (br_executions (fst (run_handler sha now p t env s))) = Some e'
     \<and> ex_state e' \<in> {STARTED, SUCCEEDED, INDETERMINATE}
     \<and> (ex_state e' = SUCCEEDED \<longleftrightarrow> snd (run_handler sha now p t env s) = Inr (hash_json sha v))"
    using assms(2,3,5,6) by (simp add: run_handler_def Let_def finish_def table.get_put broker_summary_def)
  show ?thesis
  proof (cases "bt_credentialsRequired t = []")
    case True
    with run assms(1,7) show ?thesis by (simp add: redeem_finish_def Let_def)
  next
    case False
    show ?thesis
    proof (cases "run_checks (pre_invocation opt now p d t leased)")
      case (Inl reason)
      then have "br_executions s' = br_executions s" "\<exists>e. r = Inl e"
        using False assms(4,7) by (auto simp: redeem_finish_def Let_def block_execution_def simp del: run_checks_ok)
      with assms(5,6) show ?thesis by auto
    next
      case (Inr u)
      with run False assms(1,4,7) show ?thesis by (simp add: redeem_finish_def Let_def del: run_checks_ok)
    qed
  qed
qed

definition demo_finish_env :: finish_env where
  "demo_finish_env = \<lparr>fe_leases = Inr [], fe_handler = Inr JNull, fe_child = Inl (Raised None None), fe_persist = False,
     fe_persist_again = True\<rparr>"

definition demo_started :: broker_state where
  "demo_started = broker_empty\<lparr>br_executions := [(''ex-1'', broker_summary 1700000005000 demo_payload STARTED ''s'' None None)]\<rparr>"

theorem completed_handler_not_failed_witness:
  "\<exists>e'. st_get ''ex-1'' (br_executions (fst (redeem_finish demo_hash demo_options 1700000006000 demo_payload demo_decision
      demo_broker_tool demo_finish_env demo_started))) = Some e' \<and> ex_state e' \<in> {STARTED, SUCCEEDED, INDETERMINATE}"
proof -
  have i: "cp_execution_id demo_payload = ''ex-1''"
    by (simp add: demo_payload_def make_payload_def demo_cap_input_def)
  show ?thesis
    using completed_handler_not_failed [of demo_broker_tool demo_finish_env JNull "[]" demo_payload demo_started
        "broker_summary 1700000005000 demo_payload STARTED ''s'' None None" demo_hash demo_options 1700000006000 demo_decision]
    by (auto simp: i demo_broker_tool_def demo_finish_env_def demo_started_def st_get_def broker_summary_def prod_eq_iff)
qed

text \<open>
  The isolated path has no such guard: when the child succeeded and only the first write fails, the
  second write records the execution as FAILED.
\<close>

lemma isolated_success_recorded_failed:
  assumes "fe_child env = Inr c" "ch_state c = Child_Succeeded" "\<not> fe_persist env" "fe_persist_again env"
  shows "\<exists>e. st_get (cp_execution_id p) (br_executions (fst (run_isolated sha now p env s))) = Some e \<and> ex_state e = FAILED"
  using assms by (simp add: run_isolated_def Let_def record_failure_def finish_def table.get_put broker_summary_def)

end
