(* ===== verification/Ledger_Schema.thy ===== *)
theory Ledger_Schema
  imports Js_Parse Js_Date
begin

text \<open>
  \<open>packages/ledger-schema\<close>: what a caller may submit to the ledger, and what is hashed. The event
  types and the source components are strings of controlled lists. A context is a JSON object (the
  caller's own, only its shape is checked), so it stays a JSON value.
\<close>

section \<open>Constants, errors and controlled lists\<close>

definition ledger_event_version :: string where
  "ledger_event_version = ''1.0''"

definition max_payload_bytes :: nat where
  "max_payload_bytes = 8192"

definition max_query_page_size :: int where
  "max_query_page_size = 200"

definition default_query_page_size :: int where
  "default_query_page_size = 50"

definition max_reconstruction_events :: nat where
  "max_reconstruction_events = 500"

definition max_export_events :: nat where
  "max_export_events = 5000"

datatype ledger_code = INVALID_EVENT | UNKNOWN_EVENT_TYPE | EVENT_CONFLICT | STREAM_CONFLICT | INTEGRITY_FAILURE
  | NOT_FOUND | FORBIDDEN | PAYLOAD_TOO_LARGE | ORPHAN_EVENT | UNSUPPORTED_VERSION

datatype ledger_error = Ledger_Error ledger_code string | Constraint_Error

definition actor_types :: "string list" where
  "actor_types = [''AGENT'', ''HUMAN'', ''SYSTEM'', ''SERVICE'', ''VERIFIER'', ''PRODUCER'', ''ADMIN'', ''APPROVER'']"

definition source_components :: "string list" where
  "source_components = [''tna-gate'', ''execution-broker'', ''isolation-runner'', ''vad-engine'',
     ''human-decision-service'', ''ledger'', ''sentinel'', ''auditor'', ''platform'', ''improvement-governance'']"

definition event_types :: "string list" where
  "event_types = [
     ''AGENT_REGISTERED'', ''AUTHORIZATION_REQUESTED'', ''AUTHORIZATION_ALLOWED'', ''AUTHORIZATION_BLOCKED'',
     ''AUTHORIZATION_HELD'', ''APPROVAL_GRANTED'', ''APPROVAL_REJECTED'', ''APPROVAL_EXPIRED'',
     ''CAPABILITY_ISSUED'', ''CAPABILITY_REDEEMED'', ''CAPABILITY_REJECTED'', ''EXECUTION_STARTED'',
     ''EXECUTION_SUCCEEDED'', ''EXECUTION_FAILED'', ''EXECUTION_TERMINATED'', ''EXECUTION_INDETERMINATE'',
     ''ATOM_CREATED'', ''ATOM_STARTED'', ''ATOM_ATTEMPT_STARTED'', ''ATOM_ATTEMPT_FAILED'',
     ''ATOM_VALIDATION_PASSED'', ''ATOM_VALIDATION_FAILED'', ''ATOM_VERIFICATION_ACCEPTED'',
     ''ATOM_VERIFICATION_REJECTED'', ''ATOM_HUMAN_DECISION'', ''ATOM_ACCEPTED'', ''ATOM_REJECTED'',
     ''ATOM_ESCALATED'', ''POLICY_ISSUED'', ''POLICY_REPLACED'', ''AGENT_REVOKED'', ''INTEGRITY_CHECK_PASSED'',
     ''INTEGRITY_CHECK_FAILED'', ''SENTINEL_SESSION_STARTED'', ''SENTINEL_VIOLATION_DETECTED'', ''SENTINEL_WARNING'',
     ''SENTINEL_HOLD'', ''SENTINEL_TERMINATION_REQUESTED'', ''SENTINEL_TERMINATED'', ''SENTINEL_CONTAINMENT_FAILED'',
     ''SENTINEL_EMERGENCY_STOP_ACTIVATED'', ''SENTINEL_EMERGENCY_STOP_RELEASED'', ''SENTINEL_SESSION_COMPLETED'',
     ''AUDIT_ASSESSMENT_CREATED'', ''AUDIT_ASSESSMENT_STARTED'', ''AUDIT_FINDING_CREATED'',
     ''AUDIT_ASSESSMENT_COMPLETED'', ''AUDIT_ASSESSMENT_FAILED'', ''PLATFORM_ACTION_RECEIVED'',
     ''PLATFORM_ACTION_BLOCKED'', ''PLATFORM_ACTION_HELD'', ''PLATFORM_ACTION_AUTHORIZED'',
     ''PLATFORM_EXECUTION_STARTED'', ''PLATFORM_EXECUTION_COMPLETED'', ''PLATFORM_VERIFICATION_STARTED'',
     ''PLATFORM_VERIFICATION_COMPLETED'', ''PLATFORM_ACTION_TERMINATED'', ''PLATFORM_ACTION_INDETERMINATE'',
     ''PLATFORM_ACTION_COMPLETED'', ''PLATFORM_ACTION_FAILED'', ''IMPROVEMENT_PROPOSED'', ''IMPROVEMENT_AUTHORIZED'',
     ''IMPROVEMENT_BUILD_STARTED'', ''IMPROVEMENT_BUILT'', ''IMPROVEMENT_EVALUATION_STARTED'',
     ''IMPROVEMENT_EVALUATED'', ''CAPABILITY_DELTA_DETECTED'', ''AUTHORITY_EXPANSION_REQUESTED'',
     ''AUTHORITY_EXPANSION_APPROVED'', ''AUTHORITY_EXPANSION_REJECTED'', ''IMPROVEMENT_REJECTED'',
     ''IMPROVEMENT_APPROVAL_REQUIRED'', ''IMPROVEMENT_CANARY_STARTED'', ''IMPROVEMENT_CANARY_FAILED'',
     ''IMPROVEMENT_PROMOTED'', ''IMPROVEMENT_ROLLBACK_STARTED'', ''IMPROVEMENT_ROLLED_BACK'',
     ''IMPROVEMENT_INDETERMINATE'', ''RECURSION_BUDGET_EXHAUSTED'']"

definition classifications :: "string list" where
  "classifications = [''PUBLIC'', ''INTERNAL'', ''CONFIDENTIAL'', ''RESTRICTED'', ''SECRET_REFERENCE'']"

section \<open>Events\<close>

text \<open>
  \<open>causation_id\<close> and \<open>parent_event_id\<close> may be absent, \<open>null\<close> or a string, and the difference
  is visible in the canonical content, so they stay JSON; the actor too, since it may carry
  further keys.
\<close>

record ledger_input =
  li_version :: string
  li_event_id :: string
  li_event_type :: string
  li_tenant_id :: string
  li_stream_id :: string
  li_actor :: json
  li_correlation_id :: string
  li_source_component :: string
  li_causation_id :: "json option"
  li_parent_event_id :: "json option"
  li_occurred_at :: "string option"
  li_authority_context :: "json option"
  li_spec_context :: "json option"
  li_execution_context :: "json option"
  li_artifact_context :: "json option"
  li_payload :: "json option"
  li_classification :: "string option"
  li_retention :: "json option"

record ledger_event = ledger_input +
  lv_sequence :: int
  lv_received_at :: string
  lv_persisted_at :: string
  lv_payload_hash :: string
  lv_previous_event_hash :: string
  lv_event_hash :: string

definition safeId :: "nat \<Rightarrow> string \<Rightarrow> bool" where
  "safeId maxLen s = (s \<noteq> [] \<and> length s \<le> maxLen \<and> is_alnum (hd s)
     \<and> list_all (\<lambda>c. is_alnum c \<or> char_in ''._:-'' c) (tl s))"

definition isIsoTimestamp :: "string \<Rightarrow> bool" where
  "isIsoTimestamp s = is_iso_text s"

definition ledger_canonical :: "json \<Rightarrow> string" where
  "ledger_canonical j = canonical j"

definition ledger_hash :: "(string \<Rightarrow> string) \<Rightarrow> json \<Rightarrow> string" where
  "ledger_hash sha j = hash_json sha j"

definition ledger_find_secret :: "json option \<Rightarrow> string option" where
  "ledger_find_secret v = find_secret_opt v"

text \<open>\<open>String(value)\<close> in the messages.\<close>

fun js_string :: "json \<Rightarrow> string" where
  "js_string JNull = ''null''"
| "js_string (JBool b) = (if b then ''true'' else ''false'')"
| "js_string (JNum n) = show_num n"
| "js_string (JStr s) = s"
| "js_string (JArr xs) = str_join '','' (map (\<lambda>x. if x = JNull then [] else js_string x) xs)"
| "js_string (JObj _) = ''[object Object]''"

definition show_value :: "json option \<Rightarrow> string" where
  "show_value v = (case v of None \<Rightarrow> ''undefined'' | Some j \<Rightarrow> js_string j)"

section \<open>Validation\<close>

definition ctx_field :: "json option \<Rightarrow> string \<Rightarrow> json option" where
  \<comment> \<open>\<open>context?.field\<close>\<close>
  "ctx_field c k = Option.bind c (jfield k)"

definition invalid :: "string \<Rightarrow> ledger_error" where
  "invalid m = Ledger_Error INVALID_EVENT m"

definition assertContext :: "string \<Rightarrow> json option \<Rightarrow> bool \<times> ledger_error" where
  "assertContext name v = (v = None \<or> is_plain_object v, invalid (name @ '' must be an object''))"

definition opt_safe_id :: "json option \<Rightarrow> bool" where
  \<comment> \<open>absent, \<open>null\<close> or a safe identifier\<close>
  "opt_safe_id v = (v = None \<or> v = Some JNull \<or> str_where (safeId 200) v)"

definition requires :: "json option \<Rightarrow> string list \<Rightarrow> bool" where
  "requires c ks = list_all (\<lambda>k. truthy (ctx_field c k)) ks"

definition assertComplete :: "string \<Rightarrow> json \<Rightarrow> bool \<times> ledger_error" where
  "assertComplete t input =
     (let ac = jfield ''authority_context'' input; sc = jfield ''spec_context'' input;
          ec = jfield ''execution_context'' input; art = jfield ''artifact_context'' input in
      if t = ''AUTHORIZATION_ALLOWED'' then (requires ac [''decision_id'', ''agent_id'', ''policy_hash'', ''action''],
        invalid ''AUTHORIZATION_ALLOWED requires authority_context.{decision_id,agent_id,policy_hash,action}'')
      else if t = ''CAPABILITY_ISSUED'' then (requires ac [''capability_id'', ''decision_id'', ''authority_expiry''],
        invalid ''CAPABILITY_ISSUED requires authority_context.{capability_id,decision_id,authority_expiry}'')
      else if t = ''CAPABILITY_REDEEMED'' then (requires ac [''capability_id''],
        invalid ''CAPABILITY_REDEEMED requires authority_context.capability_id'')
      else if t = ''EXECUTION_STARTED'' then (requires ec [''execution_id''],
        invalid ''EXECUTION_STARTED requires execution_context.execution_id'')
      else if t = ''EXECUTION_SUCCEEDED'' then (requires ec [''execution_id'', ''result_hash''],
        invalid ''EXECUTION_SUCCEEDED requires execution_context.{execution_id,result_hash}'')
      else if t \<in> {''EXECUTION_FAILED'', ''EXECUTION_TERMINATED'', ''EXECUTION_INDETERMINATE''} then
        (requires ec [''execution_id''], invalid (t @ '' requires execution_context.execution_id''))
      else if t = ''ATOM_CREATED'' then (requires sc [''atom_id'', ''spec_hash''],
        invalid ''ATOM_CREATED requires spec_context.{atom_id,spec_hash}'')
      else if t = ''ATOM_ACCEPTED'' then
        (requires sc [''atom_id'', ''spec_hash''] \<and> requires art [''artifact_hash''] \<and> requires sc [''verifier_verdict'', ''human_decision''],
         invalid ''ATOM_ACCEPTED requires spec_context.{atom_id,spec_hash,verifier_verdict,human_decision} and artifact_context.artifact_hash'')
      else if t = ''AGENT_REVOKED'' then (requires ac [''agent_id''],
        invalid ''AGENT_REVOKED requires authority_context.agent_id'')
      else (True, invalid []))"

definition secret_hit :: "json \<Rightarrow> string option" where
  "secret_hit input = List.fold (\<lambda>k r. case r of Some x \<Rightarrow> Some x | None \<Rightarrow> ledger_find_secret (jfield k input))
     [''payload'', ''authority_context'', ''execution_context'', ''spec_context'', ''artifact_context''] None"

definition retention_ok :: "json option \<Rightarrow> bool" where
  "retention_ok v = (v = None \<or> (is_plain_object v \<and> str_where (\<lambda>_. True) (ctx_field v ''retention_class'')
     \<and> jbool (ctx_field v ''legal_hold'') \<noteq> None))"

definition actor_ok :: "json option \<Rightarrow> bool" where
  "actor_ok v = (is_plain_object v \<and> str_where (\<lambda>s. s \<in> set actor_types) (ctx_field v ''type'')
     \<and> str_where (safeId 200) (ctx_field v ''id''))"

definition payload_size :: "json option \<Rightarrow> nat" where
  "payload_size v = (case v of None \<Rightarrow> 0 | Some j \<Rightarrow> length (ledger_canonical j))"

definition event_checks :: "json \<Rightarrow> (bool \<times> ledger_error) list" where
  "event_checks input =
     (let f = (\<lambda>k. jfield k input) in
      [(is_plain_object (Some input), invalid ''Event must be an object''),
       (f ''version'' = Some (JStr ledger_event_version),
        Ledger_Error UNSUPPORTED_VERSION (''Unsupported event version: '' @ show_value (f ''version''))),
       (str_where (safeId 200) (f ''event_id''), invalid ''event_id must be a safe, bounded identifier''),
       (str_where (\<lambda>s. s \<in> set event_types) (f ''event_type''),
        Ledger_Error UNKNOWN_EVENT_TYPE (''Unknown event type: '' @ show_value (f ''event_type''))),
       (str_where (safeId 100) (f ''tenant_id''), invalid ''tenant_id is required''),
       (str_where (safeId 200) (f ''stream_id''), invalid ''stream_id is required''),
       (actor_ok (f ''actor''), invalid ''actor requires a controlled type and a safe id''),
       (str_where (safeId 200) (f ''correlation_id''), invalid ''correlation_id is required''),
       (opt_safe_id (f ''causation_id''), invalid ''causation_id must be a safe identifier''),
       (opt_safe_id (f ''parent_event_id''), invalid ''parent_event_id must be a safe identifier''),
       (str_where (\<lambda>s. s \<in> set source_components) (f ''source_component''),
        invalid (''Unknown or untrusted source_component: '' @ show_value (f ''source_component''))),
       (f ''occurred_at'' = None \<or> str_where isIsoTimestamp (f ''occurred_at''),
        invalid ''occurred_at must be a valid ISO-8601 UTC timestamp''),
       assertContext ''authority_context'' (f ''authority_context''),
       assertContext ''spec_context'' (f ''spec_context''),
       assertContext ''execution_context'' (f ''execution_context''),
       assertContext ''artifact_context'' (f ''artifact_context''),
       (f ''classification'' = None \<or> str_where (\<lambda>s. s \<in> set classifications) (f ''classification''), invalid ''Unknown classification''),
       (retention_ok (f ''retention''), invalid ''retention metadata is malformed''),
       (f ''payload'' = None \<or> is_plain_object (f ''payload''), invalid ''payload must be an object''),
       (payload_size (f ''payload'') \<le> max_payload_bytes, Ledger_Error PAYLOAD_TOO_LARGE
         (''Payload of '' @ show_nat (payload_size (f ''payload'')) @ '' bytes exceeds the '' @ show_nat max_payload_bytes @ ''-byte limit'')),
       (secret_hit input = None, invalid (''Rejected: '' @ (case secret_hit input of Some r \<Rightarrow> r | None \<Rightarrow> []))),
       assertComplete (the_str (f ''event_type'')) input])"

definition normalized_event :: "json \<Rightarrow> ledger_input" where
  "normalized_event input = (let f = (\<lambda>k. jfield k input) in
     \<lparr>li_version = ledger_event_version, li_event_id = the_str (f ''event_id''), li_event_type = the_str (f ''event_type''),
      li_tenant_id = the_str (f ''tenant_id''), li_stream_id = the_str (f ''stream_id''), li_actor = the (f ''actor''),
      li_correlation_id = the_str (f ''correlation_id''), li_source_component = the_str (f ''source_component''),
      li_causation_id = f ''causation_id'', li_parent_event_id = f ''parent_event_id'',
      li_occurred_at = jstr (f ''occurred_at''), li_authority_context = f ''authority_context'',
      li_spec_context = f ''spec_context'', li_execution_context = f ''execution_context'',
      li_artifact_context = f ''artifact_context'', li_payload = f ''payload'',
      li_classification = jstr (f ''classification''), li_retention = f ''retention''\<rparr>)"

definition validateEventInput :: "json \<Rightarrow> (ledger_error, ledger_input) res" where
  "validateEventInput input = rbind (run_checks (event_checks input)) (\<lambda>_. Inr (normalized_event input))"

section \<open>What is hashed\<close>

record event_hash_core =
  hc_version :: string  hc_tenant_id :: string  hc_stream_id :: string  hc_sequence :: int
  hc_event_id :: string  hc_event_type :: string  hc_occurred_at :: "string option"  hc_actor :: json
  hc_correlation_id :: string  hc_causation_id :: "string option"  hc_parent_event_id :: "string option"
  hc_source_component :: string  hc_authority_context :: "json option"  hc_spec_context :: "json option"
  hc_execution_context :: "json option"  hc_artifact_context :: "json option"
  hc_payload_hash :: string  hc_previous_event_hash :: string

definition core_entries :: "event_hash_core \<Rightarrow> (string \<times> json) list" where
  "core_entries c = [(''version'', JStr (hc_version c)), (''tenant_id'', JStr (hc_tenant_id c)),
     (''stream_id'', JStr (hc_stream_id c)), (''sequence'', jint (hc_sequence c)), (''event_id'', JStr (hc_event_id c)),
     (''event_type'', JStr (hc_event_type c)), (''occurred_at'', opt_json JStr (hc_occurred_at c)), (''actor'', hc_actor c),
     (''correlation_id'', JStr (hc_correlation_id c)), (''causation_id'', opt_json JStr (hc_causation_id c)),
     (''parent_event_id'', opt_json JStr (hc_parent_event_id c)), (''source_component'', JStr (hc_source_component c))]
     @ opt_field ''authority_context'' (hc_authority_context c) @ opt_field ''spec_context'' (hc_spec_context c)
     @ opt_field ''execution_context'' (hc_execution_context c) @ opt_field ''artifact_context'' (hc_artifact_context c)
     @ [(''payload_hash'', JStr (hc_payload_hash c)), (''previous_event_hash'', JStr (hc_previous_event_hash c))]"

definition core_json :: "event_hash_core \<Rightarrow> json" where
  "core_json c = JObj (core_entries c)"

definition computeEventHash :: "(string \<Rightarrow> string) \<Rightarrow> event_hash_core \<Rightarrow> string" where
  "computeEventHash sha c = ledger_hash sha (core_json c)"

definition computePayloadHash :: "(string \<Rightarrow> string) \<Rightarrow> json option \<Rightarrow> string" where
  "computePayloadHash sha p = ledger_hash sha (case p of None \<Rightarrow> JNull | Some j \<Rightarrow> j)"

section \<open>What the digest binds\<close>

lemma map_of_opt_field: "map_of (opt_field k v) k' = (if k' = k then v else None)"
  by (cases v) simp_all

lemma map_fst_opt_field: "map fst (opt_field k v) = (if v = None then [] else [k])"
  by (cases v) simp_all

lemma core_keys_distinct: "distinct (map fst (core_entries c))"
  by (simp add: core_entries_def map_fst_opt_field)

lemma core_lookup:
  "map_of (core_entries c) ''version'' = Some (JStr (hc_version c))"
  "map_of (core_entries c) ''tenant_id'' = Some (JStr (hc_tenant_id c))"
  "map_of (core_entries c) ''stream_id'' = Some (JStr (hc_stream_id c))"
  "map_of (core_entries c) ''sequence'' = Some (jint (hc_sequence c))"
  "map_of (core_entries c) ''event_id'' = Some (JStr (hc_event_id c))"
  "map_of (core_entries c) ''event_type'' = Some (JStr (hc_event_type c))"
  "map_of (core_entries c) ''actor'' = Some (hc_actor c)"
  "map_of (core_entries c) ''correlation_id'' = Some (JStr (hc_correlation_id c))"
  "map_of (core_entries c) ''source_component'' = Some (JStr (hc_source_component c))"
  "map_of (core_entries c) ''occurred_at'' = Some (opt_json JStr (hc_occurred_at c))"
  "map_of (core_entries c) ''causation_id'' = Some (opt_json JStr (hc_causation_id c))"
  "map_of (core_entries c) ''parent_event_id'' = Some (opt_json JStr (hc_parent_event_id c))"
  by (simp_all add: core_entries_def)

lemma core_lookup_late:
  "map_of (core_entries c) ''authority_context'' = hc_authority_context c"
  "map_of (core_entries c) ''spec_context'' = hc_spec_context c"
  "map_of (core_entries c) ''execution_context'' = hc_execution_context c"
  "map_of (core_entries c) ''artifact_context'' = hc_artifact_context c"
  "map_of (core_entries c) ''payload_hash'' = Some (JStr (hc_payload_hash c))"
  "map_of (core_entries c) ''previous_event_hash'' = Some (JStr (hc_previous_event_hash c))"
  by (simp_all add: core_entries_def map_add_def map_of_opt_field split: option.split)

text \<open>The facts an event hash binds: every field of the core but the order of keys inside a context.\<close>

definition core_facts :: "event_hash_core \<Rightarrow> (string list \<times> int \<times> string option list) \<times> json \<times> json option list" where
  "core_facts c = (([hc_version c, hc_tenant_id c, hc_stream_id c, hc_event_id c, hc_event_type c, hc_correlation_id c,
      hc_source_component c, hc_payload_hash c], hc_sequence c,
      [hc_occurred_at c, hc_causation_id c, hc_parent_event_id c]), normal (hc_actor c),
      map (map_option normal) [hc_authority_context c, hc_spec_context c, hc_execution_context c, hc_artifact_context c])"

lemma normal_opt_str [simp]: "normal (opt_json JStr x) = normal (opt_json JStr y) \<longleftrightarrow> x = y"
  by (cases x; cases y) simp_all

lemma core_binds:
  assumes "normal (core_json c) = normal (core_json c')"
  shows "hc_previous_event_hash c = hc_previous_event_hash c' \<and> core_facts c = core_facts c'"
proof -
  have l: "map_option normal (map_of (core_entries c) k) = map_option normal (map_of (core_entries c') k)" for k
    by (rule normal_obj_lookup [OF assms [unfolded core_json_def] core_keys_distinct core_keys_distinct])
  show ?thesis
    using l [of "''version''"] l [of "''tenant_id''"] l [of "''stream_id''"] l [of "''sequence''"] l [of "''event_id''"]
      l [of "''event_type''"] l [of "''actor''"] l [of "''correlation_id''"] l [of "''source_component''"]
      l [of "''authority_context''"] l [of "''spec_context''"] l [of "''execution_context''"] l [of "''artifact_context''"]
      l [of "''occurred_at''"] l [of "''causation_id''"] l [of "''parent_event_id''"] l [of "''payload_hash''"] l [of "''previous_event_hash''"]
    unfolding core_lookup core_lookup_late core_facts_def by simp
qed

lemma validate_Inr:
  assumes "validateEventInput j = Inr i"
  shows "i = normalized_event j" "\<And>c. c \<in> set (event_checks j) \<Longrightarrow> fst c"
  using assms by (auto simp: validateEventInput_def rbind_eq_Inr)

end
