(* ===== verification/Ledger_Store.thy ===== *)
theory Ledger_Store
  imports Ledger_Schema Evidence_Store "HOL-Library.Product_Lexorder"
begin

text \<open>
  \<open>packages/ledger-store\<close> and \<open>packages/ledger-integrity\<close>: the append-only store with one hash chain
  per stream, and its verification. The tables are lists in insertion order; a JSON column holds the
  value whose text the code writes and parses back. The clock reading of an operation is the ISO text \<open>now\<close>.
\<close>

section \<open>Tables\<close>

definition ledger_genesis :: string where
  "ledger_genesis = ''GENESIS''"

datatype integrity_status = VALID | INVALID

record stream_head =
  sh_tenant_id :: string
  sh_stream_id :: string
  sh_latest_sequence :: int
  sh_latest_event_hash :: string
  sh_updated_at :: string
  sh_integrity_status :: integrity_status

record raw_event_row =
  rw_tenant_id :: string
  rw_stream_id :: string
  rw_sequence :: int
  rw_event_id :: string
  rw_event_type :: string
  rw_version :: string
  rw_actor_type :: string
  rw_actor_id :: string
  rw_correlation_id :: string
  rw_causation_id :: "string option"
  rw_parent_event_id :: "string option"
  rw_source_component :: string
  rw_occurred_at :: "string option"
  rw_received_at :: string
  rw_persisted_at :: string
  rw_authority_context :: "json option"
  rw_spec_context :: "json option"
  rw_execution_context :: "json option"
  rw_artifact_context :: "json option"
  rw_classification :: "string option"
  rw_retention :: "json option"
  rw_payload :: "json option"
  rw_payload_hash :: string
  rw_previous_event_hash :: string
  rw_event_hash :: string

record integrity_check =
  ic_tenant_id :: string
  ic_stream_id :: string
  ic_status :: integrity_status
  ic_detail :: string
  ic_checked_at :: string

record ledger_store =
  ls_streams :: "((string \<times> string) \<times> stream_head) list"
  ls_events :: "raw_event_row list"
  ls_checks :: "integrity_check list"

definition ledger_empty :: ledger_store where
  "ledger_empty = \<lparr>ls_streams = [], ls_events = [], ls_checks = []\<rparr>"

definition actor_json :: "string \<Rightarrow> string \<Rightarrow> json" where
  "actor_json t i = JObj [(''type'', JStr t), (''id'', JStr i)]"

definition hashCoreOf :: "raw_event_row \<Rightarrow> event_hash_core" where
  "hashCoreOf r =
     \<lparr>hc_version = rw_version r, hc_tenant_id = rw_tenant_id r, hc_stream_id = rw_stream_id r, hc_sequence = rw_sequence r,
      hc_event_id = rw_event_id r, hc_event_type = rw_event_type r, hc_occurred_at = rw_occurred_at r,
      hc_actor = actor_json (rw_actor_type r) (rw_actor_id r), hc_correlation_id = rw_correlation_id r,
      hc_causation_id = rw_causation_id r, hc_parent_event_id = rw_parent_event_id r,
      hc_source_component = rw_source_component r, hc_authority_context = rw_authority_context r,
      hc_spec_context = rw_spec_context r, hc_execution_context = rw_execution_context r,
      hc_artifact_context = rw_artifact_context r, hc_payload_hash = rw_payload_hash r,
      hc_previous_event_hash = rw_previous_event_hash r\<rparr>"

definition toLedgerEvent :: "raw_event_row \<Rightarrow> ledger_event" where
  "toLedgerEvent r =
     \<lparr>li_version = rw_version r, li_event_id = rw_event_id r, li_event_type = rw_event_type r,
      li_tenant_id = rw_tenant_id r, li_stream_id = rw_stream_id r, li_actor = actor_json (rw_actor_type r) (rw_actor_id r),
      li_correlation_id = rw_correlation_id r, li_source_component = rw_source_component r,
      li_causation_id = map_option JStr (rw_causation_id r), li_parent_event_id = map_option JStr (rw_parent_event_id r),
      li_occurred_at = rw_occurred_at r, li_authority_context = rw_authority_context r, li_spec_context = rw_spec_context r,
      li_execution_context = rw_execution_context r, li_artifact_context = rw_artifact_context r, li_payload = rw_payload r,
      li_classification = rw_classification r, li_retention = rw_retention r,
      lv_sequence = rw_sequence r, lv_received_at = rw_received_at r, lv_persisted_at = rw_persisted_at r,
      lv_payload_hash = rw_payload_hash r, lv_previous_event_hash = rw_previous_event_hash r, lv_event_hash = rw_event_hash r\<rparr>"

section \<open>Reading\<close>

definition streamHead :: "string \<Rightarrow> string \<Rightarrow> ledger_store \<Rightarrow> stream_head option" where
  "streamHead t s st = map_of (ls_streams st) (t, s)"

definition row_by_id :: "string \<Rightarrow> string \<Rightarrow> ledger_store \<Rightarrow> raw_event_row option" where
  "row_by_id t i st = find (\<lambda>r. rw_tenant_id r = t \<and> rw_event_id r = i) (ls_events st)"

definition getByEventId :: "string \<Rightarrow> string \<Rightarrow> ledger_store \<Rightarrow> ledger_event option" where
  "getByEventId t i st = map_option toLedgerEvent (row_by_id t i st)"

definition row_by_sequence :: "string \<Rightarrow> string \<Rightarrow> int \<Rightarrow> ledger_store \<Rightarrow> raw_event_row option" where
  "row_by_sequence t s n st = find (\<lambda>r. rw_tenant_id r = t \<and> rw_stream_id r = s \<and> rw_sequence r = n) (ls_events st)"

definition getBySequence :: "string \<Rightarrow> string \<Rightarrow> int \<Rightarrow> ledger_store \<Rightarrow> ledger_event option" where
  "getBySequence t s n st = map_option toLedgerEvent (row_by_sequence t s n st)"

definition stream_rows :: "string \<Rightarrow> string \<Rightarrow> ledger_store \<Rightarrow> raw_event_row list" where
  "stream_rows t s st = filter (\<lambda>r. rw_tenant_id r = t \<and> rw_stream_id r = s) (ls_events st)"

definition listStream :: "string \<Rightarrow> string \<Rightarrow> ledger_store \<Rightarrow> ledger_event list" where
  "listStream t s st = map toLedgerEvent (sort_key rw_sequence (stream_rows t s st))"

definition listAllStreams :: "ledger_store \<Rightarrow> stream_head list" where
  "listAllStreams st = map snd (ls_streams st)"

definition integrityChecks :: "string \<Rightarrow> ledger_store \<Rightarrow> integrity_check list" where
  "integrityChecks t st = rev (filter (\<lambda>c. ic_tenant_id c = t) (ls_checks st))"

record ledger_filters =
  lf_actorId :: "string option"
  lf_correlationId :: "string option"
  lf_eventType :: "string option"
  lf_streamId :: "string option"
  lf_fromTime :: "string option"
  lf_toTime :: "string option"

definition clause :: "('a \<Rightarrow> bool) \<Rightarrow> 'a option \<Rightarrow> bool" where
  \<comment> \<open>a clause is added when its filter is given\<close>
  "clause p v = (case v of None \<Rightarrow> True | Some x \<Rightarrow> p x)"

definition row_matches :: "string \<Rightarrow> ledger_filters \<Rightarrow> raw_event_row \<Rightarrow> bool" where
  "row_matches t f r = (rw_tenant_id r = t \<and> clause (\<lambda>x. rw_actor_id r = x) (lf_actorId f)
     \<and> clause (\<lambda>x. rw_correlation_id r = x) (lf_correlationId f) \<and> clause (\<lambda>x. rw_event_type r = x) (lf_eventType f)
     \<and> clause (\<lambda>x. rw_stream_id r = x) (lf_streamId f) \<and> clause (\<lambda>x. rw_received_at r \<ge> x) (lf_fromTime f)
     \<and> clause (\<lambda>x. rw_received_at r \<le> x) (lf_toTime f))"

definition query_all :: "string \<Rightarrow> ledger_filters \<Rightarrow> ledger_store \<Rightarrow> ledger_event list" where
  "query_all t f st = map toLedgerEvent (sort_key (\<lambda>r. (rw_received_at r, rw_stream_id r, rw_sequence r, rw_event_id r))
     (filter (row_matches t f) (ls_events st)))"

definition ledger_query :: "string \<Rightarrow> ledger_filters \<Rightarrow> nat \<Rightarrow> nat \<Rightarrow> ledger_store \<Rightarrow> ledger_event list" where
  "ledger_query t f limit offset st = take limit (drop offset (query_all t f st))"

datatype context_column = Authority_Context | Spec_Context | Execution_Context

definition row_context :: "context_column \<Rightarrow> raw_event_row \<Rightarrow> json option" where
  "row_context c r = (case c of Authority_Context \<Rightarrow> rw_authority_context r | Spec_Context \<Rightarrow> rw_spec_context r
     | Execution_Context \<Rightarrow> rw_execution_context r)"

fun strict_equal :: "json \<Rightarrow> json \<Rightarrow> bool" where
  \<comment> \<open>\<open>===\<close>; two parsed objects are never the same object\<close>
  "strict_equal (JNum a) (JNum b) = (num_val a = num_val b)"
| "strict_equal (JObj a) b = False"
| "strict_equal (JArr a) b = False"
| "strict_equal a b = (a = b)"

definition findByContextField :: "string \<Rightarrow> context_column \<Rightarrow> string \<Rightarrow> json \<Rightarrow> string list \<Rightarrow> ledger_store \<Rightarrow> ledger_event list" where
  "findByContextField t c field value types st =
     map toLedgerEvent (filter (\<lambda>r. case ctx_field (row_context c r) field of None \<Rightarrow> False | Some v \<Rightarrow> strict_equal v value)
       (sort_key rw_received_at (filter (\<lambda>r. rw_tenant_id r = t \<and> (types = [] \<or> rw_event_type r \<in> set types)
          \<and> row_context c r \<noteq> None) (ls_events st))))"

section \<open>Writing\<close>

definition markStreamInvalid :: "string \<Rightarrow> string \<Rightarrow> string \<Rightarrow> string \<Rightarrow> ledger_store \<Rightarrow> ledger_store" where
  "markStreamInvalid t s detail now st =
     st\<lparr>ls_streams := map (\<lambda>(k, h). (k, if k = (t, s) then h\<lparr>sh_integrity_status := INVALID\<rparr> else h)) (ls_streams st),
        ls_checks := ls_checks st @ [\<lparr>ic_tenant_id = t, ic_stream_id = s, ic_status = INVALID, ic_detail = detail, ic_checked_at = now\<rparr>]\<rparr>"

definition startup_ok :: "(string \<Rightarrow> string) \<Rightarrow> stream_head \<Rightarrow> ledger_store \<Rightarrow> bool" where
  "startup_ok sha h st = (sh_latest_sequence h = 0 \<or>
     (case row_by_sequence (sh_tenant_id h) (sh_stream_id h) (sh_latest_sequence h) st of None \<Rightarrow> False
      | Some r \<Rightarrow> computeEventHash sha (hashCoreOf r) = sh_latest_event_hash h))"

definition verifyStreamHeadsOnStartup :: "(string \<Rightarrow> string) \<Rightarrow> string \<Rightarrow> ledger_store \<Rightarrow> ledger_store" where
  "verifyStreamHeadsOnStartup sha now st =
     foldl (\<lambda>t h. if startup_ok sha h t then t else markStreamInvalid (sh_tenant_id h) (sh_stream_id h)
         ''Startup verification: stream head does not match last persisted event'' now t)
       st (listAllStreams st)"

definition input_json :: "'a ledger_input_scheme \<Rightarrow> json" where
  "input_json i = JObj ([(''version'', JStr (li_version i)), (''event_id'', JStr (li_event_id i)),
     (''event_type'', JStr (li_event_type i)), (''tenant_id'', JStr (li_tenant_id i)), (''stream_id'', JStr (li_stream_id i)),
     (''actor'', li_actor i), (''correlation_id'', JStr (li_correlation_id i)),
     (''source_component'', JStr (li_source_component i))]
     @ opt_field ''causation_id'' (li_causation_id i) @ opt_field ''parent_event_id'' (li_parent_event_id i)
     @ opt_field ''occurred_at'' (map_option JStr (li_occurred_at i))
     @ opt_field ''authority_context'' (li_authority_context i) @ opt_field ''spec_context'' (li_spec_context i)
     @ opt_field ''execution_context'' (li_execution_context i) @ opt_field ''artifact_context'' (li_artifact_context i)
     @ opt_field ''payload'' (li_payload i) @ opt_field ''classification'' (map_option JStr (li_classification i))
     @ opt_field ''retention'' (li_retention i))"

definition sameCanonicalContent :: "ledger_event \<Rightarrow> ledger_input \<Rightarrow> bool" where
  \<comment> \<open>the store-assigned fields are stripped\<close>
  "sameCanonicalContent existing i = (ledger_canonical (input_json existing) = ledger_canonical (input_json i))"

definition input_core :: "ledger_input \<Rightarrow> int \<Rightarrow> string \<Rightarrow> string \<Rightarrow> event_hash_core" where
  "input_core i n payloadHash previous =
     \<lparr>hc_version = li_version i, hc_tenant_id = li_tenant_id i, hc_stream_id = li_stream_id i, hc_sequence = n,
      hc_event_id = li_event_id i, hc_event_type = li_event_type i, hc_occurred_at = li_occurred_at i,
      hc_actor = li_actor i, hc_correlation_id = li_correlation_id i, hc_causation_id = jstr (li_causation_id i),
      hc_parent_event_id = jstr (li_parent_event_id i), hc_source_component = li_source_component i,
      hc_authority_context = li_authority_context i, hc_spec_context = li_spec_context i,
      hc_execution_context = li_execution_context i, hc_artifact_context = li_artifact_context i,
      hc_payload_hash = payloadHash, hc_previous_event_hash = previous\<rparr>"

definition input_row :: "ledger_input \<Rightarrow> int \<Rightarrow> string \<Rightarrow> string \<Rightarrow> string \<Rightarrow> string \<Rightarrow> raw_event_row" where
  "input_row i n now payloadHash previous eventHash =
     \<lparr>rw_tenant_id = li_tenant_id i, rw_stream_id = li_stream_id i, rw_sequence = n, rw_event_id = li_event_id i,
      rw_event_type = li_event_type i, rw_version = li_version i, rw_actor_type = the_str (ctx_field (Some (li_actor i)) ''type''),
      rw_actor_id = the_str (ctx_field (Some (li_actor i)) ''id''), rw_correlation_id = li_correlation_id i,
      rw_causation_id = jstr (li_causation_id i), rw_parent_event_id = jstr (li_parent_event_id i),
      rw_source_component = li_source_component i, rw_occurred_at = li_occurred_at i, rw_received_at = now, rw_persisted_at = now,
      rw_authority_context = li_authority_context i, rw_spec_context = li_spec_context i,
      rw_execution_context = li_execution_context i, rw_artifact_context = li_artifact_context i,
      rw_classification = li_classification i, rw_retention = li_retention i, rw_payload = li_payload i,
      rw_payload_hash = payloadHash, rw_previous_event_hash = previous, rw_event_hash = eventHash\<rparr>"

definition appended_event :: "ledger_input \<Rightarrow> raw_event_row \<Rightarrow> ledger_event" where
  \<comment> \<open>\<open>{ ...input, sequence, ... }\<close>\<close>
  "appended_event i r = ledger_input.extend i (ledger_event.fields (rw_sequence r) (rw_received_at r) (rw_persisted_at r)
     (rw_payload_hash r) (rw_previous_event_hash r) (rw_event_hash r))"

definition next_row :: "(string \<Rightarrow> string) \<Rightarrow> string \<Rightarrow> ledger_input \<Rightarrow> stream_head option \<Rightarrow> raw_event_row" where
  "next_row sha now i head =
     (let n = (case head of None \<Rightarrow> 0 | Some h \<Rightarrow> sh_latest_sequence h) + 1;
          previous = (case head of None \<Rightarrow> ledger_genesis | Some h \<Rightarrow> sh_latest_event_hash h);
          ph = computePayloadHash sha (li_payload i)
      in input_row i n now ph previous (computeEventHash sha (input_core i n ph previous)))"

definition next_head :: "stream_head option \<Rightarrow> raw_event_row \<Rightarrow> stream_head" where
  \<comment> \<open>the upsert: a new head is VALID, an existing one keeps its status\<close>
  "next_head head r = \<lparr>sh_tenant_id = rw_tenant_id r, sh_stream_id = rw_stream_id r, sh_latest_sequence = rw_sequence r,
     sh_latest_event_hash = rw_event_hash r, sh_updated_at = rw_received_at r,
     sh_integrity_status = (case head of None \<Rightarrow> VALID | Some h \<Rightarrow> sh_integrity_status h)\<rparr>"

definition store_append :: "(string \<Rightarrow> string) \<Rightarrow> string \<Rightarrow> ledger_input \<Rightarrow> ledger_store \<Rightarrow> (ledger_error, ledger_store \<times> ledger_event) res" where
  "store_append sha now i st =
     (case row_by_id (li_tenant_id i) (li_event_id i) st of
        Some existing \<Rightarrow>
          if sameCanonicalContent (toLedgerEvent existing) i then Inr (st, toLedgerEvent existing)
          else Inl (Ledger_Error EVENT_CONFLICT (''event_id '' @ li_event_id i @ '' already exists with different content''))
      | None \<Rightarrow>
          let head = streamHead (li_tenant_id i) (li_stream_id i) st in
          if (case head of None \<Rightarrow> False | Some h \<Rightarrow> sh_integrity_status h = INVALID)
          then Inl (Ledger_Error INTEGRITY_FAILURE
            (''Stream '' @ li_stream_id i @ '' has failed integrity verification; writes are blocked (fail-closed)''))
          else let r = next_row sha now i head in
            if row_by_sequence (li_tenant_id i) (li_stream_id i) (rw_sequence r) st \<noteq> None then Inl Constraint_Error
            else Inr (st\<lparr>ls_events := ls_events st @ [r],
                 ls_streams := al_put (li_tenant_id i, li_stream_id i) (next_head head r) (ls_streams st)\<rparr>,
               appended_event i r))"

section \<open>Integrity\<close>

datatype integrity_failure_reason = SEQUENCE_GAP_OR_DUPLICATE | PREVIOUS_HASH_MISMATCH | PAYLOAD_HASH_MISMATCH
  | EVENT_HASH_MISMATCH | STREAM_HEAD_MISMATCH | STREAM_HEAD_SEQUENCE_MISMATCH | EMPTY_STREAM_WITH_HEAD

record stream_verification =
  sv_valid :: bool
  sv_tenantId :: string
  sv_streamId :: string
  sv_eventsChecked :: nat
  sv_firstInvalidSequence :: "int option"
  sv_reason :: "integrity_failure_reason option"

definition event_core :: "ledger_event \<Rightarrow> event_hash_core" where
  "event_core e = input_core (ledger_input.truncate e) (lv_sequence e) (lv_payload_hash e) (lv_previous_event_hash e)"

definition recomputeEventHash :: "(string \<Rightarrow> string) \<Rightarrow> ledger_event \<Rightarrow> string" where
  "recomputeEventHash sha e = computeEventHash sha (event_core e)"

fun verify_events :: "(string \<Rightarrow> string) \<Rightarrow> string \<Rightarrow> int \<Rightarrow> ledger_event list \<Rightarrow> (int \<times> integrity_failure_reason, string) res" where
  \<comment> \<open>the loop: the first failing event and why, or the hash of the last one\<close>
  "verify_events sha previous expected [] = Inr previous"
| "verify_events sha previous expected (e # es) =
     (if lv_sequence e \<noteq> expected then Inl (lv_sequence e, SEQUENCE_GAP_OR_DUPLICATE)
      else if lv_previous_event_hash e \<noteq> previous then Inl (lv_sequence e, PREVIOUS_HASH_MISMATCH)
      else if computePayloadHash sha (li_payload e) \<noteq> lv_payload_hash e then Inl (lv_sequence e, PAYLOAD_HASH_MISMATCH)
      else if recomputeEventHash sha e \<noteq> lv_event_hash e then Inl (lv_sequence e, EVENT_HASH_MISMATCH)
      else verify_events sha (lv_event_hash e) (expected + 1) es)"

definition reason_name :: "integrity_failure_reason \<Rightarrow> string" where
  "reason_name r = (case r of SEQUENCE_GAP_OR_DUPLICATE \<Rightarrow> ''SEQUENCE_GAP_OR_DUPLICATE''
     | PREVIOUS_HASH_MISMATCH \<Rightarrow> ''PREVIOUS_HASH_MISMATCH'' | PAYLOAD_HASH_MISMATCH \<Rightarrow> ''PAYLOAD_HASH_MISMATCH''
     | EVENT_HASH_MISMATCH \<Rightarrow> ''EVENT_HASH_MISMATCH'' | STREAM_HEAD_MISMATCH \<Rightarrow> ''STREAM_HEAD_MISMATCH''
     | STREAM_HEAD_SEQUENCE_MISMATCH \<Rightarrow> ''STREAM_HEAD_SEQUENCE_MISMATCH'' | EMPTY_STREAM_WITH_HEAD \<Rightarrow> ''EMPTY_STREAM_WITH_HEAD'')"

definition stream_verdict :: "(string \<Rightarrow> string) \<Rightarrow> string \<Rightarrow> string \<Rightarrow> ledger_store
    \<Rightarrow> (int option \<times> integrity_failure_reason \<times> string, unit) res" where
  \<comment> \<open>why a stream is not valid, with the detail the store keeps\<close>
  "stream_verdict sha t s st =
     (let events = listStream t s st in
      case verify_events sha ledger_genesis 1 events of
        Inl (n, r) \<Rightarrow> Inl (Some n, r, reason_name r @ '' at sequence '' @ show_int n)
      | Inr previous \<Rightarrow>
          (case streamHead t s st of None \<Rightarrow> Inr ()
           | Some h \<Rightarrow>
               if events = [] \<and> sh_latest_sequence h \<noteq> 0
               then Inl (None, EMPTY_STREAM_WITH_HEAD, ''Stream head references events that do not exist'')
               else if sh_latest_sequence h \<noteq> int (length events)
               then Inl (None, STREAM_HEAD_SEQUENCE_MISMATCH, ''Stream head sequence does not match persisted event count'')
               else if sh_latest_event_hash h \<noteq> previous
               then Inl (None, STREAM_HEAD_MISMATCH, ''Stream head hash does not match last persisted event'')
               else Inr ()))"

definition verifyStream :: "(string \<Rightarrow> string) \<Rightarrow> string \<Rightarrow> bool \<Rightarrow> string \<Rightarrow> string \<Rightarrow> ledger_store \<Rightarrow> ledger_store \<times> stream_verification" where
  "verifyStream sha now persist t s st =
     (let k = length (listStream t s st) in
      case stream_verdict sha t s st of
        Inr _ \<Rightarrow> (st, \<lparr>sv_valid = True, sv_tenantId = t, sv_streamId = s, sv_eventsChecked = k,
                     sv_firstInvalidSequence = None, sv_reason = None\<rparr>)
      | Inl (n, r, detail) \<Rightarrow>
          ((if persist then markStreamInvalid t s detail now st else st),
           \<lparr>sv_valid = False, sv_tenantId = t, sv_streamId = s, sv_eventsChecked = k,
            sv_firstInvalidSequence = n, sv_reason = Some r\<rparr>))"

record full_verification =
  fv_streamsChecked :: nat
  fv_eventsChecked :: nat
  fv_validStreams :: nat
  fv_invalidStreams :: nat
  fv_firstFailure :: "stream_verification option"

fun verify_streams :: "(string \<Rightarrow> string) \<Rightarrow> string \<Rightarrow> bool \<Rightarrow> stream_head list \<Rightarrow> ledger_store \<Rightarrow> ledger_store \<times> stream_verification list" where
  "verify_streams sha now persist [] st = (st, [])"
| "verify_streams sha now persist (h # hs) st =
     (let (st1, r) = verifyStream sha now persist (sh_tenant_id h) (sh_stream_id h) st;
          (st2, rs) = verify_streams sha now persist hs st1
      in (st2, r # rs))"

definition verifyAll :: "(string \<Rightarrow> string) \<Rightarrow> string \<Rightarrow> bool \<Rightarrow> string option \<Rightarrow> ledger_store \<Rightarrow> ledger_store \<times> full_verification" where
  "verifyAll sha now persist tenant st =
     (let streams = filter (\<lambda>h. clause (\<lambda>t. sh_tenant_id h = t) tenant) (listAllStreams st);
          (st', rs) = verify_streams sha now persist streams st
      in (st', \<lparr>fv_streamsChecked = length streams, fv_eventsChecked = sum_list (map sv_eventsChecked rs),
           fv_validStreams = length (filter sv_valid rs), fv_invalidStreams = length (filter (\<lambda>r. \<not> sv_valid r) rs),
           fv_firstFailure = find (\<lambda>r. \<not> sv_valid r) rs\<rparr>))"

end
