(* ===== verification/Ledger.thy ===== *)
theory Ledger
  imports Ledger_Store Capability
begin

text \<open>
  \<open>packages/ledger-query\<close> and \<open>packages/ledger-core\<close>: the paginated reads, the reconstructions of an
  action, an atom and an improvement generation from events alone, the self-contained export, and
  the facade every caller goes through.
\<close>

section \<open>Pages\<close>

record events_page =
  pg_items :: "ledger_event list"
  pg_nextCursor :: "string option"

text \<open>\<open>Number(text)\<close>: surrounding white space, the empty text, radix prefixes, sign, fraction and exponent.\<close>

definition radix_digit :: "char \<Rightarrow> nat" where
  "radix_digit c = (let n = code_of (to_lower_char c) in if n < 58 then n - 48 else n - 87)"

definition radix_number :: "nat \<Rightarrow> string \<Rightarrow> jnum option" where
  "radix_number b s = (if s \<noteq> [] \<and> list_all (\<lambda>c. is_alnum c \<and> radix_digit c < b) s
     then Some (Dec (foldl (\<lambda>a c. a * int b + int (radix_digit c)) 0 s) 0) else None)"

definition signed_text :: "string \<Rightarrow> bool \<times> string" where
  "signed_text s = (case s of [] \<Rightarrow> (False, []) | c # cs \<Rightarrow>
     if c = CHR ''-'' then (True, cs) else if c = CHR ''+'' then (False, cs) else (False, s))"

definition exponent_of :: "string \<Rightarrow> int option" where
  "exponent_of s = (case s of [] \<Rightarrow> Some 0 | c # cs \<Rightarrow>
     if c \<noteq> CHR ''e'' \<and> c \<noteq> CHR ''E'' then None
     else (let (neg, ds) = signed_text cs in
       if ds = [] \<or> \<not> list_all is_digit ds then None
       else Some (if neg then - int (digits_val ds) else int (digits_val ds))))"

definition decimal_number :: "string \<Rightarrow> jnum option" where
  "decimal_number s =
     (let (neg, u) = signed_text s; ip = takeWhile is_digit u; r = dropWhile is_digit u;
          fp = (if starts_with ''.'' r then takeWhile is_digit (drop 1 r) else []);
          r' = (if starts_with ''.'' r then dropWhile is_digit (drop 1 r) else r);
          m = (if neg then - int (digits_val (ip @ fp)) else int (digits_val (ip @ fp)))
      in if ip @ fp = [] then None
         else (case exponent_of r' of None \<Rightarrow> None
           | Some e \<Rightarrow> Some (if e \<ge> 0 then Dec (m * 10 ^ nat e) (length fp) else Dec m (length fp + nat (- e)))))"

definition js_number :: "string \<Rightarrow> jnum option" where
  "js_number s = (let t = str_trim s in
     if t = [] then Some (Dec 0 0)
     else if starts_with ''0x'' t \<or> starts_with ''0X'' t then radix_number 16 (drop 2 t)
     else if starts_with ''0o'' t \<or> starts_with ''0O'' t then radix_number 8 (drop 2 t)
     else if starts_with ''0b'' t \<or> starts_with ''0B'' t then radix_number 2 (drop 2 t)
     else decimal_number t)"

definition lenient_base64 :: "string \<Rightarrow> string" where
  \<comment> \<open>\<open>Buffer.from(s, 'base64url')\<close> on any text: either alphabet, other characters skipped, \<open>=\<close> ends it\<close>
  "lenient_base64 s = b64_bytes (filter b64_ok (map (\<lambda>c. if c = CHR ''+'' then CHR ''-'' else if c = CHR ''/'' then CHR ''_'' else c)
     (takeWhile (\<lambda>c. c \<noteq> CHR ''='') s)))"

definition encodeCursor :: "nat \<Rightarrow> string" where
  "encodeCursor offset = encode (show_nat offset)"

definition decodeCursor :: "string option \<Rightarrow> (ledger_error, nat) res" where
  "decodeCursor cursor = (case cursor of None \<Rightarrow> Inr 0
     | Some c \<Rightarrow> (case js_number (lenient_base64 c) of
         Some n \<Rightarrow> if is_integer n \<and> 0 \<le> int_of_num n then Inr (nat (int_of_num n)) else Inl (invalid ''Invalid pagination cursor'')
       | None \<Rightarrow> Inl (invalid ''Invalid pagination cursor'')))"

definition boundedLimit :: "jnum option \<Rightarrow> (ledger_error, nat) res" where
  "boundedLimit limit = (let v = (case limit of None \<Rightarrow> Dec default_query_page_size 0 | Some n \<Rightarrow> n) in
     if \<not> is_integer v \<or> int_of_num v \<le> 0 then Inl (invalid ''limit must be a positive integer'')
     else Inr (nat (min (int_of_num v) max_query_page_size)))"

definition ledger_page :: "string \<Rightarrow> ledger_filters \<Rightarrow> jnum option \<Rightarrow> string option \<Rightarrow> ledger_store \<Rightarrow> (ledger_error, events_page) res" where
  "ledger_page t f limit cursor st =
     rbind (boundedLimit limit) (\<lambda>n. rbind (decodeCursor cursor) (\<lambda>offset.
       let rows = ledger_query t f (n + 1) offset st; truncated = length rows > n
       in Inr \<lparr>pg_items = (if truncated then take n rows else rows),
               pg_nextCursor = (if truncated then Some (encodeCursor (offset + n)) else None)\<rparr>))"

definition no_filters :: ledger_filters where
  "no_filters = \<lparr>lf_actorId = None, lf_correlationId = None, lf_eventType = None, lf_streamId = None,
     lf_fromTime = None, lf_toTime = None\<rparr>"

definition getEvent :: "string \<Rightarrow> string \<Rightarrow> ledger_store \<Rightarrow> (ledger_error, ledger_event) res" where
  "getEvent t i st = (case getByEventId t i st of None \<Rightarrow> Inl (Ledger_Error NOT_FOUND (''No event '' @ i)) | Some e \<Rightarrow> Inr e)"

definition getStream :: "string \<Rightarrow> string \<Rightarrow> jnum option \<Rightarrow> string option \<Rightarrow> ledger_store \<Rightarrow> (ledger_error, events_page) res" where
  "getStream t s = ledger_page t (no_filters\<lparr>lf_streamId := Some s\<rparr>)"

definition getEventsByActor :: "string \<Rightarrow> string \<Rightarrow> jnum option \<Rightarrow> string option \<Rightarrow> ledger_store \<Rightarrow> (ledger_error, events_page) res" where
  "getEventsByActor t a = ledger_page t (no_filters\<lparr>lf_actorId := Some a\<rparr>)"

definition getEventsByCorrelation :: "string \<Rightarrow> string \<Rightarrow> jnum option \<Rightarrow> string option \<Rightarrow> ledger_store \<Rightarrow> (ledger_error, events_page) res" where
  "getEventsByCorrelation t c = ledger_page t (no_filters\<lparr>lf_correlationId := Some c\<rparr>)"

definition getEventsByType :: "string \<Rightarrow> string \<Rightarrow> jnum option \<Rightarrow> string option \<Rightarrow> ledger_store \<Rightarrow> (ledger_error, events_page) res" where
  "getEventsByType t y = ledger_page t (no_filters\<lparr>lf_eventType := Some y\<rparr>)"

definition getEventsByTimeRange :: "string \<Rightarrow> string \<Rightarrow> string \<Rightarrow> jnum option \<Rightarrow> string option \<Rightarrow> ledger_store \<Rightarrow> (ledger_error, events_page) res" where
  "getEventsByTimeRange t from until = ledger_page t (no_filters\<lparr>lf_fromTime := Some from, lf_toTime := Some until\<rparr>)"

definition getEventsByDecision :: "string \<Rightarrow> string \<Rightarrow> ledger_store \<Rightarrow> ledger_event list" where
  "getEventsByDecision t i = findByContextField t Authority_Context ''decision_id'' (JStr i) []"

definition getEventsByExecution :: "string \<Rightarrow> string \<Rightarrow> ledger_store \<Rightarrow> ledger_event list" where
  "getEventsByExecution t i = findByContextField t Execution_Context ''execution_id'' (JStr i) []"

definition getEventsByAtom :: "string \<Rightarrow> string \<Rightarrow> ledger_store \<Rightarrow> ledger_event list" where
  "getEventsByAtom t i = findByContextField t Spec_Context ''atom_id'' (JStr i) []"

section \<open>Reconstructions\<close>

record evidence_ref =
  er_eventId :: string
  er_eventType :: string
  er_streamId :: string
  er_sequence :: int

definition evidenceRef :: "ledger_event \<Rightarrow> evidence_ref" where
  "evidenceRef e = \<lparr>er_eventId = li_event_id e, er_eventType = li_event_type e, er_streamId = li_stream_id e,
     er_sequence = lv_sequence e\<rparr>"

definition bounded_events :: "string \<Rightarrow> ledger_filters \<Rightarrow> ledger_store \<Rightarrow> ledger_event list \<times> bool" where
  "bounded_events t f st = (let rows = ledger_query t f (max_reconstruction_events + 1) 0 st;
       truncated = length rows > max_reconstruction_events
     in (if truncated then take max_reconstruction_events rows else rows, truncated))"

definition correlationEvents :: "string \<Rightarrow> string \<Rightarrow> ledger_store \<Rightarrow> ledger_event list \<times> bool" where
  "correlationEvents t c st = bounded_events t (no_filters\<lparr>lf_correlationId := Some c\<rparr>) st"

definition of_type :: "string list \<Rightarrow> ledger_event \<Rightarrow> bool" where
  "of_type ts e = (li_event_type e \<in> set ts)"

fun without :: "string \<Rightarrow> string \<Rightarrow> string" where
  \<comment> \<open>\<open>text.replace(p, '')\<close>: the first occurrence\<close>
  "without p [] = []"
| "without p (c # cs) = (if starts_with p (c # cs) then drop (length p) (c # cs) else c # without p cs)"

definition event_actor :: "ledger_event \<Rightarrow> string \<times> string" where
  "event_actor e = (the_str (jfield ''type'' (li_actor e)), the_str (jfield ''id'' (li_actor e)))"

definition nullish :: "json option \<Rightarrow> json option" where
  \<comment> \<open>\<open>value ?? null\<close>\<close>
  "nullish v = (if v = Some JNull then None else v)"

definition or_else :: "json option \<Rightarrow> json option \<Rightarrow> json option" where
  "or_else a b = (if nullish a = None then nullish b else nullish a)"

definition auth_of :: "ledger_event option \<Rightarrow> string \<Rightarrow> json option" where
  "auth_of e k = ctx_field (Option.bind e li_authority_context) k"

definition spec_of :: "ledger_event option \<Rightarrow> string \<Rightarrow> json option" where
  "spec_of e k = ctx_field (Option.bind e li_spec_context) k"

definition exec_of :: "ledger_event option \<Rightarrow> string \<Rightarrow> json option" where
  "exec_of e k = ctx_field (Option.bind e li_execution_context) k"

record gate_reconstruction =
  gr_correlationId :: string
  gr_truncated :: bool
  gr_who :: "(string \<times> string) option"
  gr_authorizedUnder :: "(json \<times> json) option"
  gr_what :: "json option"
  gr_tool :: "json option"
  gr_resource :: "json option"
  gr_approval :: "(string \<times> string) option"
  gr_capability :: "json option"
  gr_execution :: "json option"
  gr_outcome :: string
  gr_evidence :: "evidence_ref list"

definition execution_outcomes :: "string list" where
  "execution_outcomes = [''EXECUTION_SUCCEEDED'', ''EXECUTION_FAILED'', ''EXECUTION_TERMINATED'', ''EXECUTION_INDETERMINATE'']"

definition when_truthy :: "json option \<Rightarrow> json option" where
  "when_truthy v = (if truthy v then v else None)"

definition reconstructGateAction :: "string \<Rightarrow> string \<Rightarrow> ledger_store \<Rightarrow> gate_reconstruction" where
  "reconstructGateAction t c st =
     (let (events, truncated) = correlationEvents t c st;
          allowed = find (of_type [''AUTHORIZATION_ALLOWED'']) events;
          approved = find (of_type [''APPROVAL_GRANTED'']) events;
          capability = find (of_type [''CAPABILITY_ISSUED'']) events;
          execution = find (of_type [''EXECUTION_STARTED'']) events;
          outcome = find_last (of_type execution_outcomes) events
      in \<lparr>gr_correlationId = c, gr_truncated = truncated, gr_who = map_option event_actor allowed,
          gr_authorizedUnder = (if truthy (auth_of allowed ''decision_id'') \<and> truthy (auth_of allowed ''policy_hash'')
            then Some (the (auth_of allowed ''decision_id''), the (auth_of allowed ''policy_hash'')) else None),
          gr_what = nullish (auth_of allowed ''action''),
          gr_tool = or_else (auth_of allowed ''tool'') (auth_of capability ''tool''),
          gr_resource = or_else (auth_of allowed ''resource'') (auth_of capability ''resource''),
          gr_approval = map_option event_actor approved,
          gr_capability = when_truthy (auth_of capability ''capability_id''),
          gr_execution = when_truthy (exec_of execution ''execution_id''),
          gr_outcome = (case outcome of None \<Rightarrow> ''UNKNOWN'' | Some e \<Rightarrow> without ''EXECUTION_'' (li_event_type e)),
          gr_evidence = map evidenceRef events\<rparr>)"

record atom_reconstruction =
  vr_correlationId :: string
  vr_truncated :: bool
  vr_atom :: "(json \<times> json) option"
  vr_attempts :: "(string \<times> json option \<times> int) list"
  vr_validation :: "bool option"
  vr_verification :: "json option"
  vr_humanDecision :: "(json \<times> string) option"
  vr_finalState :: string
  vr_evidence :: "evidence_ref list"

definition atom_outcomes :: "string list" where
  "atom_outcomes = [''ATOM_ACCEPTED'', ''ATOM_REJECTED'', ''ATOM_ESCALATED'']"

definition reconstructVadAtom :: "string \<Rightarrow> string \<Rightarrow> ledger_store \<Rightarrow> atom_reconstruction" where
  "reconstructVadAtom t c st =
     (let (events, truncated) = correlationEvents t c st;
          created = find (of_type [''ATOM_CREATED'']) events;
          attempts = map (\<lambda>e. (li_event_type e, nullish (spec_of (Some e) ''attempt_number''), lv_sequence e))
            (filter (of_type [''ATOM_ATTEMPT_STARTED'', ''ATOM_ATTEMPT_FAILED'']) events);
          passed = find (of_type [''ATOM_VALIDATION_PASSED'']) events;
          failed = find_last (of_type [''ATOM_VALIDATION_FAILED'']) events;
          verification = find_last (of_type [''ATOM_VERIFICATION_ACCEPTED'', ''ATOM_VERIFICATION_REJECTED'']) events;
          human = find_last (of_type [''ATOM_HUMAN_DECISION'']) events;
          final = find_last (of_type atom_outcomes) events
      in \<lparr>vr_correlationId = c, vr_truncated = truncated,
          vr_atom = (if truthy (spec_of created ''atom_id'') \<and> truthy (spec_of created ''spec_hash'')
            then Some (the (spec_of created ''atom_id''), the (spec_of created ''spec_hash'')) else None),
          vr_attempts = attempts,
          vr_validation = (if passed \<noteq> None then Some True else if failed \<noteq> None then Some False else None),
          vr_verification = when_truthy (spec_of verification ''verifier_verdict''),
          vr_humanDecision = (if truthy (spec_of human ''human_decision'')
            then Some (the (spec_of human ''human_decision''), snd (event_actor (the human))) else None),
          vr_finalState = (case final of None \<Rightarrow> ''UNKNOWN'' | Some e \<Rightarrow> without ''ATOM_'' (li_event_type e)),
          vr_evidence = map evidenceRef events\<rparr>)"

record generation_reconstruction =
  ir_correlationId :: string
  ir_generationId :: string
  ir_parentGenerationId :: "json option"
  ir_truncated :: bool
  ir_proposed :: bool
  ir_authorized :: bool
  ir_built :: bool
  ir_evaluated :: "json option"
  ir_capabilityDeltaDetected :: bool
  ir_capabilityDelta :: "json option"
  ir_authorityExpansion :: "string option"
  ir_finalState :: string
  ir_evidence :: "evidence_ref list"

definition improvement_final_event_types :: "string list" where
  "improvement_final_event_types = [''IMPROVEMENT_PROMOTED'', ''IMPROVEMENT_REJECTED'', ''IMPROVEMENT_ROLLED_BACK'',
     ''IMPROVEMENT_INDETERMINATE'', ''RECURSION_BUDGET_EXHAUSTED'']"

definition improvement_expansion_event_types :: "string list" where
  "improvement_expansion_event_types = [''AUTHORITY_EXPANSION_REQUESTED'', ''AUTHORITY_EXPANSION_APPROVED'',
     ''AUTHORITY_EXPANSION_REJECTED'']"

definition improvement_final_state :: "string \<Rightarrow> string" where
  "improvement_final_state t = (let u = without ''IMPROVEMENT_'' t in
     if u = ''RECURSION_BUDGET_EXHAUSTED'' then ''BUDGET_EXHAUSTED'' else u)"

definition reconstructImprovementGeneration :: "string \<Rightarrow> string \<Rightarrow> ledger_store \<Rightarrow> generation_reconstruction" where
  "reconstructImprovementGeneration t g st =
     (let (events, truncated) = bounded_events t (no_filters\<lparr>lf_streamId := Some (''improvement:'' @ g)\<rparr>) st;
          proposed = find (of_type [''IMPROVEMENT_PROPOSED'']) events;
          evaluated = find_last (of_type [''IMPROVEMENT_EVALUATED'']) events;
          delta = find_last (of_type [''CAPABILITY_DELTA_DETECTED'']) events;
          expansion = find_last (of_type improvement_expansion_event_types) events;
          final = find_last (of_type improvement_final_event_types) events
      in \<lparr>ir_correlationId = (case events of [] \<Rightarrow> g | e # _ \<Rightarrow> li_correlation_id e), ir_generationId = g,
          ir_parentGenerationId = nullish (ctx_field (Option.bind proposed li_payload) ''parent_generation_id''),
          ir_truncated = truncated, ir_proposed = (proposed \<noteq> None),
          ir_authorized = list_ex (of_type [''IMPROVEMENT_AUTHORIZED'']) events,
          ir_built = list_ex (of_type [''IMPROVEMENT_BUILT'']) events,
          ir_evaluated = Option.bind evaluated li_payload,
          ir_capabilityDeltaDetected = (delta \<noteq> None), ir_capabilityDelta = Option.bind delta li_payload,
          ir_authorityExpansion = map_option (\<lambda>e. without ''AUTHORITY_EXPANSION_'' (li_event_type e)) expansion,
          ir_finalState = (case final of None \<Rightarrow> ''UNKNOWN'' | Some e \<Rightarrow> improvement_final_state (li_event_type e)),
          ir_evidence = map evidenceRef events\<rparr>)"

record lineage_node =
  ln_generationId :: string
  ln_parentGenerationId :: "json option"
  ln_finalState :: string

definition lineage_node_of :: "string \<Rightarrow> ledger_store \<Rightarrow> string \<Rightarrow> lineage_node" where
  "lineage_node_of t st g = (let r = reconstructImprovementGeneration t g st in
     \<lparr>ln_generationId = g, ln_parentGenerationId = ir_parentGenerationId r, ln_finalState = ir_finalState r\<rparr>)"

definition reconstructImprovementLineage :: "string \<Rightarrow> string list \<Rightarrow> ledger_store \<Rightarrow> lineage_node list \<times> string list" where
  "reconstructImprovementLineage t gs st =
     (let nodes = map (lineage_node_of t st) gs in
      (nodes, map ln_generationId (filter (\<lambda>n. case ln_parentGenerationId n of None \<Rightarrow> True
         | Some p \<Rightarrow> p \<notin> JStr ` set gs) nodes)))"

section \<open>Export\<close>

record export_bundle =
  xb_version :: string
  xb_tenantId :: string
  xb_correlationId :: string
  xb_exportedAt :: string
  xb_events :: "ledger_event list"
  xb_streamHeads :: "stream_head list"
  xb_verification :: "(string \<times> bool) list"
  xb_exportHash :: string

definition status_name :: "integrity_status \<Rightarrow> string" where
  "status_name s = (case s of VALID \<Rightarrow> ''VALID'' | INVALID \<Rightarrow> ''INVALID'')"

definition event_json :: "ledger_event \<Rightarrow> json" where
  "event_json e = (case input_json e of JObj kvs \<Rightarrow> JObj (kvs @
     [(''sequence'', jint (lv_sequence e)), (''received_at'', JStr (lv_received_at e)), (''persisted_at'', JStr (lv_persisted_at e)),
      (''payload_hash'', JStr (lv_payload_hash e)), (''previous_event_hash'', JStr (lv_previous_event_hash e)),
      (''event_hash'', JStr (lv_event_hash e))]) | j \<Rightarrow> j)"

definition head_json :: "stream_head \<Rightarrow> json" where
  "head_json h = JObj [(''tenant_id'', JStr (sh_tenant_id h)), (''stream_id'', JStr (sh_stream_id h)),
     (''latest_sequence'', jint (sh_latest_sequence h)), (''latest_event_hash'', JStr (sh_latest_event_hash h)),
     (''updated_at'', JStr (sh_updated_at h)), (''integrity_status'', JStr (status_name (sh_integrity_status h)))]"

definition bundle_json :: "export_bundle \<Rightarrow> json" where
  \<comment> \<open>the bundle without its hash\<close>
  "bundle_json b = JObj [(''version'', JStr (xb_version b)), (''tenantId'', JStr (xb_tenantId b)),
     (''correlationId'', JStr (xb_correlationId b)), (''exportedAt'', JStr (xb_exportedAt b)),
     (''events'', JArr (map event_json (xb_events b))), (''streamHeads'', JArr (map head_json (xb_streamHeads b))),
     (''verification'', JArr (map (\<lambda>(s, v). JObj [(''streamId'', JStr s), (''valid'', JBool v)]) (xb_verification b)))]"

definition exportEvidence :: "(string \<Rightarrow> string) \<Rightarrow> string \<Rightarrow> string \<Rightarrow> string \<Rightarrow> ledger_store \<Rightarrow> export_bundle" where
  "exportEvidence sha now t c st =
     (let rows = ledger_query t (no_filters\<lparr>lf_correlationId := Some c\<rparr>) max_export_events 0 st;
          streamIds = sort (remdups (map li_stream_id rows));
          b = \<lparr>xb_version = ''1.0'', xb_tenantId = t, xb_correlationId = c, xb_exportedAt = now, xb_events = rows,
               xb_streamHeads = List.map_filter (\<lambda>s. streamHead t s st) streamIds,
               xb_verification = map (\<lambda>s. (s, sv_valid (snd (verifyStream sha now False t s st)))) streamIds,
               xb_exportHash = []\<rparr>
      in b\<lparr>xb_exportHash := ledger_hash sha (bundle_json b)\<rparr>)"

fun verify_bundle_events :: "(string \<Rightarrow> string) \<Rightarrow> (string \<Rightarrow> ledger_event option) \<Rightarrow> ledger_event list \<Rightarrow> (string, unit) res" where
  "verify_bundle_events sha seen [] = Inr ()"
| "verify_bundle_events sha seen (e # es) =
     (if (case seen (li_stream_id e) of None \<Rightarrow> False
          | Some p \<Rightarrow> lv_sequence p + 1 = lv_sequence e \<and> lv_previous_event_hash e \<noteq> lv_event_hash p)
      then Inl ''CHAIN_BROKEN''
      else if computePayloadHash sha (li_payload e) \<noteq> lv_payload_hash e then Inl ''PAYLOAD_HASH_MISMATCH''
      else if recomputeEventHash sha e \<noteq> lv_event_hash e then Inl ''EVENT_HASH_MISMATCH''
      else verify_bundle_events sha (seen(li_stream_id e \<mapsto> e)) es)"

definition verifyExportedBundle :: "(string \<Rightarrow> string) \<Rightarrow> export_bundle \<Rightarrow> (string, unit) res" where
  "verifyExportedBundle sha b =
     (if ledger_hash sha (bundle_json b) \<noteq> xb_exportHash b then Inl ''EXPORT_HASH_MISMATCH''
      else verify_bundle_events sha Map.empty (sort_key (\<lambda>e. (li_stream_id e, lv_sequence e)) (xb_events b)))"

section \<open>The facade\<close>

datatype ledger_role = Writer | Reader | Admin_Role

record ledger_principal =
  pr_id :: string
  pr_role :: ledger_role
  pr_tenantId :: string
  pr_allowedSourceComponents :: "string list"

definition writerPrincipal :: "string \<Rightarrow> string \<Rightarrow> string list \<Rightarrow> ledger_principal" where
  "writerPrincipal i t cs = \<lparr>pr_id = i, pr_role = Writer, pr_tenantId = t, pr_allowedSourceComponents = cs\<rparr>"

definition readerPrincipal :: "string \<Rightarrow> string \<Rightarrow> ledger_principal" where
  "readerPrincipal i t = \<lparr>pr_id = i, pr_role = Reader, pr_tenantId = t, pr_allowedSourceComponents = []\<rparr>"

definition adminPrincipal :: "string \<Rightarrow> string \<Rightarrow> ledger_principal" where
  "adminPrincipal i t = \<lparr>pr_id = i, pr_role = Admin_Role, pr_tenantId = t, pr_allowedSourceComponents = []\<rparr>"

definition forbidden :: "string \<Rightarrow> ledger_error" where
  "forbidden m = Ledger_Error FORBIDDEN m"

definition assertCanWrite :: "ledger_principal \<Rightarrow> ledger_input \<Rightarrow> (ledger_error, unit) res" where
  "assertCanWrite p i = run_checks
     [(pr_role p = Writer, forbidden (''Principal '' @ pr_id p @ '' does not hold write authority'')),
      (pr_tenantId p = li_tenant_id i, forbidden (''Principal '' @ pr_id p @ '' is not authorized for tenant '' @ li_tenant_id i)),
      (li_source_component i \<in> set (pr_allowedSourceComponents p),
       forbidden (''Principal '' @ pr_id p @ '' is not bound to source_component '' @ quote (li_source_component i)))]"

definition assertCanRead :: "ledger_principal \<Rightarrow> (ledger_error, unit) res" where
  "assertCanRead p = (if pr_role p \<noteq> Reader \<and> pr_role p \<noteq> Admin_Role
     then Inl (forbidden (''Principal '' @ pr_id p @ '' does not hold read authority'')) else Inr ())"

definition assertIsAdmin :: "ledger_principal \<Rightarrow> (ledger_error, unit) res" where
  "assertIsAdmin p = (if pr_role p \<noteq> Admin_Role
     then Inl (forbidden (''Principal '' @ pr_id p @ '' does not hold admin authority'')) else Inr ())"

definition has_prior :: "string \<Rightarrow> context_column \<Rightarrow> string \<Rightarrow> json option \<Rightarrow> string \<Rightarrow> ledger_store \<Rightarrow> bool" where
  \<comment> \<open>an event of the type with that context field, when the field is given at all\<close>
  "has_prior t c field v ty st = (truthy v \<longrightarrow> findByContextField t c field (the v) [ty] st \<noteq> [])"

definition assertInvariants :: "ledger_input \<Rightarrow> ledger_store \<Rightarrow> (ledger_error, unit) res" where
  "assertInvariants i st =
     (let ty = li_event_type i; t = li_tenant_id i; orphan = (\<lambda>m. Ledger_Error ORPHAN_EVENT m) in
      if ty = ''CAPABILITY_REDEEMED'' then run_checks
        [(has_prior t Authority_Context ''capability_id'' (ctx_field (li_authority_context i) ''capability_id'') ''CAPABILITY_ISSUED'' st,
          orphan ''CAPABILITY_REDEEMED has no prior CAPABILITY_ISSUED for this capability_id'')]
      else if ty \<in> set execution_outcomes then run_checks
        [(has_prior t Execution_Context ''execution_id'' (ctx_field (li_execution_context i) ''execution_id'') ''EXECUTION_STARTED'' st,
          orphan (ty @ '' has no prior EXECUTION_STARTED for this execution_id''))]
      else if ty = ''ATOM_ACCEPTED'' then
        (let v = ctx_field (li_spec_context i) ''atom_id'' in run_checks
        [(has_prior t Spec_Context ''atom_id'' v ''ATOM_VERIFICATION_ACCEPTED'' st \<and> has_prior t Spec_Context ''atom_id'' v ''ATOM_HUMAN_DECISION'' st,
          orphan ''ATOM_ACCEPTED requires a prior ATOM_VERIFICATION_ACCEPTED and ATOM_HUMAN_DECISION for this atom_id'')])
      else if ty = ''AGENT_REVOKED'' then run_checks
        [(has_prior t Authority_Context ''agent_id'' (ctx_field (li_authority_context i) ''agent_id'') ''AGENT_REGISTERED'' st,
          orphan ''AGENT_REVOKED references an unknown agent_id'')]
      else Inr ())"

definition ledger_append :: "(string \<Rightarrow> string) \<Rightarrow> string \<Rightarrow> ledger_principal \<Rightarrow> json \<Rightarrow> ledger_store
    \<Rightarrow> (ledger_error, ledger_store \<times> ledger_event) res" where
  "ledger_append sha now p raw st =
     rbind (validateEventInput raw) (\<lambda>i. rbind (assertCanWrite p i) (\<lambda>_. rbind (assertInvariants i st) (\<lambda>_. store_append sha now i st)))"

definition readable :: "ledger_principal \<Rightarrow> (string \<Rightarrow> (ledger_error, 'a) res) \<Rightarrow> (ledger_error, 'a) res" where
  \<comment> \<open>every read of the facade: the role check, then the query on the principal's own tenant\<close>
  "readable p q = rbind (assertCanRead p) (\<lambda>_. q (pr_tenantId p))"

definition ledger_getEvent :: "ledger_principal \<Rightarrow> string \<Rightarrow> ledger_store \<Rightarrow> (ledger_error, ledger_event) res" where
  "ledger_getEvent p i st = readable p (\<lambda>t. getEvent t i st)"

definition ledger_getStream :: "ledger_principal \<Rightarrow> string \<Rightarrow> jnum option \<Rightarrow> string option \<Rightarrow> ledger_store \<Rightarrow> (ledger_error, events_page) res" where
  "ledger_getStream p s limit cursor st = readable p (\<lambda>t. getStream t s limit cursor st)"

definition ledger_getEventsByActor :: "ledger_principal \<Rightarrow> string \<Rightarrow> jnum option \<Rightarrow> string option \<Rightarrow> ledger_store \<Rightarrow> (ledger_error, events_page) res" where
  "ledger_getEventsByActor p a limit cursor st = readable p (\<lambda>t. getEventsByActor t a limit cursor st)"

definition ledger_getEventsByCorrelation :: "ledger_principal \<Rightarrow> string \<Rightarrow> jnum option \<Rightarrow> string option \<Rightarrow> ledger_store \<Rightarrow> (ledger_error, events_page) res" where
  "ledger_getEventsByCorrelation p c limit cursor st = readable p (\<lambda>t. getEventsByCorrelation t c limit cursor st)"

definition ledger_getEventsByType :: "ledger_principal \<Rightarrow> string \<Rightarrow> jnum option \<Rightarrow> string option \<Rightarrow> ledger_store \<Rightarrow> (ledger_error, events_page) res" where
  "ledger_getEventsByType p y limit cursor st = readable p (\<lambda>t. getEventsByType t y limit cursor st)"

definition ledger_getEventsByTimeRange :: "ledger_principal \<Rightarrow> string \<Rightarrow> string \<Rightarrow> jnum option \<Rightarrow> string option \<Rightarrow> ledger_store
    \<Rightarrow> (ledger_error, events_page) res" where
  "ledger_getEventsByTimeRange p from until limit cursor st = readable p (\<lambda>t. getEventsByTimeRange t from until limit cursor st)"

definition ledger_getEventsByDecision :: "ledger_principal \<Rightarrow> string \<Rightarrow> ledger_store \<Rightarrow> (ledger_error, ledger_event list) res" where
  "ledger_getEventsByDecision p i st = readable p (\<lambda>t. Inr (getEventsByDecision t i st))"

definition ledger_getEventsByExecution :: "ledger_principal \<Rightarrow> string \<Rightarrow> ledger_store \<Rightarrow> (ledger_error, ledger_event list) res" where
  "ledger_getEventsByExecution p i st = readable p (\<lambda>t. Inr (getEventsByExecution t i st))"

definition ledger_getEventsByAtom :: "ledger_principal \<Rightarrow> string \<Rightarrow> ledger_store \<Rightarrow> (ledger_error, ledger_event list) res" where
  "ledger_getEventsByAtom p i st = readable p (\<lambda>t. Inr (getEventsByAtom t i st))"

definition ledger_search :: "ledger_principal \<Rightarrow> ledger_filters \<Rightarrow> jnum option \<Rightarrow> string option \<Rightarrow> ledger_store \<Rightarrow> (ledger_error, events_page) res" where
  "ledger_search p f limit cursor st = readable p (\<lambda>t. ledger_page t f limit cursor st)"

definition ledger_verifyStream :: "(string \<Rightarrow> string) \<Rightarrow> string \<Rightarrow> ledger_principal \<Rightarrow> string \<Rightarrow> ledger_store
    \<Rightarrow> (ledger_error, ledger_store \<times> stream_verification) res" where
  "ledger_verifyStream sha now p s st = readable p (\<lambda>t. Inr (verifyStream sha now True t s st))"

definition ledger_verifyAll :: "(string \<Rightarrow> string) \<Rightarrow> string \<Rightarrow> ledger_principal \<Rightarrow> ledger_store
    \<Rightarrow> (ledger_error, ledger_store \<times> full_verification) res" where
  "ledger_verifyAll sha now p st = rbind (assertIsAdmin p) (\<lambda>_. Inr (verifyAll sha now True (Some (pr_tenantId p)) st))"

definition ledger_reconstructGateAction :: "ledger_principal \<Rightarrow> string \<Rightarrow> ledger_store \<Rightarrow> (ledger_error, gate_reconstruction) res" where
  "ledger_reconstructGateAction p c st = readable p (\<lambda>t. Inr (reconstructGateAction t c st))"

definition ledger_reconstructVadAtom :: "ledger_principal \<Rightarrow> string \<Rightarrow> ledger_store \<Rightarrow> (ledger_error, atom_reconstruction) res" where
  "ledger_reconstructVadAtom p c st = readable p (\<lambda>t. Inr (reconstructVadAtom t c st))"

definition ledger_exportEvidence :: "(string \<Rightarrow> string) \<Rightarrow> string \<Rightarrow> ledger_principal \<Rightarrow> string \<Rightarrow> ledger_store \<Rightarrow> (ledger_error, export_bundle) res" where
  "ledger_exportEvidence sha now p c st = readable p (\<lambda>t. Inr (exportEvidence sha now t c st))"

definition ledger_verifyExportedBundle :: "(string \<Rightarrow> string) \<Rightarrow> ledger_principal \<Rightarrow> export_bundle
    \<Rightarrow> (ledger_error, (string, unit) res) res" where
  "ledger_verifyExportedBundle sha p b = readable p (\<lambda>_. Inr (verifyExportedBundle sha b))"

end
