(* ===== verification/Ledger_Integrity.thy ===== *)
theory Ledger_Integrity
  imports Ledger
begin

text \<open>
  What the ledger keeps: every stream is one hash chain numbered from 1 whose head the store records,
  rows are only ever added, and an event that claims to follow another one does.
\<close>

section \<open>Rows and events\<close>

lemma jstr_map_JStr [simp]: "jstr (map_option JStr x) = x"
  by (cases x) simp_all

lemma event_core_row: "event_core (toLedgerEvent r) = hashCoreOf r"
  by (simp add: event_core_def toLedgerEvent_def hashCoreOf_def input_core_def ledger_input.defs)

lemma row_event_fields [simp]:
  "lv_sequence (toLedgerEvent r) = rw_sequence r" "lv_previous_event_hash (toLedgerEvent r) = rw_previous_event_hash r"
  "lv_event_hash (toLedgerEvent r) = rw_event_hash r" "lv_payload_hash (toLedgerEvent r) = rw_payload_hash r"
  "li_payload (toLedgerEvent r) = rw_payload r" "li_stream_id (toLedgerEvent r) = rw_stream_id r"
  "li_event_type (toLedgerEvent r) = rw_event_type r" "li_tenant_id (toLedgerEvent r) = rw_tenant_id r"
  by (simp_all add: toLedgerEvent_def)

abbreviation ledger_content :: "raw_event_row \<Rightarrow> json" where
  "ledger_content r \<equiv> core_json (hashCoreOf r)"

text \<open>The ledger's chains are hash chains: the interface of the evidence store, a second time.\<close>

interpretation ledger: hash_chain sha "\<lambda>r. core_json (hashCoreOf r)" rw_previous_event_hash rw_event_hash
  "\<lambda>r. core_facts (hashCoreOf r)" for sha
proof
  fix r r' assume "normal (core_json (hashCoreOf r)) = normal (core_json (hashCoreOf r'))"
  moreover have "hc_previous_event_hash (hashCoreOf x) = rw_previous_event_hash x" for x
    by (simp add: hashCoreOf_def)
  ultimately show "rw_previous_event_hash r = rw_previous_event_hash r' \<and> core_facts (hashCoreOf r) = core_facts (hashCoreOf r')"
    using core_binds by metis
qed

definition payload_bound :: "(string \<Rightarrow> string) \<Rightarrow> raw_event_row \<Rightarrow> bool" where
  "payload_bound sha r = (rw_payload_hash r = computePayloadHash sha (rw_payload r))"

fun numbered :: "int \<Rightarrow> raw_event_row list \<Rightarrow> bool" where
  "numbered n [] = True"
| "numbered n (r # rs) = (rw_sequence r = n \<and> numbered (n + 1) rs)"

lemma numbered_append: "numbered n (as @ bs) \<longleftrightarrow> numbered n as \<and> numbered (n + int (length as)) bs"
  by (induction as arbitrary: n) (auto simp: algebra_simps)

lemma numbered_ge: "numbered n rs \<Longrightarrow> r \<in> set rs \<Longrightarrow> n \<le> rw_sequence r \<and> rw_sequence r < n + int (length rs)"
  by (induction rs arbitrary: n) fastforce+

lemma numbered_sorted: "numbered n rs \<Longrightarrow> sorted (map rw_sequence rs)"
proof (induction rs arbitrary: n)
  case (Cons r rs)
  then show ?case using numbered_ge [of "n + 1" rs] by fastforce
qed simp

lemma numbered_sort: "numbered n rs \<Longrightarrow> sort_key rw_sequence rs = rs"
  using numbered_sorted by (simp add: sort_key_id_if_sorted)

lemma verify_events_rows:
  "verify_events sha p n (map toLedgerEvent rs) = Inr q \<longleftrightarrow>
     numbered n rs \<and> chain_from sha ledger_content rw_previous_event_hash rw_event_hash p rs
       \<and> (\<forall>r \<in> set rs. payload_bound sha r) \<and> q = head_from rw_event_hash p rs"
proof (induction rs arbitrary: p n)
  case (Cons r rs)
  show ?case
    by (auto simp: Cons recomputeEventHash_def event_core_row computeEventHash_def ledger_hash_def payload_bound_def)
qed auto

section \<open>The invariant\<close>

definition stream_inv :: "(string \<Rightarrow> string) \<Rightarrow> raw_event_row list \<Rightarrow> stream_head option \<Rightarrow> bool" where
  "stream_inv sha rs head = (numbered 1 rs
     \<and> chain_from sha ledger_content rw_previous_event_hash rw_event_hash ledger_genesis rs
     \<and> (\<forall>r \<in> set rs. payload_bound sha r)
     \<and> (case head of None \<Rightarrow> rs = []
        | Some h \<Rightarrow> sh_latest_sequence h = int (length rs) \<and> sh_latest_event_hash h = head_from rw_event_hash ledger_genesis rs))"

definition ledger_inv :: "(string \<Rightarrow> string) \<Rightarrow> ledger_store \<Rightarrow> bool" where
  "ledger_inv sha st = (\<forall>t s. stream_inv sha (stream_rows t s st) (streamHead t s st))"

lemma ledger_inv_valid:
  assumes "ledger_inv sha st"
  shows "stream_verdict sha t s st = Inr ()"
proof -
  let ?rs = "stream_rows t s st"
  have inv: "stream_inv sha ?rs (streamHead t s st)" using assms by (simp add: ledger_inv_def)
  then have n: "numbered 1 ?rs" by (simp add: stream_inv_def)
  have "verify_events sha ledger_genesis 1 (map toLedgerEvent ?rs) = Inr (head_from rw_event_hash ledger_genesis ?rs)"
    using inv unfolding verify_events_rows stream_inv_def by blast
  then show ?thesis
    using inv unfolding stream_verdict_def listStream_def numbered_sort [OF n]
    by (cases "streamHead t s st") (simp_all add: stream_inv_def Let_def)
qed

section \<open>Appending\<close>

definition plain_actor :: "json \<Rightarrow> bool" where
  \<comment> \<open>the actor has no key beside \<open>type\<close> and \<open>id\<close>, which is all a row keeps of it\<close>
  "plain_actor a = (normal a = normal (actor_json (the_str (jfield ''type'' a)) (the_str (jfield ''id'' a))))"

lemma canonical_core_actor:
  assumes "canonical a = canonical (hc_actor c)"
  shows "canonical (core_json (c\<lparr>hc_actor := a\<rparr>)) = canonical (core_json c)"
  using assms by (simp add: core_json_def core_entries_def)

lemma next_row_hash:
  assumes "plain_actor (li_actor i)"
  shows "rw_event_hash (next_row sha now i head) = hash_json sha (ledger_content (next_row sha now i head))"
proof -
  let ?r = "next_row sha now i head"
  let ?c = "input_core i (rw_sequence ?r) (rw_payload_hash ?r) (rw_previous_event_hash ?r)"
  have core: "hashCoreOf ?r = ?c\<lparr>hc_actor := actor_json (rw_actor_type ?r) (rw_actor_id ?r)\<rparr>"
    by (simp add: hashCoreOf_def next_row_def input_row_def input_core_def Let_def)
  have act: "rw_actor_type ?r = the_str (jfield ''type'' (li_actor i))" "rw_actor_id ?r = the_str (jfield ''id'' (li_actor i))"
    by (simp_all add: next_row_def input_row_def Let_def ctx_field_def)
  have "canonical (actor_json (rw_actor_type ?r) (rw_actor_id ?r)) = canonical (hc_actor ?c)"
    using assms unfolding plain_actor_def act canonical_eq_iff by (simp add: input_core_def)
  then have "canonical (ledger_content ?r) = canonical (core_json ?c)"
    unfolding core by (rule canonical_core_actor)
  moreover have "rw_event_hash ?r = computeEventHash sha ?c"
    by (simp add: next_row_def input_row_def Let_def)
  ultimately show ?thesis
    by (simp add: computeEventHash_def ledger_hash_def hash_json_def)
qed

lemma next_row_fields:
  "rw_tenant_id (next_row sha now i head) = li_tenant_id i" "rw_stream_id (next_row sha now i head) = li_stream_id i"
  "rw_event_id (next_row sha now i head) = li_event_id i" "rw_event_type (next_row sha now i head) = li_event_type i"
  "payload_bound sha (next_row sha now i head)"
  "rw_sequence (next_row sha now i head) = (case head of None \<Rightarrow> 0 | Some h \<Rightarrow> sh_latest_sequence h) + 1"
  "rw_previous_event_hash (next_row sha now i head) = (case head of None \<Rightarrow> ledger_genesis | Some h \<Rightarrow> sh_latest_event_hash h)"
  "rw_authority_context (next_row sha now i head) = li_authority_context i"
  "rw_spec_context (next_row sha now i head) = li_spec_context i"
  "rw_execution_context (next_row sha now i head) = li_execution_context i"
  by (simp_all add: next_row_def input_row_def Let_def payload_bound_def)

lemma stream_inv_append:
  assumes "stream_inv sha rs head" "plain_actor (li_actor i)"
  shows "stream_inv sha (rs @ [next_row sha now i head]) (Some (next_head head (next_row sha now i head)))"
proof -
  let ?r = "next_row sha now i head"
  have seq: "rw_sequence ?r = int (length rs) + 1" "rw_previous_event_hash ?r = head_from rw_event_hash ledger_genesis rs"
    using assms(1) by (auto simp: stream_inv_def next_row_fields split: option.splits)
  then show ?thesis
    using assms next_row_hash [OF assms(2)] next_row_fields(5)
    by (simp add: stream_inv_def numbered_append chain_from_append next_head_def)
qed

text \<open>The two successful branches of an append.\<close>

lemma store_append_cases:
  assumes "store_append sha now i st = Inr (st', e)"
  obtains (again) existing where "row_by_id (li_tenant_id i) (li_event_id i) st = Some existing" "st' = st"
      "e = toLedgerEvent existing" "sameCanonicalContent (toLedgerEvent existing) i"
  | (fresh) head where "row_by_id (li_tenant_id i) (li_event_id i) st = None"
      "head = streamHead (li_tenant_id i) (li_stream_id i) st" "\<And>h. head = Some h \<Longrightarrow> sh_integrity_status h = VALID"
      "ls_events st' = ls_events st @ [next_row sha now i head]"
      "ls_streams st' = al_put (li_tenant_id i, li_stream_id i) (next_head head (next_row sha now i head)) (ls_streams st)"
      "e = appended_event i (next_row sha now i head)"
proof (cases "row_by_id (li_tenant_id i) (li_event_id i) st")
  case (Some existing)
  then show ?thesis using assms again by (auto simp: store_append_def split: if_splits)
next
  case None
  let ?head = "streamHead (li_tenant_id i) (li_stream_id i) st"
  have ok: "\<not> (case ?head of None \<Rightarrow> False | Some h \<Rightarrow> sh_integrity_status h = INVALID)"
    using assms None by (auto simp: store_append_def Let_def split: if_splits)
  then have v: "sh_integrity_status h = VALID" if "?head = Some h" for h
    using that by (cases "sh_integrity_status h") simp_all
  show ?thesis
    using assms None ok by (intro fresh [of ?head] v) (auto simp: store_append_def Let_def split: if_splits)
qed

lemma stream_rows_snoc:
  "ls_events st' = ls_events st @ [r] \<Longrightarrow> stream_rows t s st' =
     (if rw_tenant_id r = t \<and> rw_stream_id r = s then stream_rows t s st @ [r] else stream_rows t s st)"
  by (simp add: stream_rows_def)

lemma ledger_inv_append:
  assumes inv: "ledger_inv sha st" and a: "store_append sha now i st = Inr (st', e)" and pl: "plain_actor (li_actor i)"
  shows "ledger_inv sha st'"
  using a
proof (cases rule: store_append_cases)
  case (fresh head)
  let ?r = "next_row sha now i head"
  show ?thesis
    unfolding ledger_inv_def
  proof (intro allI)
    fix t s
    have old: "stream_inv sha (stream_rows t s st) (streamHead t s st)"
      using inv by (simp add: ledger_inv_def)
    show "stream_inv sha (stream_rows t s st') (streamHead t s st')"
    proof (cases "t = li_tenant_id i \<and> s = li_stream_id i")
      case True
      then show ?thesis
        using stream_inv_append [OF old pl, of now] fresh(2,4,5)
        by (simp add: stream_rows_snoc [OF fresh(4)] next_row_fields streamHead_def)
    next
      case False
      then have "stream_rows t s st' = stream_rows t s st" "streamHead t s st' = streamHead t s st"
        using fresh(5) by (auto simp: stream_rows_snoc [OF fresh(4)] next_row_fields streamHead_def)
      with old show ?thesis by simp
    qed
  qed
qed (use inv in simp)

lemma map_of_map_keyed: "map_of (map (\<lambda>(k, v). (k, f k v)) xs) k = map_option (f k) (map_of xs k)"
  by (induction xs) auto

lemma mark_fields [simp]:
  "ls_events (markStreamInvalid t s d now st) = ls_events st"
  "stream_rows t' s' (markStreamInvalid t s d now st) = stream_rows t' s' st"
  "streamHead t' s' (markStreamInvalid t s d now st)
     = map_option (\<lambda>h. if (t', s') = (t, s) then h\<lparr>sh_integrity_status := INVALID\<rparr> else h) (streamHead t' s' st)"
  by (simp_all add: markStreamInvalid_def stream_rows_def streamHead_def
      map_of_map_keyed [where f = "\<lambda>k h. if k = (t, s) then h\<lparr>sh_integrity_status := INVALID\<rparr> else h"])

lemma ledger_inv_mark: "ledger_inv sha st \<Longrightarrow> ledger_inv sha (markStreamInvalid t s d now st)"
proof -
  assume "ledger_inv sha st"
  moreover have "stream_inv sha rs (map_option (\<lambda>h. if c then h\<lparr>sh_integrity_status := INVALID\<rparr> else h) head) = stream_inv sha rs head"
    for rs head c
    by (cases head) (simp_all add: stream_inv_def)
  ultimately show ?thesis by (simp add: ledger_inv_def)
qed

lemma verifyStream_preserves:
  assumes "Q st" "\<And>d. Q (markStreamInvalid t s d now st)"
  shows "Q (fst (verifyStream sha now persist t s st))"
  using assms by (auto simp: verifyStream_def Let_def split: sum.split)

lemma startup_induct:
  assumes "Q st" "\<And>u t s d. Q u \<Longrightarrow> Q (markStreamInvalid t s d now u)"
  shows "Q (verifyStreamHeadsOnStartup sha now st)"
proof -
  have "Q (foldl (\<lambda>t h. if startup_ok sha h t then t else markStreamInvalid (sh_tenant_id h) (sh_stream_id h)
         ''Startup verification: stream head does not match last persisted event'' now t) u hs)" if "Q u" for u hs
    using that by (induction hs arbitrary: u) (simp_all add: assms(2))
  with assms(1) show ?thesis by (simp add: verifyStreamHeadsOnStartup_def)
qed

section \<open>Runs\<close>

text \<open>Appends through the facade, verifications and restarts, in any order; \<open>P\<close> restricts what is submitted.\<close>

inductive ledger_run :: "(string \<Rightarrow> string) \<Rightarrow> (json \<Rightarrow> bool) \<Rightarrow> ledger_store \<Rightarrow> ledger_store \<Rightarrow> bool"
  for sha P where
  ledger_refl: "ledger_run sha P s s"
| ledger_step: "ledger_run sha P s t \<Longrightarrow> P raw \<Longrightarrow> ledger_append sha now p raw t = Inr (u, e) \<Longrightarrow> ledger_run sha P s u"
| ledger_check: "ledger_run sha P s t \<Longrightarrow> ledger_run sha P s (fst (verifyStream sha now persist tenant stream t))"
| ledger_restart: "ledger_run sha P s t \<Longrightarrow> ledger_run sha P s (verifyStreamHeadsOnStartup sha now t)"

lemma ledger_append_Inr:
  assumes "ledger_append sha now p raw st = Inr (st', e)"
  shows "validateEventInput raw = Inr (normalized_event raw)" "assertCanWrite p (normalized_event raw) = Inr ()"
    "assertInvariants (normalized_event raw) st = Inr ()" "store_append sha now (normalized_event raw) st = Inr (st', e)"
  using assms validate_Inr(1) [of raw] by (auto simp: ledger_append_def rbind_eq_Inr simp del: run_checks_ok)

definition plain_event :: "json \<Rightarrow> bool" where
  "plain_event raw = plain_actor (the (jfield ''actor'' raw))"

lemma ledger_inv_run:
  "ledger_run sha P s t \<Longrightarrow> (\<And>raw. P raw \<Longrightarrow> plain_event raw) \<Longrightarrow> ledger_inv sha s \<Longrightarrow> ledger_inv sha t"
proof (induction rule: ledger_run.induct)
  case (ledger_step s t raw now p u e)
  then show ?case
    using ledger_inv_append [OF _ ledger_append_Inr(4)] by (simp add: plain_event_def normalized_event_def Let_def)
next
  case (ledger_check s t now persist tenant stream)
  then show ?case by - (rule verifyStream_preserves [where Q = "ledger_inv sha"], simp_all add: ledger_inv_mark)
next
  case (ledger_restart s t now)
  then show ?case by - (rule startup_induct [where Q = "ledger_inv sha"], simp_all add: ledger_inv_mark)
qed

lemma ledger_inv_empty: "ledger_inv sha ledger_empty"
  by (simp add: ledger_inv_def stream_inv_def stream_rows_def streamHead_def ledger_empty_def)

text \<open>Rows are only added.\<close>

lemma ledger_run_extends: "ledger_run sha P s t \<Longrightarrow> \<exists>rs. ls_events t = ls_events s @ rs"
proof (induction rule: ledger_run.induct)
  case (ledger_step s t raw now p u e)
  from ledger_append_Inr(4) [OF ledger_step.hyps(3)] ledger_step.IH show ?case
    by (cases rule: store_append_cases) auto
next
  case (ledger_check s t now persist tenant stream)
  then show ?case by - (rule verifyStream_preserves [where Q = "\<lambda>u. \<exists>rs. ls_events u = ls_events s @ rs"], simp_all)
next
  case (ledger_restart s t now)
  then show ?case by - (rule startup_induct [where Q = "\<lambda>u. \<exists>rs. ls_events u = ls_events s @ rs"], simp_all)
qed simp

text \<open>A stream marked INVALID takes no further row.\<close>

definition stream_frozen :: "string \<Rightarrow> string \<Rightarrow> raw_event_row list \<Rightarrow> ledger_store \<Rightarrow> bool" where
  "stream_frozen t s rs st = ((\<exists>h. streamHead t s st = Some h \<and> sh_integrity_status h = INVALID) \<and> stream_rows t s st = rs)"

lemma frozen_mark: "stream_frozen t s rs u \<Longrightarrow> stream_frozen t s rs (markStreamInvalid t' s' d now u)"
  by (cases "(t, s) = (t', s')") (auto simp: stream_frozen_def)

lemma frozen_run: "ledger_run sha P s0 st \<Longrightarrow> stream_frozen t s rs s0 \<Longrightarrow> stream_frozen t s rs st"
proof (induction rule: ledger_run.induct)
  case (ledger_step a b raw now p u e)
  let ?i = "normalized_event raw"
  have fz: "stream_frozen t s rs b" using ledger_step by simp
  from ledger_append_Inr(4) [OF ledger_step.hyps(3)] show ?case
  proof (cases rule: store_append_cases)
    case (fresh head)
    have other: "\<not> (li_tenant_id ?i = t \<and> li_stream_id ?i = s)"
      using fresh(2,3) fz by (auto simp: stream_frozen_def)
    then have "streamHead t s u = streamHead t s b"
      using fresh(5) by (auto simp: streamHead_def)
    moreover have "stream_rows t s u = stream_rows t s b"
      using other by (simp add: stream_rows_snoc [OF fresh(4)] next_row_fields)
    ultimately show ?thesis using fz by (simp add: stream_frozen_def)
  qed (use fz in simp)
next
  case (ledger_check a b now persist tenant stream)
  then show ?case by - (rule verifyStream_preserves [where Q = "stream_frozen t s rs"], simp_all add: frozen_mark)
next
  case (ledger_restart a b now)
  then show ?case by - (rule startup_induct [where Q = "stream_frozen t s rs"], simp_all add: frozen_mark)
qed simp

end
