(* ===== verification/Ledger_Properties.thy ===== *)
theory Ledger_Properties
  imports Ledger_Integrity
begin

text \<open>
  The properties of the ledger, each with a concrete instance: chains that verify, no orphan events,
  idempotent retries, complete pages, exports that verify on their own.
\<close>

section \<open>Looking up by context\<close>

lemma find_by_context:
  "findByContextField t c field v types st \<noteq> [] \<longleftrightarrow> (\<exists>r \<in> set (ls_events st). rw_tenant_id r = t
     \<and> (types = [] \<or> rw_event_type r \<in> set types)
     \<and> (\<exists>x. ctx_field (row_context c r) field = Some x \<and> strict_equal x v))"
proof -
  have "row_context c r \<noteq> None" if "ctx_field (row_context c r) field = Some x" for r x
    using that by (cases "row_context c r") (simp_all add: ctx_field_def)
  then show ?thesis
    by (auto simp: findByContextField_def filter_empty_conv split: option.splits)
qed

definition prior_row :: "raw_event_row list \<Rightarrow> string \<Rightarrow> context_column \<Rightarrow> string \<Rightarrow> json option \<Rightarrow> string \<Rightarrow> bool" where
  \<comment> \<open>some row of the tenant has the type and the same context field\<close>
  "prior_row rs t c field v ty = (\<exists>r \<in> set rs. rw_tenant_id r = t \<and> rw_event_type r = ty
     \<and> (\<exists>x. ctx_field (row_context c r) field = Some x \<and> strict_equal x (the v)))"

lemma has_prior_row: "has_prior t c field v ty st \<longleftrightarrow> (truthy v \<longrightarrow> prior_row (ls_events st) t c field v ty)"
  by (auto simp: has_prior_def find_by_context prior_row_def)

text \<open>What a row needs before it.\<close>

definition supported :: "raw_event_row list \<Rightarrow> raw_event_row \<Rightarrow> bool" where
  "supported before r = (let t = rw_tenant_id r; ty = rw_event_type r in
     (ty = ''CAPABILITY_REDEEMED'' \<longrightarrow> prior_row before t Authority_Context ''capability_id''
        (ctx_field (rw_authority_context r) ''capability_id'') ''CAPABILITY_ISSUED'')
     \<and> (ty \<in> set execution_outcomes \<longrightarrow> prior_row before t Execution_Context ''execution_id''
        (ctx_field (rw_execution_context r) ''execution_id'') ''EXECUTION_STARTED'')
     \<and> (ty = ''ATOM_ACCEPTED'' \<longrightarrow> prior_row before t Spec_Context ''atom_id'' (ctx_field (rw_spec_context r) ''atom_id'') ''ATOM_VERIFICATION_ACCEPTED''
        \<and> prior_row before t Spec_Context ''atom_id'' (ctx_field (rw_spec_context r) ''atom_id'') ''ATOM_HUMAN_DECISION'')
     \<and> (ty = ''AGENT_REVOKED'' \<longrightarrow> prior_row before t Authority_Context ''agent_id''
        (ctx_field (rw_authority_context r) ''agent_id'') ''AGENT_REGISTERED''))"

lemma assertComplete_truthy:
  assumes "validateEventInput raw = Inr i"
  shows "li_event_type i = ''CAPABILITY_REDEEMED'' \<Longrightarrow> truthy (ctx_field (li_authority_context i) ''capability_id'')"
    "li_event_type i \<in> set execution_outcomes \<Longrightarrow> truthy (ctx_field (li_execution_context i) ''execution_id'')"
    "li_event_type i = ''ATOM_ACCEPTED'' \<Longrightarrow> truthy (ctx_field (li_spec_context i) ''atom_id'')"
    "li_event_type i = ''AGENT_REVOKED'' \<Longrightarrow> truthy (ctx_field (li_authority_context i) ''agent_id'')"
proof -
  note v = validate_Inr [OF assms]
  have "assertComplete (the_str (jfield ''event_type'' raw)) raw \<in> set (event_checks raw)"
    by (simp add: event_checks_def Let_def)
  then have c: "fst (assertComplete (li_event_type i) raw)"
    using v by (simp add: normalized_event_def Let_def)
  have f: "li_authority_context i = jfield ''authority_context'' raw" "li_spec_context i = jfield ''spec_context'' raw"
    "li_execution_context i = jfield ''execution_context'' raw"
    by (simp_all add: v(1) normalized_event_def Let_def)
  show "li_event_type i = ''CAPABILITY_REDEEMED'' \<Longrightarrow> truthy (ctx_field (li_authority_context i) ''capability_id'')"
    using c by (simp add: assertComplete_def Let_def requires_def f)
  show "li_event_type i \<in> set execution_outcomes \<Longrightarrow> truthy (ctx_field (li_execution_context i) ''execution_id'')"
    using c by (auto simp: assertComplete_def Let_def requires_def f execution_outcomes_def)
  show "li_event_type i = ''ATOM_ACCEPTED'' \<Longrightarrow> truthy (ctx_field (li_spec_context i) ''atom_id'')"
    using c by (simp add: assertComplete_def Let_def requires_def f)
  show "li_event_type i = ''AGENT_REVOKED'' \<Longrightarrow> truthy (ctx_field (li_authority_context i) ''agent_id'')"
    using c by (simp add: assertComplete_def Let_def requires_def f)
qed

lemma append_supported:
  assumes "ledger_append sha now p raw st = Inr (st', e)" "head = streamHead (li_tenant_id i) (li_stream_id i) st"
    "i = normalized_event raw"
  shows "supported (ls_events st) (next_row sha now i head)"
proof -
  note a = ledger_append_Inr [OF assms(1), folded assms(3)]
  note c = assertComplete_truthy [OF a(1)]
  show ?thesis
    unfolding supported_def Let_def next_row_fields
  proof (intro conjI impI)
    assume t: "li_event_type i = ''CAPABILITY_REDEEMED''"
    show "prior_row (ls_events st) (li_tenant_id i) Authority_Context ''capability_id''
        (ctx_field (li_authority_context i) ''capability_id'') ''CAPABILITY_ISSUED''"
      using a(3) c(1) [OF t] t by (simp add: assertInvariants_def Let_def has_prior_row split: if_splits)
  next
    assume t: "li_event_type i \<in> set execution_outcomes"
    then have "li_event_type i \<noteq> ''CAPABILITY_REDEEMED''" by (auto simp: execution_outcomes_def)
    then show "prior_row (ls_events st) (li_tenant_id i) Execution_Context ''execution_id''
        (ctx_field (li_execution_context i) ''execution_id'') ''EXECUTION_STARTED''"
      using a(3) c(2) [OF t] t by (simp add: assertInvariants_def Let_def has_prior_row split: if_splits)
  next
    assume t: "li_event_type i = ''ATOM_ACCEPTED''"
    show "prior_row (ls_events st) (li_tenant_id i) Spec_Context ''atom_id'' (ctx_field (li_spec_context i) ''atom_id'')
        ''ATOM_VERIFICATION_ACCEPTED''"
      "prior_row (ls_events st) (li_tenant_id i) Spec_Context ''atom_id'' (ctx_field (li_spec_context i) ''atom_id'')
        ''ATOM_HUMAN_DECISION''"
      using a(3) c(3) [OF t] t by (simp_all add: assertInvariants_def Let_def has_prior_row execution_outcomes_def split: if_splits)
  next
    assume t: "li_event_type i = ''AGENT_REVOKED''"
    show "prior_row (ls_events st) (li_tenant_id i) Authority_Context ''agent_id''
        (ctx_field (li_authority_context i) ''agent_id'') ''AGENT_REGISTERED''"
      using a(3) c(4) [OF t] t by (simp add: assertInvariants_def Let_def has_prior_row execution_outcomes_def split: if_splits)
  qed
qed

fun all_supported :: "raw_event_row list \<Rightarrow> raw_event_row list \<Rightarrow> bool" where
  "all_supported before [] = True"
| "all_supported before (r # rs) = (supported before r \<and> all_supported (before @ [r]) rs)"

lemma all_supported_snoc:
  "all_supported before (rs @ [r]) \<longleftrightarrow> all_supported before rs \<and> supported (before @ rs) r"
  by (induction rs arbitrary: before) simp_all

lemma all_supportedD: "all_supported before (as @ r # bs) \<Longrightarrow> supported (before @ as) r"
proof (induction as arbitrary: before)
  case (Cons a as)
  then show ?case using Cons.IH [of "before @ [a]"] by simp
qed simp

lemma supported_run: "ledger_run sha P s t \<Longrightarrow> all_supported [] (ls_events s) \<Longrightarrow> all_supported [] (ls_events t)"
proof (induction rule: ledger_run.induct)
  case (ledger_step s t raw now p u e)
  from ledger_append_Inr(4) [OF ledger_step.hyps(3)] show ?case
  proof (cases rule: store_append_cases)
    case (fresh head)
    then show ?thesis
      using ledger_step append_supported [OF ledger_step.hyps(3) fresh(2) refl] by (simp add: all_supported_snoc)
  qed (use ledger_step in simp)
next
  case (ledger_check s t now persist tenant stream)
  then show ?case
    by - (rule verifyStream_preserves [where Q = "\<lambda>u. all_supported [] (ls_events u)"], simp_all)
next
  case (ledger_restart s t now)
  then show ?case
    by - (rule startup_induct [where Q = "\<lambda>u. all_supported [] (ls_events u)"], simp_all)
qed simp

section \<open>Retries\<close>

lemma canonical_input_row:
  assumes "plain_actor (li_actor i)" "li_causation_id i = map_option JStr (jstr (li_causation_id i))"
    "li_parent_event_id i = map_option JStr (jstr (li_parent_event_id i))"
  shows "sameCanonicalContent (toLedgerEvent (next_row sha now i head)) i"
proof -
  have "canonical (li_actor i) = canonical (actor_json (the_str (jfield ''type'' (li_actor i))) (the_str (jfield ''id'' (li_actor i))))"
    using assms(1) by (simp add: plain_actor_def canonical_eq_iff)
  then show ?thesis
    using assms(2,3)
    by (simp add: sameCanonicalContent_def ledger_canonical_def input_json_def toLedgerEvent_def next_row_def input_row_def
        Let_def ctx_field_def)
qed

lemma opt_safe_id_JStr: "opt_safe_id v \<Longrightarrow> v \<noteq> Some JNull \<Longrightarrow> v = map_option JStr (jstr v)"
  by (auto simp: opt_safe_id_def str_where_def split: option.splits json.splits)

lemma validated_ids:
  assumes "validateEventInput raw = Inr i"
  shows "opt_safe_id (li_causation_id i)" "opt_safe_id (li_parent_event_id i)"
proof -
  note v = validate_Inr [OF assms]
  have "fst (opt_safe_id (jfield ''causation_id'' raw), invalid ''causation_id must be a safe identifier'')"
    "fst (opt_safe_id (jfield ''parent_event_id'' raw), invalid ''parent_event_id must be a safe identifier'')"
    by (rule v(2), simp add: event_checks_def Let_def)+
  then show "opt_safe_id (li_causation_id i)" "opt_safe_id (li_parent_event_id i)"
    by (simp_all add: v(1) normalized_event_def Let_def)
qed

lemma row_by_id_snoc:
  "row_by_id t i st = None \<Longrightarrow> ls_events st' = ls_events st @ [r] \<Longrightarrow> rw_tenant_id r = t \<Longrightarrow> rw_event_id r = i \<Longrightarrow>
     row_by_id t i st' = Some r"
  unfolding row_by_id_def by (simp add: find_append)

lemma assertInvariants_mono:
  assumes "assertInvariants i st = Inr ()" "set (ls_events st) \<subseteq> set (ls_events st')"
  shows "assertInvariants i st' = Inr ()"
proof -
  have "has_prior t c f v ty st \<Longrightarrow> has_prior t c f v ty st'" for t c f v ty
    using assms(2) unfolding has_prior_row prior_row_def by blast
  then show ?thesis
    using assms(1) by (auto simp: assertInvariants_def Let_def split: if_splits)
qed

lemma ledger_append_steps:
  assumes "validateEventInput raw = Inr i" "assertCanWrite p i = Inr ()" "assertInvariants i st = Inr ()"
  shows "ledger_append sha now p raw st = store_append sha now i st"
  using assms by (simp add: ledger_append_def del: run_checks_ok)

lemma row_by_id_Some: "row_by_id t i st = Some r \<Longrightarrow> r \<in> set (ls_events st) \<and> rw_tenant_id r = t \<and> rw_event_id r = i"
  unfolding row_by_id_def by (drule find_SomeD) simp

section \<open>Pages\<close>

lemma show_nat_cons: "\<exists>c cs. show_nat n = c # cs \<and> is_digit c \<and> list_all is_digit cs"
  using show_nat_digits [of n] by (cases "show_nat n") auto

lemma digit_facts: "is_digit c \<Longrightarrow> \<not> is_space c \<and> c \<noteq> CHR ''x'' \<and> c \<noteq> CHR ''X'' \<and> c \<noteq> CHR ''o'' \<and> c \<noteq> CHR ''O''
    \<and> c \<noteq> CHR ''b'' \<and> c \<noteq> CHR ''B'' \<and> c \<noteq> CHR ''-'' \<and> c \<noteq> CHR ''+''"
  by (auto simp: char_class_defs)

lemma dropWhile_space_digits: "list_all is_digit ds \<Longrightarrow> dropWhile is_space ds = ds"
  by (cases ds) (simp_all add: digit_facts)

lemma str_trim_digits: "list_all is_digit ds \<Longrightarrow> str_trim ds = ds"
  by (simp add: str_trim_def dropWhile_space_digits)

lemma js_number_show_nat: "js_number (show_nat n) = Some (Dec (int n) 0)"
proof -
  obtain c cs where s: "show_nat n = c # cs" "is_digit c" "list_all is_digit cs"
    using show_nat_cons by blast
  have all: "list_all is_digit (show_nat n)" by (rule show_nat_digits)
  have tk: "takeWhile is_digit (show_nat n) = show_nat n" "dropWhile is_digit (show_nat n) = []"
    using all by (simp_all add: takeWhile_eq_all_conv dropWhile_eq_Nil_conv list_all_iff)
  have p: "\<not> starts_with [CHR ''0'', x] (show_nat n)" if "x \<in> {CHR ''x'', CHR ''X'', CHR ''o'', CHR ''O'', CHR ''b'', CHR ''B''}" for x
    using s that digit_facts by (cases cs) (auto simp: starts_with_def)
  have sg: "signed_text (show_nat n) = (False, show_nat n)"
    using s digit_facts [of c] by (simp add: signed_text_def)
  have "decimal_number (show_nat n) = Some (Dec (int n) 0)"
    unfolding decimal_number_def sg Let_def prod.case tk by (simp add: starts_with_def exponent_of_def)
  then show ?thesis
    using p by (simp add: js_number_def str_trim_digits [OF all] Let_def)
qed

lemma lenient_encode: "lenient_base64 (encode s) = s"
proof -
  have ok: "b64_ok c" if "c \<in> set (encode s)" for c
    using that encode_chars [of s] by (simp add: list_all_iff)
  have ne: "c \<noteq> CHR ''='' \<and> c \<noteq> CHR ''+'' \<and> c \<noteq> CHR ''/''" if "c \<in> set (encode s)" for c
    using ok [OF that] by (auto simp: b64_ok_def char_class_defs)
  have "takeWhile (\<lambda>c. c \<noteq> CHR ''='') (encode s) = encode s"
    using ne by (simp add: takeWhile_eq_all_conv)
  moreover have "map (\<lambda>c. if c = CHR ''+'' then CHR ''-'' else if c = CHR ''/'' then CHR ''_'' else c) (encode s) = encode s"
    using ne by (intro map_idI) auto
  moreover have "filter b64_ok (encode s) = encode s"
    using ok by (simp add: filter_id_conv)
  ultimately show ?thesis
    by (simp only: lenient_base64_def b64_bytes_encode)
qed

lemma decode_encode_cursor: "decodeCursor (Some (encodeCursor n)) = Inr n"
  by (simp add: decodeCursor_def encodeCursor_def lenient_encode js_number_show_nat is_integer_def int_of_num_def norm_num_def)

text \<open>A client that follows the cursors.\<close>

fun read_pages :: "nat \<Rightarrow> string \<Rightarrow> ledger_filters \<Rightarrow> jnum option \<Rightarrow> string option \<Rightarrow> ledger_store \<Rightarrow> ledger_event list option" where
  "read_pages 0 t f limit cursor st = None"
| "read_pages (Suc k) t f limit cursor st =
     (case ledger_page t f limit cursor st of Inl _ \<Rightarrow> None
      | Inr p \<Rightarrow> (case pg_nextCursor p of None \<Rightarrow> Some (pg_items p)
          | Some c \<Rightarrow> map_option (\<lambda>rest. pg_items p @ rest) (read_pages k t f limit (Some c) st)))"

lemma boundedLimit_pos: "boundedLimit limit = Inr n \<Longrightarrow> 0 < n \<and> int n \<le> max_query_page_size"
  by (auto simp: boundedLimit_def Let_def max_query_page_size_def split: if_splits)

lemma ledger_page_at:
  assumes "boundedLimit limit = Inr n" "decodeCursor cursor = Inr off"
  shows "ledger_page t f limit cursor st = Inr
    (if length (query_all t f st) > off + n
     then \<lparr>pg_items = take n (drop off (query_all t f st)), pg_nextCursor = Some (encodeCursor (off + n))\<rparr>
     else \<lparr>pg_items = drop off (query_all t f st), pg_nextCursor = None\<rparr>)"
  using assms by (auto simp: ledger_page_def ledger_query_def Let_def min_def)

lemma read_pages_from:
  assumes "boundedLimit limit = Inr n"
  shows "decodeCursor cursor = Inr off \<Longrightarrow> length (query_all t f st) < off + k \<Longrightarrow>
    read_pages k t f limit cursor st = Some (drop off (query_all t f st)) \<or> k = 0"
proof (induction k arbitrary: cursor off)
  case (Suc k)
  let ?all = "query_all t f st"
  have n: "0 < n" using boundedLimit_pos [OF assms] by simp
  show ?case
  proof (cases "length ?all > off + n")
    case True
    then have k: "length ?all < (off + n) + k" "k \<noteq> 0"
      using Suc.prems(2) n by linarith+
    have "read_pages k t f limit (Some (encodeCursor (off + n))) st = Some (drop (off + n) ?all)"
      using Suc.IH [OF decode_encode_cursor k(1)] k(2) by simp
    moreover have "take n (drop off ?all) @ drop (off + n) ?all = drop off ?all"
      by (metis append_take_drop_id drop_drop add.commute)
    ultimately show ?thesis
      using True by (simp add: ledger_page_at [OF assms Suc.prems(1)])
  qed (simp add: ledger_page_at [OF assms Suc.prems(1)])
qed simp


section \<open>Exports\<close>

lemma chain_own: "chain_from sha content prev own p rs \<Longrightarrow> r \<in> set rs \<Longrightarrow> own r = hash_json sha (content r)"
  by (induction rs arbitrary: p) auto

lemma chain_link:
  "numbered n rs \<Longrightarrow> chain_from sha content rw_previous_event_hash rw_event_hash p rs \<Longrightarrow> r \<in> set rs \<Longrightarrow> r' \<in> set rs \<Longrightarrow>
     rw_sequence r' = rw_sequence r + 1 \<Longrightarrow> rw_previous_event_hash r' = rw_event_hash r"
proof (induction rs arbitrary: n p)
  case (Cons a rs)
  have tail: "numbered (n + 1) rs" "rw_sequence a = n" using Cons.prems(1) by simp_all
  show ?case
  proof (cases "r = a")
    case True
    then have r': "r' \<in> set rs" "rw_sequence r' = n + 1" using Cons.prems(4,5) tail(2) by auto
    obtain b bs where rs: "rs = b # bs" using r'(1) by (cases rs) auto
    have "r' = b"
      using r' tail(1) numbered_ge [of "n + 1 + 1" bs r'] by (auto simp: rs)
    then show ?thesis using Cons.prems(2) True by (simp add: rs)
  next
    case False
    then have r: "r \<in> set rs" using Cons.prems(3) by simp
    then have "n + 1 \<le> rw_sequence r" using numbered_ge [OF tail(1)] by blast
    then have "r' \<in> set rs" using Cons.prems(4,5) tail(2) by auto
    moreover have "chain_from sha content rw_previous_event_hash rw_event_hash (rw_event_hash a) rs"
      using Cons.prems(2) unfolding chain_from.simps by blast
    ultimately show ?thesis using Cons.IH [OF tail(1) _ r _ Cons.prems(5)] by blast
  qed
qed simp

lemma stored_rows:
  assumes "ledger_inv sha st" "r \<in> set (ls_events st)"
  shows "rw_event_hash r = hash_json sha (core_json (hashCoreOf r))" "payload_bound sha r"
    "r' \<in> set (ls_events st) \<Longrightarrow> rw_tenant_id r' = rw_tenant_id r \<Longrightarrow> rw_stream_id r' = rw_stream_id r \<Longrightarrow>
       rw_sequence r' = rw_sequence r + 1 \<Longrightarrow> rw_previous_event_hash r' = rw_event_hash r"
proof -
  let ?rs = "stream_rows (rw_tenant_id r) (rw_stream_id r) st"
  have inv: "numbered 1 ?rs" "chain_from sha (\<lambda>r. core_json (hashCoreOf r)) rw_previous_event_hash rw_event_hash ledger_genesis ?rs"
    "\<forall>r \<in> set ?rs. payload_bound sha r"
    using assms(1) unfolding ledger_inv_def stream_inv_def by blast+
  have r: "r \<in> set ?rs" using assms(2) by (simp add: stream_rows_def)
  show "rw_event_hash r = hash_json sha (core_json (hashCoreOf r))"
    using chain_own [OF inv(2) r] .
  show "payload_bound sha r" using inv(3) r by blast
  show "rw_previous_event_hash r' = rw_event_hash r"
    if "r' \<in> set (ls_events st)" "rw_tenant_id r' = rw_tenant_id r" "rw_stream_id r' = rw_stream_id r" "rw_sequence r' = rw_sequence r + 1"
    using chain_link [OF inv(1,2) r _ that(4)] that(1-3) by (simp add: stream_rows_def)
qed

lemma bundle_events_ok:
  assumes inv: "ledger_inv sha st"
  shows "(\<And>e. e \<in> set es \<Longrightarrow> \<exists>r \<in> set (ls_events st). e = toLedgerEvent r \<and> rw_tenant_id r = t) \<Longrightarrow>
    (\<And>s p. seen s = Some p \<Longrightarrow> \<exists>r \<in> set (ls_events st). p = toLedgerEvent r \<and> rw_tenant_id r = t \<and> rw_stream_id r = s) \<Longrightarrow>
    verify_bundle_events sha seen es = Inr ()"
proof (induction es arbitrary: seen)
  case (Cons e es)
  obtain r where r: "r \<in> set (ls_events st)" "e = toLedgerEvent r" "rw_tenant_id r = t"
    using Cons.prems(1) [of e] by auto
  note row = stored_rows(1,2) [OF inv r(1)]
  have linked: "lv_previous_event_hash e = lv_event_hash p"
    if s: "seen (li_stream_id e) = Some p" and n: "lv_sequence p + 1 = lv_sequence e" for p
  proof -
    obtain q where q: "q \<in> set (ls_events st)" "p = toLedgerEvent q" "rw_tenant_id q = t" "rw_stream_id q = rw_stream_id r"
      using Cons.prems(2) [OF s] r(2) by auto
    show ?thesis
      using stored_rows(3) [OF inv q(1) r(1)] q r n by simp
  qed
  have next_seen: "\<exists>r \<in> set (ls_events st). p = toLedgerEvent r \<and> rw_tenant_id r = t \<and> rw_stream_id r = s"
    if "(seen(li_stream_id e \<mapsto> e)) s = Some p" for s p
    using that Cons.prems(2) [of s p] r by (auto split: if_splits)
  have rest: "verify_bundle_events sha (seen(li_stream_id e \<mapsto> e)) es = Inr ()"
    by (rule Cons.IH [OF Cons.prems(1) next_seen]) simp_all
  have "recomputeEventHash sha e = lv_event_hash e" "computePayloadHash sha (li_payload e) = lv_payload_hash e"
    using row by (simp_all add: r(2) recomputeEventHash_def event_core_row computeEventHash_def ledger_hash_def payload_bound_def)
  with rest linked show ?case
    by (auto split: option.split)
qed simp

lemma query_rows: "e \<in> set (ledger_query t f limit off st) \<Longrightarrow> \<exists>r \<in> set (ls_events st). e = toLedgerEvent r \<and> rw_tenant_id r = t"
  by (auto simp: ledger_query_def query_all_def row_matches_def dest!: in_set_takeD in_set_dropD)

section \<open>A concrete ledger\<close>

definition flat_ledger_digest :: "string \<Rightarrow> string" where
  "flat_ledger_digest s = ''d''"

definition demo_event :: "string \<Rightarrow> string \<Rightarrow> (string \<times> json) list \<Rightarrow> json" where
  "demo_event i ty extra = JObj ([(''version'', JStr ''1.0''), (''event_id'', JStr i), (''event_type'', JStr ty),
     (''tenant_id'', JStr ''t1''), (''stream_id'', JStr ''s1''), (''actor'', actor_json ''SYSTEM'' ''gate''),
     (''correlation_id'', JStr ''c1''), (''source_component'', JStr ''tna-gate'')] @ extra)"


definition agent_context :: "(string \<times> json) list" where
  "agent_context = [(''authority_context'', JObj [(''agent_id'', JStr ''a1'')])]"

definition agent_registered :: json where
  "agent_registered = demo_event ''ev-1'' ''AGENT_REGISTERED'' agent_context"

definition agent_revoked :: json where
  "agent_revoked = demo_event ''ev-2'' ''AGENT_REVOKED'' agent_context"

lemma demo_not_secret: "\<not> secret_key ''agent_id''" "\<not> secret_value ''a1''"
  by code_simp+

lemmas event_check_defs = event_checks_def Let_def demo_event_def is_plain_object_def ledger_event_version_def
    safeId_def is_alnum_def is_digit_def is_lower_def is_upper_def char_in_def event_types_def actor_ok_def actor_json_def
    ctx_field_def actor_types_def source_components_def opt_safe_id_def assertContext_def retention_ok_def payload_size_def
    secret_hit_def ledger_find_secret_def find_secret_opt_def assertComplete_def requires_def truthy_def the_str_def

lemma agent_checks:
  "\<forall>c \<in> set (event_checks agent_registered). fst c"
  "\<forall>c \<in> set (event_checks agent_revoked). fst c"
  by (simp_all add: event_check_defs agent_registered_def agent_revoked_def agent_context_def demo_not_secret)

definition demo_writer :: ledger_principal where
  "demo_writer = writerPrincipal ''w'' ''t1'' [''tna-gate'']"

lemma agent_inputs:
  "validateEventInput agent_registered = Inr (normalized_event agent_registered)"
  "validateEventInput agent_revoked = Inr (normalized_event agent_revoked)"
  unfolding validateEventInput_def using agent_checks [folded run_checks_ok [where u = "()"]] by (simp_all del: run_checks_ok)

definition submit :: "(string \<Rightarrow> string) \<Rightarrow> json \<Rightarrow> ledger_store \<Rightarrow> ledger_store" where
  "submit sha raw s = (case ledger_append sha ''now'' demo_writer raw s of Inl _ \<Rightarrow> s | Inr (s', _) \<Rightarrow> s')"

lemma registered_fields:
  "li_tenant_id (normalized_event agent_registered) = ''t1''" "li_stream_id (normalized_event agent_registered) = ''s1''"
  "li_event_id (normalized_event agent_registered) = ''ev-1''" "li_event_type (normalized_event agent_registered) = ''AGENT_REGISTERED''"
  "li_source_component (normalized_event agent_registered) = ''tna-gate''"
  "li_authority_context (normalized_event agent_registered) = Some (JObj [(''agent_id'', JStr ''a1'')])"
  by (simp_all add: normalized_event_def Let_def agent_registered_def demo_event_def agent_context_def the_str_def)


lemma submit_run:
  "ledger_run sha P s t \<Longrightarrow> P raw \<Longrightarrow> ledger_run sha P s (submit sha raw t)"
  unfolding submit_def by (cases "ledger_append sha ''now'' demo_writer raw t") (auto intro: ledger_step)

definition demo_ledger :: "(string \<Rightarrow> string) \<Rightarrow> ledger_store" where
  "demo_ledger sha = submit sha agent_revoked (submit sha agent_registered ledger_empty)"

lemma plain_demo: "plain_event agent_registered" "plain_event agent_revoked"
  by (simp_all add: plain_event_def agent_registered_def agent_revoked_def demo_event_def plain_actor_def actor_json_def the_str_def)

lemma demo_ledger_run: "ledger_run sha plain_event ledger_empty (demo_ledger sha)"
  unfolding demo_ledger_def by (intro submit_run ledger_refl plain_demo)

lemma first_append:
  "\<exists>s e. ledger_append sha ''now'' demo_writer agent_registered ledger_empty = Inr (s, e)
     \<and> ls_events s = [next_row sha ''now'' (normalized_event agent_registered) None]
     \<and> ls_streams s = [((''t1'', ''s1''), next_head None (next_row sha ''now'' (normalized_event agent_registered) None))]"
  by (simp add: ledger_append_def agent_inputs assertCanWrite_def demo_writer_def writerPrincipal_def registered_fields
     assertInvariants_def execution_outcomes_def store_append_def row_by_id_def row_by_sequence_def ledger_empty_def streamHead_def Let_def)

lemma revoked_fields:
  "li_tenant_id (normalized_event agent_revoked) = ''t1''" "li_stream_id (normalized_event agent_revoked) = ''s1''"
  "li_event_id (normalized_event agent_revoked) = ''ev-2''" "li_event_type (normalized_event agent_revoked) = ''AGENT_REVOKED''"
  "li_source_component (normalized_event agent_revoked) = ''tna-gate''"
  "li_authority_context (normalized_event agent_revoked) = Some (JObj [(''agent_id'', JStr ''a1'')])"
  by (simp_all add: normalized_event_def Let_def agent_revoked_def demo_event_def agent_context_def the_str_def)

lemma demo_ledger_rows:
  "\<exists>r r'. ls_events (demo_ledger sha) = [r, r'] \<and> rw_event_type r' = ''AGENT_REVOKED'' \<and> rw_tenant_id r' = ''t1''"
proof -
  obtain s e where s: "ledger_append sha ''now'' demo_writer agent_registered ledger_empty = Inr (s, e)"
    "ls_events s = [next_row sha ''now'' (normalized_event agent_registered) None]"
    "ls_streams s = [((''t1'', ''s1''), next_head None (next_row sha ''now'' (normalized_event agent_registered) None))]"
    using first_append by blast
  have prior: "has_prior ''t1'' Authority_Context ''agent_id'' (Some (JStr ''a1'')) ''AGENT_REGISTERED'' s"
    unfolding has_prior_row prior_row_def s(2)
    by (simp add: next_row_fields registered_fields row_context_def ctx_field_def)
  have "\<exists>s' e'. ledger_append sha ''now'' demo_writer agent_revoked s = Inr (s', e')
     \<and> (\<exists>r'. ls_events s' = ls_events s @ [r'] \<and> rw_event_type r' = ''AGENT_REVOKED'' \<and> rw_tenant_id r' = ''t1'')"
    using prior
    by (simp add: ledger_append_def agent_inputs assertCanWrite_def demo_writer_def writerPrincipal_def revoked_fields
     assertInvariants_def execution_outcomes_def store_append_def row_by_id_def row_by_sequence_def s streamHead_def Let_def
     next_row_fields registered_fields next_head_def ctx_field_def)
  then show ?thesis
    using s by (auto simp: demo_ledger_def submit_def)
qed


section \<open>Properties\<close>





text \<open>What an accepted submission leaves in the ledger: one row with its content.\<close>

lemma append_stored:
  assumes "ledger_append sha now p raw st = Inr (st', e)" "plain_event raw"
    "jfield ''causation_id'' raw \<noteq> Some JNull" "jfield ''parent_event_id'' raw \<noteq> Some JNull"
  obtains r where "row_by_id (li_tenant_id (normalized_event raw)) (li_event_id (normalized_event raw)) st' = Some r"
    "sameCanonicalContent (toLedgerEvent r) (normalized_event raw)" "rw_sequence r = lv_sequence e" "rw_event_hash r = lv_event_hash e"
    "rw_received_at r = lv_received_at e" "set (ls_events st) \<subseteq> set (ls_events st')"
proof -
  let ?i = "normalized_event raw"
  note a = ledger_append_Inr [OF assms(1)]
  have pl: "plain_actor (li_actor ?i)"
    using assms(2) by (simp add: plain_event_def normalized_event_def Let_def)
  have ids: "li_causation_id ?i = map_option JStr (jstr (li_causation_id ?i))"
    "li_parent_event_id ?i = map_option JStr (jstr (li_parent_event_id ?i))"
    using validated_ids [OF a(1)] assms(3,4)
    by (intro opt_safe_id_JStr; simp add: normalized_event_def Let_def)+
  from a(4) show ?thesis
  proof (cases rule: store_append_cases)
    case (again existing)
    then show ?thesis by (intro that [of existing]) (simp_all add: toLedgerEvent_def)
  next
    case (fresh head)
    have "row_by_id (li_tenant_id ?i) (li_event_id ?i) st' = Some (next_row sha now ?i head)"
      by (rule row_by_id_snoc [OF fresh(1,4)]) (simp_all add: next_row_fields)
    then show ?thesis
      using canonical_input_row [OF pl ids] fresh(4,6)
      by (intro that) (auto simp: appended_event_def ledger_input.defs ledger_event.defs)
  qed
qed

text \<open>
  A retry is idempotent: submitting an accepted event again, at any later time and with nothing in
  between, leaves the ledger as it is and answers with the event as it was first stored, unless the
  event spelled an absent causation or parent as \<open>null\<close> or its actor had extra keys.
\<close>

theorem retry_is_idempotent:
  assumes "ledger_append sha now p raw st = Inr (st', e)" "plain_event raw"
    "jfield ''causation_id'' raw \<noteq> Some JNull" "jfield ''parent_event_id'' raw \<noteq> Some JNull"
  shows "\<exists>e'. ledger_append sha later p raw st' = Inr (st', e') \<and> lv_sequence e' = lv_sequence e
    \<and> lv_event_hash e' = lv_event_hash e \<and> lv_received_at e' = lv_received_at e"
proof -
  obtain r where r: "row_by_id (li_tenant_id (normalized_event raw)) (li_event_id (normalized_event raw)) st' = Some r"
    "sameCanonicalContent (toLedgerEvent r) (normalized_event raw)" "rw_sequence r = lv_sequence e" "rw_event_hash r = lv_event_hash e"
    "rw_received_at r = lv_received_at e" "set (ls_events st) \<subseteq> set (ls_events st')"
    by (rule append_stored [OF assms])
  note a = ledger_append_Inr [OF assms(1)]
  have "ledger_append sha later p raw st' = Inr (st', toLedgerEvent r)"
    unfolding ledger_append_steps [OF a(1,2) assertInvariants_mono [OF a(3) r(6)]] store_append_def by (simp add: r(1,2))
  with r(3-5) show ?thesis by (simp add: toLedgerEvent_def)
qed

theorem retry_is_idempotent_witness:
  "\<exists>s e e'. ledger_append (\<lambda>x. x) ''now'' demo_writer agent_registered ledger_empty = Inr (s, e)
     \<and> ledger_append (\<lambda>x. x) ''later'' demo_writer agent_registered s = Inr (s, e')"
proof -
  obtain s e where s: "ledger_append (\<lambda>x. x) ''now'' demo_writer agent_registered ledger_empty = Inr (s, e)"
    using first_append by blast
  have "jfield ''causation_id'' agent_registered \<noteq> Some JNull" "jfield ''parent_event_id'' agent_registered \<noteq> Some JNull"
    by (simp_all add: agent_registered_def demo_event_def agent_context_def)
  from retry_is_idempotent [OF s plain_demo(1) this] s show ?thesis by blast
qed

text \<open>A \<open>null\<close> causation is not such a no-op: the stored row forgets it, so the retry conflicts.\<close>

lemma opt_fields_keys: "fst ` set (concat (map (\<lambda>(k, v). opt_field k v) ps)) \<subseteq> fst ` set ps"
  by (force simp: opt_field_def split: option.splits)

lemma opt_fields_distinct: "distinct (map fst ps) \<Longrightarrow> distinct (map fst (concat (map (\<lambda>(k, v). opt_field k v) ps)))"
proof (induction ps)
  case (Cons p ps)
  obtain k v where p: "p = (k, v)" by (cases p)
  define r where "r = concat (map (\<lambda>(k, v). opt_field k v) ps)"
  have "k \<notin> fst ` set r"
    using Cons.prems subsetD [OF opt_fields_keys [of ps], folded r_def, of k] by (auto simp: p)
  moreover have "distinct (map fst r)" using Cons unfolding r_def by simp
  moreover have "concat (map (\<lambda>(k, v). opt_field k v) (p # ps)) = opt_field k v @ r"
    by (simp add: p r_def)
  ultimately show ?case by (cases v) auto
qed simp

lemma input_json_entries:
  "\<exists>kvs. input_json i = JObj kvs \<and> distinct (map fst kvs) \<and> map_of kvs ''causation_id'' = li_causation_id i"
proof -
  let ?base = "[(''version'', JStr (li_version i)), (''event_id'', JStr (li_event_id i)),
     (''event_type'', JStr (li_event_type i)), (''tenant_id'', JStr (li_tenant_id i)), (''stream_id'', JStr (li_stream_id i)),
     (''actor'', li_actor i), (''correlation_id'', JStr (li_correlation_id i)), (''source_component'', JStr (li_source_component i))]"
  let ?opt = "[(''causation_id'', li_causation_id i), (''parent_event_id'', li_parent_event_id i),
     (''occurred_at'', map_option JStr (li_occurred_at i)), (''authority_context'', li_authority_context i),
     (''spec_context'', li_spec_context i), (''execution_context'', li_execution_context i),
     (''artifact_context'', li_artifact_context i), (''payload'', li_payload i),
     (''classification'', map_option JStr (li_classification i)), (''retention'', li_retention i)]"
  let ?kvs = "?base @ concat (map (\<lambda>(k, v). opt_field k v) ?opt)"
  have "input_json i = JObj ?kvs" by (simp add: input_json_def)
  moreover have "distinct (map fst ?kvs)"
  proof -
    have "distinct (map fst (concat (map (\<lambda>(k, v). opt_field k v) ?opt)))"
      by (rule opt_fields_distinct) simp
    moreover have "fst ` set ?base \<inter> fst ` set (concat (map (\<lambda>(k, v). opt_field k v) ?opt)) = {}"
      using opt_fields_keys [of ?opt] by auto
    moreover have "distinct (map fst ?base)" by simp
    ultimately show ?thesis
      unfolding map_append distinct_append set_map by blast
  qed
  moreover have "map_of ?kvs ''causation_id'' = li_causation_id i"
    by (simp add: map_of_opt_field map_add_def split: option.split)
  ultimately show ?thesis by blast
qed

lemma null_causation_conflicts:
  assumes "li_causation_id i = Some JNull"
  shows "\<not> sameCanonicalContent (toLedgerEvent (next_row sha now i head)) i"
proof
  let ?e = "toLedgerEvent (next_row sha now i head)"
  assume "sameCanonicalContent ?e i"
  then have n: "normal (input_json ?e) = normal (input_json i)"
    by (simp add: sameCanonicalContent_def ledger_canonical_def canonical_eq_iff)
  obtain kvs where k: "input_json ?e = JObj kvs" "distinct (map fst kvs)" "map_of kvs ''causation_id'' = li_causation_id ?e"
    using input_json_entries by blast
  obtain kvs' where k': "input_json i = JObj kvs'" "distinct (map fst kvs')" "map_of kvs' ''causation_id'' = li_causation_id i"
    using input_json_entries by blast
  have c: "li_causation_id ?e = None"
    using assms by (simp add: toLedgerEvent_def next_row_def input_row_def Let_def jstr_def)
  show False
    using normal_obj_lookup [OF n [unfolded k(1) k'(1)] k(2) k'(2), of "''causation_id''"] k(3) k'(3) assms c by simp
qed

text \<open>
  C28. Pages are complete: following the cursors from the first page, with any accepted page size,
  returns exactly the rows of the query in order, none twice and none missing, after finitely many
  pages of at most 200 rows; a cursor decodes to the offset it encodes.
\<close>

theorem pages_are_complete:
  assumes "boundedLimit limit = Inr n"
  shows "read_pages (Suc (length (query_all t f st))) t f limit None st = Some (query_all t f st) \<and> n \<le> 200
    \<and> (\<forall>off. decodeCursor (Some (encodeCursor off)) = Inr off)"
  using read_pages_from [OF assms, of None 0 t f st "Suc (length (query_all t f st))"] boundedLimit_pos [OF assms]
  by (simp add: decodeCursor_def [of None] decode_encode_cursor max_query_page_size_def)

theorem pages_are_complete_witness:
  "read_pages (Suc (length (query_all ''t1'' no_filters (demo_ledger (\<lambda>x. x))))) ''t1'' no_filters (Some (Dec 1 0)) None (demo_ledger (\<lambda>x. x))
     = Some (query_all ''t1'' no_filters (demo_ledger (\<lambda>x. x)))"
proof -
  have "boundedLimit (Some (Dec 1 0)) = Inr 1"
    by (simp add: boundedLimit_def is_integer_def int_of_num_def norm_num_def max_query_page_size_def)
  from pages_are_complete [OF this] show ?thesis by blast
qed



text \<open>
  The head binds the history: two ledgers in which a stream verifies with the same head (sequence
  and hash) hold the same events in that stream, field by field, unless two of the digested texts collide.
\<close>

theorem stream_head_binds_history:
  assumes "sv_valid (snd (verifyStream sha now persist t s st))" "sv_valid (snd (verifyStream sha now' persist' t s st'))"
    "streamHead t s st = Some h" "streamHead t s st' = Some h'"
    "sh_latest_sequence h = sh_latest_sequence h'" "sh_latest_event_hash h = sh_latest_event_hash h'"
    "inj_on sha (canonical ` (\<lambda>r. core_json (hashCoreOf r)) ` (set (stream_rows t s st) \<union> set (stream_rows t s st')))"
  shows "map (\<lambda>r. core_facts (hashCoreOf r)) (sort_key rw_sequence (stream_rows t s st))
    = map (\<lambda>r. core_facts (hashCoreOf r)) (sort_key rw_sequence (stream_rows t s st'))"
proof -
  have v: "chain_from sha (\<lambda>r. core_json (hashCoreOf r)) rw_previous_event_hash rw_event_hash ledger_genesis (sort_key rw_sequence (stream_rows t s u))
      \<and> sh_latest_sequence k = int (length (stream_rows t s u))
      \<and> sh_latest_event_hash k = head_from rw_event_hash ledger_genesis (sort_key rw_sequence (stream_rows t s u))"
    if a: "sv_valid (snd (verifyStream sha nw ps t s u))" and k: "streamHead t s u = Some k" for u k nw ps
  proof -
    have ok: "stream_verdict sha t s u = Inr ()"
      using a by (cases "stream_verdict sha t s u") (auto simp: verifyStream_def Let_def)
    obtain q where q: "verify_events sha ledger_genesis 1 (map toLedgerEvent (sort_key rw_sequence (stream_rows t s u))) = Inr q"
      using ok by (cases "verify_events sha ledger_genesis 1 (map toLedgerEvent (sort_key rw_sequence (stream_rows t s u)))")
        (auto simp: stream_verdict_def listStream_def)
    have "sh_latest_sequence k = int (length (stream_rows t s u))" "sh_latest_event_hash k = q"
      using ok q k by (auto simp: stream_verdict_def listStream_def Let_def split: if_splits)
    then show ?thesis using q unfolding verify_events_rows by simp
  qed
  show ?thesis
  proof (rule ledger.head_determines [where sha = sha and p = ledger_genesis])
    show "length (sort_key rw_sequence (stream_rows t s st)) = length (sort_key rw_sequence (stream_rows t s st'))"
      using v [OF assms(1,3)] v [OF assms(2,4)] assms(5) by simp
    show "inj_on sha (canonical ` (\<lambda>r. core_json (hashCoreOf r)) ` set (sort_key rw_sequence (stream_rows t s st)) \<union>
      canonical ` (\<lambda>r. core_json (hashCoreOf r)) ` set (sort_key rw_sequence (stream_rows t s st')))"
      using assms(7) by (simp add: image_Un)
  qed (use v [OF assms(1,3)] v [OF assms(2,4)] assms(6) in simp_all)
qed

lemma demo_head: "\<exists>h. streamHead ''t1'' ''s1'' (demo_ledger sha) = Some h"
proof -
  have inv: "stream_inv sha (stream_rows ''t1'' ''s1'' (demo_ledger sha)) (streamHead ''t1'' ''s1'' (demo_ledger sha))"
    using ledger_inv_run [OF demo_ledger_run _ ledger_inv_empty] by (simp add: ledger_inv_def)
  obtain s e where s: "ledger_append sha ''now'' demo_writer agent_registered ledger_empty = Inr (s, e)"
    "ls_events s = [next_row sha ''now'' (normalized_event agent_registered) None]"
    using first_append by blast
  then have "ledger_run sha plain_event s (demo_ledger sha)"
    unfolding demo_ledger_def submit_def [of sha agent_registered] by (auto intro: submit_run ledger_refl plain_demo)
  from ledger_run_extends [OF this] s(2) have "stream_rows ''t1'' ''s1'' (demo_ledger sha) \<noteq> []"
    by (auto simp: stream_rows_def next_row_fields registered_fields)
  with inv show ?thesis by (auto simp: stream_inv_def split: option.splits)
qed

theorem stream_head_binds_history_witness:
  "map (\<lambda>r. core_facts (hashCoreOf r)) (sort_key rw_sequence (stream_rows ''t1'' ''s1'' (demo_ledger (\<lambda>x. x))))
    = map (\<lambda>r. core_facts (hashCoreOf r)) (sort_key rw_sequence (stream_rows ''t1'' ''s1'' (demo_ledger (\<lambda>x. x))))
   \<and> (\<exists>h. streamHead ''t1'' ''s1'' (demo_ledger (\<lambda>x. x)) = Some h)"
proof -
  have "sv_valid (snd (verifyStream (\<lambda>x. x) ''now'' False ''t1'' ''s1'' (demo_ledger (\<lambda>x. x))))"
    using ledger_inv_valid [OF ledger_inv_run [OF demo_ledger_run _ ledger_inv_empty]] by (simp add: verifyStream_def Let_def)
  moreover obtain h where h: "streamHead ''t1'' ''s1'' (demo_ledger (\<lambda>x. x)) = Some h"
    using demo_head by blast
  ultimately show ?thesis
    using stream_head_binds_history [of "\<lambda>x. x" "''now''" False "''t1''" "''s1''" "demo_ledger (\<lambda>x. x)" "''now''" False "demo_ledger (\<lambda>x. x)" h h]
    by simp
qed

text \<open>
  Fail closed: once a stream is marked INVALID, no later sequence of appends, verifications and
  restarts adds a row to it or makes it valid again.
\<close>

theorem invalid_stream_is_closed:
  assumes "streamHead t s st = Some h" "sh_integrity_status h = INVALID" "ledger_run sha P st st'"
  shows "stream_rows t s st' = stream_rows t s st
    \<and> (\<exists>h'. streamHead t s st' = Some h' \<and> sh_integrity_status h' = INVALID)"
  using frozen_run [OF assms(3), of t s "stream_rows t s st"] assms(1,2) by (simp add: stream_frozen_def)

theorem invalid_stream_is_closed_witness:
  "stream_rows ''t1'' ''s1'' (submit (\<lambda>x. x) agent_registered (markStreamInvalid ''t1'' ''s1'' ''d'' ''now'' (demo_ledger (\<lambda>x. x))))
     = stream_rows ''t1'' ''s1'' (demo_ledger (\<lambda>x. x))"
proof -
  let ?st = "markStreamInvalid ''t1'' ''s1'' ''d'' ''now'' (demo_ledger (\<lambda>x. x))"
  obtain h where "streamHead ''t1'' ''s1'' (demo_ledger (\<lambda>x. x)) = Some h" using demo_head by blast
  then have h: "streamHead ''t1'' ''s1'' ?st = Some (h\<lparr>sh_integrity_status := INVALID\<rparr>)" by simp
  have "ledger_run (\<lambda>x. x) plain_event ?st (submit (\<lambda>x. x) agent_registered ?st)"
    by (intro submit_run ledger_refl plain_demo)
  from invalid_stream_is_closed [OF h _ this] show ?thesis by simp
qed

text \<open>
  The chain does not verify when an actor carries an extra key: the hash was taken over the whole
  actor, the row keeps two of its fields.
\<close>

lemma extra_actor_key_breaks_stream:
  assumes "store_append sha now i ledger_empty = Inr (st, e)" "\<not> plain_actor (li_actor i)"
    "inj_on sha {canonical (core_json (hashCoreOf r)), canonical (core_json (input_core i (rw_sequence r) (rw_payload_hash r) (rw_previous_event_hash r)))}"
    "r = next_row sha now i None"
  shows "\<not> sv_valid (snd (verifyStream sha now persist (li_tenant_id i) (li_stream_id i) st))"
proof -
  let ?c = "input_core i (rw_sequence r) (rw_payload_hash r) (rw_previous_event_hash r)"
  have rows: "stream_rows (li_tenant_id i) (li_stream_id i) st = [r]"
    using assms(1,4) by (auto simp: store_append_def ledger_empty_def row_by_id_def row_by_sequence_def streamHead_def Let_def
        stream_rows_def next_row_fields)
  have h: "rw_event_hash r = hash_json sha (core_json ?c)"
    by (simp add: assms(4) next_row_def input_row_def Let_def computeEventHash_def ledger_hash_def)
  have "normal (core_json (hashCoreOf r)) \<noteq> normal (core_json ?c)"
  proof
    assume "normal (core_json (hashCoreOf r)) = normal (core_json ?c)"
    from core_binds [OF this] have "normal (hc_actor (hashCoreOf r)) = normal (hc_actor ?c)"
      by (simp add: core_facts_def)
    then show False
      using assms(2,4) by (simp add: plain_actor_def hashCoreOf_def input_core_def next_row_def input_row_def Let_def ctx_field_def)
  qed
  then have ne: "rw_event_hash r \<noteq> hash_json sha (core_json (hashCoreOf r))"
    using hash_json_inj [OF _ assms(3)] h by metis
  have "verify_events sha ledger_genesis 1 [toLedgerEvent r] \<noteq> Inr q" for q
    using verify_events_rows [of sha ledger_genesis 1 "[r]" q] ne by simp
  then obtain x where "verify_events sha ledger_genesis 1 [toLedgerEvent r] = Inl x"
    by (cases "verify_events sha ledger_genesis 1 [toLedgerEvent r]") auto
  then have "\<exists>x. stream_verdict sha (li_tenant_id i) (li_stream_id i) st = Inl x"
    unfolding stream_verdict_def listStream_def rows by (auto simp: Let_def split: prod.split)
  then show ?thesis by (auto simp: verifyStream_def Let_def)
qed

end
