(* ===== verification/Vad_Core.thy ===== *)
theory Vad_Core
  imports Ledger
begin

text \<open>
  \<open>packages/vad-core\<close>, \<open>packages/validation-gate\<close>, \<open>packages/verifier-core\<close> and the deterministic producer of
  \<open>packages/model-adapter\<close>: the specification of an atom and how it is read from untrusted JSON, the
  path and pattern rules of its resource manifest, the deterministic gate and the verifier.
\<close>

section \<open>Atom specifications\<close>

record success_criterion =
  sc_id :: string
  sc_description :: string
  sc_validation :: string

record atom_spec =
  as_id :: string
  as_title :: string
  as_goal :: string
  as_success_criteria :: "success_criterion list"
  as_risk_level :: string
  as_read :: "string list"
  as_write :: "string list"
  as_create :: "string list"
  as_forbidden :: "string list"
  as_max_attempts :: jnum
  as_max_runtime_seconds :: jnum
  as_max_cost_usd :: jnum

definition allowed_root_keys :: "string list" where
  "allowed_root_keys = [''version'', ''atom'', ''goal'', ''success_criteria'', ''risk'', ''resources'', ''constraints'', ''limits'']"

definition allowed_atom_keys :: "string list" where
  "allowed_atom_keys = [''id'', ''title'']"

definition allowed_risk_keys :: "string list" where
  "allowed_risk_keys = [''level'']"

definition allowed_resource_keys :: "string list" where
  "allowed_resource_keys = [''read'', ''write'', ''create'']"

definition allowed_constraint_keys :: "string list" where
  "allowed_constraint_keys = [''forbidden'']"

definition allowed_limit_keys :: "string list" where
  "allowed_limit_keys = [''max_attempts'', ''max_runtime_seconds'', ''max_cost_usd'']"

definition assertStrictKeys :: "json \<Rightarrow> string list \<Rightarrow> string \<Rightarrow> bool \<times> string" where
  "assertStrictKeys j allowed label =
     (case find (\<lambda>k. k \<notin> set allowed) (obj_keys j) of None \<Rightarrow> (True, [])
      | Some k \<Rightarrow> (k = [], ''Unknown field in '' @ label @ '': '' @ k))"

definition nonblank :: "string \<Rightarrow> bool" where
  "nonblank s = (str_trim s \<noteq> [])"

definition js_to_number :: "json option \<Rightarrow> jnum option" where
  \<comment> \<open>\<open>Number(value)\<close>; \<open>None\<close> is NaN or not finite\<close>
  "js_to_number v = (case v of None \<Rightarrow> None | Some JNull \<Rightarrow> Some (Dec 0 0)
     | Some (JBool b) \<Rightarrow> Some (Dec (if b then 1 else 0) 0) | Some (JNum n) \<Rightarrow> Some n
     | Some (JStr s) \<Rightarrow> js_number s | Some (JArr xs) \<Rightarrow> js_number (js_string (JArr xs)) | Some (JObj _) \<Rightarrow> None)"

definition is_string :: "json \<Rightarrow> bool" where
  "is_string j = (case j of JStr _ \<Rightarrow> True | _ \<Rightarrow> False)"

definition string_list :: "json option \<Rightarrow> bool" where
  "string_list v = list_where (list_all is_string) v"

definition strings_of :: "json option \<Rightarrow> string list" where
  "strings_of v = (case jlist v of None \<Rightarrow> [] | Some xs \<Rightarrow> map (\<lambda>x. the_str (Some x)) xs)"

definition items_of :: "json option \<Rightarrow> json list" where
  "items_of v = (case jlist v of None \<Rightarrow> [] | Some xs \<Rightarrow> xs)"

definition the_obj :: "json option \<Rightarrow> json" where
  "the_obj v = (case v of Some (JObj kvs) \<Rightarrow> JObj kvs | _ \<Rightarrow> JObj [])"

definition criterion_checks :: "json \<Rightarrow> (bool \<times> string) list" where
  "criterion_checks c =
     [(is_plain_object (Some c), ''Each criterion must be an object''),
      assertStrictKeys c [''id'', ''description'', ''validation''] ''success criterion'',
      (str_where nonblank (jfield ''id'' c), ''Criterion id is required''),
      (str_where nonblank (jfield ''description'' c), ''Criterion description is required''),
      (jfield ''validation'' c = Some (JStr ''deterministic''), ''Only deterministic criteria are supported'')]"

definition positive_number :: "json option \<Rightarrow> bool" where
  "positive_number v = (case js_to_number v of None \<Rightarrow> False | Some n \<Rightarrow> num_val n > 0)"

definition positive_integer :: "json option \<Rightarrow> bool" where
  "positive_integer v = (case js_to_number v of None \<Rightarrow> False | Some n \<Rightarrow> is_integer n \<and> num_val n > 0)"

definition spec_checks :: "json \<Rightarrow> (bool \<times> string) list" where
  "spec_checks j =
     (let atom = jfield ''atom'' j; criteria = jfield ''success_criteria'' j; risk = jfield ''risk'' j;
          res = jfield ''resources'' j; con = jfield ''constraints'' j; lim = jfield ''limits'' j;
          a = the_obj atom; r = the_obj res; c = the_obj con; l = the_obj lim in
      [(is_plain_object (Some j), ''Atom spec must be an object''),
       assertStrictKeys j allowed_root_keys ''atom specification'',
       (jfield ''version'' j = Some (JStr ''1.0''), ''Unsupported atom spec version''),
       (is_plain_object atom, ''Atom identity is required''),
       assertStrictKeys a allowed_atom_keys ''atom identity'',
       (str_where nonblank (jfield ''id'' a) \<and> str_where nonblank (jfield ''title'' a), ''Malformed atom identity''),
       (str_where nonblank (jfield ''goal'' j), ''Primary goal is required''),
       (items_of criteria \<noteq> [], ''Success criteria are required'')]
      @ concat (map criterion_checks (items_of criteria)) @
      [(is_plain_object risk, ''Risk level is required''),
       assertStrictKeys (the_obj risk) allowed_risk_keys ''risk'',
       (show_value (jfield ''level'' (the_obj risk)) \<in> {''low'', ''medium'', ''high''}, ''Invalid risk level''),
       (is_plain_object res, ''Resource manifest is required''),
       assertStrictKeys r allowed_resource_keys ''resources'',
       (jlist (jfield ''read'' r) \<noteq> None \<and> jlist (jfield ''write'' r) \<noteq> None \<and> jlist (jfield ''create'' r) \<noteq> None,
        ''Resource arrays are required''),
       (string_list (jfield ''read'' r) \<and> string_list (jfield ''write'' r) \<and> string_list (jfield ''create'' r),
        ''Resource paths must be strings''),
       (is_plain_object con, ''Constraints are required''),
       assertStrictKeys c allowed_constraint_keys ''constraints'',
       (string_list (jfield ''forbidden'' c), ''Forbidden constraints must be strings''),
       (is_plain_object lim, ''Limits are required''),
       assertStrictKeys l allowed_limit_keys ''limits'',
       (positive_integer (jfield ''max_attempts'' l), ''max_attempts must be a positive integer''),
       (positive_number (jfield ''max_runtime_seconds'' l), ''max_runtime_seconds must be positive''),
       (positive_number (jfield ''max_cost_usd'' l), ''max_cost_usd must be positive'')])"

definition read_criterion :: "json \<Rightarrow> success_criterion" where
  "read_criterion c = \<lparr>sc_id = show_value (jfield ''id'' c), sc_description = show_value (jfield ''description'' c),
     sc_validation = ''deterministic''\<rparr>"

definition read_spec :: "json \<Rightarrow> atom_spec" where
  "read_spec j =
     (let a = the_obj (jfield ''atom'' j); r = the_obj (jfield ''resources'' j); l = the_obj (jfield ''limits'' j) in
      \<lparr>as_id = the_str (jfield ''id'' a), as_title = the_str (jfield ''title'' a), as_goal = the_str (jfield ''goal'' j),
       as_success_criteria = map read_criterion (items_of (jfield ''success_criteria'' j)),
       as_risk_level = show_value (jfield ''level'' (the_obj (jfield ''risk'' j))),
       as_read = strings_of (jfield ''read'' r), as_write = strings_of (jfield ''write'' r), as_create = strings_of (jfield ''create'' r),
       as_forbidden = strings_of (jfield ''forbidden'' (the_obj (jfield ''constraints'' j))),
       as_max_attempts = the (js_to_number (jfield ''max_attempts'' l)),
       as_max_runtime_seconds = the (js_to_number (jfield ''max_runtime_seconds'' l)),
       as_max_cost_usd = the (js_to_number (jfield ''max_cost_usd'' l))\<rparr>)"

definition finalizeAtomSpec :: "json \<Rightarrow> (string, atom_spec) res" where
  "finalizeAtomSpec j = rbind (run_checks (spec_checks j)) (\<lambda>_. Inr (read_spec j))"

definition criterion_json :: "success_criterion \<Rightarrow> json" where
  "criterion_json c = JObj [(''id'', JStr (sc_id c)), (''description'', JStr (sc_description c)),
     (''validation'', JStr (sc_validation c))]"

definition spec_json :: "atom_spec \<Rightarrow> json" where
  "spec_json s = JObj [(''version'', JStr ''1.0''),
     (''atom'', JObj [(''id'', JStr (as_id s)), (''title'', JStr (as_title s))]), (''goal'', JStr (as_goal s)),
     (''success_criteria'', JArr (map criterion_json (as_success_criteria s))),
     (''risk'', JObj [(''level'', JStr (as_risk_level s))]),
     (''resources'', JObj [(''read'', jstrs (as_read s)), (''write'', jstrs (as_write s)), (''create'', jstrs (as_create s))]),
     (''constraints'', JObj [(''forbidden'', jstrs (as_forbidden s))]),
     (''limits'', JObj [(''max_attempts'', JNum (as_max_attempts s)), (''max_runtime_seconds'', JNum (as_max_runtime_seconds s)),
        (''max_cost_usd'', JNum (as_max_cost_usd s))])]"

text \<open>Sorting the keys at every depth and then printing.\<close>

fun sortedEntries :: "json \<Rightarrow> json" where
  "sortedEntries (JArr xs) = JArr (map sortedEntries xs)"
| "sortedEntries (JObj kvs) = JObj (sort_key fst (map (\<lambda>(k, v). (k, sortedEntries v)) kvs))"
| "sortedEntries j = j"

definition canonicalizeSpec :: "atom_spec \<Rightarrow> string" where
  "canonicalizeSpec s = stringify (sortedEntries (spec_json s))"

definition computeSpecHash :: "(string \<Rightarrow> string) \<Rightarrow> atom_spec \<Rightarrow> string" where
  "computeSpecHash sha s = sha (canonicalizeSpec s)"

section \<open>Paths and patterns\<close>

definition newline :: "char \<Rightarrow> bool" where
  \<comment> \<open>what \<open>.\<close> does not match\<close>
  "newline c = (code_of c = 10 \<or> code_of c = 13)"

fun glob :: "string \<Rightarrow> string \<Rightarrow> bool" where
  \<comment> \<open>the regular expression with \<open>*\<close> read as \<open>.*\<close> and every other character as itself\<close>
  "glob [] s = (s = [])"
| "glob (p # ps) [] = (p = CHR ''*'' \<and> glob ps [])"
| "glob (p # ps) (c # cs) =
     (if p = CHR ''*'' then glob ps (c # cs) \<or> (\<not> newline c \<and> glob (p # ps) cs)
      else p = c \<and> glob ps cs)"

definition matchesPattern :: "string \<Rightarrow> string \<Rightarrow> bool" where
  "matchesPattern pattern actual =
     (if ends_with ''/**'' pattern
      then (let base = drop_end 3 pattern in actual = base \<or> starts_with (base @ ''/'') actual)
      else if CHR ''*'' \<in> set pattern then glob pattern actual
      else pattern = actual)"

definition unify_slashes :: "string \<Rightarrow> string" where
  "unify_slashes s = map (\<lambda>c. if c = CHR 0x5C then CHR ''/'' else c) s"

fun keep_segments :: "string list \<Rightarrow> (string, string list) res" where
  \<comment> \<open>the loop over the segments\<close>
  "keep_segments [] = Inr []"
| "keep_segments (s # ss) =
     (if s = ''..'' then Inl ''Path traversal (..) not allowed''
      else rbind (keep_segments ss) (\<lambda>r. Inr (if s = ''.'' \<or> s = [] then r else s # r)))"

definition canonicalizePath :: "string \<Rightarrow> (string, string) res" where
  "canonicalizePath p =
     (if CHR 0x00 \<in> set p then Inl ''Path contains null byte''
      else let n = unify_slashes p in
        if starts_with ''/'' n then Inl ''Absolute path not allowed in relative context''
        else rbind (keep_segments (str_split (CHR ''/'') n)) (\<lambda>r.
          if r = [] then Inl ''Empty path after canonicalization'' else Inr (str_join ''/'' r)))"

definition declared_patterns :: "atom_spec \<Rightarrow> string list" where
  "declared_patterns s = as_read s @ as_write s @ as_create s"

definition isResourceViolation :: "atom_spec \<Rightarrow> string list \<Rightarrow> bool" where
  "isResourceViolation s files = list_ex (\<lambda>f. case canonicalizePath f of Inl _ \<Rightarrow> True
     | Inr c \<Rightarrow> \<not> list_ex (\<lambda>p. matchesPattern p c) (declared_patterns s)) files"

datatype atom_operation = Op_Read | Op_Write | Op_Create

definition patterns_for :: "atom_spec \<Rightarrow> atom_operation \<Rightarrow> string list" where
  "patterns_for s op = (case op of Op_Read \<Rightarrow> as_read s | Op_Write \<Rightarrow> as_write s | Op_Create \<Rightarrow> as_create s)"

definition isOperationViolation :: "atom_spec \<Rightarrow> string \<Rightarrow> atom_operation \<Rightarrow> bool" where
  "isOperationViolation s file op = (case canonicalizePath file of Inl _ \<Rightarrow> True
     | Inr c \<Rightarrow> \<not> list_ex (\<lambda>p. matchesPattern p c) (patterns_for s op))"

definition checkForbiddenDependencies :: "atom_spec \<Rightarrow> string list \<Rightarrow> string list \<Rightarrow> string list" where
  "checkForbiddenDependencies s before after =
     filter (\<lambda>d. d \<in> set (as_forbidden s) \<or> ''new dependencies'' \<in> set (as_forbidden s))
       (filter (\<lambda>d. d \<notin> set before) after)"

section \<open>The validation gate\<close>

datatype validator_status = V_Pass | V_Fail | V_Not_Run

record validation_record =
  vl_validatorId :: string
  vl_status :: validator_status
  vl_exitCode :: "int option"
  vl_summary :: string
  vl_outputHash :: "string option"

record gate_artifacts =
  ga_artifactHash :: string
  ga_diffHash :: string
  ga_filesChanged :: "string list"
  ga_declaredArtifacts :: "string list"
  ga_evidence :: "validation_record list"

record gate_result =
  gt_pass :: bool
  gt_validators :: "validation_record list"
  gt_resourceViolation :: bool

definition gate_evidence :: "gate_artifacts \<Rightarrow> validation_record list" where
  "gate_evidence a = (if ga_evidence a = []
     then [\<lparr>vl_validatorId = ''validation-gate'', vl_status = V_Fail, vl_exitCode = None,
            vl_summary = ''No deterministic evidence recorded'', vl_outputHash = None\<rparr>]
     else ga_evidence a)"

definition validation_gate_run :: "atom_spec \<Rightarrow> gate_artifacts \<Rightarrow> gate_result" where
  "validation_gate_run atom a =
     (let evidence = gate_evidence a;
          hasFailure = list_ex (\<lambda>v. vl_status v = V_Fail) evidence;
          hasNotRun = list_ex (\<lambda>v. vl_status v = V_Not_Run) evidence;
          hasInvalidExit = list_ex (\<lambda>v. vl_status v = V_Pass \<and> vl_exitCode v \<noteq> None \<and> vl_exitCode v \<noteq> Some 0) evidence;
          violation = isResourceViolation atom (ga_filesChanged a) \<or> isResourceViolation atom (ga_declaredArtifacts a)
      in \<lparr>gt_pass = (\<not> (hasFailure \<or> hasNotRun \<or> hasInvalidExit \<or> violation)), gt_validators = evidence,
          gt_resourceViolation = violation\<rparr>)"

section \<open>The verifier\<close>

datatype verifier_verdict = V_ACCEPT | V_REJECT | V_REQUEST_CHANGES | V_INVALID

record criterion_result =
  cr_criterionId :: string
  cr_met :: bool
  cr_evidence :: "string list"

record verifier_result =
  vf_verdict :: verifier_verdict
  vf_criteria :: "criterion_result list"
  vf_scopeViolations :: "json list"
  vf_residualRisks :: "json list"
  vf_reasons :: "json list"

record verification_input =
  vi_atom :: atom_spec
  vi_specHash :: string
  vi_filesChanged :: "string list"
  vi_pass :: bool
  vi_validators :: "validation_record list"
  vi_customCriteria :: "(string \<times> bool) list option"

definition verdict_of :: "string \<Rightarrow> verifier_verdict" where
  "verdict_of s = (if s = ''ACCEPT'' then V_ACCEPT else if s = ''REJECT'' then V_REJECT
     else if s = ''REQUEST_CHANGES'' then V_REQUEST_CHANGES else V_INVALID)"

definition criterion_entry_checks :: "json \<Rightarrow> (bool \<times> string) list" where
  "criterion_entry_checks c =
     [(is_plain_object (Some c), ''Malformed verifier criterion''),
      (set (obj_keys c) \<subseteq> {''criterionId'', ''status'', ''evidence''}, ''Unknown verifier criterion field''),
      (jstr (jfield ''criterionId'' c) \<noteq> None \<and> show_value (jfield ''status'' c) \<in> {''MET'', ''NOT_MET''}
        \<and> jlist (jfield ''evidence'' c) \<noteq> None, ''Malformed verifier criterion''),
      (string_list (jfield ''evidence'' c), ''Malformed verifier evidence mapping'')]"

definition read_criterion_result :: "json \<Rightarrow> criterion_result" where
  "read_criterion_result c = \<lparr>cr_criterionId = the_str (jfield ''criterionId'' c),
     cr_met = (jfield ''status'' c = Some (JStr ''MET'')), cr_evidence = strings_of (jfield ''evidence'' c)\<rparr>"

definition verifier_parse :: "json \<Rightarrow> (string, verifier_result) res" where
  "verifier_parse j =
     (let known = [''verdict'', ''criteria'', ''scopeViolations'', ''residualRisks'', ''reasons''];
          raw = items_of (jfield ''criteria'' j); criteria = map read_criterion_result raw;
          accept = (jfield ''verdict'' j = Some (JStr ''ACCEPT'')) in
      rbind (run_checks ([(is_plain_object (Some j), ''Verifier output must be an object''),
         (case find (\<lambda>k. k \<notin> set known) (obj_keys j) of None \<Rightarrow> (True, []) | Some k \<Rightarrow> (k = [], ''Unknown verifier field: '' @ k)),
         (show_value (jfield ''verdict'' j) \<in> {''ACCEPT'', ''REJECT'', ''REQUEST_CHANGES''}, ''Unknown verifier verdict''),
         (list_all (\<lambda>k. jlist (jfield k j) \<noteq> None) [''criteria'', ''scopeViolations'', ''residualRisks'', ''reasons''],
          ''Verifier output criteria and reason arrays are required'')]
         @ concat (map criterion_entry_checks raw) @
         [(distinct (map cr_criterionId criteria), ''Duplicate verifier criterion''),
          (\<not> (accept \<and> criteria = []), ''ACCEPT verdict requires at least one criterion''),
          (\<not> (accept \<and> list_ex (\<lambda>c. \<not> cr_met c) criteria), ''ACCEPT contains unmet criterion'')]))
       (\<lambda>_. Inr \<lparr>vf_verdict = verdict_of (show_value (jfield ''verdict'' j)), vf_criteria = criteria,
          vf_scopeViolations = items_of (jfield ''scopeViolations'' j), vf_residualRisks = items_of (jfield ''residualRisks'' j),
          vf_reasons = items_of (jfield ''reasons'' j)\<rparr>))"

definition verdict_with :: "verifier_verdict \<Rightarrow> criterion_result list \<Rightarrow> string list \<Rightarrow> string \<Rightarrow> verifier_result" where
  "verdict_with v cs scope reason = \<lparr>vf_verdict = v, vf_criteria = cs, vf_scopeViolations = map JStr scope,
     vf_residualRisks = [], vf_reasons = [JStr reason]\<rparr>"

definition verifier_verify :: "(string \<Rightarrow> string) \<Rightarrow> verification_input \<Rightarrow> verifier_result" where
  "verifier_verify sha i =
     (if vi_specHash i \<noteq> computeSpecHash sha (vi_atom i)
      then verdict_with V_INVALID [] [] ''Spec hash mismatch: the provided specHash does not match the computed hash of the atom.''
      else let specs = as_success_criteria (vi_atom i);
               passing = filter (\<lambda>v. vl_status v = V_Pass) (vi_validators i);
               evidence = map (\<lambda>v. ''validator:'' @ vl_validatorId v) passing;
               criteria = map (\<lambda>c. \<lparr>cr_criterionId = sc_id c, cr_met = (passing \<noteq> []), cr_evidence = evidence\<rparr>) specs in
        if (case vi_customCriteria i of None \<Rightarrow> False
            | Some cs \<Rightarrow> list_ex (\<lambda>(k, _). \<not> list_ex (\<lambda>c. sc_id c = k) specs) cs)
        then verdict_with V_INVALID [] [''invented criterion''] ''Verifier returned a criterion not present in the original atom.''
        else if isResourceViolation (vi_atom i) (vi_filesChanged i)
        then verdict_with V_REJECT criteria [''undeclared resource touched''] ''The produced artifacts exceeded the declared resource manifest.''
        else if vi_validators i = []
        then verdict_with V_REJECT (map (\<lambda>c. \<lparr>cr_criterionId = sc_id c, cr_met = False, cr_evidence = []\<rparr>) specs) []
          ''No validation evidence provided to support acceptance.''
        else if \<not> vi_pass i then verdict_with V_REJECT criteria [] ''Deterministic validation did not pass.''
        else (case find (\<lambda>c. \<not> list_ex (\<lambda>r. cr_criterionId r = sc_id c) criteria) specs of
            Some c \<Rightarrow> verdict_with V_INVALID [] [] (''The verifier omitted '' @ sc_id c @ ''.'')
          | None \<Rightarrow> verdict_with V_ACCEPT criteria [] ''All mandatory success criteria are satisfied.''))"

section \<open>The deterministic producer\<close>

record producer_context =
  pc_artifacts :: "string list"
  pc_failure :: "string option"
  pc_priorConversation :: "string list"

record produced_artifact =
  pa_artifactHash :: string
  pa_diffHash :: string
  pa_filesChanged :: "string list"
  pa_declaredArtifacts :: "string list"
  pa_evidence :: "validation_record list option"

record producer_result =
  pr_atom_id :: string
  pr_spec_hash :: string
  pr_attempt_number :: int
  pr_producer_id :: string
  pr_provider :: string
  pr_model :: string
  pr_model_version :: string
  pr_started_at :: string
  pr_completed_at :: string
  pr_declared_output_artifacts :: "string list"
  pr_artifact :: produced_artifact
  pr_context :: producer_context
  pr_tokens :: int
  pr_cost :: int
  pr_costType :: string

definition mock_produce :: "(string \<Rightarrow> string) \<Rightarrow> int \<Rightarrow> int \<Rightarrow> atom_spec \<Rightarrow> producer_context \<Rightarrow> producer_result" where
  "mock_produce sha started completed atom ctx =
     \<lparr>pr_atom_id = as_id atom, pr_spec_hash = computeSpecHash sha atom, pr_attempt_number = 1,
      pr_producer_id = ''deterministic-mock'', pr_provider = ''local'', pr_model = ''mock-producer'', pr_model_version = ''v0.1'',
      pr_started_at = to_iso started, pr_completed_at = to_iso completed, pr_declared_output_artifacts = pc_artifacts ctx,
      pr_artifact = \<lparr>pa_artifactHash = sha (stringify (jstrs (pc_artifacts ctx))),
        pa_diffHash = sha (stringify (JStr (case pc_failure ctx of None \<Rightarrow> ''no-failure'' | Some f \<Rightarrow> f))),
        pa_filesChanged = pc_artifacts ctx, pa_declaredArtifacts = pc_artifacts ctx, pa_evidence = None\<rparr>,
      pr_context = \<lparr>pc_artifacts = pc_artifacts ctx, pc_failure = pc_failure ctx, pc_priorConversation = []\<rparr>,
      pr_tokens = 0, pr_cost = 0, pr_costType = ''measured''\<rparr>"

end
