(* ===== verification/Vad_Runtime.thy ===== *)
theory Vad_Runtime
  imports Vad_Core
begin

text \<open>
  \<open>packages/vad-runtime\<close>: the life of one atom. An operation that throws may have changed the state
  before it did, so an operation returns the state it leaves together with the error or the answer.
  Clock readings are arguments (milliseconds); a cost is the decimal the caller gave, sums of costs are exact.
\<close>

section \<open>The lifecycle\<close>

datatype lifecycle_state = CREATED | READY | PRODUCING | VALIDATING | RETRYING | VERIFYING | AWAITING_HUMAN
  | ACCEPTED | REJECTED | ESCALATED | LC_FAILED

record transition_record =
  tr_atomId :: string
  tr_fromState :: lifecycle_state
  tr_toState :: lifecycle_state
  tr_timestamp :: string
  tr_actor :: string
  tr_reason :: string
  tr_attemptId :: "string option"
  tr_specHash :: string

definition lifecycle_transitions :: "lifecycle_state \<Rightarrow> lifecycle_state list" where
  "lifecycle_transitions s = (case s of
       CREATED \<Rightarrow> [READY, LC_FAILED]
     | READY \<Rightarrow> [PRODUCING, LC_FAILED]
     | PRODUCING \<Rightarrow> [VALIDATING, LC_FAILED]
     | VALIDATING \<Rightarrow> [RETRYING, VERIFYING, AWAITING_HUMAN, ESCALATED, LC_FAILED]
     | RETRYING \<Rightarrow> [PRODUCING, ESCALATED, LC_FAILED]
     | VERIFYING \<Rightarrow> [AWAITING_HUMAN, REJECTED, LC_FAILED]
     | AWAITING_HUMAN \<Rightarrow> [ACCEPTED, REJECTED, ESCALATED]
     | ACCEPTED \<Rightarrow> [] | REJECTED \<Rightarrow> [] | ESCALATED \<Rightarrow> [] | LC_FAILED \<Rightarrow> [])"

definition lifecycle_name :: "lifecycle_state \<Rightarrow> string" where
  "lifecycle_name s = (case s of CREATED \<Rightarrow> ''CREATED'' | READY \<Rightarrow> ''READY'' | PRODUCING \<Rightarrow> ''PRODUCING''
     | VALIDATING \<Rightarrow> ''VALIDATING'' | RETRYING \<Rightarrow> ''RETRYING'' | VERIFYING \<Rightarrow> ''VERIFYING''
     | AWAITING_HUMAN \<Rightarrow> ''AWAITING_HUMAN'' | ACCEPTED \<Rightarrow> ''ACCEPTED'' | REJECTED \<Rightarrow> ''REJECTED''
     | ESCALATED \<Rightarrow> ''ESCALATED'' | LC_FAILED \<Rightarrow> ''FAILED'')"

record lifecycle =
  lc_spec :: atom_spec
  lc_atomId :: string
  lc_specHash :: string
  lc_history :: "transition_record list"
  lc_current :: lifecycle_state

definition new_lifecycle :: "(string \<Rightarrow> string) \<Rightarrow> atom_spec \<Rightarrow> lifecycle" where
  "new_lifecycle sha spec = \<lparr>lc_spec = spec, lc_atomId = as_id spec, lc_specHash = computeSpecHash sha spec,
     lc_history = [], lc_current = CREATED\<rparr>"

definition transition_to :: "(string \<Rightarrow> string) \<Rightarrow> int \<Rightarrow> lifecycle_state \<Rightarrow> string \<Rightarrow> string \<Rightarrow> string option \<Rightarrow> lifecycle
    \<Rightarrow> (string, lifecycle) res" where
  "transition_to sha now st reason actor attemptId lc =
     (if st \<notin> set (lifecycle_transitions (lc_current lc))
      then Inl (''Illegal lifecycle transition '' @ lifecycle_name (lc_current lc) @ '' -> '' @ lifecycle_name st)
      else if computeSpecHash sha (lc_spec lc) \<noteq> lc_specHash lc then Inl ''Spec hash mismatch after execution start''
      else if \<not> nonblank reason then Inl ''Transition reason is required''
      else Inr (lc\<lparr>lc_history := lc_history lc @ [\<lparr>tr_atomId = lc_atomId lc, tr_fromState = lc_current lc, tr_toState = st,
             tr_timestamp = to_iso now, tr_actor = actor, tr_reason = reason, tr_attemptId = attemptId,
             tr_specHash = lc_specHash lc\<rparr>],
           lc_current := st\<rparr>))"

section \<open>Budget and human decision\<close>

definition assertCanAttempt :: "atom_spec \<Rightarrow> int \<Rightarrow> rat \<Rightarrow> rat \<Rightarrow> (string, unit) res" where
  "assertCanAttempt spec attemptNumber cost elapsed = run_checks
     [(attemptNumber \<ge> 1, ''Invalid attempt number''),
      (cost \<ge> 0, ''Invalid cost value''),
      (elapsed \<ge> 0, ''Invalid runtime value''),
      (of_int attemptNumber \<le> num_val (as_max_attempts spec), ''Attempt limit exhausted''),
      (cost \<le> num_val (as_max_cost_usd spec), ''Cost limit exhausted''),
      (elapsed \<le> num_val (as_max_runtime_seconds spec), ''Runtime limit exhausted'')]"

datatype decision_kind = MERGE | HD_REJECT | OVERRIDE_ACCEPT | OVERRIDE_REJECT

record human_decision =
  hd_decision :: decision_kind
  hd_actor :: string
  hd_timestamp :: string
  hd_rationale :: "string option"
  hd_automatedOutcome :: string
  hd_specHash :: string

definition is_override :: "decision_kind \<Rightarrow> bool" where
  "is_override d = (case d of OVERRIDE_ACCEPT \<Rightarrow> True | OVERRIDE_REJECT \<Rightarrow> True | _ \<Rightarrow> False)"

definition validateHumanDecision :: "human_decision \<Rightarrow> (string, human_decision) res" where
  "validateHumanDecision d = rbind (run_checks
     [(nonblank (hd_actor d), ''Human decision actor is required''),
      (date_parse (hd_timestamp d) \<noteq> None, ''Human decision timestamp is required''),
      (\<not> (is_override (hd_decision d) \<and> (case hd_rationale d of None \<Rightarrow> True | Some r \<Rightarrow> \<not> nonblank r)), ''Override rationale is required''),
      (nonblank (hd_specHash d), ''Human decision spec hash is required'')]) (\<lambda>_. Inr d)"

definition human_decision_name :: "decision_kind \<Rightarrow> string" where
  "human_decision_name d = (case d of MERGE \<Rightarrow> ''MERGE'' | HD_REJECT \<Rightarrow> ''REJECT'' | OVERRIDE_ACCEPT \<Rightarrow> ''OVERRIDE_ACCEPT''
     | OVERRIDE_REJECT \<Rightarrow> ''OVERRIDE_REJECT'')"

definition decision_json :: "human_decision \<Rightarrow> json" where
  "decision_json d = JObj ([(''decision'', JStr (human_decision_name (hd_decision d))), (''actor'', JStr (hd_actor d)),
     (''timestamp'', JStr (hd_timestamp d))] @ opt_field ''rationale'' (map_option JStr (hd_rationale d))
     @ [(''automatedOutcome'', JStr (hd_automatedOutcome d)), (''specHash'', JStr (hd_specHash d))])"

section \<open>Final evidence\<close>

text \<open>The package: the named fields, and every further entry.\<close>

record final_package =
  fp_atomId :: string
  fp_specHash :: string
  fp_artifactHash :: string
  fp_finalState :: lifecycle_state
  fp_completedAt :: "string option"
  fp_more :: "(string \<times> json) list"

definition package_entries :: "final_package \<Rightarrow> (string \<times> json) list" where
  "package_entries p = [(''atomId'', JStr (fp_atomId p)), (''specHash'', JStr (fp_specHash p)),
     (''artifactHash'', JStr (fp_artifactHash p)), (''finalState'', JStr (lifecycle_name (fp_finalState p)))] @ fp_more p"

definition package_json :: "final_package \<Rightarrow> json" where
  "package_json p = JObj (package_entries p @ opt_field ''completedAt'' (map_option JStr (fp_completedAt p)))"

type_synonym package_store = "final_package table"

definition package_persist :: "bool \<Rightarrow> final_package \<Rightarrow> package_store \<Rightarrow> (string, package_store) res" where
  "package_persist failWrites p store =
     (if failWrites then Inl ''Evidence persistence failed''
      else (case st_get (fp_atomId p) store of
          Some old \<Rightarrow> if stringify (package_json old) \<noteq> stringify (package_json p) then Inl ''Conflicting final evidence''
                      else Inr (st_put (fp_atomId p) p store)
        | None \<Rightarrow> Inr (st_put (fp_atomId p) p store)))"

definition package_records :: "package_store \<Rightarrow> final_package list" where
  "package_records store = map snd store"

definition finalizeAcceptance :: "int \<Rightarrow> bool \<Rightarrow> string option \<Rightarrow> string option \<Rightarrow> final_package \<Rightarrow> package_store
    \<Rightarrow> (string, package_store \<times> final_package) res" where
  "finalizeAcceptance now failWrites expectedSpec expectedArtifact p store =
     (if (case expectedSpec of None \<Rightarrow> False | Some h \<Rightarrow> h \<noteq> [] \<and> h \<noteq> fp_specHash p) then Inl ''Spec hash mismatch''
      else if (case expectedArtifact of None \<Rightarrow> False | Some h \<Rightarrow> h \<noteq> [] \<and> h \<noteq> fp_artifactHash p) then Inl ''Artifact hash mismatch''
      else if fp_finalState p = ACCEPTED \<and> (fp_specHash p = [] \<or> fp_artifactHash p = []) then Inl ''Acceptance evidence is incomplete''
      else let complete = p\<lparr>fp_completedAt := Some (case fp_completedAt p of None \<Rightarrow> to_iso now | Some t \<Rightarrow> t)\<rparr>
           in rbind (package_persist failWrites complete store) (\<lambda>store'. Inr (store', complete)))"

section \<open>The file store\<close>

text \<open>A directory is a table from file names to the JSON value a file holds.\<close>

definition safe_char :: "char \<Rightarrow> char" where
  "safe_char c = (if is_alnum c \<or> c = CHR ''_'' \<or> c = CHR ''-'' then c else CHR ''_'')"

definition package_path :: "(string \<Rightarrow> string) \<Rightarrow> string \<Rightarrow> string" where
  "package_path sha atomId = take 64 (map safe_char atomId) @ ''-'' @ take 16 (sha atomId) @ ''.json''"

definition file_canonical :: "json \<Rightarrow> bool \<Rightarrow> string" where
  "file_canonical j strip = stringify (sortedEntries (case j of
       JObj kvs \<Rightarrow> if strip then JObj (filter (\<lambda>kv. fst kv \<noteq> ''completedAt'') kvs) else JObj kvs | _ \<Rightarrow> j))"

definition file_persist :: "(string \<Rightarrow> string) \<Rightarrow> int \<Rightarrow> json option \<Rightarrow> final_package \<Rightarrow> json table \<Rightarrow> json table \<times> (string, unit) res" where
  \<comment> \<open>\<open>between\<close>: what another writer put there after the first read and before the exclusive write\<close>
  "file_persist sha now between p files =
     (let target = package_path sha (fp_atomId p); strip = (fp_completedAt p = None);
          same = (\<lambda>j. file_canonical j strip = file_canonical (package_json p) strip);
          conflict = Inl ''Conflicting final evidence'' in
      case st_get target files of
        Some old \<Rightarrow> (files, if same old then Inr () else conflict)
      | None \<Rightarrow>
          (case between of
             None \<Rightarrow> (st_put target (package_json (p\<lparr>fp_completedAt := Some (case fp_completedAt p of None \<Rightarrow> to_iso now | Some t \<Rightarrow> t)\<rparr>)) files, Inr ())
           | Some other \<Rightarrow> (st_put target other files, if same other then Inr () else conflict)))"

section \<open>Executions\<close>

datatype execution_verdict = EV_ACCEPT | EV_REJECT

record attempt_result =
  ar_passed :: bool
  ar_artifactHash :: string
  ar_costUsd :: jnum

record attempt_record =
  at_attemptNumber :: int
  at_passed :: bool
  at_artifactHash :: string
  at_costUsd :: jnum
  at_startedAt :: string
  at_completedAt :: string

record vad_execution =
  ve_lifecycle :: lifecycle
  ve_events :: "string list"
  ve_attemptCount :: int
  ve_aggregateCostUsd :: rat
  ve_executionStartedAt :: "int option"
  ve_attempts :: "attempt_record list"
  ve_verifierVerdict :: "execution_verdict option"
  ve_latestArtifactHash :: "string option"

definition new_execution :: "(string \<Rightarrow> string) \<Rightarrow> atom_spec \<Rightarrow> vad_execution" where
  "new_execution sha spec = \<lparr>ve_lifecycle = new_lifecycle sha spec, ve_events = [''ATOM CREATED''], ve_attemptCount = 0,
     ve_aggregateCostUsd = 0, ve_executionStartedAt = None, ve_attempts = [], ve_verifierVerdict = None,
     ve_latestArtifactHash = None\<rparr>"

definition ve_spec :: "vad_execution \<Rightarrow> atom_spec" where
  "ve_spec x = lc_spec (ve_lifecycle x)"

definition emit :: "string list \<Rightarrow> vad_execution \<Rightarrow> vad_execution" where
  "emit es x = x\<lparr>ve_events := ve_events x @ es\<rparr>"

definition go :: "(string \<Rightarrow> string) \<Rightarrow> int \<Rightarrow> lifecycle_state \<Rightarrow> string \<Rightarrow> string \<Rightarrow> string option \<Rightarrow> vad_execution
    \<Rightarrow> (string, vad_execution) res" where
  "go sha now st reason actor attemptId x =
     rbind (transition_to sha now st reason actor attemptId (ve_lifecycle x)) (\<lambda>lc. Inr (x\<lparr>ve_lifecycle := lc\<rparr>))"

definition vad_ready :: "(string \<Rightarrow> string) \<Rightarrow> int \<Rightarrow> vad_execution \<Rightarrow> vad_execution \<times> (string, unit) res" where
  "vad_ready sha now x = (case go sha now READY ''atom spec accepted'' ''system'' None x of
       Inl e \<Rightarrow> (x, Inl e) | Inr x' \<Rightarrow> (emit [''ATOM READY''] x', Inr ()))"

definition attempt_label :: "int \<Rightarrow> string option" where
  "attempt_label n = Some (''attempt-'' @ show_int n)"

definition run_attempt :: "(string \<Rightarrow> string) \<Rightarrow> int \<Rightarrow> int \<Rightarrow> int \<Rightarrow> attempt_result \<Rightarrow> vad_execution \<Rightarrow> vad_execution \<times> (string, int) res" where
  \<comment> \<open>\<open>attempt\<close> after the budget check committed the attempt\<close>
  "run_attempt sha now completed n r x =
     (let a = attempt_label n in
      case go sha now PRODUCING (''producer attempt '' @ show_int n) ''system'' a x of Inl e \<Rightarrow> (x, Inl e) | Inr x1 \<Rightarrow>
      (let x2 = emit [''PRODUCER ATTEMPT '' @ show_int n] x1 in
       case go sha now VALIDATING ''producer completed'' ''system'' a x2 of Inl e \<Rightarrow> (x2, Inl e) | Inr x3 \<Rightarrow>
       (let x4 = x3\<lparr>ve_attempts := ve_attempts x3 @ [\<lparr>at_attemptNumber = n, at_passed = ar_passed r,
                 at_artifactHash = ar_artifactHash r, at_costUsd = ar_costUsd r, at_startedAt = to_iso now,
                 at_completedAt = to_iso completed\<rparr>],
               ve_latestArtifactHash := Some (ar_artifactHash r)\<rparr> in
        if ar_passed r
        then (let x5 = emit [''DETERMINISTIC GATE PASSED''] x4 in
          case go sha completed VERIFYING ''deterministic gate passed'' ''system'' a x5 of Inl e \<Rightarrow> (x5, Inl e) | Inr x6 \<Rightarrow> (x6, Inr n))
        else (let x5 = emit [''DETERMINISTIC GATE FAILED''] x4 in
          if of_int n \<ge> num_val (as_max_attempts (ve_spec x))
          then (case go sha completed ESCALATED ''retry limit reached'' ''system'' a x5 of Inl e \<Rightarrow> (x5, Inl e)
             | Inr x6 \<Rightarrow> (emit [''RETRY LIMIT REACHED'', ''ATOM ESCALATED''] x6, Inr n))
          else (case go sha completed RETRYING ''fresh retry required'' ''system'' a x5 of Inl e \<Rightarrow> (x5, Inl e)
             | Inr x6 \<Rightarrow> (emit [''FRESH RETRY CREATED''] x6, Inr n))))))"

definition vad_attempt :: "(string \<Rightarrow> string) \<Rightarrow> int \<Rightarrow> int \<Rightarrow> attempt_result \<Rightarrow> vad_execution \<Rightarrow> vad_execution \<times> (string, int) res" where
  "vad_attempt sha now completed r x =
     (if num_val (ar_costUsd r) < 0 then (x, Inl ''Invalid cost value'')
      else let n = ve_attemptCount x + 1;
               started = (case ve_executionStartedAt x of None \<Rightarrow> now | Some t \<Rightarrow> t);
               x0 = x\<lparr>ve_executionStartedAt := Some started\<rparr>;
               elapsed = of_int (now - started) / 1000;
               cost = ve_aggregateCostUsd x + num_val (ar_costUsd r) in
        (case assertCanAttempt (ve_spec x) n cost elapsed of Inl e \<Rightarrow> (x0, Inl e)
         | Inr _ \<Rightarrow> run_attempt sha now completed n r (x0\<lparr>ve_attemptCount := n, ve_aggregateCostUsd := cost\<rparr>)))"

definition currentElapsedSeconds :: "int \<Rightarrow> vad_execution \<Rightarrow> rat" where
  "currentElapsedSeconds now x = (case ve_executionStartedAt x of None \<Rightarrow> 0 | Some t \<Rightarrow> of_int (now - t) / 1000)"

definition vad_verify :: "(string \<Rightarrow> string) \<Rightarrow> int \<Rightarrow> execution_verdict \<Rightarrow> vad_execution \<Rightarrow> vad_execution \<times> (string, unit) res" where
  "vad_verify sha now v x =
     (if lc_current (ve_lifecycle x) \<noteq> VERIFYING then (x, Inl ''Verification requires VALIDATING success'')
      else let x1 = emit [if v = EV_ACCEPT then ''VERIFIER ACCEPTED'' else ''VERIFIER REJECTED''] (x\<lparr>ve_verifierVerdict := Some v\<rparr>) in
        (case go sha now AWAITING_HUMAN ''independent verifier completed'' ''system'' None x1 of
           Inl e \<Rightarrow> (x1, Inl e) | Inr x2 \<Rightarrow> (emit [''AWAITING HUMAN''] x2, Inr ())))"

definition attempt_json :: "attempt_record \<Rightarrow> json" where
  "attempt_json a = JObj [(''attemptNumber'', jint (at_attemptNumber a)), (''outcome'', JStr (if at_passed a then ''PASS'' else ''FAIL'')),
     (''artifactHash'', JStr (at_artifactHash a)), (''costUsd'', JNum (at_costUsd a)),
     (''startedAt'', JStr (at_startedAt a)), (''completedAt'', JStr (at_completedAt a))]"

definition is_acceptance :: "decision_kind \<Rightarrow> bool" where
  "is_acceptance d = (d = MERGE \<or> d = OVERRIDE_ACCEPT)"

definition final_package_of :: "vad_execution \<Rightarrow> human_decision \<Rightarrow> string \<Rightarrow> execution_verdict \<Rightarrow> final_package" where
  "final_package_of x d artifact v =
     \<lparr>fp_atomId = as_id (ve_spec x), fp_specHash = lc_specHash (ve_lifecycle x), fp_artifactHash = artifact,
      fp_finalState = (if is_acceptance (hd_decision d) then ACCEPTED else REJECTED), fp_completedAt = None,
      fp_more = [(''attempts'', JArr (map attempt_json (ve_attempts x))), (''humanDecision'', decision_json d),
        (''verifierVerdict'', JStr (case v of EV_ACCEPT \<Rightarrow> ''ACCEPT'' | EV_REJECT \<Rightarrow> ''REJECT''))]\<rparr>"

definition decide_checks :: "human_decision \<Rightarrow> vad_execution \<Rightarrow> (string, string \<times> execution_verdict) res" where
  \<comment> \<open>everything \<open>decide\<close> refuses before it persists\<close>
  "decide_checks d x =
     (if lc_current (ve_lifecycle x) \<noteq> AWAITING_HUMAN then Inl ''Human decision requires verifier completion''
      else (case (ve_latestArtifactHash x, ve_verifierVerdict x) of
          (Some artifact, Some v) \<Rightarrow>
            if artifact = [] then Inl ''Final evidence is incomplete''
            else rbind (validateHumanDecision d) (\<lambda>w.
              if hd_specHash w \<noteq> lc_specHash (ve_lifecycle x) then Inl ''Human decision spec hash mismatch''
              else if is_acceptance (hd_decision w) \<and> v \<noteq> EV_ACCEPT then Inl ''Human acceptance conflicts with verifier rejection''
              else if \<not> is_acceptance (hd_decision w) \<and> v \<noteq> EV_REJECT then Inl ''Human rejection conflicts with verifier acceptance''
              else Inr (artifact, v))
        | _ \<Rightarrow> Inl ''Final evidence is incomplete''))"

definition vad_decide :: "(string \<Rightarrow> string) \<Rightarrow> int \<Rightarrow> bool \<Rightarrow> human_decision \<Rightarrow> vad_execution \<times> package_store
    \<Rightarrow> (vad_execution \<times> package_store) \<times> (string, final_package) res" where
  "vad_decide sha now failWrites d xs = (let (x, store) = xs in
     case decide_checks d x of Inl e \<Rightarrow> (xs, Inl e)
     | Inr (artifact, v) \<Rightarrow>
        (let p = final_package_of x d artifact v in
         case finalizeAcceptance now failWrites None None p store of Inl e \<Rightarrow> (xs, Inl e)
         | Inr (store', evidence) \<Rightarrow>
            (let x1 = emit [''HUMAN DECISION RECORDED'', ''EVIDENCE PACKAGE PERSISTED'', ''EVIDENCE INTEGRITY VERIFIED''] x in
             case go sha now (fp_finalState p) ''final evidence persisted'' (hd_actor d) None x1 of
               Inl e \<Rightarrow> ((x1, store'), Inl e)
             | Inr x2 \<Rightarrow> ((emit [if is_acceptance (hd_decision d) then ''ATOM ACCEPTED'' else ''ATOM REJECTED''] x2, store'), Inr evidence))))"

section \<open>The registry of active runs\<close>

definition run_acquire :: "string \<Rightarrow> string list \<Rightarrow> (string, string list) res" where
  "run_acquire i active = (if i \<in> set active then Inl ''Active run already exists'' else Inr (active @ [i]))"

definition run_release :: "string \<Rightarrow> string list \<Rightarrow> string list" where
  "run_release i active = filter (\<lambda>j. j \<noteq> i) active"

end
