(* ===== verification/Transition_Table.thy ===== *)
theory Transition_Table
  imports Main
begin

text \<open>
  State machines given by a table of allowed next states: the interface that the lifecycle of an atom, a
  platform action, a client tenant and an improvement generation share. A recorded history is a path of the
  table; a state without successors ends it.
\<close>

fun table_path :: "('s \<Rightarrow> 's list) \<Rightarrow> 's \<Rightarrow> 's list \<Rightarrow> bool" where
  "table_path nxt s [] = True"
| "table_path nxt s (t # ts) = (t \<in> set (nxt s) \<and> table_path nxt t ts)"

fun path_end :: "'s \<Rightarrow> 's list \<Rightarrow> 's" where
  "path_end s [] = s"
| "path_end s (t # ts) = path_end t ts"

lemma path_end_snoc [simp]: "path_end s (ts @ [t]) = t"
  by (induction ts arbitrary: s) simp_all

lemma table_path_append: "table_path nxt s (as @ bs) \<longleftrightarrow> table_path nxt s as \<and> table_path nxt (path_end s as) bs"
  by (induction as arbitrary: s) simp_all

locale transition_table =
  fixes nxt :: "'s \<Rightarrow> 's list"
    and terminal :: "'s \<Rightarrow> bool"
  assumes terminal_stuck: "terminal s \<Longrightarrow> nxt s = []"
begin

lemma terminal_path: "terminal s \<Longrightarrow> table_path nxt s ts \<Longrightarrow> ts = []"
  by (cases ts) (simp_all add: terminal_stuck)

lemma terminal_last: "table_path nxt s (as @ t # bs) \<Longrightarrow> terminal t \<Longrightarrow> bs = []"
  using terminal_path [of t bs] by (simp add: table_path_append)

lemma step_not_terminal: "t \<in> set (nxt s) \<Longrightarrow> \<not> terminal s"
  using terminal_stuck by fastforce

text \<open>A rank that never decreases along the table never decreases along a history.\<close>

lemma rank_path:
  assumes "\<And>s t. t \<in> set (nxt s) \<Longrightarrow> (rank s :: nat) \<le> rank t" "table_path nxt s ts"
  shows "rank s \<le> rank (path_end s ts)"
  using assms(2) by (induction ts arbitrary: s) (auto dest: assms(1) intro: le_trans)

end

end
