(* ===== verification/Vad_Invariant.thy ===== *)
theory Vad_Invariant
  imports Vad_Runtime Transition_Table
begin

text \<open>
  What every operation of a VAD execution keeps: its history is a path of the lifecycle table, attempts and
  costs are counted, and what was verified and approved stays on file.
\<close>

section \<open>Strings\<close>

lemma nonblank_iff: "nonblank s \<longleftrightarrow> (\<exists>c \<in> set s. \<not> is_space c)"
  by (auto simp: nonblank_def str_trim_def dropWhile_eq_Nil_conv dest: set_dropWhileD)
    (metis (no_types) dropWhile_eq_Nil_conv hd_dropWhile hd_in_set set_dropWhileD)+

lemma nonblank_Cons: "\<not> is_space c \<Longrightarrow> nonblank (c # s)"
  by (simp add: nonblank_iff)

section \<open>The lifecycle is a transition table\<close>

definition lifecycle_terminal :: "lifecycle_state \<Rightarrow> bool" where
  "lifecycle_terminal s = (s \<in> {ACCEPTED, REJECTED, ESCALATED, LC_FAILED})"

interpretation vad: transition_table lifecycle_transitions lifecycle_terminal
proof
  fix s assume "lifecycle_terminal s"
  then show "lifecycle_transitions s = []"
    by (cases s) (simp_all add: lifecycle_terminal_def lifecycle_transitions_def)
qed

lemma go_Inr:
  "go sha now st reason actor a x = Inr y \<longleftrightarrow> st \<in> set (lifecycle_transitions (lc_current (ve_lifecycle x)))
     \<and> computeSpecHash sha (ve_spec x) = lc_specHash (ve_lifecycle x) \<and> nonblank reason
     \<and> y = x\<lparr>ve_lifecycle := (ve_lifecycle x)\<lparr>lc_history := lc_history (ve_lifecycle x) @
           [\<lparr>tr_atomId = lc_atomId (ve_lifecycle x), tr_fromState = lc_current (ve_lifecycle x), tr_toState = st,
             tr_timestamp = to_iso now, tr_actor = actor, tr_reason = reason, tr_attemptId = a,
             tr_specHash = lc_specHash (ve_lifecycle x)\<rparr>], lc_current := st\<rparr>\<rparr>"
  by (auto simp: go_def transition_to_def ve_spec_def)

text \<open>What a successful step does to the fields the invariant reads.\<close>

definition tracked :: "vad_execution \<Rightarrow> bool" where
  \<comment> \<open>the history is a path of the table from CREATED to the current state\<close>
  "tracked x = (table_path lifecycle_transitions CREATED (map tr_toState (lc_history (ve_lifecycle x)))
     \<and> path_end CREATED (map tr_toState (lc_history (ve_lifecycle x))) = lc_current (ve_lifecycle x))"

lemma go_step:
  assumes "go sha now st reason actor a x = Inr y"
  shows "lc_current (ve_lifecycle y) = st" "ve_spec y = ve_spec x" "lc_specHash (ve_lifecycle y) = lc_specHash (ve_lifecycle x)"
    "ve_attempts y = ve_attempts x" "ve_attemptCount y = ve_attemptCount x" "ve_aggregateCostUsd y = ve_aggregateCostUsd x"
    "ve_verifierVerdict y = ve_verifierVerdict x" "ve_latestArtifactHash y = ve_latestArtifactHash x"
    "tracked x \<Longrightarrow> tracked y" "st \<in> set (lifecycle_transitions (lc_current (ve_lifecycle x)))"
  using assms by (auto simp: go_Inr ve_spec_def tracked_def table_path_append)

lemma emit_fields [simp]:
  "ve_lifecycle (emit es x) = ve_lifecycle x" "ve_spec (emit es x) = ve_spec x" "ve_attempts (emit es x) = ve_attempts x"
  "ve_attemptCount (emit es x) = ve_attemptCount x" "ve_aggregateCostUsd (emit es x) = ve_aggregateCostUsd x"
  "ve_verifierVerdict (emit es x) = ve_verifierVerdict x" "ve_latestArtifactHash (emit es x) = ve_latestArtifactHash x"
  "tracked (emit es x) = tracked x"
  by (simp_all add: emit_def ve_spec_def tracked_def)

section \<open>The invariant of an execution\<close>

definition last_passed :: "vad_execution \<Rightarrow> bool" where
  "last_passed x = (\<exists>as a. ve_attempts x = as @ [a] \<and> at_passed a \<and> ve_latestArtifactHash x = Some (at_artifactHash a))"

definition persisted :: "(string \<Rightarrow> string) \<Rightarrow> atom_spec \<Rightarrow> lifecycle_state \<Rightarrow> vad_execution \<Rightarrow> package_store \<Rightarrow> bool" where
  "persisted sha spec st x store = (\<exists>p. st_get (as_id spec) store = Some p \<and> fp_finalState p = st
     \<and> fp_specHash p = computeSpecHash sha spec \<and> Some (fp_artifactHash p) = ve_latestArtifactHash x)"

definition stage_inv :: "(string \<Rightarrow> string) \<Rightarrow> atom_spec \<Rightarrow> vad_execution \<Rightarrow> package_store \<Rightarrow> bool" where
  "stage_inv sha spec x store = (case lc_current (ve_lifecycle x) of
       VERIFYING \<Rightarrow> last_passed x
     | AWAITING_HUMAN \<Rightarrow> last_passed x \<and> ve_verifierVerdict x \<noteq> None
     | ACCEPTED \<Rightarrow> last_passed x \<and> ve_verifierVerdict x = Some EV_ACCEPT \<and> persisted sha spec ACCEPTED x store
     | REJECTED \<Rightarrow> last_passed x \<and> ve_verifierVerdict x = Some EV_REJECT \<and> persisted sha spec REJECTED x store
     | _ \<Rightarrow> True)"

definition budget_inv :: "atom_spec \<Rightarrow> vad_execution \<Rightarrow> bool" where
  "budget_inv spec x = (int (length (ve_attempts x)) \<le> ve_attemptCount x
     \<and> sum_list (map (\<lambda>a. num_val (at_costUsd a)) (ve_attempts x)) \<le> ve_aggregateCostUsd x
     \<and> of_int (ve_attemptCount x) \<le> max 0 (num_val (as_max_attempts spec))
     \<and> ve_aggregateCostUsd x \<le> max 0 (num_val (as_max_cost_usd spec)))"

definition vad_inv :: "(string \<Rightarrow> string) \<Rightarrow> atom_spec \<Rightarrow> vad_execution \<Rightarrow> package_store \<Rightarrow> bool" where
  "vad_inv sha spec x store = (ve_spec x = spec \<and> lc_specHash (ve_lifecycle x) = computeSpecHash sha spec
     \<and> tracked x \<and> budget_inv spec x \<and> stage_inv sha spec x store)"

lemma vad_inv_new: "vad_inv sha spec (new_execution sha spec) store"
  by (simp add: vad_inv_def new_execution_def new_lifecycle_def ve_spec_def tracked_def budget_inv_def stage_inv_def)

lemma vad_inv_ready:
  assumes "vad_inv sha spec x store" shows "vad_inv sha spec (fst (vad_ready sha now x)) store"
proof (cases "go sha now READY ''atom spec accepted'' ''system'' None x")
  case (Inr y)
  note g = go_step [OF Inr]
  show ?thesis
    using assms g by (simp add: vad_ready_def Inr vad_inv_def budget_inv_def stage_inv_def)
qed (use assms in \<open>simp add: vad_ready_def\<close>)

lemma vad_inv_verify:
  assumes "vad_inv sha spec x store" shows "vad_inv sha spec (fst (vad_verify sha now v x)) store"
proof (cases "lc_current (ve_lifecycle x) = VERIFYING")
  case True
  let ?x1 = "emit [if v = EV_ACCEPT then ''VERIFIER ACCEPTED'' else ''VERIFIER REJECTED''] (x\<lparr>ve_verifierVerdict := Some v\<rparr>)"
  have x1: "vad_inv sha spec ?x1 store"
    using assms True by (simp add: vad_inv_def budget_inv_def stage_inv_def last_passed_def ve_spec_def tracked_def emit_def)
  show ?thesis
  proof (cases "go sha now AWAITING_HUMAN ''independent verifier completed'' ''system'' None ?x1")
    case (Inr y)
    note g = go_step [OF Inr]
    have "last_passed ?x1" "ve_verifierVerdict ?x1 = Some v"
      using assms True by (simp_all add: vad_inv_def stage_inv_def last_passed_def emit_def)
    then have "stage_inv sha spec y store"
      using g by (simp add: stage_inv_def last_passed_def)
    then show ?thesis
      using True Inr x1 g by (simp add: vad_verify_def Let_def vad_inv_def budget_inv_def stage_inv_def last_passed_def)
  qed (use True x1 in \<open>simp add: vad_verify_def Let_def\<close>)
qed (use assms in \<open>simp add: vad_verify_def\<close>)

lemma emit_inv [simp]:
  "stage_inv sha spec (emit es x) store = stage_inv sha spec x store" "budget_inv spec (emit es x) = budget_inv spec x"
  by (simp_all add: stage_inv_def budget_inv_def last_passed_def persisted_def cong: lifecycle_state.case_cong)

text \<open>An attempt either changes nothing beyond the counters or runs to the end.\<close>

lemma run_attempt_inv:
  assumes inv: "ve_spec x = spec" "lc_specHash (ve_lifecycle x) = computeSpecHash sha spec" "tracked x"
    "stage_inv sha spec x store"
    and cnt: "int (length (ve_attempts x)) + 1 \<le> ve_attemptCount x"
      "sum_list (map (\<lambda>a. num_val (at_costUsd a)) (ve_attempts x)) + num_val (ar_costUsd r) \<le> ve_aggregateCostUsd x"
      "0 \<le> num_val (ar_costUsd r)" "of_int (ve_attemptCount x) \<le> max 0 (num_val (as_max_attempts spec))"
      "ve_aggregateCostUsd x \<le> max 0 (num_val (as_max_cost_usd spec))"
  shows "vad_inv sha spec (fst (run_attempt sha now completed n r x)) store"
proof (cases "go sha now PRODUCING (''producer attempt '' @ show_int n) ''system'' (attempt_label n) x")
  case (Inl e)
  then show ?thesis
    using assms by (simp add: run_attempt_def Let_def vad_inv_def budget_inv_def)
next
  case (Inr x1)
  note g1 = go_step [OF Inr]
  let ?x2 = "emit [''PRODUCER ATTEMPT '' @ show_int n] x1"
  have nb: "nonblank ''producer completed''" "nonblank ''deterministic gate passed''" "nonblank ''retry limit reached''"
    "nonblank ''fresh retry required''"
    by (simp_all add: nonblank_iff is_space_def)
  have h: "computeSpecHash sha (ve_spec y) = lc_specHash (ve_lifecycle y)" if "ve_spec y = spec"
      "lc_specHash (ve_lifecycle y) = lc_specHash (ve_lifecycle x)" for y
    using that inv(2) by simp
  obtain x3 where x3: "go sha now VALIDATING ''producer completed'' ''system'' (attempt_label n) ?x2 = Inr x3"
    using g1 nb inv h [of x1] unfolding go_Inr by (simp add: lifecycle_transitions_def)
  note g3 = go_step [OF x3]
  let ?a = "\<lparr>at_attemptNumber = n, at_passed = ar_passed r, at_artifactHash = ar_artifactHash r, at_costUsd = ar_costUsd r,
     at_startedAt = to_iso now, at_completedAt = to_iso completed\<rparr>"
  let ?x4 = "x3\<lparr>ve_attempts := ve_attempts x3 @ [?a], ve_latestArtifactHash := Some (ar_artifactHash r)\<rparr>"
  have x4: "lc_current (ve_lifecycle ?x4) = VALIDATING" "ve_spec ?x4 = spec"
    "lc_specHash (ve_lifecycle ?x4) = computeSpecHash sha spec" "tracked ?x4" "budget_inv spec ?x4"
    using g1 g3 inv cnt by (simp_all add: ve_spec_def tracked_def budget_inv_def)
  have fin: "vad_inv sha spec z store"
    if z: "go sha completed st why ''system'' (attempt_label n) (emit es ?x4) = Inr y" "z = emit es' y"
      and st: "st \<in> {ESCALATED, RETRYING} \<or> (st = VERIFYING \<and> ar_passed r)" for st why es es' y z
  proof -
    note g = go_step [OF z(1)]
    have "stage_inv sha spec y store"
      using st g(1,4,8) by (auto simp: stage_inv_def last_passed_def)
    then show ?thesis
      using g x4 z(2) by (simp add: vad_inv_def) (simp add: budget_inv_def)
  qed
  have can: "\<exists>y. go sha completed st why ''system'' (attempt_label n) (emit es ?x4) = Inr y"
    if "st \<in> {ESCALATED, RETRYING, VERIFYING}" "nonblank why" for st why es
    using that x4 unfolding go_Inr by (auto simp: lifecycle_transitions_def)
  obtain y1 where y1: "go sha completed VERIFYING ''deterministic gate passed'' ''system'' (attempt_label n) (emit [''DETERMINISTIC GATE PASSED''] ?x4) = Inr y1"
    using can [of VERIFYING "''deterministic gate passed''" "[''DETERMINISTIC GATE PASSED'']"] nb by (simp, elim exE)
  obtain y2 where y2: "go sha completed ESCALATED ''retry limit reached'' ''system'' (attempt_label n) (emit [''DETERMINISTIC GATE FAILED''] ?x4) = Inr y2"
    using can [of ESCALATED "''retry limit reached''" "[''DETERMINISTIC GATE FAILED'']"] nb by (simp, elim exE)
  obtain y3 where y3: "go sha completed RETRYING ''fresh retry required'' ''system'' (attempt_label n) (emit [''DETERMINISTIC GATE FAILED''] ?x4) = Inr y3"
    using can [of RETRYING "''fresh retry required''" "[''DETERMINISTIC GATE FAILED'']"] nb by (simp, elim exE)
  have "ar_passed r \<Longrightarrow> vad_inv sha spec (emit [] y1) store"
    by (rule fin [OF y1 refl]) simp
  then have w1: "ar_passed r \<Longrightarrow> vad_inv sha spec y1 store"
    by (simp add: emit_def)
  have w2: "vad_inv sha spec (emit es y2) store" and w3: "vad_inv sha spec (emit es y3) store" for es
    by (rule fin [OF y2 refl] fin [OF y3 refl], simp)+
  show ?thesis
    unfolding run_attempt_def Let_def Inr sum.case x3 y1 y2 y3 by (simp add: w1 w2 w3)
qed

text \<open>The start of the clock and the counters are not read by the stage invariant.\<close>

lemma started_fields:
  "stage_inv sha spec (x\<lparr>ve_executionStartedAt := t\<rparr>) store = stage_inv sha spec x store"
  "tracked (x\<lparr>ve_executionStartedAt := t\<rparr>) = tracked x" "ve_spec (x\<lparr>ve_executionStartedAt := t\<rparr>) = ve_spec x"
  "budget_inv spec (x\<lparr>ve_executionStartedAt := t\<rparr>) = budget_inv spec x"
  by (simp_all add: stage_inv_def tracked_def ve_spec_def budget_inv_def last_passed_def persisted_def cong: lifecycle_state.case_cong)

lemma charged_fields:
  "stage_inv sha spec (x\<lparr>ve_attemptCount := n, ve_aggregateCostUsd := c\<rparr>) store = stage_inv sha spec x store"
  "tracked (x\<lparr>ve_attemptCount := n, ve_aggregateCostUsd := c\<rparr>) = tracked x"
  "ve_spec (x\<lparr>ve_attemptCount := n, ve_aggregateCostUsd := c\<rparr>) = ve_spec x"
  by (simp_all add: stage_inv_def tracked_def ve_spec_def last_passed_def persisted_def cong: lifecycle_state.case_cong)

lemma vad_inv_attempt:
  assumes inv: "vad_inv sha spec x store" shows "vad_inv sha spec (fst (vad_attempt sha now completed r x)) store"
proof (cases "num_val (ar_costUsd r) < 0")
  case False
  define started where "started = (case ve_executionStartedAt x of None \<Rightarrow> now | Some t \<Rightarrow> t)"
  define x0 where "x0 = x\<lparr>ve_executionStartedAt := Some started\<rparr>"
  define n where "n = ve_attemptCount x + 1"
  define cost where "cost = ve_aggregateCostUsd x + num_val (ar_costUsd r)"
  have x0: "vad_inv sha spec x0 store"
    using inv by (simp add: vad_inv_def x0_def started_fields)
  have step: "fst (vad_attempt sha now completed r x) = (case assertCanAttempt spec n cost (of_int (now - started) / 1000) of
      Inl e \<Rightarrow> x0 | Inr _ \<Rightarrow> fst (run_attempt sha now completed n r (x0\<lparr>ve_attemptCount := n, ve_aggregateCostUsd := cost\<rparr>)))"
    using False inv by (simp add: vad_attempt_def Let_def started_def x0_def n_def cost_def vad_inv_def split: sum.split)
  show ?thesis
  proof (cases "assertCanAttempt spec n cost (of_int (now - started) / 1000)")
    case (Inl e)
    then show ?thesis using step x0 by simp
  next
    case (Inr u)
    then have ok: "of_int n \<le> num_val (as_max_attempts spec)" "cost \<le> num_val (as_max_cost_usd spec)"
      by (simp_all add: assertCanAttempt_def split: if_splits)
    have "budget_inv spec x0" "stage_inv sha spec x0 store" "tracked x0" "ve_spec x0 = spec"
      "lc_specHash (ve_lifecycle x0) = computeSpecHash sha spec"
      using x0 by (simp_all add: vad_inv_def)
    then have "vad_inv sha spec (fst (run_attempt sha now completed n r (x0\<lparr>ve_attemptCount := n, ve_aggregateCostUsd := cost\<rparr>))) store"
      using ok False by (intro run_attempt_inv) (simp_all add: charged_fields, simp_all add: budget_inv_def n_def cost_def x0_def)
    then show ?thesis using step Inr by simp
  qed
qed (use inv in \<open>simp add: vad_attempt_def\<close>)

end
