(* ===== verification/Vad_Core_Properties.thy ===== *)
theory Vad_Core_Properties
  imports Vad_Core
begin

text \<open>
  What the core of VAD promises: no path leaves the declared resources, a pattern means its regular
  expression, a specification read back from its own JSON is the same, its hash binds it, and the
  verifier accepts only on evidence.
\<close>

section \<open>A concrete atom\<close>

definition demo_atom_json :: json where
  "demo_atom_json = JObj [(''version'', JStr ''1.0''), (''atom'', JObj [(''id'', JStr ''atom-1''), (''title'', JStr ''t'')]),
     (''goal'', JStr ''g''), (''success_criteria'', JArr [JObj [(''id'', JStr ''c1''), (''description'', JStr ''d''),
        (''validation'', JStr ''deterministic'')]]), (''risk'', JObj [(''level'', JStr ''low'')]),
     (''resources'', JObj [(''read'', jstrs [''docs/*.md'']), (''write'', jstrs [''src/**'']), (''create'', jstrs [])]),
     (''constraints'', JObj [(''forbidden'', jstrs [''new dependencies''])]),
     (''limits'', JObj [(''max_attempts'', jint 2), (''max_runtime_seconds'', jint 60), (''max_cost_usd'', jint 1)])]"

definition demo_atom :: atom_spec where
  "demo_atom = \<lparr>as_id = ''atom-1'', as_title = ''t'', as_goal = ''g'',
     as_success_criteria = [\<lparr>sc_id = ''c1'', sc_description = ''d'', sc_validation = ''deterministic''\<rparr>], as_risk_level = ''low'',
     as_read = [''docs/*.md''], as_write = [''src/**''], as_create = [], as_forbidden = [''new dependencies''],
     as_max_attempts = Dec 2 0, as_max_runtime_seconds = Dec 60 0, as_max_cost_usd = Dec 1 0\<rparr>"

definition demo_digest :: "string \<Rightarrow> string" where
  "demo_digest s = ''d''"

lemma demo_atom_reads: "finalizeAtomSpec demo_atom_json = Inr demo_atom"
  by code_simp

lemma demo_spec_digest [simp]: "computeSpecHash demo_digest s = ''d''"
  by (simp add: computeSpecHash_def demo_digest_def)

section \<open>Specifications\<close>

lemma finalized_iff: "finalizeAtomSpec j = Inr spec \<longleftrightarrow> (\<forall>c \<in> set (spec_checks j). fst c) \<and> spec = read_spec j"
  by (auto simp: finalizeAtomSpec_def rbind_eq_Inr)

lemma finalized_limits:
  assumes "finalizeAtomSpec j = Inr spec"
  shows "0 < num_val (as_max_attempts spec)" "0 < num_val (as_max_cost_usd spec)" "0 < num_val (as_max_runtime_seconds spec)"
    "is_integer (as_max_attempts spec)"
proof -
  have "positive_integer (jfield ''max_attempts'' (the_obj (jfield ''limits'' j)))"
    "positive_number (jfield ''max_runtime_seconds'' (the_obj (jfield ''limits'' j)))"
    "positive_number (jfield ''max_cost_usd'' (the_obj (jfield ''limits'' j)))" and s: "spec = read_spec j"
    using assms by (simp_all add: finalized_iff spec_checks_def Let_def)
  then show "0 < num_val (as_max_attempts spec)" "0 < num_val (as_max_cost_usd spec)" "0 < num_val (as_max_runtime_seconds spec)"
    "is_integer (as_max_attempts spec)"
    by (auto simp: positive_integer_def positive_number_def read_spec_def Let_def split: option.splits)
qed


lemma sortedEntries_canonical: "stringify (sortedEntries j) = canonical j"
proof (induction j rule: sortedEntries.induct)
  case (2 kvs)
  have "map (\<lambda>(k, v). json_field k (stringify v)) (sort_key fst (map (\<lambda>(k, v). (k, sortedEntries v)) kvs))
    = map (\<lambda>(k, v). json_field k (canonical v)) (sort_key fst kvs)"
    unfolding sort_key_map_snd using 2 by (auto simp: split_beta)
  moreover have "map (\<lambda>(k, t). json_field k t) (sort_key fst (map (\<lambda>(k, v). (k, canonical v)) kvs))
    = map (\<lambda>(k, v). json_field k (canonical v)) (sort_key fst kvs)"
    unfolding sort_key_map_snd by auto
  ultimately show ?case by simp
qed (auto cong: map_cong)

text \<open>The specification hash of VAD, which sorts the keys and then prints, is the canonical hash
  the gate and the ledger use, of the same JSON.\<close>

theorem spec_hash_is_canonical: "computeSpecHash sha s = hash_json sha (spec_json s)"
  by (simp add: computeSpecHash_def canonicalizeSpec_def hash_json_def sortedEntries_canonical)


lemma spec_json_binds:
  assumes "normal (spec_json s) = normal (spec_json t)"
  shows "as_id s = as_id t" "as_title s = as_title t" "as_goal s = as_goal t" "as_risk_level s = as_risk_level t"
    "as_success_criteria s = as_success_criteria t" "as_read s = as_read t" "as_write s = as_write t"
    "as_create s = as_create t" "as_forbidden s = as_forbidden t"
    "num_val (as_max_attempts s) = num_val (as_max_attempts t)"
    "num_val (as_max_runtime_seconds s) = num_val (as_max_runtime_seconds t)"
    "num_val (as_max_cost_usd s) = num_val (as_max_cost_usd t)"
proof -
  have crit: "map (normal \<circ> criterion_json) cs = map (normal \<circ> criterion_json) ds \<Longrightarrow> cs = ds" for cs ds
    by (rule map_injective [of "normal \<circ> criterion_json"]) (auto intro!: injI simp: criterion_json_def)
  have num: "norm_num a = norm_num b \<Longrightarrow> num_val a = num_val b" for a b
    by (metis num_val_norm)
  have eqs: "as_id s = as_id t \<and> as_title s = as_title t \<and> as_goal s = as_goal t \<and> as_risk_level s = as_risk_level t
    \<and> map (normal \<circ> criterion_json) (as_success_criteria s) = map (normal \<circ> criterion_json) (as_success_criteria t)
    \<and> as_read s = as_read t \<and> as_write s = as_write t \<and> as_create s = as_create t \<and> as_forbidden s = as_forbidden t
    \<and> norm_num (as_max_attempts s) = norm_num (as_max_attempts t)
    \<and> norm_num (as_max_runtime_seconds s) = norm_num (as_max_runtime_seconds t)
    \<and> norm_num (as_max_cost_usd s) = norm_num (as_max_cost_usd t)"
    using assms by (simp add: spec_json_def comp_def)
  show "as_id s = as_id t" "as_title s = as_title t" "as_goal s = as_goal t" "as_risk_level s = as_risk_level t"
    "as_success_criteria s = as_success_criteria t" "as_read s = as_read t" "as_write s = as_write t"
    "as_create s = as_create t" "as_forbidden s = as_forbidden t"
    "num_val (as_max_attempts s) = num_val (as_max_attempts t)"
    "num_val (as_max_runtime_seconds s) = num_val (as_max_runtime_seconds t)"
    "num_val (as_max_cost_usd s) = num_val (as_max_cost_usd t)"
    using eqs by (blast intro: crit num)+
qed

text \<open>The specification hash binds what an execution may do: two specifications with the same hash
  under a digest injective on their two texts declare the same resources, prohibitions and budget.\<close>

theorem spec_hash_binds:
  assumes "computeSpecHash sha s = computeSpecHash sha t" "inj_on sha {canonical (spec_json s), canonical (spec_json t)}"
  shows "as_id s = as_id t \<and> as_goal s = as_goal t \<and> as_success_criteria s = as_success_criteria t
     \<and> declared_patterns s = declared_patterns t \<and> as_forbidden s = as_forbidden t
     \<and> num_val (as_max_attempts s) = num_val (as_max_attempts t) \<and> num_val (as_max_cost_usd s) = num_val (as_max_cost_usd t)"
proof -
  have "hash_json sha (spec_json s) = hash_json sha (spec_json t)"
    using assms(1) by (simp add: computeSpecHash_def canonicalizeSpec_def hash_json_def sortedEntries_canonical)
  from spec_json_binds [OF hash_json_inj [OF this assms(2)]] show ?thesis
    by (simp add: declared_patterns_def)
qed

lemma spec_hash_binds_witness: "num_val (as_max_attempts demo_atom) = num_val (as_max_attempts (demo_atom\<lparr>as_max_attempts := Dec 20 1\<rparr>))"
proof -
  have "canonical (spec_json demo_atom) = canonical (spec_json (demo_atom\<lparr>as_max_attempts := Dec 20 1\<rparr>))"
    unfolding canonical_eq_iff by (simp add: canonical_eq_iff spec_json_def demo_atom_def norm_num_def criterion_json_def jstrs_def)
  then show ?thesis
    using spec_hash_binds [of "\<lambda>x. x" demo_atom "demo_atom\<lparr>as_max_attempts := Dec 20 1\<rparr>"]
    by (simp add: computeSpecHash_def canonicalizeSpec_def sortedEntries_canonical)
qed

lemma show_value_str [simp]: "show_value (Some (JStr s)) = s"
  by (simp add: show_value_def)

lemma read_criterion_back: "sc_validation c = ''deterministic'' \<Longrightarrow> read_criterion (criterion_json c) = c"
  by (cases c) (simp add: criterion_json_def read_criterion_def)

lemma criterion_json_checks:
  "nonblank (sc_id c) \<Longrightarrow> nonblank (sc_description c) \<Longrightarrow> sc_validation c = ''deterministic''
    \<Longrightarrow> x \<in> set (criterion_checks (criterion_json c)) \<Longrightarrow> fst x"
  by (auto simp: criterion_checks_def criterion_json_def assertStrictKeys_def obj_keys_def is_plain_object_def)

lemma read_criterion_ok:
  assumes "\<forall>x \<in> set (criterion_checks c). fst x"
  shows "nonblank (sc_id (read_criterion c)) \<and> nonblank (sc_description (read_criterion c))
    \<and> sc_validation (read_criterion c) = ''deterministic''"
proof -
  have "str_where nonblank (jfield ''id'' c)" "str_where nonblank (jfield ''description'' c)"
    using assms by (simp_all add: criterion_checks_def)
  then show ?thesis by (auto simp: read_criterion_def elim!: str_whereE)
qed

definition spec_ok :: "atom_spec \<Rightarrow> bool" where
  "spec_ok s = (nonblank (as_id s) \<and> nonblank (as_title s) \<and> nonblank (as_goal s) \<and> as_success_criteria s \<noteq> []
     \<and> list_all (\<lambda>c. nonblank (sc_id c) \<and> nonblank (sc_description c) \<and> sc_validation c = ''deterministic'') (as_success_criteria s)
     \<and> as_risk_level s \<in> {''low'', ''medium'', ''high''} \<and> is_integer (as_max_attempts s) \<and> num_val (as_max_attempts s) > 0
     \<and> num_val (as_max_runtime_seconds s) > 0 \<and> num_val (as_max_cost_usd s) > 0)"

lemma str_where_the: "str_where p v \<Longrightarrow> p (the_str v)"
  by (auto simp: the_str_def elim: str_whereE)

lemma finalized_ok:
  assumes "finalizeAtomSpec j = Inr s" shows "spec_ok s"
proof -
  have j: "\<forall>c \<in> set (spec_checks j). fst c" and s: "s = read_spec j"
    using assms by (simp_all add: finalized_iff)
  let ?a = "the_obj (jfield ''atom'' j)"
  have a: "str_where nonblank (jfield ''id'' ?a)" "str_where nonblank (jfield ''title'' ?a)" "str_where nonblank (jfield ''goal'' j)"
    "items_of (jfield ''success_criteria'' j) \<noteq> []"
    "show_value (jfield ''level'' (the_obj (jfield ''risk'' j))) \<in> {''low'', ''medium'', ''high''}"
    using j by (simp_all add: spec_checks_def Let_def)
  have c: "\<forall>c \<in> set (items_of (jfield ''success_criteria'' j)). \<forall>x \<in> set (criterion_checks c). fst x"
    using j by (simp add: spec_checks_def Let_def)
  have "list_all (\<lambda>c. nonblank (sc_id c) \<and> nonblank (sc_description c) \<and> sc_validation c = ''deterministic'')
      (map read_criterion (items_of (jfield ''success_criteria'' j)))"
    unfolding list_all_iff set_map using c read_criterion_ok by blast
  then show ?thesis
    using a(1-3) [THEN str_where_the] a(4,5) finalized_limits [OF assms]
    by (simp add: spec_ok_def s read_spec_def Let_def)
qed

lemma string_list_jstrs [simp]: "string_list (Some (jstrs xs))" "jlist (Some (jstrs xs)) = Some (map JStr xs)"
  "strings_of (Some (jstrs xs)) = xs"
  by (simp_all add: string_list_def list_where_def jstrs_def list_all_iff is_string_def jlist_def strings_of_def the_str_def comp_def)

lemma spec_json_reads:
  assumes "spec_ok s" shows "read_spec (spec_json s) = s"
proof -
  have "map read_criterion (map criterion_json (as_success_criteria s)) = as_success_criteria s"
    using assms by (auto simp: spec_ok_def list_all_iff intro!: map_idI read_criterion_back)
  then show ?thesis
    by (cases s) (simp add: read_spec_def spec_json_def Let_def the_obj_def items_of_def jlist_def the_str_def js_to_number_def)
qed

lemma spec_json_checks:
  assumes "spec_ok s" "c \<in> set (spec_checks (spec_json s))" shows "fst c"
proof -
  have "\<forall>c \<in> set (as_success_criteria s). \<forall>x \<in> set (criterion_checks (criterion_json c)). fst x"
    using assms(1) criterion_json_checks unfolding spec_ok_def list_all_iff by blast
  then have "\<forall>c \<in> set (spec_checks (spec_json s)). fst c"
    using assms(1) by (simp add: spec_ok_def spec_checks_def Let_def spec_json_def the_obj_def items_of_def
        assertStrictKeys_def obj_keys_def is_plain_object_def allowed_root_keys_def allowed_atom_keys_def allowed_risk_keys_def
        allowed_resource_keys_def allowed_constraint_keys_def allowed_limit_keys_def positive_integer_def positive_number_def
        js_to_number_def jlist_def [of "Some (JArr _)"])
  then show ?thesis using assms(2) by blast
qed

text \<open>A specification read from JSON prints to JSON that is read as the same specification.\<close>

theorem spec_round_trip:
  assumes "finalizeAtomSpec j = Inr s"
  shows "finalizeAtomSpec (spec_json s) = Inr s"
  using finalized_ok [OF assms] spec_json_checks spec_json_reads by (simp add: finalized_iff)

lemma spec_round_trip_witness: "finalizeAtomSpec (spec_json demo_atom) = Inr demo_atom"
  by (rule spec_round_trip [OF demo_atom_reads])

section \<open>Paths\<close>

definition path_segments :: "string \<Rightarrow> string list" where
  "path_segments c = str_split (CHR ''/'') c"

definition clean_path :: "string \<Rightarrow> bool" where
  \<comment> \<open>a relative path that names what it says\<close>
  "clean_path c = (set (path_segments c) \<inter> {[], ''.'', ''..''} = {} \<and> CHR 0x00 \<notin> set c \<and> CHR 0x5C \<notin> set c)"

lemma keep_segments_Inr:
  "keep_segments ss = Inr r \<longleftrightarrow> ''..'' \<notin> set ss \<and> r = filter (\<lambda>s. s \<noteq> ''.'' \<and> s \<noteq> []) ss"
  by (induction ss arbitrary: r) (auto simp: rbind_eq_Inr)

lemma keep_segments_clean: "set ss \<inter> {[], ''.'', ''..''} = {} \<Longrightarrow> keep_segments ss = Inr ss"
  by (induction ss) auto

lemma set_str_join: "set (str_join sep ps) \<subseteq> set sep \<union> (\<Union>p \<in> set ps. set p)"
  by (induction sep ps rule: str_join.induct) auto

lemma set_str_split: "p \<in> set (str_split c s) \<Longrightarrow> set p \<subseteq> set s"
proof (induction s arbitrary: p)
  case (Cons x s)
  show ?case
  proof (cases "str_split c s")
    case (Cons q qs)
    then have "set q \<subseteq> set s" "\<And>r. r \<in> set qs \<Longrightarrow> set r \<subseteq> set s" using Cons.IH by auto
    then show ?thesis using Cons.prems Cons by (fastforce split: if_splits)
  qed simp
qed simp

lemma canonicalizePath_clean:
  assumes "canonicalizePath p = Inr c" shows "clean_path c"
proof -
  let ?n = "unify_slashes p"
  obtain r where r: "keep_segments (str_split (CHR ''/'') ?n) = Inr r" "r \<noteq> []" "c = str_join ''/'' r" and z: "CHR 0x00 \<notin> set p"
    using assms unfolding canonicalizePath_def Let_def by (simp add: rbind_eq_Inr split: if_splits) blast
  have r': "set r \<subseteq> set (str_split (CHR ''/'') ?n)" "set r \<inter> {[], ''.'', ''..''} = {}"
    using r(1) by (auto simp: keep_segments_Inr)
  have "CHR ''/'' \<notin> set q" if "q \<in> set r" for q
    using str_split_no_sep [of q "CHR ''/''" ?n] that r'(1) by blast
  then have seg: "path_segments c = r"
    using str_split_join [OF r(2)] r(3) by (simp add: path_segments_def)
  have "set c \<subseteq> {CHR ''/''} \<union> set ?n"
    using set_str_join [of "''/''" r] r'(1) set_str_split [of _ "CHR ''/''" ?n] r(3) by fastforce
  moreover have "CHR 0x00 \<notin> set ?n" "CHR 0x5C \<notin> set ?n"
    using z by (auto simp: unify_slashes_def split: if_splits)
  ultimately show ?thesis
    using seg r'(2) by (auto simp: clean_path_def)
qed

lemma canonicalizePath_fixed:
  assumes "clean_path c" shows "canonicalizePath c = Inr c"
proof -
  have u: "unify_slashes c = c"
    using assms by (auto simp: unify_slashes_def clean_path_def intro!: map_idI)
  have "\<not> starts_with ''/'' c"
  proof
    assume "starts_with ''/'' c"
    then obtain t where "c = CHR ''/'' # t" by (auto simp: starts_with_iff)
    then show False using assms by (simp add: clean_path_def path_segments_def)
  qed
  moreover have "keep_segments (str_split (CHR ''/'') c) = Inr (str_split (CHR ''/'') c)"
    using assms by (intro keep_segments_clean) (simp add: clean_path_def path_segments_def)
  ultimately show ?thesis
    using assms u by (simp add: canonicalizePath_def clean_path_def)
qed

text \<open>A canonical path has no empty, \<open>.\<close> or \<open>..\<close> segment, no backslash and no null byte, and is its
  own canonical form.\<close>

theorem canonical_path_is_clean:
  assumes "canonicalizePath p = Inr c"
  shows "clean_path c \<and> canonicalizePath c = Inr c"
  using canonicalizePath_clean [OF assms] canonicalizePath_fixed by blast

lemma canonical_path_is_clean_witness: "clean_path ''src/a.ts''"
  using canonical_path_is_clean [of "''./src//a.ts''" "''src/a.ts''"] by (simp add: canonicalizePath_def unify_slashes_def starts_with_def)


section \<open>Patterns\<close>

text \<open>What a pattern means: a star stands for any text without a line break.\<close>

inductive pattern_lang :: "string \<Rightarrow> string \<Rightarrow> bool" where
  lang_end: "pattern_lang [] []"
| lang_lit: "p \<noteq> CHR ''*'' \<Longrightarrow> pattern_lang ps s \<Longrightarrow> pattern_lang (p # ps) (p # s)"
| lang_star: "list_all (\<lambda>c. \<not> newline c) w \<Longrightarrow> pattern_lang ps s \<Longrightarrow> pattern_lang (CHR ''*'' # ps) (w @ s)"

inductive_cases lang_NilE: "pattern_lang [] s"
inductive_cases lang_ConsE: "pattern_lang (p # ps) s"

lemma glob_star: "list_all (\<lambda>c. \<not> newline c) w \<Longrightarrow> glob ps s \<Longrightarrow> glob (CHR ''*'' # ps) (w @ s)"
proof (induction w)
  case Nil
  then show ?case by (cases s) simp_all
qed simp

text \<open>The matcher accepts exactly the texts of the pattern's regular expression.\<close>

theorem glob_is_pattern_language: "glob ps s \<longleftrightarrow> pattern_lang ps s"
proof
  show "glob ps s \<Longrightarrow> pattern_lang ps s"
  proof (induction ps s rule: glob.induct)
    case (2 p ps)
    then show ?case using lang_star [of "[]" ps "[]"] by simp
  next
    case (3 p ps c cs)
    show ?case
    proof (cases "p = CHR ''*''")
      case True
      consider "glob ps (c # cs)" | "\<not> newline c" "glob (p # ps) cs"
        using 3(4) True by auto
      then show ?thesis
      proof cases
        case 1
        then show ?thesis using 3(1) [OF True] lang_star [of "[]"] True by simp
      next
        case 2
        then obtain w t where "cs = w @ t" "list_all (\<lambda>c. \<not> newline c) w" "pattern_lang ps t"
          using 3(2) [OF True] True by (auto elim: lang_ConsE)
        then show ?thesis using lang_star [of "c # w" ps t] 2(1) True by simp
      qed
    next
      case False
      then show ?thesis using 3(3,4) lang_lit [of p ps cs] by simp
    qed
  qed (simp add: lang_end)
  show "pattern_lang ps s \<Longrightarrow> glob ps s"
    by (induction rule: pattern_lang.induct) (simp_all add: glob_star)
qed

text \<open>When the changed files of an atom are no resource violation, each of them has a clean canonical
  path that one declared pattern of the atom matches; for a directory pattern it is the directory or
  below it.\<close>

theorem declared_paths_stay_inside:
  assumes "\<not> isResourceViolation spec files" "f \<in> set files"
  shows "\<exists>c p. canonicalizePath f = Inr c \<and> clean_path c \<and> p \<in> set (declared_patterns spec) \<and> matchesPattern p c
     \<and> (ends_with ''/**'' p \<longrightarrow> c = drop_end 3 p \<or> starts_with (drop_end 3 p @ ''/'') c)"
proof -
  obtain c p where c: "canonicalizePath f = Inr c" "p \<in> set (declared_patterns spec)" "matchesPattern p c"
    using bspec [OF assms(1) [unfolded isResourceViolation_def list_ex_iff, simplified] assms(2)]
    by (cases "canonicalizePath f") (auto simp: list_ex_iff)
  then show ?thesis
    using canonicalizePath_clean by (auto simp: matchesPattern_def Let_def)
qed

lemma declared_paths_stay_inside_witness: "\<exists>c p. canonicalizePath ''src/./a.ts'' = Inr c \<and> p \<in> set (declared_patterns demo_atom) \<and> matchesPattern p c"
proof -
  have "\<not> isResourceViolation demo_atom [''src/./a.ts'']" by code_simp
  from declared_paths_stay_inside [OF this, of "''src/./a.ts''"] show ?thesis by auto
qed

section \<open>The gate and the verifier\<close>

text \<open>The verifier accepts the outcome of the deterministic gate only when the specification hash is
  the one of the atom, every validator that ran passed with exit code zero (if it has one), some evidence was recorded, the changed
  files stay inside the manifest, and then every criterion of the atom is reported met.\<close>

theorem accept_rests_on_evidence:
  assumes "vf_verdict (verifier_verify sha i) = V_ACCEPT"
    and "vi_pass i = gt_pass (validation_gate_run (vi_atom i) art)" "vi_validators i = gt_validators (validation_gate_run (vi_atom i) art)"
  shows "vi_specHash i = computeSpecHash sha (vi_atom i) \<and> ga_evidence art \<noteq> []
     \<and> list_all (\<lambda>v. vl_status v = V_Pass \<and> (vl_exitCode v = None \<or> vl_exitCode v = Some 0)) (ga_evidence art)
     \<and> \<not> isResourceViolation (vi_atom i) (vi_filesChanged i @ ga_filesChanged art @ ga_declaredArtifacts art)
     \<and> map cr_criterionId (vf_criteria (verifier_verify sha i)) = map sc_id (as_success_criteria (vi_atom i))
     \<and> list_all cr_met (vf_criteria (verifier_verify sha i))"
proof -
  let ?v = "verifier_verify sha i" and ?ev = "gate_evidence art" and ?specs = "as_success_criteria (vi_atom i)"
  have h: "vi_specHash i = computeSpecHash sha (vi_atom i)" "\<not> isResourceViolation (vi_atom i) (vi_filesChanged i)" "vi_pass i"
    and cs: "vf_criteria ?v = map (\<lambda>c. \<lparr>cr_criterionId = sc_id c, cr_met = (filter (\<lambda>v. vl_status v = V_Pass) (vi_validators i) \<noteq> []),
        cr_evidence = map (\<lambda>v. ''validator:'' @ vl_validatorId v) (filter (\<lambda>v. vl_status v = V_Pass) (vi_validators i))\<rparr>) ?specs"
    using assms(1) by (auto simp: verifier_verify_def Let_def verdict_with_def split: if_splits option.splits)
  have ev: "ga_evidence art \<noteq> []" "\<forall>v \<in> set (ga_evidence art). vl_status v = V_Pass \<and> (vl_exitCode v = None \<or> vl_exitCode v = Some 0)"
    "\<not> isResourceViolation (vi_atom i) (ga_filesChanged art)" "\<not> isResourceViolation (vi_atom i) (ga_declaredArtifacts art)"
    and v: "vi_validators i = ga_evidence art"
    using h(3) assms(2,3)
    by (auto simp: validation_gate_run_def Let_def gate_evidence_def list_ex_iff split: if_splits) (metis validator_status.exhaust)+
  have "filter (\<lambda>v. vl_status v = V_Pass) (ga_evidence art) \<noteq> []"
    using ev(1,2) by (cases "ga_evidence art") auto
  then show ?thesis
    using h ev cs v by (simp add: isResourceViolation_def list_all_iff comp_def)
qed

definition demo_art :: gate_artifacts where
  "demo_art = \<lparr>ga_artifactHash = ''a'', ga_diffHash = ''b'', ga_filesChanged = [''src/a.ts''], ga_declaredArtifacts = [''src/a.ts''],
     ga_evidence = [\<lparr>vl_validatorId = ''unit'', vl_status = V_Pass, vl_exitCode = Some 0, vl_summary = ''ok'', vl_outputHash = None\<rparr>]\<rparr>"

definition demo_verification :: "(string \<times> bool) list option \<Rightarrow> verification_input" where
  "demo_verification custom = \<lparr>vi_atom = demo_atom, vi_specHash = ''d'', vi_filesChanged = [''src/a.ts''],
     vi_pass = gt_pass (validation_gate_run demo_atom demo_art), vi_validators = gt_validators (validation_gate_run demo_atom demo_art),
     vi_customCriteria = custom\<rparr>"

lemma demo_files_ok: "\<not> isResourceViolation demo_atom [''src/a.ts'']"
  by code_simp

lemma demo_gate_passes: "validation_gate_run demo_atom demo_art = \<lparr>gt_pass = True, gt_validators = ga_evidence demo_art, gt_resourceViolation = False\<rparr>"
  by (simp add: validation_gate_run_def demo_files_ok demo_art_def gate_evidence_def)

lemma demo_verified:
  "custom = None \<or> custom = Some [(''c1'', b)] \<Longrightarrow> vf_verdict (verifier_verify demo_digest (demo_verification custom)) = V_ACCEPT"
  by (elim disjE) (simp_all add: verifier_verify_def demo_verification_def demo_gate_passes demo_files_ok Let_def,
    simp_all add: demo_art_def demo_atom_def verdict_with_def)

lemma accept_rests_on_evidence_witness: "map cr_criterionId (vf_criteria (verifier_verify demo_digest (demo_verification None))) = [''c1'']"
  using accept_rests_on_evidence [of demo_digest "demo_verification None" demo_art] demo_verified [of None]
  by (simp add: demo_verification_def demo_atom_def)

text \<open>A validator's own NOT_MET report for a declared criterion changes nothing.\<close>

lemma custom_criterion_ignored:
  "vf_verdict (verifier_verify demo_digest (demo_verification (Some [(''c1'', False)]))) = V_ACCEPT
   \<and> list_all cr_met (vf_criteria (verifier_verify demo_digest (demo_verification (Some [(''c1'', False)]))))"
proof
  show a: "vf_verdict (verifier_verify demo_digest (demo_verification (Some [(''c1'', False)]))) = V_ACCEPT"
    using demo_verified by blast
  show "list_all cr_met (vf_criteria (verifier_verify demo_digest (demo_verification (Some [(''c1'', False)]))))"
    by (simp add: verifier_verify_def demo_verification_def demo_gate_passes demo_files_ok Let_def)
      (simp add: demo_art_def demo_atom_def verdict_with_def)
qed

end
