(* ===== verification/Vad_Properties.thy ===== *)
theory Vad_Properties
  imports Vad_Invariant Vad_Core_Properties
begin

text \<open>
  The guarantees of VAD over whole runs of an execution: what an accepted atom has behind it, the
  budget, the history; and the paths, patterns and specifications of its core.
\<close>

section \<open>Decisions keep the invariant\<close>

lemma package_persist_Inr: "package_persist failWrites p store = Inr store' \<Longrightarrow> store' = st_put (fp_atomId p) p store"
  by (auto simp: package_persist_def split: if_splits option.splits)

lemma finalize_out:
  assumes "finalizeAcceptance now failWrites es ea p store = Inr (store', q)"
  shows "q = p\<lparr>fp_completedAt := Some (case fp_completedAt p of None \<Rightarrow> to_iso now | Some t \<Rightarrow> t)\<rparr> \<and> store' = st_put (fp_atomId p) q store"
proof -
  define q' where "q' = p\<lparr>fp_completedAt := Some (case fp_completedAt p of None \<Rightarrow> to_iso now | Some t \<Rightarrow> t)\<rparr>"
  have "rbind (package_persist failWrites q' store) (\<lambda>s. Inr (s, q')) = Inr (store', q)"
    using assms unfolding finalizeAcceptance_def Let_def q'_def by (simp split: if_splits)
  then show ?thesis
    by (auto simp: rbind_eq_Inr q'_def dest!: package_persist_Inr)
qed

lemma finalize_stores:
  assumes "finalizeAcceptance now failWrites es ea p store = Inr (store', q)"
  shows "st_get (fp_atomId p) store' = Some q" "fp_finalState q = fp_finalState p" "fp_specHash q = fp_specHash p"
    "fp_artifactHash q = fp_artifactHash p" "fp_atomId q = fp_atomId p" "i \<noteq> fp_atomId p \<Longrightarrow> st_get i store' = st_get i store"
  using finalize_out [OF assms] by (simp_all add: table.get_put)

lemma vad_inv_store:
  assumes "vad_inv sha spec x store" "st_get (as_id spec) store' = st_get (as_id spec) store"
  shows "vad_inv sha spec x store'"
  using assms by (simp add: vad_inv_def stage_inv_def persisted_def cong: lifecycle_state.case_cong)

lemma vad_inv_decide:
  assumes inv: "vad_inv sha spec x store" and out: "fst (vad_decide sha now failWrites d (x, store)) = (y, store')"
  shows "vad_inv sha spec y store'"
proof (cases "decide_checks d x")
  case (Inl e)
  then show ?thesis using inv out by (simp add: vad_decide_def)
next
  case (Inr av)
  obtain artifact v where av: "decide_checks d x = Inr (artifact, v)"
    using Inr by (cases av) simp
  let ?p = "final_package_of x d artifact v"
  have chk: "lc_current (ve_lifecycle x) = AWAITING_HUMAN" "ve_latestArtifactHash x = Some artifact" "ve_verifierVerdict x = Some v"
    "is_acceptance (hd_decision d) = (v = EV_ACCEPT)" "nonblank (hd_actor d)"
    using av by (auto simp: decide_checks_def rbind_eq_Inr validateHumanDecision_def split: if_splits option.splits)
  show ?thesis
  proof (cases "finalizeAcceptance now failWrites None None ?p store")
    case (Inl e)
    then show ?thesis using inv out av by (simp add: vad_decide_def Let_def)
  next
    case (Inr sq)
    obtain s1 q where q: "finalizeAcceptance now failWrites None None ?p store = Inr (s1, q)"
      using Inr by (cases sq) simp
    let ?x1 = "emit [''HUMAN DECISION RECORDED'', ''EVIDENCE PACKAGE PERSISTED'', ''EVIDENCE INTEGRITY VERIFIED''] x"
    have fp: "fp_finalState ?p = (if v = EV_ACCEPT then ACCEPTED else REJECTED)" "fp_atomId ?p = as_id spec"
      "fp_specHash ?p = computeSpecHash sha spec" "fp_artifactHash ?p = artifact"
      using inv chk by (simp_all add: final_package_of_def vad_inv_def)
    have per: "persisted sha spec (fp_finalState ?p) z s1" if "ve_latestArtifactHash z = Some artifact" for z
      using finalize_stores [OF q] fp that by (simp add: persisted_def)
    have last: "last_passed x"
      using inv chk by (simp add: vad_inv_def stage_inv_def)
    have x1: "vad_inv sha spec ?x1 s1"
      using inv chk last by (simp add: vad_inv_def) (simp add: stage_inv_def)
    show ?thesis
    proof (cases "go sha now (fp_finalState ?p) ''final evidence persisted'' (hd_actor d) None ?x1")
      case (Inl e)
      then show ?thesis using x1 out av q by (simp add: vad_decide_def Let_def)
    next
      case (Inr z)
      note g = go_step [OF Inr]
      have "last_passed z"
        using last g by (simp add: last_passed_def)
      then have "stage_inv sha spec z s1"
        using g per [of z] chk fp by (cases v) (simp_all add: stage_inv_def)
      then have "vad_inv sha spec z s1"
        using x1 g by (simp add: vad_inv_def) (simp add: budget_inv_def)
      then show ?thesis
        using out av q Inr by (auto simp: vad_decide_def Let_def vad_inv_def)
    qed
  qed
qed

section \<open>Runs\<close>

text \<open>
  Any sequence of calls on one execution, while other atoms may finalize their own evidence in the
  same store.
\<close>

inductive vad_run :: "(string \<Rightarrow> string) \<Rightarrow> atom_spec \<Rightarrow> vad_execution \<Rightarrow> package_store \<Rightarrow> bool"
  for sha :: "string \<Rightarrow> string" and spec :: atom_spec where
  run_new: "vad_run sha spec (new_execution sha spec) store"
| run_ready: "vad_run sha spec x store \<Longrightarrow> vad_run sha spec (fst (vad_ready sha now x)) store"
| run_attempts: "vad_run sha spec x store \<Longrightarrow> vad_run sha spec (fst (vad_attempt sha now completed r x)) store"
| run_verify: "vad_run sha spec x store \<Longrightarrow> vad_run sha spec (fst (vad_verify sha now v x)) store"
| run_decide: "vad_run sha spec x store \<Longrightarrow> fst (vad_decide sha now failWrites d (x, store)) = (y, store') \<Longrightarrow> vad_run sha spec y store'"
| run_others: "vad_run sha spec x store \<Longrightarrow> finalizeAcceptance now failWrites es ea p store = Inr (store', q) \<Longrightarrow> fp_atomId p \<noteq> as_id spec
    \<Longrightarrow> vad_run sha spec x store'"

lemma vad_run_inv: "vad_run sha spec x store \<Longrightarrow> vad_inv sha spec x store"
proof (induction rule: vad_run.induct)
  case (run_others x store now failWrites es ea p store' q)
  then have "st_get (as_id spec) store' = st_get (as_id spec) store"
    using finalize_stores(6) [OF run_others(2), of "as_id spec"] by simp
  with run_others(4) show ?case by (rule vad_inv_store)
qed (auto intro: vad_inv_new vad_inv_ready vad_inv_attempt vad_inv_verify vad_inv_decide)


text \<open>C15. An atom is ACCEPTED only after its last attempt passed the deterministic gate and the verifier
  accepted, and the store then holds a final package for it with that attempt's artifact and the hash of
  the specification the execution started with.\<close>

theorem accepted_only_verified:
  assumes "vad_run sha spec x store" "lc_current (ve_lifecycle x) = ACCEPTED"
  shows "ve_verifierVerdict x = Some EV_ACCEPT \<and> (\<exists>as a p. ve_attempts x = as @ [a] \<and> at_passed a
     \<and> st_get (as_id spec) store = Some p \<and> fp_finalState p = ACCEPTED
     \<and> fp_specHash p = computeSpecHash sha spec \<and> fp_artifactHash p = at_artifactHash a)"
proof -
  have "last_passed x \<and> ve_verifierVerdict x = Some EV_ACCEPT \<and> persisted sha spec ACCEPTED x store"
    using vad_run_inv [OF assms(1)] assms(2) by (simp add: vad_inv_def stage_inv_def)
  then show ?thesis by (force simp: last_passed_def persisted_def)
qed

text \<open>What the history of an execution records is a path of the transition table from CREATED to
  the current state, and nothing follows a terminal state.\<close>

theorem history_is_final:
  assumes "vad_run sha spec x store"
  shows "let hs = map tr_toState (lc_history (ve_lifecycle x)) in
     table_path lifecycle_transitions CREATED hs \<and> path_end CREATED hs = lc_current (ve_lifecycle x)
     \<and> (\<forall>as t bs. hs = as @ t # bs \<and> lifecycle_terminal t \<longrightarrow> bs = [])"
proof -
  have t: "tracked x"
    using vad_run_inv [OF assms] by (simp add: vad_inv_def)
  then show ?thesis
    unfolding Let_def tracked_def by (metis vad.terminal_last)
qed

text \<open>When the evidence cannot be written, a decision fails and changes nothing: not the execution,
  not the store.\<close>

theorem unwritten_evidence_decides_nothing:
  "fst (vad_decide sha now True d xs) = xs \<and> \<not> is_ok (snd (vad_decide sha now True d xs))"
proof -
  have f: "\<not> is_ok (finalizeAcceptance now True None None p store)" for p store
    by (simp add: finalizeAcceptance_def package_persist_def Let_def)
  obtain x store where xs: "xs = (x, store)" by force
  show ?thesis
  proof (cases "decide_checks d x")
    case (Inr av)
    then show ?thesis
      using f [of "final_package_of x d (fst av) (snd av)" store]
      by (cases av; cases "finalizeAcceptance now True None None (final_package_of x d (fst av) (snd av)) store")
        (simp_all add: xs vad_decide_def Let_def)
  qed (simp add: xs vad_decide_def)
qed


text \<open>For a specification read from JSON, the attempts of any run number at most \<open>max_attempts\<close> and
  their costs add up to at most \<open>max_cost_usd\<close>.\<close>

theorem attempts_within_budget:
  assumes "finalizeAtomSpec j = Inr spec" "vad_run sha spec x store"
  shows "of_int (int (length (ve_attempts x))) \<le> num_val (as_max_attempts spec)
     \<and> sum_list (map (\<lambda>a. num_val (at_costUsd a)) (ve_attempts x)) \<le> num_val (as_max_cost_usd spec)"
proof -
  have b: "int (length (ve_attempts x)) \<le> ve_attemptCount x"
    "sum_list (map (\<lambda>a. num_val (at_costUsd a)) (ve_attempts x)) \<le> ve_aggregateCostUsd x"
    "of_int (ve_attemptCount x) \<le> num_val (as_max_attempts spec)" "ve_aggregateCostUsd x \<le> num_val (as_max_cost_usd spec)"
    using vad_run_inv [OF assms(2)] finalized_limits [OF assms(1)] by (simp_all add: vad_inv_def budget_inv_def max_def split: if_splits)
  have "(of_int (int (length (ve_attempts x))) :: rat) \<le> of_int (ve_attemptCount x)"
    using b(1) by (simp only: of_int_le_iff)
  with b show ?thesis by linarith
qed

section \<open>A run on a concrete atom\<close>

definition demo_atom_decision :: human_decision where
  "demo_atom_decision = \<lparr>hd_decision = MERGE, hd_actor = ''ana'', hd_timestamp = ''2026-01-01T00:00:00.000Z'', hd_rationale = None,
     hd_automatedOutcome = ''ACCEPT'', hd_specHash = ''d''\<rparr>"

definition demo_x1 :: vad_execution where
  "demo_x1 = fst (vad_ready demo_digest 0 (new_execution demo_digest demo_atom))"

definition demo_x2 :: vad_execution where
  "demo_x2 = fst (vad_attempt demo_digest 0 1000 \<lparr>ar_passed = True, ar_artifactHash = ''art'', ar_costUsd = Dec 5 1\<rparr> demo_x1)"

definition demo_x3 :: vad_execution where
  "demo_x3 = fst (vad_verify demo_digest 2000 EV_ACCEPT demo_x2)"

definition demo_moved :: "int \<Rightarrow> lifecycle_state \<Rightarrow> string \<Rightarrow> string \<Rightarrow> string option \<Rightarrow> lifecycle \<Rightarrow> lifecycle" where
  "demo_moved now st reason actor i lc = lc\<lparr>lc_history := lc_history lc @ [\<lparr>tr_atomId = lc_atomId lc, tr_fromState = lc_current lc, tr_toState = st,
     tr_timestamp = to_iso now, tr_actor = actor, tr_reason = reason, tr_attemptId = i, tr_specHash = lc_specHash lc\<rparr>], lc_current := st\<rparr>"

lemma demo_moved_simps [simp]: "lc_current (demo_moved now st reason actor i lc) = st" "lc_spec (demo_moved now st reason actor i lc) = lc_spec lc"
  "lc_specHash (demo_moved now st reason actor i lc) = lc_specHash lc"
  by (simp_all add: demo_moved_def)

lemma demo_go:
  "lc_specHash (ve_lifecycle x) = ''d'' \<Longrightarrow> st \<in> set (lifecycle_transitions (lc_current (ve_lifecycle x))) \<Longrightarrow> nonblank reason
     \<Longrightarrow> go demo_digest now st reason actor i x = Inr (x\<lparr>ve_lifecycle := demo_moved now st reason actor i (ve_lifecycle x)\<rparr>)"
  by (simp add: go_def transition_to_def demo_moved_def)

lemmas demo_run_defs = demo_go nonblank_Cons is_space_def emit_def ve_spec_def Let_def lifecycle_transitions_def

lemma demo_x1_fields: "lc_current (ve_lifecycle demo_x1) = READY" "lc_spec (ve_lifecycle demo_x1) = demo_atom" "lc_specHash (ve_lifecycle demo_x1) = ''d''"
  "ve_attemptCount demo_x1 = 0" "ve_aggregateCostUsd demo_x1 = 0" "ve_executionStartedAt demo_x1 = None"
  by (simp_all add: demo_x1_def vad_ready_def new_execution_def new_lifecycle_def demo_run_defs)

lemma demo_x2_fields: "lc_current (ve_lifecycle demo_x2) = VERIFYING" "lc_spec (ve_lifecycle demo_x2) = demo_atom" "lc_specHash (ve_lifecycle demo_x2) = ''d''"
  "ve_latestArtifactHash demo_x2 = Some ''art''"
  by (simp_all add: demo_x2_def vad_attempt_def Let_def demo_x1_fields assertCanAttempt_def run_attempt_def demo_run_defs num_val_def demo_atom_def)

lemma demo_x3_fields: "lc_current (ve_lifecycle demo_x3) = AWAITING_HUMAN" "lc_specHash (ve_lifecycle demo_x3) = ''d''" "lc_spec (ve_lifecycle demo_x3) = demo_atom"
  "ve_latestArtifactHash demo_x3 = Some ''art''" "ve_verifierVerdict demo_x3 = Some EV_ACCEPT"
  by (simp_all add: demo_x3_def vad_verify_def demo_x2_fields demo_run_defs)

definition demo_accepted :: "vad_execution \<times> package_store" where
  "demo_accepted = fst (vad_decide demo_digest 3000 False demo_atom_decision (demo_x3, []))"

lemma demo_vad_run: "vad_run demo_digest demo_atom (fst demo_accepted) (snd demo_accepted)"
  by (rule run_decide [where x = demo_x3]) (auto simp: demo_accepted_def demo_x3_def demo_x2_def demo_x1_def intro: vad_run.intros)

lemma demo_accepts: "lc_current (ve_lifecycle (fst demo_accepted)) = ACCEPTED"
proof -
  have t: "date_parse ''2026-01-01T00:00:00.000Z'' \<noteq> None" by code_simp
  have "decide_checks demo_atom_decision demo_x3 = Inr (''art'', EV_ACCEPT)"
    by (simp add: decide_checks_def demo_x3_fields validateHumanDecision_def demo_atom_decision_def t is_override_def is_acceptance_def nonblank_Cons is_space_def)
  then show ?thesis
    by (simp add: demo_accepted_def vad_decide_def Let_def finalizeAcceptance_def final_package_of_def package_persist_def st_put_def st_get_def demo_x3_fields demo_run_defs
        is_acceptance_def demo_atom_decision_def)
qed


lemma accepted_only_verified_witness: "\<exists>as a p. ve_attempts (fst demo_accepted) = as @ [a] \<and> at_passed a
    \<and> st_get (as_id demo_atom) (snd demo_accepted) = Some p \<and> fp_artifactHash p = at_artifactHash a"
  using accepted_only_verified [OF demo_vad_run demo_accepts] by blast

lemma history_is_final_witness: "path_end CREATED (map tr_toState (lc_history (ve_lifecycle (fst demo_accepted)))) = ACCEPTED"
  using history_is_final [OF demo_vad_run] demo_accepts by (simp add: Let_def)

lemma attempts_within_budget_witness:
  "of_int (int (length (ve_attempts (fst demo_accepted)))) \<le> num_val (as_max_attempts demo_atom)"
  using attempts_within_budget [OF demo_atom_reads demo_vad_run] by blast

end
