(* ===== verification/Sentinel_Schema.thy ===== *)
theory Sentinel_Schema
  imports Ledger_Schema
begin

text \<open>
  \<open>packages/sentinel-schema\<close>: the controlled vocabularies of the Sentinel, what a controller may submit
  as a session and a source as an observation. The nested limits and the capability context keep further
  keys of the caller, so they stay JSON; the same holds for an observation's payload.
\<close>

section \<open>Constants and errors\<close>

definition sentinel_session_version :: string where "sentinel_session_version = ''1.0''"
definition sentinel_observation_version :: string where "sentinel_observation_version = ''1.0''"
definition sentinel_policy_version :: string where "sentinel_policy_version = ''1.0''"
definition max_observation_payload_bytes :: nat where "max_observation_payload_bytes = 8192"
definition max_violations_per_response :: int where "max_violations_per_response = 200"
definition max_decisions_per_response :: int where "max_decisions_per_response = 200"
definition max_session_query_page_size :: int where "max_session_query_page_size = 200"
definition default_session_query_page_size :: int where "default_session_query_page_size = 50"
definition max_allowed_list_entries :: nat where "max_allowed_list_entries = 200"
definition max_rules_per_policy :: nat where "max_rules_per_policy = 100"

datatype sentinel_code = S_INVALID_INPUT | S_UNKNOWN_OBSERVATION_TYPE | S_UNSUPPORTED_VERSION | S_OBSERVATION_CONFLICT
  | S_NOT_FOUND | S_FORBIDDEN | S_PAYLOAD_TOO_LARGE | S_INVALID_TRANSITION | S_POLICY_INVALID | S_SESSION_TERMINAL

datatype sentinel_error = Sentinel_Error sentinel_code string

section \<open>Vocabularies\<close>

datatype session_status = ST_CREATED | ST_MONITORING | ST_WARNED | ST_HELD | ST_TERMINATING | ST_TERMINATED
  | ST_COMPLETED | ST_INDETERMINATE

definition session_status_name :: "session_status \<Rightarrow> string" where
  "session_status_name s = (case s of ST_CREATED \<Rightarrow> ''CREATED'' | ST_MONITORING \<Rightarrow> ''MONITORING'' | ST_WARNED \<Rightarrow> ''WARNED''
     | ST_HELD \<Rightarrow> ''HELD'' | ST_TERMINATING \<Rightarrow> ''TERMINATING'' | ST_TERMINATED \<Rightarrow> ''TERMINATED''
     | ST_COMPLETED \<Rightarrow> ''COMPLETED'' | ST_INDETERMINATE \<Rightarrow> ''INDETERMINATE'')"

definition observation_sources :: "string list" where
  "observation_sources = [''TNA_GATE'', ''EXECUTION_BROKER'', ''ISOLATION_RUNNER'', ''EGRESS_GUARD'', ''SECRET_BROKER'',
     ''TOOL_ADAPTER'', ''VAD_RUNTIME'', ''SENTINEL'', ''SYSTEM'']"

definition observation_types :: "string list" where
  "observation_types = [''EXECUTION_STARTED'',
     ''TOOL_CALL_REQUESTED'', ''TOOL_CALL_STARTED'', ''TOOL_CALL_COMPLETED'', ''TOOL_CALL_FAILED'',
     ''RESOURCE_READ'', ''RESOURCE_WRITE'', ''RESOURCE_CREATE'', ''RESOURCE_DELETE'',
     ''NETWORK_REQUEST'', ''NETWORK_REDIRECT'', ''PROCESS_STARTED'', ''PROCESS_EXITED'',
     ''SECRET_LEASE_REQUESTED'', ''SECRET_LEASE_GRANTED'', ''SECRET_LEASE_RELEASED'', ''COST_REPORTED'',
     ''AUTHORITY_RECHECK'', ''POLICY_RECHECK'', ''REVOCATION_RECHECK'',
     ''EXECUTION_HEARTBEAT'', ''EXECUTION_COMPLETED'', ''EXECUTION_FAILED'']"

definition source_allowed_types :: "string \<Rightarrow> string list" where
  "source_allowed_types source =
     (if source = ''TNA_GATE'' then [''AUTHORITY_RECHECK'', ''POLICY_RECHECK'', ''REVOCATION_RECHECK'']
      else if source = ''EXECUTION_BROKER'' then [''EXECUTION_STARTED'', ''TOOL_CALL_REQUESTED'', ''TOOL_CALL_STARTED'',
        ''TOOL_CALL_COMPLETED'', ''TOOL_CALL_FAILED'', ''EXECUTION_COMPLETED'', ''EXECUTION_FAILED'', ''EXECUTION_HEARTBEAT'', ''COST_REPORTED'']
      else if source = ''ISOLATION_RUNNER'' then [''PROCESS_STARTED'', ''PROCESS_EXITED'', ''RESOURCE_READ'', ''RESOURCE_WRITE'',
        ''RESOURCE_CREATE'', ''RESOURCE_DELETE'']
      else if source = ''EGRESS_GUARD'' then [''NETWORK_REQUEST'', ''NETWORK_REDIRECT'']
      else if source = ''SECRET_BROKER'' then [''SECRET_LEASE_REQUESTED'', ''SECRET_LEASE_GRANTED'', ''SECRET_LEASE_RELEASED'']
      else if source = ''TOOL_ADAPTER'' then [''TOOL_CALL_REQUESTED'', ''TOOL_CALL_STARTED'', ''TOOL_CALL_COMPLETED'', ''TOOL_CALL_FAILED'',
        ''RESOURCE_READ'', ''RESOURCE_WRITE'', ''RESOURCE_CREATE'', ''RESOURCE_DELETE'']
      else if source = ''VAD_RUNTIME'' then [''EXECUTION_STARTED'', ''EXECUTION_COMPLETED'', ''EXECUTION_FAILED'', ''EXECUTION_HEARTBEAT'']
      else if source = ''SENTINEL'' then [''AUTHORITY_RECHECK'', ''POLICY_RECHECK'', ''REVOCATION_RECHECK'']
      else if source = ''SYSTEM'' then [''COST_REPORTED'', ''EXECUTION_HEARTBEAT''] else [])"

definition pre_action_types :: "string list" where
  "pre_action_types = [''TOOL_CALL_REQUESTED'', ''NETWORK_REQUEST'', ''PROCESS_STARTED'', ''RESOURCE_WRITE'', ''RESOURCE_CREATE'',
     ''RESOURCE_DELETE'', ''SECRET_LEASE_REQUESTED'']"

definition is_pre_action :: "string \<Rightarrow> bool" where
  \<comment> \<open>\<open>observationPhase(type) === 'PRE_ACTION'\<close>\<close>
  "is_pre_action t = (t \<in> set pre_action_types)"

datatype rule_action = RA_OBSERVE | RA_WARN | RA_HOLD | RA_TERMINATE

datatype sentinel_severity = SV_INFO | SV_LOW | SV_MEDIUM | SV_HIGH | SV_CRITICAL

definition severity_score :: "sentinel_severity \<Rightarrow> nat" where
  "severity_score s = (case s of SV_INFO \<Rightarrow> 0 | SV_LOW \<Rightarrow> 10 | SV_MEDIUM \<Rightarrow> 30 | SV_HIGH \<Rightarrow> 60 | SV_CRITICAL \<Rightarrow> 100)"

datatype sentinel_verdict = SD_CONTINUE | SD_WARN | SD_HOLD | SD_TERMINATE

definition decision_precedence :: "sentinel_verdict \<Rightarrow> nat" where
  "decision_precedence d = (case d of SD_CONTINUE \<Rightarrow> 0 | SD_WARN \<Rightarrow> 1 | SD_HOLD \<Rightarrow> 2 | SD_TERMINATE \<Rightarrow> 3)"

datatype rule_type = AUTHORITY_EXPIRED | APPROVAL_REVOKED | AGENT_REVOKED | POLICY_CHANGED
  | TOOL_NOT_ALLOWED | OPERATION_NOT_ALLOWED | RESOURCE_NOT_ALLOWED
  | DESTINATION_NOT_ALLOWED | PRIVATE_NETWORK_DESTINATION | REDIRECT_NOT_ALLOWED
  | RUNTIME_EXCEEDED | COST_EXCEEDED
  | TOO_MANY_TOOL_CALLS | TOO_MANY_NETWORK_REQUESTS | TOO_MANY_PROCESS_SPAWNS | UNEXPECTED_PROCESS
  | SECRET_LEASE_NOT_ALLOWED | TOOL_INPUT_HASH_MISMATCH | CAPABILITY_CONTEXT_MISMATCH | MISSING_HEARTBEAT

definition rule_type_name :: "rule_type \<Rightarrow> string" where
  "rule_type_name r = (case r of AUTHORITY_EXPIRED \<Rightarrow> ''AUTHORITY_EXPIRED'' | APPROVAL_REVOKED \<Rightarrow> ''APPROVAL_REVOKED''
     | AGENT_REVOKED \<Rightarrow> ''AGENT_REVOKED'' | POLICY_CHANGED \<Rightarrow> ''POLICY_CHANGED''
     | TOOL_NOT_ALLOWED \<Rightarrow> ''TOOL_NOT_ALLOWED'' | OPERATION_NOT_ALLOWED \<Rightarrow> ''OPERATION_NOT_ALLOWED''
     | RESOURCE_NOT_ALLOWED \<Rightarrow> ''RESOURCE_NOT_ALLOWED'' | DESTINATION_NOT_ALLOWED \<Rightarrow> ''DESTINATION_NOT_ALLOWED''
     | PRIVATE_NETWORK_DESTINATION \<Rightarrow> ''PRIVATE_NETWORK_DESTINATION'' | REDIRECT_NOT_ALLOWED \<Rightarrow> ''REDIRECT_NOT_ALLOWED''
     | RUNTIME_EXCEEDED \<Rightarrow> ''RUNTIME_EXCEEDED'' | COST_EXCEEDED \<Rightarrow> ''COST_EXCEEDED''
     | TOO_MANY_TOOL_CALLS \<Rightarrow> ''TOO_MANY_TOOL_CALLS'' | TOO_MANY_NETWORK_REQUESTS \<Rightarrow> ''TOO_MANY_NETWORK_REQUESTS''
     | TOO_MANY_PROCESS_SPAWNS \<Rightarrow> ''TOO_MANY_PROCESS_SPAWNS'' | UNEXPECTED_PROCESS \<Rightarrow> ''UNEXPECTED_PROCESS''
     | SECRET_LEASE_NOT_ALLOWED \<Rightarrow> ''SECRET_LEASE_NOT_ALLOWED'' | TOOL_INPUT_HASH_MISMATCH \<Rightarrow> ''TOOL_INPUT_HASH_MISMATCH''
     | CAPABILITY_CONTEXT_MISMATCH \<Rightarrow> ''CAPABILITY_CONTEXT_MISMATCH'' | MISSING_HEARTBEAT \<Rightarrow> ''MISSING_HEARTBEAT'')"

definition rule_types :: "rule_type list" where
  "rule_types = [AUTHORITY_EXPIRED, APPROVAL_REVOKED, AGENT_REVOKED, POLICY_CHANGED, TOOL_NOT_ALLOWED, OPERATION_NOT_ALLOWED,
     RESOURCE_NOT_ALLOWED, DESTINATION_NOT_ALLOWED, PRIVATE_NETWORK_DESTINATION, REDIRECT_NOT_ALLOWED, RUNTIME_EXCEEDED,
     COST_EXCEEDED, TOO_MANY_TOOL_CALLS, TOO_MANY_NETWORK_REQUESTS, TOO_MANY_PROCESS_SPAWNS, UNEXPECTED_PROCESS,
     SECRET_LEASE_NOT_ALLOWED, TOOL_INPUT_HASH_MISMATCH, CAPABILITY_CONTEXT_MISMATCH, MISSING_HEARTBEAT]"

definition action_name :: "rule_action \<Rightarrow> string" where
  "action_name a = (case a of RA_OBSERVE \<Rightarrow> ''OBSERVE'' | RA_WARN \<Rightarrow> ''WARN'' | RA_HOLD \<Rightarrow> ''HOLD'' | RA_TERMINATE \<Rightarrow> ''TERMINATE'')"

definition rule_actions :: "rule_action list" where
  "rule_actions = [RA_OBSERVE, RA_WARN, RA_HOLD, RA_TERMINATE]"

definition severity_name :: "sentinel_severity \<Rightarrow> string" where
  "severity_name s = (case s of SV_INFO \<Rightarrow> ''INFO'' | SV_LOW \<Rightarrow> ''LOW'' | SV_MEDIUM \<Rightarrow> ''MEDIUM'' | SV_HIGH \<Rightarrow> ''HIGH'' | SV_CRITICAL \<Rightarrow> ''CRITICAL'')"

definition severities :: "sentinel_severity list" where
  "severities = [SV_INFO, SV_LOW, SV_MEDIUM, SV_HIGH, SV_CRITICAL]"

definition read_name :: "('a \<Rightarrow> string) \<Rightarrow> 'a list \<Rightarrow> json option \<Rightarrow> 'a option" where
  \<comment> \<open>a value of a controlled list\<close>
  "read_name name xs v = (case jstr v of None \<Rightarrow> None | Some s \<Rightarrow> find (\<lambda>x. name x = s) xs)"

datatype prevention_status = PREVENTED | DETECTED_AFTER_EFFECT | PS_CONTAINMENT_REQUESTED | PS_CONTAINMENT_CONFIRMED
  | PS_CONTAINMENT_UNCONFIRMED

datatype authority_kind = AS_VALID | AS_EXPIRED | AS_REVOKED | AS_POLICY_CHANGED | AS_UNKNOWN

datatype revoked_scope = RS_Agent | RS_Approval

record authority_status =
  au_status :: authority_kind
  au_revokedScope :: "revoked_scope option"
  au_currentPolicyHash :: "string option"

definition sentinel_operations :: "string list" where
  "sentinel_operations = [''read'', ''write'', ''create'', ''delete'']"

section \<open>Shapes\<close>

definition sentinel_canonical :: "json \<Rightarrow> string" where
  "sentinel_canonical j = canonical j"

definition sentinel_hash :: "(string \<Rightarrow> string) \<Rightarrow> json \<Rightarrow> string" where
  "sentinel_hash sha j = hash_json sha j"

definition sentinel_find_secret :: "json option \<Rightarrow> string option" where
  "sentinel_find_secret v = find_secret_opt v"

definition sentinel_safe_id :: "nat \<Rightarrow> json option \<Rightarrow> bool" where
  "sentinel_safe_id maxLen v = str_where (safeId maxLen) v"

definition safeResourcePattern :: "string \<Rightarrow> bool" where
  "safeResourcePattern s = (let base = (if ends_with ''**'' s then drop_end 2 s else s) in
     s \<noteq> [] \<and> length s \<le> 400 \<and> \<not> list_ex (\<lambda>c. c = CHR 0x5C \<or> c = CHR ''%'' \<or> is_space c) s \<and> \<not> list_ex is_control s
     \<and> base \<noteq> [] \<and> is_alnum (hd base) \<and> list_all (\<lambda>c. is_alnum c \<or> char_in ''._:/-'' c) (tl base))"

definition finitePositiveInt :: "int \<Rightarrow> json option \<Rightarrow> bool" where
  "finitePositiveInt mx v = num_where (\<lambda>n. is_integer n \<and> 0 < num_val n \<and> num_val n \<le> of_int mx) v"

definition finiteNonNegativeNumber :: "rat \<Rightarrow> json option \<Rightarrow> bool" where
  "finiteNonNegativeNumber mx v = num_where (\<lambda>n. 0 \<le> num_val n \<and> num_val n \<le> mx) v"

definition processName :: "string \<Rightarrow> bool" where
  "processName s = (s \<noteq> [] \<and> length s \<le> 128 \<and> is_alnum (hd s) \<and> list_all (\<lambda>c. is_alnum c \<or> char_in ''._-'' c) (tl s))"

definition assertStringArray :: "nat \<Rightarrow> (string \<Rightarrow> bool) \<Rightarrow> json option \<Rightarrow> bool" where
  "assertStringArray mx check v = list_where (\<lambda>xs. length xs \<le> mx \<and> list_all (\<lambda>x. str_where check (Some x)) xs) v"

section \<open>Sessions\<close>

record sentinel_session_input =
  si_tenant_id :: string
  si_agent_id :: string
  si_execution_id :: string
  si_decision_id :: "string option"
  si_capability_id :: "string option"
  si_correlation_id :: string
  si_authority_snapshot_hash :: string
  si_policy_snapshot_hash :: string
  si_expected_action :: string
  si_expected_tool :: string
  si_expected_resource :: string
  si_allowed_destinations :: "string list"
  si_allowed_operations :: "string list"
  si_allowed_processes :: "string list option"
  si_allowed_secrets :: "string list option"
  si_authority_expiry :: string
  si_runtime_limits :: json
  si_cost_limits :: json
  si_capability_context :: "json option"

record sentinel_session = sentinel_session_input +
  sn_sentinel_session_id :: string
  sn_started_at :: string
  sn_updated_at :: string
  sn_status :: session_status
  sn_observation_sequence :: int
  sn_tool_call_count :: int
  sn_network_request_count :: int
  sn_process_spawn_count :: int
  sn_session_cost :: rat
  sn_last_heartbeat_at :: "string option"

definition s_invalid :: "string \<Rightarrow> sentinel_error" where
  "s_invalid m = Sentinel_Error S_INVALID_INPUT m"

definition absent_or :: "(json option \<Rightarrow> bool) \<Rightarrow> json option \<Rightarrow> bool" where
  "absent_or p v = (v = None \<or> p v)"

definition capability_context_ok :: "json option \<Rightarrow> bool" where
  "capability_context_ok v = (is_plain_object v \<and> list_all (\<lambda>k. sentinel_safe_id 200 (ctx_field v k)) [''capability_id'', ''decision_id'', ''agent_id'', ''tool'']
     \<and> str_where (\<lambda>s. s \<in> set sentinel_operations) (ctx_field v ''operation'') \<and> str_where safeResourcePattern (ctx_field v ''resource'')
     \<and> str_where isIsoTimestamp (ctx_field v ''expiry'') \<and> str_where is_hex64 (ctx_field v ''input_hash''))"

definition session_checks :: "json \<Rightarrow> (bool \<times> sentinel_error) list" where
  "session_checks input = (let f = (\<lambda>k. jfield k input); rl = f ''runtime_limits''; cl = f ''cost_limits'' in
     [(is_plain_object (Some input), s_invalid ''Session input must be an object''),
      (f ''version'' = Some (JStr sentinel_session_version),
       Sentinel_Error S_UNSUPPORTED_VERSION (''Unsupported session version: '' @ show_value (f ''version''))),
      (sentinel_safe_id 100 (f ''tenant_id''), s_invalid ''tenant_id is required''),
      (sentinel_safe_id 200 (f ''agent_id''), s_invalid ''agent_id is required''),
      (sentinel_safe_id 200 (f ''execution_id''), s_invalid ''execution_id is required''),
      (absent_or (sentinel_safe_id 200) (f ''decision_id''), s_invalid ''decision_id must be a safe identifier''),
      (absent_or (sentinel_safe_id 200) (f ''capability_id''), s_invalid ''capability_id must be a safe identifier''),
      (sentinel_safe_id 200 (f ''correlation_id''), s_invalid ''correlation_id is required''),
      (str_where is_hex64 (f ''authority_snapshot_hash''), s_invalid ''authority_snapshot_hash must be a sha256 hex digest''),
      (str_where is_hex64 (f ''policy_snapshot_hash''), s_invalid ''policy_snapshot_hash must be a sha256 hex digest''),
      (sentinel_safe_id 200 (f ''expected_action''), s_invalid ''expected_action is required''),
      (sentinel_safe_id 200 (f ''expected_tool''), s_invalid ''expected_tool is required''),
      (str_where safeResourcePattern (f ''expected_resource''), s_invalid ''expected_resource is required''),
      (assertStringArray max_allowed_list_entries (\<lambda>s. s \<noteq> [] \<and> length s \<le> 253) (f ''allowed_destinations''),
       s_invalid ''allowed_destinations must be a bounded array of hostnames''),
      (assertStringArray (length sentinel_operations) (\<lambda>s. s \<in> set sentinel_operations) (f ''allowed_operations''),
       s_invalid ''allowed_operations must be drawn from the controlled operation vocabulary''),
      (absent_or (assertStringArray max_allowed_list_entries processName) (f ''allowed_processes''),
       s_invalid ''allowed_processes must be a bounded array of safe executable names''),
      (absent_or (assertStringArray max_allowed_list_entries (safeId 200)) (f ''allowed_secrets''),
       s_invalid ''allowed_secrets must be a bounded array of safe identifiers''),
      (str_where isIsoTimestamp (f ''authority_expiry''), s_invalid ''authority_expiry must be a valid ISO-8601 UTC timestamp''),
      (is_plain_object rl \<and> finitePositiveInt (30 * 24 * 3600) (ctx_field rl ''max_runtime_seconds''),
       s_invalid ''runtime_limits.max_runtime_seconds is required''),
      (absent_or (finitePositiveInt (24 * 3600)) (ctx_field rl ''heartbeat_interval_seconds''),
       s_invalid ''runtime_limits.heartbeat_interval_seconds must be a positive integer''),
      (absent_or (finitePositiveInt (24 * 3600)) (ctx_field rl ''heartbeat_grace_seconds''),
       s_invalid ''runtime_limits.heartbeat_grace_seconds must be a positive integer''),
      (is_plain_object cl \<and> finiteNonNegativeNumber 1000000 (ctx_field cl ''max_cost_usd''), s_invalid ''cost_limits.max_cost_usd is required''),
      (absent_or capability_context_ok (f ''capability_context''), s_invalid ''capability_context is malformed''),
      (sentinel_find_secret (f ''capability_context'') = None,
       s_invalid (''Rejected: '' @ (case sentinel_find_secret (f ''capability_context'') of Some r \<Rightarrow> r | None \<Rightarrow> [])))])"

definition json_strs :: "json option \<Rightarrow> string list" where
  \<comment> \<open>the entries of an array already checked to hold strings\<close>
  "json_strs v = (case jlist v of None \<Rightarrow> [] | Some xs \<Rightarrow> map (\<lambda>x. the_str (Some x)) xs)"

definition json_strs_opt :: "json option \<Rightarrow> string list option" where
  "json_strs_opt v = (case v of None \<Rightarrow> None | Some _ \<Rightarrow> Some (json_strs v))"

definition normalized_session :: "json \<Rightarrow> sentinel_session_input" where
  "normalized_session input = (let f = (\<lambda>k. jfield k input) in
     \<lparr>si_tenant_id = the_str (f ''tenant_id''), si_agent_id = the_str (f ''agent_id''), si_execution_id = the_str (f ''execution_id''),
      si_decision_id = jstr (f ''decision_id''), si_capability_id = jstr (f ''capability_id''),
      si_correlation_id = the_str (f ''correlation_id''), si_authority_snapshot_hash = the_str (f ''authority_snapshot_hash''),
      si_policy_snapshot_hash = the_str (f ''policy_snapshot_hash''), si_expected_action = the_str (f ''expected_action''),
      si_expected_tool = the_str (f ''expected_tool''), si_expected_resource = the_str (f ''expected_resource''),
      si_allowed_destinations = json_strs (f ''allowed_destinations''), si_allowed_operations = json_strs (f ''allowed_operations''),
      si_allowed_processes = json_strs_opt (f ''allowed_processes''), si_allowed_secrets = json_strs_opt (f ''allowed_secrets''),
      si_authority_expiry = the_str (f ''authority_expiry''), si_runtime_limits = the (f ''runtime_limits''),
      si_cost_limits = the (f ''cost_limits''), si_capability_context = f ''capability_context''\<rparr>)"

definition validateSessionInput :: "json \<Rightarrow> (sentinel_error, sentinel_session_input) res" where
  "validateSessionInput input = rbind (run_checks (session_checks input)) (\<lambda>_. Inr (normalized_session input))"

section \<open>Observations\<close>

record sentinel_observation_input =
  ob_observation_id :: string
  ob_tenant_id :: string
  ob_sentinel_session_id :: string
  ob_timestamp :: string
  ob_source :: string
  ob_observation_type :: string
  ob_payload :: "json option"

record sentinel_observation = sentinel_observation_input +
  ob_sequence :: int
  ob_received_at :: string

definition observation_checks :: "json \<Rightarrow> (bool \<times> sentinel_error) list" where
  "observation_checks input = (let f = (\<lambda>k. jfield k input); p = f ''payload''; size = (case p of None \<Rightarrow> 0 | Some j \<Rightarrow> length (sentinel_canonical j)) in
     [(is_plain_object (Some input), s_invalid ''Observation must be an object''),
      (f ''version'' = Some (JStr sentinel_observation_version),
       Sentinel_Error S_UNSUPPORTED_VERSION (''Unsupported observation version: '' @ show_value (f ''version''))),
      (sentinel_safe_id 200 (f ''observation_id''), s_invalid ''observation_id must be a safe, bounded identifier''),
      (sentinel_safe_id 100 (f ''tenant_id''), s_invalid ''tenant_id is required''),
      (sentinel_safe_id 200 (f ''sentinel_session_id''), s_invalid ''sentinel_session_id is required''),
      (str_where isIsoTimestamp (f ''timestamp''), s_invalid ''timestamp must be a valid ISO-8601 UTC timestamp''),
      (str_where (\<lambda>s. s \<in> set observation_sources) (f ''source''), s_invalid (''Unknown or untrusted source: '' @ show_value (f ''source''))),
      (str_where (\<lambda>s. s \<in> set observation_types) (f ''observation_type''),
       Sentinel_Error S_UNKNOWN_OBSERVATION_TYPE (''Unknown observation type: '' @ show_value (f ''observation_type''))),
      (absent_or is_plain_object p, s_invalid ''payload must be an object''),
      (size \<le> max_observation_payload_bytes, Sentinel_Error S_PAYLOAD_TOO_LARGE
        (''Payload of '' @ show_nat size @ '' bytes exceeds the '' @ show_nat max_observation_payload_bytes @ ''-byte limit'')),
      (sentinel_find_secret p = None, s_invalid (''Rejected: '' @ (case sentinel_find_secret p of Some r \<Rightarrow> r | None \<Rightarrow> [])))])"

definition normalized_observation :: "json \<Rightarrow> sentinel_observation_input" where
  "normalized_observation input = (let f = (\<lambda>k. jfield k input) in
     \<lparr>ob_observation_id = the_str (f ''observation_id''), ob_tenant_id = the_str (f ''tenant_id''),
      ob_sentinel_session_id = the_str (f ''sentinel_session_id''), ob_timestamp = the_str (f ''timestamp''),
      ob_source = the_str (f ''source''), ob_observation_type = the_str (f ''observation_type''), ob_payload = f ''payload''\<rparr>)"

definition validateObservationInput :: "json \<Rightarrow> (sentinel_error, sentinel_observation_input) res" where
  "validateObservationInput input = rbind (run_checks (observation_checks input)) (\<lambda>_. Inr (normalized_observation input))"

end
