(* ===== verification/Sentinel_Policy.thy ===== *)
theory Sentinel_Policy
  imports Sentinel_Schema
begin

text \<open>
  \<open>packages/sentinel-policy\<close>: what a tenant's administrator may submit as a behavioural policy, its
  hash, and the default policy. The parameters of a rule and the risk thresholds keep further keys of
  the caller, so they stay JSON.
\<close>

record sentinel_rule =
  sr_rule_id :: string
  sr_rule_type :: rule_type
  sr_severity :: sentinel_severity
  sr_enabled :: bool
  sr_action :: rule_action
  sr_params :: "json option"

record sentinel_policy_input =
  sp_policy_id :: string
  sp_tenant_id :: string
  sp_name :: string
  sp_enabled :: bool
  sp_rules :: "sentinel_rule list"
  sp_default_behavior :: rule_action
  sp_risk_thresholds :: "json option"
  sp_effective_at :: "string option"
  sp_expires_at :: "string option"

record sentinel_policy = sentinel_policy_input +
  sp_created_at :: string
  sp_policy_hash :: string

definition required_param :: "rule_type \<Rightarrow> string option" where
  "required_param t = (case t of TOO_MANY_TOOL_CALLS \<Rightarrow> Some ''max_tool_calls''
     | TOO_MANY_NETWORK_REQUESTS \<Rightarrow> Some ''max_network_requests'' | TOO_MANY_PROCESS_SPAWNS \<Rightarrow> Some ''max_process_spawns''
     | _ \<Rightarrow> None)"

definition positiveInt :: "json option \<Rightarrow> bool" where
  "positiveInt v = num_where (\<lambda>n. is_integer n \<and> 0 < num_val n \<and> num_val n \<le> 1000000) v"

definition threshold_score :: "json option \<Rightarrow> bool" where
  "threshold_score v = num_where (\<lambda>n. 0 \<le> num_val n \<and> num_val n \<le> 100) v"

definition p_invalid :: "string \<Rightarrow> sentinel_error" where
  "p_invalid m = Sentinel_Error S_POLICY_INVALID m"

definition number_of :: "json option \<Rightarrow> rat option" where
  "number_of v = map_option num_val (jnumber v)"

definition warning_ok :: "json option \<Rightarrow> string \<Rightarrow> bool" where
  \<comment> \<open>absent, or a positive integer below the maximum\<close>
  "warning_ok params p = (case ctx_field params ''warning_threshold'' of None \<Rightarrow> True
     | w \<Rightarrow> positiveInt w \<and> (case (number_of w, number_of (ctx_field params p)) of (Some a, Some b) \<Rightarrow> a < b | _ \<Rightarrow> False))"

definition rule_checks :: "json \<Rightarrow> (bool \<times> sentinel_error) list" where
  "rule_checks input = (let f = (\<lambda>k. jfield k input); params = f ''params''; ty = read_name rule_type_name rule_types (f ''rule_type'') in
     [(is_plain_object (Some input), p_invalid ''Each rule must be an object''),
      (sentinel_safe_id 200 (f ''rule_id''), p_invalid ''rule.rule_id is required''),
      (ty \<noteq> None, p_invalid (''Unknown rule_type: '' @ show_value (f ''rule_type''))),
      (read_name severity_name severities (f ''severity'') \<noteq> None, p_invalid ''rule.severity must be a controlled severity''),
      (jbool (f ''enabled'') \<noteq> None, p_invalid ''rule.enabled must be a boolean''),
      (read_name action_name rule_actions (f ''action'') \<noteq> None, p_invalid ''rule.action must be a controlled action'')]
     @ (case Option.bind ty required_param of None \<Rightarrow> []
        | Some p \<Rightarrow>
            [(is_plain_object params \<and> positiveInt (ctx_field params p),
              p_invalid (''rule '' @ show_value (f ''rule_id'') @ '' ('' @ rule_type_name (the ty) @ '') requires params.'' @ p)),
             (warning_ok params p, p_invalid (''rule '' @ show_value (f ''rule_id'')
                @ '' warning_threshold must be a positive integer below '' @ p))]))"

definition read_rule :: "json \<Rightarrow> sentinel_rule" where
  "read_rule input = (let f = (\<lambda>k. jfield k input) in
     \<lparr>sr_rule_id = the_str (f ''rule_id''), sr_rule_type = the (read_name rule_type_name rule_types (f ''rule_type'')),
      sr_severity = the (read_name severity_name severities (f ''severity'')), sr_enabled = the (jbool (f ''enabled'')),
      sr_action = the (read_name action_name rule_actions (f ''action'')),
      sr_params = (if is_plain_object (f ''params'') then f ''params'' else None)\<rparr>)"

definition validateRule :: "json \<Rightarrow> (sentinel_error, sentinel_rule) res" where
  "validateRule input = rbind (run_checks (rule_checks input)) (\<lambda>_. Inr (read_rule input))"

fun first_duplicate :: "string list \<Rightarrow> string list \<Rightarrow> string option" where
  "first_duplicate seen [] = None"
| "first_duplicate seen (x # xs) = (if x \<in> set seen then Some x else first_duplicate (x # seen) xs)"

definition non_decreasing :: "rat option \<Rightarrow> rat option \<Rightarrow> bool" where
  "non_decreasing a b = (case (a, b) of (Some x, Some y) \<Rightarrow> x \<le> y | _ \<Rightarrow> True)"

definition threshold_checks :: "json option \<Rightarrow> (bool \<times> sentinel_error) list" where
  "threshold_checks rt = (case rt of None \<Rightarrow> []
     | Some _ \<Rightarrow> (let n = (\<lambda>k. number_of (ctx_field rt k)) in
         [(is_plain_object rt, p_invalid ''risk_thresholds must be an object'')]
         @ map (\<lambda>k. (absent_or threshold_score (ctx_field rt k), p_invalid (''risk_thresholds.'' @ k @ '' must be a number from 0 to 100'')))
             [''warn_at'', ''hold_at'', ''terminate_at'']
         @ [(non_decreasing (n ''warn_at'') (n ''hold_at''), p_invalid ''risk_thresholds must be non-decreasing: warn_at <= hold_at <= terminate_at''),
            (non_decreasing (n ''hold_at'') (n ''terminate_at''), p_invalid ''risk_thresholds must be non-decreasing: warn_at <= hold_at <= terminate_at'')]))"

definition policy_checks :: "json \<Rightarrow> (bool \<times> sentinel_error) list" where
  "policy_checks input = (let f = (\<lambda>k. jfield k input) in
     [(is_plain_object (Some input), p_invalid ''Policy must be an object''),
      (f ''version'' = Some (JStr sentinel_policy_version), p_invalid (''Unsupported policy version: '' @ show_value (f ''version''))),
      (sentinel_safe_id 200 (f ''policy_id''), p_invalid ''policy_id is required''),
      (sentinel_safe_id 100 (f ''tenant_id''), p_invalid ''tenant_id is required''),
      (str_where (\<lambda>s. s \<noteq> [] \<and> length s \<le> 200) (f ''name''), p_invalid ''name is required''),
      (jbool (f ''enabled'') \<noteq> None, p_invalid ''enabled must be a boolean''),
      (list_where (\<lambda>xs. length xs \<le> max_rules_per_policy) (f ''rules''),
       p_invalid (''rules must be an array of at most '' @ show_nat max_rules_per_policy @ '' entries''))])"

definition policy_tail_checks :: "json \<Rightarrow> (bool \<times> sentinel_error) list" where
  "policy_tail_checks input = (let f = (\<lambda>k. jfield k input) in
     [(read_name action_name rule_actions (f ''default_behavior'') \<noteq> None, p_invalid ''default_behavior must be a controlled action'')]
     @ threshold_checks (f ''risk_thresholds'') @
     [(absent_or (str_where isIsoTimestamp) (f ''effective_at''), p_invalid ''effective_at must be a valid ISO-8601 UTC timestamp''),
      (absent_or (str_where isIsoTimestamp) (f ''expires_at''), p_invalid ''expires_at must be a valid ISO-8601 UTC timestamp'')])"

definition validatePolicyInput :: "json \<Rightarrow> (sentinel_error, sentinel_policy_input) res" where
  "validatePolicyInput input = (let f = (\<lambda>k. jfield k input) in
     rbind (run_checks (policy_checks input)) (\<lambda>_.
     rbind (mapM validateRule (case jlist (f ''rules'') of None \<Rightarrow> [] | Some xs \<Rightarrow> xs)) (\<lambda>rules.
     case first_duplicate [] (map sr_rule_id rules) of Some i \<Rightarrow> Inl (p_invalid (''Duplicate rule_id: '' @ i))
     | None \<Rightarrow> rbind (run_checks (policy_tail_checks input)) (\<lambda>_. Inr
        \<lparr>sp_policy_id = the_str (f ''policy_id''), sp_tenant_id = the_str (f ''tenant_id''), sp_name = the_str (f ''name''),
         sp_enabled = the (jbool (f ''enabled'')), sp_rules = rules,
         sp_default_behavior = the (read_name action_name rule_actions (f ''default_behavior'')),
         sp_risk_thresholds = f ''risk_thresholds'', sp_effective_at = jstr (f ''effective_at''), sp_expires_at = jstr (f ''expires_at'')\<rparr>))))"

definition sentinel_rule_json :: "sentinel_rule \<Rightarrow> json" where
  "sentinel_rule_json r = JObj ([(''rule_id'', JStr (sr_rule_id r)), (''rule_type'', JStr (rule_type_name (sr_rule_type r))),
     (''severity'', JStr (severity_name (sr_severity r))), (''enabled'', JBool (sr_enabled r)), (''action'', JStr (action_name (sr_action r)))]
     @ opt_field ''params'' (sr_params r))"

definition policy_input_json :: "('a) sentinel_policy_input_scheme \<Rightarrow> json" where
  "policy_input_json p = JObj ([(''version'', JStr sentinel_policy_version), (''policy_id'', JStr (sp_policy_id p)),
     (''tenant_id'', JStr (sp_tenant_id p)), (''name'', JStr (sp_name p)), (''enabled'', JBool (sp_enabled p)),
     (''rules'', JArr (map sentinel_rule_json (sp_rules p))), (''default_behavior'', JStr (action_name (sp_default_behavior p)))]
     @ opt_field ''risk_thresholds'' (sp_risk_thresholds p) @ opt_field ''effective_at'' (map_option JStr (sp_effective_at p))
     @ opt_field ''expires_at'' (map_option JStr (sp_expires_at p)))"

definition computePolicyHash :: "(string \<Rightarrow> string) \<Rightarrow> sentinel_policy_input \<Rightarrow> string" where
  "computePolicyHash sha p = sentinel_hash sha (policy_input_json p)"

definition finalizePolicy :: "(string \<Rightarrow> string) \<Rightarrow> int \<Rightarrow> sentinel_policy_input \<Rightarrow> sentinel_policy" where
  "finalizePolicy sha now p = sentinel_policy_input.extend p
     (sentinel_policy.fields (to_iso now) (computePolicyHash sha p))"

definition findRule :: "sentinel_policy \<Rightarrow> rule_type \<Rightarrow> sentinel_rule option" where
  "findRule p t = find (\<lambda>r. sr_rule_type r = t \<and> sr_enabled r) (sp_rules p)"

definition rule_catalog :: "rule_type \<Rightarrow> sentinel_severity \<times> rule_action" where
  "rule_catalog t = (case t of
       AUTHORITY_EXPIRED \<Rightarrow> (SV_CRITICAL, RA_TERMINATE)
     | APPROVAL_REVOKED \<Rightarrow> (SV_CRITICAL, RA_TERMINATE)
     | AGENT_REVOKED \<Rightarrow> (SV_CRITICAL, RA_TERMINATE)
     | POLICY_CHANGED \<Rightarrow> (SV_MEDIUM, RA_HOLD)
     | TOOL_NOT_ALLOWED \<Rightarrow> (SV_HIGH, RA_TERMINATE)
     | OPERATION_NOT_ALLOWED \<Rightarrow> (SV_HIGH, RA_TERMINATE)
     | RESOURCE_NOT_ALLOWED \<Rightarrow> (SV_HIGH, RA_TERMINATE)
     | DESTINATION_NOT_ALLOWED \<Rightarrow> (SV_HIGH, RA_TERMINATE)
     | PRIVATE_NETWORK_DESTINATION \<Rightarrow> (SV_HIGH, RA_TERMINATE)
     | REDIRECT_NOT_ALLOWED \<Rightarrow> (SV_HIGH, RA_TERMINATE)
     | RUNTIME_EXCEEDED \<Rightarrow> (SV_MEDIUM, RA_HOLD)
     | COST_EXCEEDED \<Rightarrow> (SV_MEDIUM, RA_HOLD)
     | TOO_MANY_TOOL_CALLS \<Rightarrow> (SV_MEDIUM, RA_HOLD)
     | TOO_MANY_NETWORK_REQUESTS \<Rightarrow> (SV_MEDIUM, RA_HOLD)
     | TOO_MANY_PROCESS_SPAWNS \<Rightarrow> (SV_MEDIUM, RA_HOLD)
     | UNEXPECTED_PROCESS \<Rightarrow> (SV_HIGH, RA_TERMINATE)
     | SECRET_LEASE_NOT_ALLOWED \<Rightarrow> (SV_HIGH, RA_TERMINATE)
     | TOOL_INPUT_HASH_MISMATCH \<Rightarrow> (SV_CRITICAL, RA_TERMINATE)
     | CAPABILITY_CONTEXT_MISMATCH \<Rightarrow> (SV_CRITICAL, RA_TERMINATE)
     | MISSING_HEARTBEAT \<Rightarrow> (SV_MEDIUM, RA_HOLD))"

definition default_rule :: "rule_type \<Rightarrow> json" where
  "default_rule t = sentinel_rule_json \<lparr>sr_rule_id = ''rule.'' @ to_lower (rule_type_name t), sr_rule_type = t, sr_severity = fst (rule_catalog t),
     sr_enabled = True, sr_action = snd (rule_catalog t),
     sr_params = (case t of TOO_MANY_TOOL_CALLS \<Rightarrow> Some (JObj [(''max_tool_calls'', jint 10), (''warning_threshold'', jint 8)])
       | TOO_MANY_NETWORK_REQUESTS \<Rightarrow> Some (JObj [(''max_network_requests'', jint 20)])
       | TOO_MANY_PROCESS_SPAWNS \<Rightarrow> Some (JObj [(''max_process_spawns'', jint 5)]) | _ \<Rightarrow> None)\<rparr>"

definition defaultDemoPolicyInput :: "string \<Rightarrow> string \<Rightarrow> json" where
  "defaultDemoPolicyInput tenantId policyId = JObj [(''version'', JStr sentinel_policy_version), (''policy_id'', JStr policyId),
     (''tenant_id'', JStr tenantId), (''name'', JStr ''Default Demo Policy (v0.1, not a production posture)''), (''enabled'', JBool True),
     (''rules'', JArr (map default_rule rule_types)), (''default_behavior'', JStr ''OBSERVE'')]"

end
