(* ===== verification/Egress_Guard.thy ===== *)
theory Egress_Guard
  imports Js_Json
begin

unbundle bit_operations_syntax

text \<open>
  \<open>packages/egress-guard\<close>: which destinations a request may reach. \<open>isIP\<close> of \<open>node:net\<close> is
  written out; the platform's URL parser, the DNS lookup and the fetch itself are arguments of the
  definitions that use them (the lookup and the fetch of each hop separately, since they may change).
\<close>

section \<open>Addresses\<close>

definition decimal_part :: "string \<Rightarrow> bool" where
  "decimal_part s = (s \<noteq> [] \<and> length s \<le> 3 \<and> list_all is_digit s)"

definition digits_int :: "string \<Rightarrow> int" where
  "digits_int s = foldl (\<lambda>n c. 10 * n + int (code_of c - 48)) 0 s"

definition ipv4Value :: "string \<Rightarrow> int option" where
  "ipv4Value address =
     (let parts = str_split (CHR ''.'') address; values = map digits_int parts in
      if length parts \<noteq> 4 \<or> list_ex (\<lambda>p. \<not> decimal_part p) parts then None
      else if list_ex (\<lambda>v. v > 255) values then None
      else Some (((values ! 0 * 256 + values ! 1) * 256 + values ! 2) * 256 + values ! 3))"

definition private_ranges :: "(int \<times> int) list" where
  "private_ranges = [(0x00000000, 0x00ffffff), (0x0a000000, 0x0affffff), (0x64400000, 0x647fffff), (0x7f000000, 0x7fffffff),
     (0xa9fe0000, 0xa9feffff), (0xac100000, 0xac1fffff), (0xc0000000, 0xc00000ff), (0xc6120000, 0xc613ffff),
     (0xc6336400, 0xc63364ff), (0xc0a80000, 0xc0a8ffff), (0xcb007100, 0xcb0071ff), (0xe0000000, 0xefffffff)]"

definition ipv4Private :: "string \<Rightarrow> bool" where
  "ipv4Private address = (case ipv4Value address of None \<Rightarrow> False
     | Some v \<Rightarrow> list_ex (\<lambda>(a, b). a \<le> v \<and> v \<le> b) private_ranges)"

fun split_double_colon :: "string \<Rightarrow> string list" where
  \<comment> \<open>\<open>address.split('::')\<close>\<close>
  "split_double_colon (c # d # cs) =
     (if c = CHR '':'' \<and> d = CHR '':'' then [] # split_double_colon cs
      else (case split_double_colon (d # cs) of [] \<Rightarrow> [[c]] | p # ps \<Rightarrow> (c # p) # ps))"
| "split_double_colon s = [s]"

definition hex_group :: "string \<Rightarrow> bool" where
  "hex_group s = (s \<noteq> [] \<and> length s \<le> 4 \<and> list_all (\<lambda>c. is_hex (to_lower_char c)) s)"

definition hex_int :: "string \<Rightarrow> int" where
  "hex_int s = foldl (\<lambda>n c. 16 * n + (let d = int (code_of (to_lower_char c)) in if d < 58 then d - 48 else d - 87)) 0 s"

fun ipv6_items :: "string list \<Rightarrow> int list option" where
  "ipv6_items [] = Some []"
| "ipv6_items (item # rest) =
     (case (if CHR ''.'' \<in> set item then (case ipv4Value item of None \<Rightarrow> None | Some v \<Rightarrow> Some [drop_bit 16 v, v AND 0xffff])
            else if hex_group item then Some [hex_int item] else None) of
        None \<Rightarrow> None
      | Some ws \<Rightarrow> map_option (\<lambda>r. ws @ r) (ipv6_items rest))"

definition ipv6_part :: "string \<Rightarrow> int list option" where
  "ipv6_part part = (if part = [] then Some [] else ipv6_items (str_split (CHR '':'') part))"

definition ipv6Words :: "string \<Rightarrow> int list option" where
  "ipv6Words address =
     (let pieces = split_double_colon address in
      if CHR ''%'' \<in> set address \<or> length pieces > 2 then None
      else (case (ipv6_part (pieces ! 0), ipv6_part (if length pieces = 2 then pieces ! 1 else [])) of
          (Some left, Some right) \<Rightarrow>
            if (length pieces = 1 \<and> length left \<noteq> 8) \<or> (length pieces = 2 \<and> length left + length right \<ge> 8) then None
            else Some (if length pieces = 2 then left @ replicate (8 - length left - length right) 0 @ right else left)
        | _ \<Rightarrow> None))"

text \<open>\<open>isIP\<close>: 4, 6, or 0. An octet has no leading zero; a zone may follow an IPv6 address.\<close>

definition strict_ipv4 :: "string \<Rightarrow> bool" where
  "strict_ipv4 s = (let ps = str_split (CHR ''.'') s in length ps = 4 \<and>
     list_all (\<lambda>p. decimal_part p \<and> digits_int p \<le> 255 \<and> (length p > 1 \<longrightarrow> hd p \<noteq> CHR ''0'')) ps)"

fun ipv6_size :: "bool \<Rightarrow> string list \<Rightarrow> nat option" where
  \<comment> \<open>how many 16-bit groups the items are; an IPv4 tail counts two\<close>
  "ipv6_size tail [] = Some 0"
| "ipv6_size tail [x] = (if hex_group x then Some 1 else if tail \<and> strict_ipv4 x then Some 2 else None)"
| "ipv6_size tail (x # y # ys) = (if hex_group x then map_option Suc (ipv6_size tail (y # ys)) else None)"

definition ipv6_part_size :: "bool \<Rightarrow> string \<Rightarrow> nat option" where
  "ipv6_part_size tail p = (if p = [] then Some 0 else ipv6_size tail (str_split (CHR '':'') p))"

definition ipv6_syntax :: "string \<Rightarrow> bool" where
  "ipv6_syntax a = (case split_double_colon a of
       [p] \<Rightarrow> p \<noteq> [] \<and> ipv6_part_size True p = Some 8
     | [l, r] \<Rightarrow> (case (ipv6_part_size False l, ipv6_part_size True r) of (Some n, Some m) \<Rightarrow> n + m \<le> 7 | _ \<Rightarrow> False)
     | _ \<Rightarrow> False)"

definition zone_ok :: "string \<Rightarrow> bool" where
  "zone_ok z = (z = [] \<or> (tl z \<noteq> [] \<and> list_all (\<lambda>c. is_alnum c \<or> char_in ''-.:'' c) (tl z)))"

definition isIP :: "string \<Rightarrow> nat" where
  "isIP s = (if strict_ipv4 s then 4
     else if ipv6_syntax (takeWhile (\<lambda>c. c \<noteq> CHR ''%'') s) \<and> zone_ok (dropWhile (\<lambda>c. c \<noteq> CHR ''%'') s) then 6 else 0)"

definition dotted :: "int \<Rightarrow> int \<Rightarrow> string" where
  "dotted hi lo = show_int (drop_bit 8 hi) @ ''.'' @ show_int (hi AND 255) @ ''.'' @ show_int (drop_bit 8 lo) @ ''.'' @ show_int (lo AND 255)"

definition isPrivateAddress :: "string \<Rightarrow> bool" where
  "isPrivateAddress address =
     (if isIP address = 4 then ipv4Private address
      else if isIP address \<noteq> 6 then False
      else (case ipv6Words address of None \<Rightarrow> True
        | Some ws \<Rightarrow>
            if list_all (\<lambda>w. w = 0) (take 5 ws) \<and> ws ! 5 = 0xffff then ipv4Private (dotted (ws ! 6) (ws ! 7))
            else ws ! 0 = 0 \<or> ws ! 0 AND 0xfe00 = 0xfc00 \<or> ws ! 0 AND 0xffc0 = 0xfe80 \<or> ws ! 0 AND 0xff00 = 0xff00))"

section \<open>Policy and destinations\<close>

datatype block_reason = NETWORK_DISABLED | UNSUPPORTED_PROTOCOL | INVALID_URL | USERINFO_FORBIDDEN | INVALID_HOST
  | PORT_FORBIDDEN | LOCALHOST_FORBIDDEN | PRIVATE_ADDRESS | UNKNOWN_DESTINATION | DENIED_HOST | HOST_NOT_ALLOWED
  | DNS_FAILURE | REDIRECT_LIMIT | REDIRECT_LOCATION_INVALID

record egress_policy =
  eg_required :: bool
  eg_allowHosts :: "string list"
  eg_denyHosts :: "string list option"
  eg_approvedPorts :: "int list option"
  eg_credentialHeaders :: "string list option"

record egress_decision =
  ed_reason :: "block_reason option"
  ed_destination :: string
  ed_hostname :: "string option"
  ed_detail :: "string option"

definition ed_allowed :: "egress_decision \<Rightarrow> bool" where
  "ed_allowed d = (ed_reason d = None)"

text \<open>The parts of a parsed URL the code reads; \<open>port\<close> is empty for the default port.\<close>

record url =
  ur_href :: string
  ur_protocol :: string
  ur_username :: string
  ur_password :: string
  ur_hostname :: string
  ur_port :: string
  ur_origin :: string

datatype egress_input = Text string | Url url

record canonical_destination =
  cd_url :: url
  cd_hostname :: string
  cd_port :: int

definition blocked :: "block_reason \<Rightarrow> string \<Rightarrow> egress_decision" where
  "blocked r dest = \<lparr>ed_reason = Some r, ed_destination = dest, ed_hostname = None, ed_detail = None\<rparr>"

definition default_ports :: "int list" where
  "default_ports = [80, 443]"

definition forwarded_headers :: "string list" where
  "forwarded_headers = [''accept'', ''accept-language'', ''cache-control'', ''content-type'', ''range'']"

definition sensitive_headers :: "string list" where
  "sensitive_headers = [''authorization'', ''cookie'', ''proxy-authorization'']"

definition normalizedHost :: "string \<Rightarrow> string option" where
  \<comment> \<open>\<open>None\<close>: throws\<close>
  "normalizedHost host =
     (let h = (if starts_with ''['' host \<and> ends_with '']'' host then drop_end 1 (tl host) else host) in
      if h = [] \<or> CHR ''%'' \<in> set h \<or> list_ex (\<lambda>c. code_of c > 127) h then None
      else Some (rev (dropWhile (\<lambda>c. c = CHR ''.'') (rev (to_lower h)))))"

definition policyHost :: "string \<Rightarrow> string option" where
  "policyHost host =
     (if starts_with ''*.'' host
      then (case normalizedHost (drop 2 host) of None \<Rightarrow> None
        | Some sfx \<Rightarrow> if sfx = [] \<or> isIP sfx \<noteq> 0 then None else Some (''*.'' @ sfx))
      else normalizedHost host)"

fun after_scheme :: "string \<Rightarrow> string option" where
  \<comment> \<open>the text after the first \<open>://\<close>\<close>
  "after_scheme [] = None"
| "after_scheme (c # cs) = (if starts_with ''://'' (c # cs) then Some (drop 3 (c # cs)) else after_scheme cs)"

definition encoded_authority :: "string \<Rightarrow> bool" where
  "encoded_authority s = (case after_scheme s of None \<Rightarrow> False
     | Some r \<Rightarrow> CHR ''%'' \<in> set (takeWhile (\<lambda>c. \<not> char_in ''/?#'' c) r))"

definition input_text :: "egress_input \<Rightarrow> string" where
  "input_text i = (case i of Text s \<Rightarrow> s | Url u \<Rightarrow> ur_href u)"

definition canonicalizeDestination :: "(string \<Rightarrow> url option) \<Rightarrow> egress_input \<Rightarrow> (egress_decision, canonical_destination) res" where
  "canonicalizeDestination parse i =
     (if (case i of Text s \<Rightarrow> encoded_authority s | Url _ \<Rightarrow> False)
      then Inl ((blocked INVALID_HOST (input_text i))\<lparr>ed_detail := Some ''encoded authority is forbidden''\<rparr>)
      else (case (case i of Text s \<Rightarrow> parse s | Url u \<Rightarrow> Some u) of
          None \<Rightarrow> Inl (blocked INVALID_URL (input_text i))
        | Some u \<Rightarrow>
            if ur_protocol u \<notin> {''http:'', ''https:''} then Inl (blocked UNSUPPORTED_PROTOCOL (ur_href u))
            else if ur_username u \<noteq> [] \<or> ur_password u \<noteq> [] then Inl (blocked USERINFO_FORBIDDEN (ur_href u))
            else (case normalizedHost (ur_hostname u) of
                None \<Rightarrow> Inl (blocked INVALID_HOST (ur_href u))
              | Some h \<Rightarrow>
                  if h = [] \<or> ends_with ''.'' h then Inl (blocked INVALID_HOST (ur_href u))
                  else let port = (if ur_port u \<noteq> [] then digits_int (ur_port u) else if ur_protocol u = ''https:'' then 443 else 80) in
                    if port < 1 \<or> port > 65535 then Inl (blocked PORT_FORBIDDEN (ur_href u))
                    else Inr \<lparr>cd_url = u, cd_hostname = h, cd_port = port\<rparr>)))"

section \<open>The guard\<close>

record egress_guard =
  gd_policy :: egress_policy
  gd_allowHosts :: "string list"
  gd_denyHosts :: "string list"
  gd_maxRedirects :: nat
  gd_credentialHeaders :: "string list"

fun map_hosts :: "string list \<Rightarrow> string list option" where
  "map_hosts [] = Some []"
| "map_hosts (h # hs) = (case policyHost h of None \<Rightarrow> None | Some p \<Rightarrow> map_option (\<lambda>r. p # r) (map_hosts hs))"

definition new_guard :: "egress_policy \<Rightarrow> nat option \<Rightarrow> egress_guard option" where
  \<comment> \<open>\<open>None\<close>: a host of the policy is refused\<close>
  "new_guard p redirects =
     (case (map_hosts (eg_allowHosts p), map_hosts (case eg_denyHosts p of None \<Rightarrow> [] | Some hs \<Rightarrow> hs)) of
        (Some a, Some d) \<Rightarrow> Some \<lparr>gd_policy = p, gd_allowHosts = a, gd_denyHosts = d,
          gd_maxRedirects = (case redirects of None \<Rightarrow> 5 | Some n \<Rightarrow> n),
          gd_credentialHeaders = map to_lower (case eg_credentialHeaders p of None \<Rightarrow> [] | Some hs \<Rightarrow> hs)\<rparr>
      | _ \<Rightarrow> None)"

definition denied :: "string list \<Rightarrow> string \<Rightarrow> bool" where
  "denied denyHosts h = list_ex (\<lambda>d. d = h \<or> (starts_with ''*.'' d \<and> ends_with (''.'' @ drop 2 d) h)) denyHosts"

definition port_allowed :: "egress_policy \<Rightarrow> int \<Rightarrow> bool" where
  "port_allowed p port = (port \<in> set (case eg_approvedPorts p of None \<Rightarrow> default_ports | Some ps \<Rightarrow> ps))"

definition egress_evaluate :: "(string \<Rightarrow> url option) \<Rightarrow> (string \<Rightarrow> string list option) \<Rightarrow> egress_guard \<Rightarrow> egress_input \<Rightarrow> egress_decision" where
  "egress_evaluate parse lookup g i =
     (if \<not> eg_required (gd_policy g) then blocked NETWORK_DISABLED (input_text i)
      else (case canonicalizeDestination parse i of Inl d \<Rightarrow> d
        | Inr c \<Rightarrow>
            let h = cd_hostname c; here = (blocked INVALID_URL (ur_href (cd_url c)))\<lparr>ed_hostname := Some h\<rparr>;
                block = (\<lambda>r. here\<lparr>ed_reason := Some r\<rparr>); allow = here\<lparr>ed_reason := None\<rparr> in
            if h = ''localhost'' \<or> ends_with ''.localhost'' h then block LOCALHOST_FORBIDDEN
            else if isPrivateAddress h then block PRIVATE_ADDRESS
            else if \<not> port_allowed (gd_policy g) (cd_port c) then block PORT_FORBIDDEN
            else if denied (gd_denyHosts g) h then block DENIED_HOST
            else if h \<notin> set (gd_allowHosts g) then block HOST_NOT_ALLOWED
            else if isIP h \<noteq> 0 then allow
            else (case lookup h of
                None \<Rightarrow> (block UNKNOWN_DESTINATION)\<lparr>ed_detail := Some ''DNS lookup failed''\<rparr>
              | Some addresses \<Rightarrow>
                  if addresses = [] then block UNKNOWN_DESTINATION
                  else if list_ex isPrivateAddress addresses
                  then (block PRIVATE_ADDRESS)\<lparr>ed_detail := Some ''DNS resolved to a private address''\<rparr>
                  else allow)))"

record response =
  rs_status :: int
  rs_location :: "string option"

type_synonym headers = "(string \<times> string) list"

definition strip_headers :: "egress_guard \<Rightarrow> headers \<Rightarrow> headers" where
  \<comment> \<open>what survives a redirect to another origin\<close>
  "strip_headers g hs = filter (\<lambda>(n, _). n \<in> set forwarded_headers \<and> n \<notin> set sensitive_headers
     \<and> n \<notin> set (gd_credentialHeaders g)) hs"

text \<open>
  The loop of \<open>request\<close>: \<open>left\<close> redirects may still follow. It returns what was fetched (destination
  and headers of each hop, in order) and the response or the error. \<open>lookup\<close> and \<open>fetch\<close> are those of
  the hops, \<open>resolve\<close> is \<open>new URL(location, base)\<close>.
\<close>

fun egress_request :: "(string \<Rightarrow> url option) \<Rightarrow> (string \<Rightarrow> string \<Rightarrow> url option) \<Rightarrow> (nat \<Rightarrow> string \<Rightarrow> string list option)
    \<Rightarrow> (nat \<Rightarrow> string \<Rightarrow> headers \<Rightarrow> response) \<Rightarrow> egress_guard \<Rightarrow> nat \<Rightarrow> egress_input \<Rightarrow> headers
    \<Rightarrow> (string \<times> headers) list \<times> (egress_decision, response) res" where
  "egress_request parse resolve lookup fetch g left current hs =
     (let d = egress_evaluate parse (lookup left) g current; dest = ed_destination d in
      if \<not> ed_allowed d then ([], Inl d)
      else let r = fetch left dest hs in
        if rs_status r < 300 \<or> rs_status r \<ge> 400 then ([(dest, hs)], Inr r)
        else (case rs_location r of
            None \<Rightarrow> ([(dest, hs)], Inl ((blocked REDIRECT_LOCATION_INVALID dest)\<lparr>ed_detail := Some ''redirect has no Location header''\<rparr>))
          | Some l \<Rightarrow>
              if l = [] then ([(dest, hs)], Inl ((blocked REDIRECT_LOCATION_INVALID dest)\<lparr>ed_detail := Some ''redirect has no Location header''\<rparr>))
              else (case left of 0 \<Rightarrow> ([(dest, hs)], Inl (blocked REDIRECT_LIMIT dest))
                | Suc left' \<Rightarrow>
                    (case resolve l dest of None \<Rightarrow> ([(dest, hs)], Inl (blocked REDIRECT_LOCATION_INVALID dest))
                     | Some u \<Rightarrow>
                         let hs' = (if map_option ur_origin (parse dest) \<noteq> Some (ur_origin u) then strip_headers g hs else hs);
                             (trace, out) = egress_request parse resolve lookup fetch g left' (Url u) hs'
                         in ((dest, hs) # trace, out)))))"

declare egress_request.simps [simp del]

section \<open>What an allowed destination satisfies\<close>

definition guarded :: "egress_guard \<Rightarrow> (string \<Rightarrow> string list option) \<Rightarrow> canonical_destination \<Rightarrow> bool" where
  "guarded g lookup c = (eg_required (gd_policy g) \<and> cd_hostname c \<in> set (gd_allowHosts g) \<and> \<not> denied (gd_denyHosts g) (cd_hostname c)
     \<and> port_allowed (gd_policy g) (cd_port c) \<and> ur_protocol (cd_url c) \<in> {''http:'', ''https:''}
     \<and> ur_username (cd_url c) = [] \<and> ur_password (cd_url c) = [] \<and> cd_hostname c \<noteq> ''localhost'' \<and> \<not> isPrivateAddress (cd_hostname c)
     \<and> (isIP (cd_hostname c) = 0 \<longrightarrow> (\<exists>as. lookup (cd_hostname c) = Some as \<and> as \<noteq> [] \<and> list_all (\<lambda>a. \<not> isPrivateAddress a) as)))"

lemma canonical_facts:
  assumes "canonicalizeDestination parse i = Inr c"
  shows "ur_protocol (cd_url c) \<in> {''http:'', ''https:''}" "ur_username (cd_url c) = []" "ur_password (cd_url c) = []"
    "1 \<le> cd_port c \<and> cd_port c \<le> 65535"
  using assms by (auto simp: canonicalizeDestination_def Let_def split: if_splits option.splits egress_input.splits)

lemma evaluate_allowed:
  assumes "ed_allowed (egress_evaluate parse lookup g i)"
  shows "\<exists>c. canonicalizeDestination parse i = Inr c \<and> guarded g lookup c
     \<and> ed_destination (egress_evaluate parse lookup g i) = ur_href (cd_url c)"
proof (cases "canonicalizeDestination parse i")
  case (Inl d)
  have "ed_reason d \<noteq> None"
    using Inl by (auto simp: canonicalizeDestination_def Let_def blocked_def split: if_splits option.splits egress_input.splits)
  then show ?thesis
    using assms Inl by (auto simp: egress_evaluate_def ed_allowed_def blocked_def split: if_splits)
next
  case (Inr c)
  then show ?thesis
    using assms canonical_facts [OF Inr]
    by (auto simp: egress_evaluate_def ed_allowed_def guarded_def blocked_def Let_def list_all_iff list_ex_iff split: if_splits option.splits)
qed


section \<open>Requests\<close>

definition origin_of :: "(string \<Rightarrow> url option) \<Rightarrow> string \<Rightarrow> string option" where
  "origin_of parse dest = map_option ur_origin (parse dest)"

definition clean_headers :: "egress_guard \<Rightarrow> headers \<Rightarrow> bool" where
  "clean_headers g hs = list_all (\<lambda>(n, _). n \<notin> set sensitive_headers \<and> n \<notin> set (gd_credentialHeaders g)) hs"

lemma strip_clean: "clean_headers g (strip_headers g hs)"
  by (auto simp: clean_headers_def strip_headers_def list_all_iff)

lemma strip_subset: "set (strip_headers g hs) \<subseteq> set hs"
  by (auto simp: strip_headers_def)

lemma clean_subset: "clean_headers g hs \<Longrightarrow> set hs' \<subseteq> set hs \<Longrightarrow> clean_headers g hs'"
  by (auto simp: clean_headers_def list_all_iff)

definition hop_ok :: "egress_guard \<Rightarrow> (nat \<Rightarrow> string \<Rightarrow> string list option) \<Rightarrow> nat \<Rightarrow> headers \<Rightarrow> string \<times> headers \<Rightarrow> bool" where
  "hop_ok g lookup left hs hop = ((\<exists>k c. k \<le> left \<and> guarded g (lookup k) c \<and> fst hop = ur_href (cd_url c)) \<and> set (snd hop) \<subseteq> set hs)"

text \<open>One round of the loop: nothing is fetched, or one allowed destination, or one and then the rest.\<close>

lemma request_cases:
  assumes "egress_request parse resolve lookup fetch g left i hs = (trace, out)"
  obtains "trace = []"
  | "ed_allowed (egress_evaluate parse (lookup left) g i)" "trace = [(ed_destination (egress_evaluate parse (lookup left) g i), hs)]"
  | left' l u rest where "ed_allowed (egress_evaluate parse (lookup left) g i)" "left = Suc left'"
      "resolve l (ed_destination (egress_evaluate parse (lookup left) g i)) = Some u"
      "trace = (ed_destination (egress_evaluate parse (lookup left) g i), hs) # rest"
      "egress_request parse resolve lookup fetch g left' (Url u)
        (if origin_of parse (ed_destination (egress_evaluate parse (lookup left) g i)) \<noteq> Some (ur_origin u) then strip_headers g hs else hs) = (rest, out)"
  using assms
  by (subst (asm) egress_request.simps) (auto simp: Let_def origin_of_def split: if_splits option.splits nat.splits prod.splits)

lemma url_destination:
  assumes "ed_allowed (egress_evaluate parse lookup g (Url u))"
  shows "ed_destination (egress_evaluate parse lookup g (Url u)) = ur_href u"
proof -
  obtain c where c: "canonicalizeDestination parse (Url u) = Inr c" "ed_destination (egress_evaluate parse lookup g (Url u)) = ur_href (cd_url c)"
    using evaluate_allowed [OF assms] by blast
  then have "cd_url c = u"
    by (auto simp: canonicalizeDestination_def Let_def split: if_splits option.splits)
  with c(2) show ?thesis by simp
qed

lemma request_first:
  assumes "egress_request parse resolve lookup fetch g left (Url u) hs = (hop # rest, out)"
  shows "fst hop = ur_href u"
  by (rule request_cases [OF assms]) (simp_all add: url_destination)

lemma request_trace:
  assumes "\<And>l b u. resolve l b = Some u \<Longrightarrow> parse (ur_href u) = Some u"
  shows "egress_request parse resolve lookup fetch g left i hs = (trace, out) \<Longrightarrow>
    length trace \<le> Suc left \<and> (\<forall>hop \<in> set trace. hop_ok g lookup left hs hop
      \<and> (origin_of parse (fst hop) = origin_of parse (fst (hd trace)) \<or> clean_headers g (snd hop)))"
proof (induction left arbitrary: i hs trace)
  case 0
  then show ?case
  proof (cases rule: request_cases)
    case 2
    then show ?thesis using evaluate_allowed [OF 2(1)] by (force simp: hop_ok_def)
  qed simp_all
next
  case (Suc n)
  from Suc.prems show ?case
  proof (cases rule: request_cases)
    case 2
    then show ?thesis using evaluate_allowed [OF 2(1)] by (force simp: hop_ok_def)
  next
    case (3 left' l u rest)
    define dest where "dest = ed_destination (egress_evaluate parse (lookup (Suc n)) g i)"
    define hs' where "hs' = (if origin_of parse dest \<noteq> Some (ur_origin u) then strip_headers g hs else hs)"
    have n: "left' = n" and tr: "trace = (dest, hs) # rest" using 3 by (simp_all add: dest_def)
    have rec: "egress_request parse resolve lookup fetch g n (Url u) hs' = (rest, out)"
      using 3(5) n by (simp add: dest_def hs'_def)
    have sub: "set hs' \<subseteq> set hs" by (simp add: hs'_def strip_subset)
    have ou: "origin_of parse (ur_href u) = Some (ur_origin u)"
      using assms [OF 3(3)] by (simp add: origin_of_def)
    note ih = Suc.IH [OF rec]
    have first: "hop_ok g lookup (Suc n) hs (dest, hs)"
      using evaluate_allowed [OF 3(1)] by (force simp: hop_ok_def dest_def)
    have later: "hop_ok g lookup (Suc n) hs hop \<and> (origin_of parse (fst hop) = origin_of parse dest \<or> clean_headers g (snd hop))"
      if hop: "hop \<in> set rest" for hop
    proof
      have ok: "hop_ok g lookup n hs' hop" using ih hop by blast
      then show "hop_ok g lookup (Suc n) hs hop"
        using sub unfolding hop_ok_def by (meson le_SucI order_trans)
      have hd: "origin_of parse (fst (hd rest)) = Some (ur_origin u)"
        using hop rec ou request_first by (cases rest) (fastforce, metis list.sel(1))
      show "origin_of parse (fst hop) = origin_of parse dest \<or> clean_headers g (snd hop)"
      proof (cases "origin_of parse dest = Some (ur_origin u)")
        case True
        then show ?thesis using ih hop hd by metis
      next
        case False
        then have "hs' = strip_headers g hs" by (simp add: hs'_def)
        then show ?thesis
          using clean_subset [OF strip_clean, of "snd hop" g hs] ok by (simp add: hop_ok_def)
      qed
    qed
    show ?thesis using ih first later by (simp add: tr)
  qed simp
qed


definition demo_url :: url where
  "demo_url = \<lparr>ur_href = ''https://a.example/'', ur_protocol = ''https:'', ur_username = [], ur_password = [],
     ur_hostname = ''a.example'', ur_port = [], ur_origin = ''https://a.example''\<rparr>"

definition demo_guard :: egress_guard where
  "demo_guard = \<lparr>gd_policy = \<lparr>eg_required = True, eg_allowHosts = [''a.example''], eg_denyHosts = None, eg_approvedPorts = None,
       eg_credentialHeaders = None\<rparr>,
     gd_allowHosts = [''a.example''], gd_denyHosts = [], gd_maxRedirects = 5, gd_credentialHeaders = []\<rparr>"

definition demo_url_parse :: "string \<Rightarrow> url option" where
  "demo_url_parse s = (if s = ur_href demo_url then Some demo_url else None)"

definition demo_fetch :: "nat \<Rightarrow> string \<Rightarrow> headers \<Rightarrow> response" where
  "demo_fetch k d hs = \<lparr>rs_status = 200, rs_location = None\<rparr>"

lemma demo_egress_trace: "egress_request demo_url_parse (\<lambda>l b. demo_url_parse l) (\<lambda>k h. Some [''93.184.216.34'']) demo_fetch demo_guard 5
    (Text ''https://a.example/'') [(''cookie'', ''x'')] = ([(''https://a.example/'', [(''cookie'', ''x'')])], Inr (demo_fetch 5 [] []))"
  by (subst egress_request.simps) code_simp



end
