(* ===== verification/Sentinel_Engine.thy ===== *)
theory Sentinel_Engine
  imports Sentinel_Policy Egress_Guard Vad_Core
begin

text \<open>
  \<open>packages/sentinel-signals\<close> and \<open>packages/sentinel-engine\<close>: one rule against one context, and all rules
  folded into a decision. Both are pure. The clock reading is in milliseconds; \<open>ids k\<close> is the \<open>k\<close>-th
  identifier generated.
\<close>

section \<open>Rule results\<close>

datatype rule_status = RR_MATCH | RR_NO_MATCH | RR_NOT_APPLICABLE | RR_ERROR

record rule_result =
  rr_status :: rule_status
  rr_rule :: sentinel_rule
  rr_message_code :: string
  rr_message :: string
  rr_evidence :: json
  rr_observation_id :: "string option"
  rr_overrideAction :: "rule_action option"
  rr_overrideSeverity :: "sentinel_severity option"

record evaluation_context =
  ec_session :: sentinel_session
  ec_now :: int
  ec_observation :: "sentinel_observation option"
  ec_authorityStatus :: "authority_status option"

definition messageCode :: "rule_type \<Rightarrow> string" where
  "messageCode t = ''SENTINEL_'' @ rule_type_name t"

definition rule_outcome :: "rule_status \<Rightarrow> sentinel_rule \<Rightarrow> string \<Rightarrow> json \<Rightarrow> string option \<Rightarrow> rule_result" where
  "rule_outcome st rule message evidence obs = \<lparr>rr_status = st, rr_rule = rule, rr_message_code = messageCode (sr_rule_type rule),
     rr_message = message, rr_evidence = evidence, rr_observation_id = obs, rr_overrideAction = None, rr_overrideSeverity = None\<rparr>"

definition noMatch :: "sentinel_rule \<Rightarrow> rule_result" where
  "noMatch rule = rule_outcome RR_NO_MATCH rule ''No violation observed'' (JObj []) None"

definition notApplicable :: "sentinel_rule \<Rightarrow> string \<Rightarrow> rule_result" where
  "notApplicable rule message = rule_outcome RR_NOT_APPLICABLE rule message (JObj []) None"

definition matched :: "sentinel_rule \<Rightarrow> string \<Rightarrow> (string \<times> json) list \<Rightarrow> string option \<Rightarrow> rule_result" where
  "matched rule message evidence obs = rule_outcome RR_MATCH rule message (JObj evidence) obs"

section \<open>Names\<close>

definition normalizeHostname :: "string \<Rightarrow> string" where
  "normalizeHostname host = (let h = to_lower (str_trim host) in if ends_with ''.'' h then drop_end 1 h else h)"

definition normalizeProcessName :: "string \<Rightarrow> string" where
  "normalizeProcessName name = (let n = to_lower (str_trim name) in
     if list_ex (\<lambda>e. ends_with e n) [''.exe'', ''.cmd'', ''.bat'', ''.com''] then drop_end 4 n else n)"

definition hostAllowed :: "string \<Rightarrow> string list \<Rightarrow> bool" where
  "hostAllowed hostname allowList = (let target = normalizeHostname hostname in
     list_ex (\<lambda>entry. let pattern = normalizeHostname entry in
       if starts_with ''*.'' pattern then target = drop 2 pattern \<or> ends_with (''.'' @ drop 2 pattern) target else target = pattern) allowList)"

definition tool_call_types :: "string list" where
  "tool_call_types = [''TOOL_CALL_REQUESTED'', ''TOOL_CALL_STARTED'', ''TOOL_CALL_COMPLETED'', ''TOOL_CALL_FAILED'']"

definition resource_op :: "string \<Rightarrow> string option" where
  "resource_op t = (if t = ''RESOURCE_READ'' then Some ''read'' else if t = ''RESOURCE_WRITE'' then Some ''write''
     else if t = ''RESOURCE_CREATE'' then Some ''create'' else if t = ''RESOURCE_DELETE'' then Some ''delete'' else None)"

definition quoted :: "string \<Rightarrow> string" where
  "quoted s = CHR 0x22 # s @ [CHR 0x22]"

section \<open>The rules\<close>

definition volumetric :: "sentinel_rule \<Rightarrow> int \<Rightarrow> string \<Rightarrow> rule_result" where
  "volumetric rule cnt param =
     (case jnumber (ctx_field (sr_params rule) param) of
        None \<Rightarrow> notApplicable rule ''Policy did not configure a threshold for this rule''
      | Some mx \<Rightarrow>
          if of_int cnt > num_val mx
          then matched rule (''Observed count '' @ show_int cnt @ '' exceeds configured maximum '' @ show_num mx)
            [(''count'', jint cnt), (''max'', JNum mx)] None
          else (case jnumber (ctx_field (sr_params rule) ''warning_threshold'') of
              Some w \<Rightarrow> if of_int cnt \<ge> num_val w
                then (matched rule (''Observed count '' @ show_int cnt @ '' is approaching configured maximum '' @ show_num mx)
                    [(''count'', jint cnt), (''max'', JNum mx), (''warning_threshold'', JNum w), (''approaching'', JBool True)] None)
                  \<lparr>rr_overrideAction := Some RA_WARN, rr_overrideSeverity := Some SV_LOW\<rparr>
                else noMatch rule
            | None \<Rightarrow> noMatch rule))"

definition expired_rule :: "sentinel_rule \<Rightarrow> evaluation_context \<Rightarrow> rule_result" where
  "expired_rule rule c = (let e = si_authority_expiry (ec_session c) in
     case date_parse e of None \<Rightarrow> noMatch rule
     | Some t \<Rightarrow> if ec_now c > t then matched rule (''Authority expired at '' @ e) [(''authority_expiry'', JStr e), (''now'', jint (ec_now c))] None
        else noMatch rule)"

definition authority_kind_name :: "authority_kind \<Rightarrow> string" where
  "authority_kind_name k = (case k of AS_VALID \<Rightarrow> ''VALID'' | AS_EXPIRED \<Rightarrow> ''EXPIRED'' | AS_REVOKED \<Rightarrow> ''REVOKED''
     | AS_POLICY_CHANGED \<Rightarrow> ''POLICY_CHANGED'' | AS_UNKNOWN \<Rightarrow> ''UNKNOWN'')"

definition authority_json :: "authority_status \<Rightarrow> json" where
  "authority_json a = JObj ([(''status'', JStr (authority_kind_name (au_status a)))]
     @ opt_field ''revokedScope'' (map_option (\<lambda>s. JStr (case s of RS_Agent \<Rightarrow> ''agent'' | RS_Approval \<Rightarrow> ''approval'')) (au_revokedScope a))
     @ opt_field ''currentPolicyHash'' (map_option JStr (au_currentPolicyHash a)))"

definition authority_unknown :: "sentinel_rule \<Rightarrow> authority_status \<Rightarrow> rule_result" where
  "authority_unknown rule a = rule_outcome RR_ERROR rule ''Authority status could not be established''
     (JObj [(''authorityStatus'', authority_json a)]) None"

definition revoked_rule :: "sentinel_rule \<Rightarrow> revoked_scope \<Rightarrow> evaluation_context \<Rightarrow> rule_result" where
  "revoked_rule rule want c = (case ec_authorityStatus c of
       None \<Rightarrow> notApplicable rule ''No authority recheck is available yet''
     | Some a \<Rightarrow>
         if au_status a = AS_UNKNOWN then authority_unknown rule a
         else if au_status a = AS_REVOKED \<and> (case au_revokedScope a of None \<Rightarrow> RS_Agent | Some s \<Rightarrow> s) = want
         then matched rule ((if want = RS_Agent then ''Agent'' else ''Approval'') @ '' was revoked during execution'')
           [(''authorityStatus'', authority_json a)] None
         else noMatch rule)"

definition policy_changed_rule :: "sentinel_rule \<Rightarrow> evaluation_context \<Rightarrow> rule_result" where
  "policy_changed_rule rule c = (case ec_authorityStatus c of
       None \<Rightarrow> notApplicable rule ''No policy recheck is available yet''
     | Some a \<Rightarrow>
         if au_status a = AS_UNKNOWN then authority_unknown rule a
         else if au_status a = AS_POLICY_CHANGED
         then matched rule ''Active policy hash no longer matches the session-bound snapshot''
           [(''session_policy_hash'', JStr (si_policy_snapshot_hash (ec_session c))),
            (''current_policy_hash'', opt_json JStr (au_currentPolicyHash a))] None
         else noMatch rule)"

definition payload_str :: "evaluation_context \<Rightarrow> string \<Rightarrow> string option" where
  "payload_str c k = (case ec_observation c of None \<Rightarrow> None | Some o' \<Rightarrow> jstr (ctx_field (ob_payload o') k))"

definition observed_type :: "evaluation_context \<Rightarrow> string option" where
  "observed_type c = map_option ob_observation_type (ec_observation c)"

definition observed_id :: "evaluation_context \<Rightarrow> string option" where
  "observed_id c = map_option ob_observation_id (ec_observation c)"

definition type_in :: "string list \<Rightarrow> evaluation_context \<Rightarrow> bool" where
  "type_in ts c = (case observed_type c of None \<Rightarrow> False | Some t \<Rightarrow> t \<in> set ts)"

definition tool_rule :: "sentinel_rule \<Rightarrow> evaluation_context \<Rightarrow> rule_result" where
  "tool_rule rule c = (let want = si_expected_tool (ec_session c) in
     if \<not> type_in tool_call_types c then notApplicable rule ''No tool-call observation to evaluate''
     else (case payload_str c ''tool'' of None \<Rightarrow> notApplicable rule ''Observation carried no tool field''
       | Some tool \<Rightarrow>
           if tool \<noteq> want
           then matched rule (''Observed tool '' @ quoted tool @ '' does not match authorized tool '' @ quoted want)
             [(''observed'', JStr tool), (''expected'', JStr want)] (observed_id c)
           else noMatch rule))"

definition operation_rule :: "sentinel_rule \<Rightarrow> evaluation_context \<Rightarrow> rule_result" where
  "operation_rule rule c = (let allowed = si_allowed_operations (ec_session c) in
     case Option.bind (observed_type c) resource_op of
       None \<Rightarrow> notApplicable rule ''No resource-operation observation to evaluate''
     | Some op \<Rightarrow>
         if op \<notin> set allowed
         then matched rule (''Observed operation '' @ quoted op @ '' is not in the authorized operation set'')
           [(''observed'', JStr op), (''allowed'', jstrs allowed)] (observed_id c)
         else noMatch rule)"

definition resource_rule :: "sentinel_rule \<Rightarrow> evaluation_context \<Rightarrow> rule_result" where
  "resource_rule rule c = (let want = si_expected_resource (ec_session c) in
     if ec_observation c = None then notApplicable rule ''No observation to evaluate''
     else (case payload_str c ''resource'' of None \<Rightarrow> notApplicable rule ''Observation carried no resource field''
       | Some r \<Rightarrow>
           if \<not> matchesPattern want r
           then matched rule (''Observed resource '' @ quoted r @ '' does not match authorized resource '' @ quoted want)
             [(''observed'', JStr r), (''expected'', JStr want)] (observed_id c)
           else noMatch rule))"

definition destination_rule :: "sentinel_rule \<Rightarrow> evaluation_context \<Rightarrow> rule_result" where
  "destination_rule rule c = (let allowed = si_allowed_destinations (ec_session c) in
     if \<not> type_in [''NETWORK_REQUEST''] c then notApplicable rule ''No network-request observation to evaluate''
     else (case payload_str c ''destination'' of None \<Rightarrow> notApplicable rule ''Observation carried no destination field''
       | Some d \<Rightarrow>
           if \<not> hostAllowed d allowed
           then matched rule (''Destination '' @ quoted d @ '' is not in the authorized destination set'')
             [(''observed'', JStr d), (''allowed'', jstrs allowed)] (observed_id c)
           else noMatch rule))"

definition private_destination_rule :: "sentinel_rule \<Rightarrow> evaluation_context \<Rightarrow> rule_result" where
  "private_destination_rule rule c =
     (if \<not> type_in [''NETWORK_REQUEST'', ''NETWORK_REDIRECT''] c then notApplicable rule ''No network observation to evaluate''
      else (case (case payload_str c ''resolved_address'' of Some a \<Rightarrow> Some a
                  | None \<Rightarrow> payload_str c (if type_in [''NETWORK_REDIRECT''] c then ''to'' else ''destination'')) of
          None \<Rightarrow> notApplicable rule ''Observation carried no destination field''
        | Some host \<Rightarrow>
            let h = normalizeHostname host in
            if h = ''localhost'' \<or> ends_with ''.localhost'' h \<or> isPrivateAddress h
            then matched rule (''Destination '' @ quoted host @ '' resolves to a non-public address range'') [(''observed'', JStr host)] (observed_id c)
            else noMatch rule))"

definition redirect_rule :: "sentinel_rule \<Rightarrow> evaluation_context \<Rightarrow> rule_result" where
  "redirect_rule rule c = (let allowed = si_allowed_destinations (ec_session c) in
     if \<not> type_in [''NETWORK_REDIRECT''] c then notApplicable rule ''No redirect observation to evaluate''
     else (case payload_str c ''to'' of None \<Rightarrow> notApplicable rule ''Observation carried no redirect target''
       | Some d \<Rightarrow>
           if \<not> hostAllowed d allowed
           then matched rule (''Redirect target '' @ quoted d @ '' is not in the authorized destination set'')
             [(''observed'', JStr d), (''allowed'', jstrs allowed)] (observed_id c)
           else noMatch rule))"

definition limit_num :: "json \<Rightarrow> string \<Rightarrow> jnum option" where
  "limit_num limits k = jnumber (jfield k limits)"

definition runtime_rule :: "sentinel_rule \<Rightarrow> evaluation_context \<Rightarrow> rule_result" where
  "runtime_rule rule c =
     (case (date_parse (sn_started_at (ec_session c)), limit_num (si_runtime_limits (ec_session c)) ''max_runtime_seconds'') of
        (Some t, Some mx) \<Rightarrow>
          let elapsed = ec_now c - t; secs = (elapsed + 500) div 1000 in
          if of_int elapsed > num_val mx * 1000
          then matched rule (''Elapsed runtime '' @ show_int secs @ ''s exceeds the '' @ show_num mx @ ''s limit'')
            [(''elapsed_seconds'', jint secs), (''max_runtime_seconds'', JNum mx)] None
          else noMatch rule
      | _ \<Rightarrow> noMatch rule)"

definition cost_num :: "rat \<Rightarrow> jnum" where
  \<comment> \<open>a session cost is a whole number of millionths\<close>
  "cost_num c = Dec \<lfloor>c * 1000000\<rfloor> 6"

definition cost_rule :: "sentinel_rule \<Rightarrow> evaluation_context \<Rightarrow> rule_result" where
  "cost_rule rule c = (let cost = sn_session_cost (ec_session c) in
     case limit_num (si_cost_limits (ec_session c)) ''max_cost_usd'' of None \<Rightarrow> noMatch rule
     | Some mx \<Rightarrow>
         if cost > num_val mx
         then matched rule (''Accumulated cost '' @ show_num (cost_num cost) @ '' exceeds the '' @ show_num mx @ '' limit'')
           [(''session_cost'', JNum (cost_num cost)), (''max_cost_usd'', JNum mx)] None
         else noMatch rule)"

definition process_rule :: "sentinel_rule \<Rightarrow> evaluation_context \<Rightarrow> rule_result" where
  "process_rule rule c =
     (if \<not> type_in [''PROCESS_STARTED''] c then notApplicable rule ''No process-start observation to evaluate''
      else (case si_allowed_processes (ec_session c) of None \<Rightarrow> notApplicable rule ''Session declared no process allowlist''
        | Some allowed \<Rightarrow>
           (case payload_str c ''executable'' of None \<Rightarrow> notApplicable rule ''Observation carried no executable field''
            | Some x \<Rightarrow>
                if \<not> list_ex (\<lambda>a. normalizeProcessName a = normalizeProcessName x) allowed
                then matched rule (''Process '' @ quoted x @ '' is not in the authorized process allowlist'')
                  [(''observed'', JStr x), (''allowed'', jstrs allowed)] (observed_id c)
                else noMatch rule)))"

definition secret_rule :: "sentinel_rule \<Rightarrow> evaluation_context \<Rightarrow> rule_result" where
  "secret_rule rule c =
     (if \<not> type_in [''SECRET_LEASE_REQUESTED''] c then notApplicable rule ''No secret-lease observation to evaluate''
      else (case si_allowed_secrets (ec_session c) of None \<Rightarrow> notApplicable rule ''Session declared no secret allowlist''
        | Some allowed \<Rightarrow>
           (case payload_str c ''name'' of None \<Rightarrow> notApplicable rule ''Observation carried no secret name field''
            | Some n \<Rightarrow>
                if n \<notin> set allowed
                then matched rule (''Secret lease '' @ quoted n @ '' is not in the authorized secret allowlist'')
                  [(''observed'', JStr n), (''allowed'', jstrs allowed)] (observed_id c)
                else noMatch rule)))"

definition input_hash_rule :: "sentinel_rule \<Rightarrow> evaluation_context \<Rightarrow> rule_result" where
  "input_hash_rule rule c =
     (if \<not> type_in tool_call_types c then notApplicable rule ''No tool-call observation to evaluate''
      else (case si_capability_context (ec_session c) of None \<Rightarrow> notApplicable rule ''Session declared no capability context''
        | Some bound \<Rightarrow>
           (case payload_str c ''input_hash'' of None \<Rightarrow> notApplicable rule ''Observation carried no input_hash field''
            | Some h \<Rightarrow>
                if Some (JStr h) \<noteq> jfield ''input_hash'' bound
                then matched rule ''Observed tool input_hash does not match the bound capability context''
                  ([(''observed'', JStr h)] @ opt_field ''expected'' (jfield ''input_hash'' bound)) (observed_id c)
                else noMatch rule)))"

definition context_fields :: "string list" where
  "context_fields = [''capability_id'', ''decision_id'', ''agent_id'', ''tool'', ''operation'', ''resource'', ''expiry'', ''input_hash'']"

definition is_js_object :: "json \<Rightarrow> bool" where
  "is_js_object j = (case j of JObj _ \<Rightarrow> True | JArr _ \<Rightarrow> True | _ \<Rightarrow> False)"

definition context_rule :: "sentinel_rule \<Rightarrow> evaluation_context \<Rightarrow> rule_result" where
  "context_rule rule c = (case ec_observation c of None \<Rightarrow> notApplicable rule ''No observation to evaluate''
     | Some ob \<Rightarrow>
        (case (si_capability_context (ec_session c), ctx_field (ob_payload ob) ''capability_context'') of
           (Some bound, Some observed) \<Rightarrow>
             if \<not> is_js_object observed then notApplicable rule ''No capability context to compare''
             else let mismatched = filter (\<lambda>k. jfield k observed \<noteq> None \<and> jfield k observed \<noteq> jfield k bound) context_fields in
               if mismatched \<noteq> []
               then matched rule (''Observed capability context disagrees with the bound context on: '' @ str_join '', '' mismatched)
                 [(''mismatched'', jstrs mismatched), (''observed'', observed), (''bound'', bound)] (observed_id c)
               else noMatch rule
         | _ \<Rightarrow> notApplicable rule ''No capability context to compare''))"

definition heartbeat_rule :: "sentinel_rule \<Rightarrow> evaluation_context \<Rightarrow> rule_result" where
  "heartbeat_rule rule c = (let s = ec_session c; n = limit_num (si_runtime_limits s);
        last = (case sn_last_heartbeat_at s of None \<Rightarrow> sn_started_at s | Some t \<Rightarrow> t) in
     case (n ''heartbeat_interval_seconds'', n ''heartbeat_grace_seconds'') of
       (Some interval, Some grace) \<Rightarrow>
         (let total = int_of_num interval + int_of_num grace in
          case date_parse last of None \<Rightarrow> noMatch rule
          | Some beat \<Rightarrow> let deadline = beat + total * 1000 in
              if ec_now c > deadline
              then matched rule (''No heartbeat observed within '' @ show_int total @ ''s'')
                [(''last_heartbeat_at'', JStr last), (''deadline'', JStr (to_iso deadline)), (''now'', JStr (to_iso (ec_now c)))] None
              else noMatch rule)
     | _ \<Rightarrow> notApplicable rule ''Session declared no heartbeat configuration'')"

definition evaluateRule :: "sentinel_rule \<Rightarrow> evaluation_context \<Rightarrow> rule_result" where
  "evaluateRule rule c = (case sr_rule_type rule of
       AUTHORITY_EXPIRED \<Rightarrow> expired_rule rule c
     | APPROVAL_REVOKED \<Rightarrow> revoked_rule rule RS_Approval c
     | AGENT_REVOKED \<Rightarrow> revoked_rule rule RS_Agent c
     | POLICY_CHANGED \<Rightarrow> policy_changed_rule rule c
     | TOOL_NOT_ALLOWED \<Rightarrow> tool_rule rule c
     | OPERATION_NOT_ALLOWED \<Rightarrow> operation_rule rule c
     | RESOURCE_NOT_ALLOWED \<Rightarrow> resource_rule rule c
     | DESTINATION_NOT_ALLOWED \<Rightarrow> destination_rule rule c
     | PRIVATE_NETWORK_DESTINATION \<Rightarrow> private_destination_rule rule c
     | REDIRECT_NOT_ALLOWED \<Rightarrow> redirect_rule rule c
     | RUNTIME_EXCEEDED \<Rightarrow> runtime_rule rule c
     | COST_EXCEEDED \<Rightarrow> cost_rule rule c
     | TOO_MANY_TOOL_CALLS \<Rightarrow> volumetric rule (sn_tool_call_count (ec_session c)) ''max_tool_calls''
     | TOO_MANY_NETWORK_REQUESTS \<Rightarrow> volumetric rule (sn_network_request_count (ec_session c)) ''max_network_requests''
     | TOO_MANY_PROCESS_SPAWNS \<Rightarrow> volumetric rule (sn_process_spawn_count (ec_session c)) ''max_process_spawns''
     | UNEXPECTED_PROCESS \<Rightarrow> process_rule rule c
     | SECRET_LEASE_NOT_ALLOWED \<Rightarrow> secret_rule rule c
     | TOOL_INPUT_HASH_MISMATCH \<Rightarrow> input_hash_rule rule c
     | CAPABILITY_CONTEXT_MISMATCH \<Rightarrow> context_rule rule c
     | MISSING_HEARTBEAT \<Rightarrow> heartbeat_rule rule c)"


section \<open>Decisions\<close>

datatype violation_rule = VR_Rule rule_type | VR_EMERGENCY_STOP | VR_MANUAL_CONTROL

record sentinel_violation =
  sv_violation_id :: string
  sv_rule_id :: string
  sv_rule_type :: violation_rule
  sv_severity :: sentinel_severity
  sv_observed_at :: string
  sv_observation_id :: "string option"
  sv_sentinel_session_id :: string
  sv_message_code :: string
  sv_message :: string
  sv_evidence :: json
  sv_prevention_status :: prevention_status

datatype containment_status = NOT_REQUIRED | CONTAINMENT_REQUESTED | CONTAINMENT_CONFIRMED | CONTAINMENT_UNCONFIRMED

datatype transition_result = TR_APPLIED | TR_ESCALATED | TR_NO_OP_ALREADY_STRONGER | TR_STALE

record sentinel_decision =
  sx_decision_id :: string
  sx_sentinel_session_id :: string
  sx_timestamp :: string
  sx_decision :: sentinel_verdict
  sx_triggered_rules :: "string list"
  sx_violations :: "sentinel_violation list"
  sx_risk_score :: nat
  sx_policy_hash :: string
  sx_authority_snapshot_hash :: string
  sx_containment_status :: containment_status
  sx_transition_result :: transition_result

definition sentinel_transitions :: "session_status \<Rightarrow> session_status list" where
  "sentinel_transitions s = (case s of
       ST_CREATED \<Rightarrow> [ST_MONITORING]
     | ST_MONITORING \<Rightarrow> [ST_MONITORING, ST_WARNED, ST_HELD, ST_TERMINATING, ST_COMPLETED, ST_INDETERMINATE]
     | ST_WARNED \<Rightarrow> [ST_WARNED, ST_MONITORING, ST_HELD, ST_TERMINATING]
     | ST_HELD \<Rightarrow> [ST_HELD, ST_MONITORING, ST_TERMINATING]
     | ST_TERMINATING \<Rightarrow> [ST_TERMINATED, ST_INDETERMINATE]
     | ST_TERMINATED \<Rightarrow> [] | ST_COMPLETED \<Rightarrow> [] | ST_INDETERMINATE \<Rightarrow> [])"

definition isTerminalStatus :: "session_status \<Rightarrow> bool" where
  "isTerminalStatus s = (s \<in> {ST_TERMINATED, ST_COMPLETED, ST_INDETERMINATE})"

definition assertValidTransition :: "session_status \<Rightarrow> session_status \<Rightarrow> (sentinel_error, unit) res" where
  "assertValidTransition a b = (if b \<in> set (sentinel_transitions a) then Inr ()
     else Inl (Sentinel_Error S_INVALID_TRANSITION (''Invalid session transition: '' @ session_status_name a @ '' -> '' @ session_status_name b)))"

definition nextStatusForDecision :: "session_status \<Rightarrow> sentinel_verdict \<Rightarrow> (sentinel_error, session_status) res" where
  "nextStatusForDecision current d =
     (if isTerminalStatus current
      then Inl (Sentinel_Error S_SESSION_TERMINAL (''Session is in a terminal state ('' @ session_status_name current @ '') and cannot be evaluated further''))
      else if d = SD_TERMINATE then Inr ST_TERMINATING
      else if current = ST_HELD then Inr ST_HELD
      else if d = SD_HOLD then Inr ST_HELD
      else if d = SD_WARN then Inr ST_WARNED
      else Inr ST_MONITORING)"

definition decidePreventionStatus :: "sentinel_observation option \<Rightarrow> rule_action \<Rightarrow> prevention_status" where
  "decidePreventionStatus ob a = (case ob of None \<Rightarrow> DETECTED_AFTER_EFFECT
     | Some o' \<Rightarrow> if (a = RA_HOLD \<or> a = RA_TERMINATE) \<and> is_pre_action (ob_observation_type o') then PREVENTED else DETECTED_AFTER_EFFECT)"

definition asDecisionType :: "rule_action \<Rightarrow> sentinel_verdict" where
  "asDecisionType a = (case a of RA_OBSERVE \<Rightarrow> SD_CONTINUE | RA_WARN \<Rightarrow> SD_WARN | RA_HOLD \<Rightarrow> SD_HOLD | RA_TERMINATE \<Rightarrow> SD_TERMINATE)"

definition decision_by_precedence :: "nat \<Rightarrow> sentinel_verdict" where
  "decision_by_precedence n = (if n = 1 then SD_WARN else if n = 2 then SD_HOLD else if n = 3 then SD_TERMINATE else SD_CONTINUE)"

definition buildViolation :: "string \<Rightarrow> string \<Rightarrow> violation_rule \<Rightarrow> sentinel_severity \<Rightarrow> int \<Rightarrow> string option \<Rightarrow> string \<Rightarrow> string
    \<Rightarrow> string \<Rightarrow> json \<Rightarrow> prevention_status \<Rightarrow> sentinel_violation" where
  "buildViolation i ruleId ty sev now obsId sessionId code message evidence prev =
     \<lparr>sv_violation_id = i, sv_rule_id = ruleId, sv_rule_type = ty, sv_severity = sev, sv_observed_at = to_iso now,
      sv_observation_id = obsId, sv_sentinel_session_id = sessionId, sv_message_code = code, sv_message = message,
      sv_evidence = evidence, sv_prevention_status = prev\<rparr>"

text \<open>What the loop over the rules accumulates; the best decision is kept as its precedence.\<close>

record evaluation_state =
  ev_violations :: "sentinel_violation list"
  ev_triggered :: "string list"
  ev_risk :: nat
  ev_best :: nat

definition ev_hit :: "sentinel_violation \<Rightarrow> string \<Rightarrow> sentinel_verdict \<Rightarrow> evaluation_state \<Rightarrow> evaluation_state" where
  "ev_hit v rule d s = s\<lparr>ev_violations := ev_violations s @ [v], ev_triggered := ev_triggered s @ [rule],
     ev_risk := max (ev_risk s) (severity_score (sv_severity v)), ev_best := max (ev_best s) (decision_precedence d)\<rparr>"

definition ev_rule :: "(nat \<Rightarrow> string) \<Rightarrow> evaluation_context \<Rightarrow> sentinel_rule \<Rightarrow> evaluation_state \<Rightarrow> evaluation_state" where
  "ev_rule ids c rule s =
     (if \<not> sr_enabled rule then s
      else let o' = evaluateRule rule c; i = ids (length (ev_violations s)); sid = sn_sentinel_session_id (ec_session c);
               ob = ec_observation c in
        (case rr_status o' of
           RR_MATCH \<Rightarrow>
             let action = (case rr_overrideAction o' of None \<Rightarrow> sr_action rule | Some a \<Rightarrow> a);
                 sev = (case rr_overrideSeverity o' of None \<Rightarrow> sr_severity rule | Some v \<Rightarrow> v) in
             ev_hit (buildViolation i (sr_rule_id rule) (VR_Rule (sr_rule_type rule)) sev (ec_now c) (rr_observation_id o') sid
                 (rr_message_code o') (rr_message o') (rr_evidence o') (decidePreventionStatus ob action))
               (sr_rule_id rule) (asDecisionType action) s
         | RR_ERROR \<Rightarrow>
             ev_hit (buildViolation i (sr_rule_id rule) (VR_Rule (sr_rule_type rule)) SV_HIGH (ec_now c) (observed_id c) sid
                 (rr_message_code o' @ ''_EVALUATION_ERROR'') (rr_message o') (rr_evidence o') (decidePreventionStatus ob RA_HOLD))
               (sr_rule_id rule) SD_HOLD s
         | _ \<Rightarrow> s))"

definition reaches :: "nat \<Rightarrow> json option \<Rightarrow> string \<Rightarrow> bool" where
  \<comment> \<open>the threshold is configured and the risk score reaches it\<close>
  "reaches risk thresholds k = (case number_of (ctx_field thresholds k) of None \<Rightarrow> False | Some t \<Rightarrow> of_nat risk \<ge> t)"

definition ev_thresholds :: "json option \<Rightarrow> evaluation_state \<Rightarrow> evaluation_state" where
  "ev_thresholds t s =
     (let up = (\<lambda>k d n. if reaches (ev_risk s) t k then max n (decision_precedence d) else n) in
      s\<lparr>ev_best := up ''warn_at'' SD_WARN (up ''hold_at'' SD_HOLD (up ''terminate_at'' SD_TERMINATE (ev_best s)))\<rparr>)"

definition ev_start :: evaluation_state where
  "ev_start = \<lparr>ev_violations = [], ev_triggered = [], ev_risk = 0, ev_best = decision_precedence SD_CONTINUE\<rparr>"

definition ev_emergency :: "(nat \<Rightarrow> string) \<Rightarrow> evaluation_context \<Rightarrow> evaluation_state" where
  "ev_emergency ids c = ev_hit (buildViolation (ids 0) ''emergency-stop'' VR_EMERGENCY_STOP SV_CRITICAL (ec_now c) (observed_id c)
       (sn_sentinel_session_id (ec_session c)) ''SENTINEL_EMERGENCY_STOP_ACTIVE'' ''An active emergency stop scope covers this session''
       (JObj []) (decidePreventionStatus (ec_observation c) RA_TERMINATE)) ''emergency-stop'' SD_TERMINATE ev_start"

definition ev_final :: "(nat \<Rightarrow> string) \<Rightarrow> sentinel_policy \<Rightarrow> evaluation_context \<Rightarrow> bool \<Rightarrow> evaluation_state" where
  "ev_final ids policy c stop = (if stop then ev_emergency ids c
     else ev_thresholds (sp_risk_thresholds policy) (fold (ev_rule ids c) (sp_rules policy) ev_start))"

record evaluation_outcome =
  eo_decision :: sentinel_decision
  eo_violations :: "sentinel_violation list"
  eo_nextStatus :: session_status

definition evaluateSession :: "(nat \<Rightarrow> string) \<Rightarrow> sentinel_policy \<Rightarrow> evaluation_context \<Rightarrow> bool \<Rightarrow> (sentinel_error, evaluation_outcome) res" where
  "evaluateSession ids policy c stop = (let session = ec_session c in
     if isTerminalStatus (sn_status session)
     then Inl (Sentinel_Error S_SESSION_TERMINAL (''Session '' @ sn_sentinel_session_id session @ '' is in a terminal state ('' @
       session_status_name (sn_status session) @ '') and cannot be evaluated further''))
     else let s = ev_final ids policy c stop; best = decision_by_precedence (ev_best s) in
       rbind (nextStatusForDecision (sn_status session) best) (\<lambda>next.
       Inr \<lparr>eo_decision = \<lparr>sx_decision_id = ids (length (ev_violations s)), sx_sentinel_session_id = sn_sentinel_session_id session,
              sx_timestamp = to_iso (ec_now c), sx_decision = best, sx_triggered_rules = ev_triggered s, sx_violations = ev_violations s,
              sx_risk_score = ev_risk s, sx_policy_hash = sp_policy_hash policy,
              sx_authority_snapshot_hash = si_authority_snapshot_hash session,
              sx_containment_status = (if best = SD_HOLD \<or> best = SD_TERMINATE then CONTAINMENT_REQUESTED else NOT_REQUIRED),
              sx_transition_result = TR_APPLIED\<rparr>,
            eo_violations = ev_violations s, eo_nextStatus = next\<rparr>))"

section \<open>The fold takes the strongest verdict\<close>

text \<open>What one rule contributes: the severity score and the precedence, if it matches or cannot be evaluated.\<close>

definition contribution :: "evaluation_context \<Rightarrow> sentinel_rule \<Rightarrow> (nat \<times> nat) option" where
  "contribution c rule = (let o' = evaluateRule rule c in
     if \<not> sr_enabled rule then None
     else (case rr_status o' of
         RR_MATCH \<Rightarrow> Some (severity_score (case rr_overrideSeverity o' of None \<Rightarrow> sr_severity rule | Some v \<Rightarrow> v),
            decision_precedence (asDecisionType (case rr_overrideAction o' of None \<Rightarrow> sr_action rule | Some a \<Rightarrow> a)))
       | RR_ERROR \<Rightarrow> Some (severity_score SV_HIGH, decision_precedence SD_HOLD)
       | _ \<Rightarrow> None))"

lemma ev_rule_contribution:
  "ev_risk (ev_rule ids c rule s) = (case contribution c rule of None \<Rightarrow> ev_risk s | Some (r, _) \<Rightarrow> max (ev_risk s) r)"
  "ev_best (ev_rule ids c rule s) = (case contribution c rule of None \<Rightarrow> ev_best s | Some (_, p) \<Rightarrow> max (ev_best s) p)"
  "ev_triggered (ev_rule ids c rule s) = ev_triggered s @ (if contribution c rule = None then [] else [sr_rule_id rule])"
  "map sv_rule_id (ev_violations (ev_rule ids c rule s)) = map sv_rule_id (ev_violations s) @ (if contribution c rule = None then [] else [sr_rule_id rule])"
  by (simp_all add: ev_rule_def contribution_def Let_def ev_hit_def buildViolation_def split: rule_status.split)

abbreviation contributions :: "evaluation_context \<Rightarrow> sentinel_rule list \<Rightarrow> (nat \<times> nat) list" where
  "contributions c rules \<equiv> List.map_filter (contribution c) rules"

lemma Max_insert_max: "finite X \<Longrightarrow> Max (insert (max a b) X) = Max (insert a (insert (b :: nat) X))"
  by (cases "X = {}") (simp_all add: max.assoc)

lemma fold_rules:
  "ev_risk (fold (ev_rule ids c) rules s) = Max (insert (ev_risk s) (fst ` set (contributions c rules)))"
  "ev_best (fold (ev_rule ids c) rules s) = Max (insert (ev_best s) (snd ` set (contributions c rules)))"
  "ev_triggered (fold (ev_rule ids c) rules s) = ev_triggered s @ map sr_rule_id (filter (\<lambda>r. contribution c r \<noteq> None) rules)"
  "map sv_rule_id (ev_violations (fold (ev_rule ids c) rules s)) = map sv_rule_id (ev_violations s)
     @ map sr_rule_id (filter (\<lambda>r. contribution c r \<noteq> None) rules)"
proof (induction rules arbitrary: s)
  case (Cons r rs)
  { case 1 show ?case using Cons.IH(1) by (cases "contribution c r") (auto simp: ev_rule_contribution map_filter_simps Max_insert_max simp del: Max_insert) }
  { case 2 show ?case using Cons.IH(2) by (cases "contribution c r") (auto simp: ev_rule_contribution map_filter_simps Max_insert_max simp del: Max_insert) }
  { case 3 show ?case using Cons.IH(3) by (simp add: ev_rule_contribution) }
  { case 4 show ?case using Cons.IH(4) by (simp add: ev_rule_contribution) }
qed (simp_all add: map_filter_simps)

end
