(* ===== verification/Sentinel_Runtime.thy ===== *)
theory Sentinel_Runtime
  imports Sentinel_Engine Ledger
begin

text \<open>
  \<open>packages/sentinel-runtime\<close>: the durable store and the operations on it. An operation that awaits the
  containment controller or the revalidator is cut into the steps between which another caller may run
  (\<open>submit_txn\<close>, \<open>load_evaluation\<close>, \<open>finish_evaluation\<close>, \<open>reconcileAndClaim\<close>, the external call,
  \<open>resolve\<close>, \<open>persistDecision\<close>); each is one transaction of the store. The answers of the controller and
  the revalidator, the clock (milliseconds) and the generated identifiers are arguments.
\<close>

section \<open>Principals\<close>

datatype sentinel_role = RO_Observer | RO_Reader | RO_Controller | RO_Admin

record sentinel_principal =
  sc_principal_id :: string
  sc_role :: sentinel_role
  sc_tenantId :: string
  sc_allowedSources :: "string list"

definition s_forbidden :: "sentinel_principal \<Rightarrow> string \<Rightarrow> sentinel_error" where
  "s_forbidden p why = Sentinel_Error S_FORBIDDEN (''Principal '' @ sc_principal_id p @ why)"

definition assertCanObserve :: "sentinel_principal \<Rightarrow> string \<Rightarrow> (sentinel_error, unit) res" where
  "assertCanObserve p ty = run_checks
     [(sc_role p = RO_Observer, s_forbidden p '' does not hold observation authority''),
      (list_ex (\<lambda>s. ty \<in> set (source_allowed_types s)) (sc_allowedSources p),
       s_forbidden p ('' is not bound to submit observation type '' @ quoted ty))]"

definition sentinel_can_read :: "sentinel_principal \<Rightarrow> (sentinel_error, unit) res" where
  "sentinel_can_read p = run_checks [(sc_role p \<in> {RO_Reader, RO_Controller, RO_Admin}, s_forbidden p '' does not hold read authority'')]"

definition assertCanControl :: "sentinel_principal \<Rightarrow> (sentinel_error, unit) res" where
  "assertCanControl p = run_checks [(sc_role p \<in> {RO_Controller, RO_Admin}, s_forbidden p '' does not hold containment-control authority'')]"

definition sentinel_is_admin :: "sentinel_principal \<Rightarrow> (sentinel_error, unit) res" where
  "sentinel_is_admin p = run_checks [(sc_role p = RO_Admin, s_forbidden p '' does not hold admin authority'')]"

definition assertTenant :: "sentinel_principal \<Rightarrow> string \<Rightarrow> (sentinel_error, unit) res" where
  "assertTenant p t = run_checks [(sc_tenantId p = t, s_forbidden p ('' is not authorized for tenant '' @ t))]"

section \<open>The store\<close>

record session_row =
  rw_session :: sentinel_session
  rw_state_version :: int

datatype stop_scope = SS_Tenant | SS_Agent | SS_Session

record emergency_stop =
  es_tenant_id :: string
  es_scope_type :: stop_scope
  es_scope_value :: string
  es_active :: bool
  es_reason :: string
  es_activated_by :: string
  es_activated_at :: string
  es_released_by :: "string option"
  es_released_at :: "string option"

record sentinel_store =
  ss_sessions :: "session_row list"
  ss_observations :: "sentinel_observation list"
  ss_decisions :: "(string \<times> string \<times> sentinel_decision) list"
  ss_violations :: "(string \<times> string \<times> sentinel_violation) list"
  ss_stops :: "emergency_stop list"
  ss_policies :: "(string \<times> sentinel_policy \<times> bool) list"

definition sentinel_empty :: sentinel_store where
  "sentinel_empty = \<lparr>ss_sessions = [], ss_observations = [], ss_decisions = [], ss_violations = [], ss_stops = [], ss_policies = []\<rparr>"

definition row_key :: "session_row \<Rightarrow> string \<times> string" where
  "row_key r = (si_tenant_id (rw_session r), sn_sentinel_session_id (rw_session r))"

definition row_status :: "session_row \<Rightarrow> session_status" where
  "row_status r = sn_status (rw_session r)"

definition session_row_of :: "string \<Rightarrow> string \<Rightarrow> sentinel_store \<Rightarrow> session_row option" where
  "session_row_of t i st = find (\<lambda>r. row_key r = (t, i)) (ss_sessions st)"

definition s_not_found :: "string \<Rightarrow> sentinel_error" where
  "s_not_found i = Sentinel_Error S_NOT_FOUND (''No session '' @ i)"

definition loadRow :: "string \<Rightarrow> string \<Rightarrow> sentinel_store \<Rightarrow> (sentinel_error, session_row) res" where
  "loadRow t i st = (case session_row_of t i st of None \<Rightarrow> Inl (s_not_found i) | Some r \<Rightarrow> Inr r)"

definition loadSession :: "string \<Rightarrow> string \<Rightarrow> sentinel_store \<Rightarrow> (sentinel_error, sentinel_session) res" where
  "loadSession t i st = rbind (loadRow t i st) (\<lambda>r. Inr (rw_session r))"

definition update_rows :: "string \<Rightarrow> string \<Rightarrow> (session_row \<Rightarrow> session_row) \<Rightarrow> sentinel_store \<Rightarrow> sentinel_store" where
  \<comment> \<open>\<open>UPDATE ... WHERE tenant_id = ? AND sentinel_session_id = ?\<close>\<close>
  "update_rows t i f st = st\<lparr>ss_sessions := map (\<lambda>r. if row_key r = (t, i) then f r else r) (ss_sessions st)\<rparr>"

definition saveSession :: "sentinel_session \<Rightarrow> sentinel_store \<Rightarrow> sentinel_store" where
  "saveSession s st = update_rows (si_tenant_id s) (sn_sentinel_session_id s) (\<lambda>r. r\<lparr>rw_session := s\<rparr>) st"

definition set_status :: "string \<Rightarrow> string \<Rightarrow> session_status \<Rightarrow> string \<Rightarrow> sentinel_store \<Rightarrow> sentinel_store" where
  \<comment> \<open>the compare-and-swap on \<open>state_version\<close>: the version was read in the same exclusive transaction\<close>
  "set_status t i s now st = update_rows t i (\<lambda>r. r\<lparr>rw_session := (rw_session r)\<lparr>sn_status := s, sn_updated_at := now\<rparr>,
     rw_state_version := rw_state_version r + 1\<rparr>) st"

section \<open>Sessions\<close>

definition new_session :: "sentinel_session_input \<Rightarrow> string \<Rightarrow> string \<Rightarrow> sentinel_session" where
  "new_session input i now = sentinel_session_input.extend input
     (sentinel_session.fields i now now ST_MONITORING 0 0 0 0 0 None)"

definition createSession :: "sentinel_principal \<Rightarrow> json \<Rightarrow> int \<Rightarrow> string \<Rightarrow> sentinel_store \<Rightarrow> (sentinel_error, sentinel_store \<times> sentinel_session) res" where
  \<comment> \<open>a session id that already exists violates the primary key\<close>
  "createSession p raw now sid st =
     rbind (assertCanControl p) (\<lambda>_. rbind (validateSessionInput raw) (\<lambda>input. rbind (assertTenant p (si_tenant_id input)) (\<lambda>_.
     if session_row_of (si_tenant_id input) sid st \<noteq> None then Inl (Sentinel_Error S_INVALID_INPUT ''UNIQUE constraint failed'')
     else let s = new_session input sid (to_iso now) in
       Inr (st\<lparr>ss_sessions := ss_sessions st @ [\<lparr>rw_session = s, rw_state_version = 0\<rparr>]\<rparr>, s))))"

definition getSession :: "sentinel_principal \<Rightarrow> string \<Rightarrow> sentinel_store \<Rightarrow> (sentinel_error, sentinel_session) res" where
  "getSession p i st = rbind (sentinel_can_read p) (\<lambda>_. loadSession (sc_tenantId p) i st)"

section \<open>Observations\<close>

definition round6 :: "rat \<Rightarrow> rat" where
  "round6 v = of_int \<lfloor>v * 1000000 + 1 / 2\<rfloor> / 1000000"

definition cost_increment :: "json option \<Rightarrow> rat option" where
  \<comment> \<open>a finite, non-negative \<open>cost_usd\<close>\<close>
  "cost_increment payload = (case jnumber (ctx_field payload ''cost_usd'') of None \<Rightarrow> None
     | Some n \<Rightarrow> if num_val n \<ge> 0 then Some (num_val n) else None)"

definition applyCounters :: "sentinel_session \<Rightarrow> sentinel_observation \<Rightarrow> sentinel_session" where
  "applyCounters s ob = (let t = ob_observation_type ob in
     if t = ''TOOL_CALL_REQUESTED'' then s\<lparr>sn_tool_call_count := sn_tool_call_count s + 1\<rparr>
     else if t = ''NETWORK_REQUEST'' then s\<lparr>sn_network_request_count := sn_network_request_count s + 1\<rparr>
     else if t = ''PROCESS_STARTED'' then s\<lparr>sn_process_spawn_count := sn_process_spawn_count s + 1\<rparr>
     else if t = ''EXECUTION_HEARTBEAT'' then s\<lparr>sn_last_heartbeat_at := Some (ob_received_at ob)\<rparr>
     else if t = ''COST_REPORTED'' then (case cost_increment (ob_payload ob) of None \<Rightarrow> s
        | Some c \<Rightarrow> s\<lparr>sn_session_cost := round6 (sn_session_cost s + c)\<rparr>)
     else s)"

definition observation_json :: "('a) sentinel_observation_input_scheme \<Rightarrow> json" where
  "observation_json ob = JObj ([(''version'', JStr sentinel_observation_version), (''observation_id'', JStr (ob_observation_id ob)),
     (''tenant_id'', JStr (ob_tenant_id ob)), (''sentinel_session_id'', JStr (ob_sentinel_session_id ob)),
     (''timestamp'', JStr (ob_timestamp ob)), (''source'', JStr (ob_source ob)), (''observation_type'', JStr (ob_observation_type ob))]
     @ opt_field ''payload'' (ob_payload ob))"

definition stored_observation :: "sentinel_observation_input \<Rightarrow> int \<Rightarrow> string \<Rightarrow> sentinel_observation" where
  "stored_observation input n received = sentinel_observation_input.extend input (sentinel_observation.fields n received)"

definition find_observation :: "string \<Rightarrow> string \<Rightarrow> string \<Rightarrow> sentinel_store \<Rightarrow> sentinel_observation option" where
  "find_observation t i ob st = find (\<lambda>x. ob_tenant_id x = t \<and> ob_sentinel_session_id x = i \<and> ob_observation_id x = ob) (ss_observations st)"

definition submit_txn :: "sentinel_observation_input \<Rightarrow> string \<Rightarrow> string \<Rightarrow> sentinel_store
    \<Rightarrow> (sentinel_error, sentinel_store \<times> sentinel_observation \<times> bool) res" where
  \<comment> \<open>the transaction of \<open>submitObservation\<close>; the flag: the observation is new and is to be evaluated\<close>
  "submit_txn input i now st = (let t = ob_tenant_id input in
     rbind (loadSession t i st) (\<lambda>s.
     if isTerminalStatus (sn_status s)
     then Inl (Sentinel_Error S_SESSION_TERMINAL (''Session '' @ i @ '' is in a terminal state ('' @ session_status_name (sn_status s) @ '')''))
     else (case find_observation t i (ob_observation_id input) st of
        Some old \<Rightarrow>
          if stringify (observation_json old) \<noteq> stringify (observation_json input)
          then Inl (Sentinel_Error S_OBSERVATION_CONFLICT (''observation_id '' @ ob_observation_id input @ '' already exists with different content''))
          else Inr (st, stored_observation input (ob_sequence old) (ob_received_at old), False)
      | None \<Rightarrow>
          let n = sn_observation_sequence s + 1; ob = stored_observation input n now in
          Inr (saveSession ((applyCounters s ob)\<lparr>sn_observation_sequence := n, sn_updated_at := now\<rparr>)
                 (st\<lparr>ss_observations := ss_observations st @ [ob]\<rparr>), ob, True))))"

definition submit_checks :: "sentinel_principal \<Rightarrow> string \<Rightarrow> json \<Rightarrow> (sentinel_error, sentinel_observation_input) res" where
  "submit_checks p i raw =
     rbind (validateObservationInput raw) (\<lambda>input. rbind (assertCanObserve p (ob_observation_type input)) (\<lambda>_.
     rbind (assertTenant p (ob_tenant_id input)) (\<lambda>_.
     if ob_sentinel_session_id input \<noteq> i then Inl (s_invalid ''sentinel_session_id in the body must match the URL'') else Inr input)))"

section \<open>Evaluation\<close>

definition isStopped :: "string \<Rightarrow> string \<Rightarrow> string \<Rightarrow> sentinel_store \<Rightarrow> bool" where
  "isStopped t agent i st = list_ex (\<lambda>e. es_tenant_id e = t \<and> es_active e \<and>
     (case es_scope_type e of SS_Tenant \<Rightarrow> True | SS_Agent \<Rightarrow> es_scope_value e = agent | SS_Session \<Rightarrow> es_scope_value e = i)) (ss_stops st)"

definition requireActivePolicy :: "string \<Rightarrow> sentinel_store \<Rightarrow> (sentinel_error, sentinel_policy) res" where
  "requireActivePolicy t st = (case find_last (\<lambda>(t', _, active). t' = t \<and> active) (ss_policies st) of
       None \<Rightarrow> Inl (Sentinel_Error S_NOT_FOUND (''No active Sentinel policy for tenant '' @ t))
     | Some (_, p, _) \<Rightarrow> Inr p)"

definition recheck_types :: "string list" where
  "recheck_types = [''AUTHORITY_RECHECK'', ''POLICY_RECHECK'', ''REVOCATION_RECHECK'']"

definition authority_kinds :: "authority_kind list" where
  "authority_kinds = [AS_VALID, AS_EXPIRED, AS_REVOKED, AS_POLICY_CHANGED, AS_UNKNOWN]"

definition authorityStatusFromObservation :: "sentinel_observation \<Rightarrow> authority_status" where
  "authorityStatusFromObservation ob = (let f = ctx_field (ob_payload ob) in
     \<lparr>au_status = (case read_name authority_kind_name authority_kinds (f ''result'') of None \<Rightarrow> AS_UNKNOWN | Some k \<Rightarrow> k),
      au_revokedScope = (if f ''scope'' = Some (JStr ''approval'') then Some RS_Approval
        else if f ''scope'' = Some (JStr ''agent'') then Some RS_Agent else None),
      au_currentPolicyHash = jstr (f ''current_policy_hash'')\<rparr>)"

definition load_evaluation :: "string \<Rightarrow> string \<Rightarrow> sentinel_store \<Rightarrow> (sentinel_error, (sentinel_session \<times> sentinel_policy) option) res" where
  \<comment> \<open>the reads of \<open>runEvaluation\<close> before it may await; \<open>None\<close>: the session is terminal\<close>
  "load_evaluation t i st = rbind (loadSession t i st) (\<lambda>s.
     if isTerminalStatus (sn_status s) then Inr None else rbind (requireActivePolicy t st) (\<lambda>p. Inr (Some (s, p))))"

definition evaluation_authority :: "authority_status option \<Rightarrow> sentinel_observation option \<Rightarrow> authority_status option" where
  \<comment> \<open>\<open>revalidated\<close>: what the live revalidator answers, if there is one\<close>
  "evaluation_authority revalidated ob = (case ob of
       Some x \<Rightarrow> if ob_observation_type x \<in> set recheck_types then Some (authorityStatusFromObservation x) else revalidated
     | None \<Rightarrow> revalidated)"

definition finish_evaluation :: "sentinel_session \<Rightarrow> sentinel_policy \<Rightarrow> sentinel_observation option \<Rightarrow> authority_status option \<Rightarrow> int
    \<Rightarrow> (nat \<Rightarrow> string) \<Rightarrow> sentinel_store \<Rightarrow> (sentinel_error, evaluation_outcome) res" where
  "finish_evaluation s p ob revalidated now ids st =
     evaluateSession ids p \<lparr>ec_session = s, ec_now = now, ec_observation = ob, ec_authorityStatus = evaluation_authority revalidated ob\<rparr>
       (isStopped (si_tenant_id s) (si_agent_id s) (sn_sentinel_session_id s) st)"

section \<open>Claims\<close>

definition status_tier :: "session_status \<Rightarrow> nat" where
  "status_tier s = (case s of ST_CREATED \<Rightarrow> 0 | ST_MONITORING \<Rightarrow> 0 | ST_WARNED \<Rightarrow> 1 | ST_HELD \<Rightarrow> 2 | ST_TERMINATING \<Rightarrow> 3
     | ST_TERMINATED \<Rightarrow> 4 | ST_COMPLETED \<Rightarrow> 4 | ST_INDETERMINATE \<Rightarrow> 4)"

definition reconcileDecisionTarget :: "session_status \<Rightarrow> sentinel_verdict \<Rightarrow> (sentinel_error, session_status \<times> transition_result) res" where
  "reconcileDecisionTarget fresh d =
     (if isTerminalStatus fresh \<or> fresh = ST_TERMINATING then Inr (fresh, TR_NO_OP_ALREADY_STRONGER)
      else rbind (nextStatusForDecision fresh d) (\<lambda>target.
        if target = fresh then Inr (target, TR_APPLIED)
        else Inr (target, if status_tier target > status_tier fresh then TR_ESCALATED else TR_APPLIED)))"

record claim_result =
  cl_kind :: transition_result
  cl_claimedStatus :: session_status
  cl_priorFreshStatus :: session_status

definition reconcileAndClaim :: "string \<Rightarrow> string \<Rightarrow> sentinel_verdict \<Rightarrow> string \<Rightarrow> sentinel_store
    \<Rightarrow> (sentinel_error, sentinel_store \<times> claim_result) res" where
  "reconcileAndClaim t i d now st = rbind (loadRow t i st) (\<lambda>r. rbind (reconcileDecisionTarget (row_status r) d) (\<lambda>(target, kind).
     if target = row_status r then Inr (st, \<lparr>cl_kind = kind, cl_claimedStatus = row_status r, cl_priorFreshStatus = row_status r\<rparr>)
     else Inr (set_status t i target now st, \<lparr>cl_kind = kind, cl_claimedStatus = target, cl_priorFreshStatus = row_status r\<rparr>)))"

definition resolveClaim :: "string \<Rightarrow> string \<Rightarrow> session_status \<Rightarrow> string \<Rightarrow> sentinel_store \<Rightarrow> (sentinel_error, sentinel_store \<times> session_status) res" where
  "resolveClaim t i target now st = rbind (loadRow t i st) (\<lambda>r.
     if row_status r \<noteq> ST_TERMINATING then Inr (st, row_status r) else Inr (set_status t i target now st, target))"

definition persistDecision :: "string \<Rightarrow> string \<Rightarrow> sentinel_decision \<Rightarrow> sentinel_violation list \<Rightarrow> sentinel_store \<Rightarrow> sentinel_store" where
  "persistDecision t i d vs st = st\<lparr>ss_decisions := ss_decisions st @ [(t, i, d)],
     ss_violations := ss_violations st @ map (\<lambda>v. (t, i, v)) vs\<rparr>"

datatype containment_call = Call_Hold | Call_Terminate

definition containment_needed :: "claim_result \<Rightarrow> containment_call option" where
  "containment_needed c =
     (if cl_kind c = TR_NO_OP_ALREADY_STRONGER then None
      else if cl_claimedStatus c = ST_HELD \<and> cl_priorFreshStatus c \<noteq> ST_HELD then Some Call_Hold
      else if cl_claimedStatus c = ST_TERMINATING then Some Call_Terminate else None)"

definition contained_decision :: "claim_result \<Rightarrow> bool \<Rightarrow> sentinel_decision \<Rightarrow> sentinel_decision" where
  \<comment> \<open>\<open>ok\<close>: the containment call, if one was needed, did not throw\<close>
  "contained_decision c ok d = d\<lparr>sx_transition_result := cl_kind c,
     sx_containment_status := (if containment_needed c = None then NOT_REQUIRED else if ok then CONTAINMENT_CONFIRMED else CONTAINMENT_UNCONFIRMED)\<rparr>"

definition resolve :: "string \<Rightarrow> string \<Rightarrow> claim_result \<Rightarrow> bool \<Rightarrow> sentinel_decision \<Rightarrow> sentinel_violation list \<Rightarrow> string \<Rightarrow> sentinel_store
    \<Rightarrow> (sentinel_error, sentinel_store \<times> sentinel_decision) res" where
  \<comment> \<open>\<open>applyOutcome\<close> after the containment call: the claim is resolved and the decision persisted\<close>
  "resolve t i c ok d vs now st =
     (let finish = (\<lambda>ok st'. let d' = contained_decision c ok d in Inr (persistDecision t i d' vs st', d')) in
      if containment_needed c = Some Call_Terminate
      then (case resolveClaim t i (if ok then ST_TERMINATED else ST_INDETERMINATE) now st of
          Inr (st', _) \<Rightarrow> finish ok st'
        | Inl e \<Rightarrow> if ok then rbind (resolveClaim t i ST_INDETERMINATE now st) (\<lambda>(st', _). finish False st') else Inl e)
      else finish ok st)"

definition applyOutcome :: "sentinel_session \<Rightarrow> sentinel_decision \<Rightarrow> sentinel_violation list \<Rightarrow> string \<Rightarrow> bool \<Rightarrow> sentinel_store
    \<Rightarrow> (sentinel_error, sentinel_store \<times> sentinel_decision) res" where
  \<comment> \<open>with no other caller in between\<close>
  "applyOutcome s d vs now ok st = (let t = si_tenant_id s; i = sn_sentinel_session_id s in
     rbind (reconcileAndClaim t i (sx_decision d) now st) (\<lambda>(st', c). resolve t i c ok d vs now st'))"

definition runEvaluation :: "string \<Rightarrow> string \<Rightarrow> sentinel_observation option \<Rightarrow> authority_status option \<Rightarrow> int \<Rightarrow> (nat \<Rightarrow> string) \<Rightarrow> bool
    \<Rightarrow> sentinel_store \<Rightarrow> (sentinel_error, sentinel_store \<times> sentinel_decision option) res" where
  "runEvaluation t i ob revalidated now ids ok st = rbind (load_evaluation t i st) (\<lambda>l. case l of None \<Rightarrow> Inr (st, None)
     | Some (s, p) \<Rightarrow> rbind (finish_evaluation s p ob revalidated now ids st) (\<lambda>out.
         rbind (applyOutcome s (eo_decision out) (eo_violations out) (to_iso now) ok st) (\<lambda>(st', d). Inr (st', Some d))))"

definition submitObservation :: "sentinel_principal \<Rightarrow> string \<Rightarrow> json \<Rightarrow> authority_status option \<Rightarrow> int \<Rightarrow> (nat \<Rightarrow> string) \<Rightarrow> bool
    \<Rightarrow> sentinel_store \<Rightarrow> sentinel_store \<times> (sentinel_error, sentinel_observation \<times> sentinel_decision option) res" where
  \<comment> \<open>what the transaction committed stays when the evaluation after it throws\<close>
  "submitObservation p i raw revalidated now ids ok st =
     (case rbind (submit_checks p i raw) (\<lambda>input. submit_txn input i (to_iso now) st) of
        Inl e \<Rightarrow> (st, Inl e)
      | Inr (st1, ob, fresh) \<Rightarrow>
          if \<not> fresh then (st1, Inr (ob, None))
          else (case runEvaluation (sc_tenantId p) i (Some ob) revalidated now ids ok st1 of
              Inl e \<Rightarrow> (st1, Inl e) | Inr (st2, d) \<Rightarrow> (st2, Inr (ob, d))))"

definition sentinel_evaluate :: "sentinel_principal \<Rightarrow> string \<Rightarrow> authority_status option \<Rightarrow> int \<Rightarrow> (nat \<Rightarrow> string) \<Rightarrow> bool
    \<Rightarrow> sentinel_store \<Rightarrow> (sentinel_error, sentinel_store \<times> sentinel_decision) res" where
  "sentinel_evaluate p i revalidated now ids ok st = rbind (sentinel_can_read p) (\<lambda>_.
     rbind (runEvaluation (sc_tenantId p) i None revalidated now ids ok st) (\<lambda>(st', d). case d of
       None \<Rightarrow> Inl (Sentinel_Error S_SESSION_TERMINAL (''Session '' @ i @ '' is in a terminal state and cannot be evaluated further''))
     | Some d' \<Rightarrow> Inr (st', d')))"

section \<open>Manual control\<close>

definition manualDecision :: "sentinel_session \<Rightarrow> sentinel_verdict \<Rightarrow> string \<Rightarrow> int \<Rightarrow> string \<Rightarrow> string \<Rightarrow> sentinel_decision" where
  "manualDecision s d message now vid did =
     (let sev = (if d = SD_TERMINATE then SV_HIGH else SV_MEDIUM);
          v = \<lparr>sv_violation_id = vid, sv_rule_id = ''manual-control'', sv_rule_type = VR_MANUAL_CONTROL, sv_severity = sev,
               sv_observed_at = to_iso now, sv_observation_id = None, sv_sentinel_session_id = sn_sentinel_session_id s,
               sv_message_code = ''SENTINEL_MANUAL_CONTROL'', sv_message = message, sv_evidence = JObj [],
               sv_prevention_status = DETECTED_AFTER_EFFECT\<rparr> in
      \<lparr>sx_decision_id = did, sx_sentinel_session_id = sn_sentinel_session_id s, sx_timestamp = to_iso now, sx_decision = d,
       sx_triggered_rules = [], sx_violations = [v], sx_risk_score = severity_score sev, sx_policy_hash = si_policy_snapshot_hash s,
       sx_authority_snapshot_hash = si_authority_snapshot_hash s, sx_containment_status = CONTAINMENT_REQUESTED,
       sx_transition_result = TR_APPLIED\<rparr>)"

definition manual_control :: "sentinel_verdict \<Rightarrow> sentinel_principal \<Rightarrow> string \<Rightarrow> string \<Rightarrow> int \<Rightarrow> string \<Rightarrow> string \<Rightarrow> bool \<Rightarrow> sentinel_store
    \<Rightarrow> (sentinel_error, sentinel_store \<times> sentinel_session) res" where
  \<comment> \<open>\<open>hold\<close> and \<open>terminate\<close>\<close>
  "manual_control v p i message now vid did ok st = rbind (assertCanControl p) (\<lambda>_. rbind (loadSession (sc_tenantId p) i st) (\<lambda>s.
     let d = manualDecision s v message now vid did in
     rbind (applyOutcome s d (sx_violations d) (to_iso now) ok st) (\<lambda>(st', _).
     rbind (loadSession (sc_tenantId p) i st') (\<lambda>s'. Inr (st', s')))))"

definition sentinel_hold :: "sentinel_principal \<Rightarrow> string \<Rightarrow> string \<Rightarrow> int \<Rightarrow> string \<Rightarrow> string \<Rightarrow> bool \<Rightarrow> sentinel_store
    \<Rightarrow> (sentinel_error, sentinel_store \<times> sentinel_session) res" where
  "sentinel_hold = manual_control SD_HOLD"

definition sentinel_terminate :: "sentinel_principal \<Rightarrow> string \<Rightarrow> string \<Rightarrow> int \<Rightarrow> string \<Rightarrow> string \<Rightarrow> bool \<Rightarrow> sentinel_store
    \<Rightarrow> (sentinel_error, sentinel_store \<times> sentinel_session) res" where
  "sentinel_terminate = manual_control SD_TERMINATE"

record resume_input =
  ri_rationale :: string
  ri_policySnapshotHash :: "string option"
  ri_authorityExpiry :: "string option"

definition rebind_session :: "resume_input \<Rightarrow> string \<Rightarrow> sentinel_session \<Rightarrow> sentinel_session" where
  "rebind_session input now s = s\<lparr>sn_status := ST_MONITORING, sn_updated_at := now,
     si_policy_snapshot_hash := (case ri_policySnapshotHash input of None \<Rightarrow> si_policy_snapshot_hash s | Some h \<Rightarrow> h),
     si_authority_expiry := (case ri_authorityExpiry input of None \<Rightarrow> si_authority_expiry s | Some e \<Rightarrow> e)\<rparr>"

definition sentinel_resume :: "sentinel_principal \<Rightarrow> string \<Rightarrow> resume_input \<Rightarrow> string \<Rightarrow> sentinel_store
    \<Rightarrow> (sentinel_error, sentinel_store \<times> sentinel_session) res" where
  "sentinel_resume p i input now st = (let t = sc_tenantId p in
     rbind (assertCanControl p) (\<lambda>_. rbind (loadRow t i st) (\<lambda>r.
     if row_status r \<noteq> ST_HELD
     then Inl (Sentinel_Error S_INVALID_TRANSITION (''Only a HELD session may be resumed (current status: '' @ session_status_name (row_status r) @ '')''))
     else let st' = update_rows t i (\<lambda>x. x\<lparr>rw_session := rebind_session input now (rw_session x), rw_state_version := rw_state_version x + 1\<rparr>) st in
       rbind (loadSession t i st') (\<lambda>s. Inr (st', s)))))"

definition completeSession :: "sentinel_principal \<Rightarrow> string \<Rightarrow> string \<Rightarrow> sentinel_store \<Rightarrow> (sentinel_error, sentinel_store \<times> sentinel_session) res" where
  "completeSession p i now st = (let t = sc_tenantId p in
     rbind (assertCanControl p) (\<lambda>_. rbind (loadRow t i st) (\<lambda>r.
     if row_status r \<notin> {ST_MONITORING, ST_WARNED}
     then Inl (Sentinel_Error S_INVALID_TRANSITION (''Only a monitoring session may complete (current status: '' @ session_status_name (row_status r) @ '')''))
     else let st' = set_status t i ST_COMPLETED now st in rbind (loadSession t i st') (\<lambda>s. Inr (st', s)))))"

section \<open>Emergency stop and policy\<close>

definition stop_key :: "emergency_stop \<Rightarrow> string \<times> stop_scope \<times> string" where
  "stop_key e = (es_tenant_id e, es_scope_type e, es_scope_value e)"

definition loadStop :: "string \<Rightarrow> stop_scope \<Rightarrow> string \<Rightarrow> sentinel_store \<Rightarrow> (sentinel_error, emergency_stop) res" where
  "loadStop t ty v st = (case find (\<lambda>e. stop_key e = (t, ty, v)) (ss_stops st) of
       None \<Rightarrow> Inl (Sentinel_Error S_NOT_FOUND ''No such emergency stop scope'') | Some e \<Rightarrow> Inr e)"

definition activateStop :: "sentinel_principal \<Rightarrow> stop_scope \<Rightarrow> string \<Rightarrow> string \<Rightarrow> string \<Rightarrow> sentinel_store
    \<Rightarrow> (sentinel_error, sentinel_store \<times> emergency_stop) res" where
  "activateStop p ty v reason now st = rbind (sentinel_is_admin p) (\<lambda>_.
     let t = sc_tenantId p;
         e = \<lparr>es_tenant_id = t, es_scope_type = ty, es_scope_value = v, es_active = True, es_reason = reason, es_activated_by = sc_principal_id p,
              es_activated_at = now, es_released_by = None, es_released_at = None\<rparr>;
         st' = (if \<exists>x \<in> set (ss_stops st). stop_key x = stop_key e
                then st\<lparr>ss_stops := map (\<lambda>x. if stop_key x = stop_key e then e else x) (ss_stops st)\<rparr>
                else st\<lparr>ss_stops := ss_stops st @ [e]\<rparr>) in
     rbind (loadStop t ty v st') (\<lambda>x. Inr (st', x)))"

definition releaseStop :: "sentinel_principal \<Rightarrow> stop_scope \<Rightarrow> string \<Rightarrow> string \<Rightarrow> sentinel_store
    \<Rightarrow> (sentinel_error, sentinel_store \<times> emergency_stop) res" where
  "releaseStop p ty v now st = rbind (sentinel_is_admin p) (\<lambda>_.
     let t = sc_tenantId p;
         st' = st\<lparr>ss_stops := map (\<lambda>x. if stop_key x = (t, ty, v)
             then x\<lparr>es_active := False, es_released_by := Some (sc_principal_id p), es_released_at := Some now\<rparr> else x) (ss_stops st)\<rparr> in
     rbind (loadStop t ty v st') (\<lambda>x. Inr (st', x)))"

definition listStops :: "sentinel_principal \<Rightarrow> sentinel_store \<Rightarrow> (sentinel_error, emergency_stop list) res" where
  "listStops p st = rbind (sentinel_can_read p) (\<lambda>_. Inr (sort_key es_activated_at (filter (\<lambda>e. es_tenant_id e = sc_tenantId p) (ss_stops st))))"

definition setPolicy :: "(string \<Rightarrow> string) \<Rightarrow> sentinel_principal \<Rightarrow> json \<Rightarrow> int \<Rightarrow> sentinel_store \<Rightarrow> (sentinel_error, sentinel_store \<times> sentinel_policy) res" where
  "setPolicy sha p raw now st = rbind (sentinel_is_admin p) (\<lambda>_. rbind (validatePolicyInput raw) (\<lambda>input.
     rbind (assertTenant p (sp_tenant_id input)) (\<lambda>_.
     let policy = finalizePolicy sha now input; t = sp_tenant_id input in
     Inr (st\<lparr>ss_policies := map (\<lambda>(t', q, active). (t', q, active \<and> t' \<noteq> t)) (ss_policies st) @ [(t, policy, True)]\<rparr>, policy))))"

definition getActivePolicy :: "sentinel_principal \<Rightarrow> sentinel_store \<Rightarrow> (sentinel_error, sentinel_policy) res" where
  "getActivePolicy p st = rbind (sentinel_can_read p) (\<lambda>_. requireActivePolicy (sc_tenantId p) st)"

definition installDefaultPolicy :: "(string \<Rightarrow> string) \<Rightarrow> sentinel_principal \<Rightarrow> int \<Rightarrow> sentinel_store \<Rightarrow> (sentinel_error, sentinel_store \<times> sentinel_policy) res" where
  "installDefaultPolicy sha p now st = setPolicy sha p (defaultDemoPolicyInput (sc_tenantId p) ''default-demo-policy'') now st"

end
