(* ===== verification/Sentinel_Protocol.thy ===== *)
theory Sentinel_Protocol
  imports Sentinel_Runtime Transition_Table
begin

text \<open>
  Any number of callers on one store: every operation of the runtime as a step, an operation that awaits
  cut where it does. A caller in flight is a job; a job may also be lost between two of its steps (its
  process dies). The trace records the calls of the containment controller and their outcome.
\<close>

type_synonym session_key = "string \<times> string"

datatype sentinel_job =
    Job_Submitted session_key sentinel_observation
  | Job_Loaded sentinel_session sentinel_policy "sentinel_observation option"
  | Job_Decided session_key sentinel_decision "sentinel_violation list"
  | Job_Claimed session_key claim_result sentinel_decision "sentinel_violation list"
  | Job_Contained session_key claim_result bool sentinel_decision "sentinel_violation list"

type_synonym containment_event = "session_key \<times> containment_call \<times> bool"

record sentinel_world =
  sw_store :: sentinel_store
  sw_jobs :: "sentinel_job list"
  sw_calls :: "containment_event list"

definition world_empty :: sentinel_world where
  "world_empty = \<lparr>sw_store = sentinel_empty, sw_jobs = [], sw_calls = []\<rparr>"

definition session_key_of :: "sentinel_session \<Rightarrow> session_key" where
  "session_key_of s = (si_tenant_id s, sn_sentinel_session_id s)"

text \<open>\<open>swap i js w\<close>: the \<open>i\<close>-th job ends and the jobs \<open>js\<close> follow it.\<close>

definition swap :: "nat \<Rightarrow> sentinel_job list \<Rightarrow> sentinel_world \<Rightarrow> sentinel_world" where
  "swap i js w = w\<lparr>sw_jobs := take i (sw_jobs w) @ js @ drop (Suc i) (sw_jobs w)\<rparr>"

inductive sentinel_step :: "sentinel_world \<Rightarrow> sentinel_world \<Rightarrow> bool" where
  step_create: "createSession p raw now sid (sw_store w) = Inr (st, s) \<Longrightarrow> sentinel_step w (w\<lparr>sw_store := st\<rparr>)"
| step_submit: "submit_checks p i raw = Inr input \<Longrightarrow> submit_txn input i received (sw_store w) = Inr (st, ob, fresh)
    \<Longrightarrow> sentinel_step w (w\<lparr>sw_store := st, sw_jobs := sw_jobs w @ (if fresh then [Job_Submitted (sc_tenantId p, i) ob] else [])\<rparr>)"
| step_evaluate: "load_evaluation t i (sw_store w) = Inr (Some (s, pol))
    \<Longrightarrow> sentinel_step w (w\<lparr>sw_jobs := sw_jobs w @ [Job_Loaded s pol None]\<rparr>)"
| step_load: "i < length (sw_jobs w) \<Longrightarrow> sw_jobs w ! i = Job_Submitted (t, sid) ob \<Longrightarrow> load_evaluation t sid (sw_store w) = Inr (Some (s, pol))
    \<Longrightarrow> sentinel_step w (swap i [Job_Loaded s pol (Some ob)] w)"
| step_finish: "i < length (sw_jobs w) \<Longrightarrow> sw_jobs w ! i = Job_Loaded s pol ob
    \<Longrightarrow> finish_evaluation s pol ob revalidated now ids (sw_store w) = Inr out
    \<Longrightarrow> sentinel_step w (swap i [Job_Decided (session_key_of s) (eo_decision out) (eo_violations out)] w)"
| step_manual: "assertCanControl p = Inr () \<Longrightarrow> loadSession (sc_tenantId p) i (sw_store w) = Inr s \<Longrightarrow> v \<in> {SD_HOLD, SD_TERMINATE}
    \<Longrightarrow> d = manualDecision s v message now vid did
    \<Longrightarrow> sentinel_step w (w\<lparr>sw_jobs := sw_jobs w @ [Job_Decided (session_key_of s) d (sx_violations d)]\<rparr>)"
| step_claim: "i < length (sw_jobs w) \<Longrightarrow> sw_jobs w ! i = Job_Decided (t, sid) d vs
    \<Longrightarrow> reconcileAndClaim t sid (sx_decision d) now (sw_store w) = Inr (st, c)
    \<Longrightarrow> sentinel_step w (swap i [Job_Claimed (t, sid) c d vs] (w\<lparr>sw_store := st\<rparr>))"
| step_contain: "i < length (sw_jobs w) \<Longrightarrow> sw_jobs w ! i = Job_Claimed k c d vs
    \<Longrightarrow> sentinel_step w (swap i [Job_Contained k c ok d vs]
          (w\<lparr>sw_calls := sw_calls w @ (case containment_needed c of None \<Rightarrow> [] | Some call \<Rightarrow> [(k, call, ok)])\<rparr>))"
| step_resolve: "i < length (sw_jobs w) \<Longrightarrow> sw_jobs w ! i = Job_Contained (t, sid) c ok d vs
    \<Longrightarrow> resolve t sid c ok d vs now (sw_store w) = Inr (st, d')
    \<Longrightarrow> sentinel_step w (swap i [] (w\<lparr>sw_store := st\<rparr>))"
| step_lost: "sentinel_step w (swap i [] w)"
| step_resume: "sentinel_resume p i input now (sw_store w) = Inr (st, s) \<Longrightarrow> sentinel_step w (w\<lparr>sw_store := st\<rparr>)"
| step_complete: "completeSession p i now (sw_store w) = Inr (st, s) \<Longrightarrow> sentinel_step w (w\<lparr>sw_store := st\<rparr>)"
| step_stop: "activateStop p ty v reason now (sw_store w) = Inr (st, e) \<Longrightarrow> sentinel_step w (w\<lparr>sw_store := st\<rparr>)"
| step_release: "releaseStop p ty v now (sw_store w) = Inr (st, e) \<Longrightarrow> sentinel_step w (w\<lparr>sw_store := st\<rparr>)"
| step_policy: "setPolicy sha p raw now' (sw_store w) = Inr (st, pol) \<Longrightarrow> sentinel_step w (w\<lparr>sw_store := st\<rparr>)"

inductive sentinel_run :: "sentinel_world \<Rightarrow> sentinel_world \<Rightarrow> bool" where
  srun_refl: "sentinel_run w w"
| srun_step: "sentinel_run w w' \<Longrightarrow> sentinel_step w' w'' \<Longrightarrow> sentinel_run w w''"

section \<open>The status of a session\<close>

definition status_of :: "session_key \<Rightarrow> sentinel_store \<Rightarrow> session_status option" where
  "status_of k st = map_option row_status (session_row_of (fst k) (snd k) st)"

lemma find_map_same: "(\<And>r. P (f r) = P r) \<Longrightarrow> find P (map f rs) = map_option f (find P rs)"
  by (induction rs) auto

lemma find_snoc: "find P (xs @ [x]) = (case find P xs of None \<Rightarrow> if P x then Some x else None | Some y \<Rightarrow> Some y)"
  by (induction xs) auto

lemma update_rows_row:
  assumes "\<And>r. row_key r = (t, i) \<Longrightarrow> row_key (f r) = (t, i)"
  shows "session_row_of t' i' (update_rows t i f st) = map_option (\<lambda>r. if (t', i') = (t, i) then f r else r) (session_row_of t' i' st)"
proof -
  have "find (\<lambda>r. row_key r = (t', i')) (map (\<lambda>r. if row_key r = (t, i) then f r else r) (ss_sessions st))
    = map_option (\<lambda>r. if row_key r = (t, i) then f r else r) (find (\<lambda>r. row_key r = (t', i')) (ss_sessions st))"
    by (rule find_map_same) (use assms in auto)
  moreover have "row_key r = (t', i')" if "find (\<lambda>r. row_key r = (t', i')) (ss_sessions st) = Some r" for r
    using that by (auto dest: find_SomeD)
  ultimately show ?thesis
    by (cases "find (\<lambda>r. row_key r = (t', i')) (ss_sessions st)") (auto simp: session_row_of_def update_rows_def)
qed

lemma set_status_of: "status_of k (set_status t i s now st) = (if k = (t, i) then map_option (\<lambda>_. s) (status_of k st) else status_of k st)"
proof -
  have "session_row_of (fst k) (snd k) (set_status t i s now st) = map_option (\<lambda>r. if (fst k, snd k) = (t, i) then
      r\<lparr>rw_session := (rw_session r)\<lparr>sn_status := s, sn_updated_at := now\<rparr>, rw_state_version := rw_state_version r + 1\<rparr> else r)
      (session_row_of (fst k) (snd k) st)"
    unfolding set_status_def by (rule update_rows_row) (simp add: row_key_def)
  then show ?thesis
    by (cases "session_row_of (fst k) (snd k) st") (auto simp: status_of_def row_status_def)
qed

lemma status_of_cong: "ss_sessions st = ss_sessions st' \<Longrightarrow> status_of k st = status_of k st'"
  by (simp add: status_of_def session_row_of_def)

lemma loadRow_Inr: "loadRow t i st = Inr r \<longleftrightarrow> session_row_of t i st = Some r"
  by (simp add: loadRow_def split: option.split)

lemma persist_sessions [simp]: "ss_sessions (persistDecision t i d vs st) = ss_sessions st"
  by (simp add: persistDecision_def)


lemma find_status: "session_row_of t i st = Some r \<Longrightarrow> row_key r = (t, i) \<and> status_of (t, i) st = Some (row_status r)"
  by (auto simp: session_row_of_def status_of_def dest: find_SomeD)

section \<open>What the operations do to it\<close>

lemma claim_facts:
  assumes "reconcileAndClaim t i d now st = Inr (st', c)"
  obtains s where "status_of (t, i) st = Some s" "isTerminalStatus s \<or> s = ST_TERMINATING" "st' = st" "containment_needed c = None"
  | s s' where "status_of (t, i) st = Some s" "\<not> isTerminalStatus s" "s \<noteq> ST_TERMINATING"
      "nextStatusForDecision s d = Inr s'" "status_of (t, i) st' = Some s'" "\<And>k. k \<noteq> (t, i) \<Longrightarrow> status_of k st' = status_of k st"
      "containment_needed c = Some Call_Terminate \<longleftrightarrow> s' = ST_TERMINATING"
proof -
  obtain r target kind where r: "session_row_of t i st = Some r" and k: "reconcileDecisionTarget (row_status r) d = Inr (target, kind)"
    and out: "if target = row_status r then st' = st \<and> c = \<lparr>cl_kind = kind, cl_claimedStatus = row_status r, cl_priorFreshStatus = row_status r\<rparr>
      else st' = set_status t i target now st \<and> c = \<lparr>cl_kind = kind, cl_claimedStatus = target, cl_priorFreshStatus = row_status r\<rparr>"
    using assms by (fastforce simp: reconcileAndClaim_def rbind_eq_Inr loadRow_Inr split: if_splits)
  note st = find_status [OF r, THEN conjunct2]
  show thesis
  proof (cases "isTerminalStatus (row_status r) \<or> row_status r = ST_TERMINATING")
    case True
    then have "target = row_status r" "kind = TR_NO_OP_ALREADY_STRONGER"
      using k by (simp_all add: reconcileDecisionTarget_def)
    then show thesis using that(1) [OF st True] out by (simp add: containment_needed_def)
  next
    case False
    then have n: "nextStatusForDecision (row_status r) d = Inr target" and kind: "kind \<noteq> TR_NO_OP_ALREADY_STRONGER"
      using k by (auto simp: reconcileDecisionTarget_def rbind_eq_Inr split: if_splits)
    have s': "status_of (t, i) st' = Some target" "\<And>k. k \<noteq> (t, i) \<Longrightarrow> status_of k st' = status_of k st"
      using out st by (auto simp: set_status_of split: if_splits)
    have "containment_needed c = Some Call_Terminate \<longleftrightarrow> target = ST_TERMINATING"
      using out kind False by (auto simp: containment_needed_def split: if_splits)
    then show thesis using that(2) [OF st _ _ n s'] False by blast
  qed
qed

lemma resolveClaim_facts:
  assumes "resolveClaim t i target now st = Inr (st', s')"
  shows "status_of k st' = (if k = (t, i) \<and> status_of k st = Some ST_TERMINATING then Some target else status_of k st)"
proof -
  obtain r where r: "session_row_of t i st = Some r"
    and e: "(if row_status r \<noteq> ST_TERMINATING then Inr (st, row_status r) else Inr (set_status t i target now st, target))
      = (Inr (st', s') :: (sentinel_error, sentinel_store \<times> session_status) res)"
    using assms unfolding resolveClaim_def rbind_eq_Inr loadRow_Inr by blast
  then have out: "(row_status r \<noteq> ST_TERMINATING \<and> st' = st) \<or> (row_status r = ST_TERMINATING \<and> st' = set_status t i target now st)"
    by (auto split: if_splits)
  show ?thesis
    using out find_status [OF r] by (auto simp: set_status_of)
qed

lemma resolve_facts:
  assumes "resolve t i c ok d vs now st = Inr (st', d')"
  shows "status_of k st' = (if k = (t, i) \<and> containment_needed c = Some Call_Terminate \<and> status_of k st = Some ST_TERMINATING
      then Some (if ok then ST_TERMINATED else ST_INDETERMINATE) else status_of k st)"
proof (cases "containment_needed c = Some Call_Terminate")
  case True
  obtain st1 x where r: "resolveClaim t i (if ok then ST_TERMINATED else ST_INDETERMINATE) now st = Inr (st1, x)"
    and "ss_sessions st' = ss_sessions st1"
  proof (cases "resolveClaim t i (if ok then ST_TERMINATED else ST_INDETERMINATE) now st")
    case (Inl e)
    then have "session_row_of t i st = None"
      by (auto simp: resolveClaim_def rbind_eq_Inl loadRow_def split: option.splits if_splits)
    then have "resolveClaim t i ST_INDETERMINATE now st = Inl (s_not_found i)"
      by (simp add: resolveClaim_def loadRow_def)
    have "\<not> is_ok (resolve t i c ok d vs now st)"
      unfolding resolve_def Let_def True Inl \<open>resolveClaim t i ST_INDETERMINATE now st = Inl (s_not_found i)\<close> by simp
    then have False using assms by simp
    then show thesis ..
  next
    case (Inr y)
    obtain st1 x where y: "y = (st1, x)" by (cases y)
    have e: "resolve t i c ok d vs now st = Inr (persistDecision t i (contained_decision c ok d) vs st1, contained_decision c ok d)"
      unfolding resolve_def Let_def True Inr y by simp
    have "ss_sessions st' = ss_sessions st1"
      using trans [OF assms [symmetric] e] by simp
    then show thesis using that Inr y by blast
  qed
  then show ?thesis
    using resolveClaim_facts [OF r, of k] status_of_cong [of st' st1 k] True by simp
next
  case False
  then have "ss_sessions st' = ss_sessions st"
    using assms by (auto simp: resolve_def Let_def)
  then show ?thesis using False status_of_cong [of st' st k] by simp
qed

lemma submit_status:
  assumes "submit_txn input i received st = Inr (st', ob, fresh)" shows "status_of k st' = status_of k st"
proof -
  define t where "t = ob_tenant_id input"
  obtain r where r: "session_row_of t i st = Some r" and out: "st' = st \<or> (\<exists>n ob. st' = saveSession ((applyCounters (rw_session r) ob)
      \<lparr>sn_observation_sequence := n, sn_updated_at := received\<rparr>) (st\<lparr>ss_observations := ss_observations st @ [ob]\<rparr>))"
    using assms by (auto simp: submit_txn_def Let_def rbind_eq_Inr loadSession_def loadRow_Inr t_def split: if_splits option.splits)
  have app: "si_tenant_id (applyCounters s ob) = si_tenant_id s" "sn_sentinel_session_id (applyCounters s ob) = sn_sentinel_session_id s"
    "sn_status (applyCounters s ob) = sn_status s" for s ob
    by (simp_all add: applyCounters_def Let_def split: option.split)
  have key: "si_tenant_id (rw_session r) = t" "sn_sentinel_session_id (rw_session r) = i"
    using find_status [OF r] by (simp_all add: row_key_def)
  have "status_of k (saveSession ((applyCounters (rw_session r) ob) \<lparr>sn_observation_sequence := n, sn_updated_at := received\<rparr>)
      (st\<lparr>ss_observations := obs\<rparr>)) = status_of k st" for n ob obs
  proof -
    have "session_row_of (fst k) (snd k) (update_rows t i (\<lambda>x. x\<lparr>rw_session := (applyCounters (rw_session r) ob)
        \<lparr>sn_observation_sequence := n, sn_updated_at := received\<rparr>\<rparr>) (st\<lparr>ss_observations := obs\<rparr>))
      = map_option (\<lambda>x. if (fst k, snd k) = (t, i) then x\<lparr>rw_session := (applyCounters (rw_session r) ob)
        \<lparr>sn_observation_sequence := n, sn_updated_at := received\<rparr>\<rparr> else x) (session_row_of (fst k) (snd k) (st\<lparr>ss_observations := obs\<rparr>))"
      by (rule update_rows_row) (simp add: row_key_def app key)
    moreover have "session_row_of (fst k) (snd k) (st\<lparr>ss_observations := obs\<rparr>) = session_row_of (fst k) (snd k) st"
      by (simp add: session_row_of_def)
    ultimately show ?thesis
      using r by (cases "session_row_of (fst k) (snd k) st") (auto simp: status_of_def saveSession_def app key row_status_def)
  qed
  then show ?thesis using out by auto
qed

lemma create_status:
  assumes "createSession p raw now sid st = Inr (st', s)"
  shows "status_of k st' = status_of k st \<or> (status_of k st = None \<and> status_of k st' = Some ST_MONITORING)"
proof -
  obtain input where "ss_sessions st' = ss_sessions st @ [\<lparr>rw_session = new_session input sid (to_iso now), rw_state_version = 0\<rparr>]"
    using assms by (auto simp: createSession_def rbind_eq_Inr Let_def split: if_splits)
  then show ?thesis
    by (auto simp: status_of_def session_row_of_def find_snoc row_status_def new_session_def sentinel_session_input.defs
        sentinel_session.defs split: option.split)
qed

lemma resume_status:
  assumes "sentinel_resume p i input now st = Inr (st', s)"
  shows "status_of k st' = (if k = (sc_tenantId p, i) then Some ST_MONITORING else status_of k st)"
    "status_of (sc_tenantId p, i) st = Some ST_HELD" "sc_role p \<in> {RO_Controller, RO_Admin}"
proof -
  let ?t = "sc_tenantId p"
  let ?f = "\<lambda>x. x\<lparr>rw_session := rebind_session input now (rw_session x), rw_state_version := rw_state_version x + 1\<rparr>"
  obtain r where r: "session_row_of ?t i st = Some r" "row_status r = ST_HELD" and st': "st' = update_rows ?t i ?f st"
    and role: "sc_role p \<in> {RO_Controller, RO_Admin}"
    using assms by (auto simp: sentinel_resume_def Let_def rbind_eq_Inr loadRow_Inr assertCanControl_def split: if_splits)
  show "status_of (sc_tenantId p, i) st = Some ST_HELD" "sc_role p \<in> {RO_Controller, RO_Admin}"
    using find_status [OF r(1)] r(2) role by simp_all
  have "session_row_of (fst k) (snd k) (update_rows ?t i ?f st) = map_option (\<lambda>r. if (fst k, snd k) = (?t, i) then ?f r else r)
      (session_row_of (fst k) (snd k) st)"
    by (rule update_rows_row) (simp add: row_key_def rebind_session_def)
  then show "status_of k st' = (if k = (sc_tenantId p, i) then Some ST_MONITORING else status_of k st)"
    using r(1) st' by (cases "session_row_of (fst k) (snd k) st") (auto simp: status_of_def row_status_def rebind_session_def)
qed

lemma complete_status:
  assumes "completeSession p i now st = Inr (st', s)"
  shows "status_of k st' = (if k = (sc_tenantId p, i) then Some ST_COMPLETED else status_of k st)"
    "status_of (sc_tenantId p, i) st \<in> {Some ST_MONITORING, Some ST_WARNED}"
proof -
  obtain r where r: "session_row_of (sc_tenantId p) i st = Some r" "row_status r \<in> {ST_MONITORING, ST_WARNED}"
    and st': "st' = set_status (sc_tenantId p) i ST_COMPLETED now st"
    using assms by (auto simp: completeSession_def Let_def rbind_eq_Inr loadRow_Inr split: if_splits)
  show "status_of k st' = (if k = (sc_tenantId p, i) then Some ST_COMPLETED else status_of k st)"
    using find_status [OF r(1)] st' by (simp add: set_status_of)
  show "status_of (sc_tenantId p, i) st \<in> {Some ST_MONITORING, Some ST_WARNED}"
    using find_status [OF r(1)] r(2) by auto
qed

lemma admin_status:
  "activateStop p ty v reason now st = Inr (st', e) \<Longrightarrow> status_of k st' = status_of k st"
  "releaseStop p ty v now st = Inr (st', e) \<Longrightarrow> status_of k st' = status_of k st"
  "setPolicy sha p raw now' st = Inr (st', pol) \<Longrightarrow> status_of k st' = status_of k st"
  by (rule status_of_cong; auto simp: activateStop_def releaseStop_def setPolicy_def Let_def rbind_eq_Inr split: if_splits)+

end
