(* ===== verification/Sentinel_Properties.thy ===== *)
theory Sentinel_Properties
  imports Sentinel_Protocol
begin

text \<open>
  What the Sentinel promises however callers interleave: each session follows an abstract machine in
  which termination is requested at most once and a terminal status records the controller's answer;
  and an evaluation takes the strongest verdict of its rules and never passes over one that failed.
\<close>

section \<open>The abstract machine of a session\<close>

text \<open>Its state: not created, or the status and the outcomes of the termination requests so far.\<close>

inductive session_spec :: "(session_status \<times> bool list) option \<Rightarrow> (session_status \<times> bool list) option \<Rightarrow> bool" where
  spec_stay: "session_spec x x"
| spec_create: "session_spec None (Some (ST_MONITORING, []))"
| spec_decide: "\<not> isTerminalStatus s \<Longrightarrow> s \<noteq> ST_TERMINATING \<Longrightarrow> s' \<in> {ST_MONITORING, ST_WARNED, ST_HELD, ST_TERMINATING}
    \<Longrightarrow> (s = ST_HELD \<longrightarrow> s' \<in> {ST_HELD, ST_TERMINATING}) \<Longrightarrow> session_spec (Some (s, [])) (Some (s', []))"
| spec_request: "session_spec (Some (ST_TERMINATING, [])) (Some (ST_TERMINATING, [ok]))"
| spec_resolve: "session_spec (Some (ST_TERMINATING, [ok])) (Some (if ok then ST_TERMINATED else ST_INDETERMINATE, [ok]))"
| spec_resume: "session_spec (Some (ST_HELD, [])) (Some (ST_MONITORING, []))"
| spec_complete: "s \<in> {ST_MONITORING, ST_WARNED} \<Longrightarrow> session_spec (Some (s, [])) (Some (ST_COMPLETED, []))"

definition terminate_calls :: "session_key \<Rightarrow> sentinel_world \<Rightarrow> bool list" where
  "terminate_calls k w = map (\<lambda>(_, _, ok). ok) (filter (\<lambda>(k', call, _). k' = k \<and> call = Call_Terminate) (sw_calls w))"

definition session_view :: "session_key \<Rightarrow> sentinel_world \<Rightarrow> (session_status \<times> bool list) option" where
  "session_view k w = map_option (\<lambda>s. (s, terminate_calls k w)) (status_of k (sw_store w))"

section \<open>The invariant behind it\<close>

definition pending_job :: "session_key \<Rightarrow> sentinel_job \<Rightarrow> bool" where
  \<comment> \<open>it won the claim to terminate the session and has not called the controller yet\<close>
  "pending_job k j = (case j of Job_Claimed k' c _ _ \<Rightarrow> k' = k \<and> containment_needed c = Some Call_Terminate | _ \<Rightarrow> False)"

definition answered_job :: "session_key \<Rightarrow> sentinel_job \<Rightarrow> bool option" where
  "answered_job k j = (case j of Job_Contained k' c ok _ _ \<Rightarrow>
     if k' = k \<and> containment_needed c = Some Call_Terminate then Some ok else None | _ \<Rightarrow> None)"

definition pending :: "session_key \<Rightarrow> sentinel_world \<Rightarrow> nat" where
  "pending k w = length (filter (pending_job k) (sw_jobs w))"

definition terminating :: "session_status option \<Rightarrow> bool" where
  "terminating s = (s \<in> {Some ST_TERMINATING, Some ST_TERMINATED, Some ST_INDETERMINATE})"

definition claim_inv :: "session_key \<Rightarrow> sentinel_world \<Rightarrow> bool" where
  "claim_inv k w = (let s = status_of k (sw_store w); calls = terminate_calls k w in
     pending k w + length calls \<le> (if terminating s then 1 else 0)
     \<and> (\<forall>j \<in> set (sw_jobs w). \<forall>ok. answered_job k j = Some ok \<longrightarrow> calls = [ok])
     \<and> (s = Some ST_TERMINATED \<longrightarrow> calls = [True]) \<and> (s = Some ST_INDETERMINATE \<longrightarrow> calls = [False]))"

lemma claim_invD:
  assumes "claim_inv k w"
  shows "pending k w + length (terminate_calls k w) \<le> (if terminating (status_of k (sw_store w)) then 1 else 0)"
    "j \<in> set (sw_jobs w) \<Longrightarrow> answered_job k j = Some ok \<Longrightarrow> terminate_calls k w = [ok]"
    "status_of k (sw_store w) = Some ST_TERMINATED \<Longrightarrow> terminate_calls k w = [True]"
    "status_of k (sw_store w) = Some ST_INDETERMINATE \<Longrightarrow> terminate_calls k w = [False]"
    "\<not> terminating (status_of k (sw_store w)) \<Longrightarrow> terminate_calls k w = []"
  using assms by (auto simp: claim_inv_def Let_def)

lemma swap_pending:
  "i < length (sw_jobs w) \<Longrightarrow> pending k (swap i js w) + (if pending_job k (sw_jobs w ! i) then 1 else 0)
    = pending k w + length (filter (pending_job k) js)"
  "i \<ge> length (sw_jobs w) \<Longrightarrow> pending k (swap i js w) = pending k w + length (filter (pending_job k) js)"
proof -
  assume "i < length (sw_jobs w)"
  then have "sw_jobs w = take i (sw_jobs w) @ sw_jobs w ! i # drop (Suc i) (sw_jobs w)"
    by (simp add: id_take_nth_drop)
  then have "length (filter (pending_job k) (sw_jobs w)) = length (filter (pending_job k)
      (take i (sw_jobs w) @ sw_jobs w ! i # drop (Suc i) (sw_jobs w)))" by (rule arg_cong)
  then show "pending k (swap i js w) + (if pending_job k (sw_jobs w ! i) then 1 else 0)
    = pending k w + length (filter (pending_job k) js)"
    by (simp add: pending_def swap_def)
qed (simp add: pending_def swap_def)

lemma swap_jobs: "j \<in> set (sw_jobs (swap i js w)) \<Longrightarrow> j \<in> set js \<or> j \<in> set (sw_jobs w)"
  by (auto simp: swap_def dest: in_set_takeD in_set_dropD)

lemma swap_simps [simp]: "sw_store (swap i js w) = sw_store w" "sw_calls (swap i js w) = sw_calls w"
  "terminate_calls k (swap i js w) = terminate_calls k w"
  by (simp_all add: swap_def terminate_calls_def)

text \<open>A step that neither claims, calls nor changes the status keeps the invariant and the view.\<close>

lemma quiet:
  assumes inv: "claim_inv k w" and same: "status_of k (sw_store w') = status_of k (sw_store w)" "sw_calls w' = sw_calls w"
    and jobs: "pending k w' \<le> pending k w" "\<And>j. j \<in> set (sw_jobs w') \<Longrightarrow> j \<in> set (sw_jobs w) \<or> answered_job k j = None"
  shows "claim_inv k w' \<and> session_spec (session_view k w) (session_view k w')"
proof
  have c: "terminate_calls k w' = terminate_calls k w"
    using same(2) by (simp add: terminate_calls_def)
  show "claim_inv k w'"
    using inv jobs(1) unfolding claim_inv_def Let_def same(1) c by (fastforce dest: jobs(2))
  show "session_spec (session_view k w) (session_view k w')"
    using c same(1) by (simp add: session_view_def spec_stay)
qed

text \<open>A status change outside termination.\<close>

lemma status_change:
  assumes inv: "claim_inv k w" and calls: "sw_calls w' = sw_calls w"
    and old: "\<not> terminating (status_of k (sw_store w))" and new: "\<not> terminating (status_of k (sw_store w'))"
    and jobs: "pending k w' \<le> pending k w" "\<And>j. j \<in> set (sw_jobs w') \<Longrightarrow> j \<in> set (sw_jobs w) \<or> answered_job k j = None"
  shows "claim_inv k w'" "terminate_calls k w = []" "terminate_calls k w' = []"
proof -
  have c: "terminate_calls k w' = terminate_calls k w"
    using calls by (simp add: terminate_calls_def)
  show e: "terminate_calls k w = []" by (rule claim_invD(5) [OF inv old])
  then show "terminate_calls k w' = []" using c by simp
  have "pending k w' = 0" using claim_invD(1) [OF inv] old jobs(1) by simp
  moreover have "answered_job k j \<noteq> Some ok" if "j \<in> set (sw_jobs w')" for j ok
    using jobs(2) [OF that] claim_invD(2) [OF inv, of j ok] e by auto
  ultimately show "claim_inv k w'"
    using new c e by (auto simp: claim_inv_def Let_def terminating_def)
qed

lemma next_status:
  assumes "nextStatusForDecision s d = Inr s'" "s \<noteq> ST_TERMINATING"
  shows "\<not> isTerminalStatus s" "s' \<in> {ST_MONITORING, ST_WARNED, ST_HELD, ST_TERMINATING}" "s = ST_HELD \<longrightarrow> s' \<in> {ST_HELD, ST_TERMINATING}"
  using assms by (auto simp: nextStatusForDecision_def split: if_splits)

definition step_ok :: "session_key \<Rightarrow> sentinel_world \<Rightarrow> sentinel_world \<Rightarrow> bool" where
  "step_ok k w w' = (claim_inv k w' \<and> session_spec (session_view k w) (session_view k w'))"

lemma pending_append: "pending k (w\<lparr>sw_jobs := sw_jobs w @ js\<rparr>) = pending k w + length (filter (pending_job k) js)"
  by (simp add: pending_def)

lemma pending_store [simp]: "pending k (w\<lparr>sw_store := st\<rparr>) = pending k w" "pending k (w\<lparr>sw_calls := c\<rparr>) = pending k w"
  by (simp_all add: pending_def)

lemma swap_le: "\<not> pending_job k j \<Longrightarrow> pending k (swap i [j] w) \<le> pending k w" "pending k (swap i [] w) \<le> pending k w"
  using swap_pending [where i = i and w = w and k = k and js = "[j]"] swap_pending [where i = i and w = w and k = k and js = "[]"]
  by (cases "i < length (sw_jobs w)"; simp)+


lemma view_eq: "status_of k (sw_store w) = Some s \<Longrightarrow> session_view k w = Some (s, terminate_calls k w)"
  by (simp add: session_view_def)

lemma pending_jobs_cong: "sw_jobs w = sw_jobs w' \<Longrightarrow> pending k w = pending k w'"
  by (simp add: pending_def)

lemma claim_step_ok:
  assumes inv: "claim_inv k w" and c: "reconcileAndClaim t i d now (sw_store w) = Inr (st, c)"
    and j: "n < length (sw_jobs w)" "sw_jobs w ! n = Job_Decided (t, i) dd vs"
  shows "step_ok k w (swap n [Job_Claimed (t, i) c dd vs] (w\<lparr>sw_store := st\<rparr>))" (is "step_ok k w ?w")
proof -
  let ?j = "Job_Claimed (t, i) c dd vs"
  have p: "pending k ?w = pending k w + (if pending_job k ?j then 1 else 0)"
    using swap_pending(1) [where i = n and w = "w\<lparr>sw_store := st\<rparr>" and k = k and js = "[?j]"] j by (simp add: pending_job_def)
  have ans: "x \<in> set (sw_jobs w) \<or> answered_job k x = None" if "x \<in> set (sw_jobs ?w)" for x
    using swap_jobs [OF that] by (auto simp: answered_job_def)
  have le: "pending k ?w \<le> pending k w" if "k \<noteq> (t, i) \<or> containment_needed c \<noteq> Some Call_Terminate"
    unfolding p using that by (auto simp: pending_job_def)
  have nj: "\<not> pending_job k ?j" if "k \<noteq> (t, i) \<or> containment_needed c \<noteq> Some Call_Terminate"
    using that by (auto simp: pending_job_def)
  from c show ?thesis
  proof (cases rule: claim_facts)
    case (1 s)
    then show ?thesis unfolding step_ok_def
      by (intro quiet [OF inv] ans le) simp_all
  next
    case (2 s s')
    show ?thesis
    proof (cases "k = (t, i)")
      case False
      then show ?thesis unfolding step_ok_def using 2(6)
        by (intro quiet [OF inv] ans le) simp_all
    next
      case True
      note next' = next_status [OF 2(4,3)]
      have old: "\<not> terminating (status_of k (sw_store w))" using 2(1-3) True by (auto simp: terminating_def isTerminalStatus_def)
      have calls: "terminate_calls k w = []" by (rule claim_invD(5) [OF inv old])
      have calls': "terminate_calls k ?w = []" using calls by (simp add: terminate_calls_def)
      have st': "status_of k (sw_store ?w) = Some s'" using 2(5) True by simp
      have spec: "session_spec (session_view k w) (session_view k ?w)"
        using view_eq [OF 2(1) [folded True]] view_eq [OF st'] calls calls' next' 2(2,3) by (simp add: spec_decide)
      show ?thesis
      proof (cases "s' = ST_TERMINATING")
        case t: True
        have "pending k w = 0" using claim_invD(1) [OF inv] old by simp
        moreover have "answered_job k x \<noteq> Some ok" if "x \<in> set (sw_jobs ?w)" for x ok
          using ans [OF that] claim_invD(2) [OF inv, of x ok] calls by auto
        ultimately have "claim_inv k ?w"
          using st' t calls' p by (auto simp: claim_inv_def Let_def terminating_def)
        then show ?thesis using spec by (simp add: step_ok_def)
      next
        case f: False
        then have new: "\<not> terminating (status_of k (sw_store ?w))" using st' next'(2) by (auto simp: terminating_def)
        have "pending k ?w \<le> pending k w" using p nj 2(7) f by simp
        then have "claim_inv k ?w" by (intro status_change(1) [OF inv _ old new] ans) simp_all
        then show ?thesis using spec by (simp add: step_ok_def)
      qed
    qed
  qed
qed


lemma contain_step_ok:
  assumes inv: "claim_inv k w" and j: "n < length (sw_jobs w)" "sw_jobs w ! n = Job_Claimed k' c d vs"
  shows "step_ok k w (swap n [Job_Contained k' c ok d vs]
    (w\<lparr>sw_calls := sw_calls w @ (case containment_needed c of None \<Rightarrow> [] | Some call \<Rightarrow> [(k', call, ok)])\<rparr>))" (is "step_ok k w ?w")
proof -
  let ?j = "Job_Contained k' c ok d vs"
  have np: "\<not> pending_job k ?j" by (simp add: pending_job_def)
  have p: "pending k ?w + (if pending_job k (sw_jobs w ! n) then 1 else 0) = pending k w"
    using swap_pending(1) [where i = n and w = "w\<lparr>sw_calls := sw_calls w @ (case containment_needed c of None \<Rightarrow> [] | Some call \<Rightarrow> [(k', call, ok)])\<rparr>"
      and k = k and js = "[?j]"] j(1) np by simp
  have jobs: "x = ?j \<or> x \<in> set (sw_jobs w)" if "x \<in> set (sw_jobs ?w)" for x
    using swap_jobs [OF that] by auto
  have st: "sw_store ?w = sw_store w" by simp
  show ?thesis
  proof (cases "pending_job k (sw_jobs w ! n)")
    case True
    then have k: "k' = k" "containment_needed c = Some Call_Terminate" using j(2) by (simp_all add: pending_job_def)
    have bound: "pending k w + length (terminate_calls k w) \<le> 1"
      using claim_invD(1) [OF inv] by (auto split: if_splits)
    have "pending k w \<ge> 1" using p True by simp
    with bound have "length (terminate_calls k w) = 0" and one: "pending k w = 1" by linarith+
    then have none: "terminate_calls k w = []" by simp
    then have s: "status_of k (sw_store w) = Some ST_TERMINATING"
      using claim_invD(1,3,4) [OF inv] one by (auto simp: terminating_def split: if_splits)
    have calls: "terminate_calls k ?w = [ok]" using k none by (simp add: terminate_calls_def)
    have "pending k ?w = 0" using p True one by simp
    moreover have "ok' = ok" if "x \<in> set (sw_jobs ?w)" "answered_job k x = Some ok'" for x ok'
      using jobs [OF that(1)] that(2) claim_invD(2) [OF inv, of x ok'] none k by (auto simp: answered_job_def)
    ultimately have "claim_inv k ?w"
      unfolding claim_inv_def Let_def calls st s by (auto simp: terminating_def)
    moreover have "session_view k ?w = Some (ST_TERMINATING, [ok])" "session_view k w = Some (ST_TERMINATING, [])"
      unfolding session_view_def calls st s none by simp_all
    ultimately show ?thesis by (simp add: step_ok_def spec_request)
  next
    case False
    then have nk: "k' \<noteq> k \<or> containment_needed c \<noteq> Some Call_Terminate" using j(2) by (simp add: pending_job_def)
    have calls: "terminate_calls k ?w = terminate_calls k w"
      using nk by (auto simp: terminate_calls_def split: option.split)
    have ans: "answered_job k x = Some ok' \<Longrightarrow> x \<in> set (sw_jobs w)" if "x \<in> set (sw_jobs ?w)" for x ok'
      using jobs [OF that] nk by (auto simp: answered_job_def)
    have "claim_inv k ?w"
      using inv p False ans unfolding claim_inv_def Let_def calls st by fastforce
    moreover have "session_view k ?w = session_view k w"
      unfolding session_view_def calls st ..
    ultimately show ?thesis by (simp add: step_ok_def spec_stay)
  qed
qed

lemma resolve_step_ok:
  assumes inv: "claim_inv k w" and j: "n < length (sw_jobs w)" "sw_jobs w ! n = Job_Contained (t, i) c ok d vs"
    and r: "resolve t i c ok d vs now (sw_store w) = Inr (st, d')"
  shows "step_ok k w (swap n [] (w\<lparr>sw_store := st\<rparr>))" (is "step_ok k w ?w")
proof -
  have le: "pending k ?w \<le> pending k w"
    using swap_le(2) [of k n "w\<lparr>sw_store := st\<rparr>"] by simp
  have jobs: "x \<in> set (sw_jobs w)" if "x \<in> set (sw_jobs ?w)" for x
    using swap_jobs [OF that] by simp
  have calls: "terminate_calls k ?w = terminate_calls k w" by (simp add: terminate_calls_def)
  have new: "status_of k (sw_store ?w) = (if k = (t, i) \<and> containment_needed c = Some Call_Terminate \<and>
      status_of k (sw_store w) = Some ST_TERMINATING then Some (if ok then ST_TERMINATED else ST_INDETERMINATE) else status_of k (sw_store w))"
    using resolve_facts [OF r, of k] by simp
  show ?thesis
  proof (cases "k = (t, i) \<and> containment_needed c = Some Call_Terminate \<and> status_of k (sw_store w) = Some ST_TERMINATING")
    case True
    then have "answered_job k (sw_jobs w ! n) = Some ok" using j(2) by (simp add: answered_job_def)
    then have called: "terminate_calls k w = [ok]" by (rule claim_invD(2) [OF inv nth_mem [OF j(1)]])
    have "pending k w = 0" using claim_invD(1) [OF inv] called by (auto split: if_splits)
    then have p: "pending k ?w = 0" using le by simp
    have s: "status_of k (sw_store ?w) = Some (if ok then ST_TERMINATED else ST_INDETERMINATE)"
      using new unfolding if_P [OF True] .
    have "claim_inv k ?w"
      using claim_invD(2) [OF inv] jobs unfolding claim_inv_def Let_def calls s p called by (auto simp: terminating_def)
    moreover have "session_view k w = Some (ST_TERMINATING, [ok])"
      "session_view k ?w = Some (if ok then ST_TERMINATED else ST_INDETERMINATE, [ok])"
      unfolding session_view_def calls s called True [THEN conjunct2, THEN conjunct2] by simp_all
    ultimately show ?thesis unfolding step_ok_def by (simp only: spec_resolve simp_thms)
  next
    case False
    then have "status_of k (sw_store ?w) = status_of k (sw_store w)" using new by (simp only: if_False)
    then show ?thesis unfolding step_ok_def using le jobs by (intro quiet [OF inv]) auto
  qed
qed

lemma status_step_ok:
  assumes inv: "claim_inv k w" and others: "s' \<noteq> status_of k (sw_store w) \<Longrightarrow> \<not> terminating s' \<and> \<not> terminating (status_of k (sw_store w)) \<and>
      session_spec (map_option (\<lambda>s. (s, [])) (status_of k (sw_store w))) (map_option (\<lambda>s. (s, [])) s')"
    and new: "status_of k st = s'"
  shows "step_ok k w (w\<lparr>sw_store := st\<rparr>)" (is "step_ok k w ?w")
proof (cases "s' = status_of k (sw_store w)")
  case True
  then show ?thesis unfolding step_ok_def using new by (intro quiet [OF inv]) auto
next
  case False
  note o = others [OF False]
  have "claim_inv k ?w" "terminate_calls k w = []" "terminate_calls k ?w = []"
    using o new by (intro status_change [OF inv]; simp)+
  then show ?thesis using o new by (simp add: step_ok_def session_view_def)
qed


theorem sentinel_step_ok:
  assumes inv: "claim_inv k w" and step: "sentinel_step w w'"
  shows "step_ok k w w'"
  using step
proof cases
  case (step_create p raw now sid st s)
  have "step_ok k w (w\<lparr>sw_store := st\<rparr>)"
    by (rule status_step_ok [OF inv _ refl]) (use create_status [OF step_create(2), of k] in \<open>auto simp: terminating_def spec_create\<close>)
  then show ?thesis using step_create by simp
next
  case (step_submit p i raw input received st ob fresh)
  have "status_of k st = status_of k (sw_store w)" by (rule submit_status [OF step_submit(3)])
  then show ?thesis unfolding step_ok_def step_submit(1)
    by (intro quiet [OF inv]) (auto simp: pending_def pending_job_def answered_job_def)
next
  case (step_evaluate t i s pol)
  then show ?thesis unfolding step_ok_def
    by (intro quiet [OF inv]) (auto simp: pending_def pending_job_def answered_job_def)
next
  case (step_load i t sid ob s pol)
  then show ?thesis unfolding step_ok_def
    by (intro quiet [OF inv]) (auto simp: swap_le pending_job_def answered_job_def dest: swap_jobs)
next
  case (step_finish i s pol ob revalidated now ids out)
  then show ?thesis unfolding step_ok_def
    by (intro quiet [OF inv]) (auto simp: swap_le pending_job_def answered_job_def dest: swap_jobs)
next
  case (step_manual p i s v d message now vid did)
  then show ?thesis unfolding step_ok_def
    by (intro quiet [OF inv]) (auto simp: pending_def pending_job_def answered_job_def)
next
  case (step_claim i t sid d vs now st c)
  show ?thesis unfolding step_claim(1) by (rule claim_step_ok [OF inv step_claim(4,2,3)])
next
  case (step_contain i k' c d vs ok)
  show ?thesis unfolding step_contain(1) by (rule contain_step_ok [OF inv step_contain(2,3)])
next
  case (step_resolve i t sid c ok d vs now st d')
  show ?thesis unfolding step_resolve(1) by (rule resolve_step_ok [OF inv step_resolve(2-4)])
next
  case (step_lost i)
  then show ?thesis unfolding step_ok_def
    by (intro quiet [OF inv]) (auto simp: swap_le dest: swap_jobs)
next
  case (step_resume p i input now st s)
  note f = resume_status [OF step_resume(2)]
  have "step_ok k w (w\<lparr>sw_store := st\<rparr>)"
    by (rule status_step_ok [OF inv _ refl]) (use f(1) [of k] f(2) in \<open>auto simp: terminating_def spec_resume split: if_splits\<close>)
  then show ?thesis using step_resume by simp
next
  case (step_complete p i now st s)
  note f = complete_status [OF step_complete(2)]
  have "step_ok k w (w\<lparr>sw_store := st\<rparr>)"
    by (rule status_step_ok [OF inv _ refl]) (use f(1) [of k] f(2) in \<open>auto simp: terminating_def spec_complete split: if_splits\<close>)
  then show ?thesis using step_complete by simp
next
  case (step_stop p ty v reason now st e)
  have "step_ok k w (w\<lparr>sw_store := st\<rparr>)"
    by (rule status_step_ok [OF inv _ admin_status(1) [OF step_stop(2)]]) simp
  then show ?thesis using step_stop by simp
next
  case (step_release p ty v now st e)
  have "step_ok k w (w\<lparr>sw_store := st\<rparr>)"
    by (rule status_step_ok [OF inv _ admin_status(2) [OF step_release(2)]]) simp
  then show ?thesis using step_release by simp
next
  case (step_policy sha p raw now' st pol)
  have "step_ok k w (w\<lparr>sw_store := st\<rparr>)"
    by (rule status_step_ok [OF inv _ admin_status(3) [OF step_policy(2)]]) simp
  then show ?thesis using step_policy by simp
qed

end
