(* ===== verification/Sentinel_Safety.thy ===== *)
theory Sentinel_Safety
  imports Sentinel_Properties
begin

text \<open>
  The properties of the Sentinel: refinement of the abstract session, termination requested once, a hold
  released by a controller only, evaluation by the strongest verdict, and the guard of its egress.
\<close>

section \<open>A concrete run\<close>

text \<open>A session is created, terminated by hand, contained and resolved.\<close>

definition demo_digest64 :: string where
  "demo_digest64 = replicate 64 CHR ''a''"

definition demo_session_json :: json where
  "demo_session_json = JObj [(''version'', JStr ''1.0''), (''tenant_id'', JStr ''t1''), (''agent_id'', JStr ''a1''),
     (''execution_id'', JStr ''e1''), (''correlation_id'', JStr ''c1''), (''authority_snapshot_hash'', JStr demo_digest64),
     (''policy_snapshot_hash'', JStr demo_digest64), (''expected_action'', JStr ''read''), (''expected_tool'', JStr ''http''),
     (''expected_resource'', JStr ''docs/a''), (''allowed_destinations'', JArr [JStr ''example.com'']),
     (''allowed_operations'', JArr [JStr ''read'']), (''authority_expiry'', JStr ''2026-02-01T00:00:00.000Z''),
     (''runtime_limits'', JObj [(''max_runtime_seconds'', jint 60)]), (''cost_limits'', JObj [(''max_cost_usd'', jint 1)])]"

definition demo_controller :: sentinel_principal where
  "demo_controller = \<lparr>sc_principal_id = ''ana'', sc_role = RO_Controller, sc_tenantId = ''t1'', sc_allowedSources = []\<rparr>"

lemma demo_session_reads: "validateSessionInput demo_session_json = Inr (normalized_session demo_session_json)"
proof -
  have "run_checks (session_checks demo_session_json) = Inr ()" by code_simp
  then show ?thesis unfolding validateSessionInput_def by (simp del: run_checks_ok)
qed


definition demo_created :: sentinel_store where
  "demo_created = sentinel_empty\<lparr>ss_sessions := [\<lparr>rw_session = new_session (normalized_session demo_session_json) ''s1'' (to_iso 0),
     rw_state_version = 0\<rparr>]\<rparr>"

lemma demo_create: "createSession demo_controller demo_session_json 0 ''s1'' sentinel_empty
  = Inr (demo_created, new_session (normalized_session demo_session_json) ''s1'' (to_iso 0))"
proof -
  have t: "si_tenant_id (normalized_session demo_session_json) = ''t1''" by code_simp
  show ?thesis
    by (simp add: createSession_def demo_session_reads assertCanControl_def assertTenant_def demo_controller_def t session_row_of_def
      sentinel_empty_def demo_created_def Let_def del: run_checks_ok)
qed

definition demo_stop_decision :: sentinel_decision where
  "demo_stop_decision = manualDecision (new_session (normalized_session demo_session_json) ''s1'' (to_iso 0)) SD_TERMINATE ''stop'' 0 ''v1'' ''d1''"

definition demo_claim :: claim_result where
  "demo_claim = \<lparr>cl_kind = TR_ESCALATED, cl_claimedStatus = ST_TERMINATING, cl_priorFreshStatus = ST_MONITORING\<rparr>"

definition demo_claimed_store :: sentinel_store where
  "demo_claimed_store = set_status ''t1'' ''s1'' ST_TERMINATING ''now'' demo_created"

definition demo_contained :: sentinel_world where
  "demo_contained = \<lparr>sw_store = demo_claimed_store, sw_jobs = [Job_Contained (''t1'', ''s1'') demo_claim True demo_stop_decision (sx_violations demo_stop_decision)],
     sw_calls = [((''t1'', ''s1''), Call_Terminate, True)]\<rparr>"

definition demo_resolved :: sentinel_store where
  "demo_resolved = persistDecision ''t1'' ''s1'' (contained_decision demo_claim True demo_stop_decision) (sx_violations demo_stop_decision)
     (set_status ''t1'' ''s1'' ST_TERMINATED ''now'' demo_claimed_store)"

lemma demo_key: "row_key \<lparr>rw_session = new_session (normalized_session demo_session_json) ''s1'' (to_iso 0), rw_state_version = 0\<rparr> = (''t1'', ''s1'')"
  by code_simp

lemma demo_row: "session_row_of ''t1'' ''s1'' demo_created
  = Some \<lparr>rw_session = new_session (normalized_session demo_session_json) ''s1'' (to_iso 0), rw_state_version = 0\<rparr>"
  by (simp add: session_row_of_def demo_created_def demo_key)

lemma demo_status: "status_of (''t1'', ''s1'') demo_created = Some ST_MONITORING"
  by (simp add: status_of_def demo_row row_status_def new_session_def sentinel_session_input.defs sentinel_session.defs)

lemma demo_claim_step: "reconcileAndClaim ''t1'' ''s1'' SD_TERMINATE ''now'' demo_created = Inr (demo_claimed_store, demo_claim)"
proof -
  have "row_status \<lparr>rw_session = new_session (normalized_session demo_session_json) ''s1'' (to_iso 0), rw_state_version = 0\<rparr> = ST_MONITORING"
    using demo_status demo_row by (simp add: status_of_def)
  then show ?thesis
    by (simp add: reconcileAndClaim_def loadRow_def demo_row reconcileDecisionTarget_def isTerminalStatus_def nextStatusForDecision_def
      status_tier_def demo_claim_def demo_claimed_store_def)
qed

lemma demo_claimed_status: "status_of (''t1'', ''s1'') demo_claimed_store = Some ST_TERMINATING"
  by (simp add: demo_claimed_store_def set_status_of demo_status)

lemma demo_resolve: "resolve ''t1'' ''s1'' demo_claim True demo_stop_decision (sx_violations demo_stop_decision) ''now'' demo_claimed_store
  = Inr (demo_resolved, contained_decision demo_claim True demo_stop_decision)"
proof -
  obtain r where r: "session_row_of ''t1'' ''s1'' demo_claimed_store = Some r" "row_status r = ST_TERMINATING"
    using demo_claimed_status by (auto simp: status_of_def)
  have c: "containment_needed demo_claim = Some Call_Terminate" by (simp add: containment_needed_def demo_claim_def)
  have "resolveClaim ''t1'' ''s1'' ST_TERMINATED ''now'' demo_claimed_store
    = Inr (set_status ''t1'' ''s1'' ST_TERMINATED ''now'' demo_claimed_store, ST_TERMINATED)"
    using r by (simp add: resolveClaim_def loadRow_def)
  then show ?thesis by (simp add: resolve_def c demo_resolved_def Let_def)
qed

lemma demo_manual_step:
  "sentinel_step \<lparr>sw_store = demo_created, sw_jobs = [], sw_calls = []\<rparr>
     \<lparr>sw_store = demo_created, sw_jobs = [Job_Decided (''t1'', ''s1'') demo_stop_decision (sx_violations demo_stop_decision)], sw_calls = []\<rparr>"
proof -
  let ?s = "new_session (normalized_session demo_session_json) ''s1'' (to_iso 0)"
  let ?w = "\<lparr>sw_store = demo_created, sw_jobs = [], sw_calls = []\<rparr>"
  have k: "session_key_of ?s = (''t1'', ''s1'')" using demo_key by (simp add: session_key_of_def row_key_def)
  have "assertCanControl demo_controller = Inr ()" by (simp add: assertCanControl_def demo_controller_def del: run_checks_ok)
  moreover have "loadSession (sc_tenantId demo_controller) ''s1'' (sw_store ?w) = Inr ?s"
    by (simp add: loadSession_def loadRow_def demo_controller_def demo_row)
  ultimately have "sentinel_step ?w (?w\<lparr>sw_jobs := sw_jobs ?w @ [Job_Decided (session_key_of ?s) demo_stop_decision (sx_violations demo_stop_decision)]\<rparr>)"
    by (rule step_manual [where v = SD_TERMINATE]) (simp_all add: demo_stop_decision_def)
  then show ?thesis by (simp add: k)
qed

lemma demo_sentinel_run: "sentinel_run world_empty demo_contained"
proof -
  let ?w1 = "\<lparr>sw_store = demo_created, sw_jobs = [], sw_calls = []\<rparr>"
  let ?w2 = "\<lparr>sw_store = demo_created, sw_jobs = [Job_Decided (''t1'', ''s1'') demo_stop_decision (sx_violations demo_stop_decision)], sw_calls = []\<rparr>"
  let ?w3 = "\<lparr>sw_store = demo_claimed_store, sw_jobs = [Job_Claimed (''t1'', ''s1'') demo_claim demo_stop_decision (sx_violations demo_stop_decision)], sw_calls = []\<rparr>"
  have d: "sx_decision demo_stop_decision = SD_TERMINATE" by (simp add: demo_stop_decision_def manualDecision_def Let_def)
  have c: "containment_needed demo_claim = Some Call_Terminate" by (simp add: containment_needed_def demo_claim_def)
  have 1: "sentinel_step world_empty ?w1"
    using step_create [where w = world_empty] demo_create by (fastforce simp: world_empty_def)
  have 3: "sentinel_step ?w2 ?w3"
    using step_claim [where w = ?w2 and i = 0 and now = "''now''"] d demo_claim_step by (fastforce simp: swap_def)
  have 4: "sentinel_step ?w3 demo_contained"
    using step_contain [where w = ?w3 and i = 0 and ok = True] c by (fastforce simp: swap_def demo_contained_def)
  show ?thesis
    using srun_step [OF srun_step [OF srun_step [OF srun_step [OF srun_refl 1] demo_manual_step] 3] 4] .
qed

lemma demo_resolve_step: "sentinel_step demo_contained \<lparr>sw_store = demo_resolved, sw_jobs = [], sw_calls = [((''t1'', ''s1''), Call_Terminate, True)]\<rparr>"
  using step_resolve [where w = demo_contained and i = 0] demo_resolve by (fastforce simp: swap_def demo_contained_def)

lemma demo_resolved_status: "status_of (''t1'', ''s1'') demo_resolved = Some ST_TERMINATED"
  using resolve_facts [OF demo_resolve, of "(''t1'', ''s1'')"] demo_claimed_status
  by (simp add: containment_needed_def demo_claim_def)

section \<open>Sessions\<close>

lemma run_inv: "sentinel_run world_empty w \<Longrightarrow> claim_inv k w"
proof (induction world_empty w rule: sentinel_run.induct)
  case srun_refl
  show ?case
    by (simp add: claim_inv_def Let_def world_empty_def pending_def terminate_calls_def status_of_def session_row_of_def sentinel_empty_def)
next
  case (srun_step w' w'')
  then show ?case using sentinel_step_ok [of k w' w''] by (simp add: step_ok_def)
qed

text \<open>C5. Refinement of the abstract session. However the operations of the runtime interleave, and wherever an operation
  in flight is lost, each step of the store is, for every session, a step of the abstract machine, and the
  whole run is an abstract run from nothing: the status moves only as decided, requested, resolved, resumed
  or completed there.\<close>

theorem sentinel_refines:
  assumes "sentinel_run world_empty w" "sentinel_step w w'"
  shows "session_spec\<^sup>*\<^sup>* None (session_view k w) \<and> session_spec (session_view k w) (session_view k w')"
proof
  have step: "session_spec (session_view k u) (session_view k u')" if "sentinel_run world_empty u" "sentinel_step u u'" for u u'
    using sentinel_step_ok [OF run_inv [OF that(1)] that(2)] by (simp add: step_ok_def)
  show "session_spec (session_view k w) (session_view k w')" by (rule step [OF assms])
  show "session_spec\<^sup>*\<^sup>* None (session_view k w)"
    using assms(1)
  proof (induction world_empty w rule: sentinel_run.induct)
    case srun_refl
    show ?case by (simp add: session_view_def world_empty_def status_of_def session_row_of_def sentinel_empty_def)
  next
    case (srun_step w' w'')
    then show ?case using step [of w' w''] by (meson rtranclp.rtrancl_into_rtrancl)
  qed
qed

lemma sentinel_refines_witness: "session_spec (Some (ST_TERMINATING, [True])) (Some (ST_TERMINATED, [True]))"
  using sentinel_refines [OF demo_sentinel_run demo_resolve_step, of "(''t1'', ''s1'')"] demo_claimed_status demo_resolved_status
  by (simp add: session_view_def terminate_calls_def demo_contained_def)

text \<open>C21. Termination is requested from the controller at most once per session, by whoever won the claim, and never
  before the session is TERMINATING. A session that reads TERMINATED had its one request confirmed, one
  that reads INDETERMINATE had it fail.\<close>

theorem terminated_once:
  assumes "sentinel_run world_empty w"
  shows "length (terminate_calls k w) \<le> 1
    \<and> (terminate_calls k w \<noteq> [] \<longrightarrow> status_of k (sw_store w) \<in> {Some ST_TERMINATING, Some ST_TERMINATED, Some ST_INDETERMINATE})
    \<and> (status_of k (sw_store w) = Some ST_TERMINATED \<longrightarrow> terminate_calls k w = [True])
    \<and> (status_of k (sw_store w) = Some ST_INDETERMINATE \<longrightarrow> terminate_calls k w = [False])"
proof -
  note inv = claim_invD [OF run_inv [OF assms, of k]]
  have "length (terminate_calls k w) \<le> 1" using inv(1) by (auto split: if_splits)
  then show ?thesis using inv(3-5) by (auto simp: terminating_def)
qed

lemma terminated_once_witness: "terminate_calls (''t1'', ''s1'')
    \<lparr>sw_store = demo_resolved, sw_jobs = [], sw_calls = [((''t1'', ''s1''), Call_Terminate, True)]\<rparr> = [True]"
  using terminated_once [OF srun_step [OF demo_sentinel_run demo_resolve_step], of "(''t1'', ''s1'')"] demo_resolved_status by simp


text \<open>The only ways the status of a held session changes.\<close>

lemma held_moves:
  assumes "sentinel_step w w'" "status_of k (sw_store w) = Some ST_HELD"
  obtains "status_of k (sw_store w') \<in> {Some ST_HELD, Some ST_TERMINATING}"
  | p input now s where "status_of k (sw_store w') = Some ST_MONITORING" "sc_role p \<in> {RO_Controller, RO_Admin}" "sc_tenantId p = fst k"
      "sentinel_resume p (snd k) input now (sw_store w) = Inr (sw_store w', s)"
  using assms(1)
proof cases
  case (step_create p raw now sid st s)
  then show ?thesis using that(1) create_status [OF step_create(2), of k] assms(2) by simp
next
  case (step_submit p i raw input received st ob fresh)
  then show ?thesis using that(1) submit_status [OF step_submit(3), of k] assms(2) by simp
next
  case (step_claim i t sid d vs now st c)
  from step_claim(4) show ?thesis
  proof (cases rule: claim_facts)
    case (1 s)
    then show ?thesis using that(1) assms(2) step_claim(1) by simp
  next
    case (2 s s')
    then show ?thesis using that(1) assms(2) step_claim(1) next_status [OF 2(4,3)] by (cases "k = (t, sid)") auto
  qed
next
  case (step_resolve i t sid c ok d vs now st d')
  then show ?thesis using that(1) resolve_facts [OF step_resolve(4), of k] assms(2) by simp
next
  case (step_resume p i input now st s)
  note f = resume_status(1) [OF step_resume(2), of k] resume_status(3) [OF step_resume(2)]
  show ?thesis
  proof (cases "k = (sc_tenantId p, i)")
    case True
    have "sw_store w' = st" "snd k = i" "fst k = sc_tenantId p" using step_resume(1) True by simp_all
    moreover from this have "status_of k (sw_store w') = Some ST_MONITORING" using f(1) True by simp
    ultimately show ?thesis using that(2) [of p input now s] f(2) step_resume(2) by simp
  next
    case False
    then show ?thesis using that(1) f(1) assms(2) step_resume(1) by simp
  qed
next
  case (step_complete p i now st s)
  then show ?thesis using that(1) complete_status(1) [OF step_complete(2), of k] complete_status(2) [OF step_complete(2)] assms(2) by (auto split: if_splits)
next
  case (step_stop p ty v reason now st e)
  then show ?thesis using that(1) admin_status(1) [OF step_stop(2), of k] assms(2) by simp
next
  case (step_release p ty v now st e)
  then show ?thesis using that(1) admin_status(2) [OF step_release(2), of k] assms(2) by simp
next
  case (step_policy sha p raw now' st pol)
  then show ?thesis using that(1) admin_status(3) [OF step_policy(2), of k] assms(2) by simp
qed (use that(1) assms(2) in simp_all)

text \<open>A held session stays held until it is terminated or a controller of its tenant resumes it: no observation,
  evaluation, release of a stop, policy change or late answer of the controller moves it back to MONITORING.\<close>

theorem held_until_resumed:
  assumes "sentinel_step w w'" "status_of k (sw_store w) = Some ST_HELD"
  shows "status_of k (sw_store w') \<in> {Some ST_HELD, Some ST_TERMINATING}
    \<or> (status_of k (sw_store w') = Some ST_MONITORING \<and> (\<exists>p input now s. sc_role p \<in> {RO_Controller, RO_Admin} \<and> sc_tenantId p = fst k
        \<and> sentinel_resume p (snd k) input now (sw_store w) = Inr (sw_store w', s)))"
  using assms by (rule held_moves) auto

definition demo_held :: sentinel_store where
  "demo_held = set_status ''t1'' ''s1'' ST_HELD ''now'' demo_created"

lemma demo_held_status: "status_of (''t1'', ''s1'') demo_held = Some ST_HELD"
  by (simp add: demo_held_def set_status_of demo_status)

lemma held_until_resumed_witness:
  "\<exists>st. sentinel_step \<lparr>sw_store = demo_held, sw_jobs = [], sw_calls = []\<rparr> \<lparr>sw_store = st, sw_jobs = [], sw_calls = []\<rparr>
     \<and> status_of (''t1'', ''s1'') st = Some ST_MONITORING \<and> (\<exists>p input now s. sc_role p \<in> {RO_Controller, RO_Admin} \<and> sc_tenantId p = ''t1''
        \<and> sentinel_resume p ''s1'' input now demo_held = Inr (st, s))"
proof -
  let ?w = "\<lparr>sw_store = demo_held, sw_jobs = [], sw_calls = []\<rparr>"
  let ?input = "\<lparr>ri_rationale = ''checked'', ri_policySnapshotHash = None, ri_authorityExpiry = None\<rparr>"
  obtain r where r: "session_row_of ''t1'' ''s1'' demo_held = Some r" "row_status r = ST_HELD"
    using demo_held_status by (auto simp: status_of_def)
  let ?st = "update_rows ''t1'' ''s1'' (\<lambda>x. x\<lparr>rw_session := rebind_session ?input ''now'' (rw_session x), rw_state_version := rw_state_version x + 1\<rparr>) demo_held"
  have "session_row_of ''t1'' ''s1'' ?st \<noteq> None"
    using r(1) by (subst update_rows_row) (simp_all add: row_key_def rebind_session_def)
  then obtain s where s: "loadSession ''t1'' ''s1'' ?st = Inr s"
    by (auto simp: loadSession_def loadRow_def)
  have "sentinel_resume demo_controller ''s1'' ?input ''now'' demo_held = Inr (?st, s)"
    using r s by (simp add: sentinel_resume_def loadRow_def assertCanControl_def demo_controller_def del: run_checks_ok)
  then have "sentinel_step ?w \<lparr>sw_store = ?st, sw_jobs = [], sw_calls = []\<rparr>" and m: "status_of (''t1'', ''s1'') ?st = Some ST_MONITORING"
    using step_resume [where w = ?w] resume_status(1) [of demo_controller "''s1''" ?input "''now''" demo_held ?st s "(''t1'', ''s1'')"]
    by (fastforce simp: demo_controller_def)+
  then show ?thesis using held_until_resumed [of ?w "\<lparr>sw_store = ?st, sw_jobs = [], sw_calls = []\<rparr>" "(''t1'', ''s1'')"] demo_held_status by fastforce
qed


section \<open>Evaluation\<close>

lemma precedence_le: "decision_precedence d \<le> 3"
  by (cases d) (simp_all add: decision_precedence_def)

lemma precedence_inverse: "n \<le> 3 \<Longrightarrow> decision_precedence (decision_by_precedence n) = n"
  by (auto simp: decision_by_precedence_def decision_precedence_def)

lemma contribution_le: "contribution c r = Some (x, y) \<Longrightarrow> y \<le> 3"
  by (auto simp: contribution_def Let_def precedence_le split: if_splits rule_status.splits)

definition threshold_steps :: "(string \<times> sentinel_verdict) list" where
  "threshold_steps = [(''warn_at'', SD_WARN), (''hold_at'', SD_HOLD), (''terminate_at'', SD_TERMINATE)]"

definition threshold_verdicts :: "nat \<Rightarrow> json option \<Rightarrow> nat set" where
  \<comment> \<open>the precedences the configured thresholds demand at a risk score\<close>
  "threshold_verdicts risk t = set (map (\<lambda>(_, d). decision_precedence d) (filter (\<lambda>(k, _). reaches risk t k) threshold_steps))"

lemma ev_thresholds_best: "ev_best (ev_thresholds t s) = Max (insert (ev_best s) (threshold_verdicts (ev_risk s) t))"
proof -
  have "threshold_verdicts (ev_risk s) t = (if reaches (ev_risk s) t ''warn_at'' then {1} else {}) \<union>
     (if reaches (ev_risk s) t ''hold_at'' then {2} else {}) \<union> (if reaches (ev_risk s) t ''terminate_at'' then {3} else {})"
    by (auto simp: threshold_verdicts_def threshold_steps_def decision_precedence_def)
  then show ?thesis
    by (simp add: ev_thresholds_def decision_precedence_def Let_def max.left_commute max.commute)
qed

lemma ev_thresholds_other [simp]: "ev_risk (ev_thresholds t s) = ev_risk s" "ev_triggered (ev_thresholds t s) = ev_triggered s"
  by (simp_all add: ev_thresholds_def Let_def)

text \<open>The decision of a policy's rules, with no reference to the loop: the maxima of what each rule contributes.\<close>

definition rules_risk :: "evaluation_context \<Rightarrow> sentinel_rule list \<Rightarrow> nat" where
  "rules_risk c rules = Max (insert 0 (fst ` set (contributions c rules)))"

definition rules_verdict :: "evaluation_context \<Rightarrow> sentinel_policy \<Rightarrow> nat" where
  "rules_verdict c p = Max (insert 0 (snd ` set (contributions c (sp_rules p)) \<union> threshold_verdicts (rules_risk c (sp_rules p)) (sp_risk_thresholds p)))"

lemma Max_nested: "finite A \<Longrightarrow> finite B \<Longrightarrow> Max (insert (Max (insert 0 A)) B) = Max (insert (0 :: nat) (A \<union> B))"
  using Max_Un [of "insert 0 A" B] by (cases "B = {}") (simp_all del: Max_insert add: Max_insert [of B])

lemma ev_final_rules:
  "ev_risk (ev_final ids p c False) = rules_risk c (sp_rules p)"
  "ev_best (ev_final ids p c False) = rules_verdict c p"
  "ev_triggered (ev_final ids p c False) = map sr_rule_id (filter (\<lambda>r. contribution c r \<noteq> None) (sp_rules p))"
proof -
  show r: "ev_risk (ev_final ids p c False) = rules_risk c (sp_rules p)"
    by (simp add: ev_final_def fold_rules ev_start_def rules_risk_def del: Max_insert)
  show "ev_triggered (ev_final ids p c False) = map sr_rule_id (filter (\<lambda>r. contribution c r \<noteq> None) (sp_rules p))"
    by (simp add: ev_final_def fold_rules ev_start_def)
  have fin: "finite (threshold_verdicts n t)" for n t
    by (simp add: threshold_verdicts_def)
  let ?t = "threshold_verdicts (rules_risk c (sp_rules p)) (sp_risk_thresholds p)"
  let ?s = "snd ` set (contributions c (sp_rules p))"
  have "ev_best (ev_final ids p c False) = Max (insert (Max (insert 0 ?s)) ?t)"
    using r by (simp add: ev_final_def ev_thresholds_best fold_rules(2) ev_start_def decision_precedence_def del: Max_insert)
  also have "\<dots> = Max (insert 0 (?s \<union> ?t))"
    by (rule Max_nested) (simp_all add: fin)
  finally show "ev_best (ev_final ids p c False) = rules_verdict c p"
    by (simp only: rules_verdict_def)
qed


lemma verdict_le: "rules_verdict c p \<le> 3"
proof -
  have "n \<le> 3" if "n \<in> insert 0 (snd ` set (contributions c (sp_rules p)) \<union> threshold_verdicts r t)" for n r t
    using that by (auto simp: threshold_verdicts_def precedence_le map_filter_def contribution_le)
  then show ?thesis
    unfolding rules_verdict_def by (intro Max.boundedI) (simp_all add: threshold_verdicts_def)
qed

lemma evaluateSession_Inr:
  assumes "evaluateSession ids p c stop = Inr out"
  shows "sx_decision (eo_decision out) = decision_by_precedence (ev_best (ev_final ids p c stop))"
    "sx_risk_score (eo_decision out) = ev_risk (ev_final ids p c stop)"
    "sx_triggered_rules (eo_decision out) = ev_triggered (ev_final ids p c stop)"
    "nextStatusForDecision (sn_status (ec_session c)) (sx_decision (eo_decision out)) = Inr (eo_nextStatus out)"
  using assms by (auto simp: evaluateSession_def Let_def rbind_eq_Inr split: if_splits)

lemma contribution_member:
  assumes "contribution c r = Some (x, y)" "r \<in> set (sp_rules p)"
  shows "y \<le> rules_verdict c p"
proof -
  have "y \<in> snd ` set (contributions c (sp_rules p))"
    using assms by (force simp: map_filter_def image_iff)
  then show ?thesis
    unfolding rules_verdict_def by (intro Max_ge) (auto simp: threshold_verdicts_def)
qed

text \<open>C31. Without an emergency stop an evaluation is the maximum of what its rules contribute: the risk score is the
  highest severity among the rules that matched or failed, the verdict the strongest of their actions and
  of those the thresholds reached by that score demand, and the triggered rules are exactly these, in order.\<close>

theorem evaluation_is_strongest:
  assumes "evaluateSession ids p c False = Inr out"
  shows "sx_risk_score (eo_decision out) = rules_risk c (sp_rules p)
    \<and> decision_precedence (sx_decision (eo_decision out)) = rules_verdict c p
    \<and> sx_triggered_rules (eo_decision out) = map sr_rule_id (filter (\<lambda>r. contribution c r \<noteq> None) (sp_rules p))"
  using evaluateSession_Inr [OF assms] precedence_inverse [OF verdict_le] by (simp add: ev_final_rules)

text \<open>A revalidator that cannot establish the authority is not taken for a valid one: with an enabled revocation or
  policy-change rule the evaluation holds the session at least, whatever action the rule configures and
  whatever the other rules say.\<close>

theorem unknown_authority_holds:
  assumes "evaluateSession ids p c False = Inr out" "r \<in> set (sp_rules p)" "sr_enabled r"
    "sr_rule_type r \<in> {APPROVAL_REVOKED, AGENT_REVOKED, POLICY_CHANGED}"
    "ec_authorityStatus c = Some a" "au_status a = AS_UNKNOWN"
  shows "sx_decision (eo_decision out) \<in> {SD_HOLD, SD_TERMINATE} \<and> eo_nextStatus out \<in> {ST_HELD, ST_TERMINATING}
    \<and> sr_rule_id r \<in> set (sx_triggered_rules (eo_decision out))"
proof -
  have "rr_status (evaluateRule r c) = RR_ERROR"
    using assms(4-6) by (auto simp: evaluateRule_def revoked_rule_def policy_changed_rule_def authority_unknown_def rule_outcome_def)
  then have con: "contribution c r = Some (severity_score SV_HIGH, 2)"
    using assms(3) by (simp add: contribution_def decision_precedence_def Let_def)
  note out = evaluateSession_Inr [OF assms(1), unfolded ev_final_rules]
  have "rules_verdict c p \<in> {2, 3}"
    using contribution_member [OF con assms(2)] verdict_le [of c p] by auto
  then have d: "sx_decision (eo_decision out) \<in> {SD_HOLD, SD_TERMINATE}"
    unfolding out(1) by (auto simp: decision_by_precedence_def)
  moreover have "eo_nextStatus out \<in> {ST_HELD, ST_TERMINATING}"
    using out(4) d by (auto simp: nextStatusForDecision_def split: if_splits)
  moreover have "sr_rule_id r \<in> set (sx_triggered_rules (eo_decision out))"
    unfolding out(3) using con assms(2) by (auto intro!: imageI)
  ultimately show ?thesis by blast
qed



section \<open>Witnesses\<close>

definition demo_rule :: sentinel_rule where
  "demo_rule = \<lparr>sr_rule_id = ''r1'', sr_rule_type = AGENT_REVOKED, sr_severity = SV_LOW, sr_enabled = True, sr_action = RA_OBSERVE, sr_params = None\<rparr>"

definition demo_policy :: sentinel_policy where
  "demo_policy = \<lparr>sp_policy_id = ''p1'', sp_tenant_id = ''t1'', sp_name = ''n'', sp_enabled = True, sp_rules = [demo_rule],
     sp_default_behavior = RA_OBSERVE, sp_risk_thresholds = Some (JObj [(''terminate_at'', jint 60)]), sp_effective_at = None, sp_expires_at = None,
     sp_created_at = ''now'', sp_policy_hash = ''h''\<rparr>"

definition demo_session :: sentinel_session where
  "demo_session = new_session (normalized_session demo_session_json) ''s1'' (to_iso 0)"

definition demo_unknown :: evaluation_context where
  "demo_unknown = \<lparr>ec_session = demo_session, ec_now = 0, ec_observation = None,
     ec_authorityStatus = Some \<lparr>au_status = AS_UNKNOWN, au_revokedScope = None, au_currentPolicyHash = None\<rparr>\<rparr>"

lemma demo_evaluates: obtains out where "evaluateSession (\<lambda>_. ''v'') demo_policy demo_unknown False = Inr out"
proof -
  have "sn_status (ec_session demo_unknown) = ST_MONITORING"
    by (simp add: demo_unknown_def demo_session_def new_session_def sentinel_session_input.defs sentinel_session.defs)
  then have "evaluateSession (\<lambda>_. ''v'') demo_policy demo_unknown False \<noteq> Inl e" for e
    by (auto simp: evaluateSession_def Let_def rbind_eq_Inl isTerminalStatus_def nextStatusForDecision_def split: if_splits)
  then show thesis
    using that by (cases "evaluateSession (\<lambda>_. ''v'') demo_policy demo_unknown False") auto
qed

lemma evaluation_is_strongest_witness:
  "\<exists>out. evaluateSession (\<lambda>_. ''v'') demo_policy demo_unknown False = Inr out \<and> sx_risk_score (eo_decision out) = 60
     \<and> decision_precedence (sx_decision (eo_decision out)) = 3"
proof -
  obtain out where out: "evaluateSession (\<lambda>_. ''v'') demo_policy demo_unknown False = Inr out" by (rule demo_evaluates)
  have c: "contribution demo_unknown demo_rule = Some (60, 2)" by code_simp
  have "rules_risk demo_unknown (sp_rules demo_policy) = 60"
    by (simp add: rules_risk_def demo_policy_def c map_filter_simps)
  moreover have "rules_verdict demo_unknown demo_policy = 3"
  proof -
    have "threshold_verdicts 60 (sp_risk_thresholds demo_policy) = {3}" by code_simp
    then show ?thesis
      using \<open>rules_risk demo_unknown (sp_rules demo_policy) = 60\<close> by (simp add: rules_verdict_def) (simp add: demo_policy_def c map_filter_simps)
  qed
  ultimately show ?thesis using out evaluation_is_strongest [OF out] by auto
qed

lemma unknown_authority_holds_witness:
  "\<exists>out. evaluateSession (\<lambda>_. ''v'') demo_policy demo_unknown False = Inr out \<and> ''r1'' \<in> set (sx_triggered_rules (eo_decision out))"
proof -
  obtain out where out: "evaluateSession (\<lambda>_. ''v'') demo_policy demo_unknown False = Inr out" by (rule demo_evaluates)
  then show ?thesis
    using unknown_authority_holds [OF out, of demo_rule] by (auto simp: demo_policy_def demo_rule_def demo_unknown_def)
qed

definition demo_stopped :: sentinel_store where
  "demo_stopped = demo_created\<lparr>ss_policies := [(''t1'', demo_policy, True)],
     ss_stops := [\<lparr>es_tenant_id = ''t1'', es_scope_type = SS_Tenant, es_scope_value = ''*'', es_active = True, es_reason = ''drill'',
       es_activated_by = ''ana'', es_activated_at = ''now'', es_released_by = None, es_released_at = None\<rparr>]\<rparr>"


end
