(* ===== verification/Platform_Schema.thy ===== *)
theory Platform_Schema
  imports Sentinel_Runtime Transition_Table
begin

text \<open>
  \<open>packages/platform-schema\<close> and \<open>packages/platform-outbox\<close>: roles, the lifecycle table of a platform
  action, the validation of requests, the outbox record with its backoff policy. Random identifiers and
  the clock are arguments of the operations that use them.
\<close>

section \<open>Errors, principals\<close>

datatype platform_code = P_INVALID_INPUT | P_UNSUPPORTED_VERSION | P_NOT_FOUND | P_FORBIDDEN | P_INVALID_TRANSITION
  | P_CONFLICT | P_PAYLOAD_TOO_LARGE | P_AUTHORIZATION_BLOCKED | P_APPROVAL_REQUIRED | P_CAPABILITY_FAILURE
  | P_SENTINEL_UNAVAILABLE | P_SENTINEL_HOLD | P_SENTINEL_TERMINATED | P_EXECUTION_FAILED | P_VERIFICATION_REJECTED
  | P_VERIFICATION_ESCALATED | P_EVIDENCE_DEGRADED | P_AUDIT_UNAVAILABLE | P_PLATFORM_INDETERMINATE | P_CONNECTOR_UNKNOWN
  | P_COMPONENT_UNAVAILABLE

text \<open>\<open>Other_Error\<close> is what a component behind a port threw; \<open>Fault\<close> a plain \<open>Error\<close>.\<close>

datatype platform_error = Platform_Error platform_code string | Other_Error string

datatype platform_role = PR_Agent | PR_User | PR_Operator | PR_Admin | PR_Service

record platform_principal =
  pp_id :: string
  pp_role :: platform_role
  pp_tenantId :: string
  pp_agentId :: "string option"

definition role_name :: "platform_role \<Rightarrow> string" where
  "role_name r = (case r of PR_Agent \<Rightarrow> ''platform-agent'' | PR_User \<Rightarrow> ''platform-user'' | PR_Operator \<Rightarrow> ''platform-operator''
     | PR_Admin \<Rightarrow> ''platform-admin'' | PR_Service \<Rightarrow> ''platform-service'')"

definition role_check :: "platform_role list \<Rightarrow> string \<Rightarrow> platform_principal \<Rightarrow> (platform_error, unit) res" where
  "role_check roles why p = run_checks [(pp_role p \<in> set roles, Platform_Error P_FORBIDDEN (''Role '' @ role_name (pp_role p) @ why))]"

definition assertCanSubmit :: "platform_principal \<Rightarrow> (platform_error, unit) res" where
  "assertCanSubmit = role_check [PR_Agent, PR_Service, PR_User] '' may not submit a platform action''"

definition assertCanApprove :: "platform_principal \<Rightarrow> (platform_error, unit) res" where
  "assertCanApprove = role_check [PR_Operator, PR_Admin] '' may not approve/resume a held action''"

definition assertCanTerminate :: "platform_principal \<Rightarrow> (platform_error, unit) res" where
  "assertCanTerminate = role_check [PR_Operator, PR_Admin] '' may not terminate a platform action''"

definition platform_assertIsAdmin :: "platform_principal \<Rightarrow> (platform_error, unit) res" where
  "platform_assertIsAdmin = role_check [PR_Admin] '' requires platform-admin''"

section \<open>The lifecycle of an action\<close>

datatype action_state = RECEIVED | AUTHORIZING | BLOCKED_ACTION | HELD_ACTION | AUTHORIZED_ACTION | CAPABILITY_READY
  | MONITORING | EXECUTING | VERIFYING | COMPLETED | FAILED_ACTION | TERMINATED_ACTION | INDETERMINATE_ACTION

definition action_state_name :: "action_state \<Rightarrow> string" where
  "action_state_name s = (case s of RECEIVED \<Rightarrow> ''RECEIVED'' | AUTHORIZING \<Rightarrow> ''AUTHORIZING'' | BLOCKED_ACTION \<Rightarrow> ''BLOCKED''
     | HELD_ACTION \<Rightarrow> ''HELD'' | AUTHORIZED_ACTION \<Rightarrow> ''AUTHORIZED'' | CAPABILITY_READY \<Rightarrow> ''CAPABILITY_ISSUED''
     | MONITORING \<Rightarrow> ''MONITORING'' | EXECUTING \<Rightarrow> ''EXECUTING'' | VERIFYING \<Rightarrow> ''VERIFYING'' | COMPLETED \<Rightarrow> ''COMPLETED''
     | FAILED_ACTION \<Rightarrow> ''FAILED'' | TERMINATED_ACTION \<Rightarrow> ''TERMINATED'' | INDETERMINATE_ACTION \<Rightarrow> ''INDETERMINATE'')"

definition isTerminalState :: "action_state \<Rightarrow> bool" where
  "isTerminalState s = (s \<in> {BLOCKED_ACTION, COMPLETED, FAILED_ACTION, TERMINATED_ACTION, INDETERMINATE_ACTION})"

fun platform_transitions :: "action_state \<Rightarrow> action_state list" where
  "platform_transitions RECEIVED = [AUTHORIZING]"
| "platform_transitions AUTHORIZING = [BLOCKED_ACTION, HELD_ACTION, AUTHORIZED_ACTION, INDETERMINATE_ACTION]"
| "platform_transitions BLOCKED_ACTION = []"
| "platform_transitions HELD_ACTION = [AUTHORIZING, TERMINATED_ACTION]"
| "platform_transitions AUTHORIZED_ACTION = [CAPABILITY_READY, INDETERMINATE_ACTION, FAILED_ACTION]"
| "platform_transitions CAPABILITY_READY = [MONITORING, INDETERMINATE_ACTION, FAILED_ACTION]"
| "platform_transitions MONITORING = [EXECUTING, TERMINATED_ACTION, INDETERMINATE_ACTION, FAILED_ACTION]"
| "platform_transitions EXECUTING = [VERIFYING, COMPLETED, FAILED_ACTION, TERMINATED_ACTION, INDETERMINATE_ACTION]"
| "platform_transitions VERIFYING = [COMPLETED, FAILED_ACTION, INDETERMINATE_ACTION]"
| "platform_transitions COMPLETED = []"
| "platform_transitions FAILED_ACTION = []"
| "platform_transitions TERMINATED_ACTION = []"
| "platform_transitions INDETERMINATE_ACTION = []"

definition isAllowedTransition :: "action_state \<Rightarrow> action_state \<Rightarrow> bool" where
  "isAllowedTransition a b = (b \<in> set (platform_transitions a))"

interpretation act: transition_table platform_transitions isTerminalState
  by unfold_locales (auto simp: isTerminalState_def)

section \<open>Requests\<close>

text \<open>The length of a text in UTF-16 code units; texts are bytes in UTF-8.\<close>

definition js_length :: "string \<Rightarrow> nat" where
  "js_length s = length (filter (\<lambda>c. code_of c < 128 \<or> code_of c \<ge> 192) s) + length (filter (\<lambda>c. code_of c \<ge> 240) s)"

record platform_request =
  pq_request_id :: string
  pq_tenant_id :: string
  pq_agent_id :: string
  pq_action :: string
  pq_tool :: string
  pq_operation :: string
  pq_resource :: string
  pq_input :: json
  pq_max_runtime :: "jnum option"
  pq_max_cost :: "jnum option"
  pq_requires_verification :: bool
  pq_verification_spec_id :: "string option"
  pq_metadata :: "json option"

definition platform_request_version :: string where "platform_request_version = ''1.0''"
definition max_metadata_bytes :: nat where "max_metadata_bytes = 4096"
definition platform_max_input_bytes :: nat where "platform_max_input_bytes = 65536"

definition platform_byteLength :: "json \<Rightarrow> nat" where
  "platform_byteLength j = length (stringify j)"

definition forbidden_caller_fields :: "string list" where
  "forbidden_caller_fields = [''platform_action_id'', ''correlation_id'', ''decision_id'', ''capability_id'', ''sentinel_session_id'',
     ''execution_id'', ''status'', ''state_version'', ''result'', ''result_hash'', ''sentinel_decision'', ''vad_result'', ''vad_final_state'',
     ''ledger_hash'', ''ledger_event_id'', ''audit_result'', ''evidence_status'', ''input_hash'', ''created_at'', ''created_by'']"

definition request_top_level_fields :: "string list" where
  "request_top_level_fields = [''version'', ''request_id'', ''tenant_id'', ''agent_id'', ''action'', ''tool'', ''operation'', ''resource'',
     ''input'', ''requested_runtime_limits'', ''requested_cost_limits'', ''requires_verification'', ''verification_spec_id'', ''metadata'']"

definition pf_invalid :: "string \<Rightarrow> platform_error" where
  "pf_invalid m = Platform_Error P_INVALID_INPUT m"

definition key_checks :: "json \<Rightarrow> (bool \<times> platform_error) list" where
  "key_checks input =
     (is_plain_object (Some input), pf_invalid ''Platform action request must be an object'')
     # map (\<lambda>k. (k \<in> set request_top_level_fields, pf_invalid (''Unknown platform action request field '' @ quoted k))) (obj_keys input)
     @ [(jfield ''version'' input = Some (JStr platform_request_version),
         Platform_Error P_UNSUPPORTED_VERSION (''Unsupported request version: '' @ show_value (jfield ''version'' input)))]
     @ map (\<lambda>k. (k \<notin> set (obj_keys input), pf_invalid (''Field '' @ quoted k @ '' is runtime-owned and may not be supplied by the caller'')))
         forbidden_caller_fields"

definition limit_ok :: "string \<Rightarrow> (rat \<Rightarrow> bool) \<Rightarrow> json option \<Rightarrow> bool" where
  \<comment> \<open>an object with a finite number in its range\<close>
  "limit_ok k p v = (is_plain_object v \<and> num_where (\<lambda>n. p (num_val n)) (ctx_field v k))"

definition field_checks :: "json \<Rightarrow> (bool \<times> platform_error) list" where
  "field_checks input = (let f = (\<lambda>k. jfield k input) in
     [(str_where (safeId 200) (f ''request_id''), pf_invalid ''request_id is required and must be a safe identifier''),
      (str_where (safeId 100) (f ''tenant_id''), pf_invalid ''tenant_id is required''),
      (str_where (safeId 200) (f ''agent_id''), pf_invalid ''agent_id is required''),
      (str_where (safeId 200) (f ''action''), pf_invalid ''action is required''),
      (str_where (safeId 200) (f ''tool''), pf_invalid ''tool is required''),
      (str_where (safeId 100) (f ''operation''), pf_invalid ''operation is required''),
      (str_where (\<lambda>s. s \<noteq> [] \<and> js_length s \<le> 512) (f ''resource''), pf_invalid ''resource is required''),
      (is_plain_object (f ''input''), pf_invalid ''input must be an object''),
      (platform_byteLength (the (f ''input'')) \<le> platform_max_input_bytes, Platform_Error P_PAYLOAD_TOO_LARGE ''input exceeds 65536 bytes''),
      (jbool (f ''requires_verification'') \<noteq> None, pf_invalid ''requires_verification is required and must be a boolean''),
      (jbool (f ''requires_verification'') = Some True \<longrightarrow> absent_or (str_where (safeId 200)) (f ''verification_spec_id''),
       pf_invalid ''verification_spec_id must be a safe identifier''),
      (absent_or (limit_ok ''max_runtime_seconds'' (\<lambda>x. 0 < x \<and> x \<le> 3600)) (f ''requested_runtime_limits''),
       pf_invalid ''requested_runtime_limits.max_runtime_seconds must be a positive number <= 3600''),
      (absent_or (limit_ok ''max_cost_usd'' (\<lambda>x. 0 \<le> x \<and> x \<le> 1000000)) (f ''requested_cost_limits''),
       pf_invalid ''requested_cost_limits.max_cost_usd must be a non-negative number''),
      (absent_or is_plain_object (f ''metadata''), pf_invalid ''metadata must be an object''),
      (absent_or (\<lambda>v. platform_byteLength (the v) \<le> max_metadata_bytes) (f ''metadata''), Platform_Error P_PAYLOAD_TOO_LARGE ''metadata exceeds 4096 bytes'')])"

definition request_secret :: "json \<Rightarrow> string option" where
  "request_secret input = (case find_secret_opt (jfield ''input'' input) of Some r \<Rightarrow> Some r | None \<Rightarrow> find_secret_opt (jfield ''metadata'' input))"

definition secret_check :: "json \<Rightarrow> (bool \<times> platform_error) list" where
  "secret_check input = [(request_secret input = None, pf_invalid (''Rejected: '' @ (case request_secret input of Some r \<Rightarrow> r | None \<Rightarrow> [])))]"

definition normalized_request :: "json \<Rightarrow> platform_request" where
  "normalized_request input = (let f = (\<lambda>k. jfield k input); needed = (jbool (f ''requires_verification'') = Some True) in
     \<lparr>pq_request_id = the_str (f ''request_id''), pq_tenant_id = the_str (f ''tenant_id''), pq_agent_id = the_str (f ''agent_id''),
      pq_action = the_str (f ''action''), pq_tool = the_str (f ''tool''), pq_operation = the_str (f ''operation''),
      pq_resource = the_str (f ''resource''), pq_input = the (f ''input''),
      pq_max_runtime = jnumber (ctx_field (f ''requested_runtime_limits'') ''max_runtime_seconds''),
      pq_max_cost = jnumber (ctx_field (f ''requested_cost_limits'') ''max_cost_usd''),
      pq_requires_verification = needed, pq_verification_spec_id = (if needed then jstr (f ''verification_spec_id'') else None),
      pq_metadata = f ''metadata''\<rparr>)"

definition validatePlatformActionRequestInput :: "json \<Rightarrow> (platform_error, platform_request) res" where
  "validatePlatformActionRequestInput input =
     rbind (run_checks (key_checks input)) (\<lambda>_. rbind (run_checks (field_checks input)) (\<lambda>_. rbind (run_checks (secret_check input)) (\<lambda>_.
     Inr (normalized_request input))))"

definition platform_request_json :: "platform_request \<Rightarrow> json" where
  \<comment> \<open>the normalized request as the object the code builds\<close>
  "platform_request_json r = JObj ([(''version'', JStr platform_request_version), (''request_id'', JStr (pq_request_id r)),
     (''tenant_id'', JStr (pq_tenant_id r)), (''agent_id'', JStr (pq_agent_id r)), (''action'', JStr (pq_action r)), (''tool'', JStr (pq_tool r)),
     (''operation'', JStr (pq_operation r)), (''resource'', JStr (pq_resource r)), (''input'', pq_input r),
     (''requires_verification'', JBool (pq_requires_verification r))]
     @ opt_field ''requested_runtime_limits'' (map_option (\<lambda>n. JObj [(''max_runtime_seconds'', JNum n)]) (pq_max_runtime r))
     @ opt_field ''requested_cost_limits'' (map_option (\<lambda>n. JObj [(''max_cost_usd'', JNum n)]) (pq_max_cost r))
     @ opt_field ''verification_spec_id'' (map_option JStr (pq_verification_spec_id r)) @ opt_field ''metadata'' (pq_metadata r))"

definition computeInputHash :: "(string \<Rightarrow> string) \<Rightarrow> platform_request \<Rightarrow> string" where
  "computeInputHash sha r = hash_json sha (JObj [(''tool'', JStr (pq_tool r)), (''operation'', JStr (pq_operation r)),
     (''resource'', JStr (pq_resource r)), (''input'', pq_input r)])"

section \<open>The outbox record\<close>

datatype outbox_status = OB_PENDING | OB_DELIVERING | OB_DELIVERED | OB_FAILED | OB_DEAD_LETTER

record outbox_record =
  ox_outbox_id :: string
  ox_tenant_id :: string
  ox_platform_action_id :: string
  ox_event_type :: string
  ox_payload :: json
  ox_created_at :: string
  ox_attempt_count :: int
  ox_next_attempt_at :: string
  ox_status :: outbox_status
  ox_ledger_event_id :: string
  ox_last_error :: "string option"
  ox_claim_owner :: "string option"
  ox_claim_token :: "string option"
  ox_claim_expires_at :: "string option"

definition outboxLedgerEventId :: "string \<Rightarrow> string" where
  "outboxLedgerEventId i = ''evt_outbox_'' @ i"

definition newOutboxRecord :: "string \<Rightarrow> string \<Rightarrow> string \<Rightarrow> string \<Rightarrow> json \<Rightarrow> string \<Rightarrow> outbox_record" where
  "newOutboxRecord i t action ty payload now = \<lparr>ox_outbox_id = i, ox_tenant_id = t, ox_platform_action_id = action, ox_event_type = ty,
     ox_payload = payload, ox_created_at = now, ox_attempt_count = 0, ox_next_attempt_at = now, ox_status = OB_PENDING,
     ox_ledger_event_id = outboxLedgerEventId i, ox_last_error = None, ox_claim_owner = None, ox_claim_token = None, ox_claim_expires_at = None\<rparr>"

definition computeBackoffMs :: "int \<Rightarrow> int" where
  "computeBackoffMs n = min (1000 * 2 ^ nat (min (max 0 (n - 1)) 6)) 60000"

definition isDeadLetter :: "int \<Rightarrow> int \<Rightarrow> bool" where
  "isDeadLetter n maxAttempts = (n \<ge> maxAttempts)"

end
