(* ===== verification/Platform_Store.thy ===== *)
theory Platform_Store
  imports Platform_Schema Gate
begin

text \<open>
  \<open>PlatformStore\<close> of \<open>packages/platform-core\<close>: actions, execution claims and the outbox. An operation is
  one exclusive transaction: an error leaves the store as it was. An update is guarded by the state and the
  version read in the same transaction, so it changes exactly the row that was read. The clock reading and
  the generated identifiers are arguments; rows stand in the order of their insertion.
\<close>

section \<open>State\<close>

record gate_decision_evidence =
  ge_decision_id :: string
  ge_decision :: gate_decision
  ge_reason :: string
  ge_policy_hash :: "string option"
  ge_policy_version :: "string option"
  ge_approval_reference :: "string option"
  ge_decided_at :: string

record platform_action =
  pa_tenant_id :: string
  pa_id :: string
  pa_request :: platform_request
  pa_canonical_request :: string
  pa_correlation_id :: string
  pa_created_at :: string
  pa_created_by :: string
  pa_input_hash :: string
  pa_state :: action_state
  pa_state_version :: int
  pa_updated_at :: string
  pa_gate_decision :: "gate_decision_evidence option"
  pa_capability_id :: "string option"
  pa_sentinel_session_id :: "string option"
  pa_execution_id :: "string option"
  pa_result_hash :: "string option"
  pa_vad_atom_id :: "string option"
  pa_vad_final_state :: "string option"
  pa_error_code :: "string option"
  pa_error_message :: "string option"
  pa_last_outbox_id :: "string option"

datatype run_status = RUN_CLAIMED | RUN_FINISHED | RUN_INDETERMINATE

record platform_run =
  pn_execution_id :: string
  pn_tenant_id :: string
  pn_action_id :: string
  pn_status :: run_status
  pn_claimed_at :: string
  pn_finished_at :: "string option"

record platform_store =
  ps_actions :: "platform_action list"
  ps_runs :: "platform_run list"
  ps_outbox :: "outbox_record list"

definition platform_empty :: platform_store where
  "platform_empty = \<lparr>ps_actions = [], ps_runs = [], ps_outbox = []\<rparr>"

type_synonym action_key = "string \<times> string"

definition key_of :: "platform_action \<Rightarrow> action_key" where
  "key_of a = (pa_tenant_id a, pa_id a)"

definition record_key :: "outbox_record \<Rightarrow> string \<times> string" where
  "record_key r = (ox_tenant_id r, ox_outbox_id r)"

definition action_row :: "action_key \<Rightarrow> platform_store \<Rightarrow> platform_action option" where
  "action_row k st = find (\<lambda>a. key_of a = k) (ps_actions st)"

definition unique_failed :: platform_error where
  "unique_failed = Other_Error ''UNIQUE constraint failed''"

definition p_conflict :: "string \<Rightarrow> platform_error" where
  "p_conflict m = Platform_Error P_CONFLICT m"

definition version_changed :: platform_error where
  "version_changed = p_conflict ''Platform action state version changed''"

definition platform_get :: "string \<Rightarrow> string \<Rightarrow> platform_store \<Rightarrow> (platform_error, platform_action) res" where
  "platform_get t i st = (case action_row (t, i) st of None \<Rightarrow> Inl (Platform_Error P_NOT_FOUND (''No platform action '' @ i)) | Some a \<Rightarrow> Inr a)"

definition put_action :: "action_key \<Rightarrow> (platform_action \<Rightarrow> platform_action) \<Rightarrow> platform_store \<Rightarrow> platform_store" where
  "put_action k f st = st\<lparr>ps_actions := map (\<lambda>a. if key_of a = k then f a else a) (ps_actions st)\<rparr>"

section \<open>The evidence obligation\<close>

type_synonym event = "string \<times> (string \<times> json) list"

definition with_causation :: "string option \<Rightarrow> (string \<times> json) list \<Rightarrow> json" where
  \<comment> \<open>\<open>prior\<close>: the record the action enqueued last\<close>
  "with_causation prior payload = JObj (payload @ (case prior of None \<Rightarrow> []
     | Some p \<Rightarrow> if p = [] then [] else [(''causation_event_id'', JStr (outboxLedgerEventId p))]))"

text \<open>\<open>uuid\<close>, here and below: the random part of the identifier of the record.\<close>

definition enqueue :: "action_key \<Rightarrow> event \<Rightarrow> string \<Rightarrow> string \<Rightarrow> platform_store \<Rightarrow> (platform_error, platform_store) res" where
  "enqueue k ev now uuid st =
     (let ob = ''ob_'' @ uuid; prior = Option.bind (action_row k st) pa_last_outbox_id;
          r = newOutboxRecord ob (fst k) (snd k) (fst ev) (with_causation prior (snd ev)) now in
      if record_key r \<in> record_key ` set (ps_outbox st) then Inl unique_failed
      else Inr (put_action k (\<lambda>a. a\<lparr>pa_last_outbox_id := Some ob\<rparr>) (st\<lparr>ps_outbox := ps_outbox st @ [r]\<rparr>)))"

definition set_state :: "action_state \<Rightarrow> string \<Rightarrow> platform_action \<Rightarrow> platform_action" where
  "set_state target now a = a\<lparr>pa_state := target, pa_state_version := pa_state_version a + 1, pa_updated_at := now\<rparr>"

definition advance :: "action_key \<Rightarrow> action_state \<Rightarrow> (platform_action \<Rightarrow> platform_action) \<Rightarrow> event option \<Rightarrow> string \<Rightarrow> string \<Rightarrow> platform_store
    \<Rightarrow> (platform_error, platform_store \<times> platform_action) res" where
  \<comment> \<open>the guarded update, the record of the change if it is to have one, and the row read back\<close>
  "advance k target f ev now ob st =
     (let st1 = put_action k (\<lambda>a. f (set_state target now a)) st in
      rbind (case ev of None \<Rightarrow> Inr st1 | Some e \<Rightarrow> enqueue k e now ob st1) (\<lambda>st2.
      rbind (platform_get (fst k) (snd k) st2) (\<lambda>a. Inr (st2, a))))"

definition move_fields :: "platform_action \<Rightarrow> action_state \<Rightarrow> (string \<times> json) list" where
  "move_fields a target = [(''platform_action_id'', JStr (pa_id a)), (''correlation_id'', JStr (pa_correlation_id a)),
     (''from_state'', JStr (action_state_name (pa_state a))), (''to_state'', JStr (action_state_name target)),
     (''state_version'', jint (pa_state_version a + 1))]"

section \<open>Creating and moving an action\<close>

definition new_action :: "(string \<Rightarrow> string) \<Rightarrow> platform_request \<Rightarrow> string \<Rightarrow> string \<Rightarrow> string \<Rightarrow> string \<Rightarrow> platform_action" where
  "new_action sha r aid corr by now = \<lparr>pa_tenant_id = pq_tenant_id r, pa_id = aid, pa_request = r,
     pa_canonical_request = canonical (platform_request_json r), pa_correlation_id = corr, pa_created_at = now, pa_created_by = by,
     pa_input_hash = computeInputHash sha r, pa_state = RECEIVED, pa_state_version = 0, pa_updated_at = now, pa_gate_decision = None,
     pa_capability_id = None, pa_sentinel_session_id = None, pa_execution_id = None, pa_result_hash = None, pa_vad_atom_id = None,
     pa_vad_final_state = None, pa_error_code = None, pa_error_message = None, pa_last_outbox_id = None\<rparr>"

definition newPlatformActionId :: "string \<Rightarrow> string" where
  "newPlatformActionId uuid = ''pa_'' @ uuid"

definition newCorrelationId :: "string \<Rightarrow> string" where
  "newCorrelationId uuid = ''corr_'' @ uuid"

definition request_row :: "string \<Rightarrow> string \<Rightarrow> platform_store \<Rightarrow> platform_action option" where
  "request_row t r st = find (\<lambda>a. pa_tenant_id a = t \<and> pq_request_id (pa_request a) = r) (ps_actions st)"

definition createOrReturn :: "(string \<Rightarrow> string) \<Rightarrow> json \<Rightarrow> string \<Rightarrow> string \<Rightarrow> string \<Rightarrow> string \<Rightarrow> string \<Rightarrow> platform_store
    \<Rightarrow> (platform_error, platform_store \<times> platform_action) res" where
  \<comment> \<open>\<open>u1\<close>, \<open>u2\<close>: the random parts of the two identifiers\<close>
  "createOrReturn sha raw by u1 u2 ob now st =
     rbind (validatePlatformActionRequestInput raw) (\<lambda>r.
     case request_row (pq_tenant_id r) (pq_request_id r) st of
       Some a \<Rightarrow>
         if pa_canonical_request a \<noteq> canonical (platform_request_json r)
         then Inl (p_conflict (''request_id '' @ pq_request_id r @ '' already exists with different canonical request''))
         else Inr (st, a)
     | None \<Rightarrow>
         let aid = newPlatformActionId u1; corr = newCorrelationId u2; a = new_action sha r aid corr by now; k = key_of a in
         if action_row k st \<noteq> None then Inl unique_failed
         else rbind (enqueue k (''PLATFORM_ACTION_RECEIVED'', [(''platform_action_id'', JStr aid), (''correlation_id'', JStr corr),
                (''request_id'', JStr (pq_request_id r)), (''state'', JStr ''RECEIVED'')]) now ob (st\<lparr>ps_actions := ps_actions st @ [a]\<rparr>)) (\<lambda>st'.
              Inr (st', a)))"

definition transition :: "string \<Rightarrow> string \<Rightarrow> int \<Rightarrow> action_state \<Rightarrow> string \<Rightarrow> bool \<Rightarrow> string \<Rightarrow> string \<Rightarrow> platform_store
    \<Rightarrow> (platform_error, platform_store \<times> platform_action) res" where
  "transition t i expected target ty emits now ob st = rbind (platform_get t i st) (\<lambda>a.
     if pa_state_version a \<noteq> expected then Inl version_changed
     else if \<not> isAllowedTransition (pa_state a) target
     then Inl (Platform_Error P_INVALID_TRANSITION (action_state_name (pa_state a) @ '' -> '' @ action_state_name target @ '' is not allowed''))
     else advance (t, i) target id (if emits then Some (ty, move_fields a target) else None) now ob st)"

definition awaiting :: "string \<Rightarrow> string \<Rightarrow> action_state \<Rightarrow> int \<Rightarrow> string \<Rightarrow> platform_store \<Rightarrow> (platform_error, platform_action) res" where
  \<comment> \<open>the row, if it is in the state and at the version expected\<close>
  "awaiting t i s expected why st = rbind (platform_get t i st) (\<lambda>a.
     if pa_state a \<noteq> s \<or> pa_state_version a \<noteq> expected then Inl (p_conflict why) else Inr a)"

definition gate_decision_json :: "gate_decision_evidence \<Rightarrow> json" where
  "gate_decision_json d = JObj [(''decision_id'', JStr (ge_decision_id d)), (''decision'', JStr (decision_name (ge_decision d))),
     (''reason'', JStr (ge_reason d)), (''policy_hash'', opt_json JStr (ge_policy_hash d)), (''policy_version'', opt_json JStr (ge_policy_version d)),
     (''approval_reference'', opt_json JStr (ge_approval_reference d)), (''decided_at'', JStr (ge_decided_at d))]"

definition gate_target :: "gate_decision \<Rightarrow> action_state \<times> string" where
  "gate_target d = (case d of ALLOW \<Rightarrow> (AUTHORIZED_ACTION, ''PLATFORM_ACTION_AUTHORIZED'')
     | BLOCK \<Rightarrow> (BLOCKED_ACTION, ''PLATFORM_ACTION_BLOCKED'') | HOLD \<Rightarrow> (HELD_ACTION, ''PLATFORM_ACTION_HELD''))"

definition recordGateDecision :: "string \<Rightarrow> string \<Rightarrow> int \<Rightarrow> gate_decision_evidence \<Rightarrow> string \<Rightarrow> string \<Rightarrow> platform_store
    \<Rightarrow> (platform_error, platform_store \<times> platform_action) res" where
  "recordGateDecision t i expected d now ob st =
     rbind (awaiting t i AUTHORIZING expected ''Action is not awaiting Gate authorization'' st) (\<lambda>a.
     let (target, ty) = gate_target (ge_decision d) in
     advance (t, i) target (\<lambda>x. x\<lparr>pa_gate_decision := Some d\<rparr>)
       (Some (ty, move_fields a target @ [(''gate_decision'', gate_decision_json d)])) now ob st)"

definition recordCapability :: "string \<Rightarrow> string \<Rightarrow> int \<Rightarrow> string \<Rightarrow> string \<Rightarrow> platform_store
    \<Rightarrow> (platform_error, platform_store \<times> platform_action) res" where
  "recordCapability t i expected cap now st =
     rbind (awaiting t i AUTHORIZED_ACTION expected ''Action is not awaiting capability issuance'' st) (\<lambda>_.
     advance (t, i) CAPABILITY_READY (\<lambda>x. x\<lparr>pa_capability_id := Some cap\<rparr>) None now [] st)"

definition recordSentinelSession :: "string \<Rightarrow> string \<Rightarrow> int \<Rightarrow> string \<Rightarrow> string \<Rightarrow> platform_store
    \<Rightarrow> (platform_error, platform_store \<times> platform_action) res" where
  "recordSentinelSession t i expected session now st =
     rbind (awaiting t i CAPABILITY_READY expected ''Action is not awaiting a Sentinel session'' st) (\<lambda>_.
     advance (t, i) MONITORING (\<lambda>x. x\<lparr>pa_sentinel_session_id := Some session\<rparr>) None now [] st)"

definition recordExecutionResult :: "string \<Rightarrow> string \<Rightarrow> int \<Rightarrow> string \<times> string \<Rightarrow> action_state \<Rightarrow> string \<Rightarrow> string \<Rightarrow> string \<Rightarrow> platform_store
    \<Rightarrow> (platform_error, platform_store \<times> platform_action) res" where
  \<comment> \<open>\<open>evidence\<close>: the execution id and the hash of the result\<close>
  "recordExecutionResult t i expected evidence target ty now ob st =
     rbind (awaiting t i EXECUTING expected ''Action is not executing'' st) (\<lambda>a.
     if \<not> isAllowedTransition EXECUTING target
     then Inl (Platform_Error P_INVALID_TRANSITION (''EXECUTING -> '' @ action_state_name target @ '' is not allowed''))
     else advance (t, i) target (\<lambda>x. x\<lparr>pa_execution_id := Some (fst evidence), pa_result_hash := Some (snd evidence)\<rparr>)
       (Some (ty, move_fields a target @ [(''execution'', JObj [(''execution_id'', JStr (fst evidence)), (''result_hash'', JStr (snd evidence))])])) now ob st)"

definition recordVerificationResult :: "string \<Rightarrow> string \<Rightarrow> int \<Rightarrow> string \<times> string \<Rightarrow> action_state \<Rightarrow> string option \<Rightarrow> string \<Rightarrow> string \<Rightarrow> platform_store
    \<Rightarrow> (platform_error, platform_store \<times> platform_action) res" where
  \<comment> \<open>\<open>evidence\<close>: the atom id and its final state\<close>
  "recordVerificationResult t i expected evidence target code now ob st =
     rbind (awaiting t i VERIFYING expected ''Action is not awaiting verification'' st) (\<lambda>a.
     advance (t, i) target (\<lambda>x. x\<lparr>pa_vad_atom_id := Some (fst evidence), pa_vad_final_state := Some (snd evidence), pa_error_code := code\<rparr>)
       (Some (''PLATFORM_VERIFICATION_COMPLETED'', move_fields a target @
         [(''verification'', JObj [(''vad_atom_id'', JStr (fst evidence)), (''vad_final_state'', JStr (snd evidence))])])) now ob st)"

definition failure_event :: "action_state \<Rightarrow> string" where
  "failure_event target = (if target = FAILED_ACTION then ''PLATFORM_ACTION_FAILED''
     else if target = TERMINATED_ACTION then ''PLATFORM_ACTION_TERMINATED'' else ''PLATFORM_ACTION_INDETERMINATE'')"

definition recordFailure :: "string \<Rightarrow> string \<Rightarrow> int \<Rightarrow> action_state \<Rightarrow> action_state \<Rightarrow> string \<Rightarrow> string \<Rightarrow> string \<Rightarrow> string \<Rightarrow> platform_store
    \<Rightarrow> (platform_error, platform_store \<times> platform_action) res" where
  "recordFailure t i expected from_state target code message now ob st =
     rbind (awaiting t i from_state expected ''Platform action state version changed'' st) (\<lambda>a.
     if \<not> isAllowedTransition from_state target
     then Inl (Platform_Error P_INVALID_TRANSITION (action_state_name from_state @ '' -> '' @ action_state_name target @ '' is not allowed''))
     else advance (t, i) target (\<lambda>x. x\<lparr>pa_error_code := Some code, pa_error_message := Some message\<rparr>)
       (Some (failure_event target, move_fields a target @ [(''error_code'', JStr code), (''error_message'', JStr message)])) now ob st)"

section \<open>Execution claims\<close>

definition claimed_fields :: "platform_action \<Rightarrow> string \<Rightarrow> (string \<times> json) list" where
  "claimed_fields a exec = [(''platform_action_id'', JStr (pa_id a)), (''correlation_id'', JStr (pa_correlation_id a)), (''execution_id'', JStr exec),
     (''state'', JStr ''EXECUTING''), (''decision_id'', opt_json (\<lambda>d. JStr (ge_decision_id d)) (pa_gate_decision a)),
     (''capability_id'', opt_json JStr (pa_capability_id a)), (''sentinel_session_id'', opt_json JStr (pa_sentinel_session_id a))]"

definition claimExecution :: "string \<Rightarrow> string \<Rightarrow> int \<Rightarrow> string \<Rightarrow> string \<Rightarrow> string \<Rightarrow> platform_store
    \<Rightarrow> (platform_error, platform_store \<times> platform_run) res" where
  "claimExecution t i expected exec now ob st =
     rbind (awaiting t i MONITORING expected ''Action is not claimable for execution'' st) (\<lambda>a.
     let run = \<lparr>pn_execution_id = exec, pn_tenant_id = t, pn_action_id = i, pn_status = RUN_CLAIMED, pn_claimed_at = now, pn_finished_at = None\<rparr> in
     if \<exists>r \<in> set (ps_runs st). pn_tenant_id r = t \<and> (pn_execution_id r = exec \<or> pn_action_id r = i)
     then Inl (p_conflict ''Action already has an execution claim'')
     else rbind (advance (t, i) EXECUTING id (Some (''PLATFORM_EXECUTION_CLAIMED'', claimed_fields a exec)) now ob (st\<lparr>ps_runs := ps_runs st @ [run]\<rparr>)) (\<lambda>(st', _).
       Inr (st', run)))"

definition finishRun :: "string \<Rightarrow> string \<Rightarrow> run_status \<Rightarrow> string \<Rightarrow> platform_store \<Rightarrow> (platform_error, platform_store) res" where
  "finishRun t exec status now st =
     (if \<exists>r \<in> set (ps_runs st). pn_tenant_id r = t \<and> pn_execution_id r = exec \<and> pn_status r = RUN_CLAIMED
      then Inr (st\<lparr>ps_runs := map (\<lambda>r. if pn_tenant_id r = t \<and> pn_execution_id r = exec \<and> pn_status r = RUN_CLAIMED
              then r\<lparr>pn_status := status, pn_finished_at := Some now\<rparr> else r) (ps_runs st)\<rparr>)
      else Inl (p_conflict ''Execution run is not claimable for completion''))"

definition evidenceStatus :: "string \<Rightarrow> string \<Rightarrow> platform_store \<Rightarrow> string" where
  "evidenceStatus t i st = (if \<exists>r \<in> set (ps_outbox st). ox_tenant_id r = t \<and> ox_platform_action_id r = i \<and> ox_status r = OB_DEAD_LETTER
     then ''DEGRADED'' else ''OK'')"

section \<open>Recovery\<close>

definition recover_row :: "string \<Rightarrow> string \<Rightarrow> platform_action \<Rightarrow> platform_store \<Rightarrow> (platform_error, platform_store) res" where
  "recover_row now ob a st =
     (let k = key_of a;
          st1 = put_action k (\<lambda>x. if pa_state x = EXECUTING then set_state INDETERMINATE_ACTION now x else x) st;
          st2 = st1\<lparr>ps_runs := map (\<lambda>r. if pn_tenant_id r = fst k \<and> pn_action_id r = snd k \<and> pn_status r = RUN_CLAIMED
                  then r\<lparr>pn_status := RUN_INDETERMINATE, pn_finished_at := Some now\<rparr> else r) (ps_runs st1)\<rparr> in
      enqueue k (''PLATFORM_EXECUTION_INDETERMINATE_RECOVERY'', [(''platform_action_id'', JStr (pa_id a)), (''correlation_id'', JStr (pa_correlation_id a)),
        (''prior_state'', JStr ''EXECUTING''), (''state'', JStr ''INDETERMINATE'')]) now ob st2)"

fun recover_rows :: "string \<Rightarrow> (nat \<Rightarrow> string) \<Rightarrow> platform_action list \<Rightarrow> platform_store \<Rightarrow> (platform_error, platform_store) res" where
  "recover_rows now ids [] st = Inr st"
| "recover_rows now ids (a # as) st = rbind (recover_row now (ids (length as)) a st) (recover_rows now ids as)"

definition lease_over :: "string \<Rightarrow> outbox_record \<Rightarrow> bool" where
  \<comment> \<open>timestamps compare as texts\<close>
  "lease_over now r = (case ox_claim_expires_at r of None \<Rightarrow> False | Some e \<Rightarrow> e \<le> now)"

definition requeue :: "string \<Rightarrow> outbox_record \<Rightarrow> outbox_record" where
  "requeue now r = (if ox_status r = OB_DELIVERING \<and> (ox_claim_expires_at r = None \<or> lease_over now r)
     then r\<lparr>ox_status := OB_FAILED, ox_next_attempt_at := now, ox_last_error := Some ''Recovered after interrupted or expired delivery claim''\<rparr> else r)"

definition recoverInterruptedWork :: "string \<Rightarrow> (nat \<Rightarrow> string) \<Rightarrow> platform_store \<Rightarrow> (platform_error, platform_store) res" where
  "recoverInterruptedWork now ids st =
     rbind (recover_rows now ids (filter (\<lambda>a. pa_state a = EXECUTING) (ps_actions st)) st) (\<lambda>st'.
     Inr (st'\<lparr>ps_outbox := map (requeue now) (ps_outbox st')\<rparr>))"

section \<open>Leases\<close>

definition eligible :: "string \<Rightarrow> outbox_record \<Rightarrow> bool" where
  "eligible now r = (ox_status r = OB_PENDING \<or> (ox_status r = OB_FAILED \<and> ox_next_attempt_at r \<le> now)
     \<or> (ox_status r = OB_DELIVERING \<and> lease_over now r))"

definition stamp_claim :: "string \<Rightarrow> string \<Rightarrow> string \<Rightarrow> outbox_record \<Rightarrow> outbox_record" where
  "stamp_claim owner token expires r = r\<lparr>ox_status := OB_DELIVERING, ox_claim_owner := Some owner, ox_claim_token := Some token,
     ox_claim_expires_at := Some expires, ox_attempt_count := ox_attempt_count r + 1\<rparr>"

definition put_record :: "string \<times> string \<Rightarrow> (outbox_record \<Rightarrow> outbox_record) \<Rightarrow> platform_store \<Rightarrow> platform_store" where
  "put_record k f st = st\<lparr>ps_outbox := map (\<lambda>r. if record_key r = k then f r else r) (ps_outbox st)\<rparr>"

definition claimNext :: "int \<Rightarrow> string \<Rightarrow> int \<Rightarrow> string \<Rightarrow> platform_store \<Rightarrow> platform_store \<times> outbox_record option" where
  \<comment> \<open>\<open>now\<close> in milliseconds; \<open>token\<close>: the fresh claim token\<close>
  "claimNext now owner leaseMs token st =
     (case find (eligible (to_iso now)) (ps_outbox st) of
        None \<Rightarrow> (st, None)
      | Some r \<Rightarrow>
          let c = stamp_claim owner token (to_iso (now + leaseMs)) in
          (put_record (record_key r) (\<lambda>x. if ox_status x = ox_status r \<and> ox_claim_token x = ox_claim_token r then c x else x) st, Some (c r)))"

definition fenced :: "string \<Rightarrow> outbox_record \<Rightarrow> bool" where
  "fenced token r = (ox_status r = OB_DELIVERING \<and> ox_claim_token r = Some token)"

definition markDelivered :: "string \<Rightarrow> string \<Rightarrow> string \<Rightarrow> string \<Rightarrow> platform_store \<Rightarrow> (platform_error, platform_store) res" where
  "markDelivered i t token ledger_id st =
     (if ledger_id \<noteq> outboxLedgerEventId i then Inl (p_conflict ''Non-deterministic ledger event id'')
      else Inr (put_record (t, i) (\<lambda>r. if fenced token r then r\<lparr>ox_status := OB_DELIVERED, ox_ledger_event_id := ledger_id,
        ox_last_error := None, ox_claim_expires_at := None\<rparr> else r) st))"

definition markRetry :: "string \<Rightarrow> string \<Rightarrow> string \<Rightarrow> string \<Rightarrow> string \<Rightarrow> platform_store \<Rightarrow> platform_store" where
  "markRetry i t token message next_at st = put_record (t, i) (\<lambda>r. if fenced token r then r\<lparr>ox_status := OB_FAILED,
     ox_last_error := Some message, ox_next_attempt_at := next_at, ox_claim_expires_at := None\<rparr> else r) st"

definition markDeadLetter :: "string \<Rightarrow> string \<Rightarrow> string \<Rightarrow> string \<Rightarrow> platform_store \<Rightarrow> platform_store" where
  "markDeadLetter i t token message st = put_record (t, i) (\<lambda>r. if fenced token r then r\<lparr>ox_status := OB_DEAD_LETTER,
     ox_last_error := Some message, ox_claim_expires_at := None\<rparr> else r) st"

definition listOutbox :: "string \<Rightarrow> string option \<Rightarrow> platform_store \<Rightarrow> outbox_record list" where
  "listOutbox t action st = filter (\<lambda>r. ox_tenant_id r = t \<and> (case action of None \<Rightarrow> True | Some i \<Rightarrow> i = [] \<or> ox_platform_action_id r = i)) (ps_outbox st)"

definition listActions :: "string \<Rightarrow> int option \<Rightarrow> string option \<Rightarrow> platform_store \<Rightarrow> (platform_error, platform_action list \<times> string option) res" where
  "listActions t limit cursor st =
     (let n = nat (min (max (case limit of None \<Rightarrow> 50 | Some l \<Rightarrow> l) 1) 200) in
      case decodeCursor (if cursor = Some [] then None else cursor) of
        Inl _ \<Rightarrow> Inl (pf_invalid ''Invalid action cursor'')
      | Inr offset \<Rightarrow>
          let rows = take (n + 1) (drop offset (sort_key (\<lambda>a. (pa_created_at a, pa_id a)) (filter (\<lambda>a. pa_tenant_id a = t) (ps_actions st)))) in
          Inr (take n rows, if length rows > n then Some (encodeCursor (offset + n)) else None))"

end
