(* ===== verification/Platform_Core.thy ===== *)
theory Platform_Core
  imports Platform_Store Execution_Broker
begin

text \<open>
  The orchestrators of \<open>packages/platform-core\<close> over the store: authorization through the Gate, the leg from
  an ALLOW to a terminal state, operator control, delivery of the outbox to the Ledger, reconstruction. An
  operation that awaits is cut where it does; what the broker, Sentinel and VAD answer behind their ports is
  an argument. The Gate and the Ledger are the models of this development.
\<close>

section \<open>Authorization\<close>

definition gate_authorization_json :: "string \<Rightarrow> platform_request \<Rightarrow> json" where
  "gate_authorization_json agent r = (let destination = (case jstr (ctx_field (pq_metadata r) ''destination'') of None \<Rightarrow> [] | Some d \<Rightarrow> d) in
     JObj ([(''agentId'', JStr (pq_agent_id r)), (''action'', JStr (pq_action r)), (''tool'', JStr (pq_tool r)), (''resource'', JStr (pq_resource r)),
       (''estimatedCostUsd'', JNum (case pq_max_cost r of None \<Rightarrow> Dec 0 0 | Some n \<Rightarrow> n))]
       @ (if destination = [] then [] else [(''destination'', JStr destination)])))"

definition gate_evidence_of :: "decision \<Rightarrow> gate_decision_evidence" where
  "gate_evidence_of d = \<lparr>ge_decision_id = de_decisionId d, ge_decision = de_decision d, ge_reason = de_reason d, ge_policy_hash = de_policyHash d,
     ge_policy_version = de_policyVersion d, ge_approval_reference = de_approvalReference d, ge_decided_at = de_timestamp d\<rparr>"

definition p_forbidden :: "string \<Rightarrow> platform_error" where
  "p_forbidden m = Platform_Error P_FORBIDDEN m"

definition bound_agent :: "platform_principal \<Rightarrow> string \<Rightarrow> (platform_error, string) res" where
  "bound_agent p why = (case pp_agentId p of Some a \<Rightarrow> if pp_role p = PR_Agent \<and> a \<noteq> [] then Inr a else Inl (p_forbidden why) | None \<Rightarrow> Inl (p_forbidden why))"

definition own_action :: "platform_principal \<Rightarrow> string \<Rightarrow> string \<Rightarrow> platform_store \<Rightarrow> (platform_error, string \<times> platform_action) res" where
  \<comment> \<open>the action, and the agent the principal is bound to\<close>
  "own_action p i why st = rbind (bound_agent p why) (\<lambda>agent. rbind (platform_get (pp_tenantId p) i st) (\<lambda>a.
     if pq_agent_id (pa_request a) \<noteq> agent then Inl (p_forbidden ''Platform agent is not bound to this action'') else Inr (agent, a)))"

definition begin_authorizing :: "platform_action \<Rightarrow> string \<Rightarrow> string \<Rightarrow> platform_store \<Rightarrow> (platform_error, platform_store \<times> platform_action) res" where
  "begin_authorizing a now ob st =
     rbind (if pa_state a = RECEIVED
            then transition (pa_tenant_id a) (pa_id a) (pa_state_version a) AUTHORIZING ''PLATFORM_ACTION_STATE_CHANGED'' True now ob st
            else Inr (st, a)) (\<lambda>(st', a').
     if pa_state a' \<noteq> AUTHORIZING then Inl (p_conflict ''Action is not awaiting Gate authorization'') else Inr (st', a'))"

definition platform_authorize :: "(string \<Rightarrow> string) \<Rightarrow> ambient \<Rightarrow> platform_principal \<Rightarrow> string \<Rightarrow> string \<Rightarrow> string \<Rightarrow> string
    \<Rightarrow> platform_store \<times> gate_state \<Rightarrow> (platform_store \<times> gate_state) \<times> (platform_error, platform_action) res" where
  \<comment> \<open>\<open>PlatformGateOrchestrator.authorize\<close> on the real Gate; each store commits on its own\<close>
  "platform_authorize sha am p i now ob1 ob2 w = (let (st, g) = w in
     case rbind (own_action p i ''Only a tenant-bound platform agent may request Gate authorization'' st)
            (\<lambda>(agent, a). rbind (begin_authorizing a now ob1 st) (\<lambda>(st1, a1). Inr (agent, st1, a1))) of
       Inl e \<Rightarrow> ((st, g), Inl e)
     | Inr (agent, st1, a1) \<Rightarrow>
         (case authorize sha am (Agent agent) (gate_authorization_json agent (pa_request a1)) g of
            (g', Inl e) \<Rightarrow> ((st1, g'), Inl (Other_Error ''Gate''))
          | (g', Inr d) \<Rightarrow>
              (case recordGateDecision (pa_tenant_id a1) (pa_id a1) (pa_state_version a1) (gate_evidence_of d) now ob2 st1 of
                 Inl e \<Rightarrow> ((st1, g'), Inl e) | Inr (st2, a2) \<Rightarrow> ((st2, g'), Inr a2))))"

text \<open>\<open>PlatformFacade.submitAndRun\<close> up to the execution, which starts when the state is AUTHORIZED.\<close>

definition submit_action :: "(string \<Rightarrow> string) \<Rightarrow> platform_principal \<Rightarrow> json \<Rightarrow> string \<Rightarrow> string \<Rightarrow> string \<Rightarrow> string \<Rightarrow> string \<Rightarrow> platform_store
    \<Rightarrow> (platform_error, platform_store \<times> platform_action) res" where
  "submit_action sha p raw by u1 u2 ob now st = rbind (assertCanSubmit p) (\<lambda>_. createOrReturn sha raw by u1 u2 ob now st)"

definition submit_authorized :: "(string \<Rightarrow> string) \<Rightarrow> ambient \<Rightarrow> platform_principal \<Rightarrow> json \<Rightarrow> string \<Rightarrow> string \<Rightarrow> string \<Rightarrow> string \<Rightarrow> string \<Rightarrow> string \<Rightarrow> string
    \<Rightarrow> platform_store \<times> gate_state \<Rightarrow> (platform_store \<times> gate_state) \<times> (platform_error, platform_action) res" where
  "submit_authorized sha am p raw by u1 u2 ob now ob1 ob2 w =
     (case submit_action sha p raw by u1 u2 ob now (fst w) of
        Inl e \<Rightarrow> (w, Inl e)
      | Inr (st, a) \<Rightarrow> if pa_state a \<noteq> RECEIVED then ((st, snd w), Inr a)
          else platform_authorize sha am p (pa_id a) now ob1 ob2 (st, snd w))"

section \<open>Execution\<close>

definition sentinel_operations_of :: "string \<Rightarrow> string list" where
  "sentinel_operations_of op = (if op \<in> set sentinel_operations then [op] else [])"

definition brokerOperation :: "string \<Rightarrow> string" where
  "brokerOperation action = (if action = ''production.deploy'' then ''write'' else ''read'')"

definition toSentinelResource :: "string \<Rightarrow> string" where
  "toSentinelResource s = (let r = dropWhile (\<lambda>c. c = CHR ''/'') s in if r = [] then s else r)"

definition sentinel_session_json :: "(string \<Rightarrow> string) \<Rightarrow> platform_action \<Rightarrow> gate_decision_evidence \<Rightarrow> json" where
  \<comment> \<open>what \<open>createSession\<close> hands to Sentinel; \<open>Date.parse\<close> of the decision's time always reads\<close>
  "sentinel_session_json sha a gate =
     (let r = pa_request a; seconds = (case pq_max_runtime r of None \<Rightarrow> Dec 60 0 | Some n \<Rightarrow> n); cost = (case pq_max_cost r of None \<Rightarrow> Dec 1 0 | Some n \<Rightarrow> n);
          ph = (case ge_policy_hash gate of None \<Rightarrow> hash_json sha (platform_request_json r) | Some h \<Rightarrow> h) in
      JObj ([(''version'', JStr ''1.0''), (''tenant_id'', JStr (pa_tenant_id a)), (''agent_id'', JStr (pq_agent_id r)), (''execution_id'', JStr (pa_id a)),
        (''decision_id'', JStr (ge_decision_id gate))] @ opt_field ''capability_id'' (map_option JStr (pa_capability_id a)) @
       [(''correlation_id'', JStr (pa_correlation_id a)), (''authority_snapshot_hash'', JStr ph), (''policy_snapshot_hash'', JStr ph),
        (''expected_action'', JStr (pq_action r)), (''expected_tool'', JStr (pq_tool r)), (''expected_resource'', JStr (toSentinelResource (pq_resource r))),
        (''allowed_destinations'', jstrs []), (''allowed_operations'', jstrs (sentinel_operations_of (pq_operation r))),
        (''authority_expiry'', JStr (to_iso \<lfloor>of_int (the (date_parse (ge_decided_at gate))) + num_val seconds * 1000\<rfloor>)),
        (''runtime_limits'', JObj [(''max_runtime_seconds'', JNum seconds)]), (''cost_limits'', JObj [(''max_cost_usd'', JNum cost)])]))"

text \<open>A caller driving an action: the row it read last, its claim.\<close>

record run_ticket =
  rt_tenant :: string
  rt_action :: string
  rt_version :: int
  rt_execution :: string

definition fail_at :: "platform_action \<Rightarrow> int \<Rightarrow> action_state \<Rightarrow> action_state \<Rightarrow> string \<Rightarrow> string \<Rightarrow> string \<Rightarrow> string \<Rightarrow> platform_store
    \<Rightarrow> platform_store \<times> (platform_error, 'a) res" where
  \<comment> \<open>the failure is recorded, then thrown\<close>
  "fail_at a v from_state target code message now ob st =
     (case recordFailure (pa_tenant_id a) (pa_id a) v from_state target code message now ob st of
        Inl e \<Rightarrow> (st, Inl e) | Inr (st', _) \<Rightarrow> (st', Inl (Platform_Error P_CAPABILITY_FAILURE message)))"

definition run_checks_of :: "platform_principal \<Rightarrow> string \<Rightarrow> platform_store \<Rightarrow> (platform_error, platform_action) res" where
  "run_checks_of p i st = rbind (own_action p i ''Only a tenant-bound platform agent may drive execution'' st) (\<lambda>(_, a).
     if pa_state a \<noteq> AUTHORIZED_ACTION then Inl (p_conflict (''Action is not AUTHORIZED (state: '' @ action_state_name (pa_state a) @ '')''))
     else case pa_gate_decision a of
       Some d \<Rightarrow> if ge_decision d = ALLOW then Inr a else Inl (p_conflict ''Action has no ALLOW decision to execute against'')
     | None \<Rightarrow> Inl (p_conflict ''Action has no ALLOW decision to execute against''))"

definition run_open :: "platform_principal \<Rightarrow> string \<Rightarrow> (string, string) res \<Rightarrow> (string, string) res \<Rightarrow> string \<Rightarrow> string \<Rightarrow> string \<Rightarrow> platform_store
    \<Rightarrow> platform_store \<times> (platform_error, run_ticket) res" where
  \<comment> \<open>\<open>run\<close> up to its first await; \<open>cap\<close>, \<open>session\<close>: the capability id and the session id, or what was thrown\<close>
  "run_open p i cap session exec now ob st =
     (case run_checks_of p i st of Inl e \<Rightarrow> (st, Inl e)
      | Inr a \<Rightarrow> (let t = pa_tenant_id a in
         case cap of Inl m \<Rightarrow> fail_at a (pa_state_version a) AUTHORIZED_ACTION FAILED_ACTION ''CAPABILITY_FAILURE'' m now ob st
         | Inr c \<Rightarrow>
        (case recordCapability t i (pa_state_version a) c now st of Inl e \<Rightarrow> (st, Inl e)
         | Inr (st1, a1) \<Rightarrow>
        (case session of Inl m \<Rightarrow> fail_at a1 (pa_state_version a1) CAPABILITY_READY INDETERMINATE_ACTION ''SENTINEL_UNAVAILABLE'' m now ob st1
         | Inr s \<Rightarrow>
        (case recordSentinelSession t i (pa_state_version a1) s now st1 of Inl e \<Rightarrow> (st1, Inl e)
         | Inr (st2, a2) \<Rightarrow>
        (case claimExecution t i (pa_state_version a2) exec now ob st2 of Inl e \<Rightarrow> (st2, Inl e)
         | Inr (st3, _) \<Rightarrow>
        (case platform_get t i st3 of Inl e \<Rightarrow> (st3, Inl e)
         | Inr a3 \<Rightarrow> (st3, Inr \<lparr>rt_tenant = t, rt_action = i, rt_version = pa_state_version a3, rt_execution = exec\<rparr>))))))))"

definition finish_quietly :: "run_ticket \<Rightarrow> run_status \<Rightarrow> string \<Rightarrow> platform_store \<Rightarrow> platform_store" where
  "finish_quietly k s now st = (case finishRun (rt_tenant k) (rt_execution k) s now st of Inl _ \<Rightarrow> st | Inr st' \<Rightarrow> st')"

definition fail_running :: "run_ticket \<Rightarrow> action_state \<Rightarrow> string \<Rightarrow> string \<Rightarrow> run_status option \<Rightarrow> string \<Rightarrow> string \<Rightarrow> platform_store
    \<Rightarrow> platform_store \<times> (platform_error, platform_action) res" where
  "fail_running k target code message run now ob st =
     (case recordFailure (rt_tenant k) (rt_action k) (rt_version k) EXECUTING target code message now ob st of
        Inl e \<Rightarrow> (st, Inl e)
      | Inr (st', a) \<Rightarrow> (case run of None \<Rightarrow> st' | Some s \<Rightarrow> finish_quietly k s now st', Inr a))"

datatype precheck = Precheck_Done "(platform_error, platform_action) res" | Precheck_Continue

definition run_precheck :: "(string \<Rightarrow> string) \<Rightarrow> run_ticket \<Rightarrow> platform_action \<Rightarrow> sentinel_verdict option \<Rightarrow> string list \<Rightarrow> bool \<Rightarrow> string \<Rightarrow> string
    \<Rightarrow> platform_store \<Rightarrow> platform_store \<times> precheck" where
  \<comment> \<open>after the observation \<open>TOOL_CALL_REQUESTED\<close> was evaluated; \<open>a\<close>: the row read with the claim, \<open>confirmed\<close>: the
     session reads TERMINATED, \<open>rules\<close>: the types of the violated rules\<close>
  "run_precheck sha k a verdict rules confirmed now ob st =
     (let stop = (\<lambda>(st', r). (st', Precheck_Done r)) in
      if verdict = Some SD_TERMINATE
      then stop (fail_running k (if confirmed then TERMINATED_ACTION else INDETERMINATE_ACTION) ''SENTINEL_TERMINATED''
        (if str_join '', '' rules = [] then ''Sentinel terminated the session before execution'' else str_join '', '' rules)
        (Some (if confirmed then RUN_FINISHED else RUN_INDETERMINATE)) now ob st)
      else if verdict = Some SD_HOLD
      then stop (fail_running k INDETERMINATE_ACTION ''SENTINEL_HOLD'' ''Sentinel held the session before execution; connector was never invoked'' None now ob st)
      else if computeInputHash sha (pa_request a) \<noteq> pa_input_hash a
      then stop (fail_running k TERMINATED_ACTION ''EXECUTION_FAILED''
        ''Input binding drift detected between authorization and execution - connector never invoked'' None now ob st)
      else (st, Precheck_Continue))"

definition evidence_lost :: "broker_error \<Rightarrow> bool" where
  "evidence_lost e = (case e of Broker _ m \<Rightarrow> str_contains ''Evidence persistence failed after successful handler execution'' m | Capability_Error _ \<Rightarrow> False)"

definition run_redeem_failed :: "run_ticket \<Rightarrow> broker_error \<Rightarrow> string \<Rightarrow> string \<Rightarrow> platform_store \<Rightarrow> platform_store \<times> (platform_error, platform_action) res" where
  "run_redeem_failed k e now ob st = (let lost = evidence_lost e in
     fail_running k (if lost then INDETERMINATE_ACTION else FAILED_ACTION) (if lost then ''EVIDENCE_DEGRADED'' else ''EXECUTION_FAILED'') (error_message e)
       (Some (if lost then RUN_INDETERMINATE else RUN_FINISHED)) now ob st)"

definition run_record :: "run_ticket \<Rightarrow> platform_action \<Rightarrow> string \<times> string \<Rightarrow> string \<Rightarrow> string \<Rightarrow> platform_store
    \<Rightarrow> platform_store \<times> (platform_error, platform_action) res" where
  \<comment> \<open>after the second observation; what Sentinel answers to it and to \<open>completeSession\<close> is ignored\<close>
  "run_record k a evidence now ob st =
     (let (target, ty) = (if pq_requires_verification (pa_request a) then (VERIFYING, ''PLATFORM_VERIFICATION_STARTED'')
            else (COMPLETED, ''PLATFORM_ACTION_COMPLETED'')) in
      case recordExecutionResult (rt_tenant k) (rt_action k) (rt_version k) evidence target ty now ob st of
        Inl e \<Rightarrow> (st, Inl e)
      | Inr (st1, a1) \<Rightarrow> (case finishRun (rt_tenant k) (rt_execution k) RUN_FINISHED now st1 of Inl e \<Rightarrow> (st1, Inl e) | Inr st2 \<Rightarrow> (st2, Inr a1)))"

datatype vad_final = VF_ACCEPTED | VF_REJECTED | VF_ESCALATED | VF_FAILED

definition vad_final_name :: "vad_final \<Rightarrow> string" where
  "vad_final_name s = (case s of VF_ACCEPTED \<Rightarrow> ''ACCEPTED'' | VF_REJECTED \<Rightarrow> ''REJECTED'' | VF_ESCALATED \<Rightarrow> ''ESCALATED'' | VF_FAILED \<Rightarrow> ''FAILED'')"

definition run_verified :: "run_ticket \<Rightarrow> int \<Rightarrow> (string \<times> vad_final) option \<Rightarrow> string \<Rightarrow> string \<Rightarrow> platform_store
    \<Rightarrow> (platform_error, platform_store \<times> platform_action) res" where
  \<comment> \<open>\<open>None\<close>: no VAD is configured; \<open>version\<close>: of the row in VERIFYING\<close>
  "run_verified k version verdict now ob st =
     (let record = recordVerificationResult (rt_tenant k) (rt_action k) version in
      case verdict of
        None \<Rightarrow> record (''none'', ''UNAVAILABLE'') INDETERMINATE_ACTION (Some ''COMPONENT_UNAVAILABLE'') now ob st
      | Some (atom, s) \<Rightarrow> (let e = (atom, vad_final_name s) in
          if s = VF_ACCEPTED then record e COMPLETED None now ob st
          else if s = VF_REJECTED then record e FAILED_ACTION (Some ''VERIFICATION_REJECTED'') now ob st
          else record e INDETERMINATE_ACTION (Some ''VERIFICATION_ESCALATED'') now ob st))"

section \<open>Operators\<close>

definition control_resume :: "platform_principal \<Rightarrow> string \<Rightarrow> string \<Rightarrow> string \<Rightarrow> platform_store \<Rightarrow> (platform_error, platform_store \<times> platform_action) res" where
  "control_resume p i now ob st =
     rbind (role_check [PR_Operator, PR_Admin] '' may not resume a held action'' p) (\<lambda>_. rbind (platform_get (pp_tenantId p) i st) (\<lambda>a.
     if pa_state a \<noteq> HELD_ACTION
     then Inl (Platform_Error P_INVALID_TRANSITION (''Action is not HELD (state: '' @ action_state_name (pa_state a) @ '')''))
     else transition (pa_tenant_id a) i (pa_state_version a) AUTHORIZING ''PLATFORM_ACTION_STATE_CHANGED'' True now ob st))"

definition control_terminate :: "platform_principal \<Rightarrow> string \<Rightarrow> string \<Rightarrow> string \<Rightarrow> string \<Rightarrow> platform_store
    \<Rightarrow> (platform_error, platform_store \<times> platform_action) res" where
  "control_terminate p i reason now ob st =
     rbind (assertCanTerminate p) (\<lambda>_. rbind (platform_get (pp_tenantId p) i st) (\<lambda>a.
     if pa_state a = HELD_ACTION
     then transition (pa_tenant_id a) i (pa_state_version a) TERMINATED_ACTION ''PLATFORM_ACTION_TERMINATED'' True now ob st
     else if pa_state a \<notin> {MONITORING, EXECUTING}
     then Inl (Platform_Error P_INVALID_TRANSITION (''Action cannot be terminated from state '' @ action_state_name (pa_state a)))
     else recordFailure (pa_tenant_id a) i (pa_state_version a) (pa_state a) TERMINATED_ACTION ''SENTINEL_TERMINATED'' reason now ob st))"

end
