(* ===== verification/Platform_Delivery.thy ===== *)
theory Platform_Delivery
  imports Platform_Core
begin

text \<open>
  Delivery of the outbox to the Ledger (\<open>OutboxDispatcher\<close> of \<open>packages/platform-outbox\<close>,
  \<open>PlatformLedgerDispatcher\<close> and \<open>reconstructPlatformAction\<close> of \<open>packages/platform-core\<close>).
\<close>

section \<open>Translation\<close>

definition capturedDecisionId :: "json \<Rightarrow> string option" where
  "capturedDecisionId payload = (case jstr (jfield ''decision_id'' payload) of Some d \<Rightarrow> Some d
     | None \<Rightarrow> jstr (ctx_field (jfield ''gate_decision'' payload) ''decision_id''))"

definition capturedPolicyHash :: "json \<Rightarrow> string option" where
  "capturedPolicyHash payload = (case jstr (jfield ''policy_hash'' payload) of Some d \<Rightarrow> Some d
     | None \<Rightarrow> jstr (ctx_field (jfield ''gate_decision'' payload) ''policy_hash''))"

definition direct_event_types :: "(string \<times> string) list" where
  "direct_event_types = [(''PLATFORM_EXECUTION_CLAIMED'', ''PLATFORM_EXECUTION_STARTED''),
     (''PLATFORM_EXECUTION_INDETERMINATE_RECOVERY'', ''PLATFORM_ACTION_INDETERMINATE'')]
     @ map (\<lambda>t. (t, t)) [''PLATFORM_ACTION_RECEIVED'', ''PLATFORM_ACTION_AUTHORIZED'', ''PLATFORM_ACTION_BLOCKED'', ''PLATFORM_ACTION_HELD'',
       ''PLATFORM_EXECUTION_COMPLETED'', ''PLATFORM_VERIFICATION_STARTED'', ''PLATFORM_VERIFICATION_COMPLETED'', ''PLATFORM_ACTION_COMPLETED'',
       ''PLATFORM_ACTION_FAILED'', ''PLATFORM_ACTION_TERMINATED'', ''PLATFORM_ACTION_INDETERMINATE'']"

definition changed_event_types :: "(string \<times> string) list" where
  "changed_event_types = [(''AUTHORIZED'', ''PLATFORM_ACTION_AUTHORIZED''), (''BLOCKED'', ''PLATFORM_ACTION_BLOCKED''), (''HELD'', ''PLATFORM_ACTION_HELD''),
     (''AUTHORIZING'', ''PLATFORM_ACTION_RECEIVED''), (''COMPLETED'', ''PLATFORM_ACTION_COMPLETED''), (''INDETERMINATE'', ''PLATFORM_ACTION_INDETERMINATE'')]"

definition eventType :: "outbox_record \<Rightarrow> (platform_error, string) res" where
  "eventType r = (case map_of direct_event_types (ox_event_type r) of Some t \<Rightarrow> Inr t
     | None \<Rightarrow>
         (let to_state = (if ox_event_type r = ''PLATFORM_ACTION_STATE_CHANGED'' then jstr (jfield ''to_state'' (ox_payload r)) else None) in
          case Option.bind to_state (map_of changed_event_types) of Some t \<Rightarrow> Inr t
          | None \<Rightarrow> Inl (Platform_Error P_EVIDENCE_DEGRADED (''No Ledger mapping for outbox event '' @ ox_event_type r))))"

definition truthy_str :: "string option \<Rightarrow> json option" where
  \<comment> \<open>\<open>...(s ? { k: s } : {})\<close>\<close>
  "truthy_str v = (case v of None \<Rightarrow> None | Some s \<Rightarrow> if s = [] then None else Some (JStr s))"

definition obj_fields :: "json \<Rightarrow> (string \<times> json) list" where
  "obj_fields j = (case j of JObj kvs \<Rightarrow> kvs | _ \<Rightarrow> [])"

definition platform_ledger_event :: "outbox_record \<Rightarrow> platform_store \<Rightarrow> (platform_error, json) res" where
  \<comment> \<open>\<open>PlatformLedgerDispatcher.toLedgerEvent\<close>\<close>
  "platform_ledger_event r st = rbind (platform_get (ox_tenant_id r) (ox_platform_action_id r) st) (\<lambda>a. rbind (eventType r) (\<lambda>ty.
     let q = pa_request a; payload = ox_payload r;
         authority = JObj ([(''agent_id'', JStr (pq_agent_id q)), (''action'', JStr (pq_action q)), (''tool'', JStr (pq_tool q)),
           (''resource'', JStr (pq_resource q)), (''operation'', JStr (pq_operation q))]
           @ opt_field ''decision_id'' (truthy_str (capturedDecisionId payload)) @ opt_field ''policy_hash'' (truthy_str (capturedPolicyHash payload))) in
     Inr (JObj ([(''version'', JStr ''1.0''), (''event_id'', JStr (outboxLedgerEventId (ox_outbox_id r))), (''event_type'', JStr ty),
       (''tenant_id'', JStr (pa_tenant_id a)), (''stream_id'', JStr (''platform:'' @ pa_id a)), (''correlation_id'', JStr (pa_correlation_id a))]
       @ opt_field ''causation_id'' (truthy_str (jstr (jfield ''causation_event_id'' payload)))
       @ [(''actor'', JObj [(''type'', JStr ''AGENT''), (''id'', JStr (pq_agent_id q))]), (''source_component'', JStr ''platform''),
          (''authority_context'', authority), (''payload'', JObj (al_put ''input_hash'' (JStr (pa_input_hash a)) (obj_fields payload)))]))))"

section \<open>The dispatcher\<close>

definition deliver :: "(string \<Rightarrow> string) \<Rightarrow> string \<Rightarrow> ledger_principal \<Rightarrow> outbox_record \<Rightarrow> platform_store \<Rightarrow> ledger_store \<Rightarrow> ledger_store \<times> (string, string) res" where
  \<comment> \<open>the delivery function of the composition root; what a component throws is reduced to a message\<close>
  "deliver sha received p r st L =
     (case platform_ledger_event r st of
        Inl (Platform_Error _ m) \<Rightarrow> (L, Inl m)
      | Inl (Other_Error m) \<Rightarrow> (L, Inl m)
      | Inr raw \<Rightarrow> (case ledger_append sha received p raw L of
            Inl (Ledger_Error _ m) \<Rightarrow> (L, Inl m)
          | Inl Constraint_Error \<Rightarrow> (L, Inl ''UNIQUE constraint failed'')
          | Inr (L', e) \<Rightarrow> (L', Inr (li_event_id e))))"

datatype dispatch_outcome = Dispatch_Delivered | Dispatch_Failed | Dispatch_Dead

definition settle :: "int \<Rightarrow> int \<Rightarrow> outbox_record \<Rightarrow> string \<Rightarrow> (string, string) res \<Rightarrow> platform_store \<Rightarrow> platform_store \<times> dispatch_outcome" where
  \<comment> \<open>after the delivery; \<open>now\<close>: the second clock reading in milliseconds\<close>
  "settle maxAttempts now r token answer st =
     (let t = ox_tenant_id r; i = ox_outbox_id r; n = ox_attempt_count r;
          failed = (\<lambda>m. if isDeadLetter n maxAttempts then (markDeadLetter i t token m st, Dispatch_Dead)
             else (markRetry i t token m (to_iso (now + computeBackoffMs n)) st, Dispatch_Failed)) in
      case answer of
        Inl m \<Rightarrow> failed m
      | Inr e \<Rightarrow>
          if e \<noteq> outboxLedgerEventId i then failed (''Outbox delivery must use deterministic ledger event id '' @ outboxLedgerEventId i)
          else (case markDelivered i t token e st of Inr st' \<Rightarrow> (st', Dispatch_Delivered) | Inl _ \<Rightarrow> failed ''Non-deterministic ledger event id''))"

record dispatch_options =
  dp_maxAttempts :: int
  dp_ownerId :: string
  dp_leaseMs :: int

definition default_dispatch :: "string \<Rightarrow> dispatch_options" where
  "default_dispatch owner = \<lparr>dp_maxAttempts = 8, dp_ownerId = owner, dp_leaseMs = 30000\<rparr>"

fun dispatch_loop :: "(string \<Rightarrow> string) \<Rightarrow> ledger_principal \<Rightarrow> dispatch_options \<Rightarrow> (nat \<Rightarrow> int) \<Rightarrow> (nat \<Rightarrow> string) \<Rightarrow> nat \<Rightarrow> nat
    \<Rightarrow> platform_store \<times> ledger_store \<Rightarrow> dispatch_outcome list \<Rightarrow> ((platform_store \<times> ledger_store) \<times> dispatch_outcome list) option" where
  \<comment> \<open>\<open>dispatchOnce\<close> with no other caller in between; \<open>clock\<close>: its successive readings, \<open>tokens\<close>: the claim tokens,
     \<open>k\<close>: the round; \<open>None\<close> when the fuel is spent\<close>
  "dispatch_loop sha p opt clock tokens 0 k w acc = None"
| "dispatch_loop sha p opt clock tokens (Suc fuel) k (st, L) acc =
     (case claimNext (clock (2 * k)) (dp_ownerId opt) (dp_leaseMs opt) (tokens k) st of
        (st1, None) \<Rightarrow> Some ((st1, L), acc)
      | (st1, Some r) \<Rightarrow>
          (let (L1, answer) = deliver sha (to_iso (clock (2 * k))) p r st1 L;
               (st2, out) = settle (dp_maxAttempts opt) (clock (2 * k + 1)) r (tokens k) answer st1 in
           dispatch_loop sha p opt clock tokens fuel (Suc k) (st2, L1) (acc @ [out])))"

section \<open>Reconstruction\<close>

record causal_step =
  cs_event_id :: string
  cs_event_type :: string
  cs_caused_by :: "string option"
  cs_decision_id :: "string option"
  cs_capability_id :: "string option"
  cs_sentinel_session_id :: "string option"
  cs_execution_id :: "string option"
  cs_vad_atom_id :: "string option"

definition nonempty_str :: "string option \<Rightarrow> string option" where
  "nonempty_str v = (if v = Some [] then None else v)"

definition causal_step_of :: "outbox_record \<Rightarrow> causal_step" where
  "causal_step_of r = (let f = (\<lambda>k. jfield k (ox_payload r)) in
     \<lparr>cs_event_id = outboxLedgerEventId (ox_outbox_id r), cs_event_type = ox_event_type r, cs_caused_by = jstr (f ''causation_event_id''),
      cs_decision_id = nonempty_str (capturedDecisionId (ox_payload r)), cs_capability_id = jstr (f ''capability_id''),
      cs_sentinel_session_id = jstr (f ''sentinel_session_id''),
      cs_execution_id = (case jstr (f ''execution_id'') of Some e \<Rightarrow> Some e | None \<Rightarrow> jstr (ctx_field (f ''execution'') ''execution_id'')),
      cs_vad_atom_id = jstr (ctx_field (f ''verification'') ''vad_atom_id'')\<rparr>)"

record reconstruction =
  rc_action :: platform_action
  rc_gate :: "(gate_decision \<times> string \<times> string) option"
  rc_execution :: "(string \<times> string) option"
  rc_verification :: "(string \<times> string) option"
  rc_evidence_status :: string
  rc_outbox_records :: nat
  rc_delivered :: nat
  rc_dead_lettered :: nat
  rc_error :: "(string \<times> string) option"
  rc_causal_chain :: "causal_step list"

definition both_present :: "string option \<Rightarrow> string option \<Rightarrow> (string \<times> string) option" where
  "both_present a b = (case (nonempty_str a, nonempty_str b) of (Some x, Some y) \<Rightarrow> Some (x, y) | _ \<Rightarrow> None)"

definition reconstructPlatformAction :: "string \<Rightarrow> string \<Rightarrow> platform_store \<Rightarrow> (platform_error, reconstruction) res" where
  \<comment> \<open>the fields copied from the row as they are stay in \<open>rc_action\<close>\<close>
  "reconstructPlatformAction t i st = rbind (platform_get t i st) (\<lambda>a. let outbox = listOutbox t (Some i) st in
     Inr \<lparr>rc_action = a, rc_gate = map_option (\<lambda>d. (ge_decision d, ge_decision_id d, ge_reason d)) (pa_gate_decision a),
       rc_execution = both_present (pa_execution_id a) (pa_result_hash a), rc_verification = both_present (pa_vad_atom_id a) (pa_vad_final_state a),
       rc_evidence_status = evidenceStatus t i st, rc_outbox_records = length outbox,
       rc_delivered = length (filter (\<lambda>r. ox_status r = OB_DELIVERED) outbox), rc_dead_lettered = length (filter (\<lambda>r. ox_status r = OB_DEAD_LETTER) outbox),
       rc_error = both_present (pa_error_code a) (pa_error_message a), rc_causal_chain = map causal_step_of outbox\<rparr>)"

end
