(* ===== verification/Platform_Invariant.thy ===== *)
theory Platform_Invariant
  imports Platform_Delivery
begin

text \<open>
  What the operations of the platform store may change: an abstract machine over whole stores
  (\<open>store_change\<close>), the proof that every operation is a step of it, and the invariants of that machine.
\<close>

section \<open>Rows\<close>

lemma put_action_simps [simp]:
  "ps_runs (put_action k f st) = ps_runs st" "ps_outbox (put_action k f st) = ps_outbox st"
  "ps_actions (put_action k f st) = map (\<lambda>a. if key_of a = k then f a else a) (ps_actions st)"
  by (simp_all add: put_action_def)

lemma find_map_if:
  assumes "\<And>a. key (f a) = key a"
  shows "find (\<lambda>a. key a = k') (map (\<lambda>a. if key a = k then f a else a) xs)
    = map_option (\<lambda>a. if k' = k then f a else a) (find (\<lambda>a. key a = k') xs)"
  using assms by (induction xs) auto

lemma action_row_put: "(\<And>a. key_of (f a) = key_of a) \<Longrightarrow>
    action_row k' (put_action k f st) = map_option (\<lambda>a. if k' = k then f a else a) (action_row k' st)"
  by (simp add: action_row_def find_map_if)

lemma action_row_cong: "ps_actions st = ps_actions st' \<Longrightarrow> action_row k st = action_row k st'"
  by (simp add: action_row_def)

lemma action_row_Some: "action_row k st = Some a \<Longrightarrow> a \<in> set (ps_actions st) \<and> key_of a = k"
  unfolding action_row_def by (drule find_SomeD) simp

lemma platform_get_Inr [simp]: "platform_get t i st = Inr a \<longleftrightarrow> action_row (t, i) st = Some a"
  by (simp add: platform_get_def split: option.split)

lemma awaiting_Inr: "awaiting t i s v why st = Inr a \<longleftrightarrow> action_row (t, i) st = Some a \<and> pa_state a = s \<and> pa_state_version a = v"
  by (auto simp: awaiting_def rbind_eq_Inr split: if_splits)

lemma key_set_state [simp]: "key_of (set_state s now a) = key_of a" "pa_last_outbox_id (set_state s now a) = pa_last_outbox_id a"
  "pa_state (set_state s now a) = s" "pa_state_version (set_state s now a) = pa_state_version a + 1"
  by (simp_all add: set_state_def key_of_def)

lemma key_update [simp]: "key_of (a\<lparr>pa_last_outbox_id := x\<rparr>) = key_of a" "key_of (a\<lparr>pa_gate_decision := d\<rparr>) = key_of a"
  "key_of (a\<lparr>pa_capability_id := x\<rparr>) = key_of a" "key_of (a\<lparr>pa_sentinel_session_id := x\<rparr>) = key_of a"
  "key_of (a\<lparr>pa_execution_id := x, pa_result_hash := y\<rparr>) = key_of a"
  "key_of (a\<lparr>pa_vad_atom_id := x, pa_vad_final_state := y, pa_error_code := z\<rparr>) = key_of a"
  "key_of (a\<lparr>pa_error_code := x, pa_error_message := y\<rparr>) = key_of a"
  by (simp_all add: key_of_def)

section \<open>Enqueueing\<close>

definition event_record :: "action_key \<Rightarrow> string option \<Rightarrow> event \<Rightarrow> string \<Rightarrow> string \<Rightarrow> outbox_record" where
  "event_record k prior ev now uuid = newOutboxRecord (''ob_'' @ uuid) (fst k) (snd k) (fst ev) (with_causation prior (snd ev)) now"

lemma enqueue_Inr:
  "enqueue k ev now uuid st = Inr st' \<longleftrightarrow>
     (let r = event_record k (Option.bind (action_row k st) pa_last_outbox_id) ev now uuid in
      record_key r \<notin> record_key ` set (ps_outbox st)
      \<and> st' = put_action k (\<lambda>a. a\<lparr>pa_last_outbox_id := Some (''ob_'' @ uuid)\<rparr>) (st\<lparr>ps_outbox := ps_outbox st @ [r]\<rparr>))"
  by (auto simp: enqueue_def event_record_def Let_def)

definition advanced :: "action_state \<Rightarrow> (platform_action \<Rightarrow> platform_action) \<Rightarrow> event option \<Rightarrow> string \<Rightarrow> string \<Rightarrow> platform_action \<Rightarrow> platform_action" where
  "advanced target f ev now uuid x = (case ev of None \<Rightarrow> f (set_state target now x)
     | Some _ \<Rightarrow> (f (set_state target now x))\<lparr>pa_last_outbox_id := Some (''ob_'' @ uuid)\<rparr>)"

definition event_records :: "action_key \<Rightarrow> string option \<Rightarrow> event option \<Rightarrow> string \<Rightarrow> string \<Rightarrow> outbox_record list" where
  "event_records k prior ev now uuid = (case ev of None \<Rightarrow> [] | Some e \<Rightarrow> [event_record k prior e now uuid])"

lemma advance_Inr:
  assumes "advance k target f ev now uuid st = Inr (st', a')" "action_row k st = Some a"
    and f: "\<And>x. key_of (f x) = key_of x" "\<And>x. pa_last_outbox_id (f x) = pa_last_outbox_id x"
  shows "ps_actions st' = map (\<lambda>x. if key_of x = k then advanced target f ev now uuid x else x) (ps_actions st)"
    "ps_outbox st' = ps_outbox st @ event_records k (pa_last_outbox_id a) ev now uuid"
    "\<And>r. r \<in> set (event_records k (pa_last_outbox_id a) ev now uuid) \<Longrightarrow> record_key r \<notin> record_key ` set (ps_outbox st)"
    "ps_runs st' = ps_runs st" "a' = advanced target f ev now uuid a" "action_row k st' = Some a'"
proof -
  let ?g = "\<lambda>x. f (set_state target now x)"
  let ?st = "put_action k ?g st"
  have g: "key_of (?g x) = key_of x" for x by (simp add: f)
  have row: "action_row k ?st = Some (?g a)" using assms(2) by (simp add: action_row_put [OF g])
  obtain st2 where e: "(case ev of None \<Rightarrow> Inr ?st | Some e \<Rightarrow> enqueue k e now uuid ?st) = Inr st2" and st': "st' = st2" "action_row k st2 = Some a'"
    using assms(1) by (auto simp: advance_def Let_def rbind_eq_Inr)
  have *: "ps_actions st2 = map (\<lambda>x. if key_of x = k then advanced target f ev now uuid x else x) (ps_actions st)
    \<and> ps_outbox st2 = ps_outbox st @ event_records k (pa_last_outbox_id a) ev now uuid
    \<and> (\<forall>r \<in> set (event_records k (pa_last_outbox_id a) ev now uuid). record_key r \<notin> record_key ` set (ps_outbox st)) \<and> ps_runs st2 = ps_runs st"
  proof (cases ev)
    case None
    then show ?thesis using e by (auto simp: advanced_def event_records_def)
  next
    case (Some e')
    then show ?thesis using e row f by (auto simp: enqueue_Inr Let_def advanced_def event_records_def)
  qed
  then show "ps_actions st' = map (\<lambda>x. if key_of x = k then advanced target f ev now uuid x else x) (ps_actions st)"
    "ps_outbox st' = ps_outbox st @ event_records k (pa_last_outbox_id a) ev now uuid" "ps_runs st' = ps_runs st"
    "\<And>r. r \<in> set (event_records k (pa_last_outbox_id a) ev now uuid) \<Longrightarrow> record_key r \<notin> record_key ` set (ps_outbox st)"
    using st' by auto
  have "key_of (advanced target f ev now uuid x) = key_of x" for x
    by (simp add: advanced_def f split: option.split)
  then have "action_row k st' = Some (advanced target f ev now uuid a)"
    using * st' assms(2) by (simp add: action_row_def find_map_if)
  then show "a' = advanced target f ev now uuid a" "action_row k st' = Some a'" using st' by simp_all
qed

section \<open>The abstract machine\<close>

definition allowed_action :: "platform_action \<Rightarrow> bool" where
  "allowed_action a = (case pa_gate_decision a of None \<Rightarrow> False | Some d \<Rightarrow> ge_decision d = ALLOW)"

text \<open>How far the evidence of an action has got in each state: what must be there, and what cannot be there yet.\<close>

definition evidence_ok :: "platform_action \<Rightarrow> bool" where
  "evidence_ok a = (let s = pa_state a in
     (s \<in> {AUTHORIZED_ACTION, CAPABILITY_READY, MONITORING, EXECUTING, VERIFYING, COMPLETED} \<longrightarrow> allowed_action a)
     \<and> (s \<in> {CAPABILITY_READY, MONITORING, EXECUTING, VERIFYING, COMPLETED} \<longrightarrow> pa_capability_id a \<noteq> None)
     \<and> (s \<in> {MONITORING, EXECUTING, VERIFYING, COMPLETED} \<longrightarrow> pa_sentinel_session_id a \<noteq> None)
     \<and> (s \<in> {VERIFYING, COMPLETED} \<longrightarrow> pa_execution_id a \<noteq> None \<and> pa_result_hash a \<noteq> None)
     \<and> (s = COMPLETED \<longrightarrow> pq_requires_verification (pa_request a) \<longrightarrow> pa_vad_final_state a = Some ''ACCEPTED'')
     \<and> (s \<in> {RECEIVED, AUTHORIZING, BLOCKED_ACTION, HELD_ACTION, AUTHORIZED_ACTION} \<longrightarrow> pa_capability_id a = None)
     \<and> (s \<in> {RECEIVED, AUTHORIZING, BLOCKED_ACTION, HELD_ACTION, AUTHORIZED_ACTION, CAPABILITY_READY} \<longrightarrow> pa_sentinel_session_id a = None)
     \<and> (s \<notin> {VERIFYING, COMPLETED, FAILED_ACTION, INDETERMINATE_ACTION} \<longrightarrow> pa_execution_id a = None \<and> pa_result_hash a = None)
     \<and> (s \<notin> {COMPLETED, FAILED_ACTION, INDETERMINATE_ACTION} \<longrightarrow> pa_vad_final_state a = None)
     \<and> (pa_capability_id a \<noteq> None \<longrightarrow> allowed_action a) \<and> (pa_sentinel_session_id a \<noteq> None \<longrightarrow> pa_capability_id a \<noteq> None)
     \<and> (pa_execution_id a \<noteq> None \<longrightarrow> pa_sentinel_session_id a \<noteq> None) \<and> (pa_vad_final_state a \<noteq> None \<longrightarrow> pa_execution_id a \<noteq> None))"

definition written_once :: "'a option \<Rightarrow> 'a option \<Rightarrow> bool" where
  "written_once x y = (x = None \<or> y = x)"

definition same_identity :: "platform_action \<Rightarrow> platform_action \<Rightarrow> bool" where
  "same_identity a b = (pa_tenant_id b = pa_tenant_id a \<and> pa_id b = pa_id a \<and> pa_request b = pa_request a
     \<and> pa_canonical_request b = pa_canonical_request a \<and> pa_correlation_id b = pa_correlation_id a \<and> pa_created_at b = pa_created_at a
     \<and> pa_created_by b = pa_created_by a \<and> pa_input_hash b = pa_input_hash a)"

text \<open>One move of an action; \<open>G\<close>: the decisions it may be given.\<close>

definition action_move :: "(platform_action \<Rightarrow> gate_decision_evidence \<Rightarrow> bool) \<Rightarrow> platform_action \<Rightarrow> platform_action \<Rightarrow> bool" where
  "action_move G a b = (same_identity a b \<and> isAllowedTransition (pa_state a) (pa_state b) \<and> pa_state_version b = pa_state_version a + 1
     \<and> (evidence_ok a \<longrightarrow> evidence_ok b \<and> written_once (pa_capability_id a) (pa_capability_id b)
        \<and> written_once (pa_sentinel_session_id a) (pa_sentinel_session_id b) \<and> written_once (pa_execution_id a) (pa_execution_id b)
        \<and> written_once (pa_result_hash a) (pa_result_hash b) \<and> written_once (pa_vad_final_state a) (pa_vad_final_state b))
     \<and> (\<forall>d. pa_gate_decision b = Some d \<longrightarrow> pa_gate_decision a = Some d \<or> G a d))"

definition same_event :: "outbox_record \<Rightarrow> outbox_record \<Rightarrow> bool" where
  "same_event r q = (ox_outbox_id q = ox_outbox_id r \<and> ox_tenant_id q = ox_tenant_id r \<and> ox_platform_action_id q = ox_platform_action_id r
     \<and> ox_event_type q = ox_event_type r \<and> ox_payload q = ox_payload r \<and> ox_created_at q = ox_created_at r)"

definition settled :: "outbox_record \<Rightarrow> bool" where
  "settled r = (ox_status r \<in> {OB_DELIVERED, OB_DEAD_LETTER})"

text \<open>One change of a record; \<open>D\<close>: the records whose delivery may be noted.\<close>

definition record_move :: "(outbox_record \<Rightarrow> bool) \<Rightarrow> outbox_record \<Rightarrow> outbox_record \<Rightarrow> bool" where
  "record_move D r q = (same_event r q \<and> (settled r \<longrightarrow> q = r) \<and> (ox_status q = OB_DELIVERED \<longrightarrow> ox_status r = OB_DELIVERED \<or> D r))"

definition event_ok :: "event \<Rightarrow> bool" where
  "event_ok ev = (map_of (snd ev) ''causation_event_id'' = None
     \<and> (fst ev \<in> fst ` set direct_event_types \<or> fst ev = ''PLATFORM_ACTION_STATE_CHANGED''
        \<and> map_of (snd ev) ''to_state'' = Some (JStr ''AUTHORIZING'')))"

inductive store_change :: "(platform_action \<Rightarrow> gate_decision_evidence \<Rightarrow> bool) \<Rightarrow> (outbox_record \<Rightarrow> bool) \<Rightarrow> platform_store \<Rightarrow> platform_store \<Rightarrow> bool"
  for G D where
  sc_outbox: "ps_actions st' = ps_actions st \<Longrightarrow> ps_outbox st' = map h (ps_outbox st) \<Longrightarrow> (\<And>r. r \<in> set (ps_outbox st) \<Longrightarrow> record_move D r (h r))
    \<Longrightarrow> store_change G D st st'"
| sc_new: "key_of a \<notin> key_of ` set (ps_actions st) \<Longrightarrow> ps_actions st' = ps_actions st @ [a] \<Longrightarrow> pa_state a = RECEIVED \<Longrightarrow> evidence_ok a
    \<Longrightarrow> pa_gate_decision a = None \<Longrightarrow> pa_id a \<noteq> [] \<Longrightarrow> event_ok ev \<Longrightarrow> r = event_record (key_of a) None ev now uuid
    \<Longrightarrow> record_key r \<notin> record_key ` set (ps_outbox st) \<Longrightarrow> ps_outbox st' = ps_outbox st @ [r] \<Longrightarrow> pa_last_outbox_id a = Some (ox_outbox_id r)
    \<Longrightarrow> store_change G D st st'"
| sc_move: "a \<in> set (ps_actions st) \<Longrightarrow> action_move G a b \<Longrightarrow> ps_actions st' = map (\<lambda>x. if key_of x = key_of a then b else x) (ps_actions st)
    \<Longrightarrow> ps_outbox st' = ps_outbox st \<Longrightarrow> pa_last_outbox_id b = pa_last_outbox_id a \<Longrightarrow> store_change G D st st'"
| sc_event: "a \<in> set (ps_actions st) \<Longrightarrow> action_move G a b \<Longrightarrow> ps_actions st' = map (\<lambda>x. if key_of x = key_of a then b else x) (ps_actions st)
    \<Longrightarrow> event_ok ev \<Longrightarrow> r = event_record (key_of a) (pa_last_outbox_id a) ev now uuid \<Longrightarrow> record_key r \<notin> record_key ` set (ps_outbox st)
    \<Longrightarrow> ps_outbox st' = ps_outbox st @ [r] \<Longrightarrow> pa_last_outbox_id b = Some (ox_outbox_id r) \<Longrightarrow> store_change G D st st'"

definition distinct_actions :: "platform_store \<Rightarrow> bool" where
  "distinct_actions st = distinct (map key_of (ps_actions st))"

lemma action_move_last [simp]: "action_move G a (b\<lparr>pa_last_outbox_id := x\<rparr>) = action_move G a b"
  by (simp add: action_move_def same_identity_def evidence_ok_def allowed_action_def Let_def)

lemma distinct_row: "distinct_actions st \<Longrightarrow> a \<in> set (ps_actions st) \<Longrightarrow> x \<in> set (ps_actions st) \<Longrightarrow> key_of x = key_of a \<Longrightarrow> x = a"
  unfolding distinct_actions_def distinct_map by (auto dest: inj_onD)

lemma row_of_member: "distinct_actions st \<Longrightarrow> a \<in> set (ps_actions st) \<Longrightarrow> action_row (key_of a) st = Some a"
  by (cases "action_row (key_of a) st")
    (auto simp: action_row_def find_None_iff dest: distinct_row find_SomeD)

lemma advance_change:
  assumes "advance k target f ev now uuid st = Inr (st', b)" "action_row k st = Some a" "distinct_actions st"
    and f: "\<And>x. key_of (f x) = key_of x" "\<And>x. pa_last_outbox_id (f x) = pa_last_outbox_id x"
    and move: "action_move G a (f (set_state target now a))" and ev: "\<And>e. ev = Some e \<Longrightarrow> event_ok e"
  shows "store_change G D st st'"
proof -
  note adv = advance_Inr [OF assms(1,2) f]
  have a: "a \<in> set (ps_actions st)" "key_of a = k" using action_row_Some [OF assms(2)] by simp_all
  have b: "b = advanced target f ev now uuid a" by (rule adv(5))
  have move': "action_move G a b" unfolding b advanced_def using move by (simp split: option.split)
  have acts: "ps_actions st' = map (\<lambda>x. if key_of x = key_of a then b else x) (ps_actions st)"
  proof -
    have "x = a" if "x \<in> set (ps_actions st)" "key_of x = k" for x
      using distinct_row [OF assms(3) a(1) that(1)] that(2) a(2) by simp
    then show ?thesis unfolding adv(1) b a(2) by (intro map_cong) auto
  qed
  show ?thesis
  proof (cases ev)
    case None
    then show ?thesis using adv(2) f b by (intro sc_move [OF a(1) move' acts]) (simp_all add: event_records_def advanced_def)
  next
    case (Some e)
    let ?r = "event_record (key_of a) (pa_last_outbox_id a) e now uuid"
    have "pa_last_outbox_id b = Some (ox_outbox_id ?r)"
      using b Some by (simp add: advanced_def event_record_def newOutboxRecord_def)
    moreover have "record_key ?r \<notin> record_key ` set (ps_outbox st)" "ps_outbox st' = ps_outbox st @ [?r]"
      using adv(2,3) a(2) Some by (simp_all add: event_records_def)
    ultimately show ?thesis using ev [OF Some] by (intro sc_event [OF a(1) move' acts _ refl])
  qed
qed

lemma store_change_runs:
  assumes "store_change G D st st'" "ps_actions u = ps_actions st" "ps_outbox u = ps_outbox st"
    "ps_actions u' = ps_actions st'" "ps_outbox u' = ps_outbox st'"
  shows "store_change G D u u'"
  using assms(1)
proof cases
  case (sc_outbox h)
  then show ?thesis using assms by (intro store_change.sc_outbox [where h = h]) simp_all
next
  case (sc_new a ev r now uuid)
  then show ?thesis using assms by (intro store_change.sc_new [where a = a and ev = ev and now = now and uuid = uuid and r = r]) simp_all
next
  case (sc_move a b)
  then show ?thesis using assms by (intro store_change.sc_move [where a = a and b = b]) simp_all
next
  case (sc_event a b ev r now uuid)
  then show ?thesis using assms by (intro store_change.sc_event [where a = a and b = b and ev = ev and now = now and uuid = uuid and r = r]) simp_all
qed

lemma record_move_refl [simp]: "record_move D r r"
  by (simp add: record_move_def same_event_def)

lemma store_change_refl: "ps_actions st' = ps_actions st \<Longrightarrow> ps_outbox st' = ps_outbox st \<Longrightarrow> store_change G D st st'"
  by (rule sc_outbox [where h = id]) simp_all

section \<open>Every operation is a change\<close>

lemma event_ok_direct: "map_of kvs ''causation_event_id'' = None \<Longrightarrow> ty \<in> fst ` set direct_event_types \<Longrightarrow> event_ok (ty, kvs)"
  by (simp add: event_ok_def)

lemma move_fields_causation [simp]: "map_of (move_fields a t) ''causation_event_id'' = None"
  "map_of (move_fields a t) ''to_state'' = Some (JStr (action_state_name t))"
  by (simp_all add: move_fields_def)

lemmas move_defs = action_move_def evidence_ok_def same_identity_def set_state_def allowed_action_def written_once_def isAllowedTransition_def Let_def

lemma set_state_fields [simp]:
  "pa_request (set_state t now a) = pa_request a" "pa_gate_decision (set_state t now a) = pa_gate_decision a"
  "pa_capability_id (set_state t now a) = pa_capability_id a" "pa_sentinel_session_id (set_state t now a) = pa_sentinel_session_id a"
  "pa_execution_id (set_state t now a) = pa_execution_id a" "pa_result_hash (set_state t now a) = pa_result_hash a"
  "pa_vad_final_state (set_state t now a) = pa_vad_final_state a" "same_identity a (set_state t now a)"
  by (simp_all add: set_state_def same_identity_def)

lemma move_plain:
  assumes "pa_state a \<in> {RECEIVED, HELD_ACTION}"
  shows "action_move G a (set_state AUTHORIZING now a)"
  using assms by (cases "pa_state a") (simp_all add: move_defs)

lemma move_stop: "pa_state a = HELD_ACTION \<Longrightarrow> action_move G a (set_state TERMINATED_ACTION now a)"
  by (simp add: move_defs)

lemma move_gate: "pa_state a = AUTHORIZING \<Longrightarrow> G a d \<Longrightarrow> action_move G a ((set_state (fst (gate_target (ge_decision d))) now a)\<lparr>pa_gate_decision := Some d\<rparr>)"
  by (cases "ge_decision d") (simp_all add: move_defs gate_target_def)

lemma move_capability: "pa_state a = AUTHORIZED_ACTION \<Longrightarrow> action_move G a ((set_state CAPABILITY_READY now a)\<lparr>pa_capability_id := Some c\<rparr>)"
  by (simp add: move_defs)

lemma move_session: "pa_state a = CAPABILITY_READY \<Longrightarrow> action_move G a ((set_state MONITORING now a)\<lparr>pa_sentinel_session_id := Some c\<rparr>)"
  by (simp add: move_defs)

lemma move_claim: "pa_state a = MONITORING \<Longrightarrow> action_move G a (set_state EXECUTING now a)"
  by (simp add: move_defs)

lemma move_lost: "pa_state a = EXECUTING \<Longrightarrow> action_move G a (set_state INDETERMINATE_ACTION now a)"
  by (simp add: move_defs)

lemma move_result:
  assumes "pa_state a = EXECUTING" "target = VERIFYING \<or> target = COMPLETED \<and> \<not> pq_requires_verification (pa_request a)"
  shows "action_move G a ((set_state target now a)\<lparr>pa_execution_id := Some e, pa_result_hash := Some h\<rparr>)"
  using assms by (elim disjE) (simp_all add: move_defs)

lemma move_verdict:
  assumes "pa_state a = VERIFYING" "target \<in> {COMPLETED, FAILED_ACTION, INDETERMINATE_ACTION}" "target = COMPLETED \<Longrightarrow> v = ''ACCEPTED''"
  shows "action_move G a ((set_state target now a)\<lparr>pa_vad_atom_id := Some i, pa_vad_final_state := Some v, pa_error_code := c\<rparr>)"
  using assms by (auto simp: move_defs)

lemma move_failure:
  assumes "isAllowedTransition (pa_state a) target" "target \<in> {FAILED_ACTION, TERMINATED_ACTION, INDETERMINATE_ACTION}"
  shows "action_move G a ((set_state target now a)\<lparr>pa_error_code := Some c, pa_error_message := Some m\<rparr>)"
  using assms by (cases "pa_state a") (auto simp: move_defs)

text \<open>The operations of the store, each as one change.\<close>

lemma find_append_None: "find P xs = None \<Longrightarrow> find P (xs @ ys) = find P ys"
  by (induction xs) (auto split: if_splits)

lemma createOrReturn_change:
  assumes "createOrReturn sha raw by u1 u2 ob now st = Inr (st', a)" "distinct_actions st"
  shows "store_change G D st st'"
proof -
  obtain r where r: "validatePlatformActionRequestInput raw = Inr r"
    using assms(1) by (auto simp: createOrReturn_def rbind_eq_Inr)
  let ?a = "new_action sha r (newPlatformActionId u1) (newCorrelationId u2) by now"
  let ?st = "st\<lparr>ps_actions := ps_actions st @ [?a]\<rparr>"
  show ?thesis
  proof (cases "st' = st")
    case True then show ?thesis by (simp add: store_change_refl)
  next
    case False
    then have none: "action_row (key_of ?a) st = None"
      and e: "\<exists>ev. event_ok ev \<and> enqueue (key_of ?a) ev now ob ?st = Inr st'"
      using assms(1) r by (auto simp: createOrReturn_def Let_def rbind_eq_Inr intro!: event_ok_direct exI split: option.splits if_splits)
        (auto simp: direct_event_types_def)
    obtain ev where ev: "event_ok ev" "enqueue (key_of ?a) ev now ob ?st = Inr st'" using e by blast
    have fresh: "key_of ?a \<notin> key_of ` set (ps_actions st)" using none by (auto simp: action_row_def find_None_iff)
    have row: "action_row (key_of ?a) ?st = Some ?a"
      using none by (simp add: action_row_def find_append_None)
    let ?r = "event_record (key_of ?a) None ev now ob"
    have last: "pa_last_outbox_id ?a = None" by (simp add: new_action_def)
    from ev(2) have st': "record_key ?r \<notin> record_key ` set (ps_outbox st)" "ps_outbox st' = ps_outbox st @ [?r]"
      "ps_actions st' = map (\<lambda>x. if key_of x = key_of ?a then x\<lparr>pa_last_outbox_id := Some (''ob_'' @ ob)\<rparr> else x) (ps_actions st @ [?a])"
      by (auto simp: enqueue_Inr row last Let_def)
    have "ps_actions st' = ps_actions st @ [?a\<lparr>pa_last_outbox_id := Some (''ob_'' @ ob)\<rparr>]"
      unfolding st'(3) map_append using fresh by (auto intro!: map_idI simp: image_iff)
    then show ?thesis
      by (rule sc_new [where r = ?r and ev = ev and now = now and uuid = ob, rotated])
        (use fresh ev(1) st' in \<open>simp_all add: new_action_def newPlatformActionId_def evidence_ok_def allowed_action_def event_record_def newOutboxRecord_def key_of_def\<close>)
  qed
qed

lemma transition_change:
  assumes "transition t i v target ty True now ob st = Inr (st', b)" "distinct_actions st"
    and "\<And>a. action_row (t, i) st = Some a \<Longrightarrow> action_move G a (set_state target now a) \<and> event_ok (ty, move_fields a target)"
  shows "store_change G D st st'"
proof -
  obtain a where a: "action_row (t, i) st = Some a" "advance (t, i) target id (Some (ty, move_fields a target)) now ob st = Inr (st', b)"
    using assms(1) by (auto simp: transition_def rbind_eq_Inr split: if_splits)
  show ?thesis by (rule advance_change [OF a(2,1) assms(2)]) (use assms(3) [OF a(1)] in auto)
qed

lemma gate_target_mapped: "snd (gate_target x) \<in> fst ` set direct_event_types"
  by (cases x) (simp_all add: gate_target_def direct_event_types_def)

lemma recordGateDecision_change:
  assumes "recordGateDecision t i v d now ob st = Inr (st', b)" "distinct_actions st"
    and "\<And>a. action_row (t, i) st = Some a \<Longrightarrow> G a d"
  shows "store_change G D st st'"
proof -
  obtain a where a: "action_row (t, i) st = Some a" "pa_state a = AUTHORIZING"
    and adv: "advance (t, i) (fst (gate_target (ge_decision d))) (\<lambda>x. x\<lparr>pa_gate_decision := Some d\<rparr>)
      (Some (snd (gate_target (ge_decision d)), move_fields a (fst (gate_target (ge_decision d))) @ [(''gate_decision'', gate_decision_json d)])) now ob st = Inr (st', b)"
    using assms(1) by (cases "gate_target (ge_decision d)") (auto simp: recordGateDecision_def rbind_eq_Inr awaiting_Inr)
  show ?thesis
    by (rule advance_change [OF adv a(1) assms(2) _ _ move_gate [of a G d, OF a(2) assms(3) [OF a(1)]]])
      (auto intro!: event_ok_direct gate_target_mapped simp: map_add_def)
qed

lemma recordCapability_change:
  assumes "recordCapability t i v c now st = Inr (st', b)" "distinct_actions st"
  shows "store_change G D st st'"
proof -
  obtain a where a: "action_row (t, i) st = Some a" "pa_state a = AUTHORIZED_ACTION"
    "advance (t, i) CAPABILITY_READY (\<lambda>x. x\<lparr>pa_capability_id := Some c\<rparr>) None now [] st = Inr (st', b)"
    using assms(1) by (auto simp: recordCapability_def rbind_eq_Inr awaiting_Inr)
  show ?thesis by (rule advance_change [OF a(3,1) assms(2) _ _ move_capability [OF a(2)]]) simp_all
qed

lemma recordSentinelSession_change:
  assumes "recordSentinelSession t i v c now st = Inr (st', b)" "distinct_actions st"
  shows "store_change G D st st'"
proof -
  obtain a where a: "action_row (t, i) st = Some a" "pa_state a = CAPABILITY_READY"
    "advance (t, i) MONITORING (\<lambda>x. x\<lparr>pa_sentinel_session_id := Some c\<rparr>) None now [] st = Inr (st', b)"
    using assms(1) by (auto simp: recordSentinelSession_def rbind_eq_Inr awaiting_Inr)
  show ?thesis by (rule advance_change [OF a(3,1) assms(2) _ _ move_session [OF a(2)]]) simp_all
qed

lemma recordExecutionResult_change:
  assumes "recordExecutionResult t i v e target ty now ob st = Inr (st', b)" "distinct_actions st" "ty \<in> fst ` set direct_event_types"
    and "\<And>a. action_row (t, i) st = Some a \<Longrightarrow> target = VERIFYING \<or> target = COMPLETED \<and> \<not> pq_requires_verification (pa_request a)"
  shows "store_change G D st st'"
proof -
  let ?fs = "\<lambda>a. move_fields a target @ [(''execution'', JObj [(''execution_id'', JStr (fst e)), (''result_hash'', JStr (snd e))])]"
  obtain a where a: "action_row (t, i) st = Some a" "pa_state a = EXECUTING"
    and adv: "advance (t, i) target (\<lambda>x. x\<lparr>pa_execution_id := Some (fst e), pa_result_hash := Some (snd e)\<rparr>) (Some (ty, ?fs a)) now ob st = Inr (st', b)"
    using assms(1) by (auto simp: recordExecutionResult_def rbind_eq_Inr awaiting_Inr split: if_splits)
  show ?thesis
    by (rule advance_change [OF adv a(1) assms(2) _ _ move_result [OF a(2) assms(4) [OF a(1)]]])
      (use assms(3) in \<open>auto intro!: event_ok_direct simp: map_add_def\<close>)
qed

lemma recordVerificationResult_change:
  assumes "recordVerificationResult t i v e target c now ob st = Inr (st', b)" "distinct_actions st"
    and "target \<in> {COMPLETED, FAILED_ACTION, INDETERMINATE_ACTION}" "target = COMPLETED \<Longrightarrow> snd e = ''ACCEPTED''"
  shows "store_change G D st st'"
proof -
  let ?fs = "\<lambda>a. move_fields a target @ [(''verification'', JObj [(''vad_atom_id'', JStr (fst e)), (''vad_final_state'', JStr (snd e))])]"
  obtain a where a: "action_row (t, i) st = Some a" "pa_state a = VERIFYING"
    and adv: "advance (t, i) target (\<lambda>x. x\<lparr>pa_vad_atom_id := Some (fst e), pa_vad_final_state := Some (snd e), pa_error_code := c\<rparr>)
      (Some (''PLATFORM_VERIFICATION_COMPLETED'', ?fs a)) now ob st = Inr (st', b)"
    using assms(1) by (auto simp: recordVerificationResult_def rbind_eq_Inr awaiting_Inr)
  show ?thesis
    by (rule advance_change [OF adv a(1) assms(2) _ _ move_verdict [OF a(2) assms(3,4)]])
      (auto intro!: event_ok_direct simp: direct_event_types_def map_add_def)
qed

lemma recordFailure_change:
  assumes "recordFailure t i v s target c m now ob st = Inr (st', b)" "distinct_actions st"
    and "target \<in> {FAILED_ACTION, TERMINATED_ACTION, INDETERMINATE_ACTION}"
  shows "store_change G D st st'"
proof -
  let ?fs = "\<lambda>a. move_fields a target @ [(''error_code'', JStr c), (''error_message'', JStr m)]"
  obtain a where a: "action_row (t, i) st = Some a" "isAllowedTransition (pa_state a) target"
    and adv: "advance (t, i) target (\<lambda>x. x\<lparr>pa_error_code := Some c, pa_error_message := Some m\<rparr>)
      (Some (failure_event target, ?fs a)) now ob st = Inr (st', b)"
    using assms(1) by (auto simp: recordFailure_def rbind_eq_Inr awaiting_Inr split: if_splits)
  show ?thesis
    by (rule advance_change [OF adv a(1) assms(2) _ _ move_failure [OF a(2) assms(3)]])
      (auto intro!: event_ok_direct simp: direct_event_types_def map_add_def failure_event_def)
qed

lemma claimExecution_change:
  assumes "claimExecution t i v exec now ob st = Inr (st', run)" "distinct_actions st"
  shows "store_change G D st st'"
proof -
  define u where "u = st\<lparr>ps_runs := ps_runs st @ [\<lparr>pn_execution_id = exec, pn_tenant_id = t, pn_action_id = i, pn_status = RUN_CLAIMED, pn_claimed_at = now, pn_finished_at = None\<rparr>]\<rparr>"
  obtain a b where a: "action_row (t, i) st = Some a" "pa_state a = MONITORING"
    and adv: "advance (t, i) EXECUTING id (Some (''PLATFORM_EXECUTION_CLAIMED'', claimed_fields a exec)) now ob u = Inr (st', b)"
    using assms(1) by (auto simp: claimExecution_def rbind_eq_Inr awaiting_Inr Let_def u_def split: if_splits)
  have row: "action_row (t, i) u = Some a" "distinct_actions u" using a(1) assms(2) by (simp_all add: u_def action_row_def distinct_actions_def)
  have "store_change G D u st'"
    by (rule advance_change [OF adv row]) (use move_claim [OF a(2)] in \<open>auto intro!: event_ok_direct simp: direct_event_types_def claimed_fields_def\<close>)
  then show ?thesis by (rule store_change_runs) (simp_all add: u_def)
qed

section \<open>Recovery, leases and settlement\<close>

lemma store_change_distinct: "store_change G D st st' \<Longrightarrow> distinct_actions st \<Longrightarrow> distinct_actions st'"
  by (induction rule: store_change.induct)
    (auto simp: distinct_actions_def action_move_def same_identity_def key_of_def comp_def if_distrib cong: if_cong intro: back_subst [of distinct])

lemma changes_distinct: "(store_change G D)\<^sup>*\<^sup>* st st' \<Longrightarrow> distinct_actions st \<Longrightarrow> distinct_actions st'"
  by (induction rule: rtranclp_induct) (auto intro: store_change_distinct)

lemma recover_row_change:
  assumes "recover_row now ob a st = Inr st'" "distinct_actions st" "a \<in> set (ps_actions st)" "pa_state a = EXECUTING"
  shows "store_change G D st st'"
    "\<And>x. x \<in> set (ps_actions st) \<Longrightarrow> key_of x \<noteq> key_of a \<Longrightarrow> x \<in> set (ps_actions st')"
proof -
  let ?k = "key_of a"
  let ?ev = "(''PLATFORM_EXECUTION_INDETERMINATE_RECOVERY'', [(''platform_action_id'', JStr (pa_id a)), (''correlation_id'', JStr (pa_correlation_id a)),
        (''prior_state'', JStr ''EXECUTING''), (''state'', JStr ''INDETERMINATE'')])"
  let ?f = "\<lambda>x. if pa_state x = EXECUTING then set_state INDETERMINATE_ACTION now x else x"
  let ?b = "(set_state INDETERMINATE_ACTION now a)\<lparr>pa_last_outbox_id := Some (''ob_'' @ ob)\<rparr>"
  let ?r = "event_record ?k (pa_last_outbox_id a) ?ev now ob"
  let ?runs = "map (\<lambda>r. if pn_tenant_id r = fst ?k \<and> pn_action_id r = snd ?k \<and> pn_status r = RUN_CLAIMED
    then r\<lparr>pn_status := RUN_INDETERMINATE, pn_finished_at := Some now\<rparr> else r) (ps_runs st)"
  define st2 where "st2 = (put_action ?k ?f st)\<lparr>ps_runs := ?runs\<rparr>"
  have st2: "ps_actions st2 = ps_actions (put_action ?k ?f st)" "ps_outbox st2 = ps_outbox st" "enqueue ?k ?ev now ob st2 = Inr st'"
    using assms(1) by (simp_all add: st2_def recover_row_def Let_def)
  have row: "action_row ?k st2 = Some (set_state INDETERMINATE_ACTION now a)"
    using row_of_member [OF assms(2,3)] assms(4) action_row_cong [OF st2(1), of ?k] action_row_put [of ?f ?k ?k st] by simp
  have r: "record_key ?r \<notin> record_key ` set (ps_outbox st)" "ps_outbox st' = ps_outbox st @ [?r]"
    and acts: "ps_actions st' = map (\<lambda>x. if key_of x = ?k then x\<lparr>pa_last_outbox_id := Some (''ob_'' @ ob)\<rparr> else x) (ps_actions st2)"
    using st2(2,3) by (auto simp: enqueue_Inr row Let_def)
  have "ps_actions st' = map (\<lambda>x. if key_of x = ?k then ?b else x) (ps_actions st)"
    unfolding acts st2(1) using distinct_row [OF assms(2,3)] assms(4) by (auto intro!: map_cong)
  then show "store_change G D st st'"
    using r move_lost [OF assms(4)]
    by (intro sc_event [where r = ?r and ev = ?ev and now = now and uuid = ob and b = ?b, OF assms(3)])
      (auto intro!: event_ok_direct simp: direct_event_types_def event_record_def newOutboxRecord_def)
  show "x \<in> set (ps_actions st')" if "x \<in> set (ps_actions st)" "key_of x \<noteq> ?k" for x
    using that unfolding acts st2(1) by force
qed

lemma recover_rows_changes:
  assumes "recover_rows now ids as st = Inr st'" "distinct_actions st" "distinct (map key_of as)"
    "\<And>a. a \<in> set as \<Longrightarrow> a \<in> set (ps_actions st) \<and> pa_state a = EXECUTING"
  shows "(store_change G D)\<^sup>*\<^sup>* st st'"
  using assms
proof (induction as arbitrary: st)
  case (Cons a as)
  obtain u where u: "recover_row now (ids (length as)) a st = Inr u" "recover_rows now ids as u = Inr st'"
    using Cons.prems(1) by (auto simp: rbind_eq_Inr)
  have a: "a \<in> set (ps_actions st)" "pa_state a = EXECUTING" using Cons.prems(4) [of a] by simp_all
  note step = recover_row_change [OF u(1) Cons.prems(2) a]
  have c: "store_change G D st u" by (rule step(1))
  have "x \<in> set (ps_actions u) \<and> pa_state x = EXECUTING" if x: "x \<in> set as" for x
  proof -
    have "key_of x \<in> set (map key_of as)" using x by simp
    then have "key_of x \<noteq> key_of a" using Cons.prems(3) by auto
    then show ?thesis using step(2) [of x] Cons.prems(4) [of x] x by simp
  qed
  then have "(store_change G D)\<^sup>*\<^sup>* u st'"
    using Cons.IH [OF u(2) store_change_distinct [OF c Cons.prems(2)]] Cons.prems(3) by simp
  then show ?case using c by simp
qed simp

lemma record_move_requeue: "record_move D r (requeue now r)"
  by (simp add: record_move_def requeue_def same_event_def settled_def)

lemma recover_changes:
  assumes "recoverInterruptedWork now ids st = Inr st'" "distinct_actions st"
  shows "(store_change G D)\<^sup>*\<^sup>* st st'"
proof -
  obtain u where u: "recover_rows now ids (filter (\<lambda>a. pa_state a = EXECUTING) (ps_actions st)) st = Inr u"
    and st': "st' = u\<lparr>ps_outbox := map (requeue now) (ps_outbox u)\<rparr>"
    using assms(1) by (auto simp: recoverInterruptedWork_def rbind_eq_Inr)
  have "(store_change G D)\<^sup>*\<^sup>* st u"
    by (rule recover_rows_changes [OF u assms(2)]) (use assms(2) in \<open>auto simp: distinct_actions_def distinct_map_filter\<close>)
  moreover have "store_change G D u st'"
    by (rule sc_outbox [where h = "requeue now"]) (simp_all add: st' record_move_requeue)
  ultimately show ?thesis by simp
qed

lemma put_record_change:
  assumes "\<And>r. r \<in> set (ps_outbox st) \<Longrightarrow> record_key r = k \<Longrightarrow> record_move D r (f r)"
  shows "store_change G D st (put_record k f st)"
  by (rule sc_outbox [where h = "\<lambda>r. if record_key r = k then f r else r"]) (use assms in \<open>auto simp: put_record_def\<close>)

lemma eligible_open: "eligible now r \<Longrightarrow> \<not> settled r"
  by (auto simp: eligible_def settled_def)

lemma claimNext_change:
  assumes "claimNext now owner lease token st = (st', r)"
  shows "store_change G D st st'"
proof (cases "find (eligible (to_iso now)) (ps_outbox st)")
  case None
  then show ?thesis using assms by (simp add: claimNext_def store_change_refl)
next
  case (Some q)
  then have "\<not> settled q" by (auto dest: find_SomeD eligible_open)
  then show ?thesis
    using assms Some by (auto simp: claimNext_def Let_def record_move_def same_event_def settled_def stamp_claim_def intro!: put_record_change)
qed

lemma settle_change:
  assumes "settle m now r token answer st = (st', out)"
    and "\<And>x e. answer = Inr e \<Longrightarrow> e = outboxLedgerEventId (ox_outbox_id r) \<Longrightarrow> x \<in> set (ps_outbox st) \<Longrightarrow> record_key x = record_key r \<Longrightarrow> D x"
  shows "store_change G D st st'"
proof -
  have open_only: "record_move D x (if fenced token x then g x else x)"
    if "fenced token x \<Longrightarrow> same_event x (g x) \<and> (ox_status (g x) = OB_DELIVERED \<longrightarrow> D x)" for x g
    using that by (auto simp: record_move_def fenced_def settled_def same_event_def)
  have retry: "store_change G D st (markRetry i t token mm nx st)" and dead: "store_change G D st (markDeadLetter i t token mm st)" for i t mm nx
    unfolding markRetry_def markDeadLetter_def by (auto intro!: put_record_change open_only simp: same_event_def)
  show ?thesis
  proof (cases "\<exists>e. answer = Inr e \<and> e = outboxLedgerEventId (ox_outbox_id r)")
    case True
    then have "st' = put_record (ox_tenant_id r, ox_outbox_id r) (\<lambda>x. if fenced token x then x\<lparr>ox_status := OB_DELIVERED,
        ox_ledger_event_id := outboxLedgerEventId (ox_outbox_id r), ox_last_error := None, ox_claim_expires_at := None\<rparr> else x) st"
      using assms(1) by (auto simp: settle_def markDelivered_def Let_def)
    then show ?thesis
      using assms(2) True by (auto intro!: put_record_change open_only simp: same_event_def record_key_def)
  next
    case False
    then show ?thesis
      using assms(1) retry dead by (cases answer) (auto simp: settle_def Let_def split: if_splits)
  qed
qed

section \<open>The orchestrators\<close>

lemma event_ok_authorizing: "event_ok (''PLATFORM_ACTION_STATE_CHANGED'', move_fields a AUTHORIZING)"
  by (simp add: event_ok_def action_state_name_def)

lemma begin_authorizing_change:
  assumes "begin_authorizing a now ob st = Inr (st', b)" "distinct_actions st" "action_row (key_of a) st = Some a"
  shows "store_change G D st st'"
proof (cases "pa_state a = RECEIVED")
  case True
  then obtain c where "transition (pa_tenant_id a) (pa_id a) (pa_state_version a) AUTHORIZING ''PLATFORM_ACTION_STATE_CHANGED'' True now ob st = Inr (st', c)"
    using assms(1) by (auto simp: begin_authorizing_def rbind_eq_Inr split: if_splits)
  then show ?thesis
    by (rule transition_change) (use assms True in \<open>auto simp: key_of_def move_plain event_ok_authorizing\<close>)
next
  case False
  then show ?thesis using assms(1) by (auto simp: begin_authorizing_def store_change_refl split: if_splits)
qed

lemma control_resume_change:
  assumes "control_resume p i now ob st = Inr (st', b)" "distinct_actions st"
  shows "store_change G D st st'"
proof -
  obtain a where a: "action_row (pp_tenantId p, i) st = Some a" "pa_state a = HELD_ACTION"
    and t: "transition (pa_tenant_id a) i (pa_state_version a) AUTHORIZING ''PLATFORM_ACTION_STATE_CHANGED'' True now ob st = Inr (st', b)"
    using assms(1) by (auto simp: control_resume_def rbind_eq_Inr split: if_splits)
  have "pa_tenant_id a = pp_tenantId p" using action_row_Some [OF a(1)] by (simp add: key_of_def)
  with a show ?thesis
    by (intro transition_change [OF t assms(2)]) (simp add: move_plain event_ok_authorizing)
qed

lemma control_terminate_change:
  assumes "control_terminate p i reason now ob st = Inr (st', b)" "distinct_actions st"
  shows "store_change G D st st'"
proof -
  obtain a where a: "action_row (pp_tenantId p, i) st = Some a"
    and t: "if pa_state a = HELD_ACTION then transition (pa_tenant_id a) i (pa_state_version a) TERMINATED_ACTION ''PLATFORM_ACTION_TERMINATED'' True now ob st = Inr (st', b)
      else recordFailure (pa_tenant_id a) i (pa_state_version a) (pa_state a) TERMINATED_ACTION ''SENTINEL_TERMINATED'' reason now ob st = Inr (st', b)"
    using assms(1) by (auto simp: control_terminate_def rbind_eq_Inr split: if_splits)
  have key: "pa_tenant_id a = pp_tenantId p" using action_row_Some [OF a] by (simp add: key_of_def)
  show ?thesis
  proof (cases "pa_state a = HELD_ACTION")
    case True
    then show ?thesis using t a key
      by (intro transition_change [where target = TERMINATED_ACTION, OF _ assms(2)])
        (auto simp: move_stop intro!: event_ok_direct simp: direct_event_types_def)
  next
    case False
    then show ?thesis using t recordFailure_change [OF _ assms(2)] by simp
  qed
qed

lemma fail_running_change:
  assumes "fail_running k target code m run now ob st = (st', r)" "distinct_actions st"
    "target \<in> {FAILED_ACTION, TERMINATED_ACTION, INDETERMINATE_ACTION}"
  shows "store_change G D st st'"
proof (cases "recordFailure (rt_tenant k) (rt_action k) (rt_version k) EXECUTING target code m now ob st")
  case (Inl e)
  then show ?thesis using assms(1) by (auto simp: fail_running_def store_change_refl)
next
  case (Inr y)
  then obtain u b where u: "y = (u, b)" "store_change G D st u"
    using recordFailure_change [OF _ assms(2,3)] by (cases y) blast
  moreover have "ps_actions st' = ps_actions u" "ps_outbox st' = ps_outbox u"
    using assms(1) Inr u(1) by (auto simp: fail_running_def finish_quietly_def finishRun_def split: option.splits)
  ultimately show ?thesis by (auto intro: store_change_runs)
qed

lemma run_precheck_change:
  assumes "run_precheck sha k a verdict rules confirmed now ob st = (st', r)" "distinct_actions st"
  shows "store_change G D st st'"
  using assms(1) unfolding run_precheck_def
  by (auto simp: Let_def store_change_refl split: if_splits prod.splits intro: fail_running_change [OF _ assms(2)])

lemma run_redeem_failed_change:
  assumes "run_redeem_failed k e now ob st = (st', r)" "distinct_actions st"
  shows "store_change G D st st'"
  by (rule fail_running_change [OF assms(1) [unfolded run_redeem_failed_def Let_def] assms(2)]) simp

lemma run_record_change:
  assumes "run_record k a e now ob st = (st', r)" "distinct_actions st"
    and "\<And>x. action_row (rt_tenant k, rt_action k) st = Some x \<Longrightarrow> pa_request x = pa_request a"
  shows "store_change G D st st'"
proof -
  let ?target = "if pq_requires_verification (pa_request a) then VERIFYING else COMPLETED"
  let ?ty = "if pq_requires_verification (pa_request a) then ''PLATFORM_VERIFICATION_STARTED'' else ''PLATFORM_ACTION_COMPLETED''"
  show ?thesis
  proof (cases "recordExecutionResult (rt_tenant k) (rt_action k) (rt_version k) e ?target ?ty now ob st")
    case (Inl x)
    then show ?thesis using assms(1) by (auto simp: run_record_def store_change_refl split: if_splits)
  next
    case (Inr y)
    then obtain u b where u: "y = (u, b)" by (cases y)
    have "store_change G D st u"
      by (rule recordExecutionResult_change [OF Inr [unfolded u] assms(2)]) (use assms(3) in \<open>auto simp: direct_event_types_def\<close>)
    moreover have "ps_actions st' = ps_actions u" "ps_outbox st' = ps_outbox u"
      using assms(1) Inr u(1) by (auto simp: run_record_def finishRun_def split: if_splits)
    ultimately show ?thesis by (auto intro: store_change_runs)
  qed
qed

lemma run_verified_change:
  assumes "run_verified k v verdict now ob st = Inr (st', b)" "distinct_actions st"
  shows "store_change G D st st'"
proof -
  have rec: "store_change G D st st'"
    if "recordVerificationResult (rt_tenant k) (rt_action k) v e target c now ob st = Inr (st', b)"
      "target \<in> {COMPLETED, FAILED_ACTION, INDETERMINATE_ACTION}" "target = COMPLETED \<Longrightarrow> snd e = ''ACCEPTED''" for e target c
    by (rule recordVerificationResult_change [OF that(1) assms(2) that(2,3)])
  show ?thesis
  proof (cases verdict)
    case None
    then show ?thesis
      using assms(1) rec [of "(''none'', ''UNAVAILABLE'')" INDETERMINATE_ACTION] by (simp add: run_verified_def)
  next
    case (Some x)
    obtain atom f where x: "x = (atom, f)" by (cases x)
    show ?thesis
      using assms(1) Some x rec [of "(atom, vad_final_name f)" COMPLETED] rec [of "(atom, vad_final_name f)" FAILED_ACTION]
        rec [of "(atom, vad_final_name f)" INDETERMINATE_ACTION]
      by (cases f) (simp_all add: run_verified_def vad_final_name_def)
  qed
qed

lemma run_open_changes:
  assumes "run_open p i cap session exec now ob st = (st', r)" "distinct_actions st"
  shows "(store_change G D)\<^sup>*\<^sup>* st st'"
proof -
  note one = r_into_rtranclp [of "store_change G D"]
  have fail: "(store_change G D)\<^sup>*\<^sup>* st u'" if "(store_change G D)\<^sup>*\<^sup>* st u" "fail_at a v s t c m now ob u = (u', r :: (platform_error, run_ticket) res)" "t \<in> {FAILED_ACTION, INDETERMINATE_ACTION}" for u u' a v s t c m
    using that changes_distinct [OF that(1) assms(2)] recordFailure_change
    by (fastforce simp: fail_at_def split: sum.splits prod.splits intro: rtranclp.rtrancl_into_rtrancl)
  show ?thesis
  proof (cases "run_checks_of p i st")
    case (Inl e) then show ?thesis using assms(1) by (simp add: run_open_def)
  next
    case (Inr a)
    show ?thesis
    proof (cases cap)
      case (Inl m) then show ?thesis using assms(1) Inr fail [of st] by (simp add: run_open_def)
    next
      case cap: (Inr c)
      show ?thesis
      proof (cases "recordCapability (pa_tenant_id a) i (pa_state_version a) c now st")
        case (Inl e) then show ?thesis using assms(1) Inr cap by (simp add: run_open_def)
      next
        case c1: (Inr y1)
        obtain st1 a1 where y1: "y1 = (st1, a1)" by (cases y1)
        have r1: "(store_change G D)\<^sup>*\<^sup>* st st1" by (rule one [OF recordCapability_change [OF c1 [unfolded y1] assms(2)]])
        note d1 = changes_distinct [OF r1 assms(2)]
        show ?thesis
        proof (cases session)
          case (Inl m) then show ?thesis using assms(1) Inr cap c1 y1 fail [OF r1] by (simp add: run_open_def)
        next
          case s: (Inr sid)
          show ?thesis
          proof (cases "recordSentinelSession (pa_tenant_id a) i (pa_state_version a1) sid now st1")
            case (Inl e) then show ?thesis using assms(1) Inr cap c1 y1 s r1 by (simp add: run_open_def)
          next
            case c2: (Inr y2)
            obtain st2 a2 where y2: "y2 = (st2, a2)" by (cases y2)
            have r2: "(store_change G D)\<^sup>*\<^sup>* st st2"
              by (rule rtranclp.rtrancl_into_rtrancl [OF r1 recordSentinelSession_change [OF c2 [unfolded y2] d1]])
            note d2 = changes_distinct [OF r2 assms(2)]
            show ?thesis
            proof (cases "claimExecution (pa_tenant_id a) i (pa_state_version a2) exec now ob st2")
              case (Inl e) then show ?thesis using assms(1) Inr cap c1 y1 s c2 y2 r2 by (simp add: run_open_def)
            next
              case c3: (Inr y3)
              obtain st3 run where y3: "y3 = (st3, run)" by (cases y3)
              have "(store_change G D)\<^sup>*\<^sup>* st st3"
                by (rule rtranclp.rtrancl_into_rtrancl [OF r2 claimExecution_change [OF c3 [unfolded y3] d2]])
              moreover have "st' = st3" using assms(1) Inr cap c1 y1 s c2 y2 c3 y3 by (auto simp: run_open_def Let_def split: sum.splits)
              ultimately show ?thesis by simp
            qed
          qed
        qed
      qed
    qed
  qed
qed

section \<open>Invariants of the abstract machine\<close>

definition records_of :: "action_key \<Rightarrow> platform_store \<Rightarrow> outbox_record list" where
  "records_of k st = filter (\<lambda>r. (ox_tenant_id r, ox_platform_action_id r) = k) (ps_outbox st)"

text \<open>Each record names the one before it as its cause; the action remembers the last one.\<close>

definition cause_of :: "outbox_record \<Rightarrow> string option" where
  "cause_of r = jstr (jfield ''causation_event_id'' (ox_payload r))"

fun causally_linked :: "string option \<Rightarrow> outbox_record list \<Rightarrow> string option \<Rightarrow> bool" where
  "causally_linked p [] q = (q = p)"
| "causally_linked p (r # rs) q = (cause_of r = map_option outboxLedgerEventId p \<and> causally_linked (Some (ox_outbox_id r)) rs q)"

lemma causally_linked_snoc: "causally_linked p (rs @ [r]) q \<longleftrightarrow> (\<exists>m. causally_linked p rs m \<and> cause_of r = map_option outboxLedgerEventId m \<and> q = Some (ox_outbox_id r))"
  by (induction rs arbitrary: p) auto

definition mapped :: "outbox_record \<Rightarrow> bool" where
  "mapped r = (\<exists>t. eventType r = Inr t)"

definition store_inv :: "(platform_action \<Rightarrow> gate_decision_evidence \<Rightarrow> bool) \<Rightarrow> (outbox_record \<Rightarrow> bool) \<Rightarrow> platform_store \<Rightarrow> bool" where
  "store_inv G D st = (distinct_actions st \<and> distinct (map record_key (ps_outbox st))
     \<and> (\<forall>a \<in> set (ps_actions st). evidence_ok a \<and> pa_id a \<noteq> [] \<and> (\<forall>d. pa_gate_decision a = Some d \<longrightarrow> G a d)
         \<and> causally_linked None (records_of (key_of a) st) (pa_last_outbox_id a))
     \<and> (\<forall>r \<in> set (ps_outbox st). (ox_tenant_id r, ox_platform_action_id r) \<in> key_of ` set (ps_actions st)
         \<and> (\<exists>u. ox_outbox_id r = ''ob_'' @ u) \<and> (ox_status r = OB_DELIVERED \<longrightarrow> D r) \<and> mapped r))"

lemma event_record_facts [simp]:
  "ox_tenant_id (event_record k p ev now u) = fst k" "ox_platform_action_id (event_record k p ev now u) = snd k"
  "ox_outbox_id (event_record k p ev now u) = ''ob_'' @ u" "ox_status (event_record k p ev now u) = OB_PENDING"
  "ox_event_type (event_record k p ev now u) = fst ev" "ox_payload (event_record k p ev now u) = with_causation p (snd ev)"
  "record_key (event_record k p ev now u) = (fst k, ''ob_'' @ u)"
  by (simp_all add: event_record_def newOutboxRecord_def record_key_def)

lemma map_of_causation: "map_of (snd ev) k = None \<Longrightarrow> k = ''causation_event_id'' \<Longrightarrow> p \<noteq> Some [] \<Longrightarrow>
    jstr (jfield k (with_causation p (snd ev))) = map_option outboxLedgerEventId p"
  by (cases p) (auto simp: with_causation_def map_add_def)

lemma cause_event: "event_ok ev \<Longrightarrow> p \<noteq> Some [] \<Longrightarrow> cause_of (event_record k p ev now u) = map_option outboxLedgerEventId p"
  by (simp add: cause_of_def map_of_causation event_ok_def)

lemma mapped_event:
  assumes "event_ok ev"
  shows "mapped (event_record k p ev now u)"
proof (cases "fst ev \<in> fst ` set direct_event_types")
  case True
  then obtain t where "map_of direct_event_types (fst ev) = Some t" by (metis map_of_eq_None_iff not_None_eq)
  then show ?thesis by (simp add: mapped_def eventType_def)
next
  case False
  then have "fst ev = ''PLATFORM_ACTION_STATE_CHANGED''" "map_of (snd ev) ''to_state'' = Some (JStr ''AUTHORIZING'')"
    using assms by (simp_all add: event_ok_def)
  then show ?thesis
    by (simp add: mapped_def eventType_def with_causation_def map_add_def direct_event_types_def changed_event_types_def Let_def)
qed

lemma causally_linked_last: "causally_linked p rs q \<Longrightarrow> p \<noteq> Some [] \<Longrightarrow> (\<And>r. r \<in> set rs \<Longrightarrow> \<exists>u. ox_outbox_id r = ''ob_'' @ u) \<Longrightarrow> q \<noteq> Some []"
  by (induction rs arbitrary: p) fastforce+

lemma causally_linked_map: "(\<And>r. r \<in> set rs \<Longrightarrow> same_event r (h r)) \<Longrightarrow> causally_linked p (map h rs) q = causally_linked p rs q"
  by (induction rs arbitrary: p) (auto simp: same_event_def cause_of_def)

lemma store_inv_last: "store_inv G D st \<Longrightarrow> a \<in> set (ps_actions st) \<Longrightarrow> pa_last_outbox_id a \<noteq> Some []"
  by (rule causally_linked_last [where p = None and rs = "records_of (key_of a) st"]) (auto simp: store_inv_def records_of_def)

lemma mapped_same: "same_event r q \<Longrightarrow> mapped q = mapped r"
proof -
  assume "same_event r q"
  then have "ox_event_type q = ox_event_type r" "ox_payload q = ox_payload r" by (simp_all add: same_event_def)
  then show ?thesis by (simp only: mapped_def eventType_def)
qed

lemma key_same: "same_identity a b \<Longrightarrow> key_of b = key_of a"
  by (simp add: same_identity_def key_of_def)

lemma store_inv_outbox:
  assumes inv: "store_inv G D st" and st': "ps_actions st' = ps_actions st" "ps_outbox st' = map h (ps_outbox st)"
    and h: "\<And>r. r \<in> set (ps_outbox st) \<Longrightarrow> record_move D r (h r)" and D: "\<And>r q. same_event r q \<Longrightarrow> D r \<Longrightarrow> D q"
  shows "store_inv G D st'"
proof -
  have same: "same_event r (h r)" if "r \<in> set (ps_outbox st)" for r using h [OF that] by (simp add: record_move_def)
  have keys: "record_key (h r) = record_key r" "(ox_tenant_id (h r), ox_platform_action_id (h r)) = (ox_tenant_id r, ox_platform_action_id r)"
    if "r \<in> set (ps_outbox st)" for r using same [OF that] by (simp_all add: same_event_def record_key_def)
  have recs: "records_of k st' = map h (records_of k st)" for k
    unfolding records_of_def st' filter_map using keys(2) by (auto intro!: arg_cong [where f = "map h"] filter_cong)
  have link: "causally_linked None (records_of k st') q = causally_linked None (records_of k st) q" for k q
    unfolding recs by (rule causally_linked_map) (auto simp: records_of_def intro: same)
  have "map record_key (ps_outbox st') = map record_key (ps_outbox st)"
    using keys(1) by (simp add: st')
  then have dist: "distinct (map record_key (ps_outbox st'))" using inv by (simp only: store_inv_def)
  have "(ox_tenant_id (h r), ox_platform_action_id (h r)) \<in> key_of ` set (ps_actions st) \<and> (\<exists>u. ox_outbox_id (h r) = ''ob_'' @ u)
      \<and> (ox_status (h r) = OB_DELIVERED \<longrightarrow> D (h r)) \<and> mapped (h r)" if r: "r \<in> set (ps_outbox st)" for r
    using inv h [OF r] r keys(2) [OF r] D [OF same [OF r]] mapped_same [OF same [OF r]]
    by (auto simp: store_inv_def record_move_def same_event_def)
  then have all: "\<forall>q \<in> set (ps_outbox st'). (ox_tenant_id q, ox_platform_action_id q) \<in> key_of ` set (ps_actions st')
      \<and> (\<exists>u. ox_outbox_id q = ''ob_'' @ u) \<and> (ox_status q = OB_DELIVERED \<longrightarrow> D q) \<and> mapped q"
    unfolding st' by simp
  show ?thesis
    unfolding store_inv_def distinct_actions_def link st'(1) using inv dist all by (simp add: store_inv_def distinct_actions_def st'(1))
qed

lemma records_of_snoc: "ps_outbox st' = ps_outbox st @ [r] \<Longrightarrow>
    records_of k st' = records_of k st @ (if (ox_tenant_id r, ox_platform_action_id r) = k then [r] else [])"
  by (simp add: records_of_def)

lemma store_inv_record:
  assumes inv: "store_inv G D st" and r: "r = event_record k p ev now u" "event_ok ev" "record_key r \<notin> record_key ` set (ps_outbox st)"
    and st': "ps_outbox st' = ps_outbox st @ [r]" and k: "k \<in> key_of ` set (ps_actions st')" "key_of ` set (ps_actions st) \<subseteq> key_of ` set (ps_actions st')"
  shows "distinct (map record_key (ps_outbox st'))"
    "\<And>q. q \<in> set (ps_outbox st') \<Longrightarrow> (ox_tenant_id q, ox_platform_action_id q) \<in> key_of ` set (ps_actions st') \<and> (\<exists>u. ox_outbox_id q = ''ob_'' @ u)
       \<and> (ox_status q = OB_DELIVERED \<longrightarrow> D q) \<and> mapped q"
  using assms by (auto simp: store_inv_def mapped_event)

lemma store_inv_new:
  assumes inv: "store_inv G D st" and a: "key_of a \<notin> key_of ` set (ps_actions st)" "evidence_ok a" "pa_gate_decision a = None" "pa_id a \<noteq> []"
    and acts: "ps_actions st' = ps_actions st @ [a]" and r: "r = event_record (key_of a) None ev now u" "event_ok ev" "record_key r \<notin> record_key ` set (ps_outbox st)"
    and out: "ps_outbox st' = ps_outbox st @ [r]" and last: "pa_last_outbox_id a = Some (ox_outbox_id r)"
  shows "store_inv G D st'"
proof -
  have k: "key_of a \<in> key_of ` set (ps_actions st')" "key_of ` set (ps_actions st) \<subseteq> key_of ` set (ps_actions st')" by (auto simp: acts)
  note rec = store_inv_record [OF inv r out k]
  have none: "records_of (key_of a) st = []"
  proof -
    have "(ox_tenant_id q, ox_platform_action_id q) \<noteq> key_of a" if "q \<in> set (ps_outbox st)" for q
    proof -
      have "(ox_tenant_id q, ox_platform_action_id q) \<in> key_of ` set (ps_actions st)" using inv that by (simp add: store_inv_def)
      then show ?thesis using a(1) by metis
    qed
    then show ?thesis by (auto simp: records_of_def filter_empty_conv)
  qed
  have old: "records_of (key_of x) st' = records_of (key_of x) st" if "x \<in> set (ps_actions st)" for x
    using that a(1) by (auto simp: records_of_snoc [OF out] r(1))
  have new: "records_of (key_of a) st' = [r]" by (simp add: records_of_snoc [OF out] r(1) none)
  have "distinct_actions st'" using inv a(1) by (simp add: store_inv_def distinct_actions_def acts)
  moreover have "evidence_ok x \<and> pa_id x \<noteq> [] \<and> (\<forall>d. pa_gate_decision x = Some d \<longrightarrow> G x d) \<and> causally_linked None (records_of (key_of x) st') (pa_last_outbox_id x)"
    if "x \<in> set (ps_actions st')" for x
    using that inv a last old [of x] cause_event [OF r(2), of None "key_of a"] by (auto simp: acts store_inv_def new r(1))
  ultimately show ?thesis
    unfolding store_inv_def using rec by (intro conjI ballI) simp_all
qed

lemma store_inv_actions:
  assumes inv: "store_inv G D st" and a: "a \<in> set (ps_actions st)" and move: "action_move G a b"
    and acts: "ps_actions st' = map (\<lambda>x. if key_of x = key_of a then b else x) (ps_actions st)"
    and G: "\<And>a b d. same_identity a b \<Longrightarrow> G a d \<Longrightarrow> G b d"
    and link: "causally_linked None (records_of (key_of a) st') (pa_last_outbox_id b)"
    and other: "\<And>x. x \<in> set (ps_actions st) \<Longrightarrow> key_of x \<noteq> key_of a \<Longrightarrow> records_of (key_of x) st' = records_of (key_of x) st"
  shows "distinct_actions st'" "key_of ` set (ps_actions st') = key_of ` set (ps_actions st)"
    "\<And>x. x \<in> set (ps_actions st') \<Longrightarrow> evidence_ok x \<and> pa_id x \<noteq> [] \<and> (\<forall>d. pa_gate_decision x = Some d \<longrightarrow> G x d) \<and> causally_linked None (records_of (key_of x) st') (pa_last_outbox_id x)"
proof -
  have same: "same_identity a b" using move by (simp add: action_move_def)
  have key: "key_of b = key_of a" by (rule key_same [OF same])
  have keys: "map key_of (ps_actions st') = map key_of (ps_actions st)" using key by (simp add: acts)
  show "distinct_actions st'" using inv by (simp only: distinct_actions_def keys store_inv_def)
  show "key_of ` set (ps_actions st') = key_of ` set (ps_actions st)" by (metis keys list.set_map)
  fix x assume "x \<in> set (ps_actions st')"
  then consider (b) "x = b" | (old) "x \<in> set (ps_actions st)" "key_of x \<noteq> key_of a" by (auto simp: acts split: if_splits)
  then show "evidence_ok x \<and> pa_id x \<noteq> [] \<and> (\<forall>d. pa_gate_decision x = Some d \<longrightarrow> G x d) \<and> causally_linked None (records_of (key_of x) st') (pa_last_outbox_id x)"
  proof cases
    case b
    have "evidence_ok a" "pa_id a \<noteq> []" "\<And>d. pa_gate_decision a = Some d \<Longrightarrow> G a d" using inv a by (auto simp: store_inv_def)
    then show ?thesis
      using b move same link key G [OF same] by (auto simp: action_move_def same_identity_def)
  next
    case old
    then show ?thesis using inv other by (simp add: store_inv_def)
  qed
qed

lemma store_inv_change:
  assumes step: "store_change G D st st'" and inv: "store_inv G D st"
    and G: "\<And>a b d. same_identity a b \<Longrightarrow> G a d \<Longrightarrow> G b d" and D: "\<And>r q. same_event r q \<Longrightarrow> D r \<Longrightarrow> D q"
  shows "store_inv G D st'"
  using step
proof cases
  case (sc_outbox h)
  then show ?thesis by (intro store_inv_outbox [OF inv _ _ _ D]) 
next
  case (sc_new a ev r now uuid)
  then show ?thesis by (intro store_inv_new [OF inv])
next
  case (sc_move a b)
  have recs: "records_of k st' = records_of k st" for k using sc_move by (simp add: records_of_def)
  have link: "causally_linked None (records_of (key_of a) st') (pa_last_outbox_id b)"
    using inv sc_move by (simp add: recs store_inv_def)
  note acts = store_inv_actions [OF inv sc_move(1,2,3) G link recs]
  show ?thesis unfolding store_inv_def using acts inv sc_move(4) by (simp add: store_inv_def)
next
  case (sc_event a b ev r now uuid)
  have old: "causally_linked None (records_of (key_of a) st) (pa_last_outbox_id a)" using inv sc_event(1) by (simp add: store_inv_def)
  have link: "causally_linked None (records_of (key_of a) st') (pa_last_outbox_id b)"
    using old cause_event [OF sc_event(4) store_inv_last [OF inv sc_event(1)]] sc_event(5,8)
    by (auto simp: records_of_snoc [OF sc_event(7)] causally_linked_snoc)
  have other: "records_of (key_of x) st' = records_of (key_of x) st" if "key_of x \<noteq> key_of a" for x
    using that by (simp add: records_of_snoc [OF sc_event(7)] sc_event(5))
  note acts = store_inv_actions [OF inv sc_event(1,2,3) G link other]
  note rec = store_inv_record [OF inv sc_event(5,4,6,7)]
  show ?thesis unfolding store_inv_def using acts rec sc_event(1) by auto
qed

lemma store_inv_changes:
  assumes "(store_change G D)\<^sup>*\<^sup>* st st'" "store_inv G D st"
    and G: "\<And>a b d. same_identity a b \<Longrightarrow> G a d \<Longrightarrow> G b d" and D: "\<And>r q. same_event r q \<Longrightarrow> D r \<Longrightarrow> D q"
  shows "store_inv G D st'"
  using assms(1,2) by (induction rule: rtranclp_induct) (auto intro: store_inv_change [OF _ _ G D])

lemma store_inv_weaken:
  assumes "store_inv G D st" "\<And>a d. G a d \<Longrightarrow> G' a d" "\<And>r. D r \<Longrightarrow> D' r"
  shows "store_inv G' D' st"
  using assms by (auto simp: store_inv_def)

end
