(* ===== verification/Platform_Protocol.thy ===== *)
theory Platform_Protocol
  imports Platform_Invariant Ledger_Properties Gate_Invariants
begin

text \<open>
  The platform in operation: the store, the Gate and the Ledger, and what the callers in flight hold in
  memory. A step is one synchronous piece of an orchestrator; any caller may run between two of them, and a
  caller that never continues is a crash. What the ports answer is arbitrary.
\<close>

section \<open>The world\<close>

record platform_world =
  pw_store :: platform_store
  pw_gate :: gate_state
  pw_ledger :: ledger_store
  pw_pending :: "(platform_action \<times> decision) list"
  pw_jobs :: "(run_ticket \<times> platform_action) list"
  pw_claims :: "(outbox_record \<times> string) list"
  pw_answers :: "(outbox_record \<times> string \<times> (string, string) res) list"

definition platform_start :: platform_world where
  "platform_start = \<lparr>pw_store = platform_empty, pw_gate = gate_empty, pw_ledger = ledger_empty, pw_pending = [], pw_jobs = [],
     pw_claims = [], pw_answers = []\<rparr>"

text \<open>
  \<open>ps_asked\<close> puts the transition to AUTHORIZING and the call of the Gate into one step: neither reads what
  the other writes. The decision is recorded by a step of its own.
\<close>

inductive platform_step :: "(string \<Rightarrow> string) \<Rightarrow> platform_world \<Rightarrow> platform_world \<Rightarrow> bool" for sha w where
  ps_submit: "submit_action sha p raw by u1 u2 ob now (pw_store w) = Inr (st, a) \<Longrightarrow> platform_step sha w (w\<lparr>pw_store := st\<rparr>)"
| ps_asked: "own_action p i why (pw_store w) = Inr (agent, a) \<Longrightarrow> begin_authorizing a now ob (pw_store w) = Inr (st, a1) \<Longrightarrow> fresh_ids am (pw_gate w)
    \<Longrightarrow> authorize sha am (Agent agent) (gate_authorization_json agent (pa_request a1)) (pw_gate w) = (g, answer)
    \<Longrightarrow> platform_step sha w (w\<lparr>pw_store := st, pw_gate := g,
          pw_pending := (case answer of Inl _ \<Rightarrow> pw_pending w | Inr d \<Rightarrow> (a1, d) # pw_pending w)\<rparr>)"
| ps_decided: "(a, d) \<in> set (pw_pending w)
    \<Longrightarrow> recordGateDecision (pa_tenant_id a) (pa_id a) (pa_state_version a) (gate_evidence_of d) now ob (pw_store w) = Inr (st, b)
    \<Longrightarrow> platform_step sha w (w\<lparr>pw_store := st\<rparr>)"
| ps_gate: "fresh_ids am (pw_gate w) \<Longrightarrow> platform_step sha w (w\<lparr>pw_gate := gate_exec sha am pr c (pw_gate w)\<rparr>)"
| ps_open: "run_open p i cap session exec now ob (pw_store w) = (st, answer)
    \<Longrightarrow> platform_step sha w (w\<lparr>pw_store := st, pw_jobs := (case answer of Inl _ \<Rightarrow> pw_jobs w
          | Inr k \<Rightarrow> (case action_row (rt_tenant k, rt_action k) st of None \<Rightarrow> pw_jobs w | Some a \<Rightarrow> (k, a) # pw_jobs w))\<rparr>)"
| ps_checked: "(k, a) \<in> set (pw_jobs w) \<Longrightarrow> run_precheck sha k a verdict rules confirmed now ob (pw_store w) = (st, r)
    \<Longrightarrow> platform_step sha w (w\<lparr>pw_store := st\<rparr>)"
| ps_failed: "(k, a) \<in> set (pw_jobs w) \<Longrightarrow> run_redeem_failed k e now ob (pw_store w) = (st, r') \<Longrightarrow> platform_step sha w (w\<lparr>pw_store := st\<rparr>)"
| ps_recorded: "(k, a) \<in> set (pw_jobs w) \<Longrightarrow> run_record k a evidence now ob (pw_store w) = (st, r')
    \<Longrightarrow> platform_step sha w (w\<lparr>pw_store := st\<rparr>)"
| ps_verified: "(k, a) \<in> set (pw_jobs w) \<Longrightarrow> run_verified k version vad now ob (pw_store w) = Inr (st, b)
    \<Longrightarrow> platform_step sha w (w\<lparr>pw_store := st\<rparr>)"
| ps_resume: "control_resume p i now ob (pw_store w) = Inr (st, b) \<Longrightarrow> platform_step sha w (w\<lparr>pw_store := st\<rparr>)"
| ps_terminate: "control_terminate p i reason now ob (pw_store w) = Inr (st, b) \<Longrightarrow> platform_step sha w (w\<lparr>pw_store := st\<rparr>)"
| ps_restart: "recoverInterruptedWork now ids (pw_store w) = Inr st \<Longrightarrow> platform_step sha w (w\<lparr>pw_store := st\<rparr>)"
| ps_claim: "claimNext clock owner lease token (pw_store w) = (st, found)
    \<Longrightarrow> platform_step sha w (w\<lparr>pw_store := st, pw_claims := (case found of None \<Rightarrow> pw_claims w | Some r \<Rightarrow> (r, token) # pw_claims w)\<rparr>)"
| ps_deliver: "(r, token) \<in> set (pw_claims w) \<Longrightarrow> deliver sha received lp r (pw_store w) (pw_ledger w) = (L, sent)
    \<Longrightarrow> platform_step sha w (w\<lparr>pw_ledger := L, pw_answers := (r, token, sent) # pw_answers w\<rparr>)"
| ps_settle: "(r, token, sent) \<in> set (pw_answers w) \<Longrightarrow> settle m clock r token sent (pw_store w) = (st, out)
    \<Longrightarrow> platform_step sha w (w\<lparr>pw_store := st\<rparr>)"
| ps_ledger: "ledger_run sha (\<lambda>_. True) (pw_ledger w) L \<Longrightarrow> platform_step sha w (w\<lparr>pw_ledger := L\<rparr>)"

definition platform_reaches :: "(string \<Rightarrow> string) \<Rightarrow> platform_world \<Rightarrow> platform_world \<Rightarrow> bool" where
  "platform_reaches sha = (platform_step sha)\<^sup>*\<^sup>*"

section \<open>The Gate's side\<close>

definition gate_backs :: "gate_state \<Rightarrow> platform_action \<Rightarrow> gate_decision_evidence \<Rightarrow> bool" where
  \<comment> \<open>the evidence is a copy of a decision the Gate stored for the request of the action\<close>
  "gate_backs g a e = (\<exists>d. st_get (ge_decision_id e) (gs_decisions g) = Some d \<and> e = gate_evidence_of d
     \<and> rq_agentId (de_request d) = pq_agent_id (pa_request a) \<and> rq_action (de_request d) = pq_action (pa_request a)
     \<and> rq_tool (de_request d) = pq_tool (pa_request a) \<and> rq_resource (de_request d) = pq_resource (pa_request a))"

lemma gate_backs_same: "same_identity a b \<Longrightarrow> gate_backs g a e \<Longrightarrow> gate_backs g b e"
  by (simp add: gate_backs_def same_identity_def)

lemma decisions_kept:
  assumes "fresh_ids am g" "st_get k (gs_decisions g) = Some d"
  shows "st_get k (gs_decisions (gate_exec sha am p c g)) = Some d"
proof (rule gate_exec_induct [where P = "\<lambda>s. st_get k (gs_decisions s) = Some d"])
  fix request s' d'
  assume dec: "decide_request sha am request g = Inr (s', d')"
  have "\<exists>po u used ag. s' = record_decision sha d' po (spend d' u used g) \<and> de_decisionId d' = newId ''dec'' (am_uuid am)"
    using decide_request_Inr [OF dec] by (elim exE conjE) auto
  then show "st_get k (gs_decisions s') = Some d"
    using assms by (auto simp: fresh_ids_def st_put_fresh) (auto simp: st_get_def)
qed (use assms in simp_all)

lemma gate_backs_exec: "fresh_ids am g \<Longrightarrow> gate_backs g a e \<Longrightarrow> gate_backs (gate_exec sha am p c g) a e"
  by (auto simp: gate_backs_def dest: decisions_kept)

lemma authorize_exec: "authorize sha am p input g = (g', r) \<Longrightarrow> g' = gate_exec sha am p (Authorize input) g"
  by (simp add: gate_exec_def)

lemma authorize_Inr:
  assumes "authorize sha am p input g = (g', Inr d)"
  shows "parseAuthorizationRequest sha input = Inr (de_request d)" "st_get (de_decisionId d) (gs_decisions g') = Some d"
proof -
  obtain r where r: "parseAuthorizationRequest sha input = Inr r" "decide_request sha am r g = Inr (g', d)"
    using assms by (auto simp: authorize_def st_transaction_def split: sum.splits if_splits prod.splits)
  have "\<exists>po u used ag. g' = record_decision sha d po (spend d u used g) \<and> de_request d = r"
    using decide_request_Inr [OF r(2)] by (elim exE conjE) auto
  then show "parseAuthorizationRequest sha input = Inr (de_request d)" "st_get (de_decisionId d) (gs_decisions g') = Some d"
    using r(1) by (auto simp: table.get_put)
qed

lemma request_parse_Some:
  assumes "request_parse j = Some r"
  shows "jfield ''agentId'' j = Some (JStr (rq_agentId r))" "jfield ''action'' j = Some (JStr (rq_action r))"
    "jfield ''tool'' j = Some (JStr (rq_tool r))" "jfield ''resource'' j = Some (JStr (rq_resource r))"
  using assms by (auto simp: request_parse_def jstr_def Let_def bind_eq_Some_conv split: if_splits option.splits json.splits)

lemma stored_fields [simp]: "rq_agentId (stored r i h) = rq_agentId r" "rq_action (stored r i h) = rq_action r" "rq_tool (stored r i h) = rq_tool r"
  "rq_resource (stored r i h) = rq_resource r"
  by (simp_all add: stored_def auth_request.defs stored_request.defs)

lemma platform_request_parsed:
  assumes "parseAuthorizationRequest sha (gate_authorization_json agent r) = Inr q"
  shows "rq_agentId q = pq_agent_id r" "rq_action q = pq_action r" "rq_tool q = pq_tool r" "rq_resource q = pq_resource r"
proof -
  let ?j = "gate_authorization_json agent r"
  let ?w = "without_keys [''input'', ''input_hash''] ?j"
  have keys: "jfield ''agentId'' ?w = jfield ''agentId'' ?j" "jfield ''action'' ?w = jfield ''action'' ?j"
    "jfield ''tool'' ?w = jfield ''tool'' ?j" "jfield ''resource'' ?w = jfield ''resource'' ?j"
    by (simp_all add: gate_authorization_json_def without_keys_def Let_def)
  obtain p i h where p: "request_parse ?j = Some p \<or> request_parse (without_keys [''input'', ''input_hash''] ?j) = Some p" and q: "q = stored p i h"
    using assms by (auto simp: parseAuthorizationRequest_def Let_def split: if_splits option.splits sum.splits)
  have "jfield ''agentId'' ?j = Some (JStr (rq_agentId p)) \<and> jfield ''action'' ?j = Some (JStr (rq_action p))
    \<and> jfield ''tool'' ?j = Some (JStr (rq_tool p)) \<and> jfield ''resource'' ?j = Some (JStr (rq_resource p))"
    using p
  proof
    assume "request_parse ?j = Some p"
    note request_parse_Some [OF this]
    then show ?thesis by blast
  next
    assume "request_parse (without_keys [''input'', ''input_hash''] ?j) = Some p"
    note request_parse_Some [OF this]
    then show ?thesis by (simp only: keys conj_assoc)
  qed
  then show "rq_agentId q = pq_agent_id r" "rq_action q = pq_action r" "rq_tool q = pq_tool r" "rq_resource q = pq_resource r"
    by (simp_all add: q gate_authorization_json_def Let_def)
qed

lemma authorize_backs:
  assumes "authorize sha am p (gate_authorization_json agent (pa_request a)) g = (g', Inr d)"
  shows "gate_backs g' a (gate_evidence_of d)"
  using authorize_Inr [OF assms] platform_request_parsed [OF authorize_Inr(1) [OF assms]]
  by (auto simp: gate_backs_def gate_evidence_of_def)

section \<open>The Ledger's side\<close>

definition ledger_unique :: "ledger_store \<Rightarrow> bool" where
  "ledger_unique L = distinct (map (\<lambda>r. (rw_tenant_id r, rw_event_id r)) (ls_events L))"

definition ledger_holds :: "platform_world \<Rightarrow> outbox_record \<Rightarrow> bool" where
  \<comment> \<open>the Ledger has the translation of the record, as content\<close>
  "ledger_holds w r = (\<exists>row \<in> set (ls_events (pw_ledger w)). \<exists>raw. platform_ledger_event r (pw_store w) = Inr raw
     \<and> rw_tenant_id row = ox_tenant_id r \<and> rw_event_id row = outboxLedgerEventId (ox_outbox_id r)
     \<and> sameCanonicalContent (toLedgerEvent row) (normalized_event raw))"

lemma ledger_unique_append:
  assumes "store_append sha now i L = Inr (L', e)" "ledger_unique L"
  shows "ledger_unique L'"
  using assms(1)
proof (cases rule: store_append_cases)
  case (fresh head)
  have "(li_tenant_id i, li_event_id i) \<notin> (\<lambda>r. (rw_tenant_id r, rw_event_id r)) ` set (ls_events L)"
    using fresh(1) by (auto simp: row_by_id_def find_None_iff)
  then show ?thesis using assms(2) fresh(4) by (auto simp: ledger_unique_def next_row_fields)
qed (use assms in simp)

lemma ledger_unique_run: "ledger_run sha P L L' \<Longrightarrow> ledger_unique L \<Longrightarrow> ledger_unique L'"
proof (induction rule: ledger_run.induct)
  case (ledger_step s t raw now p u e)
  then show ?case using ledger_append_Inr(4) ledger_unique_append by blast
next
  case (ledger_check s t now persist tenant stream)
  then show ?case by - (rule verifyStream_preserves [where Q = ledger_unique], simp_all add: ledger_unique_def)
next
  case (ledger_restart s t now)
  then show ?case by - (rule startup_induct [where Q = ledger_unique], simp_all add: ledger_unique_def)
qed

lemma ledger_rows_append: "ledger_append sha now p raw L = Inr (L', e) \<Longrightarrow> set (ls_events L) \<subseteq> set (ls_events L')"
  by (drule ledger_append_Inr(4), erule store_append_cases) auto

definition translation :: "platform_action \<Rightarrow> outbox_record \<Rightarrow> string \<Rightarrow> json" where
  "translation a r ty = (let q = pa_request a; payload = ox_payload r;
     authority = JObj ([(''agent_id'', JStr (pq_agent_id q)), (''action'', JStr (pq_action q)), (''tool'', JStr (pq_tool q)),
       (''resource'', JStr (pq_resource q)), (''operation'', JStr (pq_operation q))]
       @ opt_field ''decision_id'' (truthy_str (capturedDecisionId payload)) @ opt_field ''policy_hash'' (truthy_str (capturedPolicyHash payload))) in
     JObj ([(''version'', JStr ''1.0''), (''event_id'', JStr (outboxLedgerEventId (ox_outbox_id r))), (''event_type'', JStr ty),
       (''tenant_id'', JStr (pa_tenant_id a)), (''stream_id'', JStr (''platform:'' @ pa_id a)), (''correlation_id'', JStr (pa_correlation_id a))]
       @ opt_field ''causation_id'' (truthy_str (jstr (jfield ''causation_event_id'' payload)))
       @ [(''actor'', JObj [(''type'', JStr ''AGENT''), (''id'', JStr (pq_agent_id q))]), (''source_component'', JStr ''platform''),
          (''authority_context'', authority), (''payload'', JObj (al_put ''input_hash'' (JStr (pa_input_hash a)) (obj_fields payload)))]))"

lemma platform_ledger_event_Inr: "platform_ledger_event r st = Inr raw \<longleftrightarrow>
    (\<exists>a ty. action_row (ox_tenant_id r, ox_platform_action_id r) st = Some a \<and> eventType r = Inr ty \<and> raw = translation a r ty)"
  by (auto simp: platform_ledger_event_def rbind_eq_Inr translation_def Let_def)

lemma translation_same: "same_identity a b \<Longrightarrow> translation b r ty = translation a r ty"
  by (simp only: translation_def same_identity_def)

lemma translation_event: "same_event r q \<Longrightarrow> translation a q ty = translation a r ty"
  by (simp only: translation_def same_event_def)

lemma eventType_same: "same_event r q \<Longrightarrow> eventType q = eventType r"
proof -
  assume "same_event r q"
  then have "ox_event_type q = ox_event_type r" "ox_payload q = ox_payload r" by (simp_all add: same_event_def)
  then show ?thesis by (simp only: eventType_def)
qed

lemma ledger_holds_same:
  assumes "same_event r q" "ledger_holds w r"
  shows "ledger_holds w q"
proof -
  obtain row a ty where *: "row \<in> set (ls_events (pw_ledger w))" "action_row (ox_tenant_id r, ox_platform_action_id r) (pw_store w) = Some a"
    "eventType r = Inr ty" "rw_tenant_id row = ox_tenant_id r" "rw_event_id row = outboxLedgerEventId (ox_outbox_id r)"
    "sameCanonicalContent (toLedgerEvent row) (normalized_event (translation a r ty))"
    using assms(2) by (auto simp: ledger_holds_def platform_ledger_event_Inr)
  moreover have "ox_tenant_id q = ox_tenant_id r" "ox_platform_action_id q = ox_platform_action_id r" "ox_outbox_id q = ox_outbox_id r"
    using assms(1) by (simp_all add: same_event_def)
  ultimately have "platform_ledger_event q (pw_store w) = Inr (translation a r ty)"
    using eventType_same [OF assms(1)] translation_event [OF assms(1)] by (auto simp: platform_ledger_event_Inr)
  with * show ?thesis using assms(1) by (auto simp: ledger_holds_def same_event_def)
qed

lemma translation_fields:
  "jfield ''tenant_id'' (translation a r ty) = Some (JStr (pa_tenant_id a))"
  "jfield ''event_id'' (translation a r ty) = Some (JStr (outboxLedgerEventId (ox_outbox_id r)))"
  "jfield ''actor'' (translation a r ty) = Some (actor_json ''AGENT'' (pq_agent_id (pa_request a)))"
  "jfield ''causation_id'' (translation a r ty) \<noteq> Some JNull" "jfield ''parent_event_id'' (translation a r ty) = None"
  by (auto simp: translation_def Let_def actor_json_def opt_field_def truthy_str_def map_add_def split: option.split)

lemma deliver_holds:
  assumes "deliver sha received p r st L = (L', Inr e)"
  shows "\<exists>row \<in> set (ls_events L'). \<exists>raw. platform_ledger_event r st = Inr raw \<and> rw_tenant_id row = ox_tenant_id r
     \<and> rw_event_id row = outboxLedgerEventId (ox_outbox_id r) \<and> sameCanonicalContent (toLedgerEvent row) (normalized_event raw)"
proof -
  obtain raw ev where raw: "platform_ledger_event r st = Inr raw" and app: "ledger_append sha received p raw L = Inr (L', ev)"
    using assms by (auto simp: deliver_def split: sum.splits platform_error.splits ledger_error.splits)
  obtain a ty where a: "action_row (ox_tenant_id r, ox_platform_action_id r) st = Some a" and tr: "raw = translation a r ty"
    using raw by (auto simp: platform_ledger_event_Inr)
  have tenant: "pa_tenant_id a = ox_tenant_id r" using action_row_Some [OF a] by (simp add: key_of_def)
  have "plain_event raw"
    by (simp add: plain_event_def plain_actor_def tr translation_fields) (simp add: actor_json_def the_str_def)
  then obtain row where row: "row_by_id (li_tenant_id (normalized_event raw)) (li_event_id (normalized_event raw)) L' = Some row"
    "sameCanonicalContent (toLedgerEvent row) (normalized_event raw)"
    using append_stored [OF app] translation_fields [of a r ty] tr by (metis option.distinct(1))
  have "li_tenant_id (normalized_event raw) = ox_tenant_id r" "li_event_id (normalized_event raw) = outboxLedgerEventId (ox_outbox_id r)"
    by (simp_all add: normalized_event_def tr translation_fields Let_def the_str_def tenant)
  with row raw row_by_id_Some show ?thesis by (metis)
qed

section \<open>Rows persist\<close>

lemma find_map_key:
  assumes "key b = k0"
  shows "find (\<lambda>x. key x = k) (map (\<lambda>x. if key x = k0 then b else x) xs) = map_option (\<lambda>x. if k = k0 then b else x) (find (\<lambda>x. key x = k) xs)"
  using assms by (induction xs) auto

lemma change_rows:
  assumes "store_change G D st st'" "distinct_actions st" "action_row k st = Some a"
  shows "\<exists>b. action_row k st' = Some b \<and> (action_move G)\<^sup>*\<^sup>* a b"
proof -
  have moved: ?thesis if "x \<in> set (ps_actions st)" "action_move G x b" "ps_actions st' = map (\<lambda>y. if key_of y = key_of x then b else y) (ps_actions st)" for x b
  proof -
    have key: "key_of b = key_of x" using that(2) by (intro key_same) (simp add: action_move_def)
    have "action_row k st' = map_option (\<lambda>y. if k = key_of x then b else y) (action_row k st)"
      unfolding action_row_def that(3) by (rule find_map_key) (rule key)
    moreover have "x = a" if "k = key_of x" using row_of_member [OF assms(2) \<open>x \<in> _\<close>] assms(3) that by simp
    ultimately show ?thesis using assms(3) that(2) by auto
  qed
  show ?thesis
    using assms(1)
  proof cases
    case (sc_outbox h)
    then show ?thesis using assms(3) action_row_cong [of st' st k] by auto
  next
    case (sc_new x ev r now uuid)
    then show ?thesis using assms(3) by (auto simp: action_row_def find_append)
  qed (rule moved; assumption)+
qed

lemma changes_rows:
  assumes "(store_change G D)\<^sup>*\<^sup>* st st'" "distinct_actions st" "action_row k st = Some a"
  shows "\<exists>b. action_row k st' = Some b \<and> (action_move G)\<^sup>*\<^sup>* a b"
  using assms(1)
proof (induction rule: rtranclp_induct)
  case base
  then show ?case using assms(3) by blast
next
  case (step u v)
  then obtain b where "action_row k u = Some b" "(action_move G)\<^sup>*\<^sup>* a b" by blast
  then show ?case
    using change_rows [OF step(2) changes_distinct [OF step(1) assms(2)]] by (meson rtranclp_trans)
qed

lemma moves_identity: "(action_move G)\<^sup>*\<^sup>* a b \<Longrightarrow> same_identity a b"
  by (induction rule: rtranclp_induct) (auto simp: action_move_def same_identity_def)

lemma change_records:
  assumes "store_change G D st st'" "r \<in> set (ps_outbox st)"
  shows "\<exists>q \<in> set (ps_outbox st'). record_move D r q"
  using assms by cases (auto intro: bexI [of _ r])

lemma record_moves_trans: "record_move D r q \<Longrightarrow> record_move D q x \<Longrightarrow> (\<And>r q. same_event r q \<Longrightarrow> D q \<Longrightarrow> D r) \<Longrightarrow> record_move D r x"
  by (auto simp: record_move_def same_event_def)

lemma changes_records:
  assumes "(store_change G D)\<^sup>*\<^sup>* st st'" "r \<in> set (ps_outbox st)" "\<And>r q. same_event r q \<Longrightarrow> D q \<Longrightarrow> D r"
  shows "\<exists>q \<in> set (ps_outbox st'). record_move D r q"
  using assms(1)
proof (induction rule: rtranclp_induct)
  case base
  then show ?case using assms(2) by (intro bexI [of _ r]) simp_all
next
  case (step u v)
  then obtain q where q: "q \<in> set (ps_outbox u)" "record_move D r q" by blast
  obtain x where x: "x \<in> set (ps_outbox v)" "record_move D q x" using change_records [OF step(2) q(1)] by blast
  have "record_move D r x" by (rule record_moves_trans [OF q(2) x(2)]) (rule assms(3))
  then show ?case using x(1) by blast
qed

section \<open>The invariant of the world\<close>

definition row_known :: "platform_store \<Rightarrow> action_key \<Rightarrow> platform_action \<Rightarrow> bool" where
  "row_known st k a = (\<exists>b. action_row k st = Some b \<and> same_identity a b)"

definition record_known :: "platform_store \<Rightarrow> outbox_record \<Rightarrow> bool" where
  "record_known st r = (\<exists>q \<in> set (ps_outbox st). same_event r q)"

definition world_inv :: "platform_world \<Rightarrow> bool" where
  "world_inv w = (store_inv (gate_backs (pw_gate w)) (ledger_holds w) (pw_store w) \<and> ledger_unique (pw_ledger w)
     \<and> (\<forall>(a, d) \<in> set (pw_pending w). row_known (pw_store w) (key_of a) a \<and> gate_backs (pw_gate w) a (gate_evidence_of d))
     \<and> (\<forall>(k, a) \<in> set (pw_jobs w). row_known (pw_store w) (rt_tenant k, rt_action k) a)
     \<and> (\<forall>(r, token) \<in> set (pw_claims w). record_known (pw_store w) r)
     \<and> (\<forall>(r, token, sent) \<in> set (pw_answers w). record_known (pw_store w) r
          \<and> (\<forall>e. sent = Inr e \<longrightarrow> e = outboxLedgerEventId (ox_outbox_id r) \<longrightarrow> ledger_holds w r)))"

lemma row_known_changes: "(store_change G D)\<^sup>*\<^sup>* st st' \<Longrightarrow> distinct_actions st \<Longrightarrow> row_known st k a \<Longrightarrow> row_known st' k a"
  by (fastforce simp: row_known_def same_identity_def dest: changes_rows moves_identity)

lemma record_known_change: "store_change G D st st' \<Longrightarrow> record_known st r \<Longrightarrow> record_known st' r"
  by (fastforce simp: record_known_def record_move_def same_event_def dest: change_records)

lemma record_known_changes: "(store_change G D)\<^sup>*\<^sup>* st st' \<Longrightarrow> record_known st r \<Longrightarrow> record_known st' r"
  by (induction rule: rtranclp_induct) (auto intro: record_known_change)

lemma ledger_event_stable:
  assumes "(store_change G D)\<^sup>*\<^sup>* st st'" "distinct_actions st" "platform_ledger_event r st = Inr raw"
  shows "platform_ledger_event r st' = Inr raw"
proof -
  obtain a ty where a: "action_row (ox_tenant_id r, ox_platform_action_id r) st = Some a" "eventType r = Inr ty" "raw = translation a r ty"
    using assms(3) by (auto simp: platform_ledger_event_Inr)
  obtain b where "action_row (ox_tenant_id r, ox_platform_action_id r) st' = Some b" "(action_move G)\<^sup>*\<^sup>* a b"
    using changes_rows [OF assms(1,2) a(1)] by blast
  then show ?thesis using a translation_same [OF moves_identity] by (auto simp: platform_ledger_event_Inr)
qed

lemma ledger_holds_mono:
  assumes "ledger_holds w r" "set (ls_events (pw_ledger w)) \<subseteq> set (ls_events (pw_ledger w'))"
    "(store_change G D)\<^sup>*\<^sup>* (pw_store w) (pw_store w')" "distinct_actions (pw_store w)"
  shows "ledger_holds w' r"
proof -
  obtain row raw where "row \<in> set (ls_events (pw_ledger w))" "platform_ledger_event r (pw_store w) = Inr raw" "rw_tenant_id row = ox_tenant_id r"
    "rw_event_id row = outboxLedgerEventId (ox_outbox_id r)" "sameCanonicalContent (toLedgerEvent row) (normalized_event raw)"
    using assms(1) by (auto simp: ledger_holds_def)
  with assms(2) ledger_event_stable [OF assms(3,4)] show ?thesis by (auto simp: ledger_holds_def)
qed

lemma world_inv_distinct: "world_inv w \<Longrightarrow> distinct_actions (pw_store w)"
  by (simp add: world_inv_def store_inv_def)

text \<open>A step that changes the store and what is in memory.\<close>

lemma world_inv_step:
  assumes inv: "world_inv w" and st: "(store_change (gate_backs (pw_gate w)) (ledger_holds w))\<^sup>*\<^sup>* (pw_store w) (pw_store w')"
    and gate: "\<And>a e. gate_backs (pw_gate w) a e \<Longrightarrow> gate_backs (pw_gate w') a e"
    and ledger: "ledger_unique (pw_ledger w')" "set (ls_events (pw_ledger w)) \<subseteq> set (ls_events (pw_ledger w'))"
    and pending: "\<And>a d. (a, d) \<in> set (pw_pending w') \<Longrightarrow> (a, d) \<in> set (pw_pending w)
      \<or> row_known (pw_store w') (key_of a) a \<and> gate_backs (pw_gate w') a (gate_evidence_of d)"
    and jobs: "\<And>k a. (k, a) \<in> set (pw_jobs w') \<Longrightarrow> (k, a) \<in> set (pw_jobs w) \<or> row_known (pw_store w') (rt_tenant k, rt_action k) a"
    and claims: "\<And>r t. (r, t) \<in> set (pw_claims w') \<Longrightarrow> (r, t) \<in> set (pw_claims w) \<or> record_known (pw_store w') r"
    and answers: "\<And>r t s. (r, t, s) \<in> set (pw_answers w') \<Longrightarrow> (r, t, s) \<in> set (pw_answers w)
      \<or> record_known (pw_store w') r \<and> (\<forall>e. s = Inr e \<longrightarrow> e = outboxLedgerEventId (ox_outbox_id r) \<longrightarrow> ledger_holds w' r)"
  shows "world_inv w'"
proof -
  note d = world_inv_distinct [OF inv]
  have holds: "ledger_holds w r \<Longrightarrow> ledger_holds w' r" for r by (rule ledger_holds_mono [OF _ ledger(2) st d])
  have "store_inv (gate_backs (pw_gate w)) (ledger_holds w) (pw_store w')"
    by (rule store_inv_changes [OF st _ gate_backs_same ledger_holds_same]) (use inv in \<open>simp_all add: world_inv_def\<close>)
  then have 1: "store_inv (gate_backs (pw_gate w')) (ledger_holds w') (pw_store w')"
    by (rule store_inv_weaken) (auto intro: gate holds)
  have 2: "row_known (pw_store w') (key_of a) a \<and> gate_backs (pw_gate w') a (gate_evidence_of e)" if "(a, e) \<in> set (pw_pending w')" for a e
    using pending [OF that] inv row_known_changes [OF st d, of "key_of a" a] gate by (auto simp: world_inv_def)
  have 3: "row_known (pw_store w') (rt_tenant k, rt_action k) a" if "(k, a) \<in> set (pw_jobs w')" for k a
    using jobs [OF that] inv row_known_changes [OF st d, of "(rt_tenant k, rt_action k)" a] by (auto simp: world_inv_def)
  have 4: "record_known (pw_store w') r" if "(r, t) \<in> set (pw_claims w')" for r t
    using claims [OF that] inv record_known_changes [OF st] by (auto simp: world_inv_def)
  have 5: "record_known (pw_store w') r \<and> (\<forall>e. s = Inr e \<longrightarrow> e = outboxLedgerEventId (ox_outbox_id r) \<longrightarrow> ledger_holds w' r)"
    if "(r, t, s) \<in> set (pw_answers w')" for r t s
    using answers [OF that] inv record_known_changes [OF st] holds by (fastforce simp: world_inv_def)
  show ?thesis unfolding world_inv_def using 1 2 3 4 5 ledger(1) by auto
qed

section \<open>Every step keeps the invariant\<close>

lemma own_action_row: "own_action p i why st = Inr (agent, a) \<Longrightarrow> action_row (pp_tenantId p, i) st = Some a"
  by (auto simp: own_action_def rbind_eq_Inr split: if_splits)

lemma begin_authorizing_row: "begin_authorizing a now ob st = Inr (st', b) \<Longrightarrow> action_row (key_of a) st = Some a \<Longrightarrow> action_row (key_of a) st' = Some b"
  by (auto simp: begin_authorizing_def rbind_eq_Inr transition_def advance_def Let_def key_of_def split: if_splits)

lemma row_of_key: "action_row k st = Some a \<Longrightarrow> action_row (key_of a) st = Some a"
  using action_row_Some by fastforce

lemma decided_change:
  assumes "world_inv w" "(a, d) \<in> set (pw_pending w)"
    "recordGateDecision (pa_tenant_id a) (pa_id a) (pa_state_version a) (gate_evidence_of d) now ob (pw_store w) = Inr (st, b)"
  shows "store_change (gate_backs (pw_gate w)) D (pw_store w) st"
proof -
  have known: "row_known (pw_store w) (key_of a) a" "gate_backs (pw_gate w) a (gate_evidence_of d)"
    using assms(1,2) by (auto simp: world_inv_def)
  show ?thesis
    by (rule recordGateDecision_change [OF assms(3) world_inv_distinct [OF assms(1)]])
      (use known in \<open>auto simp: row_known_def key_of_def intro: gate_backs_same\<close>)
qed

lemma recorded_change:
  assumes "world_inv w" "(k, a) \<in> set (pw_jobs w)" "run_record k a evidence now ob (pw_store w) = (st, r')"
  shows "store_change G D (pw_store w) st"
proof -
  have "row_known (pw_store w) (rt_tenant k, rt_action k) a" using assms(1,2) by (auto simp: world_inv_def)
  then show ?thesis
    by (intro run_record_change [OF assms(3) world_inv_distinct [OF assms(1)]]) (auto simp: row_known_def same_identity_def)
qed

lemma settled_change:
  assumes "world_inv w" "(r, token, sent) \<in> set (pw_answers w)" "settle m clock r token sent (pw_store w) = (st, out)"
  shows "store_change G (ledger_holds w) (pw_store w) st"
proof (rule settle_change [OF assms(3)])
  fix x e assume e: "sent = Inr e" "e = outboxLedgerEventId (ox_outbox_id r)" and x: "x \<in> set (ps_outbox (pw_store w))" "record_key x = record_key r"
  have holds: "ledger_holds w r" using assms(1,2) e by (fastforce simp: world_inv_def)
  have "record_known (pw_store w) r" using assms(1,2) by (auto simp: world_inv_def)
  then obtain q where q: "q \<in> set (ps_outbox (pw_store w))" "same_event r q" by (auto simp: record_known_def)
  have "record_key q = record_key x" using q(2) x(2) by (simp add: same_event_def record_key_def)
  then have "q = x" using assms(1) q(1) x(1) by (auto simp: world_inv_def store_inv_def distinct_map dest: inj_onD)
  then show "ledger_holds w x" using ledger_holds_same q(2) holds by blast
qed

lemma submit_change: "submit_action sha p raw by u1 u2 ob now st = Inr (st', a) \<Longrightarrow> distinct_actions st \<Longrightarrow> store_change G D st st'"
  by (auto simp: submit_action_def rbind_eq_Inr intro: createOrReturn_change)

lemma step_changes:
  assumes "platform_step sha w w'" "world_inv w"
  shows "(store_change (gate_backs (pw_gate w)) (ledger_holds w))\<^sup>*\<^sup>* (pw_store w) (pw_store w')"
proof -
  note d = world_inv_distinct [OF assms(2)]
  note one = r_into_rtranclp [of "store_change (gate_backs (pw_gate w)) (ledger_holds w)"]
  show ?thesis
    using assms(1)
  proof cases
    case (ps_asked p i why agent a now ob st a1 am g answer)
    have "store_change (gate_backs (pw_gate w)) (ledger_holds w) (pw_store w) st"
      by (rule begin_authorizing_change [OF ps_asked(3) d row_of_key [OF own_action_row [OF ps_asked(2)]]])
    then show ?thesis using ps_asked(1) by simp
  qed (simp_all add: recover_changes [OF _ d] run_open_changes [OF _ d] one submit_change [OF _ d] decided_change [OF assms(2)]
      recorded_change [OF assms(2)] settled_change [OF assms(2)] run_precheck_change [OF _ d] run_redeem_failed_change [OF _ d]
      run_verified_change [OF _ d] control_resume_change [OF _ d] control_terminate_change [OF _ d] claimNext_change)
qed

lemma claimNext_record:
  assumes "claimNext now owner lease token st = (st', Some r)"
  shows "record_known st r"
  using assms by (auto simp: claimNext_def Let_def record_known_def stamp_claim_def same_event_def dest!: find_SomeD split: option.splits)

lemma platform_step_inv:
  assumes "platform_step sha w w'" "world_inv w"
  shows "world_inv w'"
proof -
  note st = step_changes [OF assms]
  note d = world_inv_distinct [OF assms(2)]
  have L: "ledger_unique (pw_ledger w)" using assms(2) by (simp add: world_inv_def)
  show ?thesis
    using assms(1)
  proof cases
    case (ps_asked p i why agent a now ob st' a1 am g answer)
    have row: "action_row (key_of a) st' = Some a1"
      by (rule begin_authorizing_row [OF ps_asked(3) row_of_key [OF own_action_row [OF ps_asked(2)]]])
    have known: "row_known st' (key_of a1) a1" using row_of_key [OF row] by (auto simp: row_known_def same_identity_def)
    have g: "g = gate_exec sha am (Agent agent) (Authorize (gate_authorization_json agent (pa_request a1))) (pw_gate w)"
      by (rule authorize_exec [OF ps_asked(5)])
    have backs: "gate_backs g a1 (gate_evidence_of dd)" if "answer = Inr dd" for dd
      using authorize_backs ps_asked(5) that by blast
    show ?thesis
      by (rule world_inv_step [OF assms(2) st])
        (use ps_asked(1,4) L known backs g in \<open>auto simp: gate_backs_exec split: sum.splits\<close>)
  next
    case (ps_gate am pr c)
    then show ?thesis using L by (intro world_inv_step [OF assms(2) st]) (auto simp: gate_backs_exec)
  next
    case (ps_open p i cap session exec now ob st' answer)
    then show ?thesis using L
      by (intro world_inv_step [OF assms(2) st]) (auto simp: row_known_def same_identity_def split: sum.splits option.splits)
  next
    case (ps_claim clock owner lease token st' found)
    have "record_known st' r" if "found = Some r" for r
      using claimNext_record record_known_changes [OF st] ps_claim that by fastforce
    then show ?thesis using L ps_claim by (intro world_inv_step [OF assms(2) st]) (auto split: option.splits)
  next
    case (ps_deliver r token received lp L' sent)
    have known: "record_known (pw_store w) r" using assms(2) ps_deliver(2) by (auto simp: world_inv_def)
    have "ledger_run sha (\<lambda>_. True) (pw_ledger w) L'"
      using ps_deliver(3) by (auto simp: deliver_def split: sum.splits platform_error.splits ledger_error.splits intro: ledger_refl ledger_step)
    then have L': "ledger_unique L'" by (rule ledger_unique_run) (rule L)
    have rows: "set (ls_events (pw_ledger w)) \<subseteq> set (ls_events L')"
      using ps_deliver(3) by (auto simp: deliver_def split: sum.splits platform_error.splits ledger_error.splits dest: ledger_rows_append)
    have holds: "ledger_holds w' r" if "sent = Inr e" for e
      using deliver_holds ps_deliver(1,3) that by (simp add: ledger_holds_def)
    show ?thesis
      using ps_deliver(1) L' rows known holds by (intro world_inv_step [OF assms(2) st]) auto
  next
    case (ps_ledger L')
    have "set (ls_events (pw_ledger w)) \<subseteq> set (ls_events L')"
      using ledger_run_extends [OF ps_ledger(2)] by auto
    then show ?thesis using ps_ledger ledger_unique_run [OF ps_ledger(2) L] by (intro world_inv_step [OF assms(2) st]) auto
  qed (use L in \<open>intro world_inv_step [OF assms(2) st]; simp\<close>)+
qed

lemma platform_start_inv: "world_inv platform_start"
  by (simp add: world_inv_def platform_start_def store_inv_def platform_empty_def distinct_actions_def ledger_unique_def ledger_empty_def)

lemma platform_reaches_inv: "platform_reaches sha w w' \<Longrightarrow> world_inv w \<Longrightarrow> world_inv w'"
  unfolding platform_reaches_def by (induction rule: rtranclp_induct) (auto intro: platform_step_inv)

end
