(* ===== verification/Platform_Properties.thy ===== *)
theory Platform_Properties
  imports Platform_Protocol Gate_Properties
begin

text \<open>
  The properties of the platform, over every world its steps can reach, and a concrete run that completes an
  action and delivers its first record.
\<close>

section \<open>A concrete run\<close>

definition demo_platform_request :: json where
  "demo_platform_request = JObj [(''version'', JStr ''1.0''), (''request_id'', JStr ''r1''), (''tenant_id'', JStr ''t1''), (''agent_id'', JStr ''agent-1''),
    (''action'', JStr ''report.write''), (''tool'', JStr ''fs''), (''operation'', JStr ''write''), (''resource'', JStr ''/srv/reports/q1.md''),
    (''input'', JObj []), (''requested_cost_limits'', JObj [(''max_cost_usd'', JNum (Dec 25 2))]), (''requires_verification'', JBool False)]"

definition demo_caller :: platform_principal where
  "demo_caller = \<lparr>pp_id = ''c1'', pp_role = PR_Agent, pp_tenantId = ''t1'', pp_agentId = Some ''agent-1''\<rparr>"

lemma demo_leaves:
  "safeId 200 ''r1''" "safeId 100 ''t1''" "safeId 200 ''agent-1''" "safeId 200 ''report.write''" "safeId 200 ''fs''" "safeId 100 ''write''"
  "js_length ''/srv/reports/q1.md'' = 18" "stringify (JObj []) = ''{}''"
  by code_simp+

lemma demo_platform_checks:
  "\<forall>c \<in> set (key_checks demo_platform_request). fst c" "\<forall>c \<in> set (field_checks demo_platform_request). fst c"
  "\<forall>c \<in> set (secret_check demo_platform_request). fst c"
  using demo_leaves exI [of Not False]
  by (simp_all add: key_checks_def demo_platform_request_def is_plain_object_def platform_request_version_def request_top_level_fields_def
    forbidden_caller_fields_def obj_keys_def field_checks_def Let_def str_where_def jbool_def absent_or_def limit_ok_def num_where_def ctx_field_def num_val_def platform_byteLength_def
    platform_max_input_bytes_def secret_check_def request_secret_def find_secret_opt_def)

definition demo_normalized :: platform_request where
  "demo_normalized = \<lparr>pq_request_id = ''r1'', pq_tenant_id = ''t1'', pq_agent_id = ''agent-1'', pq_action = ''report.write'', pq_tool = ''fs'',
     pq_operation = ''write'', pq_resource = ''/srv/reports/q1.md'', pq_input = JObj [], pq_max_runtime = None, pq_max_cost = Some (Dec 25 2),
     pq_requires_verification = False, pq_verification_spec_id = None, pq_metadata = None\<rparr>"

lemma demo_validates: "validatePlatformActionRequestInput demo_platform_request = Inr demo_normalized"
proof -
  have "normalized_request demo_platform_request = demo_normalized"
    by (simp add: normalized_request_def demo_platform_request_def demo_normalized_def Let_def jbool_def jnumber_def ctx_field_def the_str_def)
  then show ?thesis
    unfolding validatePlatformActionRequestInput_def
    using demo_platform_checks [folded run_checks_ok [where u = "()"]] by (simp del: run_checks_ok)
qed

lemma demo_gate_json: "gate_authorization_json agent demo_normalized = demo_input"
  by (simp add: gate_authorization_json_def demo_normalized_def demo_input_def ctx_field_def Let_def)

text \<open>A store with one action.\<close>

definition one_row :: "platform_action \<Rightarrow> platform_run list \<Rightarrow> outbox_record list \<Rightarrow> platform_store" where
  "one_row a rs os = \<lparr>ps_actions = [a], ps_runs = rs, ps_outbox = os\<rparr>"

lemma one_row_simps [simp]: "ps_actions (one_row a rs os) = [a]" "ps_runs (one_row a rs os) = rs" "ps_outbox (one_row a rs os) = os"
  "action_row k (one_row a rs os) = (if key_of a = k then Some a else None)" "platform_get t i (one_row a rs os) =
     (if key_of a = (t, i) then Inr a else Inl (Platform_Error P_NOT_FOUND (''No platform action '' @ i)))"
  by (simp_all add: one_row_def action_row_def platform_get_def)

lemma one_row_inject [simp]: "one_row a rs os = one_row b ss ps \<longleftrightarrow> a = b \<and> rs = ss \<and> os = ps"
  by (auto simp: one_row_def)

lemma one_row_awaiting [simp]: "key_of a = (t, i) \<Longrightarrow> awaiting t i s v why (one_row a rs os) =
    (if pa_state a \<noteq> s \<or> pa_state_version a \<noteq> v then Inl (p_conflict why) else Inr a)"
  by (simp add: awaiting_def)

lemma one_row_advance:
  assumes "key_of a = k" "\<And>x. key_of (f x) = key_of x" "\<And>x. pa_last_outbox_id (f x) = pa_last_outbox_id x"
    "\<And>e. ev = Some e \<Longrightarrow> (fst k, ''ob_'' @ uuid) \<notin> record_key ` set os"
  shows "advance k target f ev now uuid (one_row a rs os)
    = Inr (one_row (advanced target f ev now uuid a) rs (os @ event_records k (pa_last_outbox_id a) ev now uuid), advanced target f ev now uuid a)"
proof -
  have put: "put_action k g (one_row b rs os) = one_row (g b) rs os" if "key_of b = k" for g b os
    using that by (simp add: put_action_def one_row_def)
  have add: "(one_row b rs os)\<lparr>ps_outbox := x\<rparr> = one_row b rs x" for b x os by (simp add: one_row_def)
  show ?thesis
    using assms by (cases ev) (auto simp: advance_def Let_def put enqueue_def add advanced_def event_records_def event_record_def newOutboxRecord_def record_key_def)
qed

text \<open>The rows of the run, one after the other; \<open>e\<close> is the decision.\<close>

abbreviation platform_demo_key :: action_key where "platform_demo_key \<equiv> (''t1'', ''pa_1'')"

definition demo_row0 :: platform_action where
  "demo_row0 = new_action flat_digest demo_normalized ''pa_1'' ''corr_1'' ''c1'' ''n''"

definition demo_received :: event where
  "demo_received = (''PLATFORM_ACTION_RECEIVED'', [(''platform_action_id'', JStr ''pa_1''), (''correlation_id'', JStr ''corr_1''),
     (''request_id'', JStr ''r1''), (''state'', JStr ''RECEIVED'')])"

definition demo_row1 :: platform_action where
  "demo_row1 = demo_row0\<lparr>pa_last_outbox_id := Some ''ob_1''\<rparr>"

definition demo_record1 :: outbox_record where
  "demo_record1 = event_record platform_demo_key None demo_received ''n'' ''1''"

definition demo_store1 :: platform_store where
  "demo_store1 = one_row demo_row1 [] [demo_record1]"

lemma demo_row_fields [simp]:
  "key_of demo_row1 = platform_demo_key" "pa_tenant_id demo_row1 = ''t1''" "pa_id demo_row1 = ''pa_1''" "pa_state demo_row1 = RECEIVED" "pa_state_version demo_row1 = 0" "pa_request demo_row1 = demo_normalized"
  "pa_last_outbox_id demo_row1 = Some ''ob_1''" "pa_gate_decision demo_row1 = None" "record_key demo_record1 = (''t1'', ''ob_1'')" "pa_input_hash demo_row1 = computeInputHash flat_digest demo_normalized"
  by (simp_all add: demo_row1_def demo_row0_def new_action_def key_of_def demo_normalized_def demo_record1_def)

lemma demo_submitted:
  "submit_action flat_digest demo_caller demo_platform_request ''c1'' ''1'' ''1'' ''1'' ''n'' platform_empty = Inr (demo_store1, demo_row0)"
proof -
  have new: "new_action flat_digest demo_normalized ''pa_1'' ''corr_1'' ''c1'' ''n'' = demo_row0" by (simp add: demo_row0_def)
  have key: "key_of demo_row0 = platform_demo_key" "pa_last_outbox_id demo_row0 = None" by (simp_all add: demo_row0_def new_action_def key_of_def demo_normalized_def)
  have ids: "pq_request_id demo_normalized = ''r1''" by (simp add: demo_normalized_def)
  have enq: "enqueue platform_demo_key demo_received ''n'' ''1'' \<lparr>ps_actions = [demo_row0], ps_runs = [], ps_outbox = []\<rparr> = Inr demo_store1"
    by (simp add: enqueue_Inr action_row_def key Let_def put_action_def demo_store1_def one_row_def demo_row1_def demo_record1_def)
  show ?thesis
    using enq by (simp add: submit_action_def assertCanSubmit_def role_check_def demo_caller_def createOrReturn_def demo_validates request_row_def platform_empty_def
      newPlatformActionId_def newCorrelationId_def new key action_row_def ids demo_received_def Let_def)
qed

definition demo_row2 :: platform_action where
  "demo_row2 = advanced AUTHORIZING id (Some (''PLATFORM_ACTION_STATE_CHANGED'', move_fields demo_row1 AUTHORIZING)) ''n'' ''2'' demo_row1"

definition demo_outbox2 :: "outbox_record list" where
  "demo_outbox2 = [demo_record1, event_record platform_demo_key (Some ''ob_1'') (''PLATFORM_ACTION_STATE_CHANGED'', move_fields demo_row1 AUTHORIZING) ''n'' ''2'']"

lemma advanced_fields [simp]:
  "key_of (advanced t id ev now u a) = key_of a" "pa_state (advanced t id ev now u a) = t" "pa_state_version (advanced t id ev now u a) = pa_state_version a + 1"
  "pa_request (advanced t id ev now u a) = pa_request a" "pa_tenant_id (advanced t id ev now u a) = pa_tenant_id a" "pa_id (advanced t id ev now u a) = pa_id a"
  "pa_gate_decision (advanced t id ev now u a) = pa_gate_decision a"
  by (simp_all add: advanced_def key_of_def set_state_def split: option.split)

lemma demo_begun: "begin_authorizing demo_row1 ''n'' ''2'' demo_store1 = Inr (one_row demo_row2 [] demo_outbox2, demo_row2)"
  by (simp add: begin_authorizing_def transition_def demo_store1_def one_row_advance demo_row2_def demo_outbox2_def event_records_def isAllowedTransition_def)

lemma demo_owned: "own_action demo_caller ''pa_1'' why demo_store1 = Inr (''agent-1'', demo_row1)"
  by (simp add: own_action_def bound_agent_def demo_caller_def demo_store1_def demo_normalized_def)

definition demo_row3 :: "decision \<Rightarrow> platform_action" where
  "demo_row3 d = (set_state AUTHORIZED_ACTION ''n'' demo_row2)\<lparr>pa_gate_decision := Some (gate_evidence_of d), pa_last_outbox_id := Some ''ob_3''\<rparr>"

lemma demo_outbox_keys [simp]: "record_key ` set demo_outbox2 = {(''t1'', ''ob_1''), (''t1'', ''ob_2'')}"
  by (auto simp: demo_outbox2_def)

lemma demo_gate_recorded:
  assumes "de_decision d = ALLOW"
  shows "\<exists>r. record_key r = (''t1'', ''ob_3'') \<and> recordGateDecision ''t1'' ''pa_1'' (pa_state_version demo_row2) (gate_evidence_of d) ''n'' ''3'' (one_row demo_row2 [] demo_outbox2)
    = Inr (one_row (demo_row3 d) [] (demo_outbox2 @ [r]), demo_row3 d)"
  using assms
  by (simp add: recordGateDecision_def demo_row2_def one_row_advance gate_target_def gate_evidence_of_def event_records_def demo_row3_def advanced_def)

lemma demo_row3_fields [simp]: "key_of (demo_row3 d) = platform_demo_key" "pa_tenant_id (demo_row3 d) = ''t1''" "pa_id (demo_row3 d) = ''pa_1''" "pa_state (demo_row3 d) = AUTHORIZED_ACTION"
  "pa_request (demo_row3 d) = demo_normalized" "pa_gate_decision (demo_row3 d) = Some (gate_evidence_of d)"
  by (simp_all add: demo_row3_def demo_row2_def key_of_def set_state_def advanced_def)

definition demo_ticket :: "decision \<Rightarrow> run_ticket" where
  "demo_ticket d = \<lparr>rt_tenant = ''t1'', rt_action = ''pa_1'', rt_version = pa_state_version (demo_row3 d) + 3, rt_execution = ''x1''\<rparr>"

lemma demo_opened:
  assumes "de_decision d = ALLOW" "record_key r = (''t1'', ''ob_3'')"
  shows "\<exists>a rs r'. run_open demo_caller ''pa_1'' (Inr ''cap'') (Inr ''sess'') ''x1'' ''n'' ''4'' (one_row (demo_row3 d) [] (demo_outbox2 @ [r]))
      = (one_row a rs (demo_outbox2 @ [r, r']), Inr (demo_ticket d))
     \<and> key_of a = platform_demo_key \<and> pa_state a = EXECUTING \<and> pa_state_version a = pa_state_version (demo_row3 d) + 3 \<and> pa_request a = demo_normalized \<and> record_key r' = (''t1'', ''ob_4'')
     \<and> rs = [\<lparr>pn_execution_id = ''x1'', pn_tenant_id = ''t1'', pn_action_id = ''pa_1'', pn_status = RUN_CLAIMED, pn_claimed_at = ''n'', pn_finished_at = None\<rparr>]"
proof -
  let ?b = "(set_state CAPABILITY_READY ''n'' (demo_row3 d))\<lparr>pa_capability_id := Some ''cap''\<rparr>"
  let ?c = "(set_state MONITORING ''n'' ?b)\<lparr>pa_sentinel_session_id := Some ''sess''\<rparr>"
  let ?run = "\<lparr>pn_execution_id = ''x1'', pn_tenant_id = ''t1'', pn_action_id = ''pa_1'', pn_status = RUN_CLAIMED, pn_claimed_at = ''n'', pn_finished_at = None\<rparr>"
  let ?os = "demo_outbox2 @ [r]"
  have own: "own_action demo_caller ''pa_1'' why (one_row (demo_row3 d) [] ?os) = Inr (''agent-1'', demo_row3 d)" for why
    by (simp add: own_action_def bound_agent_def demo_caller_def demo_normalized_def)
  have checks: "run_checks_of demo_caller ''pa_1'' (one_row (demo_row3 d) [] ?os) = Inr (demo_row3 d)"
    using assms(1) by (simp add: run_checks_of_def own gate_evidence_of_def)
  have 1: "recordCapability ''t1'' ''pa_1'' (pa_state_version (demo_row3 d)) ''cap'' ''n'' (one_row (demo_row3 d) [] ?os) = Inr (one_row ?b [] ?os, ?b)"
    by (simp add: recordCapability_def) (subst one_row_advance; simp add: advanced_def event_records_def)
  have 2: "recordSentinelSession ''t1'' ''pa_1'' (pa_state_version ?b) ''sess'' ''n'' (one_row ?b [] ?os) = Inr (one_row ?c [] ?os, ?c)"
    by (simp add: recordSentinelSession_def) (subst one_row_advance; simp add: advanced_def event_records_def)
  let ?ev = "(''PLATFORM_EXECUTION_CLAIMED'', claimed_fields ?c ''x1'')"
  let ?a = "advanced EXECUTING id (Some ?ev) ''n'' ''4'' ?c"
  let ?r' = "event_record platform_demo_key (pa_last_outbox_id ?c) ?ev ''n'' ''4''"
  have runs: "(one_row ?c [] ?os)\<lparr>ps_runs := [?run]\<rparr> = one_row ?c [?run] ?os" by (simp add: one_row_def)
  have 3: "claimExecution ''t1'' ''pa_1'' (pa_state_version ?c) ''x1'' ''n'' ''4'' (one_row ?c [] ?os) = Inr (one_row ?a [?run] (?os @ [?r']), ?run)"
    using assms(2) by (simp add: claimExecution_def runs one_row_advance event_records_def Let_def)
  have "run_open demo_caller ''pa_1'' (Inr ''cap'') (Inr ''sess'') ''x1'' ''n'' ''4'' (one_row (demo_row3 d) [] ?os) = (one_row ?a [?run] (?os @ [?r']), Inr (demo_ticket d))"
    unfolding run_open_def checks sum.case prod.case Let_def demo_row3_fields 1 2 3 one_row_simps by (simp add: demo_ticket_def)
  then show ?thesis
    by (intro exI [where x = ?a] exI [where x = "[?run]"] exI [where x = ?r']) simp
qed

lemma demo_recorded:
  assumes "key_of a = platform_demo_key" "pa_state a = EXECUTING" "pa_state_version a = pa_state_version (demo_row3 d) + 3" "pa_request a = demo_normalized"
    "(''t1'', ''ob_5'') \<notin> record_key ` set os"
  shows "\<exists>b rs' r'. run_record (demo_ticket d) a (''x1'', ''h'') ''n'' ''5'' (one_row a
      [\<lparr>pn_execution_id = ''x1'', pn_tenant_id = ''t1'', pn_action_id = ''pa_1'', pn_status = RUN_CLAIMED, pn_claimed_at = ''n'', pn_finished_at = None\<rparr>] os)
    = (one_row b rs' (os @ [r']), Inr b) \<and> key_of b = platform_demo_key \<and> pa_state b = COMPLETED"
proof -
  let ?f = "\<lambda>x. x\<lparr>pa_execution_id := Some ''x1'', pa_result_hash := Some ''h''\<rparr>"
  have no: "\<not> pq_requires_verification demo_normalized" by (simp add: demo_normalized_def)
  let ?ev = "(''PLATFORM_ACTION_COMPLETED'', move_fields a COMPLETED @ [(''execution'', JObj [(''execution_id'', JStr ''x1''), (''result_hash'', JStr ''h'')])])"
  let ?b = "advanced COMPLETED ?f (Some ?ev) ''n'' ''5'' a"
  let ?run = "\<lparr>pn_execution_id = ''x1'', pn_tenant_id = ''t1'', pn_action_id = ''pa_1'', pn_status = RUN_CLAIMED, pn_claimed_at = ''n'', pn_finished_at = None\<rparr>"
  let ?r' = "event_record platform_demo_key (pa_last_outbox_id a) ?ev ''n'' ''5''"
  have 1: "recordExecutionResult ''t1'' ''pa_1'' (pa_state_version a) (''x1'', ''h'') COMPLETED ''PLATFORM_ACTION_COMPLETED'' ''n'' ''5'' (one_row a [?run] os)
    = Inr (one_row ?b [?run] (os @ [?r']), ?b)"
    using assms(1,2,5) by (simp add: recordExecutionResult_def isAllowedTransition_def) (subst one_row_advance; simp add: event_records_def)
  have 2: "finishRun ''t1'' ''x1'' RUN_FINISHED ''n'' (one_row ?b [?run] (os @ [?r'])) = Inr (one_row ?b [?run\<lparr>pn_status := RUN_FINISHED, pn_finished_at := Some ''n''\<rparr>] (os @ [?r']))"
    by (simp add: finishRun_def one_row_def)
  have "run_record (demo_ticket d) a (''x1'', ''h'') ''n'' ''5'' (one_row a [?run] os)
    = (one_row ?b [?run\<lparr>pn_status := RUN_FINISHED, pn_finished_at := Some ''n''\<rparr>] (os @ [?r']), Inr ?b)"
    using 1 2 assms(3) unfolding run_record_def assms(4) by (simp add: no demo_ticket_def)
  moreover have "key_of ?b = platform_demo_key" "pa_state ?b = COMPLETED" using assms(1) by (simp_all add: advanced_def)
  ultimately show ?thesis by blast
qed

text \<open>The worlds of the run.\<close>

definition demo_world1 :: platform_world where
  "demo_world1 = platform_start\<lparr>pw_gate := demo_gate, pw_store := demo_store1\<rparr>"

lemma reaches_step: "platform_reaches sha w u \<Longrightarrow> platform_step sha u v \<Longrightarrow> platform_reaches sha w v"
  unfolding platform_reaches_def by (rule rtranclp.rtrancl_into_rtrancl)

lemma reaches_refl [simp]: "platform_reaches sha w w"
  by (simp add: platform_reaches_def)

lemma demo_world1_reached: "platform_reaches flat_digest platform_start demo_world1"
proof -
  let ?u = "platform_start\<lparr>pw_gate := demo_registered\<rparr>"
  let ?v = "platform_start\<lparr>pw_gate := demo_gate\<rparr>"
  have "platform_step flat_digest platform_start ?u"
    using ps_gate [of "demo_ambient ''1''" platform_start flat_digest "Admin ''ops''" "Register (Some (''agent-1'', ''Reporter''))"]
    by (simp add: platform_start_def fresh_ids_def st_get_def gate_empty_def demo_registered_def)
  moreover have "platform_step flat_digest ?u ?v"
    using ps_gate [of "demo_ambient ''2''" ?u flat_digest "Admin ''ops''" "SetEnvelope (Some demo_envelope)"]
    by (simp add: fresh_ids_def st_get_def demo_registered_fields demo_gate_def)
  moreover have "platform_step flat_digest ?v demo_world1"
    using ps_submit [of flat_digest demo_caller demo_platform_request "''c1''" "''1''" "''1''" "''1''" "''n''" ?v] demo_submitted
    by (simp add: demo_world1_def platform_start_def)
  ultimately show ?thesis by (meson reaches_refl reaches_step)
qed

lemma demo_completed:
  "\<exists>w b. platform_reaches flat_digest demo_world1 w \<and> action_row platform_demo_key (pw_store w) = Some b \<and> pa_state b = COMPLETED"
proof -
  obtain g d where g: "authorize flat_digest (demo_ambient ''3'') (Agent ''agent-1'') demo_input demo_gate = (g, Inr d)" "de_decision d = ALLOW"
    using demo_authorize by blast
  let ?w2 = "demo_world1\<lparr>pw_store := one_row demo_row2 [] demo_outbox2, pw_gate := g, pw_pending := [(demo_row2, d)]\<rparr>"
  have asked: "own_action demo_caller ''pa_1'' ''why'' (pw_store demo_world1) = Inr (''agent-1'', demo_row1)"
    "begin_authorizing demo_row1 ''n'' ''2'' (pw_store demo_world1) = Inr (one_row demo_row2 [] demo_outbox2, demo_row2)"
    "fresh_ids (demo_ambient ''3'') (pw_gate demo_world1)"
    "authorize flat_digest (demo_ambient ''3'') (Agent ''agent-1'') (gate_authorization_json ''agent-1'' (pa_request demo_row2)) (pw_gate demo_world1) = (g, Inr d)"
    using g(1) by (simp_all add: demo_world1_def demo_owned demo_begun demo_gate_fresh) (simp add: demo_row2_def demo_gate_json)
  note ps_asked [OF asked]
  then have s1: "platform_step flat_digest demo_world1 ?w2" by (simp add: demo_world1_def platform_start_def)
  obtain r where r: "record_key r = (''t1'', ''ob_3'')" "recordGateDecision ''t1'' ''pa_1'' (pa_state_version demo_row2) (gate_evidence_of d) ''n'' ''3'' (one_row demo_row2 [] demo_outbox2)
    = Inr (one_row (demo_row3 d) [] (demo_outbox2 @ [r]), demo_row3 d)"
    using demo_gate_recorded [OF g(2)] by blast
  let ?w3 = "?w2\<lparr>pw_store := one_row (demo_row3 d) [] (demo_outbox2 @ [r])\<rparr>"
  have s2: "platform_step flat_digest ?w2 ?w3"
    by (rule ps_decided [where a = demo_row2 and d = d]) (use r(2) in \<open>simp_all add: demo_row2_def\<close>)
  obtain a rs r' where a: "run_open demo_caller ''pa_1'' (Inr ''cap'') (Inr ''sess'') ''x1'' ''n'' ''4'' (one_row (demo_row3 d) [] (demo_outbox2 @ [r]))
      = (one_row a rs (demo_outbox2 @ [r, r']), Inr (demo_ticket d))"
    "key_of a = platform_demo_key" "pa_state a = EXECUTING" "pa_state_version a = pa_state_version (demo_row3 d) + 3" "pa_request a = demo_normalized" "record_key r' = (''t1'', ''ob_4'')"
    "rs = [\<lparr>pn_execution_id = ''x1'', pn_tenant_id = ''t1'', pn_action_id = ''pa_1'', pn_status = RUN_CLAIMED, pn_claimed_at = ''n'', pn_finished_at = None\<rparr>]"
    using demo_opened [OF g(2) r(1)] by blast
  let ?w4 = "?w3\<lparr>pw_store := one_row a rs (demo_outbox2 @ [r, r']), pw_jobs := [(demo_ticket d, a)]\<rparr>"
  have s3: "platform_step flat_digest ?w3 ?w4"
    using ps_open [of demo_caller "''pa_1''" "Inr ''cap''" "Inr ''sess''" "''x1''" "''n''" "''4''" ?w3, where sha = flat_digest] a(1,2)
    by (simp add: demo_world1_def platform_start_def) (simp add: demo_ticket_def demo_world1_def platform_start_def)
  have "(''t1'', ''ob_5'') \<notin> record_key ` set (demo_outbox2 @ [r, r'])" using r(1) a(6) by simp
  then obtain b rs' r5 where b: "run_record (demo_ticket d) a (''x1'', ''h'') ''n'' ''5'' (one_row a rs (demo_outbox2 @ [r, r']))
      = (one_row b rs' ((demo_outbox2 @ [r, r']) @ [r5]), Inr b)" "key_of b = platform_demo_key" "pa_state b = COMPLETED"
    using demo_recorded [OF a(2-5)] unfolding a(7) by blast
  let ?w5 = "?w4\<lparr>pw_store := one_row b rs' ((demo_outbox2 @ [r, r']) @ [r5])\<rparr>"
  have s4: "platform_step flat_digest ?w4 ?w5"
    by (rule ps_recorded [where k = "demo_ticket d" and a = a]) (use b(1) in simp_all)
  have "platform_reaches flat_digest demo_world1 ?w5"
    by (rule reaches_step [OF reaches_step [OF reaches_step [OF reaches_step [OF reaches_refl s1] s2] s3] s4])
  then show ?thesis using b(2,3) by (intro exI [where x = ?w5] exI [where x = b]) simp
qed

text \<open>The first record is delivered.\<close>

definition demo_lease :: outbox_record where
  "demo_lease = stamp_claim ''o'' ''tok'' (to_iso 30000) demo_record1"

definition demo_sent_payload :: json where
  "demo_sent_payload = JObj [(''platform_action_id'', JStr ''pa_1''), (''correlation_id'', JStr ''corr_1''), (''request_id'', JStr ''r1''),
     (''state'', JStr ''RECEIVED''), (''input_hash'', JStr ''h'')]"

definition demo_translation :: json where
  "demo_translation = JObj [(''version'', JStr ''1.0''), (''event_id'', JStr ''evt_outbox_ob_1''), (''event_type'', JStr ''PLATFORM_ACTION_RECEIVED''),
     (''tenant_id'', JStr ''t1''), (''stream_id'', JStr ''platform:pa_1''), (''correlation_id'', JStr ''corr_1''),
     (''actor'', actor_json ''AGENT'' ''agent-1''), (''source_component'', JStr ''platform''),
     (''authority_context'', JObj [(''agent_id'', JStr ''agent-1''), (''action'', JStr ''report.write''), (''tool'', JStr ''fs''),
        (''resource'', JStr ''/srv/reports/q1.md''), (''operation'', JStr ''write'')]), (''payload'', demo_sent_payload)]"

lemma demo_translated: "platform_ledger_event demo_lease (one_row demo_row1 rs os) = Inr demo_translation"
proof -
  have lease: "ox_tenant_id demo_lease = ''t1''" "ox_platform_action_id demo_lease = ''pa_1''" "ox_outbox_id demo_lease = ''ob_1''"
    "ox_event_type demo_lease = ''PLATFORM_ACTION_RECEIVED''"
    "ox_payload demo_lease = JObj (snd demo_received)"
    by (simp_all add: demo_lease_def stamp_claim_def demo_record1_def event_record_def newOutboxRecord_def demo_received_def with_causation_def)
  have ids: "pa_correlation_id demo_row1 = ''corr_1''" "computeInputHash flat_digest demo_normalized = ''h''"
    by (simp_all add: demo_row1_def demo_row0_def new_action_def computeInputHash_def hash_json_def flat_digest_def)
  have ty: "eventType demo_lease = Inr ''PLATFORM_ACTION_RECEIVED''" by (simp add: eventType_def lease direct_event_types_def)
  show ?thesis
    unfolding platform_ledger_event_Inr
    by (intro exI [where x = demo_row1] exI [where x = "''PLATFORM_ACTION_RECEIVED''"])
      (simp add: lease ty translation_def demo_translation_def demo_sent_payload_def demo_received_def demo_normalized_def outboxLedgerEventId_def
        truthy_str_def capturedDecisionId_def capturedPolicyHash_def ctx_field_def obj_fields_def actor_json_def ids ids [unfolded demo_normalized_def])
qed

lemma demo_sent_payload_text: "ledger_canonical demo_sent_payload = ''{\"correlation_id\":\"corr_1\",\"input_hash\":\"h\",\"platform_action_id\":\"pa_1\",\"request_id\":\"r1\",\"state\":\"RECEIVED\"}''"
  by code_simp

lemma demo_translation_clean: "secret_hit demo_translation = None"
  by code_simp

lemma demo_translation_checks: "\<forall>c \<in> set (event_checks demo_translation). fst c"
proof -
  have "is_plain_object (Some demo_sent_payload)" by (simp add: demo_sent_payload_def is_plain_object_def)
  then have p: "(case demo_sent_payload of JObj kvs \<Rightarrow> True | _ \<Rightarrow> False)" by (simp add: is_plain_object_def)
  show ?thesis
    by (simp add: event_check_defs p demo_translation_clean [unfolded demo_translation_def actor_json_def] demo_sent_payload_text max_payload_bytes_def
      demo_translation_def del: secret_hit_def)
qed

definition demo_ledger_writer :: ledger_principal where
  "demo_ledger_writer = writerPrincipal ''dispatcher'' ''t1'' [''platform'']"

lemma demo_appended:
  "\<exists>L e. ledger_append flat_digest ''n'' demo_ledger_writer demo_translation ledger_empty = Inr (L, e) \<and> li_event_id e = ''evt_outbox_ob_1''"
proof -
  have v: "validateEventInput demo_translation = Inr (normalized_event demo_translation)"
    unfolding validateEventInput_def using demo_translation_checks [folded run_checks_ok [where u = "()"]] by (simp del: run_checks_ok)
  have f: "li_tenant_id (normalized_event demo_translation) = ''t1''" "li_source_component (normalized_event demo_translation) = ''platform''"
    "li_event_type (normalized_event demo_translation) = ''PLATFORM_ACTION_RECEIVED''" "li_event_id (normalized_event demo_translation) = ''evt_outbox_ob_1''"
    by (simp_all add: normalized_event_def demo_translation_def Let_def the_str_def)
  have e: "li_event_id (appended_event i r) = li_event_id i" for i r
    by (simp add: appended_event_def ledger_input.defs)
  show ?thesis
    by (simp add: ledger_append_def v assertCanWrite_def demo_ledger_writer_def writerPrincipal_def f assertInvariants_def execution_outcomes_def store_append_def
      row_by_id_def row_by_sequence_def ledger_empty_def streamHead_def Let_def e)
qed

lemma demo_delivered:
  "\<exists>w r. platform_reaches flat_digest demo_world1 w \<and> r \<in> set (ps_outbox (pw_store w)) \<and> ox_status r = OB_DELIVERED \<and> ox_outbox_id r = ''ob_1'' \<and> ox_tenant_id r = ''t1''"
proof -
  obtain L e where app: "ledger_append flat_digest ''n'' demo_ledger_writer demo_translation ledger_empty = Inr (L, e)" "li_event_id e = ''evt_outbox_ob_1''"
    using demo_appended by blast
  have rec: "ox_status demo_record1 = OB_PENDING" "ox_outbox_id demo_record1 = ''ob_1''" "ox_tenant_id demo_record1 = ''t1''"
    by (simp_all add: demo_record1_def)
  have lease: "ox_status demo_lease = OB_DELIVERING" "ox_claim_token demo_lease = Some ''tok''" "ox_outbox_id demo_lease = ''ob_1''" "ox_tenant_id demo_lease = ''t1''"
    "record_key demo_lease = (''t1'', ''ob_1'')"
    by (simp_all add: demo_lease_def stamp_claim_def rec record_key_def)
  have put: "put_record (''t1'', ''ob_1'') f (one_row demo_row1 [] [r]) = one_row demo_row1 [] [f r]" if "record_key r = (''t1'', ''ob_1'')" for f r
    using that by (simp add: put_record_def one_row_def)
  let ?s = "one_row demo_row1 [] [demo_lease]"
  have claim: "claimNext 0 ''o'' 30000 ''tok'' (pw_store demo_world1) = (?s, Some demo_lease)"
    by (simp add: claimNext_def demo_world1_def demo_store1_def eligible_def rec put Let_def) (simp add: demo_lease_def)
  note s1 = ps_claim [OF claim]
  let ?w1 = "demo_world1\<lparr>pw_store := ?s, pw_claims := [(demo_lease, ''tok'')]\<rparr>"
  have s1': "platform_step flat_digest demo_world1 ?w1" using s1 [of flat_digest] by (simp add: demo_world1_def platform_start_def)
  have sent: "deliver flat_digest ''n'' demo_ledger_writer demo_lease (pw_store ?w1) (pw_ledger ?w1) = (L, Inr ''evt_outbox_ob_1'')"
    using app by (simp add: deliver_def demo_translated demo_world1_def platform_start_def)
  let ?w2 = "?w1\<lparr>pw_ledger := L, pw_answers := [(demo_lease, ''tok'', Inr ''evt_outbox_ob_1'')]\<rparr>"
  have "(demo_lease, ''tok'') \<in> set (pw_claims ?w1)" by simp
  from ps_deliver [OF this sent] have s2: "platform_step flat_digest ?w1 ?w2" by (simp add: demo_world1_def platform_start_def)
  let ?r = "demo_lease\<lparr>ox_status := OB_DELIVERED, ox_ledger_event_id := ''evt_outbox_ob_1'', ox_last_error := None, ox_claim_expires_at := None\<rparr>"
  have noted: "settle 8 0 demo_lease ''tok'' (Inr ''evt_outbox_ob_1'') (pw_store ?w2) = (one_row demo_row1 [] [?r], Dispatch_Delivered)"
    by (simp add: settle_def Let_def lease outboxLedgerEventId_def markDelivered_def put fenced_def)
  have "(demo_lease, ''tok'', Inr ''evt_outbox_ob_1'') \<in> set (pw_answers ?w2)" by simp
  from ps_settle [OF this noted] have s3: "platform_step flat_digest ?w2 (?w2\<lparr>pw_store := one_row demo_row1 [] [?r]\<rparr>)" .
  have "platform_reaches flat_digest demo_world1 (?w2\<lparr>pw_store := one_row demo_row1 [] [?r]\<rparr>)"
    by (rule reaches_step [OF reaches_step [OF reaches_step [OF reaches_refl s1'] s2] s3])
  then show ?thesis using lease by (intro exI [where x = "?w2\<lparr>pw_store := one_row demo_row1 [] [?r]\<rparr>"] exI [where x = ?r]) simp
qed

section \<open>Lemmas\<close>

lemma action_move_mono: "action_move G a b \<Longrightarrow> (\<And>a d. G a d \<Longrightarrow> G' a d) \<Longrightarrow> action_move G' a b"
  by (auto simp: action_move_def)

lemma action_moves_mono: "(action_move G)\<^sup>*\<^sup>* a b \<Longrightarrow> (\<And>a d. G a d \<Longrightarrow> G' a d) \<Longrightarrow> (action_move G')\<^sup>*\<^sup>* a b"
  by (induction rule: rtranclp_induct) (auto intro: rtranclp.rtrancl_into_rtrancl action_move_mono)

text \<open>What holds between an action and any later row of it.\<close>

definition follows :: "platform_action \<Rightarrow> platform_action \<Rightarrow> bool" where
  "follows a b = (same_identity a b
     \<and> (\<exists>ts. table_path platform_transitions (pa_state a) ts \<and> path_end (pa_state a) ts = pa_state b \<and> pa_state_version b = pa_state_version a + int (length ts))
     \<and> written_once (pa_capability_id a) (pa_capability_id b) \<and> written_once (pa_sentinel_session_id a) (pa_sentinel_session_id b)
     \<and> written_once (pa_execution_id a) (pa_execution_id b) \<and> written_once (pa_result_hash a) (pa_result_hash b)
     \<and> written_once (pa_vad_final_state a) (pa_vad_final_state b) \<and> (isTerminalState (pa_state a) \<longrightarrow> b = a))"

lemma follows_refl: "follows a a"
  by (auto simp: follows_def same_identity_def written_once_def intro!: exI [where x = "[]"])

lemma written_once_trans: "written_once x y \<Longrightarrow> written_once y z \<Longrightarrow> written_once x z"
  by (auto simp: written_once_def)

lemma moves_follow: "(action_move G)\<^sup>*\<^sup>* a b \<Longrightarrow> evidence_ok a \<Longrightarrow> follows a b \<and> evidence_ok b"
proof (induction rule: rtranclp_induct)
  case base
  then show ?case by (simp add: follows_refl)
next
  case (step b c)
  then have b: "follows a b" "evidence_ok b" by simp_all
  have m: "same_identity b c" "isAllowedTransition (pa_state b) (pa_state c)" "pa_state_version c = pa_state_version b + 1" "evidence_ok c"
    "written_once (pa_capability_id b) (pa_capability_id c)" "written_once (pa_sentinel_session_id b) (pa_sentinel_session_id c)"
    "written_once (pa_execution_id b) (pa_execution_id c)" "written_once (pa_result_hash b) (pa_result_hash c)" "written_once (pa_vad_final_state b) (pa_vad_final_state c)"
    using step.hyps(2) b(2) by (simp_all add: action_move_def)
  obtain ts where ts: "table_path platform_transitions (pa_state a) ts" "path_end (pa_state a) ts = pa_state b" "pa_state_version b = pa_state_version a + int (length ts)"
    using b(1) by (auto simp: follows_def)
  have "\<not> isTerminalState (pa_state b)" using act.step_not_terminal m(2) by (simp add: isAllowedTransition_def)
  then have live: "\<not> isTerminalState (pa_state a)" using b(1) by (auto simp: follows_def)
  have path: "\<exists>ts. table_path platform_transitions (pa_state a) ts \<and> path_end (pa_state a) ts = pa_state c \<and> pa_state_version c = pa_state_version a + int (length ts)"
    using ts m(2,3) by (intro exI [where x = "ts @ [pa_state c]"]) (simp add: table_path_append isAllowedTransition_def)
  have same: "same_identity a c" using b(1) m(1) by (simp add: follows_def same_identity_def)
  have w: "written_once (pa_capability_id a) (pa_capability_id b)" "written_once (pa_sentinel_session_id a) (pa_sentinel_session_id b)"
    "written_once (pa_execution_id a) (pa_execution_id b)" "written_once (pa_result_hash a) (pa_result_hash b)"
    "written_once (pa_vad_final_state a) (pa_vad_final_state b)"
    using b(1) unfolding follows_def by blast+
  have "follows a c"
    unfolding follows_def
    by (intro conjI same path written_once_trans [OF w(1) m(5)] written_once_trans [OF w(2) m(6)] written_once_trans [OF w(3) m(7)]
      written_once_trans [OF w(4) m(8)] written_once_trans [OF w(5) m(9)] impI) (rule notE [OF live])
  then show ?case using m(4) by simp
qed

lemma world_row_ok: "world_inv w \<Longrightarrow> action_row k (pw_store w) = Some a \<Longrightarrow> evidence_ok a"
  by (drule action_row_Some) (simp add: world_inv_def store_inv_def)

lemma reaches_row:
  assumes "platform_reaches sha w w'" "world_inv w" "action_row k (pw_store w) = Some a"
  shows "\<exists>b. action_row k (pw_store w') = Some b \<and> (action_move (\<lambda>_ _. True))\<^sup>*\<^sup>* a b"
  using assms(1) unfolding platform_reaches_def
proof (induction rule: rtranclp_induct)
  case base
  then show ?case using assms(3) by blast
next
  case (step u v)
  then obtain b where b: "action_row k (pw_store u) = Some b" "(action_move (\<lambda>_ _. True))\<^sup>*\<^sup>* a b" by blast
  have inv: "world_inv u" by (rule platform_reaches_inv [OF step.hyps(1) [folded platform_reaches_def] assms(2)])
  obtain c where "action_row k (pw_store v) = Some c" "(action_move (gate_backs (pw_gate u)))\<^sup>*\<^sup>* b c"
    using changes_rows [OF step_changes [OF step.hyps(2) inv] world_inv_distinct [OF inv] b(1)] by blast
  then show ?case using b(2) action_moves_mono [of "gate_backs (pw_gate u)" b c "\<lambda>_ _. True"] by (auto intro: rtranclp_trans)
qed

lemma reaches_record:
  assumes "platform_reaches sha w w'" "world_inv w" "r \<in> set (ps_outbox (pw_store w))"
  shows "\<exists>q \<in> set (ps_outbox (pw_store w')). same_event r q \<and> (settled r \<longrightarrow> q = r)"
  using assms(1) unfolding platform_reaches_def
proof (induction rule: rtranclp_induct)
  case base
  then show ?case using assms(3) by (intro bexI [of _ r]) (simp_all add: same_event_def)
next
  case (step u v)
  then obtain q where q: "q \<in> set (ps_outbox (pw_store u))" "same_event r q" "settled r \<longrightarrow> q = r" by blast
  have inv: "world_inv u" by (rule platform_reaches_inv [OF step.hyps(1) [folded platform_reaches_def] assms(2)])
  have same: "same_event y x \<Longrightarrow> ledger_holds u x \<Longrightarrow> ledger_holds u y" for x y
    by (rule ledger_holds_same [of x]) (simp_all add: same_event_def)
  obtain x where "x \<in> set (ps_outbox (pw_store v))" "record_move (ledger_holds u) q x"
    using changes_records [where D = "ledger_holds u", OF step_changes [OF step.hyps(2) inv] q(1)] same by blast
  then show ?case using q(2,3) by (auto simp: record_move_def same_event_def)
qed

text \<open>The dispatcher: every round spends one attempt of a record or settles it.\<close>

definition attempts_left :: "int \<Rightarrow> outbox_record \<Rightarrow> nat" where
  "attempts_left m r = (if settled r then 0 else nat (m - ox_attempt_count r) + 1)"

definition backlog :: "int \<Rightarrow> platform_store \<Rightarrow> nat" where
  "backlog m st = sum_list (map (attempts_left m) (ps_outbox st))"

lemma sum_list_less:
  fixes f :: "'a \<Rightarrow> nat"
  assumes "\<And>x. x \<in> set xs \<Longrightarrow> f (h x) \<le> f x" "x \<in> set xs" "f (h x) < f x"
  shows "sum_list (map f (map h xs)) < sum_list (map f xs)"
  using assms
proof (induction xs)
  case (Cons y ys)
  have le: "sum_list (map f (map h ys)) \<le> sum_list (map f ys)"
    using Cons.prems(1) by (simp add: comp_def sum_list_mono)
  show ?case
  proof (cases "x = y")
    case True
    then show ?thesis using Cons.prems(3) le by simp
  next
    case False
    then have "sum_list (map f (map h ys)) < sum_list (map f ys)" using Cons by simp
    then show ?thesis using Cons.prems(1) [of y] by simp
  qed
qed simp

lemma settle_outbox:
  assumes "settle m clock r token sent st = (st', out)"
  shows "\<exists>g. ps_outbox st' = map (\<lambda>x. if record_key x = record_key r \<and> fenced token x then g x else x) (ps_outbox st)
    \<and> (\<forall>x. ox_attempt_count (g x) = ox_attempt_count x \<and> (settled (g x) \<or> \<not> settled (g x) \<and> \<not> isDeadLetter (ox_attempt_count r) m))"
proof -
  have put: "ps_outbox (put_record (ox_tenant_id r, ox_outbox_id r) (\<lambda>x. if fenced token x then g x else x) st)
      = map (\<lambda>x. if record_key x = record_key r \<and> fenced token x then g x else x) (ps_outbox st)" for g
    by (auto simp: put_record_def record_key_def)
  have dead: "\<exists>g. ps_outbox (markDeadLetter (ox_outbox_id r) (ox_tenant_id r) token mm st)
      = map (\<lambda>x. if record_key x = record_key r \<and> fenced token x then g x else x) (ps_outbox st)
    \<and> (\<forall>x. ox_attempt_count (g x) = ox_attempt_count x \<and> (settled (g x) \<or> \<not> settled (g x) \<and> \<not> isDeadLetter (ox_attempt_count r) m))" for mm
    unfolding markDeadLetter_def put
    by (rule exI [where x = "\<lambda>x. x\<lparr>ox_status := OB_DEAD_LETTER, ox_last_error := Some mm, ox_claim_expires_at := None\<rparr>"]) (simp add: settled_def)
  have retry: "\<exists>g. ps_outbox (markRetry (ox_outbox_id r) (ox_tenant_id r) token mm nx st)
      = map (\<lambda>x. if record_key x = record_key r \<and> fenced token x then g x else x) (ps_outbox st)
    \<and> (\<forall>x. ox_attempt_count (g x) = ox_attempt_count x \<and> (settled (g x) \<or> \<not> settled (g x) \<and> \<not> isDeadLetter (ox_attempt_count r) m))"
    if "\<not> isDeadLetter (ox_attempt_count r) m" for mm nx
    unfolding markRetry_def put
    by (rule exI [where x = "\<lambda>x. x\<lparr>ox_status := OB_FAILED, ox_last_error := Some mm, ox_next_attempt_at := nx, ox_claim_expires_at := None\<rparr>"])
      (simp add: settled_def that)
  have delivered: "\<exists>g. ps_outbox (put_record (ox_tenant_id r, ox_outbox_id r) (\<lambda>x. if fenced token x then x\<lparr>ox_status := OB_DELIVERED,
        ox_ledger_event_id := e, ox_last_error := None, ox_claim_expires_at := None\<rparr> else x) st)
      = map (\<lambda>x. if record_key x = record_key r \<and> fenced token x then g x else x) (ps_outbox st)
    \<and> (\<forall>x. ox_attempt_count (g x) = ox_attempt_count x \<and> (settled (g x) \<or> \<not> settled (g x) \<and> \<not> isDeadLetter (ox_attempt_count r) m))" for e
    unfolding put
    by (rule exI [where x = "\<lambda>x. x\<lparr>ox_status := OB_DELIVERED, ox_ledger_event_id := e, ox_last_error := None, ox_claim_expires_at := None\<rparr>"])
      (simp add: settled_def)
  show ?thesis
    using assms dead retry delivered by (cases sent) (auto simp: settle_def Let_def markDelivered_def split: if_splits)
qed

lemma round_spends:
  assumes claim: "claimNext now owner lease token st = (st1, Some r)" and settle: "settle m clock r token sent st1 = (st2, out)"
  shows "backlog m st2 < backlog m st"
proof -
  obtain q where q: "find (eligible (to_iso now)) (ps_outbox st) = Some q" and r: "r = stamp_claim owner token (to_iso (now + lease)) q"
    and st1: "ps_outbox st1 = map (\<lambda>x. if record_key x = record_key q then (if ox_status x = ox_status q \<and> ox_claim_token x = ox_claim_token q
        then stamp_claim owner token (to_iso (now + lease)) x else x) else x) (ps_outbox st)"
    using claim by (auto simp: claimNext_def Let_def put_record_def split: option.splits)
  obtain g where st2: "ps_outbox st2 = map (\<lambda>x. if record_key x = record_key r \<and> fenced token x then g x else x) (ps_outbox st1)"
    and g: "\<And>x. ox_attempt_count (g x) = ox_attempt_count x" "\<And>x. settled (g x) \<or> \<not> isDeadLetter (ox_attempt_count r) m"
    using settle_outbox [OF settle] by blast
  have mem: "q \<in> set (ps_outbox st)" and el: "eligible (to_iso now) q" using find_SomeD [OF q] by simp_all
  note unsettled = eligible_open [OF el]
  let ?c = "stamp_claim owner token (to_iso (now + lease))"
  let ?h1 = "\<lambda>x. if record_key x = record_key q then (if ox_status x = ox_status q \<and> ox_claim_token x = ox_claim_token q then ?c x else x) else x"
  let ?h2 = "\<lambda>x. if record_key x = record_key r \<and> fenced token x then g x else x"
  have c: "ox_attempt_count (?c x) = ox_attempt_count x + 1" "\<not> settled (?c x)" "fenced token (?c x)" "record_key (?c x) = record_key x" for x
    by (simp_all add: stamp_claim_def settled_def fenced_def record_key_def)
  have h2: "attempts_left m (?h2 x) \<le> attempts_left m x" for x
    using g(1) by (auto simp: attempts_left_def fenced_def settled_def)
  have h1: "attempts_left m (?h1 x) \<le> attempts_left m x" for x
    using unsettled c(1,2) by (auto simp: attempts_left_def settled_def)
  have "attempts_left m (?h2 (?h1 q)) < attempts_left m q"
    using unsettled c g(1) g(2) [of "?c q"] by (auto simp: attempts_left_def r isDeadLetter_def)
  moreover have "attempts_left m (?h2 (?h1 x)) \<le> attempts_left m x" for x
    using h2 [of "?h1 x"] h1 [of x] by linarith
  ultimately have "sum_list (map (attempts_left m) (map (\<lambda>x. ?h2 (?h1 x)) (ps_outbox st))) < backlog m st"
    unfolding backlog_def by (intro sum_list_less [OF _ mem])
  moreover have "ps_outbox st2 = map (\<lambda>x. ?h2 (?h1 x)) (ps_outbox st)"
    unfolding st2 st1 map_map comp_def ..
  ultimately show ?thesis by (simp only: backlog_def)
qed

lemma claimNext_store: "claimNext now owner lease token st = (st1, None) \<Longrightarrow> st1 = st \<and> (\<forall>r \<in> set (ps_outbox st). \<not> eligible (to_iso now) r)"
  by (auto simp: claimNext_def Let_def find_None_iff split: option.splits)

lemma dispatch_returns:
  assumes "backlog (dp_maxAttempts opt) st < fuel"
  shows "\<exists>st' L' outs j. dispatch_loop sha p opt clock tokens fuel k (st, L) acc = Some ((st', L'), outs)
    \<and> length outs \<le> length acc + backlog (dp_maxAttempts opt) st \<and> (\<forall>r \<in> set (ps_outbox st'). \<not> eligible (to_iso (clock (2 * j))) r)"
  using assms
proof (induction fuel arbitrary: k st L acc)
  case (Suc fuel)
  obtain st1 found where claim: "claimNext (clock (2 * k)) (dp_ownerId opt) (dp_leaseMs opt) (tokens k) st = (st1, found)" by (cases "claimNext (clock (2 * k)) (dp_ownerId opt) (dp_leaseMs opt) (tokens k) st")
  show ?case
  proof (cases found)
    case None
    then show ?thesis using claim claimNext_store [OF claim [unfolded None]] by (auto intro!: exI [where x = k])
  next
    case (Some r)
    obtain L1 sent where sent: "deliver sha (to_iso (clock (2 * k))) p r st1 L = (L1, sent)" by (cases "deliver sha (to_iso (clock (2 * k))) p r st1 L")
    obtain st2 out where out: "settle (dp_maxAttempts opt) (clock (2 * k + 1)) r (tokens k) sent st1 = (st2, out)"
      by (cases "settle (dp_maxAttempts opt) (clock (2 * k + 1)) r (tokens k) sent st1")
    have less: "backlog (dp_maxAttempts opt) st2 < backlog (dp_maxAttempts opt) st" by (rule round_spends [OF claim [unfolded Some] out])
    then have "backlog (dp_maxAttempts opt) st2 < fuel" using Suc.prems by simp
    from Suc.IH [OF this, of "Suc k" L1 "acc @ [out]"] obtain st' L' outs j where
      "dispatch_loop sha p opt clock tokens fuel (Suc k) (st2, L1) (acc @ [out]) = Some ((st', L'), outs)"
      "length outs \<le> length (acc @ [out]) + backlog (dp_maxAttempts opt) st2" "\<forall>r \<in> set (ps_outbox st'). \<not> eligible (to_iso (clock (2 * j))) r" by blast
    then show ?thesis using less claim Some sent out by (intro exI [where x = st'] exI [where x = L'] exI [where x = outs] exI [where x = j]) simp
  qed
qed simp

section \<open>What the orchestration does not do\<close>

text \<open>
  A crash between two commits of \<open>run\<close> leaves the action in CAPABILITY_ISSUED, in MONITORING or in
  VERIFYING. A restart repairs EXECUTING only: in CAPABILITY_ISSUED and in VERIFYING no restart, agent or
  operator moves the action any more.
\<close>

lemma recover_row_keeps:
  assumes "recover_row now ob b st = Inr st'" "a \<in> set (ps_actions st)" "key_of a \<noteq> key_of b"
  shows "a \<in> set (ps_actions st')"
proof -
  let ?f = "\<lambda>x. if pa_state x = EXECUTING then set_state INDETERMINATE_ACTION now x else x"
  have "a \<in> (\<lambda>x. if key_of x = key_of b then ?f x else x) ` set (ps_actions st)"
    using assms(2,3) by (intro image_eqI [where x = a]) simp_all
  then show ?thesis
    using assms(1,3) by (auto simp: recover_row_def Let_def enqueue_Inr image_iff)
qed

lemma recover_rows_keep:
  assumes "recover_rows now ids bs st = Inr st'" "a \<in> set (ps_actions st)" "\<And>b. b \<in> set bs \<Longrightarrow> key_of a \<noteq> key_of b"
  shows "a \<in> set (ps_actions st')"
  using assms
proof (induction bs arbitrary: st)
  case (Cons b bs)
  then obtain u where u: "recover_row now (ids (length bs)) b st = Inr u" "recover_rows now ids bs u = Inr st'" by (auto simp: rbind_eq_Inr)
  have "a \<in> set (ps_actions u)" by (rule recover_row_keeps [OF u(1) Cons.prems(2)]) (simp add: Cons.prems(3))
  then show ?case using Cons.IH [OF u(2)] Cons.prems(3) by simp
qed simp

lemma interrupted_run_stays:
  assumes "distinct_actions st" "action_row (t, i) st = Some a" "pa_state a \<in> {CAPABILITY_READY, VERIFYING}" "pp_tenantId p = t"
  shows "recoverInterruptedWork now ids st = Inr st' \<Longrightarrow> a \<in> set (ps_actions st')"
    "\<exists>e. run_checks_of p i st = Inl e" "\<exists>e. begin_authorizing a now ob st = Inl e"
    "\<exists>e. control_resume p i now ob st = Inl e" "\<exists>e. control_terminate p i reason now ob st = Inl e"
proof -
  have a: "a \<in> set (ps_actions st)" using action_row_Some [OF assms(2)] by simp
  show "a \<in> set (ps_actions st')" if rec: "recoverInterruptedWork now ids st = Inr st'"
  proof -
    obtain u where u: "recover_rows now ids (filter (\<lambda>a. pa_state a = EXECUTING) (ps_actions st)) st = Inr u" "ps_actions st' = ps_actions u"
      using rec by (auto simp: recoverInterruptedWork_def rbind_eq_Inr)
    have "key_of a \<noteq> key_of b" if "b \<in> set (filter (\<lambda>a. pa_state a = EXECUTING) (ps_actions st))" for b
      using distinct_row [OF assms(1) _ a, of b] that assms(3) by auto
    then show ?thesis using recover_rows_keep [OF u(1) a] u(2) by simp
  qed
  have get: "platform_get (pp_tenantId p) i st = Inr a" using assms(2,4) by simp
  show "\<exists>e. run_checks_of p i st = Inl e"
    using assms(3) by (auto simp: run_checks_of_def own_action_def get bound_agent_def split: option.splits)
  show "\<exists>e. begin_authorizing a now ob st = Inl e" using assms(3) by (auto simp: begin_authorizing_def)
  show "\<exists>e. control_resume p i now ob st = Inl e"
    using assms(3) by (cases "role_check [PR_Operator, PR_Admin] '' may not resume a held action'' p") (auto simp: control_resume_def get)
  show "\<exists>e. control_terminate p i reason now ob st = Inl e"
    using assms(3) by (cases "assertCanTerminate p") (auto simp: control_terminate_def get)
qed

text \<open>The tenant of the caller plays no part in the creation of an action, and a user may create what only an agent may authorize.\<close>

lemma submit_ignores_tenant:
  "submit_action sha (p\<lparr>pp_tenantId := t\<rparr>) raw by u1 u2 ob now st = submit_action sha p raw by u1 u2 ob now st"
  by (simp add: submit_action_def assertCanSubmit_def role_check_def)

lemma user_creates_only:
  assumes "pp_role p \<in> {PR_User, PR_Service}"
  shows "assertCanSubmit p = Inr ()"
    "platform_authorize sha am p i now ob1 ob2 (st, g) = ((st, g), Inl (p_forbidden ''Only a tenant-bound platform agent may request Gate authorization''))"
  using assms by (auto simp: assertCanSubmit_def role_check_def platform_authorize_def own_action_def bound_agent_def split: option.split)

text \<open>A HOLD before execution ends the action but leaves its run CLAIMED.\<close>

lemma hold_leaves_run_claimed:
  assumes "run_precheck sha k a (Some SD_HOLD) rules confirmed now ob st = (st', Precheck_Done (Inr b))"
  shows "pa_state b = INDETERMINATE_ACTION" "ps_runs st' = ps_runs st"
proof -
  have f: "fail_running k INDETERMINATE_ACTION ''SENTINEL_HOLD'' ''Sentinel held the session before execution; connector was never invoked'' None now ob st = (st', Inr b)"
    using assms by (simp add: run_precheck_def Let_def split: prod.splits)
  then have r: "recordFailure (rt_tenant k) (rt_action k) (rt_version k) EXECUTING INDETERMINATE_ACTION ''SENTINEL_HOLD''
      ''Sentinel held the session before execution; connector was never invoked'' now ob st = Inr (st', b)"
    by (auto simp: fail_running_def split: sum.splits)
  then obtain x ev where x: "action_row (rt_tenant k, rt_action k) st = Some x"
    "advance (rt_tenant k, rt_action k) INDETERMINATE_ACTION (\<lambda>y. y\<lparr>pa_error_code := Some ''SENTINEL_HOLD'',
        pa_error_message := Some ''Sentinel held the session before execution; connector was never invoked''\<rparr>) (Some ev) now ob st = Inr (st', b)"
    by (auto simp: recordFailure_def rbind_eq_Inr awaiting_Inr split: if_splits)
  note adv = advance_Inr [OF x(2,1)]
  show "ps_runs st' = ps_runs st" by (rule adv(4)) simp_all
  have "b = advanced INDETERMINATE_ACTION (\<lambda>y. y\<lparr>pa_error_code := Some ''SENTINEL_HOLD'',
        pa_error_message := Some ''Sentinel held the session before execution; connector was never invoked''\<rparr>) (Some ev) now ob x"
    by (rule adv(5)) simp_all
  then show "pa_state b = INDETERMINATE_ACTION" by (simp add: advanced_def)
qed

section \<open>Properties\<close>





text \<open>
  C8. Exactly one Ledger row per delivered record: in every reachable world, whatever was retried by
  whichever dispatcher, a record marked DELIVERED has one and only one row of its tenant and its event
  identifier in the Ledger, and that row has the canonical content of the record's translation.
\<close>

theorem delivered_exactly_once:
  assumes "platform_reaches sha platform_start w" "r \<in> set (ps_outbox (pw_store w))" "ox_status r = OB_DELIVERED"
  shows "\<exists>row raw. filter (\<lambda>e. rw_tenant_id e = ox_tenant_id r \<and> rw_event_id e = outboxLedgerEventId (ox_outbox_id r)) (ls_events (pw_ledger w)) = [row]
     \<and> platform_ledger_event r (pw_store w) = Inr raw \<and> sameCanonicalContent (toLedgerEvent row) (normalized_event raw)"
proof -
  have inv: "world_inv w" by (rule platform_reaches_inv [OF assms(1) platform_start_inv])
  then obtain row raw where row: "row \<in> set (ls_events (pw_ledger w))" "platform_ledger_event r (pw_store w) = Inr raw" "rw_tenant_id row = ox_tenant_id r"
    "rw_event_id row = outboxLedgerEventId (ox_outbox_id r)" "sameCanonicalContent (toLedgerEvent row) (normalized_event raw)"
    using assms(2,3) by (auto simp: world_inv_def store_inv_def ledger_holds_def)
  have "ledger_unique (pw_ledger w)" using inv by (simp add: world_inv_def)
  then have "filter (\<lambda>e. (rw_tenant_id row, rw_event_id row) = (rw_tenant_id e, rw_event_id e)) (ls_events (pw_ledger w)) = [row]"
    unfolding ledger_unique_def using row(1) by (rule filter_key_distinct)
  moreover have "filter (\<lambda>e. rw_tenant_id e = ox_tenant_id r \<and> rw_event_id e = outboxLedgerEventId (ox_outbox_id r)) (ls_events (pw_ledger w))
      = filter (\<lambda>e. (rw_tenant_id row, rw_event_id row) = (rw_tenant_id e, rw_event_id e)) (ls_events (pw_ledger w))"
    using row(3,4) by (intro filter_cong) auto
  ultimately show ?thesis using row(2,5) by auto
qed

theorem delivered_exactly_once_witness:
  "\<exists>(w :: platform_world) row. filter (\<lambda>e. rw_tenant_id e = ''t1'' \<and> rw_event_id e = ''evt_outbox_ob_1'') (ls_events (pw_ledger w)) = [row]"
proof -
  obtain w r where r: "platform_reaches flat_digest demo_world1 w" "r \<in> set (ps_outbox (pw_store w))" "ox_status r = OB_DELIVERED"
    "ox_outbox_id r = ''ob_1''" "ox_tenant_id r = ''t1''"
    using demo_delivered by blast
  have "platform_reaches flat_digest platform_start w"
    using demo_world1_reached r(1) by (simp add: platform_reaches_def)
  from delivered_exactly_once [OF this r(2,3)] show ?thesis by (auto simp: r(4,5) outboxLedgerEventId_def)
qed

text \<open>
  C33. Evidence is never lost or rewritten: a record of the outbox is there in every later world with the same
  identifier, tenant, action, type, payload and time of creation, and once it is DELIVERED or DEAD_LETTER
  nothing about it changes any more.
\<close>

theorem evidence_obligation_kept:
  assumes "platform_reaches sha platform_start w" "platform_reaches sha w w'" "r \<in> set (ps_outbox (pw_store w))"
  shows "\<exists>q \<in> set (ps_outbox (pw_store w')). same_event r q \<and> (settled r \<longrightarrow> q = r)"
  using reaches_record [OF assms(2) platform_reaches_inv [OF assms(1) platform_start_inv] assms(3)] .

theorem evidence_obligation_kept_witness:
  "\<exists>w. \<exists>q \<in> set (ps_outbox (pw_store w)). same_event demo_record1 q \<and> platform_reaches flat_digest demo_world1 w \<and> (\<exists>b. action_row platform_demo_key (pw_store w) = Some b \<and> pa_state b = COMPLETED)"
proof -
  obtain w c where c: "platform_reaches flat_digest demo_world1 w" "action_row platform_demo_key (pw_store w) = Some c" "pa_state c = COMPLETED"
    using demo_completed by blast
  have "demo_record1 \<in> set (ps_outbox (pw_store demo_world1))" by (simp add: demo_world1_def demo_store1_def)
  from evidence_obligation_kept [OF demo_world1_reached c(1) this] c show ?thesis by blast
qed

text \<open>
  C23. The causal chain of an action is complete: in every reachable world the reconstruction of an action
  lists its records so that the first has no cause and each later one names the Ledger event of the one
  before it.
\<close>

definition chained :: "causal_step list \<Rightarrow> bool" where
  "chained cs = (\<forall>n < length cs. cs_caused_by (cs ! n) = (if n = 0 then None else Some (cs_event_id (cs ! (n - 1)))))"

lemma causally_linked_chained:
  assumes "causally_linked p rs q"
  shows "\<forall>n < length rs. cause_of (rs ! n) = (if n = 0 then map_option outboxLedgerEventId p else Some (outboxLedgerEventId (ox_outbox_id (rs ! (n - 1)))))"
  using assms
proof (induction rs arbitrary: p)
  case (Cons r rs)
  then have IH: "\<forall>n < length rs. cause_of (rs ! n) = (if n = 0 then Some (outboxLedgerEventId (ox_outbox_id r)) else Some (outboxLedgerEventId (ox_outbox_id (rs ! (n - 1)))))"
    by fastforce
  show ?case
  proof (intro allI impI)
    fix n assume n: "n < length (r # rs)"
    show "cause_of ((r # rs) ! n) = (if n = 0 then map_option outboxLedgerEventId p else Some (outboxLedgerEventId (ox_outbox_id ((r # rs) ! (n - 1)))))"
      using Cons.prems IH n by (cases n) (auto simp: nth_Cons split: nat.split)
  qed
qed simp

theorem causal_chain_complete:
  assumes "platform_reaches sha platform_start w" "reconstructPlatformAction t i (pw_store w) = Inr rc"
  shows "chained (rc_causal_chain rc)"
proof -
  have inv: "world_inv w" by (rule platform_reaches_inv [OF assms(1) platform_start_inv])
  obtain a where a: "action_row (t, i) (pw_store w) = Some a" and rc: "rc_causal_chain rc = map causal_step_of (listOutbox t (Some i) (pw_store w))"
    using assms(2) by (auto simp: reconstructPlatformAction_def rbind_eq_Inr Let_def)
  have mem: "a \<in> set (ps_actions (pw_store w))" "key_of a = (t, i)" using action_row_Some [OF a] by simp_all
  then have "i \<noteq> []" "causally_linked None (records_of (t, i) (pw_store w)) (pa_last_outbox_id a)"
    using inv by (auto simp: world_inv_def store_inv_def key_of_def)
  moreover from this have "listOutbox t (Some i) (pw_store w) = records_of (t, i) (pw_store w)"
    by (simp add: listOutbox_def records_of_def)
  ultimately show ?thesis
    using causally_linked_chained [of None "records_of (t, i) (pw_store w)" "pa_last_outbox_id a"]
    by (simp add: chained_def rc causal_step_of_def cause_of_def Let_def)
qed

theorem causal_chain_complete_witness:
  "\<exists>rc. reconstructPlatformAction ''t1'' ''pa_1'' demo_store1 = Inr rc \<and> chained (rc_causal_chain rc) \<and> length (rc_causal_chain rc) = 1"
proof -
  have "\<exists>rc. reconstructPlatformAction ''t1'' ''pa_1'' demo_store1 = Inr rc \<and> length (rc_causal_chain rc) = 1"
    by (simp add: reconstructPlatformAction_def demo_store1_def listOutbox_def demo_record1_def Let_def)
  then obtain rc where rc: "reconstructPlatformAction ''t1'' ''pa_1'' demo_store1 = Inr rc" "length (rc_causal_chain rc) = 1" by blast
  have "reconstructPlatformAction ''t1'' ''pa_1'' (pw_store demo_world1) = Inr rc" using rc(1) by (simp add: demo_world1_def)
  from causal_chain_complete [OF demo_world1_reached this] rc show ?thesis by blast
qed

text \<open>
  C34. No record is untranslatable: in every reachable world every record of the outbox has an action, a
  Ledger event type and so a translation; the error \<open>No Ledger mapping\<close> never arises.
\<close>

theorem every_record_translates:
  assumes "platform_reaches sha platform_start w" "r \<in> set (ps_outbox (pw_store w))"
  shows "\<exists>raw. platform_ledger_event r (pw_store w) = Inr raw"
proof -
  have inv: "store_inv (gate_backs (pw_gate w)) (ledger_holds w) (pw_store w)"
    using platform_reaches_inv [OF assms(1) platform_start_inv] by (simp add: world_inv_def)
  then have m: "mapped r" and key: "(ox_tenant_id r, ox_platform_action_id r) \<in> key_of ` set (ps_actions (pw_store w))" and d: "distinct_actions (pw_store w)"
    using assms(2) by (auto simp: store_inv_def)
  then obtain a where "a \<in> set (ps_actions (pw_store w))" "key_of a = (ox_tenant_id r, ox_platform_action_id r)" by auto
  then have "action_row (ox_tenant_id r, ox_platform_action_id r) (pw_store w) = Some a" using row_of_member [OF d] by metis
  then show ?thesis using m by (auto simp: platform_ledger_event_Inr mapped_def)
qed

theorem every_record_translates_witness: "\<exists>raw. platform_ledger_event demo_record1 demo_store1 = Inr raw"
  using every_record_translates [OF demo_world1_reached, of demo_record1] by (simp add: demo_world1_def demo_store1_def)


end
