(* ===== verification/Client_Schema.thy ===== *)
theory Client_Schema
  imports Platform_Schema
begin

text \<open>
  \<open>packages/client-schema\<close> and \<open>packages/mcp-schema\<close>: the vocabulary of the client integration, the
  validation of what an administrator or an MCP server supplies, the fixed rules for risk and bypass. A
  random identifier is an argument of the operation that mints it.
\<close>

section \<open>Errors\<close>

datatype client_code = CL_INVALID_INPUT | CL_NOT_FOUND | CL_FORBIDDEN | CL_CONFLICT | CL_PAYLOAD_TOO_LARGE | CL_TENANT_NOT_ACTIVE
  | CL_SERVICE_IDENTITY_REVOKED | CL_CREDENTIAL_INVALID | CL_TOOL_NOT_ENABLED | CL_TOOL_POLICY_REVIEW_REQUIRED
  | CL_SCHEMA_DRIFT_DETECTED | CL_CROSS_TENANT_DENIED

datatype mcp_code = MCP_SERVER_UNAVAILABLE | MCP_INITIALIZATION_FAILED | MCP_TOOL_NOT_FOUND | MCP_SCHEMA_DRIFT | MCP_TOOL_DISABLED
  | MCP_TIMEOUT | MCP_PROTOCOL_ERROR | MCP_RESULT_TOO_LARGE | MCP_INDETERMINATE

text \<open>\<open>Sql_Error\<close> is what the database throws when a key is taken.\<close>

datatype client_error = Client_Error client_code string | Mcp_Error mcp_code string | Sql_Error string

definition cl_invalid :: "string \<Rightarrow> client_error" where
  "cl_invalid m = Client_Error CL_INVALID_INPUT m"

definition cl_conflict :: "string \<Rightarrow> client_error" where
  "cl_conflict m = Client_Error CL_CONFLICT m"

definition mcp_protocol :: "string \<Rightarrow> client_error" where
  "mcp_protocol m = Mcp_Error MCP_PROTOCOL_ERROR m"

definition em_dash :: string where
  \<comment> \<open>the three bytes of U+2014\<close>
  "em_dash = [CHR 0xE2, CHR 0x80, CHR 0x94]"

section \<open>Secret-shaped content\<close>

definition client_secret_key :: "string \<Rightarrow> bool" where
  "client_secret_key k = (secret_key k \<or> list_ex (\<lambda>w. str_contains w (to_lower k)) (''credential'' # with_sep ''signing'' ''key''))"

fun client_find_secret :: "json \<Rightarrow> string option"
  and client_find_secret_list :: "json list \<Rightarrow> string option"
  and client_find_secret_fields :: "(string \<times> json) list \<Rightarrow> string option" where
  "client_find_secret (JStr s) = (if secret_value s then Some ''value matches a bearer-token pattern'' else None)"
| "client_find_secret (JArr xs) = client_find_secret_list xs"
| "client_find_secret (JObj kvs) = client_find_secret_fields kvs"
| "client_find_secret _ = None"
| "client_find_secret_list [] = None"
| "client_find_secret_list (x # xs) = (case client_find_secret x of Some r \<Rightarrow> Some r | None \<Rightarrow> client_find_secret_list xs)"
| "client_find_secret_fields [] = None"
| "client_find_secret_fields ((k, v) # kvs) =
     (if client_secret_key k then Some (''field name '' @ quoted k @ '' is a disallowed secret-shaped field'')
      else (case client_find_secret v of Some r \<Rightarrow> Some r | None \<Rightarrow> client_find_secret_fields kvs))"

section \<open>Tenants\<close>

datatype tenant_status = TS_Pending | TS_Active | TS_Suspended | TS_Offboarding | TS_Offboarded

definition tenant_status_name :: "tenant_status \<Rightarrow> string" where
  "tenant_status_name s = (case s of TS_Pending \<Rightarrow> ''PENDING'' | TS_Active \<Rightarrow> ''ACTIVE'' | TS_Suspended \<Rightarrow> ''SUSPENDED''
     | TS_Offboarding \<Rightarrow> ''OFFBOARDING'' | TS_Offboarded \<Rightarrow> ''OFFBOARDED'')"

record client_tenant =
  ct_tenant_id :: string
  ct_display_name :: string
  ct_environment :: string
  ct_status :: tenant_status
  ct_created_at :: string
  ct_created_by :: string
  ct_deployment_binding :: string
  ct_policy_profile :: string
  ct_connector_types :: "string list"
  ct_configuration_hash :: string
  ct_state_version :: int
  ct_suspended_reason :: "string option"
  ct_offboarding_reason :: "string option"

record tenant_input =
  ti_display_name :: string
  ti_environment :: string
  ti_deployment_binding :: string
  ti_policy_profile :: string
  ti_connector_types :: "string list"

definition max_name_length :: nat where "max_name_length = 200"

definition unknown_fields :: "(string \<Rightarrow> client_error) \<Rightarrow> string list \<Rightarrow> json \<Rightarrow> (bool \<times> client_error) list" where
  "unknown_fields err allowed raw = map (\<lambda>k. (k \<in> set allowed, err (''Unknown field: '' @ k))) (obj_keys raw)"

definition bounded_name :: "string \<Rightarrow> bool" where
  "bounded_name s = (s \<noteq> [] \<and> js_length s \<le> max_name_length)"

definition tenant_checks :: "json \<Rightarrow> (bool \<times> client_error) list" where
  "tenant_checks raw = (let f = (\<lambda>k. jfield k raw) in
     (is_plain_object (Some raw), cl_invalid ''Tenant create input must be an object'')
     # unknown_fields cl_invalid [''display_name'', ''environment'', ''deployment_binding'', ''policy_profile'', ''allowed_connector_types''] raw
     @ [(str_where bounded_name (f ''display_name''), cl_invalid ''display_name must be a non-empty bounded string''),
        (str_where (\<lambda>s. s \<in> set [''development'', ''test'', ''production'']) (f ''environment''), cl_invalid ''environment must be development|test|production''),
        (str_where (safeId 200) (f ''deployment_binding''), cl_invalid ''deployment_binding must be a safe identifier''),
        (str_where (safeId 200) (f ''policy_profile''), cl_invalid ''policy_profile must be a safe identifier''),
        (list_where (\<lambda>xs. xs \<noteq> [] \<and> list_all (\<lambda>x. x = JStr ''mcp-stdio'') xs) (f ''allowed_connector_types''),
         cl_invalid ''allowed_connector_types must be a non-empty array of supported connector types''),
        (client_find_secret raw = None, cl_invalid (''Tenant create input rejected: '' @ (case client_find_secret raw of Some r \<Rightarrow> r | None \<Rightarrow> [])))])"

definition validateClientTenantCreateInput :: "json \<Rightarrow> (client_error, tenant_input) res" where
  "validateClientTenantCreateInput raw = rbind (run_checks (tenant_checks raw)) (\<lambda>_. let f = (\<lambda>k. jfield k raw) in
     Inr \<lparr>ti_display_name = the_str (f ''display_name''), ti_environment = the_str (f ''environment''),
       ti_deployment_binding = the_str (f ''deployment_binding''), ti_policy_profile = the_str (f ''policy_profile''),
       ti_connector_types = map (\<lambda>x. the_str (Some x)) (the (jlist (f ''allowed_connector_types'')))\<rparr>)"

definition tenant_config_json :: "tenant_input \<Rightarrow> json" where
  "tenant_config_json i = JObj [(''display_name'', JStr (ti_display_name i)), (''environment'', JStr (ti_environment i)),
     (''deployment_binding'', JStr (ti_deployment_binding i)), (''policy_profile'', JStr (ti_policy_profile i)),
     (''allowed_connector_types'', jstrs (ti_connector_types i))]"

section \<open>Service identities and their credentials\<close>

datatype service_role = SR_Agent_Client | SR_Tool_Provider | SR_Operator | SR_Read_Only_Auditor

definition service_role_name :: "service_role \<Rightarrow> string" where
  "service_role_name r = (case r of SR_Agent_Client \<Rightarrow> ''agent-client'' | SR_Tool_Provider \<Rightarrow> ''tool-provider''
     | SR_Operator \<Rightarrow> ''operator'' | SR_Read_Only_Auditor \<Rightarrow> ''read-only-auditor'')"

definition service_role_of :: "string \<Rightarrow> service_role option" where
  "service_role_of s = find (\<lambda>r. service_role_name r = s) [SR_Agent_Client, SR_Tool_Provider, SR_Operator, SR_Read_Only_Auditor]"

datatype service_status = SS_Active | SS_Revoked

definition service_status_name :: "service_status \<Rightarrow> string" where
  "service_status_name s = (case s of SS_Active \<Rightarrow> ''ACTIVE'' | SS_Revoked \<Rightarrow> ''REVOKED'')"

record service_identity =
  si_service_id :: string
  si_tenant_id :: string
  si_name :: string
  si_role :: service_role
  si_status :: service_status
  si_credential_ref :: string
  si_created_at :: string
  si_last_rotated_at :: string
  si_state_version :: int

text \<open>The stored row has the hash of the credential; what the store hands out does not.\<close>

record service_row = service_identity +
  sr_credential_hash :: string

definition rowToService :: "service_row \<Rightarrow> service_identity" where
  "rowToService r = service_identity.truncate r"

record service_input =
  vi_name :: string
  vi_role :: service_role

definition validateServiceIdentityCreateInput :: "json \<Rightarrow> (client_error, service_input) res" where
  "validateServiceIdentityCreateInput raw = (let f = (\<lambda>k. jfield k raw) in
     rbind (run_checks ((is_plain_object (Some raw), cl_invalid ''Service identity create input must be an object'')
       # unknown_fields cl_invalid [''name'', ''role''] raw
       @ [(str_where bounded_name (f ''name''), cl_invalid ''name must be a non-empty bounded string'')])) (\<lambda>_.
     case jstr (f ''role'') of None \<Rightarrow> Inl (cl_invalid ''role must be one of: agent-client, tool-provider, operator, read-only-auditor'')
     | Some s \<Rightarrow> (case service_role_of s of None \<Rightarrow> Inl (cl_invalid ''role must be one of: agent-client, tool-provider, operator, read-only-auditor'')
       | Some r \<Rightarrow> Inr \<lparr>vi_name = the_str (f ''name''), vi_role = r\<rparr>)))"

record issued_credential =
  ic_credential_ref :: string
  ic_token :: string

definition issueCredential :: "string \<Rightarrow> string \<Rightarrow> string \<Rightarrow> issued_credential" where
  \<comment> \<open>three fresh UUIDs\<close>
  "issueCredential u1 u2 u3 = \<lparr>ic_credential_ref = ''cred_'' @ u1,
     ic_token = ''tnaclient_'' @ u2 @ filter (\<lambda>c. c \<noteq> CHR ''-'') u3\<rparr>"

definition hashCredentialToken :: "(string \<Rightarrow> string) \<Rightarrow> string \<Rightarrow> string" where
  "hashCredentialToken sha token = sha token"

definition verifyCredentialToken :: "(string \<Rightarrow> string) \<Rightarrow> string \<Rightarrow> string \<Rightarrow> bool" where
  "verifyCredentialToken sha token stored = (hashCredentialToken sha token = stored)"

section \<open>Risk, bypass, pages\<close>

datatype risk_class = RK_Low | RK_Medium | RK_High | RK_Critical

definition risk_name :: "risk_class \<Rightarrow> string" where
  "risk_name r = (case r of RK_Low \<Rightarrow> ''LOW'' | RK_Medium \<Rightarrow> ''MEDIUM'' | RK_High \<Rightarrow> ''HIGH'' | RK_Critical \<Rightarrow> ''CRITICAL'')"

definition risk_of :: "string \<Rightarrow> risk_class option" where
  "risk_of s = find (\<lambda>r. risk_name r = s) [RK_Low, RK_Medium, RK_High, RK_Critical]"

datatype bypass_assessment = NO_KNOWN_BYPASS | KNOWN_BYPASS | UNKNOWN_BYPASS

definition computeBypassAssessment :: "bool \<Rightarrow> bool \<Rightarrow> bypass_assessment" where
  \<comment> \<open>the attestation: a TNA credential chain, an external direct credential\<close>
  "computeBypassAssessment chain direct = (if direct then KNOWN_BYPASS else if chain then NO_KNOWN_BYPASS else UNKNOWN_BYPASS)"

datatype risk_category = RC_General | RC_Financial | RC_Credential_Mutation | RC_Code_Execution | RC_Filesystem_Write | RC_Deployment

datatype risk_operation = RO_Read | RO_Write | RO_Execute

definition classifyRisk :: "risk_operation \<Rightarrow> bool \<Rightarrow> risk_category \<Rightarrow> risk_class" where
  "classifyRisk op network category =
     (if category = RC_Deployment \<or> category = RC_Code_Execution \<or> category = RC_Credential_Mutation then RK_Critical
      else if category = RC_Financial \<or> category = RC_Filesystem_Write then RK_High
      else if op = RO_Write \<and> network then RK_High
      else if op = RO_Write \<or> op = RO_Execute then RK_Medium
      else if op = RO_Read \<and> network then RK_Medium
      else RK_Low)"

definition client_readPageOptions :: "jnum option \<Rightarrow> nat \<Rightarrow> (client_error, nat) res" where
  "client_readPageOptions limit maxSize = (let n = (case limit of None \<Rightarrow> Dec 50 0 | Some n \<Rightarrow> n) in
     if \<not> is_integer n \<or> int_of_num n \<le> 0 \<or> int_of_num n > int maxSize
     then Inl (cl_invalid (''limit must be a positive integer <= '' @ show_nat maxSize)) else Inr (nat (int_of_num n)))"

end
