(* ===== verification/Mcp_Schema.thy ===== *)
theory Mcp_Schema
  imports Client_Schema
begin

text \<open>
  \<open>packages/mcp-schema\<close>: the registration of an MCP server (a bare executable and an argument vector,
  never a shell command), the governed tool, and what a server's own tool list is reduced to.
\<close>

definition max_mcp_servers :: nat where "max_mcp_servers = 10"
definition max_tools_per_server :: nat where "max_tools_per_server = 200"
definition max_tool_schema_bytes :: nat where "max_tool_schema_bytes = 32768"
definition max_mcp_result_bytes :: nat where "max_mcp_result_bytes = 131072"

definition hashSchema :: "(string \<Rightarrow> string) \<Rightarrow> json \<Rightarrow> string" where
  "hashSchema sha schema = hash_json sha schema"

section \<open>Registration\<close>

datatype mcp_server_status = MS_Registered | MS_Reachable | MS_Unreachable | MS_Disabled

definition mcp_status_name :: "mcp_server_status \<Rightarrow> string" where
  "mcp_status_name s = (case s of MS_Registered \<Rightarrow> ''REGISTERED'' | MS_Reachable \<Rightarrow> ''REACHABLE''
     | MS_Unreachable \<Rightarrow> ''UNREACHABLE'' | MS_Disabled \<Rightarrow> ''DISABLED'')"

record mcp_input =
  mi_name :: string
  mi_executable :: string
  mi_args :: "string list"
  mi_env_allowlist :: "string list"
  mi_credential_ref :: "string option"

record mcp_server =
  ms_mcp_server_id :: string
  ms_tenant_id :: string
  ms_name :: string
  ms_executable :: string
  ms_args :: "string list"
  ms_env_allowlist :: "string list"
  ms_credential_ref :: "string option"
  ms_status :: mcp_server_status
  ms_created_at :: string
  ms_config_hash :: string
  ms_state_version :: int

text \<open>The regular expressions, as predicates on the text.\<close>

definition first_then :: "(char \<Rightarrow> bool) \<Rightarrow> (char \<Rightarrow> bool) \<Rightarrow> nat \<Rightarrow> string \<Rightarrow> bool" where
  \<comment> \<open>\<open>^[first][rest]{0,n}$\<close>\<close>
  "first_then first rest n s = (s \<noteq> [] \<and> first (hd s) \<and> list_all rest (tl s) \<and> length (tl s) \<le> n)"

definition name_pattern :: "string \<Rightarrow> bool" where
  "name_pattern = first_then is_alnum (\<lambda>c. is_alnum c \<or> char_in ''._ -'' c) 199"

definition executable_pattern :: "string \<Rightarrow> bool" where
  "executable_pattern = first_then is_alnum (\<lambda>c. is_alnum c \<or> char_in (CHR 0x5C # ''._/:() -'') c) 499"

definition env_name_pattern :: "string \<Rightarrow> bool" where
  "env_name_pattern = first_then (\<lambda>c. is_upper c \<or> c = CHR ''_'') (\<lambda>c. is_upper c \<or> is_digit c \<or> c = CHR ''_'') 127"

definition shell_injection :: "string \<Rightarrow> bool" where
  "shell_injection s = (list_ex (\<lambda>c. char_in [CHR '';'', CHR ''&'', CHR ''|'', CHR 0x60, CHR 0x0A, CHR 0x0D] c) s \<or> str_contains ''$('' s)"

definition path_structure :: "string \<Rightarrow> bool" where
  "path_structure s = (list_ex (\<lambda>c. c = CHR ''/'' \<or> c = CHR 0x5C) s
     \<or> (case s of c # d # _ \<Rightarrow> (is_upper c \<or> is_lower c) \<and> d = CHR '':'' | _ \<Rightarrow> False))"

definition looksLikeBareCommandInjection :: "string \<Rightarrow> bool" where
  "looksLikeBareCommandInjection s = (list_ex is_space s \<and> \<not> path_structure s)"

text \<open>\<open>s.slice(0, n)\<close>, the length in UTF-16 code units as in \<open>js_length\<close>; a pair is not split.\<close>

definition js_width :: "char \<Rightarrow> nat" where
  "js_width c = (if code_of c \<ge> 240 then 2 else if code_of c < 128 \<or> code_of c \<ge> 192 then 1 else 0)"

fun js_take :: "nat \<Rightarrow> string \<Rightarrow> string" where
  "js_take n [] = []"
| "js_take n (c # cs) = (if js_width c \<le> n then c # js_take (n - js_width c) cs else [])"

definition strings_of :: "json option \<Rightarrow> string list" where
  "strings_of v = (case jlist v of None \<Rightarrow> [] | Some xs \<Rightarrow> map (\<lambda>x. the_str (Some x)) xs)"

definition mcp_input_checks :: "json \<Rightarrow> (bool \<times> client_error) list" where
  "mcp_input_checks raw = (let f = (\<lambda>k. jfield k raw); exec = the_str (f ''executable'') in
     (is_plain_object (Some raw), mcp_protocol ''MCP server registration input must be an object'')
     # unknown_fields mcp_protocol [''name'', ''transport'', ''executable'', ''args'', ''env_allowlist'', ''credential_ref''] raw
     @ [(str_where name_pattern (f ''name''), mcp_protocol ''name must be a safe, bounded string''),
        (f ''transport'' = Some (JStr ''stdio''), mcp_protocol (''transport must be '' @ quoted ''stdio'' @ '' in v0.1'')),
        (str_where executable_pattern (f ''executable''), mcp_protocol ''executable must be a bare path, not a shell command string''),
        (\<not> shell_injection exec, mcp_protocol (''executable looks like an attempted shell-injection payload: '' @ js_take 40 exec)),
        (\<not> looksLikeBareCommandInjection exec, mcp_protocol (''executable '' @ quoted exec
           @ '' looks like a smashed-together command, not a bare path '' @ em_dash @ '' put arguments in args[] instead'')),
        (list_where (list_all (\<lambda>a. str_where (\<lambda>s. js_length s \<le> 2000) (Some a))) (f ''args''), mcp_protocol ''args must be an array of bounded strings'')]
     @ map (\<lambda>a. (\<not> shell_injection a, mcp_protocol (''arg looks like an attempted shell-injection payload: '' @ js_take 40 a))) (strings_of (f ''args''))
     @ [(list_where (list_all (\<lambda>e. str_where env_name_pattern (Some e))) (f ''env_allowlist''),
         mcp_protocol ''env_allowlist must be an array of uppercase environment variable names''),
        (f ''credential_ref'' = Some JNull \<or> str_where (\<lambda>_. True) (f ''credential_ref''), mcp_protocol ''credential_ref must be a string or null'')])"

definition validateMcpServerRegisterInput :: "json \<Rightarrow> (client_error, mcp_input) res" where
  "validateMcpServerRegisterInput raw = rbind (run_checks (mcp_input_checks raw)) (\<lambda>_. let f = (\<lambda>k. jfield k raw) in
     Inr \<lparr>mi_name = the_str (f ''name''), mi_executable = the_str (f ''executable''), mi_args = strings_of (f ''args''),
       mi_env_allowlist = strings_of (f ''env_allowlist''), mi_credential_ref = jstr (f ''credential_ref'')\<rparr>)"

definition mcp_config_json :: "mcp_input \<Rightarrow> json" where
  "mcp_config_json i = JObj [(''name'', JStr (mi_name i)), (''transport'', JStr ''stdio''), (''executable'', JStr (mi_executable i)),
     (''args'', jstrs (mi_args i)), (''env_allowlist'', jstrs (mi_env_allowlist i))]"

definition hashConfig :: "(string \<Rightarrow> string) \<Rightarrow> mcp_input \<Rightarrow> string" where
  "hashConfig sha i = hash_json sha (mcp_config_json i)"

section \<open>Governed tools\<close>

datatype tool_review_status = TR_Discovered | TR_Enabled | TR_Disabled | TR_Policy_Review_Required | TR_Removed

definition review_name :: "tool_review_status \<Rightarrow> string" where
  "review_name s = (case s of TR_Discovered \<Rightarrow> ''DISCOVERED'' | TR_Enabled \<Rightarrow> ''ENABLED'' | TR_Disabled \<Rightarrow> ''DISABLED''
     | TR_Policy_Review_Required \<Rightarrow> ''POLICY_REVIEW_REQUIRED'' | TR_Removed \<Rightarrow> ''REMOVED'')"

record governed_tool =
  gt_tenant_id :: string
  gt_tool_id :: string
  gt_provider_id :: string
  gt_external_tool_name :: string
  gt_description :: string
  gt_input_schema :: json
  gt_schema_hash :: string
  gt_risk_class :: "risk_class option"
  gt_allowed_operations :: "string list"
  gt_resource_patterns :: "string list"
  gt_enabled :: bool
  gt_requires_human_approval :: bool
  gt_requires_vad :: bool
  gt_review_status :: tool_review_status
  gt_created_at :: string
  gt_updated_at :: string
  gt_state_version :: int

definition toolPlatformId :: "string \<Rightarrow> string" where
  "toolPlatformId i = ''mcp.'' @ i"

record discovered_tool =
  dt_name :: string
  dt_description :: string
  dt_input_schema :: json

definition nullish :: "json option \<Rightarrow> bool" where
  "nullish v = (v = None \<or> v = Some JNull)"

definition discovered_schema :: "json \<Rightarrow> json" where
  \<comment> \<open>\<open>obj.inputSchema ?? obj.input_schema ?? {}\<close>\<close>
  "discovered_schema raw = (if \<not> nullish (jfield ''inputSchema'' raw) then the (jfield ''inputSchema'' raw)
     else if \<not> nullish (jfield ''input_schema'' raw) then the (jfield ''input_schema'' raw) else JObj [])"

definition is_object_type :: "json \<Rightarrow> bool" where
  \<comment> \<open>\<open>typeof schema === 'object'\<close>, which arrays are\<close>
  "is_object_type j = (case j of JObj _ \<Rightarrow> True | JArr _ \<Rightarrow> True | _ \<Rightarrow> False)"

definition validateDiscoveredTool :: "json \<Rightarrow> (client_error, discovered_tool) res" where
  "validateDiscoveredTool raw = (let name = the_str (jfield ''name'' raw); schema = discovered_schema raw in
     rbind (run_checks
       [(is_plain_object (Some raw), mcp_protocol ''Discovered tool entry must be an object''),
        (str_where (\<lambda>s. s \<noteq> [] \<and> js_length s \<le> 200) (jfield ''name'' raw), mcp_protocol ''Discovered tool name must be a non-empty bounded string''),
        (is_object_type schema, mcp_protocol (''Tool '' @ name @ '' has an unsupported (non-object) input schema '' @ em_dash @ '' SCHEMA_UNSUPPORTED'')),
        (length (stringify schema) \<le> max_tool_schema_bytes, mcp_protocol (''Tool '' @ name @ '' schema exceeds 32768 bytes''))]) (\<lambda>_.
     Inr \<lparr>dt_name = name, dt_description = (case jstr (jfield ''description'' raw) of None \<Rightarrow> [] | Some d \<Rightarrow> js_take 2000 d),
       dt_input_schema = schema\<rparr>))"

end
