(* ===== verification/Client_Store.thy ===== *)
theory Client_Store
  imports Mcp_Schema
begin

text \<open>
  \<open>packages/client-core\<close>: the durable store of the client integration. A public method is one transaction:
  an error leaves the store as it was. A keyed table is the list of its rows in insertion order; fresh
  identifiers and the time are arguments. An update guarded by the version just read in the same transaction
  finds its row, so its second conflict branch has no case here.
\<close>

section \<open>Tables\<close>

record policy_binding =
  tb_binding_id :: string
  tb_tenant_id :: string
  tb_tool_id :: string
  tb_policy_id :: string
  tb_policy_hash :: string
  tb_risk_class :: risk_class
  tb_approval_mode :: string
  tb_runtime_limits :: json
  tb_cost_limits :: json
  tb_verification :: string
  tb_bound_at :: string
  tb_bound_by :: string

record client_action =
  ca_tenant_id :: string
  ca_client_action_id :: string
  ca_service_id :: string
  ca_mcp_server_id :: "string option"
  ca_governed_tool_id :: "string option"
  ca_config_snapshot_hash :: string
  ca_created_at :: string

record client_store =
  cst_tenants :: "client_tenant list"
  cst_services :: "service_row list"
  cst_servers :: "mcp_server list"
  cst_tools :: "governed_tool list"
  cst_bindings :: "policy_binding list"
  cst_actions :: "client_action list"

definition client_start :: client_store where
  "client_start = \<lparr>cst_tenants = [], cst_services = [], cst_servers = [], cst_tools = [], cst_bindings = [], cst_actions = []\<rparr>"

definition service_key :: "'a service_identity_scheme \<Rightarrow> string \<times> string" where
  "service_key r = (si_tenant_id r, si_service_id r)"

definition server_key :: "mcp_server \<Rightarrow> string \<times> string" where
  "server_key r = (ms_tenant_id r, ms_mcp_server_id r)"

definition tool_key :: "governed_tool \<Rightarrow> string \<times> string" where
  "tool_key r = (gt_tenant_id r, gt_tool_id r)"

definition upd_tenants :: "(client_tenant \<Rightarrow> bool) \<Rightarrow> (client_tenant \<Rightarrow> client_tenant) \<Rightarrow> client_store \<Rightarrow> client_store" where
  "upd_tenants p f st = st\<lparr>cst_tenants := map (\<lambda>r. if p r then f r else r) (cst_tenants st)\<rparr>"

definition upd_services :: "(service_row \<Rightarrow> bool) \<Rightarrow> (service_row \<Rightarrow> service_row) \<Rightarrow> client_store \<Rightarrow> client_store" where
  "upd_services p f st = st\<lparr>cst_services := map (\<lambda>r. if p r then f r else r) (cst_services st)\<rparr>"

definition upd_servers :: "(mcp_server \<Rightarrow> bool) \<Rightarrow> (mcp_server \<Rightarrow> mcp_server) \<Rightarrow> client_store \<Rightarrow> client_store" where
  "upd_servers p f st = st\<lparr>cst_servers := map (\<lambda>r. if p r then f r else r) (cst_servers st)\<rparr>"

definition upd_tools :: "(governed_tool \<Rightarrow> bool) \<Rightarrow> (governed_tool \<Rightarrow> governed_tool) \<Rightarrow> client_store \<Rightarrow> client_store" where
  "upd_tools p f st = st\<lparr>cst_tools := map (\<lambda>r. if p r then f r else r) (cst_tools st)\<rparr>"

lemma upd_fields [simp]:
  "cst_tenants (upd_tenants p_tenants f_tenants st) = map (\<lambda>r. if p_tenants r then f_tenants r else r) (cst_tenants st)"
  "cst_services (upd_tenants p_tenants f_tenants st) = cst_services st"
  "cst_servers (upd_tenants p_tenants f_tenants st) = cst_servers st"
  "cst_tools (upd_tenants p_tenants f_tenants st) = cst_tools st"
  "cst_bindings (upd_tenants p_tenants f_tenants st) = cst_bindings st"
  "cst_actions (upd_tenants p_tenants f_tenants st) = cst_actions st"
  "cst_tenants (upd_services p_services f_services st) = cst_tenants st"
  "cst_services (upd_services p_services f_services st) = map (\<lambda>r. if p_services r then f_services r else r) (cst_services st)"
  "cst_servers (upd_services p_services f_services st) = cst_servers st"
  "cst_tools (upd_services p_services f_services st) = cst_tools st"
  "cst_bindings (upd_services p_services f_services st) = cst_bindings st"
  "cst_actions (upd_services p_services f_services st) = cst_actions st"
  "cst_tenants (upd_servers p_servers f_servers st) = cst_tenants st"
  "cst_services (upd_servers p_servers f_servers st) = cst_services st"
  "cst_servers (upd_servers p_servers f_servers st) = map (\<lambda>r. if p_servers r then f_servers r else r) (cst_servers st)"
  "cst_tools (upd_servers p_servers f_servers st) = cst_tools st"
  "cst_bindings (upd_servers p_servers f_servers st) = cst_bindings st"
  "cst_actions (upd_servers p_servers f_servers st) = cst_actions st"
  "cst_tenants (upd_tools p_tools f_tools st) = cst_tenants st"
  "cst_services (upd_tools p_tools f_tools st) = cst_services st"
  "cst_servers (upd_tools p_tools f_tools st) = cst_servers st"
  "cst_tools (upd_tools p_tools f_tools st) = map (\<lambda>r. if p_tools r then f_tools r else r) (cst_tools st)"
  "cst_bindings (upd_tools p_tools f_tools st) = cst_bindings st"
  "cst_actions (upd_tools p_tools f_tools st) = cst_actions st"
  by (simp_all add: upd_tenants_def upd_services_def upd_servers_def upd_tools_def)

section \<open>Tenants\<close>

definition getTenant :: "string \<Rightarrow> client_store \<Rightarrow> (client_error, client_tenant) res" where
  "getTenant t st = (case find (\<lambda>r. ct_tenant_id r = t) (cst_tenants st) of
     None \<Rightarrow> Inl (Client_Error CL_NOT_FOUND (''No tenant '' @ t)) | Some r \<Rightarrow> Inr r)"

definition newTenantId :: "string \<Rightarrow> string" where "newTenantId u = ''ten_'' @ u"

definition createTenant :: "(string \<Rightarrow> string) \<Rightarrow> tenant_input \<Rightarrow> string \<Rightarrow> string \<Rightarrow> string \<Rightarrow> client_store
    \<Rightarrow> (client_error, client_store \<times> client_tenant) res" where
  "createTenant sha i by u now st =
     (let r = \<lparr>ct_tenant_id = newTenantId u, ct_display_name = ti_display_name i, ct_environment = ti_environment i, ct_status = TS_Pending,
            ct_created_at = now, ct_created_by = by, ct_deployment_binding = ti_deployment_binding i, ct_policy_profile = ti_policy_profile i,
            ct_connector_types = ti_connector_types i, ct_configuration_hash = hash_json sha (tenant_config_json i), ct_state_version = 0,
            ct_suspended_reason = None, ct_offboarding_reason = None\<rparr> in
      if newTenantId u \<in> ct_tenant_id ` set (cst_tenants st) then Inl (Sql_Error ''client_tenants.tenant_id'')
      else Inr (st\<lparr>cst_tenants := cst_tenants st @ [r]\<rparr>, r))"

definition page_of :: "nat \<Rightarrow> nat \<Rightarrow> 'a list \<Rightarrow> 'a list \<times> nat option" where
  \<comment> \<open>\<open>LIMIT limit + 1 OFFSET offset\<close>; the offset of the next page, when there is one\<close>
  "page_of limit offset rows = (let page = take (limit + 1) (drop offset rows) in
     (take limit page, if length page > limit then Some (offset + limit) else None))"

definition listTenants :: "jnum option \<Rightarrow> nat \<Rightarrow> client_store \<Rightarrow> (client_error, client_tenant list \<times> nat option) res" where
  \<comment> \<open>\<open>offset\<close>: the number the cursor holds, 0 without one\<close>
  "listTenants limit offset st = rbind (client_readPageOptions limit 200) (\<lambda>n.
     Inr (page_of n offset (sort_key (\<lambda>r. (ct_created_at r, ct_tenant_id r)) (cst_tenants st))))"

definition move_tenant :: "tenant_status \<Rightarrow> string option option \<Rightarrow> string option option \<Rightarrow> client_tenant \<Rightarrow> client_tenant" where
  \<comment> \<open>a reason is kept unless the caller gives it\<close>
  "move_tenant target suspended offboarding r = r\<lparr>ct_status := target, ct_state_version := ct_state_version r + 1,
     ct_suspended_reason := (case suspended of None \<Rightarrow> ct_suspended_reason r | Some x \<Rightarrow> x),
     ct_offboarding_reason := (case offboarding of None \<Rightarrow> ct_offboarding_reason r | Some x \<Rightarrow> x)\<rparr>"

definition transitionTenant :: "string \<Rightarrow> int \<Rightarrow> tenant_status list \<Rightarrow> tenant_status \<Rightarrow> string option option \<Rightarrow> string option option \<Rightarrow> client_store
    \<Rightarrow> (client_error, client_store \<times> client_tenant) res" where
  "transitionTenant t expected allowed target suspended offboarding st =
     rbind (getTenant t st) (\<lambda>current.
     if ct_state_version current \<noteq> expected then Inl (cl_conflict (''Tenant state has changed '' @ em_dash @ '' retry with the current version''))
     else if ct_status current \<notin> set allowed
     then Inl (cl_conflict (''Tenant cannot move to '' @ tenant_status_name target @ '' from '' @ tenant_status_name (ct_status current)))
     else let st' = upd_tenants (\<lambda>r. ct_tenant_id r = t \<and> ct_state_version r = expected) (move_tenant target suspended offboarding) st in
       rbind (getTenant t st') (\<lambda>r. Inr (st', r)))"

definition activateTenant :: "string \<Rightarrow> int \<Rightarrow> client_store \<Rightarrow> (client_error, client_store \<times> client_tenant) res" where
  "activateTenant t v = transitionTenant t v [TS_Pending] TS_Active (Some None) None"

definition suspendTenant :: "string \<Rightarrow> int \<Rightarrow> string \<Rightarrow> client_store \<Rightarrow> (client_error, client_store \<times> client_tenant) res" where
  "suspendTenant t v reason = transitionTenant t v [TS_Active] TS_Suspended (Some (Some reason)) None"

definition resumeTenant :: "string \<Rightarrow> int \<Rightarrow> client_store \<Rightarrow> (client_error, client_store \<times> client_tenant) res" where
  "resumeTenant t v = transitionTenant t v [TS_Suspended] TS_Active (Some None) None"

definition revoke_row :: "service_row \<Rightarrow> service_row" where
  "revoke_row r = r\<lparr>si_status := SS_Revoked, si_state_version := si_state_version r + 1\<rparr>"

definition disable_row :: "tool_review_status \<Rightarrow> string \<Rightarrow> governed_tool \<Rightarrow> governed_tool" where
  "disable_row status now r = r\<lparr>gt_enabled := False, gt_review_status := status, gt_updated_at := now, gt_state_version := gt_state_version r + 1\<rparr>"

definition status_row :: "mcp_server_status \<Rightarrow> mcp_server \<Rightarrow> mcp_server" where
  "status_row status r = r\<lparr>ms_status := status, ms_state_version := ms_state_version r + 1\<rparr>"

definition offboard_cascade :: "string \<Rightarrow> string \<Rightarrow> client_store \<Rightarrow> client_store" where
  "offboard_cascade t now st = upd_servers (\<lambda>r. ms_tenant_id r = t \<and> ms_status r \<noteq> MS_Disabled) (status_row MS_Disabled)
     (upd_tools (\<lambda>r. gt_tenant_id r = t \<and> gt_enabled r) (disable_row TR_Disabled now)
     (upd_services (\<lambda>r. si_tenant_id r = t \<and> si_status r = SS_Active) revoke_row st))"

definition beginOffboarding :: "string \<Rightarrow> int \<Rightarrow> string \<Rightarrow> string \<Rightarrow> client_store \<Rightarrow> (client_error, client_store \<times> client_tenant) res" where
  "beginOffboarding t v reason now st =
     rbind (transitionTenant t v [TS_Active, TS_Suspended] TS_Offboarding None (Some (Some reason)) st) (\<lambda>(st', r).
     Inr (offboard_cascade t now st', r))"

definition completeOffboarding :: "string \<Rightarrow> int \<Rightarrow> client_store \<Rightarrow> (client_error, client_store \<times> client_tenant) res" where
  "completeOffboarding t v = transitionTenant t v [TS_Offboarding] TS_Offboarded None None"

definition assertActionEligible :: "string \<Rightarrow> client_store \<Rightarrow> (client_error, client_tenant) res" where
  "assertActionEligible t st = rbind (getTenant t st) (\<lambda>r. if ct_status r \<noteq> TS_Active
     then Inl (Client_Error CL_TENANT_NOT_ACTIVE (''Tenant '' @ t @ '' is '' @ tenant_status_name (ct_status r) @ '' '' @ em_dash @ '' new consequential actions are refused''))
     else Inr r)"

definition assertOnboardingOpen :: "string \<Rightarrow> client_store \<Rightarrow> (client_error, unit) res" where
  "assertOnboardingOpen t st = rbind (getTenant t st) (\<lambda>r. if ct_status r \<in> {TS_Suspended, TS_Offboarding, TS_Offboarded}
     then Inl (Client_Error CL_TENANT_NOT_ACTIVE (''Tenant '' @ t @ '' is '' @ tenant_status_name (ct_status r) @ '' '' @ em_dash @ '' onboarding changes are refused''))
     else Inr ())"

section \<open>Service identities\<close>

definition service_at :: "string \<times> string \<Rightarrow> client_store \<Rightarrow> service_row option" where
  "service_at k st = find (\<lambda>r. service_key r = k) (cst_services st)"

definition getServiceIdentity :: "string \<Rightarrow> string \<Rightarrow> client_store \<Rightarrow> (client_error, service_identity) res" where
  "getServiceIdentity t i st = (case service_at (t, i) st of
     None \<Rightarrow> Inl (Client_Error CL_NOT_FOUND (''No service identity '' @ i)) | Some r \<Rightarrow> Inr (rowToService r))"

definition newServiceId :: "string \<Rightarrow> string" where "newServiceId u = ''svc_'' @ u"

definition new_service :: "(string \<Rightarrow> string) \<Rightarrow> string \<Rightarrow> service_input \<Rightarrow> string \<Rightarrow> issued_credential \<Rightarrow> string \<Rightarrow> service_row" where
  "new_service sha t i u cred now = \<lparr>si_service_id = newServiceId u, si_tenant_id = t, si_name = vi_name i, si_role = vi_role i, si_status = SS_Active,
     si_credential_ref = ic_credential_ref cred, si_created_at = now, si_last_rotated_at = now, si_state_version = 0,
     sr_credential_hash = hashCredentialToken sha (ic_token cred)\<rparr>"

definition createServiceIdentity :: "(string \<Rightarrow> string) \<Rightarrow> string \<Rightarrow> service_input \<Rightarrow> string \<Rightarrow> string \<times> string \<times> string \<Rightarrow> string \<Rightarrow> client_store
    \<Rightarrow> (client_error, client_store \<times> service_identity \<times> issued_credential) res" where
  \<comment> \<open>\<open>u\<close> and the three texts of \<open>us\<close>: fresh UUIDs\<close>
  "createServiceIdentity sha t i u us now st = rbind (assertOnboardingOpen t st) (\<lambda>_.
     let cred = (case us of (u1, u2, u3) \<Rightarrow> issueCredential u1 u2 u3); r = new_service sha t i u cred now in
     if newServiceId u \<in> si_service_id ` set (cst_services st) then Inl (Sql_Error ''client_service_identities.service_id'')
     else if sr_credential_hash r \<in> sr_credential_hash ` set (cst_services st) then Inl (Sql_Error ''client_service_identities.credential_hash'')
     else let st' = st\<lparr>cst_services := cst_services st @ [r]\<rparr> in
       rbind (getServiceIdentity t (newServiceId u) st') (\<lambda>identity. Inr (st', identity, cred)))"

definition listServiceIdentities :: "string \<Rightarrow> jnum option \<Rightarrow> nat \<Rightarrow> client_store \<Rightarrow> (client_error, service_identity list \<times> nat option) res" where
  "listServiceIdentities t limit offset st = rbind (client_readPageOptions limit 200) (\<lambda>n.
     let (rows, next_offset) = page_of n offset (sort_key (\<lambda>r. (si_created_at r, si_service_id r)) (filter (\<lambda>r. si_tenant_id r = t) (cst_services st))) in
     Inr (map rowToService rows, next_offset))"

definition rotate_row :: "string \<Rightarrow> string \<Rightarrow> string \<Rightarrow> service_row \<Rightarrow> service_row" where
  "rotate_row h ref now r = r\<lparr>sr_credential_hash := h, si_credential_ref := ref, si_last_rotated_at := now, si_state_version := si_state_version r + 1\<rparr>"

definition rotateCredential :: "(string \<Rightarrow> string) \<Rightarrow> string \<Rightarrow> string \<Rightarrow> int \<Rightarrow> string \<times> string \<times> string \<Rightarrow> string \<Rightarrow> client_store
    \<Rightarrow> (client_error, client_store \<times> service_identity \<times> issued_credential) res" where
  "rotateCredential sha t i expected us now st = rbind (getServiceIdentity t i st) (\<lambda>current.
     if si_state_version current \<noteq> expected then Inl (cl_conflict (''Service identity state has changed '' @ em_dash @ '' retry with the current version''))
     else if si_status current \<noteq> SS_Active then Inl (Client_Error CL_SERVICE_IDENTITY_REVOKED ''Cannot rotate credentials for a revoked service identity'')
     else let cred = (case us of (u1, u2, u3) \<Rightarrow> issueCredential u1 u2 u3); h = hashCredentialToken sha (ic_token cred) in
       if \<exists>r \<in> set (cst_services st). sr_credential_hash r = h \<and> service_key r \<noteq> (t, i)
       then Inl (Sql_Error ''client_service_identities.credential_hash'')
       else let st' = upd_services (\<lambda>r. service_key r = (t, i) \<and> si_state_version r = expected) (rotate_row h (ic_credential_ref cred) now) st in
         rbind (getServiceIdentity t i st') (\<lambda>identity. Inr (st', identity, cred)))"

definition revokeServiceIdentity :: "string \<Rightarrow> string \<Rightarrow> int \<Rightarrow> client_store \<Rightarrow> (client_error, client_store \<times> service_identity) res" where
  "revokeServiceIdentity t i expected st = rbind (getServiceIdentity t i st) (\<lambda>current.
     if si_state_version current \<noteq> expected then Inl (cl_conflict (''Service identity state has changed '' @ em_dash @ '' retry with the current version''))
     else let st' = upd_services (\<lambda>r. service_key r = (t, i) \<and> si_state_version r = expected) revoke_row st in
       rbind (getServiceIdentity t i st') (\<lambda>identity. Inr (st', identity)))"

definition authenticateService :: "(string \<Rightarrow> string) \<Rightarrow> string \<Rightarrow> client_store \<Rightarrow> service_identity option" where
  "authenticateService sha token st =
     (case find (\<lambda>r. sr_credential_hash r = hashCredentialToken sha token) (cst_services st) of
        None \<Rightarrow> None
      | Some r \<Rightarrow> if si_status r \<noteq> SS_Active then None
          else if \<not> verifyCredentialToken sha token (sr_credential_hash r) then None
          else Some (rowToService r))"

end
