(* ===== verification/Client_Tools.thy ===== *)
theory Client_Tools
  imports Client_Store
begin

text \<open>
  The second half of \<open>packages/client-core\<close>: MCP servers, the reconciliation of a discovery round with the
  governed tools, the decision to enable a tool with the policy binding it writes, the snapshot of a tenant's
  configuration and the recorded client actions.
\<close>

section \<open>MCP servers\<close>

definition getMcpServer :: "string \<Rightarrow> string \<Rightarrow> client_store \<Rightarrow> (client_error, mcp_server) res" where
  "getMcpServer t i st = (case find (\<lambda>r. server_key r = (t, i)) (cst_servers st) of
     None \<Rightarrow> Inl (Client_Error CL_NOT_FOUND (''No MCP server '' @ i)) | Some r \<Rightarrow> Inr r)"

definition tenant_servers :: "string \<Rightarrow> client_store \<Rightarrow> mcp_server list" where
  "tenant_servers t st = filter (\<lambda>r. ms_tenant_id r = t) (cst_servers st)"

definition newServerId :: "string \<Rightarrow> string" where "newServerId u = ''mcps_'' @ u"

definition new_server :: "(string \<Rightarrow> string) \<Rightarrow> string \<Rightarrow> mcp_input \<Rightarrow> string \<Rightarrow> string \<Rightarrow> mcp_server" where
  "new_server sha t i u now = \<lparr>ms_mcp_server_id = newServerId u, ms_tenant_id = t, ms_name = mi_name i,
     ms_executable = mi_executable i, ms_args = mi_args i, ms_env_allowlist = mi_env_allowlist i, ms_credential_ref = mi_credential_ref i,
     ms_status = MS_Registered, ms_created_at = now, ms_config_hash = hashConfig sha i, ms_state_version = 0\<rparr>"

definition registerMcpServer :: "(string \<Rightarrow> string) \<Rightarrow> string \<Rightarrow> mcp_input \<Rightarrow> string \<Rightarrow> string \<Rightarrow> client_store
    \<Rightarrow> (client_error, client_store \<times> mcp_server) res" where
  "registerMcpServer sha t i u now st = rbind (assertOnboardingOpen t st) (\<lambda>_.
     if length (tenant_servers t st) \<ge> max_mcp_servers
     then Inl (mcp_protocol (''Tenant already has the maximum of '' @ show_nat max_mcp_servers @ '' MCP servers registered''))
     else if newServerId u \<in> ms_mcp_server_id ` set (cst_servers st) then Inl (Sql_Error ''mcp_servers.mcp_server_id'')
     else let st' = st\<lparr>cst_servers := cst_servers st @ [new_server sha t i u now]\<rparr> in
       rbind (getMcpServer t (newServerId u) st') (\<lambda>r. Inr (st', r)))"

definition listMcpServers :: "string \<Rightarrow> client_store \<Rightarrow> mcp_server list" where
  "listMcpServers t st = sort_key ms_created_at (tenant_servers t st)"

definition setMcpServerStatus :: "string \<Rightarrow> string \<Rightarrow> int \<Rightarrow> mcp_server_status \<Rightarrow> client_store
    \<Rightarrow> (client_error, client_store \<times> mcp_server) res" where
  "setMcpServerStatus t i expected status st =
     (let p = (\<lambda>r. server_key r = (t, i) \<and> ms_state_version r = expected) in
      if length (filter p (cst_servers st)) \<noteq> 1 then Inl (cl_conflict ''MCP server state changed concurrently'')
      else let st' = upd_servers p (status_row status) st in rbind (getMcpServer t i st') (\<lambda>r. Inr (st', r)))"

definition reconfigure_row :: "(string \<Rightarrow> string) \<Rightarrow> mcp_input \<Rightarrow> mcp_server \<Rightarrow> mcp_server" where
  "reconfigure_row sha i r = r\<lparr>ms_name := mi_name i, ms_executable := mi_executable i, ms_args := mi_args i, ms_env_allowlist := mi_env_allowlist i,
     ms_credential_ref := mi_credential_ref i, ms_status := MS_Registered, ms_config_hash := hashConfig sha i, ms_state_version := ms_state_version r + 1\<rparr>"

definition reconfigureMcpServer :: "(string \<Rightarrow> string) \<Rightarrow> string \<Rightarrow> string \<Rightarrow> int \<Rightarrow> mcp_input \<Rightarrow> string \<Rightarrow> client_store
    \<Rightarrow> (client_error, client_store \<times> mcp_server) res" where
  "reconfigureMcpServer sha t i expected input now st = rbind (getMcpServer t i st) (\<lambda>current.
     if ms_state_version current \<noteq> expected then Inl (cl_conflict (''MCP server state has changed '' @ em_dash @ '' retry with the current version''))
     else let st' = upd_tools (\<lambda>r. gt_tenant_id r = t \<and> gt_provider_id r = i \<and> gt_enabled r) (disable_row TR_Policy_Review_Required now)
            (upd_servers (\<lambda>r. server_key r = (t, i) \<and> ms_state_version r = expected) (reconfigure_row sha input) st) in
       rbind (getMcpServer t i st') (\<lambda>r. Inr (st', r)))"

section \<open>Discovery\<close>

definition tool_at :: "string \<times> string \<Rightarrow> client_store \<Rightarrow> governed_tool option" where
  "tool_at k st = find (\<lambda>r. tool_key r = k) (cst_tools st)"

definition getTool :: "string \<Rightarrow> string \<Rightarrow> client_store \<Rightarrow> (client_error, governed_tool) res" where
  "getTool t i st = (case tool_at (t, i) st of None \<Rightarrow> Inl (Client_Error CL_NOT_FOUND (''No governed tool '' @ i)) | Some r \<Rightarrow> Inr r)"

definition tenant_tools :: "string \<Rightarrow> client_store \<Rightarrow> governed_tool list" where
  "tenant_tools t st = filter (\<lambda>r. gt_tenant_id r = t) (cst_tools st)"

definition listTools :: "string \<Rightarrow> string option \<Rightarrow> client_store \<Rightarrow> governed_tool list" where
  "listTools t server st = sort_key gt_created_at (filter (\<lambda>r. case server of None \<Rightarrow> True | Some s \<Rightarrow> s = [] \<or> gt_provider_id r = s) (tenant_tools t st))"

definition newToolId :: "string \<Rightarrow> string" where "newToolId u = ''gt_'' @ u"

definition discovered_row :: "string \<Rightarrow> string \<Rightarrow> string \<Rightarrow> string \<Rightarrow> string \<Rightarrow> discovered_tool \<Rightarrow> governed_tool" where
  "discovered_row t server i h now d = \<lparr>gt_tenant_id = t, gt_tool_id = i, gt_provider_id = server, gt_external_tool_name = dt_name d,
     gt_description = dt_description d, gt_input_schema = dt_input_schema d, gt_schema_hash = h, gt_risk_class = None, gt_allowed_operations = [],
     gt_resource_patterns = [], gt_enabled = False, gt_requires_human_approval = False, gt_requires_vad = False, gt_review_status = TR_Discovered,
     gt_created_at = now, gt_updated_at = now, gt_state_version = 0\<rparr>"

definition drifted_row :: "string \<Rightarrow> string \<Rightarrow> discovered_tool \<Rightarrow> governed_tool \<Rightarrow> governed_tool" where
  "drifted_row h now d r = r\<lparr>gt_input_schema := dt_input_schema d, gt_schema_hash := h, gt_description := dt_description d, gt_enabled := False,
     gt_review_status := TR_Policy_Review_Required, gt_updated_at := now, gt_state_version := gt_state_version r + 1\<rparr>"

definition known_tool :: "governed_tool list \<Rightarrow> string \<Rightarrow> governed_tool option" where
  \<comment> \<open>\<open>new Map(existing.map(row => [row.external_tool_name, row])).get(name)\<close>: the last row of a name\<close>
  "known_tool existing name = find_last (\<lambda>r. gt_external_tool_name r = name) existing"

record discovery_result =
  dr_created :: "string list"
  dr_drift :: "string list"
  dr_removed :: "string list"

fun discover_tools :: "(json \<Rightarrow> string) \<Rightarrow> string \<Rightarrow> string \<Rightarrow> string \<Rightarrow> governed_tool list \<Rightarrow> (nat \<Rightarrow> string) \<Rightarrow> discovered_tool list
    \<Rightarrow> client_store \<times> discovery_result \<Rightarrow> (client_error, client_store \<times> discovery_result) res" where
  \<comment> \<open>\<open>existing\<close>: the rows read before the loop; \<open>us\<close>: fresh UUIDs\<close>
  "discover_tools h t server now existing us [] (st, res) = Inr (st, res)"
| "discover_tools h t server now existing us (d # ds) (st, res) =
     (let new_hash = h (dt_input_schema d); next = discover_tools h t server now existing us ds in
      case known_tool existing (dt_name d) of
        None \<Rightarrow> (let i = newToolId (us (length ds)) in
          if (t, i) \<in> tool_key ` set (cst_tools st) then Inl (Sql_Error ''governed_tools.tool_id'')
          else next (st\<lparr>cst_tools := cst_tools st @ [discovered_row t server i new_hash now d]\<rparr>, res\<lparr>dr_created := dr_created res @ [i]\<rparr>))
      | Some r \<Rightarrow> if gt_schema_hash r \<noteq> new_hash
          then next (upd_tools (\<lambda>x. tool_key x = (t, gt_tool_id r)) (drifted_row new_hash now d) st, res\<lparr>dr_drift := dr_drift res @ [gt_tool_id r]\<rparr>)
          else next (st, res))"

definition vanished :: "discovered_tool list \<Rightarrow> governed_tool \<Rightarrow> bool" where
  "vanished ds r = (gt_external_tool_name r \<notin> dt_name ` set ds \<and> gt_review_status r \<noteq> TR_Removed)"

definition remove_tools :: "string \<Rightarrow> string \<Rightarrow> governed_tool list \<Rightarrow> client_store \<times> discovery_result \<Rightarrow> client_store \<times> discovery_result" where
  \<comment> \<open>\<open>gone\<close>: the rows of the first read that vanished\<close>
  "remove_tools t now gone acc = (let (st, res) = acc in
     (fold (\<lambda>r. upd_tools (\<lambda>x. tool_key x = (t, gt_tool_id r)) (disable_row TR_Removed now)) gone st, res\<lparr>dr_removed := dr_removed res @ map gt_tool_id gone\<rparr>))"

definition recordDiscovery :: "(json \<Rightarrow> string) \<Rightarrow> string \<Rightarrow> string \<Rightarrow> discovered_tool list \<Rightarrow> (nat \<Rightarrow> string) \<Rightarrow> string \<Rightarrow> client_store
    \<Rightarrow> (client_error, client_store \<times> discovery_result) res" where
  "recordDiscovery h t server ds us now st =
     (if length ds > max_tools_per_server
      then Inl (mcp_protocol (''MCP server advertised '' @ show_nat (length ds) @ '' tools, exceeding the '' @ show_nat max_tools_per_server @ '' bound''))
      else let existing = filter (\<lambda>r. gt_tenant_id r = t \<and> gt_provider_id r = server) (cst_tools st) in
        rbind (discover_tools h t server now existing us ds (st, \<lparr>dr_created = [], dr_drift = [], dr_removed = []\<rparr>)) (\<lambda>acc.
        let (st', res) = remove_tools t now (filter (vanished ds) existing) acc in
        Inr (upd_servers (\<lambda>r. server_key r = (t, server)) (status_row MS_Reachable) st', res)))"

section \<open>Enabling a tool\<close>

record tool_decision =
  td_risk_class :: risk_class
  td_allowed_operations :: "string list"
  td_resource_patterns :: "string list"
  td_requires_human_approval :: bool
  td_requires_vad :: bool
  td_policy_id :: string
  td_runtime_limits :: json
  td_cost_limits :: json
  td_bound_by :: string

definition approval_mode_of :: "tool_decision \<Rightarrow> string" where
  "approval_mode_of d = (if td_requires_human_approval d then ''human_approval'' else ''none'')"

definition verification_of :: "tool_decision \<Rightarrow> string" where
  "verification_of d = (if td_requires_vad d then ''vad'' else ''none'')"

definition binding_policy_json :: "string \<Rightarrow> risk_class \<Rightarrow> string \<Rightarrow> json \<Rightarrow> json \<Rightarrow> string \<Rightarrow> string \<Rightarrow> json" where
  "binding_policy_json policy risk approval runtime cost verification schema = JObj [(''policy_id'', JStr policy), (''risk_class'', JStr (risk_name risk)),
     (''approval_mode'', JStr approval), (''runtime_limits'', runtime), (''cost_limits'', cost), (''verification_requirement'', JStr verification),
     (''schema_hash'', JStr schema)]"

definition binding_of :: "(string \<Rightarrow> string) \<Rightarrow> tool_decision \<Rightarrow> string \<Rightarrow> string \<Rightarrow> governed_tool \<Rightarrow> policy_binding" where
  "binding_of sha d u now r = \<lparr>tb_binding_id = ''bind_'' @ u, tb_tenant_id = gt_tenant_id r, tb_tool_id = gt_tool_id r, tb_policy_id = td_policy_id d,
     tb_policy_hash = hash_json sha (binding_policy_json (td_policy_id d) (td_risk_class d) (approval_mode_of d) (td_runtime_limits d) (td_cost_limits d)
       (verification_of d) (gt_schema_hash r)),
     tb_risk_class = td_risk_class d, tb_approval_mode = approval_mode_of d, tb_runtime_limits = td_runtime_limits d, tb_cost_limits = td_cost_limits d,
     tb_verification = verification_of d, tb_bound_at = now, tb_bound_by = td_bound_by d\<rparr>"

definition enabled_row :: "tool_decision \<Rightarrow> string \<Rightarrow> governed_tool \<Rightarrow> governed_tool" where
  "enabled_row d now r = r\<lparr>gt_risk_class := Some (td_risk_class d), gt_allowed_operations := td_allowed_operations d,
     gt_resource_patterns := td_resource_patterns d, gt_enabled := True, gt_requires_human_approval := td_requires_human_approval d,
     gt_requires_vad := td_requires_vad d, gt_review_status := TR_Enabled, gt_updated_at := now, gt_state_version := gt_state_version r + 1\<rparr>"

definition enableTool :: "(string \<Rightarrow> string) \<Rightarrow> string \<Rightarrow> string \<Rightarrow> int \<Rightarrow> tool_decision \<Rightarrow> string \<Rightarrow> string \<Rightarrow> client_store
    \<Rightarrow> (client_error, client_store \<times> governed_tool \<times> policy_binding) res" where
  "enableTool sha t i expected d u now st = rbind (getTool t i st) (\<lambda>current.
     if gt_state_version current \<noteq> expected then Inl (cl_conflict (''Tool state has changed '' @ em_dash @ '' retry with the current version''))
     else if gt_review_status current = TR_Removed
     then Inl (cl_conflict ''This tool is no longer advertised by its MCP server and cannot be enabled'')
     else let b = binding_of sha d u now current in
       if tb_binding_id b \<in> tb_binding_id ` set (cst_bindings st) then Inl (Sql_Error ''tool_policy_bindings.binding_id'')
       else let st' = upd_tools (\<lambda>r. tool_key r = (t, i) \<and> gt_state_version r = expected) (enabled_row d now) (st\<lparr>cst_bindings := cst_bindings st @ [b]\<rparr>) in
         rbind (getTool t i st') (\<lambda>r. Inr (st', r, b)))"

definition disableTool :: "string \<Rightarrow> string \<Rightarrow> int \<Rightarrow> string \<Rightarrow> client_store \<Rightarrow> (client_error, client_store \<times> governed_tool) res" where
  "disableTool t i expected now st =
     (let p = (\<lambda>r. tool_key r = (t, i) \<and> gt_state_version r = expected) in
      if length (filter p (cst_tools st)) \<noteq> 1 then Inl (cl_conflict ''Tool changed concurrently'')
      else let st' = upd_tools p (disable_row TR_Disabled now) st in rbind (getTool t i st') (\<lambda>r. Inr (st', r)))"

definition listPolicyBindings :: "string \<Rightarrow> string \<Rightarrow> client_store \<Rightarrow> policy_binding list" where
  "listPolicyBindings t i st = sort_key tb_bound_at (filter (\<lambda>b. tb_tenant_id b = t \<and> tb_tool_id b = i) (cst_bindings st))"

section \<open>The configuration snapshot and client actions\<close>

definition snapshot_service :: "service_identity \<Rightarrow> json" where
  "snapshot_service s = JObj [(''service_id'', JStr (si_service_id s)), (''role'', JStr (service_role_name (si_role s))),
     (''status'', JStr (service_status_name (si_status s)))]"

definition snapshot_server :: "mcp_server \<Rightarrow> json" where
  "snapshot_server s = JObj [(''mcp_server_id'', JStr (ms_mcp_server_id s)), (''config_hash'', JStr (ms_config_hash s)),
     (''status'', JStr (mcp_status_name (ms_status s)))]"

definition snapshot_tool :: "governed_tool \<Rightarrow> json" where
  "snapshot_tool r = JObj [(''tool_id'', JStr (gt_tool_id r)), (''enabled'', JBool (gt_enabled r)), (''schema_hash'', JStr (gt_schema_hash r)),
     (''risk_class'', opt_json (\<lambda>k. JStr (risk_name k)) (gt_risk_class r)), (''review_status'', JStr (review_name (gt_review_status r)))]"

definition integration_json :: "client_tenant \<Rightarrow> service_identity list \<Rightarrow> mcp_server list \<Rightarrow> governed_tool list \<Rightarrow> json" where
  "integration_json tenant services servers tools = JObj [(''tenant_id'', JStr (ct_tenant_id tenant)),
     (''tenant_config_hash'', JStr (ct_configuration_hash tenant)), (''services'', JArr (map snapshot_service services)),
     (''servers'', JArr (map snapshot_server servers)), (''tools'', JArr (map snapshot_tool tools))]"

definition computeIntegrationConfigHash :: "(string \<Rightarrow> string) \<Rightarrow> string \<Rightarrow> client_store \<Rightarrow> (client_error, string) res" where
  "computeIntegrationConfigHash sha t st = rbind (getTenant t st) (\<lambda>tenant. rbind (listServiceIdentities t (Some (Dec 200 0)) 0 st) (\<lambda>(services, _).
     Inr (hash_json sha (integration_json tenant services (listMcpServers t st) (listTools t None st)))))"

definition action_key :: "client_action \<Rightarrow> string \<times> string" where
  "action_key r = (ca_tenant_id r, ca_client_action_id r)"

definition recordClientAction :: "client_action \<Rightarrow> client_store \<Rightarrow> (client_error, client_store) res" where
  "recordClientAction r st = (if action_key r \<in> action_key ` set (cst_actions st) then Inl (Sql_Error ''client_actions.client_action_id'')
     else Inr (st\<lparr>cst_actions := cst_actions st @ [r]\<rparr>))"

definition getClientAction :: "string \<Rightarrow> string \<Rightarrow> client_store \<Rightarrow> client_action option" where
  "getClientAction t i st = find (\<lambda>r. action_key r = (t, i)) (cst_actions st)"

end
