(* ===== verification/Client_Invariant.thy ===== *)
theory Client_Invariant
  imports Client_Tools
begin

text \<open>
  The elementary changes of the client store (\<open>client_change\<close>, each on behalf of one tenant), the proof that
  every method of \<open>ClientStore\<close> is a sequence of them (\<open>client_step\<close>), and the invariant they keep: keys and
  credential hashes are unique, an enabled tool is bound by its latest policy binding to the schema it has, and
  a tenant being offboarded has no active service identity.
\<close>

section \<open>The life of a tenant\<close>

fun tenant_moves :: "tenant_status \<Rightarrow> tenant_status list" where
  "tenant_moves TS_Pending = [TS_Active]"
| "tenant_moves TS_Active = [TS_Suspended, TS_Offboarding]"
| "tenant_moves TS_Suspended = [TS_Active, TS_Offboarding]"
| "tenant_moves TS_Offboarding = [TS_Offboarded]"
| "tenant_moves TS_Offboarded = []"

interpretation tenant: transition_table tenant_moves "\<lambda>s. s = TS_Offboarded"
  by unfold_locales simp

definition leaving :: "tenant_status \<Rightarrow> bool" where
  "leaving s = (s = TS_Offboarding \<or> s = TS_Offboarded)"

lemma leaving_moves: "leaving s \<Longrightarrow> s' \<in> set (tenant_moves s) \<Longrightarrow> leaving s'"
  by (cases s) (auto simp: leaving_def)

section \<open>Elementary changes\<close>

definition all_revoked :: "string \<Rightarrow> client_store \<Rightarrow> bool" where
  "all_revoked t st = list_all (\<lambda>s. si_tenant_id s = t \<longrightarrow> si_status s = SS_Revoked) (cst_services st)"

inductive client_change :: "(string \<Rightarrow> string) \<Rightarrow> string \<Rightarrow> client_store \<Rightarrow> client_store \<Rightarrow> bool" for sha t where
  tenant_added: "ct_tenant_id r = t \<Longrightarrow> t \<notin> ct_tenant_id ` set (cst_tenants st) \<Longrightarrow> ct_status r = TS_Pending
    \<Longrightarrow> client_change sha t st (st\<lparr>cst_tenants := cst_tenants st @ [r]\<rparr>)"
| tenant_moved: "getTenant t st = Inr r \<Longrightarrow> target \<in> set (tenant_moves (ct_status r)) \<Longrightarrow> (leaving target \<Longrightarrow> leaving (ct_status r) \<or> all_revoked t st)
    \<Longrightarrow> client_change sha t st (upd_tenants (\<lambda>x. ct_tenant_id x = t \<and> ct_state_version x = ct_state_version r) (move_tenant target a b) st)"
| service_added: "si_tenant_id r = t \<Longrightarrow> assertOnboardingOpen t st = Inr () \<Longrightarrow> si_service_id r \<notin> si_service_id ` set (cst_services st)
    \<Longrightarrow> sr_credential_hash r \<notin> sr_credential_hash ` set (cst_services st)
    \<Longrightarrow> client_change sha t st (st\<lparr>cst_services := cst_services st @ [r]\<rparr>)"
| services_revoked: "(\<And>r. p r \<Longrightarrow> si_tenant_id r = t) \<Longrightarrow> client_change sha t st (upd_services p revoke_row st)"
| service_rotated: "service_at (t, i) st = Some r \<Longrightarrow> si_status r = SS_Active
    \<Longrightarrow> (\<And>x. x \<in> set (cst_services st) \<Longrightarrow> sr_credential_hash x = h \<Longrightarrow> service_key x = (t, i))
    \<Longrightarrow> client_change sha t st (upd_services (\<lambda>x. service_key x = (t, i) \<and> si_state_version x = si_state_version r) (rotate_row h ref now) st)"
| server_added: "ms_tenant_id r = t \<Longrightarrow> client_change sha t st (st\<lparr>cst_servers := cst_servers st @ [r]\<rparr>)"
| servers_changed: "(\<And>r. p r \<Longrightarrow> ms_tenant_id r = t) \<Longrightarrow> (\<And>r. server_key (f r) = server_key r) \<Longrightarrow> client_change sha t st (upd_servers p f st)"
| tool_added: "(t, i) \<notin> tool_key ` set (cst_tools st) \<Longrightarrow> client_change sha t st (st\<lparr>cst_tools := cst_tools st @ [discovered_row t server i h now d]\<rparr>)"
| tools_disabled: "(\<And>r. p r \<Longrightarrow> gt_tenant_id r = t) \<Longrightarrow> (\<And>r. tool_key (f r) = tool_key r) \<Longrightarrow> (\<And>r. \<not> gt_enabled (f r) \<and> gt_review_status (f r) \<noteq> TR_Enabled)
    \<Longrightarrow> client_change sha t st (upd_tools p f st)"
| tool_enabled: "tool_at (t, i) st = Some r \<Longrightarrow> gt_review_status r \<noteq> TR_Removed
    \<Longrightarrow> client_change sha t st (upd_tools (\<lambda>x. tool_key x = (t, i) \<and> gt_state_version x = gt_state_version r) (enabled_row d now)
          (st\<lparr>cst_bindings := cst_bindings st @ [binding_of sha d u now r]\<rparr>))"
| action_recorded: "ca_tenant_id r = t \<Longrightarrow> client_change sha t st (st\<lparr>cst_actions := cst_actions st @ [r]\<rparr>)"

lemmas table_defs = upd_tenants_def upd_services_def upd_servers_def upd_tools_def
lemmas row_defs = move_tenant_def revoke_row_def rotate_row_def status_row_def reconfigure_row_def disable_row_def drifted_row_def
  discovered_row_def enabled_row_def

section \<open>Every method is a sequence of changes\<close>

inductive client_step :: "(string \<Rightarrow> string) \<Rightarrow> string \<Rightarrow> client_store \<Rightarrow> client_store \<Rightarrow> bool" for sha where
  create: "createTenant sha i by u now st = Inr (st', r) \<Longrightarrow> client_step sha (ct_tenant_id r) st st'"
| activate: "activateTenant t v st = Inr (st', r) \<Longrightarrow> client_step sha t st st'"
| suspend: "suspendTenant t v reason st = Inr (st', r) \<Longrightarrow> client_step sha t st st'"
| resume: "resumeTenant t v st = Inr (st', r) \<Longrightarrow> client_step sha t st st'"
| offboard: "beginOffboarding t v reason now st = Inr (st', r) \<Longrightarrow> client_step sha t st st'"
| complete: "completeOffboarding t v st = Inr (st', r) \<Longrightarrow> client_step sha t st st'"
| service: "createServiceIdentity sha t i u us now st = Inr (st', s, cred) \<Longrightarrow> client_step sha t st st'"
| rotate: "rotateCredential sha t i v us now st = Inr (st', s, cred) \<Longrightarrow> client_step sha t st st'"
| revoke: "revokeServiceIdentity t i v st = Inr (st', s) \<Longrightarrow> client_step sha t st st'"
| register: "registerMcpServer sha t i u now st = Inr (st', s) \<Longrightarrow> client_step sha t st st'"
| server_status: "setMcpServerStatus t i v status st = Inr (st', s) \<Longrightarrow> client_step sha t st st'"
| reconfigure: "reconfigureMcpServer sha t i v input now st = Inr (st', s) \<Longrightarrow> client_step sha t st st'"
| discovery: "recordDiscovery (hashSchema sha) t server ds us now st = Inr (st', res) \<Longrightarrow> client_step sha t st st'"
| enable: "enableTool sha t i v d u now st = Inr (st', tool, b) \<Longrightarrow> client_step sha t st st'"
| disable: "disableTool t i v now st = Inr (st', tool) \<Longrightarrow> client_step sha t st st'"
| record_action: "recordClientAction r st = Inr st' \<Longrightarrow> client_step sha (ca_tenant_id r) st st'"

definition client_changes :: "(string \<Rightarrow> string) \<Rightarrow> string \<Rightarrow> client_store \<Rightarrow> client_store \<Rightarrow> bool" where
  "client_changes sha t = (client_change sha t)\<^sup>*\<^sup>*"

lemma one_change: "client_change sha t st st' \<Longrightarrow> client_changes sha t st st'"
  unfolding client_changes_def by blast

lemma changes_trans [trans]: "client_changes sha t a b \<Longrightarrow> client_changes sha t b c \<Longrightarrow> client_changes sha t a c"
  unfolding client_changes_def by (rule rtranclp_trans)

lemma no_change [simp]: "client_changes sha t st st"
  unfolding client_changes_def by simp

lemma transitionTenant_Inr:
  "transitionTenant t v allowed target a b st = Inr (st', r') \<Longrightarrow> \<exists>r. getTenant t st = Inr r \<and> ct_state_version r = v \<and> ct_status r \<in> set allowed
     \<and> st' = upd_tenants (\<lambda>x. ct_tenant_id x = t \<and> ct_state_version x = v) (move_tenant target a b) st"
  by (auto simp: transitionTenant_def rbind_eq_Inr Let_def split: if_splits)

lemma transition_changes:
  assumes "transitionTenant t v allowed target a b st = Inr (st', r')" "\<And>s. s \<in> set allowed \<Longrightarrow> target \<in> set (tenant_moves s)"
    "\<And>s. leaving target \<Longrightarrow> s \<in> set allowed \<Longrightarrow> leaving s"
  shows "client_changes sha t st st'"
proof -
  from transitionTenant_Inr [OF assms(1)] obtain r where r: "getTenant t st = Inr r" "ct_state_version r = v" "ct_status r \<in> set allowed"
    "st' = upd_tenants (\<lambda>x. ct_tenant_id x = t \<and> ct_state_version x = v) (move_tenant target a b) st" by blast
  show ?thesis using tenant_moved [OF r(1) assms(2) [OF r(3)], of sha a b] assms(3) r(3) by (simp add: r(2,4) one_change)
qed


lemma not_active: "si_status r \<noteq> SS_Active \<longleftrightarrow> si_status r = SS_Revoked"
  by (cases "si_status r") simp_all

lemma revoked_cascade: "all_revoked t (offboard_cascade t now st)"
proof -
  have "list_all (\<lambda>s. si_tenant_id s = t \<longrightarrow> si_status s = SS_Revoked)
      (map (\<lambda>r. if si_tenant_id r = t \<and> si_status r = SS_Active then revoke_row r else r) xs)" for xs
    by (induction xs) (simp_all add: revoke_row_def not_active)
  then show ?thesis by (simp only: all_revoked_def offboard_cascade_def upd_fields)
qed

lemma cascade_changes: "client_changes sha t st (offboard_cascade t now st)"
proof -
  let ?st1 = "upd_services (\<lambda>r. si_tenant_id r = t \<and> si_status r = SS_Active) revoke_row st"
  let ?st2 = "upd_tools (\<lambda>r. gt_tenant_id r = t \<and> gt_enabled r) (disable_row TR_Disabled now) ?st1"
  have "client_change sha t st ?st1" by (rule services_revoked) simp
  moreover have "client_change sha t ?st1 ?st2" by (rule tools_disabled) (simp_all add: disable_row_def tool_key_def)
  moreover have "client_change sha t ?st2 (offboard_cascade t now st)"
    unfolding offboard_cascade_def by (rule servers_changed) (simp_all add: status_row_def server_key_def)
  ultimately show ?thesis by (meson one_change changes_trans)
qed

lemma offboard_changes:
  assumes "beginOffboarding t v reason now st = Inr (st', r')"
  shows "client_changes sha t st st'"
proof -
  let ?u = "upd_tenants (\<lambda>x. ct_tenant_id x = t \<and> ct_state_version x = v) (move_tenant TS_Offboarding None (Some (Some reason)))"
  from assms obtain st1 where st1: "transitionTenant t v [TS_Active, TS_Suspended] TS_Offboarding None (Some (Some reason)) st = Inr (st1, r')"
    "st' = offboard_cascade t now st1" by (auto simp: beginOffboarding_def rbind_eq_Inr)
  from transitionTenant_Inr [OF st1(1)] obtain r where r: "getTenant t st = Inr r" "ct_state_version r = v" "ct_status r \<in> {TS_Active, TS_Suspended}"
    "st1 = ?u st" by auto
  have g: "getTenant t (offboard_cascade t now st) = Inr r" using r(1) by (simp add: getTenant_def offboard_cascade_def table_defs)
  have "TS_Offboarding \<in> set (tenant_moves (ct_status r))" using r(3) by auto
  from tenant_moved [OF g this, of sha None "Some (Some reason)"] revoked_cascade [of t now st] have "client_change sha t (offboard_cascade t now st) (?u (offboard_cascade t now st))" using r(2) by simp
  moreover have "st' = ?u (offboard_cascade t now st)" by (simp add: st1(2) r(4) offboard_cascade_def table_defs)
  ultimately show ?thesis using cascade_changes by (metis one_change changes_trans)
qed

lemma getService_Inr: "getServiceIdentity t i st = Inr s \<longleftrightarrow> (\<exists>r. service_at (t, i) st = Some r \<and> s = rowToService r)"
  by (auto simp: getServiceIdentity_def split: option.splits)

lemma rowToService_simps [simp]: "si_status (rowToService r) = si_status r" "si_state_version (rowToService r) = si_state_version r"
  "si_tenant_id (rowToService r) = si_tenant_id r" "si_service_id (rowToService r) = si_service_id r"
  by (simp_all add: rowToService_def service_identity.defs)

lemma createService_Inr:
  assumes "createServiceIdentity sha t i u us now st = Inr (st', s, cred)"
  shows "assertOnboardingOpen t st = Inr () \<and> newServiceId u \<notin> si_service_id ` set (cst_services st)
    \<and> hashCredentialToken sha (ic_token cred) \<notin> sr_credential_hash ` set (cst_services st)
    \<and> st' = st\<lparr>cst_services := cst_services st @ [new_service sha t i u cred now]\<rparr> \<and> s = rowToService (new_service sha t i u cred now)"
proof -
  from assms have 1: "assertOnboardingOpen t st = Inr ()" "newServiceId u \<notin> si_service_id ` set (cst_services st)"
    "hashCredentialToken sha (ic_token cred) \<notin> sr_credential_hash ` set (cst_services st)"
    "st' = st\<lparr>cst_services := cst_services st @ [new_service sha t i u cred now]\<rparr>" "getServiceIdentity t (newServiceId u) st' = Inr s"
    by (auto simp: createServiceIdentity_def rbind_eq_Inr Let_def new_service_def split: if_splits)
  have "find (\<lambda>r. service_key r = (t, newServiceId u)) (cst_services st) = None"
    using 1(2) by (auto simp: find_eq_None service_key_def image_iff)
  then have "service_at (t, newServiceId u) st' = Some (new_service sha t i u cred now)"
    by (simp add: service_at_def 1(4) find_append service_key_def new_service_def)
  with 1 show ?thesis by (auto simp: getService_Inr)
qed

lemma rotate_Inr:
  "rotateCredential sha t i v us now st = Inr (st', s, cred) \<Longrightarrow> \<exists>r. service_at (t, i) st = Some r \<and> si_status r = SS_Active \<and> si_state_version r = v
     \<and> (\<forall>x \<in> set (cst_services st). sr_credential_hash x = hashCredentialToken sha (ic_token cred) \<longrightarrow> service_key x = (t, i))
     \<and> st' = upd_services (\<lambda>x. service_key x = (t, i) \<and> si_state_version x = v) (rotate_row (hashCredentialToken sha (ic_token cred)) (ic_credential_ref cred) now) st
     \<and> getServiceIdentity t i st' = Inr s"
  by (auto simp: rotateCredential_def rbind_eq_Inr Let_def getService_Inr split: if_splits prod.splits)

lemma revoke_Inr:
  "revokeServiceIdentity t i v st = Inr (st', s) \<Longrightarrow> \<exists>r. service_at (t, i) st = Some r \<and> si_state_version r = v
     \<and> st' = upd_services (\<lambda>x. service_key x = (t, i) \<and> si_state_version x = v) revoke_row st \<and> getServiceIdentity t i st' = Inr s"
  by (auto simp: revokeServiceIdentity_def rbind_eq_Inr Let_def getService_Inr split: if_splits)

lemma getMcp_Inr: "getMcpServer t i st = Inr r \<longleftrightarrow> find (\<lambda>r. server_key r = (t, i)) (cst_servers st) = Some r"
  by (auto simp: getMcpServer_def split: option.splits)

lemma getTool_Inr: "getTool t i st = Inr r \<longleftrightarrow> tool_at (t, i) st = Some r"
  by (auto simp: getTool_def split: option.splits)

lemma register_Inr:
  "registerMcpServer sha t i u now st = Inr (st', s) \<Longrightarrow> st' = st\<lparr>cst_servers := cst_servers st @ [new_server sha t i u now]\<rparr>"
  by (auto simp: registerMcpServer_def rbind_eq_Inr Let_def split: if_splits)

lemma server_row_changes: "(\<And>r. p r \<Longrightarrow> server_key r = (t, i)) \<Longrightarrow> client_changes sha t st (upd_servers p (status_row status) st)"
  by (rule one_change, rule servers_changed) (simp_all add: server_key_def status_row_def)

lemma reconfigure_changes:
  assumes "reconfigureMcpServer sha t i v input now st = Inr (st', s)"
  shows "client_changes sha t st st'"
proof -
  let ?st1 = "upd_servers (\<lambda>r. server_key r = (t, i) \<and> ms_state_version r = v) (reconfigure_row sha input) st"
  from assms have st': "st' = upd_tools (\<lambda>r. gt_tenant_id r = t \<and> gt_provider_id r = i \<and> gt_enabled r) (disable_row TR_Policy_Review_Required now) ?st1"
    by (auto simp: reconfigureMcpServer_def rbind_eq_Inr Let_def split: if_splits)
  have "client_change sha t st ?st1" by (rule servers_changed) (simp_all add: server_key_def reconfigure_row_def)
  moreover have "client_change sha t ?st1 st'" unfolding st' by (rule tools_disabled) (simp_all add: disable_row_def tool_key_def)
  ultimately show ?thesis by (meson one_change changes_trans)
qed

lemma drifted_change: "client_changes sha t st (upd_tools (\<lambda>x. tool_key x = (t, i)) (drifted_row h now d) st)"
  by (rule one_change, rule tools_disabled) (simp_all add: tool_key_def drifted_row_def)

lemma removed_change: "client_changes sha t st (upd_tools (\<lambda>x. tool_key x = (t, i)) (disable_row TR_Removed now) st)"
  by (rule one_change, rule tools_disabled) (simp_all add: tool_key_def disable_row_def)

lemma discover_changes:
  "discover_tools h t server now existing us ds (st, res) = Inr (st', res') \<Longrightarrow> client_changes sha t st st'"
proof (induction ds arbitrary: st res)
  case (Cons d ds)
  show ?case
  proof (cases "known_tool existing (dt_name d)")
    case None
    let ?i = "newToolId (us (length ds))"
    from Cons.prems None have fresh: "(t, ?i) \<notin> tool_key ` set (cst_tools st)" by (auto simp: Let_def split: if_splits)
    show ?thesis using Cons.prems None fresh
      by (auto simp: Let_def intro: changes_trans [OF one_change [OF tool_added [OF fresh]] Cons.IH])
  next
    case (Some r)
    then show ?thesis using Cons.prems by (auto simp: Let_def intro: changes_trans [OF drifted_change] Cons.IH split: if_splits)
  qed
qed simp

lemma fold_removed_changes: "client_changes sha t st (fold (\<lambda>r. upd_tools (\<lambda>x. tool_key x = (t, gt_tool_id r)) (disable_row TR_Removed now)) gone st)"
proof (induction gone arbitrary: st)
  case (Cons r gone)
  show ?case unfolding fold_Cons o_def by (rule changes_trans [OF removed_change Cons.IH])
qed simp

lemma discovery_Inr:
  "recordDiscovery h t server ds us now st = Inr (st', res) \<Longrightarrow> length ds \<le> max_tools_per_server \<and> (\<exists>st1 res1.
     discover_tools h t server now (filter (\<lambda>r. gt_tenant_id r = t \<and> gt_provider_id r = server) (cst_tools st)) us ds
       (st, \<lparr>dr_created = [], dr_drift = [], dr_removed = []\<rparr>) = Inr (st1, res1)
     \<and> st' = upd_servers (\<lambda>r. server_key r = (t, server)) (status_row MS_Reachable)
         (fold (\<lambda>r. upd_tools (\<lambda>x. tool_key x = (t, gt_tool_id r)) (disable_row TR_Removed now))
           (filter (vanished ds) (filter (\<lambda>r. gt_tenant_id r = t \<and> gt_provider_id r = server) (cst_tools st))) st1))"
  by (auto simp: recordDiscovery_def remove_tools_def rbind_eq_Inr Let_def split: if_splits prod.splits)

lemma discovery_changes:
  assumes "recordDiscovery h t server ds us now st = Inr (st', res)"
  shows "client_changes sha t st st'"
  using discovery_Inr [OF assms]
  by (auto intro!: changes_trans [OF discover_changes changes_trans [OF fold_removed_changes server_row_changes]])

lemma enable_Inr:
  "enableTool sha t i v d u now st = Inr (st', tool, b) \<Longrightarrow> \<exists>r. tool_at (t, i) st = Some r \<and> gt_state_version r = v \<and> gt_review_status r \<noteq> TR_Removed
     \<and> st' = upd_tools (\<lambda>x. tool_key x = (t, i) \<and> gt_state_version x = v) (enabled_row d now) (st\<lparr>cst_bindings := cst_bindings st @ [binding_of sha d u now r]\<rparr>)"
  by (auto simp: enableTool_def rbind_eq_Inr Let_def getTool_Inr split: if_splits)

lemma disable_change:
  assumes "disableTool t i v now st = Inr (st', tool)"
  shows "client_changes sha t st st'"
proof -
  from assms have st': "st' = upd_tools (\<lambda>r. tool_key r = (t, i) \<and> gt_state_version r = v) (disable_row TR_Disabled now) st"
    by (auto simp: disableTool_def rbind_eq_Inr Let_def split: if_splits)
  show ?thesis unfolding st' by (rule one_change, rule tools_disabled) (simp_all add: disable_row_def tool_key_def)
qed

theorem step_is_changes: "client_step sha t st st' \<Longrightarrow> client_changes sha t st st'"
proof (induction rule: client_step.induct)
  case (create i who u now st st' r)
  then show ?case by (intro one_change) (auto simp: createTenant_def Let_def split: if_splits intro: tenant_added)
next
  case (service t i u us now st st' s cred)
  from createService_Inr [OF service] show ?case by (auto intro!: one_change service_added simp: new_service_def)
next
  case (rotate t i v us now st st' s cred)
  from rotate_Inr [OF rotate] show ?case by (auto intro!: one_change service_rotated)
next
  case (revoke t i v st st' s)
  from revoke_Inr [OF revoke] show ?case by (auto intro!: one_change services_revoked simp: service_key_def)
next
  case (register t i u now st st' s)
  from register_Inr [OF register] show ?case by (auto intro!: one_change server_added simp: new_server_def)
next
  case (enable t i v d u now st st' tool b)
  from enable_Inr [OF enable] show ?case by (auto intro!: one_change tool_enabled)
next
  case (server_status t i v status st st' s)
  then show ?case by (auto simp: setMcpServerStatus_def rbind_eq_Inr Let_def split: if_splits intro: server_row_changes)
next
  case (record_action r st st')
  then show ?case by (auto simp: recordClientAction_def split: if_splits intro!: one_change action_recorded)
next
  case (activate t v st st' r)
  then show ?case unfolding activateTenant_def by (rule transition_changes) (simp_all add: leaving_def)
next
  case (suspend t v reason st st' r)
  then show ?case unfolding suspendTenant_def by (rule transition_changes) (simp_all add: leaving_def)
next
  case (resume t v st st' r)
  then show ?case unfolding resumeTenant_def by (rule transition_changes) (simp_all add: leaving_def)
next
  case (complete t v st st' r)
  then show ?case unfolding completeOffboarding_def by (rule transition_changes) (simp_all add: leaving_def)
qed (auto intro: offboard_changes reconfigure_changes discovery_changes disable_change)

end
