(* ===== verification/Client_Properties.thy ===== *)
theory Client_Properties
  imports Client_Invariant
begin

text \<open>
  What the client integration guarantees: its invariant in every reachable store, the end of a revoked
  credential and of an offboarded tenant, the review an enabled tool rests on, and the isolation of tenants.
\<close>

section \<open>The invariant\<close>

definition tool_bound :: "(string \<Rightarrow> string) \<Rightarrow> policy_binding list \<Rightarrow> governed_tool \<Rightarrow> bool" where
  \<comment> \<open>the latest binding of the tool is for the schema, the risk and the requirements it has now\<close>
  "tool_bound sha bs r = (case find_last (\<lambda>b. (tb_tenant_id b, tb_tool_id b) = tool_key r) bs of None \<Rightarrow> False
     | Some b \<Rightarrow> gt_risk_class r = Some (tb_risk_class b)
        \<and> tb_approval_mode b = (if gt_requires_human_approval r then ''human_approval'' else ''none'')
        \<and> tb_verification b = (if gt_requires_vad r then ''vad'' else ''none'')
        \<and> tb_policy_hash b = hash_json sha (binding_policy_json (tb_policy_id b) (tb_risk_class b) (tb_approval_mode b) (tb_runtime_limits b)
            (tb_cost_limits b) (tb_verification b) (gt_schema_hash r)))"

definition tool_ok :: "(string \<Rightarrow> string) \<Rightarrow> policy_binding list \<Rightarrow> governed_tool \<Rightarrow> bool" where
  "tool_ok sha bs r = ((gt_enabled r \<longleftrightarrow> gt_review_status r = TR_Enabled) \<and> (gt_enabled r \<longrightarrow> tool_bound sha bs r))"

definition keys_ok :: "client_store \<Rightarrow> bool" where
  "keys_ok st = (distinct (map ct_tenant_id (cst_tenants st)) \<and> distinct (map si_service_id (cst_services st))
     \<and> distinct (map sr_credential_hash (cst_services st)) \<and> distinct (map tool_key (cst_tools st)))"

definition leaving_ok :: "client_store \<Rightarrow> bool" where
  "leaving_ok st = (\<forall>r \<in> set (cst_tenants st). leaving (ct_status r) \<longrightarrow> all_revoked (ct_tenant_id r) st)"

definition tools_ok :: "(string \<Rightarrow> string) \<Rightarrow> client_store \<Rightarrow> bool" where
  "tools_ok sha st = (\<forall>r \<in> set (cst_tools st). tool_ok sha (cst_bindings st) r)"

lemma map_upd_same: "(\<And>r. k (f r) = k r) \<Longrightarrow> map k (map (\<lambda>r. if p r then f r else r) xs) = map k xs"
  by (induction xs) simp_all

lemma in_updD: "y \<in> set (map (\<lambda>r. if p r then f r else r) xs) \<Longrightarrow> \<exists>r \<in> set xs. y = (if p r then f r else r)"
  by auto

lemma distinct_key_inj: "distinct (map k xs) \<Longrightarrow> x \<in> set xs \<Longrightarrow> y \<in> set xs \<Longrightarrow> k x = k y \<Longrightarrow> x = y"
  by (auto simp: distinct_map dest: inj_onD)

lemma rotated_distinct:
  assumes "distinct (map si_service_id xs)" "distinct (map sr_credential_hash xs)"
    "\<And>x. x \<in> set xs \<Longrightarrow> sr_credential_hash x = h \<Longrightarrow> service_key x = k"
  shows "distinct (map sr_credential_hash (map (\<lambda>x. if service_key x = k \<and> q x then rotate_row h ref now x else x) xs))"
proof -
  let ?g = "\<lambda>x. if service_key x = k \<and> q x then h else sr_credential_hash x"
  have same: "x = y" if "x \<in> set xs" "y \<in> set xs" "service_key x = k" "service_key y = k" for x y
  proof -
    have "service_key x = service_key y" using that by simp
    then have "si_service_id x = si_service_id y" by (simp add: service_key_def)
    then show ?thesis by (rule distinct_key_inj [OF assms(1) that(1,2)])
  qed
  have "inj_on ?g (set xs)"
  proof (rule inj_onI)
    fix x y assume xy: "x \<in> set xs" "y \<in> set xs" "?g x = ?g y"
    show "x = y"
    proof (cases "(service_key x = k \<and> q x) \<or> (service_key y = k \<and> q y)")
      case True
      then have "service_key x = k" "service_key y = k" using xy assms(3) [of x] assms(3) [of y] by (auto split: if_splits)
      then show ?thesis using same xy by blast
    next
      case False
      then have "sr_credential_hash x = sr_credential_hash y" using xy(3) by (simp split: if_splits)
      then show ?thesis by (rule distinct_key_inj [OF assms(2) xy(1,2)])
    qed
  qed
  moreover have "sr_credential_hash (if service_key x = k \<and> q x then rotate_row h ref now x else x) = ?g x" for x by (simp add: rotate_row_def)
  ultimately show ?thesis using assms(2) by (simp add: distinct_map o_def)
qed

lemma keys_change: "client_change sha t st st' \<Longrightarrow> keys_ok st \<Longrightarrow> keys_ok st'"
proof (induction rule: client_change.induct)
  case (service_rotated i st r h ref now)
  let ?ups = "map (\<lambda>x. if service_key x = (t, i) \<and> si_state_version x = si_state_version r then rotate_row h ref now x else x) (cst_services st)"
  have "map si_service_id ?ups = map si_service_id (cst_services st)" by (rule map_upd_same) (simp add: rotate_row_def)
  moreover have "distinct (map sr_credential_hash ?ups)"
    using service_rotated.prems service_rotated.hyps(3) by (intro rotated_distinct) (auto simp: keys_ok_def)
  ultimately show ?case using service_rotated.prems by (simp add: keys_ok_def del: map_map)
next
  case (tools_disabled p f st)
  have "map tool_key (map (\<lambda>r. if p r then f r else r) (cst_tools st)) = map tool_key (cst_tools st)" using tools_disabled.hyps(2) by (rule map_upd_same)
  with tools_disabled.prems show ?case by (simp add: keys_ok_def del: map_map)
next
  case (services_revoked p st)
  have "map k (map (\<lambda>r. if p r then revoke_row r else r) (cst_services st)) = map k (cst_services st)" if "k = si_service_id \<or> k = sr_credential_hash" for k :: "service_row \<Rightarrow> string"
    using that by (intro map_upd_same) (auto simp: revoke_row_def)
  with services_revoked.prems show ?case by (simp add: keys_ok_def del: map_map)
next
  case (tenant_moved st r target a b)
  have "map ct_tenant_id (cst_tenants (upd_tenants q (move_tenant target a b) st)) = map ct_tenant_id (cst_tenants st)" for q
    unfolding upd_fields by (rule map_upd_same) (simp add: move_tenant_def)
  with tenant_moved.prems show ?case by (simp add: keys_ok_def del: map_map)
next
  case (tool_enabled i st r d now u)
  have "map tool_key (map (\<lambda>r. if q r then enabled_row d now r else r) xs) = map tool_key xs" for q xs
    by (rule map_upd_same) (simp add: enabled_row_def tool_key_def)
  with tool_enabled.prems show ?case by (simp add: keys_ok_def del: map_map)
qed (auto simp: keys_ok_def discovered_row_def tool_key_def)

lemma getTenant_Inr: "getTenant t st = Inr r \<longleftrightarrow> find (\<lambda>r. ct_tenant_id r = t) (cst_tenants st) = Some r"
  by (auto simp: getTenant_def split: option.splits)

lemma the_tenant:
  assumes "keys_ok st" "getTenant t st = Inr r" "x \<in> set (cst_tenants st)" "ct_tenant_id x = t"
  shows "x = r"
proof -
  have "r \<in> set (cst_tenants st)" "ct_tenant_id r = t" using assms(2) by (auto simp: getTenant_Inr dest: find_SomeD)
  then show ?thesis using assms distinct_key_inj [of ct_tenant_id "cst_tenants st" x r] by (simp add: keys_ok_def)
qed

lemma all_revoked_same: "cst_services st' = cst_services st \<Longrightarrow> all_revoked t st' = all_revoked t st"
  by (simp add: all_revoked_def)

lemma all_revoked_upd:
  assumes "all_revoked t st" "\<And>x. si_tenant_id (f x) = si_tenant_id x" "\<And>x. si_status x = SS_Revoked \<Longrightarrow> si_status (f x) = SS_Revoked"
  shows "all_revoked t (upd_services p f st)"
proof -
  have "list_all (\<lambda>s. si_tenant_id s = t \<longrightarrow> si_status s = SS_Revoked) xs
      \<Longrightarrow> list_all (\<lambda>s. si_tenant_id s = t \<longrightarrow> si_status s = SS_Revoked) (map (\<lambda>r. if p r then f r else r) xs)" for xs
    by (induction xs) (simp_all add: assms(2,3))
  with assms(1) show ?thesis by (simp add: all_revoked_def)
qed

lemma open_not_leaving: "assertOnboardingOpen t st = Inr () \<Longrightarrow> \<exists>r. getTenant t st = Inr r \<and> \<not> leaving (ct_status r)"
  by (auto simp: assertOnboardingOpen_def rbind_eq_Inr leaving_def split: if_splits)

lemma leaving_change: "client_change sha t st st' \<Longrightarrow> keys_ok st \<Longrightarrow> leaving_ok st \<Longrightarrow> leaving_ok st'"
proof (induction rule: client_change.induct)
  case (tenant_moved st r target a b)
  have row: "all_revoked (ct_tenant_id y) st" if "x \<in> set (cst_tenants st)" "leaving (ct_status y)"
    "y = (if ct_tenant_id x = t \<and> ct_state_version x = ct_state_version r then move_tenant target a b x else x)" for x y
  proof (cases "ct_tenant_id x = t \<and> ct_state_version x = ct_state_version r")
    case True
    then have "x = r" using the_tenant [OF tenant_moved.prems(1) tenant_moved.hyps(1) that(1)] by simp
    with True that tenant_moved.hyps(3) tenant_moved.prems(2) show ?thesis by (auto simp: move_tenant_def leaving_ok_def)
  qed (use that tenant_moved.prems(2) in \<open>auto simp: leaving_ok_def\<close>)
  have "all_revoked (ct_tenant_id y) st"
    if "y \<in> set (map (\<lambda>x. if ct_tenant_id x = t \<and> ct_state_version x = ct_state_version r then move_tenant target a b x else x) (cst_tenants st))"
      "leaving (ct_status y)" for y
    using in_updD [OF that(1)] that(2) row by blast
  moreover have "all_revoked u (upd_tenants q f st) = all_revoked u st" for u q f by (rule all_revoked_same) simp
  ultimately show ?case unfolding leaving_ok_def by simp
next
  case (service_added r st)
  obtain ten where ten: "getTenant t st = Inr ten" "\<not> leaving (ct_status ten)" using open_not_leaving [OF service_added.hyps(2)] by blast
  have "ct_tenant_id x \<noteq> t" if "x \<in> set (cst_tenants st)" "leaving (ct_status x)" for x
    using that the_tenant [OF service_added.prems(1) ten(1) that(1)] ten(2) by auto
  with service_added.hyps(1) service_added.prems(2) show ?case by (auto simp: leaving_ok_def all_revoked_def) blast
next
  case (services_revoked p st)
  then show ?case by (auto simp: leaving_ok_def revoke_row_def intro: all_revoked_upd)
next
  case (service_rotated i st r h ref now)
  then show ?case by (auto simp: leaving_ok_def rotate_row_def intro: all_revoked_upd)
qed (auto simp: leaving_ok_def all_revoked_def leaving_def)

lemma find_last_snoc [simp]: "find_last p (xs @ [x]) = (if p x then Some x else find_last p xs)"
  by (simp add: find_last_def)

lemma tool_ok_other: "tool_key r \<noteq> (tb_tenant_id b, tb_tool_id b) \<Longrightarrow> tool_ok sha (bs @ [b]) r = tool_ok sha bs r"
  by (auto simp: tool_ok_def tool_bound_def)

lemma enabled_ok: "tool_ok sha (bs @ [binding_of sha d u now r]) (enabled_row d now' r)"
  by (simp add: tool_ok_def tool_bound_def enabled_row_def binding_of_def tool_key_def approval_mode_of_def verification_of_def)

lemma disabled_ok: "\<not> gt_enabled r \<Longrightarrow> gt_review_status r \<noteq> TR_Enabled \<Longrightarrow> tool_ok sha bs r"
  by (simp add: tool_ok_def)

lemma the_tool:
  assumes "keys_ok st" "tool_at k st = Some r"
  shows "r \<in> set (cst_tools st) \<and> tool_key r = k \<and> (\<forall>x \<in> set (cst_tools st). tool_key x = k \<longrightarrow> x = r)"
proof -
  have r: "r \<in> set (cst_tools st)" "tool_key r = k" using assms(2) by (auto simp: tool_at_def dest: find_SomeD)
  have "x = r" if "x \<in> set (cst_tools st)" "tool_key x = k" for x
    using assms(1) that r distinct_key_inj [of tool_key "cst_tools st" x r] by (simp add: keys_ok_def)
  with r show ?thesis by blast
qed

lemma tools_change: "client_change sha t st st' \<Longrightarrow> keys_ok st \<Longrightarrow> tools_ok sha st \<Longrightarrow> tools_ok sha st'"
proof (induction rule: client_change.induct)
  case (tools_disabled p f st)
  have "tool_ok sha (cst_bindings st) (if p x then f x else x)" if "x \<in> set (cst_tools st)" for x
    using that tools_disabled by (simp add: tools_ok_def disabled_ok)
  then show ?case unfolding tools_ok_def upd_fields using in_updD by fastforce
next
  case (tool_enabled i st r d now u)
  let ?b = "binding_of sha d u now r"
  note the = the_tool [OF tool_enabled.prems(1) tool_enabled.hyps(1)]
  have b: "(tb_tenant_id ?b, tb_tool_id ?b) = (t, i)" using the by (simp add: binding_of_def tool_key_def)
  have "tool_ok sha (cst_bindings st @ [?b]) (if tool_key x = (t, i) \<and> gt_state_version x = gt_state_version r then enabled_row d now x else x)"
    if "x \<in> set (cst_tools st)" for x
  proof (cases "tool_key x = (t, i)")
    case True
    with the that have "x = r" by blast
    with True show ?thesis by (simp add: enabled_ok)
  next
    case False
    with b that tool_enabled.prems(2) show ?thesis by (simp add: tool_ok_other tools_ok_def)
  qed
  then show ?case unfolding tools_ok_def upd_fields using in_updD by fastforce
qed (auto simp: tools_ok_def tool_ok_def discovered_row_def)

definition client_inv :: "(string \<Rightarrow> string) \<Rightarrow> client_store \<Rightarrow> bool" where
  "client_inv sha st = (keys_ok st \<and> leaving_ok st \<and> tools_ok sha st)"

lemma inv_keys: "client_inv sha st \<Longrightarrow> keys_ok st"
  by (simp add: client_inv_def)

lemma inv_change: "client_change sha t st st' \<Longrightarrow> client_inv sha st \<Longrightarrow> client_inv sha st'"
  using keys_change leaving_change tools_change unfolding client_inv_def by blast

lemma inv_changes: "client_changes sha t st st' \<Longrightarrow> client_inv sha st \<Longrightarrow> client_inv sha st'"
  unfolding client_changes_def by (induction rule: rtranclp_induct) (auto intro: inv_change)

definition client_reaches :: "(string \<Rightarrow> string) \<Rightarrow> client_store \<Rightarrow> client_store \<Rightarrow> bool" where
  "client_reaches sha = (\<lambda>st st'. \<exists>t. client_step sha t st st')\<^sup>*\<^sup>*"

lemma inv_reaches: "client_reaches sha st st' \<Longrightarrow> client_inv sha st \<Longrightarrow> client_inv sha st'"
  unfolding client_reaches_def by (induction rule: rtranclp_induct) (auto intro: inv_changes step_is_changes)

lemma inv_start: "client_inv sha client_start"
  by (simp add: client_inv_def keys_ok_def leaving_ok_def tools_ok_def client_start_def)

lemma reached_inv: "client_reaches sha client_start st \<Longrightarrow> client_inv sha st"
  using inv_reaches inv_start by blast

section \<open>Leaving tenants and revoked credentials\<close>

lemma find_upd: "(\<And>x. k (f x) = k x) \<Longrightarrow>
    find (\<lambda>r. k r = c) (map (\<lambda>r. if p r then f r else r) xs) = map_option (\<lambda>r. if p r then f r else r) (find (\<lambda>r. k r = c) xs)"
  by (induction xs) simp_all

lemma getTenant_upd:
  assumes "\<And>x. ct_tenant_id (f x) = ct_tenant_id x" "getTenant u st = Inr r"
  shows "getTenant u (upd_tenants p f st) = Inr (if p r then f r else r)"
  using assms by (simp add: getTenant_Inr find_upd)

lemma getTenant_same: "cst_tenants st' = cst_tenants st \<Longrightarrow> getTenant u st' = getTenant u st"
  by (simp add: getTenant_def)

lemma leaving_stays:
  "client_change sha t st st' \<Longrightarrow> getTenant u st = Inr r \<Longrightarrow> leaving (ct_status r) \<Longrightarrow> \<exists>r'. getTenant u st' = Inr r' \<and> leaving (ct_status r')"
proof (induction rule: client_change.induct)
  case (tenant_added x st)
  then show ?case by (simp add: getTenant_Inr find_append)
next
  case (tenant_moved st x target a b)
  have "getTenant u (upd_tenants p (move_tenant target a b) st) = Inr (if p r then move_tenant target a b r else r)" for p
    using tenant_moved.prems(1) by (intro getTenant_upd) (simp_all add: move_tenant_def)
  moreover have "leaving target" if "ct_tenant_id r = t"
  proof -
    have "u = t" using tenant_moved.prems(1) that by (auto simp: getTenant_Inr dest: find_SomeD)
    then have "x = r" using tenant_moved.prems(1) tenant_moved.hyps(1) by simp
    then show ?thesis using tenant_moved.hyps(2) tenant_moved.prems(2) leaving_moves by blast
  qed
  ultimately show ?case using tenant_moved.prems(2) by (simp add: move_tenant_def)
qed (simp_all add: getTenant_def)

lemma leaving_reaches:
  assumes "client_reaches sha st st'" "getTenant u st = Inr r" "leaving (ct_status r)"
  shows "\<exists>r'. getTenant u st' = Inr r' \<and> leaving (ct_status r')"
proof -
  have changes: "\<exists>r'. getTenant u b = Inr r' \<and> leaving (ct_status r')"
    if "client_changes sha t a b" "\<exists>r'. getTenant u a = Inr r' \<and> leaving (ct_status r')" for t a b
    using that unfolding client_changes_def by (induction rule: rtranclp_induct) (auto dest: leaving_stays)
  from assms show ?thesis
    unfolding client_reaches_def by (induction rule: rtranclp_induct) (auto dest!: step_is_changes intro: changes)
qed

lemma authenticate_Some:
  "authenticateService sha token st = Some s \<Longrightarrow> \<exists>r \<in> set (cst_services st). s = rowToService r \<and> si_status r = SS_Active
     \<and> sr_credential_hash r = hashCredentialToken sha token"
  by (auto simp: authenticateService_def split: option.splits if_splits dest: find_SomeD)

lemma leaving_locked:
  assumes "client_inv sha st" "getTenant t st = Inr r" "leaving (ct_status r)" "authenticateService sha token st = Some s"
  shows "si_tenant_id s \<noteq> t"
proof
  assume t: "si_tenant_id s = t"
  have "r \<in> set (cst_tenants st)" "ct_tenant_id r = t" using assms(2) by (auto simp: getTenant_Inr dest: find_SomeD)
  then have "all_revoked t st" using assms(1,3) by (auto simp: client_inv_def leaving_ok_def)
  then show False using authenticate_Some [OF assms(4)] t by (auto simp: all_revoked_def list_all_iff)
qed

lemma find_hash:
  assumes "keys_ok st" "r \<in> set (cst_services st)"
  shows "find (\<lambda>x. sr_credential_hash x = sr_credential_hash r) (cst_services st) = Some r"
  using assms by (intro find_map_unique) (simp_all add: keys_ok_def)

lemma authenticate_row:
  assumes "keys_ok st" "r \<in> set (cst_services st)" "hashCredentialToken sha token = sr_credential_hash r"
  shows "authenticateService sha token st = (if si_status r = SS_Active then Some (rowToService r) else None)"
  using find_hash [OF assms(1,2)] by (simp add: authenticateService_def assms(3) verifyCredentialToken_def)

lemma the_service:
  assumes "keys_ok st" "service_at k st = Some r"
  shows "r \<in> set (cst_services st) \<and> service_key r = k \<and> (\<forall>x \<in> set (cst_services st). service_key x = k \<longrightarrow> x = r)"
proof -
  have r: "r \<in> set (cst_services st)" "service_key r = k" using assms(2) by (auto simp: service_at_def dest: find_SomeD)
  have "x = r" if "x \<in> set (cst_services st)" "service_key x = k" for x
  proof -
    have "service_key x = service_key r" using that r by simp
    then have "si_service_id x = si_service_id r" by (simp add: service_key_def)
    with assms(1) that r show ?thesis by (intro distinct_key_inj [of si_service_id "cst_services st"]) (simp_all add: keys_ok_def)
  qed
  with r show ?thesis by blast
qed

definition dead_hash :: "string \<Rightarrow> client_store \<Rightarrow> bool" where
  "dead_hash h st = (\<exists>r \<in> set (cst_services st). sr_credential_hash r = h \<and> si_status r = SS_Revoked)"

lemma dead_upd:
  assumes "dead_hash h st" "\<And>r. r \<in> set (cst_services st) \<Longrightarrow> si_status r = SS_Revoked \<Longrightarrow> p r \<Longrightarrow> sr_credential_hash (f r) = sr_credential_hash r \<and> si_status (f r) = SS_Revoked"
  shows "dead_hash h (upd_services p f st)"
proof -
  from assms(1) obtain r where r: "r \<in> set (cst_services st)" "sr_credential_hash r = h" "si_status r = SS_Revoked" by (auto simp: dead_hash_def)
  then have "(if p r then f r else r) \<in> set (cst_services (upd_services p f st))" by simp
  moreover have "sr_credential_hash (if p r then f r else r) = h \<and> si_status (if p r then f r else r) = SS_Revoked" using r assms(2) by simp
  ultimately show ?thesis unfolding dead_hash_def by blast
qed

lemma dead_change: "client_change sha t st st' \<Longrightarrow> keys_ok st \<Longrightarrow> dead_hash h st \<Longrightarrow> dead_hash h st'"
proof (induction rule: client_change.induct)
  case (services_revoked p st)
  then show ?case by (intro dead_upd) (simp_all add: revoke_row_def)
next
  case (service_rotated i st r g ref now)
  have "r = x" if "x \<in> set (cst_services st)" "service_key x = (t, i)" for x
    using the_service [OF service_rotated.prems(1) service_rotated.hyps(1)] that by blast
  then show ?case using service_rotated.prems(2) service_rotated.hyps(2) by (intro dead_upd) auto
qed (auto simp: dead_hash_def)

lemma dead_reaches:
  assumes "client_reaches sha st st'" "client_inv sha st" "dead_hash h st"
  shows "dead_hash h st'"
proof -
  have changes: "client_inv sha b \<and> dead_hash h b" if "client_changes sha t a b" "client_inv sha a" "dead_hash h a" for t a b
    using that unfolding client_changes_def by (induction rule: rtranclp_induct) (auto intro: inv_change dead_change inv_keys)
  from assms have "client_inv sha st' \<and> dead_hash h st'"
    unfolding client_reaches_def by (induction rule: rtranclp_induct) (auto dest!: step_is_changes dest: changes)
  then show ?thesis by simp
qed

lemma dead_authenticates:
  assumes "client_inv sha st" "dead_hash (hashCredentialToken sha token) st"
  shows "authenticateService sha token st = None"
proof -
  from assms(2) obtain r where r: "r \<in> set (cst_services st)" "sr_credential_hash r = hashCredentialToken sha token" "si_status r = SS_Revoked"
    by (auto simp: dead_hash_def)
  from assms(1) have "keys_ok st" by (simp add: client_inv_def)
  from authenticate_row [OF this r(1) r(2) [symmetric]] r(3) show ?thesis by simp
qed

section \<open>Isolation\<close>

definition client_view :: "string \<Rightarrow> client_store \<Rightarrow> client_store" where
  \<comment> \<open>the rows of one tenant\<close>
  "client_view t st = \<lparr>cst_tenants = filter (\<lambda>r. ct_tenant_id r = t) (cst_tenants st), cst_services = filter (\<lambda>r. si_tenant_id r = t) (cst_services st),
     cst_servers = tenant_servers t st, cst_tools = tenant_tools t st, cst_bindings = filter (\<lambda>b. tb_tenant_id b = t) (cst_bindings st),
     cst_actions = filter (\<lambda>r. ca_tenant_id r = t) (cst_actions st)\<rparr>"

lemma filter_upd: "(\<And>r. r \<in> set xs \<Longrightarrow> p r \<Longrightarrow> \<not> q r) \<Longrightarrow> (\<And>r. r \<in> set xs \<Longrightarrow> p r \<Longrightarrow> \<not> q (f r)) \<Longrightarrow> filter q (map (\<lambda>r. if p r then f r else r) xs) = filter q xs"
  by (induction xs) simp_all

lemma view_change:
  assumes "client_change sha u st st'" "keys_ok st" "u \<noteq> t"
  shows "client_view t st' = client_view t st"
  using assms
proof (induction rule: client_change.induct)
  case (tenant_moved st r target a b)
  then show ?case by (auto simp: client_view_def tenant_servers_def tenant_tools_def move_tenant_def intro!: filter_upd)
next
  case (services_revoked p st)
  then show ?case by (auto simp: client_view_def tenant_servers_def tenant_tools_def revoke_row_def intro: filter_upd)
next
  case (service_rotated i st r h ref now)
  then show ?case by (auto simp: client_view_def tenant_servers_def tenant_tools_def rotate_row_def service_key_def intro!: filter_upd)
next
  case (servers_changed p f st)
  have "ms_tenant_id (f r) = ms_tenant_id r" for r using servers_changed.hyps(2) [of r] by (simp add: server_key_def)
  with servers_changed show ?case by (auto simp: client_view_def tenant_servers_def tenant_tools_def intro: filter_upd)
next
  case (tools_disabled p f st)
  have "gt_tenant_id (f r) = gt_tenant_id r" for r using tools_disabled.hyps(2) [of r] by (simp add: tool_key_def)
  with tools_disabled show ?case by (auto simp: client_view_def tenant_servers_def tenant_tools_def intro: filter_upd)
next
  case (tool_enabled i st r d now v)
  have "gt_tenant_id r = u" using the_tool [OF tool_enabled.prems(1) tool_enabled.hyps(1)] by (simp add: tool_key_def)
  with tool_enabled.prems show ?case
    by (auto simp: client_view_def tenant_servers_def tenant_tools_def enabled_row_def tool_key_def binding_of_def intro!: filter_upd)
qed (auto simp: client_view_def tenant_servers_def tenant_tools_def discovered_row_def)

lemma find_filter: "(\<And>r. p r \<Longrightarrow> q r) \<Longrightarrow> find p (filter q xs) = find p xs"
  by (induction xs) auto

lemma hash_of_view: "computeIntegrationConfigHash sha t (client_view t st) = computeIntegrationConfigHash sha t st"
proof -
  have "getTenant t (client_view t st) = getTenant t st" by (simp add: getTenant_def client_view_def find_filter)
  moreover have "listServiceIdentities t l o1 (client_view t st) = listServiceIdentities t l o1 st" for l o1
    by (simp add: listServiceIdentities_def client_view_def)
  moreover have "listMcpServers t (client_view t st) = listMcpServers t st" by (simp add: listMcpServers_def client_view_def tenant_servers_def)
  moreover have "listTools t None (client_view t st) = listTools t None st" by (simp add: listTools_def client_view_def tenant_tools_def)
  ultimately show ?thesis by (simp add: computeIntegrationConfigHash_def)
qed

lemma view_reaches:
  assumes "(\<lambda>a b. \<exists>u. u \<noteq> t \<and> client_step sha u a b)\<^sup>*\<^sup>* st st'" "client_inv sha st"
  shows "client_inv sha st' \<and> client_view t st' = client_view t st"
proof -
  have changes: "client_inv sha b \<and> client_view t b = client_view t a" if "client_changes sha u a b" "client_inv sha a" "u \<noteq> t" for u a b
    using that unfolding client_changes_def by (induction rule: rtranclp_induct) (auto intro: inv_change dest: view_change [OF _ inv_keys])
  from assms show ?thesis
    by (induction rule: rtranclp_induct) (auto dest!: step_is_changes dest: changes)
qed

section \<open>Discovery\<close>

lemma in_upd_toolsD: "r \<in> set (cst_tools (upd_tools p f st)) \<Longrightarrow> \<exists>x \<in> set (cst_tools st). r = (if p x then f x else x)"
  by auto

lemma tool_at_upd: "(\<And>x. tool_key (f x) = tool_key x) \<Longrightarrow> tool_at k (upd_tools p f st) = map_option (\<lambda>r. if p r then f r else r) (tool_at k st)"
  by (simp add: tool_at_def find_upd)

lemma tool_key_rows [simp]: "tool_key (disable_row s now r) = tool_key r" "tool_key (enabled_row d now r) = tool_key r" "tool_key (drifted_row h now x r) = tool_key r"
  by (simp_all add: tool_key_def disable_row_def enabled_row_def drifted_row_def)

lemma discover_enabled:
  "discover_tools h t server now existing us ds (st, res) = Inr (st', res') \<Longrightarrow> r \<in> set (cst_tools st') \<Longrightarrow> gt_enabled r \<Longrightarrow>
    r \<in> set (cst_tools st) \<and> (\<forall>d \<in> set ds. \<forall>e. known_tool existing (dt_name d) = Some e \<longrightarrow> tool_key r = (t, gt_tool_id e) \<longrightarrow> gt_schema_hash e = h (dt_input_schema d))"
proof (induction ds arbitrary: st res)
  case (Cons d ds)
  show ?case
  proof (cases "known_tool existing (dt_name d)")
    case None
    let ?i = "newToolId (us (length ds))"
    from Cons.prems None have "discover_tools h t server now existing us ds
        (st\<lparr>cst_tools := cst_tools st @ [discovered_row t server ?i (h (dt_input_schema d)) now d]\<rparr>, res\<lparr>dr_created := dr_created res @ [?i]\<rparr>) = Inr (st', res')"
      by (simp add: Let_def split: if_splits)
    from Cons.IH [OF this Cons.prems(2,3)] None Cons.prems(3) show ?thesis by (auto simp: discovered_row_def)
  next
    case (Some e)
    show ?thesis
    proof (cases "gt_schema_hash e = h (dt_input_schema d)")
      case True
      with Cons.prems(1) Some have "discover_tools h t server now existing us ds (st, res) = Inr (st', res')" by simp
      from Cons.IH [OF this Cons.prems(2,3)] True Some show ?thesis by auto
    next
      case False
      with Cons.prems(1) Some have "discover_tools h t server now existing us ds (upd_tools (\<lambda>x. tool_key x = (t, gt_tool_id e)) (drifted_row (h (dt_input_schema d)) now d) st,
          res\<lparr>dr_drift := dr_drift res @ [gt_tool_id e]\<rparr>) = Inr (st', res')" by (simp add: Let_def)
      note IH = Cons.IH [OF this Cons.prems(2,3)]
      from in_upd_toolsD [OF conjunct1 [OF IH]] obtain x where
        x: "x \<in> set (cst_tools st)" "r = (if tool_key x = (t, gt_tool_id e) then drifted_row (h (dt_input_schema d)) now d x else x)" by blast
      with Cons.prems(3) have "r = x" "tool_key r \<noteq> (t, gt_tool_id e)" by (auto simp: drifted_row_def split: if_splits)
      with x IH Some show ?thesis by auto
    qed
  qed
qed simp

lemma removed_enabled:
  "r \<in> set (cst_tools (fold (\<lambda>g. upd_tools (\<lambda>x. tool_key x = (t, gt_tool_id g)) (disable_row TR_Removed now)) gone st)) \<Longrightarrow> gt_enabled r \<Longrightarrow>
    r \<in> set (cst_tools st) \<and> (\<forall>g \<in> set gone. tool_key r \<noteq> (t, gt_tool_id g))"
proof (induction gone arbitrary: st)
  case (Cons g gone)
  note IH = Cons.IH [OF Cons.prems(1) [unfolded fold_Cons o_def] Cons.prems(2)]
  from in_upd_toolsD [OF conjunct1 [OF IH]] obtain x where
    x: "x \<in> set (cst_tools st)" "r = (if tool_key x = (t, gt_tool_id g) then disable_row TR_Removed now x else x)" by blast
  with Cons.prems(2) have "r = x" "tool_key r \<noteq> (t, gt_tool_id g)" by (auto simp: disable_row_def split: if_splits)
  with x IH show ?case by auto
qed simp

lemma removed_keeps:
  "r \<in> set (cst_tools st) \<Longrightarrow> \<forall>g \<in> set gone. tool_key r \<noteq> (t, gt_tool_id g) \<Longrightarrow>
    r \<in> set (cst_tools (fold (\<lambda>g. upd_tools (\<lambda>x. tool_key x = (t, gt_tool_id g)) (disable_row TR_Removed now)) gone st))"
proof (induction gone arbitrary: st)
  case (Cons g gone)
  then have "r \<in> set (cst_tools (upd_tools (\<lambda>x. tool_key x = (t, gt_tool_id g)) (disable_row TR_Removed now) st))" by auto
  with Cons.IH Cons.prems(2) show ?case by simp
qed simp

lemma known_unique:
  assumes "distinct (map gt_external_tool_name rows)" "r \<in> set rows"
  shows "known_tool rows (gt_external_tool_name r) = Some r"
proof -
  have "find (\<lambda>x. gt_external_tool_name x = gt_external_tool_name r) (rev rows) = Some r"
    using assms by (intro find_map_unique) (simp_all add: rev_map [symmetric])
  then show ?thesis by (simp add: known_tool_def find_last_def)
qed

section \<open>What the store does not check\<close>

text \<open>
  \<open>existingByName\<close> keeps the last row of a name. When a server has advertised one name twice, the earlier row
  is compared with nothing: it survives a change of the schema as it was, enabled if it was enabled.
\<close>

lemma duplicate_name_hides_drift:
  assumes "recordDiscovery h t server [d] us now st = Inr (st', res)" "r \<in> set (cst_tools st)" "gt_external_tool_name r = dt_name d"
    "known_tool (filter (\<lambda>r. gt_tenant_id r = t \<and> gt_provider_id r = server) (cst_tools st)) (dt_name d) = Some e" "tool_key r \<noteq> (t, gt_tool_id e)"
    "gt_tenant_id r = t" "distinct (map tool_key (cst_tools st))" "gt_provider_id r = server"
  shows "r \<in> set (cst_tools st')"
proof -
  let ?ex = "filter (\<lambda>r. gt_tenant_id r = t \<and> gt_provider_id r = server) (cst_tools st)"
  from discovery_Inr [OF assms(1)] obtain st1 res1 where d:
    "discover_tools h t server now ?ex us [d] (st, \<lparr>dr_created = [], dr_drift = [], dr_removed = []\<rparr>) = Inr (st1, res1)"
    "cst_tools st' = cst_tools (fold (\<lambda>r. upd_tools (\<lambda>x. tool_key x = (t, gt_tool_id r)) (disable_row TR_Removed now)) (filter (vanished [d]) ?ex) st1)"
    by auto
  have "r \<in> set (cst_tools st1)"
  proof (cases "gt_schema_hash e = h (dt_input_schema d)")
    case False
    with d(1) assms(4) have "cst_tools st1 = map (\<lambda>x. if tool_key x = (t, gt_tool_id e) then drifted_row (h (dt_input_schema d)) now d x else x) (cst_tools st)"
      by (auto simp: Let_def)
    with assms(2,5) show ?thesis by (auto intro!: image_eqI [where x = r])
  qed (use d(1) assms(2,4) in auto)
  moreover have "tool_key r \<noteq> (t, gt_tool_id g)" if "g \<in> set (filter (vanished [d]) ?ex)" for g
  proof
    assume "tool_key r = (t, gt_tool_id g)"
    with that have "tool_key r = tool_key g" "g \<in> set (cst_tools st)" by (auto simp: tool_key_def)
    with assms(2,7) have "g = r" using distinct_key_inj by metis
    with that assms(3) show False by (simp add: vanished_def)
  qed
  ultimately show ?thesis unfolding d(2) by (intro removed_keeps) auto
qed

text \<open>\<open>disableTool\<close> takes a removed tool out of REMOVED, after which \<open>enableTool\<close> accepts it.\<close>

lemma removed_tool_returns:
  assumes "keys_ok st" "tool_at (t, i) st = Some r" "gt_review_status r = TR_Removed" "''bind_'' @ u \<notin> tb_binding_id ` set (cst_bindings st)"
  shows "\<exists>st1 r1 st2 r2 b. disableTool t i (gt_state_version r) now st = Inr (st1, r1) \<and> enableTool sha t i (gt_state_version r1) d u now' st1 = Inr (st2, r2, b)"
proof -
  let ?p = "\<lambda>x. tool_key x = (t, i) \<and> gt_state_version x = gt_state_version r"
  let ?st1 = "upd_tools ?p (disable_row TR_Disabled now) st" and ?r1 = "disable_row TR_Disabled now r"
  note the = the_tool [OF assms(1,2)]
  have "filter ?p (cst_tools st) = [r]"
  proof -
    have "filter ?p (cst_tools st) = filter (\<lambda>x. tool_key r = tool_key x) (cst_tools st)" using the by (intro filter_cong) auto
    also have "\<dots> = [r]" using assms(1) the by (intro filter_key_distinct) (simp_all add: keys_ok_def)
    finally show ?thesis .
  qed
  moreover have at: "tool_at (t, i) ?st1 = Some ?r1"
    using assms(2) the by (simp add: tool_at_upd)
  ultimately have 1: "disableTool t i (gt_state_version r) now st = Inr (?st1, ?r1)" by (simp add: disableTool_def Let_def getTool_def)
  let ?st2 = "upd_tools (\<lambda>x. tool_key x = (t, i) \<and> gt_state_version x = gt_state_version ?r1) (enabled_row d now')
    (?st1\<lparr>cst_bindings := cst_bindings ?st1 @ [binding_of sha d u now' ?r1]\<rparr>)"
  have "tool_at (t, i) (?st1\<lparr>cst_bindings := bs\<rparr>) = tool_at (t, i) ?st1" for bs by (simp add: tool_at_def)
  then have "tool_at (t, i) ?st2 \<noteq> None" using at by (simp add: tool_at_upd)
  then obtain r2 where "getTool t i ?st2 = Inr r2" by (auto simp: getTool_def)
  moreover have "getTool t i ?st1 = Inr ?r1" using at by (simp add: getTool_def)
  moreover have "gt_review_status ?r1 \<noteq> TR_Removed" by (simp add: disable_row_def)
  ultimately have "enableTool sha t i (gt_state_version ?r1) d u now' ?st1 = Inr (?st2, r2, binding_of sha d u now' ?r1)"
    using assms(4) by (simp add: enableTool_def Let_def binding_of_def)
  with 1 show ?thesis by blast
qed

text \<open>\<open>enableTool\<close> never reads the tenant: a tool of an offboarded tenant is enabled like any other.\<close>

lemma enable_ignores_tenant:
  assumes "enableTool sha t i v d u now st = Inr (st', r, b)"
  shows "enableTool sha t i v d u now (st\<lparr>cst_tenants := ts\<rparr>) = Inr (st'\<lparr>cst_tenants := ts\<rparr>, r, b)"
proof -
  have at: "getTool t i (s\<lparr>cst_tenants := ts\<rparr>) = getTool t i s" for s by (simp add: getTool_def tool_at_def)
  from assms obtain r0 where r0: "getTool t i st = Inr r0" "gt_state_version r0 = v" "gt_review_status r0 \<noteq> TR_Removed" "b = binding_of sha d u now r0"
    "tb_binding_id b \<notin> tb_binding_id ` set (cst_bindings st)" "getTool t i st' = Inr r"
    "st' = upd_tools (\<lambda>x. tool_key x = (t, i) \<and> gt_state_version x = v) (enabled_row d now) (st\<lparr>cst_bindings := cst_bindings st @ [b]\<rparr>)"
    by (auto simp: enableTool_def rbind_eq_Inr Let_def split: if_splits)
  have moved: "upd_tools (\<lambda>x. tool_key x = (t, i) \<and> gt_state_version x = v) (enabled_row d now)
      (st\<lparr>cst_tenants := ts, cst_bindings := cst_bindings st @ [binding_of sha d u now r0]\<rparr>) = st'\<lparr>cst_tenants := ts\<rparr>"
    unfolding r0(7) r0(4) by (simp add: upd_tools_def)
  show ?thesis using r0(1-3,5,6) at moved by (simp add: enableTool_def Let_def r0(4))
qed

end
