(* ===== verification/Client_Safety.thy ===== *)
theory Client_Safety
  imports Client_Properties
begin

text \<open>
  The properties of the client store, with a short run of it (a tenant is created and activated, gets a service
  identity, a tool is discovered and enabled) at which they are applied.
\<close>

section \<open>A run\<close>

definition demo_tenant_input :: tenant_input where
  "demo_tenant_input = \<lparr>ti_display_name = ''Acme'', ti_environment = ''test'', ti_deployment_binding = ''dep-1'', ti_policy_profile = ''std'',
     ti_connector_types = [''mcp-stdio'']\<rparr>"

definition demo_tenant :: "string \<Rightarrow> client_tenant" where
  "demo_tenant u = \<lparr>ct_tenant_id = newTenantId u, ct_display_name = ''Acme'', ct_environment = ''test'', ct_status = TS_Pending, ct_created_at = ''t0'',
     ct_created_by = ''admin'', ct_deployment_binding = ''dep-1'', ct_policy_profile = ''std'', ct_connector_types = [''mcp-stdio''],
     ct_configuration_hash = hash_json (\<lambda>x. x) (tenant_config_json demo_tenant_input), ct_state_version = 0, ct_suspended_reason = None,
     ct_offboarding_reason = None\<rparr>"

definition demo_active :: client_tenant where
  "demo_active = (demo_tenant ''1'')\<lparr>ct_status := TS_Active, ct_state_version := 1\<rparr>"

definition demo_service_input :: service_input where
  "demo_service_input = \<lparr>vi_name = ''crm-agent'', vi_role = SR_Agent_Client\<rparr>"

abbreviation demo_credential :: issued_credential where
  "demo_credential \<equiv> issueCredential ''a'' ''b'' ''c''"

definition demo_service :: service_row where
  "demo_service = new_service (\<lambda>x. x) ''ten_1'' demo_service_input ''1'' demo_credential ''t1''"

definition demo_discovered :: discovered_tool where
  "demo_discovered = \<lparr>dt_name = ''lookup'', dt_description = ''find a customer'', dt_input_schema = JObj []\<rparr>"

definition demo_tool :: governed_tool where
  "demo_tool = discovered_row ''ten_1'' ''mcps_1'' ''gt_1'' (hashSchema (\<lambda>x. x) (JObj [])) ''t2'' demo_discovered"

definition demo_tool_decision :: tool_decision where
  "demo_tool_decision = \<lparr>td_risk_class = RK_Low, td_allowed_operations = [''read''], td_resource_patterns = [''/workspace/crm/**''],
     td_requires_human_approval = False, td_requires_vad = False, td_policy_id = ''pol_1'', td_runtime_limits = JObj [], td_cost_limits = JObj [],
     td_bound_by = ''admin''\<rparr>"

definition demo_enabled :: governed_tool where
  "demo_enabled = enabled_row demo_tool_decision ''t3'' demo_tool"

definition demo_bound :: policy_binding where
  "demo_bound = binding_of (\<lambda>x. x) demo_tool_decision ''1'' ''t3'' demo_tool"

definition demo_client1 :: client_store where
  "demo_client1 = client_start\<lparr>cst_tenants := [demo_active], cst_services := [demo_service]\<rparr>"

definition demo_client2 :: client_store where
  "demo_client2 = demo_client1\<lparr>cst_tools := [demo_enabled], cst_bindings := [demo_bound]\<rparr>"

lemmas demo_row_defs = demo_active_def demo_tenant_def demo_service_def new_service_def demo_tool_def discovered_row_def demo_enabled_def enabled_row_def
  demo_tool_decision_def demo_bound_def binding_of_def demo_discovered_def demo_service_input_def newServiceId_def newTenantId_def

lemma demo_keys [simp]: "ct_tenant_id (demo_tenant u) = newTenantId u" "ct_tenant_id demo_active = ''ten_1''" "ct_status demo_active = TS_Active"
  "ct_state_version demo_active = 1" "service_key demo_service = (''ten_1'', ''svc_1'')" "si_tenant_id demo_service = ''ten_1''"
  "si_service_id demo_service = ''svc_1''" "si_status demo_service = SS_Active" "si_state_version demo_service = 0"
  "tool_key demo_tool = (''ten_1'', ''gt_1'')" "gt_state_version demo_tool = 0" "gt_review_status demo_tool = TR_Discovered"
  "tool_key demo_enabled = (''ten_1'', ''gt_1'')" "gt_enabled demo_enabled" "gt_tenant_id demo_enabled = ''ten_1''" "gt_provider_id demo_enabled = ''mcps_1''"
  "gt_external_tool_name demo_enabled = ''lookup''" "gt_schema_hash demo_enabled = hashSchema (\<lambda>x. x) (JObj [])" "gt_tool_id demo_enabled = ''gt_1''"
  by (simp_all add: demo_row_defs service_key_def tool_key_def)

lemma reaches_refl_client [simp]: "client_reaches sha st st"
  by (simp add: client_reaches_def)

lemma reaches_client_step: "client_reaches sha a b \<Longrightarrow> client_step sha t b c \<Longrightarrow> client_reaches sha a c"
  unfolding client_reaches_def by (blast intro: rtranclp.rtrancl_into_rtrancl)

lemma demo_tenant_created:
  "newTenantId u \<notin> ct_tenant_id ` set (cst_tenants st) \<Longrightarrow>
    createTenant (\<lambda>x. x) demo_tenant_input ''admin'' u ''t0'' st = Inr (st\<lparr>cst_tenants := cst_tenants st @ [demo_tenant u]\<rparr>, demo_tenant u)"
  by (simp add: createTenant_def Let_def demo_tenant_def demo_tenant_input_def)

lemma demo_activated:
  "activateTenant ''ten_1'' 0 (client_start\<lparr>cst_tenants := [demo_tenant ''1'']\<rparr>) = Inr (client_start\<lparr>cst_tenants := [demo_active]\<rparr>, demo_active)"
  by (simp add: activateTenant_def transitionTenant_def getTenant_def upd_tenants_def move_tenant_def demo_active_def demo_tenant_def newTenantId_def Let_def)

lemma demo_service_created:
  "createServiceIdentity (\<lambda>x. x) ''ten_1'' demo_service_input ''1'' (''a'', ''b'', ''c'') ''t1'' (client_start\<lparr>cst_tenants := [demo_active]\<rparr>)
    = Inr (demo_client1, rowToService demo_service, demo_credential)"
  by (simp add: createServiceIdentity_def assertOnboardingOpen_def getTenant_def Let_def client_start_def demo_client1_def getServiceIdentity_def service_at_def
      demo_service_def service_key_def new_service_def)

lemma demo_client1_reached: "client_reaches (\<lambda>x. x) client_start demo_client1"
proof -
  have "createTenant (\<lambda>x. x) demo_tenant_input ''admin'' ''1'' ''t0'' client_start = Inr (client_start\<lparr>cst_tenants := [demo_tenant ''1'']\<rparr>, demo_tenant ''1'')"
    using demo_tenant_created [of "''1''" client_start] by (simp add: client_start_def)
  from reaches_client_step [OF reaches_refl_client client_step.create [OF this]]
  show ?thesis by (rule reaches_client_step [OF reaches_client_step [OF _ client_step.activate [OF demo_activated]] client_step.service [OF demo_service_created]])
qed

lemma demo_discovery:
  "recordDiscovery (hashSchema (\<lambda>x. x)) ''ten_1'' ''mcps_1'' [demo_discovered] (\<lambda>_. ''1'') ''t2'' demo_client1
    = Inr (demo_client1\<lparr>cst_tools := [demo_tool]\<rparr>, \<lparr>dr_created = [''gt_1''], dr_drift = [], dr_removed = []\<rparr>)"
  by (simp add: recordDiscovery_def remove_tools_def demo_client1_def client_start_def known_tool_def find_last_def Let_def newToolId_def upd_servers_def
      max_tools_per_server_def demo_tool_def demo_discovered_def)

lemma demo_enabling:
  "enableTool (\<lambda>x. x) ''ten_1'' ''gt_1'' 0 demo_tool_decision ''1'' ''t3'' (demo_client1\<lparr>cst_tools := [demo_tool]\<rparr>) = Inr (demo_client2, demo_enabled, demo_bound)"
  by (simp add: enableTool_def getTool_def tool_at_def Let_def upd_tools_def demo_client2_def demo_client1_def client_start_def demo_bound_def demo_enabled_def)

lemma demo_client2_reached: "client_reaches (\<lambda>x. x) client_start demo_client2"
  by (rule reaches_client_step [OF reaches_client_step [OF demo_client1_reached client_step.discovery [OF demo_discovery]] client_step.enable [OF demo_enabling]])

lemma demo_offboarded:
  "\<exists>st' r. beginOffboarding ''ten_1'' 1 ''contract ended'' ''t4'' demo_client1 = Inr (st', r) \<and> getTenant ''ten_1'' st' = Inr r \<and> ct_status r = TS_Offboarding
     \<and> service_at (''ten_1'', ''svc_1'') st' = Some (revoke_row demo_service)"
  by (simp add: beginOffboarding_def transitionTenant_def getTenant_def upd_tenants_def Let_def demo_client1_def client_start_def offboard_cascade_def
      upd_services_def upd_servers_def upd_tools_def move_tenant_def service_at_def) (simp add: service_key_def revoke_row_def)

lemma service_key_rows [simp]: "service_key (rotate_row h ref now r) = service_key r" "service_key (revoke_row r) = service_key r"
  by (simp_all add: service_key_def rotate_row_def revoke_row_def)

lemma service_at_upd: "(\<And>x. service_key (f x) = service_key x) \<Longrightarrow> service_at k (upd_services p f st) = map_option (\<lambda>r. if p r then f r else r) (service_at k st)"
  by (simp add: service_at_def find_upd)

lemma in_upd_servicesD: "r \<in> set (cst_services (upd_services p f st)) \<Longrightarrow> \<exists>x \<in> set (cst_services st). r = (if p x then f x else x)"
  by auto

section \<open>Properties\<close>

text \<open>
  In every reachable store an enabled tool has been reviewed: its status is ENABLED and its latest policy
  binding carries the risk class and the requirements it has, with a policy hash over the schema it has now.
\<close>

theorem enabled_tool_is_reviewed:
  assumes "client_reaches sha client_start st" "getTool t i st = Inr r" "gt_enabled r"
  shows "gt_review_status r = TR_Enabled \<and> tool_bound sha (cst_bindings st) r"
proof -
  have "r \<in> set (cst_tools st)" using assms(2) by (auto simp: getTool_Inr tool_at_def dest: find_SomeD)
  with reached_inv [OF assms(1)] assms(3) show ?thesis by (auto simp: client_inv_def tools_ok_def tool_ok_def)
qed

theorem enabled_tool_is_reviewed_witness: "tool_bound (\<lambda>x. x) (cst_bindings demo_client2) demo_enabled"
  using enabled_tool_is_reviewed [OF demo_client2_reached, of "''ten_1''" "''gt_1''" demo_enabled]
  by (simp add: getTool_def tool_at_def demo_client2_def)

text \<open>
  C11. Once a tenant is OFFBOARDING or OFFBOARDED, no bearer token authenticates as one of its service
  identities, in that store or in any later one.
\<close>

theorem offboarded_tenant_locked_out:
  assumes "client_reaches sha client_start st" "getTenant t st = Inr r" "leaving (ct_status r)" "client_reaches sha st st'"
  shows "map_option si_tenant_id (authenticateService sha token st') \<noteq> Some t"
proof
  assume "map_option si_tenant_id (authenticateService sha token st') = Some t"
  then obtain s where s: "authenticateService sha token st' = Some s" "si_tenant_id s = t" by (cases "authenticateService sha token st'") auto
  obtain r' where "getTenant t st' = Inr r'" "leaving (ct_status r')" using leaving_reaches [OF assms(4,2,3)] by blast
  from leaving_locked [OF inv_reaches [OF assms(4) reached_inv [OF assms(1)]] this s(1)] s(2) show False by simp
qed

theorem offboarded_tenant_locked_out_witness:
  "\<exists>st r. beginOffboarding ''ten_1'' 1 ''contract ended'' ''t4'' demo_client1 = Inr (st, r) \<and>
     map_option si_tenant_id (authenticateService (\<lambda>x. x) (ic_token demo_credential) st) \<noteq> Some ''ten_1''"
proof -
  obtain st r where o: "beginOffboarding ''ten_1'' 1 ''contract ended'' ''t4'' demo_client1 = Inr (st, r)" "getTenant ''ten_1'' st = Inr r" "ct_status r = TS_Offboarding"
    using demo_offboarded by blast
  from offboarded_tenant_locked_out [OF reaches_client_step [OF demo_client1_reached client_step.offboard [OF o(1)]] o(2) _ reaches_refl_client] o(1,3)
  show ?thesis by (auto simp: leaving_def)
qed

text \<open>
  A revoked service identity stays revoked: its token authenticates nobody in any later store, and no later
  operation gives its hash to another identity.
\<close>

theorem revoked_credential_is_dead:
  assumes "client_reaches sha client_start st" "service_at k st = Some r" "si_status r = SS_Revoked" "hashCredentialToken sha token = sr_credential_hash r"
    "client_reaches sha st st'"
  shows "authenticateService sha token st' = None"
proof -
  note inv = reached_inv [OF assms(1)]
  have "dead_hash (hashCredentialToken sha token) st"
    using assms(2-4) by (auto simp: dead_hash_def service_at_def dest!: find_SomeD)
  from dead_authenticates [OF inv_reaches [OF assms(5) inv] dead_reaches [OF assms(5) inv this]] show ?thesis .
qed

theorem revoked_credential_is_dead_witness:
  "\<exists>st r. beginOffboarding ''ten_1'' 1 ''contract ended'' ''t4'' demo_client1 = Inr (st, r) \<and> authenticateService (\<lambda>x. x) (ic_token demo_credential) st = None"
proof -
  obtain st r where o: "beginOffboarding ''ten_1'' 1 ''contract ended'' ''t4'' demo_client1 = Inr (st, r)"
    "service_at (''ten_1'', ''svc_1'') st = Some (revoke_row demo_service)" using demo_offboarded by blast
  have "si_status (revoke_row demo_service) = SS_Revoked" "hashCredentialToken (\<lambda>x. x) (ic_token demo_credential) = sr_credential_hash (revoke_row demo_service)"
    by (simp_all add: revoke_row_def demo_service_def new_service_def)
  from revoked_credential_is_dead [OF reaches_client_step [OF demo_client1_reached client_step.offboard [OF o(1)]] o(2) this reaches_refl_client] o(1)
  show ?thesis by blast
qed

text \<open>
  Rotation has no window in which both credentials work, nor one in which neither does: in the store it
  leaves, the new token authenticates exactly this identity and the old token nobody.
\<close>

theorem rotation_has_no_overlap:
  assumes "client_reaches sha client_start st" "service_at (t, i) st = Some r" "hashCredentialToken sha old = sr_credential_hash r"
    "rotateCredential sha t i v us now st = Inr (st', s, cred)" "hashCredentialToken sha (ic_token cred) \<noteq> hashCredentialToken sha old"
  shows "(authenticateService sha (ic_token cred) st', authenticateService sha old st') = (Some s, None)"
proof -
  from rotate_Inr [OF assms(4)] assms(2) have rot: "si_status r = SS_Active" "si_state_version r = v" "getServiceIdentity t i st' = Inr s"
    "st' = upd_services (\<lambda>x. service_key x = (t, i) \<and> si_state_version x = v) (rotate_row (hashCredentialToken sha (ic_token cred)) (ic_credential_ref cred) now) st"
    by auto
  have inv: "client_inv sha st" by (rule reached_inv [OF assms(1)])
  then have keys: "keys_ok st" by (rule inv_keys)
  have keys': "keys_ok st'" using inv_changes [OF step_is_changes [OF client_step.rotate [OF assms(4)]] inv] by (rule inv_keys)
  obtain r' where r': "service_at (t, i) st' = Some r'" "s = rowToService r'" using rot(3) by (auto simp: getService_Inr)
  note the = the_service [OF keys assms(2)]
  have hashes: "distinct (map sr_credential_hash (cst_services st))" using keys by (simp add: keys_ok_def)
  have new: "r' = rotate_row (hashCredentialToken sha (ic_token cred)) (ic_credential_ref cred) now r"
    using r'(1) assms(2) rot(2) the unfolding rot(4) by (simp add: service_at_upd)
  have "authenticateService sha (ic_token cred) st' = Some s"
  proof -
    have "hashCredentialToken sha (ic_token cred) = sr_credential_hash r'" "si_status r' = SS_Active" using new rot(1) by (simp_all add: rotate_row_def)
    with authenticate_row [OF keys' conjunct1 [OF the_service [OF keys' r'(1)]] this(1)] r'(2) show ?thesis by simp
  qed
  moreover have "sr_credential_hash x \<noteq> hashCredentialToken sha old" if "x \<in> set (cst_services st')" for x
  proof -
    from in_upd_servicesD [OF that [unfolded rot(4)]] obtain y where y: "y \<in> set (cst_services st)"
      "x = (if service_key y = (t, i) \<and> si_state_version y = v then rotate_row (hashCredentialToken sha (ic_token cred)) (ic_credential_ref cred) now y else y)"
      by blast
    show ?thesis
    proof (cases "y = r")
      case True
      with y(2) the have "x = rotate_row (hashCredentialToken sha (ic_token cred)) (ic_credential_ref cred) now r" using rot(2) by simp
      with assms(5) show ?thesis by (simp add: rotate_row_def)
    next
      case False
      with y(1) the have "service_key y \<noteq> (t, i)" by blast
      then have "x = y" using y(2) by (simp split: if_splits)
      moreover have "sr_credential_hash y \<noteq> sr_credential_hash r" using False distinct_key_inj [OF hashes y(1), of r] the by blast
      ultimately show ?thesis using assms(3) by simp
    qed
  qed
  then have "find (\<lambda>x. sr_credential_hash x = hashCredentialToken sha old) (cst_services st') = None" by (simp add: find_eq_None)
  then have "authenticateService sha old st' = None" by (simp add: authenticateService_def)
  ultimately show ?thesis by simp
qed

theorem rotation_has_no_overlap_witness:
  "\<exists>st s. rotateCredential (\<lambda>x. x) ''ten_1'' ''svc_1'' 0 (''d'', ''e'', ''f'') ''t5'' demo_client1 = Inr (st, s, issueCredential ''d'' ''e'' ''f'')
     \<and> authenticateService (\<lambda>x. x) (ic_token demo_credential) st = None"
proof -
  have at: "service_at (''ten_1'', ''svc_1'') demo_client1 = Some demo_service" by (simp add: service_at_def demo_client1_def)
  have h: "hashCredentialToken (\<lambda>x. x) (ic_token demo_credential) = sr_credential_hash demo_service" by (simp add: demo_service_def new_service_def)
  have "\<exists>st s. rotateCredential (\<lambda>x. x) ''ten_1'' ''svc_1'' 0 (''d'', ''e'', ''f'') ''t5'' demo_client1 = Inr (st, s, issueCredential ''d'' ''e'' ''f'')"
    using at by (simp add: rotateCredential_def getServiceIdentity_def Let_def service_at_upd) (simp add: demo_client1_def)
  then obtain st s where r: "rotateCredential (\<lambda>x. x) ''ten_1'' ''svc_1'' 0 (''d'', ''e'', ''f'') ''t5'' demo_client1 = Inr (st, s, issueCredential ''d'' ''e'' ''f'')" by blast
  from rotation_has_no_overlap [OF demo_client1_reached at h r] r show ?thesis by (auto simp: hashCredentialToken_def issueCredential_def)
qed

text \<open>
  C37. Tenants are isolated: whatever operations other tenants perform, in whatever order, the rows of a tenant
  (services, servers, tools, bindings, actions) and the hash of its configuration stay as they were.
\<close>

theorem tenants_are_isolated:
  assumes "client_reaches sha client_start st" "(\<lambda>a b. \<exists>u. u \<noteq> t \<and> client_step sha u a b)\<^sup>*\<^sup>* st st'"
  shows "(client_view t st', computeIntegrationConfigHash sha t st') = (client_view t st, computeIntegrationConfigHash sha t st)"
  using view_reaches [OF assms(2) reached_inv [OF assms(1)]] hash_of_view [of sha t st] hash_of_view [of sha t st'] by simp

theorem tenants_are_isolated_witness:
  "\<exists>st r. createTenant (\<lambda>x. x) demo_tenant_input ''admin'' ''2'' ''t0'' demo_client1 = Inr (st, r) \<and> client_view ''ten_1'' st = client_view ''ten_1'' demo_client1"
proof -
  have c: "createTenant (\<lambda>x. x) demo_tenant_input ''admin'' ''2'' ''t0'' demo_client1
      = Inr (demo_client1\<lparr>cst_tenants := cst_tenants demo_client1 @ [demo_tenant ''2'']\<rparr>, demo_tenant ''2'')"
    by (rule demo_tenant_created) (simp add: demo_client1_def newTenantId_def)
  have "(\<lambda>a b. \<exists>u. u \<noteq> ''ten_1'' \<and> client_step (\<lambda>x. x) u a b)\<^sup>*\<^sup>* demo_client1 (demo_client1\<lparr>cst_tenants := cst_tenants demo_client1 @ [demo_tenant ''2'']\<rparr>)"
    by (rule r_into_rtranclp) (use client_step.create [OF c] in \<open>auto simp: newTenantId_def intro: exI [where x = "''ten_2''"]\<close>)
  from tenants_are_isolated [OF demo_client1_reached this] c show ?thesis by auto
qed

text \<open>
  Discovery never enables anything, and every tool still enabled after a round is advertised in that round
  with exactly the schema hash it was approved for (the names of the server's known tools being distinct).
\<close>

theorem discovery_pins_enabled_tools:
  assumes "client_reaches sha client_start st" "recordDiscovery h t server ds us now st = Inr (st', res)"
    "distinct (map gt_external_tool_name (filter (\<lambda>r. gt_tenant_id r = t \<and> gt_provider_id r = server) (cst_tools st)))"
    "r \<in> set (cst_tools st')" "gt_enabled r" "gt_tenant_id r = t" "gt_provider_id r = server"
  shows "r \<in> set (cst_tools st) \<and> (gt_external_tool_name r, gt_schema_hash r) \<in> (\<lambda>d. (dt_name d, h (dt_input_schema d))) ` set ds"
proof -
  let ?ex = "filter (\<lambda>r. gt_tenant_id r = t \<and> gt_provider_id r = server) (cst_tools st)"
  from discovery_Inr [OF assms(2)] obtain st1 res1 where d:
    "discover_tools h t server now ?ex us ds (st, \<lparr>dr_created = [], dr_drift = [], dr_removed = []\<rparr>) = Inr (st1, res1)"
    "cst_tools st' = cst_tools (fold (\<lambda>r. upd_tools (\<lambda>x. tool_key x = (t, gt_tool_id r)) (disable_row TR_Removed now)) (filter (vanished ds) ?ex) st1)"
    by auto
  have kept: "r \<in> set (cst_tools st1)" "\<forall>g \<in> set (filter (vanished ds) ?ex). tool_key r \<noteq> (t, gt_tool_id g)"
    using removed_enabled [OF assms(4) [unfolded d(2)] assms(5)] by auto
  note same = discover_enabled [OF d(1) kept(1) assms(5)]
  have r: "r \<in> set ?ex" "tool_key r = (t, gt_tool_id r)" using same assms(6,7) by (auto simp: tool_key_def)
  have "\<not> vanished ds r" using kept(2) r by auto
  moreover have "gt_review_status r = TR_Enabled"
    using reached_inv [OF assms(1)] same assms(5) by (auto simp: client_inv_def tools_ok_def tool_ok_def)
  ultimately obtain x where x: "x \<in> set ds" "dt_name x = gt_external_tool_name r" by (auto simp: vanished_def)
  have "known_tool ?ex (dt_name x) = Some r" using known_unique [OF assms(3) r(1)] x(2) by simp
  with same x r(2) show ?thesis by (auto intro!: image_eqI [where x = x])
qed

theorem discovery_pins_enabled_tools_witness:
  "\<exists>st' res. recordDiscovery (hashSchema (\<lambda>x. x)) ''ten_1'' ''mcps_1'' [demo_discovered] (\<lambda>_. ''1'') ''t6'' demo_client2 = Inr (st', res) \<and> demo_enabled \<in> set (cst_tools demo_client2)"
proof -
  have r: "recordDiscovery (hashSchema (\<lambda>x. x)) ''ten_1'' ''mcps_1'' [demo_discovered] (\<lambda>_. ''1'') ''t6'' demo_client2
      = Inr (demo_client2, \<lparr>dr_created = [], dr_drift = [], dr_removed = []\<rparr>)"
    by (simp add: recordDiscovery_def remove_tools_def demo_client2_def demo_client1_def client_start_def known_tool_def find_last_def Let_def upd_servers_def
        max_tools_per_server_def demo_discovered_def vanished_def)
  show ?thesis using discovery_pins_enabled_tools [OF demo_client2_reached r, of demo_enabled] r by (simp add: demo_client2_def)
qed

end
