(* ===== verification/Client_Gateway.thy ===== *)
theory Client_Gateway
  imports Client_Tools Platform_Core Execution_Broker
begin

text \<open>
  \<open>apps/tna-client-gateway\<close>: the Gate envelope derived from a tenant's enabled tools, the connectors that carry a
  governed call to an MCP server, the submission of a client action, health and readiness. What the MCP process
  answers is an argument. The HTTP framing (routing, bodies, headers) is not modelled.
\<close>

section \<open>Errors of the surface\<close>

datatype gateway_error = Gw_Http nat string | Gw_Store client_error

fun clientErrorStatus :: "client_code \<Rightarrow> nat" where
  "clientErrorStatus CL_NOT_FOUND = 404"
| "clientErrorStatus CL_FORBIDDEN = 403"
| "clientErrorStatus CL_CROSS_TENANT_DENIED = 403"
| "clientErrorStatus CL_CONFLICT = 409"
| "clientErrorStatus CL_PAYLOAD_TOO_LARGE = 413"
| "clientErrorStatus CL_TENANT_NOT_ACTIVE = 409"
| "clientErrorStatus CL_SERVICE_IDENTITY_REVOKED = 403"
| "clientErrorStatus CL_CREDENTIAL_INVALID = 401"
| "clientErrorStatus CL_TOOL_NOT_ENABLED = 409"
| "clientErrorStatus CL_TOOL_POLICY_REVIEW_REQUIRED = 409"
| "clientErrorStatus CL_SCHEMA_DRIFT_DETECTED = 409"
| "clientErrorStatus CL_INVALID_INPUT = 400"

fun mcpErrorStatus :: "mcp_code \<Rightarrow> nat" where
  "mcpErrorStatus MCP_SERVER_UNAVAILABLE = 502"
| "mcpErrorStatus MCP_INITIALIZATION_FAILED = 502"
| "mcpErrorStatus MCP_TOOL_NOT_FOUND = 404"
| "mcpErrorStatus MCP_SCHEMA_DRIFT = 409"
| "mcpErrorStatus MCP_TOOL_DISABLED = 409"
| "mcpErrorStatus MCP_TIMEOUT = 504"
| "mcpErrorStatus MCP_PROTOCOL_ERROR = 502"
| "mcpErrorStatus MCP_RESULT_TOO_LARGE = 502"
| "mcpErrorStatus MCP_INDETERMINATE = 502"

fun errorStatus :: "gateway_error \<Rightarrow> nat" where
  "errorStatus (Gw_Http n m) = n"
| "errorStatus (Gw_Store (Client_Error c m)) = clientErrorStatus c"
| "errorStatus (Gw_Store (Mcp_Error c m)) = mcpErrorStatus c"
| "errorStatus (Gw_Store (Sql_Error m)) = 500"

fun errorMessage :: "gateway_error \<Rightarrow> string" where
  \<comment> \<open>the text of the body; an unexpected error is never shown\<close>
  "errorMessage (Gw_Http n m) = m"
| "errorMessage (Gw_Store (Client_Error c m)) = m"
| "errorMessage (Gw_Store (Mcp_Error c m)) = m"
| "errorMessage (Gw_Store (Sql_Error m)) = ''Internal server error''"

definition from_store :: "(client_error, 'a) res \<Rightarrow> (gateway_error, 'a) res" where
  "from_store r = (case r of Inl e \<Rightarrow> Inl (Gw_Store e) | Inr x \<Rightarrow> Inr x)"

section \<open>Reading the bodies of the administrator\<close>

definition requireStateVersion :: "json \<Rightarrow> string \<Rightarrow> (gateway_error, int) res" where
  "requireStateVersion raw label = (if \<not> is_plain_object (Some raw) then Inl (Gw_Http 400 (label @ '' body must be an object''))
     else case jnumber (jfield ''state_version'' raw) of None \<Rightarrow> Inl (Gw_Http 400 ''state_version must be a non-negative integer'')
     | Some n \<Rightarrow> if \<not> is_integer n \<or> int_of_num n < 0 then Inl (Gw_Http 400 ''state_version must be a non-negative integer'') else Inr (int_of_num n))"

definition requireString :: "json \<Rightarrow> string \<Rightarrow> string \<Rightarrow> (gateway_error, string) res" where
  "requireString raw field label = (if \<not> is_plain_object (Some raw) then Inl (Gw_Http 400 (label @ '' body must be an object''))
     else case jstr (jfield field raw) of None \<Rightarrow> Inl (Gw_Http 400 (field @ '' must be a non-empty string''))
     | Some s \<Rightarrow> if s = [] then Inl (Gw_Http 400 (field @ '' must be a non-empty string'')) else Inr s)"

definition strings_or :: "string list \<Rightarrow> json option \<Rightarrow> string list" where
  \<comment> \<open>\<open>Array.isArray(v) ? v as string[] : d\<close>, for an array of strings\<close>
  "strings_or d v = (case jlist v of None \<Rightarrow> d | Some xs \<Rightarrow> map (\<lambda>x. the_str (Some x)) xs)"

definition object_or_none :: "json option \<Rightarrow> json" where
  "object_or_none v = (if is_plain_object v then the v else JObj [])"

definition enable_body :: "json \<Rightarrow> (gateway_error, int \<times> tool_decision) res" where
  \<comment> \<open>\<open>POST .../tools/:tid/enable\<close>: the version and the decision\<close>
  "enable_body raw = (let f = (\<lambda>k. jfield k raw) in
     if \<not> is_plain_object (Some raw) then Inl (Gw_Http 400 ''Enable tool body must be an object'')
     else rbind (requireStateVersion raw ''enable'') (\<lambda>v.
       case Option.bind (jstr (f ''risk_class'')) risk_of of None \<Rightarrow> Inl (Gw_Http 400 ''risk_class must be LOW|MEDIUM|HIGH|CRITICAL'')
       | Some risk \<Rightarrow> (case jstr (f ''policy_id'') of None \<Rightarrow> Inl (Gw_Http 400 ''policy_id is required'')
         | Some policy \<Rightarrow> if policy = [] then Inl (Gw_Http 400 ''policy_id is required'')
           else Inr (v, \<lparr>td_risk_class = risk, td_allowed_operations = strings_or [''read''] (f ''allowed_operations''),
             td_resource_patterns = strings_or [''*''] (f ''resource_patterns''), td_requires_human_approval = (f ''requires_human_approval'' = Some (JBool True)),
             td_requires_vad = (f ''requires_vad'' = Some (JBool True)), td_policy_id = policy, td_runtime_limits = object_or_none (f ''runtime_limits''),
             td_cost_limits = object_or_none (f ''cost_limits''), td_bound_by = ''admin''\<rparr>))))"

definition admin_enable :: "(string \<Rightarrow> string) \<Rightarrow> string \<Rightarrow> string \<Rightarrow> json \<Rightarrow> string \<Rightarrow> string \<Rightarrow> client_store
    \<Rightarrow> (gateway_error, client_store \<times> governed_tool \<times> policy_binding) res" where
  "admin_enable sha t i raw u now st = rbind (enable_body raw) (\<lambda>(v, d). from_store (enableTool sha t i v d u now st))"

definition admin_suspend :: "string \<Rightarrow> json \<Rightarrow> client_store \<Rightarrow> (gateway_error, client_store \<times> client_tenant) res" where
  "admin_suspend t raw st = rbind (requireStateVersion raw ''suspend'') (\<lambda>v. rbind (requireString raw ''reason'' ''suspend'') (\<lambda>reason.
     from_store (suspendTenant t v reason st)))"

definition admin_offboard :: "string \<Rightarrow> json \<Rightarrow> string \<Rightarrow> client_store \<Rightarrow> (gateway_error, client_store \<times> client_tenant) res" where
  "admin_offboard t raw now st = rbind (requireStateVersion raw ''offboard'') (\<lambda>v. rbind (requireString raw ''reason'' ''offboard'') (\<lambda>reason.
     from_store (beginOffboarding t v reason now st)))"

definition admin_discover :: "(string \<Rightarrow> string) \<Rightarrow> string \<Rightarrow> string \<Rightarrow> (mcp_server \<Rightarrow> (client_error, json list) res) \<Rightarrow> (nat \<Rightarrow> string) \<Rightarrow> string \<Rightarrow> client_store
    \<Rightarrow> client_store \<times> (client_error, discovery_result) res" where
  \<comment> \<open>\<open>list\<close>: the entries of the server's \<open>tools/list\<close>, or what connecting or listing threw; a failure marks the server UNREACHABLE
     when its version is still the one read\<close>
  "admin_discover sha t i list us now st = (case getMcpServer t i st of Inl e \<Rightarrow> (st, Inl e)
     | Inr s \<Rightarrow> (case rbind (list s) (\<lambda>entries. rbind (mapM validateDiscoveredTool entries) (\<lambda>ds. recordDiscovery (hashSchema sha) t i ds us now st)) of
         Inr (st', r) \<Rightarrow> (st', Inr r)
       | Inl e \<Rightarrow> (case setMcpServerStatus t i (ms_state_version s) MS_Unreachable st of Inl _ \<Rightarrow> (st, Inl e) | Inr (st', _) \<Rightarrow> (st', Inl e))))"

section \<open>The envelope of a tenant\<close>

definition tool_operation :: "governed_tool \<Rightarrow> operation" where
  "tool_operation r = (if ''write'' \<in> set (gt_allowed_operations r) then Write else Read)"

definition tool_platform_id :: "governed_tool \<Rightarrow> string" where
  "tool_platform_id r = toolPlatformId (gt_tool_id r)"

definition tool_binding :: "governed_tool \<Rightarrow> action_binding" where
  "tool_binding r = \<lparr>ab_action = tool_platform_id r @ ''.execute'', ab_outcome = ''invoke '' @ tool_platform_id r, ab_tool = tool_platform_id r,
     ab_resource_kind = Files, ab_operation = tool_operation r, ab_destination_required = False\<rparr>"

definition scope_patterns :: "operation \<Rightarrow> governed_tool list \<Rightarrow> string list" where
  "scope_patterns op tools = concat (map gt_resource_patterns (filter (\<lambda>r. tool_operation r = op) tools))"

definition no_permissions :: permissions where "no_permissions = \<lparr>pm_read = [], pm_write = []\<rparr>"

definition buildTenantGateEnvelope :: "string \<Rightarrow> string \<Rightarrow> governed_tool list \<Rightarrow> string \<Rightarrow> envelope" where
  \<comment> \<open>\<open>expires\<close>: the time one hour from now\<close>
  "buildTenantGateEnvelope agent t tools expires = \<lparr>en_version = ''1.0'',
     en_agent = \<lparr>ea_id = agent, ea_name = agent, ea_role = ''client-service-identity'', ea_owner = t, ea_environment = ''client-integration'', ea_expires_at = expires\<rparr>,
     en_objective = \<lparr>ob_task_id = ''client-gateway-'' @ t, ob_goal = ''Execute governed MCP tool calls on behalf of a TNA client tenant'',
       ob_allowed_outcomes = map (\<lambda>r. ''invoke '' @ tool_platform_id r) tools, ob_forbidden_outcomes = []\<rparr>,
     en_resources = \<lparr>er_repositories = no_permissions, er_files = \<lparr>pm_read = scope_patterns Read tools, pm_write = scope_patterns Write tools\<rparr>,
       er_databases = no_permissions, er_infrastructure = no_permissions\<rparr>,
     en_tools = \<lparr>ad_allow = map tool_platform_id tools, ad_deny = []\<rparr>,
     en_network = \<lparr>ad_allow = [], ad_deny = [''*'']\<rparr>, en_secrets = \<lparr>es_allow = [], es_deny = [''*'']\<rparr>,
     en_agents = \<lparr>eg_communicate_with = [], eg_communication_mode = ''authenticated'', eg_shared_memory = False, eg_deny_unknown_agents = True\<rparr>,
     en_limits = \<lparr>li_max_runtime_seconds = 600, li_max_tool_calls = 1000, li_max_external_requests = 0, li_max_cost_usd = 1000, li_max_retries_per_action = 20\<rparr>,
     en_approvals = [], en_risk = \<lparr>ri_level = ''low'', ri_blast_radius = ''tenant-scoped'', ri_rollback_required = False\<rparr>,
     en_evidence = \<lparr>ee_capture = [''agent_identity'', ''policy_hash'', ''tool_calls'', ''timestamps''], ee_retention_days = 365\<rparr>,
     en_violation_policy = \<lparr>vp_unknown_tool = ''block'', vp_undeclared_resource = ''block'', vp_unauthorized_agent_contact = ''terminate'',
       vp_network_violation = ''terminate'', vp_secret_violation = ''terminate_and_rotate'', vp_cost_limit_exceeded = ''pause_and_escalate'',
       vp_runtime_limit_exceeded = ''terminate''\<rparr>,
     en_action_bindings = map tool_binding tools\<rparr>"

section \<open>Connectors\<close>

record mcp_connector =
  kn_connector_id :: string
  kn_tenant_id :: string
  kn_tool :: string
  kn_action :: string
  kn_allowed_operations :: "string list"
  kn_risk :: string
  kn_server_id :: string
  kn_tool_id :: string
  kn_tool_name :: string

definition buildMcpConnector :: "string \<Rightarrow> string \<Rightarrow> governed_tool \<Rightarrow> mcp_connector" where
  "buildMcpConnector t server r = \<lparr>kn_connector_id = ''connector-mcp-'' @ gt_tool_id r, kn_tenant_id = t, kn_tool = tool_platform_id r,
     kn_action = tool_platform_id r @ ''.execute'', kn_allowed_operations = gt_allowed_operations r,
     kn_risk = (case gt_risk_class r of Some RK_Critical \<Rightarrow> ''HIGH'' | Some RK_High \<Rightarrow> ''HIGH'' | Some RK_Medium \<Rightarrow> ''MEDIUM'' | _ \<Rightarrow> ''LOW''),
     kn_server_id = server, kn_tool_id = gt_tool_id r, kn_tool_name = gt_external_tool_name r\<rparr>"

type_synonym connector_registry = "((string \<times> string) \<times> mcp_connector) list"

definition register_connector :: "mcp_connector \<Rightarrow> connector_registry \<Rightarrow> (platform_error, connector_registry) res" where
  "register_connector c reg = (let k = (kn_tenant_id c, kn_tool c) in
     if k \<in> fst ` set reg
     then Inl (Platform_Error P_INVALID_INPUT (''Connector for tool '' @ quoted (kn_tool c) @ '' is already registered for this tenant''))
     else Inr (reg @ [(k, c)]))"

definition connector_for :: "string \<Rightarrow> string \<Rightarrow> connector_registry \<Rightarrow> mcp_connector option" where
  "connector_for t tool reg = map_of reg (t, tool)"

definition enabled_tools :: "string \<Rightarrow> client_store \<Rightarrow> governed_tool list" where
  "enabled_tools t st = filter gt_enabled (listTools t None st)"

definition registerMcpConnectors :: "string \<Rightarrow> client_store \<Rightarrow> connector_registry \<Rightarrow> connector_registry" where
  \<comment> \<open>an error of \<open>register\<close> is swallowed\<close>
  "registerMcpConnectors t st reg = fold (\<lambda>r reg. case register_connector (buildMcpConnector t (gt_provider_id r) r) reg of Inl _ \<Rightarrow> reg | Inr reg' \<Rightarrow> reg')
     (enabled_tools t st) reg"

definition connectors_of :: "string \<Rightarrow> connector_registry \<Rightarrow> mcp_connector list" where
  "connectors_of t reg = filter (\<lambda>c. kn_tenant_id c = t) (map snd reg)"

definition brokerAllowedOperations :: "string \<Rightarrow> string list" where
  "brokerAllowedOperations action = (if action = ''production.deploy'' then [''write''] else [''read''])"

definition connector_tool :: "mcp_connector \<Rightarrow> tool_definition" where
  "connector_tool c = \<lparr>bt_name = kn_tool c, bt_action = kn_action c, bt_resourceType = ''mcp-connector'',
     bt_allowedOperations = brokerAllowedOperations (kn_action c), bt_networkRequired = False, bt_credentialsRequired = [],
     bt_has_handler = True, bt_isolated = None\<rparr>"

definition buildToolRegistry :: "string \<Rightarrow> connector_registry \<Rightarrow> broker_registry \<Rightarrow> broker_registry" where
  \<comment> \<open>a tool that is registered already is kept as it is\<close>
  "buildToolRegistry t reg tools = fold (\<lambda>c tools. case broker_register (connector_tool c) tools of Inl _ \<Rightarrow> tools | Inr tools' \<Rightarrow> tools')
     (connectors_of t reg) tools"

text \<open>A child process, by what it was started with; the cache of them by tenant and server.\<close>

record mcp_process =
  pr_executable :: string
  pr_args :: "string list"
  pr_env :: "string list"

type_synonym client_cache = "((string \<times> string) \<times> mcp_process) list"

definition process_of :: "mcp_server \<Rightarrow> mcp_process" where
  "process_of s = \<lparr>pr_executable = ms_executable s, pr_args = ms_args s, pr_env = ms_env_allowlist s\<rparr>"

definition getOrCreateClient :: "(mcp_process \<Rightarrow> client_error option) \<Rightarrow> mcp_server \<Rightarrow> client_cache \<Rightarrow> client_cache \<times> (client_error, mcp_process) res" where
  \<comment> \<open>\<open>connect\<close>: what \<open>connect()\<close> throws, if it does; a started client keeps its \<open>pid\<close>\<close>
  "getOrCreateClient connect s cache = (case map_of cache (server_key s) of Some p \<Rightarrow> (cache, Inr p)
     | None \<Rightarrow> (case connect (process_of s) of Some e \<Rightarrow> (filter (\<lambda>kv. fst kv \<noteq> server_key s) cache, Inl e)
         | None \<Rightarrow> (al_put (server_key s) (process_of s) cache, Inr (process_of s))))"

definition connector_execute :: "(mcp_process \<Rightarrow> client_error option) \<Rightarrow> (mcp_process \<Rightarrow> string \<Rightarrow> json \<Rightarrow> (client_error, json \<times> bool) res)
    \<Rightarrow> mcp_connector \<Rightarrow> json \<Rightarrow> client_store \<Rightarrow> client_cache \<Rightarrow> client_cache \<times> (client_error, json) res" where
  \<comment> \<open>\<open>call\<close>: what \<open>callTool\<close> answers, the content and \<open>is_error\<close>\<close>
  "connector_execute connect call c input st cache =
     (case rbind (getMcpServer (kn_tenant_id c) (kn_server_id c) st) (\<lambda>s.
         if ms_status s = MS_Disabled then Inl (Mcp_Error MCP_SERVER_UNAVAILABLE (''MCP server '' @ kn_server_id c @ '' is disabled''))
         else rbind (getTool (kn_tenant_id c) (kn_tool_id c) st) (\<lambda>r.
           if \<not> gt_enabled r then Inl (Mcp_Error MCP_TOOL_DISABLED (''Tool '' @ kn_tool_id c @ '' is disabled'')) else Inr s)) of
        Inl e \<Rightarrow> (cache, Inl e)
      | Inr s \<Rightarrow> (case getOrCreateClient connect s cache of
            (cache', Inl e) \<Rightarrow> (cache', Inl e)
          | (cache', Inr p) \<Rightarrow> (cache', rbind (call p (kn_tool_name c) input) (\<lambda>(content, is_error).
              if is_error then Inl (mcp_protocol (''MCP tool returned an error: '' @ js_take 500 (stringify content))) else Inr content))))"

section \<open>Synchronising the Gate\<close>

record gateway_state =
  gw_gate :: gate_state
  gw_agents :: "string list"
  gw_connectors :: connector_registry
  gw_tools :: broker_registry

definition syncGovernedTenant :: "(string \<Rightarrow> string) \<Rightarrow> ambient \<Rightarrow> ambient \<Rightarrow> string \<Rightarrow> string \<Rightarrow> client_store \<Rightarrow> gateway_state
    \<Rightarrow> gateway_state \<times> (gate_error, string) res" where
  \<comment> \<open>a failed registration is swallowed; \<open>am1\<close>, \<open>am2\<close>: the clock and identifiers of the two calls of the Gate\<close>
  "syncGovernedTenant sha am1 am2 t agent st w =
     (let g1 = (if agent \<in> set (gw_agents w) then gw_gate w else fst (gate_register sha am1 (Admin ''administrator'') (Some (agent, agent)) (gw_gate w)));
          connectors = registerMcpConnectors t st (gw_connectors w);
          (g2, answer) = gate_setEnvelope sha am2 (Admin ''administrator'') (Some (buildTenantGateEnvelope agent t (enabled_tools t st) (to_iso (am_now am2 + 3600000)))) g1 in
      (\<lparr>gw_gate = g2, gw_agents = (if agent \<in> set (gw_agents w) then gw_agents w else gw_agents w @ [agent]),
        gw_connectors = connectors, gw_tools = buildToolRegistry t connectors (gw_tools w)\<rparr>, answer))"

section \<open>Submitting a client action\<close>

definition text_or :: "string \<Rightarrow> json option \<Rightarrow> string" where
  "text_or d v = (case jstr v of None \<Rightarrow> d | Some s \<Rightarrow> s)"

definition object_or_empty :: "json option \<Rightarrow> (string \<times> json) list" where
  "object_or_empty v = (case v of Some (JObj kvs) \<Rightarrow> kvs | _ \<Rightarrow> [])"

definition selected_tool :: "string \<Rightarrow> json \<Rightarrow> client_store \<Rightarrow> (client_error, governed_tool option) res" where
  \<comment> \<open>an empty \<open>tool_id\<close> counts as none\<close>
  "selected_tool t raw st = (case jstr (jfield ''tool_id'' raw) of None \<Rightarrow> Inr None | Some i \<Rightarrow> if i = [] then Inr None
     else rbind (getTool t i st) (\<lambda>r.
       if \<not> gt_enabled r then Inl (Client_Error CL_TOOL_NOT_ENABLED (''Tool '' @ i @ '' is not enabled''))
       else if gt_review_status r = TR_Policy_Review_Required then Inl (Client_Error CL_TOOL_POLICY_REVIEW_REQUIRED (''Tool '' @ i @ '' requires policy review''))
       else Inr (Some r)))"

definition client_request_json :: "string \<Rightarrow> string \<Rightarrow> string \<Rightarrow> governed_tool \<Rightarrow> json \<Rightarrow> json" where
  \<comment> \<open>the body of the platform request; a spread followed by keys overwrites in place\<close>
  "client_request_json t service action_id r raw = (let f = (\<lambda>k. jfield k raw) in
     JObj [(''version'', JStr ''1.0''), (''request_id'', JStr (text_or action_id (f ''request_id''))), (''tenant_id'', JStr t), (''agent_id'', JStr service),
       (''action'', JStr (text_or (tool_platform_id r @ ''.execute'') (f ''action''))), (''tool'', JStr (tool_platform_id r)),
       (''operation'', JStr (text_or ''read'' (f ''operation''))), (''resource'', JStr (text_or ''*'' (f ''resource''))),
       (''input'', JObj (object_or_empty (f ''input''))), (''requires_verification'', JBool (f ''requires_verification'' = Some (JBool True))),
       (''metadata'', JObj (fold (\<lambda>(k, v). al_put k v) [(''client_action_id'', JStr action_id), (''client_service_id'', JStr service),
          (''mcp_server_id'', JStr (gt_provider_id r)), (''governed_tool_id'', JStr (gt_tool_id r))] (object_or_empty (f ''metadata''))))])"

definition submitClientAction :: "(string \<Rightarrow> string) \<Rightarrow> service_identity \<Rightarrow> json \<Rightarrow> string \<Rightarrow> string \<Rightarrow> client_store
    \<Rightarrow> (gateway_error, client_store \<times> client_action \<times> json option) res" where
  \<comment> \<open>\<open>POST /v1/client/actions\<close> up to the platform: the recorded action, and the platform request when a tool is named\<close>
  "submitClientAction sha identity raw u now st = (let t = si_tenant_id identity; i = ''cact_'' @ u in
     if \<not> is_plain_object (Some raw) then Inl (Gw_Http 400 ''Action body must be an object'')
     else from_store (rbind (assertActionEligible t st) (\<lambda>_. rbind (computeIntegrationConfigHash sha t st) (\<lambda>h. rbind (selected_tool t raw st) (\<lambda>tool.
       let r = \<lparr>ca_tenant_id = t, ca_client_action_id = i, ca_service_id = si_service_id identity, ca_mcp_server_id = map_option gt_provider_id tool,
                ca_governed_tool_id = jstr (jfield ''tool_id'' raw), ca_config_snapshot_hash = h, ca_created_at = now\<rparr> in
       rbind (recordClientAction r st) (\<lambda>st'. Inr (st', r, map_option (\<lambda>x. client_request_json t (si_service_id identity) i x raw) tool)))))))"

definition client_principal :: "service_identity \<Rightarrow> platform_principal" where
  "client_principal s = \<lparr>pp_id = si_service_id s, pp_role = PR_Agent, pp_tenantId = si_tenant_id s, pp_agentId = Some (si_service_id s)\<rparr>"

text \<open>The governed branch up to the decision of the Gate: \<open>None\<close> for the record-only answer, an error text for FAILED.\<close>

definition submitGoverned :: "(string \<Rightarrow> string) \<Rightarrow> ambient \<Rightarrow> ambient \<Rightarrow> ambient \<Rightarrow> service_identity \<Rightarrow> json \<Rightarrow> string \<Rightarrow> string \<Rightarrow> string \<times> string \<times> string \<times> string \<times> string
    \<Rightarrow> client_store \<Rightarrow> gateway_state \<Rightarrow> platform_store
    \<Rightarrow> (client_store \<times> gateway_state \<times> platform_store) \<times> (gateway_error, client_action \<times> (string, platform_action) res option) res" where
  "submitGoverned sha am1 am2 am3 identity raw u now ids st w ps =
     (case submitClientAction sha identity raw u now st of
        Inl e \<Rightarrow> ((st, w, ps), Inl e)
      | Inr (st', r, None) \<Rightarrow> ((st', w, ps), Inr (r, None))
      | Inr (st', r, Some req) \<Rightarrow>
          (case syncGovernedTenant sha am1 am2 (si_tenant_id identity) (si_service_id identity) st' w of
             (w1, Inl e) \<Rightarrow> ((st', w1, ps), Inr (r, Some (Inl ''Gate'')))
           | (w1, Inr _) \<Rightarrow>
               (let (u1, u2, ob, ob1, ob2) = ids;
                    ((ps', g), answer) = submit_authorized sha am3 (client_principal identity) req (''client:'' @ si_service_id identity) u1 u2 ob now ob1 ob2 (ps, gw_gate w1) in
                ((st', w1\<lparr>gw_gate := g\<rparr>, ps'), Inr (r, Some (case answer of Inl _ \<Rightarrow> Inl ''Platform'' | Inr a \<Rightarrow> Inr a))))))"

section \<open>Health and readiness\<close>

record integration_health =
  ih_tenant_status :: tenant_status
  ih_active_services :: nat
  ih_registered_servers :: nat
  ih_reachable_servers :: nat
  ih_enabled_tools :: nat
  ih_tools_requiring_review :: nat
  ih_healthy :: bool

definition active_services :: "string \<Rightarrow> client_store \<Rightarrow> (client_error, nat) res" where
  "active_services t st = rbind (listServiceIdentities t (Some (Dec 200 0)) 0 st) (\<lambda>(items, _). Inr (length (filter (\<lambda>s. si_status s = SS_Active) items)))"

definition computeIntegrationHealth :: "string \<Rightarrow> client_store \<Rightarrow> (client_error, integration_health) res" where
  "computeIntegrationHealth t st = rbind (getTenant t st) (\<lambda>tenant. rbind (active_services t st) (\<lambda>n.
     let servers = listMcpServers t st; tools = listTools t None st in
     Inr \<lparr>ih_tenant_status = ct_status tenant, ih_active_services = n, ih_registered_servers = length servers,
       ih_reachable_servers = length (filter (\<lambda>s. ms_status s = MS_Reachable) servers), ih_enabled_tools = length (filter gt_enabled tools),
       ih_tools_requiring_review = length (filter (\<lambda>r. gt_review_status r = TR_Policy_Review_Required \<or> gt_review_status r = TR_Discovered) tools),
       ih_healthy = (ct_status tenant = TS_Active \<and> n > 0)\<rparr>))"

datatype onboarding_readiness = READY | READY_WITH_LIMITATIONS | NOT_READY | INSUFFICIENT_EVIDENCE

definition count_text :: "nat \<Rightarrow> string \<Rightarrow> string \<Rightarrow> string" where
  "count_text n some none = (if n > 0 then show_nat n @ some else none)"

definition readiness_checks :: "client_tenant \<Rightarrow> nat \<Rightarrow> mcp_server list \<Rightarrow> governed_tool list \<Rightarrow> (string \<times> bool \<times> string) list" where
  \<comment> \<open>name, passed, detail\<close>
  "readiness_checks tenant n servers tools =
     (let reachable = length (filter (\<lambda>s. ms_status s = MS_Reachable) servers); enabled = length (filter gt_enabled tools);
          review = length (filter (\<lambda>r. gt_review_status r = TR_Policy_Review_Required) tools) in
     [(''tenant_active'', ct_status tenant = TS_Active,
       if ct_status tenant = TS_Active then ''Tenant is active'' else ''Tenant is '' @ tenant_status_name (ct_status tenant)),
      (''service_identity_exists'', n > 0, count_text n ('' active service identit'' @ (if n = 1 then ''y'' else ''ies'')) ''No active service identities''),
      (''mcp_server_reachable'', reachable > 0, count_text reachable '' reachable MCP server(s)'' ''No reachable MCP servers''),
      (''tool_enabled'', enabled > 0, count_text enabled '' enabled tool(s)'' ''No enabled tools''),
      (''no_pending_reviews'', review = 0, count_text review '' tool(s) awaiting policy review'' ''All tools are reviewed'')])"

definition readiness_of :: "bool list \<Rightarrow> onboarding_readiness" where
  \<comment> \<open>from what the checks say, in their order\<close>
  "readiness_of oks = (let failed = length (filter Not oks) in
     if failed = 0 then READY
     else if oks ! 0 \<and> oks ! 1 \<and> failed \<le> 2 then READY_WITH_LIMITATIONS
     else if list_ex (\<lambda>b. b) oks then NOT_READY else INSUFFICIENT_EVIDENCE)"

definition assessOnboardingReadiness :: "string \<Rightarrow> client_store \<Rightarrow> (client_error, onboarding_readiness \<times> (string \<times> bool \<times> string) list) res" where
  "assessOnboardingReadiness t st = rbind (getTenant t st) (\<lambda>tenant. rbind (active_services t st) (\<lambda>n.
     let checks = readiness_checks tenant n (listMcpServers t st) (listTools t None st) in Inr (readiness_of (map (\<lambda>c. fst (snd c)) checks), checks)))"

end
