(* ===== verification/Client_Governance.thy ===== *)
theory Client_Governance
  imports Client_Safety Client_Gateway Platform_Protocol
begin

text \<open>
  What reaches the Gate from a client: an ALLOW under the envelope synchronised from the store rests on a tool
  of the tenant that is enabled, reviewed and bound, and on its resource patterns; a submission carries the
  authenticated identity whatever its body says.
\<close>

section \<open>The envelope grants what the enabled tools grant\<close>

lemma enabled_tools_of: "r \<in> set (enabled_tools t st) \<longleftrightarrow> r \<in> set (cst_tools st) \<and> gt_tenant_id r = t \<and> gt_enabled r"
  by (auto simp: enabled_tools_def listTools_def tenant_tools_def)

lemma envelope_fields [simp]:
  "ea_id (en_agent (buildTenantGateEnvelope a t tools x)) = a" "en_action_bindings (buildTenantGateEnvelope a t tools x) = map tool_binding tools"
  "ad_allow (en_network (buildTenantGateEnvelope a t tools x)) = []" "en_approvals (buildTenantGateEnvelope a t tools x) = []"
  by (simp_all add: buildTenantGateEnvelope_def)

lemma envelope_scopes: "op = Read \<or> op = Write \<Longrightarrow> scope_of (buildTenantGateEnvelope a t tools x) Files op = scope_patterns op tools"
  by (auto simp: scope_of_def buildTenantGateEnvelope_def)

lemma binding_fields [simp]: "ab_action (tool_binding r) = tool_platform_id r @ ''.execute''" "ab_tool (tool_binding r) = tool_platform_id r"
  "ab_resource_kind (tool_binding r) = Files" "ab_operation (tool_binding r) = tool_operation r"
  by (simp_all add: tool_binding_def)

definition resource_in_scope :: "string \<Rightarrow> string \<Rightarrow> bool" where
  \<comment> \<open>the resource is the pattern or lies strictly below it\<close>
  "resource_in_scope resource p = (resource = p \<or> strict_prefix (segments (strip_scope p)) (segments resource))"

lemma strictly_below_scope: "rest \<noteq> [] \<Longrightarrow> segments resource = segments (strip_scope p) @ rest \<Longrightarrow> resource_in_scope resource p"
  by (auto simp: resource_in_scope_def strict_prefix_def)

lemma tool_operation_cases: "tool_operation r = Read \<or> tool_operation r = Write"
  by (simp add: tool_operation_def)

lemma envelope_allows:
  assumes "vd_decision (evaluate request (Some (buildTenantGateEnvelope a t tools x)) ctx) = ALLOW" "envelope_ok (buildTenantGateEnvelope a t tools x)"
  shows "\<exists>r \<in> set tools. rq_tool request = tool_platform_id r \<and> rq_action request = tool_platform_id r @ ''.execute'' \<and> \<not> present (rq_destination request)
     \<and> (\<exists>r' \<in> set tools. tool_operation r' = tool_operation r \<and> list_ex (resource_in_scope (rq_resource request)) (gt_resource_patterns r'))"
proof -
  let ?e = "buildTenantGateEnvelope a t tools x"
  obtain b where b: "binding_for ?e (rq_action request) = Some b" "permitted request ?e ctx b"
    using assms(1) unfolding evaluate_allow_iff by blast
  obtain r where r: "r \<in> set tools" "b = tool_binding r" "ab_action b = rq_action request" using binding_for_Some [OF b(1)] by auto
  have m: "matches_resource (rq_resource request) (scope_patterns (tool_operation r) tools) True"
    using b(2) r(2) envelope_scopes [OF tool_operation_cases] by (auto simp: permitted_def resource_granted_def)
  have "\<forall>p \<in> set (scope_patterns (tool_operation r) tools). valid_file (strip_scope p)"
    using envelope_ok_scopes [OF assms(2)] envelope_scopes [OF tool_operation_cases] by metis
  from file_match_scope [OF m this] obtain p where p: "p \<in> set (scope_patterns (tool_operation r) tools)" "resource_in_scope (rq_resource request) p"
    using strictly_below_scope by (auto simp: resource_in_scope_def)
  from p(1) obtain r' where r': "r' \<in> set tools" "tool_operation r' = tool_operation r" "p \<in> set (gt_resource_patterns r')" by (auto simp: scope_patterns_def)
  have "\<not> present (rq_destination request)" using b(2) by (auto simp: permitted_def present_iff)
  moreover have "rq_tool request = tool_platform_id r" using b(2) r(2) by (simp add: permitted_def)
  ultimately show ?thesis using r r' p(2) by (intro bexI [OF _ r(1)]) (auto simp: list_ex_iff)
qed

section \<open>Through the Gate\<close>

lemma setEnvelope_Inr:
  assumes "gate_setEnvelope sha am p (Some e) g = (g', Inr h)"
  shows "envelope_ok e \<and> (\<exists>ag h' rev. st_get (ea_id (en_agent e)) (gs_agents g) = Some ag \<and> gs_agents g' = gs_agents g
    \<and> st_get (ga_id ag) (gs_policies g') = Some \<lparr>po_envelope = e, po_hash = h', po_revision = rev\<rparr>)"
  using assms by (auto simp: gate_setEnvelope_def envelope_parse_def st_transaction_def audit_def table.get_put Let_def split: sum.splits if_splits option.splits)

lemma sync_then_allow:
  assumes "syncGovernedTenant sha am1 am2 t agent st w = (w1, Inr h)" "authorize sha am3 (Agent agent) input (gw_gate w1) = (g, Inr d)" "de_decision d = ALLOW"
  shows "\<exists>ctx x. vd_decision (evaluate (de_request d) (Some (buildTenantGateEnvelope agent t (enabled_tools t st) x)) ctx) = ALLOW
    \<and> envelope_ok (buildTenantGateEnvelope agent t (enabled_tools t st) x)"
proof -
  let ?e = "buildTenantGateEnvelope agent t (enabled_tools t st) (to_iso (am_now am2 + 3600000))"
  obtain g1 where "gate_setEnvelope sha am2 (Admin ''administrator'') (Some ?e) g1 = (gw_gate w1, Inr h)"
    using assms(1) by (auto simp: syncGovernedTenant_def Let_def split: prod.splits)
  from setEnvelope_Inr [OF this] obtain ag h' rev where e: "envelope_ok ?e" "st_get agent (gs_agents (gw_gate w1)) = Some ag"
    "st_get (ga_id ag) (gs_policies (gw_gate w1)) = Some \<lparr>po_envelope = ?e, po_hash = h', po_revision = rev\<rparr>" by auto
  obtain r where r: "parseAuthorizationRequest sha input = Inr r" "rq_agentId r = agent" "decide_request sha am3 r (gw_gate w1) = Inr (g, d)"
    using assms(2) by (auto simp: authorize_def st_transaction_def split: sum.splits if_splits prod.splits)
  from decide_request_Inr [OF r(3)] r(2) e(2,3) obtain used v ctx where
    "v = evaluate r (Some ?e) ctx" "d = make_decision am3 ag (Some \<lparr>po_envelope = ?e, po_hash = h', po_revision = rev\<rparr>) r v used" by auto
  with assms(3) e(1) show ?thesis by (auto simp: make_decision_def)
qed

section \<open>What the envelope does not carry\<close>

text \<open>
  The envelope is the same whether a tool requires a human approval or a verification or neither: the decision of
  the administrator is recorded in the binding and asked for nowhere.
\<close>

lemma requirements_ignored:
  "buildTenantGateEnvelope a t (map (\<lambda>r. r\<lparr>gt_requires_human_approval := human, gt_requires_vad := vad\<rparr>) tools) x = buildTenantGateEnvelope a t tools x"
proof -
  let ?f = "\<lambda>r. r\<lparr>gt_requires_human_approval := human, gt_requires_vad := vad\<rparr>"
  have "tool_operation (?f r) = tool_operation r" "tool_platform_id (?f r) = tool_platform_id r" for r
    by (simp_all add: tool_operation_def tool_platform_id_def)
  then have "scope_patterns op (map ?f tools) = scope_patterns op tools" "map tool_binding (map ?f tools) = map tool_binding tools" for op
    by (simp_all add: scope_patterns_def filter_map o_def tool_binding_def)
  then show ?thesis by (simp add: buildTenantGateEnvelope_def o_def tool_platform_id_def)
qed

text \<open>A resource pattern the schema rejects, such as the default of the enabling route, stops every governed action of the tenant.\<close>

lemma bad_pattern_refused:
  assumes "r \<in> set tools" "p \<in> set (gt_resource_patterns r)" "\<not> valid_file (strip_scope p)"
  shows "\<not> envelope_ok (buildTenantGateEnvelope a t tools x)"
proof
  assume "envelope_ok (buildTenantGateEnvelope a t tools x)"
  from envelope_ok_scopes [OF this] have "\<forall>q \<in> set (scope_patterns (tool_operation r) tools). valid_file (strip_scope q)"
    using envelope_scopes [OF tool_operation_cases] by metis
  moreover have "p \<in> set (scope_patterns (tool_operation r) tools)" using assms(1,2) by (auto simp: scope_patterns_def)
  ultimately show False using assms(3) by blast
qed

lemma default_pattern_invalid: "\<not> valid_file (strip_scope ''*'')" "\<not> valid_file (strip_scope ''crm/customers/*'')"
  by (simp_all add: valid_file_def strip_scope_def starts_with_def ends_with_def)

lemma enable_default:
  assumes "enable_body raw = Inr (v, d)" "jfield ''resource_patterns'' raw = None"
  shows "td_resource_patterns d = [''*'']"
  using assms
  by (cases "Option.bind (jstr (jfield ''risk_class'' raw)) risk_of"; cases "jstr (jfield ''policy_id'' raw)")
    (auto simp: enable_body_def Let_def rbind_eq_Inr strings_or_def jlist_def split: if_splits)

text \<open>A connected client is reused for its server whatever the registration has become since.\<close>

lemma reconfigured_server_keeps_process:
  "map_of cache (server_key s) = Some p \<Longrightarrow> getOrCreateClient connect s cache = (cache, Inr p)"
  by (simp add: getOrCreateClient_def)

section \<open>Submissions\<close>

lemma selected_tool_Inr:
  "selected_tool t raw st = Inr (Some r) \<Longrightarrow> getTool t (gt_tool_id r) st = Inr r \<and> gt_enabled r \<and> gt_tenant_id r = t \<and> jstr (jfield ''tool_id'' raw) = Some (gt_tool_id r)"
proof -
  assume "selected_tool t raw st = Inr (Some r)"
  then obtain i where i: "jstr (jfield ''tool_id'' raw) = Some i" "getTool t i st = Inr r" "gt_enabled r"
    by (auto simp: selected_tool_def rbind_eq_Inr split: option.splits if_splits)
  from i(2) have "tool_key r = (t, i)" by (auto simp: getTool_Inr tool_at_def dest: find_SomeD)
  with i show ?thesis by (simp add: tool_key_def)
qed

lemma from_store_Inr [simp]: "from_store r = Inr x \<longleftrightarrow> r = Inr x"
  by (cases r) (simp_all add: from_store_def)

lemma submit_Inr:
  assumes "submitClientAction sha identity raw u now st = Inr (st', r, req)"
  shows "\<exists>tenant h tool. getTenant (si_tenant_id identity) st = Inr tenant \<and> ct_status tenant = TS_Active
    \<and> computeIntegrationConfigHash sha (si_tenant_id identity) st = Inr h \<and> selected_tool (si_tenant_id identity) raw st = Inr tool
    \<and> st' = st\<lparr>cst_actions := cst_actions st @ [r]\<rparr> \<and> ca_tenant_id r = si_tenant_id identity \<and> ca_service_id r = si_service_id identity
    \<and> ca_client_action_id r = ''cact_'' @ u \<and> ca_config_snapshot_hash r = h
    \<and> req = map_option (\<lambda>x. client_request_json (si_tenant_id identity) (si_service_id identity) (''cact_'' @ u) x raw) tool"
  using assms by (auto simp: submitClientAction_def Let_def assertActionEligible_def recordClientAction_def rbind_eq_Inr split: if_splits)

lemma request_identity:
  "jfield ''tenant_id'' (client_request_json t service i r raw) = Some (JStr t)"
  "jfield ''agent_id'' (client_request_json t service i r raw) = Some (JStr service)"
  "jfield ''tool'' (client_request_json t service i r raw) = Some (JStr (tool_platform_id r))"
  "ctx_field (jfield ''metadata'' (client_request_json t service i r raw)) ''client_action_id'' = Some (JStr i)"
  by (simp_all add: client_request_json_def Let_def ctx_field_def)

section \<open>A governed call\<close>

definition gateway_ambient :: "string \<Rightarrow> ambient" where
  "gateway_ambient u = \<lparr>am_now = 1700000000000, am_uuid = u, am_token = ''t''\<rparr>"

definition gateway_start :: gateway_state where
  "gateway_start = \<lparr>gw_gate = gate_empty, gw_agents = [], gw_connectors = [], gw_tools = []\<rparr>"

definition demo_gateway_envelope :: envelope where
  "demo_gateway_envelope = buildTenantGateEnvelope ''svc_1'' ''ten_1'' [demo_enabled] (to_iso 1700003600000)"

definition demo_gateway_input :: json where
  "demo_gateway_input = JObj [(''agentId'', JStr ''svc_1''), (''action'', JStr ''mcp.gt_1.execute''), (''tool'', JStr ''mcp.gt_1''),
     (''resource'', JStr ''/workspace/crm/c1''), (''estimatedCostUsd'', JNum (Dec 0 0))]"

definition demo_gateway_request :: auth_request where
  "demo_gateway_request = \<lparr>rq_agentId = ''svc_1'', rq_action = ''mcp.gt_1.execute'', rq_tool = ''mcp.gt_1'', rq_resource = ''/workspace/crm/c1'',
     rq_destination = None, rq_estimatedCostUsd = 0, rq_approvalId = None\<rparr>"

lemma demo_enabled_tools: "enabled_tools ''ten_1'' demo_client2 = [demo_enabled]"
  by (simp add: enabled_tools_def listTools_def tenant_tools_def demo_client2_def)

lemma demo_gateway_time: "date_parse (to_iso 1700003600000) = Some 1700003600000"
  by (rule epoch_round_trip) (simp add: epoch_ok_def)

lemma demo_gateway_tool: "tool_platform_id demo_enabled = ''mcp.gt_1''" "tool_operation demo_enabled = Read" "gt_resource_patterns demo_enabled = [''/workspace/crm/**'']"
  by (simp_all add: demo_row_defs tool_platform_id_def toolPlatformId_def tool_operation_def)

lemmas demo_text_defs = id_ok_def label_ok_def list_ok_def is_alnum_def is_digit_def is_lower_def is_upper_def char_in_def

lemmas demo_gateway_defs = demo_gateway_envelope_def buildTenantGateEnvelope_def demo_gateway_tool tool_binding_def no_permissions_def scope_patterns_def

lemma demo_gateway_parses: "envelope_parse (Some demo_gateway_envelope) = Some demo_gateway_envelope"
proof -
  have "env_identity_ok demo_gateway_envelope"
    by (simp add: env_identity_ok_def demo_gateway_defs timestamp_ok_def demo_gateway_time demo_text_defs)
  moreover have "env_access_ok demo_gateway_envelope"
    by (simp add: env_access_ok_def demo_gateway_defs permissions_ok_def demo_text_defs)
  moreover have "env_limits_ok demo_gateway_envelope"
    by (simp add: env_limits_ok_def demo_gateway_defs violation_ok_def capture_kinds_def money_ok_def demo_text_defs)
  moreover have "env_bindings_ok demo_gateway_envelope"
    by (simp add: env_bindings_ok_def demo_gateway_defs demo_text_defs)
  moreover have "refine_issues demo_gateway_envelope = []"
    by (simp add: refine_issues_def file_issues_def demo_gateway_defs bad_binding_def valid_operation_def starts_with_def
        strip_scope_def ends_with_def drop_end_def valid_file_def is_control_def)
  ultimately show ?thesis by (simp add: envelope_parse_def envelope_ok_def)
qed

lemma demo_gateway_expiry: "\<not> passed (ea_expires_at (en_agent demo_gateway_envelope)) 1700000000000"
  by (simp add: passed_def demo_gateway_defs demo_gateway_time)

lemma demo_gateway_parse: "parseAuthorizationRequest (\<lambda>x. x) demo_gateway_input = Inr (stored demo_gateway_request None None)"
  by (simp add: parseAuthorizationRequest_def demo_gateway_input_def demo_gateway_request_def request_parse_def Let_def jfield_def is_plain_object_def
      jstr_def jnumber_def obj_keys_def opt_string_def request_keys_def request_ok_def Tool_Inputs.demo_tool_def money_ok_def opt_ok_def num_val_def demo_text_defs)

lemma demo_gateway_allowed: "vd_decision (evaluate (stored demo_gateway_request None None) (Some demo_gateway_envelope)
   \<lparr>pc_now = 1700000000000, pc_revoked = False, pc_usage = emptyUsage, pc_approvalValid = False, pc_knownAgents = [''svc_1'']\<rparr>) = ALLOW"
proof -
  define q where "q = stored demo_gateway_request None None"
  have r: "rq_agentId q = ''svc_1''" "rq_action q = ''mcp.gt_1.execute''"
    "rq_tool q = ''mcp.gt_1''" "rq_resource q = ''/workspace/crm/c1''"
    "rq_destination q = None" "rq_estimatedCostUsd q = 0"
    by (simp_all add: q_def stored_def demo_gateway_request_def auth_request.defs stored_request.defs)
  have e: "\<not> passed (to_iso 1700003600000) 1700000000000" by (simp add: passed_def demo_gateway_time)
  have m: "matches_resource ''/workspace/crm/c1'' [''/workspace/crm/**''] True"
    by (simp add: matches_resource_def valid_file_def is_control_def starts_with_def pattern_matches_def ends_with_def drop_end_def)
  show ?thesis unfolding q_def [symmetric]
    by (simp add: evaluate_def r demo_gateway_defs e binding_for_def tool_denied_def evaluate_bound_def resource_verdict_def scope_of_def m present_def
        runtime_exceeded_def emptyUsage_def attemptsFor_def micros_def Let_def)
qed

definition demo_gateway_agent :: gate_agent where
  "demo_gateway_agent = \<lparr>ga_id = ''svc_1'', ga_name = ''svc_1'', ga_tokenHash = ''t'', ga_revoked = False\<rparr>"

lemma demo_gateway_registered:
  "gs_agents (fst (gate_register (\<lambda>x. x) (gateway_ambient u) (Admin ''administrator'') (Some (''svc_1'', ''svc_1'')) gate_empty)) = [(''svc_1'', demo_gateway_agent)]"
  "gs_policies (fst (gate_register (\<lambda>x. x) (gateway_ambient u) (Admin ''administrator'') (Some (''svc_1'', ''svc_1'')) gate_empty)) = []"
  "gs_usage (fst (gate_register (\<lambda>x. x) (gateway_ambient u) (Admin ''administrator'') (Some (''svc_1'', ''svc_1'')) gate_empty)) = []"
  by (simp_all add: gate_register_def requireAdmin_def is_admin_def id_ok_def label_ok_def st_transaction_def st_get_def st_put_def gate_empty_def
     is_alnum_def is_digit_def is_lower_def is_upper_def char_in_def demo_gateway_agent_def gateway_ambient_def audit_def)

lemma demo_synced:
  "\<exists>w h hash. syncGovernedTenant (\<lambda>x. x) (gateway_ambient ''1'') (gateway_ambient ''2'') ''ten_1'' ''svc_1'' demo_client2 gateway_start = (w, Inr h)
     \<and> gs_agents (gw_gate w) = [(''svc_1'', demo_gateway_agent)] \<and> gs_usage (gw_gate w) = []
     \<and> gs_policies (gw_gate w) = [(''svc_1'', \<lparr>po_envelope = demo_gateway_envelope, po_hash = hash, po_revision = ''pol_2''\<rparr>)]"
proof -
  let ?g = "fst (gate_register (\<lambda>x. x) (gateway_ambient ''1'') (Admin ''administrator'') (Some (''svc_1'', ''svc_1'')) gate_empty)"
  have e: "buildTenantGateEnvelope ''svc_1'' ''ten_1'' [demo_enabled] (to_iso (am_now (gateway_ambient ''2'') + 3600000)) = demo_gateway_envelope"
    by (simp add: demo_gateway_envelope_def gateway_ambient_def)
  have a: "ea_id (en_agent demo_gateway_envelope) = ''svc_1''" by (simp add: demo_gateway_envelope_def)
  have am: "am_now (gateway_ambient ''2'') = 1700000000000" "am_uuid (gateway_ambient ''2'') = ''2''" by (simp_all add: gateway_ambient_def)
  have ag: "ga_id demo_gateway_agent = ''svc_1''" "\<not> ga_revoked demo_gateway_agent" by (simp_all add: demo_gateway_agent_def)
  obtain g' h where "gate_setEnvelope (\<lambda>x. x) (gateway_ambient ''2'') (Admin ''administrator'') (Some demo_gateway_envelope) ?g = (g', Inr h)"
    "gs_agents g' = [(''svc_1'', demo_gateway_agent)]" "gs_usage g' = []"
    "gs_policies g' = [(''svc_1'', \<lparr>po_envelope = demo_gateway_envelope, po_hash = h, po_revision = ''pol_2''\<rparr>)]"
    by (simp add: gate_setEnvelope_def requireAdmin_def is_admin_def demo_gateway_parses am demo_gateway_expiry a ag demo_gateway_registered st_get_def st_put_def
      st_transaction_def audit_def Let_def newId_def)
  then show ?thesis
    by (simp add: syncGovernedTenant_def Let_def gateway_start_def demo_enabled_tools e)
qed

lemma demo_gateway_decides:
  assumes "gs_agents g = [(''svc_1'', demo_gateway_agent)]" "gs_usage g = []"
    "gs_policies g = [(''svc_1'', \<lparr>po_envelope = demo_gateway_envelope, po_hash = hash, po_revision = ''pol_2''\<rparr>)]"
  shows "\<exists>g' d. authorize (\<lambda>x. x) (gateway_ambient ''3'') (Agent ''svc_1'') demo_gateway_input g = (g', Inr d) \<and> de_decision d = ALLOW"
proof -
  let ?r = "stored demo_gateway_request None None"
  have r: "rq_agentId ?r = ''svc_1''" "cited_approval ?r g = None"
    by (simp_all add: stored_def demo_gateway_request_def auth_request.defs stored_request.defs cited_approval_def)
  have ag: "st_get ''svc_1'' (gs_agents g) = Some demo_gateway_agent" "ga_id demo_gateway_agent = ''svc_1''"
    by (simp_all add: st_get_def assms demo_gateway_agent_def)
  have po: "map_option po_envelope (st_get ''svc_1'' (gs_policies g)) = Some demo_gateway_envelope" by (simp add: st_get_def assms)
  have am: "am_now (gateway_ambient ''3'') = 1700000000000" by (simp add: gateway_ambient_def)
  have ctx: "gate_context 1700000000000 demo_gateway_agent False g = \<lparr>pc_now = 1700000000000, pc_revoked = False,
     pc_usage = emptyUsage, pc_approvalValid = False, pc_knownAgents = [''svc_1'']\<rparr>"
    by (simp add: gate_context_def demo_gateway_agent_def usage_of_def assms st_get_def st_list_def)
  have "\<exists>g' d. decide_request (\<lambda>x. x) (gateway_ambient ''3'') ?r g = Inr (g', d) \<and> de_decision d = ALLOW"
    unfolding decide_request_def r ag po am option.case Let_def by (simp add: approval_valid_def ctx demo_gateway_allowed make_decision_def ag po)
  then show ?thesis unfolding authorize_def demo_gateway_parse sum.case by (auto simp: demo_gateway_request_def st_transaction_def)
qed

lemma connector_answers:
  assumes "snd (connector_execute connect call c input st cache) = Inr out"
  shows "\<exists>s r p. getMcpServer (kn_tenant_id c) (kn_server_id c) st = Inr s \<and> ms_status s \<noteq> MS_Disabled
    \<and> getTool (kn_tenant_id c) (kn_tool_id c) st = Inr r \<and> gt_enabled r \<and> call p (kn_tool_name c) input = Inr (out, False)"
  using assms by (auto simp: connector_execute_def rbind_eq_Inr split: sum.splits prod.splits if_splits)

lemma absolute_executable_refused: "\<not> executable_pattern (CHR ''/'' # s)"
  by (simp add: executable_pattern_def first_then_def is_alnum_def is_digit_def is_upper_def is_lower_def)

section \<open>Properties\<close>

text \<open>
  C4. From the administrator's review to the Gate's ALLOW. Right after a tenant is synchronised from a reachable
  client store, an ALLOW for one of its service identities names exactly a tool of that tenant that is enabled,
  reviewed and bound by its latest policy binding to its present schema; the call has no network destination, and
  its resource is in the patterns of an enabled tool of the tenant with the same operation.
\<close>

theorem governed_allow_is_reviewed:
  assumes "client_reaches sha client_start st" "syncGovernedTenant sha am1 am2 t agent st w = (w1, Inr h)"
    "authorize sha am3 (Agent agent) input (gw_gate w1) = (g, Inr d)" "de_decision d = ALLOW"
  shows "\<exists>r \<in> set (cst_tools st). gt_tenant_id r = t \<and> gt_enabled r \<and> gt_review_status r = TR_Enabled \<and> tool_bound sha (cst_bindings st) r
    \<and> (rq_tool (de_request d), rq_action (de_request d)) = (tool_platform_id r, tool_platform_id r @ ''.execute'') \<and> \<not> present (rq_destination (de_request d))
    \<and> (\<exists>r' \<in> set (enabled_tools t st). tool_operation r' = tool_operation r \<and> list_ex (resource_in_scope (rq_resource (de_request d))) (gt_resource_patterns r'))"
proof -
  from sync_then_allow [OF assms(2-4)] obtain ctx x where
    e: "vd_decision (evaluate (de_request d) (Some (buildTenantGateEnvelope agent t (enabled_tools t st) x)) ctx) = ALLOW"
      "envelope_ok (buildTenantGateEnvelope agent t (enabled_tools t st) x)" by blast
  from envelope_allows [OF e] obtain r where r: "r \<in> set (enabled_tools t st)" "rq_tool (de_request d) = tool_platform_id r"
    "rq_action (de_request d) = tool_platform_id r @ ''.execute''" "\<not> present (rq_destination (de_request d))"
    "\<exists>r' \<in> set (enabled_tools t st). tool_operation r' = tool_operation r \<and> list_ex (resource_in_scope (rq_resource (de_request d))) (gt_resource_patterns r')" by blast
  have in_store: "r \<in> set (cst_tools st)" "gt_tenant_id r = t" "gt_enabled r" using r(1) by (simp_all add: enabled_tools_of)
  have "tool_ok sha (cst_bindings st) r" using reached_inv [OF assms(1)] in_store(1) by (simp add: client_inv_def tools_ok_def)
  then have "gt_review_status r = TR_Enabled \<and> tool_bound sha (cst_bindings st) r" using in_store(3) by (simp add: tool_ok_def)
  with in_store r show ?thesis by (intro bexI [OF _ in_store(1)]) simp
qed

theorem governed_allow_is_reviewed_witness:
  "\<exists>w h g d. syncGovernedTenant (\<lambda>x. x) (gateway_ambient ''1'') (gateway_ambient ''2'') ''ten_1'' ''svc_1'' demo_client2 gateway_start = (w, Inr h)
     \<and> authorize (\<lambda>x. x) (gateway_ambient ''3'') (Agent ''svc_1'') demo_gateway_input (gw_gate w) = (g, Inr d) \<and> rq_tool (de_request d) = tool_platform_id demo_enabled"
proof -
  obtain w h hash where w: "syncGovernedTenant (\<lambda>x. x) (gateway_ambient ''1'') (gateway_ambient ''2'') ''ten_1'' ''svc_1'' demo_client2 gateway_start = (w, Inr h)"
    "gs_agents (gw_gate w) = [(''svc_1'', demo_gateway_agent)]" "gs_usage (gw_gate w) = []"
    "gs_policies (gw_gate w) = [(''svc_1'', \<lparr>po_envelope = demo_gateway_envelope, po_hash = hash, po_revision = ''pol_2''\<rparr>)]" using demo_synced by blast
  from demo_gateway_decides [OF w(2-4)] obtain g d where
    d: "authorize (\<lambda>x. x) (gateway_ambient ''3'') (Agent ''svc_1'') demo_gateway_input (gw_gate w) = (g, Inr d)" "de_decision d = ALLOW" by blast
  from governed_allow_is_reviewed [OF demo_client2_reached w(1) d] have "rq_tool (de_request d) = tool_platform_id demo_enabled" by (simp add: demo_client2_def)
  with w(1) d(1) show ?thesis by blast
qed

text \<open>
  C39. A client action is submitted under the authenticated identity only: it is accepted for an ACTIVE tenant, its
  row and its platform request carry the tenant and the service of the identity whatever the body says, the row
  holds the hash of the configuration at that moment, and a named tool is an enabled tool of that tenant.
\<close>

theorem submission_is_bound:
  assumes "submitClientAction sha identity raw u now st = Inr (st', r, req)"
  shows "(\<exists>tenant. assertActionEligible (si_tenant_id identity) st = Inr tenant) \<and> cst_actions st' = cst_actions st @ [r]
    \<and> (ca_tenant_id r, ca_service_id r) = (si_tenant_id identity, si_service_id identity)
    \<and> computeIntegrationConfigHash sha (si_tenant_id identity) st = Inr (ca_config_snapshot_hash r)
    \<and> (case req of None \<Rightarrow> True | Some j \<Rightarrow> \<exists>tool. getTool (si_tenant_id identity) (gt_tool_id tool) st = Inr tool \<and> gt_enabled tool
         \<and> jfield ''tool'' j = Some (JStr (tool_platform_id tool)) \<and> jfield ''tenant_id'' j = Some (JStr (si_tenant_id identity))
         \<and> jfield ''agent_id'' j = Some (JStr (si_service_id identity)) \<and> ctx_field (jfield ''metadata'' j) ''client_action_id'' = Some (JStr (ca_client_action_id r)))"
proof -
  from submit_Inr [OF assms] obtain tenant h tool where s: "getTenant (si_tenant_id identity) st = Inr tenant" "ct_status tenant = TS_Active"
    "computeIntegrationConfigHash sha (si_tenant_id identity) st = Inr h" "selected_tool (si_tenant_id identity) raw st = Inr tool"
    "st' = st\<lparr>cst_actions := cst_actions st @ [r]\<rparr>" "ca_tenant_id r = si_tenant_id identity" "ca_service_id r = si_service_id identity"
    "ca_client_action_id r = ''cact_'' @ u" "ca_config_snapshot_hash r = h"
    "req = map_option (\<lambda>x. client_request_json (si_tenant_id identity) (si_service_id identity) (''cact_'' @ u) x raw) tool" by blast
  show ?thesis
  proof (cases tool)
    case (Some x)
    then show ?thesis using s selected_tool_Inr [of "si_tenant_id identity" raw st x] by (auto simp: assertActionEligible_def request_identity)
  qed (use s in \<open>auto simp: assertActionEligible_def\<close>)
qed

lemma demo_review: "gt_review_status demo_enabled \<noteq> TR_Policy_Review_Required"
  by (simp add: demo_enabled_def enabled_row_def)

definition demo_submission :: json where
  "demo_submission = JObj [(''tenant_id'', JStr ''ten_2''), (''tool_id'', JStr ''gt_1''), (''resource'', JStr ''/workspace/crm/c1'')]"

theorem submission_is_bound_witness:
  "\<exists>st r j. submitClientAction (\<lambda>x. x) (rowToService demo_service) demo_submission ''1'' ''t7'' demo_client2 = Inr (st, r, Some j)
     \<and> jfield ''tenant_id'' j = Some (JStr ''ten_1'')"
proof -
  have "selected_tool ''ten_1'' demo_submission demo_client2 = Inr (Some demo_enabled)"
    by (simp add: selected_tool_def demo_submission_def getTool_def tool_at_def demo_client2_def demo_review)
  moreover have "\<exists>h. computeIntegrationConfigHash (\<lambda>x. x) ''ten_1'' demo_client2 = Inr h"
    by (simp add: computeIntegrationConfigHash_def getTenant_def demo_client2_def demo_client1_def listServiceIdentities_def client_readPageOptions_def is_integer_def int_of_num_def norm_num_def Let_def page_of_def)
  moreover have "assertActionEligible ''ten_1'' demo_client2 = Inr demo_active"
    by (simp add: assertActionEligible_def getTenant_def demo_client2_def demo_client1_def)
  ultimately obtain st r j where s: "submitClientAction (\<lambda>x. x) (rowToService demo_service) demo_submission ''1'' ''t7'' demo_client2 = Inr (st, r, Some j)"
    by (auto simp: submitClientAction_def Let_def is_plain_object_def demo_submission_def recordClientAction_def demo_client2_def demo_client1_def client_start_def)
  from submission_is_bound [OF s] show ?thesis using s by auto
qed


text \<open>The tool of the demonstration, called on a process that answers with its input.\<close>

definition demo_server_input :: mcp_input where
  "demo_server_input = \<lparr>mi_name = ''crm'', mi_executable = ''crm-server'', mi_args = [], mi_env_allowlist = [], mi_credential_ref = None\<rparr>"

definition demo_server :: mcp_server where
  "demo_server = new_server (\<lambda>x. x) ''ten_1'' demo_server_input ''1'' ''t5''"

definition demo_client3 :: client_store where
  "demo_client3 = demo_client2\<lparr>cst_servers := [demo_server]\<rparr>"

lemma demo_server_fields [simp]: "server_key demo_server = (''ten_1'', ''mcps_1'')" "ms_status demo_server = MS_Registered"
  by (simp_all add: demo_server_def new_server_def server_key_def newServerId_def)

lemma demo_client3_reached: "client_reaches (\<lambda>x. x) client_start demo_client3"
proof -
  have "registerMcpServer (\<lambda>x. x) ''ten_1'' demo_server_input ''1'' ''t5'' demo_client2 = Inr (demo_client3, demo_server)"
    by (simp add: registerMcpServer_def assertOnboardingOpen_def getTenant_def demo_client3_def demo_client2_def demo_client1_def client_start_def
        tenant_servers_def max_mcp_servers_def Let_def getMcpServer_def newServerId_def flip: demo_server_def)
  from reaches_client_step [OF demo_client2_reached client_step.register [OF this]] show ?thesis .
qed


end
