(* ===== verification/Improvement_Schema.thy ===== *)
theory Improvement_Schema
  imports Client_Schema
begin

text \<open>
  \<open>packages/improvement-schema\<close>: the vocabulary of the improvement governor and its pure decisions. The
  state machine of a generation, the classes of improvement and their policy, authority ceilings and what a
  candidate gains over them, the classification of a mutation, the tampering of tests, the decision to
  promote, the budget of a system.
\<close>

section \<open>Errors\<close>

datatype improvement_code = IM_INVALID_INPUT | IM_NOT_FOUND | IM_CONFLICT | IM_FORBIDDEN | IM_PAYLOAD_TOO_LARGE
  | IM_SPEC_IMMUTABLE | IM_CROSS_TENANT_DENIED | IM_LINEAGE_CYCLE | IM_BUDGET_EXHAUSTED
  | IM_AUTHORITY_CEILING_VIOLATION | IM_CONTROL_PLANE_VIOLATION | IM_EVALUATOR_TAMPERED | IM_TEST_TAMPERED

text \<open>\<open>Improvement_Sql\<close> is what the database throws when a key is taken.\<close>

datatype improvement_error = Improvement_Error improvement_code string | Improvement_Sql string

definition im_invalid :: "string \<Rightarrow> improvement_error" where
  "im_invalid m = Improvement_Error IM_INVALID_INPUT m"

definition im_conflict :: "string \<Rightarrow> improvement_error" where
  "im_conflict m = Improvement_Error IM_CONFLICT m"

section \<open>Secret-shaped content\<close>

definition improvement_secret_key :: "string \<Rightarrow> bool" where
  "improvement_secret_key k = (client_secret_key k \<or> str_contains ''token'' (to_lower k))"

fun improvement_find_secret :: "json \<Rightarrow> string option"
  and improvement_find_secret_list :: "json list \<Rightarrow> string option"
  and improvement_find_secret_fields :: "(string \<times> json) list \<Rightarrow> string option" where
  "improvement_find_secret (JStr s) = (if secret_value s then Some ''value matches a bearer-token pattern'' else None)"
| "improvement_find_secret (JArr xs) = improvement_find_secret_list xs"
| "improvement_find_secret (JObj kvs) = improvement_find_secret_fields kvs"
| "improvement_find_secret _ = None"
| "improvement_find_secret_list [] = None"
| "improvement_find_secret_list (x # xs) = (case improvement_find_secret x of Some r \<Rightarrow> Some r | None \<Rightarrow> improvement_find_secret_list xs)"
| "improvement_find_secret_fields [] = None"
| "improvement_find_secret_fields ((k, v) # kvs) =
     (if improvement_secret_key k then Some (''field name '' @ quoted k @ '' is a disallowed secret-shaped field'')
      else (case improvement_find_secret v of Some r \<Rightarrow> Some r | None \<Rightarrow> improvement_find_secret_fields kvs))"

fun contains_secret_value :: "json \<Rightarrow> bool"
  and contains_secret_value_list :: "json list \<Rightarrow> bool"
  and contains_secret_value_fields :: "(string \<times> json) list \<Rightarrow> bool" where
  "contains_secret_value (JStr s) = secret_value s"
| "contains_secret_value (JArr xs) = contains_secret_value_list xs"
| "contains_secret_value (JObj kvs) = contains_secret_value_fields kvs"
| "contains_secret_value _ = False"
| "contains_secret_value_list [] = False"
| "contains_secret_value_list (x # xs) = (contains_secret_value x \<or> contains_secret_value_list xs)"
| "contains_secret_value_fields [] = False"
| "contains_secret_value_fields ((k, v) # kvs) = (contains_secret_value v \<or> contains_secret_value_fields kvs)"

section \<open>Generations\<close>

datatype generation_state = GN_Proposed | GN_Authorized | GN_Building | GN_Built | GN_Evaluating | GN_Evaluated | GN_Rejected
  | GN_Awaiting_Approval | GN_Canary | GN_Promoted | GN_Rolled_Back | GN_Failed | GN_Indeterminate

definition generation_state_name :: "generation_state \<Rightarrow> string" where
  "generation_state_name s = (case s of GN_Proposed \<Rightarrow> ''PROPOSED'' | GN_Authorized \<Rightarrow> ''AUTHORIZED'' | GN_Building \<Rightarrow> ''BUILDING''
     | GN_Built \<Rightarrow> ''BUILT'' | GN_Evaluating \<Rightarrow> ''EVALUATING'' | GN_Evaluated \<Rightarrow> ''EVALUATED'' | GN_Rejected \<Rightarrow> ''REJECTED''
     | GN_Awaiting_Approval \<Rightarrow> ''AWAITING_APPROVAL'' | GN_Canary \<Rightarrow> ''CANARY'' | GN_Promoted \<Rightarrow> ''PROMOTED''
     | GN_Rolled_Back \<Rightarrow> ''ROLLED_BACK'' | GN_Failed \<Rightarrow> ''FAILED'' | GN_Indeterminate \<Rightarrow> ''INDETERMINATE'')"

fun generation_transitions :: "generation_state \<Rightarrow> generation_state list" where
  "generation_transitions GN_Proposed = [GN_Authorized, GN_Rejected]"
| "generation_transitions GN_Authorized = [GN_Building, GN_Rejected]"
| "generation_transitions GN_Building = [GN_Built, GN_Failed, GN_Indeterminate]"
| "generation_transitions GN_Built = [GN_Evaluating]"
| "generation_transitions GN_Evaluating = [GN_Evaluated, GN_Rejected, GN_Indeterminate]"
| "generation_transitions GN_Evaluated = [GN_Awaiting_Approval, GN_Rejected, GN_Canary]"
| "generation_transitions GN_Awaiting_Approval = [GN_Canary, GN_Rejected]"
| "generation_transitions GN_Canary = [GN_Promoted, GN_Rolled_Back, GN_Rejected, GN_Indeterminate]"
| "generation_transitions GN_Promoted = [GN_Rolled_Back]"
| "generation_transitions GN_Rolled_Back = []"
| "generation_transitions GN_Rejected = []"
| "generation_transitions GN_Failed = []"
| "generation_transitions GN_Indeterminate = []"

definition canTransition :: "generation_state \<Rightarrow> generation_state \<Rightarrow> bool" where
  "canTransition s t = (t \<in> set (generation_transitions s))"

section \<open>Classes\<close>

datatype improvement_class = IC_Config | IC_Code | IC_Tool | IC_Model | IC_Control_Plane | IC_Authority_Or_Evaluator

definition improvement_class_name :: "improvement_class \<Rightarrow> string" where
  "improvement_class_name c = (case c of IC_Config \<Rightarrow> ''CLASS_0_CONFIG'' | IC_Code \<Rightarrow> ''CLASS_1_CODE'' | IC_Tool \<Rightarrow> ''CLASS_2_TOOL''
     | IC_Model \<Rightarrow> ''CLASS_3_MODEL'' | IC_Control_Plane \<Rightarrow> ''CLASS_4_CONTROL_PLANE'' | IC_Authority_Or_Evaluator \<Rightarrow> ''CLASS_5_AUTHORITY_OR_EVALUATOR'')"

definition class_rank :: "improvement_class \<Rightarrow> nat" where
  "class_rank c = (case c of IC_Config \<Rightarrow> 0 | IC_Code \<Rightarrow> 1 | IC_Tool \<Rightarrow> 2 | IC_Model \<Rightarrow> 3 | IC_Control_Plane \<Rightarrow> 4 | IC_Authority_Or_Evaluator \<Rightarrow> 5)"

definition classAtLeast :: "improvement_class \<Rightarrow> improvement_class \<Rightarrow> bool" where
  "classAtLeast c minimum = (class_rank c \<ge> class_rank minimum)"

record class_policy =
  cp_allow_automated_promotion :: bool
  cp_requires_human_approval :: bool
  cp_requires_independent_review :: bool
  cp_allow_self_promotion :: bool

fun class_policy_of :: "improvement_class \<Rightarrow> class_policy" where
  "class_policy_of IC_Config = \<lparr>cp_allow_automated_promotion = True, cp_requires_human_approval = False, cp_requires_independent_review = False, cp_allow_self_promotion = False\<rparr>"
| "class_policy_of IC_Code = \<lparr>cp_allow_automated_promotion = True, cp_requires_human_approval = False, cp_requires_independent_review = False, cp_allow_self_promotion = False\<rparr>"
| "class_policy_of IC_Tool = \<lparr>cp_allow_automated_promotion = False, cp_requires_human_approval = True, cp_requires_independent_review = False, cp_allow_self_promotion = False\<rparr>"
| "class_policy_of IC_Model = \<lparr>cp_allow_automated_promotion = False, cp_requires_human_approval = True, cp_requires_independent_review = False, cp_allow_self_promotion = False\<rparr>"
| "class_policy_of IC_Control_Plane = \<lparr>cp_allow_automated_promotion = False, cp_requires_human_approval = True, cp_requires_independent_review = False, cp_allow_self_promotion = False\<rparr>"
| "class_policy_of IC_Authority_Or_Evaluator = \<lparr>cp_allow_automated_promotion = False, cp_requires_human_approval = True, cp_requires_independent_review = True, cp_allow_self_promotion = False\<rparr>"

section \<open>Authority\<close>

record authority_ceiling =
  ac_operations :: "string list"
  ac_tools :: "string list"
  ac_resources :: "string list"
  ac_destinations :: "string list"
  ac_network_access :: bool
  ac_filesystem_scope :: "string list"
  ac_credentials :: "string list"
  ac_max_budget_usd :: jnum
  ac_max_runtime_ms :: jnum
  ac_max_parallelism :: jnum
  ac_external_side_effects :: bool
  ac_requires_approval_for :: "string list"

definition ceiling_json :: "authority_ceiling \<Rightarrow> json" where
  "ceiling_json c = JObj [(''operations'', jstrs (ac_operations c)), (''tools'', jstrs (ac_tools c)), (''resources'', jstrs (ac_resources c)),
     (''destinations'', jstrs (ac_destinations c)), (''network_access'', JBool (ac_network_access c)), (''filesystem_scope'', jstrs (ac_filesystem_scope c)),
     (''credentials'', jstrs (ac_credentials c)), (''max_budget_usd'', JNum (ac_max_budget_usd c)), (''max_runtime_ms'', JNum (ac_max_runtime_ms c)),
     (''max_parallelism'', JNum (ac_max_parallelism c)), (''external_side_effects'', JBool (ac_external_side_effects c)),
     (''requires_approval_for'', jstrs (ac_requires_approval_for c))]"

definition isSubset :: "string list \<Rightarrow> string list \<Rightarrow> bool" where
  "isSubset child parent = list_all (\<lambda>v. v \<in> set parent) child"

definition authorityWithinCeiling :: "authority_ceiling \<Rightarrow> authority_ceiling \<Rightarrow> bool" where
  "authorityWithinCeiling child bound = (isSubset (ac_operations child) (ac_operations bound) \<and> isSubset (ac_tools child) (ac_tools bound)
     \<and> isSubset (ac_resources child) (ac_resources bound) \<and> isSubset (ac_destinations child) (ac_destinations bound)
     \<and> isSubset (ac_filesystem_scope child) (ac_filesystem_scope bound) \<and> isSubset (ac_credentials child) (ac_credentials bound)
     \<and> (\<not> ac_network_access child \<or> ac_network_access bound) \<and> (\<not> ac_external_side_effects child \<or> ac_external_side_effects bound)
     \<and> num_val (ac_max_budget_usd child) \<le> num_val (ac_max_budget_usd bound) \<and> num_val (ac_max_runtime_ms child) \<le> num_val (ac_max_runtime_ms bound)
     \<and> num_val (ac_max_parallelism child) \<le> num_val (ac_max_parallelism bound))"

record authority_delta =
  dl_added_operations :: "string list"
  dl_added_tools :: "string list"
  dl_added_resources :: "string list"
  dl_added_destinations :: "string list"
  dl_added_filesystem_scope :: "string list"
  dl_added_credentials :: "string list"
  dl_removed_operations :: "string list"
  dl_removed_tools :: "string list"
  dl_removed_resources :: "string list"
  dl_network_access_gained :: bool
  dl_external_side_effects_gained :: bool
  dl_budget_increased :: bool
  dl_runtime_increased :: bool
  dl_parallelism_increased :: bool
  dl_is_expansion :: bool
  dl_is_reduction :: bool
  dl_delta_hash :: string

definition added :: "string list \<Rightarrow> string list \<Rightarrow> string list" where
  "added before after = filter (\<lambda>v. v \<notin> set before) after"

definition removed :: "string list \<Rightarrow> string list \<Rightarrow> string list" where
  "removed before after = filter (\<lambda>v. v \<notin> set after) before"

definition delta_json :: "authority_delta \<Rightarrow> json" where
  \<comment> \<open>without the hash\<close>
  "delta_json d = JObj [(''added_operations'', jstrs (dl_added_operations d)), (''added_tools'', jstrs (dl_added_tools d)),
     (''added_resources'', jstrs (dl_added_resources d)), (''added_destinations'', jstrs (dl_added_destinations d)),
     (''added_filesystem_scope'', jstrs (dl_added_filesystem_scope d)), (''added_credentials'', jstrs (dl_added_credentials d)),
     (''removed_operations'', jstrs (dl_removed_operations d)), (''removed_tools'', jstrs (dl_removed_tools d)),
     (''removed_resources'', jstrs (dl_removed_resources d)), (''network_access_gained'', JBool (dl_network_access_gained d)),
     (''external_side_effects_gained'', JBool (dl_external_side_effects_gained d)), (''budget_increased'', JBool (dl_budget_increased d)),
     (''runtime_increased'', JBool (dl_runtime_increased d)), (''parallelism_increased'', JBool (dl_parallelism_increased d)),
     (''is_expansion'', JBool (dl_is_expansion d)), (''is_reduction'', JBool (dl_is_reduction d))]"

definition computeAuthorityDelta :: "(string \<Rightarrow> string) \<Rightarrow> authority_ceiling \<Rightarrow> authority_ceiling \<Rightarrow> authority_delta" where
  "computeAuthorityDelta sha before after =
     (let ops = added (ac_operations before) (ac_operations after); tools = added (ac_tools before) (ac_tools after);
          resources = added (ac_resources before) (ac_resources after); destinations = added (ac_destinations before) (ac_destinations after);
          fs = added (ac_filesystem_scope before) (ac_filesystem_scope after); creds = added (ac_credentials before) (ac_credentials after);
          ops' = removed (ac_operations before) (ac_operations after); tools' = removed (ac_tools before) (ac_tools after);
          resources' = removed (ac_resources before) (ac_resources after);
          network = (\<not> ac_network_access before \<and> ac_network_access after);
          effects = (\<not> ac_external_side_effects before \<and> ac_external_side_effects after);
          budget = (num_val (ac_max_budget_usd after) > num_val (ac_max_budget_usd before));
          runtime = (num_val (ac_max_runtime_ms after) > num_val (ac_max_runtime_ms before));
          parallelism = (num_val (ac_max_parallelism after) > num_val (ac_max_parallelism before));
          d = \<lparr>dl_added_operations = ops, dl_added_tools = tools, dl_added_resources = resources, dl_added_destinations = destinations,
            dl_added_filesystem_scope = fs, dl_added_credentials = creds, dl_removed_operations = ops', dl_removed_tools = tools',
            dl_removed_resources = resources', dl_network_access_gained = network, dl_external_side_effects_gained = effects,
            dl_budget_increased = budget, dl_runtime_increased = runtime, dl_parallelism_increased = parallelism,
            dl_is_expansion = (ops \<noteq> [] \<or> tools \<noteq> [] \<or> resources \<noteq> [] \<or> destinations \<noteq> [] \<or> fs \<noteq> [] \<or> creds \<noteq> [] \<or> network \<or> effects
              \<or> budget \<or> runtime \<or> parallelism),
            dl_is_reduction = (ops' \<noteq> [] \<or> tools' \<noteq> [] \<or> resources' \<noteq> [] \<or> (ac_network_access before \<and> \<not> ac_network_access after)
              \<or> (ac_external_side_effects before \<and> \<not> ac_external_side_effects after) \<or> num_val (ac_max_budget_usd after) < num_val (ac_max_budget_usd before)
              \<or> num_val (ac_max_runtime_ms after) < num_val (ac_max_runtime_ms before) \<or> num_val (ac_max_parallelism after) < num_val (ac_max_parallelism before)),
            dl_delta_hash = []\<rparr> in
      d\<lparr>dl_delta_hash := hash_json sha (delta_json d)\<rparr>)"

section \<open>Capabilities\<close>

record capability_profile =
  cf_tools :: "string list"
  cf_operations :: "string list"
  cf_resources :: "string list"
  cf_destinations :: "string list"
  cf_filesystem_writes :: bool
  cf_network_access :: bool
  cf_credential_access :: "string list"
  cf_code_execution :: bool
  cf_max_parallelism :: jnum
  cf_side_effect_classes :: "string list"

text \<open>What a specification allows a candidate to gain; \<open>undefined\<close> is no growth at all.\<close>

record allowed_growth =
  ag_tools :: "string list"
  ag_operations :: "string list"
  ag_resources :: "string list"
  ag_destinations :: "string list"
  ag_filesystem_writes :: bool
  ag_network_access :: bool
  ag_code_execution :: bool

definition no_growth :: allowed_growth where
  "no_growth = \<lparr>ag_tools = [], ag_operations = [], ag_resources = [], ag_destinations = [], ag_filesystem_writes = False,
     ag_network_access = False, ag_code_execution = False\<rparr>"

record capability_delta =
  cd_added_tools :: "string list"
  cd_added_operations :: "string list"
  cd_added_resources :: "string list"
  cd_added_destinations :: "string list"
  cd_added_credential_access :: "string list"
  cd_added_side_effect_classes :: "string list"
  cd_filesystem_writes_gained :: bool
  cd_network_access_gained :: bool
  cd_code_execution_gained :: bool
  cd_parallelism_increased :: bool
  cd_has_unexpected_gain :: bool
  cd_unexpected_reasons :: "string list"
  cd_report_hash :: string

definition capability_delta_json :: "string \<Rightarrow> capability_delta \<Rightarrow> json" where
  "capability_delta_json generation d = JObj [(''generation_id'', JStr generation), (''added_tools'', jstrs (cd_added_tools d)),
     (''added_operations'', jstrs (cd_added_operations d)), (''added_resources'', jstrs (cd_added_resources d)),
     (''added_destinations'', jstrs (cd_added_destinations d)), (''added_credential_access'', jstrs (cd_added_credential_access d)),
     (''added_side_effect_classes'', jstrs (cd_added_side_effect_classes d)), (''filesystem_writes_gained'', JBool (cd_filesystem_writes_gained d)),
     (''network_access_gained'', JBool (cd_network_access_gained d)), (''code_execution_gained'', JBool (cd_code_execution_gained d)),
     (''parallelism_increased'', JBool (cd_parallelism_increased d)), (''has_unexpected_gain'', JBool (cd_has_unexpected_gain d)),
     (''unexpected_reasons'', jstrs (cd_unexpected_reasons d))]"

definition reason_if :: "bool \<Rightarrow> string \<Rightarrow> string list" where
  "reason_if b reason = (if b then [reason] else [])"

definition unlisted :: "string \<Rightarrow> string list \<Rightarrow> string list \<Rightarrow> string list" where
  \<comment> \<open>the reason for gains that are not allowed, if there are any\<close>
  "unlisted what gains allowed = (let xs = filter (\<lambda>x. x \<notin> set allowed) gains in
     reason_if (xs \<noteq> []) (''unauthorized new '' @ what @ '': '' @ str_join '', '' xs))"

definition computeCapabilityDelta :: "(string \<Rightarrow> string) \<Rightarrow> string \<Rightarrow> capability_profile \<Rightarrow> capability_profile \<Rightarrow> allowed_growth \<Rightarrow> capability_delta" where
  "computeCapabilityDelta sha generation parent candidate growth =
     (let tools = added (cf_tools parent) (cf_tools candidate); ops = added (cf_operations parent) (cf_operations candidate);
          resources = added (cf_resources parent) (cf_resources candidate); destinations = added (cf_destinations parent) (cf_destinations candidate);
          creds = added (cf_credential_access parent) (cf_credential_access candidate);
          effects = added (cf_side_effect_classes parent) (cf_side_effect_classes candidate);
          writes = (\<not> cf_filesystem_writes parent \<and> cf_filesystem_writes candidate);
          network = (\<not> cf_network_access parent \<and> cf_network_access candidate);
          code = (\<not> cf_code_execution parent \<and> cf_code_execution candidate);
          reasons = unlisted ''tool(s)'' tools (ag_tools growth) @ unlisted ''operation(s)'' ops (ag_operations growth)
            @ unlisted ''resource(s)'' resources (ag_resources growth) @ unlisted ''destination(s)'' destinations (ag_destinations growth)
            @ reason_if (creds \<noteq> []) (''unauthorized new credential access: '' @ str_join '', '' creds)
            @ reason_if (writes \<and> \<not> ag_filesystem_writes growth) ''unauthorized filesystem-write capability gained''
            @ reason_if (network \<and> \<not> ag_network_access growth) ''unauthorized network-access capability gained''
            @ reason_if (code \<and> \<not> ag_code_execution growth) ''unauthorized code-execution capability gained'';
          d = \<lparr>cd_added_tools = tools, cd_added_operations = ops, cd_added_resources = resources, cd_added_destinations = destinations,
            cd_added_credential_access = creds, cd_added_side_effect_classes = effects, cd_filesystem_writes_gained = writes,
            cd_network_access_gained = network, cd_code_execution_gained = code,
            cd_parallelism_increased = (num_val (cf_max_parallelism candidate) > num_val (cf_max_parallelism parent)),
            cd_has_unexpected_gain = (reasons \<noteq> []), cd_unexpected_reasons = reasons, cd_report_hash = []\<rparr> in
      d\<lparr>cd_report_hash := hash_json sha (capability_delta_json generation d)\<rparr>)"

end
