(* ===== verification/Improvement_Promotion.thy ===== *)
theory Improvement_Promotion
  imports Improvement_Schema
begin

text \<open>
  The second half of \<open>packages/improvement-schema\<close>: what a mutation touched, whether required tests were
  tampered with, the decision to promote, the budget of a system, specifications and proposals.
\<close>

section \<open>Mutations\<close>

definition forbidden_path_prefixes :: "string list" where
  "forbidden_path_prefixes =
    [''apps/tna-gate-api/'', ''packages/shared-schema/'', ''packages/policy-engine/'', ''packages/capability-core/'',
     ''packages/authority-envelope/'', ''packages/execution-broker/'', ''packages/isolation-runner/'', ''packages/egress-guard/'',
     ''apps/tna-sentinel/'', ''packages/sentinel-engine/'', ''packages/sentinel-policy/'', ''packages/sentinel-runtime/'',
     ''packages/sentinel-schema/'', ''packages/sentinel-signals/'',
     ''packages/vad-core/'', ''packages/vad-runtime/'', ''packages/verifier-core/'', ''packages/validation-gate/'', ''packages/evidence-core/'',
     ''packages/ledger-core/'', ''packages/ledger-integrity/'', ''packages/ledger-query/'', ''packages/ledger-schema/'', ''packages/ledger-store/'',
     ''apps/tna-auditor/'', ''packages/auditor-controls/'', ''packages/auditor-engine/'', ''packages/auditor-evidence/'',
     ''packages/auditor-report/'', ''packages/auditor-risk/'', ''packages/auditor-schema/'',
     ''packages/deployment-ops/'', ''packages/deployment-health/'', ''packages/deployment-schema/'',
     ''tests/'']"

definition evaluator_path_prefix :: string where
  "evaluator_path_prefix = ''packages/improvement-evaluator/''"

datatype mutation_area = MA_Application | MA_Test | MA_Config | MA_Tool | MA_Model | MA_Policy | MA_Gate | MA_Sentinel | MA_Vad
  | MA_Ledger | MA_Auditor | MA_Deployment | MA_Evaluation | MA_Other

definition area_name :: "mutation_area \<Rightarrow> string" where
  "area_name a = (case a of MA_Application \<Rightarrow> ''application'' | MA_Test \<Rightarrow> ''test'' | MA_Config \<Rightarrow> ''config'' | MA_Tool \<Rightarrow> ''tool''
     | MA_Model \<Rightarrow> ''model'' | MA_Policy \<Rightarrow> ''policy'' | MA_Gate \<Rightarrow> ''gate'' | MA_Sentinel \<Rightarrow> ''sentinel'' | MA_Vad \<Rightarrow> ''vad''
     | MA_Ledger \<Rightarrow> ''ledger'' | MA_Auditor \<Rightarrow> ''auditor'' | MA_Deployment \<Rightarrow> ''deployment'' | MA_Evaluation \<Rightarrow> ''evaluation'' | MA_Other \<Rightarrow> ''other'')"

definition starts_with_any :: "string list \<Rightarrow> string \<Rightarrow> bool" where
  "starts_with_any ps path = list_ex (\<lambda>p. starts_with p path) ps"

definition classifyArea :: "string \<Rightarrow> mutation_area" where
  "classifyArea path =
    (if starts_with ''tests/'' path then MA_Test
     else if starts_with_any [''apps/tna-gate-api/'', ''packages/shared-schema/'', ''packages/policy-engine/'', ''packages/capability-core/'', ''packages/authority-envelope/''] path then MA_Gate
     else if starts_with_any [''apps/tna-sentinel/'', ''packages/sentinel-''] path then MA_Sentinel
     else if starts_with_any [''packages/vad-'', ''packages/verifier-core/'', ''packages/validation-gate/'', ''packages/evidence-core/''] path then MA_Vad
     else if starts_with ''packages/ledger-'' path then MA_Ledger
     else if starts_with_any [''apps/tna-auditor/'', ''packages/auditor-''] path then MA_Auditor
     else if starts_with ''packages/deployment-'' path then MA_Deployment
     else if starts_with_any [evaluator_path_prefix, ''packages/improvement-''] path then MA_Evaluation
     else if starts_with ''academy/'' path \<or> str_contains ''config'' path then MA_Config
     else if str_contains ''/tools/'' path \<or> str_contains ''mcp-'' path then MA_Tool
     else if str_contains ''model'' path then MA_Model
     else MA_Application)"

record mutation_report =
  mr_touched_areas :: "mutation_area list"
  mr_control_plane_changed :: bool
  mr_evaluator_changed :: bool
  mr_out_of_scope_paths :: "string list"
  mr_forbidden_paths_touched :: "string list"
  mr_report_hash :: string

definition unique_items :: "'a list \<Rightarrow> 'a list" where
  \<comment> \<open>\<open>Array.from(new Set(xs))\<close>: each value where it occurs first\<close>
  "unique_items xs = rev (remdups (rev xs))"

lemma set_unique_items [simp]: "set (unique_items xs) = set xs"
  by (simp add: unique_items_def)

definition control_plane_areas :: "mutation_area list" where
  "control_plane_areas = [MA_Gate, MA_Sentinel, MA_Vad, MA_Ledger, MA_Auditor, MA_Evaluation]"

definition mutation_json :: "string \<Rightarrow> mutation_report \<Rightarrow> json" where
  "mutation_json generation r = JObj [(''generation_id'', JStr generation), (''touched_areas'', jstrs (map area_name (mr_touched_areas r))),
     (''control_plane_changed'', JBool (mr_control_plane_changed r)), (''evaluator_changed'', JBool (mr_evaluator_changed r)),
     (''out_of_scope_paths'', jstrs (mr_out_of_scope_paths r)), (''forbidden_paths_touched'', jstrs (mr_forbidden_paths_touched r))]"

definition classifyMutation :: "(string \<Rightarrow> string) \<Rightarrow> string \<Rightarrow> string list \<Rightarrow> string list \<Rightarrow> string list \<Rightarrow> mutation_report" where
  \<comment> \<open>\<open>allowed\<close>, \<open>banned\<close>: the allowed and forbidden mutation paths of the specification\<close>
  "classifyMutation sha generation paths allowed banned =
     (let areas = unique_items (map classifyArea paths);
          r = \<lparr>mr_touched_areas = areas, mr_control_plane_changed = list_ex (\<lambda>a. a \<in> set control_plane_areas) areas,
            mr_evaluator_changed = list_ex (starts_with evaluator_path_prefix) paths,
            mr_out_of_scope_paths = filter (\<lambda>p. \<not> starts_with_any allowed p) paths,
            mr_forbidden_paths_touched = unique_items (filter (starts_with_any banned) paths @ filter (starts_with_any forbidden_path_prefixes) paths),
            mr_report_hash = []\<rparr> in
      r\<lparr>mr_report_hash := hash_json sha (mutation_json generation r)\<rparr>)"

section \<open>Required tests\<close>

record test_entry =
  te_test_id :: string
  te_path :: string
  te_content_hash :: "string option"
  te_required :: bool
  te_source :: string

definition test_entry_json :: "test_entry \<Rightarrow> json" where
  "test_entry_json e = JObj [(''test_id'', JStr (te_test_id e)), (''path'', JStr (te_path e)), (''content_hash'', opt_json JStr (te_content_hash e)),
     (''required'', JBool (te_required e)), (''source'', JStr (te_source e))]"

record test_manifest =
  tm_manifest_id :: string
  tm_manifest_version :: jnum
  tm_entries :: "test_entry list"
  tm_manifest_hash :: string

definition buildRequiredTestManifest :: "(string \<Rightarrow> string) \<Rightarrow> string \<Rightarrow> jnum \<Rightarrow> test_entry list \<Rightarrow> test_manifest" where
  "buildRequiredTestManifest sha i version entries = \<lparr>tm_manifest_id = i, tm_manifest_version = version, tm_entries = entries,
     tm_manifest_hash = hash_json sha (JObj [(''manifest_id'', JStr i), (''manifest_version'', JNum version), (''entries'', JArr (map test_entry_json entries))])\<rparr>"

record tamper_report =
  tr_removed_required_tests :: "string list"
  tr_hash_changed_tests :: "string list"
  tr_test_count_decreased :: bool
  tr_tampered :: bool

definition entry_of :: "test_manifest \<Rightarrow> string \<Rightarrow> test_entry option" where
  \<comment> \<open>\<open>new Map(entries.map(e => [e.test_id, e])).get(id)\<close>: the last entry of an id\<close>
  "entry_of m i = find_last (\<lambda>e. te_test_id e = i) (tm_entries m)"

definition detectTestManifestTampering :: "test_manifest \<Rightarrow> test_manifest \<Rightarrow> tamper_report" where
  "detectTestManifestTampering before after =
     (let required = filter te_required (tm_entries before);
          gone = map te_test_id (filter (\<lambda>e. entry_of after (te_test_id e) = None) required);
          changed = map te_test_id (filter (\<lambda>e. case entry_of after (te_test_id e) of None \<Rightarrow> False
            | Some e' \<Rightarrow> te_content_hash e \<noteq> None \<and> te_content_hash e' \<noteq> te_content_hash e) required) in
      \<lparr>tr_removed_required_tests = gone, tr_hash_changed_tests = changed,
       tr_test_count_decreased = (length (tm_entries after) < length (tm_entries before)), tr_tampered = (gone \<noteq> [] \<or> changed \<noteq> [])\<rparr>)"

section \<open>Benchmarks\<close>

text \<open>A score is what \<open>Number\<close> reads: a finite number or an infinity.\<close>

datatype score = Finite jnum | Infinite bool

definition score_json :: "score \<Rightarrow> json" where
  \<comment> \<open>\<open>JSON.stringify\<close> of an infinity is \<open>null\<close>\<close>
  "score_json x = (case x of Finite n \<Rightarrow> JNum n | Infinite _ \<Rightarrow> JNull)"

definition score_minus :: "score \<Rightarrow> jnum \<Rightarrow> score" where
  "score_minus x y = (case x of Infinite b \<Rightarrow> Infinite b
     | Finite n \<Rightarrow> (case (n, y) of (Dec m s, Dec m' s') \<Rightarrow> Finite (norm_num (Dec (m * 10 ^ s' - m' * 10 ^ s) (s + s')))))"

definition score_reaches :: "score \<Rightarrow> jnum \<Rightarrow> bool" where
  "score_reaches x y = (case x of Infinite positive \<Rightarrow> positive | Finite n \<Rightarrow> num_val n \<ge> num_val y)"

record benchmark_result =
  br_benchmark_id :: string
  br_generation_id :: string
  br_parent_score :: jnum
  br_candidate_score :: score
  br_delta :: score
  br_threshold :: jnum
  br_passed :: bool
  br_evidence_ref :: string

definition evaluateBenchmark :: "string \<Rightarrow> string \<Rightarrow> jnum \<Rightarrow> score \<Rightarrow> jnum \<Rightarrow> string \<Rightarrow> benchmark_result" where
  "evaluateBenchmark i generation parent candidate threshold evidence = (let delta = score_minus candidate parent in
     \<lparr>br_benchmark_id = i, br_generation_id = generation, br_parent_score = parent, br_candidate_score = candidate, br_delta = delta,
      br_threshold = threshold, br_passed = score_reaches delta threshold, br_evidence_ref = evidence\<rparr>)"

definition benchmark_json :: "benchmark_result \<Rightarrow> json" where
  "benchmark_json r = JObj [(''benchmark_id'', JStr (br_benchmark_id r)), (''generation_id'', JStr (br_generation_id r)),
     (''parent_score'', JNum (br_parent_score r)), (''candidate_score'', score_json (br_candidate_score r)), (''delta'', score_json (br_delta r)),
     (''threshold'', JNum (br_threshold r)), (''status'', JStr (if br_passed r then ''PASS'' else ''FAIL'')), (''evidence_ref'', JStr (br_evidence_ref r))]"

section \<open>Promotion\<close>

datatype promotion_status = PS_Promote | PS_Reject | PS_Hold | PS_Insufficient_Evidence | PS_Indeterminate

definition promotion_status_name :: "promotion_status \<Rightarrow> string" where
  "promotion_status_name s = (case s of PS_Promote \<Rightarrow> ''PROMOTE'' | PS_Reject \<Rightarrow> ''REJECT'' | PS_Hold \<Rightarrow> ''HOLD''
     | PS_Insufficient_Evidence \<Rightarrow> ''INSUFFICIENT_EVIDENCE'' | PS_Indeterminate \<Rightarrow> ''INDETERMINATE'')"

definition promotion_precedence :: "promotion_status \<Rightarrow> nat" where
  "promotion_precedence s = (case s of PS_Indeterminate \<Rightarrow> 4 | PS_Reject \<Rightarrow> 3 | PS_Hold \<Rightarrow> 2 | PS_Insufficient_Evidence \<Rightarrow> 1 | PS_Promote \<Rightarrow> 0)"

fun combinePromotionSignals :: "promotion_status list \<Rightarrow> promotion_status" where
  "combinePromotionSignals [] = PS_Insufficient_Evidence"
| "combinePromotionSignals (s # ss) = foldl (\<lambda>worst t. if promotion_precedence t > promotion_precedence worst then t else worst) s ss"

record promotion_input =
  pi_class :: improvement_class
  pi_benchmarks_pass :: bool
  pi_regression_passed :: bool
  pi_security_passed :: bool
  pi_capability_delta :: capability_delta
  pi_within_ceiling :: bool
  pi_mutation :: mutation_report
  pi_tamper :: tamper_report
  pi_human_approved :: "bool option"
  pi_review_approved :: "bool option"
  pi_evidence_complete :: bool

definition promotion_failures :: "promotion_input \<Rightarrow> (bool \<times> promotion_status \<times> string) list" where
  \<comment> \<open>the checks in their order, each with the answer when it fails\<close>
  "promotion_failures i =
    [(pi_evidence_complete i, PS_Insufficient_Evidence, ''Required evaluation evidence is incomplete''),
     (\<not> tr_tampered (pi_tamper i), PS_Reject, ''Required test manifest was tampered: removed='' @ str_join '','' (tr_removed_required_tests (pi_tamper i))
        @ '' changed='' @ str_join '','' (tr_hash_changed_tests (pi_tamper i))),
     (\<not> mr_evaluator_changed (pi_mutation i), PS_Reject, ''Candidate mutated the promotion evaluator itself '' @ em_dash @ '' evaluator independence violated''),
     (\<not> mr_control_plane_changed (pi_mutation i) \<or> classAtLeast (pi_class i) IC_Control_Plane, PS_Reject,
        ''Control-plane path(s) touched by a '' @ improvement_class_name (pi_class i) @ '' candidate: '' @ str_join '', '' (mr_forbidden_paths_touched (pi_mutation i))),
     (pi_regression_passed i, PS_Reject, ''Accepted regression suite did not pass''),
     (pi_security_passed i, PS_Reject, ''Security regression suite did not pass''),
     (pi_within_ceiling i, PS_Reject, ''Candidate authority profile exceeds its approved ceiling''),
     (\<not> cd_has_unexpected_gain (pi_capability_delta i), PS_Reject, ''Unexpected capability gain: '' @ str_join ''; '' (cd_unexpected_reasons (pi_capability_delta i))),
     (pi_benchmarks_pass i, PS_Reject, ''One or more required benchmarks did not meet threshold''),
     (\<not> cp_requires_independent_review (class_policy_of (pi_class i)) \<or> pi_review_approved i = Some True,
        if pi_review_approved i = Some False then PS_Reject else PS_Hold,
        improvement_class_name (pi_class i) @ '' requires independent review before promotion''),
     (\<not> cp_requires_human_approval (class_policy_of (pi_class i)) \<or> pi_human_approved i = Some True,
        if pi_human_approved i = Some False then PS_Reject else PS_Hold,
        improvement_class_name (pi_class i) @ '' requires human approval before promotion'')]"

definition evaluatePromotion :: "promotion_input \<Rightarrow> promotion_status \<times> string" where
  "evaluatePromotion i = (case run_checks (promotion_failures i) of
     Inl answer \<Rightarrow> answer
   | Inr _ \<Rightarrow> (PS_Promote, ''All required checks passed and all required approvals for this class are satisfied''))"

section \<open>The budget of a system\<close>

text \<open>A limit that is no number (\<open>None\<close>) is never reached.\<close>

record recursion_limits =
  rl_max_generations :: "rat option"
  rl_max_attempts :: "rat option"
  rl_max_total_runtime_ms :: "rat option"
  rl_max_total_cost_usd :: "rat option"
  rl_max_tool_calls :: "rat option"

record recursion_budget =
  rb_system_id :: string
  rb_tenant_id :: string
  rb_limits :: recursion_limits
  rb_generation_count :: nat
  rb_attempt_count :: nat
  rb_runtime_used_ms :: rat
  rb_cost_used_usd :: rat
  rb_tool_calls_used :: nat
  rb_mutation_bytes :: nat
  rb_state_version :: nat

definition reached :: "rat \<Rightarrow> rat option \<Rightarrow> bool" where
  "reached used limit = (case limit of None \<Rightarrow> False | Some l \<Rightarrow> used \<ge> l)"

definition checkRecursionBudget :: "recursion_budget \<Rightarrow> string list" where
  \<comment> \<open>the reasons; exhausted when there is one\<close>
  "checkRecursionBudget b = (let l = rb_limits b in
     reason_if (reached (of_nat (rb_generation_count b)) (rl_max_generations l)) ''max_generations reached''
     @ reason_if (reached (of_nat (rb_attempt_count b)) (rl_max_attempts l)) ''max_attempts_per_generation reached''
     @ reason_if (reached (rb_runtime_used_ms b) (rl_max_total_runtime_ms l)) ''max_total_runtime_ms reached''
     @ reason_if (reached (rb_cost_used_usd b) (rl_max_total_cost_usd l)) ''max_total_cost_usd reached''
     @ reason_if (reached (of_nat (rb_tool_calls_used b)) (rl_max_tool_calls l)) ''max_tool_calls reached'')"

section \<open>Specifications\<close>

text \<open>
  What the orchestration hands to \<open>buildImprovementSpec\<close>. The parts the code only stores and hashes (limits,
  thresholds, canary and rollback policy) are JSON values.
\<close>

record spec_input =
  sp_system_id :: string
  sp_tenant_id :: string
  sp_parent_generation_id :: "string option"
  sp_objective :: string
  sp_class :: improvement_class
  sp_allowed_paths :: "string list"
  sp_forbidden_paths :: "string list"
  sp_allowed_tool_changes :: "string list"
  sp_allowed_dependency_changes :: "string list"
  sp_allowed_model_changes :: "string list"
  sp_ceiling :: authority_ceiling
  sp_resource_limits :: json
  sp_evaluation_profile_id :: json
  sp_required_benchmarks :: "string list"
  sp_required_security_tests :: "string list"
  sp_promotion_thresholds :: json
  sp_canary_policy :: json
  sp_rollback_policy :: json
  sp_max_iterations :: json
  sp_max_runtime_ms :: json
  sp_max_cost_usd :: json
  sp_created_by :: string

record improvement_spec = spec_input +
  sp_spec_id :: string
  sp_created_at :: string
  sp_hash :: string

definition spec_entries :: "'a spec_input_scheme \<Rightarrow> (string \<times> json) list" where
  "spec_entries i = [(''system_id'', JStr (sp_system_id i)), (''tenant_id'', JStr (sp_tenant_id i)),
     (''parent_generation_id'', opt_json JStr (sp_parent_generation_id i)), (''objective'', JStr (sp_objective i)),
     (''improvement_class'', JStr (improvement_class_name (sp_class i))), (''allowed_mutation_paths'', jstrs (sp_allowed_paths i)),
     (''forbidden_mutation_paths'', jstrs (sp_forbidden_paths i)), (''allowed_tool_changes'', jstrs (sp_allowed_tool_changes i)),
     (''allowed_dependency_changes'', jstrs (sp_allowed_dependency_changes i)), (''allowed_model_changes'', jstrs (sp_allowed_model_changes i)),
     (''authority_ceiling'', ceiling_json (sp_ceiling i)), (''resource_limits'', sp_resource_limits i),
     (''evaluation_profile_id'', sp_evaluation_profile_id i), (''required_benchmarks'', jstrs (sp_required_benchmarks i)),
     (''required_security_tests'', jstrs (sp_required_security_tests i)), (''promotion_thresholds'', sp_promotion_thresholds i),
     (''canary_policy'', sp_canary_policy i), (''rollback_policy'', sp_rollback_policy i), (''max_iterations'', sp_max_iterations i),
     (''max_runtime_ms'', sp_max_runtime_ms i), (''max_cost_usd'', sp_max_cost_usd i), (''created_by'', JStr (sp_created_by i))]"

definition improvement_spec_checks :: "spec_input \<Rightarrow> (bool \<times> improvement_error) list" where
  \<comment> \<open>the checks of the shape of a field hold of the record\<close>
  "improvement_spec_checks i =
    [(safeId 200 (sp_system_id i), im_invalid ''system_id must be a safe identifier''),
     (safeId 200 (sp_tenant_id i), im_invalid ''tenant_id must be a safe identifier''),
     (case sp_parent_generation_id i of None \<Rightarrow> True | Some p \<Rightarrow> safeId 200 p, im_invalid ''parent_generation_id must be null or a safe identifier''),
     (sp_objective i \<noteq> [] \<and> js_length (sp_objective i) \<le> 4000, im_invalid ''objective must be a non-empty bounded string''),
     (sp_allowed_paths i \<noteq> [], im_invalid (''allowed_mutation_paths must declare at least one path '' @ em_dash @ '' an unbounded mutation scope is never valid'')),
     (\<not> contains_secret_value_fields (spec_entries i), im_invalid ''Improvement spec input rejected: a field contains a secret-shaped value'')]"

definition newSpecId :: "string \<Rightarrow> string" where "newSpecId u = ''spec_'' @ u"

definition buildImprovementSpec :: "(string \<Rightarrow> string) \<Rightarrow> spec_input \<Rightarrow> string \<Rightarrow> string \<Rightarrow> (improvement_error, improvement_spec) res" where
  "buildImprovementSpec sha i u now = rbind (run_checks (improvement_spec_checks i)) (\<lambda>_. Inr (spec_input.extend i (improvement_spec.fields (newSpecId u) now
     (hash_json sha (JObj (spec_entries i @ [(''spec_id'', JStr (newSpecId u)), (''created_at'', JStr now)]))))))"

section \<open>Proposals\<close>

definition proposal_texts :: "string list" where
  "proposal_texts = [''problem'', ''hypothesis'', ''target_metric'', ''expected_benefit'', ''risks'', ''evaluation_recommendation'']"

definition proposal_checks :: "json \<Rightarrow> (bool \<times> improvement_error) list" where
  "proposal_checks raw = (let f = (\<lambda>k. jfield k raw);
       estimate = (\<lambda>k. case f ''resource_estimate'' of Some e \<Rightarrow> jnumber (jfield k e) \<noteq> None | None \<Rightarrow> False) in
     (is_plain_object (Some raw), im_invalid ''Improvement proposal must be an object'')
     # map (\<lambda>k. (k \<in> set (proposal_texts @ [''mutation_scope'', ''resource_estimate'']), im_invalid (''Unknown proposal field: '' @ k))) (obj_keys raw)
     @ map (\<lambda>k. (str_where (\<lambda>s. s \<noteq> [] \<and> js_length s \<le> 4000) (f k), im_invalid (k @ '' must be a non-empty bounded string''))) proposal_texts
     @ [(list_where (list_all (\<lambda>x. str_where (\<lambda>_. True) (Some x))) (f ''mutation_scope''), im_invalid ''mutation_scope must be an array of strings''),
        (is_plain_object (f ''resource_estimate'') \<and> estimate ''runtime_ms'' \<and> estimate ''cost_usd'', im_invalid ''resource_estimate must be {runtime_ms, cost_usd}''),
        (improvement_find_secret raw = None, im_invalid (''Improvement proposal rejected: '' @ (case improvement_find_secret raw of Some r \<Rightarrow> r | None \<Rightarrow> [])))])"

definition validateImprovementProposal :: "json \<Rightarrow> (improvement_error, json) res" where
  "validateImprovementProposal raw = rbind (run_checks (proposal_checks raw)) (\<lambda>_. Inr raw)"

definition improvement_readPageOptions :: "jnum option \<Rightarrow> nat \<Rightarrow> (improvement_error, nat) res" where
  "improvement_readPageOptions limit maxSize = (let n = (case limit of None \<Rightarrow> Dec 50 0 | Some n \<Rightarrow> n) in
     if \<not> is_integer n \<or> int_of_num n \<le> 0 \<or> int_of_num n > int maxSize
     then Inl (im_invalid (''limit must be a positive integer <= '' @ show_nat maxSize)) else Inr (nat (int_of_num n)))"

end
