(* ===== verification/Improvement_Store.thy ===== *)
theory Improvement_Store
  imports Improvement_Promotion Client_Store
begin

text \<open>
  \<open>packages/improvement-store\<close>: the durable store of the improvement governor. A keyed table is the list of its
  rows in insertion order; fresh identifiers and the time are arguments; an error leaves the store as it was.
\<close>

section \<open>Tables\<close>

record improvement_system =
  sy_system_id :: string
  sy_tenant_id :: string
  sy_name :: string
  sy_accepted :: "string option"
  sy_created_by :: string
  sy_created_at :: string
  sy_state_version :: nat

record generation =
  gn_generation_id :: string
  gn_tenant_id :: string
  gn_system_id :: string
  gn_parent :: "string option"
  gn_root :: string
  gn_number :: nat
  gn_candidate_version :: string
  gn_status :: generation_state
  gn_class :: improvement_class
  gn_spec_hash :: string
  gn_source_before :: string
  gn_source_after :: "string option"
  gn_authority_before :: authority_ceiling
  gn_authority_after :: "authority_ceiling option"
  gn_authority_delta :: "authority_delta option"
  gn_created_by :: string
  gn_created_at :: string
  gn_state_version :: nat

record spec_row =
  sw_spec_id :: string
  sw_generation_id :: string
  sw_tenant_id :: string
  sw_spec :: improvement_spec
  sw_spec_hash :: string
  sw_created_at :: string

datatype expansion_status = XS_Pending | XS_Approved | XS_Rejected

record expansion_request =
  xr_request_id :: string
  xr_generation_id :: string
  xr_tenant_id :: string
  xr_delta :: authority_delta
  xr_reason :: string
  xr_risk :: risk_class
  xr_requested_by :: string
  xr_status :: expansion_status
  xr_approved_by :: "string option"
  xr_decision_reason :: "string option"
  xr_created_at :: string
  xr_decided_at :: "string option"
  xr_state_version :: nat

record promotion_decision =
  pd_decision_id :: string
  pd_tenant_id :: string
  pd_generation_id :: string
  pd_parent :: "string option"
  pd_profile_hash :: string
  pd_spec_hash :: string
  pd_source_hash :: string
  pd_benchmark_hash :: string
  pd_security_hash :: string
  pd_capability_hash :: string
  pd_authority_hash :: "string option"
  pd_decision :: promotion_status
  pd_reason :: string
  pd_decided_by :: string
  pd_decided_at :: string

datatype canary_status = CS_Running | CS_Passed | CS_Failed | CS_Indeterminate

record canary_run =
  cn_canary_id :: string
  cn_tenant_id :: string
  cn_generation_id :: string
  cn_policy_hash :: string
  cn_status :: canary_status
  cn_actions :: nat
  cn_failures :: nat
  cn_terminations :: nat
  cn_cost_usd :: rat
  cn_started_at :: string
  cn_ended_at :: "string option"
  cn_state_version :: nat

datatype rollback_status = RS_Rolled_Back | RS_Indeterminate | RS_Failed

record rollback_record =
  rk_rollback_id :: string
  rk_tenant_id :: string
  rk_generation_id :: string
  rk_target :: string
  rk_trigger :: string
  rk_status :: rollback_status
  rk_evidence_ref :: "string option"
  rk_initiated_by :: string
  rk_initiated_at :: string
  rk_completed_at :: "string option"

record improvement_store =
  im_systems :: "improvement_system list"
  im_generations :: "generation list"
  im_specs :: "spec_row list"
  im_budgets :: "recursion_budget list"
  im_expansions :: "expansion_request list"
  im_decisions :: "promotion_decision list"
  im_canaries :: "canary_run list"
  im_rollbacks :: "rollback_record list"

definition improvement_start :: improvement_store where
  "improvement_start = \<lparr>im_systems = [], im_generations = [], im_specs = [], im_budgets = [], im_expansions = [], im_decisions = [],
     im_canaries = [], im_rollbacks = []\<rparr>"

definition upd_where :: "('r \<Rightarrow> bool) \<Rightarrow> ('r \<Rightarrow> 'r) \<Rightarrow> 'r list \<Rightarrow> 'r list" where
  \<comment> \<open>\<open>UPDATE ... WHERE\<close>\<close>
  "upd_where p f rows = map (\<lambda>r. if p r then f r else r) rows"

definition hits :: "('r \<Rightarrow> bool) \<Rightarrow> 'r list \<Rightarrow> nat" where
  \<comment> \<open>the \<open>changes\<close> of that update\<close>
  "hits p rows = length (filter p rows)"

definition im_not_found :: "string \<Rightarrow> string \<Rightarrow> string \<Rightarrow> improvement_error" where
  "im_not_found what i t = Improvement_Error IM_NOT_FOUND (''No '' @ what @ '' '' @ i @ '' for tenant '' @ t)"

section \<open>Systems\<close>

definition getSystem :: "string \<Rightarrow> string \<Rightarrow> improvement_store \<Rightarrow> (improvement_error, improvement_system) res" where
  "getSystem t i st = (case find (\<lambda>r. sy_tenant_id r = t \<and> sy_system_id r = i) (im_systems st) of
     None \<Rightarrow> Inl (im_not_found ''system'' i t) | Some r \<Rightarrow> Inr r)"

definition newSystemId :: "string \<Rightarrow> string" where "newSystemId u = ''sys_'' @ u"

definition createSystem :: "string \<Rightarrow> string \<Rightarrow> string \<Rightarrow> string \<Rightarrow> string \<Rightarrow> improvement_store
    \<Rightarrow> (improvement_error, improvement_store \<times> improvement_system) res" where
  "createSystem t name by u now st =
     (if newSystemId u \<in> sy_system_id ` set (im_systems st) then Inl (Improvement_Sql ''improvement_systems.system_id'')
      else let r = \<lparr>sy_system_id = newSystemId u, sy_tenant_id = t, sy_name = name, sy_accepted = None, sy_created_by = by, sy_created_at = now, sy_state_version = 0\<rparr> in
        Inr (st\<lparr>im_systems := im_systems st @ [r]\<rparr>, r))"

definition findSystemByName :: "string \<Rightarrow> string \<Rightarrow> improvement_store \<Rightarrow> improvement_system option" where
  "findSystemByName t name st = find (\<lambda>r. sy_tenant_id r = t \<and> sy_name r = name) (im_systems st)"

definition accept_row :: "string \<Rightarrow> improvement_system \<Rightarrow> improvement_system" where
  "accept_row i r = r\<lparr>sy_accepted := Some i, sy_state_version := sy_state_version r + 1\<rparr>"

definition setAcceptedGeneration :: "string \<Rightarrow> string \<Rightarrow> string \<Rightarrow> improvement_store \<Rightarrow> (improvement_error, improvement_store) res" where
  "setAcceptedGeneration t s i st = (let p = (\<lambda>r. sy_tenant_id r = t \<and> sy_system_id r = s) in
     if hits p (im_systems st) \<noteq> 1 then Inl (im_not_found ''system'' s t)
     else Inr (st\<lparr>im_systems := upd_where p (accept_row i) (im_systems st)\<rparr>))"

section \<open>Generations\<close>

definition tenant_generations :: "string \<Rightarrow> improvement_store \<Rightarrow> generation list" where
  "tenant_generations t st = filter (\<lambda>r. gn_tenant_id r = t) (im_generations st)"

definition getGeneration :: "string \<Rightarrow> string \<Rightarrow> improvement_store \<Rightarrow> (improvement_error, generation) res" where
  "getGeneration t i st = (case find (\<lambda>r. gn_generation_id r = i) (tenant_generations t st) of
     None \<Rightarrow> Inl (im_not_found ''generation'' i t) | Some r \<Rightarrow> Inr r)"

record generation_input =
  gi_tenant_id :: string
  gi_system_id :: string
  gi_parent :: "string option"
  gi_candidate_version :: string
  gi_class :: improvement_class
  gi_spec_hash :: string
  gi_source_before :: string
  gi_authority_before :: authority_ceiling
  gi_created_by :: string

definition newGenerationId :: "string \<Rightarrow> string" where "newGenerationId u = ''gen_'' @ u"

definition new_generation :: "generation_input \<Rightarrow> string \<Rightarrow> string \<Rightarrow> nat \<Rightarrow> string \<Rightarrow> generation" where
  "new_generation i gid r0 n now = \<lparr>gn_generation_id = gid, gn_tenant_id = gi_tenant_id i, gn_system_id = gi_system_id i, gn_parent = gi_parent i,
     gn_root = r0, gn_number = n, gn_candidate_version = gi_candidate_version i, gn_status = GN_Proposed, gn_class = gi_class i,
     gn_spec_hash = gi_spec_hash i, gn_source_before = gi_source_before i, gn_source_after = None, gn_authority_before = gi_authority_before i,
     gn_authority_after = None, gn_authority_delta = None, gn_created_by = gi_created_by i, gn_created_at = now, gn_state_version = 0\<rparr>"

definition createGeneration :: "generation_input \<Rightarrow> string \<Rightarrow> string \<Rightarrow> improvement_store \<Rightarrow> (improvement_error, improvement_store \<times> generation) res" where
  "createGeneration i u now st = (let gid = newGenerationId u in
     rbind (case gi_parent i of None \<Rightarrow> Inr (gid, 0)
       | Some p \<Rightarrow> (case getGeneration (gi_tenant_id i) p st of
           Inl _ \<Rightarrow> Inl (Improvement_Error IM_NOT_FOUND (''Parent generation '' @ p @ '' not found for tenant '' @ gi_tenant_id i))
         | Inr g \<Rightarrow> Inr (if gn_root g = [] then gid else gn_root g, gn_number g + 1))) (\<lambda>(r0, n).
     if gi_parent i = Some gid then Inl (im_invalid ''A generation cannot be its own parent'')
     else if gid \<in> gn_generation_id ` set (im_generations st) then Inl (Improvement_Sql ''improvement_generations.generation_id'')
     else let r = new_generation i gid r0 n now in Inr (st\<lparr>im_generations := im_generations st @ [r]\<rparr>, r)))"

definition listGenerations :: "string \<Rightarrow> string \<Rightarrow> jnum option \<Rightarrow> nat \<Rightarrow> improvement_store \<Rightarrow> (improvement_error, generation list \<times> nat option) res" where
  \<comment> \<open>\<open>offset\<close>: the number the cursor holds, 0 without one\<close>
  "listGenerations t s limit offset st = rbind (improvement_readPageOptions limit 200) (\<lambda>n.
     Inr (page_of n offset (sort_key (\<lambda>r. (gn_created_at r, gn_generation_id r)) (filter (\<lambda>r. gn_system_id r = s) (tenant_generations t st)))))"

text \<open>The walk to the root; \<open>rows\<close> are those of the tenant.\<close>

definition lineage_cycle :: "string \<Rightarrow> string \<Rightarrow> improvement_error" where
  "lineage_cycle what i = Improvement_Error IM_LINEAGE_CYCLE (''Lineage cycle detected while walking '' @ what @ '' of '' @ i)"

definition unseen :: "string list \<Rightarrow> generation list \<Rightarrow> nat" where
  "unseen visited rows = length (filter (\<lambda>r. gn_generation_id r \<notin> set visited) rows)"

lemma filter_less: "x \<in> set xs \<Longrightarrow> p x \<Longrightarrow> \<not> q x \<Longrightarrow> (\<And>y. q y \<Longrightarrow> p y) \<Longrightarrow> length (filter q xs) < length (filter p xs)"
proof (induction xs)
  case (Cons a xs)
  have "length (filter q xs) \<le> length (filter p xs)" using Cons(5) by (induction xs) (auto simp: le_SucI)
  with Cons show ?case by (auto simp: less_Suc_eq_le le_SucI)
qed simp

lemma unseen_less: "r \<in> set rows \<Longrightarrow> gn_generation_id r \<notin> set visited \<Longrightarrow> unseen (gn_generation_id r # visited) rows < unseen visited rows"
  unfolding unseen_def by (rule filter_less) auto

function ancestors_from :: "string \<Rightarrow> generation list \<Rightarrow> string list \<Rightarrow> string option \<Rightarrow> generation list \<Rightarrow> (improvement_error, generation list) res" where
  \<comment> \<open>\<open>cursor\<close> and what was collected so far, the root first\<close>
  "ancestors_from i rows visited None found = Inr found"
| "ancestors_from i rows visited (Some c) found = (if c \<in> set visited then Inl (lineage_cycle ''ancestors'' i)
     else (case find (\<lambda>r. gn_generation_id r = c) rows of None \<Rightarrow> Inr found
       | Some r \<Rightarrow> ancestors_from i rows (c # visited) (gn_parent r) (r # found)))"
  by pat_completeness auto
termination
  by (relation "measure (\<lambda>(i, rows, visited, cursor, found). unseen visited rows)") (auto dest!: find_SomeD intro: unseen_less)

text \<open>The walk down: \<open>frontier\<close> is the stack, its top first.\<close>

definition children_of :: "string \<Rightarrow> generation list \<Rightarrow> generation list" where
  "children_of i rows = filter (\<lambda>r. gn_parent r = Some i) rows"

lemma unseen_children:
  assumes "set cs \<subseteq> set rows" "distinct (map gn_generation_id cs)" "set (map gn_generation_id cs) \<inter> set visited = {}"
  shows "unseen (map gn_generation_id cs @ visited) rows + length cs \<le> unseen visited rows"
  using assms
proof (induction cs)
  case (Cons c cs)
  have "unseen (gn_generation_id c # map gn_generation_id cs @ visited) rows < unseen (map gn_generation_id cs @ visited) rows"
    using Cons by (intro unseen_less) auto
  moreover have "unseen (map gn_generation_id cs @ visited) rows + length cs \<le> unseen visited rows" using Cons by auto
  ultimately show ?case by simp
qed simp

function descendants_from :: "string \<Rightarrow> generation list \<Rightarrow> string list \<Rightarrow> string list \<Rightarrow> generation list \<Rightarrow> (improvement_error, generation list) res" where
  "descendants_from i rows visited [] found = Inr found"
| "descendants_from i rows visited (c # frontier) found = (let cs = children_of c rows; ids = map gn_generation_id cs in
     if \<not> distinct ids \<or> set ids \<inter> set visited \<noteq> {} then Inl (lineage_cycle ''descendants'' i)
     else descendants_from i rows (ids @ visited) (rev ids @ frontier) (found @ cs))"
  by pat_completeness auto
termination
proof (relation "measure (\<lambda>(i, rows, visited, frontier, found). 2 * unseen visited rows + length frontier)")
  fix i :: string and rows visited c frontier found cs ids
  assume a: "cs = children_of c rows" "ids = map gn_generation_id cs" "\<not> (\<not> distinct ids \<or> set ids \<inter> set visited \<noteq> {})"
  have "unseen (map gn_generation_id cs @ visited) rows + length cs \<le> unseen visited rows"
    using a by (intro unseen_children) (auto simp: children_of_def)
  then show "((i, rows, ids @ visited, rev ids @ frontier, found @ cs), i, rows, visited, c # frontier, found)
      \<in> measure (\<lambda>(i, rows, visited, frontier, found). 2 * unseen visited rows + length frontier)" using a by simp
qed simp

definition getLineage :: "string \<Rightarrow> string \<Rightarrow> improvement_store \<Rightarrow> (improvement_error, generation list \<times> generation list) res" where
  "getLineage t i st = rbind (getGeneration t i st) (\<lambda>start. let rows = tenant_generations t st in
     rbind (ancestors_from i rows [i] (gn_parent start) []) (\<lambda>ancestors.
     rbind (descendants_from i rows [i] [i] []) (\<lambda>descendants. Inr (ancestors, descendants))))"

record transition_extra =
  tx_source_after :: "string option"
  tx_authority_after :: "authority_ceiling option"
  tx_authority_delta :: "authority_delta option"

definition no_extra :: transition_extra where
  "no_extra = \<lparr>tx_source_after = None, tx_authority_after = None, tx_authority_delta = None\<rparr>"

definition keep :: "'a option \<Rightarrow> 'a option \<Rightarrow> 'a option" where
  \<comment> \<open>\<open>x ?? y\<close>\<close>
  "keep x y = (case x of None \<Rightarrow> y | Some v \<Rightarrow> Some v)"

definition move_generation :: "generation_state \<Rightarrow> transition_extra \<Rightarrow> generation \<Rightarrow> generation" where
  "move_generation s x r = r\<lparr>gn_status := s, gn_source_after := keep (tx_source_after x) (gn_source_after r),
     gn_authority_after := keep (tx_authority_after x) (gn_authority_after r), gn_authority_delta := keep (tx_authority_delta x) (gn_authority_delta r),
     gn_state_version := gn_state_version r + 1\<rparr>"

definition transitionGeneration :: "string \<Rightarrow> string \<Rightarrow> nat \<Rightarrow> generation_state \<Rightarrow> transition_extra \<Rightarrow> improvement_store
    \<Rightarrow> (improvement_error, improvement_store \<times> generation) res" where
  "transitionGeneration t i expected s x st = rbind (getGeneration t i st) (\<lambda>current.
     if gn_state_version current \<noteq> expected then Inl (im_conflict (''Generation state has changed '' @ em_dash @ '' retry with the current version''))
     else if \<not> canTransition (gn_status current) s
     then Inl (im_conflict (''Illegal transition '' @ generation_state_name (gn_status current) @ '' -> '' @ generation_state_name s))
     else let p = (\<lambda>r. gn_tenant_id r = t \<and> gn_generation_id r = i \<and> gn_state_version r = expected) in
       if hits p (im_generations st) \<noteq> 1 then Inl (im_conflict ''Generation state changed concurrently'')
       else let st1 = st\<lparr>im_generations := upd_where p (move_generation s x) (im_generations st)\<rparr> in
         rbind (if s = GN_Promoted then setAcceptedGeneration t (gn_system_id current) i st1 else Inr st1) (\<lambda>st2.
         rbind (getGeneration t i st2) (\<lambda>r. Inr (st2, r))))"

end
