(* ===== verification/Improvement_Records.thy ===== *)
theory Improvement_Records
  imports Improvement_Store
begin

text \<open>
  The rest of \<open>packages/improvement-store\<close>: specifications, recursion budgets, requests for more authority,
  decisions to promote, canary runs and rollbacks.
\<close>

section \<open>Specifications\<close>

definition saveSpec :: "string \<Rightarrow> string \<Rightarrow> improvement_spec \<Rightarrow> string \<Rightarrow> improvement_store \<Rightarrow> (improvement_error, improvement_store) res" where
  "saveSpec t g spec now st = (let i = sp_spec_id spec in
     case find (\<lambda>r. sw_spec_id r = i) (im_specs st) of
       Some r \<Rightarrow> if sw_spec_hash r \<noteq> sp_hash spec
         then Inl (Improvement_Error IM_SPEC_IMMUTABLE (''Spec '' @ i @ '' already exists with a different hash '' @ em_dash @ '' specs are immutable once saved''))
         else Inr st
     | None \<Rightarrow> Inr (st\<lparr>im_specs := im_specs st @ [\<lparr>sw_spec_id = i, sw_generation_id = g, sw_tenant_id = t, sw_spec = spec,
           sw_spec_hash = sp_hash spec, sw_created_at = now\<rparr>]\<rparr>))"

definition getSpec :: "string \<Rightarrow> string \<Rightarrow> improvement_store \<Rightarrow> (improvement_error, improvement_spec) res" where
  "getSpec t i st = (case find (\<lambda>r. sw_tenant_id r = t \<and> sw_spec_id r = i) (im_specs st) of
     None \<Rightarrow> Inl (im_not_found ''spec'' i t) | Some r \<Rightarrow> Inr (sw_spec r))"

section \<open>Recursion budgets\<close>

definition budget_of :: "string \<Rightarrow> string \<Rightarrow> improvement_store \<Rightarrow> recursion_budget option" where
  "budget_of t s st = find (\<lambda>b. rb_tenant_id b = t \<and> rb_system_id b = s) (im_budgets st)"

definition getRecursionBudget :: "string \<Rightarrow> string \<Rightarrow> improvement_store \<Rightarrow> (improvement_error, recursion_budget) res" where
  "getRecursionBudget t s st = (case budget_of t s st of
     None \<Rightarrow> Inl (Improvement_Error IM_NOT_FOUND (''No recursion budget for system '' @ s)) | Some b \<Rightarrow> Inr b)"

definition new_budget :: "string \<Rightarrow> string \<Rightarrow> recursion_limits \<Rightarrow> recursion_budget" where
  "new_budget t s limits = \<lparr>rb_system_id = s, rb_tenant_id = t, rb_limits = limits, rb_generation_count = 0, rb_attempt_count = 0,
     rb_runtime_used_ms = 0, rb_cost_used_usd = 0, rb_tool_calls_used = 0, rb_mutation_bytes = 0, rb_state_version = 0\<rparr>"

definition getOrCreateRecursionBudget :: "string \<Rightarrow> string \<Rightarrow> recursion_limits \<Rightarrow> improvement_store
    \<Rightarrow> (improvement_error, improvement_store \<times> recursion_budget) res" where
  "getOrCreateRecursionBudget t s limits st = (case budget_of t s st of
     Some b \<Rightarrow> Inr (st, b)
   | None \<Rightarrow> if s \<in> rb_system_id ` set (im_budgets st) then Inl (Improvement_Sql ''recursion_budgets.system_id'')
       else let st' = st\<lparr>im_budgets := im_budgets st @ [new_budget t s limits]\<rparr> in
         rbind (getRecursionBudget t s st') (\<lambda>b. Inr (st', b)))"

record budget_use =
  bu_generations :: nat
  bu_attempts :: nat
  bu_runtime_ms :: rat
  bu_cost_usd :: rat
  bu_tool_calls :: nat
  bu_mutation_bytes :: nat

definition one_generation :: budget_use where
  "one_generation = \<lparr>bu_generations = 1, bu_attempts = 0, bu_runtime_ms = 0, bu_cost_usd = 0, bu_tool_calls = 0, bu_mutation_bytes = 0\<rparr>"

definition use_budget :: "budget_use \<Rightarrow> recursion_budget \<Rightarrow> recursion_budget" where
  "use_budget u b = b\<lparr>rb_generation_count := rb_generation_count b + bu_generations u, rb_attempt_count := rb_attempt_count b + bu_attempts u,
     rb_runtime_used_ms := rb_runtime_used_ms b + bu_runtime_ms u, rb_cost_used_usd := rb_cost_used_usd b + bu_cost_usd u,
     rb_tool_calls_used := rb_tool_calls_used b + bu_tool_calls u, rb_mutation_bytes := rb_mutation_bytes b + bu_mutation_bytes u,
     rb_state_version := rb_state_version b + 1\<rparr>"

definition consumeRecursionBudget :: "string \<Rightarrow> string \<Rightarrow> nat \<Rightarrow> budget_use \<Rightarrow> improvement_store
    \<Rightarrow> (improvement_error, improvement_store \<times> recursion_budget) res" where
  "consumeRecursionBudget t s expected u st = (let p = (\<lambda>b. rb_tenant_id b = t \<and> rb_system_id b = s \<and> rb_state_version b = expected) in
     if hits p (im_budgets st) \<noteq> 1 then Inl (im_conflict ''Recursion budget changed concurrently'')
     else let st' = st\<lparr>im_budgets := upd_where p (use_budget u) (im_budgets st)\<rparr> in
       rbind (getRecursionBudget t s st') (\<lambda>b. Inr (st', b)))"

section \<open>Requests for more authority\<close>

definition getAuthorityExpansionRequest :: "string \<Rightarrow> string \<Rightarrow> improvement_store \<Rightarrow> (improvement_error, expansion_request) res" where
  "getAuthorityExpansionRequest t i st = (case find (\<lambda>r. xr_tenant_id r = t \<and> xr_request_id r = i) (im_expansions st) of
     None \<Rightarrow> Inl (im_not_found ''authority expansion request'' i t) | Some r \<Rightarrow> Inr r)"

definition newExpansionRequestId :: "string \<Rightarrow> string" where "newExpansionRequestId u = ''aexp_'' @ u"

definition createAuthorityExpansionRequest :: "string \<Rightarrow> string \<Rightarrow> authority_delta \<Rightarrow> string \<Rightarrow> risk_class \<Rightarrow> string \<Rightarrow> string \<Rightarrow> string
    \<Rightarrow> improvement_store \<Rightarrow> (improvement_error, improvement_store \<times> expansion_request) res" where
  "createAuthorityExpansionRequest t g delta reason risk requester u now st = (let i = newExpansionRequestId u in
     if i \<in> xr_request_id ` set (im_expansions st) then Inl (Improvement_Sql ''authority_expansion_requests.request_id'')
     else let r = \<lparr>xr_request_id = i, xr_generation_id = g, xr_tenant_id = t, xr_delta = delta, xr_reason = reason, xr_risk = risk,
         xr_requested_by = requester, xr_status = XS_Pending, xr_approved_by = None, xr_decision_reason = None, xr_created_at = now,
         xr_decided_at = None, xr_state_version = 0\<rparr> in
       Inr (st\<lparr>im_expansions := im_expansions st @ [r]\<rparr>, r))"

definition decide_expansion :: "bool \<Rightarrow> string \<Rightarrow> string \<Rightarrow> string \<Rightarrow> expansion_request \<Rightarrow> expansion_request" where
  "decide_expansion approve approver reason now r = r\<lparr>xr_status := (if approve then XS_Approved else XS_Rejected), xr_approved_by := Some approver,
     xr_decision_reason := Some reason, xr_decided_at := Some now, xr_state_version := xr_state_version r + 1\<rparr>"

definition decideAuthorityExpansionRequest :: "string \<Rightarrow> string \<Rightarrow> nat \<Rightarrow> bool \<Rightarrow> string \<Rightarrow> string \<Rightarrow> string \<Rightarrow> improvement_store
    \<Rightarrow> (improvement_error, improvement_store \<times> expansion_request) res" where
  \<comment> \<open>\<open>approve\<close>: the decision is APPROVED, not REJECTED\<close>
  "decideAuthorityExpansionRequest t i expected approve approver reason now st =
     (let p = (\<lambda>r. xr_tenant_id r = t \<and> xr_request_id r = i \<and> xr_state_version r = expected \<and> xr_status r = XS_Pending) in
     if hits p (im_expansions st) \<noteq> 1 then Inl (im_conflict ''Authority expansion request already decided or changed concurrently'')
     else let st' = st\<lparr>im_expansions := upd_where p (decide_expansion approve approver reason now) (im_expansions st)\<rparr> in
       rbind (getAuthorityExpansionRequest t i st') (\<lambda>r. Inr (st', r)))"

section \<open>Decisions to promote\<close>

definition newPromotionDecisionId :: "string \<Rightarrow> string" where "newPromotionDecisionId u = ''promo_'' @ u"

definition recordPromotionDecision :: "string \<Rightarrow> promotion_decision \<Rightarrow> string \<Rightarrow> improvement_store
    \<Rightarrow> (improvement_error, improvement_store \<times> promotion_decision) res" where
  \<comment> \<open>identifier and tenant of the decision are set here\<close>
  "recordPromotionDecision t d u st = (let i = newPromotionDecisionId u; r = d\<lparr>pd_decision_id := i, pd_tenant_id := t\<rparr> in
     if i \<in> pd_decision_id ` set (im_decisions st) then Inl (Improvement_Sql ''promotion_decisions.decision_id'')
     else Inr (st\<lparr>im_decisions := im_decisions st @ [r]\<rparr>, r))"

definition listPromotionDecisions :: "string \<Rightarrow> string \<Rightarrow> improvement_store \<Rightarrow> promotion_decision list" where
  "listPromotionDecisions t g st = sort_key pd_decided_at (filter (\<lambda>r. pd_tenant_id r = t \<and> pd_generation_id r = g) (im_decisions st))"

section \<open>Canary runs\<close>

definition getCanaryRun :: "string \<Rightarrow> string \<Rightarrow> improvement_store \<Rightarrow> (improvement_error, canary_run) res" where
  "getCanaryRun t i st = (case find (\<lambda>r. cn_tenant_id r = t \<and> cn_canary_id r = i) (im_canaries st) of
     None \<Rightarrow> Inl (im_not_found ''canary run'' i t) | Some r \<Rightarrow> Inr r)"

definition newCanaryRunId :: "string \<Rightarrow> string" where "newCanaryRunId u = ''canary_'' @ u"

definition startCanaryRun :: "string \<Rightarrow> string \<Rightarrow> string \<Rightarrow> string \<Rightarrow> string \<Rightarrow> improvement_store
    \<Rightarrow> (improvement_error, improvement_store \<times> canary_run) res" where
  "startCanaryRun t g policy u now st = (let i = newCanaryRunId u in
     if i \<in> cn_canary_id ` set (im_canaries st) then Inl (Improvement_Sql ''canary_runs.canary_id'')
     else let r = \<lparr>cn_canary_id = i, cn_tenant_id = t, cn_generation_id = g, cn_policy_hash = policy, cn_status = CS_Running, cn_actions = 0,
         cn_failures = 0, cn_terminations = 0, cn_cost_usd = 0, cn_started_at = now, cn_ended_at = None, cn_state_version = 0\<rparr> in
       Inr (st\<lparr>im_canaries := im_canaries st @ [r]\<rparr>, r))"

definition update_canary :: "string \<Rightarrow> string \<Rightarrow> nat \<Rightarrow> (canary_run \<Rightarrow> canary_run) \<Rightarrow> improvement_store
    \<Rightarrow> (improvement_error, improvement_store \<times> canary_run) res" where
  \<comment> \<open>the update both operations share: of a running canary only\<close>
  "update_canary t i expected f st =
     (let p = (\<lambda>r. cn_tenant_id r = t \<and> cn_canary_id r = i \<and> cn_state_version r = expected \<and> cn_status r = CS_Running) in
     if hits p (im_canaries st) \<noteq> 1 then Inl (im_conflict ''Canary run already ended or changed concurrently'')
     else let st' = st\<lparr>im_canaries := upd_where p f (im_canaries st)\<rparr> in
       rbind (getCanaryRun t i st') (\<lambda>r. Inr (st', r)))"

definition recordCanaryObservation :: "string \<Rightarrow> string \<Rightarrow> nat \<Rightarrow> nat \<Rightarrow> nat \<Rightarrow> nat \<Rightarrow> rat \<Rightarrow> improvement_store
    \<Rightarrow> (improvement_error, improvement_store \<times> canary_run) res" where
  "recordCanaryObservation t i expected actions failures terminations cost = update_canary t i expected (\<lambda>r.
     r\<lparr>cn_actions := cn_actions r + actions, cn_failures := cn_failures r + failures, cn_terminations := cn_terminations r + terminations,
       cn_cost_usd := cn_cost_usd r + cost, cn_state_version := cn_state_version r + 1\<rparr>)"

definition endCanaryRun :: "string \<Rightarrow> string \<Rightarrow> nat \<Rightarrow> canary_status \<Rightarrow> string \<Rightarrow> improvement_store
    \<Rightarrow> (improvement_error, improvement_store \<times> canary_run) res" where
  "endCanaryRun t i expected status now = update_canary t i expected (\<lambda>r.
     r\<lparr>cn_status := status, cn_ended_at := Some now, cn_state_version := cn_state_version r + 1\<rparr>)"

section \<open>Rollbacks\<close>

definition getRollback :: "string \<Rightarrow> string \<Rightarrow> improvement_store \<Rightarrow> (improvement_error, rollback_record) res" where
  "getRollback t i st = (case find (\<lambda>r. rk_tenant_id r = t \<and> rk_rollback_id r = i) (im_rollbacks st) of
     None \<Rightarrow> Inl (im_not_found ''rollback record'' i t) | Some r \<Rightarrow> Inr r)"

definition newRollbackRecordId :: "string \<Rightarrow> string" where "newRollbackRecordId u = ''rb_'' @ u"

definition initiateRollback :: "string \<Rightarrow> string \<Rightarrow> string \<Rightarrow> string \<Rightarrow> string \<Rightarrow> string \<Rightarrow> string \<Rightarrow> improvement_store
    \<Rightarrow> (improvement_error, improvement_store \<times> rollback_record) res" where
  "initiateRollback t g target trigger initiator u now st = rbind (getGeneration t g st) (\<lambda>_. rbind (getGeneration t target st) (\<lambda>_.
     let i = newRollbackRecordId u in
     if i \<in> rk_rollback_id ` set (im_rollbacks st) then Inl (Improvement_Sql ''rollback_records.rollback_id'')
     else let r = \<lparr>rk_rollback_id = i, rk_tenant_id = t, rk_generation_id = g, rk_target = target, rk_trigger = trigger, rk_status = RS_Indeterminate,
         rk_evidence_ref = None, rk_initiated_by = initiator, rk_initiated_at = now, rk_completed_at = None\<rparr> in
       Inr (st\<lparr>im_rollbacks := im_rollbacks st @ [r]\<rparr>, r)))"

definition completeRollback :: "string \<Rightarrow> string \<Rightarrow> rollback_status \<Rightarrow> string option \<Rightarrow> string \<Rightarrow> improvement_store
    \<Rightarrow> (improvement_error, improvement_store \<times> rollback_record) res" where
  "completeRollback t i status evidence now st =
     (let p = (\<lambda>r. rk_tenant_id r = t \<and> rk_rollback_id r = i \<and> rk_status r = RS_Indeterminate);
          f = (\<lambda>r. r\<lparr>rk_status := status, rk_evidence_ref := evidence, rk_completed_at := Some now\<rparr>) in
     if hits p (im_rollbacks st) \<noteq> 1 then Inl (im_conflict ''Rollback record already completed or not found'')
     else let st' = st\<lparr>im_rollbacks := upd_where p f (im_rollbacks st)\<rparr> in
       rbind (getRollback t i st') (\<lambda>r. Inr (st', r)))"

definition listRollbacks :: "string \<Rightarrow> string \<Rightarrow> improvement_store \<Rightarrow> rollback_record list" where
  "listRollbacks t g st = sort_key rk_initiated_at (filter (\<lambda>r. rk_tenant_id r = t \<and> rk_generation_id r = g) (im_rollbacks st))"

end
