(* ===== verification/Improvement_Evaluation.thy ===== *)
theory Improvement_Evaluation
  imports Improvement_Records
begin

text \<open>
  \<open>packages/improvement-evaluator\<close> and the directory trees of \<open>packages/improvement-core\<close>: what changed between
  two workspaces, and the evaluation of a candidate from what was measured. A directory is the list of its files,
  each with its path below the root and its content; what a command does is an argument.
\<close>

section \<open>Directory trees\<close>

type_synonym tree = "(string \<times> string) list"

definition ignored_dir_names :: "string list" where
  "ignored_dir_names = [''node_modules'', ''.git'', ''dist'', ''.workspaces'']"

definition tree_walked :: "string \<Rightarrow> bool" where
  \<comment> \<open>no name on the way is ignored\<close>
  "tree_walked path = list_all (\<lambda>part. part \<notin> set ignored_dir_names) (str_split (CHR ''/'') path)"

definition walkFiles :: "tree \<Rightarrow> tree" where
  "walkFiles t = filter (\<lambda>f. tree_walked (fst f)) t"

definition hashDirectoryTree :: "(string \<Rightarrow> string) \<Rightarrow> (string \<Rightarrow> string) \<Rightarrow> tree \<Rightarrow> string" where
  \<comment> \<open>\<open>sha\<close>: the digest in hexadecimal, \<open>raw\<close>: its bytes\<close>
  "hashDirectoryTree sha raw t = sha (concat (map (\<lambda>(path, content). path @ CHR 0x00 # raw content) (sort_key fst (walkFiles t))))"

datatype file_change = FC_Added | FC_Removed | FC_Modified

definition diffDirectoryTrees :: "(string \<Rightarrow> string) \<Rightarrow> tree \<Rightarrow> tree \<Rightarrow> (string \<times> file_change) list" where
  "diffDirectoryTrees sha before after =
     (let b = map_of (map (\<lambda>(p, c). (p, sha c)) (walkFiles before)); a = map_of (map (\<lambda>(p, c). (p, sha c)) (walkFiles after));
          changed = concat (map (\<lambda>(p, c). case b p of None \<Rightarrow> [(p, FC_Added)] | Some h \<Rightarrow> if h \<noteq> sha c then [(p, FC_Modified)] else []) (walkFiles after));
          gone = map (\<lambda>(p, c). (p, FC_Removed)) (filter (\<lambda>(p, c). a p = None) (walkFiles before)) in
      sort_key fst (changed @ gone))"

definition mutationScale :: "(string \<times> file_change) list \<Rightarrow> tree \<Rightarrow> nat \<times> nat" where
  \<comment> \<open>changed files and bytes; a file that is gone counts no bytes\<close>
  "mutationScale changes t = (length changes, sum_list (map (\<lambda>(p, c). if c = FC_Removed then 0 else case map_of t p of None \<Rightarrow> 0 | Some s \<Rightarrow> length s) changes))"

section \<open>The evaluation of a candidate\<close>

text \<open>\<open>None\<close> when the command could not be run.\<close>

record command_outcome =
  co_exit_code :: "int option"
  co_stdout :: string

type_synonym run_command = "string list \<Rightarrow> command_outcome option"

definition runCommand :: "run_command \<Rightarrow> string list \<Rightarrow> command_outcome option" where
  "runCommand spawn command = (if command = [] then None else spawn command)"

definition suite_outcome :: "run_command \<Rightarrow> string list option \<Rightarrow> bool \<times> bool" where
  \<comment> \<open>whether the suite ran, and whether it passed; without a suite both hold\<close>
  "suite_outcome spawn command = (case command of None \<Rightarrow> (True, True)
     | Some c \<Rightarrow> (case runCommand spawn c of None \<Rightarrow> (False, False) | Some o' \<Rightarrow> (True, co_exit_code o' = Some 0)))"

definition read_score :: "string \<Rightarrow> score option" where
  \<comment> \<open>\<open>Number(stdout.trim())\<close>; \<open>None\<close> is \<open>NaN\<close>\<close>
  "read_score s = (let t = str_trim s in
     if t = ''Infinity'' \<or> t = ''+Infinity'' then Some (Infinite True)
     else if t = ''-Infinity'' then Some (Infinite False)
     else map_option Finite (js_number t))"

record benchmark_spec =
  bs_benchmark_id :: string
  bs_command :: "string list"
  bs_threshold :: jnum
  bs_parent_score :: jnum

definition run_benchmark :: "run_command \<Rightarrow> string \<Rightarrow> benchmark_spec \<Rightarrow> benchmark_result option" where
  "run_benchmark spawn generation b = Option.bind (runCommand spawn (bs_command b)) (\<lambda>o'.
     Option.bind (read_score (co_stdout o')) (\<lambda>x.
     Some (evaluateBenchmark (bs_benchmark_id b) generation (bs_parent_score b) x (bs_threshold b) (''cmd:'' @ str_join '' '' (bs_command b)))))"

definition benchmark_results :: "run_command \<Rightarrow> string \<Rightarrow> benchmark_spec list \<Rightarrow> benchmark_result list \<times> bool" where
  \<comment> \<open>the results, and whether every benchmark produced one\<close>
  "benchmark_results spawn generation bs = (let rs = map (run_benchmark spawn generation) bs in
     (concat (map (\<lambda>r. case r of None \<Rightarrow> [] | Some x \<Rightarrow> [x]) rs), list_all (\<lambda>r. r \<noteq> None) rs))"

record evaluation_inputs =
  ei_tenant_id :: string
  ei_generation_id :: string
  ei_parent_generation_id :: "string option"
  ei_class :: improvement_class
  ei_parent_tree :: tree
  ei_candidate_tree :: tree
  ei_spec :: improvement_spec
  ei_parent_capability :: capability_profile
  ei_candidate_capability :: capability_profile
  ei_allowed_growth :: allowed_growth
  ei_regression_command :: "string list option"
  ei_security_command :: "string list option"
  ei_benchmarks :: "benchmark_spec list"
  ei_manifest_before :: test_manifest
  ei_manifest_after :: test_manifest
  ei_candidate_authority :: authority_ceiling
  ei_human_approved :: "bool option"
  ei_review_approved :: "bool option"
  ei_profile_hash :: string
  ei_decided_by :: string

record evaluation_result =
  er_decision :: promotion_decision
  er_status :: promotion_status
  er_reason :: string
  er_regression_passed :: bool
  er_security_passed :: bool
  er_evidence_complete :: bool
  er_input :: "promotion_input option"

definition changed_paths :: "(string \<Rightarrow> string) \<Rightarrow> evaluation_inputs \<Rightarrow> string list" where
  "changed_paths sha e = map fst (diffDirectoryTrees sha (ei_parent_tree e) (ei_candidate_tree e))"

definition measured :: "(string \<Rightarrow> string) \<Rightarrow> run_command \<Rightarrow> evaluation_inputs \<Rightarrow> promotion_input" where
  \<comment> \<open>what \<open>evaluatePromotion\<close> gets\<close>
  "measured sha spawn e =
     (let (regression_ran, regression) = suite_outcome spawn (ei_regression_command e);
          (security_ran, security) = suite_outcome spawn (ei_security_command e);
          (results, all_ran) = benchmark_results spawn (ei_generation_id e) (ei_benchmarks e);
          complete = (regression_ran \<and> security_ran \<and> all_ran) in
      \<lparr>pi_class = ei_class e,
       pi_benchmarks_pass = (complete \<and> length results = length (ei_benchmarks e) \<and> list_all br_passed results),
       pi_regression_passed = regression, pi_security_passed = security,
       pi_capability_delta = computeCapabilityDelta sha (ei_generation_id e) (ei_parent_capability e) (ei_candidate_capability e) (ei_allowed_growth e),
       pi_within_ceiling = authorityWithinCeiling (ei_candidate_authority e) (sp_ceiling (ei_spec e)),
       pi_mutation = classifyMutation sha (ei_generation_id e) (changed_paths sha e) (sp_allowed_paths (ei_spec e)) (sp_forbidden_paths (ei_spec e)),
       pi_tamper = detectTestManifestTampering (ei_manifest_before e) (ei_manifest_after e),
       pi_human_approved = ei_human_approved e, pi_review_approved = ei_review_approved e, pi_evidence_complete = complete\<rparr>)"

definition evaluation_decision :: "(string \<Rightarrow> string) \<Rightarrow> evaluation_inputs \<Rightarrow> string \<Rightarrow> string \<Rightarrow> string \<Rightarrow> string \<Rightarrow> string option
    \<Rightarrow> promotion_status \<Rightarrow> string \<Rightarrow> string \<Rightarrow> promotion_decision" where
  "evaluation_decision sha e source benchmark security capability authority status reason now =
     \<lparr>pd_decision_id = [], pd_tenant_id = ei_tenant_id e, pd_generation_id = ei_generation_id e, pd_parent = ei_parent_generation_id e,
      pd_profile_hash = ei_profile_hash e, pd_spec_hash = sp_hash (ei_spec e), pd_source_hash = source, pd_benchmark_hash = benchmark,
      pd_security_hash = security, pd_capability_hash = capability, pd_authority_hash = authority, pd_decision = status,
      pd_reason = reason, pd_decided_by = ei_decided_by e, pd_decided_at = now\<rparr>"

definition stale_reason :: "string \<Rightarrow> string \<Rightarrow> string" where
  "stale_reason current recorded = ''Stale parent: the parent workspace's current content hash ('' @ current
     @ '') no longer matches this generation's recorded source_hash_before ('' @ recorded @ '') '' @ em_dash
     @ '' the accepted baseline changed since this generation was created''"

definition runPromotionEvaluation :: "(string \<Rightarrow> string) \<Rightarrow> (string \<Rightarrow> string) \<Rightarrow> run_command \<Rightarrow> string \<Rightarrow> string \<Rightarrow> evaluation_inputs \<Rightarrow> improvement_store
    \<Rightarrow> (improvement_error, improvement_store \<times> evaluation_result) res" where
  "runPromotionEvaluation sha raw spawn u now e st = rbind (getGeneration (ei_tenant_id e) (ei_generation_id e) st) (\<lambda>generation.
     let before = hashDirectoryTree sha raw (ei_parent_tree e) in
     if before \<noteq> gn_source_before generation
     then (let reason = stale_reason before (gn_source_before generation) in
       rbind (recordPromotionDecision (ei_tenant_id e) (evaluation_decision sha e before (hash_json sha (JArr [])) (hash_json sha (JObj []))
         (hash_json sha (JObj [])) None PS_Indeterminate reason now) u st) (\<lambda>(st', d).
       Inr (st', \<lparr>er_decision = d, er_status = PS_Indeterminate, er_reason = reason, er_regression_passed = False, er_security_passed = False,
         er_evidence_complete = False, er_input = None\<rparr>)))
     else (let i = measured sha spawn e; (status, reason) = evaluatePromotion i;
         results = fst (benchmark_results spawn (ei_generation_id e) (ei_benchmarks e)) in
       rbind (recordPromotionDecision (ei_tenant_id e) (evaluation_decision sha e (hashDirectoryTree sha raw (ei_candidate_tree e))
         (hash_json sha (JArr (map benchmark_json results)))
         (hash_json sha (JObj [(''regressionSuitePassed'', JBool (pi_regression_passed i)), (''securityTestsPassed'', JBool (pi_security_passed i))]))
         (cd_report_hash (pi_capability_delta i)) (Some (dl_delta_hash (computeAuthorityDelta sha (sp_ceiling (ei_spec e)) (ei_candidate_authority e))))
         status reason now) u st) (\<lambda>(st', d).
       Inr (st', \<lparr>er_decision = d, er_status = status, er_reason = reason, er_regression_passed = pi_regression_passed i,
         er_security_passed = pi_security_passed i, er_evidence_complete = pi_evidence_complete i, er_input = Some i\<rparr>))))"

end
