(* ===== verification/Improvement_Authority.thy ===== *)
theory Improvement_Authority
  imports Gate
begin

text \<open>
  \<open>packages/improvement-core\<close>, its integration with the Gate: the identity and the envelope of the improvement
  governor, its registration at every start, and the requests its operations make.
\<close>

section \<open>The governor at the Gate\<close>

datatype improvement_operation = IO_Authorize_Generation | IO_Build | IO_Invoke_Candidate_Tool | IO_Start_Canary | IO_Promote | IO_Rollback
  | IO_Authority_Expansion

definition improvement_operations :: "improvement_operation list" where
  "improvement_operations = [IO_Authorize_Generation, IO_Build, IO_Invoke_Candidate_Tool, IO_Start_Canary, IO_Promote, IO_Rollback, IO_Authority_Expansion]"

definition operation_action :: "improvement_operation \<Rightarrow> string" where
  "operation_action op = ''improvement.'' @ (case op of IO_Authorize_Generation \<Rightarrow> ''authorize_generation'' | IO_Build \<Rightarrow> ''build''
     | IO_Invoke_Candidate_Tool \<Rightarrow> ''invoke_candidate_tool'' | IO_Start_Canary \<Rightarrow> ''start_canary'' | IO_Promote \<Rightarrow> ''promote''
     | IO_Rollback \<Rightarrow> ''rollback'' | IO_Authority_Expansion \<Rightarrow> ''authority_expansion'')"

definition governor_name :: "string \<Rightarrow> string" where
  "governor_name agent = ''Improvement Governor ('' @ agent @ '')''"

definition governor_binding :: "improvement_operation \<Rightarrow> action_binding" where
  "governor_binding op = \<lparr>ab_action = operation_action op,
     ab_outcome = (if op = IO_Promote then ''generation promoted'' else if op = IO_Rollback then ''generation rolled back'' else ''generation rejected''),
     ab_tool = operation_action op, ab_resource_kind = Files, ab_operation = (if op = IO_Invoke_Candidate_Tool then Write else Read),
     ab_destination_required = False\<rparr>"

definition governorEnvelope :: "string \<Rightarrow> string \<Rightarrow> string list \<Rightarrow> string \<Rightarrow> envelope" where
  \<comment> \<open>\<open>expires\<close>: the time a year from now\<close>
  "governorEnvelope agent approver writable expires = \<lparr>en_version = ''1.0'',
     en_agent = \<lparr>ea_id = agent, ea_name = governor_name agent, ea_role = ''improvement-governor'', ea_owner = ''tna-improvement-governor'',
       ea_environment = ''production'', ea_expires_at = expires\<rparr>,
     en_objective = \<lparr>ob_task_id = ''recursive-improvement'', ob_goal = ''Propose, evaluate, and promote governed improvement generations'',
       ob_allowed_outcomes = [''generation promoted'', ''generation rejected'', ''generation rolled back''],
       ob_forbidden_outcomes = [''self-promotion'', ''authority self-expansion'']\<rparr>,
     en_resources = \<lparr>er_repositories = \<lparr>pm_read = [], pm_write = []\<rparr>, er_files = \<lparr>pm_read = [''/improvement/**''], pm_write = writable\<rparr>,
       er_databases = \<lparr>pm_read = [], pm_write = []\<rparr>, er_infrastructure = \<lparr>pm_read = [], pm_write = []\<rparr>\<rparr>,
     en_tools = \<lparr>ad_allow = map operation_action improvement_operations, ad_deny = []\<rparr>,
     en_network = \<lparr>ad_allow = [], ad_deny = [''*'']\<rparr>, en_secrets = \<lparr>es_allow = [], es_deny = [''*'']\<rparr>,
     en_agents = \<lparr>eg_communicate_with = [], eg_communication_mode = ''authenticated'', eg_shared_memory = False, eg_deny_unknown_agents = True\<rparr>,
     en_limits = \<lparr>li_max_runtime_seconds = 3600, li_max_tool_calls = 1000, li_max_external_requests = 0, li_max_cost_usd = 100, li_max_retries_per_action = 1000\<rparr>,
     en_approvals = map (\<lambda>op. \<lparr>ar_action = operation_action op, ar_approver_role = approver\<rparr>) [IO_Promote, IO_Rollback, IO_Start_Canary, IO_Authority_Expansion],
     en_risk = \<lparr>ri_level = ''high'', ri_blast_radius = ''tenant'', ri_rollback_required = True\<rparr>,
     en_evidence = \<lparr>ee_capture = [''agent_identity'', ''policy_hash'', ''tool_calls'', ''timestamps''], ee_retention_days = 365\<rparr>,
     en_violation_policy = \<lparr>vp_unknown_tool = ''block'', vp_undeclared_resource = ''block'', vp_unauthorized_agent_contact = ''terminate'',
       vp_network_violation = ''terminate'', vp_secret_violation = ''terminate_and_rotate'', vp_cost_limit_exceeded = ''pause_and_escalate'',
       vp_runtime_limit_exceeded = ''terminate''\<rparr>,
     en_action_bindings = map governor_binding improvement_operations\<rparr>"

definition governor_admin :: principal where
  "governor_admin = Admin ''administrator''"

datatype registration_error = RG_Gate gate_error | RG_Identity_Conflict string

definition year_ms :: int where
  "year_ms = 365 * 24 * 3600000"

definition install_envelope :: "(string \<Rightarrow> string) \<Rightarrow> ambient \<Rightarrow> string \<Rightarrow> string \<Rightarrow> string list \<Rightarrow> gate_state \<Rightarrow> gate_state \<times> (registration_error, unit) res" where
  "install_envelope sha am agent approver writable g =
     (case gate_setEnvelope sha am governor_admin (Some (governorEnvelope agent approver writable (to_iso (am_now am + year_ms)))) g of
        (g', Inl e) \<Rightarrow> (g', Inl (RG_Gate e)) | (g', Inr _) \<Rightarrow> (g', Inr ()))"

definition identity_matches :: "string \<Rightarrow> policy \<Rightarrow> bool" where
  "identity_matches agent po = (let a = en_agent (po_envelope po) in
     ea_name a = governor_name agent \<and> ea_role a = ''improvement-governor'' \<and> ea_owner a = ''tna-improvement-governor'')"

definition not_found :: "gate_error \<Rightarrow> bool" where
  "not_found e = (case e of Http n _ \<Rightarrow> n = 404 | Schema_Error \<Rightarrow> False)"

definition registerImprovementGovernor :: "(string \<Rightarrow> string) \<Rightarrow> ambient \<Rightarrow> ambient \<Rightarrow> string \<Rightarrow> string \<Rightarrow> string list \<Rightarrow> gate_state
    \<Rightarrow> gate_state \<times> (registration_error, unit) res" where
  "registerImprovementGovernor sha am1 am2 agent approver writable g =
     (case gate_register sha am1 governor_admin (Some (agent, governor_name agent)) g of
        (g1, Inr _) \<Rightarrow> install_envelope sha am2 agent approver writable g1
      | (g1, Inl e) \<Rightarrow>
          if e \<noteq> Http 409 ''Agent already registered'' then (g1, Inl (RG_Gate e))
          else (case getEnvelope governor_admin agent g1 of
              Inl e' \<Rightarrow> if not_found e' then install_envelope sha am2 agent approver writable g1 else (g1, Inl (RG_Gate e'))
            | Inr po \<Rightarrow> if identity_matches agent po then install_envelope sha am2 agent approver writable g1
                else (g1, Inl (RG_Identity_Conflict agent))))"

definition expandGovernorWriteAccess :: "(string \<Rightarrow> string) \<Rightarrow> ambient \<Rightarrow> string \<Rightarrow> string \<Rightarrow> string list \<Rightarrow> gate_state
    \<Rightarrow> gate_state \<times> (registration_error, unit) res" where
  "expandGovernorWriteAccess sha am agent approver writable g = install_envelope sha am agent approver writable g"

definition generation_resource :: "string \<Rightarrow> string" where
  "generation_resource g = ''/improvement/generations/'' @ g"

definition operation_request :: "string \<Rightarrow> improvement_operation \<Rightarrow> string \<Rightarrow> string option \<Rightarrow> json" where
  \<comment> \<open>\<open>requestFor\<close>, and what \<open>authorizeImprovementOperation\<close> sends with the resource of the generation and no cost\<close>
  "operation_request agent op generation approvalId = JObj ([(''agentId'', JStr agent), (''action'', JStr (operation_action op)),
     (''tool'', JStr (operation_action op)), (''resource'', JStr (generation_resource generation)), (''estimatedCostUsd'', JNum (Dec 0 0))]
     @ (case approvalId of None \<Rightarrow> [] | Some i \<Rightarrow> if i = [] then [] else [(''approvalId'', JStr i)]))"

definition authorizeImprovementOperation :: "(string \<Rightarrow> string) \<Rightarrow> ambient \<Rightarrow> string \<Rightarrow> improvement_operation \<Rightarrow> string \<Rightarrow> string option \<Rightarrow> gate_state
    \<Rightarrow> gate_state \<times> (gate_error, decision) res" where
  "authorizeImprovementOperation sha am agent op generation approvalId g = authorize sha am (Agent agent) (operation_request agent op generation approvalId) g"

definition improvementApprover :: "string \<Rightarrow> principal" where
  "improvementApprover role = Approver role"

end
