(* ===== verification/Improvement_Governor.thy ===== *)
theory Improvement_Governor
  imports Improvement_Evaluation Improvement_Authority Sentinel_Runtime
begin

text \<open>
  \<open>apps/tna-improvement-governor\<close>: the handlers that take a generation from its proposal to its promotion or
  rollback. A handler changes the governor step by step and may throw in the middle: it returns the governor as it
  is then, with the error or the answer. Store, Gate, Ledger and Sentinel are the models of this development;
  directories are a map from paths to trees; what a command does and what VAD decides are arguments.
\<close>

section \<open>State\<close>

record workspace =
  ws_parent :: string
  ws_candidate :: "string option"

record governor =
  gv_store :: improvement_store
  gv_gate :: gate_state
  gv_ledger :: ledger_store
  gv_sentinel :: sentinel_store
  gv_workspaces :: "string \<rightharpoonup> workspace"
  gv_spec_ids :: "string \<rightharpoonup> string"
  gv_profiles :: "string \<rightharpoonup> string"
  gv_disk :: "string \<rightharpoonup> tree"

text \<open>What the server is built with, and what one request takes from outside: the time and fresh identifiers.\<close>

record governor_deps =
  gd_sha :: "string \<Rightarrow> string"
  gd_raw :: "string \<Rightarrow> string"
  gd_tenant :: string
  gd_agent :: string
  gd_approver_role :: string
  gd_workspaces_root :: string

record governor_call =
  gc_now :: int
  gc_uuid :: "nat \<Rightarrow> string"

datatype governor_error = GV_Http nat string | GV_Improvement improvement_error | GV_Gate gate_error | GV_Ledger ledger_error
  | GV_Sentinel sentinel_error | GV_Other string

type_synonym 'a handler = "governor \<Rightarrow> governor \<times> (governor_error, 'a) res"

definition answer :: "'a \<Rightarrow> 'a handler" where
  "answer x gv = (gv, Inr x)"

definition fail :: "governor_error \<Rightarrow> 'a handler" where
  "fail e gv = (gv, Inl e)"

definition and_then :: "'a handler \<Rightarrow> ('a \<Rightarrow> 'b handler) \<Rightarrow> 'b handler" where
  "and_then m f gv = (case m gv of (gv', Inl e) \<Rightarrow> (gv', Inl e) | (gv', Inr x) \<Rightarrow> f x gv')"

definition on_store :: "(improvement_store \<Rightarrow> (improvement_error, improvement_store \<times> 'a) res) \<Rightarrow> 'a handler" where
  "on_store op gv = (case op (gv_store gv) of Inl e \<Rightarrow> (gv, Inl (GV_Improvement e)) | Inr (st, x) \<Rightarrow> (gv\<lparr>gv_store := st\<rparr>, Inr x))"

definition of_store :: "(improvement_store \<Rightarrow> (improvement_error, 'a) res) \<Rightarrow> 'a handler" where
  "of_store op gv = (case op (gv_store gv) of Inl e \<Rightarrow> (gv, Inl (GV_Improvement e)) | Inr x \<Rightarrow> (gv, Inr x))"

definition guard :: "bool \<Rightarrow> governor_error \<Rightarrow> unit handler" where
  "guard b e = (if b then answer () else fail e)"

definition change :: "(governor \<Rightarrow> governor) \<Rightarrow> unit handler" where
  "change f gv = (f gv, Inr ())"

section \<open>Ledger, Gate and Sentinel\<close>

definition improvementWriter :: "string \<Rightarrow> ledger_principal" where
  "improvementWriter t = writerPrincipal ''ledger-writer-improvement'' t [''improvement-governance'']"

definition improvement_event :: "string \<Rightarrow> string \<Rightarrow> string \<Rightarrow> string \<Rightarrow> string \<Rightarrow> string option \<Rightarrow> (string \<times> json) list \<Rightarrow> json" where
  "improvement_event t u kind generation correlation parent payload = JObj [(''version'', JStr ''1.0''), (''event_id'', JStr (''evt_'' @ u)),
     (''event_type'', JStr kind), (''tenant_id'', JStr t), (''stream_id'', JStr (''improvement:'' @ generation)), (''correlation_id'', JStr correlation),
     (''actor'', JObj [(''type'', JStr ''SYSTEM''), (''id'', JStr ''improvement-governor'')]), (''source_component'', JStr ''improvement-governance''),
     (''payload'', JObj ([(''generation_id'', JStr generation), (''parent_generation_id'', opt_json JStr parent)] @ payload))]"

definition appendImprovementEvent :: "governor_deps \<Rightarrow> governor_call \<Rightarrow> nat \<Rightarrow> string \<Rightarrow> string \<Rightarrow> string \<Rightarrow> string option \<Rightarrow> (string \<times> json) list \<Rightarrow> unit handler" where
  \<comment> \<open>\<open>k\<close>: which fresh identifier the event takes\<close>
  "appendImprovementEvent dep c k kind generation correlation parent payload gv =
     (case ledger_append (gd_sha dep) (to_iso (gc_now c)) (improvementWriter (gd_tenant dep))
         (improvement_event (gd_tenant dep) (gc_uuid c k) kind generation correlation parent payload) (gv_ledger gv) of
        Inl e \<Rightarrow> (gv, Inl (GV_Ledger e)) | Inr (L, _) \<Rightarrow> (gv\<lparr>gv_ledger := L\<rparr>, Inr ()))"

definition record_event :: "governor_deps \<Rightarrow> governor_call \<Rightarrow> nat \<Rightarrow> string \<Rightarrow> string \<Rightarrow> (string \<times> json) list \<Rightarrow> unit handler" where
  \<comment> \<open>the event of a generation under its own correlation\<close>
  "record_event dep c k kind generation payload = appendImprovementEvent dep c k kind generation generation None payload"

definition authorize_operation :: "governor_deps \<Rightarrow> governor_call \<Rightarrow> improvement_operation \<Rightarrow> string \<Rightarrow> string option \<Rightarrow> decision handler" where
  "authorize_operation dep c op generation approvalId gv =
     (case authorizeImprovementOperation (gd_sha dep) \<lparr>am_now = gc_now c, am_uuid = gc_uuid c 0, am_token = []\<rparr> (gd_agent dep) op generation approvalId (gv_gate gv) of
        (g, Inl e) \<Rightarrow> (gv\<lparr>gv_gate := g\<rparr>, Inl (GV_Gate e)) | (g, Inr d) \<Rightarrow> (gv\<lparr>gv_gate := g\<rparr>, Inr d))"

definition when_allowed :: "governor_deps \<Rightarrow> governor_call \<Rightarrow> improvement_operation \<Rightarrow> string \<Rightarrow> string option \<Rightarrow> (decision \<Rightarrow> generation handler)
    \<Rightarrow> (decision \<times> generation) handler" where
  \<comment> \<open>the operation runs under an ALLOW only; otherwise the answer is the decision and the generation as it is\<close>
  "when_allowed dep c op i approvalId run = and_then (authorize_operation dep c op i approvalId) (\<lambda>d.
     and_then (if de_decision d \<noteq> ALLOW then of_store (getGeneration (gd_tenant dep) i) else run d) (\<lambda>r. answer (d, r)))"

definition move :: "governor_deps \<Rightarrow> generation \<Rightarrow> generation_state \<Rightarrow> transition_extra \<Rightarrow> generation handler" where
  "move dep r s x = on_store (transitionGeneration (gd_tenant dep) (gn_generation_id r) (gn_state_version r) s x)"

definition canary_session_json :: "governor_deps \<Rightarrow> governor_call \<Rightarrow> string \<Rightarrow> string \<Rightarrow> json" where
  \<comment> \<open>\<open>createCandidateSession\<close> with the arguments of the canary\<close>
  "canary_session_json dep c u i = (let snapshot = gd_sha dep (''improvement-generation:'' @ i) in
     JObj [(''version'', JStr ''1.0''), (''tenant_id'', JStr (gd_tenant dep)), (''agent_id'', JStr (''candidate:'' @ i)),
       (''execution_id'', JStr (''exec_'' @ u)), (''correlation_id'', JStr (''corr_'' @ i)),
       (''authority_snapshot_hash'', JStr snapshot), (''policy_snapshot_hash'', JStr snapshot),
       (''expected_action'', JStr ''improvement.canary''), (''expected_tool'', JStr ''improvement.canary.execution''),
       (''expected_resource'', JStr (''improvement/generations/'' @ i)), (''allowed_destinations'', JArr []), (''allowed_operations'', jstrs [''read'']),
       (''authority_expiry'', JStr (to_iso (gc_now c + 3600000))), (''runtime_limits'', JObj [(''max_runtime_seconds'', JNum (Dec 3600 0))]),
       (''cost_limits'', JObj [(''max_cost_usd'', JNum (Dec 1 0))])])"

definition create_canary_session :: "governor_deps \<Rightarrow> governor_call \<Rightarrow> string \<Rightarrow> sentinel_session handler" where
  "create_canary_session dep c i gv =
     (case createSession \<lparr>sc_principal_id = ''improvement-governor-controller'', sc_role = RO_Controller, sc_tenantId = gd_tenant dep, sc_allowedSources = []\<rparr>
         (canary_session_json dep c (gc_uuid c 1) i) (gc_now c) (gc_uuid c 2) (gv_sentinel gv) of
        Inl e \<Rightarrow> (gv, Inl (GV_Sentinel e)) | Inr (s, x) \<Rightarrow> (gv\<lparr>gv_sentinel := s\<rparr>, Inr x))"

section \<open>Proposal\<close>

text \<open>The body of a proposal; an optional field that is absent is \<open>None\<close>.\<close>

record create_body =
  cr_system_id :: string
  cr_parent :: "string option"
  cr_parent_path :: string
  cr_objective :: string
  cr_class :: improvement_class
  cr_allowed_paths :: "string list"
  cr_forbidden_paths :: "string list option"
  cr_ceiling :: authority_ceiling
  cr_candidate_version :: string
  cr_created_by :: string
  cr_limits :: "recursion_limits option"
  cr_resource_limits :: "json option"
  cr_profile_id :: "json option"
  cr_benchmarks :: "string list option"
  cr_security_tests :: "string list option"
  cr_thresholds :: "json option"
  cr_canary_policy :: "json option"
  cr_rollback_policy :: "json option"
  cr_max_iterations :: "json option"
  cr_max_runtime_ms :: "json option"
  cr_max_cost_usd :: "json option"

definition default_recursion_limits :: recursion_limits where
  "default_recursion_limits = \<lparr>rl_max_generations = Some 100, rl_max_attempts = Some 10, rl_max_total_runtime_ms = Some 3600000,
     rl_max_total_cost_usd = Some 100, rl_max_tool_calls = Some 1000\<rparr>"

definition or_default :: "'a option \<Rightarrow> 'a \<Rightarrow> 'a" where
  "or_default x y = (case x of None \<Rightarrow> y | Some v \<Rightarrow> v)"

definition spec_of_body :: "governor_deps \<Rightarrow> improvement_system \<Rightarrow> create_body \<Rightarrow> spec_input" where
  "spec_of_body dep s b = \<lparr>sp_system_id = sy_system_id s, sp_tenant_id = gd_tenant dep, sp_parent_generation_id = cr_parent b, sp_objective = cr_objective b,
     sp_class = cr_class b, sp_allowed_paths = cr_allowed_paths b, sp_forbidden_paths = or_default (cr_forbidden_paths b) [], sp_allowed_tool_changes = [],
     sp_allowed_dependency_changes = [], sp_allowed_model_changes = [], sp_ceiling = cr_ceiling b,
     sp_resource_limits = or_default (cr_resource_limits b) (JObj [(''max_runtime_ms'', JNum (Dec 300000 0)), (''max_cost_usd'', JNum (Dec 5 0)),
       (''max_tool_calls'', JNum (Dec 100 0)), (''max_external_calls'', JNum (Dec 10 0)), (''max_changed_files'', JNum (Dec 50 0)), (''max_changed_bytes'', JNum (Dec 1000000 0))]),
     sp_evaluation_profile_id = or_default (cr_profile_id b) (JStr ''default''), sp_required_benchmarks = or_default (cr_benchmarks b) [],
     sp_required_security_tests = or_default (cr_security_tests b) [], sp_promotion_thresholds = or_default (cr_thresholds b) (JObj []),
     sp_canary_policy = or_default (cr_canary_policy b) (JObj [(''traffic_percent'', JNum (Dec 5 0)), (''max_actions'', JNum (Dec 20 0)),
       (''max_runtime_ms'', JNum (Dec 60000 0)), (''failure_threshold'', JNum (Dec 1 1)), (''sentinel_terminate_is_failure'', JBool True), (''cost_threshold_usd'', JNum (Dec 1 0))]),
     sp_rollback_policy = or_default (cr_rollback_policy b) (JObj [(''rollback_generation_id'', opt_json JStr (cr_parent b)),
       (''auto_rollback_triggers'', jstrs [''CANARY_HEALTH_FAILURE''])]),
     sp_max_iterations = or_default (cr_max_iterations b) (JNum (Dec 3 0)), sp_max_runtime_ms = or_default (cr_max_runtime_ms b) (JNum (Dec 600000 0)),
     sp_max_cost_usd = or_default (cr_max_cost_usd b) (JNum (Dec 5 0)), sp_created_by = cr_created_by b\<rparr>"

definition find_or_create_system :: "governor_deps \<Rightarrow> governor_call \<Rightarrow> create_body \<Rightarrow> improvement_system handler" where
  "find_or_create_system dep c b gv = (case findSystemByName (gd_tenant dep) (cr_system_id b) (gv_store gv) of
     Some s \<Rightarrow> (gv, Inr s)
   | None \<Rightarrow> on_store (createSystem (gd_tenant dep) (cr_system_id b) (cr_created_by b) (gc_uuid c 0) (to_iso (gc_now c))) gv)"

definition tree_at :: "string \<Rightarrow> tree handler" where
  "tree_at path gv = (case gv_disk gv path of None \<Rightarrow> (gv, Inl (GV_Other ''ENOENT'')) | Some t \<Rightarrow> (gv, Inr t))"

definition input_of_body :: "governor_deps \<Rightarrow> improvement_system \<Rightarrow> create_body \<Rightarrow> string \<Rightarrow> string \<Rightarrow> generation_input" where
  "input_of_body dep s b spec_hash source = \<lparr>gi_tenant_id = gd_tenant dep, gi_system_id = sy_system_id s, gi_parent = cr_parent b,
     gi_candidate_version = cr_candidate_version b, gi_class = cr_class b, gi_spec_hash = spec_hash, gi_source_before = source,
     gi_authority_before = cr_ceiling b, gi_created_by = cr_created_by b\<rparr>"

definition pure_store :: "(improvement_store \<Rightarrow> (improvement_error, improvement_store) res) \<Rightarrow> unit handler" where
  "pure_store op = on_store (\<lambda>st. rbind (op st) (\<lambda>st'. Inr (st', ())))"

definition propose :: "governor_deps \<Rightarrow> governor_call \<Rightarrow> create_body \<Rightarrow> improvement_system \<Rightarrow> recursion_budget \<Rightarrow> (generation \<times> string) handler" where
  \<comment> \<open>\<open>handleCreate\<close> once the budget admits another generation\<close>
  "propose dep c b s budget =
     (case buildImprovementSpec (gd_sha dep) (spec_of_body dep s b) (gc_uuid c 1) (to_iso (gc_now c)) of
        Inl e \<Rightarrow> fail (GV_Improvement e)
      | Inr spec \<Rightarrow> and_then (tree_at (cr_parent_path b)) (\<lambda>t.
          and_then (on_store (createGeneration (input_of_body dep s b (sp_hash spec) (hashDirectoryTree (gd_sha dep) (gd_raw dep) t)) (gc_uuid c 2) (to_iso (gc_now c)))) (\<lambda>r.
          and_then (on_store (consumeRecursionBudget (gd_tenant dep) (sy_system_id s) (rb_state_version budget) one_generation)) (\<lambda>_.
          and_then (pure_store (saveSpec (gd_tenant dep) (gn_generation_id r) spec (to_iso (gc_now c)))) (\<lambda>_.
          and_then (change (\<lambda>gv. gv\<lparr>gv_workspaces := (gv_workspaces gv)(gn_generation_id r \<mapsto> \<lparr>ws_parent = cr_parent_path b, ws_candidate = None\<rparr>),
              gv_spec_ids := (gv_spec_ids gv)(gn_generation_id r \<mapsto> sp_spec_id spec)\<rparr>)) (\<lambda>_.
          and_then (appendImprovementEvent dep c 3 ''IMPROVEMENT_PROPOSED'' (gn_generation_id r) (gn_generation_id r) (cr_parent b)
              [(''objective'', JStr (cr_objective b)), (''spec_id'', JStr (sp_spec_id spec)), (''spec_hash'', JStr (sp_hash spec))]) (\<lambda>_.
          answer (r, sp_spec_id spec))))))))"

definition handleCreate :: "governor_deps \<Rightarrow> governor_call \<Rightarrow> create_body \<Rightarrow> (generation \<times> string) handler" where
  "handleCreate dep c b = and_then (find_or_create_system dep c b) (\<lambda>s.
     and_then (on_store (getOrCreateRecursionBudget (gd_tenant dep) (sy_system_id s) (or_default (cr_limits b) default_recursion_limits))) (\<lambda>budget.
     if checkRecursionBudget budget \<noteq> []
     then and_then (appendImprovementEvent dep c 1 ''RECURSION_BUDGET_EXHAUSTED'' (''system:'' @ sy_system_id s) (sy_system_id s) None
         [(''reasons'', jstrs (checkRecursionBudget budget))]) (\<lambda>_.
       fail (GV_Improvement (Improvement_Error IM_BUDGET_EXHAUSTED (''Recursion budget exhausted for system '' @ sy_system_id s @ '': '' @ str_join '', '' (checkRecursionBudget budget)))))
     else propose dep c b s budget))"

section \<open>Authorization and build\<close>

definition handleAuthorize :: "governor_deps \<Rightarrow> governor_call \<Rightarrow> string \<Rightarrow> (decision \<times> generation) handler" where
  "handleAuthorize dep c i = when_allowed dep c IO_Authorize_Generation i None (\<lambda>d.
     and_then (of_store (getGeneration (gd_tenant dep) i)) (\<lambda>r.
     and_then (move dep r GN_Authorized no_extra) (\<lambda>r'.
     and_then (record_event dep c 1 ''IMPROVEMENT_AUTHORIZED'' i [(''decision_id'', JStr (de_decisionId d))]) (\<lambda>_. answer r'))))"

fun resolve_segments :: "string list \<Rightarrow> string list \<Rightarrow> string list" where
  \<comment> \<open>\<open>path.resolve\<close> on the parts of a path; the accumulator is reversed\<close>
  "resolve_segments [] acc = rev acc"
| "resolve_segments (x # xs) acc = (if x = [] \<or> x = ''.'' then resolve_segments xs acc
     else if x = ''..'' then resolve_segments xs (tl acc) else resolve_segments xs (x # acc))"

definition path_resolve :: "string \<Rightarrow> string \<Rightarrow> string list" where
  "path_resolve base path = resolve_segments ((if starts_with ''/'' path then [] else str_split (CHR ''/'') base) @ str_split (CHR ''/'') path) []"

definition inside_workspace :: "string \<Rightarrow> string \<Rightarrow> string list option" where
  \<comment> \<open>\<open>assertInsideWorkspace\<close> of \<open>resolve(root, path)\<close>: the parts below the root; a copied tree has no links\<close>
  "inside_workspace base path = (let r = path_resolve base []; t = path_resolve base path in
     if take (length r) t = r then Some (drop (length r) t) else None)"

definition write_file :: "string list \<Rightarrow> string \<Rightarrow> tree \<Rightarrow> tree option" where
  \<comment> \<open>\<open>None\<close> when the target is a directory or a file is where a directory has to be\<close>
  "write_file parts content t = (let path = str_join ''/'' parts in
     if parts = [] \<or> list_ex (\<lambda>f. starts_with (path @ ''/'') (fst f) \<or> starts_with (fst f @ ''/'') path) t then None
     else if path \<in> fst ` set t then Some (map (\<lambda>f. if fst f = path then (path, content) else f) t)
     else Some (t @ [(path, content)]))"

fun write_files :: "string \<Rightarrow> (string \<times> string) list \<Rightarrow> tree \<Rightarrow> tree \<times> bool" where
  \<comment> \<open>the tree after the files before the first that throws, and whether all were written\<close>
  "write_files base [] t = (t, True)"
| "write_files base ((path, content) # files) t = (case inside_workspace base path of None \<Rightarrow> (t, False)
     | Some parts \<Rightarrow> (case write_file parts content t of None \<Rightarrow> (t, False) | Some t' \<Rightarrow> write_files base files t'))"

definition workspace_path :: "governor_deps \<Rightarrow> string \<Rightarrow> string" where
  \<comment> \<open>\<open>generationWorkspacePath\<close>\<close>
  "workspace_path dep i = gd_workspaces_root dep @ ''/'' @ i"

definition createIsolatedWorkspace :: "governor_deps \<Rightarrow> string \<Rightarrow> string \<Rightarrow> string handler" where
  "createIsolatedWorkspace dep i source gv = (let path = workspace_path dep i in
     if gv_disk gv path \<noteq> None then (gv, Inl (GV_Improvement (im_conflict (''Workspace for generation '' @ i @ '' already exists''))))
     else (case gv_disk gv source of
         None \<Rightarrow> (gv\<lparr>gv_disk := (gv_disk gv)(path \<mapsto> [])\<rparr>, Inl (GV_Other ''ENOENT''))
       | Some t \<Rightarrow> (gv\<lparr>gv_disk := (gv_disk gv)(path \<mapsto> t)\<rparr>, Inr path)))"

definition write_candidate :: "governor_deps \<Rightarrow> string \<Rightarrow> (string \<times> string) list \<Rightarrow> unit handler" where
  "write_candidate dep path files gv = (case gv_disk gv path of None \<Rightarrow> (gv, Inl (GV_Other ''ENOENT''))
     | Some t \<Rightarrow> (let (t', all) = write_files path files t in
         (gv\<lparr>gv_disk := (gv_disk gv)(path \<mapsto> t')\<rparr>, if all then Inr () else Inl (GV_Other ''WorkspaceSafetyError''))))"

definition workspace_of :: "string \<Rightarrow> (workspace option) handler" where
  "workspace_of i gv = (gv, Inr (gv_workspaces gv i))"

definition build_candidate :: "governor_deps \<Rightarrow> governor_call \<Rightarrow> string \<Rightarrow> (string \<times> string) list \<Rightarrow> workspace \<Rightarrow> generation handler" where
  "build_candidate dep c i files w = and_then (of_store (getGeneration (gd_tenant dep) i)) (\<lambda>r.
     and_then (move dep r GN_Building no_extra) (\<lambda>r1.
     and_then (record_event dep c 1 ''IMPROVEMENT_BUILD_STARTED'' i []) (\<lambda>_.
     and_then (createIsolatedWorkspace dep i (ws_parent w)) (\<lambda>path.
     and_then (write_candidate dep path files) (\<lambda>_.
     and_then (change (\<lambda>gv. gv\<lparr>gv_workspaces := (gv_workspaces gv)(i \<mapsto> w\<lparr>ws_candidate := Some path\<rparr>)\<rparr>)) (\<lambda>_.
     and_then (tree_at path) (\<lambda>t. let source = hashDirectoryTree (gd_sha dep) (gd_raw dep) t in
     and_then (move dep r1 GN_Built (no_extra\<lparr>tx_source_after := Some source\<rparr>)) (\<lambda>r2.
     and_then (record_event dep c 2 ''IMPROVEMENT_BUILT'' i [(''source_hash_after'', JStr source)]) (\<lambda>_. answer r2)))))))))"

definition handleBuild :: "governor_deps \<Rightarrow> governor_call \<Rightarrow> string \<Rightarrow> (string \<times> string) list \<Rightarrow> (decision \<times> generation) handler" where
  "handleBuild dep c i files = when_allowed dep c IO_Build i None (\<lambda>d. and_then (workspace_of i) (\<lambda>w. case w of
     None \<Rightarrow> fail (GV_Http 404 (''No workspace tracked for this generation '' @ em_dash @ '' was /v1/improvements ever called for it?''))
   | Some w \<Rightarrow> build_candidate dep c i files w))"

section \<open>Evaluation\<close>

record evaluate_body =
  eb_regression_command :: "string list option"
  eb_security_command :: "string list option"
  eb_benchmarks :: "benchmark_spec list"
  eb_parent_capability :: capability_profile
  eb_candidate_capability :: capability_profile
  eb_candidate_authority :: authority_ceiling
  eb_manifest_before :: test_manifest
  eb_manifest_after :: test_manifest
  eb_human_approved :: "bool option"
  eb_review_approved :: "bool option"
  eb_profile_hash :: "string option"

definition evaluation_of_body :: "governor_deps \<Rightarrow> generation \<Rightarrow> improvement_spec \<Rightarrow> tree \<Rightarrow> tree \<Rightarrow> evaluate_body \<Rightarrow> evaluation_inputs" where
  "evaluation_of_body dep r spec before after b = \<lparr>ei_tenant_id = gd_tenant dep, ei_generation_id = gn_generation_id r, ei_parent_generation_id = gn_parent r,
     ei_class = gn_class r, ei_parent_tree = before, ei_candidate_tree = after, ei_spec = spec, ei_parent_capability = eb_parent_capability b,
     ei_candidate_capability = eb_candidate_capability b, ei_allowed_growth = no_growth, ei_regression_command = eb_regression_command b,
     ei_security_command = eb_security_command b, ei_benchmarks = eb_benchmarks b, ei_manifest_before = eb_manifest_before b,
     ei_manifest_after = eb_manifest_after b, ei_candidate_authority = eb_candidate_authority b, ei_human_approved = eb_human_approved b,
     ei_review_approved = eb_review_approved b, ei_profile_hash = or_default (eb_profile_hash b) ''default'', ei_decided_by = gd_agent dep\<rparr>"

definition spec_id_for :: "string \<Rightarrow> string handler" where
  "spec_id_for i gv = (case gv_spec_ids gv i of None \<Rightarrow> (gv, Inl (GV_Http 404 (''No spec tracked for generation '' @ i)))
     | Some s \<Rightarrow> if s = [] then (gv, Inl (GV_Http 404 (''No spec tracked for generation '' @ i))) else (gv, Inr s))"

definition spec_of_generation :: "governor_deps \<Rightarrow> string \<Rightarrow> improvement_spec handler" where
  "spec_of_generation dep i = and_then (spec_id_for i) (\<lambda>s. of_store (getSpec (gd_tenant dep) s))"

definition evaluation_target :: "promotion_status \<Rightarrow> generation_state" where
  "evaluation_target s = (case s of PS_Promote \<Rightarrow> GN_Evaluated | PS_Reject \<Rightarrow> GN_Rejected | PS_Hold \<Rightarrow> GN_Evaluated | _ \<Rightarrow> GN_Indeterminate)"

definition flag :: "(promotion_input \<Rightarrow> bool) \<Rightarrow> evaluation_result \<Rightarrow> bool" where
  \<comment> \<open>a signal of the evaluation; all are false when the parent was stale\<close>
  "flag f e = (case er_input e of None \<Rightarrow> False | Some i \<Rightarrow> f i)"

definition begin_evaluation :: "governor_deps \<Rightarrow> string \<Rightarrow> generation handler" where
  "begin_evaluation dep i = and_then (of_store (getGeneration (gd_tenant dep) i)) (\<lambda>r.
     if gn_status r = GN_Built then move dep r GN_Evaluating no_extra
     else if gn_status r \<noteq> GN_Evaluated
     then fail (GV_Http 409 (''Generation is not in an evaluable state (currently '' @ generation_state_name (gn_status r) @ '')''))
     else answer r)"

definition conclude_evaluation :: "governor_deps \<Rightarrow> governor_call \<Rightarrow> string \<Rightarrow> string \<Rightarrow> evaluation_result \<Rightarrow> (promotion_status \<times> generation) handler" where
  \<comment> \<open>\<open>verdict\<close>: the final state VAD reached\<close>
  "conclude_evaluation dep c i verdict e = (let status = (if verdict \<noteq> ''ACCEPTED'' then PS_Reject else er_status e); target = evaluation_target status in
     and_then (record_event dep c 3 ''CAPABILITY_DELTA_DETECTED'' i
       [(''has_unexpected_gain'', JBool (flag (\<lambda>x. cd_has_unexpected_gain (pi_capability_delta x)) e))]) (\<lambda>_.
     and_then (record_event dep c 4 ''IMPROVEMENT_EVALUATED'' i [(''decision'', JStr (promotion_status_name status)), (''vad_final_state'', JStr verdict),
       (''reason'', JStr (er_reason e)), (''control_plane_changed'', JBool (flag (\<lambda>x. mr_control_plane_changed (pi_mutation x)) e)),
       (''evaluator_changed'', JBool (flag (\<lambda>x. mr_evaluator_changed (pi_mutation x)) e)), (''test_tampered'', JBool (flag (\<lambda>x. tr_tampered (pi_tamper x)) e)),
       (''authority_within_ceiling'', JBool (flag pi_within_ceiling e))]) (\<lambda>_.
     and_then (of_store (getGeneration (gd_tenant dep) i)) (\<lambda>now.
     and_then (if gn_status now = target then answer now else move dep now target no_extra) (\<lambda>r.
     and_then (if target = GN_Rejected then record_event dep c 5 ''IMPROVEMENT_REJECTED'' i [(''reason'', JStr (er_reason e))] else answer ()) (\<lambda>_.
     answer (status, r)))))))"

definition establish_profile :: "string \<Rightarrow> string \<Rightarrow> unit handler" where
  "establish_profile s h = change (\<lambda>gv. case gv_profiles gv s of None \<Rightarrow> gv\<lparr>gv_profiles := (gv_profiles gv)(s \<mapsto> h)\<rparr> | Some _ \<Rightarrow> gv)"

definition handleEvaluate :: "governor_deps \<Rightarrow> governor_call \<Rightarrow> run_command \<Rightarrow> (bool \<Rightarrow> (string, string) res) \<Rightarrow> string \<Rightarrow> evaluate_body \<Rightarrow> (promotion_status \<times> generation) handler" where
  \<comment> \<open>\<open>vad\<close>: what VAD concludes from whether the regression suite passed\<close>
  "handleEvaluate dep c spawn vad i b = and_then (workspace_of i) (\<lambda>w. case Option.bind w ws_candidate of
     None \<Rightarrow> fail (GV_Http 409 ''Generation has not been built yet'')
   | Some path \<Rightarrow> and_then (begin_evaluation dep i) (\<lambda>r.
     and_then (record_event dep c 1 ''IMPROVEMENT_EVALUATION_STARTED'' i []) (\<lambda>_.
     and_then (spec_of_generation dep i) (\<lambda>spec.
     and_then (establish_profile (gn_system_id r) (or_default (eb_profile_hash b) ''default'')) (\<lambda>_.
     and_then (tree_at (ws_parent (the w))) (\<lambda>before.
     and_then (tree_at path) (\<lambda>after.
     and_then (on_store (runPromotionEvaluation (gd_sha dep) (gd_raw dep) spawn (gc_uuid c 2) (to_iso (gc_now c)) (evaluation_of_body dep r spec before after b))) (\<lambda>e.
     case vad (er_regression_passed e) of
       Inl m \<Rightarrow> fail (GV_Other m)
     | Inr verdict \<Rightarrow> conclude_evaluation dep c i verdict e))))))))"

section \<open>Approval, canary, promotion, rollback\<close>

definition handleApprove :: "governor_deps \<Rightarrow> governor_call \<Rightarrow> improvement_operation \<Rightarrow> string \<Rightarrow> string option \<Rightarrow> string handler" where
  "handleApprove dep c op i role gv =
     (case gate_approve (gd_sha dep) \<lparr>am_now = gc_now c, am_uuid = gc_uuid c 0, am_token = []\<rparr> (improvementApprover (or_default role (gd_approver_role dep)))
         (JObj [(''request'', operation_request (gd_agent dep) op i None), (''expiresAt'', JStr (to_iso (gc_now c + 600000)))]) (gv_gate gv) of
        (g, Inl e) \<Rightarrow> (gv\<lparr>gv_gate := g\<rparr>, Inl (GV_Gate e)) | (g, Inr a) \<Rightarrow> (gv\<lparr>gv_gate := g\<rparr>, Inr a))"

definition handleCanary :: "governor_deps \<Rightarrow> governor_call \<Rightarrow> string \<Rightarrow> string option \<Rightarrow> (decision \<times> generation) handler" where
  "handleCanary dep c i approvalId = when_allowed dep c IO_Start_Canary i approvalId (\<lambda>d.
     and_then (create_canary_session dep c i) (\<lambda>session.
     and_then (spec_of_generation dep i) (\<lambda>spec.
     and_then (on_store (startCanaryRun (gd_tenant dep) i (hash_json (gd_sha dep) (sp_canary_policy spec)) (gc_uuid c 3) (to_iso (gc_now c)))) (\<lambda>canary.
     and_then (of_store (getGeneration (gd_tenant dep) i)) (\<lambda>r.
     and_then (move dep r GN_Canary no_extra) (\<lambda>r'.
     and_then (record_event dep c 4 ''IMPROVEMENT_CANARY_STARTED'' i [(''canary_id'', JStr (cn_canary_id canary)),
       (''sentinel_session_id'', JStr (sn_sentinel_session_id session))]) (\<lambda>_. answer r')))))))"

definition last_decision :: "governor_deps \<Rightarrow> string \<Rightarrow> governor \<Rightarrow> promotion_decision option" where
  "last_decision dep i gv = (let ds = listPromotionDecisions (gd_tenant dep) i (gv_store gv) in if ds = [] then None else Some (last ds))"

definition stale_profile_message :: "string \<Rightarrow> string \<Rightarrow> string" where
  "stale_profile_message evaluated active = ''Promotion blocked: this generation was evaluated under profile '' @ evaluated @ '', but the system's active profile is now ''
     @ active @ '' '' @ em_dash @ '' reevaluation is required, never a promotion under stale criteria''"

definition stale_parent_message :: "string \<Rightarrow> string \<Rightarrow> string" where
  "stale_parent_message p a = ''Promotion blocked: this candidate's recorded parent ('' @ p @ '') is no longer the system's accepted generation (currently '' @ a
     @ '') '' @ em_dash @ '' reevaluate against the current baseline, never a silent rebase''"

definition fresh_profile :: "governor_deps \<Rightarrow> governor_call \<Rightarrow> generation \<Rightarrow> unit handler" where
  "fresh_profile dep c r gv = (case (last_decision dep (gn_generation_id r) gv, gv_profiles gv (gn_system_id r)) of
     (Some d, Some h) \<Rightarrow> if pd_profile_hash d = h then (gv, Inr ())
       else and_then (record_event dep c 1 ''IMPROVEMENT_INDETERMINATE'' (gn_generation_id r) [(''reason'', JStr ''stale_evaluation_profile''),
           (''evaluated_under'', JStr (pd_profile_hash d)), (''currently_active'', JStr h)]) (\<lambda>_. fail (GV_Http 409 (stale_profile_message (pd_profile_hash d) h))) gv
   | _ \<Rightarrow> (gv, Inr ()))"

definition fresh_parent :: "governor_deps \<Rightarrow> governor_call \<Rightarrow> generation \<Rightarrow> unit handler" where
  "fresh_parent dep c r = (case gn_parent r of None \<Rightarrow> answer ()
     | Some p \<Rightarrow> and_then (of_store (getSystem (gd_tenant dep) (gn_system_id r))) (\<lambda>s. case sy_accepted s of None \<Rightarrow> answer ()
         | Some a \<Rightarrow> if a = p then answer ()
             else and_then (record_event dep c 1 ''IMPROVEMENT_INDETERMINATE'' (gn_generation_id r) [(''reason'', JStr ''stale_parent''),
                 (''recorded_parent'', JStr p), (''currently_accepted'', JStr a)]) (\<lambda>_. fail (GV_Http 409 (stale_parent_message p a)))))"

definition handlePromote :: "governor_deps \<Rightarrow> governor_call \<Rightarrow> string \<Rightarrow> string option \<Rightarrow> (decision \<times> generation) handler" where
  "handlePromote dep c i approvalId = when_allowed dep c IO_Promote i approvalId (\<lambda>d.
     and_then (of_store (getGeneration (gd_tenant dep) i)) (\<lambda>r.
     and_then (fresh_profile dep c r) (\<lambda>_.
     and_then (fresh_parent dep c r) (\<lambda>_.
     and_then (move dep r GN_Promoted no_extra) (\<lambda>r'.
     and_then (record_event dep c 2 ''IMPROVEMENT_PROMOTED'' i [(''decision_id'', JStr (de_decisionId d))]) (\<lambda>_. answer r'))))))"

definition verifyRollbackTarget :: "string \<Rightarrow> bool handler" where
  "verifyRollbackTarget target gv = (gv, Inr (case gv_workspaces gv target of None \<Rightarrow> False
     | Some w \<Rightarrow> (let path = or_default (ws_candidate w) (ws_parent w) in path \<noteq> [] \<and> gv_disk gv path \<noteq> None)))"

definition rollback_reason :: "bool \<Rightarrow> string \<Rightarrow> string" where
  "rollback_reason verified target = ''rollback target '' @ target @ CHR 0x27 # (if verified then ''s workspace exists and is reachable''
     else ''s workspace is not trackable or no longer exists on disk '' @ em_dash @ '' cannot confirm restored state'')"

definition handleRollback :: "governor_deps \<Rightarrow> governor_call \<Rightarrow> string \<Rightarrow> string \<Rightarrow> string option \<Rightarrow> string option \<Rightarrow> (decision \<times> generation) handler" where
  "handleRollback dep c i target trigger approvalId = when_allowed dep c IO_Rollback i approvalId (\<lambda>d.
     let why = or_default trigger ''MANUAL'' in
     and_then (record_event dep c 1 ''IMPROVEMENT_ROLLBACK_STARTED'' i [(''target'', JStr target), (''trigger'', JStr why)]) (\<lambda>_.
     and_then (on_store (initiateRollback (gd_tenant dep) i target why (gd_agent dep) (gc_uuid c 2) (to_iso (gc_now c)))) (\<lambda>rollback.
     and_then (verifyRollbackTarget target) (\<lambda>verified.
     and_then (of_store (getGeneration (gd_tenant dep) i)) (\<lambda>r.
     if \<not> verified
     then and_then (record_event dep c 3 ''IMPROVEMENT_INDETERMINATE'' i [(''reason'', JStr (rollback_reason False target)), (''rollback_id'', JStr (rk_rollback_id rollback))]) (\<lambda>_.
       move dep r GN_Indeterminate no_extra)
     else and_then (on_store (completeRollback (gd_tenant dep) (rk_rollback_id rollback) RS_Rolled_Back (Some (rollback_reason True target)) (to_iso (gc_now c)))) (\<lambda>_.
       and_then (move dep r GN_Rolled_Back no_extra) (\<lambda>r'.
       and_then (record_event dep c 3 ''IMPROVEMENT_ROLLED_BACK'' i [(''rollback_id'', JStr (rk_rollback_id rollback))]) (\<lambda>_. answer r'))))))))"

definition set_evaluation_profile :: "governor_deps \<Rightarrow> string \<Rightarrow> string \<Rightarrow> string handler" where
  \<comment> \<open>\<open>POST /v1/systems/:name/evaluation-profile\<close>\<close>
  "set_evaluation_profile dep name h gv = (case findSystemByName (gd_tenant dep) name (gv_store gv) of
     None \<Rightarrow> (gv, Inl (GV_Http 404 (''No system named '' @ name @ '' for this tenant'')))
   | Some s \<Rightarrow> (gv\<lparr>gv_profiles := (gv_profiles gv)(sy_system_id s \<mapsto> h)\<rparr>, Inr (sy_system_id s)))"

definition handleReady :: "governor_deps \<Rightarrow> governor_call \<Rightarrow> unit handler" where
  \<comment> \<open>the probe; the page of the Ledger it reads changes nothing\<close>
  "handleReady dep c = and_then (on_store (getOrCreateRecursionBudget (gd_tenant dep) ''__readiness_probe__''
       \<lparr>rl_max_generations = Some 1, rl_max_attempts = Some 1, rl_max_total_runtime_ms = Some 1, rl_max_total_cost_usd = Some 1, rl_max_tool_calls = Some 1\<rparr>)) (\<lambda>_.
     and_then (authorize_operation dep c IO_Authorize_Generation ''__readiness_probe__'' None) (\<lambda>_. \<lambda>gv.
     case installDefaultPolicy (gd_sha dep) \<lparr>sc_principal_id = ''readiness-probe'', sc_role = RO_Admin, sc_tenantId = gd_tenant dep, sc_allowedSources = []\<rparr>
         (gc_now c) (gv_sentinel gv) of
       Inl e \<Rightarrow> (gv, Inl (GV_Sentinel e)) | Inr (s, _) \<Rightarrow> (gv\<lparr>gv_sentinel := s\<rparr>, Inr ())))"

definition governor_error_status :: "governor_error \<Rightarrow> nat" where
  "governor_error_status e = (case e of GV_Http n _ \<Rightarrow> n
     | GV_Gate g \<Rightarrow> (case g of Http n _ \<Rightarrow> n | Schema_Error \<Rightarrow> 500)
     | GV_Improvement x \<Rightarrow> (case x of Improvement_Sql _ \<Rightarrow> 500
         | Improvement_Error code _ \<Rightarrow> (case code of IM_NOT_FOUND \<Rightarrow> 404 | IM_FORBIDDEN \<Rightarrow> 403 | IM_CROSS_TENANT_DENIED \<Rightarrow> 403 | IM_CONFLICT \<Rightarrow> 409
             | IM_SPEC_IMMUTABLE \<Rightarrow> 409 | IM_LINEAGE_CYCLE \<Rightarrow> 409 | IM_BUDGET_EXHAUSTED \<Rightarrow> 429 | _ \<Rightarrow> 400))
     | _ \<Rightarrow> 500)"

end
