(* ===== verification/Improvement_Invariant.thy ===== *)
theory Improvement_Invariant
  imports Improvement_Governor Platform_Protocol
begin

text \<open>
  What the handlers of the governor keep: the lineage of generations is a forest numbered from its roots, a
  generation's state is backed by the Gate's decisions, the accepted generation was promoted, and the budget of a
  system counts its generations. Handlers are composed of pieces, and so are the proofs: \<open>keeps\<close> is closed under
  the composition of handlers.
\<close>

section \<open>Handlers that keep a property\<close>

named_theorems handler_keeps

fun outcome :: "('a \<Rightarrow> governor \<Rightarrow> bool) \<Rightarrow> (governor \<Rightarrow> bool) \<Rightarrow> governor \<times> (governor_error, 'a) res \<Rightarrow> bool" where
  "outcome Q E (gv, Inl e) = E gv"
| "outcome Q E (gv, Inr x) = Q x gv"

definition runs :: "(governor \<Rightarrow> bool) \<Rightarrow> 'a handler \<Rightarrow> ('a \<Rightarrow> governor \<Rightarrow> bool) \<Rightarrow> (governor \<Rightarrow> bool) \<Rightarrow> bool" where
  \<comment> \<open>from \<open>P\<close> an answer establishes \<open>Q\<close>, an error leaves \<open>E\<close>\<close>
  "runs P m Q E = (\<forall>gv. P gv \<longrightarrow> outcome Q E (m gv))"

abbreviation keeps :: "(governor \<Rightarrow> bool) \<Rightarrow> 'a handler \<Rightarrow> bool" where
  "keeps P m \<equiv> runs P m (\<lambda>_. P) P"

lemma runs_then: "runs P m Q E \<Longrightarrow> (\<And>x. runs (Q x) (f x) R E) \<Longrightarrow> runs P (and_then m f) R E"
proof (unfold runs_def, intro allI impI)
  fix gv assume m: "\<forall>gv. P gv \<longrightarrow> outcome Q E (m gv)" "\<And>x. \<forall>gv. Q x gv \<longrightarrow> outcome R E (f x gv)" "P gv"
  obtain gv' r where r: "m gv = (gv', r)" by fastforce
  with m(1,3) have "outcome Q E (gv', r)" by metis
  then show "outcome R E (and_then m f gv)" using m(2) by (cases r) (simp_all add: and_then_def r)
qed

lemma keeps_then [handler_keeps]: "keeps P m \<Longrightarrow> (\<And>x. keeps P (f x)) \<Longrightarrow> keeps P (and_then m f)"
  by (rule runs_then)

lemma keeps_answer [handler_keeps]: "keeps P (answer x)"
  by (simp add: runs_def answer_def)

lemma keeps_fail [handler_keeps]: "keeps P (fail e)"
  by (simp add: runs_def fail_def)

lemma keeps_if [handler_keeps]: "(b \<Longrightarrow> keeps P m) \<Longrightarrow> (\<not> b \<Longrightarrow> keeps P n) \<Longrightarrow> keeps P (if b then m else n)"
  by simp

lemma keeps_option [handler_keeps]: "(x = None \<Longrightarrow> keeps P m) \<Longrightarrow> (\<And>y. x = Some y \<Longrightarrow> keeps P (f y)) \<Longrightarrow> keeps P (case x of None \<Rightarrow> m | Some y \<Rightarrow> f y)"
  by (cases x) simp_all

lemma keeps_let [handler_keeps]: "keeps P (f x) \<Longrightarrow> keeps P (let y = x in f y)"
  by simp

lemma runs_weaken: "runs P m Q E \<Longrightarrow> (\<And>gv. P' gv \<Longrightarrow> P gv) \<Longrightarrow> (\<And>x gv. Q x gv \<Longrightarrow> Q' x gv) \<Longrightarrow> (\<And>gv. E gv \<Longrightarrow> E' gv) \<Longrightarrow> runs P' m Q' E'"
proof (unfold runs_def, intro allI impI)
  fix gv assume a: "\<forall>gv. P gv \<longrightarrow> outcome Q E (m gv)" "\<And>gv. P' gv \<Longrightarrow> P gv" "\<And>x gv. Q x gv \<Longrightarrow> Q' x gv" "\<And>gv. E gv \<Longrightarrow> E' gv" "P' gv"
  then have "outcome Q E (m gv)" by blast
  then show "outcome Q' E' (m gv)" using a(3,4) by (cases "m gv"; cases "snd (m gv)") simp_all
qed

lemma keeps_outcome [simp]: "outcome (\<lambda>_. P) P r = P (fst r)"
  by (cases r; cases "snd r") simp_all

lemma keeps_same:
  assumes "\<And>gv. fst (m gv) = gv" shows "keeps P m"
  using assms by (simp add: runs_def)

lemma keeps_reads [handler_keeps]: "keeps P (of_store op)" "keeps P (workspace_of i)" "keeps P (spec_id_for i)" "keeps P (tree_at path)"
    "keeps P (verifyRollbackTarget target)"
  by (rule keeps_same, simp add: of_store_def workspace_of_def spec_id_for_def tree_at_def verifyRollbackTarget_def split: sum.splits option.splits)+

lemma keeps_fst: "keeps P m \<Longrightarrow> P gv \<Longrightarrow> P (fst (m gv))"
  by (simp add: runs_def)

section \<open>Lineage\<close>

type_synonym generation_key = "string \<times> string \<times> string \<times> string option \<times> string \<times> nat"

definition gen_key :: "generation \<Rightarrow> generation_key" where
  \<comment> \<open>what no operation changes\<close>
  "gen_key r = (gn_generation_id r, gn_tenant_id r, gn_system_id r, gn_parent r, gn_root r, gn_number r)"

definition descends :: "generation_key set \<Rightarrow> generation_key \<Rightarrow> bool" where
  "descends ks k = (case k of (i, t, s, parent, r0, n) \<Rightarrow> r0 \<noteq> [] \<and> (case parent of None \<Rightarrow> r0 = i \<and> n = 0
     | Some p \<Rightarrow> \<exists>s' parent' m. (p, t, s', parent', r0, m) \<in> ks \<and> n = Suc m))"

definition lineage_inv :: "generation list \<Rightarrow> bool" where
  "lineage_inv rows = (distinct (map gn_generation_id rows) \<and> (\<forall>k \<in> gen_key ` set rows. descends (gen_key ` set rows) k))"

lemma descends_mono: "descends ks k \<Longrightarrow> ks \<subseteq> ks' \<Longrightarrow> descends ks' k"
  by (auto simp: descends_def split: option.splits prod.splits) blast

lemma gen_key_move [simp]: "gen_key (move_generation s x r) = gen_key r"
  by (simp add: gen_key_def move_generation_def)

lemma upd_where_keys: "(\<And>r. key (f r) = key r) \<Longrightarrow> map key (upd_where p f rows) = map key rows"
  by (simp add: upd_where_def)

lemma lineage_upd: "(\<And>r. gen_key (f r) = gen_key r) \<Longrightarrow> lineage_inv (upd_where p f rows) = lineage_inv rows"
proof -
  assume f: "\<And>r. gen_key (f r) = gen_key r"
  have "gn_generation_id (f r) = gn_generation_id r" for r using f [of r] by (simp add: gen_key_def)
  then have "map gn_generation_id (upd_where p f rows) = map gn_generation_id rows" by (rule upd_where_keys)
  moreover have "gen_key ` set (upd_where p f rows) = gen_key ` set rows" using upd_where_keys [of gen_key f p rows] f by (metis list.set_map)
  ultimately show ?thesis by (simp add: lineage_inv_def)
qed

lemma lineage_append:
  assumes "lineage_inv rows" "gn_generation_id r \<notin> gn_generation_id ` set rows" "descends (gen_key ` set rows) (gen_key r)"
  shows "lineage_inv (rows @ [r])"
  using assms by (auto simp: lineage_inv_def intro: descends_mono)

lemma lineage_unique: "lineage_inv rows \<Longrightarrow> r \<in> set rows \<Longrightarrow> q \<in> set rows \<Longrightarrow> gn_generation_id r = gn_generation_id q \<Longrightarrow> r = q"
  by (auto simp: lineage_inv_def distinct_map inj_on_def)

lemma lineage_parent:
  assumes "lineage_inv rows" "r \<in> set rows" "gn_parent r = Some p"
  shows "\<exists>q \<in> set rows. gn_generation_id q = p \<and> gn_tenant_id q = gn_tenant_id r \<and> gn_root q = gn_root r \<and> gn_number r = Suc (gn_number q)"
  using assms by (fastforce simp: lineage_inv_def descends_def gen_key_def)

lemma lineage_root: "lineage_inv rows \<Longrightarrow> r \<in> set rows \<Longrightarrow> gn_parent r = None \<Longrightarrow> gn_root r = gn_generation_id r \<and> gn_number r = 0"
  by (fastforce simp: lineage_inv_def descends_def gen_key_def)

lemma lineage_root_nonempty: "lineage_inv rows \<Longrightarrow> r \<in> set rows \<Longrightarrow> gn_root r \<noteq> []"
  by (fastforce simp: lineage_inv_def descends_def gen_key_def)

lemma getGeneration_Inr: "getGeneration t i st = Inr r \<Longrightarrow> r \<in> set (im_generations st) \<and> gn_tenant_id r = t \<and> gn_generation_id r = i"
  by (auto simp: getGeneration_def tenant_generations_def dest!: find_SomeD split: option.splits)

lemma createGeneration_Inr:
  assumes "createGeneration i u now st = Inr (st', r)" "lineage_inv (im_generations st)"
  shows "st' = st\<lparr>im_generations := im_generations st @ [r]\<rparr> \<and> lineage_inv (im_generations st') \<and> gn_status r = GN_Proposed
    \<and> gn_tenant_id r = gi_tenant_id i \<and> gn_system_id r = gi_system_id i"
proof -
  obtain r0 n where r: "r = new_generation i (newGenerationId u) r0 n now" "st' = st\<lparr>im_generations := im_generations st @ [r]\<rparr>"
      "newGenerationId u \<notin> gn_generation_id ` set (im_generations st)"
    and p: "(case gi_parent i of None \<Rightarrow> Inr (newGenerationId u, 0)
       | Some p \<Rightarrow> (case getGeneration (gi_tenant_id i) p st of
           Inl _ \<Rightarrow> Inl (Improvement_Error IM_NOT_FOUND (''Parent generation '' @ p @ '' not found for tenant '' @ gi_tenant_id i))
         | Inr g \<Rightarrow> Inr (if gn_root g = [] then newGenerationId u else gn_root g, gn_number g + 1))) = Inr (r0, n)"
    using assms(1) by (auto simp: createGeneration_def Let_def rbind_eq_Inr split: if_splits prod.splits)
  have "descends (gen_key ` set (im_generations st)) (gen_key r)"
  proof (cases "gi_parent i")
    case None
    with p have "r0 = newGenerationId u" "n = 0" by simp_all
    with None show ?thesis by (simp add: descends_def gen_key_def r(1) new_generation_def newGenerationId_def)
  next
    case (Some q)
    then obtain g where g: "getGeneration (gi_tenant_id i) q st = Inr g" using p by (auto split: sum.splits)
    note g' = getGeneration_Inr [OF g]
    have "gn_root g \<noteq> []" using g' lineage_root_nonempty [OF assms(2)] by blast
    then have "r0 = gn_root g" "n = Suc (gn_number g)" using p Some g by simp_all
    moreover have "(q, gi_tenant_id i, gn_system_id g, gn_parent g, gn_root g, gn_number g) \<in> gen_key ` set (im_generations st)"
      using g' by (auto simp: gen_key_def)
    moreover have "gen_key r = (newGenerationId u, gi_tenant_id i, gi_system_id i, Some q, gn_root g, Suc (gn_number g))"
      using calculation Some by (simp add: gen_key_def r(1) new_generation_def)
    ultimately show ?thesis using \<open>gn_root g \<noteq> []\<close> by (auto simp: descends_def)
  qed
  then show ?thesis using r lineage_append [OF assms(2), of r] by (simp add: new_generation_def)
qed

section \<open>The state of a generation and the Gate\<close>

interpretation generation_moves: transition_table generation_transitions "\<lambda>s. s \<in> {GN_Rejected, GN_Rolled_Back, GN_Failed, GN_Indeterminate}"
  by unfold_locales auto

fun trail :: "generation_state \<Rightarrow> improvement_operation list" where
  \<comment> \<open>the operations the Gate allowed for a generation in that state\<close>
  "trail GN_Authorized = [IO_Authorize_Generation]"
| "trail GN_Building = [IO_Authorize_Generation, IO_Build]"
| "trail GN_Built = [IO_Authorize_Generation, IO_Build]"
| "trail GN_Evaluating = [IO_Authorize_Generation, IO_Build]"
| "trail GN_Evaluated = [IO_Authorize_Generation, IO_Build]"
| "trail GN_Awaiting_Approval = [IO_Authorize_Generation, IO_Build]"
| "trail GN_Canary = [IO_Authorize_Generation, IO_Build, IO_Start_Canary]"
| "trail GN_Promoted = [IO_Authorize_Generation, IO_Build, IO_Start_Canary, IO_Promote]"
| "trail GN_Rolled_Back = [IO_Authorize_Generation, IO_Build, IO_Start_Canary, IO_Rollback]"
| "trail s = []"

fun entry :: "generation_state \<Rightarrow> improvement_operation list" where
  \<comment> \<open>the operation that leads into a state\<close>
  "entry GN_Authorized = [IO_Authorize_Generation]"
| "entry GN_Building = [IO_Build]"
| "entry GN_Canary = [IO_Start_Canary]"
| "entry GN_Promoted = [IO_Promote]"
| "entry GN_Rolled_Back = [IO_Rollback]"
| "entry s = []"

lemma trail_step: "canTransition s s' \<Longrightarrow> set (trail s') \<subseteq> set (trail s) \<union> set (entry s')"
  by (cases s; cases s') (simp_all add: canTransition_def)

definition backed :: "gate_state \<Rightarrow> string \<Rightarrow> improvement_operation \<Rightarrow> string \<Rightarrow> bool" where
  \<comment> \<open>the Gate stores an ALLOW for that operation on that generation\<close>
  "backed g agent op i = (\<exists>k d. st_get k (gs_decisions g) = Some d \<and> de_decision d = ALLOW \<and> rq_agentId (de_request d) = agent
     \<and> rq_action (de_request d) = operation_action op \<and> rq_resource (de_request d) = generation_resource i)"

section \<open>The store\<close>

definition counted :: "string \<Rightarrow> string \<Rightarrow> generation list \<Rightarrow> nat" where
  "counted t s rows = length (filter (\<lambda>r. gn_tenant_id r = t \<and> gn_system_id r = s) rows)"

definition budget_ok :: "generation list \<Rightarrow> recursion_budget \<Rightarrow> bool" where
  "budget_ok rows b = (rb_generation_count b = counted (rb_tenant_id b) (rb_system_id b) rows
     \<and> (rb_generation_count b = 0 \<or> (case rl_max_generations (rb_limits b) of None \<Rightarrow> True | Some m \<Rightarrow> of_nat (rb_generation_count b) < m + 1)))"

definition budgets_inv :: "recursion_budget list \<Rightarrow> generation list \<Rightarrow> bool" where
  "budgets_inv bs rows = (distinct (map rb_system_id bs) \<and> (\<forall>b \<in> set bs. budget_ok rows b)
     \<and> (\<lambda>r. (gn_tenant_id r, gn_system_id r)) ` set rows \<subseteq> (\<lambda>b. (rb_tenant_id b, rb_system_id b)) ` set bs)"

definition accepted_inv :: "improvement_system list \<Rightarrow> generation list \<Rightarrow> bool" where
  \<comment> \<open>an accepted generation is one of the system that was promoted\<close>
  "accepted_inv ss rows = (\<forall>s \<in> set ss. \<forall>i. sy_accepted s = Some i \<longrightarrow> (\<exists>r \<in> set rows. gn_generation_id r = i
     \<and> gn_tenant_id r = sy_tenant_id s \<and> gn_system_id r = sy_system_id s \<and> gn_status r \<in> {GN_Promoted, GN_Rolled_Back}))"

definition improvement_inv :: "string \<Rightarrow> (improvement_operation \<Rightarrow> string \<Rightarrow> bool) \<Rightarrow> improvement_store \<Rightarrow> bool" where
  "improvement_inv t bk st = (lineage_inv (im_generations st) \<and> (\<forall>r \<in> set (im_generations st). gn_tenant_id r = t)
     \<and> (\<forall>r \<in> set (im_generations st). \<forall>op \<in> set (trail (gn_status r)). bk op (gn_generation_id r))
     \<and> budgets_inv (im_budgets st) (im_generations st) \<and> accepted_inv (im_systems st) (im_generations st))"

lemma store_inv_start: "improvement_inv t bk improvement_start"
  by (simp add: improvement_inv_def improvement_start_def lineage_inv_def budgets_inv_def accepted_inv_def)

lemma store_inv_other:
  "im_generations st' = im_generations st \<Longrightarrow> im_budgets st' = im_budgets st \<Longrightarrow> im_systems st' = im_systems st \<Longrightarrow> improvement_inv t bk st' = improvement_inv t bk st"
  by (simp add: improvement_inv_def)

lemma store_inv_more: "improvement_inv t bk st \<Longrightarrow> (\<And>op i. bk op i \<Longrightarrow> bk' op i) \<Longrightarrow> improvement_inv t bk' st"
  by (auto simp: improvement_inv_def)

lemma store_inv_records:
  "saveSpec t g spec now st = Inr st' \<Longrightarrow> improvement_inv t' bk st' = improvement_inv t' bk st"
  "recordPromotionDecision t d u st = Inr (st', d') \<Longrightarrow> improvement_inv t' bk st' = improvement_inv t' bk st"
  "startCanaryRun t g policy u now st = Inr (st', c) \<Longrightarrow> improvement_inv t' bk st' = improvement_inv t' bk st"
  "initiateRollback t g target trigger by' u now st = Inr (st', r) \<Longrightarrow> improvement_inv t' bk st' = improvement_inv t' bk st"
  "completeRollback t i status ev now st = Inr (st', r') \<Longrightarrow> improvement_inv t' bk st' = improvement_inv t' bk st"
  by (intro store_inv_other; fastforce simp: saveSpec_def recordPromotionDecision_def startCanaryRun_def initiateRollback_def completeRollback_def Let_def rbind_eq_Inr
      split: option.splits if_splits)+

lemma store_inv_evaluation:
  "runPromotionEvaluation sha raw spawn u now e st = Inr (st', x) \<Longrightarrow> improvement_inv t' bk st' = improvement_inv t' bk st"
  by (auto simp: runPromotionEvaluation_def Let_def rbind_eq_Inr store_inv_records(2) split: if_splits prod.splits)

lemma store_inv_system: "createSystem t name by' u now st = Inr (st', s) \<Longrightarrow> improvement_inv t' bk st \<Longrightarrow> improvement_inv t' bk st'"
  by (auto simp: createSystem_def Let_def improvement_inv_def accepted_inv_def split: if_splits)

lemma budget_of_Some: "budget_of t s st = Some b \<Longrightarrow> b \<in> set (im_budgets st) \<and> rb_tenant_id b = t \<and> rb_system_id b = s"
  by (auto simp: budget_of_def dest: find_SomeD)

lemma counted_zero: "(t, s) \<notin> (\<lambda>r. (gn_tenant_id r, gn_system_id r)) ` set rows \<Longrightarrow> counted t s rows = 0"
  by (auto simp: counted_def filter_empty_conv)

lemma store_inv_budget:
  assumes "getOrCreateRecursionBudget t s limits st = Inr (st', b)" "improvement_inv t' bk st"
  shows "improvement_inv t' bk st' \<and> budget_of t s st' = Some b"
proof (cases "budget_of t s st")
  case (Some c)
  with assms show ?thesis by (simp add: getOrCreateRecursionBudget_def)
next
  case None
  then have n: "(t, s) \<notin> (\<lambda>b. (rb_tenant_id b, rb_system_id b)) ` set (im_budgets st)"
    by (auto simp: budget_of_def find_None_iff)
  have st': "st' = st\<lparr>im_budgets := im_budgets st @ [new_budget t s limits]\<rparr>" "s \<notin> rb_system_id ` set (im_budgets st)" "budget_of t s st' = Some b"
    using assms(1) None by (auto simp: getOrCreateRecursionBudget_def getRecursionBudget_def Let_def rbind_eq_Inr split: if_splits option.splits)
  have "counted t s (im_generations st) = 0"
    using assms(2) n by (intro counted_zero) (auto simp: improvement_inv_def budgets_inv_def)
  then have "budget_ok (im_generations st) (new_budget t s limits)"
    by (simp add: budget_ok_def new_budget_def)
  moreover have "rb_system_id (new_budget t s limits) = s" by (simp add: new_budget_def)
  ultimately show ?thesis using assms(2) st' by (auto simp: improvement_inv_def budgets_inv_def)
qed

lemma setAccepted_Inr:
  assumes "setAcceptedGeneration t s i st = Inr st'"
  shows "im_generations st' = im_generations st" "im_budgets st' = im_budgets st"
    "im_systems st' = upd_where (\<lambda>r. sy_tenant_id r = t \<and> sy_system_id r = s) (accept_row i) (im_systems st)"
  using assms by (auto simp: setAcceptedGeneration_def Let_def split: if_splits)

lemma transition_Inr:
  assumes "transitionGeneration t i n s x st = Inr (st', r')"
  obtains cur where "getGeneration t i st = Inr cur" "canTransition (gn_status cur) s"
    "im_generations st' = upd_where (\<lambda>r. gn_tenant_id r = t \<and> gn_generation_id r = i \<and> gn_state_version r = n) (move_generation s x) (im_generations st)"
    "im_budgets st' = im_budgets st"
    "im_systems st' = (if s = GN_Promoted then upd_where (\<lambda>r. sy_tenant_id r = t \<and> sy_system_id r = gn_system_id cur) (accept_row i) (im_systems st) else im_systems st)"
    "hits (\<lambda>r. gn_tenant_id r = t \<and> gn_generation_id r = i \<and> gn_state_version r = n) (im_generations st) = 1"
proof -
  let ?p = "\<lambda>r. gn_tenant_id r = t \<and> gn_generation_id r = i \<and> gn_state_version r = n"
  let ?st = "st\<lparr>im_generations := upd_where ?p (move_generation s x) (im_generations st)\<rparr>"
  obtain cur st2 where c: "getGeneration t i st = Inr cur" "canTransition (gn_status cur) s" "hits ?p (im_generations st) = 1"
    and s2: "(if s = GN_Promoted then setAcceptedGeneration t (gn_system_id cur) i ?st else Inr ?st) = Inr st2" "st' = st2"
    using assms by (auto simp: transitionGeneration_def Let_def rbind_eq_Inr split: if_splits)
  have "im_generations st' = im_generations ?st \<and> im_budgets st' = im_budgets ?st \<and> im_systems st' = (if s = GN_Promoted
      then upd_where (\<lambda>r. sy_tenant_id r = t \<and> sy_system_id r = gn_system_id cur) (accept_row i) (im_systems st) else im_systems st)"
    using s2 setAccepted_Inr [of t "gn_system_id cur" i ?st st2] by (auto split: if_splits)
  with c show ?thesis by (intro that [of cur]) simp_all
qed

lemma move_simps [simp]: "gn_generation_id (move_generation s x r) = gn_generation_id r" "gn_tenant_id (move_generation s x r) = gn_tenant_id r"
  "gn_system_id (move_generation s x r) = gn_system_id r" "gn_status (move_generation s x r) = s"
  by (simp_all add: move_generation_def)

lemma counted_upd: "counted t s (upd_where p (move_generation a x) rows) = counted t s rows"
  by (induction rows) (simp_all add: counted_def upd_where_def)

lemma set_upd_where: "y \<in> set (upd_where p f rows) \<longleftrightarrow> (\<exists>r \<in> set rows. y = (if p r then f r else r))"
  by (auto simp: upd_where_def)

lemma budgets_inv_upd: "budgets_inv bs (upd_where p (move_generation a x) rows) = budgets_inv bs rows"
proof -
  have "map (\<lambda>r. (gn_tenant_id r, gn_system_id r)) (upd_where p (move_generation a x) rows) = map (\<lambda>r. (gn_tenant_id r, gn_system_id r)) rows"
    by (rule upd_where_keys) simp
  then have "(\<lambda>r. (gn_tenant_id r, gn_system_id r)) ` set (upd_where p (move_generation a x) rows) = (\<lambda>r. (gn_tenant_id r, gn_system_id r)) ` set rows"
    by (metis list.set_map)
  then show ?thesis by (simp add: budgets_inv_def budget_ok_def counted_upd)
qed

lemma store_inv_transition:
  assumes tr: "transitionGeneration t i n s x st = Inr (st', r')" and inv: "improvement_inv t' bk st" and bk: "\<And>op. op \<in> set (entry s) \<Longrightarrow> bk op i"
  shows "improvement_inv t' bk st'"
proof -
  let ?p = "\<lambda>r. gn_tenant_id r = t \<and> gn_generation_id r = i \<and> gn_state_version r = n"
  from transition_Inr [OF tr] obtain cur where c: "getGeneration t i st = Inr cur" "canTransition (gn_status cur) s"
    "im_generations st' = upd_where ?p (move_generation s x) (im_generations st)" "im_budgets st' = im_budgets st"
    "im_systems st' = (if s = GN_Promoted then upd_where (\<lambda>r. sy_tenant_id r = t \<and> sy_system_id r = gn_system_id cur) (accept_row i) (im_systems st) else im_systems st)"
    "hits ?p (im_generations st) = 1" .
  note cur = getGeneration_Inr [OF c(1)]
  have l: "lineage_inv (im_generations st)" using inv by (simp add: improvement_inv_def)
  have same: "r = cur" if "r \<in> set (im_generations st)" "?p r" for r
    using lineage_unique [OF l that(1)] cur that(2) by auto
  have "filter ?p (im_generations st) \<noteq> []" using c(6) by (auto simp: hits_def)
  then obtain q where q: "q \<in> set (im_generations st)" "?p q" by (auto simp: filter_empty_conv)
  have moved: "move_generation s x cur \<in> set (im_generations st')"
    using q same [OF q] by (auto simp: c(3) set_upd_where)
  have tr': "bk op (gn_generation_id r)" if "r \<in> set (im_generations st')" "op \<in> set (trail (gn_status r))" for r op
  proof -
    from that(1) obtain r0 where r0: "r0 \<in> set (im_generations st)" "r = (if ?p r0 then move_generation s x r0 else r0)" by (auto simp: c(3) set_upd_where)
    have old: "op' \<in> set (trail (gn_status r0)) \<Longrightarrow> bk op' (gn_generation_id r0)" for op' using inv r0(1) by (auto simp: improvement_inv_def)
    show ?thesis
    proof (cases "?p r0")
      case True
      with same [OF r0(1)] have "gn_status r0 = gn_status cur" by simp
      with trail_step [OF c(2)] True r0(2) that(2) old bk show ?thesis by auto
    next
      case False
      with r0 that(2) old show ?thesis by simp
    qed
  qed
  have kept: "\<exists>r' \<in> set (im_generations st'). gn_generation_id r' = gn_generation_id r \<and> gn_tenant_id r' = gn_tenant_id r \<and> gn_system_id r' = gn_system_id r
     \<and> gn_status r' \<in> {GN_Promoted, GN_Rolled_Back}" if "r \<in> set (im_generations st)" "gn_status r \<in> {GN_Promoted, GN_Rolled_Back}" for r
  proof (cases "?p r")
    case True
    then have "r = cur" using same that(1) by blast
    then have "s = GN_Rolled_Back" using c(2) that(2) by (cases s) (auto simp: canTransition_def)
    with moved \<open>r = cur\<close> show ?thesis by (intro bexI [OF _ moved]) simp
  next
    case False
    then have "r \<in> set (im_generations st')" using that(1) by (auto simp: c(3) set_upd_where)
    with that(2) show ?thesis by blast
  qed
  have acc0: "accepted_inv (im_systems st) (im_generations st)" using inv by (simp add: improvement_inv_def)
  have "accepted_inv (im_systems st') (im_generations st')"
    unfolding accepted_inv_def
  proof (intro ballI allI impI)
    fix y j assume y: "y \<in> set (im_systems st')" "sy_accepted y = Some j"
    show "\<exists>r \<in> set (im_generations st'). gn_generation_id r = j \<and> gn_tenant_id r = sy_tenant_id y \<and> gn_system_id r = sy_system_id y \<and> gn_status r \<in> {GN_Promoted, GN_Rolled_Back}"
    proof (cases "y \<in> set (im_systems st)")
      case True
      with acc0 y(2) kept show ?thesis unfolding accepted_inv_def by metis
    next
      case False
      then have "s = GN_Promoted" "sy_tenant_id y = t" "sy_system_id y = gn_system_id cur" "j = i"
        using y by (auto simp: c(5) set_upd_where accept_row_def split: if_splits)
      with moved cur show ?thesis by (intro bexI [OF _ moved]) simp
    qed
  qed
  moreover have "lineage_inv (im_generations st')" using l by (simp add: c(3) lineage_upd)
  moreover have "\<forall>r \<in> set (im_generations st'). gn_tenant_id r = t'" using inv by (auto simp: c(3) set_upd_where improvement_inv_def)
  moreover have "budgets_inv (im_budgets st') (im_generations st')" using inv by (simp add: c(3,4) budgets_inv_upd improvement_inv_def)
  ultimately show ?thesis using tr' by (simp add: improvement_inv_def)
qed

text \<open>A proposal creates a generation and counts it.\<close>

lemma counted_append: "counted t s (rows @ [r]) = counted t s rows + (if gn_tenant_id r = t \<and> gn_system_id r = s then 1 else 0)"
  by (simp add: counted_def)

lemma filter_eq_single: "distinct xs \<Longrightarrow> x \<in> set xs \<Longrightarrow> filter (\<lambda>y. y = x) xs = [x]"
  by (induction xs) (auto simp: filter_empty_conv)

lemma budget_not_reached: "checkRecursionBudget b = [] \<Longrightarrow> rl_max_generations (rb_limits b) = Some m \<Longrightarrow> of_nat (rb_generation_count b) < m"
  by (auto simp: checkRecursionBudget_def Let_def reason_if_def reached_def split: if_splits)

lemma use_one [simp]: "rb_tenant_id (use_budget u b) = rb_tenant_id b" "rb_system_id (use_budget u b) = rb_system_id b" "rb_limits (use_budget u b) = rb_limits b"
    "rb_generation_count (use_budget one_generation b) = Suc (rb_generation_count b)"
  by (simp_all add: use_budget_def one_generation_def)

lemma store_inv_create:
  assumes cr: "createGeneration i u now st = Inr (st1, r)" and b: "budget_of (gi_tenant_id i) (gi_system_id i) st = Some b" "checkRecursionBudget b = []"
    and inv: "improvement_inv (gi_tenant_id i) bk st"
  shows "\<exists>st2 b'. consumeRecursionBudget (gi_tenant_id i) (gi_system_id i) (rb_state_version b) one_generation st1 = Inr (st2, b') \<and> improvement_inv (gi_tenant_id i) bk st2"
proof -
  let ?t = "gi_tenant_id i" and ?s = "gi_system_id i"
  let ?p = "\<lambda>c. rb_tenant_id c = ?t \<and> rb_system_id c = ?s \<and> rb_state_version c = rb_state_version b"
  have l: "lineage_inv (im_generations st)" using inv by (simp add: improvement_inv_def)
  note c = createGeneration_Inr [OF cr l]
  note b' = budget_of_Some [OF b(1)]
  have bs: "budgets_inv (im_budgets st) (im_generations st)" using inv by (simp add: improvement_inv_def)
  then have d: "distinct (map rb_system_id (im_budgets st))" by (simp add: budgets_inv_def)
  have only: "y = b" if "y \<in> set (im_budgets st)" "rb_system_id y = ?s" for y
    using d b' that by (auto simp: distinct_map inj_on_def)
  have p: "?p y \<longleftrightarrow> y = b" if "y \<in> set (im_budgets st)" for y using only [OF that] b' by auto
  have "filter ?p (im_budgets st) = filter (\<lambda>y. y = b) (im_budgets st)" using p by (intro filter_cong) auto
  also have "\<dots> = [b]" using d b' by (intro filter_eq_single) (auto simp: distinct_map)
  finally have one: "hits ?p (im_budgets st) = 1" by (simp add: hits_def)
  have up: "upd_where ?p (use_budget one_generation) (im_budgets st) = upd_where (\<lambda>y. y = b) (use_budget one_generation) (im_budgets st)"
    using p by (auto simp: upd_where_def)
  let ?bs = "upd_where (\<lambda>y. y = b) (use_budget one_generation) (im_budgets st)"
  let ?st2 = "st1\<lparr>im_budgets := ?bs\<rparr>"
  have new: "use_budget one_generation b \<in> set ?bs" using b' by (auto simp: set_upd_where)
  have "budget_of ?t ?s ?st2 \<noteq> None"
  proof
    assume "budget_of ?t ?s ?st2 = None"
    then have "\<not> (rb_tenant_id z = ?t \<and> rb_system_id z = ?s)" if "z \<in> set ?bs" for z using that by (simp add: budget_of_def find_None_iff)
    from this [OF new] b' show False by simp
  qed
  then obtain y where y: "getRecursionBudget ?t ?s ?st2 = Inr y" by (auto simp: getRecursionBudget_def)
  have st1: "im_budgets st1 = im_budgets st" "im_generations st1 = im_generations st @ [r]" "im_systems st1 = im_systems st" using c by simp_all
  have "consumeRecursionBudget ?t ?s (rb_state_version b) one_generation st1 = Inr (?st2, y)"
    using one up y by (simp add: consumeRecursionBudget_def Let_def st1)
  moreover have "budgets_inv ?bs (im_generations st @ [r])"
  proof -
    have "budget_ok (im_generations st @ [r]) z" if z: "z \<in> set ?bs" for z
    proof -
      from z obtain z0 where z0: "z0 \<in> set (im_budgets st)" "z = (if z0 = b then use_budget one_generation z0 else z0)" by (auto simp: set_upd_where)
      have ok: "budget_ok (im_generations st) z0" using bs z0(1) by (simp add: budgets_inv_def)
      show ?thesis
      proof (cases "z0 = b")
        case True
        with ok z0(2) b' c budget_not_reached [OF b(2)] show ?thesis by (auto simp: budget_ok_def counted_append split: option.splits)
      next
        case False
        with only z0(1) have "rb_system_id z0 \<noteq> ?s" by blast
        with ok z0(2) False c show ?thesis by (auto simp: budget_ok_def counted_append split: option.splits)
      qed
    qed
    moreover have "map rb_system_id ?bs = map rb_system_id (im_budgets st)" by (rule upd_where_keys) simp
    moreover have "map (\<lambda>b. (rb_tenant_id b, rb_system_id b)) ?bs = map (\<lambda>b. (rb_tenant_id b, rb_system_id b)) (im_budgets st)" by (rule upd_where_keys) simp
    then have "(\<lambda>b. (rb_tenant_id b, rb_system_id b)) ` set ?bs = (\<lambda>b. (rb_tenant_id b, rb_system_id b)) ` set (im_budgets st)" by (metis list.set_map)
    moreover have "(?t, ?s) \<in> (\<lambda>b. (rb_tenant_id b, rb_system_id b)) ` set (im_budgets st)" using b' by (auto intro!: image_eqI [of _ _ b])
    ultimately show ?thesis using bs c by (simp add: budgets_inv_def)
  qed
  moreover have "accepted_inv (im_systems st) (im_generations st @ [r])" using inv by (fastforce simp: improvement_inv_def accepted_inv_def)
  ultimately have "improvement_inv ?t bk ?st2" using inv c by (auto simp: improvement_inv_def st1)
  with \<open>consumeRecursionBudget ?t ?s (rb_state_version b) one_generation st1 = Inr (?st2, y)\<close> show ?thesis by blast
qed

end
