(* ===== verification/Improvement_Safety.thy ===== *)
theory Improvement_Safety
  imports Improvement_Invariant
begin

text \<open>
  The governor in operation: one request after another, and between them whatever other clients of the Gate do.
  Every handler keeps the invariant, also where it throws in the middle, and so does every reachable governor.
\<close>

section \<open>The governor in operation\<close>

text \<open>One request after another, and what other clients of the Gate do in between. The identifier a call hands to
  the Gate is new.\<close>

definition call_ambient :: "governor_call \<Rightarrow> ambient" where
  "call_ambient c = \<lparr>am_now = gc_now c, am_uuid = gc_uuid c 0, am_token = []\<rparr>"

inductive governor_step :: "governor_deps \<Rightarrow> governor \<Rightarrow> governor \<Rightarrow> bool" for dep where
  step_create: "governor_step dep gv (fst (handleCreate dep c b gv))"
| step_evaluate: "governor_step dep gv (fst (handleEvaluate dep c spawn vad i eb gv))"
| step_profile: "governor_step dep gv (fst (set_evaluation_profile dep name h gv))"
| step_authorize: "fresh_ids (call_ambient c) (gv_gate gv) \<Longrightarrow> governor_step dep gv (fst (handleAuthorize dep c i gv))"
| step_build: "fresh_ids (call_ambient c) (gv_gate gv) \<Longrightarrow> governor_step dep gv (fst (handleBuild dep c i files gv))"
| step_approve: "fresh_ids (call_ambient c) (gv_gate gv) \<Longrightarrow> governor_step dep gv (fst (handleApprove dep c op i role gv))"
| step_canary: "fresh_ids (call_ambient c) (gv_gate gv) \<Longrightarrow> governor_step dep gv (fst (handleCanary dep c i a gv))"
| step_promote: "fresh_ids (call_ambient c) (gv_gate gv) \<Longrightarrow> governor_step dep gv (fst (handlePromote dep c i a gv))"
| step_rollback: "fresh_ids (call_ambient c) (gv_gate gv) \<Longrightarrow> governor_step dep gv (fst (handleRollback dep c i target trigger a gv))"
| step_ready: "fresh_ids (call_ambient c) (gv_gate gv) \<Longrightarrow> governor_step dep gv (fst (handleReady dep c gv))"
| step_gate: "fresh_ids am (gv_gate gv) \<Longrightarrow> governor_step dep gv (gv\<lparr>gv_gate := gate_exec (gd_sha dep) am p command (gv_gate gv)\<rparr>)"

definition governor_reaches :: "governor_deps \<Rightarrow> governor \<Rightarrow> governor \<Rightarrow> bool" where
  "governor_reaches dep = (governor_step dep)\<^sup>*\<^sup>*"

section \<open>The invariant along the handlers\<close>

definition governed :: "governor_deps \<Rightarrow> (improvement_operation \<times> string) set \<Rightarrow> governor \<Rightarrow> bool" where
  \<comment> \<open>the invariant, with the operations in \<open>B\<close> allowed\<close>
  "governed dep B gv = (improvement_inv (gd_tenant dep) (backed (gv_gate gv) (gd_agent dep)) (gv_store gv)
     \<and> (\<forall>(op, i) \<in> B. backed (gv_gate gv) (gd_agent dep) op i))"

abbreviation gate_fresh :: "governor_call \<Rightarrow> governor \<Rightarrow> bool" where
  "gate_fresh c gv \<equiv> fresh_ids (call_ambient c) (gv_gate gv)"

lemma backed_exec: "fresh_ids am g \<Longrightarrow> backed g agent op i \<Longrightarrow> backed (gate_exec sha am p c g) agent op i"
  unfolding backed_def using decisions_kept by blast

lemma governed_gate:
  "governed dep B gv \<Longrightarrow> fresh_ids am (gv_gate gv) \<Longrightarrow> governed dep B (gv\<lparr>gv_gate := gate_exec sha am p c (gv_gate gv)\<rparr>)"
  by (auto simp: governed_def backed_exec elim!: store_inv_more)

lemma keeps_store:
  assumes "\<And>st st' x bk. op st = Inr (st', x) \<Longrightarrow> improvement_inv (gd_tenant dep) bk st \<Longrightarrow> improvement_inv (gd_tenant dep) bk st'"
  shows "keeps (governed dep B) (on_store op)"
  using assms by (auto simp: runs_def on_store_def governed_def split: sum.splits)

lemma keeps_elsewhere:
  assumes "\<And>gv. gv_store (fst (m gv)) = gv_store gv" "\<And>gv. gv_gate (fst (m gv)) = gv_gate gv"
  shows "keeps (governed dep B) m"
  using assms by (simp add: runs_def governed_def)

lemma keeps_event [handler_keeps]: "keeps (governed dep B) (appendImprovementEvent dep' c k kind g corr parent payload)"
  by (rule keeps_elsewhere; auto simp: appendImprovementEvent_def split: sum.splits)

lemma keeps_record_event [handler_keeps]: "keeps (governed dep B) (record_event dep' c k kind g payload)"
  unfolding record_event_def by (rule keeps_event)

lemma keeps_pieces [handler_keeps]:
  "keeps (governed dep B) (create_canary_session dep' c i)" "keeps (governed dep B) (establish_profile s h)"
  "keeps (governed dep B) (createIsolatedWorkspace dep' i source)" "keeps (governed dep B) (write_candidate dep' path files)"
  "keeps (governed dep B) (set_evaluation_profile dep' name h)"
  by (rule keeps_elsewhere; auto simp: create_canary_session_def establish_profile_def change_def createIsolatedWorkspace_def write_candidate_def
      set_evaluation_profile_def Let_def split: sum.splits option.splits prod.splits)+

lemma keeps_change [handler_keeps]: "(\<And>gv. gv_store (f gv) = gv_store gv) \<Longrightarrow> (\<And>gv. gv_gate (f gv) = gv_gate gv) \<Longrightarrow> keeps (governed dep B) (change f)"
  by (rule keeps_elsewhere) (simp_all add: change_def)

lemma keeps_move:
  assumes "\<And>op. op \<in> set (entry s) \<Longrightarrow> (op, gn_generation_id r) \<in> B"
  shows "keeps (governed dep B) (move dep r s x)"
  unfolding runs_def
proof (intro allI impI)
  fix gv assume g: "governed dep B gv"
  have bk: "backed (gv_gate gv) (gd_agent dep) op (gn_generation_id r)" if "op \<in> set (entry s)" for op
    using g assms [OF that] by (auto simp: governed_def)
  have "improvement_inv (gd_tenant dep) (backed (gv_gate gv) (gd_agent dep)) st'"
    if "transitionGeneration (gd_tenant dep) (gn_generation_id r) (gn_state_version r) s x (gv_store gv) = Inr (st', r')" for st' r'
    by (rule store_inv_transition [OF that]) (use g bk in \<open>auto simp: governed_def\<close>)
  then show "outcome (\<lambda>_. governed dep B) (governed dep B) (move dep r s x gv)"
    using g by (auto simp: move_def on_store_def governed_def split: sum.splits)
qed

lemma keeps_records [handler_keeps]:
  "keeps (governed dep B) (on_store (recordPromotionDecision t d u))" "keeps (governed dep B) (on_store (startCanaryRun t g policy u now))"
  "keeps (governed dep B) (on_store (initiateRollback t g target trigger by' u now))"
  "keeps (governed dep B) (on_store (completeRollback t i status ev now))" "keeps (governed dep B) (on_store (runPromotionEvaluation sha raw spawn u now e))"
  "keeps (governed dep B) (on_store (createSystem t name by' u now))" "keeps (governed dep B) (on_store (getOrCreateRecursionBudget t s limits))"
  by (rule keeps_store; simp add: store_inv_records store_inv_evaluation store_inv_system store_inv_budget)+

lemma keeps_spec [handler_keeps]: "keeps (governed dep B) (spec_of_generation dep' i)"
  unfolding spec_of_generation_def by (intro handler_keeps)

text \<open>A proposal.\<close>

lemma keeps_propose_rest:
  "keeps (governed dep B) (and_then (pure_store (saveSpec t g spec now)) (\<lambda>_. and_then (change (\<lambda>gv. gv\<lparr>gv_workspaces := w gv, gv_spec_ids := v gv\<rparr>)) (\<lambda>_.
     and_then (appendImprovementEvent dep' c k kind g' corr parent payload) (\<lambda>_. answer y))))"
  by (intro handler_keeps keeps_store) (auto simp: pure_store_def rbind_eq_Inr store_inv_records intro!: keeps_store)

lemma keeps_counted:
  assumes "checkRecursionBudget b = []" "gi_tenant_id i = gd_tenant dep" "\<And>r. keeps (governed dep B) (f r)"
  shows "runs (\<lambda>gv. governed dep B gv \<and> budget_of (gi_tenant_id i) (gi_system_id i) (gv_store gv) = Some b)
    (and_then (on_store (createGeneration i u now)) (\<lambda>r. and_then (on_store (consumeRecursionBudget (gi_tenant_id i) (gi_system_id i) (rb_state_version b) one_generation)) (\<lambda>_. f r)))
    (\<lambda>_. governed dep B) (governed dep B)"
  unfolding runs_def
proof (intro allI impI)
  fix gv assume g: "governed dep B gv \<and> budget_of (gi_tenant_id i) (gi_system_id i) (gv_store gv) = Some b"
  show "outcome (\<lambda>_. governed dep B) (governed dep B) (and_then (on_store (createGeneration i u now))
     (\<lambda>r. and_then (on_store (consumeRecursionBudget (gi_tenant_id i) (gi_system_id i) (rb_state_version b) one_generation)) (\<lambda>_. f r)) gv)"
  proof (cases "createGeneration i u now (gv_store gv)")
    case (Inl e)
    then show ?thesis using g by (simp add: and_then_def on_store_def)
  next
    case (Inr y)
    obtain st1 r where y: "y = (st1, r)" by fastforce
    have "improvement_inv (gi_tenant_id i) (backed (gv_gate gv) (gd_agent dep)) (gv_store gv)" using g assms(2) by (simp add: governed_def)
    from store_inv_create [OF Inr [unfolded y] _ assms(1) this] g obtain st2 b' where
      c: "consumeRecursionBudget (gi_tenant_id i) (gi_system_id i) (rb_state_version b) one_generation st1 = Inr (st2, b')"
        "improvement_inv (gi_tenant_id i) (backed (gv_gate gv) (gd_agent dep)) st2" by blast
    have "governed dep B (gv\<lparr>gv_store := st2\<rparr>)" using c(2) g assms(2) by (simp add: governed_def)
    from keeps_fst [OF assms(3) this] show ?thesis by (simp add: and_then_def on_store_def Inr y c(1))
  qed
qed

lemma keeps_system: "keeps (governed dep B) (find_or_create_system dep' c b)"
  unfolding runs_def
proof (intro allI impI)
  fix gv assume g: "governed dep B gv"
  show "outcome (\<lambda>_. governed dep B) (governed dep B) (find_or_create_system dep' c b gv)"
  proof (cases "findSystemByName (gd_tenant dep') (cr_system_id b) (gv_store gv)")
    case None
    then show ?thesis
      using keeps_fst [OF keeps_records(6) g, of "gd_tenant dep'" "cr_system_id b" "cr_created_by b" "gc_uuid c 0" "to_iso (gc_now c)"]
      by (simp add: find_or_create_system_def)
  qed (use g in \<open>simp add: find_or_create_system_def\<close>)
qed

lemma runs_budget:
  "runs (governed dep B) (on_store (getOrCreateRecursionBudget t s limits)) (\<lambda>b gv. governed dep B gv \<and> budget_of t s (gv_store gv) = Some b) (governed dep B)"
  using store_inv_budget by (fastforce simp: runs_def on_store_def governed_def split: sum.splits)

lemma keeps_propose:
  assumes "checkRecursionBudget b = []"
  shows "runs (\<lambda>gv. governed dep B gv \<and> budget_of (gd_tenant dep) (sy_system_id s) (gv_store gv) = Some b) (propose dep c body s b) (\<lambda>_. governed dep B) (governed dep B)"
proof (cases "buildImprovementSpec (gd_sha dep) (spec_of_body dep s body) (gc_uuid c 1) (to_iso (gc_now c))")
  case (Inl e)
  then show ?thesis by (simp add: propose_def runs_def fail_def)
next
  case (Inr spec)
  have i: "gi_tenant_id (input_of_body dep s body h source) = gd_tenant dep" "gi_system_id (input_of_body dep s body h source) = sy_system_id s" for h source
    by (simp_all add: input_of_body_def)
  let ?P = "\<lambda>gv. governed dep B gv \<and> budget_of (gd_tenant dep) (sy_system_id s) (gv_store gv) = Some b"
  have t: "runs ?P (tree_at path) (\<lambda>_. ?P) (governed dep B)" for path
    by (rule runs_weaken [OF keeps_reads(4) [where P = ?P]]) simp_all
  have k: "runs ?P (and_then (on_store (createGeneration (input_of_body dep s body h source) u now))
     (\<lambda>r. and_then (on_store (consumeRecursionBudget (gd_tenant dep) (sy_system_id s) (rb_state_version b) one_generation)) (\<lambda>_. f r)))
     (\<lambda>_. governed dep B) (governed dep B)" if "\<And>r. keeps (governed dep B) (f r)" for h source u now f
    using keeps_counted [OF assms i(1) [of h source] that] unfolding i .
  show ?thesis
    unfolding propose_def Inr sum.case by (rule runs_then [OF t], rule k, rule keeps_propose_rest)
qed

lemma keeps_create: "keeps (governed dep B) (handleCreate dep c b)"
  unfolding handleCreate_def
proof (rule keeps_then, rule keeps_system, rule runs_then [OF runs_budget])
  fix s :: improvement_system and budget
  let ?P = "\<lambda>gv. governed dep B gv \<and> budget_of (gd_tenant dep) (sy_system_id s) (gv_store gv) = Some budget"
  have refused: "keeps (governed dep B) (and_then (appendImprovementEvent dep c k kind g corr parent payload) (\<lambda>_. fail e))" for k kind g corr parent payload e
    by (intro handler_keeps)
  show "runs ?P (if checkRecursionBudget budget \<noteq> []
      then and_then (appendImprovementEvent dep c 1 ''RECURSION_BUDGET_EXHAUSTED'' (''system:'' @ sy_system_id s) (sy_system_id s) None
         [(''reasons'', jstrs (checkRecursionBudget budget))]) (\<lambda>_.
       fail (GV_Improvement (Improvement_Error IM_BUDGET_EXHAUSTED (''Recursion budget exhausted for system '' @ sy_system_id s @ '': '' @ str_join '', '' (checkRecursionBudget budget)))))
      else propose dep c b s budget) (\<lambda>_. governed dep B) (governed dep B)"
  proof (cases "checkRecursionBudget budget = []")
    case True
    then show ?thesis by (simp only: not_True_eq_False if_False simp_thms) (rule keeps_propose [OF True])
  next
    case False
    then show ?thesis by (simp only: if_True simp_thms not_False_eq_True) (rule runs_weaken [OF refused], simp_all only: conjunct1)
  qed
qed

text \<open>A handler that asks the Gate first.\<close>

lemma authorize_operation_exec:
  "fst (authorize_operation dep c op i a gv) = gv\<lparr>gv_gate := gate_exec (gd_sha dep) (call_ambient c) (Agent (gd_agent dep)) (Authorize (operation_request (gd_agent dep) op i a)) (gv_gate gv)\<rparr>"
  by (auto simp: authorize_operation_def authorizeImprovementOperation_def call_ambient_def gate_exec_def split: prod.splits sum.splits)

lemma operation_request_fields:
  "jfield ''action'' (operation_request agent op i a) = Some (JStr (operation_action op))" "jfield ''agentId'' (operation_request agent op i a) = Some (JStr agent)"
  "jfield ''resource'' (operation_request agent op i a) = Some (JStr (generation_resource i))" "jfield ''tool'' (operation_request agent op i a) = Some (JStr (operation_action op))"
  by (simp_all add: operation_request_def jfield_def)

lemma operation_parse:
  assumes "parseAuthorizationRequest sha (operation_request agent op i a) = Inr r"
  shows "rq_agentId r = agent \<and> rq_action r = operation_action op \<and> rq_resource r = generation_resource i"
proof -
  have "operation_action op \<noteq> Tool_Inputs.demo_tool" by (simp add: operation_action_def Tool_Inputs.demo_tool_def)
  then have "jfield ''tool'' (operation_request agent op i a) \<noteq> Some (JStr Tool_Inputs.demo_tool)" by (simp add: operation_request_fields)
  then obtain q where q: "request_parse (operation_request agent op i a) = Some q" "r = stored q None None"
    using assms by (auto simp: parseAuthorizationRequest_def Let_def split: if_splits option.splits)
  show ?thesis using request_parse_Some [OF q(1)] q(2)
    by (simp add: operation_request_fields stored_def auth_request.defs stored_request.defs)
qed

lemma authorize_backed:
  assumes "authorize_operation dep c op i a gv = (gv', Inr d)" "de_decision d = ALLOW"
  shows "backed (gv_gate gv') (gd_agent dep) op i"
proof -
  obtain g where g: "authorize (gd_sha dep) (call_ambient c) (Agent (gd_agent dep)) (operation_request (gd_agent dep) op i a) (gv_gate gv) = (g, Inr d)" "gv' = gv\<lparr>gv_gate := g\<rparr>"
    using assms(1) by (auto simp: authorize_operation_def authorizeImprovementOperation_def call_ambient_def split: prod.splits sum.splits)
  show ?thesis using authorize_Inr [OF g(1)] operation_parse assms(2) g(2) unfolding backed_def by fastforce
qed

lemma runs_authorize:
  "runs (\<lambda>gv. governed dep B gv \<and> gate_fresh c gv) (authorize_operation dep c op i a)
     (\<lambda>d. governed dep (if de_decision d = ALLOW then insert (op, i) B else B)) (governed dep B)"
  unfolding runs_def
proof (intro allI impI)
  fix gv assume g: "governed dep B gv \<and> gate_fresh c gv"
  obtain gv' r where r: "authorize_operation dep c op i a gv = (gv', r)" by fastforce
  have g': "governed dep B gv'" using governed_gate g authorize_operation_exec [of dep c op i a gv] by (simp add: r)
  show "outcome (\<lambda>d. governed dep (if de_decision d = ALLOW then insert (op, i) B else B)) (governed dep B) (authorize_operation dep c op i a gv)"
  proof (cases r)
    case (Inr d)
    then show ?thesis using g' authorize_backed [OF r [unfolded Inr]] by (auto simp: r governed_def)
  qed (use g' in \<open>simp add: r\<close>)
qed

lemma runs_when_allowed:
  assumes "\<And>d. keeps (governed dep (insert (op, i) B)) (run d)"
  shows "runs (\<lambda>gv. governed dep B gv \<and> gate_fresh c gv) (when_allowed dep c op i a run) (\<lambda>_. governed dep B) (governed dep B)"
  unfolding when_allowed_def
proof (rule runs_then [OF runs_authorize])
  fix d
  have w: "governed dep (insert x B) gv \<Longrightarrow> governed dep B gv" for x gv by (simp add: governed_def)
  have "keeps (governed dep (insert (op, i) B)) (and_then (run d) (\<lambda>r. answer (d, r)))" by (intro handler_keeps assms)
  then have "runs (governed dep (insert (op, i) B)) (and_then (run d) (\<lambda>r. answer (d, r))) (\<lambda>_. governed dep B) (governed dep B)"
    by (rule runs_weaken) (auto intro: w)
  moreover have "keeps (governed dep B) (and_then (of_store (getGeneration (gd_tenant dep) i)) (\<lambda>r. answer (d, r)))" by (intro handler_keeps)
  ultimately show "runs (governed dep (if de_decision d = ALLOW then insert (op, i) B else B))
     (and_then (if de_decision d \<noteq> ALLOW then of_store (getGeneration (gd_tenant dep) i) else run d) (\<lambda>r. answer (d, r))) (\<lambda>_. governed dep B) (governed dep B)"
    by simp
qed

text \<open>Reading a generation and moving it.\<close>

lemma keeps_read:
  assumes "\<And>r. gn_generation_id r = i \<Longrightarrow> keeps (governed dep B) (f r)"
  shows "keeps (governed dep B) (and_then (of_store (getGeneration (gd_tenant dep) i)) f)"
  unfolding runs_def
proof (intro allI impI)
  fix gv assume g: "governed dep B gv"
  show "outcome (\<lambda>_. governed dep B) (governed dep B) (and_then (of_store (getGeneration (gd_tenant dep) i)) f gv)"
  proof (cases "getGeneration (gd_tenant dep) i (gv_store gv)")
    case (Inr r)
    have "keeps (governed dep B) (f r)" using getGeneration_Inr [OF Inr] assms by blast
    from keeps_fst [OF this g] show ?thesis by (simp add: and_then_def of_store_def Inr)
  qed (use g in \<open>simp add: and_then_def of_store_def\<close>)
qed

lemma keeps_move_freely: "entry s = [] \<Longrightarrow> keeps (governed dep B) (move dep r s x)"
  by (rule keeps_move) simp

lemma target_free: "entry (evaluation_target s) = []"
  by (cases s) (simp_all add: evaluation_target_def)

lemma keeps_authorize: "runs (\<lambda>gv. governed dep {} gv \<and> gate_fresh c gv) (handleAuthorize dep c i) (\<lambda>_. governed dep {}) (governed dep {})"
  unfolding handleAuthorize_def by (rule runs_when_allowed, rule keeps_read, intro keeps_then keeps_move handler_keeps) simp

lemma keeps_build: "runs (\<lambda>gv. governed dep {} gv \<and> gate_fresh c gv) (handleBuild dep c i files) (\<lambda>_. governed dep {}) (governed dep {})"
proof -
  have "keeps (governed dep {(IO_Build, i)}) (build_candidate dep c i files w)" for w
    unfolding build_candidate_def Let_def
    by (rule keeps_read, rule keeps_then, rule keeps_move, simp, intro keeps_then handler_keeps keeps_move_freely) simp_all
  then show ?thesis unfolding handleBuild_def by (intro runs_when_allowed handler_keeps)
qed

lemma keeps_begin: "keeps (governed dep B) (begin_evaluation dep i)"
  unfolding begin_evaluation_def by (intro handler_keeps keeps_move_freely) simp

lemma keeps_conclude: "keeps (governed dep B) (conclude_evaluation dep c i verdict e)"
  unfolding conclude_evaluation_def Let_def by (intro handler_keeps keeps_move_freely target_free)

lemma keeps_evaluate: "keeps (governed dep B) (handleEvaluate dep c spawn vad i b)"
proof -
  have "keeps (governed dep B) (case vad x of Inl m \<Rightarrow> fail (GV_Other m) | Inr verdict \<Rightarrow> conclude_evaluation dep c i verdict e)" for x e
    by (cases "vad x") (simp_all add: keeps_fail keeps_conclude)
  then show ?thesis unfolding handleEvaluate_def by (intro handler_keeps keeps_begin)
qed

lemma keeps_canary: "runs (\<lambda>gv. governed dep {} gv \<and> gate_fresh c gv) (handleCanary dep c i a) (\<lambda>_. governed dep {}) (governed dep {})"
  unfolding handleCanary_def
  by (rule runs_when_allowed, rule keeps_then, rule handler_keeps, rule keeps_then, rule handler_keeps, rule keeps_then, rule handler_keeps,
      rule keeps_read, intro keeps_then keeps_move handler_keeps) simp

lemma keeps_fresh_profile [handler_keeps]: "keeps (governed dep B) (fresh_profile dep' c r)"
proof -
  have k: "keeps (governed dep B) (and_then (record_event dep' c k kind g payload) (\<lambda>_. fail e :: unit handler))" for k kind g payload e by (intro handler_keeps)
  show ?thesis
    unfolding runs_def
  proof (intro allI impI)
    fix gv assume g: "governed dep B gv"
    show "outcome (\<lambda>_. governed dep B) (governed dep B) (fresh_profile dep' c r gv)"
      using keeps_fst [OF k g] g by (simp add: fresh_profile_def split: option.splits)
  qed
qed

lemma keeps_fresh_parent [handler_keeps]: "keeps (governed dep B) (fresh_parent dep' c r)"
  unfolding fresh_parent_def by (intro handler_keeps)

lemma keeps_promote: "runs (\<lambda>gv. governed dep {} gv \<and> gate_fresh c gv) (handlePromote dep c i a) (\<lambda>_. governed dep {}) (governed dep {})"
  unfolding handlePromote_def
  by (rule runs_when_allowed, rule keeps_read, intro keeps_then keeps_move handler_keeps) simp

lemma keeps_rollback: "runs (\<lambda>gv. governed dep {} gv \<and> gate_fresh c gv) (handleRollback dep c i target trigger a) (\<lambda>_. governed dep {}) (governed dep {})"
  unfolding handleRollback_def Let_def
  by (rule runs_when_allowed, rule keeps_then, rule handler_keeps, rule keeps_then, rule handler_keeps, rule keeps_then, rule handler_keeps,
      rule keeps_read, intro handler_keeps keeps_then keeps_move) simp_all

lemma keeps_approve: "governed dep {} gv \<Longrightarrow> gate_fresh c gv \<Longrightarrow> governed dep {} (fst (handleApprove dep c op i role gv))"
proof -
  assume g: "governed dep {} gv" "gate_fresh c gv"
  let ?j = "JObj [(''request'', operation_request (gd_agent dep) op i None), (''expiresAt'', JStr (to_iso (gc_now c + 600000)))]"
  have "fst (handleApprove dep c op i role gv)
      = gv\<lparr>gv_gate := gate_exec (gd_sha dep) (call_ambient c) (improvementApprover (or_default role (gd_approver_role dep))) (Approve ?j) (gv_gate gv)\<rparr>"
    by (auto simp: handleApprove_def call_ambient_def gate_exec_def split: prod.splits sum.splits)
  with governed_gate [OF g] show ?thesis by simp
qed

lemma keeps_ready: "runs (\<lambda>gv. governed dep {} gv \<and> gate_fresh c gv) (handleReady dep c) (\<lambda>_. governed dep {}) (governed dep {})"
proof -
  have budget: "runs (\<lambda>gv. governed dep {} gv \<and> gate_fresh c gv) (on_store (getOrCreateRecursionBudget t s limits))
     (\<lambda>_ gv. governed dep {} gv \<and> gate_fresh c gv) (governed dep {})" for t s limits
    using store_inv_budget by (fastforce simp: runs_def on_store_def governed_def split: sum.splits)
  have last: "keeps (governed dep B) (\<lambda>gv. case installDefaultPolicy sha p now (gv_sentinel gv) of
       Inl e \<Rightarrow> (gv, Inl (GV_Sentinel e)) | Inr (s, _) \<Rightarrow> (gv\<lparr>gv_sentinel := s\<rparr>, Inr ()))" for B sha p now
    by (rule keeps_elsewhere; auto split: sum.splits)
  have w: "governed dep (if b then B else {}) gv \<Longrightarrow> governed dep {} gv" for b B gv by (auto simp: governed_def split: if_splits)
  show ?thesis
    unfolding handleReady_def
    by (rule runs_then [OF budget], rule runs_then [OF runs_authorize], rule runs_weaken [OF last]) (auto intro: w)
qed

lemma governed_step: "governor_step dep gv gv' \<Longrightarrow> governed dep {} gv \<Longrightarrow> governed dep {} gv'"
proof (induction rule: governor_step.induct)
  case (step_authorize c gv i)
  then show ?case using keeps_authorize [of dep c i] by (auto simp: runs_def)
next
  case (step_build c gv i files)
  then show ?case using keeps_build [of dep c i files] by (auto simp: runs_def)
next
  case (step_canary c gv i a)
  then show ?case using keeps_canary [of dep c i a] by (auto simp: runs_def)
next
  case (step_promote c gv i a)
  then show ?case using keeps_promote [of dep c i a] by (auto simp: runs_def)
next
  case (step_rollback c gv i target trigger a)
  then show ?case using keeps_rollback [of dep c i target trigger a] by (auto simp: runs_def)
next
  case (step_ready c gv)
  then show ?case using keeps_ready [of dep c] by (auto simp: runs_def)
qed (simp_all add: keeps_fst keeps_create keeps_evaluate keeps_pieces keeps_approve governed_gate)

lemma governed_reached: "governor_reaches dep gv gv' \<Longrightarrow> gv_store gv = improvement_start \<Longrightarrow> governed dep {} gv'"
  unfolding governor_reaches_def
proof (induction rule: rtranclp_induct)
  case base
  then show ?case by (simp add: governed_def store_inv_start)
qed (auto intro: governed_step)

end
