(* ===== verification/Improvement_Lineage.thy ===== *)
theory Improvement_Lineage
  imports Improvement_Invariant
begin

text \<open>
  The walks of \<open>getLineage\<close> over a forest of generations: the ancestors are the chain from the root, the
  descendants are exactly the generations below, and no walk reports a cycle.
\<close>

section \<open>Up to the root\<close>

lemma find_unique:
  assumes "lineage_inv rows" "r \<in> set rows" "gn_generation_id r = c"
  shows "find (\<lambda>q. gn_generation_id q = c) rows = Some r"
proof -
  have "find (\<lambda>q. gn_generation_id q = c) rows \<noteq> None" using assms by (auto simp: find_None_iff)
  then obtain q where q: "find (\<lambda>q. gn_generation_id q = c) rows = Some q" by auto
  with find_SomeD [OF q] lineage_unique [OF assms(1)] assms show ?thesis by metis
qed

fun parent_chain :: "string option \<Rightarrow> generation list \<Rightarrow> string option \<Rightarrow> bool" where
  \<comment> \<open>a chain of parents: the parent of the first is \<open>p\<close>, the last is \<open>last\<close>\<close>
  "parent_chain p [] final = (p = final)"
| "parent_chain p (r # rs) final = (gn_parent r = p \<and> parent_chain (Some (gn_generation_id r)) rs final)"

lemma parent_chain_snoc: "parent_chain p (rs @ [r]) final \<longleftrightarrow> parent_chain p rs (gn_parent r) \<and> final = Some (gn_generation_id r)"
  by (induction rs arbitrary: p) auto

lemma walk_up:
  assumes "lineage_inv rows" "r \<in> set rows" "\<And>q. q \<in> set rows \<Longrightarrow> gn_generation_id q \<in> set visited \<Longrightarrow> gn_number r \<le> gn_number q"
  shows "\<exists>as. ancestors_from i rows visited (gn_parent r) found = Inr (as @ found) \<and> parent_chain None as (gn_parent r)
    \<and> length as = gn_number r \<and> set as \<subseteq> set rows \<and> (\<forall>a \<in> set as. gn_root a = gn_root r)"
  using assms(2,3)
proof (induction "gn_number r" arbitrary: r visited found)
  case 0
  have "gn_parent r = None"
  proof (cases "gn_parent r")
    case (Some a)
    from lineage_parent [OF assms(1) 0(2) Some] 0(1) show ?thesis by auto
  qed
  then show ?case using 0 by (intro exI [of _ "[]"]) simp
next
  case (Suc n)
  obtain p where p: "gn_parent r = Some p" using Suc lineage_root [OF assms(1)] by (cases "gn_parent r") auto
  obtain q where q: "q \<in> set rows" "gn_generation_id q = p" "gn_root q = gn_root r" "gn_number r = Suc (gn_number q)"
    using lineage_parent [OF assms(1) Suc.prems(1) p] by blast
  have fresh: "p \<notin> set visited" using Suc.prems(2) q by fastforce
  have n: "n = gn_number q" using Suc.hyps(2) q(4) by simp
  have "gn_number q \<le> gn_number z" if z: "z \<in> set rows" "gn_generation_id z \<in> set (p # visited)" for z
  proof (cases "gn_generation_id z = p")
    case True
    with lineage_unique [OF assms(1) z(1) q(1)] q(2) show ?thesis by simp
  next
    case False
    with Suc.prems(2) [OF z(1)] z(2) q(4) show ?thesis by simp
  qed
  from Suc.hyps(1) [OF n q(1) this] obtain as where as: "ancestors_from i rows (p # visited) (gn_parent q) (q # found) = Inr (as @ q # found)"
    "parent_chain None as (gn_parent q)" "length as = gn_number q" "set as \<subseteq> set rows" "\<forall>a \<in> set as. gn_root a = gn_root q" by blast
  show ?case
    using as q p fresh find_unique [OF assms(1) q(1,2)] by (intro exI [of _ "as @ [q]"]) (simp add: parent_chain_snoc)
qed

section \<open>Down to the leaves\<close>

definition child_step :: "generation list \<Rightarrow> string \<Rightarrow> string \<Rightarrow> bool" where
  "child_step rows a b = (\<exists>q \<in> set rows. gn_generation_id q = b \<and> gn_parent q = Some a)"

lemma child_unique: "lineage_inv rows \<Longrightarrow> child_step rows a b \<Longrightarrow> q \<in> set rows \<Longrightarrow> gn_generation_id q = b \<Longrightarrow> gn_parent q = Some a"
  unfolding child_step_def using lineage_unique by metis

definition generation_number_of :: "generation list \<Rightarrow> string \<Rightarrow> nat" where
  "generation_number_of rows i = (case find (\<lambda>q. gn_generation_id q = i) rows of None \<Rightarrow> 0 | Some r \<Rightarrow> gn_number r)"

lemma number_of_row: "lineage_inv rows \<Longrightarrow> r \<in> set rows \<Longrightarrow> generation_number_of rows (gn_generation_id r) = gn_number r"
  by (simp add: generation_number_of_def find_unique)

lemma child_number:
  assumes "lineage_inv rows" "child_step rows a b" shows "generation_number_of rows b = Suc (generation_number_of rows a)"
proof -
  obtain q where q: "q \<in> set rows" "gn_generation_id q = b" "gn_parent q = Some a" using assms(2) by (auto simp: child_step_def)
  obtain z where z: "z \<in> set rows" "gn_generation_id z = a" "gn_number q = Suc (gn_number z)" using lineage_parent [OF assms(1) q(1,3)] by blast
  show ?thesis using number_of_row [OF assms(1) q(1)] number_of_row [OF assms(1) z(1)] q(2) z(2,3) by simp
qed

lemma below_number: "lineage_inv rows \<Longrightarrow> (child_step rows)\<^sup>*\<^sup>* a b \<Longrightarrow> generation_number_of rows a \<le> generation_number_of rows b"
proof -
  assume l: "lineage_inv rows" "(child_step rows)\<^sup>*\<^sup>* a b"
  show ?thesis using l(2) by (induction rule: rtranclp_induct) (auto dest: child_number [OF l(1)])
qed

lemma strictly_below_number: "lineage_inv rows \<Longrightarrow> (child_step rows)\<^sup>+\<^sup>+ a b \<Longrightarrow> generation_number_of rows a < generation_number_of rows b"
proof -
  assume l: "lineage_inv rows" "(child_step rows)\<^sup>+\<^sup>+ a b"
  show ?thesis using l(2) by (induction rule: tranclp_induct) (auto dest: child_number [OF l(1)])
qed

lemma walk_down:
  assumes l: "lineage_inv rows"
    and "distinct frontier" "set frontier \<subseteq> set visited" "i \<in> set visited"
    and "\<And>q p. q \<in> set rows \<Longrightarrow> gn_parent q = Some p \<Longrightarrow> p \<in> set visited - set frontier \<Longrightarrow> gn_generation_id q \<in> set visited"
    and "\<And>v. v \<in> set visited \<Longrightarrow> v \<noteq> i \<Longrightarrow> \<exists>p \<in> set visited - set frontier. child_step rows p v"
    and "\<And>v. v \<in> set visited \<Longrightarrow> (child_step rows)\<^sup>*\<^sup>* i v"
    and "set found \<subseteq> set rows" "gn_generation_id ` set found = set visited - {i}"
  shows "\<exists>ds. descendants_from i rows visited frontier found = Inr (found @ ds) \<and> set (found @ ds) \<subseteq> set rows
    \<and> gn_generation_id ` set (found @ ds) = {v. (child_step rows)\<^sup>+\<^sup>+ i v}"
  using assms
proof (induction i rows visited frontier found rule: descendants_from.induct)
  case (1 i rows visited found)
  note l = 1(1)
  have all: "v \<in> set visited" if "(child_step rows)\<^sup>*\<^sup>* i v" for v
    using that by (induction rule: rtranclp_induct) (use 1 in \<open>auto simp: child_step_def\<close>)
  have "v \<in> set visited - {i} \<longleftrightarrow> (child_step rows)\<^sup>+\<^sup>+ i v" for v
    using 1(7) [of v] all [of v] strictly_below_number [OF l, of i v] by (auto dest: rtranclpD tranclp_into_rtranclp)
  then have "set visited - {i} = {v. (child_step rows)\<^sup>+\<^sup>+ i v}" by blast
  with 1 show ?case by simp
next
  case (2 i rows visited c frontier found)
  note l = 2(2)
  let ?cs = "children_of c rows" and ?ids = "map gn_generation_id (children_of c rows)"
  have ids: "v \<in> set ?ids \<longleftrightarrow> child_step rows c v" for v by (auto simp: children_of_def child_step_def)
  have d: "distinct ?ids" using l by (simp add: lineage_inv_def children_of_def distinct_map_filter)
  have c: "c \<in> set visited" "c \<notin> set frontier" "distinct frontier" "set frontier \<subseteq> set visited" using 2(3,4) by auto
  have new: "v \<notin> set visited" if "v \<in> set ?ids" for v
  proof
    assume v: "v \<in> set visited"
    have k: "child_step rows c v" using that ids by blast
    show False
    proof (cases "v = i")
      case True
      have "(child_step rows)\<^sup>+\<^sup>+ i i" using 2(8) [OF c(1)] k True by (meson rtranclp_into_tranclp1)
      then show False using strictly_below_number [OF l] by blast
    next
      case False
      from 2(7) [OF v False] obtain p where p: "p \<in> set visited - set (c # frontier)" "child_step rows p v" by blast
      from k obtain q where q: "q \<in> set rows" "gn_generation_id q = v" by (auto simp: child_step_def)
      with child_unique [OF l k q] child_unique [OF l p(2) q] p(1) show False by simp
    qed
  qed
  have processed: "set (?ids @ visited) - set (rev ?ids @ frontier) = insert c (set visited - set (c # frontier))"
    using new c by auto
  have "\<exists>ds. descendants_from i rows (?ids @ visited) (rev ?ids @ frontier) (found @ ?cs) = Inr ((found @ ?cs) @ ds)
    \<and> set ((found @ ?cs) @ ds) \<subseteq> set rows \<and> gn_generation_id ` set ((found @ ?cs) @ ds) = {v. (child_step rows)\<^sup>+\<^sup>+ i v}"
  proof (rule 2(1) [OF refl refl])
    show "\<not> (\<not> distinct ?ids \<or> set ?ids \<inter> set visited \<noteq> {})" using d new by blast
    show "lineage_inv rows" by (rule l)
    show "distinct (rev ?ids @ frontier)" using d new c by auto
    show "set (rev ?ids @ frontier) \<subseteq> set (?ids @ visited)" using c by auto
    show "i \<in> set (?ids @ visited)" using 2(5) by simp
    show "gn_generation_id q \<in> set (?ids @ visited)" if "q \<in> set rows" "gn_parent q = Some p" "p \<in> set (?ids @ visited) - set (rev ?ids @ frontier)" for q p
      using that 2(6) [OF that(1,2)] unfolding processed by (auto simp: children_of_def)
    show "\<exists>p \<in> set (?ids @ visited) - set (rev ?ids @ frontier). child_step rows p v" if "v \<in> set (?ids @ visited)" "v \<noteq> i" for v
      using that 2(7) [OF _ that(2)] ids unfolding processed by auto
    show "(child_step rows)\<^sup>*\<^sup>* i v" if "v \<in> set (?ids @ visited)" for v
      using that 2(8) c(1) ids by (auto intro: rtranclp.rtrancl_into_rtrancl)
    show "set (found @ ?cs) \<subseteq> set rows" using 2(9) by (auto simp: children_of_def)
    show "gn_generation_id ` set (found @ ?cs) = set (?ids @ visited) - {i}" using 2(10) new 2(5) by auto
  qed
  then show ?case using d new by (auto simp: Let_def)
qed

section \<open>Both walks\<close>

lemma lineage_tenant:
  assumes l: "lineage_inv rows" shows "lineage_inv (filter (\<lambda>r. gn_tenant_id r = t) rows)"
  unfolding lineage_inv_def
proof (intro conjI ballI)
  show "distinct (map gn_generation_id (filter (\<lambda>r. gn_tenant_id r = t) rows))" using l by (simp add: lineage_inv_def distinct_map_filter)
  fix k assume "k \<in> gen_key ` set (filter (\<lambda>r. gn_tenant_id r = t) rows)"
  then obtain r where r: "r \<in> set rows" "gn_tenant_id r = t" "k = gen_key r" by auto
  show "descends (gen_key ` set (filter (\<lambda>r. gn_tenant_id r = t) rows)) k"
  proof (cases "gn_parent r")
    case None
    with lineage_root [OF l r(1) None] lineage_root_nonempty [OF l r(1)] r(3) show ?thesis by (simp add: descends_def gen_key_def)
  next
    case (Some p)
    obtain q where q: "q \<in> set rows" "gn_generation_id q = p" "gn_tenant_id q = gn_tenant_id r" "gn_root q = gn_root r" "gn_number r = Suc (gn_number q)"
      using lineage_parent [OF l r(1) Some] by blast
    then have "(p, t, gn_system_id q, gn_parent q, gn_root r, gn_number q) \<in> gen_key ` set (filter (\<lambda>r. gn_tenant_id r = t) rows)"
      using r(2) by (auto simp: gen_key_def intro!: image_eqI [of _ _ q])
    moreover have "k = (gn_generation_id r, t, gn_system_id r, Some p, gn_root r, Suc (gn_number q))"
      using r(2,3) Some q(5) by (simp add: gen_key_def)
    ultimately show ?thesis using lineage_root_nonempty [OF l r(1)] by (auto simp: descends_def)
  qed
qed

lemma lineage_walks:
  assumes l: "lineage_inv (im_generations st)" and g: "getGeneration t i st = Inr r"
  shows "\<exists>as ds. getLineage t i st = Inr (as, ds) \<and> parent_chain None as (gn_parent r) \<and> length as = gn_number r
    \<and> gn_root r = gn_generation_id (hd (as @ [r])) \<and> set ds \<subseteq> set (tenant_generations t st)
    \<and> gn_generation_id ` set ds = {v. (child_step (tenant_generations t st))\<^sup>+\<^sup>+ i v}"
proof -
  let ?rows = "tenant_generations t st"
  have l': "lineage_inv ?rows" unfolding tenant_generations_def by (rule lineage_tenant [OF l])
  have r: "r \<in> set ?rows" "gn_generation_id r = i" using getGeneration_Inr [OF g] by (auto simp: tenant_generations_def)
  have start: "gn_number r \<le> gn_number q" if "q \<in> set ?rows" "gn_generation_id q \<in> set [i]" for q
    using that r lineage_unique [OF l'] by force
  have "\<exists>as. ancestors_from i ?rows [i] (gn_parent r) [] = Inr (as @ []) \<and> parent_chain None as (gn_parent r)
    \<and> length as = gn_number r \<and> set as \<subseteq> set ?rows \<and> (\<forall>a \<in> set as. gn_root a = gn_root r)"
    by (rule walk_up [OF l' r(1)]) (rule start)
  then obtain as where
    as: "ancestors_from i ?rows [i] (gn_parent r) [] = Inr as" "parent_chain None as (gn_parent r)" "length as = gn_number r" "set as \<subseteq> set ?rows" "\<forall>a \<in> set as. gn_root a = gn_root r"
    by auto
  obtain ds where ds: "descendants_from i ?rows [i] [i] [] = Inr ds" "set ds \<subseteq> set ?rows" "gn_generation_id ` set ds = {v. (child_step ?rows)\<^sup>+\<^sup>+ i v}"
    using walk_down [OF l', of "[i]" "[i]" i "[]"] by auto
  have "gn_root r = gn_generation_id (hd (as @ [r]))"
  proof (cases as)
    case Nil
    with as(2) lineage_root [OF l' r(1)] show ?thesis by simp
  next
    case (Cons a as')
    with as lineage_root [OF l', of a] show ?thesis by auto
  qed
  then show ?thesis using as ds g by (simp add: getLineage_def Let_def)
qed

end
