(* ===== verification/Improvement_Run.thy ===== *)
theory Improvement_Run
  imports Improvement_Safety Improvement_Lineage
begin

text \<open>
  A short run of the improvement governor: a system is proposed with its first generation, a second generation on it,
  and the Gate allows the first one to be authorized.
\<close>

section \<open>What the Gate allows\<close>

definition demo_until :: string where "demo_until = to_iso 1731536000000"

definition demo_governor_gate :: "usage table \<Rightarrow> approval table \<Rightarrow> gate_state" where
  "demo_governor_gate us aps = gate_empty\<lparr>gs_agents := [(''gov'', \<lparr>ga_id = ''gov'', ga_name = ''gov'', ga_tokenHash = ''t'', ga_revoked = False\<rparr>)],
     gs_policies := [(''gov'', \<lparr>po_envelope = governorEnvelope ''gov'' ''rev'' [] demo_until, po_hash = ''p'', po_revision = ''pol_1''\<rparr>)],
     gs_usage := us, gs_approvals := aps\<rparr>"

lemma demo_until_ahead: "\<not> passed demo_until 1700000000000"
  by (simp add: passed_def demo_until_def epoch_round_trip epoch_ok_def)

definition demo_operation_request :: "improvement_operation \<Rightarrow> string option \<Rightarrow> auth_request" where
  "demo_operation_request op a = \<lparr>rq_agentId = ''gov'', rq_action = operation_action op, rq_tool = operation_action op, rq_resource = ''/improvement/generations/gen_1'',
     rq_destination = None, rq_estimatedCostUsd = 0, rq_approvalId = a\<rparr>"

lemma demo_operation_parse:
  assumes "op \<in> {IO_Authorize_Generation, IO_Promote}" "a \<in> {None, Some ''apr_1''}"
  shows "parseAuthorizationRequest sha (operation_request ''gov'' op ''gen_1'' a) = Inr (stored (demo_operation_request op a) None None)"
  using assms
  by (auto simp: parseAuthorizationRequest_def operation_request_def demo_operation_request_def request_parse_def Let_def jfield_def is_plain_object_def
      jstr_def jnumber_def obj_keys_def opt_string_def request_keys_def request_ok_def Tool_Inputs.demo_tool_def money_ok_def opt_ok_def num_val_def
      id_ok_def label_ok_def list_ok_def is_alnum_def is_digit_def is_lower_def is_upper_def char_in_def operation_action_def generation_resource_def)

lemma demo_operation_allowed:
  assumes "op = IO_Authorize_Generation \<or> op = IO_Promote \<and> b" "us \<in> {emptyUsage, emptyUsage\<lparr>us_startedAt := Some (to_iso 1699999999000)\<rparr>}"
  shows "vd_decision (evaluate (stored (demo_operation_request op a) None None) (Some (governorEnvelope ''gov'' ''rev'' [] demo_until))
    \<lparr>pc_now = 1700000000000, pc_revoked = False, pc_usage = us, pc_approvalValid = b, pc_knownAgents = [''gov'']\<rparr>) = ALLOW"
proof -
  define q where "q = stored (demo_operation_request op a) None None"
  have r: "rq_agentId q = ''gov''" "rq_action q = operation_action op" "rq_tool q = operation_action op" "rq_resource q = ''/improvement/generations/gen_1''"
    "rq_destination q = None" "rq_estimatedCostUsd q = 0"
    by (simp_all add: q_def stored_def demo_operation_request_def auth_request.defs stored_request.defs)
  have m: "matches_resource ''/improvement/generations/gen_1'' [''/improvement/**''] True"
    by (simp add: matches_resource_def valid_file_def is_control_def starts_with_def pattern_matches_def ends_with_def drop_end_def)
  have d: "date_parse (to_iso 1699999999000) = Some 1699999999000" by (simp add: epoch_round_trip epoch_ok_def)
  have t: "\<not> passed demo_until 1700000000000" by (rule demo_until_ahead)
  show ?thesis unfolding q_def [symmetric] using assms
    by (elim disjE conjE insertE emptyE) (simp_all add: evaluate_def r governorEnvelope_def t binding_for_def governor_binding_def improvement_operations_def operation_action_def
      tool_denied_def evaluate_bound_def resource_verdict_def scope_of_def m present_def runtime_exceeded_def emptyUsage_def attemptsFor_def micros_def Let_def d)
qed
definition demo_approval :: approval where
  "demo_approval = \<lparr>ap_id = ''apr_1'', ap_agentId = ''gov'', ap_policyHash = ''p'', ap_policyRevision = ''pol_1'', ap_requestHash = ''h'', ap_role = ''rev'',
     ap_expiresAt = to_iso 1700000600000, ap_used = False\<rparr>"

definition demo_used :: usage where "demo_used = emptyUsage\<lparr>us_startedAt := Some (to_iso 1699999999000)\<rparr>"

definition demo_promoting :: gate_state where
  "demo_promoting = demo_governor_gate [(''gov'', demo_used)] [(''apr_1'', demo_approval)]"

definition demo_moment :: "string \<Rightarrow> ambient" where "demo_moment u = \<lparr>am_now = 1700000000000, am_uuid = u, am_token = []\<rparr>"

lemma demo_operation_decided:
  assumes "op = IO_Authorize_Generation \<and> a = None \<and> g = demo_governor_gate [] [] \<or> op = IO_Promote \<and> a = Some ''apr_1'' \<and> g = demo_promoting"
  shows "\<exists>g' d. authorizeImprovementOperation (\<lambda>_. ''h'') (demo_moment u) ''gov'' op ''gen_1'' a g = (g', Inr d) \<and> de_decision d = ALLOW"
proof -
  let ?r = "stored (demo_operation_request op a) None None"
  let ?ag = "\<lparr>ga_id = ''gov'', ga_name = ''gov'', ga_tokenHash = ''t'', ga_revoked = False\<rparr>"
  let ?po = "\<lparr>po_envelope = governorEnvelope ''gov'' ''rev'' [] demo_until, po_hash = ''p'', po_revision = ''pol_1''\<rparr>"
  define used where "used = (if op = IO_Promote then Some demo_approval else None)"
  have r: "rq_agentId ?r = ''gov''" "rq_action ?r = operation_action op" "rq_approvalId ?r = a"
    by (simp_all add: stored_def demo_operation_request_def auth_request.defs stored_request.defs)
  have ag: "st_get ''gov'' (gs_agents g) = Some ?ag" and po: "st_get ''gov'' (gs_policies g) = Some ?po"
    using assms by (auto simp: demo_promoting_def demo_governor_gate_def st_get_def)
  have c: "cited_approval ?r g = used"
    using assms r(3) by (auto simp: cited_approval_def used_def demo_promoting_def demo_governor_gate_def st_get_def present_def)
  have f: "in_future (to_iso 1700000600000) 1700000000000" by (simp add: in_future_def epoch_round_trip epoch_ok_def)
  have v: "approval_valid (\<lambda>_. ''h'') 1700000000000 ?ag (Some ?po) ?r used = (op = IO_Promote)"
    using assms f by (auto simp: approval_valid_def used_def demo_approval_def demo_operation_request_def requestHash_def approval_rule_for_def governorEnvelope_def operation_action_def hash_json_def)
  have ctx: "gate_context 1700000000000 ?ag b g = \<lparr>pc_now = 1700000000000, pc_revoked = False, pc_usage = (if op = IO_Promote then demo_used else emptyUsage),
     pc_approvalValid = b, pc_knownAgents = [''gov'']\<rparr>" for b
    using assms by (auto simp: gate_context_def usage_of_def demo_promoting_def demo_governor_gate_def st_get_def st_list_def gate_empty_def)
  have al: "vd_decision (evaluate ?r (Some (governorEnvelope ''gov'' ''rev'' [] demo_until)) (gate_context 1700000000000 ?ag (op = IO_Promote) g)) = ALLOW"
    unfolding ctx by (rule demo_operation_allowed) (use assms in \<open>auto simp: demo_used_def\<close>)
  have am: "am_now (demo_moment u) = 1700000000000" by (simp add: demo_moment_def)
  have "\<exists>g' d. decide_request (\<lambda>_. ''h'') (demo_moment u) ?r g = Inr (g', d) \<and> de_decision d = ALLOW"
    unfolding decide_request_def r ag po am option.case Let_def by (simp add: v c al po make_decision_def)
  moreover have "parseAuthorizationRequest (\<lambda>_. ''h'') (operation_request ''gov'' op ''gen_1'' a) = Inr ?r"
    by (rule demo_operation_parse) (use assms in auto)
  ultimately show ?thesis unfolding authorizeImprovementOperation_def authorize_def by (auto simp: demo_operation_request_def st_transaction_def)
qed
section \<open>The run\<close>

definition demo_deps :: governor_deps where
  "demo_deps = \<lparr>gd_sha = \<lambda>_. ''h'', gd_raw = \<lambda>x. x, gd_tenant = ''t1'', gd_agent = ''gov'', gd_approver_role = ''rev'', gd_workspaces_root = ''/w''\<rparr>"

definition demo_call :: "string \<Rightarrow> governor_call" where "demo_call u = \<lparr>gc_now = 1700000000000, gc_uuid = \<lambda>_. u\<rparr>"

definition demo_ceiling :: authority_ceiling where
  "demo_ceiling = \<lparr>ac_operations = [], ac_tools = [], ac_resources = [], ac_destinations = [], ac_network_access = False, ac_filesystem_scope = [],
     ac_credentials = [], ac_max_budget_usd = Dec 0 0, ac_max_runtime_ms = Dec 0 0, ac_max_parallelism = Dec 1 0, ac_external_side_effects = False,
     ac_requires_approval_for = []\<rparr>"

definition demo_body :: "string option \<Rightarrow> create_body" where
  "demo_body parent = \<lparr>cr_system_id = ''sys'', cr_parent = parent, cr_parent_path = ''/src'', cr_objective = ''goal'', cr_class = IC_Code, cr_allowed_paths = [''lib/''],
     cr_forbidden_paths = None, cr_ceiling = demo_ceiling, cr_candidate_version = ''1'', cr_created_by = ''a'', cr_limits = None, cr_resource_limits = None,
     cr_profile_id = None, cr_benchmarks = None, cr_security_tests = None, cr_thresholds = None, cr_canary_policy = None, cr_rollback_policy = None,
     cr_max_iterations = None, cr_max_runtime_ms = None, cr_max_cost_usd = None\<rparr>"

definition demo_system :: improvement_system where
  "demo_system = \<lparr>sy_system_id = ''sys_1'', sy_tenant_id = ''t1'', sy_name = ''sys'', sy_accepted = None, sy_created_by = ''a'', sy_created_at = to_iso 1700000000000,
     sy_state_version = 0\<rparr>"

lemma demo_spec_ok: "parent \<in> {None, Some ''gen_1''} \<Longrightarrow> run_checks (improvement_spec_checks (spec_of_body demo_deps demo_system (demo_body parent))) = Inr ()"
  unfolding run_checks_ok by (auto simp: improvement_spec_checks_def spec_of_body_def demo_deps_def demo_system_def demo_body_def spec_entries_def or_default_def safeId_def
    is_alnum_def is_digit_def is_lower_def is_upper_def char_in_def
    secret_value_def to_lower_def to_lower_char_def bearer_here_def starts_with_def js_length_def jstrs_def opt_json_def demo_ceiling_def ceiling_json_def improvement_class_name_def)

definition demo_governor :: governor where
  "demo_governor = \<lparr>gv_store = improvement_start, gv_gate = demo_governor_gate [] [], gv_ledger = ledger_empty, gv_sentinel = sentinel_empty,
     gv_workspaces = Map.empty, gv_spec_ids = Map.empty, gv_profiles = Map.empty, gv_disk = [''/src'' \<mapsto> [(''lib/a'', ''x'')]]\<rparr>"

lemma event_aside:
  "gv_store (fst (and_then (appendImprovementEvent dep c k kind g corr parent payload) (\<lambda>_. answer x) gv)) = gv_store gv"
  "gv_gate (fst (and_then (appendImprovementEvent dep c k kind g corr parent payload) (\<lambda>_. answer x) gv)) = gv_gate gv"
  "gv_disk (fst (and_then (appendImprovementEvent dep c k kind g corr parent payload) (\<lambda>_. answer x) gv)) = gv_disk gv"
  by (auto simp: and_then_def answer_def appendImprovementEvent_def split: sum.splits prod.splits)

lemma proposed:
  assumes "buildImprovementSpec (gd_sha dep) (spec_of_body dep s b) (gc_uuid c 1) (to_iso (gc_now c)) = Inr spec" "gv_disk gv (cr_parent_path b) = Some t"
    "createGeneration (input_of_body dep s b (sp_hash spec) (hashDirectoryTree (gd_sha dep) (gd_raw dep) t)) (gc_uuid c 2) (to_iso (gc_now c)) (gv_store gv) = Inr (st1, r)"
    "consumeRecursionBudget (gd_tenant dep) (sy_system_id s) (rb_state_version budget) one_generation st1 = Inr (st2, b2)"
    "saveSpec (gd_tenant dep) (gn_generation_id r) spec (to_iso (gc_now c)) st2 = Inr st3"
  shows "gv_store (fst (propose dep c b s budget gv)) = st3 \<and> gv_gate (fst (propose dep c b s budget gv)) = gv_gate gv
    \<and> gv_disk (fst (propose dep c b s budget gv)) = gv_disk gv"
proof -
  show ?thesis
    unfolding propose_def assms(1) sum.case
    by (simp add: and_then_def [of "tree_at _"] and_then_def [of "on_store _"] and_then_def [of "pure_store _"] and_then_def [of "change _"]
        tree_at_def on_store_def pure_store_def change_def assms(2-5) rbind_def event_aside)
qed

lemma demo_fields:
  "gd_sha demo_deps = (\<lambda>_. ''h'')" "gd_tenant demo_deps = ''t1''" "gd_agent demo_deps = ''gov''"
  "cr_system_id (demo_body p) = ''sys''" "cr_limits (demo_body p) = None" "cr_created_by (demo_body p) = ''a''" "cr_parent_path (demo_body p) = ''/src''"
  "cr_parent (demo_body p) = p" "gc_uuid (demo_call u) n = u" "gc_now (demo_call u) = 1700000000000"
  by (simp_all add: demo_deps_def demo_body_def demo_call_def)

lemma demo_spec:
  "p \<in> {None, Some ''gen_1''} \<Longrightarrow> \<exists>spec. buildImprovementSpec (\<lambda>_. ''h'') (spec_of_body demo_deps demo_system (demo_body p)) u now = Inr spec
     \<and> sp_spec_id spec = newSpecId u \<and> sp_hash spec = ''h''"
  by (simp add: buildImprovementSpec_def demo_spec_ok rbind_def hash_json_def spec_input.defs improvement_spec.defs del: insert_iff)

lemma created:
  assumes "find_or_create_system dep c b gv = (gv1, Inr s)" "checkRecursionBudget budget = []"
    "getOrCreateRecursionBudget (gd_tenant dep) (sy_system_id s) (or_default (cr_limits b) default_recursion_limits) (gv_store gv1) = Inr (st, budget)"
  shows "handleCreate dep c b gv = propose dep c b s budget (gv1\<lparr>gv_store := st\<rparr>)"
  by (simp add: handleCreate_def and_then_def on_store_def assms)

definition demo_generation :: "string option \<Rightarrow> string \<Rightarrow> nat \<Rightarrow> generation" where
  "demo_generation p i n = new_generation (input_of_body demo_deps demo_system (demo_body p) ''h'' ''h'') i ''gen_1'' n (to_iso 1700000000000)"

definition demo_budget :: "nat \<Rightarrow> recursion_budget" where
  "demo_budget n = (use_budget one_generation ^^ n) (new_budget ''t1'' ''sys_1'' default_recursion_limits)"

lemma demo_budget_open: "n \<le> 1 \<Longrightarrow> checkRecursionBudget (demo_budget n) = []" "rb_state_version (demo_budget n) = n"
proof -
  have f: "rb_limits (demo_budget n) = default_recursion_limits \<and> rb_generation_count (demo_budget n) = n \<and> rb_attempt_count (demo_budget n) = 0
    \<and> rb_runtime_used_ms (demo_budget n) = 0 \<and> rb_cost_used_usd (demo_budget n) = 0 \<and> rb_tool_calls_used (demo_budget n) = 0 \<and> rb_state_version (demo_budget n) = n"
    by (induction n) (simp_all add: demo_budget_def new_budget_def use_budget_def one_generation_def)
  then show "n \<le> 1 \<Longrightarrow> checkRecursionBudget (demo_budget n) = []" "rb_state_version (demo_budget n) = n"
    by (simp_all add: checkRecursionBudget_def default_recursion_limits_def reached_def reason_if_def)
qed

lemma demo_budget_keys: "rb_tenant_id (demo_budget n) = ''t1''" "rb_system_id (demo_budget n) = ''sys_1''" "demo_budget 0 = new_budget ''t1'' ''sys_1'' default_recursion_limits"
  "use_budget one_generation (demo_budget n) = demo_budget (Suc n)"
  by (induction n) (simp_all add: demo_budget_def new_budget_def)

lemma demo_propose:
  assumes "u = ''1'' \<and> p = None \<and> im_generations (gv_store gv) = [] \<and> im_specs (gv_store gv) = [] \<and> n = 0
    \<or> u = ''2'' \<and> p = Some ''gen_1'' \<and> im_generations (gv_store gv) = [demo_generation None ''gen_1'' 0] \<and> map sw_spec_id (im_specs (gv_store gv)) = [''spec_1''] \<and> n = 1"
    "im_budgets (gv_store gv) = [demo_budget n]" "gv_disk gv = [''/src'' \<mapsto> [(''lib/a'', ''x'')]]"
  shows "\<exists>gv'. propose demo_deps (demo_call u) (demo_body p) demo_system (demo_budget n) gv = gv' \<and>
     im_generations (gv_store (fst gv')) = im_generations (gv_store gv) @ [demo_generation p (newGenerationId u) n] \<and> im_systems (gv_store (fst gv')) = im_systems (gv_store gv)
     \<and> im_budgets (gv_store (fst gv')) = [demo_budget (Suc n)] \<and> map sw_spec_id (im_specs (gv_store (fst gv'))) = map sw_spec_id (im_specs (gv_store gv)) @ [newSpecId u]
     \<and> gv_gate (fst gv') = gv_gate gv \<and> gv_disk (fst gv') = gv_disk gv"
proof -
  have p: "p \<in> {None, Some ''gen_1''}" using assms(1) by auto
  obtain spec where spec: "buildImprovementSpec (\<lambda>_. ''h'') (spec_of_body demo_deps demo_system (demo_body p)) u (to_iso 1700000000000) = Inr spec"
    "sp_spec_id spec = newSpecId u" "sp_hash spec = ''h''" using demo_spec [OF p] by blast
  let ?st = "gv_store gv"
  let ?i = "input_of_body demo_deps demo_system (demo_body p) ''h'' ''h''"
  have g: "createGeneration ?i u (to_iso 1700000000000) ?st = Inr (?st\<lparr>im_generations := im_generations ?st @ [demo_generation p (newGenerationId u) n]\<rparr>, demo_generation p (newGenerationId u) n)"
    using assms(1) by (auto simp: createGeneration_def input_of_body_def demo_fields getGeneration_def tenant_generations_def demo_generation_def new_generation_def newGenerationId_def Let_def)
  let ?st1 = "?st\<lparr>im_generations := im_generations ?st @ [demo_generation p (newGenerationId u) n]\<rparr>"
  let ?st2 = "?st1\<lparr>im_budgets := [demo_budget (Suc n)]\<rparr>"
  have c: "consumeRecursionBudget ''t1'' ''sys_1'' n one_generation ?st1 = Inr (?st2, demo_budget (Suc n))"
    by (simp add: consumeRecursionBudget_def hits_def assms(2) demo_budget_keys demo_budget_open upd_where_def getRecursionBudget_def budget_of_def Let_def)
  have s: "saveSpec ''t1'' (gn_generation_id (demo_generation p (newGenerationId u) n)) spec (to_iso 1700000000000) ?st2 = Inr (?st2\<lparr>im_specs := im_specs ?st @
     [\<lparr>sw_spec_id = newSpecId u, sw_generation_id = gn_generation_id (demo_generation p (newGenerationId u) n), sw_tenant_id = ''t1'', sw_spec = spec, sw_spec_hash = ''h'', sw_created_at = to_iso 1700000000000\<rparr>]\<rparr>)"
    using assms(1) by (auto simp: saveSpec_def spec newSpecId_def Let_def map_eq_Cons_conv)
  have h: "hashDirectoryTree (\<lambda>_. ''h'') r t = ''h''" for r t by (simp add: hashDirectoryTree_def)
  have sy: "sy_system_id demo_system = ''sys_1''" by (simp add: demo_system_def)
  show ?thesis
    using proposed [of demo_deps demo_system "demo_body p" "demo_call u" spec gv, unfolded demo_fields, OF spec(1)] assms(3) g c s
    by (simp add: demo_fields h spec(3) sy demo_budget_open)
qed

definition demo_proposed :: governor where
  "demo_proposed = fst (handleCreate demo_deps (demo_call ''1'') (demo_body None) demo_governor)"

definition demo_second :: governor where
  "demo_second = fst (handleCreate demo_deps (demo_call ''2'') (demo_body (Some ''gen_1'')) demo_proposed)"

definition demo_authorized :: governor where
  "demo_authorized = fst (handleAuthorize demo_deps (demo_call ''3'') ''gen_1'' demo_second)"

lemma demo_proposed_fields:
  "im_generations (gv_store demo_proposed) = [demo_generation None ''gen_1'' 0]" "im_systems (gv_store demo_proposed) = [demo_system]"
  "im_budgets (gv_store demo_proposed) = [demo_budget 1]" "map sw_spec_id (im_specs (gv_store demo_proposed)) = [''spec_1'']"
  "gv_gate demo_proposed = demo_governor_gate [] []" "gv_disk demo_proposed = [''/src'' \<mapsto> [(''lib/a'', ''x'')]]"
proof -
  let ?gv = "demo_governor\<lparr>gv_store := improvement_start\<lparr>im_systems := [demo_system]\<rparr>\<rparr>"
  let ?gv1 = "?gv\<lparr>gv_store := improvement_start\<lparr>im_systems := [demo_system], im_budgets := [demo_budget 0]\<rparr>\<rparr>"
  have sy: "sy_system_id demo_system = ''sys_1''" by (simp add: demo_system_def)
  have "find_or_create_system demo_deps (demo_call ''1'') (demo_body None) demo_governor = (?gv, Inr demo_system)"
    by (simp add: find_or_create_system_def findSystemByName_def demo_governor_def improvement_start_def on_store_def createSystem_def demo_fields newSystemId_def demo_system_def Let_def)
  from created [OF this demo_budget_open(1) [of 0], of "gv_store ?gv1"]
  have c: "handleCreate demo_deps (demo_call ''1'') (demo_body None) demo_governor = propose demo_deps (demo_call ''1'') (demo_body None) demo_system (demo_budget 0) ?gv1"
    by (simp add: getOrCreateRecursionBudget_def getRecursionBudget_def budget_of_def demo_fields sy improvement_start_def demo_budget_keys or_default_def rbind_def new_budget_def Let_def)
  note r = demo_propose [of "''1''" None ?gv1 0]
  show "im_generations (gv_store demo_proposed) = [demo_generation None ''gen_1'' 0]" "im_systems (gv_store demo_proposed) = [demo_system]"
    "im_budgets (gv_store demo_proposed) = [demo_budget 1]" "map sw_spec_id (im_specs (gv_store demo_proposed)) = [''spec_1'']"
    "gv_gate demo_proposed = demo_governor_gate [] []" "gv_disk demo_proposed = [''/src'' \<mapsto> [(''lib/a'', ''x'')]]"
    unfolding demo_proposed_def c using r by (simp_all add: demo_governor_def improvement_start_def newGenerationId_def newSpecId_def)
qed

lemma demo_second_fields:
  "im_generations (gv_store demo_second) = [demo_generation None ''gen_1'' 0, demo_generation (Some ''gen_1'') ''gen_2'' 1]"
  "im_budgets (gv_store demo_second) = [demo_budget 2]" "gv_gate demo_second = demo_governor_gate [] []"
proof -
  have sy: "sy_system_id demo_system = ''sys_1''" "sy_tenant_id demo_system = ''t1''" "sy_name demo_system = ''sys''" by (simp_all add: demo_system_def)
  have "find_or_create_system demo_deps (demo_call ''2'') (demo_body (Some ''gen_1'')) demo_proposed = (demo_proposed, Inr demo_system)"
    by (simp add: find_or_create_system_def findSystemByName_def demo_fields demo_proposed_fields sy)
  from created [OF this demo_budget_open(1) [of 1], of "gv_store demo_proposed"]
  have c: "handleCreate demo_deps (demo_call ''2'') (demo_body (Some ''gen_1'')) demo_proposed = propose demo_deps (demo_call ''2'') (demo_body (Some ''gen_1'')) demo_system (demo_budget 1) demo_proposed"
    by (simp add: getOrCreateRecursionBudget_def budget_of_def demo_fields sy demo_proposed_fields demo_budget_keys)
  show "im_generations (gv_store demo_second) = [demo_generation None ''gen_1'' 0, demo_generation (Some ''gen_1'') ''gen_2'' 1]"
    "im_budgets (gv_store demo_second) = [demo_budget 2]" "gv_gate demo_second = demo_governor_gate [] []"
    unfolding demo_second_def c using demo_propose [of "''2''" "Some ''gen_1''" demo_proposed 1] by (simp_all add: demo_proposed_fields newGenerationId_def numeral_2_eq_2)
qed

lemma demo_authorized_generation: "\<exists>r \<in> set (im_generations (gv_store demo_authorized)). gn_status r = GN_Authorized"
proof -
  obtain g d where d: "authorizeImprovementOperation (\<lambda>_. ''h'') (demo_moment ''3'') ''gov'' IO_Authorize_Generation ''gen_1'' None (gv_gate demo_second) = (g, Inr d)" "de_decision d = ALLOW"
    using demo_operation_decided [of IO_Authorize_Generation None "gv_gate demo_second" "''3''"] by (auto simp: demo_second_fields)
  have a: "authorize_operation demo_deps (demo_call ''3'') IO_Authorize_Generation ''gen_1'' None demo_second = (demo_second\<lparr>gv_gate := g\<rparr>, Inr d)"
    using d(1) by (simp add: authorize_operation_def demo_fields demo_moment_def)
  let ?r = "demo_generation None ''gen_1'' 0"
  let ?st = "(gv_store demo_second)\<lparr>im_generations := [move_generation GN_Authorized no_extra ?r, demo_generation (Some ''gen_1'') ''gen_2'' 1]\<rparr>"
  have f: "gn_generation_id (demo_generation p i n) = i" "gn_tenant_id (demo_generation p i n) = ''t1''" "gn_status (demo_generation p i n) = GN_Proposed" "gn_state_version (demo_generation p i n) = 0" for p i n
    by (simp_all add: demo_generation_def new_generation_def input_of_body_def demo_fields)
  have gr: "getGeneration ''t1'' ''gen_1'' (gv_store demo_second) = Inr ?r" by (simp add: getGeneration_def tenant_generations_def demo_second_fields f)
  have m: "transitionGeneration ''t1'' ''gen_1'' 0 GN_Authorized no_extra (gv_store demo_second) = Inr (?st, move_generation GN_Authorized no_extra ?r)"
    by (simp add: transitionGeneration_def gr f hits_def upd_where_def canTransition_def demo_second_fields getGeneration_def tenant_generations_def Let_def)
  have assoc: "and_then (and_then m f) h = and_then m (\<lambda>x. and_then (f x) h)" for m :: "'x handler" and f :: "'x \<Rightarrow> 'y handler" and h :: "'y \<Rightarrow> 'z handler"
    by (rule ext) (auto simp: and_then_def split: prod.splits sum.splits)
  have e: "gv_store (fst (and_then (record_event dep c k kind i payload) (\<lambda>y. and_then (answer x) (\<lambda>r. answer (d, r))) gv)) = gv_store gv" for dep c k kind i payload and x :: generation and gv
    by (auto simp: and_then_def answer_def record_event_def appendImprovementEvent_def split: sum.splits prod.splits)
  have "gv_store demo_authorized = ?st"
    unfolding demo_authorized_def handleAuthorize_def when_allowed_def assoc
    by (simp add: and_then_def [of "authorize_operation _ _ _ _ _"] a d(2) assoc and_then_def [of "of_store _"] of_store_def gr move_def and_then_def [of "on_store _"] on_store_def m f demo_fields e)
  then show ?thesis by (simp add: move_generation_def)
qed

end
