(* ===== verification/Improvement_Properties.thy ===== *)
theory Improvement_Properties
  imports Improvement_Run
begin

text \<open>
  The properties of the improvement governor: the state of a generation is backed by the Gate, its lineage is a walk
  to the root, the budget bounds the generations of a system, and a recommendation to promote is earned.
\<close>

section \<open>What changed between two trees\<close>

lemma map_of_hashes: "map_of (map (\<lambda>(p, c). (p, f c)) t) p = map_option f (map_of t p)"
  by (induction t) auto

lemma changed_rows:
  "fst ` set (concat (map (\<lambda>(p, c). case b p of None \<Rightarrow> [(p, FC_Added)] | Some h \<Rightarrow> if h \<noteq> f c then [(p, FC_Modified)] else []) t))
     = {p. \<exists>c. (p, c) \<in> set t \<and> b p \<noteq> Some (f c)}"
proof (induction t)
  case (Cons x t)
  obtain p c where x: "x = (p, c)" by fastforce
  show ?case unfolding list.map concat.simps set_append image_Un Cons.IH by (cases "b p") (auto simp: x)
qed simp

lemma gone_rows: "fst ` set (map (\<lambda>(p, c). (p, FC_Removed)) (filter (\<lambda>(p, c). a p = None) t)) = {p. \<exists>c. (p, c) \<in> set t \<and> a p = None}"
  by (induction t) auto

lemma changed_path:
  "fst ` set (diffDirectoryTrees sha before after) = {p. \<exists>c. (p, c) \<in> set (walkFiles after) \<and> map_option sha (map_of (walkFiles before) p) \<noteq> Some (sha c)}
     \<union> {p. \<exists>c. (p, c) \<in> set (walkFiles before) \<and> map_of (walkFiles after) p = None}"
  unfolding diffDirectoryTrees_def Let_def set_sort set_append image_Un changed_rows gone_rows map_of_hashes by simp

lemma diff_is_difference:
  assumes "distinct (map fst before)" "distinct (map fst after)" "inj_on sha (snd ` (set before \<union> set after))" "tree_walked p"
  shows "p \<in> fst ` set (diffDirectoryTrees sha before after) \<longleftrightarrow> map_of before p \<noteq> map_of after p"
proof -
  have w: "map_of (walkFiles t) p = map_of t p" for t :: tree using assms(4) by (induction t) (auto simp: walkFiles_def)
  have m: "(p, c) \<in> set (walkFiles t) \<longleftrightarrow> map_of t p = Some c" if "distinct (map fst t)" for t :: tree and c
    using that assms(4) by (auto simp: walkFiles_def dest: map_of_SomeD)
  have i: "sha c = sha c' \<longleftrightarrow> c = c'" if "map_of before p = Some c" "map_of after p = Some c'" for c c'
  proof -
    have "c \<in> snd ` (set before \<union> set after)" "c' \<in> snd ` (set before \<union> set after)" using that by (force dest: map_of_SomeD)+
    then show ?thesis using inj_on_eq_iff [OF assms(3)] by blast
  qed
  show ?thesis unfolding changed_path Un_iff mem_Collect_eq m [OF assms(1)] m [OF assms(2)] w
    using i by (cases "map_of before p"; cases "map_of after p") auto
qed

section \<open>What an evaluation that promotes has found\<close>

lemma failures_refuse: "c \<in> set (promotion_failures i) \<Longrightarrow> fst (snd c) \<noteq> PS_Promote"
proof -
  have "list_all (\<lambda>c. fst (snd c) \<noteq> PS_Promote) (promotion_failures i)" by (simp add: promotion_failures_def)
  then show "c \<in> set (promotion_failures i) \<Longrightarrow> fst (snd c) \<noteq> PS_Promote" by (simp add: list_all_iff)
qed

lemma promoted_checks: "fst (evaluatePromotion i) = PS_Promote \<Longrightarrow> \<forall>c \<in> set (promotion_failures i). fst c"
proof (cases "run_checks (promotion_failures i)")
  case (Inl e)
  assume "fst (evaluatePromotion i) = PS_Promote"
  then have e: "fst e = PS_Promote" by (simp add: evaluatePromotion_def Inl)
  from run_checks_fail [OF Inl] failures_refuse e show ?thesis by metis
next
  case (Inr u)
  then show ?thesis unfolding run_checks_ok .
qed

lemma evaluation_promotes:
  assumes "runPromotionEvaluation sha raw spawn u now e st = Inr (st', x)" "er_status x = PS_Promote"
  shows "\<exists>r. getGeneration (ei_tenant_id e) (ei_generation_id e) st = Inr r \<and> hashDirectoryTree sha raw (ei_parent_tree e) = gn_source_before r
    \<and> fst (evaluatePromotion (measured sha spawn e)) = PS_Promote"
  using assms by (auto simp: runPromotionEvaluation_def Let_def rbind_eq_Inr split: if_splits prod.splits)

lemma touched: "mr_evaluator_changed (classifyMutation sha g paths allowed banned) = list_ex (starts_with evaluator_path_prefix) paths"
  "mr_control_plane_changed (classifyMutation sha g paths allowed banned) = (\<exists>p \<in> set paths. classifyArea p \<in> set control_plane_areas)"
  by (auto simp: classifyMutation_def Let_def list_ex_iff)

section \<open>The approval a request cites\<close>

lemma request_parse_approval: "request_parse j = Some q \<Longrightarrow> opt_string (jfield ''approvalId'' j) = Some (rq_approvalId q)"
  by (auto simp: request_parse_def Let_def bind_eq_Some_conv split: if_splits)

lemma operation_cites:
  assumes "parseAuthorizationRequest sha (operation_request agent op i a) = Inr r" "rq_approvalId r = Some k"
  shows "a = Some k"
proof -
  have "operation_action op \<noteq> Tool_Inputs.demo_tool" by (simp add: operation_action_def Tool_Inputs.demo_tool_def)
  then have "jfield ''tool'' (operation_request agent op i a) \<noteq> Some (JStr Tool_Inputs.demo_tool)" by (simp add: operation_request_fields)
  then obtain q where q: "request_parse (operation_request agent op i a) = Some q" "r = stored q None None"
    using assms by (auto simp: parseAuthorizationRequest_def Let_def split: if_splits option.splits)
  have "rq_approvalId q = Some k" using q(2) assms(2) by (simp add: stored_def auth_request.defs stored_request.defs)
  with request_parse_approval [OF q(1)] have "opt_string (jfield ''approvalId'' (operation_request agent op i a)) = Some (Some k)" by simp
  then show ?thesis
    by (cases a) (auto simp: operation_request_def jfield_def opt_string_def split: if_splits)
qed

section \<open>A run\<close>

lemma demo_reaches: "governor_reaches demo_deps demo_governor demo_authorized" "governor_reaches demo_deps demo_governor demo_second"
proof -
  have s: "governor_step demo_deps demo_governor demo_proposed" unfolding demo_proposed_def by (rule step_create)
  have s': "governor_step demo_deps demo_proposed demo_second" unfolding demo_second_def by (rule step_create)
  have "fresh_ids (call_ambient (demo_call ''3'')) (gv_gate demo_second)"
    by (simp add: fresh_ids_def demo_second_fields demo_governor_gate_def gate_empty_def st_get_def)
  then have "governor_step demo_deps demo_second demo_authorized" unfolding demo_authorized_def by (rule step_authorize)
  with s s' show "governor_reaches demo_deps demo_governor demo_authorized" "governor_reaches demo_deps demo_governor demo_second"
    unfolding governor_reaches_def by (auto intro: rtranclp.rtrancl_into_rtrancl)
qed

lemma demo_start: "gv_store demo_governor = improvement_start"
  by (simp add: demo_governor_def)

lemma demo_promoting_fields:
  "map_option po_envelope (st_get ''gov'' (gs_policies demo_promoting)) = Some (governorEnvelope ''gov'' ''rev'' [] demo_until)"
  "st_get ''gov'' (gs_agents demo_promoting) = Some \<lparr>ga_id = ''gov'', ga_name = ''gov'', ga_tokenHash = ''t'', ga_revoked = False\<rparr>"
  "ga_id \<lparr>ga_id = ''gov'', ga_name = ''gov'', ga_tokenHash = ''t'', ga_revoked = False\<rparr> = ''gov''"
  by (simp_all add: demo_promoting_def demo_governor_gate_def st_get_def)

section \<open>Properties\<close>

text \<open>
  C7. No generation moves on its own. In every governor reached from an empty store, whatever requests were made and
  whatever other clients of the Gate did in between, the state of a generation is backed by the Gate: for every
  operation that leads to the state it is in (authorization, build, canary, promotion, rollback) the Gate stores an
  ALLOW of that action on that generation for the governor's agent.
\<close>

theorem state_is_backed_by_gate:
  assumes "governor_reaches dep gv0 gv" "gv_store gv0 = improvement_start" "r \<in> set (im_generations (gv_store gv))" "op \<in> set (trail (gn_status r))"
  shows "\<exists>k d. st_get k (gs_decisions (gv_gate gv)) = Some d \<and> de_decision d = ALLOW \<and> rq_agentId (de_request d) = gd_agent dep
    \<and> rq_action (de_request d) = operation_action op \<and> rq_resource (de_request d) = generation_resource (gn_generation_id r)"
  using governed_reached [OF assms(1,2)] assms(3,4) by (auto simp: governed_def improvement_inv_def backed_def)

theorem state_is_backed_by_gate_witness:
  "\<exists>r k d. r \<in> set (im_generations (gv_store demo_authorized)) \<and> gn_status r = GN_Authorized
     \<and> st_get k (gs_decisions (gv_gate demo_authorized)) = Some d \<and> de_decision d = ALLOW \<and> rq_action (de_request d) = ''improvement.authorize_generation''"
proof -
  obtain r where r: "r \<in> set (im_generations (gv_store demo_authorized))" "gn_status r = GN_Authorized" using demo_authorized_generation by blast
  have "IO_Authorize_Generation \<in> set (trail (gn_status r))" by (simp add: r(2))
  from state_is_backed_by_gate [OF demo_reaches(1) demo_start r(1) this] r show ?thesis by (auto simp: operation_action_def)
qed

text \<open>
  C29. A budget is a bound. In every governor reached from an empty store a system whose budget allows n generations
  has at most n, counted over the rows of the store.
\<close>

theorem generations_within_budget:
  assumes "governor_reaches dep gv0 gv" "gv_store gv0 = improvement_start" "b \<in> set (im_budgets (gv_store gv))" "rl_max_generations (rb_limits b) = Some (of_nat n)"
  shows "length (filter (\<lambda>r. gn_tenant_id r = rb_tenant_id b \<and> gn_system_id r = rb_system_id b) (im_generations (gv_store gv))) \<le> n"
proof -
  have "budget_ok (im_generations (gv_store gv)) b"
    using governed_reached [OF assms(1,2)] assms(3) by (simp add: governed_def improvement_inv_def budgets_inv_def)
  then show ?thesis using assms(4) by (auto simp: budget_ok_def counted_def of_nat_less_iff simp flip: of_nat_Suc)
qed

theorem generations_within_budget_witness:
  "length (filter (\<lambda>r. gn_tenant_id r = ''t1'' \<and> gn_system_id r = ''sys_1'') (im_generations (gv_store demo_second))) \<le> 100"
proof -
  have "rb_limits (demo_budget n) = default_recursion_limits" for n by (induction n) (simp_all add: demo_budget_def new_budget_def)
  then have "rl_max_generations (rb_limits (demo_budget 2)) = Some (of_nat 100)" by (simp add: default_recursion_limits_def)
  moreover have "demo_budget 2 \<in> set (im_budgets (gv_store demo_second))" by (simp add: demo_second_fields)
  ultimately show ?thesis using generations_within_budget [OF demo_reaches(2) demo_start] by (fastforce simp: demo_budget_keys)
qed

text \<open>
  C22. The lineage of a generation always comes back, without a cycle, and is right: the ancestors are the chain of
  parents that starts at its root, as many as its number says, and the descendants are exactly the generations
  below it.
\<close>

theorem lineage_returns_the_tree:
  assumes "governor_reaches dep gv0 gv" "gv_store gv0 = improvement_start" "getGeneration t i (gv_store gv) = Inr r"
  shows "\<exists>as ds. getLineage t i (gv_store gv) = Inr (as, ds) \<and> parent_chain None as (gn_parent r) \<and> length as = gn_number r
    \<and> gn_root r = gn_generation_id (hd (as @ [r])) \<and> set ds \<subseteq> set (tenant_generations t (gv_store gv))
    \<and> gn_generation_id ` set ds = {v. (child_step (tenant_generations t (gv_store gv)))\<^sup>+\<^sup>+ i v}"
proof -
  have "lineage_inv (im_generations (gv_store gv))" using governed_reached [OF assms(1,2)] by (simp add: governed_def improvement_inv_def)
  from lineage_walks [OF this assms(3)] show ?thesis .
qed

theorem lineage_returns_the_tree_witness:
  "\<exists>a ds. getLineage ''t1'' ''gen_2'' (gv_store demo_second) = Inr ([a], ds) \<and> gn_generation_id a = ''gen_1'' \<and> gn_parent a = None"
proof -
  have f: "gn_generation_id (demo_generation p i n) = i" "gn_tenant_id (demo_generation p i n) = ''t1''" "gn_root (demo_generation p i n) = ''gen_1''"
    "gn_number (demo_generation p i n) = n" "gn_parent (demo_generation p i n) = p" for p i n
    by (simp_all add: demo_generation_def new_generation_def input_of_body_def demo_fields)
  have "getGeneration ''t1'' ''gen_2'' (gv_store demo_second) = Inr (demo_generation (Some ''gen_1'') ''gen_2'' 1)"
    by (simp add: getGeneration_def tenant_generations_def demo_second_fields f)
  from lineage_returns_the_tree [OF demo_reaches(2) demo_start this] show ?thesis
    unfolding f by (auto simp: length_Suc_conv)
qed

text \<open>
  C32. Two ways to look at authority agree: a candidate's authority is within a ceiling exactly when the computed
  delta over the ceiling is no expansion.
\<close>

theorem within_ceiling_iff_no_expansion:
  "authorityWithinCeiling candidate bound = (\<not> dl_is_expansion (computeAuthorityDelta sha bound candidate))"
  by (auto simp: authorityWithinCeiling_def computeAuthorityDelta_def isSubset_def added_def list_all_iff filter_empty_conv Let_def)

definition demo_capability :: capability_profile where
  "demo_capability = \<lparr>cf_tools = [], cf_operations = [], cf_resources = [], cf_destinations = [], cf_filesystem_writes = False, cf_network_access = False,
     cf_credential_access = [], cf_code_execution = False, cf_max_parallelism = Dec 1 0, cf_side_effect_classes = []\<rparr>"

definition demo_manifest :: test_manifest where
  "demo_manifest = \<lparr>tm_manifest_id = ''m'', tm_manifest_version = Dec 1 0, tm_entries = [], tm_manifest_hash = ''h''\<rparr>"

definition demo_evaluation :: evaluation_inputs where
  "demo_evaluation = \<lparr>ei_tenant_id = ''t1'', ei_generation_id = ''gen_1'', ei_parent_generation_id = None, ei_class = IC_Code,
     ei_parent_tree = [(''lib/a'', ''x'')], ei_candidate_tree = [(''lib/a'', ''y'')],
     ei_spec = spec_input.extend (spec_of_body demo_deps demo_system (demo_body None)) (improvement_spec.fields ''spec_1'' ''now'' ''h''),
     ei_parent_capability = demo_capability, ei_candidate_capability = demo_capability, ei_allowed_growth = no_growth,
     ei_regression_command = Some [''npm'', ''test''], ei_security_command = None, ei_benchmarks = [], ei_manifest_before = demo_manifest, ei_manifest_after = demo_manifest,
     ei_candidate_authority = demo_ceiling, ei_human_approved = None, ei_review_approved = None, ei_profile_hash = ''p'', ei_decided_by = ''gov''\<rparr>"

definition demo_spawn :: run_command where
  "demo_spawn command = Some \<lparr>co_exit_code = Some 0, co_stdout = ''ok''\<rparr>"

definition demo_evaluated :: improvement_store where
  "demo_evaluated = improvement_start\<lparr>im_generations := [(demo_generation None ''gen_1'' 0)\<lparr>gn_source_before := hashDirectoryTree (\<lambda>x. x) (\<lambda>x. x) [(''lib/a'', ''x'')]\<rparr>]\<rparr>"

lemma demo_promotes:
  "\<exists>st' x. runPromotionEvaluation (\<lambda>x. x) (\<lambda>x. x) demo_spawn ''1'' ''now'' demo_evaluation demo_evaluated = Inr (st', x) \<and> er_status x = PS_Promote"
proof -
  let ?g = "(demo_generation None ''gen_1'' 0)\<lparr>gn_source_before := hashDirectoryTree (\<lambda>x. x) (\<lambda>x. x) [(''lib/a'', ''x'')]\<rparr>"
  have d: "diffDirectoryTrees (\<lambda>x. x) [(''lib/a'', ''x'')] [(''lib/a'', ''y'')] = [(''lib/a'', FC_Modified)]"
    by (simp add: diffDirectoryTrees_def walkFiles_def tree_walked_def ignored_dir_names_def Let_def)
  have t: "tr_tampered (detectTestManifestTampering demo_manifest demo_manifest) = False"
    by (simp add: detectTestManifestTampering_def demo_manifest_def Let_def)
  have c: "\<not> cd_has_unexpected_gain (computeCapabilityDelta (\<lambda>x. x) i demo_capability demo_capability no_growth)" for i
    by (simp add: computeCapabilityDelta_def demo_capability_def no_growth_def added_def unlisted_def reason_if_def Let_def)
  have l: "sp_ceiling (ei_spec demo_evaluation) = demo_ceiling"
    by (simp add: demo_evaluation_def spec_input.defs improvement_spec.defs spec_of_body_def demo_body_def)
  have a: "authorityWithinCeiling demo_ceiling demo_ceiling" by (simp add: authorityWithinCeiling_def isSubset_def list_all_iff)
  have m: "\<not> mr_evaluator_changed (classifyMutation (\<lambda>x. x) i [''lib/a''] p q)" "\<not> mr_control_plane_changed (classifyMutation (\<lambda>x. x) i [''lib/a''] p q)" for i p q
    by (simp_all add: touched evaluator_path_prefix_def starts_with_def classifyArea_def starts_with_any_def control_plane_areas_def)
  have e: "fst (evaluatePromotion (measured (\<lambda>x. x) demo_spawn demo_evaluation)) = PS_Promote"
  proof -
    have f: "ei_regression_command demo_evaluation = Some [''npm'', ''test'']" "ei_security_command demo_evaluation = None" "ei_benchmarks demo_evaluation = []"
      "ei_class demo_evaluation = IC_Code" "ei_parent_capability demo_evaluation = demo_capability" "ei_candidate_capability demo_evaluation = demo_capability"
      "ei_allowed_growth demo_evaluation = no_growth" "ei_manifest_before demo_evaluation = demo_manifest" "ei_manifest_after demo_evaluation = demo_manifest"
      "ei_candidate_authority demo_evaluation = demo_ceiling" "changed_paths (\<lambda>x. x) demo_evaluation = [''lib/a'']"
      by (simp_all add: demo_evaluation_def changed_paths_def d)
    have o: "suite_outcome demo_spawn (Some [''npm'', ''test'']) = (True, True)" "suite_outcome demo_spawn None = (True, True)" "benchmark_results demo_spawn i [] = ([], True)" for i
      by (simp_all add: suite_outcome_def runCommand_def demo_spawn_def benchmark_results_def)
    have "run_checks (promotion_failures (measured (\<lambda>x. x) demo_spawn demo_evaluation)) = Inr ()"
      unfolding run_checks_ok by (simp add: promotion_failures_def measured_def f o l a t c m)
    then show ?thesis unfolding evaluatePromotion_def by (simp only: sum.case fst_conv)
  qed
  have g: "getGeneration (ei_tenant_id demo_evaluation) (ei_generation_id demo_evaluation) demo_evaluated = Inr ?g" "ei_parent_tree demo_evaluation = [(''lib/a'', ''x'')]"
    by (simp_all add: demo_evaluation_def demo_evaluated_def getGeneration_def tenant_generations_def improvement_start_def demo_generation_def new_generation_def input_of_body_def demo_fields)
  obtain why where w: "evaluatePromotion (measured (\<lambda>x. x) demo_spawn demo_evaluation) = (PS_Promote, why)" using e by (cases "evaluatePromotion (measured (\<lambda>x. x) demo_spawn demo_evaluation)") simp
  show ?thesis
    unfolding runPromotionEvaluation_def g by (simp add: rbind_def w Let_def recordPromotionDecision_def demo_evaluated_def improvement_start_def)
qed



text \<open>
  C14. The four consequential operations need an approver. Under the envelope the governor is registered with, an
  ALLOW to promote, roll back, start a canary or expand authority rests on an approval that the request cites: it
  was unused, was given by the approver role for exactly this request and has not expired.
\<close>

theorem consequential_needs_approval:
  assumes "authorizeImprovementOperation sha am agent op i a g = (g', Inr d)" "de_decision d = ALLOW"
    "op \<in> {IO_Promote, IO_Rollback, IO_Start_Canary, IO_Authority_Expansion}"
    "map_option po_envelope (st_get agent (gs_policies g)) = Some (governorEnvelope agent approver writable expires)"
    "st_get agent (gs_agents g) = Some ag" "ga_id ag = agent"
  shows "\<exists>k ap. a = Some k \<and> st_get k (gs_approvals g) = Some ap \<and> \<not> ap_used ap \<and> ap_role ap = approver
    \<and> ap_requestHash ap = requestHash sha (de_request d) \<and> in_future (ap_expiresAt ap) (am_now am)"
proof -
  obtain r where r: "parseAuthorizationRequest sha (operation_request agent op i a) = Inr r" "decide_request sha am r g = Inr (g', d)"
    using assms(1) by (auto simp: authorizeImprovementOperation_def authorize_def st_transaction_def split: sum.splits if_splits prod.splits)
  have f: "rq_agentId r = agent" "rq_action r = operation_action op" using operation_parse [OF r(1)] by blast+
  let ?e = "governorEnvelope agent approver writable expires"
  from decide_request_Inr [OF r(2)] assms(5,6) f obtain used where u:
    "d = make_decision am ag (st_get agent (gs_policies g)) r (evaluate r (map_option po_envelope (st_get agent (gs_policies g))) (gate_context (am_now am) ag (used \<noteq> None) g)) used"
    "\<forall>x. used = Some x \<longrightarrow> approval_valid sha (am_now am) ag (st_get agent (gs_policies g)) r (Some x) \<and> (\<exists>k. rq_approvalId r = Some k \<and> st_get k (gs_approvals g) = Some x)"
    by auto
  have "vd_decision (evaluate r (Some ?e) (gate_context (am_now am) ag (used \<noteq> None) g)) = ALLOW"
    using assms(2,4) u(1) by (simp add: make_decision_def)
  then obtain b where "permitted r ?e (gate_context (am_now am) ag (used \<noteq> None) g) b" unfolding evaluate_allow_iff by blast
  moreover have rule: "approval_rule_for ?e (operation_action op) = Some \<lparr>ar_action = operation_action op, ar_approver_role = approver\<rparr>"
    using assms(3) by (auto simp: approval_rule_for_def governorEnvelope_def operation_action_def)
  then have "\<exists>rule \<in> set (en_approvals ?e). ar_action rule = rq_action r" using f(2) by (auto simp: approval_rule_for_def dest!: find_SomeD)
  ultimately have "used \<noteq> None" by (auto simp: permitted_def gate_context_def)
  then obtain x k where x: "used = Some x" "approval_valid sha (am_now am) ag (st_get agent (gs_policies g)) r (Some x)" "rq_approvalId r = Some k" "st_get k (gs_approvals g) = Some x"
    using u(2) by blast
  have "a = Some k" by (rule operation_cites [OF r(1) x(3)])
  moreover have "\<not> ap_used x \<and> ap_requestHash x = requestHash sha r \<and> in_future (ap_expiresAt x) (am_now am) \<and> ap_role x = approver"
    using x(2) rule f assms(4) by (auto simp: approval_valid_def)
  moreover have "de_request d = r" using u(1) by (simp add: make_decision_def)
  ultimately show ?thesis using x(4) by blast
qed

theorem consequential_needs_approval_witness:
  "\<exists>g d ap. authorizeImprovementOperation (\<lambda>_. ''h'') (demo_moment ''3'') ''gov'' IO_Promote ''gen_1'' (Some ''apr_1'') demo_promoting = (g, Inr d) \<and> de_decision d = ALLOW
     \<and> st_get ''apr_1'' (gs_approvals demo_promoting) = Some ap \<and> \<not> ap_used ap \<and> ap_role ap = ''rev''"
proof -
  obtain g d where d: "authorizeImprovementOperation (\<lambda>_. ''h'') (demo_moment ''3'') ''gov'' IO_Promote ''gen_1'' (Some ''apr_1'') demo_promoting = (g, Inr d)" "de_decision d = ALLOW"
    using demo_operation_decided [of IO_Promote] by blast
  from consequential_needs_approval [OF d _ demo_promoting_fields] d show ?thesis by auto
qed



end
